(* ===== verification/Prelude.thy ===== *)
theory Prelude
  imports Main "HOL-Library.Word"
begin

text \<open>
  Shared vocabulary of the development.

  The emulator is written in Rust over fixed-width integers, so the model uses
  \<open>HOL-Library.Word\<close>: \<open>u8\<close>, \<open>u16\<close>, \<open>u32\<close> and \<open>u64\<close> are words of that width, and the
  operators \<open>+\<close>, \<open>-\<close>, \<open>*\<close> wrap as they do in a release build (\<open>cargo build --release\<close>;
  \<open>debug_assert!\<close> is compiled out there too. The manifest sets only \<open>profile.dev\<close>, whose
  builds stop at an overflow instead). What stops a release
  build as well (\<open>unreachable!\<close>, \<open>todo!\<close>, \<open>unwrap\<close> on \<open>None\<close>, an index out of bounds,
  a division by zero) is the value \<^term>\<open>None\<close> of an option type, so that the
  absence of a panic is a statement one can prove.

  Signed operations read a word through \<^term>\<open>sint\<close>; Rust's \<open>/\<close> and \<open>\<percent>\<close> on signed
  integers truncate towards zero and are \<open>rust_div\<close> and \<open>rust_rem\<close> below.

  The theory also declares the collections of facts the components share.
\<close>

unbundle bit_operations_syntax

type_synonym u8 = "8 word"
type_synonym u16 = "16 word"
type_synonym u32 = "32 word"
type_synonym u64 = "64 word"
type_synonym i16 = "16 word"
type_synonym i32 = "32 word"
type_synonym i64 = "64 word"

named_theorems bits_simps \<open>how the bit-field accessors read and write a word\<close>
named_theorems sched_intros \<open>preservation of the scheduler invariant\<close>
named_theorems frame_simps \<open>fields an operation does not touch\<close>

section \<open>Options as panics\<close>

abbreviation returns :: "'a option \<Rightarrow> bool" where
  "returns r \<equiv> (r \<noteq> None)"

lemma bind_eq_SomeE:
  assumes "Option.bind x f = Some y"
  obtains a where "x = Some a" and "f a = Some y"
  using assms by (cases x) auto

section \<open>Lists\<close>

lemma find_append_skip: "\<forall>x \<in> set xs. \<not> P x \<Longrightarrow> find P (xs @ ys) = find P ys"
  by (induction xs) auto

section \<open>Signed arithmetic as Rust defines it\<close>

definition rust_div :: "int \<Rightarrow> int \<Rightarrow> int" where
  "rust_div a b = sgn a * sgn b * (\<bar>a\<bar> div \<bar>b\<bar>)"

definition rust_rem :: "int \<Rightarrow> int \<Rightarrow> int" where
  "rust_rem a b = a - rust_div a b * b"

lemma rust_div_rem: "rust_div a b * b + rust_rem a b = a"
  by (simp add: rust_rem_def)

lemma rust_rem_bound:
  assumes "b \<noteq> 0"
  shows "\<bar>rust_rem a b\<bar> < \<bar>b\<bar>"
proof -
  have eq: "rust_rem a b = sgn a * (\<bar>a\<bar> mod \<bar>b\<bar>)"
  proof -
    have "a - sgn a * sgn b * (\<bar>a\<bar> div \<bar>b\<bar>) * b = sgn a * (\<bar>a\<bar> - \<bar>a\<bar> div \<bar>b\<bar> * \<bar>b\<bar>)"
      by (simp add: algebra_simps abs_sgn)
    then show ?thesis
      by (simp add: rust_rem_def rust_div_def minus_div_mult_eq_mod)
  qed
  have "\<bar>sgn a * (\<bar>a\<bar> mod \<bar>b\<bar>)\<bar> \<le> \<bar>a\<bar> mod \<bar>b\<bar>"
    using assms by (simp add: abs_mult sgn_if)
  also have "\<dots> < \<bar>b\<bar>"
    using assms by simp
  finally show ?thesis by (simp add: eq)
qed

lemma rust_rem_sign: "rust_rem a b = 0 \<or> sgn (rust_rem a b) = sgn a \<or> b = 0"
proof (cases "b = 0")
  case False
  have "rust_rem a b = sgn a * (\<bar>a\<bar> mod \<bar>b\<bar>)"
  proof -
    have "a - sgn a * sgn b * (\<bar>a\<bar> div \<bar>b\<bar>) * b = sgn a * (\<bar>a\<bar> - \<bar>a\<bar> div \<bar>b\<bar> * \<bar>b\<bar>)"
      by (simp add: algebra_simps abs_sgn)
    then show ?thesis
      by (simp add: rust_rem_def rust_div_def minus_div_mult_eq_mod)
  qed
  moreover have "0 \<le> \<bar>a\<bar> mod \<bar>b\<bar>" using False by simp
  ultimately show ?thesis
    by (cases "\<bar>a\<bar> mod \<bar>b\<bar> = 0") (auto simp: sgn_mult sgn_if)
qed simp

section \<open>Words\<close>

lemma unat_less_eq_iff: "x \<le> y \<longleftrightarrow> unat x \<le> unat y" for x y :: "'a::len word"
  by (rule word_le_nat_alt)

lemma unat_and_le: "unat (x AND y) \<le> unat y" for x y :: "'a::len word"
  using word_and_le1 [of x y] by (simp add: word_le_nat_alt)

lemma unat_add_no_wrap:
  "unat x + unat y < 2 ^ LENGTH('a) \<Longrightarrow> unat (x + y) = unat x + unat y" for x y :: "'a::len word"
  by (simp add: unat_word_ariths)

text \<open>Rust's \<open>leading_zeros\<close> on an unsigned integer of any width.\<close>

definition leading_zeros :: "'a::len word \<Rightarrow> nat" where
  "leading_zeros w = length (takeWhile (\<lambda>k. \<not> bit w k) (rev [0..<LENGTH('a)]))"

lemma takeWhile_rev_upt:
  "k < n \<Longrightarrow> P k \<Longrightarrow> \<forall>j. k < j \<and> j < n \<longrightarrow> \<not> P j \<Longrightarrow> takeWhile (\<lambda>k. \<not> P k) (rev [0..<n]) = rev [Suc k..<n]"
proof (induction n)
  case (Suc n)
  show ?case
  proof (cases "k = n")
    case True
    then show ?thesis using Suc.prems by simp
  next
    case False
    then have "takeWhile (\<lambda>k. \<not> P k) (rev [0..<n]) = rev [Suc k..<n]" using Suc by simp
    then show ?thesis using Suc.prems False by simp
  qed
qed simp

lemma leading_zeros_bounds:
  fixes w :: "'a::len word"
  assumes "w \<noteq> 0"
  shows "leading_zeros w < LENGTH('a)" "2 ^ (LENGTH('a) - Suc (leading_zeros w)) \<le> unat w"
    "unat w < 2 ^ (LENGTH('a) - leading_zeros w)"
proof -
  define k where "k = Max {k. bit w k}"
  have fin: "finite {k. bit w k}" by (rule finite_subset [of _ "{..<LENGTH('a)}"]) (auto dest: bit_imp_le_length)
  have ne: "{k. bit w k} \<noteq> {}" using assms by (auto simp: bit_eq_iff)
  have k: "bit w k" and max: "\<And>j. bit w j \<Longrightarrow> j \<le> k"
    using Max_in [OF fin ne] Max_ge [OF fin] by (auto simp: k_def)
  have kl: "k < LENGTH('a)" using k by (rule bit_imp_le_length)
  have "takeWhile (\<lambda>k. \<not> bit w k) (rev [0..<LENGTH('a)]) = rev [Suc k..<LENGTH('a)]"
    using kl k by (rule takeWhile_rev_upt) (use max in \<open>auto dest: leD\<close>)
  then have lz: "leading_zeros w = LENGTH('a) - Suc k" by (simp add: leading_zeros_def)
  then show "leading_zeros w < LENGTH('a)" using kl by simp
  have "take_bit (Suc k) w = w" using max by (intro bit_word_eqI) (auto simp: bit_simps less_Suc_eq_le)
  then have "unat w = take_bit (Suc k) (unat w)" by (metis unsigned_take_bit_eq)
  then have "unat w < 2 ^ Suc k" using take_bit_nat_less_exp [of "Suc k" "unat w"] by simp
  then show "unat w < 2 ^ (LENGTH('a) - leading_zeros w)" using lz kl by simp
  have "bit (unat w) k" using k by (simp add: bit_unsigned_iff)
  then have "odd (unat w div 2 ^ k)" by (simp add: bit_iff_odd)
  then have "2 ^ k \<le> unat w" by (metis div_less even_zero linorder_not_less)
  then show "2 ^ (LENGTH('a) - Suc (leading_zeros w)) \<le> unat w" using lz kl by simp
qed

end
