(* ===== verification/Bits.thy ===== *)
theory Bits
  imports Prelude
begin

text \<open>
  \<open>crates/splst_util/src/bit.rs\<close>: the traits \<open>Bit\<close> and \<open>BitSet\<close>, which read and write a
  single bit or an inclusive range of bits. The macros instantiate them at the integer
  types; the model is polymorphic in the width. The shift amounts the code uses are
  smaller than the width, and so are its ranges.
\<close>

definition bit_at :: "'a::len word \<Rightarrow> nat \<Rightarrow> bool" where
  "bit_at w n \<longleftrightarrow> drop_bit n w AND 1 = 1"

definition bit_range :: "'a::len word \<Rightarrow> nat \<Rightarrow> nat \<Rightarrow> 'a word" where
  "bit_range w ls ms =
     (let mask = push_bit ls (push_bit (ms - ls + 1) 1 - 1) in drop_bit ls (w AND mask))"

definition set_bit_at :: "'a::len word \<Rightarrow> nat \<Rightarrow> bool \<Rightarrow> 'a word" where
  "set_bit_at w n val = (w AND NOT (push_bit n 1)) OR push_bit n (if val then 1 else 0)"

definition set_bit_range :: "'a::len word \<Rightarrow> nat \<Rightarrow> nat \<Rightarrow> 'a word \<Rightarrow> 'a word" where
  "set_bit_range w ls ms val =
     (let m = push_bit (ms - ls + 1) 1 - 1
      in (w AND NOT (push_bit ls m)) OR push_bit ls (val AND m))"

section \<open>What the accessors mean\<close>

lemma mask_word: "push_bit n 1 - 1 = (mask n :: 'a::len word)"
  by (simp add: mask_eq_exp_minus_1 push_bit_eq_mult)

lemma bit_at_iff: "bit_at w n \<longleftrightarrow> bit w n" for w :: "'a::len word"
  by (simp add: bit_at_def and_one_eq bit_iff_odd_drop_bit odd_iff_mod_2_eq_one)

lemma bit_range_eq: "bit_range w ls ms = take_bit (Suc ms - ls) (drop_bit ls w)"
  if "ls \<le> ms" for w :: "'a::len word"
  unfolding bit_range_def Let_def mask_word
  using that by (intro bit_word_eqI) (auto simp: bit_simps dest: bit_imp_le_length)

lemma bit_bit_range [bits_simps]:
  "ls \<le> ms \<Longrightarrow> bit (bit_range w ls ms) i \<longleftrightarrow> i < Suc ms - ls \<and> bit w (ls + i)"
  for w :: "'a::len word"
  by (auto simp: bit_range_eq bit_simps)

lemma bit_set_bit_at [bits_simps]:
  "bit (set_bit_at w n v) i \<longleftrightarrow> (if i = n then v \<and> n < LENGTH('a) else bit w i)"
  for w :: "'a::len word"
  by (cases v)
    (auto simp: set_bit_at_def bit_simps dest: bit_imp_le_length)

lemma bit_set_bit_range [bits_simps]:
  "ls \<le> ms \<Longrightarrow> bit (set_bit_range w ls ms v) i \<longleftrightarrow>
     (if ls \<le> i \<and> i \<le> ms then i < LENGTH('a) \<and> bit v (i - ls) else bit w i)"
  for w :: "'a::len word"
  unfolding set_bit_range_def Let_def mask_word
  by (auto simp: bit_simps dest: bit_imp_le_length)

lemma take_bit_unat: "take_bit LENGTH('a) (unat w) = unat w" for w :: "'a::len word"
  by (simp add: take_bit_nat_eq_self)

lemma unat_bit_range:
  "ls \<le> ms \<Longrightarrow> unat (bit_range w ls ms) = unat w div 2 ^ ls mod 2 ^ (Suc ms - ls)"
  for w :: "'a::len word"
  by (simp add: bit_range_eq unsigned_take_bit_eq unsigned_drop_bit_eq take_bit_unat
      flip: take_bit_eq_mod drop_bit_eq_div)

lemma unat_bit_range_less:
  "ls \<le> ms \<Longrightarrow> unat (bit_range w ls ms) < 2 ^ (Suc ms - ls)" for w :: "'a::len word"
  by (simp add: unat_bit_range)

lemma unat_small_iff: "unat w < 2 ^ n \<longleftrightarrow> (\<forall>k\<ge>n. \<not> bit w k)" for w :: "'a::len word"
proof -
  have "unat w < 2 ^ n \<longleftrightarrow> take_bit n (unat w) = unat w"
    by (simp add: take_bit_nat_eq_self_iff)
  also have "\<dots> \<longleftrightarrow> take_bit n w = w"
    by (simp add: word_unat_eq_iff unsigned_take_bit_eq)
  also have "\<dots> \<longleftrightarrow> (\<forall>k\<ge>n. \<not> bit w k)"
    by (auto simp: bit_eq_iff bit_simps) (metis bit_imp_le_length not_le)+
  finally show ?thesis .
qed

lemma word_eq_0_iff_bits: "w = 0 \<longleftrightarrow> (\<forall>k. \<not> bit w k)" for w :: "'a::len word"
  by (auto simp: bit_eq_iff dest: bit_imp_le_length)

section \<open>The laws of a bit field\<close>

text \<open>
  Registers of the machine are packed words. The laws of a field at fixed positions are
  those of a lens: reading back what was written (truncated to the field), writing what
  is there already, writing twice, and independence of disjoint fields.
\<close>

lemma bit_range_set_same:
  "ls \<le> ms \<Longrightarrow> ms < LENGTH('a) \<Longrightarrow>
     bit_range (set_bit_range w ls ms v) ls ms = take_bit (Suc ms - ls) v"
  for w :: "'a::len word"
  by (intro bit_word_eqI) (auto simp: bits_simps bit_simps)

lemma bit_range_set_other:
  "ls \<le> ms \<Longrightarrow> ls' \<le> ms' \<Longrightarrow> ms < ls' \<or> ms' < ls \<Longrightarrow>
     bit_range (set_bit_range w ls ms v) ls' ms' = bit_range w ls' ms'"
  for w :: "'a::len word"
  by (intro bit_word_eqI) (auto simp: bits_simps)

lemma bit_range_set_bit_other:
  "ls' \<le> ms' \<Longrightarrow> n < ls' \<or> ms' < n \<Longrightarrow> bit_range (set_bit_at w n v) ls' ms' = bit_range w ls' ms'"
  for w :: "'a::len word"
  by (intro bit_word_eqI) (auto simp: bits_simps)

lemma set_bit_range_id:
  "ls \<le> ms \<Longrightarrow> set_bit_range w ls ms (bit_range w ls ms) = w" for w :: "'a::len word"
  by (intro bit_word_eqI) (auto simp: bits_simps dest: bit_imp_le_length)

lemma set_bit_range_twice:
  "ls \<le> ms \<Longrightarrow> set_bit_range (set_bit_range w ls ms v) ls ms v' = set_bit_range w ls ms v'"
  for w :: "'a::len word"
  by (intro bit_word_eqI) (auto simp: bits_simps)

lemma bit_at_set_bit_range_other:
  "ls \<le> ms \<Longrightarrow> n < ls \<or> ms < n \<Longrightarrow> bit_at (set_bit_range w ls ms v) n = bit_at w n"
  for w :: "'a::len word"
  by (auto simp: bit_at_iff bits_simps)

lemma bit_at_set_bit_at:
  "n < LENGTH('a) \<Longrightarrow> bit_at (set_bit_at w n v) i = (if i = n then v else bit_at w i)"
  for w :: "'a::len word"
  by (auto simp: bit_at_iff bits_simps)

end
