(* ===== verification/Msf.thy ===== *)
theory Msf
  imports Bits
begin

text \<open>
  \<open>crates/splst_util/src/bcd.rs\<close> and \<open>msf.rs\<close>: binary coded decimals and the
  minute/second/frame addresses of CD sectors. \<open>sector\<close> values are \<open>usize\<close> in the code
  and naturals here; only the subtraction can leave the range, and it wraps explicitly.
\<close>

section \<open>Binary coded decimals\<close>

datatype bcd = Bcd (raw: u8)

definition bcd_ZERO :: bcd where "bcd_ZERO = Bcd 0"
definition bcd_ONE :: bcd where "bcd_ONE = Bcd 1"

definition bcd_from_binary :: "u8 \<Rightarrow> bcd option" where
  "bcd_from_binary val =
     (if val > 0x99 then None
      else let val = push_bit 4 (val div 10) + val mod 10 in Some (Bcd val))"

definition bcd_from_bcd :: "u8 \<Rightarrow> bcd option" where
  "bcd_from_bcd val =
     (if val \<le> 0x99 \<and> bit_range val 0 3 \<le> 0x9 then Some (Bcd val) else None)"

definition as_binary :: "bcd \<Rightarrow> u8" where
  "as_binary b = drop_bit 4 (raw b) * 10 + raw b mod 16"

text \<open>\<open>Add for Bcd\<close>: the \<open>expect\<close> is the \<^term>\<open>None\<close> of \<open>bcd_from_binary\<close>.\<close>

definition bcd_add :: "bcd \<Rightarrow> bcd \<Rightarrow> bcd option" where
  "bcd_add a b = (let binary = as_binary a + as_binary b in bcd_from_binary binary)"

section \<open>Sector addresses\<close>

record msf =
  msf_min :: bcd
  msf_sec :: bcd
  msf_frame :: bcd

definition msf_ZERO :: msf where
  "msf_ZERO = \<lparr>msf_min = bcd_ZERO, msf_sec = bcd_ZERO, msf_frame = bcd_ZERO\<rparr>"

definition msf_from_binary :: "u8 \<Rightarrow> u8 \<Rightarrow> u8 \<Rightarrow> msf option" where
  "msf_from_binary m s f =
     Option.bind (bcd_from_binary m) (\<lambda>m'.
     Option.bind (bcd_from_binary s) (\<lambda>s'.
     Option.bind (bcd_from_binary f) (\<lambda>f'.
       Some \<lparr>msf_min = m', msf_sec = s', msf_frame = f'\<rparr>)))"

definition msf_from_bcd :: "bcd \<Rightarrow> bcd \<Rightarrow> bcd \<Rightarrow> msf" where
  "msf_from_bcd m s f = \<lparr>msf_min = m, msf_sec = s, msf_frame = f\<rparr>"

text \<open>
  \<open>next_sector\<close> has two ways to yield nothing: the \<open>None\<close> it returns after the last
  sector, and the panic of \<open>Bcd + Bcd\<close>. The outer option is the panic.
\<close>

definition next_sector :: "msf \<Rightarrow> msf option option" where
  "next_sector m =
     (if raw (msf_frame m) < 0x74 then
        Option.bind (bcd_add (msf_frame m) bcd_ONE) (\<lambda>f. Some (Some (m\<lparr>msf_frame := f\<rparr>)))
      else if raw (msf_sec m) < 0x59 then
        Option.bind (bcd_add (msf_sec m) bcd_ONE)
          (\<lambda>s. Some (Some (m\<lparr>msf_sec := s, msf_frame := bcd_ZERO\<rparr>)))
      else if raw (msf_min m) < 0x99 then
        Option.bind (bcd_add (msf_min m) bcd_ONE)
          (\<lambda>n. Some (Some \<lparr>msf_min = n, msf_sec = bcd_ZERO, msf_frame = bcd_ZERO\<rparr>))
      else Some None)"

definition from_sector :: "nat \<Rightarrow> msf option" where
  "from_sector sector =
     (let m = sector div (60 * 75); sector = sector mod (60 * 75)
      in msf_from_binary (word_of_nat m) (word_of_nat (sector div 75)) (word_of_nat (sector mod 75)))"

definition sector_of :: "msf \<Rightarrow> nat" where
  "sector_of x =
     (let m = unat (as_binary (msf_min x)); s = unat (as_binary (msf_sec x));
          f = unat (as_binary (msf_frame x))
      in (60 * 75 * m) + (75 * s) + f)"

definition msf_checked_add :: "msf \<Rightarrow> msf \<Rightarrow> msf option" where
  "msf_checked_add a b = from_sector (sector_of a + sector_of b)"

definition msf_sub :: "msf \<Rightarrow> msf \<Rightarrow> msf option" where
  "msf_sub a b = from_sector ((sector_of a + (2 ^ 64 - sector_of b)) mod 2 ^ 64)"

section \<open>Well-formed values\<close>

definition bcd_valid :: "bcd \<Rightarrow> bool" where
  "bcd_valid b \<longleftrightarrow> unat (raw b) div 16 \<le> 9 \<and> unat (raw b) mod 16 \<le> 9"

definition msf_valid :: "msf \<Rightarrow> bool" where
  "msf_valid x \<longleftrightarrow> bcd_valid (msf_min x) \<and> bcd_valid (msf_sec x) \<and> bcd_valid (msf_frame x)
     \<and> unat (as_binary (msf_sec x)) < 60 \<and> unat (as_binary (msf_frame x)) < 75"

section \<open>Binary coded decimals: lemmas\<close>

lemma unat_as_binary: "unat (as_binary b) = unat (raw b) div 16 * 10 + unat (raw b) mod 16"
proof -
  have r: "unat (raw b) < 256" using unsigned_less [of "raw b"] by simp
  have "unat (drop_bit 4 (raw b)) = unat (raw b) div 16"
    by (simp add: unsigned_drop_bit_eq take_bit_unat drop_bit_eq_div unat_div_distrib)
  moreover have "unat (raw b mod 16) = unat (raw b) mod 16"
    by (simp add: unat_mod_distrib)
  moreover have "unat (raw b) div 16 \<le> 15" using r by simp
  moreover have "unat (raw b) mod 16 \<le> 15" by simp
  ultimately show ?thesis
    by (simp add: as_binary_def unat_word_ariths)
qed

lemma raw_from_binary:
  "unat n \<le> 153 \<Longrightarrow> unat (push_bit 4 (n div 10) + n mod 10) = unat n div 10 * 16 + unat n mod 10"
  for n :: u8
proof -
  assume n: "unat n \<le> 153"
  have "unat (push_bit 4 (n div 10)) = unat n div 10 * 16"
    using n by (simp add: push_bit_eq_mult unat_word_ariths unat_div_distrib)
  moreover have "unat (n mod 10) = unat n mod 10"
    by (simp add: unat_mod_distrib)
  ultimately show ?thesis
    using n by (simp add: unat_word_ariths)
qed

lemma bcd_from_binary_Some:
  "unat n \<le> 153 \<Longrightarrow> \<exists>b. bcd_from_binary n = Some b \<and> unat (raw b) = unat n div 10 * 16 + unat n mod 10"
  by (simp add: bcd_from_binary_def raw_from_binary word_less_nat_alt)

lemma bcd_from_binary_None: "153 < unat n \<Longrightarrow> bcd_from_binary n = None"
  by (simp add: bcd_from_binary_def word_less_nat_alt)

lemma bcd_from_binary_as_binary:
  assumes "bcd_from_binary n = Some b"
  shows "as_binary b = n"
proof -
  have n: "unat n \<le> 153" using assms bcd_from_binary_None [of n] by force
  with bcd_from_binary_Some [OF n] assms
  have "unat (raw b) = unat n div 10 * 16 + unat n mod 10" by auto
  then have "unat (as_binary b) = unat n"
    by (simp add: unat_as_binary)
  then show ?thesis by (simp add: word_unat_eq_iff)
qed

lemma bcd_from_binary_valid:
  "bcd_from_binary n = Some b \<Longrightarrow> unat n \<le> 99 \<Longrightarrow> bcd_valid b"
  using bcd_from_binary_Some [of n] by (auto simp: bcd_valid_def)

lemma bcd_eqI: "unat (raw a) = unat (raw b) \<Longrightarrow> a = b"
  by (cases a; cases b) (simp add: word_unat_eq_iff)

lemma bcd_valid_le: "bcd_valid b \<Longrightarrow> unat (as_binary b) \<le> 99"
  by (auto simp: bcd_valid_def unat_as_binary)

lemma bcd_valid_raw: "bcd_valid b \<Longrightarrow>
    unat (raw b) = unat (as_binary b) div 10 * 16 + unat (as_binary b) mod 10"
  by (auto simp: bcd_valid_def unat_as_binary)

lemma as_binary_inverse:
  assumes "bcd_valid b"
  shows "bcd_from_binary (as_binary b) = Some b"
proof -
  have "unat (as_binary b) \<le> 153" using bcd_valid_le [OF assms] by simp
  then obtain c where "bcd_from_binary (as_binary b) = Some c"
    and "unat (raw c) = unat (as_binary b) div 10 * 16 + unat (as_binary b) mod 10"
    using bcd_from_binary_Some by blast
  then show ?thesis using bcd_valid_raw [OF assms] bcd_eqI by simp
qed

lemma bcd_from_bcd_valid: "bcd_from_bcd v = Some b \<longleftrightarrow> b = Bcd v \<and> bcd_valid (Bcd v)"
proof -
  have "unat (bit_range v 0 3) = unat v mod 16" by (simp add: unat_bit_range)
  moreover have "unat v \<le> 153" if "unat v div 16 \<le> 9" "unat v mod 16 \<le> 9"
    using that div_mult_mod_eq [of "unat v" 16] by linarith
  moreover have "unat v div 16 \<le> 9" if "unat v \<le> 153" using that by linarith
  ultimately show ?thesis
    by (auto simp: bcd_from_bcd_def bcd_valid_def word_le_nat_alt split: if_splits)
qed

lemma bcd_valid_ZERO [simp]: "bcd_valid bcd_ZERO" and as_binary_ZERO [simp]: "as_binary bcd_ZERO = 0"
  and as_binary_ONE [simp]: "as_binary bcd_ONE = 1"
  by (simp_all add: bcd_valid_def bcd_ZERO_def bcd_ONE_def as_binary_def)

lemma bcd_add_ONE:
  assumes "bcd_valid b" "unat (as_binary b) < 99"
  obtains c where "bcd_add b bcd_ONE = Some c" "bcd_valid c" "unat (as_binary c) = Suc (unat (as_binary b))"
proof -
  have u: "unat (as_binary b + 1) = Suc (unat (as_binary b))"
    using assms(2) by (simp add: unat_word_ariths)
  then obtain c where c: "bcd_from_binary (as_binary b + 1) = Some c"
    using bcd_from_binary_Some [of "as_binary b + 1"] assms(2) by auto
  moreover have "bcd_valid c" using bcd_from_binary_valid [OF c] u assms(2) by simp
  moreover have "as_binary c = as_binary b + 1" using c by (rule bcd_from_binary_as_binary)
  ultimately show ?thesis
    using that u by (simp add: bcd_add_def)
qed

lemma bcd_valid_raw_less:
  assumes "bcd_valid b" "e \<le> 9"
  shows "unat (raw b) < d * 16 + e \<longleftrightarrow> unat (as_binary b) < d * 10 + e"
proof -
  define h l where "h = unat (raw b) div 16" and "l = unat (raw b) mod 16"
  have r: "unat (raw b) = h * 16 + l" and a: "unat (as_binary b) = h * 10 + l" and l: "l \<le> 9"
    using assms by (auto simp: h_def l_def unat_as_binary bcd_valid_def)
  consider "h < d" | "h = d" | "d < h" by linarith
  then show ?thesis
    using r a l assms(2) by cases auto
qed

section \<open>Sector addresses: lemmas\<close>

lemma sector_of_eq:
  "sector_of x = 4500 * unat (as_binary (msf_min x)) + 75 * unat (as_binary (msf_sec x))
     + unat (as_binary (msf_frame x))"
  by (simp add: sector_of_def Let_def)

lemma sector_of_split:
  assumes "msf_valid x"
  shows "sector_of x div 4500 = unat (as_binary (msf_min x))"
    and "sector_of x mod 4500 div 75 = unat (as_binary (msf_sec x))"
    and "sector_of x mod 4500 mod 75 = unat (as_binary (msf_frame x))"
proof -
  have b: "unat (as_binary (msf_sec x)) < 60" "unat (as_binary (msf_frame x)) < 75"
    using assms by (auto simp: msf_valid_def)
  then have r: "75 * unat (as_binary (msf_sec x)) + unat (as_binary (msf_frame x)) < 4500" by linarith
  have eq: "sector_of x = (75 * unat (as_binary (msf_sec x)) + unat (as_binary (msf_frame x)))
      + unat (as_binary (msf_min x)) * 4500"
    by (simp add: sector_of_eq)
  show "sector_of x div 4500 = unat (as_binary (msf_min x))"
    unfolding eq using r by simp
  have m: "sector_of x mod 4500 = 75 * unat (as_binary (msf_sec x)) + unat (as_binary (msf_frame x))"
    unfolding eq using r by (subst mod_mult_self1) simp
  show "sector_of x mod 4500 div 75 = unat (as_binary (msf_sec x))"
    unfolding m using b by simp
  show "sector_of x mod 4500 mod 75 = unat (as_binary (msf_frame x))"
    unfolding m using b by simp
qed

lemma from_sector_alt:
  "from_sector s = msf_from_binary (word_of_nat (s div 4500)) (word_of_nat (s mod 4500 div 75))
     (word_of_nat (s mod 4500 mod 75))"
  by (simp add: from_sector_def Let_def)

lemma from_sector_sector_of: "from_sector (sector_of x) = Some x" if "msf_valid x"
  using that
  by (simp add: from_sector_alt sector_of_split msf_from_binary_def as_binary_inverse msf_valid_def)

lemma u8_of_nat: "n < 256 \<Longrightarrow> unat (word_of_nat n :: u8) = n"
  by (simp add: unsigned_of_nat take_bit_nat_eq_self)

lemma from_sector_valid:
  assumes "s < 450000"
  obtains x where "from_sector s = Some x" "msf_valid x" "sector_of x = s"
proof -
  have m: "s div 4500 \<le> 99" and c: "s mod 4500 div 75 < 60" and f: "s mod 4500 mod 75 < 75"
    using assms by (auto simp: less_mult_imp_div_less)
  obtain bm where bm: "bcd_from_binary (word_of_nat (s div 4500)) = Some bm"
    using bcd_from_binary_Some [of "word_of_nat (s div 4500)"] m by (force simp: u8_of_nat)
  obtain bs where bs: "bcd_from_binary (word_of_nat (s mod 4500 div 75)) = Some bs"
    using bcd_from_binary_Some [of "word_of_nat (s mod 4500 div 75)"] c by (force simp: u8_of_nat)
  obtain bf where bf: "bcd_from_binary (word_of_nat (s mod 4500 mod 75)) = Some bf"
    using bcd_from_binary_Some [of "word_of_nat (s mod 4500 mod 75)"] f by (force simp: u8_of_nat)
  let ?x = "\<lparr>msf_min = bm, msf_sec = bs, msf_frame = bf\<rparr>"
  note inv = bm [THEN bcd_from_binary_as_binary] bs [THEN bcd_from_binary_as_binary]
    bf [THEN bcd_from_binary_as_binary]
  have v: "bcd_valid bm" "bcd_valid bs" "bcd_valid bf"
    using bcd_from_binary_valid [OF bm] bcd_from_binary_valid [OF bs] bcd_from_binary_valid [OF bf] m c f
    by (auto simp: u8_of_nat)
  have "from_sector s = Some ?x"
    by (simp add: from_sector_alt msf_from_binary_def bm bs bf)
  moreover have "msf_valid ?x"
    using v c f by (simp add: msf_valid_def inv u8_of_nat)
  moreover have "sector_of ?x = s"
    using m c f div_mult_mod_eq [of s 4500] div_mult_mod_eq [of "s mod 4500" 75]
    by (simp add: sector_of_eq inv u8_of_nat)
  ultimately show ?thesis using that by blast
qed

lemma sector_of_less: "sector_of x < 450000" if "msf_valid x"
proof -
  have "unat (as_binary (msf_min x)) \<le> 99" using that bcd_valid_le by (auto simp: msf_valid_def)
  with that show ?thesis by (auto simp: sector_of_eq msf_valid_def)
qed

lemma next_sector_frame:
  assumes "msf_valid x" "unat (as_binary (msf_frame x)) < 74"
  obtains y where "next_sector x = Some (Some y)" "msf_valid y" "sector_of y = Suc (sector_of x)"
proof -
  have v: "bcd_valid (msf_frame x)" using assms(1) by (simp add: msf_valid_def)
  then have "raw (msf_frame x) < 0x74"
    using bcd_valid_raw_less [OF v, of 4 7] assms(2) by (simp add: word_less_nat_alt)
  moreover obtain f where f: "bcd_add (msf_frame x) bcd_ONE = Some f" "bcd_valid f"
      "unat (as_binary f) = Suc (unat (as_binary (msf_frame x)))"
    using bcd_add_ONE [OF v] assms(2) by force
  ultimately have "next_sector x = Some (Some (x\<lparr>msf_frame := f\<rparr>))"
    by (simp add: next_sector_def)
  moreover have "msf_valid (x\<lparr>msf_frame := f\<rparr>)" "sector_of (x\<lparr>msf_frame := f\<rparr>) = Suc (sector_of x)"
    using f assms by (auto simp: msf_valid_def sector_of_eq)
  ultimately show ?thesis using that by blast
qed

lemma raw_frame_last: "msf_valid x \<Longrightarrow> \<not> unat (as_binary (msf_frame x)) < 74 \<Longrightarrow>
    \<not> raw (msf_frame x) < 0x74 \<and> unat (as_binary (msf_frame x)) = 74"
  using bcd_valid_raw_less [of "msf_frame x" 4 7] by (auto simp: msf_valid_def word_less_nat_alt)

lemma next_sector_sec:
  assumes "msf_valid x" "\<not> unat (as_binary (msf_frame x)) < 74" "unat (as_binary (msf_sec x)) < 59"
  obtains y where "next_sector x = Some (Some y)" "msf_valid y" "sector_of y = Suc (sector_of x)"
proof -
  have v: "bcd_valid (msf_sec x)" using assms(1) by (simp add: msf_valid_def)
  then have "raw (msf_sec x) < 0x59"
    using bcd_valid_raw_less [OF v, of 9 5] assms(3) by (simp add: word_less_nat_alt)
  moreover obtain s where s: "bcd_add (msf_sec x) bcd_ONE = Some s" "bcd_valid s"
      "unat (as_binary s) = Suc (unat (as_binary (msf_sec x)))"
    using bcd_add_ONE [OF v] assms(3) by force
  ultimately have "next_sector x = Some (Some (x\<lparr>msf_sec := s, msf_frame := bcd_ZERO\<rparr>))"
    using raw_frame_last [OF assms(1,2)] by (simp add: next_sector_def)
  moreover have "msf_valid (x\<lparr>msf_sec := s, msf_frame := bcd_ZERO\<rparr>)"
      "sector_of (x\<lparr>msf_sec := s, msf_frame := bcd_ZERO\<rparr>) = Suc (sector_of x)"
    using s assms raw_frame_last [OF assms(1,2)] by (auto simp: msf_valid_def sector_of_eq)
  ultimately show ?thesis using that by blast
qed

lemma raw_sec_last: "msf_valid x \<Longrightarrow> \<not> unat (as_binary (msf_sec x)) < 59 \<Longrightarrow>
    \<not> raw (msf_sec x) < 0x59 \<and> unat (as_binary (msf_sec x)) = 59"
  using bcd_valid_raw_less [of "msf_sec x" 9 5] by (auto simp: msf_valid_def word_less_nat_alt)

lemma next_sector_min:
  assumes "msf_valid x" "\<not> unat (as_binary (msf_frame x)) < 74" "\<not> unat (as_binary (msf_sec x)) < 59"
    "unat (as_binary (msf_min x)) < 99"
  obtains y where "next_sector x = Some (Some y)" "msf_valid y" "sector_of y = Suc (sector_of x)"
proof -
  have v: "bcd_valid (msf_min x)" using assms(1) by (simp add: msf_valid_def)
  then have "raw (msf_min x) < 0x99"
    using bcd_valid_raw_less [OF v, of 9 9] assms(4) by (simp add: word_less_nat_alt)
  moreover obtain m where m: "bcd_add (msf_min x) bcd_ONE = Some m" "bcd_valid m"
      "unat (as_binary m) = Suc (unat (as_binary (msf_min x)))"
    using bcd_add_ONE [OF v] assms(4) by blast
  let ?y = "\<lparr>msf_min = m, msf_sec = bcd_ZERO, msf_frame = bcd_ZERO\<rparr>"
  note l = raw_frame_last [OF assms(1,2)] raw_sec_last [OF assms(1,3)]
  ultimately have "next_sector x = Some (Some ?y)"
    using l m by (simp add: next_sector_def)
  moreover have "msf_valid ?y" "sector_of ?y = Suc (sector_of x)"
    using m assms l by (auto simp: msf_valid_def sector_of_eq)
  ultimately show ?thesis using that by blast
qed

section \<open>Properties\<close>

text \<open>\<open>next_sector\<close> steps a valid disc address to the address of the following
  sector, carrying frames into seconds and seconds into minutes, keeps it valid, never
  panics, and ends (with \<open>None\<close>) exactly at the last sector 99:59:74.\<close>

lemma next_sector_succ:
  assumes "msf_valid x"
  shows "if sector_of x = 449999 then next_sector x = Some None
    else (\<exists>y. next_sector x = Some (Some y) \<and> msf_valid y \<and> sector_of y = Suc (sector_of x))"
proof -
  consider (frame) "unat (as_binary (msf_frame x)) < 74"
    | (sec) "\<not> unat (as_binary (msf_frame x)) < 74" "unat (as_binary (msf_sec x)) < 59"
    | (min) "\<not> unat (as_binary (msf_frame x)) < 74" "\<not> unat (as_binary (msf_sec x)) < 59"
        "unat (as_binary (msf_min x)) < 99"
    | (last) "\<not> unat (as_binary (msf_frame x)) < 74" "\<not> unat (as_binary (msf_sec x)) < 59"
        "\<not> unat (as_binary (msf_min x)) < 99" by blast
  then show ?thesis
  proof cases
    case last
    note l = raw_frame_last [OF assms last(1)] raw_sec_last [OF assms last(2)]
    have v: "bcd_valid (msf_min x)" using assms by (simp add: msf_valid_def)
    then have m: "\<not> raw (msf_min x) < 0x99" "unat (as_binary (msf_min x)) = 99"
      using bcd_valid_raw_less [OF v, of 9 9] last(3) bcd_valid_le [OF v] by (auto simp: word_less_nat_alt)
    with l have "next_sector x = Some None" "sector_of x = 449999"
      by (simp_all add: next_sector_def sector_of_eq)
    then show ?thesis by simp
  next
    case frame
    obtain y where "next_sector x = Some (Some y)" "msf_valid y" "sector_of y = Suc (sector_of x)"
      by (rule next_sector_frame [OF assms frame])
    then show ?thesis using sector_of_less [of y] by auto
  next
    case sec
    obtain y where "next_sector x = Some (Some y)" "msf_valid y" "sector_of y = Suc (sector_of x)"
      by (rule next_sector_sec [OF assms sec])
    then show ?thesis using sector_of_less [of y] by auto
  next
    case min
    obtain y where "next_sector x = Some (Some y)" "msf_valid y" "sector_of y = Suc (sector_of x)"
      by (rule next_sector_min [OF assms min])
    then show ?thesis using sector_of_less [of y] by auto
  qed
qed

lemma next_sector_succ_witness:
  "sector_of \<lparr>msf_min = Bcd 0x12, msf_sec = Bcd 0x59, msf_frame = Bcd 0x74\<rparr> = 58499 \<and>
   (\<exists>y. next_sector \<lparr>msf_min = Bcd 0x12, msf_sec = Bcd 0x59, msf_frame = Bcd 0x74\<rparr> = Some (Some y)
      \<and> sector_of y = 58500)"
proof -
  let ?x = "\<lparr>msf_min = Bcd 0x12, msf_sec = Bcd 0x59, msf_frame = Bcd 0x74\<rparr>"
  have "msf_valid ?x" by (simp add: msf_valid_def bcd_valid_def unat_as_binary)
  moreover have "sector_of ?x = 58499" by (simp add: sector_of_eq unat_as_binary)
  ultimately show ?thesis using next_sector_succ [of ?x] by auto
qed

text \<open>disc addresses and sector numbers are in bijection: converting a valid address
  to its sector number and back gives the address, and every sector number below 450000
  (100 minutes) converts to a valid address with that number.\<close>

lemma sector_msf_roundtrip:
  "(msf_valid x \<longrightarrow> from_sector (sector_of x) = Some x \<and> sector_of x < 450000) \<and>
   (s < 450000 \<longrightarrow> (\<exists>y. from_sector s = Some y \<and> msf_valid y \<and> sector_of y = s))"
  using from_sector_sector_of sector_of_less from_sector_valid by metis

lemma sector_msf_roundtrip_witness:
  "\<exists>y. from_sector 16 = Some y \<and> msf_valid y \<and> sector_of y = 16"
  using sector_msf_roundtrip [of msf_ZERO 16] by simp

end
