(* ===== verification/SysTime.thy ===== *)
theory SysTime
  imports Bits
begin

text \<open>
  \<open>crates/splst_core/src/time.rs\<close>: emulated time. \<open>SysTime\<close> and \<open>Timestamp\<close> wrap a \<open>u64\<close> of
  CPU cycles with 16 fractional bits; both are that word here. The conversion constants
  are the values Rust's constant evaluation gives the \<open>f64\<close> expressions at the end of the
  file, truncated to integers as \<open>as u64\<close> does. \<open>std::time::Duration\<close> is its number of
  nanoseconds.
\<close>

type_synonym systime = u64
type_synonym timestamp = u64
type_synonym u128 = "128 word"

definition FRAC_BITS :: nat where "FRAC_BITS = 16"
definition PAL_CYCLES_PER_CPU_CYCLE :: u128 where "PAL_CYCLES_PER_CPU_CYCLE = 102948"
definition NTSC_CYCLES_PER_CPU_CYCLE :: u128 where "NTSC_CYCLES_PER_CPU_CYCLE = 103896"
definition NANOS_PER_CPU_CYCLE :: u128 where "NANOS_PER_CPU_CYCLE = 1934996"
definition CPU_CYCLES_PER_PAL_CYCLE :: u64 where "CPU_CYCLES_PER_PAL_CYCLE = 41719"
definition CPU_CYCLES_PER_NTSC_CYCLE :: u64 where "CPU_CYCLES_PER_NTSC_CYCLE = 41339"
definition CPU_CYCLES_PER_NANO :: u64 where "CPU_CYCLES_PER_NANO = 2219"

definition time_ZERO :: systime where "time_ZERO = 0"
definition time_FOREVER :: systime where "time_FOREVER = -1"
definition STARTUP :: timestamp where "STARTUP = time_ZERO"
definition NEVER :: timestamp where "NEVER = time_FOREVER"

definition from_cpu_cycles :: "u64 \<Rightarrow> systime" where
  "from_cpu_cycles cycles = push_bit FRAC_BITS cycles"

definition systime_new :: "u64 \<Rightarrow> systime" where
  "systime_new cycles = from_cpu_cycles cycles"

definition from_gpu_pal_cycles :: "u64 \<Rightarrow> systime" where
  "from_gpu_pal_cycles cycles = cycles * CPU_CYCLES_PER_PAL_CYCLE"

definition from_gpu_ntsc_cycles :: "u64 \<Rightarrow> systime" where
  "from_gpu_ntsc_cycles cycles = cycles * CPU_CYCLES_PER_NTSC_CYCLE"

definition from_duration :: "nat \<Rightarrow> systime" where
  "from_duration nanos = ucast (word_of_nat nanos * ucast CPU_CYCLES_PER_NANO :: u128)"

definition as_cpu_cycles :: "systime \<Rightarrow> u64" where
  "as_cpu_cycles t = drop_bit FRAC_BITS t"

definition as_gpu_pal_cycles :: "systime \<Rightarrow> u64" where
  "as_gpu_pal_cycles t = ucast (drop_bit (FRAC_BITS * 2) (ucast t * PAL_CYCLES_PER_CPU_CYCLE))"

definition as_gpu_ntsc_cycles :: "systime \<Rightarrow> u64" where
  "as_gpu_ntsc_cycles t = ucast (drop_bit (FRAC_BITS * 2) (ucast t * NTSC_CYCLES_PER_CPU_CYCLE))"

definition as_duration :: "systime \<Rightarrow> nat" where
  "as_duration t = unat (ucast (drop_bit (FRAC_BITS * 2) (ucast t * NANOS_PER_CPU_CYCLE)) :: u64)"

definition saturating_sub :: "systime \<Rightarrow> systime \<Rightarrow> systime" where
  "saturating_sub a b = (if a < b then 0 else a - b)"

text \<open>The \<open>expect\<close> of \<open>time_since\<close> is the \<^term>\<open>None\<close>.\<close>

definition time_since :: "timestamp \<Rightarrow> timestamp \<Rightarrow> systime option" where
  "time_since self earlier =
     (if as_cpu_cycles self < as_cpu_cycles earlier then None
      else Some (systime_new (as_cpu_cycles self - as_cpu_cycles earlier)))"

section \<open>Lemmas\<close>

lemma unat_as_cpu_cycles: "unat (as_cpu_cycles t) = unat t div 65536"
  by (simp add: as_cpu_cycles_def FRAC_BITS_def unsigned_drop_bit_eq take_bit_unat drop_bit_eq_div unat_div_distrib)

lemma unat_systime_new:
  "unat c < 2 ^ 48 \<Longrightarrow> unat (systime_new c) = unat c * 65536"
  by (simp add: systime_new_def from_cpu_cycles_def FRAC_BITS_def push_bit_eq_mult unat_word_ariths)

lemma as_cpu_cycles_less: "unat (as_cpu_cycles t) < 2 ^ 48"
proof -
  have "unat t < 2 ^ 48 * 65536" using unsigned_less [of t, where ?'a = nat] by simp
  then show ?thesis by (simp only: unat_as_cpu_cycles less_mult_imp_div_less)
qed

lemma as_cpu_cycles_new: "unat c < 2 ^ 48 \<Longrightarrow> as_cpu_cycles (systime_new c) = c"
  by (simp add: word_unat_eq_iff unat_as_cpu_cycles unat_systime_new)

lemma time_since_Some:
  assumes "unat b div 65536 \<le> unat a div 65536"
  shows "\<exists>d. time_since a b = Some d \<and> unat (as_cpu_cycles d) = unat a div 65536 - unat b div 65536"
proof -
  have le: "as_cpu_cycles b \<le> as_cpu_cycles a"
    using assms by (simp add: word_le_nat_alt unat_as_cpu_cycles)
  then have u: "unat (as_cpu_cycles a - as_cpu_cycles b) = unat a div 65536 - unat b div 65536"
    by (simp add: unat_sub unat_as_cpu_cycles)
  moreover have "unat (as_cpu_cycles a - as_cpu_cycles b) < 2 ^ 48"
    unfolding u using as_cpu_cycles_less [of a] by (simp add: unat_as_cpu_cycles)
  ultimately show ?thesis
    using le by (simp add: time_since_def as_cpu_cycles_new not_less)
qed

lemma time_since_mono:
  assumes "b \<le> a"
  shows "\<exists>d. time_since a b = Some d \<and> unat (as_cpu_cycles d) = unat a div 65536 - unat b div 65536"
  using assms by (intro time_since_Some div_le_mono) (simp add: word_le_nat_alt)

lemma NEVER_max: "t \<le> NEVER"
  by (simp add: NEVER_def time_FOREVER_def)

lemma STARTUP_le [simp]: "STARTUP \<le> t"
  by (simp add: STARTUP_def time_ZERO_def)

end
