(* ===== verification/Events.thy ===== *)
theory Events
  imports SysTime
begin

text \<open>
  The values the scheduler stores: interrupt kinds (\<open>cpu/irq.rs\<close>), timers (\<open>timer.rs\<close>), DMA
  ports (\<open>bus/dma.rs\<close>) and the event type of \<open>schedule.rs\<close>. The code's events carry function
  pointers; the model names the functions it ever stores, one constructor per callback.
\<close>

datatype irq = VBlank | GpuIrq | CdRomIrq | DmaIrq | Tmr0Irq | Tmr1Irq | Tmr2Irq
  | CtrlAndMemCard | Sio | SpuIrq

text \<open>The discriminant, \<open>irq as u32\<close>: the bit of the interrupt in the status and mask registers.\<close>

fun irq_index :: "irq \<Rightarrow> nat" where
  "irq_index VBlank = 0"
| "irq_index GpuIrq = 1"
| "irq_index CdRomIrq = 2"
| "irq_index DmaIrq = 3"
| "irq_index Tmr0Irq = 4"
| "irq_index Tmr1Irq = 5"
| "irq_index Tmr2Irq = 6"
| "irq_index CtrlAndMemCard = 7"
| "irq_index Sio = 8"
| "irq_index SpuIrq = 9"

datatype timer_id = Tmr0 | Tmr1 | Tmr2

datatype port = MdecIn | MdecOut | GpuPort | CdRomPort | SpuPort | Pio | Otc

datatype gpu_callback = end_of_scanline | draw_done
datatype cdrom_callback = cdrom_run | sector_done | async_stop | async_pause | async_init
  | async_seekl | async_get_id | async_read_toc
datatype timer_callback = run_timer_cb | enable_irq_master_flag_cb
datatype io_port_callback = io_transfer | io_ack_input
datatype spu_callback = spu_run_cycle

datatype event =
    EvIrq irq
  | EvIrqCheck
  | EvDma port
  | EvGpu gpu_callback
  | EvCdRom cdrom_callback
  | EvTimer timer_id timer_callback
  | EvIoPort io_port_callback
  | EvSpu spu_callback
  | EvExecutionTimeout

type_synonym event_id = u64

datatype repeat_mode = Once | Repeat systime

record event_entry =
  entry_event :: event
  entry_ready :: timestamp
  entry_mode :: repeat_mode
  entry_id :: event_id

lemma irq_index_less: "irq_index i < 10"
  by (cases i) auto

lemma irq_index_inject [simp]: "irq_index i = irq_index j \<longleftrightarrow> i = j"
  by (cases i; cases j) auto

end
