(* ===== verification/Schedule.thy ===== *)
theory Schedule
  imports Events "HOL-Library.Multiset"
begin

text \<open>
  \<open>crates/splst_core/src/schedule.rs\<close>: the event queue that drives the whole system.
  The heap of the code, \<open>std::collections::BinaryHeap\<close>, is a list here. Its contract, stated as
  the locale \<open>priority_queue\<close>, is what its documentation promises: the entries form a
  multiset, \<open>peek\<close> is a greatest entry of the \<open>Ord\<close> instance, \<open>pop\<close> takes that entry away,
  \<open>retain\<close> filters. What the scheduler needs from it is proved once, inside the locale.

  The library promises no order among entries with the same ready time; the list gives the one that was
  pushed first, which is one of the orders the contract allows. No property of the development rests on
  that choice: they speak of an earliest entry, never of which one of several.
\<close>

section \<open>The priority queue and its contract\<close>

locale priority_queue =
  fixes le :: "'a \<Rightarrow> 'a \<Rightarrow> bool"
    and contents :: "'h \<Rightarrow> 'a multiset"
    and push :: "'a \<Rightarrow> 'h \<Rightarrow> 'h"
    and peek :: "'h \<Rightarrow> 'a option"
    and pop :: "'h \<Rightarrow> 'a option \<times> 'h"
    and retain :: "('a \<Rightarrow> bool) \<Rightarrow> 'h \<Rightarrow> 'h"
  assumes le_refl: "le x x"
    and le_trans: "le x y \<Longrightarrow> le y z \<Longrightarrow> le x z"
    and contents_push: "contents (push x h) = add_mset x (contents h)"
    and contents_retain: "contents (retain P h) = filter_mset P (contents h)"
    and peek_None: "peek h = None \<longleftrightarrow> contents h = {#}"
    and peek_in: "peek h = Some x \<Longrightarrow> x \<in># contents h"
    and peek_greatest: "peek h = Some x \<Longrightarrow> y \<in># contents h \<Longrightarrow> le y x"
    and fst_pop: "fst (pop h) = peek h"
    and contents_pop: "peek h = Some x \<Longrightarrow> contents (snd (pop h)) = contents h - {#x#}"
begin

lemma pop_SomeE:
  assumes "pop h = (Some x, h')"
  shows "x \<in># contents h" "contents h = add_mset x (contents h')" "y \<in># contents h \<Longrightarrow> le y x"
proof -
  have pk: "peek h = Some x" using assms fst_pop [of h] by simp
  then show "x \<in># contents h" by (rule peek_in)
  then show "contents h = add_mset x (contents h')"
    using contents_pop [OF pk] assms by simp
  show "y \<in># contents h \<Longrightarrow> le y x" using pk by (rule peek_greatest)
qed

lemma pop_None: "fst (pop h) = None \<longleftrightarrow> contents h = {#}"
  by (simp add: fst_pop peek_None)

text \<open>Two heaps whose entries have the same ranks agree on the rank of their greatest entry.\<close>

lemma peek_rank:
  assumes "image_mset f (contents h) = image_mset f (contents h')"
    and "\<And>x y. le x y \<longleftrightarrow> (f y :: 'b::linorder) \<le> f x"
  shows "map_option f (peek h) = map_option f (peek h')"
proof (cases "peek h")
  case None
  then show ?thesis using assms(1) peek_None by (metis image_mset_is_empty_iff option.map(1))
next
  case (Some x)
  then obtain y where y: "peek h' = Some y"
    using assms(1) peek_None [of h] peek_None [of h'] by fastforce
  have img: "f ` set_mset (contents h) = f ` set_mset (contents h')"
    using assms(1) by (metis set_image_mset)
  obtain x' where x': "x' \<in># contents h'" "f x' = f x"
    using img peek_in [OF Some] by (metis imageE image_eqI)
  obtain y' where y': "y' \<in># contents h" "f y' = f y"
    using img peek_in [OF y] by (metis imageE image_eqI)
  have "f y \<le> f x" using peek_greatest [OF y x'(1)] x'(2) assms(2) by auto
  moreover have "f x \<le> f y" using peek_greatest [OF Some y'(1)] y'(2) assms(2) by auto
  ultimately show ?thesis using Some y by simp
qed

end

section \<open>The heap of events\<close>

text \<open>\<open>Ord for EventEntry\<close> compares \<open>other.ready\<close> with \<open>self.ready\<close>: the greatest entry is the
  earliest.\<close>

definition entry_le :: "event_entry \<Rightarrow> event_entry \<Rightarrow> bool" where
  "entry_le a b \<longleftrightarrow> entry_ready b \<le> entry_ready a"

type_synonym heap = "event_entry list"

definition heap_push :: "event_entry \<Rightarrow> heap \<Rightarrow> heap" where
  "heap_push e h = h @ [e]"

fun heap_peek :: "heap \<Rightarrow> event_entry option" where
  "heap_peek [] = None"
| "heap_peek (e # es) =
     (case heap_peek es of None \<Rightarrow> Some e | Some m \<Rightarrow> if entry_le m e then Some e else Some m)"

definition heap_pop :: "heap \<Rightarrow> event_entry option \<times> heap" where
  "heap_pop h = (case heap_peek h of None \<Rightarrow> (None, h) | Some e \<Rightarrow> (Some e, remove1 e h))"

definition heap_retain :: "(event_entry \<Rightarrow> bool) \<Rightarrow> heap \<Rightarrow> heap" where
  "heap_retain P h = filter P h"

lemma heap_peek_None: "heap_peek h = None \<longleftrightarrow> h = []"
  by (cases h) (auto split: option.splits)

lemma heap_peek_in: "heap_peek h = Some x \<Longrightarrow> x \<in> set h"
  by (induction h arbitrary: x) (auto split: option.splits if_splits)

lemma heap_peek_least: "heap_peek h = Some x \<Longrightarrow> y \<in> set h \<Longrightarrow> entry_ready x \<le> entry_ready y"
proof (induction h arbitrary: x)
  case (Cons e es)
  show ?case
  proof (cases "heap_peek es")
    case None
    with Cons.prems show ?thesis by (auto simp: heap_peek_None)
  next
    case (Some m)
    with Cons.prems Cons.IH [OF Some] show ?thesis
      by (fastforce simp: entry_le_def not_le split: if_splits)
  qed
qed simp

interpretation eq: priority_queue entry_le mset heap_push heap_peek heap_pop heap_retain
proof unfold_locales
  fix h :: heap and x y
  show "heap_peek h = Some x \<Longrightarrow> mset (snd (heap_pop h)) = mset h - {#x#}"
    by (simp add: heap_pop_def)
  show "fst (heap_pop h) = heap_peek h"
    by (simp add: heap_pop_def split: option.split)
  show "heap_peek h = Some x \<Longrightarrow> y \<in># mset h \<Longrightarrow> entry_le y x"
    by (auto simp: entry_le_def dest: heap_peek_least)
qed (auto simp: entry_le_def heap_push_def heap_retain_def heap_peek_None dest: heap_peek_in)

section \<open>The scheduler\<close>

record schedule =
  next_event_id :: event_id
  sched_now :: timestamp
  sched_events :: heap
  sched_next_event :: timestamp

definition schedule_new :: schedule where
  "schedule_new = \<lparr>next_event_id = 0, sched_now = STARTUP, sched_events = [], sched_next_event = NEVER\<rparr>"

definition get_event_id :: "schedule \<Rightarrow> event_id \<times> schedule" where
  "get_event_id s = (next_event_id s, s\<lparr>next_event_id := next_event_id s + 1\<rparr>)"

definition update_next_event :: "schedule \<Rightarrow> schedule" where
  "update_next_event s = s\<lparr>sched_next_event :=
     (case heap_peek (sched_events s) of Some e \<Rightarrow> entry_ready e | None \<Rightarrow> NEVER)\<rparr>"

definition push_event :: "event_entry \<Rightarrow> schedule \<Rightarrow> schedule" where
  "push_event e s = update_next_event (s\<lparr>sched_events := heap_push e (sched_events s)\<rparr>)"

definition iter_event_entries :: "schedule \<Rightarrow> event_entry list" where
  "iter_event_entries s = sched_events s"

definition schedule_repeat :: "systime \<Rightarrow> event \<Rightarrow> schedule \<Rightarrow> event_id \<times> schedule" where
  "schedule_repeat time ev s =
     (let (i, s) = get_event_id s; ready = sched_now s + time
      in (i, push_event \<lparr>entry_event = ev, entry_ready = ready, entry_mode = Repeat time, entry_id = i\<rparr> s))"

definition schedule_event :: "systime \<Rightarrow> event \<Rightarrow> schedule \<Rightarrow> event_id \<times> schedule" where
  "schedule_event time ev s =
     (let (i, s) = get_event_id s; ready = sched_now s + time
      in (i, push_event \<lparr>entry_event = ev, entry_ready = ready, entry_mode = Once, entry_id = i\<rparr> s))"

definition trigger_repeat :: "systime \<Rightarrow> event \<Rightarrow> schedule \<Rightarrow> event_id \<times> schedule" where
  "trigger_repeat time ev s =
     (let (i, s) = get_event_id s;
          e = \<lparr>entry_event = ev, entry_ready = STARTUP, entry_mode = Repeat time, entry_id = i\<rparr>
      in (i, s\<lparr>sched_events := heap_push e (sched_events s), sched_next_event := STARTUP\<rparr>))"

definition trigger :: "event \<Rightarrow> schedule \<Rightarrow> event_id \<times> schedule" where
  "trigger ev s =
     (let (i, s) = get_event_id s;
          e = \<lparr>entry_event = ev, entry_ready = STARTUP, entry_mode = Once, entry_id = i\<rparr>
      in (i, s\<lparr>sched_events := heap_push e (sched_events s), sched_next_event := STARTUP\<rparr>))"

text \<open>\<open>get_pending_event\<close>: the outer option is the \<open>unwrap\<close> of the popped entry.\<close>

definition get_pending_event :: "schedule \<Rightarrow> (event option \<times> schedule) option" where
  "get_pending_event s =
     (if sched_next_event s \<le> sched_now s then
        (case heap_pop (sched_events s) of
           (None, _) \<Rightarrow> None
         | (Some entry, h) \<Rightarrow>
             let ev = entry_event entry;
                 h = (case entry_mode entry of
                        Repeat time \<Rightarrow> heap_push (entry\<lparr>entry_ready := entry_ready entry + time\<rparr>) h
                      | Once \<Rightarrow> h)
             in Some (Some ev, update_next_event (s\<lparr>sched_events := h\<rparr>)))
      else Some (None, s))"

definition unschedule :: "event_id \<Rightarrow> schedule \<Rightarrow> schedule" where
  "unschedule i s =
     update_next_event (s\<lparr>sched_events := heap_retain (\<lambda>e. entry_id e \<noteq> i) (sched_events s)\<rparr>)"

definition trigger_early :: "event_id \<Rightarrow> schedule \<Rightarrow> schedule" where
  "trigger_early i s =
     (case find (\<lambda>e. entry_id e = i) (iter_event_entries s) of
        None \<Rightarrow> s
      | Some entry \<Rightarrow>
          let s = unschedule i s; (_, s) = trigger (entry_event entry) s
          in (case entry_mode entry of
                Repeat time \<Rightarrow>
                  s\<lparr>sched_events := heap_push (entry\<lparr>entry_ready := sched_now s + time\<rparr>) (sched_events s)\<rparr>
              | Once \<Rightarrow> s))"

text \<open>\<open>repeat_every\<close>: the closure of \<open>retain\<close> keeps the last entry it removes.\<close>

definition repeat_every :: "systime \<Rightarrow> event_id \<Rightarrow> schedule \<Rightarrow> schedule" where
  "repeat_every time i s =
     (let removed = filter (\<lambda>e. entry_id e = i) (sched_events s);
          s' = s\<lparr>sched_events := heap_retain (\<lambda>e. entry_id e \<noteq> i) (sched_events s)\<rparr>
      in if removed = [] then s'
         else s'\<lparr>sched_events :=
                heap_push ((last removed)\<lparr>entry_mode := Repeat time\<rparr>) (sched_events s')\<rparr>)"

definition time_until_event :: "event_id \<Rightarrow> schedule \<Rightarrow> systime option" where
  "time_until_event i s =
     map_option (\<lambda>e. saturating_sub (entry_ready e) (sched_now s))
       (find (\<lambda>e. entry_id e = i) (iter_event_entries s))"

definition advance :: "systime \<Rightarrow> schedule \<Rightarrow> schedule" where
  "advance time s = s\<lparr>sched_now := sched_now s + time\<rparr>"

definition skip_to :: "timestamp \<Rightarrow> schedule \<Rightarrow> schedule" where
  "skip_to time s = s\<lparr>sched_now := max (sched_now s) time\<rparr>"

section \<open>The scheduler invariant\<close>

text \<open>
  \<open>earliest\<close> is what \<open>update_next_event\<close> stores. The invariant: the cached \<open>next_event\<close> is
  the ready time of an earliest entry, and the event ids are unique and below the counter.
\<close>

definition earliest :: "heap \<Rightarrow> timestamp" where
  "earliest h = (case heap_peek h of Some e \<Rightarrow> entry_ready e | None \<Rightarrow> NEVER)"

definition ids_ok :: "event_id \<Rightarrow> heap \<Rightarrow> bool" where
  "ids_ok n h \<longleftrightarrow> distinct (map entry_id h) \<and> (\<forall>e\<in>set h. unat (entry_id e) < unat n)"

definition sched_inv :: "schedule \<Rightarrow> bool" where
  "sched_inv s \<longleftrightarrow> sched_next_event s = earliest (sched_events s) \<and> ids_ok (next_event_id s) (sched_events s)"

lemma sched_invI [sched_intros]:
  "sched_next_event s = earliest (sched_events s) \<Longrightarrow> ids_ok (next_event_id s) (sched_events s) \<Longrightarrow> sched_inv s"
  by (simp add: sched_inv_def)

lemma update_next_event_simps [simp]:
  "sched_events (update_next_event s) = sched_events s"
  "next_event_id (update_next_event s) = next_event_id s"
  "sched_now (update_next_event s) = sched_now s"
  "sched_next_event (update_next_event s) = earliest (sched_events s)"
  by (simp_all add: update_next_event_def earliest_def)

lemma earliest_le: "e \<in> set h \<Longrightarrow> earliest h \<le> entry_ready e"
  by (auto simp: earliest_def heap_peek_None dest: heap_peek_least split: option.split)

lemma earliest_in: "h \<noteq> [] \<Longrightarrow> \<exists>e\<in>set h. earliest h = entry_ready e"
  using heap_peek_in by (fastforce simp: earliest_def heap_peek_None split: option.split)

lemma earliest_startup: "e \<in> set h \<Longrightarrow> entry_ready e = STARTUP \<Longrightarrow> earliest h = STARTUP"
  using earliest_le [of e h] STARTUP_le by (simp add: order_antisym)

lemma earliest_ranks:
  "image_mset entry_ready (mset h) = image_mset entry_ready (mset h') \<Longrightarrow> earliest h = earliest h'"
  using eq.peek_rank [of entry_ready h h']
  by (auto simp: earliest_def entry_le_def split: option.splits)

lemma ids_ok_push:
  "ids_ok n h \<Longrightarrow> entry_id e \<notin> entry_id ` set h \<Longrightarrow> unat (entry_id e) < unat n \<Longrightarrow> ids_ok n (heap_push e h)"
  by (auto simp: ids_ok_def heap_push_def)

lemma ids_ok_retain: "ids_ok n h \<Longrightarrow> ids_ok n (heap_retain P h)"
  by (auto simp: ids_ok_def heap_retain_def distinct_map_filter)

lemma ids_ok_fresh:
  assumes "ids_ok n h" "unat n < 2 ^ 64 - 1" "entry_id e = n"
  shows "ids_ok (n + 1) (heap_push e h)"
proof -
  have "unat (n + 1) = Suc (unat n)" using assms(2) by (simp add: unat_word_ariths)
  then show ?thesis using assms(1,3) by (fastforce simp: ids_ok_def heap_push_def)
qed

lemma ids_ok_remove1: "ids_ok n h \<Longrightarrow> ids_ok n (remove1 x h)"
  by (auto simp: ids_ok_def distinct_map intro: inj_on_subset dest: notin_set_remove1 set_remove1_subset [THEN subsetD])

lemma ids_ok_remove1_fresh: "ids_ok n h \<Longrightarrow> x \<in> set h \<Longrightarrow> entry_id x \<notin> entry_id ` set (remove1 x h)"
  by (auto simp: ids_ok_def distinct_map inj_on_def)

text \<open>How each operation changes the fields.\<close>

lemma get_event_id_simps [simp]: "get_event_id s = (next_event_id s, s\<lparr>next_event_id := next_event_id s + 1\<rparr>)"
  by (simp add: get_event_id_def)

lemma push_event_inv:
  assumes "sched_inv s" "unat (next_event_id s) < 2 ^ 64 - 1" "entry_id e = next_event_id s"
  shows "sched_inv (push_event e (s\<lparr>next_event_id := next_event_id s + 1\<rparr>))"
  using assms by (intro sched_intros) (auto simp: push_event_def sched_inv_def intro: ids_ok_fresh)

lemma schedule_event_inv [sched_intros]:
  "sched_inv s \<Longrightarrow> unat (next_event_id s) < 2 ^ 64 - 1 \<Longrightarrow> sched_inv (snd (schedule_event time ev s))"
  by (auto simp: schedule_event_def intro!: push_event_inv)

lemma schedule_repeat_inv [sched_intros]:
  "sched_inv s \<Longrightarrow> unat (next_event_id s) < 2 ^ 64 - 1 \<Longrightarrow> sched_inv (snd (schedule_repeat time ev s))"
  by (auto simp: schedule_repeat_def intro!: push_event_inv)

lemma trigger_inv [sched_intros]:
  "sched_inv s \<Longrightarrow> unat (next_event_id s) < 2 ^ 64 - 1 \<Longrightarrow> sched_inv (snd (trigger ev s))"
  by (auto simp: trigger_def sched_inv_def heap_push_def
      intro!: ids_ok_fresh [unfolded heap_push_def] earliest_startup [symmetric])

lemma trigger_repeat_inv [sched_intros]:
  "sched_inv s \<Longrightarrow> unat (next_event_id s) < 2 ^ 64 - 1 \<Longrightarrow> sched_inv (snd (trigger_repeat time ev s))"
  by (auto simp: trigger_repeat_def sched_inv_def heap_push_def
      intro!: ids_ok_fresh [unfolded heap_push_def] earliest_startup [symmetric])

lemma unschedule_inv [sched_intros]: "sched_inv s \<Longrightarrow> sched_inv (unschedule i s)"
  by (intro sched_intros) (auto simp: unschedule_def sched_inv_def intro: ids_ok_retain)

lemma advance_inv [sched_intros]: "sched_inv s \<Longrightarrow> sched_inv (advance t s)"
  and skip_to_inv [sched_intros]: "sched_inv s \<Longrightarrow> sched_inv (skip_to t s)"
  by (simp_all add: advance_def skip_to_def sched_inv_def)

text \<open>The three ways \<open>get_pending_event\<close> ends.\<close>

definition fire :: "event_entry \<Rightarrow> schedule \<Rightarrow> schedule" where
  "fire entry s = update_next_event (s\<lparr>sched_events :=
     (case entry_mode entry of
        Once \<Rightarrow> remove1 entry (sched_events s)
      | Repeat time \<Rightarrow> heap_push (entry\<lparr>entry_ready := entry_ready entry + time\<rparr>)
                        (remove1 entry (sched_events s)))\<rparr>)"

lemma get_pending_event_cases:
  "get_pending_event s =
     (if sched_next_event s \<le> sched_now s then
        (case heap_peek (sched_events s) of None \<Rightarrow> None
         | Some entry \<Rightarrow> Some (Some (entry_event entry), fire entry s))
      else Some (None, s))"
  by (auto simp: get_pending_event_def heap_pop_def fire_def Let_def split: option.split repeat_mode.split)

lemma fire_inv:
  assumes "sched_inv s" "e \<in> set (sched_events s)"
  shows "sched_inv (fire e s)"
proof -
  have ids: "ids_ok (next_event_id s) (sched_events s)" using assms(1) by (simp add: sched_inv_def)
  have "ids_ok (next_event_id s) (heap_push (e\<lparr>entry_ready := r\<rparr>) (remove1 e (sched_events s)))" for r
    using ids assms(2) ids_ok_remove1_fresh [OF ids assms(2)]
    by (intro ids_ok_push ids_ok_remove1) (auto simp: ids_ok_def)
  then show ?thesis
    using ids by (intro sched_intros) (auto simp: fire_def intro: ids_ok_remove1 split: repeat_mode.split)
qed

lemma get_pending_event_inv [sched_intros]:
  "sched_inv s \<Longrightarrow> get_pending_event s = Some (r, s') \<Longrightarrow> sched_inv s'"
  by (auto simp: get_pending_event_cases split: if_splits option.splits intro: fire_inv dest: heap_peek_in)

lemma filter_distinct_id:
  assumes "distinct (map entry_id h)"
  shows "filter (\<lambda>e. entry_id e = i) h =
    (case find (\<lambda>e. entry_id e = i) h of None \<Rightarrow> [] | Some x \<Rightarrow> [x])"
  using assms
proof (induction h)
  case (Cons e h)
  have "entry_id e = i \<Longrightarrow> filter (\<lambda>e. entry_id e = i) h = []"
    using Cons.prems by (force simp: filter_empty_conv image_iff)
  then show ?case using Cons by simp
qed simp

lemma repeat_every_alt:
  assumes "sched_inv s"
  shows "repeat_every time i s =
    (case find (\<lambda>e. entry_id e = i) (sched_events s) of
       None \<Rightarrow> s
     | Some x \<Rightarrow> s\<lparr>sched_events := heap_push (x\<lparr>entry_mode := Repeat time\<rparr>)
                   (heap_retain (\<lambda>e. entry_id e \<noteq> i) (sched_events s))\<rparr>)"
proof -
  have "distinct (map entry_id (sched_events s))" using assms by (simp add: sched_inv_def ids_ok_def)
  note f = filter_distinct_id [OF this, of i]
  show ?thesis
  proof (cases "find (\<lambda>e. entry_id e = i) (sched_events s)")
    case None
    then have "filter (\<lambda>e. entry_id e \<noteq> i) (sched_events s) = sched_events s"
      by (auto simp: find_None_iff filter_id_conv)
    with None f show ?thesis by (simp add: repeat_every_def heap_retain_def)
  next
    case (Some x)
    with f show ?thesis by (simp add: repeat_every_def Let_def)
  qed
qed

lemma find_ids: "find (\<lambda>e. entry_id e = i) h = Some x \<Longrightarrow> x \<in> set h \<and> entry_id x = i"
  by (auto simp: find_Some_iff)

lemma ids_ok_replace:
  assumes "ids_ok n h" "find (\<lambda>e. entry_id e = i) h = Some x" "entry_id x' = i"
  shows "ids_ok n (heap_push x' (heap_retain (\<lambda>e. entry_id e \<noteq> i) h))"
  using assms find_ids [OF assms(2)]
  by (intro ids_ok_push ids_ok_retain) (auto simp: heap_retain_def ids_ok_def)

lemma mset_split_id:
  assumes "distinct (map entry_id h)" "find (\<lambda>e. entry_id e = i) h = Some x"
  shows "mset h = add_mset x (mset (heap_retain (\<lambda>e. entry_id e \<noteq> i) h))"
proof -
  have "mset h = mset (filter (\<lambda>e. entry_id e = i) h) + mset (filter (\<lambda>e. entry_id e \<noteq> i) h)"
    using multiset_partition [of "mset h" "\<lambda>e. entry_id e = i"] by simp
  then show ?thesis
    using filter_distinct_id [OF assms(1), of i] assms(2) by (simp add: heap_retain_def)
qed

lemma repeat_every_inv [sched_intros]:
  assumes "sched_inv s"
  shows "sched_inv (repeat_every time i s)"
proof (cases "find (\<lambda>e. entry_id e = i) (sched_events s)")
  case None
  then show ?thesis using assms by (simp add: repeat_every_alt)
next
  case (Some x)
  have d: "distinct (map entry_id (sched_events s))" using assms by (simp add: sched_inv_def ids_ok_def)
  have "earliest (heap_push (x\<lparr>entry_mode := Repeat time\<rparr>) (heap_retain (\<lambda>e. entry_id e \<noteq> i) (sched_events s)))
      = earliest (sched_events s)"
    by (rule earliest_ranks) (simp add: mset_split_id [OF d Some] heap_push_def)
  then show ?thesis
    using assms Some find_ids [OF Some]
    by (auto simp: repeat_every_alt sched_inv_def intro: ids_ok_replace)
qed

lemma ids_ok_mono: "ids_ok n h \<Longrightarrow> unat n \<le> unat n' \<Longrightarrow> ids_ok n' h"
  by (fastforce simp: ids_ok_def)

lemma trigger_early_inv [sched_intros]:
  assumes "sched_inv s" "unat (next_event_id s) < 2 ^ 64 - 1"
  shows "sched_inv (trigger_early i s)"
proof (cases "find (\<lambda>e. entry_id e = i) (sched_events s)")
  case None
  then show ?thesis using assms by (simp add: trigger_early_def iter_event_entries_def)
next
  case (Some x)
  define u where "u = unschedule i s"
  define t where "t = snd (trigger (entry_event x) u)"
  have u: "sched_inv u" "next_event_id u = next_event_id s"
    using assms unschedule_inv by (auto simp: u_def unschedule_def)
  then have t: "sched_inv t" using assms(2) by (simp add: t_def trigger_inv)
  have x: "x \<in> set (sched_events s)" "entry_id x = i" using find_ids [OF Some] by auto
  have "unat i < unat (next_event_id s)"
    using x assms(1) by (auto simp: sched_inv_def ids_ok_def)
  then have i: "unat i < unat (next_event_id t)" "i \<noteq> next_event_id s"
    using assms(2) u(2) by (auto simp: t_def trigger_def unat_word_ariths)
  have fresh: "i \<notin> entry_id ` set (sched_events t)"
    using i(2) u(2) by (auto simp: t_def trigger_def u_def unschedule_def heap_push_def heap_retain_def)
  have first: "sched_next_event t = STARTUP" by (simp add: t_def trigger_def)
  have "\<exists>e\<in>set (sched_events t). entry_ready e = STARTUP"
    by (auto simp: t_def trigger_def heap_push_def)
  then have "earliest (heap_push e (sched_events t)) = STARTUP" for e
    by (auto simp: heap_push_def intro: earliest_startup)
  then have "sched_inv (t\<lparr>sched_events := heap_push (x\<lparr>entry_ready := r\<rparr>) (sched_events t)\<rparr>)" for r
    using t fresh i x(2) first
    by (intro sched_intros) (auto simp: sched_inv_def intro!: ids_ok_push)
  then show ?thesis
    using Some t
    by (auto simp: trigger_early_def iter_event_entries_def u_def t_def Let_def trigger_def
        split: repeat_mode.split)
qed

section \<open>Reachable schedules\<close>

text \<open>One rule per operation the rest of the system calls.\<close>

inductive sched_step :: "schedule \<Rightarrow> schedule \<Rightarrow> bool" where
  step_schedule: "sched_step s (snd (schedule_event time ev s))"
| step_schedule_repeat: "sched_step s (snd (schedule_repeat time ev s))"
| step_trigger: "sched_step s (snd (trigger ev s))"
| step_trigger_repeat: "sched_step s (snd (trigger_repeat time ev s))"
| step_pending: "get_pending_event s = Some (r, s') \<Longrightarrow> sched_step s s'"
| step_trigger_early: "sched_step s (trigger_early i s)"
| step_repeat_every: "sched_step s (repeat_every time i s)"
| step_unschedule: "sched_step s (unschedule i s)"
| step_advance: "sched_step s (advance time s)"
| step_skip_to: "sched_step s (skip_to t s)"

inductive sched_reachable :: "nat \<Rightarrow> schedule \<Rightarrow> bool" where
  reach_new: "sched_reachable 0 schedule_new"
| reach_step: "sched_reachable n s \<Longrightarrow> sched_step s s' \<Longrightarrow> sched_reachable (Suc n) s'"

lemma schedule_new_inv: "sched_inv schedule_new"
  by (simp add: sched_inv_def schedule_new_def earliest_def ids_ok_def)

lemma repeat_every_id [frame_simps]: "next_event_id (repeat_every t i s) = next_event_id s"
  by (simp add: repeat_every_def Let_def)

lemma trigger_early_id:
  "next_event_id (trigger_early i s) = next_event_id s
   \<or> next_event_id (trigger_early i s) = next_event_id s + 1"
  by (auto simp: trigger_early_def Let_def trigger_def unschedule_def split: option.split repeat_mode.split)

lemma get_pending_event_frame:
  "get_pending_event s = Some (r, s') \<Longrightarrow> next_event_id s' = next_event_id s \<and> sched_now s' = sched_now s"
  by (auto simp: get_pending_event_cases fire_def split: if_splits option.splits repeat_mode.splits)

lemma sched_step_id:
  "sched_step s s' \<Longrightarrow> next_event_id s' = next_event_id s \<or> next_event_id s' = next_event_id s + 1"
  by (induction rule: sched_step.induct)
    (use trigger_early_id in \<open>auto simp: schedule_event_def schedule_repeat_def push_event_def trigger_def
      trigger_repeat_def unschedule_def advance_def skip_to_def frame_simps
      dest: get_pending_event_frame\<close>)

lemma sched_step_inv:
  "sched_step s s' \<Longrightarrow> sched_inv s \<Longrightarrow> unat (next_event_id s) < 2 ^ 64 - 1 \<Longrightarrow> sched_inv s'"
  by (induction rule: sched_step.induct) (auto intro: sched_intros)

lemma sched_reachable_bound:
  "sched_reachable n s \<Longrightarrow> n < 2 ^ 64 \<Longrightarrow> unat (next_event_id s) \<le> n \<and> sched_inv s"
proof (induction rule: sched_reachable.induct)
  case reach_new
  then show ?case using schedule_new_inv by (simp add: schedule_new_def)
next
  case (reach_step n s s')
  then have "unat (next_event_id s) \<le> n" "sched_inv s" by auto
  moreover have "unat (next_event_id s + 1) \<le> Suc (unat (next_event_id s))"
    by (simp add: unat_word_ariths)
  ultimately show ?case
    using sched_step_id [OF reach_step.hyps(2)] sched_step_inv [OF reach_step.hyps(2)] reach_step.prems by auto
qed

section \<open>Properties\<close>

text \<open>C1: in every schedule the system can reach (in fewer than $2^{64}$ operations, so that the
  event id counter does not wrap) the cached \<open>next_event\<close> is the ready time of an earliest
  entry of the heap, or \<open>NEVER\<close> if there is none, and the ids of the pending events are
  distinct and all below the counter.\<close>

theorem sched_reachable_inv:
  assumes "sched_reachable n s" "n < 2 ^ 64"
  shows "sched_next_event s = (case heap_peek (sched_events s) of Some e \<Rightarrow> entry_ready e | None \<Rightarrow> NEVER)
    \<and> distinct (map entry_id (sched_events s))
    \<and> (\<forall>e \<in> set (sched_events s). sched_next_event s \<le> entry_ready e \<and> entry_id e < next_event_id s)"
proof -
  have inv: "sched_inv s" using sched_reachable_bound [OF assms] by simp
  then show ?thesis
    by (auto simp: sched_inv_def ids_ok_def earliest_def [symmetric] word_less_nat_alt intro: earliest_le)
qed

theorem sched_reachable_inv_witness:
  "\<exists>s. sched_reachable 2 s \<and> length (sched_events s) = 1 \<and> (\<forall>e \<in> set (sched_events s). entry_id e < next_event_id s)"
proof -
  let ?s = "advance 7 (snd (schedule_event 5 EvIrqCheck schedule_new))"
  have r: "sched_reachable (Suc (Suc 0)) ?s"
    by (rule reach_step [OF reach_step [OF reach_new step_schedule] step_advance])
  have "length (sched_events ?s) = 1"
    by (simp add: schedule_event_def push_event_def schedule_new_def advance_def heap_push_def)
  moreover have two: "Suc (Suc 0) < 2 ^ 64" by (rule less_trans [of _ 3]) simp_all
  ultimately show ?thesis
    using r sched_reachable_inv [OF r two] by (auto simp: numeral_2_eq_2 intro!: exI [of _ ?s])
qed

text \<open>C2: \<open>get_pending_event\<close> never panics and delivers an event exactly when some entry is
  ready. It delivers an earliest entry, removes it (re-inserting it one interval later if it
  repeats) and leaves every other entry and the clock alone.\<close>

theorem get_pending_event_earliest:
  assumes "sched_inv s" "sched_now s < NEVER"
  shows "case get_pending_event s of
      None \<Rightarrow> False
    | Some (None, s') \<Rightarrow> s' = s \<and> (\<forall>e \<in> set (sched_events s). sched_now s < entry_ready e)
    | Some (Some ev, s') \<Rightarrow> \<exists>e \<in> set (sched_events s).
        ev = entry_event e \<and> entry_ready e \<le> sched_now s
        \<and> (\<forall>e' \<in> set (sched_events s). entry_ready e \<le> entry_ready e')
        \<and> mset (sched_events s') = mset (sched_events s) - {#e#}
            + (case entry_mode e of Once \<Rightarrow> {#} | Repeat t \<Rightarrow> {#e\<lparr>entry_ready := entry_ready e + t\<rparr>#})
        \<and> sched_now s' = sched_now s \<and> sched_inv s'"
proof (cases "sched_next_event s \<le> sched_now s")
  case True
  have nxt: "sched_next_event s = earliest (sched_events s)" using assms(1) by (simp add: sched_inv_def)
  from nxt True assms(2) obtain e where e: "heap_peek (sched_events s) = Some e"
    by (cases "heap_peek (sched_events s)") (auto simp: earliest_def)
  have in_e: "e \<in> set (sched_events s)" and min: "\<And>e'. e' \<in> set (sched_events s) \<Longrightarrow> entry_ready e \<le> entry_ready e'"
    using heap_peek_in [OF e] heap_peek_least [OF e] by auto
  have "entry_ready e \<le> sched_now s" using True nxt e by (simp add: earliest_def)
  moreover have "mset (sched_events (fire e s)) = mset (sched_events s) - {#e#}
      + (case entry_mode e of Once \<Rightarrow> {#} | Repeat t \<Rightarrow> {#e\<lparr>entry_ready := entry_ready e + t\<rparr>#})"
    by (auto simp: fire_def heap_push_def split: repeat_mode.split)
  moreover have "sched_now (fire e s) = sched_now s" by (simp add: fire_def)
  ultimately show ?thesis
    using True e in_e min fire_inv [OF assms(1) in_e] by (auto simp: get_pending_event_cases)
next
  case False
  then show ?thesis
    using assms(1) earliest_le by (fastforce simp: get_pending_event_cases sched_inv_def)
qed

theorem get_pending_event_earliest_witness:
  "\<exists>s'. get_pending_event (advance 9 (snd (schedule_event 5 EvIrqCheck schedule_new))) = Some (Some EvIrqCheck, s')"
proof -
  let ?s = "advance 9 (snd (schedule_event 5 EvIrqCheck schedule_new))"
  have inv: "sched_inv ?s"
    by (intro advance_inv schedule_event_inv schedule_new_inv) (simp add: schedule_new_def)
  have now: "sched_now ?s < NEVER"
    by (simp add: advance_def schedule_event_def push_event_def schedule_new_def NEVER_def time_FOREVER_def
        STARTUP_def time_ZERO_def update_next_event_def)
  have ev: "set (sched_events ?s) = {\<lparr>entry_event = EvIrqCheck, entry_ready = 5, entry_mode = Once, entry_id = 0\<rparr>}"
    by (simp add: advance_def schedule_event_def push_event_def schedule_new_def heap_push_def STARTUP_def time_ZERO_def)
  have clock: "sched_now ?s = 9"
    by (simp add: advance_def schedule_event_def push_event_def schedule_new_def STARTUP_def time_ZERO_def)
  show ?thesis
    using get_pending_event_earliest [OF inv now] by (auto simp: ev clock split: option.splits)
qed

text \<open>The clock of an event. Scheduling an event in \<open>time\<close> makes \<open>time_until_event\<close> report
  \<open>time\<close>; as the clock advances by \<open>d\<close> the report falls by \<open>d\<close> and stops at zero; unscheduling
  the event removes it and no other one. (The times involved must not wrap the 64-bit clock.)\<close>

lemma time_until_scheduled:
  assumes "sched_inv s" "schedule_event time ev s = (i, s')"
    and "unat (sched_now s) + unat time < 2 ^ 64" "unat (sched_now s) + unat d < 2 ^ 64"
  shows "time_until_event i (advance d s') = Some (if time < d then 0 else time - d)
    \<and> sched_events (unschedule i s') = sched_events s"
proof
  have i: "i = next_event_id s" and s': "sched_events s' = sched_events s @
      [\<lparr>entry_event = ev, entry_ready = sched_now s + time, entry_mode = Once, entry_id = i\<rparr>]"
      "sched_now s' = sched_now s"
    using assms(2) by (auto simp: schedule_event_def push_event_def heap_push_def)
  have fresh: "\<forall>e \<in> set (sched_events s). entry_id e \<noteq> i"
    using assms(1) by (auto simp: i sched_inv_def ids_ok_def)
  have "find (\<lambda>e. entry_id e = i) (sched_events s @ es) = find (\<lambda>e. entry_id e = i) es" for es
    using fresh by (rule find_append_skip)
  moreover have "saturating_sub (sched_now s + time) (sched_now s + d) = (if time < d then 0 else time - d)"
    using assms(3,4) by (auto simp: saturating_sub_def word_less_nat_alt unat_add_no_wrap)
  ultimately show "time_until_event i (advance d s') = Some (if time < d then 0 else time - d)"
    by (simp add: time_until_event_def iter_event_entries_def advance_def s')
  have "filter (\<lambda>e. entry_id e \<noteq> i) (sched_events s) = sched_events s"
    using fresh by (simp add: filter_id_conv)
  then show "sched_events (unschedule i s') = sched_events s"
    by (simp add: unschedule_def heap_retain_def s')
qed

lemma time_until_scheduled_later:
  "time_until_event 0 (advance 30 (snd (schedule_event 100 EvIrqCheck schedule_new))) = Some 70"
  using time_until_scheduled [OF schedule_new_inv, of 100 EvIrqCheck 0 _ 30]
  by (simp add: schedule_event_def schedule_new_def STARTUP_def time_ZERO_def)

end
