(* ===== verification/AddrUnit.thy ===== *)
theory AddrUnit
  imports Bits
begin

text \<open>
  \<open>crates/splst_core/src/bus/mod.rs\<close>: addresses and the units the bus moves. A value of
  the trait type \<open>T: AddrUnit\<close> (\<open>u8\<close>, \<open>u16\<close> or \<open>u32\<close>) is its zero extension to 32 bits
  together with its width, which is what \<open>Into<u32>\<close> gives the code.
\<close>

datatype addr_width = Byte | HalfWord | FullWord

fun width_bytes :: "addr_width \<Rightarrow> nat" where
  "width_bytes Byte = 1"
| "width_bytes HalfWord = 2"
| "width_bytes FullWord = 4"

definition from_u32 :: "addr_width \<Rightarrow> u32 \<Rightarrow> u32" where
  "from_u32 w val = (case w of
      FullWord \<Rightarrow> val
    | HalfWord \<Rightarrow> ucast (ucast val :: u16)
    | Byte \<Rightarrow> ucast (ucast val :: u8))"

definition from_u32_aligned :: "addr_width \<Rightarrow> u32 \<Rightarrow> u32 \<Rightarrow> u32" where
  "from_u32_aligned w val addr = (case w of
      FullWord \<Rightarrow> val
    | HalfWord \<Rightarrow> ucast (ucast (drop_bit (unat (8 * (addr mod 4))) val) :: u16)
    | Byte \<Rightarrow> ucast (ucast (drop_bit (unat (8 * (addr mod 4))) val) :: u8))"

definition as_u32_aligned :: "u32 \<Rightarrow> u32 \<Rightarrow> u32" where
  "as_u32_aligned val addr = (let align = addr AND 3 in push_bit (unat (8 * align)) val)"

definition as_u16 :: "u32 \<Rightarrow> u16" where "as_u16 val = ucast val"
definition as_u8 :: "u32 \<Rightarrow> u8" where "as_u8 val = ucast val"

definition align_as :: "addr_width \<Rightarrow> u32 \<Rightarrow> u32" where
  "align_as w addr = addr AND NOT (word_of_nat (width_bytes w) - 1)"

definition is_aligned_to :: "addr_width \<Rightarrow> u32 \<Rightarrow> bool" where
  "is_aligned_to w addr \<longleftrightarrow> addr mod word_of_nat (width_bytes w) = 0"

text \<open>\<open>addr_cached\<close> and \<open>regioned_addr\<close>: the segments of the address space.\<close>

definition addr_cached :: "u32 \<Rightarrow> bool" where
  "addr_cached addr \<longleftrightarrow> drop_bit 29 addr \<le> 4"

definition REGION_MAP :: "u32 list" where
  "REGION_MAP = [0xffffffff, 0xffffffff, 0xffffffff, 0xffffffff, 0x7fffffff, 0x1fffffff, 0xffffffff, 0xffffffff]"

definition regioned_addr :: "u32 \<Rightarrow> u32" where
  "regioned_addr addr = addr AND REGION_MAP ! unat (drop_bit 29 addr)"

text \<open>The trait \<open>BusMap\<close>: a device owns the inclusive range \<open>BUS_BEGIN..=BUS_END\<close>.\<close>

definition bus_contains :: "u32 \<times> u32 \<Rightarrow> u32 \<Rightarrow> bool" where
  "bus_contains r offset \<longleftrightarrow> fst r \<le> offset \<and> offset \<le> snd r"

definition bus_offset :: "u32 \<times> u32 \<Rightarrow> u32 \<Rightarrow> u32 option" where
  "bus_offset r offset = (if bus_contains r offset then Some (offset - fst r) else None)"

section \<open>Lemmas\<close>

lemma width_bytes_pos [simp]: "0 < width_bytes w"
  by (cases w) auto

lemma width_bytes_le: "width_bytes w \<le> 4"
  by (cases w) auto

lemma from_u32_take_bit: "from_u32 w v = take_bit (8 * width_bytes w) v"
  by (cases w) (auto simp: from_u32_def unsigned_ucast_eq intro!: bit_word_eqI simp: bit_simps)

lemma bit_from_u32 [bits_simps]: "bit (from_u32 w v) n \<longleftrightarrow> n < 8 * width_bytes w \<and> bit v n"
  by (simp add: from_u32_take_bit bit_simps)

lemma from_u32_idem [simp]: "from_u32 w (from_u32 w v) = from_u32 w v"
  by (simp add: from_u32_take_bit)

lemma from_u32_word [simp]: "from_u32 FullWord v = v"
  by (simp add: from_u32_def)

lemma unat_and_3: "unat (a AND 3 :: u32) = unat a mod 4"
proof -
  have "a AND 3 = take_bit 2 a" by (simp add: take_bit_eq_mask mask_eq_exp_minus_1)
  then show ?thesis by (simp add: unsigned_take_bit_eq take_bit_eq_mod unat_mod_distrib)
qed

lemma align_as_word: "align_as FullWord a = a AND NOT 3"
  by (simp add: align_as_def)

lemma bit_align_word [bits_simps]: "bit (align_as FullWord a) n \<longleftrightarrow> 2 \<le> n \<and> bit a n"
proof -
  have "bit (3 :: u32) n \<longleftrightarrow> n < 2"
  proof -
    have "(3 :: u32) = mask 2" by (simp add: mask_eq_exp_minus_1)
    then show ?thesis by (simp only: bit_mask_iff) auto
  qed
  then show ?thesis by (auto simp: align_as_word bit_simps dest: bit_imp_le_length)
qed

lemma unat_align_word: "unat (align_as FullWord a) = unat a div 4 * 4"
proof -
  have "Suc (Suc (n - 2)) = n" if "2 \<le> n" for n :: nat
    using that by simp
  then have "align_as FullWord a = push_bit 2 (drop_bit 2 a)"
    by (intro bit_word_eqI) (auto simp: bits_simps bit_simps)
  moreover have "unat a div 4 * 4 < 2 ^ 32"
    using unsigned_less [of a, where ?'a = nat] by simp
  ultimately show ?thesis
    by (simp add: unsigned_push_bit_eq unsigned_drop_bit_eq take_bit_unat push_bit_eq_mult drop_bit_eq_div
        take_bit_nat_eq_self unat_word_ariths unat_div_distrib)
qed

lemma bus_offset_SomeE:
  assumes "bus_offset r a = Some off"
  shows "fst r \<le> a" "a \<le> snd r" "off = a - fst r" "unat off \<le> unat (snd r) - unat (fst r)"
  using assms
  by (auto simp: bus_offset_def bus_contains_def word_le_nat_alt unat_sub split: if_splits)

lemma regioned_kseg0: "drop_bit 29 a = 4 \<Longrightarrow> regioned_addr a = a AND 0x7fffffff"
  and regioned_kseg1: "drop_bit 29 a = 5 \<Longrightarrow> regioned_addr a = a AND 0x1fffffff"
  by (simp_all add: regioned_addr_def REGION_MAP_def)

end
