(* ===== verification/Memory.thy ===== *)
theory Memory
  imports AddrUnit
begin

text \<open>
  \<open>bus/raw.rs\<close>, \<open>bus/ram.rs\<close>, \<open>bus/scratchpad.rs\<close>: byte arrays read and written in
  little-endian units. The array \<open>[u8; SIZE]\<close> is a function with its size; an index out of
  bounds is \<^term>\<open>None\<close> (a panic for \<open>load\<close> and \<open>store\<close>, undefined behaviour for the
  unchecked variants). The laws of such a memory are the locale \<open>byte_memory\<close>, interpreted
  at the raw memory, the RAM (whose addresses are mirrored modulo 2 MiB) and the scratchpad.
\<close>

record raw_mem =
  mem_size :: nat
  mem_data :: "nat \<Rightarrow> u8"

definition raw_new :: "nat \<Rightarrow> raw_mem" where
  "raw_new n = \<lparr>mem_size = n, mem_data = (\<lambda>_. 0xff)\<rparr>"

text \<open>The fold of \<open>load\<close> over the bytes, and the loop of \<open>store\<close>.\<close>

definition read_bytes :: "nat \<Rightarrow> (nat \<Rightarrow> u8) \<Rightarrow> nat \<Rightarrow> u32" where
  "read_bytes n d off = fold (\<lambda>byte val. val OR push_bit (8 * byte) (ucast (d (off + byte)))) [0..<n] 0"

definition write_bytes :: "nat \<Rightarrow> (nat \<Rightarrow> u8) \<Rightarrow> nat \<Rightarrow> u32 \<Rightarrow> (nat \<Rightarrow> u8)" where
  "write_bytes n d off val =
     fold (\<lambda>byte d. d(off + byte := ucast (drop_bit (8 * byte) val))) [0..<n] d"

definition raw_load :: "addr_width \<Rightarrow> u32 \<Rightarrow> raw_mem \<Rightarrow> u32 option" where
  "raw_load w offset m =
     (let offset = unat offset in
      if offset + width_bytes w \<le> mem_size m
      then Some (from_u32 w (read_bytes (width_bytes w) (mem_data m) offset)) else None)"

definition raw_store :: "addr_width \<Rightarrow> u32 \<Rightarrow> u32 \<Rightarrow> raw_mem \<Rightarrow> raw_mem option" where
  "raw_store w offset val m =
     (let offset = unat offset in
      if offset + width_bytes w \<le> mem_size m
      then Some (m\<lparr>mem_data := write_bytes (width_bytes w) (mem_data m) offset val\<rparr>) else None)"

definition raw_load_unchecked :: "addr_width \<Rightarrow> u32 \<Rightarrow> raw_mem \<Rightarrow> u32 option" where
  "raw_load_unchecked w addr m =
     (if unat addr + width_bytes w \<le> mem_size m
      then Some (from_u32 w (read_bytes (width_bytes w) (mem_data m) (unat addr))) else None)"

definition raw_store_unchecked :: "addr_width \<Rightarrow> u32 \<Rightarrow> u32 \<Rightarrow> raw_mem \<Rightarrow> raw_mem option" where
  "raw_store_unchecked w offset val m =
     (let offset = unat offset in
      if offset + width_bytes w \<le> mem_size m
      then Some (m\<lparr>mem_data := write_bytes (width_bytes w) (mem_data m) offset val\<rparr>) else None)"

section \<open>RAM and scratchpad\<close>

definition RAM_SIZE :: nat where "RAM_SIZE = 2 * 1024 * 1024"
definition ram_new :: raw_mem where "ram_new = raw_new RAM_SIZE"

definition ram_load :: "addr_width \<Rightarrow> u32 \<Rightarrow> raw_mem \<Rightarrow> u32 option" where
  "ram_load w offset m = (let offset = bit_range offset 0 20 in raw_load w offset m)"

definition ram_store :: "addr_width \<Rightarrow> u32 \<Rightarrow> u32 \<Rightarrow> raw_mem \<Rightarrow> raw_mem option" where
  "ram_store w offset val m = (let offset = bit_range offset 0 20 in raw_store w offset val m)"

definition ram_load_unchecked :: "addr_width \<Rightarrow> u32 \<Rightarrow> raw_mem \<Rightarrow> u32 option" where
  "ram_load_unchecked w offset m = (let offset = bit_range offset 0 20 in raw_load_unchecked w offset m)"

definition ram_store_unchecked :: "addr_width \<Rightarrow> u32 \<Rightarrow> u32 \<Rightarrow> raw_mem \<Rightarrow> raw_mem option" where
  "ram_store_unchecked w offset val m =
     (let offset = bit_range offset 0 20 in raw_store_unchecked w offset val m)"

definition ram_bus :: "u32 \<times> u32" where
  "ram_bus = (0x0, word_of_nat RAM_SIZE - 1)"

definition SCRATCHPAD_SIZE :: nat where "SCRATCHPAD_SIZE = 1024"
definition scratchpad_new :: raw_mem where "scratchpad_new = raw_new SCRATCHPAD_SIZE"

definition scratchpad_load :: "addr_width \<Rightarrow> u32 \<Rightarrow> raw_mem \<Rightarrow> u32 option" where
  "scratchpad_load w offset m = raw_load w offset m"

definition scratchpad_store :: "addr_width \<Rightarrow> u32 \<Rightarrow> u32 \<Rightarrow> raw_mem \<Rightarrow> raw_mem option" where
  "scratchpad_store w offset val m = raw_store w offset val m"

definition scratchpad_load_unchecked :: "addr_width \<Rightarrow> u32 \<Rightarrow> raw_mem \<Rightarrow> u32 option" where
  "scratchpad_load_unchecked w offset m = raw_load_unchecked w offset m"

definition scratchpad_store_unchecked :: "addr_width \<Rightarrow> u32 \<Rightarrow> u32 \<Rightarrow> raw_mem \<Rightarrow> raw_mem option" where
  "scratchpad_store_unchecked w offset val m = raw_store_unchecked w offset val m"

definition scratchpad_bus :: "u32 \<times> u32" where
  "scratchpad_bus = (0x1f800000, 0x1f800000 + 1024 - 1)"

section \<open>Bytes and units\<close>

lemma bit_read_bytes [bits_simps]:
  "bit (read_bytes n d off) i \<longleftrightarrow> i < 32 \<and> i < 8 * n \<and> bit (d (off + i div 8)) (i mod 8)"
proof (induction n)
  case (Suc n)
  have "bit (push_bit (8 * n) (ucast (d (off + n)) :: u32)) i \<longleftrightarrow>
      i < 32 \<and> 8 * n \<le> i \<and> i < 8 * Suc n \<and> bit (d (off + i div 8)) (i mod 8)"
  proof (cases "8 * n \<le> i \<and> i < 8 * Suc n")
    case True
    then have "i div 8 = n" by (simp add: div_nat_eqI)
    moreover from this have "i mod 8 = i - 8 * n" using minus_div_mult_eq_mod [of i 8] by simp
    ultimately show ?thesis using True by (auto simp: bit_simps)
  next
    case False
    then show ?thesis by (auto simp: bit_simps dest: bit_imp_le_length)
  qed
  then show ?case using Suc by (auto simp: read_bytes_def bit_simps)
qed (simp add: read_bytes_def)

lemma write_bytes_apply:
  "write_bytes n d off v a =
    (if off \<le> a \<and> a < off + n then ucast (drop_bit (8 * (a - off)) v) else d a)"
  by (induction n) (auto simp: write_bytes_def less_Suc_eq)

lemma read_write_same:
  assumes "n \<le> 4"
  shows "read_bytes n (write_bytes n d off v) off = take_bit (8 * n) v"
proof (intro bit_word_eqI)
  fix i :: nat
  assume "i < LENGTH(32)"
  moreover have "i < 8 * n \<Longrightarrow> i div 8 < n" by (simp add: less_mult_imp_div_less)
  moreover have "8 * (i div 8) + i mod 8 = i" by simp
  ultimately show "bit (read_bytes n (write_bytes n d off v) off) i = bit (take_bit (8 * n) v) i"
    by (auto simp: bits_simps bit_simps write_bytes_apply)
qed

lemma read_write_disjoint:
  assumes "off + n \<le> off' \<or> off' + n' \<le> off"
  shows "read_bytes n' (write_bytes n d off v) off' = read_bytes n' d off'"
proof (intro bit_word_eqI)
  fix i :: nat
  have "i < 8 * n' \<Longrightarrow> i div 8 < n'" by (simp add: less_mult_imp_div_less)
  with assms show "bit (read_bytes n' (write_bytes n d off v) off') i = bit (read_bytes n' d off') i"
    by (auto simp: bits_simps write_bytes_apply)
qed

lemma read_bytes_bound: "from_u32 w (read_bytes (width_bytes w) d off) = read_bytes (width_bytes w) d off"
  by (intro bit_word_eqI) (auto simp: bits_simps)

lemma read_byte_of_word:
  assumes "k < 4"
  shows "read_bytes 1 d (off + k) = take_bit 8 (drop_bit (8 * k) (read_bytes 4 d off))"
proof (intro bit_word_eqI)
  fix i :: nat
  have "i < 8 \<Longrightarrow> i div 8 = 0 \<and> (8 * k + i) div 8 = k \<and> (8 * k + i) mod 8 = i" by simp
  with assms show "bit (read_bytes 1 d (off + k)) i = bit (take_bit 8 (drop_bit (8 * k) (read_bytes 4 d off))) i"
    by (auto simp: bits_simps bit_simps)
qed

section \<open>The contract of a byte-addressed memory\<close>

locale byte_memory =
  fixes inside :: "'m \<Rightarrow> addr_width \<Rightarrow> u32 \<Rightarrow> bool"
    and cell :: "u32 \<Rightarrow> nat"
    and cells :: "'m \<Rightarrow> nat \<Rightarrow> u8"
    and load :: "addr_width \<Rightarrow> u32 \<Rightarrow> 'm \<Rightarrow> u32 option"
    and store :: "addr_width \<Rightarrow> u32 \<Rightarrow> u32 \<Rightarrow> 'm \<Rightarrow> 'm option"
  assumes load_eq: "load w a m =
      (if inside m w a then Some (read_bytes (width_bytes w) (cells m) (cell a)) else None)"
    and store_returns: "inside m w a \<Longrightarrow> \<exists>m'. store w a v m = Some m'"
    and store_cells: "store w a v m = Some m' \<Longrightarrow> cells m' = write_bytes (width_bytes w) (cells m) (cell a) v"
    and store_inside: "store w a v m = Some m' \<Longrightarrow> inside m w a \<and> inside m' = inside m"
begin

lemma load_store_same:
  "store w a v m = Some m' \<Longrightarrow> load w a m' = Some (from_u32 w v)"
  using store_cells store_inside
  by (fastforce simp: load_eq read_write_same width_bytes_le from_u32_take_bit)

lemma load_store_disjoint:
  assumes "store w a v m = Some m'"
    and "cell a + width_bytes w \<le> cell b \<or> cell b + width_bytes w' \<le> cell a"
  shows "load w' b m' = load w' b m"
  using store_cells [OF assms(1)] store_inside [OF assms(1)] assms(2)
  by (simp add: load_eq read_write_disjoint)

lemma load_byte_of_word:
  assumes "inside m FullWord a" "inside m Byte b" "cell b = cell a + k" "k < 4" "load FullWord a m = Some v"
  shows "load Byte b m = Some (from_u32 Byte (drop_bit (8 * k) v))"
  using assms read_byte_of_word [OF assms(4)] by (auto simp: load_eq from_u32_take_bit)

lemma store_load_same: "inside m w a \<Longrightarrow> \<exists>m'. store w a v m = Some m' \<and> load w a m' = Some (from_u32 w v)"
  using store_returns load_store_same by metis

end

interpretation raw: byte_memory "\<lambda>m w a. unat a + width_bytes w \<le> mem_size m" unat mem_data raw_load raw_store
  by unfold_locales (auto simp: raw_load_def raw_store_def Let_def read_bytes_bound split: if_splits)

interpretation scratchpad: byte_memory "\<lambda>m w a. unat a + width_bytes w \<le> mem_size m" unat mem_data
    scratchpad_load scratchpad_store
  by unfold_locales (auto simp: scratchpad_load_def scratchpad_store_def raw_load_def raw_store_def Let_def
      read_bytes_bound split: if_splits)

abbreviation ram_cell :: "u32 \<Rightarrow> nat" where
  "ram_cell a \<equiv> unat a mod 2097152"

lemma ram_cell_eq: "unat (bit_range a 0 20) = ram_cell a" for a :: u32
  by (simp add: unat_bit_range)

interpretation ram: byte_memory "\<lambda>m w a. ram_cell a + width_bytes w \<le> mem_size m" ram_cell mem_data ram_load ram_store
  by unfold_locales (auto simp: ram_load_def ram_store_def raw_load_def raw_store_def Let_def ram_cell_eq
      read_bytes_bound split: if_splits)

lemma ram_unchecked: "ram_load_unchecked w a m = ram_load w a m" "ram_store_unchecked w a v m = ram_store w a v m"
  by (simp_all add: ram_load_unchecked_def ram_load_def ram_store_unchecked_def ram_store_def
      raw_load_unchecked_def raw_load_def raw_store_unchecked_def raw_store_def Let_def)

text \<open>An aligned unit never straddles the end of the 2 MiB, so the unchecked accesses of the
  bus are in bounds.\<close>

definition ram_ok :: "raw_mem \<Rightarrow> bool" where
  "ram_ok m \<longleftrightarrow> mem_size m = RAM_SIZE"

lemma aligned_nat: "is_aligned_to w a \<longleftrightarrow> unat a mod width_bytes w = 0"
  by (cases w) (simp_all add: is_aligned_to_def word_unat_eq_iff unat_mod_distrib)

lemma ram_inside:
  assumes "ram_ok m" "is_aligned_to w a"
  shows "ram_cell a + width_bytes w \<le> mem_size m"
proof -
  have "unat a mod 2097152 mod width_bytes w = 0"
    using assms(2) by (cases w) (simp_all add: aligned_nat mod_mod_cancel)
  then obtain q where q: "unat a mod 2097152 = width_bytes w * q" by (auto elim: dvdE)
  have "width_bytes w * q < 2097152" using q [symmetric] by simp
  then have "width_bytes w * q + width_bytes w \<le> 2097152" by (cases w) (simp; arith)+
  then have "unat a mod 2097152 + width_bytes w \<le> 2097152" by (simp only: q)
  then show ?thesis using assms(1) by (simp add: ram_ok_def RAM_SIZE_def)
qed


lemma read_write_byte:
  assumes "k < n"
  shows "read_bytes 1 (write_bytes n d off v) (off + k) = take_bit 8 (drop_bit (8 * k) v)"
proof (intro bit_word_eqI)
  fix i :: nat assume "i < LENGTH(32)"
  have "i < 8 \<Longrightarrow> i div 8 = 0 \<and> i mod 8 = i" by simp
  with assms \<open>i < LENGTH(32)\<close>
  show "bit (read_bytes 1 (write_bytes n d off v) (off + k)) i = bit (take_bit 8 (drop_bit (8 * k) v)) i"
    by (auto simp: bits_simps bit_simps write_bytes_apply add.commute)
qed

lemma ram_cell_add: "ram_cell a + k < 2097152 \<Longrightarrow> ram_cell (a + word_of_nat k) = ram_cell a + k"
proof -
  assume k: "ram_cell a + k < 2097152"
  have "ram_cell (a + word_of_nat k) = (unat a + k) mod 2097152"
    by (simp add: unat_word_ariths unsigned_of_nat take_bit_eq_mod mod_mod_cancel mod_simps)
  also have "\<dots> = (ram_cell a + k) mod 2097152" by (simp add: mod_simps)
  finally show ?thesis using k by simp
qed

section \<open>Properties\<close>

text \<open>C7: the RAM. An aligned store through the unchecked accessor stays inside the buffer; afterwards
  the unit reads back, truncated to its width, at its address and at every mirror of it (the
  address modulo 2 MiB); its bytes are little-endian; and every aligned unit that does not
  overlap it reads as before, without leaving the buffer.\<close>

theorem ram_store_load:
  assumes "ram_ok m" "is_aligned_to w a"
  shows "\<exists>m'. ram_store_unchecked w a v m = Some m' \<and> ram_ok m'
    \<and> (\<forall>b. unat b mod 2097152 = unat a mod 2097152 \<longrightarrow> ram_load_unchecked w b m' = Some (from_u32 w v))
    \<and> (\<forall>k < width_bytes w. ram_load_unchecked Byte (a + word_of_nat k) m' = Some (take_bit 8 (drop_bit (8 * k) v)))
    \<and> (\<forall>w' b. is_aligned_to w' b \<and> (unat a mod 2097152 + width_bytes w \<le> unat b mod 2097152
                 \<or> unat b mod 2097152 + width_bytes w' \<le> unat a mod 2097152) \<longrightarrow>
          ram_load_unchecked w' b m' = ram_load_unchecked w' b m \<and> ram_load_unchecked w' b m \<noteq> None)"
proof -
  note ins = ram_inside [OF assms]
  obtain m' where m': "ram_store w a v m = Some m'" using ram.store_returns [OF ins] by blast
  have cells: "mem_data m' = write_bytes (width_bytes w) (mem_data m) (ram_cell a) v"
    by (rule ram.store_cells [OF m'])
  have size: "mem_size m' = mem_size m"
    using m' by (auto simp: ram_store_def raw_store_def Let_def split: if_splits)
  have ok: "ram_ok m'" using assms(1) size by (simp add: ram_ok_def)
  have mirror: "ram_load w b m' = ram_load w a m'" if "ram_cell b = ram_cell a" for b
    by (simp add: ram.load_eq that)
  have bytes: "ram_load Byte (a + word_of_nat k) m' = Some (take_bit 8 (drop_bit (8 * k) v))"
    if k: "k < width_bytes w" for k
  proof -
    have "ram_cell a + k < 2097152" using ins k assms(1) by (simp add: ram_ok_def RAM_SIZE_def)
    then show ?thesis
      using k ins by (simp add: ram.load_eq ram_cell_add cells size read_write_byte [simplified])
  qed
  have inside: "ram_load w' b m \<noteq> None" if "is_aligned_to w' b" for w' b
    using ram_inside [OF assms(1) that] by (simp add: ram.load_eq)
  show ?thesis
    using m' ok mirror ram.load_store_same [OF m'] bytes ram.load_store_disjoint [OF m'] inside
    by (auto simp: ram_unchecked)
qed

theorem ram_store_load_witness:
  "\<exists>m. ram_store_unchecked FullWord 0x100 0xcafebabe ram_new = Some m
    \<and> ram_load_unchecked FullWord 0x200100 m = Some 0xcafebabe
    \<and> ram_load_unchecked Byte 0x102 m = Some 0xfe"
proof -
  have ok: "ram_ok ram_new" by (simp add: ram_ok_def ram_new_def raw_new_def)
  have al: "is_aligned_to FullWord 0x100" by (simp add: is_aligned_to_def)
  obtain m where m: "ram_store_unchecked FullWord 0x100 0xcafebabe ram_new = Some m"
    "\<forall>b. unat b mod 2097152 = unat (0x100 :: u32) mod 2097152 \<longrightarrow> ram_load_unchecked FullWord b m = Some (from_u32 FullWord 0xcafebabe)"
    "\<forall>k < width_bytes FullWord. ram_load_unchecked Byte (0x100 + word_of_nat k) m = Some (take_bit 8 (drop_bit (8 * k) 0xcafebabe))"
    using ram_store_load [OF ok al, of "0xcafebabe"] by blast
  show ?thesis
    using m(1) m(2) [rule_format, of "0x200100"] m(3) [rule_format, of 2] by (auto simp: take_bit_eq_mod)
qed

end
