(* ===== verification/Irq.thy ===== *)
theory Irq
  imports Schedule AddrUnit
begin

text \<open>
  \<open>crates/splst_core/src/cpu/irq.rs\<close>: the interrupt status and mask registers, and their
  refinement of the abstract interrupt controller: a set of pending and a set of enabled
  interrupts.
\<close>

record irq_state =
  irq_status :: u32
  irq_mask :: u32

definition irq_new :: irq_state where
  "irq_new = \<lparr>irq_status = 0, irq_mask = 0\<rparr>"

definition irq_trigger :: "irq \<Rightarrow> irq_state \<Rightarrow> irq_state" where
  "irq_trigger irq st = st\<lparr>irq_status := irq_status st OR push_bit (irq_index irq) 1\<rparr>"

definition irq_active :: "irq_state \<Rightarrow> bool" where
  "irq_active st \<longleftrightarrow> irq_status st AND irq_mask st \<noteq> 0"

definition irq_is_triggered :: "irq \<Rightarrow> irq_state \<Rightarrow> bool" where
  "irq_is_triggered irq st = bit_at (irq_status st) (irq_index irq)"

definition irq_is_masked :: "irq \<Rightarrow> irq_state \<Rightarrow> bool" where
  "irq_is_masked irq st = bit_at (irq_mask st) (irq_index irq)"

text \<open>The \<open>unreachable!\<close> of \<open>store\<close> and \<open>load\<close> is \<^term>\<open>None\<close>.\<close>

definition irq_store :: "u32 \<Rightarrow> u32 \<Rightarrow> schedule \<Rightarrow> irq_state \<Rightarrow> (schedule \<times> irq_state) option" where
  "irq_store offset val sch st =
     (let val = as_u32_aligned val offset; sch = snd (trigger EvIrqCheck sch);
          reg = align_as FullWord offset
      in if reg = 0 then Some (sch, st\<lparr>irq_status := irq_status st AND val\<rparr>)
         else if reg = 4 then Some (sch, st\<lparr>irq_mask := val\<rparr>)
         else None)"

definition irq_load :: "addr_width \<Rightarrow> u32 \<Rightarrow> irq_state \<Rightarrow> u32 option" where
  "irq_load w offset st =
     (let reg = align_as FullWord offset in
      if reg = 0 then Some (from_u32_aligned w (irq_status st) offset)
      else if reg = 4 then Some (from_u32_aligned w (irq_mask st) offset)
      else None)"

definition irq_bus :: "u32 \<times> u32" where
  "irq_bus = (0x1f801070, 0x1f801070 + 8 - 1)"

section \<open>Sequences of operations\<close>

datatype irq_op = IrqTrigger irq | IrqStore u32 u32

fun irq_exec :: "irq_op \<Rightarrow> schedule \<times> irq_state \<Rightarrow> (schedule \<times> irq_state) option" where
  "irq_exec (IrqTrigger i) (sch, st) = Some (sch, irq_trigger i st)"
| "irq_exec (IrqStore offset val) (sch, st) = irq_store offset val sch st"

fun irq_run :: "irq_op list \<Rightarrow> schedule \<times> irq_state \<Rightarrow> (schedule \<times> irq_state) option" where
  "irq_run [] x = Some x"
| "irq_run (op # ops) x = Option.bind (irq_exec op x) (irq_run ops)"

section \<open>The abstract interrupt controller\<close>

type_synonym irq_abs = "irq set \<times> irq set"

definition irq_set :: "u32 \<Rightarrow> irq set" where
  "irq_set w = {i. bit w (irq_index i)}"

definition irq_abs :: "irq_state \<Rightarrow> irq_abs" where
  "irq_abs st = (irq_set (irq_status st), irq_set (irq_mask st))"

text \<open>A request becomes pending; a write to the status register acknowledges the interrupts
  whose bit is clear; a write to the mask register replaces the enabled set.\<close>

fun irq_spec :: "irq_op \<Rightarrow> irq_abs \<Rightarrow> irq_abs" where
  "irq_spec (IrqTrigger i) (pending, enabled) = (insert i pending, enabled)"
| "irq_spec (IrqStore offset val) (pending, enabled) =
     (if offset < 4 then (pending \<inter> irq_set (as_u32_aligned val offset), enabled)
      else (pending, irq_set (as_u32_aligned val offset)))"

section \<open>Lemmas\<close>

text \<open>Only the ten interrupts of the machine ever appear in the status register.\<close>

definition irq_ok :: "irq_state \<Rightarrow> bool" where
  "irq_ok st \<longleftrightarrow> (\<forall>k\<ge>10. \<not> bit (irq_status st) k)"

lemma irq_index_less_word [simp]: "irq_index i < 32"
  using irq_index_less [of i] by simp

lemma irq_set_and [simp]: "irq_set (a AND b) = irq_set a \<inter> irq_set b"
  by (auto simp: irq_set_def bit_simps)

lemma irq_set_trigger [simp]: "irq_set (a OR push_bit (irq_index i) 1) = insert i (irq_set a)"
  by (auto simp: irq_set_def bit_simps)

lemma irq_set_trigger_exp [simp]: "irq_set (a OR 2 ^ irq_index i) = insert i (irq_set a)"
  using irq_set_trigger [of a i] by simp

lemma irq_set_0 [simp]: "irq_set 0 = {}"
  by (simp add: irq_set_def)

lemma irq_index_onto: "k < 10 \<Longrightarrow> \<exists>i. irq_index i = k"
proof -
  assume "k < 10"
  then have "k = 0 \<or> k = 1 \<or> k = 2 \<or> k = 3 \<or> k = 4 \<or> k = 5 \<or> k = 6 \<or> k = 7 \<or> k = 8 \<or> k = 9"
    by arith
  then show ?thesis
    by (elim disjE) (metis irq_index.simps)+
qed

lemma irq_active_iff:
  assumes "irq_ok st"
  shows "irq_active st \<longleftrightarrow> fst (irq_abs st) \<inter> snd (irq_abs st) \<noteq> {}"
proof -
  have small: "\<forall>k\<ge>10. \<not> bit (irq_status st) k"
    using assms by (simp add: irq_ok_def)
  have "irq_active st \<longleftrightarrow> (\<exists>k. bit (irq_status st) k \<and> bit (irq_mask st) k)"
    by (auto simp: irq_active_def word_eq_0_iff_bits bit_simps)
  also have "\<dots> \<longleftrightarrow> (\<exists>k<10. bit (irq_status st) k \<and> bit (irq_mask st) k)"
    using small not_less by blast
  also have "\<dots> \<longleftrightarrow> (\<exists>i. bit (irq_status st) (irq_index i) \<and> bit (irq_mask st) (irq_index i))"
    using irq_index_onto irq_index_less by blast
  finally show ?thesis by (auto simp: irq_abs_def irq_set_def)
qed

lemma irq_exec_returns:
  assumes "case op of IrqTrigger _ \<Rightarrow> True | IrqStore offset _ \<Rightarrow> offset < 8"
  shows "\<exists>sch' st'. irq_exec op (sch, st) = Some (sch', st')
    \<and> irq_abs st' = irq_spec op (irq_abs st) \<and> (irq_ok st \<longrightarrow> irq_ok st')"
proof (cases op)
  case (IrqTrigger i)
  have "irq_index i < 10" by (rule irq_index_less)
  then have "irq_ok st \<longrightarrow> irq_ok (irq_trigger i st)"
    by (auto simp: irq_ok_def irq_trigger_def bit_simps)
  with IrqTrigger show ?thesis by (simp add: irq_abs_def irq_trigger_def)
next
  case (IrqStore offset val)
  have al: "unat (align_as FullWord offset) = unat offset div 4 * 4" by (rule unat_align_word)
  have ok: "irq_ok st \<longrightarrow> irq_ok (st\<lparr>irq_status := irq_status st AND v\<rparr>)" for v
    by (auto simp: irq_ok_def bit_simps)
  have "unat offset < 8" using assms IrqStore by (simp add: word_less_nat_alt)
  then consider "unat offset < 4" | "4 \<le> unat offset" "unat offset < 8" by linarith
  then show ?thesis
  proof cases
    case 1
    then have "align_as FullWord offset = 0" "offset < 4"
      using al by (simp_all add: word_unat_eq_iff word_less_nat_alt)
    then show ?thesis using IrqStore ok by (simp add: irq_store_def Let_def irq_abs_def)
  next
    case 2
    then have "unat offset div 4 = 1" by (simp add: div_nat_eqI)
    then have "align_as FullWord offset = 4" "\<not> offset < 4"
      using al 2 by (simp_all add: word_unat_eq_iff word_less_nat_alt)
    then show ?thesis using IrqStore by (simp add: irq_store_def Let_def irq_abs_def irq_ok_def)
  qed
qed

section \<open>Properties\<close>

text \<open>C6: the interrupt registers refine the abstract interrupt controller. Any sequence of
  interrupt requests and register writes inside the device's range returns (no
  \<open>unreachable!\<close>), leaves the pending and enabled sets the specification gives, and
  \<open>active\<close> holds exactly when some interrupt is both pending and enabled.\<close>

theorem irq_refines_controller:
  assumes "\<forall>op \<in> set ops. case op of IrqTrigger _ \<Rightarrow> True | IrqStore offset _ \<Rightarrow> offset < 8"
  shows "\<exists>sch' st'. irq_run ops (sch, irq_new) = Some (sch', st')
    \<and> irq_abs st' = fold irq_spec ops ({}, {})
    \<and> (irq_active st' \<longleftrightarrow> fst (irq_abs st') \<inter> snd (irq_abs st') \<noteq> {})"
proof -
  have "\<exists>sch' st'. irq_run ops (sch, st) = Some (sch', st')
      \<and> irq_abs st' = fold irq_spec ops (irq_abs st) \<and> irq_ok st'" if "irq_ok st" for st
    using assms that
  proof (induction ops arbitrary: sch st)
    case (Cons op ops)
    obtain sch' st' where step: "irq_exec op (sch, st) = Some (sch', st')"
        "irq_abs st' = irq_spec op (irq_abs st)" "irq_ok st'"
      using irq_exec_returns [of op sch st] Cons.prems by auto
    then show ?case using Cons.IH [of st' sch'] Cons.prems by simp
  qed simp
  moreover have "irq_ok irq_new" "irq_abs irq_new = ({}, {})"
    by (simp_all add: irq_ok_def irq_new_def irq_abs_def)
  ultimately obtain sch' st' where "irq_run ops (sch, irq_new) = Some (sch', st')"
      "irq_abs st' = fold irq_spec ops ({}, {})" "irq_ok st'"
    by metis
  then show ?thesis using irq_active_iff by blast
qed

theorem irq_refines_controller_witness:
  "\<exists>sch' st'. irq_run [IrqTrigger VBlank, IrqStore 4 1, IrqTrigger DmaIrq] (schedule_new, irq_new) = Some (sch', st')
     \<and> irq_active st'"
proof -
  let ?ops = "[IrqTrigger VBlank, IrqStore 4 1, IrqTrigger DmaIrq]"
  have "\<forall>op \<in> set ?ops. case op of IrqTrigger _ \<Rightarrow> True | IrqStore offset _ \<Rightarrow> offset < 8" by simp
  from irq_refines_controller [OF this, of schedule_new]
  obtain sch' st' where run: "irq_run ?ops (schedule_new, irq_new) = Some (sch', st')"
    and abs: "irq_abs st' = fold irq_spec ?ops ({}, {})"
    and act: "irq_active st' \<longleftrightarrow> fst (irq_abs st') \<inter> snd (irq_abs st') \<noteq> {}"
    by blast
  have "VBlank \<in> fst (irq_abs st') \<inter> snd (irq_abs st')"
    unfolding abs by (simp add: irq_set_def as_u32_aligned_def Let_def)
  with run act show ?thesis by blast
qed

end
