(* ===== verification/Timer.thy ===== *)
theory Timer
  imports Schedule AddrUnit
begin

text \<open>
  \<open>crates/splst_core/src/timer.rs\<close>: the three timers. Operations take and return the schedule they
  trigger events in; \<open>expect\<close> and \<open>unreachable!\<close> are \<^term>\<open>None\<close>. The array of timers is a
  function of the timer id, which is always a valid index.
\<close>

datatype sync_mode = HblankPause | HblankReset | HblankResetAndRun | HblankWait
  | VblankPause | VblankReset | VblankResetAndRun | VblankWait | Stop | FreeRun

datatype clock_source = SystemClock | DotClock | Hblank | SystemClockDiv8

fun irq_kind :: "timer_id \<Rightarrow> irq" where
  "irq_kind Tmr0 = Tmr0Irq"
| "irq_kind Tmr1 = Tmr1Irq"
| "irq_kind Tmr2 = Tmr2Irq"

definition timer_from_index :: "u32 \<Rightarrow> timer_id option" where
  "timer_from_index val =
     (if val = 0 then Some Tmr0 else if val = 1 then Some Tmr1 else if val = 2 then Some Tmr2 else None)"

fun time_to_ticks :: "clock_source \<Rightarrow> systime \<Rightarrow> u64" where
  "time_to_ticks SystemClock time = as_cpu_cycles time"
| "time_to_ticks SystemClockDiv8 time = as_cpu_cycles time div 8"
| "time_to_ticks DotClock time = as_gpu_ntsc_cycles time"
| "time_to_ticks Hblank time = 0"

fun ticks_to_time :: "clock_source \<Rightarrow> u64 \<Rightarrow> systime" where
  "ticks_to_time SystemClock ticks = systime_new ticks"
| "ticks_to_time SystemClockDiv8 ticks = systime_new (ticks * 8)"
| "ticks_to_time DotClock ticks = from_gpu_ntsc_cycles ticks"
| "ticks_to_time Hblank ticks = time_ZERO"

section \<open>The mode register\<close>

type_synonym mode = u16

definition sync_enabled :: "mode \<Rightarrow> bool" where "sync_enabled m = bit_at m 0"

definition mode_sync_mode :: "mode \<Rightarrow> timer_id \<Rightarrow> sync_mode" where
  "mode_sync_mode m timer =
     (let v = bit_range m 1 2 in
      case timer of
        Tmr0 \<Rightarrow> if v = 0 then HblankPause else if v = 1 then HblankReset
                 else if v = 2 then HblankResetAndRun else HblankWait
      | Tmr1 \<Rightarrow> if v = 0 then VblankPause else if v = 1 then VblankReset
                 else if v = 2 then VblankResetAndRun else VblankWait
      | Tmr2 \<Rightarrow> if v = 0 \<or> v = 3 then Stop else FreeRun)"

definition reset_on_target :: "mode \<Rightarrow> bool" where "reset_on_target m = bit_at m 3"
definition irq_on_target :: "mode \<Rightarrow> bool" where "irq_on_target m = bit_at m 4"
definition irq_on_overflow :: "mode \<Rightarrow> bool" where "irq_on_overflow m = bit_at m 5"
definition irq_repeat :: "mode \<Rightarrow> bool" where "irq_repeat m = bit_at m 6"
definition irq_toggle_mode :: "mode \<Rightarrow> bool" where "irq_toggle_mode m = bit_at m 7"

definition mode_clock_source :: "mode \<Rightarrow> timer_id \<Rightarrow> clock_source" where
  "mode_clock_source m timer =
     (let v = bit_range m 8 9 in
      case timer of
        Tmr0 \<Rightarrow> if v = 0 \<or> v = 2 then SystemClock else DotClock
      | Tmr1 \<Rightarrow> if v = 0 \<or> v = 2 then SystemClock else Hblank
      | Tmr2 \<Rightarrow> if v = 0 \<or> v = 1 then SystemClock else SystemClockDiv8)"

definition master_irq_flag :: "mode \<Rightarrow> bool" where "master_irq_flag m = bit_at m 10"
definition mode_target_reached :: "mode \<Rightarrow> bool" where "mode_target_reached m = bit_at m 11"
definition mode_overflow_reached :: "mode \<Rightarrow> bool" where "mode_overflow_reached m = bit_at m 12"

definition set_master_irq_flag :: "bool \<Rightarrow> mode \<Rightarrow> mode" where
  "set_master_irq_flag v m = set_bit_at m 10 v"
definition set_target_reached :: "bool \<Rightarrow> mode \<Rightarrow> mode" where
  "set_target_reached v m = set_bit_at m 11 v"
definition set_overflow_reached :: "bool \<Rightarrow> mode \<Rightarrow> mode" where
  "set_overflow_reached v m = set_bit_at m 12 v"

definition mode_store :: "u16 \<Rightarrow> mode \<Rightarrow> mode" where
  "mode_store val m = set_master_irq_flag True (m OR (val AND 0x3ff))"

definition mode_load :: "mode \<Rightarrow> u16 \<times> mode" where
  "mode_load m = (m, set_overflow_reached False (set_target_reached False m))"

section \<open>A timer\<close>

record timer =
  tmr_id :: timer_id
  tmr_mode :: mode
  tmr_counter :: u16
  tmr_target :: u16
  tmr_has_triggered :: bool
  tmr_next_update :: "event_id option"

definition timer_new :: "timer_id \<Rightarrow> timer" where
  "timer_new i = \<lparr>tmr_id = i, tmr_mode = 0, tmr_counter = 0, tmr_target = 0,
     tmr_has_triggered = False, tmr_next_update = None\<rparr>"

definition timer_load :: "u32 \<Rightarrow> timer \<Rightarrow> (u16 \<times> timer) option" where
  "timer_load offset t =
     (let reg = bit_range offset 0 3 in
      if reg = 0 then Some (tmr_counter t, t)
      else if reg = 4 then (let (v, m) = mode_load (tmr_mode t) in Some (v, t\<lparr>tmr_mode := m\<rparr>))
      else if reg = 8 then Some (tmr_target t, t)
      else None)"

definition timer_peek :: "u32 \<Rightarrow> timer \<Rightarrow> u16 option" where
  "timer_peek offset t =
     (let reg = bit_range offset 0 3 in
      if reg = 0 then Some (tmr_counter t)
      else if reg = 4 then Some (tmr_mode t)
      else if reg = 8 then Some (tmr_target t)
      else None)"

definition timer_store :: "u32 \<Rightarrow> u16 \<Rightarrow> timer \<Rightarrow> timer option" where
  "timer_store offset val t =
     (let reg = bit_range offset 0 3 in
      if reg = 0 then Some (t\<lparr>tmr_has_triggered := False, tmr_counter := val\<rparr>)
      else if reg = 4 then
        Some (t\<lparr>tmr_counter := 0, tmr_has_triggered := False, tmr_mode := mode_store val (tmr_mode t)\<rparr>)
      else if reg = 8 then Some (t\<lparr>tmr_target := val\<rparr>)
      else None)"

definition trigger_irq :: "schedule \<times> timer \<Rightarrow> schedule \<times> timer" where
  "trigger_irq = (\<lambda>(sch, t).
     if irq_repeat (tmr_mode t) \<or> \<not> tmr_has_triggered t then
       let t = t\<lparr>tmr_has_triggered := True\<rparr>;
           sch = (if master_irq_flag (tmr_mode t) then snd (trigger (EvIrq (irq_kind (tmr_id t))) sch) else sch)
       in if irq_toggle_mode (tmr_mode t) then
            (sch, t\<lparr>tmr_mode := set_master_irq_flag (\<not> master_irq_flag (tmr_mode t)) (tmr_mode t)\<rparr>)
          else
            (snd (schedule_event (systime_new 20) (EvTimer (tmr_id t) enable_irq_master_flag_cb) sch),
             t\<lparr>tmr_mode := set_master_irq_flag False (tmr_mode t)\<rparr>)
     else (sch, t))"

definition target_reached :: "schedule \<times> timer \<Rightarrow> schedule \<times> timer" where
  "target_reached = (\<lambda>(sch, t).
     let t = t\<lparr>tmr_mode := set_target_reached True (tmr_mode t)\<rparr>;
         t = (if reset_on_target (tmr_mode t) then t\<lparr>tmr_counter := 0\<rparr> else t)
     in if irq_on_target (tmr_mode t) then trigger_irq (sch, t) else (sch, t))"

definition add_to_counter :: "u16 \<Rightarrow> schedule \<times> timer \<Rightarrow> schedule \<times> timer" where
  "add_to_counter add = (\<lambda>(sch, t).
     let value = tmr_counter t + add in
     if unat (tmr_counter t) + unat add < 2 ^ 16 then
       let t = t\<lparr>tmr_counter := value\<rparr>
       in if value \<ge> tmr_target t then target_reached (sch, t) else (sch, t)
     else
       let prev_counter = tmr_counter t;
           t = t\<lparr>tmr_counter := value\<rparr>;
           (sch, t) = (if tmr_target t > prev_counter then target_reached (sch, t) else (sch, t));
           (sch, t) = (if irq_on_overflow (tmr_mode t) then trigger_irq (sch, t) else (sch, t))
       in (sch, t\<lparr>tmr_mode := set_overflow_reached True (tmr_mode t)\<rparr>))"

definition timer_clock_source :: "timer \<Rightarrow> clock_source" where
  "timer_clock_source t = mode_clock_source (tmr_mode t) (tmr_id t)"

definition timer_sync_mode :: "timer \<Rightarrow> sync_mode" where
  "timer_sync_mode t = mode_sync_mode (tmr_mode t) (tmr_id t)"

definition predict_next_irq :: "timer \<Rightarrow> systime option" where
  "predict_next_irq t =
     (if \<not> irq_on_overflow (tmr_mode t) \<and> \<not> irq_on_target (tmr_mode t) then None
      else if \<not> irq_repeat (tmr_mode t) \<and> tmr_has_triggered t then None
      else if mode_clock_source (tmr_mode t) (tmr_id t) = Hblank then None
      else if sync_enabled (tmr_mode t) \<and> mode_sync_mode (tmr_mode t) (tmr_id t) = Stop then None
      else
        let target = (if irq_on_target (tmr_mode t) then
                        (if tmr_counter t \<ge> tmr_target t then -1 else tmr_target t)
                      else -1);
            ticks_left = target - tmr_counter t
        in Some (ticks_to_time (timer_clock_source t) (ucast ticks_left)))"

definition schedule_next_run :: "schedule \<times> timer \<Rightarrow> schedule \<times> timer" where
  "schedule_next_run = (\<lambda>(sch, t).
     case predict_next_irq t of
       None \<Rightarrow> (sch, t\<lparr>tmr_next_update := None\<rparr>)
     | Some time \<Rightarrow>
         let sch = (case tmr_next_update t of Some i \<Rightarrow> unschedule i sch | None \<Rightarrow> sch);
             (i, sch) = schedule_event time (EvTimer (tmr_id t) run_timer_cb) sch
         in (sch, t\<lparr>tmr_next_update := Some i\<rparr>))"

text \<open>The loop of \<open>run\<close>: chunks of \<open>u16::MAX\<close> ticks, then the rest.\<close>

function timer_run :: "nat \<Rightarrow> schedule \<times> timer \<Rightarrow> schedule \<times> timer" where
  "timer_run ticks x =
     (if 65535 \<le> ticks then timer_run (ticks - 65535) (add_to_counter (-1) x)
      else add_to_counter (word_of_nat ticks) x)"
  by pat_completeness auto
termination
  by (relation "measure fst") auto

declare timer_run.simps [simp del]

section \<open>The three timers\<close>

type_synonym timers = "timer_id \<Rightarrow> timer \<times> timestamp"

definition timers_new :: timers where
  "timers_new i = (timer_new i, STARTUP)"

definition update_timer :: "timer_id \<Rightarrow> schedule \<times> timers \<Rightarrow> (schedule \<times> timers) option" where
  "update_timer i = (\<lambda>(sch, ts).
     let (tmr, last_update) = ts i in
     case time_since (sched_now sch) last_update of
       None \<Rightarrow> None
     | Some time \<Rightarrow>
         let last_update = sched_now sch in
         if timer_clock_source tmr \<noteq> Hblank then
           let (sch, tmr) = timer_run (unat (time_to_ticks (timer_clock_source tmr) time)) (sch, tmr)
           in Some (sch, ts(i := (tmr, last_update)))
         else Some (sch, ts(i := (tmr, last_update))))"

definition reschedule_timer :: "timer_id \<Rightarrow> schedule \<times> timers \<Rightarrow> schedule \<times> timers" where
  "reschedule_timer i = (\<lambda>(sch, ts).
     let (tmr, last_update) = ts i; (sch, tmr) = schedule_next_run (sch, tmr)
     in (sch, ts(i := (tmr, last_update))))"

definition timers_load :: "addr_width \<Rightarrow> u32 \<Rightarrow> schedule \<times> timers \<Rightarrow> (u32 \<times> schedule \<times> timers) option" where
  "timers_load w offset x =
     Option.bind (timer_from_index (bit_range offset 4 5)) (\<lambda>i.
     Option.bind (update_timer i x) (\<lambda>(sch, ts).
     Option.bind (timer_load offset (fst (ts i))) (\<lambda>(val, tmr).
       let (sch, ts) = reschedule_timer i (sch, ts(i := (tmr, snd (ts i))))
       in Some (from_u32 w (ucast val), sch, ts))))"

definition timers_peek :: "addr_width \<Rightarrow> u32 \<Rightarrow> timers \<Rightarrow> u32 option" where
  "timers_peek w offset ts =
     Option.bind (timer_from_index (bit_range offset 4 5)) (\<lambda>i.
     Option.bind (timer_peek (align_as FullWord offset) (fst (ts i))) (\<lambda>val.
       Some (from_u32_aligned w (ucast val) offset)))"

definition timers_store :: "u32 \<Rightarrow> u32 \<Rightarrow> schedule \<times> timers \<Rightarrow> (schedule \<times> timers) option" where
  "timers_store offset val x =
     Option.bind (timer_from_index (bit_range offset 4 5)) (\<lambda>i.
     Option.bind (update_timer i x) (\<lambda>(sch, ts).
     Option.bind (timer_store offset (as_u16 val) (fst (ts i))) (\<lambda>tmr.
       Some (reschedule_timer i (sch, ts(i := (tmr, snd (ts i))))))))"

definition run_timer :: "timer_id \<Rightarrow> schedule \<times> timers \<Rightarrow> (schedule \<times> timers) option" where
  "run_timer i x = Option.bind (update_timer i x) (\<lambda>y. Some (reschedule_timer i y))"

definition enable_irq_master_flag :: "timer_id \<Rightarrow> schedule \<times> timers \<Rightarrow> schedule \<times> timers" where
  "enable_irq_master_flag i = (\<lambda>(sch, ts).
     let (tmr, last_update) = ts i
     in (sch, ts(i := (tmr\<lparr>tmr_mode := set_master_irq_flag True (tmr_mode tmr)\<rparr>, last_update))))"

definition timers_hblank :: "u64 \<Rightarrow> schedule \<times> timers \<Rightarrow> schedule \<times> timers" where
  "timers_hblank n = (\<lambda>(sch, ts).
     let (tmr1, last_update) = ts Tmr1 in
     if timer_clock_source tmr1 = Hblank then
       let (sch, tmr1) = timer_run (unat n) (sch, tmr1) in (sch, ts(Tmr1 := (tmr1, last_update)))
     else (sch, ts))"

definition timers_bus :: "u32 \<times> u32" where
  "timers_bus = (0x1f801100, 0x1f801100 + 48 - 1)"

section \<open>Frame lemmas\<close>

text \<open>The configuration bits 0 to 9 of the mode register are written only by \<open>mode_store\<close>.\<close>

lemma mode_bits_frame [simp]:
  "n \<noteq> 10 \<Longrightarrow> bit_at (set_master_irq_flag v m) n = bit_at m n"
  "n \<noteq> 11 \<Longrightarrow> bit_at (set_target_reached v m) n = bit_at m n"
  "n \<noteq> 12 \<Longrightarrow> bit_at (set_overflow_reached v m) n = bit_at m n"
  by (simp_all add: set_master_irq_flag_def set_target_reached_def set_overflow_reached_def bit_at_set_bit_at)

lemma mode_bits_set [simp]:
  "bit_at (set_master_irq_flag v m) 10 = v"
  "bit_at (set_target_reached v m) 11 = v"
  "bit_at (set_overflow_reached v m) 12 = v"
  by (simp_all add: set_master_irq_flag_def set_target_reached_def set_overflow_reached_def bit_at_set_bit_at)

lemmas mode_defs = sync_enabled_def reset_on_target_def irq_on_target_def irq_on_overflow_def
  irq_repeat_def irq_toggle_mode_def master_irq_flag_def mode_target_reached_def mode_overflow_reached_def

definition same_config :: "timer \<Rightarrow> timer \<Rightarrow> bool" where
  "same_config t t' \<longleftrightarrow> tmr_id t' = tmr_id t \<and> tmr_target t' = tmr_target t
     \<and> (\<forall>n<10. bit_at (tmr_mode t') n = bit_at (tmr_mode t) n)"

lemma same_config_refl [simp]: "same_config t t"
  by (simp add: same_config_def)

lemma same_config_trans: "same_config t t' \<Longrightarrow> same_config t' t'' \<Longrightarrow> same_config t t''"
  by (simp add: same_config_def)

lemma same_configD:
  assumes "same_config t t'"
  shows "reset_on_target (tmr_mode t') = reset_on_target (tmr_mode t)"
    "irq_on_target (tmr_mode t') = irq_on_target (tmr_mode t)"
    "irq_on_overflow (tmr_mode t') = irq_on_overflow (tmr_mode t)"
    "irq_repeat (tmr_mode t') = irq_repeat (tmr_mode t)"
    "tmr_id t' = tmr_id t" "tmr_target t' = tmr_target t"
  using assms by (auto simp: same_config_def mode_defs)

lemma trigger_irq_config: "same_config t (snd (trigger_irq (sch, t)))"
  by (auto simp: trigger_irq_def same_config_def Let_def)

lemma trigger_irq_counter [simp]: "tmr_counter (snd (trigger_irq x)) = tmr_counter (snd x)"
  by (cases x) (auto simp: trigger_irq_def Let_def)

lemma trigger_irq_spent:
  "\<not> irq_repeat (tmr_mode t) \<Longrightarrow> tmr_has_triggered t \<Longrightarrow> trigger_irq (sch, t) = (sch, t)"
  by (simp add: trigger_irq_def)

lemma trigger_irq_has_triggered: "tmr_has_triggered (snd (trigger_irq (sch, t)))"
  by (auto simp: trigger_irq_def Let_def)

lemma target_reached_config: "same_config t (snd (target_reached (sch, t)))"
proof -
  let ?t = "t\<lparr>tmr_mode := set_target_reached True (tmr_mode t)\<rparr>"
  have a: "same_config t ?t" "same_config t (?t\<lparr>tmr_counter := 0\<rparr>)" by (auto simp: same_config_def)
  show ?thesis
    using a same_config_trans [OF a(1) trigger_irq_config] same_config_trans [OF a(2) trigger_irq_config]
    by (auto simp: target_reached_def Let_def)
qed

lemma target_reached_counter:
  "\<not> reset_on_target (tmr_mode t) \<Longrightarrow> tmr_counter (snd (target_reached (sch, t))) = tmr_counter t"
  by (auto simp: target_reached_def Let_def reset_on_target_def)

text \<open>\<open>add_to_counter\<close> is at most two interrupts around an update of the counter and the flags: a
  predicate that these steps keep is kept by the whole.\<close>

lemma add_to_counter_preserves:
  assumes init: "P (sch, t\<lparr>tmr_counter := tmr_counter t + a\<rparr>)"
    and target: "\<And>x. P x \<Longrightarrow> P (target_reached x)"
    and irq: "\<And>x. P x \<Longrightarrow> P (trigger_irq x)"
    and flag: "\<And>s t. P (s, t) \<Longrightarrow> P (s, t\<lparr>tmr_mode := set_overflow_reached True (tmr_mode t)\<rparr>)"
  shows "P (add_to_counter a (sch, t))"
proof -
  define x where "x = (sch, t\<lparr>tmr_counter := tmr_counter t + a\<rparr>)"
  define y where "y = (if tmr_counter t < tmr_target t then target_reached x else x)"
  define z where "z = (if irq_on_overflow (tmr_mode (snd y)) then trigger_irq y else y)"
  have P: "P x" "P y" "P z" using init target irq by (auto simp: x_def y_def z_def)
  have "add_to_counter a (sch, t) =
    (if unat (tmr_counter t) + unat a < 2 ^ 16
     then (if tmr_target t \<le> tmr_counter t + a then target_reached x else x)
     else (fst z, (snd z)\<lparr>tmr_mode := set_overflow_reached True (tmr_mode (snd z))\<rparr>))"
    by (simp add: add_to_counter_def x_def y_def z_def Let_def split_beta)
  then show ?thesis using P(1,3) target flag by (simp add: prod.collapse)
qed

lemma add_to_counter_config: "same_config t (snd (add_to_counter a (sch, t)))"
proof (rule add_to_counter_preserves)
  fix x :: "schedule \<times> timer" assume x: "same_config t (snd x)"
  show "same_config t (snd (target_reached x))"
    using same_config_trans [OF x target_reached_config [of "snd x" "fst x"]] by simp
  show "same_config t (snd (trigger_irq x))"
    using same_config_trans [OF x trigger_irq_config [of "snd x" "fst x"]] by simp
qed (auto simp: same_config_def)

lemma add_to_counter_counter:
  assumes "\<not> reset_on_target (tmr_mode t)"
  shows "tmr_counter (snd (add_to_counter a (sch, t))) = tmr_counter t + a"
proof -
  let ?P = "\<lambda>x :: schedule \<times> timer. same_config t (snd x) \<and> tmr_counter (snd x) = tmr_counter t + a"
  have "?P (add_to_counter a (sch, t))"
  proof (rule add_to_counter_preserves)
    fix x assume x: "?P x"
    show "?P (target_reached x)"
      using x same_config_trans [OF _ target_reached_config [of "snd x" "fst x"], of t]
        target_reached_counter [of "snd x" "fst x"] assms same_configD(1) [of t "snd x"] by simp
    show "?P (trigger_irq x)"
      using x same_config_trans [OF _ trigger_irq_config [of "snd x" "fst x"], of t] by simp
  qed (auto simp: same_config_def)
  then show ?thesis by simp
qed

lemma target_reached_spent:
  assumes "\<not> irq_repeat (tmr_mode t)" "tmr_has_triggered t"
  shows "fst (target_reached (sch, t)) = sch" "tmr_has_triggered (snd (target_reached (sch, t)))"
  using assms by (auto simp: target_reached_def Let_def trigger_irq_spent irq_repeat_def)

lemma add_to_counter_spent:
  assumes "\<not> irq_repeat (tmr_mode t)" "tmr_has_triggered t"
  shows "fst (add_to_counter a (sch, t)) = sch \<and> tmr_has_triggered (snd (add_to_counter a (sch, t)))"
proof -
  let ?P = "\<lambda>x :: schedule \<times> timer. \<not> irq_repeat (tmr_mode (snd x)) \<and> fst x = sch \<and> tmr_has_triggered (snd x)"
  have "?P (add_to_counter a (sch, t))"
  proof (rule add_to_counter_preserves)
    fix x assume x: "?P x"
    obtain s u where xs: "x = (s, u)" by fastforce
    show "?P (target_reached x)"
      using x target_reached_spent [of u s] same_configD(4) [OF target_reached_config [of u s]]
      by (simp add: xs)
    show "?P (trigger_irq x)" using x trigger_irq_spent [of u s] by (simp add: xs)
  qed (use assms in \<open>auto simp: irq_repeat_def\<close>)
  then show ?thesis by simp
qed

lemma add_to_counter_below:
  assumes "unat (tmr_counter t) + unat a < unat (tmr_target t)"
  shows "add_to_counter a (sch, t) = (sch, t\<lparr>tmr_counter := tmr_counter t + a\<rparr>)"
proof -
  have "unat (tmr_target t) < 2 ^ 16" using unsigned_less [of "tmr_target t", where ?'a = nat] by simp
  then have "unat (tmr_counter t + a) = unat (tmr_counter t) + unat a"
    using assms by (intro unat_add_no_wrap) simp
  then show ?thesis
    using assms \<open>unat (tmr_target t) < 2 ^ 16\<close> by (simp add: add_to_counter_def word_le_nat_alt)
qed

lemma add_to_counter_reach:
  assumes "unat (tmr_counter t) + unat a = unat (tmr_target t)"
  shows "add_to_counter a (sch, t) = target_reached (sch, t\<lparr>tmr_counter := tmr_target t\<rparr>)"
proof -
  have lt: "unat (tmr_target t) < 2 ^ 16" using unsigned_less [of "tmr_target t", where ?'a = nat] by simp
  then have "unat (tmr_counter t + a) = unat (tmr_counter t) + unat a"
    using assms by (intro unat_add_no_wrap) simp
  then have "tmr_counter t + a = tmr_target t" using assms by (simp add: word_unat_eq_iff)
  then show ?thesis using assms lt by (simp add: add_to_counter_def)
qed

text \<open>The same for \<open>run\<close>.\<close>

lemma timer_run_preserves:
  assumes "P x" and "\<And>a sch t. P (sch, t) \<Longrightarrow> P (add_to_counter a (sch, t))"
  shows "P (timer_run n x)"
  using assms(1)
proof (induction n x rule: timer_run.induct)
  case (1 n x)
  have step: "P (add_to_counter a x)" for a using assms(2) [of "fst x" "snd x"] "1.prems" by simp
  then show ?case using 1 by (subst timer_run.simps) auto
qed

lemma timer_run_config: "same_config t (snd (timer_run n (sch, t)))"
  using timer_run_preserves [of "\<lambda>x. same_config t (snd x)" "(sch, t)" n]
    same_config_trans [OF _ add_to_counter_config] by simp

lemma timer_run_chunk: "n < 65535 \<Longrightarrow> timer_run n x = add_to_counter (word_of_nat n) x"
  by (subst timer_run.simps) simp

definition irq_count :: "irq \<Rightarrow> schedule \<Rightarrow> nat" where
  "irq_count k sch = length (filter (\<lambda>e. entry_event e = EvIrq k) (sched_events sch))"

lemma irq_count_simps [simp]:
  "irq_count k (snd (trigger (EvIrq k') sch)) = irq_count k sch + (if k' = k then 1 else 0)"
  "irq_count k (snd (schedule_event time (EvTimer i cb) sch)) = irq_count k sch"
  by (simp_all add: irq_count_def trigger_def schedule_event_def push_event_def heap_push_def)

text \<open>What \<open>irq_count\<close> can gain: nothing once a one-shot timer has triggered.\<close>

lemma trigger_irq_count:
  "irq_count k (fst (trigger_irq (sch, t))) =
     irq_count k sch + (if (irq_repeat (tmr_mode t) \<or> \<not> tmr_has_triggered t) \<and> master_irq_flag (tmr_mode t)
       \<and> irq_kind (tmr_id t) = k then 1 else 0)"
  by (simp add: trigger_irq_def Let_def)

section \<open>Properties\<close>

text \<open>While the timer does not reset on its target, running it for any number of ticks adds
  exactly that number to the 16-bit counter, modulo $2^{16}$, however the ticks are split into
  chunks, and changes neither the target nor the configuration bits of the mode.\<close>

lemma timer_run_counter:
  assumes "\<not> reset_on_target (tmr_mode t)"
  shows "tmr_counter (snd (timer_run n (sch, t))) = tmr_counter t + word_of_nat n
    \<and> tmr_target (snd (timer_run n (sch, t))) = tmr_target t
    \<and> (\<forall>k < 10. bit_at (tmr_mode (snd (timer_run n (sch, t)))) k = bit_at (tmr_mode t) k)"
proof -
  have "tmr_counter (snd (timer_run n x)) = tmr_counter (snd x) + word_of_nat n"
    if "\<not> reset_on_target (tmr_mode (snd x))" for n x
    using that
  proof (induction n x rule: timer_run.induct)
    case (1 n x)
    obtain s u where x: "x = (s, u)" by fastforce
    have c: "tmr_counter (snd (add_to_counter a x)) = tmr_counter u + a"
      "\<not> reset_on_target (tmr_mode (snd (add_to_counter a x)))" for a
      using add_to_counter_counter [of u a s] same_configD(1) [OF add_to_counter_config [of u a s]] "1.prems"
      by (auto simp: x)
    show ?case
    proof (cases "65535 \<le> n")
      case True
      then have "(word_of_nat n :: u16) = word_of_nat (n - 65535) + word_of_nat 65535"
        by (simp flip: of_nat_add)
      also have "(word_of_nat 65535 :: u16) = -1" by simp
      finally have "(word_of_nat n :: u16) = word_of_nat (n - 65535) - 1" by simp
      then show ?thesis
        using "1.IH" [OF True c(2)] True c(1) by (subst timer_run.simps) (simp add: x)
    next
      case False
      then show ?thesis using c(1) by (simp add: timer_run_chunk x)
    qed
  qed
  from this [of "(sch, t)" n] show ?thesis
    using assms timer_run_config [of t n sch] by (simp add: same_config_def)
qed

lemma timer_run_counter_witness:
  "tmr_counter (snd (timer_run 70000 (schedule_new, timer_new Tmr0))) = 4464"
proof -
  have "\<not> reset_on_target (tmr_mode (timer_new Tmr0))"
    by (simp add: timer_new_def reset_on_target_def bit_at_def)
  from timer_run_counter [OF this, of 70000 schedule_new] show ?thesis
    by (simp add: timer_new_def)
qed

text \<open>A timer in one-shot mode raises its interrupt at most once after its mode or counter was
  written, and never again once it has triggered, however long it runs.\<close>

lemma timer_one_shot:
  assumes "\<not> irq_repeat (tmr_mode t)"
  shows "irq_count (irq_kind (tmr_id t)) (fst (timer_run n (sch, t)))
    \<le> irq_count (irq_kind (tmr_id t)) sch + (if tmr_has_triggered t then 0 else 1)"
proof -
  let ?k = "irq_kind (tmr_id t)"
  let ?N = "irq_count ?k sch + (if tmr_has_triggered t then 0 else 1)"
  define P :: "schedule \<times> timer \<Rightarrow> bool" where "P x \<longleftrightarrow> same_config t (snd x)
    \<and> irq_count ?k (fst x) + (if tmr_has_triggered (snd x) then 0 else 1) \<le> ?N" for x
  have irq: "P (trigger_irq x)" if "P x" for x
  proof -
    obtain s u where x: "x = (s, u)" by fastforce
    have "same_config t u" using that by (simp add: x P_def)
    then have u: "\<not> irq_repeat (tmr_mode u)" "same_config t (snd (trigger_irq (s, u)))"
      using assms same_configD(4) same_config_trans trigger_irq_config by blast+
    show ?thesis
      using that u trigger_irq_count [of ?k s u] trigger_irq_has_triggered [of s u]
      by (cases "tmr_has_triggered u") (auto simp: x trigger_irq_spent P_def)
  qed
  have target: "P (target_reached x)" if "P x" for x
  proof -
    obtain s u where x: "x = (s, u)" by fastforce
    define v where "v = (let v = u\<lparr>tmr_mode := set_target_reached True (tmr_mode u)\<rparr>
      in if reset_on_target (tmr_mode v) then v\<lparr>tmr_counter := 0\<rparr> else v)"
    have "P (s, v)" using that by (auto simp: x v_def P_def same_config_def Let_def)
    then show ?thesis using irq [of "(s, v)"] by (simp add: target_reached_def x Let_def v_def)
  qed
  have "P (timer_run n (sch, t))"
  proof (rule timer_run_preserves)
    fix a s u assume Pu: "P (s, u)"
    have upd: "P (s, u\<lparr>tmr_counter := c\<rparr>)"
      "P (s', w) \<Longrightarrow> P (s', w\<lparr>tmr_mode := set_overflow_reached True (tmr_mode w)\<rparr>)" for c s' w
      using Pu by (simp_all add: P_def same_config_def)
    show "P (add_to_counter a (s, u))"
      by (rule add_to_counter_preserves [of P, OF upd(1) target irq upd(2)])
  qed (simp add: P_def)
  then show ?thesis by (simp add: P_def)
qed

lemma timer_one_shot_witness:
  "irq_count Tmr2Irq (fst (timer_run 200000 (schedule_new, (timer_new Tmr2)\<lparr>tmr_mode := 0x430\<rparr>))) \<le> 1"
  using timer_one_shot [of "(timer_new Tmr2)\<lparr>tmr_mode := 0x430\<rparr>" 200000 schedule_new]
  by (simp add: timer_new_def irq_repeat_def bit_at_def schedule_new_def irq_count_def)

text \<open>What \<open>predict_next_irq\<close> promises in number of ticks, with the target ahead.\<close>

lemma predict_next_irq_ticks:
  assumes "predict_next_irq t = Some time" "timer_clock_source t = SystemClock"
    and "irq_on_target (tmr_mode t)" "tmr_counter t < tmr_target t"
  shows "unat (tmr_counter t) + unat (as_cpu_cycles time) = unat (tmr_target t)"
    and "irq_repeat (tmr_mode t) \<or> \<not> tmr_has_triggered t"
proof -
  let ?d = "unat (tmr_target t) - unat (tmr_counter t)"
  have lt: "unat (tmr_counter t) < unat (tmr_target t)" using assms(4) by (simp add: word_less_nat_alt)
  have b: "unat (tmr_target t) \<le> 65535" using unsigned_less [of "tmr_target t", where ?'a = nat] by simp
  have time: "time = systime_new (ucast (tmr_target t - tmr_counter t))"
    and fires: "irq_repeat (tmr_mode t) \<or> \<not> tmr_has_triggered t"
    using assms by (auto simp: predict_next_irq_def not_le split: if_splits)
  have "unat (ucast (tmr_target t - tmr_counter t) :: u64) = ?d"
    using lt b by (simp add: unsigned_ucast_eq unat_sub word_le_nat_alt take_bit_nat_eq_self)
  with time have "unat (as_cpu_cycles time) = ?d"
    using b by (simp add: as_cpu_cycles_new)
  then show "unat (tmr_counter t) + unat (as_cpu_cycles time) = unat (tmr_target t)"
    using lt by simp
  show "irq_repeat (tmr_mode t) \<or> \<not> tmr_has_triggered t" by (rule fires)
qed

text \<open>Pending events stay pending while a timer runs.\<close>

lemma trigger_irq_events: "set (sched_events s) \<subseteq> set (sched_events (fst (trigger_irq (s, t))))"
  by (auto simp: trigger_irq_def Let_def trigger_def schedule_event_def push_event_def heap_push_def)

lemma add_to_counter_events: "set (sched_events s) \<subseteq> set (sched_events (fst (add_to_counter a (s, t))))"
proof (rule add_to_counter_preserves)
  fix x :: "schedule \<times> timer" assume x: "set (sched_events s) \<subseteq> set (sched_events (fst x))"
  obtain v w where vw: "x = (v, w)" by fastforce
  show "set (sched_events s) \<subseteq> set (sched_events (fst (target_reached x)))"
    using x trigger_irq_events by (fastforce simp: vw target_reached_def Let_def)
  show "set (sched_events s) \<subseteq> set (sched_events (fst (trigger_irq x)))"
    using x trigger_irq_events by (fastforce simp: vw)
qed auto

lemma target_reached_fires:
  assumes "irq_on_target (tmr_mode t)" "master_irq_flag (tmr_mode t)"
    and "irq_repeat (tmr_mode t) \<or> \<not> tmr_has_triggered t"
  shows "\<exists>e\<in>set (sched_events (fst (target_reached (sch, t)))).
    entry_event e = EvIrq (irq_kind (tmr_id t)) \<and> entry_ready e = STARTUP"
  using assms
  by (auto simp: target_reached_def trigger_irq_def Let_def trigger_def schedule_event_def push_event_def
      heap_push_def mode_defs)

text \<open>C14: the prediction a timer schedules its next run by is exact. With the system clock as source
  and the target ahead of the counter, no number of ticks below the prediction changes the
  schedule, and after exactly the predicted number the interrupt of the timer is pending (if the
  master flag allows it).\<close>

theorem predict_next_irq_exact:
  assumes "predict_next_irq t = Some time" "timer_clock_source t = SystemClock"
    and "irq_on_target (tmr_mode t)" "tmr_counter t < tmr_target t"
  shows "(\<forall>n < unat (as_cpu_cycles time). fst (timer_run n (sch, t)) = sch)
    \<and> (master_irq_flag (tmr_mode t) \<longrightarrow>
        (\<exists>e \<in> set (sched_events (fst (timer_run (unat (as_cpu_cycles time)) (sch, t)))).
           entry_event e = EvIrq (irq_kind (tmr_id t)) \<and> entry_ready e = STARTUP))"
proof (intro conjI allI impI)
  note ticks = predict_next_irq_ticks [OF assms]
  have b: "unat (tmr_target t) \<le> 65535" using unsigned_less [of "tmr_target t", where ?'a = nat] by simp
  fix n assume n: "n < unat (as_cpu_cycles time)"
  then show "fst (timer_run n (sch, t)) = sch"
    using b ticks(1)
    by (simp add: timer_run_chunk add_to_counter_below take_bit_nat_eq_self unsigned_of_nat)
next
  note ticks = predict_next_irq_ticks [OF assms]
  let ?d = "unat (as_cpu_cycles time)"
  let ?t = "t\<lparr>tmr_counter := tmr_target t\<rparr>"
  have b: "unat (tmr_target t) \<le> 65535" using unsigned_less [of "tmr_target t", where ?'a = nat] by simp
  assume "master_irq_flag (tmr_mode t)"
  then have fires: "\<exists>e\<in>set (sched_events (fst (target_reached (sch, ?t)))).
      entry_event e = EvIrq (irq_kind (tmr_id t)) \<and> entry_ready e = STARTUP"
    using target_reached_fires [of ?t sch] assms(3) ticks(2) by simp
  have "?d < 2 ^ 16" using b ticks(1) by simp
  then have d: "unat (word_of_nat ?d :: u16) = ?d" by (subst unsigned_of_nat) (simp add: take_bit_nat_eq_self)
  have reach: "add_to_counter (word_of_nat ?d) (sch, t) = target_reached (sch, ?t)"
    by (rule add_to_counter_reach) (simp only: d ticks(1))
  have "fst (timer_run ?d (sch, t)) = fst (target_reached (sch, ?t))
    \<or> timer_run ?d (sch, t) = add_to_counter 0 (target_reached (sch, ?t))"
  proof (cases "?d = 65535")
    case True
    then have "(word_of_nat ?d :: u16) = -1" by simp
    with reach have "add_to_counter (-1) (sch, t) = target_reached (sch, ?t)" by (simp only:)
    then show ?thesis by (subst (2) timer_run.simps) (simp add: timer_run_chunk True)
  next
    case False
    then show ?thesis using reach b ticks(1) by (simp add: timer_run_chunk)
  qed
  then show "\<exists>e\<in>set (sched_events (fst (timer_run ?d (sch, t)))).
      entry_event e = EvIrq (irq_kind (tmr_id t)) \<and> entry_ready e = STARTUP"
    using fires add_to_counter_events [of "fst (target_reached (sch, ?t))" 0 "snd (target_reached (sch, ?t))"]
    by (auto simp: subset_iff)
qed

theorem predict_next_irq_exact_witness:
  "fst (timer_run 99 (schedule_new, (timer_new Tmr0)\<lparr>tmr_mode := 0x410, tmr_target := 100\<rparr>)) = schedule_new"
proof -
  let ?t = "(timer_new Tmr0)\<lparr>tmr_mode := 0x410, tmr_target := 100\<rparr>"
  have p: "predict_next_irq ?t = Some (systime_new 100)"
    by (simp add: predict_next_irq_def timer_new_def mode_defs bit_at_def bit_range_def Let_def
        mode_clock_source_def timer_clock_source_def)
  have s: "timer_clock_source ?t = SystemClock"
    by (simp add: timer_clock_source_def mode_clock_source_def timer_new_def bit_range_def Let_def)
  have i: "irq_on_target (tmr_mode ?t)" "tmr_counter ?t < tmr_target ?t"
    by (simp_all add: irq_on_target_def timer_new_def bit_at_def)
  have "unat (as_cpu_cycles (systime_new 100)) = 100" by (simp add: as_cpu_cycles_new)
  then show ?thesis using predict_next_irq_exact [OF p s i, of schedule_new] by simp
qed

section \<open>The register file\<close>

text \<open>No access of the bus moves a timer's last update past the present.\<close>

definition timers_past :: "schedule \<Rightarrow> timers \<Rightarrow> bool" where
  "timers_past sch ts \<longleftrightarrow> (\<forall>i. as_cpu_cycles (snd (ts i)) \<le> as_cpu_cycles (sched_now sch))"

lemma trigger_now [frame_simps]: "sched_now (snd (trigger ev s)) = sched_now s"
  by (simp add: trigger_def)

lemma schedule_event_now [frame_simps]: "sched_now (snd (schedule_event time ev s)) = sched_now s"
  by (simp add: schedule_event_def push_event_def)

lemma unschedule_now [frame_simps]: "sched_now (unschedule i s) = sched_now s"
  by (simp add: unschedule_def)

lemma trigger_irq_now [frame_simps]: "sched_now (fst (trigger_irq x)) = sched_now (fst x)"
  by (cases x) (auto simp: trigger_irq_def Let_def frame_simps)

lemma timer_run_now [frame_simps]: "sched_now (fst (timer_run n x)) = sched_now (fst x)"
proof (rule timer_run_preserves)
  fix a and sch :: schedule and t :: timer assume s: "sched_now (fst (sch, t)) = sched_now (fst x)"
  show "sched_now (fst (add_to_counter a (sch, t))) = sched_now (fst x)"
    by (rule add_to_counter_preserves)
      (use s in \<open>auto simp: target_reached_def Let_def frame_simps split_beta\<close>)
qed simp

lemma schedule_next_run_now [frame_simps]: "sched_now (fst (schedule_next_run x)) = sched_now (fst x)"
proof (cases x)
  case (Pair sch t)
  show ?thesis
    unfolding Pair schedule_next_run_def
    by (auto simp: frame_simps split_beta Let_def split: option.split)
qed

lemma update_timer_returns:
  assumes "timers_past sch ts"
  shows "\<exists>sch' ts'. update_timer i (sch, ts) = Some (sch', ts') \<and> sched_now sch' = sched_now sch
    \<and> timers_past sch' ts'"
proof -
  obtain tmr lu where ti: "ts i = (tmr, lu)" by fastforce
  have "as_cpu_cycles lu \<le> as_cpu_cycles (sched_now sch)" using assms unfolding timers_past_def by (metis ti snd_conv)
  then have "\<exists>d. time_since (sched_now sch) lu = Some d" by (simp add: time_since_def not_less)
  then show ?thesis
    using assms
    by (auto simp: update_timer_def ti Let_def split_beta frame_simps timers_past_def)
qed

lemma timer_load_returns: "returns (timer_load offset t) \<longleftrightarrow> bit_range offset 0 3 \<in> {0, 4, 8}"
  by (auto simp: timer_load_def Let_def split_beta)

lemma timer_store_returns: "returns (timer_store offset val t) \<longleftrightarrow> bit_range offset 0 3 \<in> {0, 4, 8}"
  by (auto simp: timer_store_def Let_def)

text \<open>A load from the timers returns (does not reach an \<open>unreachable!\<close>) exactly when the offset
  selects one of the three timers and one of its three registers, and so does a store; in that
  case the clock does not move and no timer's last update lies in the future afterwards.\<close>

lemma timers_access_returns:
  assumes "timers_past sch ts"
  shows "(returns (timers_load w offset (sch, ts)) \<longleftrightarrow>
            bit_range offset 4 5 < 3 \<and> bit_range offset 0 3 \<in> {0, 4, 8})
    \<and> (returns (timers_store offset val (sch, ts)) \<longleftrightarrow>
            bit_range offset 4 5 < 3 \<and> bit_range offset 0 3 \<in> {0, 4, 8})
    \<and> (\<forall>r sch' ts'. timers_load w offset (sch, ts) = Some (r, sch', ts') \<longrightarrow>
            sched_now sch' = sched_now sch \<and> timers_past sch' ts')"
proof -
  have idx: "returns (timer_from_index (bit_range offset 4 5)) \<longleftrightarrow> bit_range offset 4 5 < 3"
    by (auto simp: timer_from_index_def word_less_nat_alt word_unat_eq_iff)
  show ?thesis
  proof (cases "timer_from_index (bit_range offset 4 5)")
    case None
    then show ?thesis using idx by (simp add: timers_load_def timers_store_def)
  next
    case (Some i)
    obtain sch' ts' where u: "update_timer i (sch, ts) = Some (sch', ts')"
      and now: "sched_now sch' = sched_now sch" and past: "timers_past sch' ts'"
      using update_timer_returns [OF assms] by blast
    have resched: "sched_now sch'' = sched_now sch \<and> timers_past sch'' ts''"
      if "reschedule_timer i (sch', ts'(i := (t, snd (ts' i)))) = (sch'', ts'')" for t sch'' ts''
      using past now that by (auto simp: reschedule_timer_def Let_def split_beta frame_simps timers_past_def)
    have "returns (timers_load w offset (sch, ts)) \<longleftrightarrow> returns (timer_load offset (fst (ts' i)))"
      "returns (timers_store offset val (sch, ts)) \<longleftrightarrow> returns (timer_store offset (as_u16 val) (fst (ts' i)))"
      by (auto simp: timers_load_def timers_store_def Some u split: Option.bind_splits prod.splits)
    moreover have "sched_now sch'' = sched_now sch \<and> timers_past sch'' ts''"
      if "timers_load w offset (sch, ts) = Some (r, sch'', ts'')" for r sch'' ts''
      using that resched
      by (auto simp: timers_load_def Some u split: Option.bind_splits prod.splits)
    ultimately show ?thesis
      using idx Some timer_load_returns timer_store_returns by auto
  qed
qed


lemma timers_access_at_offsets:
  "\<not> returns (timers_load FullWord 0x0c (schedule_new, timers_new))
   \<and> returns (timers_load FullWord 0x14 (schedule_new, timers_new))"
proof -
  have p: "timers_past schedule_new timers_new" by (simp add: timers_past_def timers_new_def schedule_new_def)
  show ?thesis
    using timers_access_returns [OF p, of FullWord "0x0c"] timers_access_returns [OF p, of FullWord "0x14"]
    by (simp add: bit_range_def Let_def)
qed

text \<open>
  When the only enabled interrupt is the one on overflow, \<open>predict_next_irq\<close> aims at 0xffff, where
  no overflow has happened yet. A timer that is updated on exactly that count predicts zero ticks:
  its next run is due at once and finds the same counter, so \<open>run_timer\<close> is pending again and the
  clock does not advance.
\<close>

theorem run_timer_stuck:
  assumes "irq_on_overflow (tmr_mode t)" "\<not> irq_on_target (tmr_mode t)" "\<not> reset_on_target (tmr_mode t)"
    and "irq_repeat (tmr_mode t) \<or> \<not> tmr_has_triggered t" "timer_clock_source t = SystemClock"
    and "\<not> sync_enabled (tmr_mode t)" "tmr_counter t = 0xffff" "ts i = (t, sched_now sch)" "tmr_id t = i"
  shows "\<exists>sch' t' e. run_timer i (sch, ts) = Some (sch', ts(i := (t', sched_now sch)))
    \<and> tmr_counter t' = 0xffff \<and> sched_now sch' = sched_now sch
    \<and> e \<in> set (sched_events sch') \<and> entry_event e = EvTimer i run_timer_cb \<and> entry_ready e = sched_now sch"
proof -
  have 0: "time_since (sched_now sch) (sched_now sch) = Some 0"
    by (simp add: time_since_def systime_new_def from_cpu_cycles_def)
  have ticks: "as_cpu_cycles 0 = 0" by (simp add: as_cpu_cycles_def)
  define t1 where "t1 = t\<lparr>tmr_mode := set_target_reached True (tmr_mode t)\<rparr>"
  have same: "t\<lparr>tmr_counter := 0xffff\<rparr> = t" using assms(7) by (cases t) simp
  have top: "tmr_target t \<le> 0xffff"
    using unsigned_less [of "tmr_target t", where ?'a = nat] by (simp add: word_le_nat_alt)
  have "timer_run 0 (sch, t) = (sch, t1)"
    using assms
    by (simp add: timer_run_chunk add_to_counter_def target_reached_def mode_defs t1_def same top Let_def)
  then have up: "update_timer i (sch, ts) = Some (sch, ts(i := (t1, sched_now sch)))"
    using assms by (simp add: update_timer_def 0 ticks)
  have cs: "mode_clock_source (tmr_mode t1) (tmr_id t1) = SystemClock"
  proof -
    have "bit_range (tmr_mode t1) 8 9 = bit_range (tmr_mode t) 8 9"
      by (simp add: t1_def set_target_reached_def bit_range_set_bit_other)
    then show ?thesis
      using assms(5) by (simp add: timer_clock_source_def mode_clock_source_def t1_def)
  qed
  have "predict_next_irq t1 = Some 0"
    using assms cs
    by (simp add: predict_next_irq_def t1_def mode_defs timer_clock_source_def systime_new_def from_cpu_cycles_def)
  define s1 where "s1 = (case tmr_next_update t of Some k \<Rightarrow> unschedule k sch | None \<Rightarrow> sch)"
  define s2 where "s2 = snd (schedule_event 0 (EvTimer i run_timer_cb) s1)"
  define t2 where "t2 = t1\<lparr>tmr_next_update := Some (next_event_id s1)\<rparr>"
  have now: "sched_now s1 = sched_now sch" by (simp add: s1_def frame_simps split: option.split)
  have "run_timer i (sch, ts) = Some (s2, ts(i := (t2, sched_now sch)))"
    using assms(9) \<open>predict_next_irq t1 = Some 0\<close>
    by (simp add: run_timer_def up reschedule_timer_def schedule_next_run_def t2_def s2_def s1_def t1_def
        schedule_event_def Let_def)
  moreover have "\<exists>e\<in>set (sched_events s2). entry_event e = EvTimer i run_timer_cb \<and> entry_ready e = sched_now sch"
    by (simp add: s2_def schedule_event_def push_event_def heap_push_def now)
  moreover have "sched_now s2 = sched_now sch" "tmr_counter t2 = 0xffff"
    using assms(7) now by (simp_all add: s2_def frame_simps t2_def t1_def)
  ultimately show ?thesis by blast
qed

end
