(* ===== verification/BoundedQueue.thy ===== *)
theory BoundedQueue
  imports Bits
begin

text \<open>
  What the devices need from a hardware FIFO, as an interface: an abstraction to the list of stored
  words, a capacity, and \<open>push\<close>, \<open>pop\<close>, \<open>clear\<close> and \<open>len\<close> with the laws of a queue that hold as long
  as no more than the capacity is stored. \<open>DeviceFifo\<close> and \<open>GpuFifo\<close> interpret it.
\<close>

primrec push_all :: "('a \<Rightarrow> 'q \<Rightarrow> 'q option) \<Rightarrow> 'a list \<Rightarrow> 'q \<Rightarrow> 'q option" where
  "push_all push [] q = Some q"
| "push_all push (x # xs) q = Option.bind (push x q) (push_all push xs)"

primrec pop_all :: "('q \<Rightarrow> ('a \<times> 'q) option) \<Rightarrow> nat \<Rightarrow> 'q \<Rightarrow> ('a list \<times> 'q) option" where
  "pop_all pop 0 q = Some ([], q)"
| "pop_all pop (Suc n) q = Option.bind (pop q) (\<lambda>(x, q).
     Option.bind (pop_all pop n q) (\<lambda>(xs, q). Some (x # xs, q)))"

locale bounded_queue =
  fixes contents :: "'q \<Rightarrow> 'a list"
    and inv :: "'q \<Rightarrow> bool"
    and cap :: nat
    and push :: "'a \<Rightarrow> 'q \<Rightarrow> 'q option"
    and pop :: "'q \<Rightarrow> ('a \<times> 'q) option"
    and clear :: "'q \<Rightarrow> 'q"
    and len :: "'q \<Rightarrow> nat"
  assumes push: "inv q \<Longrightarrow> length (contents q) < cap \<Longrightarrow>
      \<exists>q'. push x q = Some q' \<and> inv q' \<and> contents q' = contents q @ [x]"
    and pop: "inv q \<Longrightarrow> contents q = x # xs \<Longrightarrow> \<exists>q'. pop q = Some (x, q') \<and> inv q' \<and> contents q' = xs"
    and clear: "inv q \<Longrightarrow> inv (clear q) \<and> contents (clear q) = []"
    and len: "inv q \<Longrightarrow> len q = length (contents q)"
    and cap: "inv q \<Longrightarrow> length (contents q) \<le> cap"
begin

lemma push_all_contents:
  "inv q \<Longrightarrow> length (contents q) + length xs \<le> cap \<Longrightarrow>
     \<exists>q'. push_all push xs q = Some q' \<and> inv q' \<and> contents q' = contents q @ xs"
proof (induction xs arbitrary: q)
  case (Cons x xs)
  obtain q1 where q1: "push x q = Some q1" "inv q1" "contents q1 = contents q @ [x]"
    using push [of q x] Cons.prems by auto
  with Cons.IH [of q1] Cons.prems show ?case by auto
qed auto

lemma pop_all_contents:
  "inv q \<Longrightarrow> n \<le> length (contents q) \<Longrightarrow>
     \<exists>q'. pop_all pop n q = Some (take n (contents q), q') \<and> inv q' \<and> contents q' = drop n (contents q)"
proof (induction n arbitrary: q)
  case (Suc n)
  then obtain x xs where x: "contents q = x # xs" by (cases "contents q") auto
  then obtain q1 where q1: "pop q = Some (x, q1)" "inv q1" "contents q1 = xs"
    using pop [OF Suc.prems(1)] by blast
  with Suc.IH [of q1] Suc.prems x show ?case by auto
qed auto

text \<open>First in, first out.\<close>

lemma push_pop_all:
  assumes "inv q" "length (contents q) + length xs \<le> cap"
  shows "\<exists>q1 q2. push_all push xs q = Some q1
    \<and> pop_all pop (length (contents q) + length xs) q1 = Some (contents q @ xs, q2)
    \<and> len q1 = length (contents q) + length xs \<and> len q2 = 0"
proof -
  obtain q1 where q1: "push_all push xs q = Some q1" "inv q1" "contents q1 = contents q @ xs"
    using push_all_contents [OF assms] by blast
  then show ?thesis
    using pop_all_contents [OF q1(2), of "length (contents q) + length xs"] len by auto
qed

lemma len_clear: "inv q \<Longrightarrow> len (clear q) = 0"
  using clear len by fastforce

end

end
