(* ===== verification/DeviceFifo.thy ===== *)
theory DeviceFifo
  imports BoundedQueue
begin

text \<open>
  \<open>crates/splst_core/src/fifo.rs\<close>: the FIFO of the CD-ROM drive and the SPU voices. The type parameters
  become the element type and the length of the data array; every instance in the code has
  \<open>SIZE = 16\<close>. An index out of the array is \<^term>\<open>None\<close>.
\<close>

record 'a fifo =
  fifo_data :: "'a list"
  fifo_head :: u8
  fifo_tail :: u8

definition FIFO_SIZE :: nat where "FIFO_SIZE = 16"

definition fifo_new :: "'a \<Rightarrow> nat \<Rightarrow> 'a fifo" where
  "fifo_new d n = \<lparr>fifo_data = replicate n d, fifo_head = 0, fifo_tail = 0\<rparr>"

definition fifo_len :: "'a fifo \<Rightarrow> nat" where
  "fifo_len f = unat (bit_range (fifo_head f - fifo_tail f) 0 3)"

definition fifo_is_empty :: "'a fifo \<Rightarrow> bool" where "fifo_is_empty f \<longleftrightarrow> fifo_len f = 0"
definition fifo_is_full :: "'a fifo \<Rightarrow> bool" where "fifo_is_full f \<longleftrightarrow> fifo_len f = FIFO_SIZE"

definition fifo_clear :: "'a fifo \<Rightarrow> 'a fifo" where
  "fifo_clear f = f\<lparr>fifo_head := fifo_tail f\<rparr>"

definition fifo_push :: "'a \<Rightarrow> 'a fifo \<Rightarrow> 'a fifo option" where
  "fifo_push val f =
     (let idx = unat (bit_range (fifo_head f) 0 3) in
      if idx < length (fifo_data f) then
        Some (f\<lparr>fifo_head := bit_range (fifo_head f + 1) 0 3, fifo_data := (fifo_data f)[idx := val]\<rparr>)
      else None)"

fun fifo_push_slice :: "'a list \<Rightarrow> 'a fifo \<Rightarrow> 'a fifo option" where
  "fifo_push_slice [] f = Some f"
| "fifo_push_slice (v # vs) f = Option.bind (fifo_push v f) (fifo_push_slice vs)"

definition fifo_pop :: "'a fifo \<Rightarrow> ('a \<times> 'a fifo) option" where
  "fifo_pop f =
     (let idx = unat (bit_range (fifo_tail f) 0 3) in
      if idx < length (fifo_data f) then
        Some (fifo_data f ! idx, f\<lparr>fifo_tail := bit_range (fifo_tail f + 1) 0 3\<rparr>)
      else None)"

definition fifo_pop_n :: "nat \<Rightarrow> 'a fifo \<Rightarrow> 'a fifo" where
  "fifo_pop_n n f = f\<lparr>fifo_tail := bit_range (fifo_tail f + word_of_nat n) 0 3\<rparr>"

text \<open>\<open>try_pop\<close> and \<open>peek\<close>: \<open>is_empty().then(..)\<close> runs the closure when the queue is empty. The outer
  option is the panic of the access inside.\<close>

definition fifo_try_pop :: "'a fifo \<Rightarrow> ('a option \<times> 'a fifo) option" where
  "fifo_try_pop f =
     (if fifo_is_empty f then map_option (\<lambda>(v, f). (Some v, f)) (fifo_pop f) else Some (None, f))"

definition fifo_peek :: "'a fifo \<Rightarrow> 'a option option" where
  "fifo_peek f =
     (if fifo_is_empty f then
        (let idx = unat (bit_range (fifo_tail f) 0 3) in
         if idx < length (fifo_data f) then Some (Some (fifo_data f ! idx)) else None)
      else Some None)"

definition fifo_index :: "nat \<Rightarrow> 'a fifo \<Rightarrow> 'a option" where
  "fifo_index i f =
     (let n = length (fifo_data f); idx = unat (fifo_tail f + word_of_nat i) mod n in
      if n = 0 then None else Some (fifo_data f ! idx))"

section \<open>The ring buffer as a queue\<close>

definition fifo_inv :: "'a fifo \<Rightarrow> bool" where
  "fifo_inv f \<longleftrightarrow> length (fifo_data f) = FIFO_SIZE \<and> unat (fifo_head f) < 16 \<and> unat (fifo_tail f) < 16"

definition fifo_contents :: "'a fifo \<Rightarrow> 'a list" where
  "fifo_contents f =
     map (\<lambda>i. fifo_data f ! ((unat (fifo_tail f) + i) mod 16)) [0..<fifo_len f]"

lemma unat_low4: "unat (bit_range (w :: u8) 0 3) = unat w mod 16"
  by (simp add: unat_bit_range)

lemma fifo_len_eq:
  assumes "fifo_inv f"
  shows "fifo_len f = (unat (fifo_head f) + (16 - unat (fifo_tail f))) mod 16"
proof -
  let ?h = "unat (fifo_head f)" and ?t = "unat (fifo_tail f)"
  have b: "?h < 16" "?t < 16" using assms by (simp_all add: fifo_inv_def)
  have up: "?h + 256 - ?t = ?h + (16 - ?t) + 16 * 15" using b by simp
  have "unat (fifo_head f - fifo_tail f) mod 16 = (?h + (16 - ?t)) mod 16"
  proof (cases "?t \<le> ?h")
    case True
    then have "?h + (16 - ?t) = ?h - ?t + 16" using b by simp
    then have "(?h + (16 - ?t)) mod 16 = (?h - ?t) mod 16" by (simp only: mod_add_self2)
    then show ?thesis using True by (simp add: unat_sub_if_size)
  next
    case False
    have "unat (fifo_head f - fifo_tail f) = ?h + (16 - ?t) + 16 * 15"
      using False up by (simp add: unat_sub_if_size word_size)
    then show ?thesis by (simp only: mod_mult_self2)
  qed
  then show ?thesis by (simp add: fifo_len_def unat_low4)
qed

lemma fifo_push_head:
  assumes "fifo_inv f" "fifo_push x f = Some f'"
  shows "unat (fifo_head f') = Suc (unat (fifo_head f)) mod 16" "fifo_tail f' = fifo_tail f"
    "fifo_data f' = (fifo_data f)[unat (fifo_head f) := x]" "fifo_inv f'"
  using assms
  by (auto simp: fifo_push_def Let_def unat_low4 fifo_inv_def unat_word_ariths mod_mod_cancel split: if_splits)

lemma mod_16: "n < 32 \<Longrightarrow> n mod 16 = (if n < 16 then n else n - 16)" for n :: nat
  by (simp add: le_mod_geq)

lemma ring_slots:
  fixes h t :: nat
  assumes "h < 16" "t < 16"
  defines "n \<equiv> (h + (16 - t)) mod 16"
  shows "(t + n) mod 16 = h" and "i < n \<Longrightarrow> (t + i) mod 16 \<noteq> h"
    and "n < 15 \<Longrightarrow> (Suc h mod 16 + (16 - t)) mod 16 = Suc n"
    and "n = 15 \<Longrightarrow> (Suc h mod 16 + (16 - t)) mod 16 = 0"
    and "0 < n \<Longrightarrow> (h + (16 - Suc t mod 16)) mod 16 = n - 1"
    and "n = 0 \<Longrightarrow> (h + (16 - Suc t mod 16)) mod 16 = 15"
proof -
  have n: "n = (if t \<le> h then h - t else h + 16 - t)"
    using assms(1,2) by (auto simp: n_def mod_16 simp del: mod_less)
  show "(t + n) mod 16 = h" "i < n \<Longrightarrow> (t + i) mod 16 \<noteq> h"
    "n < 15 \<Longrightarrow> (Suc h mod 16 + (16 - t)) mod 16 = Suc n"
    "n = 15 \<Longrightarrow> (Suc h mod 16 + (16 - t)) mod 16 = 0"
    "0 < n \<Longrightarrow> (h + (16 - Suc t mod 16)) mod 16 = n - 1"
    "n = 0 \<Longrightarrow> (h + (16 - Suc t mod 16)) mod 16 = 15"
    using assms(1,2) unfolding n by (auto simp: mod_16 split: if_splits)
qed

lemma fifo_push_contents:
  assumes inv: "fifo_inv q" and room: "length (fifo_contents q) < 15"
  shows "\<exists>q'. fifo_push x q = Some q' \<and> fifo_inv q' \<and> fifo_contents q' = fifo_contents q @ [x]"
proof -
  obtain q' where q': "fifo_push x q = Some q'"
    using inv by (auto simp: fifo_push_def Let_def unat_low4 fifo_inv_def FIFO_SIZE_def)
  note h = fifo_push_head [OF inv q']
  let ?h = "unat (fifo_head q)" and ?t = "unat (fifo_tail q)"
  have b: "?h < 16" "?t < 16" "length (fifo_data q) = 16"
    using inv by (auto simp: fifo_inv_def FIFO_SIZE_def)
  note len = fifo_len_eq [OF inv]
  note ring = ring_slots [OF b(1,2)]
  have "fifo_len q < 15" using room by (simp add: fifo_contents_def)
  then have "fifo_len q' = Suc (fifo_len q)"
    using ring(3) by (simp add: fifo_len_eq [OF h(4)] len h(1,2))
  moreover have "(?t + fifo_len q) mod 16 = ?h" using ring(1) len by simp
  moreover have "fifo_data q' ! ((?t + i) mod 16) = fifo_data q ! ((?t + i) mod 16)" if "i < fifo_len q" for i
    using ring(2) [of i] that by (simp add: h(3) len)
  ultimately have "fifo_contents q' = fifo_contents q @ [x]"
    using b by (simp add: fifo_contents_def h)
  then show ?thesis using q' h(4) by blast
qed

lemma fifo_pop_contents:
  assumes inv: "fifo_inv q" and c: "fifo_contents q = x # xs"
  shows "\<exists>q'. fifo_pop q = Some (x, q') \<and> fifo_inv q' \<and> fifo_contents q' = xs"
proof -
  let ?h = "unat (fifo_head q)" and ?t = "unat (fifo_tail q)"
  define q' where "q' = q\<lparr>fifo_tail := bit_range (fifo_tail q + 1) 0 3\<rparr>"
  have b: "?h < 16" "?t < 16" "length (fifo_data q) = 16"
    using inv by (auto simp: fifo_inv_def FIFO_SIZE_def)
  have t': "unat (fifo_tail q') = Suc ?t mod 16"
    by (simp add: q'_def unat_low4 unat_word_ariths mod_mod_cancel)
  have inv': "fifo_inv q'" using inv t' by (simp add: fifo_inv_def q'_def)
  note len = fifo_len_eq [OF inv] and ring = ring_slots [OF b(1,2)]
  have pos: "0 < fifo_len q"
    using arg_cong [OF c, of length] by (simp add: fifo_contents_def)
  have len': "fifo_len q' = fifo_len q - 1"
    using ring(5) pos by (simp add: fifo_len_eq [OF inv'] len t') (simp add: q'_def)
  have tl: "xs = tl (fifo_contents q)" and hd: "x = hd (fifo_contents q)" using c by auto
  have "[0..<fifo_len q] = 0 # map Suc [0..<fifo_len q - 1]"
    using pos by (simp add: map_Suc_upt upt_conv_Cons)
  then have "x = fifo_data q ! ?t" "xs = map (\<lambda>i. fifo_data q ! ((?t + Suc i) mod 16)) [0..<fifo_len q - 1]"
    using b by (simp_all add: tl hd fifo_contents_def)
  moreover have "(Suc ?t mod 16 + i) mod 16 = (?t + Suc i) mod 16" for i by (simp add: mod_simps)
  ultimately have "fifo_contents q' = xs" "fifo_pop q = Some (x, q')"
    using b by (simp_all add: fifo_contents_def len' t' fifo_pop_def Let_def unat_low4)
      (simp_all add: q'_def)
  then show ?thesis using inv' by blast
qed

text \<open>\<open>fifo\<close> holds up to 15 elements, one less than the array has.\<close>

interpretation dev: bounded_queue fifo_contents fifo_inv 15 fifo_push fifo_pop fifo_clear fifo_len
proof unfold_locales
  fix q :: "'a fifo" and x :: 'a and xs
  assume inv: "fifo_inv q"
  show "fifo_len q = length (fifo_contents q)" by (simp add: fifo_contents_def)
  show "length (fifo_contents q) \<le> 15"
    using fifo_len_eq [OF inv] by (simp add: fifo_contents_def)
  show "fifo_inv (fifo_clear q) \<and> fifo_contents (fifo_clear q) = []"
    using inv by (simp add: fifo_inv_def fifo_clear_def fifo_contents_def fifo_len_def unat_low4)
qed (auto intro: fifo_push_contents fifo_pop_contents)

lemma fifo_new_inv: "fifo_inv (fifo_new d 16)" "fifo_contents (fifo_new d 16) = []"
  by (simp_all add: fifo_inv_def fifo_new_def fifo_contents_def fifo_len_def unat_low4 FIFO_SIZE_def)

lemma fifo_push_slice_all: "fifo_push_slice xs f = push_all fifo_push xs f"
  by (induction xs arbitrary: f) (auto cong: Option.bind_cong)

section \<open>Properties\<close>

text \<open>on the FIFO of the CD-ROM and the SPU, pushing a slice never panics and popping returns the
  words in the order in which they were pushed, as long as at most 15 are stored; \<open>len\<close> is the
  number stored.\<close>

lemma fifo_first_in_first_out:
  assumes "fifo_inv f" "length (fifo_contents f) + length xs \<le> 15"
  shows "\<exists>f1 f2. fifo_push_slice xs f = Some f1
    \<and> fifo_len f1 = length (fifo_contents f) + length xs
    \<and> pop_all fifo_pop (fifo_len f1) f1 = Some (fifo_contents f @ xs, f2) \<and> fifo_is_empty f2"
  using dev.push_pop_all [OF assms] by (auto simp: fifo_push_slice_all fifo_is_empty_def)

lemma fifo_first_in_first_out_witness:
  "\<exists>f1 f2. fifo_push_slice [1, 2, 3 :: u8] (fifo_new 0 16) = Some f1
    \<and> pop_all fifo_pop (fifo_len f1) f1 = Some ([1, 2, 3], f2)"
  using fifo_first_in_first_out [of "fifo_new 0 16" "[1, 2, 3 :: u8]"] fifo_new_inv [of "0 :: u8"] by auto

text \<open>The two boundary cases of the FIFO. A sixteenth element makes a full FIFO read as empty, and
  \<open>try_pop\<close> and \<open>peek\<close> return nothing exactly while the FIFO holds something.\<close>

lemma fifo_boundaries:
  assumes "fifo_inv f"
  shows "(length (fifo_contents f) = 15 \<longrightarrow> (\<exists>f'. fifo_push x f = Some f' \<and> fifo_is_empty f' \<and> \<not> fifo_is_full f'))
    \<and> (fifo_contents f \<noteq> [] \<longrightarrow> fifo_try_pop f = Some (None, f) \<and> fifo_peek f = Some None)
    \<and> (fifo_contents f = [] \<longrightarrow> (\<exists>v f'. fifo_try_pop f = Some (Some v, f') \<and> fifo_len f' = 15))"
proof -
  let ?h = "unat (fifo_head f)" and ?t = "unat (fifo_tail f)"
  have b: "?h < 16" "?t < 16" "length (fifo_data f) = 16"
    using assms by (auto simp: fifo_inv_def FIFO_SIZE_def)
  note len = fifo_len_eq [OF assms] and cl = dev.len [OF assms]
  obtain f' where f': "fifo_push x f = Some f'"
    using assms by (auto simp: fifo_push_def Let_def unat_low4 fifo_inv_def FIFO_SIZE_def)
  note h = fifo_push_head [OF assms f']
  note ring = ring_slots [OF b(1,2)]
  have "length (fifo_contents f) = 15 \<longrightarrow> fifo_len f' = 0"
    using cl ring(4) by (simp add: fifo_len_eq [OF h(4)] len h(1,2))
  moreover have "\<exists>v f'. fifo_try_pop f = Some (Some v, f') \<and> fifo_len f' = 15" if "fifo_contents f = []"
  proof -
    let ?f = "f\<lparr>fifo_tail := bit_range (fifo_tail f + 1) 0 3\<rparr>"
    have t': "unat (fifo_tail ?f) = Suc ?t mod 16"
      by (simp add: unat_low4 unat_word_ariths mod_mod_cancel)
    have inv': "fifo_inv ?f" using assms t' by (simp add: fifo_inv_def)
    have "(?h + (16 - ?t)) mod 16 = 0" using that cl len by simp
    then have "(?h + (16 - Suc ?t mod 16)) mod 16 = 15" by (rule ring(6))
    then have "fifo_len ?f = 15" using fifo_len_eq [OF inv'] t' by simp
    moreover have "fifo_try_pop f = Some (Some (fifo_data f ! ?t), ?f)"
      using that cl b by (simp add: fifo_try_pop_def fifo_is_empty_def fifo_pop_def Let_def unat_low4)
    ultimately show ?thesis by blast
  qed
  ultimately show ?thesis
    using cl f' by (auto simp: fifo_is_empty_def fifo_is_full_def FIFO_SIZE_def fifo_try_pop_def fifo_peek_def)
qed

lemma fifo_boundaries_witness:
  "\<exists>f. fifo_push (7 :: u8) (fifo_new 0 16) = Some f \<and> fifo_try_pop f = Some (None, f)"
proof -
  obtain f where f: "fifo_push (7 :: u8) (fifo_new 0 16) = Some f" "fifo_inv f" "fifo_contents f = [7]"
    using fifo_push_contents [OF fifo_new_inv(1), of "0 :: u8" 7] fifo_new_inv(2) [of "0 :: u8"] by auto
  then show ?thesis using fifo_boundaries [OF f(2), of 0] by auto
qed

end
