(* ===== verification/GpuFifo.thy ===== *)
theory GpuFifo
  imports BoundedQueue
begin

text \<open>
  \<open>crates/splst_core/src/gpu/fifo.rs\<close>, the command FIFO of the GPU, with the tables of \<open>gpu/gp0.rs\<close> it
  frames commands by. The data array always has 16 words, so an index modulo 16 is in bounds.
\<close>

section \<open>The GP0 command tables\<close>

definition CMD_LEN :: "nat list" where
  "CMD_LEN = [
    1, 1, 3, 1, 1, 1, 1, 1, 1, 1, 1, 1, 1, 1, 1, 1,
    1, 1, 1, 1, 1, 1, 1, 1, 1, 1, 1, 1, 1, 1, 1, 1,
    4, 4, 4, 4, 7, 7, 7, 7, 5, 5, 5, 5, 9, 9, 9, 9,
    6, 6, 6, 6, 9, 9, 9, 9, 8, 8, 8, 8, 12, 12, 12, 12,
    3, 3, 3, 3, 3, 3, 3, 3, 3, 3, 3, 3, 3, 3, 3, 3,
    4, 4, 4, 4, 4, 4, 4, 4, 4, 4, 4, 4, 4, 4, 4, 4,
    3, 3, 3, 3, 4, 4, 4, 4, 2, 2, 2, 2, 3, 3, 3, 3,
    2, 2, 2, 2, 3, 3, 3, 3, 2, 2, 2, 2, 3, 3, 3, 3,
    4, 4, 4, 4, 4, 4, 4, 4, 4, 4, 4, 4, 4, 4, 4, 4,
    4, 4, 4, 4, 4, 4, 4, 4, 4, 4, 4, 4, 4, 4, 4, 4,
    3, 3, 3, 3, 3, 3, 3, 3, 3, 3, 3, 3, 3, 3, 3, 3,
    3, 3, 3, 3, 3, 3, 3, 3, 3, 3, 3, 3, 3, 3, 3, 3,
    3, 3, 3, 3, 3, 3, 3, 3, 3, 3, 3, 3, 3, 3, 3, 3,
    3, 3, 3, 3, 3, 3, 3, 3, 3, 3, 3, 3, 3, 3, 3, 3,
    1, 1, 1, 1, 1, 1, 1, 1, 1, 1, 1, 1, 1, 1, 1, 1,
    1, 1, 1, 1, 1, 1, 1, 1, 1, 1, 1, 1, 1, 1, 1, 1]"

definition CMD_IS_IMM :: "u16 list" where
  "CMD_IS_IMM = [0xfff9, 0x7fff, 0, 0, 0, 0, 0, 0, 0, 0, 0, 0, 0, 0, 0x38, 0]"

text \<open>The argument is the top byte of a word, so both indices are in range.\<close>

definition cmd_fifo_len :: "u32 \<Rightarrow> u8" where
  "cmd_fifo_len cmd = word_of_nat (CMD_LEN ! unat cmd)"

definition cmd_is_imm :: "u32 \<Rightarrow> bool" where
  "cmd_is_imm cmd = (let imm = CMD_IS_IMM ! unat (cmd div 16) in bit_at imm (unat (cmd mod 16)))"

definition cmd_of :: "u32 \<Rightarrow> u32" where
  "cmd_of val = bit_range val 24 31"

section \<open>The FIFO\<close>

record gpu_fifo =
  gf_data :: "u32 list"
  gf_head :: u32
  gf_tail :: u32
  gf_cmd_words_left :: "u8 option"

datatype push_action = ImmCmd | FullCmd

definition GF_SIZE :: nat where "GF_SIZE = 16"

definition gf_new :: gpu_fifo where
  "gf_new = \<lparr>gf_data = replicate GF_SIZE 0, gf_head = 0, gf_tail = 0, gf_cmd_words_left = None\<rparr>"

definition gf_len :: "gpu_fifo \<Rightarrow> u8" where "gf_len f = ucast (gf_head f - gf_tail f)"
definition gf_is_empty :: "gpu_fifo \<Rightarrow> bool" where "gf_is_empty f \<longleftrightarrow> gf_head f = gf_tail f"
definition gf_is_full :: "gpu_fifo \<Rightarrow> bool" where "gf_is_full f \<longleftrightarrow> unat (gf_len f) = GF_SIZE"

definition gf_clear :: "gpu_fifo \<Rightarrow> gpu_fifo" where
  "gf_clear f = f\<lparr>gf_tail := gf_head f\<rparr>"

definition gf_push_internal :: "u32 \<Rightarrow> gpu_fifo \<Rightarrow> gpu_fifo" where
  "gf_push_internal val f =
     f\<lparr>gf_data := (gf_data f)[unat (gf_head f) mod GF_SIZE := val], gf_head := gf_head f + 1\<rparr>"

definition gf_push :: "u32 \<Rightarrow> gpu_fifo \<Rightarrow> gpu_fifo" where
  "gf_push val f = (if \<not> gf_is_full f then gf_push_internal val f else f)"

definition gf_index :: "u8 \<Rightarrow> gpu_fifo \<Rightarrow> u32" where
  "gf_index i f = gf_data f ! (unat (gf_tail f + ucast i) mod GF_SIZE)"

definition gf_push_cmd :: "u32 \<Rightarrow> gpu_fifo \<Rightarrow> push_action option \<times> gpu_fifo" where
  "gf_push_cmd val f =
     (if gf_is_full f then
        (if cmd_is_imm (cmd_of val) then (Some ImmCmd, f) else (None, f))
      else
        let finish = (\<lambda>words_left f.
              let f = gf_push_internal val f in
              if words_left - 1 = 0 then (Some FullCmd, f)
              else (None, f\<lparr>gf_cmd_words_left := Some (words_left - 1)\<rparr>))
        in (case gf_cmd_words_left f of
              Some words_left \<Rightarrow> finish words_left (f\<lparr>gf_cmd_words_left := None\<rparr>)
            | None \<Rightarrow>
                if cmd_is_imm (cmd_of val) then (Some ImmCmd, f)
                else finish (cmd_fifo_len (cmd_of val)) f))"

definition gf_pop :: "gpu_fifo \<Rightarrow> u32 \<times> gpu_fifo" where
  "gf_pop f = (let val = gf_index 0 f in (val, f\<lparr>gf_tail := gf_tail f + 1\<rparr>))"

definition gf_next_cmd :: "gpu_fifo \<Rightarrow> u32 option" where
  "gf_next_cmd f = (if \<not> gf_is_empty f then Some (cmd_of (gf_index 0 f)) else None)"

definition gf_next_cmd_len :: "gpu_fifo \<Rightarrow> u8 option" where
  "gf_next_cmd_len f = map_option cmd_fifo_len (gf_next_cmd f)"

definition gf_has_full_cmd :: "gpu_fifo \<Rightarrow> bool" where
  "gf_has_full_cmd f = (case gf_next_cmd_len f of None \<Rightarrow> False | Some n \<Rightarrow> n \<le> gf_len f)"

section \<open>The ring buffer as a queue\<close>

definition gf_count :: "gpu_fifo \<Rightarrow> nat" where "gf_count f = unat (gf_head f - gf_tail f)"

definition gf_inv :: "gpu_fifo \<Rightarrow> bool" where
  "gf_inv f \<longleftrightarrow> length (gf_data f) = GF_SIZE \<and> gf_count f \<le> GF_SIZE"

definition gf_contents :: "gpu_fifo \<Rightarrow> u32 list" where
  "gf_contents f = map (\<lambda>i. gf_data f ! ((unat (gf_tail f) + i) mod 16)) [0..<gf_count f]"

lemma length_gf_contents [simp]: "length (gf_contents f) = gf_count f"
  by (simp add: gf_contents_def)

lemma gf_len_count: "gf_inv f \<Longrightarrow> unat (gf_len f) = gf_count f"
  by (simp add: gf_len_def unsigned_ucast_eq gf_count_def gf_inv_def GF_SIZE_def take_bit_nat_eq_self)

lemma gf_full_iff: "gf_inv f \<Longrightarrow> gf_is_full f \<longleftrightarrow> gf_count f = 16"
  by (simp add: gf_is_full_def gf_len_count GF_SIZE_def)

lemma gf_empty_iff: "gf_is_empty f \<longleftrightarrow> gf_count f = 0"
  by (simp add: gf_is_empty_def gf_count_def unat_eq_0)

lemma gf_head_slot: "unat (gf_head f) mod 16 = (unat (gf_tail f) + gf_count f) mod 16"
proof -
  have "unat (gf_head f) = unat (gf_tail f + (gf_head f - gf_tail f))" by simp
  also have "\<dots> = (unat (gf_tail f) + gf_count f) mod 2 ^ 32"
    by (simp only: unat_word_ariths gf_count_def) simp
  finally show ?thesis by (simp add: mod_mod_cancel)
qed

lemma gf_framing_irrelevant [simp]:
  "gf_count (f\<lparr>gf_cmd_words_left := x\<rparr>) = gf_count f"
  "gf_contents (f\<lparr>gf_cmd_words_left := x\<rparr>) = gf_contents f"
  "gf_inv (f\<lparr>gf_cmd_words_left := x\<rparr>) = gf_inv f"
  by (simp_all add: gf_count_def gf_contents_def gf_inv_def)

lemma ring_distinct: "i < n \<Longrightarrow> n < 16 \<Longrightarrow> (t + i) mod 16 \<noteq> (t + n) mod (16 :: nat)"
proof
  assume "i < n" "n < 16" "(t + i) mod 16 = (t + n) mod 16"
  then have "16 dvd (t + n) - (t + i)" by (metis add_le_cancel_left less_imp_le mod_eq_dvd_iff_nat)
  with \<open>i < n\<close> \<open>n < 16\<close> show False by (auto dest: dvd_imp_le)
qed

lemma gf_push_internal_contents:
  assumes "gf_inv f" "gf_count f < 16"
  shows "gf_inv (gf_push_internal x f)" "gf_contents (gf_push_internal x f) = gf_contents f @ [x]"
    "gf_cmd_words_left (gf_push_internal x f) = gf_cmd_words_left f"
proof -
  have "gf_count (gf_push_internal x f) = unat ((gf_head f - gf_tail f) + 1)"
    by (simp add: gf_count_def gf_push_internal_def diff_add_eq)
  also have "\<dots> = gf_count f + 1"
    using assms(2) by (simp add: unat_add_no_wrap gf_count_def)
  finally have c: "gf_count (gf_push_internal x f) = Suc (gf_count f)" by simp
  then show "gf_inv (gf_push_internal x f)"
    using assms by (simp add: gf_inv_def gf_push_internal_def GF_SIZE_def)
  have "(unat (gf_tail f) + gf_count f) mod 16 \<noteq> (unat (gf_tail f) + i) mod 16" if "i < gf_count f" for i
    using ring_distinct [OF that assms(2)] by (rule not_sym)
  then show "gf_contents (gf_push_internal x f) = gf_contents f @ [x]"
    using assms c by (simp add: gf_contents_def) (simp add: gf_push_internal_def gf_head_slot GF_SIZE_def gf_inv_def)
qed (simp add: gf_push_internal_def)


lemma gf_pop_contents:
  assumes "gf_inv f" "gf_contents f = x # xs"
  shows "\<exists>f'. gf_pop f = (x, f') \<and> gf_inv f' \<and> gf_contents f' = xs \<and> gf_cmd_words_left f' = gf_cmd_words_left f"
proof -
  define f' where "f' = f\<lparr>gf_tail := gf_tail f + 1\<rparr>"
  have pos: "0 < gf_count f" using arg_cong [OF assms(2), of length] by simp
  have "gf_count f' = unat ((gf_head f - gf_tail f) - 1)"
    by (simp add: gf_count_def f'_def diff_diff_eq)
  also have "\<dots> = gf_count f - 1"
    using pos by (subst unat_minus_one) (auto simp: gf_count_def)
  finally have c: "gf_count f' = gf_count f - 1" .
  have tail: "unat (gf_tail f') mod 16 = Suc (unat (gf_tail f)) mod 16"
    by (simp add: f'_def unat_word_ariths mod_mod_cancel)
  have shift: "(unat (gf_tail f') + i) mod 16 = (unat (gf_tail f) + Suc i) mod 16" for i
    using tail by (metis add_Suc_shift mod_add_left_eq)
  have "[0..<gf_count f] = 0 # map Suc [0..<gf_count f - 1]"
    using pos by (simp add: map_Suc_upt upt_conv_Cons)
  then have "x = gf_data f ! (unat (gf_tail f) mod 16)"
    "xs = map (\<lambda>i. gf_data f ! ((unat (gf_tail f) + Suc i) mod 16)) [0..<gf_count f - 1]"
    using assms(2) by (auto simp: gf_contents_def comp_def)
  then have "gf_contents f' = xs" "gf_pop f = (x, f')"
    by (simp_all add: gf_contents_def c shift gf_pop_def gf_index_def GF_SIZE_def) (simp_all add: f'_def)
  moreover have "gf_inv f'" using assms(1) c le_trans [OF diff_le_self] by (simp add: gf_inv_def f'_def)
  ultimately show ?thesis by (auto simp: f'_def)
qed

lemma gf_push_contents:
  "gf_inv f \<Longrightarrow> gf_count f < 16 \<Longrightarrow> gf_push x f = gf_push_internal x f"
  by (simp add: gf_push_def gf_full_iff)

interpretation gpu: bounded_queue gf_contents gf_inv 16
  "\<lambda>x f. Some (gf_push x f)" "\<lambda>f. Some (gf_pop f)" gf_clear "\<lambda>f. unat (gf_len f)"
proof unfold_locales
  fix q x and xs :: "u32 list"
  assume inv: "gf_inv q"
  show "unat (gf_len q) = length (gf_contents q)" "length (gf_contents q) \<le> 16"
    using inv gf_len_count by (simp_all add: gf_inv_def GF_SIZE_def)
  show "gf_inv (gf_clear q) \<and> gf_contents (gf_clear q) = []"
    using inv by (simp add: gf_inv_def gf_clear_def gf_contents_def gf_count_def)
qed (use gf_push_contents gf_push_internal_contents gf_pop_contents in \<open>fastforce+\<close>)

lemma gf_new_inv: "gf_inv gf_new" "gf_contents gf_new = []"
  by (simp_all add: gf_inv_def gf_new_def gf_contents_def gf_count_def GF_SIZE_def)

section \<open>Framing of commands\<close>

text \<open>\<open>push_cmds\<close> pushes a list of words and collects what \<open>push_cmd\<close> reports for each.\<close>

fun push_cmds :: "u32 list \<Rightarrow> gpu_fifo \<Rightarrow> push_action option list \<times> gpu_fifo" where
  "push_cmds [] f = ([], f)"
| "push_cmds (w # ws) f =
     (let (r, f) = gf_push_cmd w f; (rs, f) = push_cmds ws f in (r # rs, f))"

lemma push_cmds_args:
  assumes "gf_inv f" "gf_cmd_words_left f = Some (word_of_nat (length args))"
    and "args \<noteq> []" "length args < 256" "gf_count f + length args \<le> 16"
  shows "\<exists>f'. push_cmds args f = (replicate (length args - 1) None @ [Some FullCmd], f') \<and> gf_inv f'
    \<and> gf_contents f' = gf_contents f @ args \<and> gf_cmd_words_left f' = None"
  using assms
proof (induction args arbitrary: f)
  case (Cons a args)
  let ?f = "f\<lparr>gf_cmd_words_left := None\<rparr>"
  let ?g = "gf_push_internal a ?f"
  have same: "gf_inv ?f" "gf_count ?f = gf_count f" "gf_contents ?f = gf_contents f"
    using Cons.prems(1) by simp_all
  have room: "gf_count f < 16" using Cons.prems(5) by simp
  note p = gf_push_internal_contents [OF same(1), of a, unfolded same(2,3), OF room]
  have full: "\<not> gf_is_full f" using gf_full_iff Cons.prems(1) room by simp
  show ?case
  proof (cases "args = []")
    case True
    then have "gf_push_cmd a f = (Some FullCmd, ?g)"
      using Cons.prems(2) full by (simp add: gf_push_cmd_def Let_def)
    then show ?thesis using True p by simp
  next
    case False
    let ?h = "?g\<lparr>gf_cmd_words_left := Some (word_of_nat (length args))\<rparr>"
    have "length args < 2 ^ 8" using Cons.prems(4) by simp
    then have "unat (word_of_nat (length args) :: u8) = length args"
      by (subst unsigned_of_nat) (simp add: take_bit_nat_eq_self)
    then have nz: "(word_of_nat (length args) :: u8) \<noteq> 0" using False by (metis length_0_conv unat_0)
    have cnt: "gf_count ?g = Suc (gf_count f)" using arg_cong [OF p(2), of length] by simp
    have "gf_push_cmd a f = (None, ?h)"
      using Cons.prems(2) full nz by (simp add: gf_push_cmd_def Let_def)
    moreover have "gf_inv ?h" "gf_contents ?h = gf_contents f @ [a]" "gf_count ?h = Suc (gf_count f)"
      using p cnt by simp_all
    ultimately show ?thesis
      using Cons.IH [of ?h] Cons.prems False by (cases args) auto
  qed
qed simp

lemma CMD_LEN_pos: "n < 256 \<Longrightarrow> 0 < CMD_LEN ! n \<and> CMD_LEN ! n \<le> 12"
proof -
  have "length CMD_LEN = 256" "\<forall>k \<in> set CMD_LEN. 0 < k \<and> k \<le> 12" by (simp_all add: CMD_LEN_def)
  then show "n < 256 \<Longrightarrow> ?thesis" by simp
qed

lemma unat_cmd_of: "unat (cmd_of w) < 256"
  using unat_bit_range_less [of 24 31 w] by (simp add: cmd_of_def)

lemma unat_cmd_fifo_len: "unat (cmd_fifo_len (cmd_of w)) = CMD_LEN ! unat (cmd_of w)"
  using CMD_LEN_pos [OF unat_cmd_of, of w]
  by (simp add: cmd_fifo_len_def unsigned_of_nat take_bit_nat_eq_self)

section \<open>Properties\<close>

text \<open>C11: command framing. When the words of one command of the GPU (a non-immediate opcode and as many
  arguments as the table says) are pushed into a FIFO that waits for a command and has room for
  them, \<open>push_cmd\<close> stores all of them in order, reports the complete command at the last word and
  only there, whatever the arguments look like, and waits for a command again. On an empty FIFO
  the command is then recognised as complete.\<close>

theorem push_cmd_frames:
  assumes "gf_inv f" "gf_cmd_words_left f = None" "\<not> cmd_is_imm (cmd_of w)"
    and "length args + 1 = CMD_LEN ! unat (cmd_of w)"
    and "length (gf_contents f) + length args + 1 \<le> 16"
  shows "\<exists>f'. push_cmds (w # args) f = (replicate (length args) None @ [Some FullCmd], f')
    \<and> gf_inv f' \<and> gf_contents f' = gf_contents f @ w # args \<and> gf_cmd_words_left f' = None
    \<and> (gf_contents f = [] \<longrightarrow> gf_has_full_cmd f')"
proof -
  let ?g = "gf_push_internal w f"
  have room: "gf_count f < 16" using assms(5) by simp
  note p = gf_push_internal_contents [OF assms(1) room, of w]
  have full: "\<not> gf_is_full f" using gf_full_iff assms(1) room by simp
  have len: "cmd_fifo_len (cmd_of w) = word_of_nat (length args) + 1"
    unfolding cmd_fifo_len_def assms(4) [symmetric] by simp
  have la: "length args < 256" using CMD_LEN_pos [OF unat_cmd_of, of w] assms(4) by simp
  have ready: "gf_has_full_cmd f'" if f': "gf_inv f'" "gf_contents f' = w # args" for f'
  proof -
    have c: "gf_count f' = Suc (length args)" using arg_cong [OF f'(2), of length] by simp
    have "gf_index 0 f' = w"
      using f'(2) c by (simp add: gf_contents_def gf_index_def GF_SIZE_def upt_conv_Cons del: upt_Suc)
    then show ?thesis
      using c f'(1) assms(4) by (simp add: gf_has_full_cmd_def gf_next_cmd_len_def gf_next_cmd_def gf_empty_iff
          word_le_nat_alt unat_cmd_fifo_len gf_len_count)
  qed
  show ?thesis
  proof (cases "args = []")
    case True
    then have "gf_push_cmd w f = (Some FullCmd, ?g)"
      using assms(2,3) full len by (simp add: gf_push_cmd_def Let_def)
    then show ?thesis using True p assms(2) ready [OF p(1)] by simp
  next
    case False
    let ?h = "?g\<lparr>gf_cmd_words_left := Some (word_of_nat (length args))\<rparr>"
    have "length args < 2 ^ 8" using la by simp
    then have "unat (word_of_nat (length args) :: u8) = length args"
      by (subst unsigned_of_nat) (simp add: take_bit_nat_eq_self)
    then have nz: "(word_of_nat (length args) :: u8) \<noteq> 0" using False by (metis length_0_conv unat_0)
    have cnt: "gf_count ?g = Suc (gf_count f)" using arg_cong [OF p(2), of length] by simp
    have "gf_push_cmd w f = (None, ?h)"
      using assms(2,3) full len nz by (simp add: gf_push_cmd_def Let_def)
    moreover have h: "gf_inv ?h" "gf_contents ?h = gf_contents f @ [w]" "gf_count ?h = Suc (gf_count f)"
      using p cnt by simp_all
    moreover obtain f' where f': "push_cmds args ?h = (replicate (length args - 1) None @ [Some FullCmd], f')"
      "gf_inv f'" "gf_contents f' = gf_contents ?h @ args" "gf_cmd_words_left f' = None"
      using push_cmds_args [of ?h args] h la False assms(5) by auto
    moreover have "None # replicate (length args - 1) None = replicate (length args) (None :: push_action option)"
      using False by (cases args) auto
    ultimately show ?thesis using ready [OF f'(2)] by (auto simp flip: append_Cons)
  qed
qed

theorem push_cmd_frames_witness:
  "fst (push_cmds [0x20000000, 0xff000000, 0, 0xe3000000] gf_new) = [None, None, None, Some FullCmd]"
proof -
  have c: "cmd_of 0x20000000 = 0x20" by (simp add: cmd_of_def bit_range_def Let_def)
  have i: "\<not> cmd_is_imm (cmd_of 0x20000000)"
    by (simp add: c cmd_is_imm_def CMD_IS_IMM_def bit_at_def Let_def)
  have l: "length [0xff000000, 0, 0xe3000000 :: u32] + 1 = CMD_LEN ! unat (cmd_of 0x20000000)"
    by (simp add: c CMD_LEN_def)
  have w: "gf_cmd_words_left gf_new = None" by (simp add: gf_new_def)
  show ?thesis
    using push_cmd_frames [OF gf_new_inv(1) w i l] by (auto simp: gf_new_inv(2) numeral_3_eq_3)
qed

text \<open>\<open>clear\<close> empties the FIFO but keeps the count of words it waits for, so the command that follows
  a reset is stored as an argument of the one that was cut off.\<close>

lemma clear_keeps_framing: "gf_cmd_words_left (gf_clear f) = gf_cmd_words_left f"
  by (simp add: gf_clear_def)

lemma cleared_command_swallowed:
  assumes "gf_inv f" "gf_cmd_words_left f = Some n" "cmd_is_imm (cmd_of w)"
  shows "fst (gf_push_cmd w (gf_clear f)) \<noteq> Some ImmCmd"
  using assms gpu.clear [OF assms(1)] gf_full_iff [of "gf_clear f"] gpu.len_clear [OF assms(1)] gf_len_count [of "gf_clear f"]
  by (auto simp: gf_push_cmd_def clear_keeps_framing Let_def)

end
