(* ===== verification/Dma.thy ===== *)
theory Dma
  imports Schedule Memory
begin

text \<open>
  \<open>crates/splst_core/src/bus/dma.rs\<close>: the DMA controller. The devices it talks to implement the trait
  \<open>Channel\<close>; the model takes the record of its three methods, with the device state as a type
  parameter, and gives the one device defined in the file, the ordering table. The array of channels
  is a function of the port. The \<open>while\<close> loop of \<open>run_chan\<close> need not end (a linked list may be
  cyclic), so \<open>chan_loop\<close> has fuel, one unit per round, and is \<^term>\<open>None\<close> when it runs out or when
  the code panics; the inner loop moves one word per round and ends with the block.
\<close>

section \<open>Registers of a channel\<close>

datatype direction = ToRam | ToPort
datatype sync = Manual | Request | LinkedList
datatype step = Inc | Dec

fun step_amount :: "step \<Rightarrow> u32" where
  "step_amount Inc = 4"
| "step_amount Dec = -4"

record block_ctrl =
  bc_size :: u16
  bc_count :: u16

definition block_ctrl_new :: "u32 \<Rightarrow> block_ctrl" where
  "block_ctrl_new val = \<lparr>bc_size = ucast (bit_range val 0 15), bc_count = ucast (bit_range val 16 31)\<rparr>"

definition block_ctrl_load :: "block_ctrl \<Rightarrow> u32" where
  "block_ctrl_load b = ucast (bc_size b) OR push_bit 16 (ucast (bc_count b))"

type_synonym chan_ctrl = u32

definition cc_direction :: "chan_ctrl \<Rightarrow> direction" where
  "cc_direction c = (if bit_at c 0 then ToPort else ToRam)"
definition cc_step :: "chan_ctrl \<Rightarrow> step" where
  "cc_step c = (if bit_at c 1 then Dec else Inc)"
definition cc_chopping_enabled :: "chan_ctrl \<Rightarrow> bool" where
  "cc_chopping_enabled c = bit_at c 8"
definition cc_sync_mode :: "chan_ctrl \<Rightarrow> sync option" where
  "cc_sync_mode c =
     (let v = bit_range c 9 10 in
      if v = 0 then Some Manual else if v = 1 then Some Request else if v = 2 then Some LinkedList else None)"
definition cc_enabled :: "chan_ctrl \<Rightarrow> bool" where
  "cc_enabled c = bit_at c 24"
definition cc_dma_chop_size :: "chan_ctrl \<Rightarrow> systime" where
  "cc_dma_chop_size c = systime_new (ucast (push_bit 1 (bit_range c 16 18)))"
definition cc_cpu_chop_size :: "chan_ctrl \<Rightarrow> systime" where
  "cc_cpu_chop_size c = systime_new (ucast (push_bit 1 (bit_range c 20 22)))"
definition cc_start :: "chan_ctrl \<Rightarrow> bool" where
  "cc_start c = bit_at c 28"
definition cc_mark_as_finished :: "chan_ctrl \<Rightarrow> chan_ctrl" where
  "cc_mark_as_finished c = set_bit_at (set_bit_at c 24 False) 28 False"

definition cc_store :: "port \<Rightarrow> u32 \<Rightarrow> chan_ctrl \<Rightarrow> chan_ctrl" where
  "cc_store port val c =
     (let c = (if port = Otc then (c AND 0x51000000) OR 2 else c);
          c = val
      in c)"

record transfer =
  tr_cursor :: u32
  tr_size :: u32
  tr_inc :: u32

record chan_stat =
  cs_port :: port
  cs_base :: u32
  cs_block_ctrl :: block_ctrl
  cs_ctrl :: chan_ctrl
  cs_transfer :: "transfer option"

definition chan_stat_new :: "port \<Rightarrow> chan_stat" where
  "chan_stat_new port = \<lparr>cs_port = port, cs_base = 0, cs_block_ctrl = block_ctrl_new 0, cs_ctrl = 0, cs_transfer = None\<rparr>"

definition chan_stat_load :: "u32 \<Rightarrow> chan_stat \<Rightarrow> u32 option" where
  "chan_stat_load offset s =
     (if offset = 0 then Some (cs_base s)
      else if offset = 4 then Some (block_ctrl_load (cs_block_ctrl s))
      else if offset = 8 then Some (cs_ctrl s)
      else None)"

definition chan_stat_store :: "u32 \<Rightarrow> u32 \<Rightarrow> chan_stat \<Rightarrow> chan_stat option" where
  "chan_stat_store offset val s =
     (if offset = 0 then Some (s\<lparr>cs_base := bit_range val 0 23\<rparr>)
      else if offset = 4 then Some (s\<lparr>cs_block_ctrl := block_ctrl_new val\<rparr>)
      else if offset = 8 then Some (s\<lparr>cs_ctrl := cc_store (cs_port s) val (cs_ctrl s)\<rparr>)
      else None)"

section \<open>The interrupt and control registers\<close>

fun port_index :: "port \<Rightarrow> nat" where
  "port_index MdecIn = 0"
| "port_index MdecOut = 1"
| "port_index GpuPort = 2"
| "port_index CdRomPort = 3"
| "port_index SpuPort = 4"
| "port_index Pio = 5"
| "port_index Otc = 6"

type_synonym ctrl_reg = u32

definition channel_priority :: "ctrl_reg \<Rightarrow> port \<Rightarrow> u32" where
  "channel_priority c p = (let base = 4 * port_index p in bit_range c base (base + 2))"
definition channel_enabled :: "ctrl_reg \<Rightarrow> port \<Rightarrow> bool" where
  "channel_enabled c p = (let base = 4 * port_index p in bit_at c (base + 3))"

type_synonym irq_reg = u32

definition force_irq :: "irq_reg \<Rightarrow> bool" where "force_irq r = bit_at r 15"
definition channel_irq_enabled :: "irq_reg \<Rightarrow> port \<Rightarrow> bool" where
  "channel_irq_enabled r p = bit_at r (port_index p + 16)"
definition master_irq_enabled :: "irq_reg \<Rightarrow> bool" where "master_irq_enabled r = bit_at r 23"
definition channel_irq_flag :: "irq_reg \<Rightarrow> port \<Rightarrow> bool" where
  "channel_irq_flag r p = bit_at r (port_index p + 24)"
definition set_channel_irq_flag :: "port \<Rightarrow> irq_reg \<Rightarrow> irq_reg" where
  "set_channel_irq_flag p r = set_bit_at r (24 + port_index p) True"
definition dma_master_irq_flag :: "irq_reg \<Rightarrow> bool" where "dma_master_irq_flag r = bit_at r 31"

definition update_master_irq_flag :: "irq_reg \<times> schedule \<Rightarrow> irq_reg \<times> schedule" where
  "update_master_irq_flag = (\<lambda>(r, sch).
     let result = force_irq r \<or> master_irq_enabled r \<and> bit_range r 24 30 \<noteq> 0 in
     if result then
       (if \<not> dma_master_irq_flag r then (set_bit_at r 31 True, snd (trigger (EvIrq DmaIrq) sch)) else (r, sch))
     else (set_bit_at r 31 False, sch))"

definition irq_reg_store :: "u32 \<Rightarrow> irq_reg \<times> schedule \<Rightarrow> irq_reg \<times> schedule" where
  "irq_reg_store val = (\<lambda>(r, sch).
     let mask = 0x00ff803f;
         r = r AND NOT mask;
         r = r OR (val AND mask);
         r = r AND NOT (val AND 0x7f000000)
     in update_master_irq_flag (r, sch))"

section \<open>The controller\<close>

record dma =
  dma_ctrl :: ctrl_reg
  dma_irq :: irq_reg
  dma_channels :: "port \<Rightarrow> chan_stat"

definition dma_new :: dma where
  "dma_new = \<lparr>dma_ctrl = 0x7654321, dma_irq = 0, dma_channels = chan_stat_new\<rparr>"

definition port_of_index :: "u32 \<Rightarrow> port" where
  "port_of_index i = [MdecIn, MdecOut, GpuPort, CdRomPort, SpuPort, Pio, Otc] ! unat i"

definition dma_load :: "addr_width \<Rightarrow> u32 \<Rightarrow> dma \<Rightarrow> u32 option" where
  "dma_load w offset d =
     (let chan = bit_range offset 4 6; reg = bit_range offset 0 3;
          val = (if chan \<le> 6 then chan_stat_load reg (dma_channels d (port_of_index chan))
                 else if reg = 0 then Some (dma_ctrl d)
                 else if reg = 4 then Some (dma_irq d)
                 else None)
      in map_option (\<lambda>v. from_u32_aligned w v offset) val)"

definition dma_store :: "u32 \<Rightarrow> u32 \<Rightarrow> dma \<times> schedule \<Rightarrow> (dma \<times> schedule) option" where
  "dma_store offset val = (\<lambda>(d, sch).
     let chan = bit_range offset 4 6; reg = bit_range offset 0 3; val = as_u32_aligned val offset in
     if chan \<le> 6 then
       (let p = port_of_index chan in
        map_option (\<lambda>s. (d\<lparr>dma_channels := (dma_channels d)(p := s)\<rparr>, sch))
          (chan_stat_store reg val (dma_channels d p)))
     else if reg = 0 then Some (d\<lparr>dma_ctrl := val\<rparr>, sch)
     else if reg = 4 then (let (r, sch) = irq_reg_store val (dma_irq d, sch) in Some (d\<lparr>dma_irq := r\<rparr>, sch))
     else None)"

definition upd_chan :: "port \<Rightarrow> (chan_stat \<Rightarrow> chan_stat) \<Rightarrow> dma \<Rightarrow> dma" where
  "upd_chan p f d = d\<lparr>dma_channels := (dma_channels d)(p := f (dma_channels d p))\<rparr>"

definition channel_done :: "port \<Rightarrow> dma \<times> schedule \<Rightarrow> dma \<times> schedule" where
  "channel_done p = (\<lambda>(d, sch).
     let d = upd_chan p (\<lambda>s. s\<lparr>cs_ctrl := cc_mark_as_finished (cs_ctrl s)\<rparr>) d;
         r = (if channel_irq_enabled (dma_irq d) p then set_channel_irq_flag p (dma_irq d) else dma_irq d);
         (r, sch) = update_master_irq_flag (r, sch)
     in (d\<lparr>dma_irq := r\<rparr>, sch))"

section \<open>Transfers\<close>

text \<open>The trait \<open>Channel\<close>.\<close>

record 'c channel =
  ch_load :: "u16 \<times> u32 \<Rightarrow> schedule \<Rightarrow> 'c \<Rightarrow> (u32 \<times> schedule \<times> 'c) option"
  ch_store :: "u32 \<Rightarrow> schedule \<Rightarrow> 'c \<Rightarrow> (schedule \<times> 'c) option"
  ch_ready :: "direction \<Rightarrow> 'c \<Rightarrow> bool"

record 'c machine =
  m_dma :: dma
  m_chan :: 'c
  m_sched :: schedule
  m_ram :: raw_mem

text \<open>The body of the loop up to the transfer: take the pending transfer, or start the next one.\<close>

datatype next_transfer = Run transfer | Continue | Finish | Return

definition start_transfer :: "bool \<Rightarrow> raw_mem \<Rightarrow> chan_stat \<Rightarrow> (next_transfer \<times> bool \<times> chan_stat) option" where
  "start_transfer manual_done ram s =
     (case cs_transfer s of
        Some tran \<Rightarrow> Some (Run tran, manual_done, s\<lparr>cs_transfer := None\<rparr>)
      | None \<Rightarrow>
          Option.bind (cc_sync_mode (cs_ctrl s)) (\<lambda>mode.
          case mode of
            Manual \<Rightarrow>
              if manual_done then Some (Finish, manual_done, s)
              else if \<not> cc_start (cs_ctrl s) then Some (Return, manual_done, s)
              else Some (Run \<lparr>tr_cursor = cs_base s, tr_size = ucast (bc_size (cs_block_ctrl s)),
                              tr_inc = step_amount (cc_step (cs_ctrl s))\<rparr>, True, s)
          | Request \<Rightarrow>
              if bc_count (cs_block_ctrl s) = 0 then Some (Finish, manual_done, s)
              else
                let s = s\<lparr>cs_block_ctrl := (cs_block_ctrl s)\<lparr>bc_count := bc_count (cs_block_ctrl s) - 1\<rparr>\<rparr>
                in Some (Run \<lparr>tr_cursor = cs_base s, tr_size = ucast (bc_size (cs_block_ctrl s)),
                              tr_inc = step_amount (cc_step (cs_ctrl s))\<rparr>, manual_done, s)
          | LinkedList \<Rightarrow>
              if cs_base s \<noteq> 0x00ffffff then
                Option.bind (ram_load FullWord (cs_base s AND 0x001ffffc) ram) (\<lambda>header.
                  let tran = \<lparr>tr_cursor = bit_range (cs_base s + 4) 0 23, tr_size = bit_range header 24 31,
                              tr_inc = step_amount (cc_step (cs_ctrl s))\<rparr>;
                      s = s\<lparr>cs_base := bit_range header 0 23\<rparr>
                  in Some (if tr_size tran = 0 then Continue else Run tran, manual_done, s))
              else Some (Finish, manual_done, s)))"

text \<open>One word to or from the device.\<close>

definition move_word :: "'c channel \<Rightarrow> direction \<Rightarrow> transfer \<Rightarrow> 'c machine \<Rightarrow> 'c machine option" where
  "move_word ch dir tran m =
     (let addr = tr_cursor tran AND 0x001ffffc in
      case dir of
        ToRam \<Rightarrow>
          Option.bind (ch_load ch (ucast (tr_size tran), tr_cursor tran) (m_sched m) (m_chan m)) (\<lambda>(val, sch, c).
          Option.bind (ram_store FullWord addr val (m_ram m)) (\<lambda>ram.
            Some (m\<lparr>m_chan := c, m_sched := sch, m_ram := ram\<rparr>)))
      | ToPort \<Rightarrow>
          Option.bind (ram_load FullWord addr (m_ram m)) (\<lambda>val.
          Option.bind (ch_store ch val (m_sched m) (m_chan m)) (\<lambda>(sch, c).
            Some (m\<lparr>m_chan := c, m_sched := sch\<rparr>))))"

text \<open>The inner loop, the same in both directions.\<close>

function block_loop :: "'c channel \<Rightarrow> port \<Rightarrow> timestamp \<Rightarrow> direction \<Rightarrow> transfer \<Rightarrow> 'c machine
    \<Rightarrow> (transfer option \<times> 'c machine) option" where
  "block_loop ch p done dir tran m =
     (let ctrl = cs_ctrl (dma_channels (m_dma m) p) in
      if done < sched_now (m_sched m) then
        Option.bind (cc_sync_mode ctrl) (\<lambda>mode.
          let d = (if mode = Manual then upd_chan p (\<lambda>s. s\<lparr>cs_base := tr_cursor tran\<rparr>) (m_dma m) else m_dma m)
          in Some (Some tran, m\<lparr>m_dma := d,
               m_sched := snd (schedule_event (cc_cpu_chop_size ctrl) (EvDma p) (m_sched m))\<rparr>))
      else if tr_size tran = 0 then
        Option.bind (cc_sync_mode ctrl) (\<lambda>mode.
          let update_base = (cc_chopping_enabled ctrl \<and> mode = Manual \<or> mode = Request);
              d = (if update_base then upd_chan p (\<lambda>s. s\<lparr>cs_base := tr_cursor tran\<rparr>) (m_dma m) else m_dma m)
          in Some (None, m\<lparr>m_dma := d\<rparr>))
      else
        Option.bind (move_word ch dir tran m) (\<lambda>m.
          block_loop ch p done dir
            (tran\<lparr>tr_cursor := (tr_cursor tran + tr_inc tran) AND 0x00ffffff, tr_size := tr_size tran - 1\<rparr>)
            (m\<lparr>m_sched := advance (systime_new 1) (m_sched m)\<rparr>)))"
  by pat_completeness auto
termination
  by (relation "measure (\<lambda>(ch, p, done, dir, tran, m). unat (tr_size tran))")
    (auto simp: measure_unat)

declare block_loop.simps [simp del]

fun chan_loop :: "nat \<Rightarrow> 'c channel \<Rightarrow> port \<Rightarrow> timestamp \<Rightarrow> bool \<Rightarrow> 'c machine \<Rightarrow> 'c machine option" where
  "chan_loop 0 ch p done manual_done m = None"
| "chan_loop (Suc fuel) ch p done manual_done m =
     (let s = dma_channels (m_dma m) p in
      if sched_now (m_sched m) < done \<and> cc_enabled (cs_ctrl s) \<and> ch_ready ch (cc_direction (cs_ctrl s)) (m_chan m)
      then
        Option.bind (start_transfer manual_done (m_ram m) s) (\<lambda>(nxt, manual_done, s).
          let m = m\<lparr>m_dma := upd_chan p (\<lambda>_. s) (m_dma m)\<rparr> in
          case nxt of
            Return \<Rightarrow> Some m
          | Finish \<Rightarrow> (let (d, sch) = channel_done p (m_dma m, m_sched m) in Some (m\<lparr>m_dma := d, m_sched := sch\<rparr>))
          | Continue \<Rightarrow> chan_loop fuel ch p done manual_done m
          | Run tran \<Rightarrow>
              Option.bind (block_loop ch p done (cc_direction (cs_ctrl s)) tran m) (\<lambda>(rest, m).
                chan_loop fuel ch p done manual_done
                  (m\<lparr>m_dma := upd_chan p (\<lambda>s. s\<lparr>cs_transfer := rest\<rparr>) (m_dma m)\<rparr>)))
      else Some m)"

definition run_chan :: "nat \<Rightarrow> 'c channel \<Rightarrow> port \<Rightarrow> 'c machine \<Rightarrow> 'c machine option" where
  "run_chan fuel ch p m =
     (let ctrl = cs_ctrl (dma_channels (m_dma m) p);
          done = (if cc_chopping_enabled ctrl then sched_now (m_sched m) + cc_dma_chop_size ctrl else NEVER)
      in chan_loop fuel ch p done False m)"

section \<open>The ordering table\<close>

definition ordering_table :: "unit channel" where
  "ordering_table = \<lparr>
     ch_load = (\<lambda>(words_left, addr) sch c.
       Some (if words_left = 1 then 0x00ffffff else bit_range (addr - 4) 0 20, sch, c)),
     ch_store = (\<lambda>val sch c. Some (sch, c)),
     ch_ready = (\<lambda>dir c. True)\<rparr>"

definition dma_bus :: "u32 \<times> u32" where
  "dma_bus = (0x1f801080, 0x1f801080 + 128 - 1)"

section \<open>The interrupt register\<close>

lemma port_index_less: "port_index p < 7"
  by (cases p) auto

lemma port_index_onto: "k < 7 \<Longrightarrow> \<exists>p. port_index p = k"
proof -
  assume "k < 7"
  then consider "k = 0" | "k = 1" | "k = 2" | "k = 3" | "k = 4" | "k = 5" | "k = 6" by linarith
  then show ?thesis by cases (metis port_index.simps)+
qed

lemma any_channel_flag: "bit_range r 24 30 \<noteq> 0 \<longleftrightarrow> (\<exists>p. channel_irq_flag r p)" for r :: u32
proof -
  have "bit_range r 24 30 \<noteq> 0 \<longleftrightarrow> (\<exists>k<7. bit r (24 + k))"
    by (auto simp: word_eq_0_iff_bits bits_simps)
  also have "\<dots> \<longleftrightarrow> (\<exists>p. bit r (24 + port_index p))"
    using port_index_less port_index_onto by metis
  finally show ?thesis by (simp add: channel_irq_flag_def bit_at_iff add.commute)
qed

lemma set_master_bits:
  "force_irq (set_bit_at r 31 v) = force_irq r" "master_irq_enabled (set_bit_at r 31 v) = master_irq_enabled r"
  "channel_irq_flag (set_bit_at r 31 v) p = channel_irq_flag r p"
  "channel_irq_enabled (set_bit_at r 31 v) p = channel_irq_enabled r p"
  "dma_master_irq_flag (set_bit_at r 31 v) = v" for r :: irq_reg
  using port_index_less [of p]
  by (auto simp: force_irq_def master_irq_enabled_def channel_irq_flag_def channel_irq_enabled_def
      dma_master_irq_flag_def bit_at_set_bit_at)

lemmas irq_reg_bits = force_irq_def master_irq_enabled_def channel_irq_flag_def channel_irq_enabled_def
  dma_master_irq_flag_def

text \<open>\<open>update_master_irq_flag\<close> recomputes bit 31 and triggers on its rising edge.\<close>

lemma update_master_irq_flag_spec:
  assumes "update_master_irq_flag (r, sch) = (r', sch')"
  shows "dma_master_irq_flag r' \<longleftrightarrow> force_irq r \<or> master_irq_enabled r \<and> (\<exists>p. channel_irq_flag r p)"
    and "r' = set_bit_at r 31 (dma_master_irq_flag r')"
    and "sch' = (if \<not> dma_master_irq_flag r \<and> dma_master_irq_flag r' then snd (trigger (EvIrq DmaIrq) sch) else sch)"
proof -
  let ?on = "force_irq r \<or> master_irq_enabled r \<and> bit_range r 24 30 \<noteq> 0"
  have id: "set_bit_at r 31 (dma_master_irq_flag r) = r"
    by (intro bit_word_eqI) (auto simp: bits_simps dma_master_irq_flag_def bit_at_iff)
  have r': "r' = set_bit_at r 31 ?on"
    using assms id by (auto simp: update_master_irq_flag_def Let_def split: if_splits)
  have flag: "dma_master_irq_flag r' = ?on" by (simp add: r' set_master_bits)
  then show "dma_master_irq_flag r' \<longleftrightarrow> force_irq r \<or> master_irq_enabled r \<and> (\<exists>p. channel_irq_flag r p)"
    using any_channel_flag [of r] by simp
  show "r' = set_bit_at r 31 (dma_master_irq_flag r')" unfolding flag by (rule r')
  show "sch' = (if \<not> dma_master_irq_flag r \<and> dma_master_irq_flag r' then snd (trigger (EvIrq DmaIrq) sch) else sch)"
    unfolding flag using assms by (auto simp: update_master_irq_flag_def Let_def split: if_splits)
qed

lemma irq_mask_bits: "bit (0x00ff803f :: u32) k \<longleftrightarrow> k < 6 \<or> 15 \<le> k \<and> k < 24"
proof -
  have m: "(0x00ff803f :: u32) = mask 6 OR push_bit 15 (mask 9)"
    by (simp add: mask_eq_exp_minus_1 push_bit_eq_mult)
  show ?thesis unfolding m by (auto simp: bit_simps)
qed

lemma irq_ack_bits: "bit (0x7f000000 :: u32) k \<longleftrightarrow> 24 \<le> k \<and> k < 31"
proof -
  have m: "(0x7f000000 :: u32) = push_bit 24 (mask 7)"
    by (simp add: mask_eq_exp_minus_1 push_bit_eq_mult)
  show ?thesis unfolding m by (auto simp: bit_simps)
qed

lemma irq_reg_store_bits:
  "bit ((r AND NOT 0x00ff803f OR val AND 0x00ff803f) AND NOT (val AND 0x7f000000)) k \<longleftrightarrow>
     (if k < 6 \<or> 15 \<le> k \<and> k < 24 then bit val k
      else if 24 \<le> k \<and> k < 31 then bit r k \<and> \<not> bit val k else bit r k)" for r val :: u32
proof (cases "k < 32")
  case True
  then show ?thesis
    by (simp only: bit_and_iff bit_or_iff bit_not_iff irq_mask_bits irq_ack_bits possible_bit_word) auto
qed (auto dest: bit_imp_le_length)

lemma irq_reg_store_spec:
  "(case irq_reg_store val (r, sch) of (r', sch') \<Rightarrow>
      (dma_master_irq_flag r' \<longleftrightarrow> force_irq r' \<or> master_irq_enabled r' \<and> (\<exists>p. channel_irq_flag r' p))
      \<and> force_irq r' = bit_at val 15 \<and> master_irq_enabled r' = bit_at val 23
      \<and> (\<forall>p. channel_irq_enabled r' p = bit_at val (16 + port_index p))
      \<and> (\<forall>p. channel_irq_flag r' p = (channel_irq_flag r p \<and> \<not> bit_at val (24 + port_index p)))
      \<and> sch' = (if \<not> dma_master_irq_flag r \<and> dma_master_irq_flag r'
                 then snd (trigger (EvIrq DmaIrq) sch) else sch))"
proof -
  define q where "q = (r AND NOT 0x00ff803f OR val AND 0x00ff803f) AND NOT (val AND 0x7f000000)"
  obtain r' sch' where u: "update_master_irq_flag (q, sch) = (r', sch')" by fastforce
  note s = update_master_irq_flag_spec [OF u]
  have bits: "bit_at q k = (if k < 6 \<or> 15 \<le> k \<and> k < 24 then bit_at val k
      else if 24 \<le> k \<and> k < 31 then bit_at r k \<and> \<not> bit_at val k else bit_at r k)" for k
    by (simp only: bit_at_iff irq_reg_store_bits q_def)
  have q: "force_irq q = bit_at val 15" "master_irq_enabled q = bit_at val 23"
    "channel_irq_enabled q p = bit_at val (16 + port_index p)"
    "channel_irq_flag q p = (channel_irq_flag r p \<and> \<not> bit_at val (24 + port_index p))"
    "dma_master_irq_flag q = dma_master_irq_flag r" for p
    using port_index_less [of p] by (simp_all only: irq_reg_bits bits) (simp_all add: add.commute)
  have keep: "force_irq r' = force_irq q" "master_irq_enabled r' = master_irq_enabled q"
    "channel_irq_enabled r' p = channel_irq_enabled q p" "channel_irq_flag r' p = channel_irq_flag q p" for p
    by (subst s(2), simp only: set_master_bits)+
  have flags: "channel_irq_flag r' = (\<lambda>p. channel_irq_flag r p \<and> \<not> bit_at val (24 + port_index p))"
    by (rule ext) (simp add: keep q(4))
  have "irq_reg_store val (r, sch) = (r', sch')" using u by (simp add: irq_reg_store_def Let_def q_def)
  then show "case irq_reg_store val (r, sch) of (r', sch') \<Rightarrow>
      (dma_master_irq_flag r' \<longleftrightarrow> force_irq r' \<or> master_irq_enabled r' \<and> (\<exists>p. channel_irq_flag r' p))
      \<and> force_irq r' = bit_at val 15 \<and> master_irq_enabled r' = bit_at val 23
      \<and> (\<forall>p. channel_irq_enabled r' p = bit_at val (16 + port_index p))
      \<and> (\<forall>p. channel_irq_flag r' p = (channel_irq_flag r p \<and> \<not> bit_at val (24 + port_index p)))
      \<and> sch' = (if \<not> dma_master_irq_flag r \<and> dma_master_irq_flag r'
                 then snd (trigger (EvIrq DmaIrq) sch) else sch)"
    using s(1,3) q(5) by (simp add: keep(1-3) flags q(1-4))
qed

lemma channel_done_spec:
  "(case channel_done p (d, sch) of (d', sch') \<Rightarrow>
      \<not> cc_enabled (cs_ctrl (dma_channels d' p)) \<and> \<not> cc_start (cs_ctrl (dma_channels d' p))
      \<and> (\<forall>q. q \<noteq> p \<longrightarrow> dma_channels d' q = dma_channels d q)
      \<and> (dma_master_irq_flag (dma_irq d') \<longleftrightarrow>
            force_irq (dma_irq d) \<or> master_irq_enabled (dma_irq d) \<and> (\<exists>q. channel_irq_flag (dma_irq d') q))
      \<and> (\<forall>q. channel_irq_flag (dma_irq d') q =
            (channel_irq_flag (dma_irq d) q \<or> q = p \<and> channel_irq_enabled (dma_irq d) p))
      \<and> sch' = (if \<not> dma_master_irq_flag (dma_irq d) \<and> dma_master_irq_flag (dma_irq d')
                 then snd (trigger (EvIrq DmaIrq) sch) else sch))"
proof -
  let ?d = "upd_chan p (\<lambda>s. s\<lparr>cs_ctrl := cc_mark_as_finished (cs_ctrl s)\<rparr>) d"
  define v where "v = (if channel_irq_enabled (dma_irq d) p then set_channel_irq_flag p (dma_irq d) else dma_irq d)"
  obtain r' sch' where u: "update_master_irq_flag (v, sch) = (r', sch')" by fastforce
  note s = update_master_irq_flag_spec [OF u]
  have flag: "channel_irq_flag v q = (channel_irq_flag (dma_irq d) q \<or> q = p \<and> channel_irq_enabled (dma_irq d) p)" for q
  proof -
    have "port_index q = port_index p \<longleftrightarrow> q = p" by (cases p; cases q) auto
    then show ?thesis
      using port_index_less [of p]
      by (auto simp: v_def channel_irq_flag_def set_channel_irq_flag_def bit_at_set_bit_at)
  qed
  have r: "force_irq v = force_irq (dma_irq d)" "master_irq_enabled v = master_irq_enabled (dma_irq d)"
    "dma_master_irq_flag v = dma_master_irq_flag (dma_irq d)"
    using port_index_less [of p] by (auto simp: v_def irq_reg_bits set_channel_irq_flag_def bit_at_set_bit_at)
  have keep: "channel_irq_flag r' q = channel_irq_flag v q" for q
    by (subst s(2), simp only: set_master_bits)
  have vflags: "channel_irq_flag v = (\<lambda>q. channel_irq_flag (dma_irq d) q \<or> q = p \<and> channel_irq_enabled (dma_irq d) p)"
    by (rule ext) (simp only: flag)
  have flags: "channel_irq_flag r' =
      (\<lambda>q. channel_irq_flag (dma_irq d) q \<or> q = p \<and> channel_irq_enabled (dma_irq d) p)"
    by (rule ext) (simp only: keep flag)
  have fin: "channel_done p (d, sch) = (?d\<lparr>dma_irq := r'\<rparr>, sch')"
    using u by (cases "channel_irq_enabled (dma_irq d) p") (simp_all add: channel_done_def Let_def upd_chan_def v_def)
  have off: "\<not> cc_enabled (cc_mark_as_finished c)" "\<not> cc_start (cc_mark_as_finished c)" for c
    by (simp_all add: cc_enabled_def cc_start_def cc_mark_as_finished_def bit_at_set_bit_at)
  show "case channel_done p (d, sch) of (d', sch') \<Rightarrow>
      \<not> cc_enabled (cs_ctrl (dma_channels d' p)) \<and> \<not> cc_start (cs_ctrl (dma_channels d' p))
      \<and> (\<forall>q. q \<noteq> p \<longrightarrow> dma_channels d' q = dma_channels d q)
      \<and> (dma_master_irq_flag (dma_irq d') \<longleftrightarrow>
            force_irq (dma_irq d) \<or> master_irq_enabled (dma_irq d) \<and> (\<exists>q. channel_irq_flag (dma_irq d') q))
      \<and> (\<forall>q. channel_irq_flag (dma_irq d') q =
            (channel_irq_flag (dma_irq d) q \<or> q = p \<and> channel_irq_enabled (dma_irq d) p))
      \<and> sch' = (if \<not> dma_master_irq_flag (dma_irq d) \<and> dma_master_irq_flag (dma_irq d')
                 then snd (trigger (EvIrq DmaIrq) sch) else sch)"
    unfolding fin using s(1,3) r off by (simp add: flags vflags upd_chan_def)
qed

text \<open>The DMA interrupt register. A store sets the enable and force bits, acknowledges exactly the
  channel flags written as one, and makes the master flag \<open>force \<or> (enable \<and> some channel flag)\<close>;
  completion of a channel sets its flag if its interrupt is enabled and does the same. In both
  cases the DMA interrupt is triggered exactly on the rising edge of the master flag.\<close>

lemma dma_irq_register:
  "(case irq_reg_store val (r, sch) of (r', sch') \<Rightarrow>
      (dma_master_irq_flag r' \<longleftrightarrow> force_irq r' \<or> master_irq_enabled r' \<and> (\<exists>p. channel_irq_flag r' p))
      \<and> force_irq r' = bit_at val 15 \<and> master_irq_enabled r' = bit_at val 23
      \<and> (\<forall>p. channel_irq_enabled r' p = bit_at val (16 + port_index p))
      \<and> (\<forall>p. channel_irq_flag r' p = (channel_irq_flag r p \<and> \<not> bit_at val (24 + port_index p)))
      \<and> sch' = (if \<not> dma_master_irq_flag r \<and> dma_master_irq_flag r'
                 then snd (trigger (EvIrq DmaIrq) sch) else sch))
   \<and> (case channel_done p (d, sch) of (d', sch') \<Rightarrow>
      \<not> cc_enabled (cs_ctrl (dma_channels d' p)) \<and> \<not> cc_start (cs_ctrl (dma_channels d' p))
      \<and> (\<forall>q. q \<noteq> p \<longrightarrow> dma_channels d' q = dma_channels d q)
      \<and> (dma_master_irq_flag (dma_irq d') \<longleftrightarrow>
            force_irq (dma_irq d) \<or> master_irq_enabled (dma_irq d) \<and> (\<exists>q. channel_irq_flag (dma_irq d') q))
      \<and> (\<forall>q. channel_irq_flag (dma_irq d') q =
            (channel_irq_flag (dma_irq d) q \<or> q = p \<and> channel_irq_enabled (dma_irq d) p))
      \<and> sch' = (if \<not> dma_master_irq_flag (dma_irq d) \<and> dma_master_irq_flag (dma_irq d')
                 then snd (trigger (EvIrq DmaIrq) sch) else sch))"
  using irq_reg_store_spec channel_done_spec by (rule conjI)

lemma dma_irq_register_witness:
  "\<exists>r sch. irq_reg_store 0x8000 (0, schedule_new) = (r, sch) \<and> dma_master_irq_flag r
     \<and> sch = snd (trigger (EvIrq DmaIrq) schedule_new)"
proof -
  obtain r sch where e: "irq_reg_store 0x8000 (0, schedule_new) = (r, sch)" by fastforce
  have "bit_at (0x8000 :: u32) 15" "\<not> dma_master_irq_flag 0" by (simp_all add: bit_at_def dma_master_irq_flag_def)
  then show ?thesis
    using dma_irq_register [of "0x8000" 0 schedule_new GpuPort dma_new] e by simp
qed

section \<open>Words of RAM\<close>

text \<open>The k-th word of the RAM, and its address.\<close>

definition otc_slot :: "nat \<Rightarrow> u32" where "otc_slot k = word_of_nat (4 * k)"

lemma unat_slot: "k < 2 ^ 30 \<Longrightarrow> unat (otc_slot k) = 4 * k"
  unfolding otc_slot_def by (subst unsigned_of_nat) (simp add: take_bit_nat_eq_self)

lemma word_mask: "(0x001ffffc :: u32) = push_bit 2 (mask 19)"
  by (simp add: mask_eq_exp_minus_1 push_bit_eq_mult)

lemma word_addr: "unat (a AND 0x001ffffc) = unat a mod 2097152 div 4 * 4" for a :: u32
proof -
  have suc: "2 \<le> n \<Longrightarrow> Suc (Suc (n - 2)) = n" for n :: nat by simp
  have "a AND 0x001ffffc = push_bit 2 (drop_bit 2 (take_bit 21 a))"
    unfolding word_mask by (intro bit_word_eqI) (auto simp: bit_simps suc)
  moreover have "unat a mod 2097152 div 4 * 4 < 2 ^ 32" by (rule le_less_trans [of _ "unat a mod 2097152"]) simp_all
  ultimately show ?thesis
    by (simp add: unsigned_push_bit_eq unsigned_drop_bit_eq unsigned_take_bit_eq push_bit_eq_mult drop_bit_eq_div
        take_bit_nat_eq_self take_bit_eq_mod unat_word_ariths)
qed

lemma word_addr_aligned [simp]: "is_aligned_to FullWord (a AND 0x001ffffc)"
  by (simp add: aligned_nat word_addr)

lemma slot_word_addr: "k < 524288 \<Longrightarrow> otc_slot k AND 0x001ffffc = otc_slot k"
  by (simp add: word_unat_eq_iff word_addr unat_slot)

lemma ram_cell_slot: "k < 524288 \<Longrightarrow> ram_cell (otc_slot k) = 4 * k"
  by (simp add: unat_slot)

lemma slot_aligned: "k < 524288 \<Longrightarrow> is_aligned_to FullWord (otc_slot k)"
  by (simp add: aligned_nat unat_slot)

lemma slot_pred:
  assumes "0 < k" "k < 524288"
  shows "otc_slot k - 4 = otc_slot (k - 1)" "bit_range (otc_slot k - 4) 0 20 = otc_slot (k - 1)" "(otc_slot k + -4) AND 0x00ffffff = otc_slot (k - 1)"
proof -
  have "otc_slot k = otc_slot (k - 1) + 4"
    using assms(1) by (cases k) (simp_all add: otc_slot_def)
  then show eq: "otc_slot k - 4 = otc_slot (k - 1)" by simp
  have u: "unat (otc_slot (k - 1)) = 4 * (k - 1)" using assms by (simp add: unat_slot)
  show "bit_range (otc_slot k - 4) 0 20 = otc_slot (k - 1)"
    unfolding eq using assms u by (simp add: word_unat_eq_iff unat_bit_range)
  have "otc_slot (k - 1) AND 0x00ffffff = take_bit 24 (otc_slot (k - 1))"
    by (simp add: take_bit_eq_mask mask_eq_exp_minus_1)
  also have "\<dots> = otc_slot (k - 1)"
    using assms u by (simp add: word_unat_eq_iff unsigned_take_bit_eq take_bit_nat_eq_self)
  finally show "(otc_slot k + -4) AND 0x00ffffff = otc_slot (k - 1)" using eq by simp
qed

definition mem_word :: "raw_mem \<Rightarrow> u32 \<Rightarrow> u32" where
  "mem_word ram a = read_bytes 4 (mem_data ram) (ram_cell (a AND 0x001ffffc))"

lemma ram_load_word: "ram_ok ram \<Longrightarrow> ram_load FullWord (a AND 0x001ffffc) ram = Some (mem_word ram a)"
  using ram_inside [of ram FullWord "a AND 0x001ffffc"] by (simp add: ram.load_eq mem_word_def)

lemma ram_store_word:
  assumes "ram_ok ram"
  shows "\<exists>ram'. ram_store FullWord (a AND 0x001ffffc) v ram = Some ram' \<and> ram_ok ram' \<and> mem_word ram' a = v
    \<and> (\<forall>b. unat b mod 2097152 div 4 \<noteq> unat a mod 2097152 div 4 \<longrightarrow> mem_word ram' b = mem_word ram b)"
proof -
  have al: "is_aligned_to FullWord (a AND 0x001ffffc)" by simp
  obtain ram' where r: "ram_store FullWord (a AND 0x001ffffc) v ram = Some ram'"
    using ram.store_returns [OF ram_inside [OF assms al]] by blast
  have ok: "ram_ok ram'"
    using r assms by (auto simp: ram_store_def raw_store_def Let_def ram_ok_def split: if_splits)
  have "mem_word ram' a = v"
    using ram.load_store_same [OF r] ram_load_word [OF ok, of a] by simp
  moreover have "mem_word ram' b = mem_word ram b"
    if "unat b mod 2097152 div 4 \<noteq> unat a mod 2097152 div 4" for b
  proof -
    have "ram_cell (a AND 0x001ffffc) + width_bytes FullWord \<le> ram_cell (b AND 0x001ffffc)
      \<or> ram_cell (b AND 0x001ffffc) + width_bytes FullWord \<le> ram_cell (a AND 0x001ffffc)"
      using that by (simp add: word_addr) linarith
    from ram.load_store_disjoint [OF r this] show ?thesis
      using ram_load_word [OF ok] ram_load_word [OF assms] by simp
  qed
  ultimately show ?thesis using r ok by blast
qed

section \<open>Transfers without chopping\<close>

definition tick :: "schedule \<Rightarrow> schedule" where "tick = advance (systime_new 1)"

lemma ticks_now: "sched_now ((tick ^^ n) s) = sched_now s + word_of_nat n * 65536"
  by (induction n) (simp_all add: tick_def advance_def systime_new_def from_cpu_cycles_def FRAC_BITS_def algebra_simps)

lemma tick_rest [simp]: "sched_events ((tick ^^ n) s) = sched_events s"
  by (induction n) (simp_all add: tick_def advance_def)

lemma ticks_unat:
  assumes "unat (sched_now s) + n * 65536 < 2 ^ 64"
  shows "unat (sched_now s + word_of_nat n * 65536) = unat (sched_now s) + n * 65536"
proof -
  have n: "n * 65536 < 2 ^ 64" using assms by simp
  have "unat (word_of_nat n * 65536 :: u64) = n * 65536"
    using n by (simp add: unat_word_ariths unsigned_of_nat take_bit_eq_mod mod_simps)
  then show ?thesis using assms by (simp add: unat_add_no_wrap)
qed

lemma ticks_before_never:
  assumes "unat (sched_now s) + n * 65536 < 2 ^ 64 - 1"
  shows "sched_now ((tick ^^ n) s) < NEVER"
  using assms ticks_unat [of s n]
  by (simp add: ticks_now word_less_nat_alt NEVER_def time_FOREVER_def unsigned_minus_1_eq_mask mask_eq_exp_minus_1)

lemma block_loop_end:
  assumes "cc_sync_mode (cs_ctrl (dma_channels (m_dma m) p)) = Some mode" "tr_size tran = 0"
  shows "block_loop ch p NEVER dir tran m = Some (None, m\<lparr>m_dma :=
      (if cc_chopping_enabled (cs_ctrl (dma_channels (m_dma m) p)) \<and> mode = Manual \<or> mode = Request
       then upd_chan p (\<lambda>s. s\<lparr>cs_base := tr_cursor tran\<rparr>) (m_dma m) else m_dma m)\<rparr>)"
  using assms NEVER_max [of "sched_now (m_sched m)"]
  by (subst block_loop.simps) (simp add: Let_def not_less [symmetric])

lemma block_loop_move:
  assumes "tr_size tran \<noteq> 0"
  shows "block_loop ch p NEVER dir tran m = Option.bind (move_word ch dir tran m) (\<lambda>m.
      block_loop ch p NEVER dir
        (tran\<lparr>tr_cursor := (tr_cursor tran + tr_inc tran) AND 0x00ffffff, tr_size := tr_size tran - 1\<rparr>)
        (m\<lparr>m_sched := tick (m_sched m)\<rparr>))"
  using assms NEVER_max [of "sched_now (m_sched m)"]
  by (subst block_loop.simps) (simp add: Let_def tick_def not_less [symmetric])

lemma chan_loop_step:
  assumes "sched_now (m_sched m) < done" "dma_channels (m_dma m) p = s" "cc_enabled (cs_ctrl s)"
    and "ch_ready ch (cc_direction (cs_ctrl s)) (m_chan m)"
    and "start_transfer md (m_ram m) s = Some (nxt, md', s')"
  shows "chan_loop (Suc f) ch p done md m =
    (let m = m\<lparr>m_dma := upd_chan p (\<lambda>_. s') (m_dma m)\<rparr> in
     case nxt of
       Return \<Rightarrow> Some m
     | Finish \<Rightarrow> Some (m\<lparr>m_dma := fst (channel_done p (m_dma m, m_sched m)),
                         m_sched := snd (channel_done p (m_dma m, m_sched m))\<rparr>)
     | Continue \<Rightarrow> chan_loop f ch p done md' m
     | Run tran \<Rightarrow>
         Option.bind (block_loop ch p done (cc_direction (cs_ctrl s')) tran m) (\<lambda>(rest, m).
           chan_loop f ch p done md' (m\<lparr>m_dma := upd_chan p (\<lambda>s. s\<lparr>cs_transfer := rest\<rparr>) (m_dma m)\<rparr>)))"
  using assms by (cases nxt) (auto simp: Let_def split_beta)

lemma ordering_table_ready [simp]: "ch_ready ordering_table dir c"
  by (simp add: ordering_table_def)

lemma machine_unit [simp]: "m\<lparr>m_chan := x\<rparr> = m" for m :: "unit machine"
  by (cases m) simp

lemma otc_word:
  assumes "ram_ok (m_ram m)" "0 < n" "n < 65536" "n \<le> Suc k" "k < 524288"
  shows "\<exists>ram'. move_word ordering_table ToRam \<lparr>tr_cursor = otc_slot k, tr_size = word_of_nat n, tr_inc = i\<rparr> m
      = Some (m\<lparr>m_ram := ram'\<rparr>) \<and> ram_ok ram' \<and> mem_word ram' (otc_slot k) = (if n = 1 then 0x00ffffff else otc_slot (k - 1))
    \<and> (\<forall>j<524288. j \<noteq> k \<longrightarrow> mem_word ram' (otc_slot j) = mem_word (m_ram m) (otc_slot j))"
proof -
  let ?v = "if n = 1 then 0x00ffffff else otc_slot (k - 1)"
  have "(ucast (word_of_nat n :: u32) :: u16) = 1 \<longleftrightarrow> n = 1"
    using assms(3) by (simp add: word_unat_eq_iff unsigned_ucast_eq unsigned_of_nat take_bit_nat_eq_self)
  then have val: "(if (ucast (word_of_nat n :: u32) :: u16) = 1 then 0x00ffffff else bit_range (otc_slot k - 4) 0 20) = ?v"
    using assms slot_pred(2) [of k] by auto
  obtain ram' where "ram_store FullWord (otc_slot k AND 0x001ffffc) ?v (m_ram m) = Some ram'" "ram_ok ram'"
    "mem_word ram' (otc_slot k) = ?v"
    "\<forall>b. unat b mod 2097152 div 4 \<noteq> unat (otc_slot k) mod 2097152 div 4 \<longrightarrow> mem_word ram' b = mem_word (m_ram m) b"
    using ram_store_word [OF assms(1), of "otc_slot k" ?v] by blast
  then show ?thesis
    using assms(5) by (auto simp: move_word_def ordering_table_def Let_def val unat_slot)
qed

lemma otc_block:
  assumes "cc_sync_mode (cs_ctrl (dma_channels (m_dma m) Otc)) = Some Manual"
    and "\<not> cc_chopping_enabled (cs_ctrl (dma_channels (m_dma m) Otc))"
    and "ram_ok (m_ram m)" "n < 65536" "n \<noteq> 0 \<longrightarrow> c = otc_slot k \<and> n \<le> Suc k \<and> k < 524288"
  shows "\<exists>ram'. block_loop ordering_table Otc NEVER ToRam \<lparr>tr_cursor = c, tr_size = word_of_nat n, tr_inc = -4\<rparr> m
      = Some (None, m\<lparr>m_ram := ram', m_sched := (tick ^^ n) (m_sched m)\<rparr>) \<and> ram_ok ram'
    \<and> (\<forall>j. j \<le> k \<and> k < j + n \<longrightarrow> mem_word ram' (otc_slot j) = (if Suc k = j + n then 0x00ffffff else otc_slot (j - 1)))
    \<and> (\<forall>j<524288. \<not> (j \<le> k \<and> k < j + n) \<longrightarrow> mem_word ram' (otc_slot j) = mem_word (m_ram m) (otc_slot j))"
  using assms
proof (induction n arbitrary: c k m)
  case 0
  then show ?case by (intro exI [of _ "m_ram m"]) (auto simp: block_loop_end)
next
  case (Suc n)
  then have k: "c = otc_slot k" "n \<le> k" "k < 524288" by auto
  have nz: "(word_of_nat (Suc n) :: u32) \<noteq> 0"
    using Suc.prems(4) by (simp add: word_unat_eq_iff unsigned_of_nat take_bit_nat_eq_self del: of_nat_Suc)
  obtain ram1 where w: "move_word ordering_table ToRam \<lparr>tr_cursor = c, tr_size = word_of_nat (Suc n), tr_inc = -4\<rparr> m
      = Some (m\<lparr>m_ram := ram1\<rparr>)" "ram_ok ram1"
      "mem_word ram1 (otc_slot k) = (if Suc n = 1 then 0x00ffffff else otc_slot (k - 1))"
      "\<forall>j<524288. j \<noteq> k \<longrightarrow> mem_word ram1 (otc_slot j) = mem_word (m_ram m) (otc_slot j)"
    using otc_word [OF Suc.prems(3), of "Suc n" k "-4"] k Suc.prems(4) by auto
  let ?m = "m\<lparr>m_ram := ram1, m_sched := tick (m_sched m)\<rparr>"
  have next_slot: "n \<noteq> 0 \<longrightarrow> (c + -4) AND 0x00ffffff = otc_slot (k - 1) \<and> n \<le> Suc (k - 1) \<and> k - 1 < 524288"
    using k slot_pred(3) [of k] by auto
  obtain ram2 where r: "block_loop ordering_table Otc NEVER ToRam
        \<lparr>tr_cursor = (c + -4) AND 0x00ffffff, tr_size = word_of_nat n, tr_inc = -4\<rparr> ?m
      = Some (None, ?m\<lparr>m_ram := ram2, m_sched := (tick ^^ n) (m_sched ?m)\<rparr>)" "ram_ok ram2"
    "\<forall>j. j \<le> k - 1 \<and> k - 1 < j + n \<longrightarrow> mem_word ram2 (otc_slot j) = (if Suc (k - 1) = j + n then 0x00ffffff else otc_slot (j - 1))"
    "\<forall>j<524288. \<not> (j \<le> k - 1 \<and> k - 1 < j + n) \<longrightarrow> mem_word ram2 (otc_slot j) = mem_word (m_ram ?m) (otc_slot j)"
    using Suc.IH [of ?m "(c + -4) AND 0x00ffffff" "k - 1"] Suc.prems next_slot w(2) by auto
  have "block_loop ordering_table Otc NEVER ToRam \<lparr>tr_cursor = c, tr_size = word_of_nat (Suc n), tr_inc = -4\<rparr> m
      = Some (None, m\<lparr>m_ram := ram2, m_sched := (tick ^^ Suc n) (m_sched m)\<rparr>)"
    using nz r(1) w(1) by (subst block_loop_move) (simp_all add: funpow_swap1)
  moreover have "mem_word ram2 (otc_slot j) = (if Suc k = j + Suc n then 0x00ffffff else otc_slot (j - 1))"
    if j: "j \<le> k" "k < j + Suc n" for j
  proof (cases "j = k")
    case True
    have "\<not> (k \<le> k - 1 \<and> k - 1 < k + n)" if "n \<noteq> 0" using k(2) that by auto
    then have "mem_word ram2 (otc_slot k) = mem_word ram1 (otc_slot k)"
      using r(4) k(3) by (cases "n = 0") auto
    then show ?thesis using w(3) True by simp
  next
    case False
    then have "j \<le> k - 1 \<and> k - 1 < j + n" "Suc (k - 1) = k" using j by auto
    then show ?thesis using r(3) by simp
  qed
  moreover have "mem_word ram2 (otc_slot j) = mem_word (m_ram m) (otc_slot j)"
    if j: "j < 524288" "\<not> (j \<le> k \<and> k < j + Suc n)" for j
  proof -
    have "\<not> (j \<le> k - 1 \<and> k - 1 < j + n)" "j \<noteq> k" using j(2) k(2) by auto
    then show ?thesis using r(4) w(4) j(1) by simp
  qed
  ultimately show ?case using r(2) by blast
qed

text \<open>C5: the ordering table. A manual transfer of \<open>n\<close> words on the OTC channel, downwards from word
  \<open>k\<close> of the RAM without chopping, terminates; it writes into each of the words \<open>k, ..., k-n+1\<close> the
  address of the word below it and the end marker into the last, changes no other word of the RAM,
  takes \<open>n\<close> cycles and leaves the channel disabled.\<close>

theorem otc_builds_table:
  fixes m :: "unit machine"
  defines "s \<equiv> dma_channels (m_dma m) Otc"
  assumes "ram_ok (m_ram m)" "cs_base s = otc_slot k" "k < 524288" "n = unat (bc_size (cs_block_ctrl s))"
    and "0 < n" "n \<le> Suc k" "cs_transfer s = None"
    and "cc_enabled (cs_ctrl s)" "cc_start (cs_ctrl s)" "cc_sync_mode (cs_ctrl s) = Some Manual"
    and "cc_step (cs_ctrl s) = Dec" "cc_direction (cs_ctrl s) = ToRam" "\<not> cc_chopping_enabled (cs_ctrl s)"
    and "unat (sched_now (m_sched m)) + n * 65536 < 2 ^ 64 - 1" "2 \<le> fuel"
  shows "\<exists>m'. run_chan fuel ordering_table Otc m = Some m'
    \<and> (\<forall>j. k < j + n \<and> j \<le> k \<longrightarrow> mem_word (m_ram m') (otc_slot j) = (if Suc k = j + n then 0x00ffffff else otc_slot (j - 1)))
    \<and> (\<forall>j<524288. \<not> (k < j + n \<and> j \<le> k) \<longrightarrow> mem_word (m_ram m') (otc_slot j) = mem_word (m_ram m) (otc_slot j))
    \<and> sched_now (m_sched m') = sched_now (m_sched m) + word_of_nat n * 65536
    \<and> \<not> cc_enabled (cs_ctrl (dma_channels (m_dma m') Otc))"
proof -
  obtain f where f: "fuel = Suc (Suc f)" using assms(16) by (metis Suc_le_D numeral_2_eq_2 Suc_le_mono)
  have n: "n < 65536" using assms(5) unsigned_less [of "bc_size (cs_block_ctrl s)", where ?'a = nat] by simp
  have size: "(ucast (bc_size (cs_block_ctrl s)) :: u32) = word_of_nat n"
    by (simp add: assms(5))
  let ?tran = "\<lparr>tr_cursor = otc_slot k, tr_size = word_of_nat n, tr_inc = -4\<rparr>"
  let ?m = "m\<lparr>m_dma := upd_chan Otc (\<lambda>_. s) (m_dma m)\<rparr>"
  have same: "upd_chan Otc (\<lambda>_. s) (m_dma m) = m_dma m" by (simp add: upd_chan_def s_def)
  have start: "start_transfer False (m_ram m) s = Some (Run ?tran, True, s)"
    using assms(3,8,10-12) size by (simp add: start_transfer_def)
  have s: "dma_channels (m_dma m) Otc = s" by (simp add: s_def)
  have again: "start_transfer True r s = Some (Finish, True, s)" for r
    using assms(8,11) by (simp add: start_transfer_def)
  have now: "sched_now (m_sched m) < NEVER" using ticks_before_never [of "m_sched m" 0] assms(15) by simp
  obtain ram' where r: "block_loop ordering_table Otc NEVER ToRam ?tran m
      = Some (None, m\<lparr>m_ram := ram', m_sched := (tick ^^ n) (m_sched m)\<rparr>)"
    "\<forall>j. j \<le> k \<and> k < j + n \<longrightarrow> mem_word ram' (otc_slot j) = (if Suc k = j + n then 0x00ffffff else otc_slot (j - 1))"
    "\<forall>j<524288. \<not> (j \<le> k \<and> k < j + n) \<longrightarrow> mem_word ram' (otc_slot j) = mem_word (m_ram m) (otc_slot j)"
    using otc_block [of m n "otc_slot k" k] assms(2,4,7,11,14) n unfolding s_def by blast
  let ?d = "upd_chan Otc (\<lambda>s. s\<lparr>cs_transfer := None\<rparr>) (m_dma m)"
  let ?m1 = "m\<lparr>m_ram := ram', m_sched := (tick ^^ n) (m_sched m), m_dma := ?d\<rparr>"
  obtain d' sch' where fin: "channel_done Otc (?d, (tick ^^ n) (m_sched m)) = (d', sch')" by fastforce
  have chan: "dma_channels ?d Otc = s" using assms(8) by (simp add: upd_chan_def s_def)
  have "s\<lparr>cs_transfer := None\<rparr> = s" using assms(8) by (cases s) simp
  then have noop: "upd_chan Otc (\<lambda>_. s) ?d = ?d" by (simp add: upd_chan_def s_def)
  have "run_chan fuel ordering_table Otc m = chan_loop fuel ordering_table Otc NEVER False m"
    using assms(14) by (simp add: run_chan_def s_def)
  also have "\<dots> = chan_loop (Suc f) ordering_table Otc NEVER True ?m1"
    unfolding f using chan_loop_step [OF now s assms(9) _ start, of ordering_table] assms(13) r(1) same
    by (simp add: Let_def)
  also have "\<dots> = Some (?m1\<lparr>m_dma := d', m_sched := sch'\<rparr>)"
    using chan_loop_step [of ?m1 NEVER Otc s ordering_table, OF _ _ assms(9) _ again]
      ticks_before_never [OF assms(15)] chan noop fin by (simp add: Let_def)
  finally have run: "run_chan fuel ordering_table Otc m = Some (?m1\<lparr>m_dma := d', m_sched := sch'\<rparr>)" .
  have "sched_now sch' = sched_now ((tick ^^ n) (m_sched m))" "\<not> cc_enabled (cs_ctrl (dma_channels d' Otc))"
    using channel_done_spec [of Otc ?d "(tick ^^ n) (m_sched m)"] fin
    by (auto simp: trigger_def split: if_splits)
  then show ?thesis
    using run r(2,3) by (auto simp: ticks_now)
qed

theorem otc_builds_table_witness:
  "\<exists>m :: unit machine. \<exists>m'. run_chan 2 ordering_table Otc m = Some m'
    \<and> mem_word (m_ram m') (otc_slot 4) = otc_slot 3 \<and> mem_word (m_ram m') (otc_slot 3) = otc_slot 2
    \<and> mem_word (m_ram m') (otc_slot 2) = 0x00ffffff \<and> mem_word (m_ram m') (otc_slot 1) = mem_word ram_new (otc_slot 1)"
proof -
  define c where "c = (chan_stat_new Otc)\<lparr>cs_base := otc_slot 4, cs_block_ctrl := block_ctrl_new 3, cs_ctrl := 0x11000002\<rparr>"
  define m where "m = \<lparr>m_dma = upd_chan Otc (\<lambda>_. c) dma_new, m_chan = (), m_sched = schedule_new, m_ram = ram_new\<rparr>"
  have s: "dma_channels (m_dma m) Otc = c" by (simp add: m_def upd_chan_def)
  have ok: "ram_ok (m_ram m)" by (simp add: m_def ram_ok_def ram_new_def raw_new_def)
  have n: "3 = unat (bc_size (cs_block_ctrl c))"
    by (simp add: c_def block_ctrl_new_def bit_range_def Let_def)
  have ctrl: "cc_enabled (cs_ctrl c)" "cc_start (cs_ctrl c)" "cc_sync_mode (cs_ctrl c) = Some Manual"
    "cc_step (cs_ctrl c) = Dec" "cc_direction (cs_ctrl c) = ToRam" "\<not> cc_chopping_enabled (cs_ctrl c)"
    "cs_transfer c = None" "cs_base c = otc_slot 4"
    by (simp_all add: c_def cc_enabled_def cc_start_def cc_sync_mode_def cc_step_def cc_direction_def
        cc_chopping_enabled_def bit_at_def bit_range_def Let_def chan_stat_new_def)
  have now: "unat (sched_now (m_sched m)) + 3 * 65536 < 2 ^ 64 - 1"
    by (simp add: m_def schedule_new_def STARTUP_def time_ZERO_def)
  obtain m' where m': "run_chan 2 ordering_table Otc m = Some m'"
    "\<forall>j. 4 < j + 3 \<and> j \<le> 4 \<longrightarrow> mem_word (m_ram m') (otc_slot j) = (if Suc 4 = j + 3 then 0x00ffffff else otc_slot (j - 1))"
    "\<forall>j<524288. \<not> (4 < j + 3 \<and> j \<le> 4) \<longrightarrow> mem_word (m_ram m') (otc_slot j) = mem_word (m_ram m) (otc_slot j)"
    using otc_builds_table [of m 4 3 2] ok n ctrl now s by auto
  have "m_ram m = ram_new" by (simp add: m_def)
  then show ?thesis
    using m'(1) m'(2) [rule_format, of 4] m'(2) [rule_format, of 3] m'(2) [rule_format, of 2] m'(3) [rule_format, of 1]
    by auto
qed

end
