(* ===== verification/Bus.thy ===== *)
theory Bus
  imports Dma Irq Timer
begin

text \<open>
  \<open>crates/splst_core/src/bus/mod.rs\<close>, with the memory interface of \<open>bus/bios.rs\<close> and the DMA entry points
  of \<open>bus/dma.rs\<close>: the memory map. RAM, scratchpad, BIOS, interrupt controller, timers, DMA and the
  small registers are the models of this development. The GPU, the CD-ROM drive, the SPU and the
  I/O port are a state of type \<open>'d\<close> with the record \<open>devices\<close> of their entry points, whose panics
  are \<^term>\<open>None\<close>; the record also holds the fuel for the DMA loop. Values are extended to 32 bits
  together with their width, as in \<open>AddrUnit\<close>.
\<close>

section \<open>BIOS\<close>

record bios = bios_data :: "nat \<Rightarrow> u8"

definition BIOS_SIZE :: nat where "BIOS_SIZE = 1024 * 512"

definition bios_load :: "addr_width \<Rightarrow> u32 \<Rightarrow> bios \<Rightarrow> u32 option" where
  "bios_load w addr b =
     (if unat addr + width_bytes w \<le> BIOS_SIZE
      then Some (from_u32 w (read_bytes (width_bytes w) (bios_data b) (unat addr))) else None)"

definition bios_load_unchecked :: "addr_width \<Rightarrow> u32 \<Rightarrow> bios \<Rightarrow> u32 option" where
  "bios_load_unchecked w addr b =
     (if unat addr + width_bytes w \<le> BIOS_SIZE
      then Some (from_u32 w (read_bytes (width_bytes w) (bios_data b) (unat addr))) else None)"

definition bios_bus :: "u32 \<times> u32" where
  "bios_bus = (0x1fc00000, 0x1fc00000 + word_of_nat BIOS_SIZE - 1)"

definition bios_patch :: "u8 list \<Rightarrow> u32 \<Rightarrow> bios \<Rightarrow> bios option" where
  "bios_patch code base b =
     (let base = regioned_addr base in
      case bus_offset bios_bus (base + word_of_nat (length code)) of
        None \<Rightarrow> None
      | Some _ \<Rightarrow>
          (case bus_offset bios_bus base of
             None \<Rightarrow> None
           | Some offset \<Rightarrow>
               Some (b\<lparr>bios_data := fold (\<lambda>(i, byte) d. d(unat offset + i := byte)) (enumerate 0 code) (bios_data b)\<rparr>)))"

section \<open>Control registers\<close>

definition ram_size_bus :: "u32 \<times> u32" where "ram_size_bus = (0x1f801060, 0x1f801060 + 4 - 1)"
definition cache_ctrl_bus :: "u32 \<times> u32" where "cache_ctrl_bus = (0xfffe0130, 0xfffe0130 + 4 - 1)"
definition mem_ctrl_bus :: "u32 \<times> u32" where "mem_ctrl_bus = (0x1f801000, 0x1f801000 + 36 - 1)"
definition exp1_bus :: "u32 \<times> u32" where "exp1_bus = (0x1f000000, 0x1f000000 + 512 * 1024 - 1)"
definition exp2_bus :: "u32 \<times> u32" where "exp2_bus = (0x1f802000, 0x1f802000 + 66 - 1)"
definition gpu_bus :: "u32 \<times> u32" where "gpu_bus = (0x1f801810, 0x1f801810 + 8 - 1)"
definition cdrom_bus :: "u32 \<times> u32" where "cdrom_bus = (0x1f801800, 0x1f801800 + 4 - 1)"
definition spu_bus :: "u32 \<times> u32" where "spu_bus = (0x1f801c00, 0x1f801c00 + 640 - 1)"
definition io_port_bus :: "u32 \<times> u32" where "io_port_bus = (0x1f801040, 0x1f801040 + 32 - 1)"

type_synonym cache_ctrl = u32

definition icache_enabled :: "cache_ctrl \<Rightarrow> bool" where "icache_enabled c = bit_at c 11"
definition tag_test_enabled :: "cache_ctrl \<Rightarrow> bool" where "tag_test_enabled c = bit_at c 2"

type_synonym mem_ctrl = "u32 list"

definition mem_ctrl_new :: mem_ctrl where "mem_ctrl_new = replicate 9 0"

definition mem_ctrl_store :: "u32 \<Rightarrow> u32 \<Rightarrow> mem_ctrl \<Rightarrow> mem_ctrl option" where
  "mem_ctrl_store addr val regs =
     (if addr = 0 \<and> val \<noteq> 0x1f000000 then None
      else if addr = 4 \<and> val \<noteq> 0x1f802000 then None
      else if unat (drop_bit 2 addr) < length regs then Some (regs[unat (drop_bit 2 addr) := val])
      else None)"

definition mem_ctrl_load :: "u32 \<Rightarrow> mem_ctrl \<Rightarrow> u32 option" where
  "mem_ctrl_load addr regs =
     (if unat (drop_bit 2 addr) < length regs then Some (regs ! unat (drop_bit 2 addr)) else None)"

section \<open>The bus\<close>

record 'd devices =
  dv_gpu_load :: "addr_width \<Rightarrow> u32 \<Rightarrow> 'd \<Rightarrow> (u32 \<times> 'd) option"
  dv_gpu_store :: "addr_width \<Rightarrow> u32 \<Rightarrow> u32 \<Rightarrow> schedule \<times> 'd \<Rightarrow> (schedule \<times> 'd) option"
  dv_gpu_peek :: "addr_width \<Rightarrow> u32 \<Rightarrow> 'd \<Rightarrow> u32 option"
  dv_cdrom_load :: "addr_width \<Rightarrow> u32 \<Rightarrow> 'd \<Rightarrow> (u32 \<times> 'd) option"
  dv_cdrom_store :: "addr_width \<Rightarrow> u32 \<Rightarrow> u32 \<Rightarrow> schedule \<times> 'd \<Rightarrow> (schedule \<times> 'd) option"
  dv_cdrom_peek :: "addr_width \<Rightarrow> u32 \<Rightarrow> 'd \<Rightarrow> u32 option"
  dv_spu_load :: "addr_width \<Rightarrow> u32 \<Rightarrow> 'd \<Rightarrow> u32 option"
  dv_spu_store :: "addr_width \<Rightarrow> u32 \<Rightarrow> u32 \<Rightarrow> schedule \<times> 'd \<Rightarrow> (schedule \<times> 'd) option"
  dv_io_load :: "addr_width \<Rightarrow> u32 \<Rightarrow> schedule \<times> 'd \<Rightarrow> (u32 \<times> schedule \<times> 'd) option"
  dv_io_store :: "addr_width \<Rightarrow> u32 \<Rightarrow> u32 \<Rightarrow> schedule \<times> 'd \<Rightarrow> (schedule \<times> 'd) option"
  dv_io_peek :: "addr_width \<Rightarrow> u32 \<Rightarrow> 'd \<Rightarrow> u32 option"
  dv_gpu_chan :: "'d channel"
  dv_cdrom_chan :: "'d channel"
  dv_spu_chan :: "'d channel"
  dv_gpu_event :: "gpu_callback \<Rightarrow> schedule \<times> timers \<times> 'd \<Rightarrow> (schedule \<times> timers \<times> 'd) option"
  dv_cdrom_event :: "cdrom_callback \<Rightarrow> schedule \<times> 'd \<Rightarrow> (schedule \<times> 'd) option"
  dv_io_event :: "io_port_callback \<Rightarrow> schedule \<times> 'd \<Rightarrow> (schedule \<times> 'd) option"
  dv_spu_event :: "spu_callback \<Rightarrow> schedule \<times> 'd \<Rightarrow> (schedule \<times> 'd) option"
  dv_fuel :: nat

record 'd bus =
  b_cache_ctrl :: cache_ctrl
  b_scratchpad :: raw_mem
  b_irq :: irq_state
  b_bios :: bios
  b_sched :: schedule
  b_ram :: raw_mem
  b_dma :: dma
  b_timers :: timers
  b_mem_ctrl :: mem_ctrl
  b_ram_size :: u32
  b_tty :: "u32 list"
  b_dev :: 'd

definition bus_new :: "bios \<Rightarrow> schedule \<Rightarrow> 'd \<Rightarrow> 'd bus" where
  "bus_new bios sch dev = \<lparr>b_cache_ctrl = 0, b_scratchpad = scratchpad_new, b_irq = irq_new, b_bios = bios,
     b_sched = sch, b_ram = ram_new, b_dma = dma_new, b_timers = timers_new, b_mem_ctrl = mem_ctrl_new,
     b_ram_size = 0, b_tty = [], b_dev = dev\<rparr>"

text \<open>\<open>run_dma_chan\<close> and \<open>run_dma\<close>: the controller borrows the device, the schedule and the RAM.\<close>

definition with_chan :: "nat \<Rightarrow> 'd channel \<Rightarrow> port \<Rightarrow> 'd bus \<Rightarrow> 'd bus option" where
  "with_chan fuel ch p b =
     map_option (\<lambda>m. b\<lparr>b_sched := m_sched m, b_ram := m_ram m, b_dma := m_dma m, b_dev := m_chan m\<rparr>)
       (run_chan fuel ch p \<lparr>m_dma = b_dma b, m_chan = b_dev b, m_sched = b_sched b, m_ram = b_ram b\<rparr>)"

definition with_otc :: "nat \<Rightarrow> 'd bus \<Rightarrow> 'd bus option" where
  "with_otc fuel b =
     map_option (\<lambda>m. b\<lparr>b_sched := m_sched m, b_ram := m_ram m, b_dma := m_dma m\<rparr>)
       (run_chan fuel ordering_table Otc \<lparr>m_dma = b_dma b, m_chan = (), m_sched = b_sched b, m_ram = b_ram b\<rparr>)"

definition run_dma :: "'d devices \<Rightarrow> 'd bus \<Rightarrow> 'd bus option" where
  "run_dma dv b =
     Option.bind (with_chan (dv_fuel dv) (dv_gpu_chan dv) GpuPort b) (\<lambda>b.
     Option.bind (with_chan (dv_fuel dv) (dv_cdrom_chan dv) CdRomPort b) (\<lambda>b.
     Option.bind (with_otc (dv_fuel dv) b) (\<lambda>b.
     with_chan (dv_fuel dv) (dv_spu_chan dv) SpuPort b)))"

definition run_dma_chan :: "'d devices \<Rightarrow> port \<Rightarrow> 'd bus \<Rightarrow> 'd bus option" where
  "run_dma_chan dv port b =
     (case port of
        GpuPort \<Rightarrow> with_chan (dv_fuel dv) (dv_gpu_chan dv) GpuPort b
      | CdRomPort \<Rightarrow> with_chan (dv_fuel dv) (dv_cdrom_chan dv) CdRomPort b
      | Otc \<Rightarrow> with_otc (dv_fuel dv) b
      | SpuPort \<Rightarrow> with_chan (dv_fuel dv) (dv_spu_chan dv) SpuPort b
      | _ \<Rightarrow> None)"

text \<open>The result of \<open>load\<close>: a panic, or \<open>None\<close> of the code (a bus error), or the value and its time.\<close>

type_synonym 'a outcome = "'a option option"

definition bus_peek :: "'d devices \<Rightarrow> addr_width \<Rightarrow> u32 \<Rightarrow> 'd bus \<Rightarrow> u32 outcome" where
  "bus_peek dv w addr b =
     (let addr = regioned_addr addr; off = (\<lambda>r. addr - fst r) in
      if bus_contains scratchpad_bus addr then map_option Some (scratchpad_load w (off scratchpad_bus) (b_scratchpad b))
      else if bus_contains ram_bus addr then map_option Some (ram_load w addr (b_ram b))
      else if bus_contains bios_bus addr then map_option Some (bios_load w (off bios_bus) (b_bios b))
      else if bus_contains mem_ctrl_bus addr then
        map_option (\<lambda>v. Some (from_u32_aligned w v addr)) (mem_ctrl_load (off mem_ctrl_bus) (b_mem_ctrl b))
      else if bus_contains ram_size_bus addr then Some (Some (from_u32_aligned w (b_ram_size b) addr))
      else if bus_contains cache_ctrl_bus addr then Some (Some (from_u32_aligned w (b_cache_ctrl b) addr))
      else if bus_contains exp1_bus addr then Some (Some (from_u32 w 0xff))
      else if bus_contains exp2_bus addr then Some (Some (from_u32 w 0xff))
      else if bus_contains gpu_bus addr then map_option Some (dv_gpu_peek dv w (off gpu_bus) (b_dev b))
      else if bus_contains irq_bus addr then map_option Some (irq_load w (off irq_bus) (b_irq b))
      else if bus_contains dma_bus addr then map_option Some (dma_load w (off dma_bus) (b_dma b))
      else if bus_contains cdrom_bus addr then map_option Some (dv_cdrom_peek dv w (off cdrom_bus) (b_dev b))
      else if bus_contains spu_bus addr then map_option Some (dv_spu_load dv w (off spu_bus) (b_dev b))
      else if bus_contains timers_bus addr then map_option Some (timers_peek w (off timers_bus) (b_timers b))
      else if bus_contains io_port_bus addr then map_option Some (dv_io_peek dv w (off io_port_bus) (b_dev b))
      else Some None)"

definition cycles :: "nat \<Rightarrow> systime" where "cycles n = systime_new (word_of_nat n)"

definition bus_load :: "'d devices \<Rightarrow> addr_width \<Rightarrow> u32 \<Rightarrow> 'd bus \<Rightarrow> ((u32 \<times> systime) option \<times> 'd bus) option" where
  "bus_load dv w addr b =
     (let off = (\<lambda>r. addr - fst r) in
      if bus_contains ram_bus addr then
        map_option (\<lambda>v. (Some (v, cycles 3), b)) (ram_load_unchecked w addr (b_ram b))
      else if bus_contains bios_bus addr then
        map_option (\<lambda>v. (Some (v, cycles (6 * width_bytes w)), b)) (bios_load_unchecked w (off bios_bus) (b_bios b))
      else if bus_contains mem_ctrl_bus addr then
        map_option (\<lambda>v. (Some (from_u32_aligned w v addr, cycles 3), b)) (mem_ctrl_load (off mem_ctrl_bus) (b_mem_ctrl b))
      else if bus_contains ram_size_bus addr then Some (Some (from_u32 w (b_ram_size b), cycles 3), b)
      else if bus_contains cache_ctrl_bus addr then Some (Some (from_u32 w (b_cache_ctrl b), cycles 2), b)
      else if bus_contains exp1_bus addr then Some (Some (from_u32 w 0xff, cycles (7 * width_bytes w)), b)
      else if bus_contains exp2_bus addr then Some (Some (from_u32 w 0xff, cycles (10 * width_bytes w)), b)
      else if bus_contains irq_bus addr then
        map_option (\<lambda>v. (Some (v, cycles 3), b)) (irq_load w (off irq_bus) (b_irq b))
      else if bus_contains dma_bus addr then
        Option.bind (run_dma dv b) (\<lambda>b.
          map_option (\<lambda>v. (Some (v, cycles 3), b)) (dma_load w (off dma_bus) (b_dma b)))
      else if bus_contains cdrom_bus addr then
        map_option (\<lambda>(v, d). (Some (v, cycles 6), b\<lparr>b_dev := d\<rparr>)) (dv_cdrom_load dv w (off cdrom_bus) (b_dev b))
      else if bus_contains spu_bus addr then
        (let time = (if w = FullWord then cycles 39 else cycles 18) in
         map_option (\<lambda>v. (Some (v, time), b)) (dv_spu_load dv w (off spu_bus) (b_dev b)))
      else if bus_contains timers_bus addr then
        map_option (\<lambda>(v, sch, ts). (Some (v, cycles 3), b\<lparr>b_sched := sch, b_timers := ts\<rparr>))
          (timers_load w (off timers_bus) (b_sched b, b_timers b))
      else if bus_contains gpu_bus addr then
        map_option (\<lambda>(v, d). (Some (v, cycles 3), b\<lparr>b_dev := d\<rparr>)) (dv_gpu_load dv w (off gpu_bus) (b_dev b))
      else if bus_contains io_port_bus addr then
        map_option (\<lambda>(v, sch, d). (Some (v, cycles 3), b\<lparr>b_sched := sch, b_dev := d\<rparr>))
          (dv_io_load dv w (off io_port_bus) (b_sched b, b_dev b))
      else Some (None, b))"

definition tty_put :: "u32 \<Rightarrow> u32 list \<Rightarrow> u32 list" where
  "tty_put v buf =
     (let c = (if v < 0xd800 \<or> 0xdfff < v \<and> v \<le> 0x10ffff then v else 0x2e) in
      if c = 0xa then [] else buf @ [c])"

text \<open>\<open>store\<close>: the value is of the given width; the boolean is \<open>Some(())\<close> or \<open>None\<close> of the code.\<close>

definition bus_store :: "'d devices \<Rightarrow> addr_width \<Rightarrow> u32 \<Rightarrow> u32 \<Rightarrow> 'd bus \<Rightarrow> (bool \<times> 'd bus) option" where
  "bus_store dv w addr val b =
     (let off = (\<lambda>r. addr - fst r) in
      if bus_contains scratchpad_bus addr then
        map_option (\<lambda>m. (True, b\<lparr>b_scratchpad := m\<rparr>))
          (scratchpad_store_unchecked w (off scratchpad_bus) val (b_scratchpad b))
      else if bus_contains ram_bus addr then
        map_option (\<lambda>m. (True, b\<lparr>b_ram := m\<rparr>)) (ram_store_unchecked w addr val (b_ram b))
      else if bus_contains ram_size_bus addr then Some (True, b\<lparr>b_ram_size := val\<rparr>)
      else if bus_contains mem_ctrl_bus addr then
        map_option (\<lambda>m. (True, b\<lparr>b_mem_ctrl := m\<rparr>)) (mem_ctrl_store (off mem_ctrl_bus) val (b_mem_ctrl b))
      else if bus_contains cache_ctrl_bus addr then Some (True, b\<lparr>b_cache_ctrl := val\<rparr>)
      else if bus_contains spu_bus addr then
        map_option (\<lambda>(sch, d). (True, b\<lparr>b_sched := sch, b_dev := d\<rparr>))
          (dv_spu_store dv w (off spu_bus) val (b_sched b, b_dev b))
      else if bus_contains exp1_bus addr then Some (True, b)
      else if bus_contains exp2_bus addr then
        Some (True, if off exp2_bus = 0x23 \<or> off exp2_bus = 0x80 then b\<lparr>b_tty := tty_put val (b_tty b)\<rparr> else b)
      else if bus_contains irq_bus addr then
        map_option (\<lambda>(sch, st). (True, b\<lparr>b_sched := sch, b_irq := st\<rparr>)) (irq_store (off irq_bus) val (b_sched b) (b_irq b))
      else if bus_contains timers_bus addr then
        map_option (\<lambda>(sch, ts). (True, b\<lparr>b_sched := sch, b_timers := ts\<rparr>))
          (timers_store (off timers_bus) val (b_sched b, b_timers b))
      else if bus_contains dma_bus addr then
        Option.bind (dma_store (off dma_bus) val (b_dma b, b_sched b)) (\<lambda>(d, sch).
          map_option (\<lambda>b. (True, b)) (run_dma dv (b\<lparr>b_dma := d, b_sched := sch\<rparr>)))
      else if bus_contains cdrom_bus addr then
        map_option (\<lambda>(sch, d). (True, b\<lparr>b_sched := sch, b_dev := d\<rparr>))
          (dv_cdrom_store dv w (off cdrom_bus) val (b_sched b, b_dev b))
      else if bus_contains gpu_bus addr then
        map_option (\<lambda>(sch, d). (True, b\<lparr>b_sched := sch, b_dev := d\<rparr>))
          (dv_gpu_store dv w (off gpu_bus) val (b_sched b, b_dev b))
      else if bus_contains io_port_bus addr then
        map_option (\<lambda>(sch, d). (True, b\<lparr>b_sched := sch, b_dev := d\<rparr>))
          (dv_io_store dv w (off io_port_bus) val (b_sched b, b_dev b))
      else Some (False, b))"

section \<open>The memory map\<close>

definition bus_map :: "(u32 \<times> u32) list" where
  "bus_map = [ram_bus, exp1_bus, scratchpad_bus, mem_ctrl_bus, io_port_bus, ram_size_bus, irq_bus, dma_bus,
     timers_bus, cdrom_bus, gpu_bus, spu_bus, exp2_bus, bios_bus, cache_ctrl_bus]"

lemmas bus_ranges = ram_bus_def exp1_bus_def scratchpad_bus_def mem_ctrl_bus_def io_port_bus_def ram_size_bus_def
  irq_bus_def dma_bus_def timers_bus_def cdrom_bus_def gpu_bus_def spu_bus_def exp2_bus_def bios_bus_def
  cache_ctrl_bus_def RAM_SIZE_def BIOS_SIZE_def

text \<open>The ranges in the order of their addresses do not touch.\<close>

fun separated :: "(u32 \<times> u32) list \<Rightarrow> bool" where
  "separated (r # s # rs) \<longleftrightarrow> fst r \<le> snd r \<and> snd r < fst s \<and> separated (s # rs)"
| "separated [r] \<longleftrightarrow> fst r \<le> snd r"
| "separated [] \<longleftrightarrow> True"

lemma separated_later: "separated (r # rs) \<Longrightarrow> s \<in> set rs \<Longrightarrow> snd r < fst s"
proof (induction rs arbitrary: r)
  case (Cons t rs)
  then have "snd r < fst t" "fst t \<le> snd t" "separated (t # rs)" by (cases rs; auto)+
  then show ?case using Cons.IH [of t] Cons.prems(2) by auto
qed simp

lemma separated_unique:
  "separated rs \<Longrightarrow> r \<in> set rs \<Longrightarrow> s \<in> set rs \<Longrightarrow> bus_contains r a \<Longrightarrow> bus_contains s a \<Longrightarrow> r = s"
proof (induction rs)
  case (Cons t rs)
  have tail: "separated rs" using Cons.prems(1) by (cases rs) auto
  have apart: False if "u \<in> set rs" "bus_contains t a" "bus_contains u a" for u
    using separated_later [OF Cons.prems(1) that(1)] that(2,3) by (auto simp: bus_contains_def)
  show ?case
    using Cons.IH [OF tail] Cons.prems(2-5) apart [of r] apart [of s] by auto
qed simp

lemma bus_map_separated: "separated bus_map"
  by (simp add: bus_map_def bus_ranges)

lemma bus_map_unique:
  "bus_contains r a \<Longrightarrow> r \<in> set bus_map \<Longrightarrow> s \<in> set bus_map \<Longrightarrow> r \<noteq> s \<Longrightarrow> \<not> bus_contains s a"
  using separated_unique [OF bus_map_separated] by blast

lemma bus_map_distinct: "distinct bus_map"
  by (simp add: bus_map_def bus_ranges)

text \<open>An address of one device is not one of another.\<close>

lemma ram_not_others:
  assumes "bus_contains ram_bus a"
  shows "\<not> bus_contains scratchpad_bus a" "\<not> bus_contains bios_bus a"
  using assms bus_map_unique [OF assms, of scratchpad_bus] bus_map_unique [OF assms, of bios_bus]
  by (simp_all add: bus_map_def bus_ranges)

lemma bios_not_ram: "bus_contains bios_bus a \<Longrightarrow> \<not> bus_contains ram_bus a"
  using ram_not_others(2) by blast

definition bus_mem_ok :: "'d bus \<Rightarrow> bool" where
  "bus_mem_ok b \<longleftrightarrow> ram_ok (b_ram b) \<and> mem_size (b_scratchpad b) = SCRATCHPAD_SIZE \<and> length (b_mem_ctrl b) = 9"

lemma aligned_block:
  assumes "n mod width_bytes w = 0" "n < 4 * k"
  shows "n + width_bytes w \<le> 4 * k"
proof (cases w)
  case FullWord
  then obtain q where "n = 4 * q" using assms(1) by auto
  then show ?thesis using assms(2) FullWord by simp
next
  case HalfWord
  then obtain q where "n = 2 * q" using assms(1) by auto
  then show ?thesis using assms(2) HalfWord by simp
qed (use assms in auto)

lemma aligned_offset:
  assumes "is_aligned_to w a" "bus_contains r a" "unat (fst r) mod 4 = 0" "unat (snd r) - unat (fst r) < 4 * k"
  shows "unat (a - fst r) + width_bytes w \<le> 4 * k"
proof (rule aligned_block)
  have le: "unat (fst r) \<le> unat a" "unat a \<le> unat (snd r)"
    using assms(2) by (auto simp: bus_contains_def word_le_nat_alt)
  then have u: "unat (a - fst r) = unat a - unat (fst r)" by (simp add: unat_sub word_le_nat_alt)
  have m: "unat (fst r) mod width_bytes w = 0" using assms(3) by (cases w) (auto simp: mod_eq_0_iff_dvd elim: dvd_trans)
  show "unat (a - fst r) mod width_bytes w = 0"
    using assms(1) m le u by (simp add: aligned_nat mod_eq_0_iff_dvd dvd_diff_nat)
  show "unat (a - fst r) < 4 * k" using u le assms(4) by simp
qed

text \<open>C9: the memory map and the unchecked accesses. Of the fifteen ranges at most one holds an address.
  For an aligned address no access of RAM, BIOS or scratchpad leaves its buffer: a store to RAM
  succeeds, changes only the RAM and reads back (truncated to its width) in three cycles; a load
  from the BIOS and a store to the scratchpad return. Outside the ranges load and store report a
  bus error and change nothing.\<close>

theorem bus_memory_access:
  assumes "bus_mem_ok b" "is_aligned_to w addr"
  shows "(\<forall>r \<in> set bus_map. \<forall>s \<in> set bus_map. bus_contains r addr \<and> bus_contains s addr \<longrightarrow> r = s)
    \<and> (bus_contains ram_bus addr \<longrightarrow>
        (\<exists>m. bus_store dv w addr v b = Some (True, b\<lparr>b_ram := m\<rparr>) \<and> bus_mem_ok (b\<lparr>b_ram := m\<rparr>)
           \<and> bus_load dv w addr (b\<lparr>b_ram := m\<rparr>) = Some (Some (from_u32 w v, cycles 3), b\<lparr>b_ram := m\<rparr>)))
    \<and> (bus_contains bios_bus addr \<longrightarrow>
        (\<exists>x. bus_load dv w addr b = Some (Some (x, cycles (6 * width_bytes w)), b)))
    \<and> (bus_contains scratchpad_bus addr \<longrightarrow>
        (\<exists>m. bus_store dv w addr v b = Some (True, b\<lparr>b_scratchpad := m\<rparr>) \<and> bus_mem_ok (b\<lparr>b_scratchpad := m\<rparr>)))
    \<and> ((\<forall>r \<in> set bus_map. \<not> bus_contains r addr) \<longrightarrow>
        bus_load dv w addr b = Some (None, b) \<and> bus_store dv w addr v b = Some (False, b))"
proof (intro conjI impI)
  show "\<forall>r \<in> set bus_map. \<forall>s \<in> set bus_map. bus_contains r addr \<and> bus_contains s addr \<longrightarrow> r = s"
    using separated_unique [OF bus_map_separated] by blast
next
  assume ram: "bus_contains ram_bus addr"
  have ok: "ram_ok (b_ram b)" using assms(1) by (simp add: bus_mem_ok_def)
  obtain m where m: "ram_store w addr v (b_ram b) = Some m"
    using ram.store_returns [OF ram_inside [OF ok assms(2)]] by blast
  have "ram_ok m" using m ok by (auto simp: ram_store_def raw_store_def Let_def ram_ok_def split: if_splits)
  then show "\<exists>m. bus_store dv w addr v b = Some (True, b\<lparr>b_ram := m\<rparr>) \<and> bus_mem_ok (b\<lparr>b_ram := m\<rparr>)
      \<and> bus_load dv w addr (b\<lparr>b_ram := m\<rparr>) = Some (Some (from_u32 w v, cycles 3), b\<lparr>b_ram := m\<rparr>)"
    using ram ram_not_others [OF ram] m ram.load_store_same [OF m] assms(1)
    by (intro exI [of _ m]) (simp add: bus_store_def bus_load_def Let_def ram_unchecked bus_mem_ok_def)
next
  assume bios: "bus_contains bios_bus addr"
  have "unat (addr - fst bios_bus) + width_bytes w \<le> 4 * 131072"
    using assms(2) bios by (rule aligned_offset) (simp_all add: bios_bus_def BIOS_SIZE_def)
  then show "\<exists>x. bus_load dv w addr b = Some (Some (x, cycles (6 * width_bytes w)), b)"
    using bios bios_not_ram [OF bios] by (simp add: bus_load_def Let_def bios_load_unchecked_def BIOS_SIZE_def)
next
  assume sp: "bus_contains scratchpad_bus addr"
  have "unat (addr - fst scratchpad_bus) + width_bytes w \<le> 4 * 256"
    using assms(2) sp by (rule aligned_offset) (simp_all add: scratchpad_bus_def)
  then show "\<exists>m. bus_store dv w addr v b = Some (True, b\<lparr>b_scratchpad := m\<rparr>) \<and> bus_mem_ok (b\<lparr>b_scratchpad := m\<rparr>)"
    using sp assms(1)
    by (intro exI [of _ "(b_scratchpad b)\<lparr>mem_data := write_bytes (width_bytes w) (mem_data (b_scratchpad b))
          (unat (addr - fst scratchpad_bus)) v\<rparr>"]) (simp add: bus_store_def Let_def scratchpad_store_unchecked_def raw_store_unchecked_def bus_mem_ok_def SCRATCHPAD_SIZE_def)
next
  assume "\<forall>r \<in> set bus_map. \<not> bus_contains r addr"
  then show "bus_load dv w addr b = Some (None, b)" "bus_store dv w addr v b = Some (False, b)"
    by (simp_all add: bus_map_def bus_load_def bus_store_def)
qed

theorem bus_memory_access_witness:
  "\<forall>dv b d. \<exists>m. bus_store dv HalfWord 0x1234 0xabcdef (bus_new b schedule_new d) = Some (True, (bus_new b schedule_new d)\<lparr>b_ram := m\<rparr>)
    \<and> bus_load dv HalfWord 0x1234 ((bus_new b schedule_new d)\<lparr>b_ram := m\<rparr>)
        = Some (Some (0xcdef, cycles 3), (bus_new b schedule_new d)\<lparr>b_ram := m\<rparr>)"
proof (intro allI)
  fix dv :: "'a devices" and b and d :: 'a
  have ok: "bus_mem_ok (bus_new b schedule_new d)"
    by (simp add: bus_mem_ok_def bus_new_def ram_ok_def ram_new_def raw_new_def scratchpad_new_def mem_ctrl_new_def)
  have al: "is_aligned_to HalfWord 0x1234" by (simp add: is_aligned_to_def)
  have "bus_contains ram_bus 0x1234" by (simp add: bus_contains_def ram_bus_def RAM_SIZE_def)
  moreover have "from_u32 HalfWord 0xabcdef = 0xcdef" by (simp add: from_u32_def)
  ultimately show "\<exists>m. bus_store dv HalfWord 0x1234 0xabcdef (bus_new b schedule_new d) = Some (True, (bus_new b schedule_new d)\<lparr>b_ram := m\<rparr>)
    \<and> bus_load dv HalfWord 0x1234 ((bus_new b schedule_new d)\<lparr>b_ram := m\<rparr>)
        = Some (Some (0xcdef, cycles 3), (bus_new b schedule_new d)\<lparr>b_ram := m\<rparr>)"
    using bus_memory_access [OF ok al, of dv "0xabcdef"] by auto
qed

end
