(* ===== verification/Cop0.thy ===== *)
theory Cop0
  imports Schedule
begin

text \<open>
  \<open>crates/splst_core/src/cpu/cop0.rs\<close>: coprocessor 0, which keeps the status (register 12), cause (13)
  and return address (14) of exceptions. Its sixteen registers are a list; an index out of
  bounds is \<^term>\<open>None\<close>.
\<close>

datatype exception = Interrupt | AddressLoadError | AddressStoreError | BusInstructionError | BusDataError
  | Syscall | Breakpoint | ReservedInstruction | CopUnusable | ArithmeticOverflow

fun exception_code :: "exception \<Rightarrow> u32" where
  "exception_code Interrupt = 0x0"
| "exception_code AddressLoadError = 0x4"
| "exception_code AddressStoreError = 0x5"
| "exception_code BusInstructionError = 0x6"
| "exception_code BusDataError = 0x7"
| "exception_code Syscall = 0x8"
| "exception_code Breakpoint = 0x9"
| "exception_code ReservedInstruction = 0xa"
| "exception_code CopUnusable = 0xb"
| "exception_code ArithmeticOverflow = 0xc"

type_synonym cop0 = "u32 list"

definition REGISTER_VALUES :: "u32 list" where
  "REGISTER_VALUES = [0, 0, 0, 0, 0, 0, 0, 0, 0, 0, 0, 0, 0, 0, 0x00000002, 0]"

definition cop0_new :: cop0 where "cop0_new = REGISTER_VALUES"

definition cache_isolated :: "cop0 \<Rightarrow> bool" where "cache_isolated c = bit_at (c ! 12) 16"
definition bev_in_ram :: "cop0 \<Rightarrow> bool" where "bev_in_ram c = bit_at (c ! 12) 22"
definition irq_enabled :: "cop0 \<Rightarrow> bool" where "irq_enabled c = bit_at (c ! 12) 0"

definition set_reg :: "u32 \<Rightarrow> u32 \<Rightarrow> cop0 \<Rightarrow> cop0 option" where
  "set_reg reg value c = (if unat reg < length c then Some (c[unat reg := value]) else None)"

definition read_reg :: "u32 \<Rightarrow> cop0 \<Rightarrow> u32 option" where
  "read_reg reg c = (if unat reg < length c then Some (c ! unat reg) else None)"

definition enter_exception :: "u32 \<Rightarrow> bool \<Rightarrow> exception \<Rightarrow> schedule \<times> cop0 \<Rightarrow> u32 \<times> schedule \<times> cop0" where
  "enter_exception last_pc in_delay ex = (\<lambda>(sch, c).
     let flags = bit_range (c ! 12) 0 5;
         c = c[12 := set_bit_range (c ! 12) 0 5 (push_bit 2 flags)];
         c = c[13 := set_bit_range (c ! 13) 2 6 (exception_code ex)];
         addr = (if in_delay then last_pc - 4 else last_pc);
         c = c[13 := set_bit_at (c ! 13) 31 in_delay];
         c = c[14 := addr];
         sch = snd (trigger EvIrqCheck sch)
     in (if bev_in_ram c then 0xbfc00180 else 0x80000080, sch, c))"

definition exit_exception :: "schedule \<times> cop0 \<Rightarrow> schedule \<times> cop0" where
  "exit_exception = (\<lambda>(sch, c).
     let flags = bit_range (c ! 12) 0 5;
         c = c[12 := set_bit_range (c ! 12) 0 3 (drop_bit 2 flags)]
     in (snd (trigger EvIrqCheck sch), c))"

section \<open>Properties\<close>

definition cop0_ok :: "cop0 \<Rightarrow> bool" where "cop0_ok c \<longleftrightarrow> length c = 16"

lemma enter_exception_regs:
  assumes "cop0_ok c" "enter_exception last_pc in_delay ex (sch, c) = (pc, sch', c')"
  shows "cop0_ok c'" "sch' = snd (trigger EvIrqCheck sch)"
    "c' ! 12 = set_bit_range (c ! 12) 0 5 (push_bit 2 (bit_range (c ! 12) 0 5))"
    "c' ! 13 = set_bit_at (set_bit_range (c ! 13) 2 6 (exception_code ex)) 31 in_delay"
    "c' ! 14 = (if in_delay then last_pc - 4 else last_pc)"
    "\<forall>i < 16. i \<notin> {12, 13, 14} \<longrightarrow> c' ! i = c ! i"
    "pc = (if bev_in_ram c then 0xbfc00180 else 0x80000080)"
proof -
  have bev: "bit_at (set_bit_range w 0 5 v) 22 = bit_at w 22" for w v :: u32
    by (rule bit_at_set_bit_range_other) simp_all
  show "cop0_ok c'" "sch' = snd (trigger EvIrqCheck sch)"
    "c' ! 12 = set_bit_range (c ! 12) 0 5 (push_bit 2 (bit_range (c ! 12) 0 5))"
    "c' ! 13 = set_bit_at (set_bit_range (c ! 13) 2 6 (exception_code ex)) 31 in_delay"
    "c' ! 14 = (if in_delay then last_pc - 4 else last_pc)"
    "\<forall>i < 16. i \<notin> {12, 13, 14} \<longrightarrow> c' ! i = c ! i"
    "pc = (if bev_in_ram c then 0xbfc00180 else 0x80000080)"
    using assms by (auto simp: enter_exception_def Let_def cop0_ok_def bev_in_ram_def bev)
qed

lemma exception_code_less: "unat (exception_code ex) < 32"
  by (cases ex) simp_all

text \<open>Exceptions nest twice. Entering an exception disables interrupts and switches to kernel mode
  (bits 0 and 1 of the status register), records the exception in the cause register and the return
  address, which is the branch when the instruction was in a delay slot; returning restores the
  interrupt and mode bits, and the previous pair, as they were before, leaving the status register
  unchanged apart from the oldest pair. The handler address depends on the vector flag only.\<close>

lemma exception_roundtrip:
  assumes "cop0_ok c" "enter_exception last_pc in_delay ex (sch, c) = (pc, sch', c')"
    and "exit_exception (sch', c') = (sch'', c'')"
  shows "\<not> irq_enabled c' \<and> \<not> bit_at (c' ! 12) 1
    \<and> bit_range (c' ! 12) 2 5 = bit_range (c ! 12) 0 3
    \<and> bit_range (c' ! 13) 2 6 = exception_code ex \<and> bit_at (c' ! 13) 31 = in_delay
    \<and> c' ! 14 + (if in_delay then 4 else 0) = last_pc
    \<and> pc = (if bev_in_ram c then 0xbfc00180 else 0x80000080)
    \<and> bit_range (c'' ! 12) 0 3 = bit_range (c ! 12) 0 3
    \<and> (\<forall>k. 6 \<le> k \<longrightarrow> bit_at (c'' ! 12) k = bit_at (c ! 12) k)
    \<and> c'' ! 13 = c' ! 13 \<and> c'' ! 14 = c' ! 14"
proof -
  note r = enter_exception_regs [OF assms(1,2)]
  have l: "length c' = 16" using r(1) by (simp add: cop0_ok_def)
  have c'': "c'' ! 12 = set_bit_range (c' ! 12) 0 3 (drop_bit 2 (bit_range (c' ! 12) 0 5))"
    "c'' ! 13 = c' ! 13" "c'' ! 14 = c' ! 14"
    using assms(3) l by (auto simp: exit_exception_def Let_def)
  have code: "take_bit 5 (exception_code ex) = exception_code ex"
    by (cases ex) (simp_all add: take_bit_eq_mod)
  have "bit_range (set_bit_at w 31 v) 2 6 = bit_range w 2 6" for w :: u32 and v
    by (rule bit_range_set_bit_other) simp_all
  then have cause: "bit_range (c' ! 13) 2 6 = exception_code ex"
    by (simp add: r(4) bit_range_set_same code)
  have low: "bit (c' ! 12) k \<longleftrightarrow> (if k \<le> 5 then 2 \<le> k \<and> bit (c ! 12) (k - 2) else bit (c ! 12) k)" for k
    by (auto simp: r(3) bits_simps bit_simps)
  have "bit_range (c' ! 12) 2 5 = bit_range (c ! 12) 0 3"
    by (intro bit_word_eqI) (auto simp: bits_simps low)
  moreover have "bit_range (c'' ! 12) 0 3 = bit_range (c ! 12) 0 3"
    by (intro bit_word_eqI) (auto simp: bits_simps bit_simps low c'')
  moreover have "bit_at (c'' ! 12) k = bit_at (c ! 12) k" if "6 \<le> k" for k
    using that by (auto simp: bit_at_iff c'' bits_simps low)
  moreover have "\<not> irq_enabled c'" "\<not> bit_at (c' ! 12) 1"
    by (simp_all add: irq_enabled_def bit_at_iff low)
  moreover have "bit_at (c' ! 13) 31 = in_delay"
    by (simp add: r(4) bit_at_set_bit_at)
  ultimately show ?thesis using cause r(5,7) c'' by auto
qed

lemma exception_roundtrip_witness:
  "\<exists>pc sch c sch' c'. enter_exception 0x80001004 True Syscall (schedule_new, cop0_new[12 := 0x5]) = (pc, sch, c)
    \<and> exit_exception (sch, c) = (sch', c') \<and> c ! 14 = 0x80001000 \<and> \<not> irq_enabled c
    \<and> bit_range (c' ! 12) 0 3 = 5 \<and> pc = 0x80000080"
proof -
  let ?c = "cop0_new[12 := 0x5]"
  have ok: "cop0_ok ?c" by (simp add: cop0_ok_def cop0_new_def REGISTER_VALUES_def)
  obtain pc sch c where e: "enter_exception 0x80001004 True Syscall (schedule_new, ?c) = (pc, sch, c)"
    using prod_cases3 by blast
  obtain sch' c' where x: "exit_exception (sch, c) = (sch', c')" by fastforce
  have "bit_range (?c ! 12) 0 3 = 5" "\<not> bev_in_ram ?c"
    by (simp_all add: cop0_new_def REGISTER_VALUES_def bit_range_def bev_in_ram_def bit_at_def Let_def)
  then show ?thesis using exception_roundtrip [OF ok e x] e x by (auto simp: eq_diff_eq)
qed

end
