(* ===== verification/Opcode.thy ===== *)
theory Opcode
  imports Bits
begin

text \<open>
  \<open>crates/splst_core/src/cpu/opcode.rs\<close>, with \<open>Register\<close> of \<open>crates/splst_asm/src/ins.rs\<close>: the fields of
  an instruction word. A register is its index.
\<close>

type_synonym register = nat

definition register_new :: "u32 \<Rightarrow> register option" where
  "register_new index = (if index > 31 then None else Some (unat (ucast index :: u8)))"

definition register_new_unchecked :: "u32 \<Rightarrow> register" where
  "register_new_unchecked index = unat (ucast index :: u8)"

definition ZERO :: register where "ZERO = 0"
definition RA :: register where "RA = 31"

type_synonym opcode = u32

definition opc_op :: "opcode \<Rightarrow> u32" where "opc_op w = bit_range w 26 31"
definition opc_special :: "opcode \<Rightarrow> u32" where "opc_special w = bit_range w 0 5"
definition opc_imm :: "opcode \<Rightarrow> u32" where "opc_imm w = bit_range w 0 15"

definition opc_signed_imm :: "opcode \<Rightarrow> u32" where
  "opc_signed_imm w = scast (ucast (bit_range w 0 15) :: i16)"

definition opc_target :: "opcode \<Rightarrow> u32" where "opc_target w = bit_range w 0 25"
definition opc_shift :: "opcode \<Rightarrow> u32" where "opc_shift w = bit_range w 6 10"
definition opc_rd :: "opcode \<Rightarrow> register" where "opc_rd w = register_new_unchecked (bit_range w 11 15)"
definition opc_rt :: "opcode \<Rightarrow> register" where "opc_rt w = register_new_unchecked (bit_range w 16 20)"
definition opc_rs :: "opcode \<Rightarrow> register" where "opc_rs w = register_new_unchecked (bit_range w 21 25)"
definition opc_cop_op :: "opcode \<Rightarrow> u32" where "opc_cop_op w = word_of_nat (opc_rs w)"
definition opc_bgez :: "opcode \<Rightarrow> bool" where "opc_bgez w = bit_at w 16"

definition opc_update_ra_on_branch :: "opcode \<Rightarrow> bool" where
  "opc_update_ra_on_branch w \<longleftrightarrow> bit_range w 17 20 = 0x8"

section \<open>Lemmas\<close>

lemma register_field: "n \<le> m \<Longrightarrow> m < n + 5 \<Longrightarrow>
    register_new_unchecked (bit_range w n m) = unat w div 2 ^ n mod 2 ^ (Suc m - n)"
proof -
  assume nm: "n \<le> m" "m < n + 5"
  have "unat (bit_range w n m) < 2 ^ (Suc m - n)" using nm(1) by (rule unat_bit_range_less)
  also have "\<dots> \<le> (2 :: nat) ^ 5" using nm(2) by (intro power_increasing) auto
  finally show ?thesis
    using nm by (simp add: register_new_unchecked_def unsigned_ucast_eq take_bit_nat_eq_self unat_bit_range)
qed

text \<open>The decoder only makes registers that exist, the safety claim of \<open>rd\<close>, \<open>rt\<close> and \<open>rs\<close>.\<close>

lemma opc_registers_valid [simp]: "opc_rd w < 32" "opc_rt w < 32" "opc_rs w < 32"
  by (simp_all add: opc_rd_def opc_rt_def opc_rs_def register_field)

lemma opc_shift_less [simp]: "unat (opc_shift w) < 32"
  using unat_bit_range_less [of 6 10 w] by (simp add: opc_shift_def)

end
