(* ===== verification/Cpu.thy ===== *)
theory Cpu
  imports Bus Cop0 Opcode "HOL-Library.Monad_Syntax"
begin

text \<open>
  \<open>crates/splst_core/src/cpu/mod.rs\<close>: the state of the CPU, its pipeline, its bus accesses and the
  instruction cache. The debugger of the code only looks at the CPU, so the model leaves it out.
  The geometry engine is a state of type \<open>'g\<close> with its entry points in the record \<open>env\<close>, beside
  the devices of the bus. An operation that may panic or access memory outside a buffer has an
  option as result.
\<close>

section \<open>State\<close>

record delay_slot =
  ds_reg :: register
  ds_ready :: timestamp
  ds_val :: u32

definition delay_slot_default :: delay_slot where
  "delay_slot_default = \<lparr>ds_reg = ZERO, ds_ready = STARTUP, ds_val = 0\<rparr>"

type_synonym registers = "register \<Rightarrow> u32"

definition registers_load :: "register \<Rightarrow> registers \<Rightarrow> u32" where
  "registers_load reg rs = rs reg"

definition registers_store :: "register \<Rightarrow> u32 \<Rightarrow> registers \<Rightarrow> registers" where
  "registers_store reg val rs = (rs(reg := val))(0 := 0)"

record icache_line =
  line_tag_word :: u32
  line_data :: "u32 list"

definition line_valid :: icache_line where
  "line_valid = \<lparr>line_tag_word = 0, line_data = replicate 4 0xdeadbeef\<rparr>"

definition line_tag :: "icache_line \<Rightarrow> u32" where
  "line_tag l = bit_range (line_tag_word l) 12 30"

definition valid_word_idx :: "icache_line \<Rightarrow> nat" where
  "valid_word_idx l = unat (bit_range (line_tag_word l) 2 4)"

definition set_tag :: "u32 \<Rightarrow> icache_line \<Rightarrow> icache_line" where
  "set_tag pc l = l\<lparr>line_tag_word := pc AND 0x7ffff00c\<rparr>"

definition invalidate :: "icache_line \<Rightarrow> icache_line" where
  "invalidate l = l\<lparr>line_tag_word := line_tag_word l OR 0x10\<rparr>"

record ('d, 'g) cpu =
  c_last_pc :: u32
  c_pc :: u32
  c_next_pc :: u32
  in_branch_delay :: bool
  branched :: bool
  c_hi :: u32
  c_lo :: u32
  hi_lo_ready :: timestamp
  c_regs :: registers
  load_delay :: delay_slot
  icache :: "nat \<Rightarrow> icache_line"
  icache_misses :: u64
  c_bus :: "'d bus"
  c_gte :: 'g
  c_cop0 :: cop0

record ('d, 'g) env =
  e_dev :: "'d devices"
  gte_exec :: "u32 \<Rightarrow> 'g \<Rightarrow> 'g option"
  gte_data_load :: "u32 \<Rightarrow> 'g \<Rightarrow> (u32 \<times> 'g) option"
  gte_control_load :: "u32 \<Rightarrow> 'g \<Rightarrow> (u32 \<times> 'g) option"
  gte_data_store :: "u32 \<Rightarrow> u32 \<Rightarrow> 'g \<Rightarrow> 'g option"
  gte_control_store :: "u32 \<Rightarrow> u32 \<Rightarrow> 'g \<Rightarrow> 'g option"

definition PC_START_ADDRESS :: u32 where "PC_START_ADDRESS = 0xbfc00000"

definition cpu_new :: "'d bus \<Rightarrow> 'g \<Rightarrow> ('d, 'g) cpu" where
  "cpu_new b g = \<lparr>c_last_pc = 0, c_pc = PC_START_ADDRESS, c_next_pc = PC_START_ADDRESS + 4,
     in_branch_delay = False, branched = False, c_hi = 0, c_lo = 0, hi_lo_ready = STARTUP, c_regs = (\<lambda>_. 0),
     load_delay = delay_slot_default, icache = (\<lambda>_. line_valid), icache_misses = 0, c_bus = b, c_gte = g,
     c_cop0 = cop0_new\<rparr>"

text \<open>The schedule lives in the bus.\<close>

abbreviation c_sched :: "('d, 'g) cpu \<Rightarrow> schedule" where "c_sched c \<equiv> b_sched (c_bus c)"

definition upd_sched :: "(schedule \<Rightarrow> schedule) \<Rightarrow> ('d, 'g) cpu \<Rightarrow> ('d, 'g) cpu" where
  "upd_sched f c = c\<lparr>c_bus := (c_bus c)\<lparr>b_sched := f (b_sched (c_bus c))\<rparr>\<rparr>"

definition load_reg :: "register \<Rightarrow> ('d, 'g) cpu \<Rightarrow> u32" where
  "load_reg reg c = registers_load reg (c_regs c)"

definition store_reg :: "register \<Rightarrow> u32 \<Rightarrow> ('d, 'g) cpu \<Rightarrow> ('d, 'g) cpu" where
  "store_reg reg val c = c\<lparr>c_regs := registers_store reg val (c_regs c)\<rparr>"

section \<open>Exceptions and control flow\<close>

definition throw_exception :: "exception \<Rightarrow> ('d, 'g) cpu \<Rightarrow> ('d, 'g) cpu" where
  "throw_exception ex c =
     (let (pc, sch, cop) = enter_exception (c_last_pc c) (in_branch_delay c) ex (c_sched c, c_cop0 c)
      in (upd_sched (\<lambda>_. sch) c)\<lparr>c_cop0 := cop, c_pc := pc, c_next_pc := pc + 4\<rparr>)"

definition branch :: "u32 \<Rightarrow> ('d, 'g) cpu \<Rightarrow> ('d, 'g) cpu" where
  "branch offset c = c\<lparr>c_next_pc := c_pc c + push_bit 2 offset, branched := True\<rparr>"

definition jump :: "u32 \<Rightarrow> ('d, 'g) cpu \<Rightarrow> ('d, 'g) cpu" where
  "jump address c = c\<lparr>c_next_pc := address, branched := True\<rparr>"

definition next_pc :: "('d, 'g) cpu \<Rightarrow> u32 \<times> ('d, 'g) cpu" where
  "next_pc c = (let c' = c\<lparr>c_last_pc := c_pc c, c_pc := c_next_pc c, c_next_pc := c_next_pc c + 4,
                           in_branch_delay := branched c, branched := False\<rparr>
                in (c_last_pc c', c'))"

section \<open>The load delay and the multiplier\<close>

definition access_reg :: "register \<Rightarrow> ('d, 'g) cpu \<Rightarrow> ('d, 'g) cpu" where
  "access_reg reg c =
     (let same = ds_reg (load_delay c) = reg; skip = ds_ready (load_delay c) * (if same then 1 else 0)
      in upd_sched (skip_to skip) c)"

definition fetch_load_slot :: "('d, 'g) cpu \<Rightarrow> ('d, 'g) cpu" where
  "fetch_load_slot c =
     (store_reg (ds_reg (load_delay c)) (ds_val (load_delay c)) c)\<lparr>load_delay := delay_slot_default\<rparr>"

definition pipeline_bus_load :: "register \<Rightarrow> u32 \<Rightarrow> systime \<Rightarrow> ('d, 'g) cpu \<Rightarrow> ('d, 'g) cpu" where
  "pipeline_bus_load reg val time c =
     (let lreg = (if ds_reg (load_delay c) = reg then ZERO else ds_reg (load_delay c));
          c = upd_sched (skip_to (ds_ready (load_delay c))) c;
          c = store_reg lreg (ds_val (load_delay c)) c;
          ready = sched_now (c_sched c) + time
      in c\<lparr>load_delay := \<lparr>ds_reg = reg, ds_ready = ready, ds_val = val\<rparr>\<rparr>)"

definition pipeline_cop_load :: "register \<Rightarrow> u32 \<Rightarrow> ('d, 'g) cpu \<Rightarrow> ('d, 'g) cpu" where
  "pipeline_cop_load reg val c =
     (let lreg = (if ds_reg (load_delay c) = reg then ZERO else ds_reg (load_delay c));
          c = store_reg lreg (ds_val (load_delay c)) c
      in c\<lparr>load_delay := \<lparr>ds_reg = reg, ds_ready = STARTUP, ds_val = val\<rparr>\<rparr>)"

definition add_pending_hi_lo :: "systime \<Rightarrow> u32 \<Rightarrow> u32 \<Rightarrow> ('d, 'g) cpu \<Rightarrow> ('d, 'g) cpu" where
  "add_pending_hi_lo time hi lo c = c\<lparr>hi_lo_ready := sched_now (c_sched c) + time, c_hi := hi, c_lo := lo\<rparr>"

definition fetch_pending_hi_lo :: "('d, 'g) cpu \<Rightarrow> ('d, 'g) cpu" where
  "fetch_pending_hi_lo c = upd_sched (skip_to (hi_lo_ready c)) c"

section \<open>Bus accesses\<close>

definition set_cop0 :: "u32 \<Rightarrow> u32 \<Rightarrow> ('d, 'g) cpu \<Rightarrow> ('d, 'g) cpu option" where
  "set_cop0 reg val c = map_option (\<lambda>cop. c\<lparr>c_cop0 := cop\<rparr>) (set_reg reg val (c_cop0 c))"

definition load_code :: "('d, 'g) env \<Rightarrow> u32 \<Rightarrow> ('d, 'g) cpu \<Rightarrow> ((exception + u32) \<times> ('d, 'g) cpu) option" where
  "load_code env addr c =
     (if \<not> is_aligned_to FullWord addr then do { c \<leftarrow> set_cop0 8 addr c; Some (Inl AddressLoadError, c) }
      else do {
        (r, b) \<leftarrow> bus_load (e_dev env) FullWord (regioned_addr addr) (c_bus c);
        let c = c\<lparr>c_bus := b\<rparr>;
        Some (case r of Some (val, time) \<Rightarrow> (Inr val, upd_sched (advance time) c)
              | None \<Rightarrow> (Inl BusInstructionError, c)) })"

definition cpu_load :: "('d, 'g) env \<Rightarrow> addr_width \<Rightarrow> u32 \<Rightarrow> ('d, 'g) cpu
    \<Rightarrow> ((exception + u32 \<times> systime) \<times> ('d, 'g) cpu) option" where
  "cpu_load env w addr c =
     (let c = upd_sched (skip_to (ds_ready (load_delay c))) c in
      if \<not> is_aligned_to w addr then do { c \<leftarrow> set_cop0 8 addr c; Some (Inl AddressLoadError, c) }
      else let addr = regioned_addr addr in
        (case bus_offset scratchpad_bus addr of
           Some offset \<Rightarrow> do {
             val \<leftarrow> scratchpad_load_unchecked w offset (b_scratchpad (c_bus c));
             Some (Inr (val, time_ZERO), c) }
         | None \<Rightarrow> do {
             (r, b) \<leftarrow> bus_load (e_dev env) w addr (c_bus c);
             Some (case r of None \<Rightarrow> Inl BusDataError | Some x \<Rightarrow> Inr x, c\<lparr>c_bus := b\<rparr>) }))"

definition cpu_store :: "('d, 'g) env \<Rightarrow> addr_width \<Rightarrow> u32 \<Rightarrow> u32 \<Rightarrow> ('d, 'g) cpu
    \<Rightarrow> (exception option \<times> ('d, 'g) cpu) option" where
  "cpu_store env w addr val c =
     (if \<not> is_aligned_to w addr then do { c \<leftarrow> set_cop0 8 addr c; Some (Some AddressStoreError, c) }
      else let addr = regioned_addr addr in
        if \<not> cache_isolated (c_cop0 c) then do {
          (ok, b) \<leftarrow> bus_store (e_dev env) w addr val (c_bus c);
          Some (if ok then None else Some BusDataError, c\<lparr>c_bus := b\<rparr>) }
        else if icache_enabled (b_cache_ctrl (c_bus c)) then
          let line_idx = unat (bit_range addr 4 11); line = icache c line_idx;
              line = (if tag_test_enabled (b_cache_ctrl (c_bus c)) then invalidate line
                      else line\<lparr>line_data := (line_data line)[unat (bit_range addr 2 3) := val]\<rparr>)
          in Some (None, c\<lparr>icache := (icache c)(line_idx := line)\<rparr>)
        else Some (None, c))"

text \<open>The \<open>match\<close> on the result of \<open>load\<close> and the \<open>if let Err\<close> on that of \<open>store\<close>.\<close>

definition load_then :: "('d, 'g) env \<Rightarrow> addr_width \<Rightarrow> u32 \<Rightarrow> (u32 \<Rightarrow> systime \<Rightarrow> ('d, 'g) cpu \<Rightarrow> ('d, 'g) cpu option)
    \<Rightarrow> ('d, 'g) cpu \<Rightarrow> ('d, 'g) cpu option" where
  "load_then env w addr f c = do {
     (r, c) \<leftarrow> cpu_load env w addr c;
     case r of Inl ex \<Rightarrow> Some (throw_exception ex c) | Inr (val, time) \<Rightarrow> f val time c }"

definition store_or_throw :: "('d, 'g) env \<Rightarrow> addr_width \<Rightarrow> u32 \<Rightarrow> u32 \<Rightarrow> ('d, 'g) cpu \<Rightarrow> ('d, 'g) cpu option" where
  "store_or_throw env w addr val c = do {
     (r, c) \<leftarrow> cpu_store env w addr val c;
     Some (case r of Some ex \<Rightarrow> throw_exception ex c | None \<Rightarrow> c) }"

end
