(* ===== verification/CpuOps.thy ===== *)
theory CpuOps
  imports Cpu
begin

text \<open>
  \<open>crates/splst_core/src/cpu/mod.rs\<close>: the instructions, in the order of the code. A register that an
  instruction reads or writes is first accessed, which waits for a load to it that is still in flight;
  the pending load arrives after the operands are read and before the result is written.
\<close>

section \<open>Integers\<close>

definition checked_i32 :: "int \<Rightarrow> u32 option" where
  "checked_i32 v = (if - (2 ^ 31) \<le> v \<and> v < 2 ^ 31 then Some (word_of_int v) else None)"

definition checked_add :: "i32 \<Rightarrow> i32 \<Rightarrow> i32 option" where
  "checked_add a b = checked_i32 (sint a + sint b)"

definition checked_sub :: "i32 \<Rightarrow> i32 \<Rightarrow> i32 option" where
  "checked_sub a b = checked_i32 (sint a - sint b)"

definition of_bool_word :: "bool \<Rightarrow> u32" where "of_bool_word b = (if b then 1 else 0)"


section \<open>Shifts\<close>

definition op_sll :: "opcode \<Rightarrow> ('d, 'g) cpu \<Rightarrow> ('d, 'g) cpu" where
  "op_sll op c =
     (let c = access_reg (opc_rt op) c; c = access_reg (opc_rd op) c;
          val = push_bit (unat (opc_shift op)) (load_reg (opc_rt op) c)
      in store_reg (opc_rd op) val (fetch_load_slot c))"

definition op_srl :: "opcode \<Rightarrow> ('d, 'g) cpu \<Rightarrow> ('d, 'g) cpu" where
  "op_srl op c =
     (let c = access_reg (opc_rt op) c; c = access_reg (opc_rd op) c;
          val = drop_bit (unat (opc_shift op)) (load_reg (opc_rt op) c)
      in store_reg (opc_rd op) val (fetch_load_slot c))"

definition op_sra :: "opcode \<Rightarrow> ('d, 'g) cpu \<Rightarrow> ('d, 'g) cpu" where
  "op_sra op c =
     (let c = access_reg (opc_rt op) c; c = access_reg (opc_rd op) c;
          val = signed_drop_bit (unat (opc_shift op)) (load_reg (opc_rt op) c)
      in store_reg (opc_rd op) val (fetch_load_slot c))"

definition op_sllv :: "opcode \<Rightarrow> ('d, 'g) cpu \<Rightarrow> ('d, 'g) cpu" where
  "op_sllv op c =
     (let c = access_reg (opc_rt op) c; c = access_reg (opc_rd op) c; c = access_reg (opc_rs op) c;
          val = push_bit (unat (bit_range (load_reg (opc_rs op) c) 0 4)) (load_reg (opc_rt op) c)
      in store_reg (opc_rd op) val (fetch_load_slot c))"

definition op_srlv :: "opcode \<Rightarrow> ('d, 'g) cpu \<Rightarrow> ('d, 'g) cpu" where
  "op_srlv op c =
     (let c = access_reg (opc_rt op) c; c = access_reg (opc_rd op) c; c = access_reg (opc_rs op) c;
          val = drop_bit (unat (bit_range (load_reg (opc_rs op) c) 0 4)) (load_reg (opc_rt op) c)
      in store_reg (opc_rd op) val (fetch_load_slot c))"

definition op_srav :: "opcode \<Rightarrow> ('d, 'g) cpu \<Rightarrow> ('d, 'g) cpu" where
  "op_srav op c =
     (let c = access_reg (opc_rt op) c; c = access_reg (opc_rd op) c; c = access_reg (opc_rs op) c;
          val = signed_drop_bit (unat (bit_range (load_reg (opc_rs op) c) 0 4)) (load_reg (opc_rt op) c)
      in store_reg (opc_rd op) val (fetch_load_slot c))"

section \<open>Jumps and traps\<close>

definition op_jr :: "opcode \<Rightarrow> ('d, 'g) cpu \<Rightarrow> ('d, 'g) cpu" where
  "op_jr op c =
     (let c = access_reg (opc_rs op) c;
          c = jump (load_reg (opc_rs op) c) c
      in fetch_load_slot c)"

definition op_jalr :: "opcode \<Rightarrow> ('d, 'g) cpu \<Rightarrow> ('d, 'g) cpu" where
  "op_jalr op c =
     (let pc = c_next_pc c; c = access_reg (opc_rs op) c; c = access_reg (opc_rd op) c;
          c = jump (load_reg (opc_rs op) c) c
      in store_reg (opc_rd op) pc (fetch_load_slot c))"

definition op_syscall :: "('d, 'g) cpu \<Rightarrow> ('d, 'g) cpu" where
  "op_syscall c =
     throw_exception Syscall (fetch_load_slot c)"

definition op_break :: "('d, 'g) cpu \<Rightarrow> ('d, 'g) cpu" where
  "op_break c =
     throw_exception Breakpoint (fetch_load_slot c)"

section \<open>Multiplication and division\<close>

definition op_mfhi :: "opcode \<Rightarrow> ('d, 'g) cpu \<Rightarrow> ('d, 'g) cpu" where
  "op_mfhi op c =
     (let c = access_reg (opc_rd op) c;
          c = fetch_pending_hi_lo c; c = fetch_load_slot c
      in store_reg (opc_rd op) (c_hi c) c)"

definition op_mthi :: "opcode \<Rightarrow> ('d, 'g) cpu \<Rightarrow> ('d, 'g) cpu" where
  "op_mthi op c =
     (let c = access_reg (opc_rs op) c;
          c = c\<lparr>c_hi := load_reg (opc_rs op) c\<rparr>
      in fetch_load_slot c)"

definition op_mflo :: "opcode \<Rightarrow> ('d, 'g) cpu \<Rightarrow> ('d, 'g) cpu" where
  "op_mflo op c =
     (let c = access_reg (opc_rd op) c;
          c = fetch_pending_hi_lo c; c = fetch_load_slot c
      in store_reg (opc_rd op) (c_lo c) c)"

definition op_mtlo :: "opcode \<Rightarrow> ('d, 'g) cpu \<Rightarrow> ('d, 'g) cpu" where
  "op_mtlo op c =
     (let c = access_reg (opc_rs op) c;
          c = c\<lparr>c_lo := load_reg (opc_rs op) c\<rparr>
      in fetch_load_slot c)"

definition op_mult :: "opcode \<Rightarrow> ('d, 'g) cpu \<Rightarrow> ('d, 'g) cpu" where
  "op_mult op c =
     (let c = access_reg (opc_rs op) c; c = access_reg (opc_rt op) c;
          lhs = load_reg (opc_rs op) c; rhs = load_reg (opc_rt op) c;
          zeros = leading_zeros (if lhs <s 0 then NOT lhs else lhs);
          time = systime_new (if zeros \<le> 11 then 13 else if zeros \<le> 20 then 9 else 7);
          val = word_of_int (sint lhs * sint rhs) :: u64
      in add_pending_hi_lo time (ucast (drop_bit 32 val)) (ucast val) (fetch_load_slot c))"

definition op_multu :: "opcode \<Rightarrow> ('d, 'g) cpu \<Rightarrow> ('d, 'g) cpu" where
  "op_multu op c =
     (let c = access_reg (opc_rs op) c; c = access_reg (opc_rt op) c;
          lhs = load_reg (opc_rs op) c; rhs = load_reg (opc_rt op) c;
          time = systime_new (if lhs \<le> 0x7ff then 13 else if lhs \<le> 0xfffff then 9 else 7);
          val = ucast lhs * ucast rhs :: u64
      in add_pending_hi_lo time (ucast (drop_bit 32 val)) (ucast val) (fetch_load_slot c))"

definition op_div :: "opcode \<Rightarrow> ('d, 'g) cpu \<Rightarrow> ('d, 'g) cpu" where
  "op_div op c =
     (let c = access_reg (opc_rs op) c; c = access_reg (opc_rt op) c;
          lhs = load_reg (opc_rs op) c; rhs = load_reg (opc_rt op) c; c = fetch_load_slot c
      in if rhs = 0 then add_pending_hi_lo (systime_new 36) lhs (if lhs <s 0 then 1 else 0xffffffff) c
         else if rhs = -1 \<and> lhs = 0x80000000 then add_pending_hi_lo (systime_new 36) 0 0x80000000 c
         else add_pending_hi_lo (systime_new 36) (word_of_int (rust_rem (sint lhs) (sint rhs)))
                (word_of_int (rust_div (sint lhs) (sint rhs))) c)"

definition op_divu :: "opcode \<Rightarrow> ('d, 'g) cpu \<Rightarrow> ('d, 'g) cpu" where
  "op_divu op c =
     (let c = access_reg (opc_rs op) c; c = access_reg (opc_rt op) c;
          lhs = load_reg (opc_rs op) c; rhs = load_reg (opc_rt op) c; c = fetch_load_slot c
      in if rhs = 0 then add_pending_hi_lo (systime_new 36) lhs 0xffffffff c
         else add_pending_hi_lo (systime_new 36) (lhs mod rhs) (lhs div rhs) c)"

section \<open>Arithmetic and logic\<close>

definition op_add :: "opcode \<Rightarrow> ('d, 'g) cpu \<Rightarrow> ('d, 'g) cpu" where
  "op_add op c =
     (let c = access_reg (opc_rs op) c; c = access_reg (opc_rt op) c; c = access_reg (opc_rd op) c;
          res = checked_add (load_reg (opc_rs op) c) (load_reg (opc_rt op) c); c = fetch_load_slot c
      in case res of Some val \<Rightarrow> store_reg (opc_rd op) val c | None \<Rightarrow> throw_exception ArithmeticOverflow c)"

definition op_addu :: "opcode \<Rightarrow> ('d, 'g) cpu \<Rightarrow> ('d, 'g) cpu" where
  "op_addu op c =
     (let c = access_reg (opc_rs op) c; c = access_reg (opc_rt op) c; c = access_reg (opc_rd op) c;
          val = load_reg (opc_rs op) c + load_reg (opc_rt op) c
      in store_reg (opc_rd op) val (fetch_load_slot c))"

definition op_sub :: "opcode \<Rightarrow> ('d, 'g) cpu \<Rightarrow> ('d, 'g) cpu" where
  "op_sub op c =
     (let c = access_reg (opc_rs op) c; c = access_reg (opc_rt op) c; c = access_reg (opc_rd op) c;
          res = checked_sub (load_reg (opc_rs op) c) (load_reg (opc_rt op) c); c = fetch_load_slot c
      in case res of Some val \<Rightarrow> store_reg (opc_rd op) val c | None \<Rightarrow> throw_exception ArithmeticOverflow c)"

definition op_subu :: "opcode \<Rightarrow> ('d, 'g) cpu \<Rightarrow> ('d, 'g) cpu" where
  "op_subu op c =
     (let c = access_reg (opc_rs op) c; c = access_reg (opc_rt op) c; c = access_reg (opc_rd op) c;
          val = load_reg (opc_rs op) c - load_reg (opc_rt op) c
      in store_reg (opc_rd op) val (fetch_load_slot c))"

definition op_and :: "opcode \<Rightarrow> ('d, 'g) cpu \<Rightarrow> ('d, 'g) cpu" where
  "op_and op c =
     (let c = access_reg (opc_rs op) c; c = access_reg (opc_rt op) c; c = access_reg (opc_rd op) c;
          val = load_reg (opc_rs op) c AND load_reg (opc_rt op) c
      in store_reg (opc_rd op) val (fetch_load_slot c))"

definition op_or :: "opcode \<Rightarrow> ('d, 'g) cpu \<Rightarrow> ('d, 'g) cpu" where
  "op_or op c =
     (let c = access_reg (opc_rs op) c; c = access_reg (opc_rt op) c; c = access_reg (opc_rd op) c;
          val = load_reg (opc_rs op) c OR load_reg (opc_rt op) c
      in store_reg (opc_rd op) val (fetch_load_slot c))"

definition op_xor :: "opcode \<Rightarrow> ('d, 'g) cpu \<Rightarrow> ('d, 'g) cpu" where
  "op_xor op c =
     (let c = access_reg (opc_rs op) c; c = access_reg (opc_rt op) c; c = access_reg (opc_rd op) c;
          val = load_reg (opc_rs op) c XOR load_reg (opc_rt op) c
      in store_reg (opc_rd op) val (fetch_load_slot c))"

definition op_nor :: "opcode \<Rightarrow> ('d, 'g) cpu \<Rightarrow> ('d, 'g) cpu" where
  "op_nor op c =
     (let c = access_reg (opc_rs op) c; c = access_reg (opc_rt op) c; c = access_reg (opc_rd op) c;
          val = NOT (load_reg (opc_rs op) c OR load_reg (opc_rt op) c)
      in store_reg (opc_rd op) val (fetch_load_slot c))"

definition op_slt :: "opcode \<Rightarrow> ('d, 'g) cpu \<Rightarrow> ('d, 'g) cpu" where
  "op_slt op c =
     (let c = access_reg (opc_rs op) c; c = access_reg (opc_rt op) c; c = access_reg (opc_rd op) c;
          val = of_bool_word (load_reg (opc_rs op) c <s load_reg (opc_rt op) c)
      in store_reg (opc_rd op) val (fetch_load_slot c))"

definition op_sltu :: "opcode \<Rightarrow> ('d, 'g) cpu \<Rightarrow> ('d, 'g) cpu" where
  "op_sltu op c =
     (let c = access_reg (opc_rs op) c; c = access_reg (opc_rt op) c; c = access_reg (opc_rd op) c;
          val = of_bool_word (load_reg (opc_rs op) c < load_reg (opc_rt op) c)
      in store_reg (opc_rd op) val (fetch_load_slot c))"

section \<open>Branches\<close>

definition op_bcondz :: "opcode \<Rightarrow> ('d, 'g) cpu \<Rightarrow> ('d, 'g) cpu" where
  "op_bcondz op c =
     (let c = access_reg (opc_rs op) c;
          cond = of_bool_word (load_reg (opc_rs op) c <s 0) XOR of_bool_word (opc_bgez op);
          c = fetch_load_slot c;
          c = (if opc_update_ra_on_branch op then store_reg RA (c_next_pc c) c else c)
      in if cond \<noteq> 0 then branch (opc_signed_imm op) c else c)"

definition op_j :: "opcode \<Rightarrow> ('d, 'g) cpu \<Rightarrow> ('d, 'g) cpu" where
  "op_j op c =
     fetch_load_slot (jump ((c_pc c AND 0xf0000000) OR push_bit 2 (opc_target op)) c)"

definition op_jal :: "opcode \<Rightarrow> ('d, 'g) cpu \<Rightarrow> ('d, 'g) cpu" where
  "op_jal op c =
     (let pc = c_next_pc c; c = access_reg RA c; c = op_j op c
      in store_reg RA pc c)"

definition op_beq :: "opcode \<Rightarrow> ('d, 'g) cpu \<Rightarrow> ('d, 'g) cpu" where
  "op_beq op c =
     (let c = access_reg (opc_rs op) c; c = access_reg (opc_rt op) c;
          c = (if load_reg (opc_rs op) c = load_reg (opc_rt op) c then branch (opc_signed_imm op) c else c)
      in fetch_load_slot c)"

definition op_bne :: "opcode \<Rightarrow> ('d, 'g) cpu \<Rightarrow> ('d, 'g) cpu" where
  "op_bne op c =
     (let c = access_reg (opc_rs op) c; c = access_reg (opc_rt op) c;
          c = (if load_reg (opc_rs op) c \<noteq> load_reg (opc_rt op) c then branch (opc_signed_imm op) c else c)
      in fetch_load_slot c)"

definition op_blez :: "opcode \<Rightarrow> ('d, 'g) cpu \<Rightarrow> ('d, 'g) cpu" where
  "op_blez op c =
     (let c = access_reg (opc_rs op) c;
          c = (if load_reg (opc_rs op) c <=s 0 then branch (opc_signed_imm op) c else c)
      in fetch_load_slot c)"

definition op_bgtz :: "opcode \<Rightarrow> ('d, 'g) cpu \<Rightarrow> ('d, 'g) cpu" where
  "op_bgtz op c =
     (let c = access_reg (opc_rs op) c;
          c = (if 0 <s load_reg (opc_rs op) c then branch (opc_signed_imm op) c else c)
      in fetch_load_slot c)"

section \<open>Immediate operands\<close>

definition op_addi :: "opcode \<Rightarrow> ('d, 'g) cpu \<Rightarrow> ('d, 'g) cpu" where
  "op_addi op c =
     (let c = access_reg (opc_rs op) c; c = access_reg (opc_rt op) c;
          res = checked_add (load_reg (opc_rs op) c) (opc_signed_imm op); c = fetch_load_slot c
      in case res of Some val \<Rightarrow> store_reg (opc_rt op) val c | None \<Rightarrow> throw_exception ArithmeticOverflow c)"

definition op_addiu :: "opcode \<Rightarrow> ('d, 'g) cpu \<Rightarrow> ('d, 'g) cpu" where
  "op_addiu op c =
     (let c = access_reg (opc_rs op) c; c = access_reg (opc_rt op) c;
          val = load_reg (opc_rs op) c + opc_signed_imm op
      in store_reg (opc_rt op) val (fetch_load_slot c))"

definition op_slti :: "opcode \<Rightarrow> ('d, 'g) cpu \<Rightarrow> ('d, 'g) cpu" where
  "op_slti op c =
     (let c = access_reg (opc_rs op) c; c = access_reg (opc_rt op) c;
          val = of_bool_word (load_reg (opc_rs op) c <s opc_signed_imm op)
      in store_reg (opc_rt op) val (fetch_load_slot c))"

definition op_sltui :: "opcode \<Rightarrow> ('d, 'g) cpu \<Rightarrow> ('d, 'g) cpu" where
  "op_sltui op c =
     (let c = access_reg (opc_rs op) c; c = access_reg (opc_rt op) c;
          val = of_bool_word (load_reg (opc_rs op) c < opc_signed_imm op)
      in store_reg (opc_rt op) val (fetch_load_slot c))"

definition op_andi :: "opcode \<Rightarrow> ('d, 'g) cpu \<Rightarrow> ('d, 'g) cpu" where
  "op_andi op c =
     (let c = access_reg (opc_rs op) c; c = access_reg (opc_rt op) c;
          val = load_reg (opc_rs op) c AND opc_imm op
      in store_reg (opc_rt op) val (fetch_load_slot c))"

definition op_ori :: "opcode \<Rightarrow> ('d, 'g) cpu \<Rightarrow> ('d, 'g) cpu" where
  "op_ori op c =
     (let c = access_reg (opc_rs op) c; c = access_reg (opc_rt op) c;
          val = load_reg (opc_rs op) c OR opc_imm op
      in store_reg (opc_rt op) val (fetch_load_slot c))"

definition op_xori :: "opcode \<Rightarrow> ('d, 'g) cpu \<Rightarrow> ('d, 'g) cpu" where
  "op_xori op c =
     (let c = access_reg (opc_rs op) c; c = access_reg (opc_rt op) c;
          val = load_reg (opc_rs op) c XOR opc_imm op
      in store_reg (opc_rt op) val (fetch_load_slot c))"

definition op_lui :: "opcode \<Rightarrow> ('d, 'g) cpu \<Rightarrow> ('d, 'g) cpu" where
  "op_lui op c =
     (let c = access_reg (opc_rt op) c;
          val = push_bit 16 (opc_imm op)
      in store_reg (opc_rt op) val (fetch_load_slot c))"

section \<open>Coprocessors\<close>

definition op_cop0 :: "opcode \<Rightarrow> ('d, 'g) cpu \<Rightarrow> ('d, 'g) cpu option" where
  "op_cop0 op c =
     (let cop = opc_cop_op op; reg = word_of_nat (opc_rd op) :: u32 in
      if cop = 0x0 then
        (let c = access_reg (opc_rt op) c in
         if reg > 15 then Some (throw_exception ReservedInstruction c)
         else do { val \<leftarrow> read_reg reg (c_cop0 c); Some (pipeline_cop_load (opc_rt op) val c) })
      else if cop = 0x4 then
        (let c = access_reg (opc_rt op) c; c = fetch_load_slot c in set_cop0 reg (load_reg (opc_rt op) c) c)
      else if cop = 0x10 then
        (let c = fetch_load_slot c; (sch, cop0) = exit_exception (c_sched c, c_cop0 c)
         in Some ((upd_sched (\<lambda>_. sch) c)\<lparr>c_cop0 := cop0\<rparr>))
      else None)"

definition op_cop1 :: "('d, 'g) cpu \<Rightarrow> ('d, 'g) cpu" where
  "op_cop1 c =
     throw_exception CopUnusable c"

definition op_cop2 :: "('d, 'g) env \<Rightarrow> opcode \<Rightarrow> ('d, 'g) cpu \<Rightarrow> ('d, 'g) cpu option" where
  "op_cop2 env op c =
     (let cop = opc_cop_op op; reg = word_of_nat (opc_rd op) :: u32 in
      if bit_at cop 4 then
        (let c = fetch_load_slot c in do { g \<leftarrow> gte_exec env op (c_gte c); Some (c\<lparr>c_gte := g\<rparr>) })
      else if cop = 0x0 then
        (let c = access_reg (opc_rt op) c in do {
           (val, g) \<leftarrow> gte_data_load env reg (c_gte c);
           Some (pipeline_cop_load (opc_rt op) val (c\<lparr>c_gte := g\<rparr>)) })
      else if cop = 0x2 then
        (let c = access_reg (opc_rt op) c in do {
           (val, g) \<leftarrow> gte_control_load env reg (c_gte c);
           Some (pipeline_cop_load (opc_rt op) val (c\<lparr>c_gte := g\<rparr>)) })
      else if cop = 0x4 then
        (let c = access_reg (opc_rt op) c; val = load_reg (opc_rt op) c; c = fetch_load_slot c in do {
           g \<leftarrow> gte_data_store env reg val (c_gte c); Some (c\<lparr>c_gte := g\<rparr>) })
      else if cop = 0x6 then
        (let c = access_reg (opc_rt op) c; val = load_reg (opc_rt op) c; c = fetch_load_slot c in do {
           g \<leftarrow> gte_control_store env reg val (c_gte c); Some (c\<lparr>c_gte := g\<rparr>) })
      else None)"

definition op_cop3 :: "('d, 'g) cpu \<Rightarrow> ('d, 'g) cpu" where
  "op_cop3 c =
     throw_exception CopUnusable c"

section \<open>Loads and stores\<close>

definition op_lb :: "('d, 'g) env \<Rightarrow> opcode \<Rightarrow> ('d, 'g) cpu \<Rightarrow> ('d, 'g) cpu option" where
  "op_lb env op c =
     (let c = access_reg (opc_rs op) c; c = access_reg (opc_rt op) c;
          addr = load_reg (opc_rs op) c + opc_signed_imm op
      in load_then env Byte addr (\<lambda>val time c. Some (pipeline_bus_load (opc_rt op) (scast (ucast val :: u8)) time c)) c)"

definition op_lh :: "('d, 'g) env \<Rightarrow> opcode \<Rightarrow> ('d, 'g) cpu \<Rightarrow> ('d, 'g) cpu option" where
  "op_lh env op c =
     (let c = access_reg (opc_rs op) c; c = access_reg (opc_rt op) c;
          addr = load_reg (opc_rs op) c + opc_signed_imm op
      in load_then env HalfWord addr (\<lambda>val time c. Some (pipeline_bus_load (opc_rt op) (scast (ucast val :: u16)) time c)) c)"

definition op_lwl :: "('d, 'g) env \<Rightarrow> opcode \<Rightarrow> ('d, 'g) cpu \<Rightarrow> ('d, 'g) cpu option" where
  "op_lwl env op c =
     (let c = access_reg (opc_rs op) c; c = access_reg (opc_rt op) c;
          addr = load_reg (opc_rs op) c + opc_signed_imm op; aligned = addr AND NOT 3;
          val = (if ds_reg (load_delay c) = opc_rt op then ds_val (load_delay c) else load_reg (opc_rt op) c)
      in load_then env FullWord aligned (\<lambda>word time c.
           let val = (if addr AND 3 = 0 then (val AND 0x00ffffff) OR push_bit 24 word
                      else if addr AND 3 = 1 then (val AND 0x0000ffff) OR push_bit 16 word
                      else if addr AND 3 = 2 then (val AND 0x000000ff) OR push_bit 8 word
                      else word)
           in Some (pipeline_bus_load (opc_rt op) val time c)) c)"

definition op_lw :: "('d, 'g) env \<Rightarrow> opcode \<Rightarrow> ('d, 'g) cpu \<Rightarrow> ('d, 'g) cpu option" where
  "op_lw env op c =
     (let c = access_reg (opc_rs op) c; c = access_reg (opc_rt op) c;
          addr = load_reg (opc_rs op) c + opc_signed_imm op
      in load_then env FullWord addr (\<lambda>val time c. Some (pipeline_bus_load (opc_rt op) val time c)) c)"

definition op_lbu :: "('d, 'g) env \<Rightarrow> opcode \<Rightarrow> ('d, 'g) cpu \<Rightarrow> ('d, 'g) cpu option" where
  "op_lbu env op c =
     (let c = access_reg (opc_rs op) c; c = access_reg (opc_rt op) c;
          addr = load_reg (opc_rs op) c + opc_signed_imm op
      in load_then env Byte addr (\<lambda>val time c. Some (pipeline_bus_load (opc_rt op) val time c)) c)"

definition op_lhu :: "('d, 'g) env \<Rightarrow> opcode \<Rightarrow> ('d, 'g) cpu \<Rightarrow> ('d, 'g) cpu option" where
  "op_lhu env op c =
     (let c = access_reg (opc_rs op) c; c = access_reg (opc_rt op) c;
          addr = load_reg (opc_rs op) c + opc_signed_imm op
      in load_then env HalfWord addr (\<lambda>val time c. Some (pipeline_bus_load (opc_rt op) val time c)) c)"

definition op_lwr :: "('d, 'g) env \<Rightarrow> opcode \<Rightarrow> ('d, 'g) cpu \<Rightarrow> ('d, 'g) cpu option" where
  "op_lwr env op c =
     (let c = access_reg (opc_rs op) c; c = access_reg (opc_rt op) c;
          addr = load_reg (opc_rs op) c + opc_signed_imm op; aligned = addr AND NOT 3;
          val = (if ds_reg (load_delay c) = opc_rt op then ds_val (load_delay c) else load_reg (opc_rt op) c)
      in load_then env FullWord aligned (\<lambda>word time c.
           let val = (if addr AND 3 = 0 then word
                      else if addr AND 3 = 1 then (val AND 0xff000000) OR drop_bit 8 word
                      else if addr AND 3 = 2 then (val AND 0xffff0000) OR drop_bit 16 word
                      else (val AND 0xffffff00) OR drop_bit 24 word)
           in Some (pipeline_bus_load (opc_rt op) val time c)) c)"

definition op_sb :: "('d, 'g) env \<Rightarrow> opcode \<Rightarrow> ('d, 'g) cpu \<Rightarrow> ('d, 'g) cpu option" where
  "op_sb env op c =
     (let c = access_reg (opc_rs op) c; c = access_reg (opc_rt op) c;
          addr = load_reg (opc_rs op) c + opc_signed_imm op; val = load_reg (opc_rt op) c; c = fetch_load_slot c
      in store_or_throw env Byte addr (from_u32 Byte val) c)"

definition op_sh :: "('d, 'g) env \<Rightarrow> opcode \<Rightarrow> ('d, 'g) cpu \<Rightarrow> ('d, 'g) cpu option" where
  "op_sh env op c =
     (let c = access_reg (opc_rs op) c; c = access_reg (opc_rt op) c;
          addr = load_reg (opc_rs op) c + opc_signed_imm op; val = load_reg (opc_rt op) c; c = fetch_load_slot c
      in store_or_throw env HalfWord addr (from_u32 HalfWord val) c)"

definition op_swl :: "('d, 'g) env \<Rightarrow> opcode \<Rightarrow> ('d, 'g) cpu \<Rightarrow> ('d, 'g) cpu option" where
  "op_swl env op c =
     (let c = access_reg (opc_rs op) c; c = access_reg (opc_rt op) c;
          addr = load_reg (opc_rs op) c + opc_signed_imm op; val = load_reg (opc_rt op) c; aligned = addr AND NOT 3
      in load_then env FullWord aligned (\<lambda>word time c.
           let val = (if addr AND 3 = 0 then (word AND 0xffffff00) OR drop_bit 24 val
                      else if addr AND 3 = 1 then (word AND 0xffff0000) OR drop_bit 16 val
                      else if addr AND 3 = 2 then (word AND 0xff000000) OR drop_bit 8 val
                      else val);
               c = upd_sched (advance time) c; c = fetch_load_slot c
           in store_or_throw env FullWord aligned val c) c)"

definition op_sw :: "('d, 'g) env \<Rightarrow> opcode \<Rightarrow> ('d, 'g) cpu \<Rightarrow> ('d, 'g) cpu option" where
  "op_sw env op c =
     (let c = access_reg (opc_rs op) c; c = access_reg (opc_rt op) c;
          addr = load_reg (opc_rs op) c + opc_signed_imm op; val = load_reg (opc_rt op) c; c = fetch_load_slot c
      in store_or_throw env FullWord addr val c)"

definition op_swr :: "('d, 'g) env \<Rightarrow> opcode \<Rightarrow> ('d, 'g) cpu \<Rightarrow> ('d, 'g) cpu option" where
  "op_swr env op c =
     (let c = access_reg (opc_rs op) c; c = access_reg (opc_rt op) c;
          addr = load_reg (opc_rs op) c + opc_signed_imm op; val = load_reg (opc_rt op) c; aligned = addr AND NOT 3
      in load_then env FullWord aligned (\<lambda>word time c.
           let val = (if addr AND 3 = 0 then val
                      else if addr AND 3 = 1 then (word AND 0x000000ff) OR push_bit 8 val
                      else if addr AND 3 = 2 then (word AND 0x0000ffff) OR push_bit 16 val
                      else (word AND 0x00ffffff) OR push_bit 24 val);
               c = upd_sched (advance time) c; c = fetch_load_slot c
           in store_or_throw env FullWord aligned val c) c)"

definition op_lwc0 :: "('d, 'g) cpu \<Rightarrow> ('d, 'g) cpu" where
  "op_lwc0 c =
     throw_exception CopUnusable c"

definition op_lwc1 :: "('d, 'g) cpu \<Rightarrow> ('d, 'g) cpu" where
  "op_lwc1 c =
     throw_exception CopUnusable c"

definition op_lwc3 :: "('d, 'g) cpu \<Rightarrow> ('d, 'g) cpu" where
  "op_lwc3 c =
     throw_exception CopUnusable c"

definition op_lwc2 :: "('d, 'g) env \<Rightarrow> opcode \<Rightarrow> ('d, 'g) cpu \<Rightarrow> ('d, 'g) cpu option" where
  "op_lwc2 env op c =
     (let c = access_reg (opc_rs op) c;
          addr = load_reg (opc_rs op) c + opc_signed_imm op; c = fetch_load_slot c
      in load_then env FullWord addr (\<lambda>val time c. do {
           let c = upd_sched (advance time) c;
           g \<leftarrow> gte_data_store env (word_of_nat (opc_rt op)) val (c_gte c);
           Some (c\<lparr>c_gte := g\<rparr>) }) c)"

definition op_swc0 :: "('d, 'g) cpu \<Rightarrow> ('d, 'g) cpu" where
  "op_swc0 c =
     throw_exception CopUnusable c"

definition op_swc1 :: "('d, 'g) cpu \<Rightarrow> ('d, 'g) cpu" where
  "op_swc1 c =
     throw_exception CopUnusable c"

definition op_swc3 :: "('d, 'g) cpu \<Rightarrow> ('d, 'g) cpu" where
  "op_swc3 c =
     throw_exception CopUnusable c"

definition op_swc2 :: "('d, 'g) env \<Rightarrow> opcode \<Rightarrow> ('d, 'g) cpu \<Rightarrow> ('d, 'g) cpu option" where
  "op_swc2 env op c =
     (let c = access_reg (opc_rs op) c in do {
        (val, g) \<leftarrow> gte_data_load env (word_of_nat (opc_rt op)) (c_gte c);
        let c = c\<lparr>c_gte := g\<rparr>;
        let addr = load_reg (opc_rs op) c + opc_signed_imm op;
        let c = fetch_load_slot c;
        store_or_throw env FullWord addr val c })"

definition op_illegal :: "('d, 'g) cpu \<Rightarrow> ('d, 'g) cpu" where
  "op_illegal c =
     throw_exception ReservedInstruction c"

section \<open>Dispatch\<close>

definition exec_special :: "opcode \<Rightarrow> ('d, 'g) cpu \<Rightarrow> ('d, 'g) cpu option" where
  "exec_special op c =
     (let special = opc_special op in
      if special = 0x0 then Some (op_sll op c)
      else if special = 0x2 then Some (op_srl op c)
      else if special = 0x3 then Some (op_sra op c)
      else if special = 0x4 then Some (op_sllv op c)
      else if special = 0x6 then Some (op_srlv op c)
      else if special = 0x7 then Some (op_srav op c)
      else if special = 0x8 then Some (op_jr op c)
      else if special = 0x9 then Some (op_jalr op c)
      else if special = 0xc then Some (op_syscall c)
      else if special = 0xd then Some (op_break c)
      else if special = 0x10 then Some (op_mfhi op c)
      else if special = 0x11 then Some (op_mthi op c)
      else if special = 0x12 then Some (op_mflo op c)
      else if special = 0x13 then Some (op_mtlo op c)
      else if special = 0x18 then Some (op_mult op c)
      else if special = 0x19 then Some (op_multu op c)
      else if special = 0x1a then Some (op_div op c)
      else if special = 0x1b then Some (op_divu op c)
      else if special = 0x20 then Some (op_add op c)
      else if special = 0x21 then Some (op_addu op c)
      else if special = 0x22 then Some (op_sub op c)
      else if special = 0x23 then Some (op_subu op c)
      else if special = 0x24 then Some (op_and op c)
      else if special = 0x25 then Some (op_or op c)
      else if special = 0x26 then Some (op_xor op c)
      else if special = 0x27 then Some (op_nor op c)
      else if special = 0x2a then Some (op_slt op c)
      else if special = 0x2b then Some (op_sltu op c)
      else Some (op_illegal c))"

definition exec :: "('d, 'g) env \<Rightarrow> opcode \<Rightarrow> ('d, 'g) cpu \<Rightarrow> ('d, 'g) cpu option" where
  "exec env op c =
     (let code = opc_op op in
      if code = 0x0 then exec_special op c
      else if code = 0x1 then Some (op_bcondz op c)
      else if code = 0x2 then Some (op_j op c)
      else if code = 0x3 then Some (op_jal op c)
      else if code = 0x4 then Some (op_beq op c)
      else if code = 0x5 then Some (op_bne op c)
      else if code = 0x6 then Some (op_blez op c)
      else if code = 0x7 then Some (op_bgtz op c)
      else if code = 0x8 then Some (op_addi op c)
      else if code = 0x9 then Some (op_addiu op c)
      else if code = 0xa then Some (op_slti op c)
      else if code = 0xb then Some (op_sltui op c)
      else if code = 0xc then Some (op_andi op c)
      else if code = 0xd then Some (op_ori op c)
      else if code = 0xe then Some (op_xori op c)
      else if code = 0xf then Some (op_lui op c)
      else if code = 0x10 then op_cop0 op c
      else if code = 0x11 then Some (op_cop1 c)
      else if code = 0x12 then op_cop2 env op c
      else if code = 0x13 then Some (op_cop3 c)
      else if code = 0x20 then op_lb env op c
      else if code = 0x21 then op_lh env op c
      else if code = 0x22 then op_lwl env op c
      else if code = 0x23 then op_lw env op c
      else if code = 0x24 then op_lbu env op c
      else if code = 0x25 then op_lhu env op c
      else if code = 0x26 then op_lwr env op c
      else if code = 0x28 then op_sb env op c
      else if code = 0x29 then op_sh env op c
      else if code = 0x2a then op_swl env op c
      else if code = 0x2b then op_sw env op c
      else if code = 0x2e then op_swr env op c
      else if code = 0x30 then Some (op_lwc0 c)
      else if code = 0x31 then Some (op_lwc1 c)
      else if code = 0x32 then op_lwc2 env op c
      else if code = 0x33 then Some (op_lwc3 c)
      else if code = 0x38 then Some (op_swc0 c)
      else if code = 0x39 then Some (op_swc1 c)
      else if code = 0x3a then op_swc2 env op c
      else if code = 0x3b then Some (op_swc3 c)
      else Some (op_illegal c))"

end
