(* ===== verification/CpuStep.thy ===== *)
theory CpuStep
  imports CpuOps
begin

text \<open>
  \<open>crates/splst_core/src/cpu/mod.rs\<close>: fetching instructions through the cache, interrupts, and the
  loops \<open>step\<close> and \<open>run\<close> that deliver events and execute instructions. Both loops wait for the
  event queue to be empty, which a device can prevent, so they have fuel; its end is
  \<^term>\<open>None\<close>, as a panic is. The answers of the debugger's \<open>should_break\<close>, one per instruction,
  are the argument \<open>brk\<close> of \<open>run\<close>.
\<close>

definition irq_pending :: "('d, 'g) cpu \<Rightarrow> bool option" where
  "irq_pending c = do {
     let active = push_bit 10 (of_bool_word (irq_active (b_irq (c_bus c))));
     r13 \<leftarrow> read_reg 13 (c_cop0 c);
     let cause = r13 OR active;
     r12 \<leftarrow> read_reg 12 (c_cop0 c);
     let active = r12 AND cause AND 0xffff00;
     Some (irq_enabled (c_cop0 c) \<and> active \<noteq> 0) }"

definition check_for_pending_irq :: "('d, 'g) cpu \<Rightarrow> ('d, 'g) cpu option" where
  "check_for_pending_irq c = do {
     pending \<leftarrow> irq_pending c;
     Some (if pending then throw_exception Interrupt (fetch_load_slot (snd (next_pc c))) else c) }"

text \<open>\<open>fetch_cachline\<close>: the words that were fetched before an error are in the line.\<close>

fun fetch_words :: "('d, 'g) env \<Rightarrow> nat list \<Rightarrow> u32 \<Rightarrow> icache_line \<Rightarrow> ('d, 'g) cpu
    \<Rightarrow> (exception option \<times> icache_line \<times> ('d, 'g) cpu) option" where
  "fetch_words env [] addr line c = Some (None, line, c)"
| "fetch_words env (j # js) addr line c = do {
     (r, c) \<leftarrow> load_code env addr c;
     case r of
       Inl ex \<Rightarrow> Some (Some ex, line, c)
     | Inr val \<Rightarrow> fetch_words env js (addr + 4) (line\<lparr>line_data := (line_data line)[j := val]\<rparr>) c }"

definition fetch_cachline :: "('d, 'g) env \<Rightarrow> icache_line \<Rightarrow> nat \<Rightarrow> u32 \<Rightarrow> ('d, 'g) cpu
    \<Rightarrow> (exception option \<times> icache_line \<times> ('d, 'g) cpu) option" where
  "fetch_cachline env line idx addr c =
     fetch_words env [idx..<4] addr line (upd_sched (advance (systime_new (4 - word_of_nat idx))) c)"

definition execute_instruction :: "('d, 'g) env \<Rightarrow> ('d, 'g) cpu \<Rightarrow> ('d, 'g) cpu option" where
  "execute_instruction env c =
     (let (addr, c) = next_pc c in do {
        c \<leftarrow>
          (if addr_cached addr \<and> icache_enabled (b_cache_ctrl (c_bus c)) then
             let tag = bit_range addr 12 30; word_idx = unat (bit_range addr 2 3);
                 line_idx = unat (bit_range addr 4 11); line = icache c line_idx
             in if line_tag line \<noteq> tag \<or> word_idx < valid_word_idx line then
                  let c = upd_sched (skip_to (ds_ready (load_delay c))) c in do {
                    (r, line, c) \<leftarrow> fetch_cachline env line word_idx addr c;
                    c \<leftarrow> (case r of None \<Rightarrow> exec env (line_data line ! word_idx) c
                                | Some ex \<Rightarrow> Some (throw_exception ex c));
                    Some (c\<lparr>icache := (icache c)(line_idx := set_tag addr line),
                            icache_misses := icache_misses c + 1\<rparr>) }
                else exec env (line_data line ! word_idx) c
           else
             let c = upd_sched (skip_to (ds_ready (load_delay c))) c;
                 c = upd_sched (advance (systime_new 4)) c in do {
               (r, c) \<leftarrow> load_code env addr c;
               case r of Inr val \<Rightarrow> exec env val c | Inl ex \<Rightarrow> Some (throw_exception ex c) });
        Some (upd_sched (advance (systime_new 1)) c) })"

text \<open>The callbacks of the events; \<open>ExecutionTimeout\<close> is up to the caller.\<close>

definition on_timer :: "timer_id \<Rightarrow> timer_callback \<Rightarrow> schedule \<times> timers \<Rightarrow> (schedule \<times> timers) option" where
  "on_timer i cb st = (case cb of run_timer_cb \<Rightarrow> run_timer i st
     | enable_irq_master_flag_cb \<Rightarrow> Some (enable_irq_master_flag i st))"

definition exec_event :: "('d, 'g) env \<Rightarrow> event \<Rightarrow> ('d, 'g) cpu \<Rightarrow> ('d, 'g) cpu option" where
  "exec_event env ev c =
     (let b = c_bus c; dv = e_dev env;
          on_dev = (\<lambda>r. map_option (\<lambda>(sch, d). c\<lparr>c_bus := b\<lparr>b_sched := sch, b_dev := d\<rparr>\<rparr>) r) in
      case ev of
        EvIrqCheck \<Rightarrow> check_for_pending_irq c
      | EvDma port \<Rightarrow> map_option (\<lambda>b. c\<lparr>c_bus := b\<rparr>) (run_dma_chan dv port b)
      | EvCdRom cb \<Rightarrow> on_dev (dv_cdrom_event dv cb (b_sched b, b_dev b))
      | EvIoPort cb \<Rightarrow> on_dev (dv_io_event dv cb (b_sched b, b_dev b))
      | EvTimer i cb \<Rightarrow>
          map_option (\<lambda>(sch, ts). c\<lparr>c_bus := b\<lparr>b_sched := sch, b_timers := ts\<rparr>\<rparr>) (on_timer i cb (b_sched b, b_timers b))
      | EvGpu cb \<Rightarrow>
          map_option (\<lambda>(sch, ts, d). c\<lparr>c_bus := b\<lparr>b_sched := sch, b_timers := ts, b_dev := d\<rparr>\<rparr>)
            (dv_gpu_event dv cb (b_sched b, b_timers b, b_dev b))
      | EvIrq i \<Rightarrow> check_for_pending_irq (c\<lparr>c_bus := b\<lparr>b_irq := irq_trigger i (b_irq b)\<rparr>\<rparr>)
      | EvSpu cb \<Rightarrow> on_dev (dv_spu_event dv cb (b_sched b, b_dev b))
      | EvExecutionTimeout \<Rightarrow> None)"

definition poll_event :: "('d, 'g) cpu \<Rightarrow> (event option \<times> ('d, 'g) cpu) option" where
  "poll_event c = map_option (\<lambda>(ev, sch). (ev, upd_sched (\<lambda>_. sch) c)) (get_pending_event (c_sched c))"

fun drain_events :: "('d, 'g) env \<Rightarrow> nat \<Rightarrow> ('d, 'g) cpu \<Rightarrow> ('d, 'g) cpu option" where
  "drain_events env 0 c = None"
| "drain_events env (Suc n) c = do {
     (ev, c) \<leftarrow> poll_event c;
     case ev of Some ev \<Rightarrow> do { c \<leftarrow> exec_event env ev c; drain_events env n c } | None \<Rightarrow> Some c }"

definition cpu_step :: "('d, 'g) env \<Rightarrow> nat \<Rightarrow> ('d, 'g) cpu \<Rightarrow> ('d, 'g) cpu option" where
  "cpu_step env n c = do { c \<leftarrow> drain_events env n c; execute_instruction env c }"

fun run_loop :: "('d, 'g) env \<Rightarrow> nat \<Rightarrow> event_id \<Rightarrow> (nat \<Rightarrow> bool) \<Rightarrow> ('d, 'g) cpu \<Rightarrow> (systime option \<times> ('d, 'g) cpu) option" where
  "run_loop env 0 timeout brk c = None"
| "run_loop env (Suc n) timeout brk c = do {
     (ev, c) \<leftarrow> poll_event c;
     case ev of
       Some ev \<Rightarrow>
         if ev = EvExecutionTimeout then Some (None, c)
         else do { c \<leftarrow> exec_event env ev c; run_loop env n timeout brk c }
     | None \<Rightarrow> do {
         c \<leftarrow> execute_instruction env c;
         if brk 0 then do {
           time_left \<leftarrow> time_until_event timeout (c_sched c);
           Some (Some time_left, upd_sched (unschedule timeout) c) }
         else run_loop env n timeout (\<lambda>i. brk (Suc i)) c } }"

definition cpu_run :: "('d, 'g) env \<Rightarrow> nat \<Rightarrow> (nat \<Rightarrow> bool) \<Rightarrow> systime \<Rightarrow> ('d, 'g) cpu \<Rightarrow> (systime option \<times> ('d, 'g) cpu) option" where
  "cpu_run env n brk time c =
     (let (timeout, sch) = schedule_event time EvExecutionTimeout (c_sched c)
      in run_loop env n timeout brk (upd_sched (\<lambda>_. sch) c))"

end
