(* ===== verification/CpuFrames.thy ===== *)
theory CpuFrames
  imports CpuStep
begin

text \<open>
  What the steps of an instruction leave alone: the fields each auxiliary operation of \<open>cpu/mod.rs\<close> does
  not write, and the invariant of the CPU state.
\<close>

section \<open>Frames\<close>

lemma upd_sched_frame [simp]:
  "c_last_pc (upd_sched f c) = c_last_pc c" "c_pc (upd_sched f c) = c_pc c"
  "c_next_pc (upd_sched f c) = c_next_pc c" "in_branch_delay (upd_sched f c) = in_branch_delay c"
  "branched (upd_sched f c) = branched c" "c_hi (upd_sched f c) = c_hi c" "c_lo (upd_sched f c) = c_lo c"
  "hi_lo_ready (upd_sched f c) = hi_lo_ready c" "c_regs (upd_sched f c) = c_regs c"
  "load_delay (upd_sched f c) = load_delay c" "icache (upd_sched f c) = icache c"
  "icache_misses (upd_sched f c) = icache_misses c" "c_gte (upd_sched f c) = c_gte c"
  "c_cop0 (upd_sched f c) = c_cop0 c"
  by (simp_all add: upd_sched_def)

lemma upd_sched_bus [simp]:
  "c_sched (upd_sched f c) = f (c_sched c)" "b_ram (c_bus (upd_sched f c)) = b_ram (c_bus c)"
  "b_scratchpad (c_bus (upd_sched f c)) = b_scratchpad (c_bus c)" "b_cache_ctrl (c_bus (upd_sched f c)) = b_cache_ctrl (c_bus c)"
  "b_irq (c_bus (upd_sched f c)) = b_irq (c_bus c)" "b_mem_ctrl (c_bus (upd_sched f c)) = b_mem_ctrl (c_bus c)"
  "b_bios (c_bus (upd_sched f c)) = b_bios (c_bus c)" "b_dma (c_bus (upd_sched f c)) = b_dma (c_bus c)"
  "b_dev (c_bus (upd_sched f c)) = b_dev (c_bus c)"
  by (simp_all add: upd_sched_def)

lemma store_reg_frame [simp]:
  "c_last_pc (store_reg r v c) = c_last_pc c" "c_pc (store_reg r v c) = c_pc c"
  "c_next_pc (store_reg r v c) = c_next_pc c" "in_branch_delay (store_reg r v c) = in_branch_delay c"
  "branched (store_reg r v c) = branched c" "c_hi (store_reg r v c) = c_hi c"
  "c_lo (store_reg r v c) = c_lo c" "hi_lo_ready (store_reg r v c) = hi_lo_ready c"
  "load_delay (store_reg r v c) = load_delay c" "icache (store_reg r v c) = icache c"
  "icache_misses (store_reg r v c) = icache_misses c" "c_gte (store_reg r v c) = c_gte c"
  "c_cop0 (store_reg r v c) = c_cop0 c" "c_bus (store_reg r v c) = c_bus c"
  by (simp_all add: store_reg_def)

lemma load_store_reg: "load_reg q (store_reg r v c) = (if q = 0 then 0 else if q = r then v else load_reg q c)"
  by (auto simp: load_reg_def store_reg_def registers_load_def registers_store_def)

lemma load_reg_cong: "c_regs c = c_regs d \<Longrightarrow> load_reg r c = load_reg r d"
  by (simp add: load_reg_def)

lemma access_reg_frame [simp]:
  "c_last_pc (access_reg r c) = c_last_pc c" "c_pc (access_reg r c) = c_pc c"
  "c_next_pc (access_reg r c) = c_next_pc c" "in_branch_delay (access_reg r c) = in_branch_delay c"
  "branched (access_reg r c) = branched c" "c_hi (access_reg r c) = c_hi c"
  "c_lo (access_reg r c) = c_lo c" "hi_lo_ready (access_reg r c) = hi_lo_ready c"
  "c_regs (access_reg r c) = c_regs c" "load_delay (access_reg r c) = load_delay c"
  "icache (access_reg r c) = icache c" "icache_misses (access_reg r c) = icache_misses c"
  "c_gte (access_reg r c) = c_gte c" "c_cop0 (access_reg r c) = c_cop0 c"
  by (simp_all add: access_reg_def Let_def)

lemma load_reg_frame [simp]:
  "load_reg q (access_reg r c) = load_reg q c" "load_reg q (upd_sched f c) = load_reg q c"
  by (simp_all add: load_reg_def)

lemma fetch_load_slot_frame [simp]:
  "c_last_pc (fetch_load_slot c) = c_last_pc c" "c_pc (fetch_load_slot c) = c_pc c" "c_next_pc (fetch_load_slot c) = c_next_pc c" "in_branch_delay (fetch_load_slot c) = in_branch_delay c" "branched (fetch_load_slot c) = branched c" "c_hi (fetch_load_slot c) = c_hi c" "c_lo (fetch_load_slot c) = c_lo c" "hi_lo_ready (fetch_load_slot c) = hi_lo_ready c" "icache (fetch_load_slot c) = icache c" "icache_misses (fetch_load_slot c) = icache_misses c" "c_gte (fetch_load_slot c) = c_gte c" "c_cop0 (fetch_load_slot c) = c_cop0 c"
  "c_bus (fetch_load_slot c) = c_bus c" "load_delay (fetch_load_slot c) = delay_slot_default"
  by (simp_all add: fetch_load_slot_def)

lemma pipeline_bus_load_frame [simp]:
  "c_last_pc (pipeline_bus_load r v t c) = c_last_pc c" "c_pc (pipeline_bus_load r v t c) = c_pc c"
  "c_next_pc (pipeline_bus_load r v t c) = c_next_pc c"
  "in_branch_delay (pipeline_bus_load r v t c) = in_branch_delay c"
  "branched (pipeline_bus_load r v t c) = branched c" "c_hi (pipeline_bus_load r v t c) = c_hi c"
  "c_lo (pipeline_bus_load r v t c) = c_lo c" "hi_lo_ready (pipeline_bus_load r v t c) = hi_lo_ready c"
  "icache (pipeline_bus_load r v t c) = icache c"
  "icache_misses (pipeline_bus_load r v t c) = icache_misses c"
  "c_gte (pipeline_bus_load r v t c) = c_gte c" "c_cop0 (pipeline_bus_load r v t c) = c_cop0 c"
  by (simp_all add: pipeline_bus_load_def Let_def)

lemma pipeline_cop_load_frame [simp]:
  "c_last_pc (pipeline_cop_load r v c) = c_last_pc c" "c_pc (pipeline_cop_load r v c) = c_pc c"
  "c_next_pc (pipeline_cop_load r v c) = c_next_pc c"
  "in_branch_delay (pipeline_cop_load r v c) = in_branch_delay c"
  "branched (pipeline_cop_load r v c) = branched c" "c_hi (pipeline_cop_load r v c) = c_hi c"
  "c_lo (pipeline_cop_load r v c) = c_lo c" "hi_lo_ready (pipeline_cop_load r v c) = hi_lo_ready c"
  "icache (pipeline_cop_load r v c) = icache c" "icache_misses (pipeline_cop_load r v c) = icache_misses c"
  "c_gte (pipeline_cop_load r v c) = c_gte c" "c_cop0 (pipeline_cop_load r v c) = c_cop0 c"
  "c_bus (pipeline_cop_load r v c) = c_bus c"
  by (simp_all add: pipeline_cop_load_def Let_def)

lemma add_pending_frame [simp]:
  "c_last_pc (add_pending_hi_lo t h l c) = c_last_pc c" "c_pc (add_pending_hi_lo t h l c) = c_pc c"
  "c_next_pc (add_pending_hi_lo t h l c) = c_next_pc c"
  "in_branch_delay (add_pending_hi_lo t h l c) = in_branch_delay c"
  "branched (add_pending_hi_lo t h l c) = branched c" "c_regs (add_pending_hi_lo t h l c) = c_regs c"
  "load_delay (add_pending_hi_lo t h l c) = load_delay c" "icache (add_pending_hi_lo t h l c) = icache c"
  "icache_misses (add_pending_hi_lo t h l c) = icache_misses c"
  "c_gte (add_pending_hi_lo t h l c) = c_gte c" "c_cop0 (add_pending_hi_lo t h l c) = c_cop0 c"
  "c_bus (add_pending_hi_lo t h l c) = c_bus c" "c_hi (add_pending_hi_lo t h l c) = h"
  "c_lo (add_pending_hi_lo t h l c) = l"
  by (simp_all add: add_pending_hi_lo_def)

lemma fetch_pending_frame [simp]:
  "c_last_pc (fetch_pending_hi_lo c) = c_last_pc c" "c_pc (fetch_pending_hi_lo c) = c_pc c"
  "c_next_pc (fetch_pending_hi_lo c) = c_next_pc c"
  "in_branch_delay (fetch_pending_hi_lo c) = in_branch_delay c"
  "branched (fetch_pending_hi_lo c) = branched c" "c_hi (fetch_pending_hi_lo c) = c_hi c"
  "c_lo (fetch_pending_hi_lo c) = c_lo c" "hi_lo_ready (fetch_pending_hi_lo c) = hi_lo_ready c"
  "c_regs (fetch_pending_hi_lo c) = c_regs c" "load_delay (fetch_pending_hi_lo c) = load_delay c"
  "icache (fetch_pending_hi_lo c) = icache c" "icache_misses (fetch_pending_hi_lo c) = icache_misses c"
  "c_gte (fetch_pending_hi_lo c) = c_gte c" "c_cop0 (fetch_pending_hi_lo c) = c_cop0 c"
  by (simp_all add: fetch_pending_hi_lo_def)

lemma branch_frame [simp]:
  "c_last_pc (branch x c) = c_last_pc c" "c_pc (branch x c) = c_pc c"
  "in_branch_delay (branch x c) = in_branch_delay c" "c_hi (branch x c) = c_hi c"
  "c_lo (branch x c) = c_lo c" "hi_lo_ready (branch x c) = hi_lo_ready c" "c_regs (branch x c) = c_regs c"
  "load_delay (branch x c) = load_delay c" "icache (branch x c) = icache c"
  "icache_misses (branch x c) = icache_misses c" "c_gte (branch x c) = c_gte c"
  "c_cop0 (branch x c) = c_cop0 c" "c_bus (branch x c) = c_bus c" "branched (branch x c) = True"
  by (simp_all add: branch_def)

lemma jump_frame [simp]:
  "c_last_pc (jump x c) = c_last_pc c" "c_pc (jump x c) = c_pc c"
  "in_branch_delay (jump x c) = in_branch_delay c" "c_hi (jump x c) = c_hi c" "c_lo (jump x c) = c_lo c"
  "hi_lo_ready (jump x c) = hi_lo_ready c" "c_regs (jump x c) = c_regs c"
  "load_delay (jump x c) = load_delay c" "icache (jump x c) = icache c"
  "icache_misses (jump x c) = icache_misses c" "c_gte (jump x c) = c_gte c" "c_cop0 (jump x c) = c_cop0 c"
  "c_bus (jump x c) = c_bus c" "branched (jump x c) = True"
  by (simp_all add: jump_def)

lemma throw_exception_frame [simp]:
  "c_last_pc (throw_exception ex c) = c_last_pc c"
  "in_branch_delay (throw_exception ex c) = in_branch_delay c"
  "branched (throw_exception ex c) = branched c" "c_hi (throw_exception ex c) = c_hi c"
  "c_lo (throw_exception ex c) = c_lo c" "hi_lo_ready (throw_exception ex c) = hi_lo_ready c"
  "c_regs (throw_exception ex c) = c_regs c" "load_delay (throw_exception ex c) = load_delay c"
  "icache (throw_exception ex c) = icache c" "icache_misses (throw_exception ex c) = icache_misses c"
  "c_gte (throw_exception ex c) = c_gte c"
  by (simp_all add: throw_exception_def split: prod.split)

section \<open>The invariant\<close>

text \<open>Register zero reads as zero, coprocessor 0 has its sixteen registers, a cache line four words.\<close>

definition cpu_ok :: "('d, 'g) cpu \<Rightarrow> bool" where
  "cpu_ok c \<longleftrightarrow> c_regs c 0 = 0 \<and> cop0_ok (c_cop0 c) \<and> (\<forall>i. length (line_data (icache c i)) = 4)"

lemma cpu_ok_new: "cpu_ok (cpu_new b g)"
  by (simp add: cpu_ok_def cpu_new_def cop0_ok_def cop0_new_def REGISTER_VALUES_def line_valid_def)

lemma cpu_ok_fields [simp]:
  "cpu_ok (c\<lparr>c_hi := x\<rparr>) = cpu_ok c" "cpu_ok (c\<lparr>c_lo := x\<rparr>) = cpu_ok c" "cpu_ok (c\<lparr>c_gte := g\<rparr>) = cpu_ok c"
  "cpu_ok (c\<lparr>c_bus := b\<rparr>) = cpu_ok c" "cpu_ok (upd_sched f c) = cpu_ok c" "cpu_ok (access_reg r c) = cpu_ok c"
  "cpu_ok (add_pending_hi_lo t h l c) = cpu_ok c" "cpu_ok (fetch_pending_hi_lo c) = cpu_ok c"
  "cpu_ok (branch x c) = cpu_ok c" "cpu_ok (jump x c) = cpu_ok c" "cpu_ok (snd (next_pc c)) = cpu_ok c"
  "cpu_ok (c\<lparr>icache_misses := m\<rparr>) = cpu_ok c"
  by (simp_all add: cpu_ok_def next_pc_def Let_def)

lemma cpu_ok_store [simp]: "cpu_ok c \<Longrightarrow> cpu_ok (store_reg r v c)"
  by (simp add: cpu_ok_def) (simp add: store_reg_def registers_store_def)

lemma cpu_ok_load_slot [simp]: "cpu_ok c \<Longrightarrow> cpu_ok (c\<lparr>load_delay := d\<rparr>)"
  by (simp add: cpu_ok_def)

lemma cpu_ok_pipeline [simp]:
  "cpu_ok c \<Longrightarrow> cpu_ok (fetch_load_slot c)" "cpu_ok c \<Longrightarrow> cpu_ok (pipeline_bus_load r v t c)"
  "cpu_ok c \<Longrightarrow> cpu_ok (pipeline_cop_load r v c)"
  by (simp_all add: fetch_load_slot_def pipeline_bus_load_def pipeline_cop_load_def Let_def)

lemma cpu_ok_icache [simp]:
  "cpu_ok c \<Longrightarrow> length (line_data line) = 4 \<Longrightarrow> cpu_ok (c\<lparr>icache := (icache c)(i := line)\<rparr>)"
  by (simp add: cpu_ok_def)

lemma cpu_ok_zero [simp]: "cpu_ok c \<Longrightarrow> load_reg 0 c = 0"
  by (simp add: cpu_ok_def load_reg_def registers_load_def)

definition exception_vector :: "u32 \<Rightarrow> bool" where
  "exception_vector a \<longleftrightarrow> a = 0xbfc00180 \<or> a = 0x80000080"

lemma throw_exception_regs:
  assumes "cpu_ok c"
  shows "cpu_ok (throw_exception ex c)" "exception_vector (c_pc (throw_exception ex c))"
    "c_next_pc (throw_exception ex c) = c_pc (throw_exception ex c) + 4"
    "c_cop0 (throw_exception ex c) ! 14 = (if in_branch_delay c then c_last_pc c - 4 else c_last_pc c)"
    "bit_range (c_cop0 (throw_exception ex c) ! 13) 2 6 = exception_code ex"
proof -
  obtain pc sch cop where e: "enter_exception (c_last_pc c) (in_branch_delay c) ex (c_sched c, c_cop0 c) = (pc, sch, cop)"
    using prod_cases3 by blast
  have ok: "cop0_ok (c_cop0 c)" using assms by (simp add: cpu_ok_def)
  note r = enter_exception_regs [OF ok e]
  show "cpu_ok (throw_exception ex c)"
    using assms r(1) by (simp add: cpu_ok_def throw_exception_def e)
  show "exception_vector (c_pc (throw_exception ex c))"
    using r(7) by (simp add: throw_exception_def e exception_vector_def)
  show "c_next_pc (throw_exception ex c) = c_pc (throw_exception ex c) + 4"
    by (simp add: throw_exception_def e)
  show "c_cop0 (throw_exception ex c) ! 14 = (if in_branch_delay c then c_last_pc c - 4 else c_last_pc c)"
    using r(5) by (simp add: throw_exception_def e)
  have "bit_range (set_bit_at w 31 v) 2 6 = bit_range w 2 6" for w :: u32 and v
    by (rule bit_range_set_bit_other) simp_all
  moreover have "take_bit 5 (exception_code ex) = exception_code ex"
    by (cases ex) (simp_all add: take_bit_eq_mod)
  ultimately show "bit_range (c_cop0 (throw_exception ex c) ! 13) 2 6 = exception_code ex"
    using r(4) by (simp add: throw_exception_def e bit_range_set_same)
qed

section \<open>How an instruction ends\<close>

text \<open>Either the instruction goes on, possibly with a branch that the next instruction delays, or it traps.\<close>

definition goes_on :: "('d, 'g) cpu \<Rightarrow> ('d, 'g) cpu \<Rightarrow> bool" where
  "goes_on c d \<longleftrightarrow> c_last_pc d = c_last_pc c \<and> in_branch_delay d = in_branch_delay c \<and> c_pc d = c_pc c
     \<and> (c_next_pc d = c_next_pc c \<and> branched d = branched c \<or> branched d)"

definition traps :: "('d, 'g) cpu \<Rightarrow> ('d, 'g) cpu \<Rightarrow> bool" where
  "traps c d \<longleftrightarrow> c_last_pc d = c_last_pc c \<and> in_branch_delay d = in_branch_delay c \<and> branched d = branched c
     \<and> exception_vector (c_pc d) \<and> c_next_pc d = c_pc d + 4
     \<and> c_cop0 d ! 14 = (if in_branch_delay c then c_last_pc c - 4 else c_last_pc c)"

definition ends :: "('d, 'g) cpu \<Rightarrow> ('d, 'g) cpu \<Rightarrow> bool" where
  "ends c d \<longleftrightarrow> cpu_ok d \<and> (goes_on c d \<or> traps c d)"

text \<open>\<open>quiet\<close>: no change of the control state.\<close>

definition quiet :: "('d, 'g) cpu \<Rightarrow> ('d, 'g) cpu \<Rightarrow> bool" where
  "quiet c d \<longleftrightarrow> cpu_ok d \<and> c_last_pc d = c_last_pc c \<and> in_branch_delay d = in_branch_delay c
     \<and> c_pc d = c_pc c \<and> c_next_pc d = c_next_pc c \<and> branched d = branched c"

lemma quiet_ends: "quiet c d \<Longrightarrow> ends c d"
  by (simp add: quiet_def ends_def goes_on_def)

lemma quiet_trans: "quiet a b \<Longrightarrow> quiet b c \<Longrightarrow> quiet a c"
  by (simp add: quiet_def)

lemma quiet_then_goes_on: "quiet a b \<Longrightarrow> goes_on b c \<Longrightarrow> goes_on a c"
  by (simp add: quiet_def goes_on_def)

lemma quiet_then_traps: "quiet a b \<Longrightarrow> traps b c \<Longrightarrow> traps a c"
  by (simp add: quiet_def traps_def)

lemma quiet_then_ends: "quiet a b \<Longrightarrow> ends b c \<Longrightarrow> ends a c"
  unfolding ends_def using quiet_then_goes_on quiet_then_traps by blast

lemma throw_ends: "quiet c d \<Longrightarrow> ends c (throw_exception ex d)"
  using throw_exception_regs [of d ex] by (simp add: quiet_def ends_def traps_def)

lemma branch_ends: "quiet c d \<Longrightarrow> ends c (branch x d)" "quiet c d \<Longrightarrow> ends c (jump x d)"
  by (simp_all add: quiet_def ends_def goes_on_def)

end
