(* ===== verification/CpuControl.thy ===== *)
theory CpuControl
  imports CpuFrames
begin

text \<open>
  Control flow of the CPU: every instruction of \<open>cpu/mod.rs\<close> ends in one of the two ways of
  \<open>CpuFrames\<close> and keeps the invariant; what this says of delay slots, exceptions and interrupts.
\<close>

section \<open>The instructions\<close>

lemmas op_plain_defs = op_sll_def op_srl_def op_sra_def op_sllv_def op_srlv_def op_srav_def op_jr_def op_jalr_def
  op_mfhi_def op_mthi_def op_mflo_def op_mtlo_def op_mult_def op_multu_def op_div_def op_divu_def
  op_addu_def op_subu_def op_and_def op_or_def op_xor_def op_nor_def op_slt_def op_sltu_def
  op_bcondz_def op_j_def op_jal_def op_beq_def op_bne_def op_blez_def op_bgtz_def op_addiu_def
  op_slti_def op_sltui_def op_andi_def op_ori_def op_xori_def op_lui_def

lemma op_plain_ends:
  assumes "cpu_ok c"
  shows "ends c (op_sll op c)"
    "ends c (op_srl op c)"
    "ends c (op_sra op c)"
    "ends c (op_sllv op c)"
    "ends c (op_srlv op c)"
    "ends c (op_srav op c)"
    "ends c (op_jr op c)"
    "ends c (op_jalr op c)"
    "ends c (op_mfhi op c)"
    "ends c (op_mthi op c)"
    "ends c (op_mflo op c)"
    "ends c (op_mtlo op c)"
    "ends c (op_mult op c)"
    "ends c (op_multu op c)"
    "ends c (op_div op c)"
    "ends c (op_divu op c)"
    "ends c (op_addu op c)"
    "ends c (op_subu op c)"
    "ends c (op_and op c)"
    "ends c (op_or op c)"
    "ends c (op_xor op c)"
    "ends c (op_nor op c)"
    "ends c (op_slt op c)"
    "ends c (op_sltu op c)"
    "ends c (op_bcondz op c)"
    "ends c (op_j op c)"
    "ends c (op_jal op c)"
    "ends c (op_beq op c)"
    "ends c (op_bne op c)"
    "ends c (op_blez op c)"
    "ends c (op_bgtz op c)"
    "ends c (op_addiu op c)"
    "ends c (op_slti op c)"
    "ends c (op_sltui op c)"
    "ends c (op_andi op c)"
    "ends c (op_ori op c)"
    "ends c (op_xori op c)"
    "ends c (op_lui op c)"
  using assms by (simp_all add: op_plain_defs Let_def ends_def goes_on_def)

lemma op_trap_ends:
  assumes "cpu_ok c"
  shows "ends c (op_syscall c)"
    "ends c (op_break c)"
    "ends c (op_cop1 c)"
    "ends c (op_cop3 c)"
    "ends c (op_lwc0 c)"
    "ends c (op_lwc1 c)"
    "ends c (op_lwc3 c)"
    "ends c (op_swc0 c)"
    "ends c (op_swc1 c)"
    "ends c (op_swc3 c)"
    "ends c (op_illegal c)"
  using assms unfolding op_syscall_def op_break_def op_cop1_def op_cop3_def op_lwc0_def op_lwc1_def op_lwc3_def op_swc0_def op_swc1_def op_swc3_def op_illegal_def
  by (intro throw_ends; simp add: quiet_def)+

lemma store_reg_ends: "quiet c d \<Longrightarrow> ends c (store_reg r v d)"
  by (rule quiet_ends) (simp add: quiet_def)

lemma op_checked_ends:
  assumes "cpu_ok c"
  shows "ends c (op_add op c)" "ends c (op_sub op c)" "ends c (op_addi op c)"
  using assms
  by (auto simp: op_add_def op_sub_def op_addi_def Let_def quiet_def split: option.split intro!: throw_ends store_reg_ends)

lemma set_cop0_quiet: "cpu_ok c \<Longrightarrow> set_cop0 r v c = Some d \<Longrightarrow> quiet c d"
  by (auto simp: set_cop0_def set_reg_def quiet_def cpu_ok_def cop0_ok_def split: if_splits)

lemma cpu_load_quiet:
  assumes "cpu_ok c" "cpu_load env w addr c = Some (r, d)"
  shows "quiet c d"
proof -
  let ?c = "upd_sched (skip_to (ds_ready (load_delay c))) c"
  have c: "quiet c ?c" using assms(1) by (simp add: quiet_def)
  show ?thesis
  proof (cases "is_aligned_to w addr")
    case True
    then have "d = ?c \<or> (\<exists>b. d = ?c\<lparr>c_bus := b\<rparr>)"
      using assms(2) by (auto simp: cpu_load_def Let_def split: option.splits bind_splits)
    then show ?thesis using c by (auto simp: quiet_def)
  next
    case False
    then have "set_cop0 8 addr ?c = Some d"
      using assms(2) by (auto simp: cpu_load_def Let_def split: bind_splits)
    then show ?thesis using quiet_trans [OF c set_cop0_quiet] assms(1) by simp
  qed
qed

lemma icache_word_quiet:
  "cpu_ok c \<Longrightarrow> quiet c (c\<lparr>icache := (icache c)(i := (icache c i)\<lparr>line_data := (line_data (icache c i))[k := v]\<rparr>)\<rparr>)"
  "cpu_ok c \<Longrightarrow> quiet c (c\<lparr>icache := (icache c)(i := invalidate (icache c i))\<rparr>)"
  by (simp_all add: quiet_def cpu_ok_def invalidate_def)

lemma cpu_store_quiet:
  assumes "cpu_ok c" "cpu_store env w addr v c = Some (r, d)"
  shows "quiet c d"
proof (cases "is_aligned_to w addr")
  case True
  have "quiet c c" "\<And>b. quiet c (c\<lparr>c_bus := b\<rparr>)" using assms(1) by (simp_all add: quiet_def)
  then show ?thesis
    using True assms icache_word_quiet [OF assms(1)]
    by (auto simp: cpu_store_def Let_def split: if_splits bind_splits)
next
  case False
  then have "set_cop0 8 addr c = Some d"
    using assms(2) by (auto simp: cpu_store_def Let_def split: bind_splits)
  then show ?thesis using set_cop0_quiet assms(1) by blast
qed

lemma load_then_ends:
  assumes "cpu_ok c" "load_then env w addr f c = Some d"
    and "\<And>v t b. quiet c b \<Longrightarrow> f v t b = Some d \<Longrightarrow> ends b d"
  shows "ends c d"
proof -
  obtain r b where b: "cpu_load env w addr c = Some (r, b)"
    and d: "(case r of Inl ex \<Rightarrow> Some (throw_exception ex b) | Inr (v, t) \<Rightarrow> f v t b) = Some d"
    using assms(2) by (auto simp: load_then_def split: bind_splits)
  have q: "quiet c b" using cpu_load_quiet [OF assms(1) b] .
  show ?thesis
  proof (cases r)
    case (Inl ex)
    then have "d = throw_exception ex b" using d by simp
    then show ?thesis using throw_ends [OF q] by simp
  next
    case (Inr x)
    then obtain v t where "f v t b = Some d" using d by (cases x) simp
    then show ?thesis using assms(3) [OF q] quiet_then_ends [OF q] by blast
  qed
qed

lemma store_or_throw_ends:
  assumes "cpu_ok c" "store_or_throw env w addr v c = Some d"
  shows "ends c d"
proof -
  obtain r b where b: "cpu_store env w addr v c = Some (r, b)"
    and d: "d = (case r of Some ex \<Rightarrow> throw_exception ex b | None \<Rightarrow> b)"
    using assms(2) by (auto simp: store_or_throw_def split: bind_splits)
  show ?thesis
    using throw_ends [OF cpu_store_quiet [OF assms(1) b]] quiet_ends [OF cpu_store_quiet [OF assms(1) b]] d
    by (simp split: option.split)
qed

text \<open>What comes before the memory access is quiet.\<close>

lemma before_access:
  "cpu_ok c \<Longrightarrow> quiet c (access_reg r c)" "cpu_ok c \<Longrightarrow> quiet c (access_reg q (access_reg r c))"
  "cpu_ok c \<Longrightarrow> quiet c (fetch_load_slot (access_reg r c))"
  "cpu_ok c \<Longrightarrow> quiet c (fetch_load_slot (access_reg q (access_reg r c)))"
  "cpu_ok c \<Longrightarrow> quiet c (pipeline_bus_load r v t c)"
  by (simp_all add: quiet_def)

lemma load_then_ends':
  assumes "quiet c c'" "load_then env w addr f c' = Some d"
    and "\<And>v t b. quiet c' b \<Longrightarrow> f v t b = Some d \<Longrightarrow> ends b d"
  shows "ends c d"
  using quiet_then_ends [OF assms(1) load_then_ends [OF _ assms(2,3)]] assms(1) by (simp add: quiet_def)

lemma op_load_ends:
  assumes "cpu_ok c"
  shows "op_lb env op c = Some d \<Longrightarrow> ends c d" "op_lh env op c = Some d \<Longrightarrow> ends c d"
    "op_lw env op c = Some d \<Longrightarrow> ends c d" "op_lbu env op c = Some d \<Longrightarrow> ends c d"
    "op_lhu env op c = Some d \<Longrightarrow> ends c d" "op_lwl env op c = Some d \<Longrightarrow> ends c d"
    "op_lwr env op c = Some d \<Longrightarrow> ends c d"
  unfolding op_lb_def op_lh_def op_lw_def op_lbu_def op_lhu_def op_lwl_def op_lwr_def Let_def
  by (erule load_then_ends' [OF before_access(2) [OF assms]];
      auto simp: quiet_def intro!: quiet_ends)+

lemma op_store_ends:
  assumes "cpu_ok c"
  shows "op_sb env op c = Some d \<Longrightarrow> ends c d" "op_sh env op c = Some d \<Longrightarrow> ends c d"
    "op_sw env op c = Some d \<Longrightarrow> ends c d"
  using assms quiet_then_ends [OF before_access(4) [OF assms] store_or_throw_ends]
  by (auto simp: op_sb_def op_sh_def op_sw_def Let_def)

lemma store_after_load_ends:
  assumes "quiet c b" "store_or_throw env w addr v (fetch_load_slot (upd_sched f b)) = Some d"
  shows "ends b d"
proof -
  have "quiet b (fetch_load_slot (upd_sched f b))" using assms(1) by (simp add: quiet_def)
  then show ?thesis
    using quiet_then_ends [OF _ store_or_throw_ends [OF _ assms(2)]] by (simp add: quiet_def)
qed

lemma op_unaligned_store_ends:
  assumes "cpu_ok c"
  shows "op_swl env op c = Some d \<Longrightarrow> ends c d" "op_swr env op c = Some d \<Longrightarrow> ends c d"
  unfolding op_swl_def op_swr_def Let_def
  by (erule load_then_ends' [OF before_access(2) [OF assms]], erule store_after_load_ends, assumption)+

lemma op_gte_mem_ends:
  assumes "cpu_ok c"
  shows "op_lwc2 env op c = Some d \<Longrightarrow> ends c d" "op_swc2 env op c = Some d \<Longrightarrow> ends c d"
proof -
  assume "op_lwc2 env op c = Some d"
  then show "ends c d"
    unfolding op_lwc2_def Let_def
    by (rule load_then_ends' [OF before_access(3) [OF assms]])
      (auto simp: quiet_def split: bind_splits intro!: quiet_ends)
next
  assume "op_swc2 env op c = Some d"
  then obtain addr v g where
    "store_or_throw env FullWord addr v (fetch_load_slot ((access_reg (opc_rs op) c)\<lparr>c_gte := g\<rparr>)) = Some d"
    by (auto simp: op_swc2_def Let_def split: bind_splits)
  moreover have "quiet c (fetch_load_slot ((access_reg (opc_rs op) c)\<lparr>c_gte := g\<rparr>))"
    using assms by (simp add: quiet_def)
  ultimately show "ends c d"
    using quiet_then_ends store_or_throw_ends by (metis quiet_def)
qed

lemma cop0_ok_exit: "cop0_ok c \<Longrightarrow> exit_exception (sch, c) = (sch', c') \<Longrightarrow> cop0_ok c'"
  by (auto simp: exit_exception_def Let_def cop0_ok_def)

lemma op_cop0_ends:
  assumes "cpu_ok c" "op_cop0 op c = Some d"
  shows "ends c d"
proof -
  let ?a = "access_reg (opc_rt op) c"
  have q: "quiet c ?a" "quiet c (fetch_load_slot ?a)" "quiet c (fetch_load_slot c)"
    using assms(1) by (simp_all add: quiet_def)
  consider "opc_cop_op op = 0" | "opc_cop_op op = 4" | "opc_cop_op op = 0x10"
    using assms(2) by (fastforce simp: op_cop0_def Let_def split: if_splits)
  then show ?thesis
  proof cases
    case 1
    then show ?thesis
      using assms throw_ends [OF q(1), of ReservedInstruction]
      by (auto simp: op_cop0_def Let_def quiet_def intro!: quiet_ends split: if_splits bind_splits)
  next
    case 2
    then have "set_cop0 (word_of_nat (opc_rd op)) (load_reg (opc_rt op) (fetch_load_slot ?a)) (fetch_load_slot ?a) = Some d"
      using assms(2) by (simp add: op_cop0_def Let_def)
    then show ?thesis
      using quiet_trans [OF q(2) set_cop0_quiet] assms(1) by (auto intro: quiet_ends)
  next
    case 3
    then show ?thesis
      using assms q(3) cop0_ok_exit
      by (auto simp: op_cop0_def Let_def quiet_def cpu_ok_def intro!: quiet_ends split: prod.splits)
  qed
qed

lemma op_cop2_ends:
  assumes "cpu_ok c" "op_cop2 env op c = Some d"
  shows "ends c d"
  using assms
  by (auto simp: op_cop2_def Let_def quiet_def intro!: quiet_ends split: if_splits bind_splits)

lemma if_SomeE:
  "(if P then x else y) = Some d \<Longrightarrow> (x = Some d \<Longrightarrow> R) \<Longrightarrow> (y = Some d \<Longrightarrow> R) \<Longrightarrow> R"
  by (cases P) auto

lemma Some_ends: "Some x = Some d \<Longrightarrow> ends c x \<Longrightarrow> ends c d"
  by simp

lemma exec_special_ends:
  assumes "cpu_ok c" "exec_special op c = Some d"
  shows "ends c d"
  using assms(2) unfolding exec_special_def Let_def
  by (elim if_SomeE; elim Some_ends; intro op_plain_ends op_trap_ends op_checked_ends assms(1))

lemma exec_ends:
  assumes "cpu_ok c" "exec env op c = Some d"
  shows "ends c d"
  using assms(2) unfolding exec_def Let_def
  by (elim if_SomeE;
      (elim op_load_ends [OF assms(1)] op_store_ends [OF assms(1)] op_unaligned_store_ends [OF assms(1)]
        op_gte_mem_ends [OF assms(1)] op_cop0_ends [OF assms(1)] op_cop2_ends [OF assms(1)]
        exec_special_ends [OF assms(1)])?;
      (elim Some_ends)?; (intro op_plain_ends op_trap_ends op_checked_ends assms(1))?)

section \<open>One instruction\<close>

lemma load_code_quiet:
  assumes "cpu_ok c" "load_code env addr c = Some (r, d)"
  shows "quiet c d \<and> icache d = icache c \<and> c_cop0 d ! 14 = c_cop0 c ! 14"
proof (cases "is_aligned_to FullWord addr")
  case True
  then show ?thesis
    using assms by (auto simp: load_code_def Let_def quiet_def split: option.splits bind_splits prod.splits)
next
  case False
  then have s: "set_cop0 8 addr c = Some d"
    using assms(2) by (auto simp: load_code_def split: bind_splits)
  then show ?thesis
    using set_cop0_quiet [OF assms(1) s] by (auto simp: set_cop0_def set_reg_def split: if_splits)
qed

lemma fetch_words_quiet:
  assumes "cpu_ok c" "fetch_words env js addr line c = Some (r, line', d)"
  shows "quiet c d \<and> length (line_data line') = length (line_data line)"
  using assms
proof (induction js arbitrary: addr line c)
  case Nil
  then show ?case by (simp add: quiet_def)
next
  case (Cons j js)
  then obtain x b where b: "load_code env addr c = Some (x, b)"
    by (auto split: bind_splits)
  have q: "quiet c b" using load_code_quiet [OF Cons.prems(1) b] by simp
  show ?case
  proof (cases x)
    case (Inl ex)
    then show ?thesis using Cons.prems b q by simp
  next
    case (Inr v)
    then have n: "fetch_words env js (addr + 4) (line\<lparr>line_data := (line_data line)[j := v]\<rparr>) b = Some (r, line', d)"
      using Cons.prems(2) b by simp
    have "cpu_ok b" using q by (simp add: quiet_def)
    from Cons.IH [OF this n] show ?thesis using quiet_trans [OF q] by simp
  qed
qed

lemma ends_then_cache:
  assumes "ends c d" "length (line_data line) = 4"
  shows "ends c (d\<lparr>icache := (icache d)(i := line), icache_misses := m\<rparr>)"
proof -
  let ?e = "d\<lparr>icache := (icache d)(i := line), icache_misses := m\<rparr>"
  have "cpu_ok ?e" using assms by (simp add: ends_def cpu_ok_def)
  moreover have "goes_on c ?e = goes_on c d" "traps c ?e = traps c d" by (simp_all add: goes_on_def traps_def)
  ultimately show ?thesis using assms(1) by (simp add: ends_def)
qed

lemma ends_then_time: "ends c (upd_sched f d) = ends c d"
  by (simp add: ends_def goes_on_def traps_def)

lemma execute_instruction_ends:
  assumes "cpu_ok c" "execute_instruction env c = Some d"
  shows "ends (snd (next_pc c)) d"
proof -
  obtain addr n where n: "next_pc c = (addr, n)" by fastforce
  have ok: "cpu_ok n" using assms(1) n cpu_ok_fields(11) [of c] by simp
  let ?i = "unat (bit_range addr 4 11)" and ?w = "unat (bit_range addr 2 3)"
  let ?s = "upd_sched (skip_to (ds_ready (load_delay n))) n"
  have qs: "quiet n ?s" "quiet n (upd_sched (advance (systime_new 4)) ?s)"
    "\<And>t. quiet n (upd_sched (advance t) ?s)" using ok by (simp_all add: quiet_def)
  have hit: "ends n b" if "exec env op n = Some b" for op b
    using exec_ends [OF ok that] .
  have uncached: "ends n x"
    if "load_code env addr (upd_sched (advance (systime_new 4)) ?s) = Some (r, b)"
      "(case r of Inr val \<Rightarrow> exec env val b | Inl ex \<Rightarrow> Some (throw_exception ex b)) = Some x" for r b x
  proof -
    have q: "quiet n b" using quiet_trans [OF qs(2)] load_code_quiet [OF _ that(1)] ok by simp
    show ?thesis
      using that(2) throw_ends [OF q] quiet_then_ends [OF q exec_ends] q
      by (auto simp: quiet_def split: sum.splits)
  qed
  have miss: "ends n (x\<lparr>icache := (icache x)(?i := set_tag addr line), icache_misses := icache_misses x + 1\<rparr>)"
    if "fetch_cachline env (icache n ?i) ?w addr ?s = Some (r, line, b)"
      "(case r of None \<Rightarrow> exec env (line_data line ! ?w) b | Some ex \<Rightarrow> Some (throw_exception ex b)) = Some x"
    for r line b x
  proof -
    have f: "quiet (upd_sched (advance (systime_new (4 - word_of_nat ?w))) ?s) b
        \<and> length (line_data line) = length (line_data (icache n ?i))"
      using fetch_words_quiet [OF _ that(1) [unfolded fetch_cachline_def]] ok by simp
    then have q: "quiet n b" using quiet_trans [OF qs(3)] by blast
    have "ends n x"
      using that(2) throw_ends [OF q] quiet_then_ends [OF q exec_ends] q
      by (auto simp: quiet_def split: option.splits)
    moreover have "length (line_data (set_tag addr line)) = 4"
      using f ok by (simp add: set_tag_def cpu_ok_def)
    ultimately show ?thesis by (rule ends_then_cache)
  qed
  show ?thesis
    using assms(2) n unfolding execute_instruction_def Let_def
    by (auto simp: bind_eq_Some_conv ends_then_time split: if_splits prod.splits intro: hit uncached miss)
qed

lemma execute_instruction_step:
  assumes "cpu_ok c" "execute_instruction env c = Some d"
  shows "cpu_ok d" "c_last_pc d = c_pc c" "in_branch_delay d = branched c"
    "c_pc d = c_next_pc c \<and> (branched d \<or> c_next_pc d = c_next_pc c + 4)
     \<or> exception_vector (c_pc d) \<and> c_next_pc d = c_pc d + 4 \<and> \<not> branched d
        \<and> c_cop0 d ! 14 = (if branched c then c_pc c - 4 else c_pc c)"
  using execute_instruction_ends [OF assms]
  by (auto simp: ends_def goes_on_def traps_def next_pc_def Let_def)

section \<open>Code in the BIOS\<close>

text \<open>The BIOS is mapped uncached at \<open>0xbfc00000\<close>, where the CPU starts.\<close>

lemma bios_region:
  assumes "k < 0x80000"
  shows "regioned_addr (0xbfc00000 + word_of_nat k) = 0x1fc00000 + word_of_nat k"
    "\<not> addr_cached (0xbfc00000 + word_of_nat k)"
proof -
  let ?a = "0xbfc00000 + word_of_nat k :: u32"
  have u: "unat ?a = 0xbfc00000 + k"
    using assms by (simp add: unat_word_ariths unat_of_nat)
  have "unat (drop_bit 29 ?a) = unat ?a div 2 ^ 29"
    by (simp only: unsigned_drop_bit_eq drop_bit_eq_div [of 29 "unat ?a"] take_bit_unat)
  also have "\<dots> = 5" unfolding u using assms by simp
  finally have "unat (drop_bit 29 ?a) = 5" .
  then have d: "drop_bit 29 ?a = 5" by (simp add: word_unat_eq_iff)
  show "\<not> addr_cached ?a" by (simp add: addr_cached_def d)
  have "0x1fffffff = (mask 29 :: u32)" by (simp add: mask_eq_exp_minus_1)
  then have "regioned_addr ?a = take_bit 29 ?a"
    using regioned_kseg1 [OF d] by (simp only: take_bit_eq_mask)
  moreover have "unat (take_bit 29 ?a) = (0xbfc00000 + k) mod 2 ^ 29"
    by (simp only: unsigned_take_bit_eq u take_bit_eq_mod [of 29 "0xbfc00000 + k"])
  moreover have "\<dots> = 0x1fc00000 + k" using assms by (simp add: mod_if)
  moreover have "unat (0x1fc00000 + word_of_nat k :: u32) = 0x1fc00000 + k"
    using assms by (simp add: unat_word_ariths unat_of_nat)
  ultimately show "regioned_addr ?a = 0x1fc00000 + word_of_nat k" by (simp add: word_unat_eq_iff)
qed

lemma bios_word_load:
  assumes "k + 4 \<le> 0x80000"
  shows "bus_load dv FullWord (0x1fc00000 + word_of_nat k) b
    = Some (Some (read_bytes 4 (bios_data (b_bios b)) k, cycles 24), b)"
proof -
  have "unat (0x1fc00000 + word_of_nat k :: u32) = 0x1fc00000 + k"
    using assms by (simp add: unat_word_ariths unat_of_nat)
  then have c: "bus_contains bios_bus (0x1fc00000 + word_of_nat k)"
    using assms by (simp add: bus_contains_def bios_bus_def BIOS_SIZE_def word_le_nat_alt)
  have "unat (word_of_nat k :: u32) = k" using assms by (simp add: unat_of_nat)
  then show ?thesis
    using c bios_not_ram [OF c] assms
    by (simp add: bus_load_def Let_def bios_load_unchecked_def BIOS_SIZE_def) (simp add: bios_bus_def)
qed

definition fetched :: "systime \<Rightarrow> ('d, 'g) cpu \<Rightarrow> ('d, 'g) cpu" where
  "fetched t c = upd_sched (advance t) (upd_sched (skip_to (ds_ready (load_delay c))) (snd (next_pc c)))"

lemma bios_step:
  assumes "c_pc c = 0xbfc00000 + word_of_nat k" "k mod 4 = 0" "k + 4 \<le> 0x80000"
  shows "execute_instruction env c
    = map_option (upd_sched (advance (cycles 1))) (exec env (read_bytes 4 (bios_data (b_bios (c_bus c))) k) (fetched (cycles 28) c))"
proof -
  obtain n where n: "next_pc c = (c_pc c, n)" "load_delay n = load_delay c" "b_bios (c_bus n) = b_bios (c_bus c)"
    by (simp add: next_pc_def Let_def)
  have r: "regioned_addr (c_pc c) = 0x1fc00000 + word_of_nat k" "\<not> addr_cached (c_pc c)"
    using bios_region [of k] assms by simp_all
  have "unat (c_pc c) = 0xbfc00000 + k"
    using assms by (simp add: unat_word_ariths unat_of_nat)
  then have al: "is_aligned_to FullWord (c_pc c)"
    using assms(2) by (simp add: aligned_nat) presburger
  have adv: "upd_sched (advance (cycles 24)) (upd_sched (advance (systime_new 4)) m) = upd_sched (advance (cycles 28)) m"
    for m :: "('a, 'b) cpu"
    by (simp add: upd_sched_def advance_def cycles_def systime_new_def from_cpu_cycles_def FRAC_BITS_def add.assoc)
  show ?thesis
    using n r al assms(3)
    by (simp add: execute_instruction_def Let_def load_code_def bios_word_load fetched_def adv cycles_def [of "Suc 0"]
        map_option_case bind_eq_None_conv split: option.split)
qed

section \<open>Interrupts\<close>

lemma cop0_regs_readable: "cpu_ok c \<Longrightarrow> read_reg 12 (c_cop0 c) = Some (c_cop0 c ! 12)"
  "cpu_ok c \<Longrightarrow> read_reg 13 (c_cop0 c) = Some (c_cop0 c ! 13)"
  by (simp_all add: cpu_ok_def cop0_ok_def read_reg_def)

lemma irq_mask_word_bits: "bit (0xffff00 :: u32) k \<longleftrightarrow> 8 \<le> k \<and> k < 24"
proof -
  have "(0xffff00 :: u32) = push_bit 8 (mask 16)" by (simp add: mask_eq_exp_minus_1)
  then show ?thesis by (simp only: bit_push_bit_iff bit_mask_iff) auto
qed

text \<open>What \<open>irq_pending\<close> tests: bit 10 of the cause register is the line of the interrupt controller.\<close>

definition irq_requested :: "('d, 'g) cpu \<Rightarrow> bool" where
  "irq_requested c \<longleftrightarrow> (\<exists>k \<in> {8..<24}. bit (c_cop0 c ! 12) k
     \<and> (bit (c_cop0 c ! 13) k \<or> k = 10 \<and> irq_active (b_irq (c_bus c))))"

lemma irq_pending_iff:
  assumes "cpu_ok c"
  shows "irq_pending c = Some (bit (c_cop0 c ! 12) 0 \<and> irq_requested c)"
proof -
  have line: "bit (push_bit 10 (of_bool_word b)) k \<longleftrightarrow> k = 10 \<and> b" for b k
    by (auto simp: of_bool_word_def bit_simps)
  have "(c_cop0 c ! 12 AND (c_cop0 c ! 13 OR push_bit 10 (of_bool_word (irq_active (b_irq (c_bus c))))) AND 0xffff00 \<noteq> 0)
      = irq_requested c"
    unfolding word_eq_0_iff_bits irq_requested_def bit_and_iff bit_or_iff line irq_mask_word_bits
    by (auto intro: exI [of _ 10])
  then show ?thesis
    using cop0_regs_readable [OF assms]
    by (simp add: irq_pending_def Let_def irq_enabled_def bit_at_iff)
qed

lemma check_irq_ok: "cpu_ok c \<Longrightarrow> check_for_pending_irq c = Some d \<Longrightarrow> cpu_ok d"
  by (auto simp: check_for_pending_irq_def irq_pending_iff throw_exception_regs(1) split: if_splits)

lemma exec_event_ok: "cpu_ok c \<Longrightarrow> exec_event env ev c = Some d \<Longrightarrow> cpu_ok d"
  by (cases ev) (auto simp: exec_event_def Let_def split: prod.splits dest!: check_irq_ok [rotated])

lemma poll_event_ok: "cpu_ok c \<Longrightarrow> poll_event c = Some (ev, d) \<Longrightarrow> cpu_ok d"
  by (auto simp: poll_event_def)

lemma drain_events_ok: "cpu_ok c \<Longrightarrow> drain_events env n c = Some d \<Longrightarrow> cpu_ok d"
proof (induction n arbitrary: c)
  case (Suc n)
  obtain ev b where b: "poll_event c = Some (ev, b)"
    using Suc.prems(2) by (auto split: bind_splits)
  have ok: "cpu_ok b" using poll_event_ok [OF Suc.prems(1) b] .
  show ?case
    using Suc b ok exec_event_ok [OF ok] by (cases ev) (auto split: bind_splits)
qed simp

lemma run_loop_ok: "cpu_ok c \<Longrightarrow> run_loop env n i brk c = Some (r, d) \<Longrightarrow> cpu_ok d"
proof (induction n arbitrary: c brk)
  case (Suc n)
  obtain ev b where b: "poll_event c = Some (ev, b)"
    using Suc.prems(2) by (auto split: bind_splits)
  have ok: "cpu_ok b" using poll_event_ok [OF Suc.prems(1) b] .
  show ?case
  proof (cases ev)
    case None
    then obtain x where x: "execute_instruction env b = Some x"
      using Suc.prems(2) b by (auto split: bind_splits)
    then show ?thesis
      using None Suc b execute_instruction_step(1) [OF ok x] by (auto split: if_splits bind_splits)
  next
    case (Some e)
    consider "d = b" | x where "exec_event env e b = Some x" "run_loop env n i brk x = Some (r, d)"
      using Some Suc.prems(2) b by (auto split: if_splits bind_splits)
    then show ?thesis
      using ok Suc.IH exec_event_ok [OF ok] by cases blast+
  qed
qed simp

section \<open>Properties\<close>

text \<open>C26: the CPU invariant holds in every state that \<open>step\<close> and \<open>run\<close> reach from the start, whatever the
  devices do and however many events and instructions are executed: register zero reads as zero,
  coprocessor 0 has its sixteen registers and every line of the instruction cache its four words.\<close>

theorem cpu_reachable_inv:
  shows "(cpu_run env n brk time (cpu_new b g) = Some (r, c) \<longrightarrow> cpu_ok c \<and> load_reg 0 c = 0)
    \<and> (cpu_ok c \<longrightarrow> cpu_step env n c = Some d \<longrightarrow> cpu_ok d)
    \<and> (cpu_ok c \<longrightarrow> cpu_run env n brk time c = Some (r, d) \<longrightarrow> cpu_ok d)"
proof -
  have run: "cpu_ok c \<Longrightarrow> cpu_run env n brk time c = Some (r, d) \<Longrightarrow> cpu_ok d" for c d
    by (auto simp: cpu_run_def split: prod.splits dest!: run_loop_ok [rotated])
  moreover have "cpu_ok c \<Longrightarrow> cpu_step env n c = Some d \<Longrightarrow> cpu_ok d"
    using drain_events_ok execute_instruction_step(1) by (fastforce simp: cpu_step_def split: bind_splits)
  ultimately show ?thesis using run [OF cpu_ok_new] by auto
qed

text \<open>C3: branches have one delay slot and exceptions are precise in it. When an instruction of straight-line
  code branches, the next instruction executed is still the one behind it, in the delay slot, and the
  one after it is at the branch target, unless the delay slot traps: then control is at an exception
  vector and the return address is the branch, which the handler thus executes again.\<close>

theorem branch_delay_slot:
  assumes "cpu_ok c" "c_next_pc c = c_pc c + 4"
    and "execute_instruction env c = Some d" "branched d" "execute_instruction env d = Some e"
  shows "c_pc d = c_pc c + 4 \<and> c_last_pc e = c_pc c + 4 \<and> in_branch_delay e
    \<and> (c_pc e = c_next_pc d \<or> exception_vector (c_pc e) \<and> c_next_pc e = c_pc e + 4 \<and> c_cop0 e ! 14 = c_pc c)"
proof -
  note d = execute_instruction_step [OF assms(1,3)]
  note e = execute_instruction_step [OF d(1) assms(5)]
  show ?thesis using d e assms(2,4) by auto
qed

text \<open>C10: interrupts. \<open>check_for_pending_irq\<close> always returns. It takes an interrupt exactly when bit 0 of the
  status register is set and some of its bits 8 to 23 is set together with that bit of the cause
  register or, for bit 10, an active interrupt of the controller. Then it completes the pending load,
  continues at an exception vector and saves the address of the instruction that would have come
  next, or of the branch before it; otherwise it changes nothing.\<close>

theorem interrupt_taken:
  assumes "cpu_ok c"
  shows "\<exists>d. check_for_pending_irq c = Some d
    \<and> (\<not> (bit (c_cop0 c ! 12) 0 \<and> irq_requested c) \<longrightarrow> d = c)
    \<and> (bit (c_cop0 c ! 12) 0 \<and> irq_requested c \<longrightarrow>
        exception_vector (c_pc d) \<and> c_next_pc d = c_pc d + 4
        \<and> c_cop0 d ! 14 = (if branched c then c_pc c - 4 else c_pc c)
        \<and> bit_range (c_cop0 d ! 13) 2 6 = 0
        \<and> load_delay d = delay_slot_default
        \<and> (\<forall>r. r \<noteq> 0 \<longrightarrow> load_reg r d = (if r = ds_reg (load_delay c) then ds_val (load_delay c) else load_reg r c)))"
proof -
  let ?n = "fetch_load_slot (snd (next_pc c))"
  have ok: "cpu_ok ?n" using assms by simp
  note t = throw_exception_regs [OF ok, of Interrupt]
  have n: "in_branch_delay ?n = branched c" "c_last_pc ?n = c_pc c" "c_regs (snd (next_pc c)) = c_regs c"
    "load_delay (snd (next_pc c)) = load_delay c"
    by (simp_all add: next_pc_def Let_def)
  have r: "load_reg r (throw_exception Interrupt ?n) = (if r = ds_reg (load_delay c) then ds_val (load_delay c) else load_reg r c)"
    if "r \<noteq> 0" for r
    using that n(3,4)
    by (simp add: load_reg_cong [of "throw_exception Interrupt ?n" ?n])
       (auto simp: fetch_load_slot_def load_reg_def store_reg_def registers_store_def registers_load_def)
  show ?thesis
  proof (cases "bit (c_cop0 c ! 12) 0 \<and> irq_requested c")
    case True
    then have "check_for_pending_irq c = Some (throw_exception Interrupt ?n)"
      by (simp add: check_for_pending_irq_def irq_pending_iff [OF assms])
    then show ?thesis using True t n r by simp
  next
    case False
    then have "check_for_pending_irq c = Some c"
      by (auto simp: check_for_pending_irq_def irq_pending_iff [OF assms])
    then show ?thesis using False by blast
  qed
qed

section \<open>Witnesses\<close>

text \<open>A BIOS that starts with \<open>j 0\<close> and is zero otherwise; a zero word is \<open>nop\<close>.\<close>

definition jump_bios :: bios where "jump_bios = \<lparr>bios_data = (\<lambda>k. if k = 3 then 8 else 0)\<rparr>"

definition jump_cpu :: "(unit, unit) cpu" where
  "jump_cpu = cpu_new (bus_new jump_bios schedule_new ()) ()"

lemma exec_nop: "exec env 0 c = Some (op_sll 0 c)"
  by (simp add: exec_def exec_special_def opc_op_def opc_special_def bit_range_def)

lemma exec_jump_zero: "exec env 0x08000000 c = Some (op_j 0x08000000 c)"
  by (simp add: exec_def opc_op_def bit_range_def)

lemma jump_cpu_fields: "cpu_ok jump_cpu" "c_pc jump_cpu = 0xbfc00000" "c_next_pc jump_cpu = c_pc jump_cpu + 4"
  "b_bios (c_bus jump_cpu) = jump_bios" "poll_event jump_cpu = Some (None, jump_cpu)"
  "c_cop0 jump_cpu = cop0_new" "branched jump_cpu = False"
  unfolding jump_cpu_def
  by (rule cpu_ok_new) (simp_all add: cpu_new_def PC_START_ADDRESS_def bus_new_def poll_event_def get_pending_event_def
      schedule_new_def NEVER_def time_FOREVER_def STARTUP_def time_ZERO_def upd_sched_def)

lemma jump_bios_words: "read_bytes 4 (bios_data jump_bios) 0 = 0x08000000" "read_bytes 4 (bios_data jump_bios) 4 = 0"
  by (simp_all add: read_bytes_def jump_bios_def upt_rec)

lemma jump_cpu_first:
  obtains d where "\<forall>env. execute_instruction env jump_cpu = Some d" "branched d" "c_next_pc d = 0xb0000000"
    "c_pc d = 0xbfc00004" "b_bios (c_bus d) = jump_bios"
proof
  let ?d = "upd_sched (advance (cycles 1)) (op_j 0x08000000 (fetched (cycles 28) jump_cpu))"
  show "\<forall>env. execute_instruction env jump_cpu = Some ?d"
    using bios_step [of jump_cpu 0]
    by (simp add: jump_cpu_fields jump_bios_words exec_jump_zero)
  show "branched ?d" "c_next_pc ?d = 0xb0000000" "c_pc ?d = 0xbfc00004" "b_bios (c_bus ?d) = jump_bios"
    by (simp_all add: op_j_def fetched_def next_pc_def Let_def jump_cpu_fields jump_def opc_target_def bit_range_def)
qed

theorem cpu_reachable_inv_witness:
  "\<forall>env. \<exists>d. cpu_step env 1 jump_cpu = Some d \<and> cpu_ok d"
proof
  fix env
  obtain d where "execute_instruction env jump_cpu = Some d" using jump_cpu_first by metis
  then have "cpu_step env 1 jump_cpu = Some d" by (simp add: cpu_step_def jump_cpu_fields)
  then show "\<exists>d. cpu_step env 1 jump_cpu = Some d \<and> cpu_ok d"
    using cpu_reachable_inv [of env 1 "\<lambda>_. False" 0 undefined "()" undefined jump_cpu d] jump_cpu_fields(1) by blast
qed

theorem branch_delay_slot_witness:
  "\<forall>env. \<exists>d e. execute_instruction env jump_cpu = Some d \<and> execute_instruction env d = Some e
     \<and> branched d \<and> c_next_pc d = 0xb0000000 \<and> c_last_pc e = 0xbfc00004"
proof
  fix env
  obtain d where d: "\<forall>env. execute_instruction env jump_cpu = Some d" "branched d" "c_next_pc d = 0xb0000000"
      "c_pc d = 0xbfc00004" "b_bios (c_bus d) = jump_bios" by (rule jump_cpu_first)
  have pc: "c_pc d = 0xbfc00000 + word_of_nat 4" using d(4) by simp
  obtain e where e: "execute_instruction env d = Some e"
    using bios_step [OF pc, of env] d(5) by (simp add: jump_bios_words exec_nop)
  then show "\<exists>d e. execute_instruction env jump_cpu = Some d \<and> execute_instruction env d = Some e
     \<and> branched d \<and> c_next_pc d = 0xb0000000 \<and> c_last_pc e = 0xbfc00004"
    using branch_delay_slot [OF jump_cpu_fields(1,3) d(1) [rule_format] d(2) e] d jump_cpu_fields(2) by auto
qed

theorem interrupt_taken_witness:
  "\<exists>d. check_for_pending_irq (jump_cpu\<lparr>c_cop0 := cop0_new[12 := 0x401, 13 := 0x400]\<rparr>) = Some d
    \<and> exception_vector (c_pc d) \<and> c_cop0 d ! 14 = 0xbfc00000"
proof -
  let ?c = "jump_cpu\<lparr>c_cop0 := cop0_new[12 := 0x401, 13 := 0x400]\<rparr>"
  have ok: "cpu_ok ?c"
    using jump_cpu_fields(1) by (simp add: cpu_ok_def cop0_ok_def cop0_new_def REGISTER_VALUES_def)
  have "c_cop0 ?c ! 12 = 0x401" "c_cop0 ?c ! 13 = 0x400" by (simp_all add: cop0_new_def REGISTER_VALUES_def)
  moreover have "bit (0x401 :: u32) 0" "bit (0x401 :: u32) 10" "bit (0x400 :: u32) 10" by simp_all
  ultimately have "bit (c_cop0 ?c ! 12) 0 \<and> irq_requested ?c"
    unfolding irq_requested_def by (auto intro: bexI [of _ 10])
  then show ?thesis using interrupt_taken [OF ok] jump_cpu_fields by auto
qed

end
