(* ===== verification/CpuArith.thy ===== *)
theory CpuArith
  imports CpuControl
begin

text \<open>
  What the arithmetic instructions of \<open>cpu/mod.rs\<close> compute: products and quotients in \<open>hi\<close> and \<open>lo\<close>,
  and the overflow traps of the signed additions.
\<close>

section \<open>Decoding\<close>

lemma exec_special_op: "opc_op op = 0 \<Longrightarrow> exec env op c = exec_special op c"
  by (simp add: exec_def)

lemma exec_muldiv:
  assumes "opc_op op = 0"
  shows "opc_special op = 0x18 \<Longrightarrow> exec env op c = Some (op_mult op c)"
    "opc_special op = 0x19 \<Longrightarrow> exec env op c = Some (op_multu op c)"
    "opc_special op = 0x1a \<Longrightarrow> exec env op c = Some (op_div op c)"
    "opc_special op = 0x1b \<Longrightarrow> exec env op c = Some (op_divu op c)"
    "opc_special op = 0x20 \<Longrightarrow> exec env op c = Some (op_add op c)"
    "opc_special op = 0x22 \<Longrightarrow> exec env op c = Some (op_sub op c)"
  using assms by (simp_all add: exec_special_op exec_special_def)

section \<open>Words and integers\<close>

lemma sint_bound: "- (2 ^ 31) \<le> sint a" "sint a < 2 ^ 31" for a :: i32
  using sint_greater_eq [of a] sint_less [of a] by simp_all

lemma sint_of_int: "- (2 ^ 31) \<le> v \<Longrightarrow> v < 2 ^ 31 \<Longrightarrow> sint (word_of_int v :: i32) = v"
  by (simp add: sint_sbintrunc' signed_take_bit_int_eq_self)

lemma sint_of_int_64: "- (2 ^ 63) \<le> v \<Longrightarrow> v < 2 ^ 63 \<Longrightarrow> sint (word_of_int v :: i64) = v"
  by (simp add: sint_sbintrunc' signed_take_bit_int_eq_self)

lemma word_cat_halves: "(word_cat (ucast (drop_bit 32 v) :: u32) (ucast v :: u32) :: u64) = v"
  by (rule bit_word_eqI) (auto simp: bit_word_cat_iff bit_simps)

lemma product_bound:
  assumes "- (2 ^ 31) \<le> a" "a < 2 ^ 31" "- (2 ^ 31) \<le> b" "b < 2 ^ 31"
  shows "- (2 ^ 63) \<le> a * b" "a * b < (2 :: int) ^ 63"
proof -
  have "\<bar>a\<bar> * \<bar>b\<bar> \<le> 2 ^ 31 * 2 ^ 31" using assms by (intro mult_mono) auto
  then have "\<bar>a * b\<bar> \<le> 2 ^ 62" by (simp add: abs_mult)
  then have "- (2 ^ 62) \<le> a * b \<and> a * b \<le> 2 ^ 62" by linarith
  then show "- (2 ^ 63) \<le> a * b" "a * b < 2 ^ 63" by simp_all
qed

lemma abs_rust_div: "b \<noteq> 0 \<Longrightarrow> \<bar>rust_div a b\<bar> = \<bar>a\<bar> div \<bar>b\<bar>"
proof -
  assume "b \<noteq> 0"
  then have "0 \<le> \<bar>a\<bar> div \<bar>b\<bar>" by (simp add: pos_imp_zdiv_nonneg_iff)
  then show ?thesis by (cases "a = 0") (simp_all add: rust_div_def abs_mult abs_sgn_eq \<open>b \<noteq> 0\<close>)
qed

lemma rust_div_bound:
  assumes "- (2 ^ 31) \<le> a" "a < 2 ^ 31" "b \<noteq> 0" "\<not> (a = - (2 ^ 31) \<and> b = - 1)"
  shows "- (2 ^ 31) \<le> rust_div a b" "rust_div a b < (2 :: int) ^ 31"
proof -
  have q: "\<bar>rust_div a b\<bar> \<le> \<bar>a\<bar>"
    using assms(3) zdiv_mono2 [of "\<bar>a\<bar>" 1 "\<bar>b\<bar>"] by (simp add: abs_rust_div)
  then show "- (2 ^ 31) \<le> rust_div a b" using assms(1,2) by linarith
  show "rust_div a b < 2 ^ 31"
  proof (cases "a = - (2 ^ 31)")
    case False
    then show ?thesis using q assms(1,2) by linarith
  next
    case True
    have "\<bar>b\<bar> = 1 \<or> 2 \<le> \<bar>b\<bar>" using assms(3) by linarith
    then show ?thesis
    proof
      assume "\<bar>b\<bar> = 1"
      then have "b = 1" using assms(4) True by linarith
      then show ?thesis using True by (simp add: rust_div_def)
    next
      assume "2 \<le> \<bar>b\<bar>"
      then have "\<bar>a\<bar> div \<bar>b\<bar> \<le> \<bar>a\<bar> div 2" by (intro zdiv_mono2) auto
      then have "\<bar>rust_div a b\<bar> \<le> 2 ^ 30"
        using True assms(3) by (simp add: abs_rust_div)
      then show ?thesis by simp
    qed
  qed
qed

section \<open>Properties\<close>

lemma muldiv_frames:
  "c_hi (op_mult op c) = ucast (drop_bit 32 (word_of_int (sint (load_reg (opc_rs op) c) * sint (load_reg (opc_rt op) c)) :: u64))"
  "c_lo (op_mult op c) = ucast (word_of_int (sint (load_reg (opc_rs op) c) * sint (load_reg (opc_rt op) c)) :: u64)"
  "c_hi (op_multu op c) = ucast (drop_bit 32 (ucast (load_reg (opc_rs op) c) * ucast (load_reg (opc_rt op) c) :: u64))"
  "c_lo (op_multu op c) = ucast (ucast (load_reg (opc_rs op) c) * ucast (load_reg (opc_rt op) c) :: u64)"
  by (simp_all add: op_mult_def op_multu_def Let_def)

lemma div_frames:
  assumes "load_reg (opc_rt op) c \<noteq> 0"
  shows "c_hi (op_divu op c) = load_reg (opc_rs op) c mod load_reg (opc_rt op) c"
    "c_lo (op_divu op c) = load_reg (opc_rs op) c div load_reg (opc_rt op) c"
    "\<not> (load_reg (opc_rt op) c = -1 \<and> load_reg (opc_rs op) c = 0x80000000) \<Longrightarrow>
      c_hi (op_div op c) = word_of_int (rust_rem (sint (load_reg (opc_rs op) c)) (sint (load_reg (opc_rt op) c)))
      \<and> c_lo (op_div op c) = word_of_int (rust_div (sint (load_reg (opc_rs op) c)) (sint (load_reg (opc_rt op) c)))"
  using assms by (auto simp: op_div_def op_divu_def Let_def)

lemma signed_division:
  fixes a b :: i32
  assumes "b \<noteq> 0" "\<not> (b = -1 \<and> a = 0x80000000)"
  shows "sint (word_of_int (rust_div (sint a) (sint b)) :: i32) = rust_div (sint a) (sint b)"
    "sint (word_of_int (rust_rem (sint a) (sint b)) :: i32) = rust_rem (sint a) (sint b)"
    "sint b \<noteq> 0"
proof -
  show b: "sint b \<noteq> 0" using assms(1) by (simp add: signed_eq_0_iff)
  have "sint (0x80000000 :: i32) = - (2 ^ 31)" by simp
  then have "sint a = - (2 ^ 31) \<and> sint b = - 1 \<Longrightarrow> b = -1 \<and> a = 0x80000000"
    by (intro conjI signed_word_eqI [where 'a = int]) simp_all
  then have n: "\<not> (sint a = - (2 ^ 31) \<and> sint b = - 1)" using assms(2) by blast
  show "sint (word_of_int (rust_div (sint a) (sint b)) :: i32) = rust_div (sint a) (sint b)"
    by (rule sint_of_int) (rule rust_div_bound [OF sint_bound b n])+
  have "\<bar>rust_rem (sint a) (sint b)\<bar> < 2 ^ 31"
    using rust_rem_bound [OF b, of "sint a"] sint_bound [of b] by simp
  then show "sint (word_of_int (rust_rem (sint a) (sint b)) :: i32) = rust_rem (sint a) (sint b)"
    by (intro sint_of_int) simp_all
qed

text \<open>C31: multiplication and division are exact. After \<open>MULT\<close> and \<open>MULTU\<close> the pair of \<open>hi\<close> and \<open>lo\<close> is the
  whole 64-bit product; after \<open>DIVU\<close> and \<open>DIV\<close> with a divisor other than zero (and no signed overflow)
  \<open>lo\<close> is the quotient truncated towards zero and \<open>hi\<close> the remainder with the sign of the dividend.\<close>

theorem muldiv_exact:
  assumes "opc_op op = 0" "opc_special op \<in> {0x18, 0x19, 0x1a, 0x1b}"
    and "load_reg (opc_rs op) c = a" "load_reg (opc_rt op) c = b"
  shows "\<exists>d. exec env op c = Some d
    \<and> (opc_special op = 0x18 \<longrightarrow> sint (word_cat (c_hi d) (c_lo d) :: u64) = sint a * sint b)
    \<and> (opc_special op = 0x19 \<longrightarrow> unat (word_cat (c_hi d) (c_lo d) :: u64) = unat a * unat b)
    \<and> (opc_special op = 0x1b \<and> b \<noteq> 0 \<longrightarrow>
        unat (c_lo d) * unat b + unat (c_hi d) = unat a \<and> unat (c_hi d) < unat b)
    \<and> (opc_special op = 0x1a \<and> b \<noteq> 0 \<and> \<not> (b = -1 \<and> a = 0x80000000) \<longrightarrow>
        sint (c_lo d) * sint b + sint (c_hi d) = sint a \<and> \<bar>sint (c_hi d)\<bar> < \<bar>sint b\<bar>
        \<and> (c_hi d = 0 \<or> sgn (sint (c_hi d)) = sgn (sint a)))"
proof -
  have mult: "sint (word_of_int (sint a * sint b) :: u64) = sint a * sint b"
    by (intro sint_of_int_64 product_bound sint_bound)
  have "unat a * unat b < 2 ^ 32 * 2 ^ 32"
    using unsigned_less [of a, where ?'a = nat] unsigned_less [of b, where ?'a = nat] by (intro mult_strict_mono') simp_all
  moreover have "unat (ucast w :: u64) = unat w" for w :: u32
    using unsigned_less [of w, where ?'a = nat] by (simp add: unsigned_ucast_eq take_bit_nat_eq_self)
  ultimately have multu: "unat (ucast a * ucast b :: u64) = unat a * unat b"
    by (simp add: unat_word_ariths)
  have divu: "unat (a div b) * unat b + unat (a mod b) = unat a" "b \<noteq> 0 \<Longrightarrow> unat (a mod b) < unat b"
    by (simp_all add: unat_div_distrib unat_mod_distrib word_neq_0_conv unat_gt_0)
  have div: "sint (word_of_int (rust_div (sint a) (sint b)) :: i32) * sint b + sint (word_of_int (rust_rem (sint a) (sint b)) :: i32) = sint a"
    "\<bar>sint (word_of_int (rust_rem (sint a) (sint b)) :: i32)\<bar> < \<bar>sint b\<bar>"
    "(word_of_int (rust_rem (sint a) (sint b)) :: i32) = 0 \<or> sgn (sint (word_of_int (rust_rem (sint a) (sint b)) :: i32)) = sgn (sint a)"
    if "b \<noteq> 0" "\<not> (b = -1 \<and> a = 0x80000000)"
    using signed_division [OF that] rust_div_rem rust_rem_bound [of "sint b" "sint a"] rust_rem_sign [of "sint a" "sint b"]
    by auto
  show ?thesis
    using assms(2) exec_muldiv [OF assms(1), of env c] muldiv_frames [of op c] div_frames [of op c]
      mult multu divu div unfolding assms(3,4)
    by (auto simp: word_cat_halves)
qed

theorem muldiv_exact_witness:
  "\<forall>env. \<exists>d. exec env 0x0022001a (jump_cpu\<lparr>c_regs := (\<lambda>_. 0)(1 := 7, 2 := -2)\<rparr>) = Some d
     \<and> sint (c_lo d) * -2 + sint (c_hi d) = 7 \<and> \<bar>sint (c_hi d)\<bar> < 2"
proof
  fix env
  let ?c = "jump_cpu\<lparr>c_regs := (\<lambda>_. 0)(1 := 7, 2 := -2)\<rparr>" and ?op = "0x0022001a :: opcode"
  have op: "opc_op ?op = 0" "opc_special ?op = 0x1a" "opc_rs ?op = 1" "opc_rt ?op = 2"
    by (simp_all add: opc_op_def opc_special_def opc_rs_def opc_rt_def register_new_unchecked_def bit_range_def)
  have "load_reg (opc_rs ?op) ?c = 7" "load_reg (opc_rt ?op) ?c = -2"
    by (simp_all add: op load_reg_def registers_load_def)
  then show "\<exists>d. exec env ?op ?c = Some d \<and> sint (c_lo d) * -2 + sint (c_hi d) = 7 \<and> \<bar>sint (c_hi d)\<bar> < 2"
    using muldiv_exact [of ?op ?c 7 "-2" env] op by auto
qed

end
