(* ===== verification/CpuMemory.thy ===== *)
theory CpuMemory
  imports CpuControl
begin

text \<open>
  Loads and stores of \<open>cpu/mod.rs\<close> in RAM: what a load delay means to the next instruction, and what
  the pairs of partial accesses \<open>LWL\<close>/\<open>LWR\<close> and \<open>SWL\<close>/\<open>SWR\<close> do at addresses that are not aligned.
\<close>

section \<open>RAM seen from the CPU\<close>

text \<open>The RAM appears at address zero, cached at \<open>0x80000000\<close> and uncached at \<open>0xa0000000\<close>.\<close>

definition ram_segment :: "u32 \<Rightarrow> bool" where
  "ram_segment s \<longleftrightarrow> s = 0 \<or> s = 0x80000000 \<or> s = 0xa0000000"

lemma word_mask_31: "(0x7fffffff :: u32) = mask 31" and word_mask_29: "(0x1fffffff :: u32) = mask 29"
  by (simp_all add: mask_eq_exp_minus_1)

lemma and_all_ones: "x AND 0xffffffff = x" for x :: u32
proof -
  have "(0xffffffff :: u32) = mask 32" by (simp add: mask_eq_exp_minus_1)
  then show ?thesis by (simp only: take_bit_eq_mask [symmetric]) (simp add: take_bit_word_eq_self)
qed

lemma segment_unat: "ram_segment s \<Longrightarrow> k < 0x200000 \<Longrightarrow> unat (s + word_of_nat k) = unat s + k"
  by (auto simp: ram_segment_def unat_word_ariths unat_of_nat)

lemma segment_region:
  assumes "ram_segment s" "k < 0x200000"
  shows "regioned_addr (s + word_of_nat k) = word_of_nat k"
proof -
  let ?a = "s + word_of_nat k"
  have u: "unat ?a = unat s + k" using assms by (rule segment_unat)
  have "unat (drop_bit 29 ?a) = unat ?a div 2 ^ 29"
    by (simp only: unsigned_drop_bit_eq drop_bit_eq_div [of 29 "unat ?a"] take_bit_unat)
  then have d: "unat (drop_bit 29 ?a) = (unat s + k) div 2 ^ 29" by (simp only: u)
  have k: "unat (word_of_nat k :: u32) = k" using assms(2) by (simp add: unat_of_nat)
  consider "s = 0" | "s = 0x80000000" | "s = 0xa0000000" using assms(1) by (auto simp: ram_segment_def)
  then show ?thesis
  proof cases
    case 1
    then show ?thesis using d assms(2) by (simp add: regioned_addr_def REGION_MAP_def and_all_ones)
  next
    case 2
    then have "drop_bit 29 ?a = 4" using d assms(2) by (simp add: word_unat_eq_iff)
    then have "regioned_addr ?a = take_bit 31 ?a"
      using regioned_kseg0 by (simp add: word_mask_31 take_bit_eq_mask)
    moreover have "unat (take_bit 31 ?a) = (unat s + k) mod 2 ^ 31"
      by (simp only: unsigned_take_bit_eq u take_bit_eq_mod [of 31 "unat s + k"])
    ultimately have "unat (regioned_addr ?a) = unat (word_of_nat k :: u32)" using 2 assms(2) k by (simp add: mod_if)
    then show ?thesis by (simp only: word_unat_eq_iff)
  next
    case 3
    then have "drop_bit 29 ?a = 5" using d assms(2) by (simp add: word_unat_eq_iff)
    then have "regioned_addr ?a = take_bit 29 ?a"
      using regioned_kseg1 by (simp add: word_mask_29 take_bit_eq_mask)
    moreover have "unat (take_bit 29 ?a) = (unat s + k) mod 2 ^ 29"
      by (simp only: unsigned_take_bit_eq u take_bit_eq_mod [of 29 "unat s + k"])
    ultimately have "unat (regioned_addr ?a) = unat (word_of_nat k :: u32)" using 3 assms(2) k by (simp add: mod_if)
    then show ?thesis by (simp only: word_unat_eq_iff)
  qed
qed

lemma segment_aligned: "ram_segment s \<Longrightarrow> k < 0x200000 \<Longrightarrow> is_aligned_to FullWord (s + word_of_nat k) \<longleftrightarrow> k mod 4 = 0"
proof -
  assume s: "ram_segment s" "k < 0x200000"
  have "unat s mod 4 = 0" using s(1) by (auto simp: ram_segment_def)
  then have "(unat s + k) mod 4 = k mod 4" by presburger
  then show ?thesis by (simp add: aligned_nat segment_unat [OF s])
qed

lemma ram_offset_bus:
  assumes "k < 0x200000"
  shows "bus_contains ram_bus (word_of_nat k)" "bus_offset scratchpad_bus (word_of_nat k) = None"
    "ram_cell (word_of_nat k) = k"
proof -
  have u: "unat (word_of_nat k :: u32) = k" using assms by (simp add: unat_of_nat)
  then show "bus_contains ram_bus (word_of_nat k)"
    using assms by (simp add: bus_contains_def ram_bus_def RAM_SIZE_def word_le_nat_alt)
  then show "bus_offset scratchpad_bus (word_of_nat k) = None"
    using ram_not_others(1) by (simp add: bus_offset_def)
  show "ram_cell (word_of_nat k) = k" using u assms by simp
qed

text \<open>The word and the bytes of the RAM.\<close>

abbreviation c_ram :: "('d, 'g) cpu \<Rightarrow> raw_mem" where "c_ram c \<equiv> b_ram (c_bus c)"

definition ram_word :: "('d, 'g) cpu \<Rightarrow> nat \<Rightarrow> u32" where
  "ram_word c k = read_bytes 4 (mem_data (c_ram c)) k"

lemma cpu_load_ram:
  assumes "ram_ok (c_ram c)" "ram_segment s" "k mod 4 = 0" "k < 0x200000"
  shows "cpu_load env FullWord (s + word_of_nat k) c
    = Some (Inr (ram_word c k, cycles 3), upd_sched (skip_to (ds_ready (load_delay c))) c)"
proof -
  let ?c = "upd_sched (skip_to (ds_ready (load_delay c))) c"
  have k4: "k + 4 \<le> 0x200000" using assms(3,4) by presburger
  have "ram_load FullWord (word_of_nat k) (c_ram ?c) = Some (ram_word c k)"
    using ram_offset_bus(3) [OF assms(4)] k4 assms(1)
    by (simp add: ram.load_eq ram_word_def ram_ok_def RAM_SIZE_def)
  then have "bus_load (e_dev env) FullWord (word_of_nat k) (c_bus ?c) = Some (Some (ram_word c k, cycles 3), c_bus ?c)"
    using ram_offset_bus(1) [OF assms(4)] by (simp add: bus_load_def Let_def ram_unchecked)
  then show ?thesis
    using segment_aligned [OF assms(2,4)] assms(3) segment_region [OF assms(2,4)] ram_offset_bus(2) [OF assms(4)]
    by (simp add: cpu_load_def Let_def)
qed

definition set_ram_word :: "nat \<Rightarrow> u32 \<Rightarrow> raw_mem \<Rightarrow> raw_mem" where
  "set_ram_word k v m = m\<lparr>mem_data := write_bytes 4 (mem_data m) k v\<rparr>"

lemma cpu_store_ram:
  assumes "ram_ok (c_ram c)" "ram_segment s" "k mod 4 = 0" "k < 0x200000" "\<not> cache_isolated (c_cop0 c)"
  shows "cpu_store env FullWord (s + word_of_nat k) v c
    = Some (None, c\<lparr>c_bus := (c_bus c)\<lparr>b_ram := set_ram_word k v (c_ram c)\<rparr>\<rparr>)"
proof -
  have k4: "k + 4 \<le> 0x200000" using assms(3,4) by presburger
  have "ram_store FullWord (word_of_nat k) v (c_ram c) = Some (set_ram_word k v (c_ram c))"
    using ram_offset_bus(3) [OF assms(4)] k4 assms(1)
    by (simp add: ram_store_def raw_store_def Let_def ram_cell_eq ram_ok_def RAM_SIZE_def set_ram_word_def)
  then have "bus_store (e_dev env) FullWord (word_of_nat k) v (c_bus c) = Some (True, (c_bus c)\<lparr>b_ram := set_ram_word k v (c_ram c)\<rparr>)"
    using ram_offset_bus(1) [OF assms(4)] ram_not_others(1) by (simp add: bus_store_def Let_def ram_unchecked)
  then show ?thesis
    using segment_aligned [OF assms(2,4)] assms(3,5) segment_region [OF assms(2,4)]
    by (simp add: cpu_store_def Let_def)
qed

section \<open>The load delay\<close>

lemma load_reg_load_delay [simp]: "load_reg r (c\<lparr>load_delay := x\<rparr>) = load_reg r c"
  by (simp add: load_reg_def)

lemma load_reg_fetch_slot:
  "r \<noteq> 0 \<Longrightarrow> load_reg r (fetch_load_slot c) = (if r = ds_reg (load_delay c) then ds_val (load_delay c) else load_reg r c)"
  unfolding fetch_load_slot_def load_reg_load_delay load_store_reg by simp

lemma load_reg_pipeline:
  "r \<noteq> 0 \<Longrightarrow> load_reg r (pipeline_bus_load q v t c)
     = (if r = ds_reg (load_delay c) \<and> r \<noteq> q then ds_val (load_delay c) else load_reg r c)"
  by (cases "ds_reg (load_delay c) = q") (simp_all add: pipeline_bus_load_def Let_def load_store_reg ZERO_def)

lemma pipeline_delay: "load_delay (pipeline_bus_load q v t c)
     = \<lparr>ds_reg = q, ds_ready = max (sched_now (c_sched c)) (ds_ready (load_delay c)) + t, ds_val = v\<rparr>"
  "sched_now (c_sched (pipeline_bus_load q v t c)) = max (sched_now (c_sched c)) (ds_ready (load_delay c))"
  "c_ram (pipeline_bus_load q v t c) = c_ram c"
  by (simp_all add: pipeline_bus_load_def Let_def skip_to_def)

lemma access_reg_time:
  "sched_now (c_sched (access_reg r c))
     = (if ds_reg (load_delay c) = r then max (sched_now (c_sched c)) (ds_ready (load_delay c)) else sched_now (c_sched c))"
  by (simp add: access_reg_def Let_def skip_to_def max_def)

lemma access_reg_ram [simp]: "c_ram (access_reg r c) = c_ram c"
  by (simp add: access_reg_def Let_def)

lemma ram_word_frame [simp]: "ram_word (access_reg r c) k = ram_word c k" "ram_word (upd_sched f c) k = ram_word c k"
  by (simp_all add: ram_word_def)

text \<open>A load of a word of the RAM.\<close>

definition waited :: "register \<Rightarrow> register \<Rightarrow> ('d, 'g) cpu \<Rightarrow> ('d, 'g) cpu" where
  "waited rt rs c = upd_sched (skip_to (ds_ready (load_delay c))) (access_reg rt (access_reg rs c))"

lemma waited_frame [simp]:
  "load_delay (waited rt rs c) = load_delay c" "load_reg r (waited rt rs c) = load_reg r c"
  "c_ram (waited rt rs c) = c_ram c" "c_cop0 (waited rt rs c) = c_cop0 c" "ram_word (waited rt rs c) k = ram_word c k"
  "sched_now (c_sched (waited rt rs c)) = max (sched_now (c_sched c)) (ds_ready (load_delay c))"
  by (simp_all add: waited_def ram_word_def skip_to_def access_reg_time max.commute)

lemma load_then_ram:
  assumes "ram_ok (c_ram c)" "ram_segment s" "k mod 4 = 0" "k < 0x200000"
  shows "load_then env FullWord (s + word_of_nat k) f (access_reg rt (access_reg rs c)) = f (ram_word c k) (cycles 3) (waited rt rs c)"
  using cpu_load_ram [of "access_reg rt (access_reg rs c)" s k env] assms
  by (simp add: load_then_def waited_def)

lemma op_lw_ram:
  assumes "ram_ok (c_ram c)" "ram_segment s" "k mod 4 = 0" "k < 0x200000"
    and "load_reg (opc_rs op) c + opc_signed_imm op = s + word_of_nat k"
  shows "op_lw env op c
    = Some (pipeline_bus_load (opc_rt op) (ram_word c k) (cycles 3) (waited (opc_rt op) (opc_rs op) c))"
  using load_then_ram [OF assms(1-4)] assms(5) by (simp add: op_lw_def Let_def)

lemma exec_mem:
  "opc_op op = 0x23 \<Longrightarrow> exec env op c = op_lw env op c" "opc_op op = 0x22 \<Longrightarrow> exec env op c = op_lwl env op c"
  "opc_op op = 0x26 \<Longrightarrow> exec env op c = op_lwr env op c" "opc_op op = 0x2a \<Longrightarrow> exec env op c = op_swl env op c"
  "opc_op op = 0x2e \<Longrightarrow> exec env op c = op_swr env op c"
  by (simp_all add: exec_def)

lemma exec_addu: "opc_op op = 0 \<Longrightarrow> opc_special op = 0x21 \<Longrightarrow> exec env op c = Some (op_addu op c)"
  by (simp add: exec_def exec_special_def)

text \<open>C29: the load delay. A word loaded from RAM is not visible to the instruction behind the load, which
  still reads the old value of the register (here through \<open>ADDU\<close>, a move), but waits until the load
  is done: three cycles after the previous load. After that instruction the register holds the
  word, unless the instruction wrote the register itself. A load that was pending before arrives,
  except when the new one is to the same register and cancels it.\<close>

theorem load_delay_visible:
  assumes "cpu_ok c" "ram_ok (c_ram c)" "ram_segment s" "k mod 4 = 0" "k < 0x200000"
    and "opc_op ld = 0x23" "opc_rt ld \<noteq> 0" "load_reg (opc_rs ld) c + opc_signed_imm ld = s + word_of_nat k"
    and "opc_op mv = 0" "opc_special mv = 0x21" "opc_rs mv = opc_rt ld" "opc_rt mv = 0"
  shows "\<exists>d e. exec env ld c = Some d \<and> exec env mv d = Some e
    \<and> (\<forall>r. r \<noteq> 0 \<longrightarrow> load_reg r d
          = (if r = ds_reg (load_delay c) \<and> r \<noteq> opc_rt ld then ds_val (load_delay c) else load_reg r c))
    \<and> (opc_rd mv \<noteq> 0 \<longrightarrow> load_reg (opc_rd mv) e = load_reg (opc_rt ld) c)
    \<and> (opc_rd mv \<noteq> opc_rt ld \<longrightarrow> load_reg (opc_rt ld) e = ram_word c k)
    \<and> sched_now (c_sched e)
        = max (sched_now (c_sched d)) (max (sched_now (c_sched c)) (ds_ready (load_delay c)) + cycles 3)"
proof -
  let ?d = "pipeline_bus_load (opc_rt ld) (ram_word c k) (cycles 3) (waited (opc_rt ld) (opc_rs ld) c)"
  have d: "exec env ld c = Some ?d" 
    by (simp only: exec_mem(1) [OF assms(6)] op_lw_ram [OF assms(2-5,8)])
  have zero: "load_reg 0 ?d = 0"
    using assms(1) by (intro cpu_ok_zero) (simp add: waited_def)
  have e: "exec env mv ?d = Some (op_addu mv ?d)" by (rule exec_addu [OF assms(9,10)])
  have old: "load_reg (opc_rt ld) ?d = load_reg (opc_rt ld) c"
    using assms(7) by (simp add: load_reg_pipeline)
  have "load_reg r (op_addu mv ?d) = (if r = opc_rd mv then load_reg (opc_rt ld) c
      else if r = opc_rt ld then ram_word c k else load_reg r ?d)" if "r \<noteq> 0" for r
    using that zero old assms(11,12)
    by (simp add: op_addu_def Let_def load_store_reg load_reg_fetch_slot load_reg_pipeline pipeline_delay)
  moreover have "sched_now (c_sched (op_addu mv ?d)) = max (sched_now (c_sched ?d)) (ds_ready (load_delay ?d))"
    using assms(7,11,12) by (simp add: op_addu_def Let_def access_reg_time pipeline_delay)
  ultimately show ?thesis
    using d e assms(7) by (intro exI [of _ ?d] exI [of _ "op_addu mv ?d"]) (simp add: load_reg_pipeline pipeline_delay)
qed

section \<open>Witnesses\<close>

text \<open>A CPU whose register 8 points to RAM and whose register 9 holds a value.\<close>

definition mem_cpu :: "(unit, unit) cpu" where
  "mem_cpu = jump_cpu\<lparr>c_regs := (\<lambda>_. 0)(8 := 0x80001000, 9 := 0x11223344)\<rparr>"

lemma mem_cpu_fields:
  "cpu_ok mem_cpu" "ram_ok (c_ram mem_cpu)" "load_reg 8 mem_cpu = 0x80001000" "load_reg 9 mem_cpu = 0x11223344"
  "load_delay mem_cpu = delay_slot_default" "\<not> cache_isolated (c_cop0 mem_cpu)" "mem_data (c_ram mem_cpu) = (\<lambda>_. 0xff)"
proof -
  show "cpu_ok mem_cpu" using jump_cpu_fields(1) by (simp add: mem_cpu_def cpu_ok_def)
qed (simp_all add: mem_cpu_def jump_cpu_def cpu_new_def bus_new_def ram_ok_def ram_new_def raw_new_def load_reg_def
  registers_load_def cache_isolated_def bit_at_def cop0_new_def REGISTER_VALUES_def)

lemma op_fields:
  "opc_op 0x8d090000 = 0x23" "opc_rs 0x8d090000 = 8" "opc_rt 0x8d090000 = 9" "opc_signed_imm 0x8d090000 = 0"
  "opc_op 0x01205021 = 0" "opc_special 0x01205021 = 0x21" "opc_rs 0x01205021 = 9" "opc_rt 0x01205021 = 0" "opc_rd 0x01205021 = 10"
  "opc_op 0x89090004 = 0x22" "opc_rs 0x89090004 = 8" "opc_rt 0x89090004 = 9" "opc_signed_imm 0x89090004 = 4"
  "opc_op 0x99090001 = 0x26" "opc_rs 0x99090001 = 8" "opc_rt 0x99090001 = 9" "opc_signed_imm 0x99090001 = 1"
  "opc_op 0xa9090004 = 0x2a" "opc_rs 0xa9090004 = 8" "opc_rt 0xa9090004 = 9" "opc_signed_imm 0xa9090004 = 4"
  "opc_op 0xb9090001 = 0x2e" "opc_rs 0xb9090001 = 8" "opc_rt 0xb9090001 = 9" "opc_signed_imm 0xb9090001 = 1"
  by (simp_all add: opc_op_def opc_special_def opc_rs_def opc_rt_def opc_rd_def opc_signed_imm_def
      register_new_unchecked_def bit_range_def)

theorem load_delay_visible_witness:
  "\<forall>env. \<exists>d e. exec env 0x8d090000 mem_cpu = Some d \<and> exec env 0x01205021 d = Some e
     \<and> load_reg 10 e = 0x11223344 \<and> load_reg 9 e = 0xffffffff"
proof
  fix env
  have "ram_word mem_cpu 0x1000 = 0xffffffff" by (simp add: ram_word_def mem_cpu_fields read_bytes_def upt_rec)
  then show "\<exists>d e. exec env 0x8d090000 mem_cpu = Some d \<and> exec env 0x01205021 d = Some e
     \<and> load_reg 10 e = 0x11223344 \<and> load_reg 9 e = 0xffffffff"
    using load_delay_visible [of mem_cpu "0x80000000" "0x1000" "0x8d090000" "0x01205021" env]
    by (auto simp: mem_cpu_fields op_fields ram_segment_def)
qed

end
