(* ===== verification/CpuUnaligned.thy ===== *)
theory CpuUnaligned
  imports CpuMemory
begin

text \<open>
  The partial loads and stores \<open>LWL\<close>, \<open>LWR\<close>, \<open>SWL\<close> and \<open>SWR\<close> of \<open>cpu/mod.rs\<close> in RAM: what a pair of them
  does at an address that is not aligned.
\<close>

section \<open>Partial words\<close>

lemma segment_split:
  assumes "ram_segment s" "k < 0x200000"
  shows "(s + word_of_nat k) AND NOT 3 = s + word_of_nat (k div 4 * 4)" "unat ((s + word_of_nat k) AND 3) = k mod 4"
proof -
  have s4: "unat s mod 4 = 0" using assms(1) by (auto simp: ram_segment_def)
  have u: "unat (s + word_of_nat k) = unat s + k" using assms by (rule segment_unat)
  have "unat ((s + word_of_nat k) AND NOT 3) = (unat s + k) div 4 * 4"
    using unat_align_word [of "s + word_of_nat k"] by (simp only: align_as_word u)
  also have "\<dots> = unat s + k div 4 * 4" using s4 by presburger
  also have "\<dots> = unat (s + word_of_nat (k div 4 * 4))"
    using segment_unat [OF assms(1), of "k div 4 * 4"] assms(2) by simp
  finally show "(s + word_of_nat k) AND NOT 3 = s + word_of_nat (k div 4 * 4)" by (simp only: word_unat_eq_iff)
  have "(unat s + k) mod 4 = k mod 4" using s4 by presburger
  then show "unat ((s + word_of_nat k) AND 3) = k mod 4" by (simp only: unat_and_3 u)
qed

lemma unat_cases4:
  fixes a :: u32
  assumes "unat a < 4"
  obtains "a = 0" | "a = 1" | "a = 2" | "a = 3"
proof -
  have "unat a = 0 \<or> unat a = 1 \<or> unat a = 2 \<or> unat a = 3" using assms by linarith
  then show ?thesis using that by (auto simp: word_unat_eq_iff)
qed

text \<open>The four cases of the code as masks and shifts by whole bytes.\<close>

lemma byte_masks: "(0xff :: u32) = mask 8" "(0xffff :: u32) = mask 16" "(0xffffff :: u32) = mask 24"
  "(0xffffff00 :: u32) = NOT (mask 8)" "(0xffff0000 :: u32) = NOT (mask 16)" "(0xff000000 :: u32) = NOT (mask 24)"
  by (simp_all add: mask_eq_exp_minus_1)

lemma not_mask_32: "NOT (mask 32) = (0 :: u32)"
  by (rule bit_word_eqI) (simp add: bit_simps)

lemma lwl_merge:
  assumes "unat (a :: u32) < 4"
  shows "(if a = 0 then (v AND 0x00ffffff) OR push_bit 24 w else if a = 1 then (v AND 0x0000ffff) OR push_bit 16 w
      else if a = 2 then (v AND 0x000000ff) OR push_bit 8 w else w)
    = (v AND mask (24 - 8 * unat a)) OR push_bit (24 - 8 * unat a) (w :: u32)"
  using assms by (cases a rule: unat_cases4) (simp_all add: byte_masks not_mask_32)

lemma lwr_merge:
  assumes "unat (a :: u32) < 4"
  shows "(if a = 0 then w else if a = 1 then (v AND 0xff000000) OR drop_bit 8 w
      else if a = 2 then (v AND 0xffff0000) OR drop_bit 16 w else (v AND 0xffffff00) OR drop_bit 24 w)
    = (v AND NOT (mask (32 - 8 * unat a))) OR drop_bit (8 * unat a) (w :: u32)"
  using assms by (cases a rule: unat_cases4) (simp_all add: byte_masks not_mask_32)

lemma swl_merge:
  assumes "unat (a :: u32) < 4"
  shows "(if a = 0 then (w AND 0xffffff00) OR drop_bit 24 v else if a = 1 then (w AND 0xffff0000) OR drop_bit 16 v
      else if a = 2 then (w AND 0xff000000) OR drop_bit 8 v else v)
    = (w AND NOT (mask (8 * Suc (unat a)))) OR drop_bit (24 - 8 * unat a) (v :: u32)"
  using assms by (cases a rule: unat_cases4) (simp_all add: byte_masks not_mask_32)

lemma swr_merge:
  assumes "unat (a :: u32) < 4"
  shows "(if a = 0 then v else if a = 1 then (w AND 0x000000ff) OR push_bit 8 v
      else if a = 2 then (w AND 0x0000ffff) OR push_bit 16 v else (w AND 0x00ffffff) OR push_bit 24 v)
    = (w AND mask (8 * unat a)) OR push_bit (8 * unat a) (v :: u32)"
  using assms by (cases a rule: unat_cases4) (simp_all add: byte_masks not_mask_32)

text \<open>The two halves make the word at the unaligned address.\<close>

lemma unaligned_word:
  fixes k r q :: nat
  assumes "k = 4 * q + r" "r < 4"
  shows "((if r = 0 then read_bytes 4 d (4 * q)
        else (v AND mask (32 - 8 * r)) OR push_bit (32 - 8 * r) (read_bytes 4 d (4 * q + 4))) AND NOT (mask (32 - 8 * r)))
      OR drop_bit (8 * r) (read_bytes 4 d (4 * q)) = read_bytes 4 d k"
proof (intro bit_word_eqI)
  fix i :: nat
  assume "i < LENGTH(32)"
  then have i: "i < 32" by simp
  have low: "4 * q + (8 * r + i) div 8 = k + i div 8" "(8 * r + i) mod 8 = i mod 8"
    using assms by (simp_all add: add.assoc)
  have high: "4 * q + 4 + (i - (32 - 8 * r)) div 8 = k + i div 8" "(i - (32 - 8 * r)) mod 8 = i mod 8"
    if "32 - 8 * r \<le> i" "r \<noteq> 0"
  proof -
    have "i = 8 * (4 - r) + (i - (32 - 8 * r))" using that assms(2) by simp
    then have "i div 8 = 4 - r + (i - (32 - 8 * r)) div 8" "i mod 8 = (i - (32 - 8 * r)) mod 8"
      by (metis div_mult_self4 zero_neq_numeral add.commute, metis mod_mult_self4)
    then show "4 * q + 4 + (i - (32 - 8 * r)) div 8 = k + i div 8" "(i - (32 - 8 * r)) mod 8 = i mod 8"
      using assms by simp_all
  qed
  show "bit (((if r = 0 then read_bytes 4 d (4 * q)
        else (v AND mask (32 - 8 * r)) OR push_bit (32 - 8 * r) (read_bytes 4 d (4 * q + 4))) AND NOT (mask (32 - 8 * r)))
      OR drop_bit (8 * r) (read_bytes 4 d (4 * q))) i = bit (read_bytes 4 d k) i"
  proof (cases "8 * r + i < 32")
    case True
    then have "\<not> (32 - 8 * r \<le> i)" by simp
    then show ?thesis using True i low by (auto simp: bit_simps bit_read_bytes add.assoc)
  next
    case False
    then have "r \<noteq> 0" "32 - 8 * r \<le> i" using i by auto
    then show ?thesis using False i high by (auto simp: bit_simps bit_read_bytes add.assoc less_imp_diff_less)
  qed
qed

lemma op_lwl_ram:
  assumes "ram_ok (c_ram c)" "ram_segment s" "k < 0x200000"
    and "load_reg (opc_rs op) c + opc_signed_imm op = s + word_of_nat k"
  shows "op_lwl env op c = Some (pipeline_bus_load (opc_rt op)
      (((if ds_reg (load_delay c) = opc_rt op then ds_val (load_delay c) else load_reg (opc_rt op) c)
          AND mask (24 - 8 * (k mod 4))) OR push_bit (24 - 8 * (k mod 4)) (ram_word c (k div 4 * 4)))
      (cycles 3) (waited (opc_rt op) (opc_rs op) c))"
proof -
  have k: "k div 4 * 4 mod 4 = 0" "k div 4 * 4 < 0x200000" using assms(3) by auto
  have "unat ((s + word_of_nat k) AND 3) < 4" by (simp add: segment_split(2) [OF assms(2,3)])
  note m = lwl_merge [OF this, unfolded segment_split(2) [OF assms(2,3)]]
  show ?thesis
    using load_then_ram [OF assms(1,2) k] assms(4)
    by (simp only: op_lwl_def Let_def m load_reg_frame access_reg_frame segment_split(1) [OF assms(2,3)])
qed

lemma op_lwr_ram:
  assumes "ram_ok (c_ram c)" "ram_segment s" "k < 0x200000"
    and "load_reg (opc_rs op) c + opc_signed_imm op = s + word_of_nat k"
  shows "op_lwr env op c = Some (pipeline_bus_load (opc_rt op)
      (((if ds_reg (load_delay c) = opc_rt op then ds_val (load_delay c) else load_reg (opc_rt op) c)
          AND NOT (mask (32 - 8 * (k mod 4)))) OR drop_bit (8 * (k mod 4)) (ram_word c (k div 4 * 4)))
      (cycles 3) (waited (opc_rt op) (opc_rs op) c))"
proof -
  have k: "k div 4 * 4 mod 4 = 0" "k div 4 * 4 < 0x200000" using assms(3) by auto
  have "unat ((s + word_of_nat k) AND 3) < 4" by (simp add: segment_split(2) [OF assms(2,3)])
  note m = lwr_merge [OF this, unfolded segment_split(2) [OF assms(2,3)]]
  show ?thesis
    using load_then_ram [OF assms(1,2) k] assms(4)
    by (simp only: op_lwr_def Let_def m load_reg_frame access_reg_frame segment_split(1) [OF assms(2,3)])
qed

lemma ram_word_pipeline: "ram_word (pipeline_bus_load q v t c) k = ram_word c k"
  by (simp add: ram_word_def pipeline_delay)

text \<open>C32: an unaligned word is loaded by a pair of partial loads. \<open>LWL\<close> at offset 3 and then \<open>LWR\<close> at
  offset 0, into the same register and with no load to the base register pending, leave in the load
  delay exactly the little-endian word at the unaligned address, which the register holds after the next
  instruction; the second load takes the first one's result from the delay without waiting. No
  other register changes, apart from a load that was pending before.\<close>

theorem unaligned_load:
  assumes "cpu_ok c" "ram_ok (c_ram c)" "ram_segment s" "k + 3 < 0x200000"
    and "opc_op l = 0x22" "opc_op r = 0x26" "opc_rt l = opc_rt r" "opc_rs l = opc_rs r" "opc_rt r \<noteq> 0"
    and "load_reg (opc_rs r) c + opc_signed_imm r = s + word_of_nat k" "opc_signed_imm l = opc_signed_imm r + 3"
    and "opc_rs r \<noteq> 0 \<Longrightarrow> ds_reg (load_delay c) \<noteq> opc_rs r"
  shows "\<exists>d e. exec env l c = Some d \<and> exec env r d = Some e
    \<and> ds_reg (load_delay e) = opc_rt r \<and> ds_val (load_delay e) = ram_word c k
    \<and> (\<forall>q. q \<noteq> 0 \<longrightarrow> load_reg q (fetch_load_slot e) =
        (if q = opc_rt r then ram_word c k
         else if q = ds_reg (load_delay c) then ds_val (load_delay c) else load_reg q c))"
proof -
  let ?rt = "opc_rt r" and ?rs = "opc_rs r" and ?m = "(k + 3) mod 4" and ?q = "k div 4" and ?r = "k mod 4"
  let ?v = "if ds_reg (load_delay c) = ?rt then ds_val (load_delay c) else load_reg ?rt c"
  define x where "x = (?v AND mask (24 - 8 * ?m)) OR push_bit (24 - 8 * ?m) (ram_word c ((k + 3) div 4 * 4))"
  define d where "d = pipeline_bus_load ?rt x (cycles 3) (waited ?rt ?rs c)"
  define e where "e = pipeline_bus_load ?rt ((x AND NOT (mask (32 - 8 * ?r))) OR drop_bit (8 * ?r) (ram_word c (?q * 4)))
      (cycles 3) (waited ?rt ?rs d)"
  have "load_reg ?rs c + opc_signed_imm l = s + word_of_nat (k + 3)"
    using assms(10,11) by (simp add: add.assoc add.commute [of 3] flip: add.assoc)
  then have "op_lwl env l c = Some d"
    using op_lwl_ram [OF assms(2,3,4), of l env] assms(7,8) by (simp only: d_def x_def)
  then have d: "exec env l c = Some d" by (simp only: exec_mem(2) [OF assms(5)])
  have dd: "ds_reg (load_delay d) = ?rt" "ds_val (load_delay d) = x" "c_ram d = c_ram c" "ram_word d i = ram_word c i" for i
    by (simp_all add: d_def pipeline_delay ram_word_pipeline)
  have "cpu_ok d" using assms(1) by (simp add: d_def waited_def)
  then have "load_reg ?rs d = load_reg ?rs c"
    using assms(1,12) by (cases "?rs = 0") (simp_all add: d_def load_reg_pipeline)
  then have "op_lwr env r d = Some e"
    using op_lwr_ram [of d s k r env] assms(2,3,4,10) dd by (simp add: e_def)
  then have e: "exec env r d = Some e" by (simp only: exec_mem(3) [OF assms(6)])
  have k: "k = 4 * ?q + ?r" "?r < 4" "k div 4 * 4 = 4 * ?q" by simp_all
  have x: "x = (if ?r = 0 then read_bytes 4 (mem_data (c_ram c)) (4 * ?q)
      else (?v AND mask (32 - 8 * ?r)) OR push_bit (32 - 8 * ?r) (read_bytes 4 (mem_data (c_ram c)) (4 * ?q + 4)))"
  proof (cases "?r = 0")
    case True
    then have "?m = 3" "(k + 3) div 4 * 4 = 4 * ?q" by presburger+
    then show ?thesis using True by (simp add: x_def ram_word_def mult.commute)
  next
    case False
    then have "?m + 1 = ?r" "(k + 3) div 4 * 4 = 4 * ?q + 4" by presburger+
    then have "24 - 8 * ?m = 32 - 8 * ?r" "(k + 3) div 4 * 4 = 4 * ?q + 4" by simp_all
    then show ?thesis using False by (simp only: x_def ram_word_def if_False)
  qed
  have "(x AND NOT (mask (32 - 8 * ?r))) OR drop_bit (8 * ?r) (ram_word c (?q * 4)) = ram_word c k"
    unfolding x ram_word_def k(3) by (rule unaligned_word [OF k(1,2)])
  then have val: "ds_val (load_delay e) = ram_word c k" by (simp add: e_def pipeline_delay)
  moreover have reg: "ds_reg (load_delay e) = ?rt" by (simp add: e_def pipeline_delay)
  moreover have "load_reg q (fetch_load_slot e) =
      (if q = ?rt then ram_word c k else if q = ds_reg (load_delay c) then ds_val (load_delay c) else load_reg q c)"
    if "q \<noteq> 0" for q
    using that val reg dd(1,2) by (simp add: load_reg_fetch_slot) (simp add: e_def d_def load_reg_pipeline pipeline_delay)
  ultimately show ?thesis using d e by blast
qed

lemma partial_store:
  fixes k q r :: nat
  assumes "k = 4 * q + r" "r < 4" "0 < r"
  shows "write_bytes 4 (write_bytes 4 d (4 * q + 4)
        ((read_bytes 4 d (4 * q + 4) AND NOT (mask (8 * r))) OR drop_bit (32 - 8 * r) v)) (4 * q)
        ((read_bytes 4 d (4 * q) AND mask (8 * r)) OR push_bit (8 * r) v) = write_bytes 4 d k v"
proof (rule ext, rule bit_word_eqI)
  fix x i :: nat
  assume "i < LENGTH(8)"
  then have i: "i < 8" "i div 8 = 0" "i mod 8 = i" by simp_all
  have byte: "(8 * j + i) div 8 = j" "(8 * j + i) mod 8 = i" "8 * j + i < 8 * n \<longleftrightarrow> j < n" for j n :: nat
    using i by (simp_all, presburger)
  consider "x < 4 * q" | j where "x = 4 * q + j" "j < 4" | j where "x = 4 * q + 4 + j" "j < 4" | "4 * q + 8 \<le> x"
    by (metis add.assoc add_diff_inverse_nat nat_add_left_cancel_less not_le numeral_Bit0)
  then show "bit (write_bytes 4 (write_bytes 4 d (4 * q + 4)
        ((read_bytes 4 d (4 * q + 4) AND NOT (mask (8 * r))) OR drop_bit (32 - 8 * r) v)) (4 * q)
        ((read_bytes 4 d (4 * q) AND mask (8 * r)) OR push_bit (8 * r) v) x) i = bit (write_bytes 4 d k v x) i"
  proof cases
    case (2 j)
    show ?thesis
    proof (cases "j < r")
      case True
      then have "8 * j + i < 8 * r" using i by simp
      then show ?thesis using 2 True i byte assms by (simp add: write_bytes_apply bit_simps bit_read_bytes)
    next
      case False
      then have "\<not> 8 * j + i < 8 * r" "8 * j + i - 8 * r = 8 * (j - r) + i" by (simp_all add: diff_mult_distrib2)
      then show ?thesis using 2 False i byte assms by (simp add: write_bytes_apply bit_simps bit_read_bytes)
    qed
  next
    case (3 j)
    show ?thesis
    proof (cases "j < r")
      case True
      then have "8 * j + i < 8 * r" "32 + (8 * j + i) - 8 * r = 8 * (4 + j - r) + i" using i assms by simp_all
      then show ?thesis using 3 True i byte assms by (simp add: write_bytes_apply bit_simps bit_read_bytes add_ac)
    next
      case False
      then have "\<not> 8 * j + i < 8 * r" "32 \<le> 32 - 8 * r + (8 * j + i)" using i assms by simp_all
      then show ?thesis using 3 False i byte assms
        by (auto simp: write_bytes_apply bit_simps bit_read_bytes dest: bit_imp_le_length)
    qed
  qed (use assms in \<open>simp_all add: write_bytes_apply\<close>)
qed

definition stored :: "nat \<Rightarrow> u32 \<Rightarrow> ('d, 'g) cpu \<Rightarrow> ('d, 'g) cpu" where
  "stored k v c = c\<lparr>c_bus := (c_bus c)\<lparr>b_ram := set_ram_word k v (c_ram c)\<rparr>\<rparr>"

lemma stored_frame [simp]: "c_ram (stored k v c) = set_ram_word k v (c_ram c)" "load_reg r (stored k v c) = load_reg r c"
  "c_cop0 (stored k v c) = c_cop0 c" "c_pc (stored k v c) = c_pc c" "load_delay (stored k v c) = load_delay c"
  by (simp_all add: stored_def load_reg_def)

lemma store_or_throw_ram:
  assumes "ram_ok (c_ram c)" "ram_segment s" "k mod 4 = 0" "k < 0x200000" "\<not> cache_isolated (c_cop0 c)"
  shows "store_or_throw env FullWord (s + word_of_nat k) v c = Some (stored k v c)"
  using cpu_store_ram [OF assms] by (simp add: store_or_throw_def stored_def)

definition store_point :: "register \<Rightarrow> register \<Rightarrow> ('d, 'g) cpu \<Rightarrow> ('d, 'g) cpu" where
  "store_point rt rs c = fetch_load_slot (upd_sched (advance (cycles 3)) (waited rt rs c))"

lemma load_reg_store_point:
  assumes "cpu_ok c" "ds_reg (load_delay c) = 0 \<or> ds_reg (load_delay c) \<noteq> r"
  shows "load_reg r (store_point rt rs c) = load_reg r c"
proof (cases "r = 0")
  case True
  have "cpu_ok (store_point rt rs c)" using assms(1) by (simp add: store_point_def waited_def)
  then show ?thesis using True assms(1) by simp
next
  case False
  then show ?thesis using assms(2) by (auto simp: store_point_def load_reg_fetch_slot)
qed

lemma store_point_frame [simp]: "c_ram (store_point rt rs c) = c_ram c" "c_cop0 (store_point rt rs c) = c_cop0 c"
  "load_delay (store_point rt rs c) = delay_slot_default" "c_pc (store_point rt rs c) = c_pc c"
  by (simp_all add: store_point_def) (simp_all add: waited_def)

lemma op_swl_ram:
  assumes "ram_ok (c_ram c)" "ram_segment s" "k < 0x200000" "\<not> cache_isolated (c_cop0 c)"
    and "load_reg (opc_rs op) c + opc_signed_imm op = s + word_of_nat k"
  shows "op_swl env op c = Some (stored (k div 4 * 4)
      ((ram_word c (k div 4 * 4) AND NOT (mask (8 * Suc (k mod 4)))) OR drop_bit (24 - 8 * (k mod 4)) (load_reg (opc_rt op) c))
      (store_point (opc_rt op) (opc_rs op) c))"
proof -
  have k: "k div 4 * 4 mod 4 = 0" "k div 4 * 4 < 0x200000" using assms(3) by auto
  have "unat ((s + word_of_nat k) AND 3) < 4" by (simp add: segment_split(2) [OF assms(2,3)])
  note m = swl_merge [OF this, unfolded segment_split(2) [OF assms(2,3)]]
  have st: "store_or_throw env FullWord (s + word_of_nat (k div 4 * 4)) v (store_point (opc_rt op) (opc_rs op) c)
      = Some (stored (k div 4 * 4) v (store_point (opc_rt op) (opc_rs op) c))" for v
    using store_or_throw_ram [of "store_point (opc_rt op) (opc_rs op) c" s "k div 4 * 4" env v] assms(1,2,4) k by simp
  show ?thesis
    using load_then_ram [OF assms(1,2) k] assms(5)
    by (simp only: op_swl_def Let_def m load_reg_frame segment_split(1) [OF assms(2,3)] store_point_def [symmetric] st)
qed

lemma op_swr_ram:
  assumes "ram_ok (c_ram c)" "ram_segment s" "k < 0x200000" "\<not> cache_isolated (c_cop0 c)"
    and "load_reg (opc_rs op) c + opc_signed_imm op = s + word_of_nat k"
  shows "op_swr env op c = Some (stored (k div 4 * 4)
      ((ram_word c (k div 4 * 4) AND mask (8 * (k mod 4))) OR push_bit (8 * (k mod 4)) (load_reg (opc_rt op) c))
      (store_point (opc_rt op) (opc_rs op) c))"
proof -
  have k: "k div 4 * 4 mod 4 = 0" "k div 4 * 4 < 0x200000" using assms(3) by auto
  have "unat ((s + word_of_nat k) AND 3) < 4" by (simp add: segment_split(2) [OF assms(2,3)])
  note m = swr_merge [OF this, unfolded segment_split(2) [OF assms(2,3)]]
  have st: "store_or_throw env FullWord (s + word_of_nat (k div 4 * 4)) v (store_point (opc_rt op) (opc_rs op) c)
      = Some (stored (k div 4 * 4) v (store_point (opc_rt op) (opc_rs op) c))" for v
    using store_or_throw_ram [of "store_point (opc_rt op) (opc_rs op) c" s "k div 4 * 4" env v] assms(1,2,4) k by simp
  show ?thesis
    using load_then_ram [OF assms(1,2) k] assms(5)
    by (simp only: op_swr_def Let_def m load_reg_frame segment_split(1) [OF assms(2,3)] store_point_def [symmetric] st)
qed

lemma set_ram_word_frame [simp]: "mem_data (set_ram_word k v m) = write_bytes 4 (mem_data m) k v"
  "ram_ok (set_ram_word k v m) = ram_ok m"
  by (simp_all add: set_ram_word_def ram_ok_def)

lemma unaligned_word_stored:
  assumes "k + 3 < 0x200000"
  shows "let n = (k + 3) mod 4; a = (k + 3) div 4 * 4; b = k div 4 * 4; r = k mod 4;
      m' = set_ram_word a ((read_bytes 4 (mem_data m) a AND NOT (mask (8 * Suc n))) OR drop_bit (24 - 8 * n) v) m
    in set_ram_word b ((read_bytes 4 (mem_data m') b AND mask (8 * r)) OR push_bit (8 * r) v) m' = set_ram_word k v m"
proof (cases "k mod 4 = 0")
  case True
  then have n: "(k + 3) mod 4 = 3" "(k + 3) div 4 * 4 = k" "k div 4 * 4 = k" by presburger+
  have "write_bytes 4 (write_bytes 4 d k v) k v = write_bytes 4 d k v" for d
    by (rule ext) (simp add: write_bytes_apply)
  then show ?thesis using True by (simp add: n not_mask_32 set_ram_word_def)
next
  case False
  let ?q = "k div 4" and ?r = "k mod 4"
  have kk: "k = 4 * ?q + ?r" "?r < 4" "0 < ?r" "?q * 4 = 4 * ?q" using False by simp_all
  have n1: "(k + 3) mod 4 + 1 = ?r" "(k + 3) div 4 * 4 = 4 * ?q + 4" using False by presburger+
  then have n2: "8 * Suc ((k + 3) mod 4) = 8 * ?r" "24 - 8 * ((k + 3) mod 4) = 32 - 8 * ?r" by simp_all
  have "read_bytes 4 (write_bytes 4 d (4 * ?q + 4) w) (4 * ?q) = read_bytes 4 d (4 * ?q)" for d w
    by (rule read_write_disjoint) simp
  then show ?thesis
    using partial_store [OF kk(1-3), of "mem_data m" v]
    by (simp only: Let_def n1 n2 kk(4) set_ram_word_frame) (simp add: set_ram_word_def)
qed

text \<open>C33: an unaligned word is stored by a pair of partial stores. \<open>SWL\<close> at offset 3 and then \<open>SWR\<close> at
  offset 0, of the same register, with no load to it or to the base register pending and the
  cache not isolated, change exactly the four bytes of RAM at the unaligned address, to the
  little-endian bytes of the register; they neither trap nor change a register, apart from a load
  that was pending before.\<close>

theorem unaligned_store:
  assumes "cpu_ok c" "ram_ok (c_ram c)" "ram_segment s" "k + 3 < 0x200000" "\<not> cache_isolated (c_cop0 c)"
    and "opc_op l = 0x2a" "opc_op r = 0x2e" "opc_rt l = opc_rt r" "opc_rs l = opc_rs r"
    and "load_reg (opc_rs r) c + opc_signed_imm r = s + word_of_nat k" "opc_signed_imm l = opc_signed_imm r + 3"
    and "ds_reg (load_delay c) \<noteq> 0 \<Longrightarrow> ds_reg (load_delay c) \<noteq> opc_rs r \<and> ds_reg (load_delay c) \<noteq> opc_rt r"
  shows "\<exists>d e. exec env l c = Some d \<and> exec env r d = Some e
    \<and> mem_data (c_ram e) = write_bytes 4 (mem_data (c_ram c)) k (load_reg (opc_rt r) c)
    \<and> c_pc e = c_pc c
    \<and> (\<forall>q. q \<noteq> 0 \<longrightarrow> load_reg q e = (if q = ds_reg (load_delay c) then ds_val (load_delay c) else load_reg q c))"
proof -
  let ?rt = "opc_rt r" and ?rs = "opc_rs r" and ?n = "(k + 3) mod 4" and ?a = "(k + 3) div 4 * 4" and ?b = "k div 4 * 4"
  let ?v = "load_reg ?rt c" and ?p = "store_point ?rt ?rs c"
  define d where "d = stored ?a ((ram_word c ?a AND NOT (mask (8 * Suc ?n))) OR drop_bit (24 - 8 * ?n) ?v) ?p"
  have "load_reg ?rs c + opc_signed_imm l = s + word_of_nat (k + 3)"
    using assms(10,11) by (simp add: add.assoc add.commute [of 3] flip: add.assoc)
  then have "op_swl env l c = Some d"
    using op_swl_ram [OF assms(2,3,4,5), of l env] assms(8,9) by (simp only: d_def)
  then have d: "exec env l c = Some d" by (simp only: exec_mem(4) [OF assms(6)])
  have reg: "load_reg ?rs d = load_reg ?rs c" "load_reg ?rt d = ?v"
    using load_reg_store_point [OF assms(1)] assms(12) by (auto simp: d_def)
  have dd: "ram_ok (c_ram d)" "c_cop0 d = c_cop0 c" "load_delay d = delay_slot_default"
    using assms(2) by (simp_all add: d_def)
  define e where "e = stored ?b ((ram_word d ?b AND mask (8 * (k mod 4))) OR push_bit (8 * (k mod 4)) ?v) (store_point ?rt ?rs d)"
  have k: "k < 0x200000" using assms(4) by simp
  have "op_swr env r d = Some e"
    using op_swr_ram [OF dd(1) assms(3) k, of r env] assms(5,10) dd(2) reg by (simp add: e_def)
  then have e: "exec env r d = Some e" by (simp only: exec_mem(5) [OF assms(7)])
  have "c_ram e = set_ram_word k ?v (c_ram c)"
    using unaligned_word_stored [OF assms(4), of "c_ram c" ?v] by (simp add: e_def d_def ram_word_def Let_def)
  moreover have "load_reg q e = (if q = ds_reg (load_delay c) then ds_val (load_delay c) else load_reg q c)" if "q \<noteq> 0" for q
  proof -
    have "load_reg q e = load_reg q (store_point ?rt ?rs d)" by (simp add: e_def)
    also have "\<dots> = load_reg q d"
      using that dd(3) by (simp add: store_point_def load_reg_fetch_slot delay_slot_default_def ZERO_def)
    also have "\<dots> = (if q = ds_reg (load_delay c) then ds_val (load_delay c) else load_reg q c)"
      using that by (simp add: d_def store_point_def load_reg_fetch_slot)
    finally show ?thesis .
  qed
  moreover have "c_pc e = c_pc c" by (simp add: e_def d_def)
  ultimately show ?thesis using d e by (intro exI [of _ d] exI [of _ e]) simp
qed

theorem unaligned_load_witness:
  "\<forall>env. \<exists>d e. exec env 0x89090004 mem_cpu = Some d \<and> exec env 0x99090001 d = Some e \<and> ds_val (load_delay e) = 0xffffffff"
proof
  fix env
  have "ram_word mem_cpu 0x1001 = 0xffffffff" by (simp add: ram_word_def mem_cpu_fields read_bytes_def upt_rec)
  then show "\<exists>d e. exec env 0x89090004 mem_cpu = Some d \<and> exec env 0x99090001 d = Some e \<and> ds_val (load_delay e) = 0xffffffff"
    using unaligned_load [of mem_cpu "0x80000000" "0x1001" "0x89090004" "0x99090001" env]
    by (auto simp: mem_cpu_fields op_fields ram_segment_def delay_slot_default_def ZERO_def)
qed

theorem unaligned_store_witness:
  "\<forall>env. \<exists>d e. exec env 0xa9090004 mem_cpu = Some d \<and> exec env 0xb9090001 d = Some e
     \<and> mem_data (c_ram e) 0x1001 = 0x44 \<and> mem_data (c_ram e) 0x1004 = 0x11 \<and> mem_data (c_ram e) 0x1005 = 0xff"
proof
  fix env
  show "\<exists>d e. exec env 0xa9090004 mem_cpu = Some d \<and> exec env 0xb9090001 d = Some e
     \<and> mem_data (c_ram e) 0x1001 = 0x44 \<and> mem_data (c_ram e) 0x1004 = 0x11 \<and> mem_data (c_ram e) 0x1005 = 0xff"
    using unaligned_store [of mem_cpu "0x80000000" "0x1001" "0xa9090004" "0xb9090001" env]
    by (auto simp: mem_cpu_fields op_fields ram_segment_def delay_slot_default_def ZERO_def write_bytes_apply)
qed

end
