(* ===== verification/CpuCache.thy ===== *)
theory CpuCache
  imports CpuMemory
begin

text \<open>
  The instruction cache of \<open>cpu/mod.rs\<close>: what a miss puts into a line, and what a hit then executes.
\<close>

lemma load_code_ram:
  assumes "ram_ok (c_ram c)" "ram_segment s" "k mod 4 = 0" "k < 0x200000"
  shows "load_code env (s + word_of_nat k) c = Some (Inr (ram_word c k), upd_sched (advance (cycles 3)) c)"
proof -
  have k4: "k + 4 \<le> 0x200000" using assms(3,4) by presburger
  have "ram_load FullWord (word_of_nat k) (c_ram c) = Some (ram_word c k)"
    using ram_offset_bus(3) [OF assms(4)] k4 assms(1)
    by (simp add: ram.load_eq ram_word_def ram_ok_def RAM_SIZE_def)
  then have "bus_load (e_dev env) FullWord (word_of_nat k) (c_bus c) = Some (Some (ram_word c k, cycles 3), c_bus c)"
    using ram_offset_bus(1) [OF assms(4)] by (simp add: bus_load_def Let_def ram_unchecked)
  then show ?thesis
    using segment_aligned [OF assms(2,4)] assms(3) segment_region [OF assms(2,4)]
    by (simp add: load_code_def Let_def)
qed

text \<open>\<open>fetch_cachline\<close> fills the words from the requested one to the end of the line.\<close>

definition filled :: "nat \<Rightarrow> nat \<Rightarrow> ('d, 'g) cpu \<Rightarrow> icache_line \<Rightarrow> icache_line" where
  "filled b w c line = line\<lparr>line_data := map (\<lambda>j. if w \<le> j then ram_word c (b + 4 * j) else line_data line ! j) [0..<4]\<rparr>"

lemma fetch_words_ram:
  assumes "ram_segment s" "b mod 16 = 0" "b < 0x200000"
  shows "w \<le> 4 \<Longrightarrow> ram_ok (c_ram c) \<Longrightarrow> length (line_data line) = 4 \<Longrightarrow>
    \<exists>t. fetch_words env [w..<4] (s + word_of_nat (b + 4 * w)) line c = Some (None, filled b w c line, upd_sched (advance t) c)"
proof (induction "4 - w" arbitrary: w c line)
  case 0
  then have "w = 4" by simp
  moreover have "filled b 4 c line = line"
  proof -
    have "map (\<lambda>j. if 4 \<le> j then ram_word c (b + 4 * j) else line_data line ! j) [0..<4] = line_data line"
      using 0(4) by (intro nth_equalityI) auto
    then show ?thesis by (simp add: filled_def)
  qed
  moreover have "upd_sched (advance 0) c = c" by (simp add: upd_sched_def advance_def)
  ultimately show ?case by (intro exI [of _ 0]) simp
next
  case (Suc n)
  then have w: "w < 4" "[w..<4] = w # [Suc w..<4]" by (simp_all add: upt_conv_Cons)
  have b16: "b + 16 \<le> 0x200000" using assms(2,3) by presburger
  have k: "(b + 4 * w) mod 4 = 0" "b + 4 * w < 0x200000" using assms(2) w(1) b16 by (presburger, linarith)
  let ?c = "upd_sched (advance (cycles 3)) c" and ?l = "line\<lparr>line_data := (line_data line)[w := ram_word c (b + 4 * w)]\<rparr>"
  note ld = load_code_ram [OF Suc.prems(2) assms(1) k, of env]
  have n: "n = 4 - Suc w" using Suc.hyps(2) by simp
  obtain t where t: "fetch_words env [Suc w..<4] (s + word_of_nat (b + 4 * Suc w)) ?l ?c
      = Some (None, filled b (Suc w) ?c ?l, upd_sched (advance t) ?c)"
    using Suc.hyps(1) [of "Suc w" ?c ?l, OF n] Suc.prems w(1) by auto
  have "filled b (Suc w) ?c ?l = filled b w c line"
    unfolding filled_def using Suc.prems(3) w(1)
    by (auto simp: nth_list_update not_less_eq_eq intro!: arg_cong [where f = "\<lambda>d. line\<lparr>line_data := d\<rparr>"] map_cong)
  moreover have "s + word_of_nat (b + 4 * w) + 4 = s + word_of_nat (b + 4 * Suc w)" by (simp add: algebra_simps)
  moreover have "upd_sched (advance t) ?c = upd_sched (advance (cycles 3 + t)) c"
    by (simp add: upd_sched_def advance_def add.assoc)
  moreover have "fetch_words env (w # [Suc w..<4]) (s + word_of_nat (b + 4 * w)) line c
      = fetch_words env [Suc w..<4] (s + word_of_nat (b + 4 * w) + 4) ?l ?c"
    by (simp only: fetch_words.simps ld bind.bind_lunit prod.case sum.case)
  ultimately have "fetch_words env [w..<4] (s + word_of_nat (b + 4 * w)) line c
      = Some (None, filled b w c line, upd_sched (advance (cycles 3 + t)) c)"
    by (simp only: w(2) t)
  then show ?case by (rule exI)
qed


lemma filled_word: "w \<le> j \<Longrightarrow> j < 4 \<Longrightarrow> line_data (filled b w c line) ! j = ram_word c (b + 4 * j)"
  by (simp add: filled_def)

section \<open>Tags\<close>

text \<open>After \<open>set_tag\<close> a line hits for its own address and the words behind it in the line.\<close>

lemma tag_mask: "bit (0x7ffff00c :: u32) k \<longleftrightarrow> k = 2 \<or> k = 3 \<or> 12 \<le> k \<and> k < 31"
proof -
  have "(0x7ffff00c :: u32) = push_bit 12 (mask 19) OR push_bit 2 (mask 2)" by (simp add: mask_eq_exp_minus_1)
  then show ?thesis by (simp only: bit_or_iff bit_push_bit_iff bit_mask_iff) auto
qed

lemma set_tag_fields: "line_tag (set_tag a line) = bit_range a 12 30" "valid_word_idx (set_tag a line) = unat (bit_range a 2 3)"
proof -
  have e: "bit (a AND 0x7ffff00c) k \<longleftrightarrow> bit a k \<and> (k = 2 \<or> k = 3 \<or> 12 \<le> k \<and> k < 31)" for k
    by (simp only: bit_and_iff tag_mask)
  have "bit_range (a AND 0x7ffff00c) 12 30 = bit_range a 12 30" "bit_range (a AND 0x7ffff00c) 2 4 = bit_range a 2 3"
    by (intro bit_word_eqI; auto simp: bit_bit_range e)+
  then show "line_tag (set_tag a line) = bit_range a 12 30" "valid_word_idx (set_tag a line) = unat (bit_range a 2 3)"
    by (simp_all add: line_tag_def valid_word_idx_def set_tag_def)
qed

definition line_of :: "u32 \<Rightarrow> nat" where "line_of a = unat (bit_range a 4 11)"
definition word_of :: "u32 \<Rightarrow> nat" where "word_of a = unat (bit_range a 2 3)"

definition hits :: "u32 \<Rightarrow> ('d, 'g) cpu \<Rightarrow> bool" where
  "hits a c \<longleftrightarrow> line_tag (icache c (line_of a)) = bit_range a 12 30 \<and> valid_word_idx (icache c (line_of a)) \<le> word_of a"

text \<open>The two ways an instruction is fetched through the cache.\<close>

lemma execute_hit:
  assumes "addr_cached (c_pc c)" "icache_enabled (b_cache_ctrl (c_bus c))" "hits (c_pc c) c"
  shows "execute_instruction env c = map_option (upd_sched (advance (systime_new 1)))
    (exec env (line_data (icache c (line_of (c_pc c))) ! word_of (c_pc c)) (snd (next_pc c)))"
  using assms
  by (simp add: execute_instruction_def hits_def line_of_def word_of_def next_pc_def Let_def map_option_case
      split: option.split)

lemma segment_fields:
  assumes "s = 0 \<or> s = 0x80000000" "k < 0x200000"
  shows "addr_cached (s + word_of_nat k)" "word_of (s + word_of_nat k) = k div 4 mod 4"
proof -
  have seg: "ram_segment s" using assms(1) by (auto simp: ram_segment_def)
  have u: "unat (s + word_of_nat k) = unat s + k" using seg assms(2) by (rule segment_unat)
  have "unat (drop_bit 29 (s + word_of_nat k)) = unat (s + word_of_nat k) div 2 ^ 29"
    by (simp only: unsigned_drop_bit_eq drop_bit_eq_div [of 29 "unat (s + word_of_nat k)"] take_bit_unat)
  also have "\<dots> \<le> 4" unfolding u using assms by auto
  finally show "addr_cached (s + word_of_nat k)" by (simp add: addr_cached_def word_le_nat_alt)
  have "unat s = 16 * (unat s div 16)" using assms(1) by auto
  then have "(unat s + k) div 4 = 4 * (unat s div 16) + k div 4" by simp
  then have "(unat s + k) div 4 mod 4 = k div 4 mod 4" by simp
  then show "word_of (s + word_of_nat k) = k div 4 mod 4" by (simp add: word_of_def unat_bit_range u)
qed

section \<open>Properties\<close>

lemma next_pc_ram: "ram_word (snd (next_pc c)) k = ram_word c k" "c_ram (snd (next_pc c)) = c_ram c"
  "icache (snd (next_pc c)) = icache c" "c_regs (snd (next_pc c)) = c_regs c"
  by (simp_all add: next_pc_def Let_def ram_word_def)

lemma execute_miss:
  assumes "cpu_ok c" "ram_ok (c_ram c)" "s = 0 \<or> s = 0x80000000" "k mod 4 = 0" "k < 0x200000"
    and "c_pc c = s + word_of_nat k" "icache_enabled (b_cache_ctrl (c_bus c))" "\<not> hits (c_pc c) c"
  obtains f line where "execute_instruction env c = map_option (\<lambda>x. upd_sched (advance (systime_new 1))
      (x\<lparr>icache := (icache x)(line_of (c_pc c) := set_tag (c_pc c) line), icache_misses := icache_misses x + 1\<rparr>))
      (exec env (ram_word c k) (upd_sched f (snd (next_pc c))))"
    "\<And>j. k div 4 mod 4 \<le> j \<Longrightarrow> j < 4 \<Longrightarrow> line_data line ! j = ram_word c (k div 16 * 16 + 4 * j)"
proof -
  obtain n where n: "next_pc c = (c_pc c, n)" "load_delay n = load_delay c" "b_cache_ctrl (c_bus n) = b_cache_ctrl (c_bus c)"
    "\<And>k. ram_word n k = ram_word c k" "c_ram n = c_ram c" "icache n = icache c"
    by (simp add: next_pc_def Let_def ram_word_def)
  let ?w = "k div 4 mod 4" and ?b = "k div 16 * 16" and ?a = "c_pc c"
  let ?s = "upd_sched (advance (systime_new (4 - word_of_nat ?w))) (upd_sched (skip_to (ds_ready (load_delay c))) n)"
  have w: "word_of ?a = ?w" "addr_cached ?a" using segment_fields [OF assms(3,5)] assms(6) by simp_all
  have seg: "ram_segment s" using assms(3) by (auto simp: ram_segment_def)
  have "k = 4 * (k div 4)" "k div 16 = k div 4 div 4"
    using assms(4) mult_div_mod_eq [of 4 k] by (simp_all add: div_mult2_eq [symmetric])
  then have "?b + 4 * ?w = k" using div_mult_mod_eq [of "k div 4" 4] by linarith
  then have b: "?b mod 16 = 0" "?b < 0x200000" "?b + 4 * ?w = k" using assms(5) by simp_all
  have len: "length (line_data (icache c (line_of ?a))) = 4" using assms(1) by (simp add: cpu_ok_def)
  obtain t where t: "fetch_words env [?w..<4] ?a (icache c (line_of ?a)) ?s
      = Some (None, filled ?b ?w ?s (icache c (line_of ?a)), upd_sched (advance t) ?s)"
    using fetch_words_ram [OF seg b(1,2), of ?w ?s "icache c (line_of ?a)" env] assms(2,6) len b(3)
    by (auto simp: n)
  let ?line = "filled ?b ?w ?s (icache c (line_of ?a))" and ?m = "upd_sched (advance t) ?s"
  have word: "line_data ?line ! j = ram_word c (?b + 4 * j)" if "?w \<le> j" "j < 4" for j
    by (simp only: filled_word [OF that] ram_word_frame n(4))
  have "?w < 4" by simp
  then have wk: "line_data ?line ! ?w = ram_word c k" using word [of ?w] b(3) by simp
  have nh: "line_tag (icache c (line_of ?a)) \<noteq> bit_range ?a 12 30 \<or> ?w < valid_word_idx (icache c (line_of ?a))"
    using assms(8) w(1) by (simp add: hits_def not_le)
  have enabled: "addr_cached ?a \<and> icache_enabled (b_cache_ctrl (c_bus n))" using w(2) assms(7) n(3) by simp
  have fetch: "fetch_cachline env (icache c (line_of ?a)) ?w ?a (upd_sched (skip_to (ds_ready (load_delay c))) n)
      = Some (None, ?line, ?m)"
    unfolding fetch_cachline_def by (rule t)
  have "execute_instruction env c = Option.bind (Option.bind (exec env (ram_word c k) ?m)
      (\<lambda>x. Some (x\<lparr>icache := (icache x)(line_of ?a := set_tag ?a ?line), icache_misses := icache_misses x + 1\<rparr>)))
      (\<lambda>x. Some (upd_sched (advance (systime_new 1)) x))"
    unfolding execute_instruction_def n(1) Let_def prod.case line_of_def [symmetric] word_of_def [symmetric]
      n(2,6) w(1) if_P [OF enabled] if_P [OF nh] fetch bind.bind_lunit option.case wk ..
  moreover have "?m = upd_sched (\<lambda>sch. advance t (advance (systime_new (4 - word_of_nat ?w)) (skip_to (ds_ready (load_delay c)) sch))) n"
    by (simp add: upd_sched_def)
  ultimately have "execute_instruction env c = map_option (\<lambda>x. upd_sched (advance (systime_new 1))
      (x\<lparr>icache := (icache x)(line_of ?a := set_tag ?a ?line), icache_misses := icache_misses x + 1\<rparr>))
      (exec env (ram_word c k) (upd_sched (\<lambda>sch. advance t (advance (systime_new (4 - word_of_nat ?w))
        (skip_to (ds_ready (load_delay c)) sch))) (snd (next_pc c))))"
    using n(1) by (cases "exec env (ram_word c k) ?m") simp_all
  then show ?thesis using that word by blast
qed

text \<open>C34: the instruction cache. An instruction in RAM that misses the cache is executed from the word of
  RAM at its address, and its line then holds the words of RAM from that one to the end of the line.
  From then on, as long as the line stays as it is, exactly the addresses of these words hit, and
  executing them takes the word that was in RAM when the line was filled, without touching the bus.\<close>

theorem icache_refill:
  assumes "cpu_ok c" "ram_ok (c_ram c)" "s = 0 \<or> s = 0x80000000" "k mod 4 = 0" "k < 0x200000"
    and "c_pc c = s + word_of_nat k" "icache_enabled (b_cache_ctrl (c_bus c))" "\<not> hits (c_pc c) c"
    and "execute_instruction env c = Some d"
  shows "(\<exists>f x. exec env (ram_word c k) (upd_sched f (snd (next_pc c))) = Some x \<and> icache_misses d = icache_misses x + 1)
    \<and> (\<forall>e. icache e (line_of (c_pc c)) = icache d (line_of (c_pc c)) \<longrightarrow>
        (\<forall>a. line_of a = line_of (c_pc c) \<longrightarrow>
          hits a e = (bit_range a 12 30 = bit_range (c_pc c) 12 30 \<and> word_of (c_pc c) \<le> word_of a))
        \<and> (\<forall>j < 4. word_of (c_pc c) \<le> j \<longrightarrow> c_pc e = s + word_of_nat (k div 16 * 16 + 4 * j) \<longrightarrow>
          icache_enabled (b_cache_ctrl (c_bus e)) \<longrightarrow> line_of (c_pc e) = line_of (c_pc c) \<longrightarrow> hits (c_pc e) e \<longrightarrow>
          execute_instruction env e = map_option (upd_sched (advance (systime_new 1)))
            (exec env (ram_word c (k div 16 * 16 + 4 * j)) (snd (next_pc e)))))"
proof -
  obtain f x line where m: "exec env (ram_word c k) (upd_sched f (snd (next_pc c))) = Some x"
    "icache d (line_of (c_pc c)) = set_tag (c_pc c) line" "icache_misses d = icache_misses x + 1"
    "\<And>j. k div 4 mod 4 \<le> j \<Longrightarrow> j < 4 \<Longrightarrow> line_data line ! j = ram_word c (k div 16 * 16 + 4 * j)"
  proof (rule execute_miss [OF assms(1-8), of env])
    fix f line
    assume e: "execute_instruction env c = map_option (\<lambda>x. upd_sched (advance (systime_new 1))
      (x\<lparr>icache := (icache x)(line_of (c_pc c) := set_tag (c_pc c) line), icache_misses := icache_misses x + 1\<rparr>))
      (exec env (ram_word c k) (upd_sched f (snd (next_pc c))))"
    then obtain x where x: "exec env (ram_word c k) (upd_sched f (snd (next_pc c))) = Some x"
      using assms(9) by (cases "exec env (ram_word c k) (upd_sched f (snd (next_pc c)))") auto
    then have d: "d = upd_sched (advance (systime_new 1))
      (x\<lparr>icache := (icache x)(line_of (c_pc c) := set_tag (c_pc c) line), icache_misses := icache_misses x + 1\<rparr>)"
      using e assms(9) by simp
    assume "\<And>j. k div 4 mod 4 \<le> j \<Longrightarrow> j < 4 \<Longrightarrow> line_data line ! j = ram_word c (k div 16 * 16 + 4 * j)"
    then show thesis using that [OF x, of line] by (simp add: d)
  qed
  have w: "word_of (c_pc c) = k div 4 mod 4" using segment_fields [OF assms(3,5)] assms(6) by simp
  have hit: "hits a e = (bit_range a 12 30 = bit_range (c_pc c) 12 30 \<and> word_of (c_pc c) \<le> word_of a)"
    if "icache e (line_of (c_pc c)) = icache d (line_of (c_pc c))" "line_of a = line_of (c_pc c)" for a and e :: "('a, 'b) cpu"
    using that m(2) by (auto simp: hits_def set_tag_fields word_of_def)
  have run: "execute_instruction env e = map_option (upd_sched (advance (systime_new 1)))
      (exec env (ram_word c (k div 16 * 16 + 4 * j)) (snd (next_pc e)))"
    if "icache e (line_of (c_pc c)) = icache d (line_of (c_pc c))" "j < 4" "word_of (c_pc c) \<le> j"
      "c_pc e = s + word_of_nat (k div 16 * 16 + 4 * j)" "icache_enabled (b_cache_ctrl (c_bus e))"
      "line_of (c_pc e) = line_of (c_pc c)" "hits (c_pc e) e" for e j
  proof -
    have "k div 16 < 0x20000" using assms(5) by (simp add: less_mult_imp_div_less)
    then have b: "k div 16 * 16 + 4 * j < 0x200000" using that(2) by linarith
    have "(k div 16 * 16 + 4 * j) div 4 = 4 * (k div 16) + j" by simp
    then have "(k div 16 * 16 + 4 * j) div 4 mod 4 = j" using that(2) by simp
    then have e: "addr_cached (c_pc e)" "word_of (c_pc e) = j" using segment_fields [OF assms(3) b] that(4) by simp_all
    have "line_data (icache e (line_of (c_pc e))) ! j = ram_word c (k div 16 * 16 + 4 * j)"
      using m(2,4) that(1,2,3,6) w by (simp add: set_tag_def)
    then show ?thesis using execute_hit [OF e(1) that(5,7), of env] e(2) by simp
  qed
  show ?thesis using m(1,3) hit run by blast
qed

theorem icache_refill_witness:
  "\<forall>env. \<exists>d x f. execute_instruction env (mem_cpu\<lparr>c_pc := 0x80001008, c_bus := (c_bus mem_cpu)\<lparr>b_cache_ctrl := 0x800\<rparr>\<rparr>) = Some d
     \<and> exec env 0xffffffff (upd_sched f (snd (next_pc (mem_cpu\<lparr>c_pc := 0x80001008, c_bus := (c_bus mem_cpu)\<lparr>b_cache_ctrl := 0x800\<rparr>\<rparr>)))) = Some x
     \<and> hits 0x8000100c d \<and> \<not> hits 0x80001004 d"
proof
  fix env :: "(unit, unit) env"
  let ?c = "mem_cpu\<lparr>c_pc := 0x80001008, c_bus := (c_bus mem_cpu)\<lparr>b_cache_ctrl := 0x800\<rparr>\<rparr>"
  have c: "cpu_ok ?c" "ram_ok (c_ram ?c)" "icache_enabled (b_cache_ctrl (c_bus ?c))" "ram_word ?c 0x1008 = 0xffffffff"
    using mem_cpu_fields(1,2,7)
    by (simp_all add: cpu_ok_def icache_enabled_def bit_at_def ram_word_def read_bytes_def upt_rec)
  have "icache ?c = (\<lambda>_. line_valid)" by (simp add: mem_cpu_def jump_cpu_def cpu_new_def)
  then have miss: "\<not> hits (c_pc ?c) ?c" by (simp add: hits_def line_valid_def line_tag_def bit_range_def)
  have illegal: "exec env 0xffffffff m = Some (op_illegal m)" for m
    by (simp add: exec_def opc_op_def bit_range_def)
  have seg: "(0x80000000 :: u32) = 0 \<or> (0x80000000 :: u32) = 0x80000000" and pc: "c_pc ?c = 0x80000000 + word_of_nat 0x1008"
    by simp_all
  have k: "(0x1008 :: nat) mod 4 = 0" "(0x1008 :: nat) < 0x200000" by simp_all
  obtain f line where e: "execute_instruction env ?c = map_option (\<lambda>x. upd_sched (advance (systime_new 1))
      (x\<lparr>icache := (icache x)(line_of (c_pc ?c) := set_tag (c_pc ?c) line), icache_misses := icache_misses x + 1\<rparr>))
      (exec env (ram_word ?c 0x1008) (upd_sched f (snd (next_pc ?c))))"
    by (rule execute_miss [OF c(1,2) seg k pc c(3) miss, of env])
  then obtain d where d: "execute_instruction env ?c = Some d" by (simp add: c(4) illegal)
  have lines: "line_of 0x8000100c = line_of (c_pc ?c)" "line_of 0x80001004 = line_of (c_pc ?c)"
    "bit_range (0x8000100c :: u32) 12 30 = bit_range (c_pc ?c) 12 30" "word_of (c_pc ?c) = 2"
    "word_of 0x8000100c = 3" "word_of 0x80001004 = 1"
    by (simp_all add: line_of_def word_of_def bit_range_def)
  note r = icache_refill [OF c(1,2) seg k pc c(3) miss d, unfolded c(4)]
  have "hits 0x8000100c d" "\<not> hits 0x80001004 d" using r lines by auto
  then show "\<exists>d x f. execute_instruction env ?c = Some d \<and> exec env 0xffffffff (upd_sched f (snd (next_pc ?c))) = Some x
     \<and> hits 0x8000100c d \<and> \<not> hits 0x80001004 d"
    using r d by blast
qed

end
