(* ===== verification/Gte.thy ===== *)
theory Gte
  imports Bits "HOL-Library.Monad_Syntax"
begin

text \<open>
  \<open>crates/splst_core/src/cpu/gte.rs\<close>: coprocessor 2, the geometry engine.

  \<open>DataRegs\<close> and \<open>ControlRegs\<close> are \<open>repr(C)\<close> structures of 128 bytes which the code also
  reads and writes as 32 words (\<open>load_unchecked\<close>, \<open>store_unchecked\<close>, on a little-endian
  host), so a register file is the function from the word offset to the word and the
  named fields are accessors on it: \<open>ir[i]\<close> is the low half of word \<open>9 + i\<close>, row \<open>r\<close> of a
  matrix at word \<open>b\<close> is the halfwords \<open>3 r\<close>, \<open>3 r + 1\<close>, \<open>3 r + 2\<close> from there. Intermediate
  \<open>i64\<close> values, whose size the code keeps far below 63 bits, are integers; everything
  stored in a register is cut to its width. The flag register is control word 31.
\<close>

datatype 'a vec3 = Vec3 (vx: 'a) (vy: 'a) (vz: 'a)

record gte =
  g_data :: "nat \<Rightarrow> u32"
  g_control :: "nat \<Rightarrow> u32"

definition gte_default :: gte where
  "gte_default = \<lparr>g_data = (\<lambda>_. 0), g_control = (\<lambda>_. 0)\<rparr>"

section \<open>The layout of the registers\<close>

definition lo16 :: "u32 \<Rightarrow> u16" where "lo16 w = ucast w"

definition hi16 :: "u32 \<Rightarrow> u16" where "hi16 w = ucast (drop_bit 16 w)"

definition pack16 :: "u16 \<Rightarrow> u16 \<Rightarrow> u32" where
  "pack16 lo hi = ucast lo OR push_bit 16 (ucast hi)"

definition byte_of :: "nat \<Rightarrow> u32 \<Rightarrow> u8" where "byte_of k w = ucast (drop_bit (8 * k) w)"

definition pack8 :: "u8 \<Rightarrow> u8 \<Rightarrow> u8 \<Rightarrow> u8 \<Rightarrow> u32" where
  "pack8 r g b pad =
     ucast r OR push_bit 8 (ucast g) OR push_bit 16 (ucast b) OR push_bit 24 (ucast pad)"

definition half_at :: "(nat \<Rightarrow> u32) \<Rightarrow> nat \<Rightarrow> u16" where
  "half_at regs k = (if even k then lo16 (regs (k div 2)) else hi16 (regs (k div 2)))"

definition vec16_at :: "(nat \<Rightarrow> u32) \<Rightarrow> nat \<Rightarrow> i16 vec3" where
  "vec16_at regs k = Vec3 (half_at regs k) (half_at regs (k + 1)) (half_at regs (k + 2))"

definition vec32_at :: "(nat \<Rightarrow> u32) \<Rightarrow> nat \<Rightarrow> i32 vec3" where
  "vec32_at regs k = Vec3 (regs k) (regs (k + 1)) (regs (k + 2))"

definition vec_reg :: "nat \<Rightarrow> gte \<Rightarrow> i16 vec3" where "vec_reg i g = vec16_at (g_data g) (4 * i)"

definition mat_reg :: "nat \<Rightarrow> gte \<Rightarrow> nat \<Rightarrow> i16 vec3" where
  "mat_reg base g row = vec16_at (g_control g) (2 * base + 3 * row)"

definition rt_reg :: "gte \<Rightarrow> nat \<Rightarrow> i16 vec3" where "rt_reg = mat_reg 0"
definition llm_reg :: "gte \<Rightarrow> nat \<Rightarrow> i16 vec3" where "llm_reg = mat_reg 8"
definition lcm_reg :: "gte \<Rightarrow> nat \<Rightarrow> i16 vec3" where "lcm_reg = mat_reg 16"
definition tr_reg :: "gte \<Rightarrow> i32 vec3" where "tr_reg g = vec32_at (g_control g) 5"
definition bk_reg :: "gte \<Rightarrow> i32 vec3" where "bk_reg g = vec32_at (g_control g) 13"
definition fc_reg :: "gte \<Rightarrow> i32 vec3" where "fc_reg g = vec32_at (g_control g) 21"

definition rgbc_reg :: "nat \<Rightarrow> gte \<Rightarrow> u8" where "rgbc_reg k g = byte_of k (g_data g 6)"
definition ir0_reg :: "gte \<Rightarrow> i16" where "ir0_reg g = lo16 (g_data g 8)"
definition ir_reg :: "nat \<Rightarrow> gte \<Rightarrow> i16" where "ir_reg i g = lo16 (g_data g (9 + i))"
definition mac_reg :: "nat \<Rightarrow> gte \<Rightarrow> i32" where "mac_reg i g = g_data g (25 + i)"
definition sz_reg :: "nat \<Rightarrow> gte \<Rightarrow> u16" where "sz_reg i g = lo16 (g_data g (16 + i))"
definition flags_reg :: "gte \<Rightarrow> u32" where "flags_reg g = g_control g 31"

definition ir_vec :: "gte \<Rightarrow> i16 vec3" where
  "ir_vec g = Vec3 (ir_reg 0 g) (ir_reg 1 g) (ir_reg 2 g)"

definition set_data :: "nat \<Rightarrow> u32 \<Rightarrow> gte \<Rightarrow> gte" where
  "set_data i v g = g\<lparr>g_data := (g_data g)(i := v)\<rparr>"

definition set_control :: "nat \<Rightarrow> u32 \<Rightarrow> gte \<Rightarrow> gte" where
  "set_control i v g = g\<lparr>g_control := (g_control g)(i := v)\<rparr>"

definition set_flags :: "u32 \<Rightarrow> gte \<Rightarrow> gte" where
  "set_flags f g = set_control 31 f g"

section \<open>Flags and saturation\<close>

definition or_flag :: "nat \<Rightarrow> bool \<Rightarrow> u32 \<Rightarrow> u32" where
  "or_flag n v flags = flags OR push_bit n (of_bool v)"

definition update_error_flag :: "u32 \<Rightarrow> u32" where
  "update_error_flag flags = set_bit_at flags 31 (flags AND 0x7f87e000 \<noteq> 0)"

definition saturate :: "int \<Rightarrow> int \<Rightarrow> int \<Rightarrow> int \<times> bool" where
  "saturate lo hi v = (max lo (min hi v), \<not> (lo \<le> v \<and> v \<le> hi))"

definition check_mac_overflow :: "nat \<Rightarrow> int \<Rightarrow> u32 \<Rightarrow> u32" where
  "check_mac_overflow idx v flags =
     or_flag (27 - idx) (v < - (2 ^ 43)) (or_flag (30 - idx) (v > 2 ^ 43 - 1) flags)"

definition check_mac0_overflow :: "int \<Rightarrow> u32 \<Rightarrow> u32" where
  "check_mac0_overflow v flags =
     or_flag 15 (v < - (2 ^ 31)) (or_flag 16 (v > 2 ^ 31 - 1) flags)"

text \<open>\<open>(val << 20) >> 20\<close> on an \<open>i64\<close> keeps the low 44 bits and extends their sign.\<close>

definition sign_extend_mac :: "nat \<Rightarrow> int \<Rightarrow> u32 \<Rightarrow> int \<times> u32" where
  "sign_extend_mac idx v flags = (signed_take_bit 43 v, check_mac_overflow idx v flags)"

definition saturate_to_rgb :: "nat \<Rightarrow> int \<Rightarrow> u32 \<Rightarrow> u8 \<times> u32" where
  "saturate_to_rgb idx v flags =
     (let (v, ovf) = saturate 0 0xff v in (word_of_int v, or_flag (21 - idx) ovf flags))"

definition saturate_to_mac :: "nat \<Rightarrow> nat \<Rightarrow> int \<Rightarrow> u32 \<Rightarrow> i32 \<times> u32" where
  "saturate_to_mac idx shift v flags =
     (word_of_int (drop_bit shift v), check_mac_overflow idx v flags)"

definition saturate_to_mac0 :: "int \<Rightarrow> u32 \<Rightarrow> i32 \<times> u32" where
  "saturate_to_mac0 v flags = (word_of_int v, check_mac0_overflow v flags)"

definition ir_limits :: "bool \<Rightarrow> int" where
  "ir_limits clamp = (if clamp then 0 else - (2 ^ 15))"

definition saturate_to_ir :: "nat \<Rightarrow> bool \<Rightarrow> i32 \<Rightarrow> u32 \<Rightarrow> u32 \<times> u32" where
  "saturate_to_ir idx clamp v flags =
     (let (v, ovf) = saturate (ir_limits clamp) (2 ^ 15 - 1) (sint v)
      in (word_of_int v, or_flag (24 - idx) ovf flags))"

definition saturate_to_ir0 :: "i32 \<Rightarrow> u32 \<Rightarrow> u32 \<times> u32" where
  "saturate_to_ir0 v flags =
     (let (v, ovf) = saturate 0 0x1000 (sint v) in (word_of_int v, or_flag 12 ovf flags))"

section \<open>Setting the accumulators\<close>

definition set_mac :: "nat \<Rightarrow> nat \<Rightarrow> int \<Rightarrow> gte \<Rightarrow> i32 \<times> gte" where
  "set_mac idx shift v g =
     (let (m, fl) = saturate_to_mac idx shift v (flags_reg g)
      in (m, set_data (25 + idx) m (set_flags fl g)))"

definition set_mac0 :: "int \<Rightarrow> gte \<Rightarrow> gte" where
  "set_mac0 v g = (let (m, fl) = saturate_to_mac0 v (flags_reg g) in set_data 24 m (set_flags fl g))"

definition set_ir :: "nat \<Rightarrow> bool \<Rightarrow> i32 \<Rightarrow> gte \<Rightarrow> gte" where
  "set_ir idx clamp v g =
     (let (w, ovf) = saturate (ir_limits clamp) (2 ^ 15 - 1) (sint v);
          g = set_flags (or_flag (24 - idx) ovf (flags_reg g)) g
      in set_data (9 + idx) (word_of_int w) g)"

definition set_ir0 :: "i32 \<Rightarrow> gte \<Rightarrow> gte" where
  "set_ir0 v g = (let (w, fl) = saturate_to_ir0 v (flags_reg g) in set_data 8 w (set_flags fl g))"

definition set_ir_and_mac :: "nat \<Rightarrow> nat \<Rightarrow> bool \<Rightarrow> int \<Rightarrow> gte \<Rightarrow> gte" where
  "set_ir_and_mac idx shift clamp v g =
     (let (m, g) = set_mac idx shift v g in set_ir idx clamp m g)"

text \<open>\<open>otz\<close> is the low half of word 7; its padding keeps its value.\<close>

definition set_otz :: "i32 \<Rightarrow> gte \<Rightarrow> gte" where
  "set_otz v g =
     (let (w, ovf) = saturate 0 0xffff (sint v);
          g = set_flags (or_flag 18 ovf (flags_reg g)) g
      in set_data 7 (pack16 (word_of_int w) (hi16 (g_data g 7))) g)"

definition rgb_push_from_mac :: "gte \<Rightarrow> gte" where
  "rgb_push_from_mac g =
     (let (r, fl) = saturate_to_rgb 0 (drop_bit 4 (sint (mac_reg 0 g))) (flags_reg g);
          (gr, fl) = saturate_to_rgb 1 (drop_bit 4 (sint (mac_reg 1 g))) fl;
          (b, fl) = saturate_to_rgb 2 (drop_bit 4 (sint (mac_reg 2 g))) fl;
          rgbc = pack8 r gr b (rgbc_reg 3 g);
          g = set_flags fl g;
          g = set_data 20 (g_data g 21) g;
          g = set_data 21 (g_data g 22) g
      in set_data 22 rgbc g)"

section \<open>The division of the perspective transform\<close>

definition factor_table :: "int list" where
  "factor_table = [
     255, 253, 251, 249, 247, 245, 243, 241, 239, 238, 236, 234, 232, 230, 228, 227, 225, 223, 221, 220, 218, 216, 214, 213,
     211, 209, 208, 206, 205, 203, 201, 200, 198, 197, 195, 193, 192, 190, 189, 187, 186, 184, 183, 181, 180, 178, 177, 176,
     174, 173, 171, 170, 169, 167, 166, 164, 163, 162, 160, 159, 158, 156, 155, 154, 153, 151, 150, 149, 148, 146, 145, 144,
     143, 141, 140, 139, 138, 137, 135, 134, 133, 132, 131, 130, 129, 127, 126, 125, 124, 123, 122, 121, 120, 119, 117, 116,
     115, 114, 113, 112, 111, 110, 109, 108, 107, 106, 105, 104, 103, 102, 101, 100, 99, 98, 97, 96, 95, 94, 93, 93,
     92, 91, 90, 89, 88, 87, 86, 85, 84, 83, 83, 82, 81, 80, 79, 78, 77, 77, 76, 75, 74, 73, 72, 72,
     71, 70, 69, 68, 67, 67, 66, 65, 64, 63, 63, 62, 61, 60, 60, 59, 58, 57, 57, 56, 55, 54, 54, 53,
     52, 51, 51, 50, 49, 49, 48, 47, 46, 46, 45, 44, 44, 43, 42, 42, 41, 40, 40, 39, 38, 38, 37, 36,
     36, 35, 34, 34, 33, 32, 32, 31, 30, 30, 29, 29, 28, 27, 27, 26, 25, 25, 24, 24, 23, 22, 22, 21,
     21, 20, 20, 19, 18, 18, 17, 17, 16, 15, 15, 14, 14, 13, 13, 12, 12, 11, 10, 10, 9, 9, 8, 8,
     7, 7, 6, 6, 5, 5, 4, 4, 3, 3, 2, 2, 1, 1, 0, 0, 0]"

definition nr_reciprocal :: "u16 \<Rightarrow> int option" where
  "nr_reciprocal rhs =
     (let idx = unat (drop_bit 7 ((rhs AND 0x7fff) + 0x40))
      in if idx < length factor_table
         then let factor = factor_table ! idx + 0x101;
                  rhs = uint (rhs OR 0x8000);
                  tmp = drop_bit 8 (rhs * (- factor) + 0x80)
              in Some (drop_bit 8 (factor * (0x20000 + tmp) + 0x80))
         else None)"

text \<open>The shift amount of \<open>rhs << shift\<close> is taken modulo the width in a release build.\<close>

definition nr_divide :: "u16 \<Rightarrow> u16 \<Rightarrow> u32 option" where
  "nr_divide lhs rhs =
     (let shift = leading_zeros rhs;
          lhs = push_bit shift (uint lhs);
          rhs = push_bit (shift mod 16) rhs
      in do {
        reciprocal \<leftarrow> nr_reciprocal rhs;
        Some (word_of_int (min (drop_bit 16 (lhs * reciprocal + 0x8000)) 0x1ffff))
      })"

section \<open>Matrix products\<close>

text \<open>
  One row of \<open>add * 2^12 + mat * vec\<close>: after each product the sum is cut to 44 bits, and
  overflow is recorded in the flag of the given index.
\<close>

definition row_sum :: "nat \<Rightarrow> nat \<Rightarrow> nat \<Rightarrow> i32 \<Rightarrow> i16 vec3 \<Rightarrow> i16 vec3 \<Rightarrow> u32 \<Rightarrow> int \<times> u32" where
  "row_sum i j k add row vec flags =
     (let v0 = push_bit 12 (sint add);
          v1 = sint (vx row) * sint (vx vec);
          v2 = sint (vy row) * sint (vy vec);
          v3 = sint (vz row) * sint (vz vec);
          (v1, flags) = sign_extend_mac i (v0 + v1) flags;
          (v2, flags) = sign_extend_mac j (v1 + v2) flags;
          (v3, flags) = sign_extend_mac k (v2 + v3) flags
      in (v3, flags))"

definition mul_row ::
  "(nat \<Rightarrow> i16 vec3) \<Rightarrow> i16 vec3 \<Rightarrow> nat \<Rightarrow> bool \<Rightarrow> i32 \<Rightarrow> nat \<Rightarrow> u32 \<Rightarrow> i32 \<times> u32 \<times> u32" where
  "mul_row mat vec shift clamp add row flags =
     (let (v3, flags) = row_sum row row row add (mat row) vec flags;
          (mac, flags) = saturate_to_mac row shift v3 flags;
          (ir, flags) = saturate_to_ir row clamp mac flags
      in (mac, ir, flags))"

text \<open>
  \<open>mat_mul\<close> returns the three sums and the three saturated values; the two ways the
  callers store them are \<open>mat_mul_ir\<close> (\<open>(_, self.data.ir) = ..\<close>) and \<open>mat_mul_mac_ir\<close>
  (\<open>(self.data.mac, self.data.ir) = ..\<close>).
\<close>

definition mat_mul ::
  "(nat \<Rightarrow> i16 vec3) \<Rightarrow> i32 vec3 \<Rightarrow> i16 vec3 \<Rightarrow> u32 \<Rightarrow> nat \<Rightarrow> bool \<Rightarrow> i32 vec3 \<times> u32 vec3 \<times> u32" where
  "mat_mul mat tvec vec flags shift clamp =
     (let (mac1, ir1, flags) = mul_row mat vec shift clamp (vx tvec) 0 flags;
          (mac2, ir2, flags) = mul_row mat vec shift clamp (vy tvec) 1 flags;
          (mac3, ir3, flags) = mul_row mat vec shift clamp (vz tvec) 2 flags
      in (Vec3 mac1 mac2 mac3, Vec3 ir1 ir2 ir3, flags))"

definition store_vec :: "nat \<Rightarrow> u32 vec3 \<Rightarrow> gte \<Rightarrow> gte" where
  "store_vec i v g = set_data (i + 2) (vz v) (set_data (i + 1) (vy v) (set_data i (vx v) g))"

definition mat_mul_ir ::
  "(nat \<Rightarrow> i16 vec3) \<Rightarrow> i32 vec3 \<Rightarrow> i16 vec3 \<Rightarrow> nat \<Rightarrow> bool \<Rightarrow> gte \<Rightarrow> gte" where
  "mat_mul_ir mat tvec vec shift clamp g =
     (let (_, ir, flags) = mat_mul mat tvec vec (flags_reg g) shift clamp
      in store_vec 9 ir (set_flags flags g))"

definition mat_mul_mac_ir ::
  "(nat \<Rightarrow> i16 vec3) \<Rightarrow> i32 vec3 \<Rightarrow> i16 vec3 \<Rightarrow> nat \<Rightarrow> bool \<Rightarrow> gte \<Rightarrow> gte" where
  "mat_mul_mac_ir mat tvec vec shift clamp g =
     (let (mac, ir, flags) = mat_mul mat tvec vec (flags_reg g) shift clamp
      in store_vec 9 ir (store_vec 25 mac (set_flags flags g)))"

definition zero_vec :: "i32 vec3" where "zero_vec = Vec3 0 0 0"

section \<open>Rotate, translate, perspective\<close>

definition dot_row :: "i16 vec3 \<Rightarrow> i32 \<Rightarrow> nat \<Rightarrow> gte \<Rightarrow> int \<times> gte" where
  "dot_row vec add row g =
     (let (v, flags) = row_sum 0 1 2 add (rt_reg g row) vec (flags_reg g) in (v, set_flags flags g))"

definition proj_factor :: "u16 \<Rightarrow> gte \<Rightarrow> (int \<times> gte) option" where
  "proj_factor z g =
     (let h = lo16 (g_control g 26)
      in if z > h div 2
         then do { q \<leftarrow> nr_divide h z; Some (uint q, g) }
         else Some (0x1ffff, set_flags (or_flag 17 True (flags_reg g)) g))"

definition sz_push :: "u16 \<Rightarrow> gte \<Rightarrow> gte" where
  "sz_push z g =
     (let g = set_data 16 (g_data g 17) g;
          g = set_data 17 (g_data g 18) g;
          g = set_data 18 (g_data g 19) g
      in set_data 19 (pack16 z 0) g)"

definition screen_xy :: "int \<Rightarrow> gte \<Rightarrow> gte" where
  "screen_xy pf g =
     (let sx = sint (ir_reg 0 g) * pf + sint (g_control g 24);
          sy = sint (ir_reg 1 g) * pf + sint (g_control g 25);
          flags = check_mac0_overflow sy (check_mac0_overflow sx (flags_reg g));
          sx = sint (word_of_int (drop_bit 16 sx) :: i32);
          sy = sint (word_of_int (drop_bit 16 sy) :: i32);
          flags = or_flag 14 (\<not> (- 0x400 \<le> sx \<and> sx \<le> 0x3ff)) flags;
          flags = or_flag 13 (\<not> (- 0x400 \<le> sy \<and> sy \<le> 0x3ff)) flags;
          xy = pack16 (word_of_int (max (- 0x400) (min 0x3ff sx)))
                      (word_of_int (max (- 0x400) (min 0x3ff sy)));
          g = set_flags flags g;
          g = set_data 15 xy g;
          g = set_data 12 (g_data g 13) g;
          g = set_data 13 (g_data g 14) g
      in set_data 14 (g_data g 15) g)"

definition rtp :: "i16 vec3 \<Rightarrow> nat \<Rightarrow> bool \<Rightarrow> gte \<Rightarrow> (int \<times> gte) option" where
  "rtp vec shift clamp g =
     (let (x, g) = dot_row vec (vx (tr_reg g)) 0 g;
          (y, g) = dot_row vec (vy (tr_reg g)) 1 g;
          (z, g) = dot_row vec (vz (tr_reg g)) 2 g;
          g = set_ir_and_mac 0 shift clamp x g;
          g = set_ir_and_mac 1 shift clamp y g;
          (_, g) = set_mac 2 shift z g;
          z_shift = (word_of_int (drop_bit 12 z) :: i32);
          g = set_ir 2 False z_shift g;
          ir2 = max (ir_limits clamp) (min (2 ^ 15 - 1) (sint (mac_reg 2 g)));
          g = set_data 11 (pack16 (word_of_int ir2) (hi16 (g_data g 11))) g;
          (z_sat, ovf) = saturate 0 0xffff (sint z_shift);
          g = set_flags (or_flag 18 ovf (flags_reg g)) g;
          z_saturated = word_of_int z_sat;
          g = sz_push z_saturated g
      in do {
        (pf, g) \<leftarrow> proj_factor z_saturated g;
        Some (pf, screen_xy pf g)
      })"

definition depth_queue :: "int \<Rightarrow> gte \<Rightarrow> gte" where
  "depth_queue pf g =
     (let depth = sint (g_control g 28) + sint (lo16 (g_control g 27)) * pf;
          g = set_mac0 depth g
      in set_ir0 (word_of_int (drop_bit 12 depth)) g)"

section \<open>Colours\<close>

definition set_ir_and_mac3 :: "nat \<Rightarrow> bool \<Rightarrow> int vec3 \<Rightarrow> gte \<Rightarrow> gte" where
  "set_ir_and_mac3 shift clamp v g =
     (let g = set_ir_and_mac 0 shift clamp (vx v) g;
          g = set_ir_and_mac 1 shift clamp (vy v) g
      in set_ir_and_mac 2 shift clamp (vz v) g)"

definition color_interp :: "int vec3 \<Rightarrow> nat \<Rightarrow> bool \<Rightarrow> gte \<Rightarrow> gte" where
  "color_interp rgb shift clamp g =
     (let v0 = push_bit 12 (sint (vx (fc_reg g))) - vx rgb;
          v1 = push_bit 12 (sint (vy (fc_reg g))) - vy rgb;
          v2 = push_bit 12 (sint (vz (fc_reg g))) - vz rgb;
          g = set_ir_and_mac3 shift False (Vec3 v0 v1 v2) g;
          v0 = sint (ir_reg 0 g) * sint (ir0_reg g);
          v1 = sint (ir_reg 1 g) * sint (ir0_reg g);
          v2 = sint (ir_reg 2 g) * sint (ir0_reg g)
      in set_ir_and_mac3 shift clamp (Vec3 (v0 + vx rgb) (v1 + vy rgb) (v2 + vz rgb)) g)"

definition dpcs :: "u8 \<Rightarrow> u8 \<Rightarrow> u8 \<Rightarrow> nat \<Rightarrow> bool \<Rightarrow> gte \<Rightarrow> gte" where
  "dpcs r gr b shift clamp g =
     (let g = snd (set_mac 0 0 (push_bit 16 (uint r)) g);
          g = snd (set_mac 1 0 (push_bit 16 (uint gr)) g);
          g = snd (set_mac 2 0 (push_bit 16 (uint b)) g);
          rgb = Vec3 (sint (mac_reg 0 g)) (sint (mac_reg 1 g)) (sint (mac_reg 2 g))
      in rgb_push_from_mac (color_interp rgb shift clamp g))"

text \<open>The products \<open>(rgbc[i] * ir[i]) << 4\<close> that four commands compute.\<close>

definition rgbc_times_ir :: "gte \<Rightarrow> int vec3" where
  "rgbc_times_ir g =
     Vec3 (push_bit 4 (uint (rgbc_reg 0 g) * sint (ir_reg 0 g)))
          (push_bit 4 (uint (rgbc_reg 1 g) * sint (ir_reg 1 g)))
          (push_bit 4 (uint (rgbc_reg 2 g) * sint (ir_reg 2 g)))"

definition ncd :: "i16 vec3 \<Rightarrow> nat \<Rightarrow> bool \<Rightarrow> gte \<Rightarrow> gte" where
  "ncd vec shift clamp g =
     (let g = mat_mul_ir (llm_reg g) zero_vec vec shift clamp g;
          g = mat_mul_mac_ir (lcm_reg g) (bk_reg g) (ir_vec g) shift clamp g
      in rgb_push_from_mac (color_interp (rgbc_times_ir g) shift clamp g))"

definition ncc :: "i16 vec3 \<Rightarrow> nat \<Rightarrow> bool \<Rightarrow> gte \<Rightarrow> gte" where
  "ncc vec shift clamp g =
     (let g = mat_mul_ir (llm_reg g) zero_vec vec shift clamp g;
          g = mat_mul_mac_ir (lcm_reg g) (bk_reg g) (ir_vec g) shift clamp g
      in rgb_push_from_mac (set_ir_and_mac3 shift clamp (rgbc_times_ir g) g))"

definition nc :: "i16 vec3 \<Rightarrow> nat \<Rightarrow> bool \<Rightarrow> gte \<Rightarrow> gte" where
  "nc vec shift clamp g =
     (let g = mat_mul_ir (llm_reg g) zero_vec vec shift clamp g
      in rgb_push_from_mac (mat_mul_mac_ir (lcm_reg g) (bk_reg g) (ir_vec g) shift clamp g))"

definition avsz :: "i16 \<Rightarrow> gte \<Rightarrow> gte" where
  "avsz val g =
     (let sz = uint (sz_reg 1 g) + uint (sz_reg 2 g) + uint (sz_reg 3 g);
          v = sint val * sz;
          g = set_mac0 v g
      in set_otz (word_of_int (drop_bit 12 v)) g)"

section \<open>The commands\<close>

definition gop_cmd :: "u32 \<Rightarrow> u32" where "gop_cmd op = bit_range op 0 5"
definition gop_clamp :: "u32 \<Rightarrow> bool" where "gop_clamp op = bit_at op 10"
definition gop_shift :: "u32 \<Rightarrow> nat" where "gop_shift op = (if bit_at op 19 then 12 else 0)"
definition gop_mat :: "u32 \<Rightarrow> u32" where "gop_mat op = bit_range op 17 18"
definition gop_vec :: "u32 \<Rightarrow> u32" where "gop_vec op = bit_range op 15 16"
definition gop_tr_vec :: "u32 \<Rightarrow> u32" where "gop_tr_vec op = bit_range op 13 14"

definition cmd_rtps :: "u32 \<Rightarrow> gte \<Rightarrow> gte option" where
  "cmd_rtps op g = do {
     (pf, g) \<leftarrow> rtp (vec_reg 0 g) (gop_shift op) (gop_clamp op) g;
     Some (depth_queue pf g) }"

definition sxy_x :: "nat \<Rightarrow> gte \<Rightarrow> int" where "sxy_x i g = sint (lo16 (g_data g (12 + i)))"
definition sxy_y :: "nat \<Rightarrow> gte \<Rightarrow> int" where "sxy_y i g = sint (hi16 (g_data g (12 + i)))"

text \<open>The three products fit in an \<open>i32\<close>, the type the code computes them in.\<close>

definition cmd_nclip :: "gte \<Rightarrow> gte" where
  "cmd_nclip g =
     (let sum = sxy_x 0 g * (sxy_y 1 g - sxy_y 2 g) + sxy_x 1 g * (sxy_y 2 g - sxy_y 0 g)
              + sxy_x 2 g * (sxy_y 0 g - sxy_y 1 g)
      in set_mac0 sum g)"

definition cmd_op :: "u32 \<Rightarrow> gte \<Rightarrow> gte" where
  "cmd_op op g =
     (let d0 = sint (vx (rt_reg g 0)); d1 = sint (vy (rt_reg g 1)); d2 = sint (vz (rt_reg g 2));
          ir0 = sint (ir_reg 0 g); ir1 = sint (ir_reg 1 g); ir2 = sint (ir_reg 2 g);
          v0 = ir2 * d1 - ir1 * d2;
          v1 = ir0 * d2 - ir2 * d0;
          v2 = ir1 * d0 - ir0 * d1
      in set_ir_and_mac3 (gop_shift op) (gop_clamp op) (Vec3 v0 v1 v2) g)"

definition cmd_dpcs :: "u32 \<Rightarrow> gte \<Rightarrow> gte" where
  "cmd_dpcs op g =
     dpcs (rgbc_reg 0 g) (rgbc_reg 1 g) (rgbc_reg 2 g) (gop_shift op) (gop_clamp op) g"

definition cmd_intpl :: "u32 \<Rightarrow> gte \<Rightarrow> gte" where
  "cmd_intpl op g =
     (let rgb = Vec3 (push_bit 12 (sint (ir_reg 0 g))) (push_bit 12 (sint (ir_reg 1 g)))
                     (push_bit 12 (sint (ir_reg 2 g)))
      in rgb_push_from_mac (color_interp rgb (gop_shift op) (gop_clamp op) g))"

definition mvmva_mat :: "u32 \<Rightarrow> gte \<Rightarrow> (nat \<Rightarrow> i16 vec3) option" where
  "mvmva_mat op g =
     (if gop_mat op = 0 then Some (rt_reg g)
      else if gop_mat op = 1 then Some (llm_reg g)
      else if gop_mat op = 2 then Some (lcm_reg g)
      else None)"

definition mvmva_trans :: "u32 \<Rightarrow> gte \<Rightarrow> i32 vec3" where
  "mvmva_trans op g =
     (if gop_tr_vec op = 0 then tr_reg g
      else if gop_tr_vec op = 1 then bk_reg g
      else if gop_tr_vec op = 2 then fc_reg g
      else Vec3 0 0 0)"

definition mvmva_vec :: "u32 \<Rightarrow> gte \<Rightarrow> i16 vec3" where
  "mvmva_vec op g =
     (if gop_vec op = 0 then vec_reg 0 g
      else if gop_vec op = 1 then vec_reg 1 g
      else if gop_vec op = 2 then vec_reg 2 g
      else ir_vec g)"

definition cmd_mvmva :: "u32 \<Rightarrow> gte \<Rightarrow> gte option" where
  "cmd_mvmva op g = do {
     mat \<leftarrow> mvmva_mat op g;
     Some (mat_mul_mac_ir mat (mvmva_trans op g) (mvmva_vec op g) (gop_shift op) (gop_clamp op) g) }"

definition cmd_ncds :: "u32 \<Rightarrow> gte \<Rightarrow> gte" where
  "cmd_ncds op g = ncd (vec_reg 0 g) (gop_shift op) (gop_clamp op) g"

definition cmd_ncdt :: "u32 \<Rightarrow> gte \<Rightarrow> gte" where
  "cmd_ncdt op g =
     (let shift = gop_shift op; clamp = gop_clamp op;
          g = ncd (vec_reg 0 g) shift clamp g;
          g = ncd (vec_reg 1 g) shift clamp g
      in ncd (vec_reg 2 g) shift clamp g)"

definition cmd_nccs :: "u32 \<Rightarrow> gte \<Rightarrow> gte" where
  "cmd_nccs op g = ncc (vec_reg 0 g) (gop_shift op) (gop_clamp op) g"

definition cmd_cc :: "u32 \<Rightarrow> gte \<Rightarrow> gte" where
  "cmd_cc op g =
     (let shift = gop_shift op; clamp = gop_clamp op;
          g = mat_mul_mac_ir (lcm_reg g) (bk_reg g) (ir_vec g) shift clamp g
      in rgb_push_from_mac (set_ir_and_mac3 shift clamp (rgbc_times_ir g) g))"

definition cmd_ncct :: "u32 \<Rightarrow> gte \<Rightarrow> gte" where
  "cmd_ncct op g =
     (let shift = gop_shift op; clamp = gop_clamp op;
          g = ncc (vec_reg 0 g) shift clamp g;
          g = ncc (vec_reg 1 g) shift clamp g
      in ncc (vec_reg 2 g) shift clamp g)"

definition cmd_ncs :: "u32 \<Rightarrow> gte \<Rightarrow> gte" where
  "cmd_ncs op g = nc (vec_reg 0 g) (gop_shift op) (gop_clamp op) g"

definition cmd_nct :: "u32 \<Rightarrow> gte \<Rightarrow> gte" where
  "cmd_nct op g =
     (let shift = gop_shift op; clamp = gop_clamp op;
          g = nc (vec_reg 0 g) shift clamp g;
          g = nc (vec_reg 1 g) shift clamp g
      in nc (vec_reg 2 g) shift clamp g)"

text \<open>As in the code, the third square goes to \<open>ir[1]\<close>.\<close>

definition cmd_sqr :: "u32 \<Rightarrow> gte \<Rightarrow> gte" where
  "cmd_sqr op g =
     (let shift = gop_shift op; clamp = gop_clamp op;
          g = set_data 25 (word_of_int (drop_bit shift (sint (ir_reg 0 g) * sint (ir_reg 0 g)))) g;
          g = set_data 26 (word_of_int (drop_bit shift (sint (ir_reg 1 g) * sint (ir_reg 1 g)))) g;
          g = set_data 27 (word_of_int (drop_bit shift (sint (ir_reg 2 g) * sint (ir_reg 2 g)))) g;
          g = set_ir 0 clamp (mac_reg 0 g) g;
          g = set_ir 1 clamp (mac_reg 1 g) g
      in set_ir 1 clamp (mac_reg 2 g) g)"

definition cmd_dcpl :: "u32 \<Rightarrow> gte \<Rightarrow> gte" where
  "cmd_dcpl op g =
     rgb_push_from_mac (color_interp (rgbc_times_ir g) (gop_shift op) (gop_clamp op) g)"

definition dpct_round :: "u32 \<Rightarrow> gte \<Rightarrow> gte" where
  "dpct_round op g =
     (let w = g_data g 20
      in dpcs (byte_of 0 w) (byte_of 1 w) (byte_of 2 w) (gop_shift op) (gop_clamp op) g)"

definition cmd_dpct :: "u32 \<Rightarrow> gte \<Rightarrow> gte" where
  "cmd_dpct op g = dpct_round op (dpct_round op (dpct_round op g))"

definition cmd_avsz3 :: "gte \<Rightarrow> gte" where "cmd_avsz3 g = avsz (lo16 (g_control g 29)) g"

definition cmd_avsz4 :: "gte \<Rightarrow> gte" where "cmd_avsz4 g = avsz (lo16 (g_control g 30)) g"

definition cmd_rtpt :: "u32 \<Rightarrow> gte \<Rightarrow> gte option" where
  "cmd_rtpt op g =
     (let shift = gop_shift op; clamp = gop_clamp op
      in do {
        (_, g) \<leftarrow> rtp (vec_reg 0 g) shift clamp g;
        (_, g) \<leftarrow> rtp (vec_reg 1 g) shift clamp g;
        (pf, g) \<leftarrow> rtp (vec_reg 2 g) shift clamp g;
        Some (depth_queue pf g) })"

definition ir_times_ir0 :: "gte \<Rightarrow> int vec3" where
  "ir_times_ir0 g =
     Vec3 (sint (ir_reg 0 g) * sint (ir0_reg g)) (sint (ir_reg 1 g) * sint (ir0_reg g))
          (sint (ir_reg 2 g) * sint (ir0_reg g))"

definition cmd_gpf :: "u32 \<Rightarrow> gte \<Rightarrow> gte" where
  "cmd_gpf op g =
     rgb_push_from_mac (set_ir_and_mac3 (gop_shift op) (gop_clamp op) (ir_times_ir0 g) g)"

definition cmd_gpl :: "u32 \<Rightarrow> gte \<Rightarrow> gte" where
  "cmd_gpl op g =
     (let shift = gop_shift op; clamp = gop_clamp op;
          p = ir_times_ir0 g;
          ir1 = vx p + push_bit shift (sint (mac_reg 0 g));
          ir2 = vy p + push_bit shift (sint (mac_reg 1 g));
          ir3 = vz p + push_bit shift (sint (mac_reg 2 g))
      in rgb_push_from_mac (set_ir_and_mac3 shift clamp (Vec3 ir1 ir2 ir3) g))"

definition gte_command :: "u32 \<Rightarrow> gte \<Rightarrow> gte option" where
  "gte_command op g =
     (let cmd = gop_cmd op
      in if cmd = 0x01 then cmd_rtps op g
         else if cmd = 0x06 then Some (cmd_nclip g)
         else if cmd = 0x0c then Some (cmd_op op g)
         else if cmd = 0x10 then Some (cmd_dpcs op g)
         else if cmd = 0x11 then Some (cmd_intpl op g)
         else if cmd = 0x12 then cmd_mvmva op g
         else if cmd = 0x13 then Some (cmd_ncds op g)
         else if cmd = 0x16 then Some (cmd_ncdt op g)
         else if cmd = 0x1b then Some (cmd_nccs op g)
         else if cmd = 0x1c then Some (cmd_cc op g)
         else if cmd = 0x1e then Some (cmd_ncs op g)
         else if cmd = 0x20 then Some (cmd_nct op g)
         else if cmd = 0x28 then Some (cmd_sqr op g)
         else if cmd = 0x29 then Some (cmd_dcpl op g)
         else if cmd = 0x2a then Some (cmd_dpct op g)
         else if cmd = 0x2d then Some (cmd_avsz3 g)
         else if cmd = 0x2e then Some (cmd_avsz4 g)
         else if cmd = 0x30 then cmd_rtpt op g
         else if cmd = 0x3d then Some (cmd_gpf op g)
         else if cmd = 0x3e then Some (cmd_gpl op g)
         else if cmd = 0x3f then Some (cmd_ncct op g)
         else None)"

definition gte_exec_op :: "u32 \<Rightarrow> gte \<Rightarrow> gte option" where
  "gte_exec_op op g = do {
     g \<leftarrow> gte_command op (set_flags 0 g);
     Some (set_flags (update_error_flag (flags_reg g)) g) }"

section \<open>Access from the CPU\<close>

definition sign_extend_half :: "u32 \<Rightarrow> u32" where "sign_extend_half v = scast (ucast v :: i16)"

definition gte_store_control :: "u32 \<Rightarrow> u32 \<Rightarrow> gte \<Rightarrow> gte option" where
  "gte_store_control offset val g =
     (if \<not> offset < 32 then None
      else if offset \<in> {4, 12, 20, 26, 27, 29, 30} then
        Some (set_control (unat offset) (sign_extend_half val) g)
      else if offset = 31 then Some (set_flags (update_error_flag (val AND 0x7ffff000)) g)
      else Some (set_control (unat offset) val g))"

definition gte_load_control :: "u32 \<Rightarrow> gte \<Rightarrow> (u32 \<times> gte) option" where
  "gte_load_control offset g =
     (if \<not> offset < 32 then None else Some (g_control g (unat offset), g))"

definition as_ir :: "u32 \<Rightarrow> u32" where
  "as_ir val = scast (ucast (push_bit 7 (val AND 0x1f)) :: i16)"

text \<open>\<open>leading_ones\<close> of a word is \<open>leading_zeros\<close> of its complement.\<close>

definition gte_store_data :: "u32 \<Rightarrow> u32 \<Rightarrow> gte \<Rightarrow> gte option" where
  "gte_store_data offset val g =
     (if \<not> offset < 32 then None
      else if offset \<in> {1, 3, 5, 8, 9, 10, 11} then
        Some (set_data (unat offset) (sign_extend_half val) g)
      else if offset = 15 then
        (let g = set_data 12 (g_data g 13) g;
             g = set_data 13 (g_data g 14) g;
             g = set_data 14 (g_data g 15) g
         in Some (set_data 15 val g))
      else if offset \<in> {7, 16, 17, 18, 19} then Some (set_data (unat offset) (val AND 0xffff) g)
      else if offset = 28 then
        (let g = set_data 28 (val AND 0x7fff) g;
             g = set_data 9 (as_ir val) g;
             g = set_data 10 (as_ir (drop_bit 5 val)) g
         in Some (set_data 11 (as_ir (drop_bit 10 val)) g))
      else if offset = 30 then
        (let g = set_data 30 val g
         in Some (set_data 31
              (word_of_nat (if bit_at val 31 then leading_zeros (NOT val) else leading_zeros val)) g))
      else Some (set_data (unat offset) val g))"

definition irgb_field :: "i16 \<Rightarrow> u32" where
  "irgb_field ir = word_of_int (max 0 (min 0x1f (drop_bit 7 (sint ir))))"

definition gte_load_data :: "u32 \<Rightarrow> gte \<Rightarrow> (u32 \<times> gte) option" where
  "gte_load_data offset g =
     (if \<not> offset < 32 then None
      else if offset = 15 then Some (g_data g 14, g)
      else if offset = 28 \<or> offset = 29 then
        Some (irgb_field (ir_reg 0 g) OR push_bit 5 (irgb_field (ir_reg 1 g))
              OR push_bit 10 (irgb_field (ir_reg 2 g)), g)
      else Some (g_data g (unat offset), g))"

end
