(* ===== verification/GteDivide.thy ===== *)
theory GteDivide
  imports Gte
begin

text \<open>
  The accuracy of \<open>nr_divide\<close>, the Newton-Raphson quotient of the perspective transform.
  The table gives a first guess \<open>f\<close> with \<open>d f\<close> within \<open>2^16\<close> of \<open>2^24\<close> for every normalised
  divisor \<open>d\<close>: the product is linear in \<open>d\<close>, so it is enough to evaluate the ends of each
  of the 257 intervals. One Newton step then squares the relative error, and the rest is
  the rounding of the two shifts.
\<close>

section \<open>The table\<close>

definition interval_lo :: "nat \<Rightarrow> int" where
  "interval_lo i = max 32768 (32768 + 128 * int i - 64)"

definition interval_hi :: "nat \<Rightarrow> int" where
  "interval_hi i = min 65535 (32768 + 128 * int i + 63)"

definition guess_ok :: "nat \<Rightarrow> bool" where
  "guess_ok i =
     (let f = factor_table ! i + 257
      in 0 < f \<and> f \<le> 512 \<and> 2 ^ 24 - 2 ^ 16 \<le> interval_lo i * f \<and> interval_hi i * f \<le> 2 ^ 24 + 2 ^ 16)"

lemma factor_table_length: "length factor_table = 257"
  by (simp add: factor_table_def)

lemma guess_ok_all: "list_all guess_ok [0..<257]"
  by code_simp

lemma guess_bounds:
  assumes "i < 257" "interval_lo i \<le> d" "d \<le> interval_hi i"
  shows "\<bar>d * (factor_table ! i + 257) - 2 ^ 24\<bar> \<le> 2 ^ 16" "0 < factor_table ! i + 257"
    "factor_table ! i + 257 \<le> 512"
proof -
  have ok: "guess_ok i" using guess_ok_all assms(1) by (auto simp: list_all_iff)
  define f where "f = factor_table ! i + 257"
  have f: "0 < f" "f \<le> 512" "2 ^ 24 - 2 ^ 16 \<le> interval_lo i * f" "interval_hi i * f \<le> 2 ^ 24 + 2 ^ 16"
    using ok by (auto simp: guess_ok_def Let_def f_def)
  have "interval_lo i * f \<le> d * f" "d * f \<le> interval_hi i * f"
    using assms(2,3) f(1) by (simp_all add: mult_right_mono)
  with f(3,4) show "\<bar>d * (factor_table ! i + 257) - 2 ^ 24\<bar> \<le> 2 ^ 16"
    by (simp add: abs_le_iff f_def)
  show "0 < factor_table ! i + 257" "factor_table ! i + 257 \<le> 512" using f by (simp_all add: f_def)
qed

section \<open>The Newton step\<close>

lemma drop_bit_remainder: "2 ^ n * drop_bit n a = a - a mod 2 ^ n" for a :: int
  by (simp add: drop_bit_eq_div minus_mod_eq_mult_div)

definition newton :: "int \<Rightarrow> int \<Rightarrow> int" where
  "newton d f = drop_bit 8 (f * (0x20000 + drop_bit 8 (d * (- f) + 0x80)) + 0x80)"

lemma newton_bound:
  fixes X T B C :: int
  assumes "X = - T + (B + 256 * C)" "0 \<le> T" "T \<le> 4294967296" "\<bar>B\<bar> \<le> 2155872256" "\<bar>C\<bar> \<le> 8388480"
  shows "\<bar>X\<bar> \<le> 65536 * 131200"
  using assms by linarith

lemma newton_close:
  assumes "\<bar>d * f - 2 ^ 24\<bar> \<le> 2 ^ 16" "0 \<le> d" "d \<le> 65535"
  shows "\<bar>newton d f * d - 2 ^ 32\<bar> \<le> 131200"
proof -
  define t where "t = d * f - 2 ^ 24"
  define tmp where "tmp = drop_bit 8 (d * (- f) + 0x80 :: int)"
  define rho where "rho = (d * (- f) + 0x80) mod 256"
  define sigma where "sigma = (f * (0x20000 + tmp) + 0x80) mod 256"
  have rho: "0 \<le> rho" "rho \<le> 255" and sigma: "0 \<le> sigma" "sigma \<le> 255"
    by (simp_all add: rho_def sigma_def)
  have tmp: "256 * tmp = 128 - d * f - rho"
    using drop_bit_remainder [of 8 "d * (- f) + 0x80"] by (simp add: tmp_def rho_def)
  have rec: "256 * newton d f = f * (0x20000 + tmp) + 128 - sigma"
    using drop_bit_remainder [of 8 "f * (0x20000 + tmp) + 0x80"]
    unfolding newton_def sigma_def tmp_def [symmetric] by simp
  have "65536 * (newton d f * d) = 256 * d * (f * (0x20000 + tmp) + 128 - sigma)"
    unfolding rec [symmetric] by simp
  also have "\<dots> = d * f * (2 ^ 25 + 256 * tmp) + 256 * d * (128 - sigma)"
    by (simp add: algebra_simps)
  also have "d * f = 2 ^ 24 + t" by (simp add: t_def)
  also have "2 ^ 25 + 256 * tmp = 2 ^ 24 - t + (128 - rho)" by (simp add: tmp t_def)
  also have "(2 ^ 24 + t) * (2 ^ 24 - t + (128 - rho)) = 2 ^ 48 - t * t + (2 ^ 24 + t) * (128 - rho)"
    by (simp add: algebra_simps)
  finally have "65536 * (newton d f * d) =
      2 ^ 48 - t * t + (2 ^ 24 + t) * (128 - rho) + 256 * d * (128 - sigma)" .
  then have eq: "65536 * (newton d f * d - 2 ^ 32) =
      - (t * t) + ((2 ^ 24 + t) * (128 - rho) + 256 * (d * (128 - sigma)))"
    by (simp only: right_diff_distrib [of "65536::int"] mult.assoc) simp
  have t: "\<bar>t\<bar> \<le> 2 ^ 16" using assms(1) by (simp add: t_def)
  have tt: "0 \<le> t * t" "t * t \<le> 2 ^ 32"
    using mult_mono [OF t t] by simp_all
  have a: "\<bar>(2 ^ 24 + t) * (128 - rho)\<bar> \<le> (2 ^ 24 + 2 ^ 16) * 128"
    unfolding abs_mult by (rule mult_mono) (use t rho in auto)
  have b: "\<bar>d * (128 - sigma)\<bar> \<le> 65535 * 128"
    unfolding abs_mult by (rule mult_mono) (use assms sigma in auto)
  have "\<bar>65536 * (newton d f * d - 2 ^ 32)\<bar> \<le> 65536 * 131200"
    by (rule newton_bound [OF eq]) (use tt a b in simp_all)
  then show ?thesis by (simp add: abs_mult)
qed

lemma normalised_divisor:
  fixes d :: u16
  assumes "2 ^ 15 \<le> unat d"
  shows "d OR 0x8000 = d" "unat (d AND 0x7fff) = unat d - 2 ^ 15"
proof -
  have lt: "unat d < 2 ^ 16" using unsigned_less [of d] by simp
  have "unat d div 2 ^ 15 = 1" using assms lt by (simp add: div_nat_eqI)
  then have "bit (unat d) 15" by (simp add: bit_iff_odd)
  then have "bit d 15" by (simp add: bit_unsigned_iff)
  moreover have "(0x8000 :: u16) = push_bit 15 1" by simp
  ultimately show "d OR 0x8000 = d"
    by (intro bit_word_eqI) (auto simp only: bit_or_iff bit_push_bit_iff bit_1_iff diff_is_0_eq dest: le_antisym)
  have "d AND 0x7fff = take_bit 15 d" by (simp add: take_bit_eq_mask mask_numeral)
  then have "unat (d AND 0x7fff) = unat d mod 2 ^ 15"
    by (simp only: unsigned_take_bit_eq take_bit_eq_mod [of 15 "unat d"])
  also have "\<dots> = unat d - 2 ^ 15"
    using assms lt by (simp add: mod_if le_mod_geq)
  finally show "unat (d AND 0x7fff) = unat d - 2 ^ 15" .
qed

lemma interval_of:
  assumes "2 ^ 15 \<le> D" "D < 2 ^ 16" "i = (D - 2 ^ 15 + 64) div 128"
  shows "i < 257" "interval_lo i \<le> int D" "int D \<le> interval_hi i"
proof -
  obtain e where e: "D = 32768 + e" "e < 32768"
    using assms(1,2) by (auto simp: le_iff_add)
  have i: "i = (e + 64) div 128" using assms(3) e by simp
  have "128 * i \<le> e + 64" "e + 64 < 128 * i + 128"
    using i by (simp_all add: dividend_less_times_div)
  then show "i < 257" "interval_lo i \<le> int D" "int D \<le> interval_hi i"
    using e by (simp_all add: interval_lo_def interval_hi_def)
qed

lemma nr_reciprocal_close:
  assumes "2 ^ 15 \<le> unat d"
  shows "\<exists>r. nr_reciprocal d = Some r \<and> \<bar>r * int (unat d) - 2 ^ 32\<bar> \<le> 131200"
proof -
  define i where "i = unat (drop_bit 7 ((d AND 0x7fff) + 0x40))"
  define f where "f = factor_table ! i + 257"
  have lt: "unat d < 2 ^ 16" using unsigned_less [of d] by simp
  have "unat ((d AND 0x7fff) + 0x40) = unat d - 2 ^ 15 + 64"
    using normalised_divisor [OF assms] lt by (subst unat_add_no_wrap) simp_all
  then have i: "i = (unat d - 2 ^ 15 + 64) div 128"
    by (simp add: i_def drop_bit_eq_div unat_div)
  note i257 = interval_of(1) [OF assms lt i] and d = interval_of(2,3) [OF assms lt i]
  have "nr_reciprocal d = Some (newton (uint d) f)"
    using i257
    by (simp only: nr_reciprocal_def newton_def factor_table_length f_def Let_def i_def [symmetric]
        normalised_divisor(1) [OF assms] if_True)
  then have "nr_reciprocal d = Some (newton (int (unat d)) f)" by simp
  moreover have "\<bar>newton (int (unat d)) f * int (unat d) - 2 ^ 32\<bar> \<le> 131200"
  proof (rule newton_close)
    show "\<bar>int (unat d) * f - 2 ^ 24\<bar> \<le> 2 ^ 16" unfolding f_def by (rule guess_bounds(1) [OF i257 d])
    have "unat d \<le> 65535" using lt by simp
    then show "int (unat d) \<le> 65535" by linarith
  qed simp
  ultimately show ?thesis by blast
qed

section \<open>The quotient\<close>

lemma quotient_close:
  fixes L d r :: int
  assumes r: "\<bar>r * d - 2 ^ 32\<bar> \<le> 131200" and L: "0 \<le> L" "L < 2 * d"
  defines "q \<equiv> min (drop_bit 16 (L * r + 0x8000)) 0x1ffff"
  shows "\<bar>q * d - L * 2 ^ 16\<bar> \<le> 5 * d" "0 \<le> q" "q \<le> 0x1ffff"
proof -
  define p where "p = drop_bit 16 (L * r + 0x8000)"
  define tau where "tau = (L * r + 0x8000) mod 65536"
  have d: "0 < d" using L by simp
  have tau: "0 \<le> tau" "tau < 65536" by (simp_all add: tau_def)
  have p: "65536 * p = L * r + 32768 - tau"
    using drop_bit_remainder [of 16 "L * r + 0x8000"] by (simp add: p_def tau_def)
  have eq: "65536 * (p * d - L * 2 ^ 16) = L * (r * d - 2 ^ 32) + d * (32768 - tau)"
  proof -
    have "65536 * (p * d) = d * (L * r + 32768 - tau)" by (simp flip: p)
    then show ?thesis by (simp add: algebra_simps)
  qed
  have a: "\<bar>L * (r * d - 2 ^ 32)\<bar> \<le> (2 * d) * 131200"
    unfolding abs_mult by (rule mult_mono) (use r L in auto)
  have b: "\<bar>d * (32768 - tau)\<bar> \<le> d * 32768"
    unfolding abs_mult by (rule mult_mono) (use d tau in auto)
  have "\<bar>65536 * (p * d - L * 2 ^ 16)\<bar> \<le> (2 * d) * 131200 + d * 32768"
    unfolding eq by (rule order_trans [OF abs_triangle_ineq add_mono [OF a b]])
  then have pd: "\<bar>p * d - L * 2 ^ 16\<bar> \<le> 5 * d" using d by (simp add: abs_mult)
  show "\<bar>q * d - L * 2 ^ 16\<bar> \<le> 5 * d"
  proof (cases "p \<le> 0x1ffff")
    case True
    then show ?thesis using pd by (simp add: q_def p_def min_def)
  next
    case False
    then have "q = 131071" by (simp add: q_def p_def min_def)
    moreover have "131072 * d \<le> p * d" using False d by (intro mult_right_mono) auto
    ultimately have "131072 * d \<le> p * d" "q * d = 131071 * d" by simp_all
    moreover have "L * 2 ^ 16 < 131072 * d" using L by simp
    moreover have "p * d - L * 2 ^ 16 \<le> 5 * d" using pd by simp
    ultimately show ?thesis by (simp only: abs_le_iff) (intro conjI; linarith)
  qed
  have "0 \<le> r"
  proof (rule ccontr)
    assume "\<not> 0 \<le> r"
    then have "r * d \<le> 0" using d by (simp add: mult_le_0_iff)
    then show False using r by simp
  qed
  then have "0 \<le> L * r" using L by simp
  then show "0 \<le> q" by (simp add: q_def drop_bit_eq_div min_def pos_imp_zdiv_nonneg_iff)
  show "q \<le> 0x1ffff" by (simp add: q_def)
qed

text \<open>C35: The quotient of the perspective transform is accurate. Whenever the projection
  plane distance is less than twice the depth (the test \<open>rtp\<close> makes before it divides),
  \<open>nr_divide\<close> never indexes outside its table, its result fits in 17 bits, and it differs
  from the exact quotient \<open>2^16 h / z\<close> by at most five units of the last place.\<close>

theorem nr_divide_accurate:
  fixes h z :: u16
  assumes "h div 2 < z"
  shows "\<exists>q. nr_divide h z = Some q \<and> unat q \<le> 0x1ffff \<and>
           \<bar>int (unat q) * int (unat z) - int (unat h) * 2 ^ 16\<bar> \<le> 5 * int (unat z)"
proof -
  define s where "s = leading_zeros z"
  define d :: u16 where "d = push_bit s z"
  have "unat h div 2 < unat z" using assms by (simp add: word_less_nat_alt unat_div)
  then have hz: "unat h < 2 * unat z" and z0: "z \<noteq> 0" by auto
  have hzi: "int (unat h) < 2 * int (unat z)" using hz by linarith
  have s: "s < 16" "2 ^ (15 - s) \<le> unat z" "unat z < 2 ^ (16 - s)"
    using leading_zeros_bounds [OF z0] by (simp_all add: s_def)
  have "unat z * 2 ^ s < 2 ^ (16 - s) * 2 ^ s" using s(3) by simp
  also have "\<dots> = 2 ^ 16" using s(1) by (simp flip: power_add)
  finally have "unat z * 2 ^ s < 2 ^ 16" .
  then have d: "unat d = unat z * 2 ^ s"
    unfolding d_def unsigned_push_bit_eq by (simp add: take_bit_eq_mod push_bit_eq_mult)
  have "(2::nat) ^ 15 = 2 ^ (15 - s) * 2 ^ s" using s(1) by (simp flip: power_add)
  also have "\<dots> \<le> unat d" using s(2) d by simp
  finally have "2 ^ 15 \<le> unat d" .
  then obtain r where r: "nr_reciprocal d = Some r" "\<bar>r * int (unat d) - 2 ^ 32\<bar> \<le> 131200"
    using nr_reciprocal_close by blast
  define L where "L = int (unat h) * 2 ^ s"
  have L: "0 \<le> L" "L < 2 * int (unat d)"
    using mult_strict_right_mono [OF hzi, of "2 ^ s"] by (simp_all add: L_def d)
  define q where "q = min (drop_bit 16 (L * r + 0x8000)) 0x1ffff"
  note q = quotient_close [OF r(2) L, folded q_def]
  have div_eq: "nr_divide h z = Some (word_of_int q)"
    unfolding nr_divide_def Let_def s_def [symmetric] mod_less [OF s(1)] d_def [symmetric] r(1)
    by (simp add: q_def L_def push_bit_eq_mult)
  have uq: "int (unat (word_of_int q :: u32)) = q"
    using q(2,3) by (simp add: unat_eq_nat_uint uint_word_of_int)
  have "q * int (unat d) - L * 2 ^ 16 = (q * int (unat z) - int (unat h) * 2 ^ 16) * 2 ^ s"
    by (simp add: d L_def left_diff_distrib)
  then have "\<bar>q * int (unat d) - L * 2 ^ 16\<bar> = \<bar>q * int (unat z) - int (unat h) * 2 ^ 16\<bar> * 2 ^ s"
    by (simp only: abs_mult) simp
  then have "\<bar>q * int (unat z) - int (unat h) * 2 ^ 16\<bar> * 2 ^ s \<le> 5 * int (unat z) * 2 ^ s"
    using q(1) by (simp add: d)
  then have "\<bar>q * int (unat z) - int (unat h) * 2 ^ 16\<bar> \<le> 5 * int (unat z)" by simp
  moreover have "unat (word_of_int q :: u32) \<le> 0x1ffff" using uq q(3) by linarith
  ultimately show ?thesis using div_eq uq by metis
qed

theorem nr_divide_accurate_witness:
  "(200 :: u16) div 2 < 250 \<and>
   (\<exists>q. nr_divide 200 250 = Some q \<and> unat q \<le> 0x1ffff \<and>
      \<bar>int (unat q) * int (unat (250 :: u16)) - int (unat (200 :: u16)) * 2 ^ 16\<bar> \<le> 5 * int (unat (250 :: u16)))"
proof -
  have "(200 :: u16) div 2 < 250" by simp
  then show ?thesis using nr_divide_accurate by blast
qed

end
