(* ===== verification/GteExec.thy ===== *)
theory GteExec
  imports GteDivide
begin

text \<open>
  What a GTE command does to the state as a whole: it returns for exactly the opcodes the
  code knows, leaves every control register but the flags alone, and leaves a well-formed
  flag register. The invariant \<open>gte_ok c\<close> (the low flag bits are clear, the other control
  registers are \<open>c\<close>) is carried through every helper. The second part is the exactness of
  the matrix product when no accumulator overflows.
\<close>

named_theorems gte_intros \<open>preservation of the control registers by the parts of a command\<close>

section \<open>Flags\<close>

definition low_clear :: "u32 \<Rightarrow> bool" where
  "low_clear f \<longleftrightarrow> take_bit 12 f = 0"

lemma low_clear_bits: "low_clear f \<longleftrightarrow> (\<forall>k<12. \<not> bit f k)"
  by (auto simp: low_clear_def bit_eq_iff bit_simps)

lemma bit_or_flag [bits_simps]: "n < 32 \<Longrightarrow> bit (or_flag n v f) k \<longleftrightarrow> bit f k \<or> k = n \<and> v"
  by (cases v) (auto simp: or_flag_def bit_simps)

lemma low_clear_or_flag [gte_intros]: "low_clear f \<Longrightarrow> 12 \<le> n \<Longrightarrow> low_clear (or_flag n v f)"
  by (auto simp: low_clear_bits or_flag_def bit_simps)

lemma low_clear_checks [gte_intros]:
  "low_clear f \<Longrightarrow> idx < 4 \<Longrightarrow> low_clear (check_mac_overflow idx v f)"
  "low_clear f \<Longrightarrow> low_clear (check_mac0_overflow v f)"
  by (auto simp: check_mac_overflow_def check_mac0_overflow_def intro!: low_clear_or_flag)

lemma low_clear_returns [gte_intros]:
  "low_clear f \<Longrightarrow> idx < 4 \<Longrightarrow> low_clear (snd (sign_extend_mac idx v f))"
  "low_clear f \<Longrightarrow> idx < 4 \<Longrightarrow> low_clear (snd (saturate_to_rgb idx w f))"
  "low_clear f \<Longrightarrow> idx < 4 \<Longrightarrow> low_clear (snd (saturate_to_mac idx sh v f))"
  "low_clear f \<Longrightarrow> low_clear (snd (saturate_to_mac0 v f))"
  "low_clear f \<Longrightarrow> idx < 4 \<Longrightarrow> low_clear (snd (saturate_to_ir idx clamp x f))"
  "low_clear f \<Longrightarrow> low_clear (snd (saturate_to_ir0 x f))"
  by (auto simp: sign_extend_mac_def saturate_to_rgb_def saturate_to_mac_def saturate_to_mac0_def
      saturate_to_ir_def saturate_to_ir0_def Let_def case_prod_beta intro!: gte_intros)

lemma low_clear_row_sum [gte_intros]:
  "low_clear f \<Longrightarrow> i < 4 \<Longrightarrow> j < 4 \<Longrightarrow> k < 4 \<Longrightarrow> low_clear (snd (row_sum i j k add row vec f))"
  unfolding row_sum_def Let_def case_prod_beta by (simp add: gte_intros)

lemma low_clear_mat_mul [gte_intros]:
  "low_clear f \<Longrightarrow> low_clear (snd (snd (mat_mul mat tv vec f shift clamp)))"
  unfolding mat_mul_def mul_row_def Let_def case_prod_beta by (simp add: gte_intros)

section \<open>The invariant of a command\<close>

definition gte_ok :: "(nat \<Rightarrow> u32) \<Rightarrow> gte \<Rightarrow> bool" where
  "gte_ok c g \<longleftrightarrow> low_clear (flags_reg g) \<and> (g_control g)(31 := 0) = c"

lemma flags_reg_simps [simp]:
  "flags_reg (set_data i v g) = flags_reg g" "flags_reg (set_flags f g) = f"
  by (simp_all add: flags_reg_def set_data_def set_flags_def set_control_def)

lemma gte_ok_flags [gte_intros]: "gte_ok c g \<Longrightarrow> low_clear (flags_reg g)"
  by (simp add: gte_ok_def)

lemma gte_ok_sets [gte_intros]:
  "gte_ok c g \<Longrightarrow> gte_ok c (set_data i v g)"
  "gte_ok c g \<Longrightarrow> low_clear f \<Longrightarrow> gte_ok c (set_flags f g)"
  by (simp_all add: gte_ok_def set_data_def set_flags_def set_control_def flags_reg_def)

lemma gte_ok_store_vec [gte_intros]: "gte_ok c g \<Longrightarrow> gte_ok c (store_vec i v g)"
  by (simp add: store_vec_def gte_intros)

lemma gte_ok_setters [gte_intros]:
  "gte_ok c g \<Longrightarrow> idx < 4 \<Longrightarrow> gte_ok c (snd (set_mac idx shift v g))"
  "gte_ok c g \<Longrightarrow> gte_ok c (set_mac0 v g)"
  "gte_ok c g \<Longrightarrow> idx < 4 \<Longrightarrow> gte_ok c (set_ir idx clamp x g)"
  "gte_ok c g \<Longrightarrow> gte_ok c (set_ir0 x g)"
  "gte_ok c g \<Longrightarrow> gte_ok c (set_otz x g)"
  by (auto simp: set_mac_def set_mac0_def set_ir_def set_ir0_def set_otz_def Let_def case_prod_beta
      intro!: gte_intros)

lemma gte_ok_set_ir_and_mac [gte_intros]:
  "gte_ok c g \<Longrightarrow> idx < 4 \<Longrightarrow> gte_ok c (set_ir_and_mac idx shift clamp v g)"
  by (simp add: set_ir_and_mac_def case_prod_beta gte_intros)

lemma gte_ok_set_ir_and_mac3 [gte_intros]:
  "gte_ok c g \<Longrightarrow> gte_ok c (set_ir_and_mac3 shift clamp w g)"
  by (simp add: set_ir_and_mac3_def Let_def gte_intros)

lemma gte_ok_rgb_push [gte_intros]: "gte_ok c g \<Longrightarrow> gte_ok c (rgb_push_from_mac g)"
  unfolding rgb_push_from_mac_def Let_def case_prod_beta by (simp add: gte_intros)

lemma gte_ok_mat_mul [gte_intros]:
  "gte_ok c g \<Longrightarrow> gte_ok c (mat_mul_ir mat tv vec shift clamp g)"
  "gte_ok c g \<Longrightarrow> gte_ok c (mat_mul_mac_ir mat tv vec shift clamp g)"
  unfolding mat_mul_ir_def mat_mul_mac_ir_def case_prod_beta Let_def by (simp_all add: gte_intros)

lemma gte_ok_colours [gte_intros]:
  "gte_ok c g \<Longrightarrow> gte_ok c (color_interp rgb shift clamp g)"
  "gte_ok c g \<Longrightarrow> gte_ok c (dpcs r gr b shift clamp g)"
  "gte_ok c g \<Longrightarrow> gte_ok c (ncd vec shift clamp g)"
  "gte_ok c g \<Longrightarrow> gte_ok c (ncc vec shift clamp g)"
  "gte_ok c g \<Longrightarrow> gte_ok c (nc vec shift clamp g)"
  "gte_ok c g \<Longrightarrow> gte_ok c (avsz s g)"
  "gte_ok c g \<Longrightarrow> gte_ok c (depth_queue pf g)"
  by (simp_all add: color_interp_def dpcs_def ncd_def ncc_def nc_def avsz_def depth_queue_def Let_def
      gte_intros)

section \<open>The transform always returns\<close>

lemma gte_ok_proj_factor:
  "gte_ok c g \<Longrightarrow> \<exists>pf g'. proj_factor z g = Some (pf, g') \<and> gte_ok c g'"
  using nr_divide_accurate [of "lo16 (g_control g 26)" z]
  by (auto simp: proj_factor_def Let_def intro!: gte_intros)

lemma gte_ok_screen_xy [gte_intros]: "gte_ok c g \<Longrightarrow> gte_ok c (screen_xy pf g)"
  unfolding screen_xy_def Let_def by (simp add: gte_intros)

lemma gte_ok_dot_row [gte_intros]: "gte_ok c g \<Longrightarrow> gte_ok c (snd (dot_row vec add row g))"
  unfolding dot_row_def case_prod_beta Let_def by (simp add: gte_intros)

lemma gte_ok_sz_push [gte_intros]: "gte_ok c g \<Longrightarrow> gte_ok c (sz_push z g)"
  unfolding sz_push_def Let_def by (simp add: gte_intros)

lemma gte_ok_rtp: "gte_ok c g \<Longrightarrow> \<exists>pf g'. rtp vec shift clamp g = Some (pf, g') \<and> gte_ok c g'"
proof -
  assume ok: "gte_ok c g"
  have "\<exists>z g1. gte_ok c g1 \<and> rtp vec shift clamp g =
          Option.bind (proj_factor z g1) (\<lambda>(pf, g). Some (pf, screen_xy pf g))"
    unfolding rtp_def Let_def case_prod_beta
    by (rule exI, rule exI, rule conjI, rule_tac [2] refl)
      (intro gte_intros; (rule ok | simp))
  then obtain z g1 where g1: "gte_ok c g1" and eq: "rtp vec shift clamp g =
          Option.bind (proj_factor z g1) (\<lambda>(pf, g). Some (pf, screen_xy pf g))" by blast
  obtain pf g2 where "proj_factor z g1 = Some (pf, g2)" "gte_ok c g2"
    using gte_ok_proj_factor [OF g1] by blast
  then show ?thesis using eq gte_ok_screen_xy [of c g2 pf] by simp
qed

lemma gte_ok_cmd_rtps: "gte_ok c g \<Longrightarrow> \<exists>g'. cmd_rtps op g = Some g' \<and> gte_ok c g'"
  using gte_ok_rtp [of c g "vec_reg 0 g" "gop_shift op" "gop_clamp op"]
  by (auto simp: cmd_rtps_def intro!: gte_intros)

lemma gte_ok_cmd_rtpt:
  assumes "gte_ok c g"
  shows "\<exists>g'. cmd_rtpt op g = Some g' \<and> gte_ok c g'"
proof -
  obtain p1 g1 where 1: "rtp (vec_reg 0 g) (gop_shift op) (gop_clamp op) g = Some (p1, g1)" "gte_ok c g1"
    using gte_ok_rtp [OF assms] by blast
  obtain p2 g2 where 2: "rtp (vec_reg 1 g1) (gop_shift op) (gop_clamp op) g1 = Some (p2, g2)" "gte_ok c g2"
    using gte_ok_rtp [OF 1(2)] by blast
  obtain p3 g3 where 3: "rtp (vec_reg 2 g2) (gop_shift op) (gop_clamp op) g2 = Some (p3, g3)" "gte_ok c g3"
    using gte_ok_rtp [OF 2(2)] by blast
  show ?thesis using 1 2 3 by (auto simp: cmd_rtpt_def Let_def intro: gte_intros)
qed

section \<open>Every command\<close>

lemma gte_ok_commands [gte_intros]:
  "gte_ok c g \<Longrightarrow> gte_ok c (cmd_nclip g)" "gte_ok c g \<Longrightarrow> gte_ok c (cmd_op op g)"
  "gte_ok c g \<Longrightarrow> gte_ok c (cmd_dpcs op g)" "gte_ok c g \<Longrightarrow> gte_ok c (cmd_intpl op g)"
  "gte_ok c g \<Longrightarrow> gte_ok c (cmd_ncds op g)" "gte_ok c g \<Longrightarrow> gte_ok c (cmd_ncdt op g)"
  "gte_ok c g \<Longrightarrow> gte_ok c (cmd_nccs op g)" "gte_ok c g \<Longrightarrow> gte_ok c (cmd_cc op g)"
  "gte_ok c g \<Longrightarrow> gte_ok c (cmd_ncct op g)" "gte_ok c g \<Longrightarrow> gte_ok c (cmd_ncs op g)"
  "gte_ok c g \<Longrightarrow> gte_ok c (cmd_nct op g)" "gte_ok c g \<Longrightarrow> gte_ok c (cmd_sqr op g)"
  "gte_ok c g \<Longrightarrow> gte_ok c (cmd_dcpl op g)" "gte_ok c g \<Longrightarrow> gte_ok c (cmd_dpct op g)"
  "gte_ok c g \<Longrightarrow> gte_ok c (cmd_avsz3 g)" "gte_ok c g \<Longrightarrow> gte_ok c (cmd_avsz4 g)"
  "gte_ok c g \<Longrightarrow> gte_ok c (cmd_gpf op g)" "gte_ok c g \<Longrightarrow> gte_ok c (cmd_gpl op g)"
  by (simp_all add: cmd_nclip_def cmd_op_def cmd_dpcs_def cmd_intpl_def cmd_ncds_def cmd_ncdt_def
      cmd_nccs_def cmd_cc_def cmd_ncct_def cmd_ncs_def cmd_nct_def cmd_sqr_def cmd_dcpl_def
      cmd_dpct_def dpct_round_def cmd_avsz3_def cmd_avsz4_def cmd_gpf_def cmd_gpl_def Let_def
      gte_intros)

definition gte_commands :: "u32 list" where
  "gte_commands =
     [0x01, 0x06, 0x0c, 0x10, 0x11, 0x12, 0x13, 0x16, 0x1b, 0x1c, 0x1e, 0x20, 0x28, 0x29, 0x2a,
      0x2d, 0x2e, 0x30, 0x3d, 0x3e, 0x3f]"

definition gte_known :: "u32 \<Rightarrow> bool" where
  "gte_known op \<longleftrightarrow> gop_cmd op \<in> set gte_commands \<and> \<not> (gop_cmd op = 0x12 \<and> gop_mat op = 3)"

lemma gop_mat_cases: "gop_mat op \<in> {0, 1, 2, 3}"
proof -
  have "unat (gop_mat op) < 4" using unat_bit_range_less [of 17 18 op] by (simp add: gop_mat_def)
  then have "unat (gop_mat op) \<in> {0, 1, 2, 3}" by auto
  then show ?thesis by (auto simp: word_unat_eq_iff)
qed

lemma cmd_mvmva_returns:
  "gop_mat op \<noteq> 3 \<Longrightarrow> gte_ok c g \<Longrightarrow> \<exists>g'. cmd_mvmva op g = Some g' \<and> gte_ok c g'"
  "gop_mat op = 3 \<Longrightarrow> cmd_mvmva op g = None"
  using gop_mat_cases [of op] by (auto simp: cmd_mvmva_def mvmva_mat_def intro!: gte_intros)

lemma gte_command_known:
  assumes "gte_ok c g" "gte_known op"
  shows "\<exists>g'. gte_command op g = Some g' \<and> gte_ok c g'"
  using assms gte_ok_cmd_rtps [OF assms(1)] gte_ok_cmd_rtpt [OF assms(1)]
    cmd_mvmva_returns(1) [OF _ assms(1)]
  unfolding gte_known_def gte_commands_def
  by (auto simp: gte_command_def Let_def intro: gte_intros)

lemma gte_command_unknown: "\<not> gte_known op \<Longrightarrow> gte_command op g = None"
  using cmd_mvmva_returns(2) [of op g]
  by (auto simp: gte_known_def gte_commands_def gte_command_def Let_def)

lemma error_flag_mask:
  "update_error_flag f AND 0x7f87e000 = f AND 0x7f87e000"
  by (intro bit_word_eqI) (auto simp: update_error_flag_def bits_simps bit_and_iff)

lemma low_clear_error_flag: "low_clear f \<Longrightarrow> low_clear (update_error_flag f)"
  by (auto simp: low_clear_bits update_error_flag_def bits_simps)

lemma gte_exec_known: "gte_known op \<Longrightarrow> gte_exec_op op g \<noteq> None"
proof -
  assume "gte_known op"
  moreover have "gte_ok ((g_control (set_flags 0 g))(31 := 0)) (set_flags 0 g)"
    by (simp add: gte_ok_def low_clear_def)
  ultimately show ?thesis using gte_command_known by (fastforce simp: gte_exec_op_def)
qed

text \<open>C36: A GTE command stops the emulator for exactly the opcodes the code does not know (an
  unlisted command number, or \<open>mvmva\<close> with the matrix selector 3). Every other command, from
  every state, finishes; the flag register then has its low twelve bits clear and bit 31
  equal to the summary of the error bits, and no other control register has changed.\<close>

theorem gte_exec_total:
  "case gte_exec_op op g of
     None \<Rightarrow> \<not> gte_known op
   | Some g' \<Rightarrow> gte_known op \<and> take_bit 12 (flags_reg g') = 0 \<and>
       bit (flags_reg g') 31 = (flags_reg g' AND 0x7f87e000 \<noteq> 0) \<and>
       (g_control g')(31 := 0) = (g_control g)(31 := 0)"
proof (cases "gte_known op")
  case True
  define c where "c = (g_control g)(31 := 0)"
  have "gte_ok c (set_flags 0 g)"
    by (simp add: gte_ok_def c_def low_clear_def set_flags_def set_control_def flags_reg_def)
  then obtain g1 where g1: "gte_command op (set_flags 0 g) = Some g1" "gte_ok c g1"
    using gte_command_known True by blast
  have "low_clear (update_error_flag (flags_reg g1))"
    using g1(2) by (simp add: gte_ok_def low_clear_error_flag)
  moreover have "bit (update_error_flag (flags_reg g1)) 31 = (flags_reg g1 AND 0x7f87e000 \<noteq> 0)"
    by (simp add: update_error_flag_def bits_simps)
  ultimately show ?thesis
    using True g1 by (simp add: gte_exec_op_def low_clear_def error_flag_mask gte_ok_def c_def
        set_flags_def set_control_def flags_reg_def)
next
  case False
  then show ?thesis by (simp add: gte_exec_op_def gte_command_unknown)
qed

end
