(* ===== verification/CpuGte.thy ===== *)
theory CpuGte
  imports GteExec CpuOps
begin

text \<open>
  The CPU with its geometry engine: the five entry points that \<open>Cpu\<close> calls on \<open>self.gte\<close>,
  instantiated with the model of \<open>cpu/gte.rs\<close>. The lemmas say which coprocessor 2
  instructions a guest can use to stop the emulator.
\<close>

definition gte_env :: "'d devices \<Rightarrow> ('d, gte) env" where
  "gte_env dev = \<lparr>e_dev = dev, gte_exec = gte_exec_op, gte_data_load = gte_load_data,
     gte_control_load = gte_load_control, gte_data_store = gte_store_data,
     gte_control_store = gte_store_control\<rparr>"

lemma gte_env_sel [simp]:
  "e_dev (gte_env dev) = dev" "gte_exec (gte_env dev) = gte_exec_op"
  "gte_data_load (gte_env dev) = gte_load_data" "gte_control_load (gte_env dev) = gte_load_control"
  "gte_data_store (gte_env dev) = gte_store_data" "gte_control_store (gte_env dev) = gte_store_control"
  by (simp_all add: gte_env_def)

lemma gte_register_access:
  "gte_load_data r g \<noteq> None \<longleftrightarrow> r < 32" "gte_load_control r g \<noteq> None \<longleftrightarrow> r < 32"
  "gte_store_data r v g \<noteq> None \<longleftrightarrow> r < 32" "gte_store_control r v g \<noteq> None \<longleftrightarrow> r < 32"
  by (simp_all add: gte_load_data_def gte_load_control_def gte_store_data_def gte_store_control_def Let_def)

lemma gte_command_returns: "gte_exec_op op g \<noteq> None \<longleftrightarrow> gte_known op"
  by (cases "gte_known op") (use gte_exec_known in \<open>auto simp: gte_exec_op_def gte_command_unknown\<close>)

lemma cop2_command_stops:
  assumes "bit_at (opc_cop_op op) 4"
  shows "op_cop2 (gte_env dev) op c = None \<longleftrightarrow> \<not> gte_known op"
  using assms gte_command_returns [of op "c_gte (fetch_load_slot c)"] by (auto simp: op_cop2_def Let_def bind_eq_None_conv)

end
