(* ===== verification/GteMatrix.thy ===== *)
theory GteMatrix
  imports Gte
begin

text \<open>
  The matrix product against its mathematical definition. The code computes a row in three
  steps, cutting the sum to 44 bits after each one; the reference is the sum of the exact
  products. The two agree whenever none of the six accumulator overflow flags is raised.
\<close>

definition row_dot :: "i32 \<Rightarrow> i16 vec3 \<Rightarrow> i16 vec3 \<Rightarrow> int" where
  "row_dot add row vec =
     sint add * 2 ^ 12 + sint (vx row) * sint (vx vec) + sint (vy row) * sint (vy vec)
       + sint (vz row) * sint (vz vec)"

definition ir_clamp :: "bool \<Rightarrow> int \<Rightarrow> int" where
  "ir_clamp clamp v = max (if clamp then 0 else - 32768) (min 32767 v)"

definition mac_clean :: "nat \<Rightarrow> u32 \<Rightarrow> bool" where
  "mac_clean i f \<longleftrightarrow> \<not> bit f (30 - i) \<and> \<not> bit f (27 - i)"

section \<open>One row\<close>

lemma bit_or_flag_iff [bits_simps]: "bit (or_flag n v f) k \<longleftrightarrow> bit f k \<or> k = n \<and> v \<and> n < 32"
  by (cases v) (auto simp: or_flag_def bit_simps)

lemma bit_check_mac [bits_simps]:
  "i < 3 \<Longrightarrow> bit (check_mac_overflow i v f) k \<longleftrightarrow>
     bit f k \<or> k = 30 - i \<and> v > 2 ^ 43 - 1 \<or> k = 27 - i \<and> v < - (2 ^ 43)"
  by (auto simp: check_mac_overflow_def bits_simps)

lemma mac_clean_check:
  "i < 3 \<Longrightarrow> mac_clean i (check_mac_overflow i v f) \<longleftrightarrow> mac_clean i f \<and> - (2 ^ 43) \<le> v \<and> v < 2 ^ 43"
  by (auto simp: mac_clean_def bits_simps)

lemma mac_clean_check_other:
  "i < 3 \<Longrightarrow> j < 3 \<Longrightarrow> i \<noteq> j \<Longrightarrow> mac_clean i (check_mac_overflow j v f) \<longleftrightarrow> mac_clean i f"
  by (auto simp: mac_clean_def bits_simps)

lemma mac_clean_ir:
  "i < 3 \<Longrightarrow> j < 3 \<Longrightarrow> mac_clean i (snd (saturate_to_ir j clamp v f)) \<longleftrightarrow> mac_clean i f"
  by (auto simp: mac_clean_def saturate_to_ir_def Let_def bits_simps case_prod_beta)

lemma sign_extend_id: "- (2 ^ 43) \<le> v \<Longrightarrow> v < 2 ^ 43 \<Longrightarrow> signed_take_bit 43 v = v" for v :: int
  by (rule signed_take_bit_int_eq_self)

lemma mul_row_clean:
  assumes "i < 3" "mul_row mat vec shift clamp add i f = (m, w, f')" "mac_clean i f'"
  shows "m = word_of_int (drop_bit shift (row_dot add (mat i) vec))"
    "w = word_of_int (ir_clamp clamp (sint m))" "mac_clean i f"
    "- (2 ^ 43) \<le> row_dot add (mat i) vec" "row_dot add (mat i) vec < 2 ^ 43"
proof -
  define a where "a = push_bit 12 (sint add) + sint (vx (mat i)) * sint (vx vec)"
  define b where "b = signed_take_bit 43 a + sint (vy (mat i)) * sint (vy vec)"
  define c where "c = signed_take_bit 43 b + sint (vz (mat i)) * sint (vz vec)"
  define g where "g = check_mac_overflow i c (check_mac_overflow i b (check_mac_overflow i a f))"
  have eqs: "m = word_of_int (drop_bit shift (signed_take_bit 43 c))"
    "w = fst (saturate_to_ir i clamp m (check_mac_overflow i (signed_take_bit 43 c) g))"
    "f' = snd (saturate_to_ir i clamp m (check_mac_overflow i (signed_take_bit 43 c) g))"
    using assms(2)
    by (auto simp: mul_row_def row_sum_def sign_extend_mac_def saturate_to_mac_def Let_def
        case_prod_beta a_def b_def c_def g_def)
  have "mac_clean i g" using assms(1,3) by (simp add: eqs(3) mac_clean_ir mac_clean_check)
  then have abc: "mac_clean i f" "- (2 ^ 43) \<le> a" "a < 2 ^ 43" "- (2 ^ 43) \<le> b" "b < 2 ^ 43"
    "- (2 ^ 43) \<le> c" "c < 2 ^ 43"
    using assms(1) by (simp_all add: g_def mac_clean_check)
  have dot: "c = row_dot add (mat i) vec"
    using abc by (simp add: c_def b_def a_def sign_extend_id row_dot_def push_bit_eq_mult)
  show "m = word_of_int (drop_bit shift (row_dot add (mat i) vec))"
    using eqs(1) abc dot by (simp add: sign_extend_id)
  show "w = word_of_int (ir_clamp clamp (sint m))"
    by (simp add: eqs(2) saturate_to_ir_def saturate_def ir_clamp_def ir_limits_def Let_def)
  show "mac_clean i f" "- (2 ^ 43) \<le> row_dot add (mat i) vec" "row_dot add (mat i) vec < 2 ^ 43"
    using abc dot by simp_all
qed

lemma mul_row_other:
  assumes "i < 3" "j < 3" "i \<noteq> j"
  shows "mac_clean i (snd (snd (mul_row mat vec shift clamp add j f))) \<longleftrightarrow> mac_clean i f"
  using assms
  by (simp add: mul_row_def row_sum_def sign_extend_mac_def saturate_to_mac_def Let_def
      case_prod_beta mac_clean_ir mac_clean_check_other)

section \<open>The product\<close>

lemma mat_mul_clean:
  assumes "mat_mul mat tv vec f shift clamp = (m, w, f')"
    "mac_clean 0 f'" "mac_clean 1 f'" "mac_clean 2 f'"
  shows "vx m = word_of_int (drop_bit shift (row_dot (vx tv) (mat 0) vec))"
    "vy m = word_of_int (drop_bit shift (row_dot (vy tv) (mat 1) vec))"
    "vz m = word_of_int (drop_bit shift (row_dot (vz tv) (mat 2) vec))"
    "vx w = word_of_int (ir_clamp clamp (sint (vx m)))"
    "vy w = word_of_int (ir_clamp clamp (sint (vy m)))"
    "vz w = word_of_int (ir_clamp clamp (sint (vz m)))"
proof -
  obtain m1 w1 f1 where 1: "mul_row mat vec shift clamp (vx tv) 0 f = (m1, w1, f1)" by (metis prod_cases3)
  obtain m2 w2 f2 where 2: "mul_row mat vec shift clamp (vy tv) 1 f1 = (m2, w2, f2)" by (metis prod_cases3)
  obtain m3 w3 f3 where 3: "mul_row mat vec shift clamp (vz tv) 2 f2 = (m3, w3, f3)" by (metis prod_cases3)
  have out: "m = Vec3 m1 m2 m3" "w = Vec3 w1 w2 w3" "f' = f3"
    using assms(1) 1 2 3 by (auto simp: mat_mul_def Let_def)
  have c1: "mac_clean 1 f2" using mul_row_other [of 1 2 mat vec shift clamp "vz tv" f2] assms(3) out 3 by simp
  have c0: "mac_clean 0 f1"
    using mul_row_other [of 0 2 mat vec shift clamp "vz tv" f2] mul_row_other [of 0 1 mat vec shift clamp "vy tv" f1]
      assms(2) out 3 2 by simp
  note r1 = mul_row_clean [OF _ 1 c0] and r2 = mul_row_clean [OF _ 2 c1]
    and r3 = mul_row_clean [OF _ 3 assms(4) [unfolded out]]
  show "vx m = word_of_int (drop_bit shift (row_dot (vx tv) (mat 0) vec))"
    "vx w = word_of_int (ir_clamp clamp (sint (vx m)))" using r1 out by simp_all
  show "vy m = word_of_int (drop_bit shift (row_dot (vy tv) (mat 1) vec))"
    "vy w = word_of_int (ir_clamp clamp (sint (vy m)))" using r2 out by simp_all
  show "vz m = word_of_int (drop_bit shift (row_dot (vz tv) (mat 2) vec))"
    "vz w = word_of_int (ir_clamp clamp (sint (vz m)))" using r3 out by simp_all
qed

lemma data_set_data: "g_data (set_data i v g) j = (if j = i then v else g_data g j)"
  by (simp add: set_data_def)

lemma control_sets: "g_control (set_data i v g) = g_control g"
  "k \<noteq> 31 \<Longrightarrow> g_control (set_flags f g) k = g_control g k" "g_data (set_flags f g) = g_data g"
  by (simp_all add: set_data_def set_flags_def set_control_def)

lemma flags_of_sets: "flags_reg (set_data i v g) = flags_reg g" "flags_reg (set_flags f g) = f"
  by (simp_all add: set_data_def set_flags_def set_control_def flags_reg_def)

lemma operands_of_clear:
  "mvmva_trans op (set_flags 0 g) = mvmva_trans op g" "mvmva_vec op (set_flags 0 g) = mvmva_vec op g"
  "mvmva_mat op (set_flags 0 g) = Some mat \<Longrightarrow> i < 3 \<Longrightarrow> \<exists>mat'. mvmva_mat op g = Some mat' \<and> mat i = mat' i"
  by (auto simp: mvmva_trans_def mvmva_vec_def mvmva_mat_def tr_reg_def bk_reg_def fc_reg_def vec32_at_def
      vec_reg_def ir_vec_def ir_reg_def rt_reg_def llm_reg_def lcm_reg_def mat_reg_def vec16_at_def
      half_at_def control_sets split: if_splits)

text \<open>The reference: the sum of row \<open>i\<close> shifted into the accumulator, and the value clamped
  into the vector register.\<close>

definition ref_mac :: "u32 \<Rightarrow> i32 \<Rightarrow> i16 vec3 \<Rightarrow> i16 vec3 \<Rightarrow> i32" where
  "ref_mac op add row vec = word_of_int (drop_bit (gop_shift op) (row_dot add row vec))"

definition ref_ir :: "u32 \<Rightarrow> i32 \<Rightarrow> i16 vec3 \<Rightarrow> i16 vec3 \<Rightarrow> u32" where
  "ref_ir op add row vec = word_of_int (ir_clamp (gop_clamp op) (sint (ref_mac op add row vec)))"

lemma mac_clean_of_range:
  "bit_range f 25 30 = 0 \<Longrightarrow> i < 3 \<Longrightarrow> mac_clean i f" for f :: u32
proof -
  assume 0: "bit_range f 25 30 = 0" and i: "i < 3"
  have no: "\<not> bit f (25 + k)" if "k < 6" for k
    using arg_cong [OF 0, of "\<lambda>w. bit w k"] that by (simp add: bits_simps)
  from i have "i = 0 \<or> i = 1 \<or> i = 2" by auto
  then show ?thesis using no [of 0] no [of 1] no [of 2] no [of 3] no [of 4] no [of 5]
    by (auto simp: mac_clean_def)
qed

lemma mac_clean_error_flag: "i < 3 \<Longrightarrow> mac_clean i (update_error_flag f) \<longleftrightarrow> mac_clean i f"
  by (auto simp: mac_clean_def update_error_flag_def bits_simps)

text \<open>C37: The matrix product is exact. When \<open>mvmva\<close> (with one of the three matrices) leaves the six
  accumulator overflow flags clear, the 44-bit arithmetic lost nothing: every accumulator is
  the exact sum \<open>tr * 2^12 + row * vec\<close> shifted by the opcode's amount, every vector
  register is that accumulator clamped to 16 bits, and no other data register changes.\<close>

theorem mvmva_exact:
  assumes "gop_cmd op = 0x12" "mvmva_mat op g = Some mat" "gte_exec_op op g = Some g'"
    "bit_range (flags_reg g') 25 30 = 0"
  shows "let t = mvmva_trans op g; v = mvmva_vec op g in
    g_data g' = (g_data g)
      (25 := ref_mac op (vx t) (mat 0) v, 26 := ref_mac op (vy t) (mat 1) v, 27 := ref_mac op (vz t) (mat 2) v,
       9 := ref_ir op (vx t) (mat 0) v, 10 := ref_ir op (vy t) (mat 1) v, 11 := ref_ir op (vz t) (mat 2) v)"
proof -
  let ?t = "mvmva_trans op g" and ?v = "mvmva_vec op g"
  obtain mat' where mat': "mvmva_mat op (set_flags 0 g) = Some mat'"
    using assms(2) by (auto simp: mvmva_mat_def split: if_splits)
  obtain m w f where mw: "mat_mul mat' ?t ?v 0 (gop_shift op) (gop_clamp op) = (m, w, f)"
    by (metis prod_cases3)
  have g': "g' = set_flags (update_error_flag f)
      (store_vec 9 w (store_vec 25 m (set_flags f (set_flags 0 g))))"
    using assms(1,3) mat' mw
    by (auto simp: gte_exec_op_def gte_command_def cmd_mvmva_def mat_mul_mac_ir_def operands_of_clear
        flags_of_sets store_vec_def)
  have "mac_clean i f" if "i < 3" for i
    using mac_clean_of_range [OF assms(4) that] that by (simp add: g' flags_of_sets mac_clean_error_flag)
  note out = mat_mul_clean [OF mw this this this, simplified]
  have rows: "mat' i = mat i" if "i < 3" for i
    using operands_of_clear(3) [OF mat' that] assms(2) by auto
  show ?thesis
    using out by (simp add: g' Let_def control_sets store_vec_def data_set_data fun_eq_iff
        rows ref_mac_def ref_ir_def)
qed

text \<open>The rotation matrix \<open>diag(0.5, 1, -1)\<close> (4.12 fixed point) applied to \<open>(100, 200, 300)\<close>.\<close>

definition mvmva_op :: u32 where "mvmva_op = 0x00080012"

definition mvmva_state :: gte where
  "mvmva_state = \<lparr>g_data = (\<lambda>_. 0)(0 := 0x00c80064, 1 := 300),
     g_control = (\<lambda>_. 0)(0 := 0x00000800, 2 := 0x00001000, 4 := 0xf000, 5 := 7)\<rparr>"

theorem mvmva_exact_witness:
  "\<exists>g'. gte_exec_op mvmva_op mvmva_state = Some g' \<and> bit_range (flags_reg g') 25 30 = 0 \<and>
     mac_reg 0 g' = 57 \<and> mac_reg 1 g' = 200 \<and> mac_reg 2 g' = - 300 \<and>
     (let t = mvmva_trans mvmva_op mvmva_state; v = mvmva_vec mvmva_op mvmva_state; mat = rt_reg mvmva_state in
    g_data g' = (g_data mvmva_state)
      (25 := ref_mac mvmva_op (vx t) (mat 0) v, 26 := ref_mac mvmva_op (vy t) (mat 1) v,
       27 := ref_mac mvmva_op (vz t) (mat 2) v,
       9 := ref_ir mvmva_op (vx t) (mat 0) v, 10 := ref_ir mvmva_op (vy t) (mat 1) v,
       11 := ref_ir mvmva_op (vz t) (mat 2) v))"
proof -
  define g' where "g' = the (gte_exec_op mvmva_op mvmva_state)"
  have run: "gte_exec_op mvmva_op mvmva_state = Some g'"
  proof -
    have "\<not> Option.is_none (gte_exec_op mvmva_op mvmva_state)" by code_simp
    then show ?thesis by (simp add: g'_def Option.is_none_def)
  qed
  have fl: "bit_range (flags_reg g') 25 30 = 0" unfolding g'_def by code_simp
  have macs: "mac_reg 0 g' = 57" "mac_reg 1 g' = 200" "mac_reg 2 g' = - 300"
    unfolding g'_def by code_simp+
  have cmd: "gop_cmd mvmva_op = 0x12" by code_simp
  have mat: "mvmva_mat mvmva_op mvmva_state = Some (rt_reg mvmva_state)"
  proof -
    have "gop_mat mvmva_op = 0" by code_simp
    then show ?thesis by (simp add: mvmva_mat_def)
  qed
  show ?thesis
    by (intro exI [of _ g'] conjI) (rule run fl macs
       | use mvmva_exact [OF cmd mat run fl] in \<open>simp only: Let_def\<close>)+
qed

end
