(* ===== verification/Asm.thy ===== *)
theory Asm
  imports Opcode
begin

text \<open>
  \<open>crates/splst_asm/src\<close>: the instructions of \<open>ins.rs\<close> and the code generator of \<open>gen.rs\<close>.
  The text and data sections are lists of instructions; the generator first walks over
  them to place the labels and then emits little-endian code. A Rust string is the list
  of its bytes.
\<close>

section \<open>Results\<close>

text \<open>Rust's \<open>?\<close> on a \<open>Result\<close>: stop at the first error.\<close>

definition and_then :: "'e + 'a \<Rightarrow> ('a \<Rightarrow> 'e + 'b) \<Rightarrow> 'e + 'b" where
  "and_then r f = (case r of Inl e \<Rightarrow> Inl e | Inr x \<Rightarrow> f x)"

lemma and_then_simps [simp]: "and_then (Inl e) f = Inl e" "and_then (Inr x) f = f x"
  by (simp_all add: and_then_def)

lemma and_then_Inr: "and_then r f = Inr y \<longleftrightarrow> (\<exists>x. r = Inr x \<and> f x = Inr y)"
  by (cases r) auto

text \<open>\<open>to_le_bytes\<close>.\<close>

definition le_bytes :: "nat \<Rightarrow> 'a::len word \<Rightarrow> u8 list" where
  "le_bytes n w = map (\<lambda>i. ucast (drop_bit (8 * i) w)) [0..<n]"

section \<open>Instructions\<close>

datatype addr = LabelRef string | Abs u32

text \<open>
  The constructors of \<open>InsTy\<close> that have the same arguments and differ in the operation code
  only are one constructor here, with the operation as its first argument:
  \<open>InsTy::Addu(rd, rs, rt)\<close> is \<open>Alu Addu rd rs rt\<close>. The functions \<open>*_code\<close> are the numbers
  that \<open>assemble_ins\<close> passes to the builder for each of them.
\<close>

datatype shift_op = Sll | Srl | Sra
datatype shiftv_op = Sllv | Srlv | Srav
datatype alu_op = Add | Addu | Sub | Subu | And | Or | Xor | Nor | Slt | Sltu
datatype muldiv_op = Mult | Multu | Div | Divu
datatype hi_lo_op = Mfhi | Mthi | Mflo | Mtlo
datatype branch_op = Bgez | Bltz | Bgezal | Bltzal | Blez | Bgtz
datatype branch2_op = Beq | Bne
datatype jump_op = J | Jal
datatype imm_op = Addi | Addiu | Slti | Sltiu | Andi | Ori | Xori
datatype mem_op = Lb | Lh | Lwl | Lw | Lbu | Lhu | Lwr | Sb | Sh | Swl | Sw | Swr
datatype cop_op = Mfc0 | Mtc0 | Mfc2 | Mtc2

datatype ins_ty =
    Shift shift_op register register u32
  | ShiftV shiftv_op register register register
  | Alu alu_op register register register
  | MulDiv muldiv_op register register
  | HiLo hi_lo_op register
  | Jr register
  | Jalr register register
  | Syscall u32
  | Break u32
  | Branch branch_op register addr
  | Branch2 branch2_op register register addr
  | Jump jump_op addr
  | AluImm imm_op register register u32
  | Lui register u32
  | Mem mem_op register register u32
  | Cop cop_op register u32
  | Label string
  | Word u32
  | HalfWord u16
  | Byte u8
  | Ascii string
  | Nop
  | Move register register
  | Li register u32
  | La register addr
  | B addr
  | Beqz register addr
  | Bnez register addr

fun shift_code :: "shift_op \<Rightarrow> u32" where
  "shift_code Sll = 0x0" | "shift_code Srl = 0x2" | "shift_code Sra = 0x3"

fun shiftv_code :: "shiftv_op \<Rightarrow> u32" where
  "shiftv_code Sllv = 0x4" | "shiftv_code Srlv = 0x6" | "shiftv_code Srav = 0x7"

fun alu_code :: "alu_op \<Rightarrow> u32" where
  "alu_code Add = 0x20" | "alu_code Addu = 0x21" | "alu_code Sub = 0x22" | "alu_code Subu = 0x23"
| "alu_code And = 0x24" | "alu_code Or = 0x25" | "alu_code Xor = 0x26" | "alu_code Nor = 0x27"
| "alu_code Slt = 0x2a" | "alu_code Sltu = 0x2b"

fun muldiv_code :: "muldiv_op \<Rightarrow> u32" where
  "muldiv_code Mult = 0x18" | "muldiv_code Multu = 0x19" | "muldiv_code Div = 0x1a" | "muldiv_code Divu = 0x1b"

fun imm_code :: "imm_op \<Rightarrow> u32" where
  "imm_code Addi = 0x8" | "imm_code Addiu = 0x9" | "imm_code Slti = 0xa" | "imm_code Sltiu = 0xb"
| "imm_code Andi = 0xc" | "imm_code Ori = 0xd" | "imm_code Xori = 0xe"

fun mem_code :: "mem_op \<Rightarrow> u32" where
  "mem_code Lb = 0x20" | "mem_code Lh = 0x21" | "mem_code Lwl = 0x22" | "mem_code Lw = 0x23"
| "mem_code Lbu = 0x24" | "mem_code Lhu = 0x25" | "mem_code Lwr = 0x26"
| "mem_code Sb = 0x28" | "mem_code Sh = 0x29" | "mem_code Swl = 0x2a" | "mem_code Sw = 0x2b" | "mem_code Swr = 0x2e"

fun branch2_code :: "branch2_op \<Rightarrow> u32" where
  "branch2_code Beq = 0x4" | "branch2_code Bne = 0x5"

fun jump_code :: "jump_op \<Rightarrow> u32" where
  "jump_code J = 0x2" | "jump_code Jal = 0x3"

fun ins_size :: "ins_ty \<Rightarrow> u32" where
  "ins_size (Label l) = 0"
| "ins_size (La r a) = 8"
| "ins_size (Li r v) =
     (if v AND 0xffff0000 \<noteq> 0 then 4 else 0) + (if v AND 0xffff \<noteq> 0 \<or> v = 0 then 4 else 0)"
| "ins_size i = 4"

record ins =
  i_ty :: ins_ty
  i_line :: nat

datatype asm_error = AsmError nat string

definition quoted :: "string \<Rightarrow> string" where
  "quoted s = CHR 0x27 # s @ [CHR 0x27]"

section \<open>The builder\<close>

definition ins_op :: "u32 \<Rightarrow> u32" where "ins_op v = set_bit_range 0 26 31 v"
definition ins_special :: "u32 \<Rightarrow> u32" where "ins_special v = set_bit_range 0 0 5 v"
definition ins_cop_op :: "u32 \<Rightarrow> u32 \<Rightarrow> u32" where "ins_cop_op v w = set_bit_range w 21 25 v"
definition ins_cop_reg :: "u32 \<Rightarrow> u32 \<Rightarrow> u32" where "ins_cop_reg v w = set_bit_range w 11 15 v"
definition ins_imm :: "u32 \<Rightarrow> u32 \<Rightarrow> u32" where "ins_imm v w = set_bit_range w 0 15 v"
definition ins_target :: "u32 \<Rightarrow> u32 \<Rightarrow> u32" where "ins_target v w = set_bit_range w 0 25 v"
definition ins_shift :: "u32 \<Rightarrow> u32 \<Rightarrow> u32" where "ins_shift v w = set_bit_range w 6 10 v"
definition ins_rd :: "register \<Rightarrow> u32 \<Rightarrow> u32" where "ins_rd r w = set_bit_range w 11 15 (word_of_nat r)"
definition ins_rt :: "register \<Rightarrow> u32 \<Rightarrow> u32" where "ins_rt r w = set_bit_range w 16 20 (word_of_nat r)"
definition ins_rs :: "register \<Rightarrow> u32 \<Rightarrow> u32" where "ins_rs r w = set_bit_range w 21 25 (word_of_nat r)"
definition ins_bgez :: "bool \<Rightarrow> u32 \<Rightarrow> u32" where "ins_bgez v w = set_bit_at w 16 v"
definition ins_link :: "bool \<Rightarrow> u32 \<Rightarrow> u32" where "ins_link v w = set_bit_at w 20 v"
definition ins_sys :: "u32 \<Rightarrow> u32 \<Rightarrow> u32" where "ins_sys v w = set_bit_range w 6 26 v"

section \<open>The code generator\<close>

record code_gen =
  code :: "u8 list"
  labels :: "string \<Rightarrow> u32 option"

definition code_gen_new :: code_gen where
  "code_gen_new = \<lparr>code = [], labels = (\<lambda>_. None)\<rparr>"

definition resolve_labels :: "nat \<Rightarrow> addr \<Rightarrow> code_gen \<Rightarrow> asm_error + u32" where
  "resolve_labels line adr cg =
     (case adr of
        LabelRef i \<Rightarrow>
          (case labels cg i of
             Some a \<Rightarrow> Inr a
           | None \<Rightarrow> Inl (AsmError line (''Unresolved symbol '' @ quoted i)))
      | Abs a \<Rightarrow> Inr a)"

definition branch_offset :: "nat \<Rightarrow> addr \<Rightarrow> code_gen \<Rightarrow> asm_error + i32" where
  "branch_offset line adr cg =
     (let loc = word_of_nat (length (code cg)) + 4
      in and_then (resolve_labels line adr cg) (\<lambda>dest. Inr (signed_drop_bit 2 (dest - loc))))"

definition jump_addr :: "nat \<Rightarrow> addr \<Rightarrow> code_gen \<Rightarrow> asm_error + u32" where
  "jump_addr line adr cg = and_then (resolve_labels line adr cg) (\<lambda>a. Inr (drop_bit 2 a))"

definition gen_bytes :: "u8 list \<Rightarrow> code_gen \<Rightarrow> code_gen" where
  "gen_bytes bs cg = cg\<lparr>code := code cg @ bs\<rparr>"

definition gen_word :: "u32 \<Rightarrow> code_gen \<Rightarrow> code_gen" where
  "gen_word w cg = gen_bytes (le_bytes 4 w) cg"

fun branch_word :: "branch_op \<Rightarrow> register \<Rightarrow> u32 \<Rightarrow> u32" where
  "branch_word Bgez rs off = ins_imm off (ins_rs rs (ins_bgez True (ins_link False (ins_op 0x1))))"
| "branch_word Bltz rs off = ins_imm off (ins_rs rs (ins_bgez False (ins_link False (ins_op 0x1))))"
| "branch_word Bgezal rs off = ins_imm off (ins_rs rs (ins_bgez True (ins_link True (ins_op 0x1))))"
| "branch_word Bltzal rs off = ins_imm off (ins_rs rs (ins_bgez False (ins_link True (ins_op 0x1))))"
| "branch_word Blez rs off = ins_imm off (ins_rs rs (ins_op 0x6))"
| "branch_word Bgtz rs off = ins_imm off (ins_rs rs (ins_op 0x7))"

fun hi_lo_word :: "hi_lo_op \<Rightarrow> register \<Rightarrow> u32" where
  "hi_lo_word Mfhi r = ins_rd r (ins_special 0x10)"
| "hi_lo_word Mthi r = ins_rs r (ins_special 0x11)"
| "hi_lo_word Mflo r = ins_rd r (ins_special 0x12)"
| "hi_lo_word Mtlo r = ins_rs r (ins_special 0x13)"

fun cop_word :: "cop_op \<Rightarrow> register \<Rightarrow> u32 \<Rightarrow> u32" where
  "cop_word Mfc0 rt reg = ins_cop_reg reg (ins_rt rt (ins_cop_op 0x0 (ins_op 0x10)))"
| "cop_word Mtc0 rt reg = ins_cop_reg reg (ins_rt rt (ins_cop_op 0x4 (ins_op 0x10)))"
| "cop_word Mfc2 rt reg = ins_cop_reg reg (ins_rt rt (ins_cop_op 0x0 (ins_op 0x12)))"
| "cop_word Mtc2 rt reg = ins_cop_reg reg (ins_rt rt (ins_cop_op 0x4 (ins_op 0x12)))"

text \<open>\<open>assemble_ins\<close>, one clause per group of match arms.\<close>

fun assemble_ty :: "nat \<Rightarrow> ins_ty \<Rightarrow> code_gen \<Rightarrow> asm_error + code_gen" where
  "assemble_ty line (Shift f rd rt sh) cg =
     Inr (gen_word (ins_shift sh (ins_rt rt (ins_rd rd (ins_special (shift_code f))))) cg)"
| "assemble_ty line (ShiftV f rd rt rs) cg =
     Inr (gen_word (ins_rs rs (ins_rt rt (ins_rd rd (ins_special (shiftv_code f))))) cg)"
| "assemble_ty line (Alu f rd rs rt) cg =
     Inr (gen_word (ins_rt rt (ins_rs rs (ins_rd rd (ins_special (alu_code f))))) cg)"
| "assemble_ty line (MulDiv f rs rt) cg =
     Inr (gen_word (ins_rt rt (ins_rs rs (ins_special (muldiv_code f)))) cg)"
| "assemble_ty line (HiLo f r) cg = Inr (gen_word (hi_lo_word f r) cg)"
| "assemble_ty line (Jr rs) cg = Inr (gen_word (ins_rs rs (ins_special 0x8)) cg)"
| "assemble_ty line (Jalr rd rs) cg = Inr (gen_word (ins_rs rs (ins_rd rd (ins_special 0x9))) cg)"
| "assemble_ty line (Syscall v) cg = Inr (gen_word (ins_sys v (ins_special 0xc)) cg)"
| "assemble_ty line (Break v) cg = Inr (gen_word (ins_sys v (ins_special 0xd)) cg)"
| "assemble_ty line (Branch f rs adr) cg =
     and_then (branch_offset line adr cg) (\<lambda>off. Inr (gen_word (branch_word f rs off) cg))"
| "assemble_ty line (Branch2 f rs rt adr) cg =
     and_then (branch_offset line adr cg) (\<lambda>off.
       Inr (gen_word (ins_imm off (ins_rt rt (ins_rs rs (ins_op (branch2_code f))))) cg))"
| "assemble_ty line (Jump f adr) cg =
     and_then (jump_addr line adr cg) (\<lambda>ja. Inr (gen_word (ins_target ja (ins_op (jump_code f))) cg))"
| "assemble_ty line (AluImm f rt rs v) cg =
     Inr (gen_word (ins_imm v (ins_rs rs (ins_rt rt (ins_op (imm_code f))))) cg)"
| "assemble_ty line (Lui rt v) cg = Inr (gen_word (ins_imm v (ins_rt rt (ins_op 0xf))) cg)"
| "assemble_ty line (Mem f rt rs v) cg =
     Inr (gen_word (ins_imm v (ins_rs rs (ins_rt rt (ins_op (mem_code f))))) cg)"
| "assemble_ty line (Cop f rt reg) cg = Inr (gen_word (cop_word f rt reg) cg)"
| "assemble_ty line (Word v) cg = Inr (gen_bytes (le_bytes 4 v) cg)"
| "assemble_ty line (HalfWord v) cg = Inr (gen_bytes (le_bytes 2 v) cg)"
| "assemble_ty line (Byte v) cg = Inr (gen_bytes (le_bytes 1 v) cg)"
| "assemble_ty line (Ascii s) cg = Inr (gen_bytes (map of_char s) cg)"
| "assemble_ty line Nop cg = Inr (gen_word (ins_shift 0 (ins_rt ZERO (ins_rd ZERO (ins_special 0x0)))) cg)"
| "assemble_ty line (Move rd rs) cg = Inr (gen_word (ins_rt ZERO (ins_rs rs (ins_rd rd (ins_special 0x21)))) cg)"
| "assemble_ty line (Li reg v) cg =
     (let hi = bit_range v 16 31; lo = bit_range v 0 15
      in Inr (if hi \<noteq> 0
              then let cg = gen_word (ins_imm hi (ins_rt reg (ins_op 0xf))) cg
                   in if lo \<noteq> 0 then gen_word (ins_imm lo (ins_rs reg (ins_rt reg (ins_op 0xd)))) cg else cg
              else gen_word (ins_imm lo (ins_rs ZERO (ins_rt reg (ins_op 0xd)))) cg))"
| "assemble_ty line (La reg adr) cg = and_then (resolve_labels line adr cg) (\<lambda>v.
     let hi = bit_range v 16 31; lo = bit_range v 0 15;
         cg = gen_word (ins_imm hi (ins_rt reg (ins_op 0xf))) cg
     in Inr (gen_word (ins_imm lo (ins_rt reg (ins_rs reg (ins_op 0xd)))) cg))"
| "assemble_ty line (B adr) cg = and_then (branch_offset line adr cg) (\<lambda>off.
     Inr (gen_word (ins_imm off (ins_rt ZERO (ins_rs ZERO (ins_op 0x4)))) cg))"
| "assemble_ty line (Beqz reg adr) cg = and_then (branch_offset line adr cg) (\<lambda>off.
     Inr (gen_word (ins_imm off (ins_rt ZERO (ins_rs reg (ins_op 0x4)))) cg))"
| "assemble_ty line (Bnez reg adr) cg = and_then (branch_offset line adr cg) (\<lambda>off.
     Inr (gen_word (ins_imm off (ins_rt ZERO (ins_rs reg (ins_op 0x5)))) cg))"
| "assemble_ty line (Label i) cg = Inr cg"

definition assemble_one :: "ins \<Rightarrow> code_gen \<Rightarrow> asm_error + code_gen" where
  "assemble_one i cg = assemble_ty (i_line i) (i_ty i) cg"

fun place_labels :: "ins list \<Rightarrow> u32 \<Rightarrow> code_gen \<Rightarrow> asm_error + code_gen" where
  "place_labels [] adr cg = Inr cg"
| "place_labels (i # is) adr cg =
     (case i_ty i of
        Label l \<Rightarrow>
          if labels cg l \<noteq> None
          then Inl (AsmError (i_line i) (''Address '' @ quoted l @ '' redeclared''))
          else place_labels is adr (cg\<lparr>labels := (labels cg)(l \<mapsto> adr)\<rparr>)
      | ty \<Rightarrow> place_labels is (adr + ins_size ty) cg)"

fun assemble_all :: "ins list \<Rightarrow> code_gen \<Rightarrow> asm_error + code_gen" where
  "assemble_all [] cg = Inr cg"
| "assemble_all (i # is) cg = and_then (assemble_one i cg) (assemble_all is)"

definition gen_ins :: "ins list \<Rightarrow> ins list \<Rightarrow> u32 \<Rightarrow> asm_error + (u8 list \<times> u32)" where
  "gen_ins txt dat base =
     and_then (place_labels (txt @ dat) base code_gen_new) (\<lambda>cg.
     and_then (assemble_all (txt @ dat) cg) (\<lambda>cg.
       case labels cg ''main'' of
         Some main \<Rightarrow> Inr (code cg, main)
       | None \<Rightarrow> Inl (AsmError 0 (''No Address '' @ quoted ''main''))))"

definition assemble_list :: "u32 \<Rightarrow> ins_ty list \<Rightarrow> asm_error + (u8 list \<times> u32)" where
  "assemble_list base tys =
     gen_ins (map (\<lambda>(line, ty). \<lparr>i_ty = ty, i_line = line\<rparr>) (enumerate 0 tys)) [] base"

end
