(* ===== verification/Exe.thy ===== *)
theory Exe
  imports Asm CpuOps
begin

text \<open>
  \<open>crates/splst_util/src/exe.rs\<close>, \<open>patch_for_exe\<close> of \<open>bus/bios.rs\<close> and \<open>System::load_exe\<close> of
  \<open>crates/splst_core/src/lib.rs\<close>: parsing an executable, assembling the stub that replaces
  the shell in the BIOS, and copying the segments to memory. Reading the file is outside
  the model: \<open>exe_parse\<close> starts with its bytes.
\<close>

record exe =
  x_text :: "u8 list"
  x_pc :: u32
  x_gp :: u32
  x_text_size :: u32
  x_text_base :: u32
  x_bss_size :: u32
  x_bss_base :: u32
  x_sp :: "u32 option"

text \<open>The reasons of \<open>ExeError::InvalidHeader\<close>; the code gives each a message.\<close>

datatype exe_error = TooShort nat | BadMagic | TextOutsideRam | BssOutsideRam

definition exe_magic :: "u8 list" where
  "exe_magic = map of_char ''PS-X EXE''"

definition header_word :: "u8 list \<Rightarrow> nat \<Rightarrow> u32" where
  "header_word bytes off = read_bytes 4 (\<lambda>i. bytes ! i) off"

text \<open>\<open>Header\<close> is \<open>repr(C)\<close>: the offsets are those of its fields.\<close>

definition hd_pc :: "u8 list \<Rightarrow> u32" where "hd_pc bytes = header_word bytes 16"
definition hd_gp :: "u8 list \<Rightarrow> u32" where "hd_gp bytes = header_word bytes 20"
definition hd_text_base :: "u8 list \<Rightarrow> u32" where "hd_text_base bytes = header_word bytes 24"
definition hd_text_size :: "u8 list \<Rightarrow> u32" where "hd_text_size bytes = header_word bytes 28"
definition hd_bss_base :: "u8 list \<Rightarrow> u32" where "hd_bss_base bytes = header_word bytes 40"
definition hd_bss_size :: "u8 list \<Rightarrow> u32" where "hd_bss_size bytes = header_word bytes 44"
definition hd_sp_base :: "u8 list \<Rightarrow> u32" where "hd_sp_base bytes = header_word bytes 48"
definition hd_sp_offset :: "u8 list \<Rightarrow> u32" where "hd_sp_offset bytes = header_word bytes 52"

definition exe_parse :: "u8 list \<Rightarrow> exe_error + exe" where
  "exe_parse bytes =
     (if length bytes < 0x800 then Inl (TooShort (length bytes))
      else if take 8 bytes \<noteq> exe_magic then Inl BadMagic
      else if regioned_addr (hd_text_base bytes + hd_text_size bytes) > 1024 * 1024 * 2 then Inl TextOutsideRam
      else if regioned_addr (hd_bss_base bytes + hd_bss_size bytes) > 1024 * 1024 * 2 then Inl BssOutsideRam
      else Inr \<lparr>x_text = drop 0x800 bytes, x_pc = hd_pc bytes, x_gp = hd_gp bytes,
             x_text_size = min (hd_text_size bytes) (word_of_nat (length bytes) - 0x800),
             x_text_base = hd_text_base bytes,
             x_bss_size = hd_bss_size bytes, x_bss_base = hd_bss_base bytes,
             x_sp = (if hd_sp_base bytes = 0 then None else Some (hd_sp_base bytes + hd_sp_offset bytes))\<rparr>)"

section \<open>The stub in the BIOS\<close>

definition stub_ins :: "exe \<Rightarrow> ins_ty list" where
  "stub_ins x =
     [Label ''main'', Li 8 (x_pc x), Li 28 (x_gp x)] @
     (case x_sp x of
        Some sp \<Rightarrow> [Li 29 sp, Lui 30 (drop_bit 16 sp), Jr 8, AluImm Ori 30 30 (sp AND 0xffff)]
      | None \<Rightarrow> [Nop, Nop, Nop, Jr 8, Nop])"

definition patch_for_exe :: "exe \<Rightarrow> bios \<Rightarrow> bios option" where
  "patch_for_exe x b =
     (case assemble_list 0xbfc06ff0 (stub_ins x) of
        Inl e \<Rightarrow> None
      | Inr (bs, base) \<Rightarrow> bios_patch bs base b)"

section \<open>Loading\<close>

fun store_bytes :: "'d devices \<Rightarrow> u32 \<Rightarrow> u8 list \<Rightarrow> 'd bus \<Rightarrow> 'd bus option" where
  "store_bytes dv a [] b = Some b"
| "store_bytes dv a (x # xs) b = do {
     (_, b) \<leftarrow> bus_store dv Byte a (ucast x) b;
     store_bytes dv (a + 1) xs b }"

definition load_exe :: "('d, 'g) env \<Rightarrow> exe \<Rightarrow> ('d, 'g) cpu \<Rightarrow> ('d, 'g) cpu option" where
  "load_exe env x c = do {
     b \<leftarrow> store_bytes (e_dev env) (regioned_addr (x_text_base x)) (take (unat (x_text_size x)) (x_text x)) (c_bus c);
     b \<leftarrow> store_bytes (e_dev env) (regioned_addr (x_bss_base x)) (replicate (unat (x_bss_size x)) 0) b;
     rom \<leftarrow> patch_for_exe x (b_bios b);
     Some (c\<lparr>c_bus := b\<lparr>b_bios := rom\<rparr>\<rparr>) }"

end
