(* ===== verification/AsmDecode.thy ===== *)
theory AsmDecode
  imports Asm CpuOps
begin

text \<open>
  The assembler against the CPU: the word that the code generator emits for a machine
  instruction is dispatched by \<open>Cpu::exec\<close> to the handler of that instruction, and the
  decoder finds the operands in it.
\<close>

section \<open>Fields of a built word\<close>

lemma bit_range_zero: "bit_range 0 c d = 0"
  by (simp add: bit_range_def Let_def)

lemmas field_rules = bit_range_set_same bit_range_set_other bit_range_set_bit_other bit_range_zero
  bit_at_set_bit_range_other bit_at_set_bit_at

lemma register_take_bit: "r < 32 \<Longrightarrow> register_new_unchecked (take_bit 5 (word_of_nat r)) = r"
  by (simp add: register_new_unchecked_def unsigned_ucast_eq unsigned_take_bit_eq unsigned_of_nat
      take_bit_nat_eq_self)

lemmas builder_defs = ins_op_def ins_special_def ins_cop_op_def ins_cop_reg_def ins_imm_def
  ins_target_def ins_shift_def ins_rd_def ins_rt_def ins_rs_def ins_bgez_def ins_link_def ins_sys_def

lemmas decoder_defs = opc_op_def opc_special_def opc_imm_def opc_target_def opc_shift_def opc_rd_def
  opc_rt_def opc_rs_def opc_bgez_def opc_cop_op_def

lemma code_fields:
  "take_bit 6 (shift_code f) = shift_code f" "take_bit 6 (shiftv_code fv) = shiftv_code fv"
  "take_bit 6 (alu_code fa) = alu_code fa" "take_bit 6 (muldiv_code fm) = muldiv_code fm"
  "take_bit 6 (imm_code fi) = imm_code fi" "take_bit 6 (mem_code fe) = mem_code fe"
  "take_bit 6 (branch2_code fb) = branch2_code fb" "take_bit 6 (jump_code fj) = jump_code fj"
  by (cases f, simp_all) (cases fv, simp_all, cases fa, simp_all, cases fm, simp_all, cases fi, simp_all,
      cases fe, simp_all, cases fb, simp_all, cases fj, simp_all)

section \<open>Handlers\<close>

fun shift_handler :: "shift_op \<Rightarrow> opcode \<Rightarrow> ('d, 'g) cpu \<Rightarrow> ('d, 'g) cpu" where
  "shift_handler Sll = op_sll" | "shift_handler Srl = op_srl" | "shift_handler Sra = op_sra"

fun shiftv_handler :: "shiftv_op \<Rightarrow> opcode \<Rightarrow> ('d, 'g) cpu \<Rightarrow> ('d, 'g) cpu" where
  "shiftv_handler Sllv = op_sllv" | "shiftv_handler Srlv = op_srlv" | "shiftv_handler Srav = op_srav"

fun alu_handler :: "alu_op \<Rightarrow> opcode \<Rightarrow> ('d, 'g) cpu \<Rightarrow> ('d, 'g) cpu" where
  "alu_handler Add = op_add" | "alu_handler Addu = op_addu" | "alu_handler Sub = op_sub"
| "alu_handler Subu = op_subu" | "alu_handler And = op_and" | "alu_handler Or = op_or"
| "alu_handler Xor = op_xor" | "alu_handler Nor = op_nor" | "alu_handler Slt = op_slt"
| "alu_handler Sltu = op_sltu"

fun muldiv_handler :: "muldiv_op \<Rightarrow> opcode \<Rightarrow> ('d, 'g) cpu \<Rightarrow> ('d, 'g) cpu" where
  "muldiv_handler Mult = op_mult" | "muldiv_handler Multu = op_multu"
| "muldiv_handler Div = op_div" | "muldiv_handler Divu = op_divu"

fun hi_lo_handler :: "hi_lo_op \<Rightarrow> opcode \<Rightarrow> ('d, 'g) cpu \<Rightarrow> ('d, 'g) cpu" where
  "hi_lo_handler Mfhi = op_mfhi" | "hi_lo_handler Mthi = op_mthi"
| "hi_lo_handler Mflo = op_mflo" | "hi_lo_handler Mtlo = op_mtlo"

fun imm_handler :: "imm_op \<Rightarrow> opcode \<Rightarrow> ('d, 'g) cpu \<Rightarrow> ('d, 'g) cpu" where
  "imm_handler Addi = op_addi" | "imm_handler Addiu = op_addiu" | "imm_handler Slti = op_slti"
| "imm_handler Sltiu = op_sltui" | "imm_handler Andi = op_andi" | "imm_handler Ori = op_ori"
| "imm_handler Xori = op_xori"

fun mem_handler :: "mem_op \<Rightarrow> ('d, 'g) env \<Rightarrow> opcode \<Rightarrow> ('d, 'g) cpu \<Rightarrow> ('d, 'g) cpu option" where
  "mem_handler Lb = op_lb" | "mem_handler Lh = op_lh" | "mem_handler Lwl = op_lwl"
| "mem_handler Lw = op_lw" | "mem_handler Lbu = op_lbu" | "mem_handler Lhu = op_lhu"
| "mem_handler Lwr = op_lwr" | "mem_handler Sb = op_sb" | "mem_handler Sh = op_sh"
| "mem_handler Swl = op_swl" | "mem_handler Sw = op_sw" | "mem_handler Swr = op_swr"

fun branch_handler :: "branch_op \<Rightarrow> opcode \<Rightarrow> ('d, 'g) cpu \<Rightarrow> ('d, 'g) cpu" where
  "branch_handler Blez = op_blez" | "branch_handler Bgtz = op_bgtz" | "branch_handler _ = op_bcondz"

fun branch2_handler :: "branch2_op \<Rightarrow> opcode \<Rightarrow> ('d, 'g) cpu \<Rightarrow> ('d, 'g) cpu" where
  "branch2_handler Beq = op_beq" | "branch2_handler Bne = op_bne"

fun jump_handler :: "jump_op \<Rightarrow> opcode \<Rightarrow> ('d, 'g) cpu \<Rightarrow> ('d, 'g) cpu" where
  "jump_handler J = op_j" | "jump_handler Jal = op_jal"

text \<open>The handler of \<open>Cpu::exec\<close> for each machine instruction; \<open>None\<close> for data and
  pseudo-instructions.\<close>

fun handler :: "('d, 'g) env \<Rightarrow> ins_ty \<Rightarrow> (opcode \<Rightarrow> ('d, 'g) cpu \<Rightarrow> ('d, 'g) cpu option) option" where
  "handler env (Shift f _ _ _) = Some (\<lambda>w c. Some (shift_handler f w c))"
| "handler env (ShiftV f _ _ _) = Some (\<lambda>w c. Some (shiftv_handler f w c))"
| "handler env (Alu f _ _ _) = Some (\<lambda>w c. Some (alu_handler f w c))"
| "handler env (MulDiv f _ _) = Some (\<lambda>w c. Some (muldiv_handler f w c))"
| "handler env (HiLo f _) = Some (\<lambda>w c. Some (hi_lo_handler f w c))"
| "handler env (Jr _) = Some (\<lambda>w c. Some (op_jr w c))"
| "handler env (Jalr _ _) = Some (\<lambda>w c. Some (op_jalr w c))"
| "handler env (ins_ty.Syscall _) = Some (\<lambda>w c. Some (op_syscall c))"
| "handler env (ins_ty.Break _) = Some (\<lambda>w c. Some (op_break c))"
| "handler env (Branch f _ _) = Some (\<lambda>w c. Some (branch_handler f w c))"
| "handler env (Branch2 f _ _ _) = Some (\<lambda>w c. Some (branch2_handler f w c))"
| "handler env (Jump f _) = Some (\<lambda>w c. Some (jump_handler f w c))"
| "handler env (AluImm f _ _ _) = Some (\<lambda>w c. Some (imm_handler f w c))"
| "handler env (Lui _ _) = Some (\<lambda>w c. Some (op_lui w c))"
| "handler env (Mem f _ _ _) = Some (mem_handler f env)"
| "handler env (Cop f _ _) = Some (case f of Mfc0 \<Rightarrow> op_cop0 | Mtc0 \<Rightarrow> op_cop0 | _ \<Rightarrow> op_cop2 env)"
| "handler env _ = None"

text \<open>The operands that the decoder must find in the word.\<close>

fun operands :: "nat \<Rightarrow> code_gen \<Rightarrow> ins_ty \<Rightarrow> u32 \<Rightarrow> bool" where
  "operands line cg (Shift f rd rt sh) w \<longleftrightarrow> opc_rd w = rd \<and> opc_rt w = rt \<and> opc_shift w = take_bit 5 sh"
| "operands line cg (ShiftV f rd rt rs) w \<longleftrightarrow> opc_rd w = rd \<and> opc_rt w = rt \<and> opc_rs w = rs"
| "operands line cg (Alu f rd rs rt) w \<longleftrightarrow> opc_rd w = rd \<and> opc_rs w = rs \<and> opc_rt w = rt"
| "operands line cg (MulDiv f rs rt) w \<longleftrightarrow> opc_rs w = rs \<and> opc_rt w = rt"
| "operands line cg (HiLo f r) w \<longleftrightarrow> (if f = Mfhi \<or> f = Mflo then opc_rd w else opc_rs w) = r"
| "operands line cg (Jr rs) w \<longleftrightarrow> opc_rs w = rs"
| "operands line cg (Jalr rd rs) w \<longleftrightarrow> opc_rd w = rd \<and> opc_rs w = rs"
| "operands line cg (Branch f rs adr) w \<longleftrightarrow>
     opc_rs w = rs \<and> (\<forall>off. branch_offset line adr cg = Inr off \<longrightarrow> opc_imm w = take_bit 16 off) \<and>
     (f \<in> {Bgez, Bltz, Bgezal, Bltzal} \<longrightarrow>
        opc_bgez w = (f = Bgez \<or> f = Bgezal) \<and> opc_update_ra_on_branch w = (f = Bgezal \<or> f = Bltzal))"
| "operands line cg (Branch2 f rs rt adr) w \<longleftrightarrow>
     opc_rs w = rs \<and> opc_rt w = rt \<and> (\<forall>off. branch_offset line adr cg = Inr off \<longrightarrow> opc_imm w = take_bit 16 off)"
| "operands line cg (Jump f adr) w \<longleftrightarrow> (\<forall>a. jump_addr line adr cg = Inr a \<longrightarrow> opc_target w = take_bit 26 a)"
| "operands line cg (AluImm f rt rs v) w \<longleftrightarrow> opc_rt w = rt \<and> opc_rs w = rs \<and> opc_imm w = take_bit 16 v"
| "operands line cg (Lui rt v) w \<longleftrightarrow> opc_rt w = rt \<and> opc_imm w = take_bit 16 v"
| "operands line cg (Mem f rt rs v) w \<longleftrightarrow> opc_rt w = rt \<and> opc_rs w = rs \<and> opc_imm w = take_bit 16 v"
| "operands line cg (Cop f rt reg) w \<longleftrightarrow>
     opc_rt w = rt \<and> bit_range w 11 15 = take_bit 5 reg \<and>
     opc_cop_op w = (if f = Mfc0 \<or> f = Mfc2 then 0x0 else 0x4)"
| "operands line cg _ w \<longleftrightarrow> True"

text \<open>Registers exist, and the code of a trap leaves bit 26 of the word alone.\<close>

fun encodable :: "ins_ty \<Rightarrow> bool" where
  "encodable (Shift _ rd rt _) \<longleftrightarrow> rd < 32 \<and> rt < 32"
| "encodable (ShiftV _ rd rt rs) \<longleftrightarrow> rd < 32 \<and> rt < 32 \<and> rs < 32"
| "encodable (Alu _ rd rs rt) \<longleftrightarrow> rd < 32 \<and> rs < 32 \<and> rt < 32"
| "encodable (MulDiv _ rs rt) \<longleftrightarrow> rs < 32 \<and> rt < 32"
| "encodable (HiLo _ r) \<longleftrightarrow> r < 32"
| "encodable (Jr rs) \<longleftrightarrow> rs < 32"
| "encodable (Jalr rd rs) \<longleftrightarrow> rd < 32 \<and> rs < 32"
| "encodable (ins_ty.Syscall v) \<longleftrightarrow> \<not> bit v 20"
| "encodable (ins_ty.Break v) \<longleftrightarrow> \<not> bit v 20"
| "encodable (Branch _ rs _) \<longleftrightarrow> rs < 32"
| "encodable (Branch2 _ rs rt _) \<longleftrightarrow> rs < 32 \<and> rt < 32"
| "encodable (AluImm _ rt rs _) \<longleftrightarrow> rt < 32 \<and> rs < 32"
| "encodable (Lui rt _) \<longleftrightarrow> rt < 32"
| "encodable (Mem _ rt rs _) \<longleftrightarrow> rt < 32 \<and> rs < 32"
| "encodable (Cop _ rt _) \<longleftrightarrow> rt < 32"
| "encodable _ \<longleftrightarrow> True"

section \<open>The emitted word\<close>

text \<open>What the proof needs of a word: its operation, its fields and its handler.\<close>

lemma emitted:
  assumes "handler env i \<noteq> None" "assemble_ty line i cg = Inr cg'"
  obtains w where "cg' = gen_word w cg"
  using assms by (cases i) (auto simp: and_then_Inr)

lemma opc_of_special:
  "opc_op (ins_special k) = 0" "opc_special (ins_special k) = take_bit 6 k"
  by (simp_all add: builder_defs decoder_defs field_rules)

lemma opc_of_op: "opc_op (ins_op k) = take_bit 6 k"
  by (simp_all add: builder_defs decoder_defs field_rules)

lemma register_fields:
  "r < 32 \<Longrightarrow> opc_rd (ins_rd r w) = r" "r < 32 \<Longrightarrow> opc_rt (ins_rt r w) = r" "r < 32 \<Longrightarrow> opc_rs (ins_rs r w) = r"
  by (simp_all add: builder_defs decoder_defs field_rules register_take_bit)

lemma other_fields:
  "opc_op (ins_rd r w) = opc_op w" "opc_op (ins_rt r w) = opc_op w" "opc_op (ins_rs r w) = opc_op w"
  "opc_op (ins_imm v w) = opc_op w" "opc_op (ins_shift v w) = opc_op w" "opc_op (ins_target v w) = opc_op w"
  "opc_op (ins_cop_op v w) = opc_op w" "opc_op (ins_cop_reg v w) = opc_op w"
  "opc_op (ins_bgez b w) = opc_op w" "opc_op (ins_link b w) = opc_op w"
  "opc_special (ins_rd r w) = opc_special w" "opc_special (ins_rt r w) = opc_special w"
  "opc_special (ins_rs r w) = opc_special w" "opc_special (ins_shift v w) = opc_special w"
  "opc_special (ins_sys v w) = opc_special w"
  "opc_rd (ins_rt r w) = opc_rd w" "opc_rd (ins_rs r w) = opc_rd w" "opc_rd (ins_shift v w) = opc_rd w"
  "opc_rt (ins_rd r w) = opc_rt w" "opc_rt (ins_rs r w) = opc_rt w" "opc_rt (ins_shift v w) = opc_rt w"
  "opc_rt (ins_imm v w) = opc_rt w" "opc_rt (ins_cop_reg v w) = opc_rt w"
  "opc_rs (ins_rd r w) = opc_rs w" "opc_rs (ins_rt r w) = opc_rs w" "opc_rs (ins_imm v w) = opc_rs w"
  "opc_rs (ins_bgez b w) = opc_rs w" "opc_rs (ins_link b w) = opc_rs w" "opc_rs (ins_cop_reg v w) = opc_rs w"
  "opc_bgez (ins_imm v w) = opc_bgez w" "opc_bgez (ins_rs r w) = opc_bgez w" "opc_bgez (ins_bgez b w) = b"
  by (simp_all add: builder_defs decoder_defs field_rules)

lemma value_fields:
  "opc_imm (ins_imm v w) = take_bit 16 v" "opc_shift (ins_shift v w) = take_bit 5 v"
  "opc_target (ins_target v w) = take_bit 26 v"
  "bit_range (ins_cop_reg v w) 11 15 = take_bit 5 v"
  by (simp_all add: builder_defs decoder_defs field_rules)

lemma sys_op: "\<not> bit v 20 \<Longrightarrow> opc_op (ins_sys v (ins_special k)) = 0"
  unfolding opc_op_def ins_sys_def ins_special_def
  by (intro bit_word_eqI) (auto simp: bits_simps)

lemma link_field: "opc_update_ra_on_branch (ins_imm v (ins_rs r (ins_bgez b (ins_link l (ins_op k))))) = l"
proof -
  have "bit_range (ins_imm v (ins_rs r (ins_bgez b (ins_link l (ins_op k))))) 17 20
      = bit_range (ins_link l (ins_op k)) 17 20"
    by (simp add: ins_imm_def ins_rs_def ins_bgez_def field_rules)
  also have "\<dots> = push_bit 3 (of_bool l)"
    unfolding ins_link_def ins_op_def
    by (intro bit_word_eqI) (auto simp: bits_simps bit_push_bit_iff bit_of_bool_iff)
  finally show ?thesis by (cases l) (simp_all add: opc_update_ra_on_branch_def)
qed

lemma register_word: "word_of_nat (register_new_unchecked (take_bit 5 k)) = take_bit 5 k" for k :: u32
proof -
  have "unat (take_bit 5 k) < 2 ^ 5" using unat_small_iff [of "take_bit 5 k" 5] by (simp add: bit_simps)
  then show ?thesis
    by (simp add: register_new_unchecked_def unsigned_ucast_eq take_bit_nat_eq_self)
qed

lemma cop_fields:
  "opc_cop_op (ins_cop_reg v (ins_rt r (ins_cop_op k w))) = take_bit 5 k"
  by (simp add: builder_defs decoder_defs field_rules register_word)

lemmas word_fields = opc_of_special opc_of_op register_fields other_fields value_fields sys_op link_field
  cop_fields code_fields

lemma shift_dispatch: "opc_special w = shift_code f \<Longrightarrow> exec_special w c = Some (shift_handler f w c)"
  by (cases f) (simp_all add: exec_special_def)

lemma shiftv_dispatch: "opc_special w = shiftv_code f \<Longrightarrow> exec_special w c = Some (shiftv_handler f w c)"
  by (cases f) (simp_all add: exec_special_def)

lemma alu_dispatch: "opc_special w = alu_code f \<Longrightarrow> exec_special w c = Some (alu_handler f w c)"
  by (cases f) (simp_all add: exec_special_def)

lemma muldiv_dispatch: "opc_special w = muldiv_code f \<Longrightarrow> exec_special w c = Some (muldiv_handler f w c)"
  by (cases f) (simp_all add: exec_special_def)

lemma exec_zero: "opc_op w = 0 \<Longrightarrow> exec env w c = exec_special w c"
  by (simp add: exec_def)

lemma imm_dispatch: "opc_op w = imm_code f \<Longrightarrow> exec env w c = Some (imm_handler f w c)"
  by (cases f) (simp_all add: exec_def)

lemma mem_dispatch: "opc_op w = mem_code f \<Longrightarrow> exec env w c = mem_handler f env w c"
  by (cases f) (simp_all add: exec_def)

lemma branch2_dispatch: "opc_op w = branch2_code f \<Longrightarrow> exec env w c = Some (branch2_handler f w c)"
  by (cases f) (simp_all add: exec_def)

lemma jump_dispatch: "opc_op w = jump_code f \<Longrightarrow> exec env w c = Some (jump_handler f w c)"
  by (cases f) (simp_all add: exec_def)

lemmas dispatch = shift_dispatch shiftv_dispatch alu_dispatch muldiv_dispatch imm_dispatch mem_dispatch
  branch2_dispatch jump_dispatch

text \<open>C40: What the assembler emits for an instruction is what the CPU executes. For every machine
  instruction with existing registers (and, for the traps, a code whose bit 20 is clear),
  successful assembly appends one little-endian word; \<open>Cpu::exec\<close> dispatches that word to
  the handler of the instruction, and the decoder reads the instruction's own registers,
  immediate, shift amount, jump target or branch offset from it.\<close>

theorem assembled_word_decodes:
  assumes "handler env i = Some h" "encodable i" "assemble_ty line i cg = Inr cg'"
  shows "\<exists>w. code cg' = code cg @ le_bytes 4 w \<and> operands line cg i w \<and> (\<forall>c. exec env w c = h w c)"
proof -
  have "\<exists>w. cg' = gen_word w cg \<and> operands line cg i w \<and> (\<forall>c. exec env w c = h w c)"
  proof (cases i)
    case (HiLo f r)
    then show ?thesis using assms
      by (cases f) (auto simp: word_fields exec_zero exec_special_def)
  next
    case (Lui rt v)
    then show ?thesis using assms by (auto simp: word_fields exec_def)
  next
    case (Jr rs)
    then show ?thesis using assms by (auto simp: word_fields exec_zero exec_special_def)
  next
    case (Jalr rd rs)
    then show ?thesis using assms by (auto simp: word_fields exec_zero exec_special_def)
  next
    case (Syscall v)
    then show ?thesis using assms by (auto simp: word_fields exec_zero exec_special_def)
  next
    case (Break v)
    then show ?thesis using assms by (auto simp: word_fields exec_zero exec_special_def)
  next
    case (Branch f rs adr)
    then show ?thesis using assms
      by (cases f) (auto simp: and_then_Inr word_fields exec_def)
  next
    case (Cop f rt reg)
    then show ?thesis using assms
      by (cases f) (auto simp: word_fields exec_def)
  qed (use assms in \<open>auto simp: and_then_Inr word_fields exec_zero dispatch\<close>)
  then show ?thesis by (auto simp: gen_word_def gen_bytes_def)
qed

text \<open>\<open>addu $3, $1, $2\<close>.\<close>

theorem assembled_word_decodes_witness:
  "\<forall>env :: (unit, unit) env. \<exists>h cg'. handler env (Alu Addu 3 1 2) = Some h \<and>
     assemble_ty 1 (Alu Addu 3 1 2) code_gen_new = Inr cg' \<and>
     (\<exists>w. code cg' = code code_gen_new @ le_bytes 4 w \<and> operands 1 code_gen_new (Alu Addu 3 1 2) w \<and>
        (\<forall>c. exec env w c = h w c))"
proof
  fix env :: "(unit, unit) env"
  obtain h where h: "handler env (Alu Addu 3 1 2) = Some h" by simp
  obtain cg' where cg': "assemble_ty 1 (Alu Addu 3 1 2) code_gen_new = Inr cg'" by simp
  have "encodable (Alu Addu 3 1 2)" by simp
  from h cg' assembled_word_decodes [OF h this cg']
  show "\<exists>h cg'. handler env (Alu Addu 3 1 2) = Some h \<and>
     assemble_ty 1 (Alu Addu 3 1 2) code_gen_new = Inr cg' \<and>
     (\<exists>w. code cg' = code code_gen_new @ le_bytes 4 w \<and> operands 1 code_gen_new (Alu Addu 3 1 2) w \<and>
        (\<forall>c. exec env w c = h w c))" by blast
qed

end
