(* ===== verification/AsmLabels.thy ===== *)
theory AsmLabels
  imports Asm
begin

text \<open>
  The two passes of the assembler agree: the address the first pass gives to a label is
  the base plus the number of bytes the second pass has emitted when it reaches the label.
  The passes meet in \<open>InsTy::size\<close>, which is the emitted length of every instruction except
  half words, bytes and strings.
\<close>

fun sized :: "ins_ty \<Rightarrow> bool" where
  "sized (HalfWord v) \<longleftrightarrow> False"
| "sized (Byte v) \<longleftrightarrow> False"
| "sized (Ascii s) \<longleftrightarrow> length s = 4"
| "sized _ \<longleftrightarrow> True"

section \<open>The length of the code\<close>

lemma le_bytes_length [simp]: "length (le_bytes n w) = n"
  by (simp add: le_bytes_def)

lemma gen_word_simps [simp]:
  "length (code (gen_word w cg)) = length (code cg) + 4" "labels (gen_word w cg) = labels cg"
  "labels (gen_bytes bs cg) = labels cg" "length (code (gen_bytes bs cg)) = length (code cg) + length bs"
  by (simp_all add: gen_word_def gen_bytes_def)

lemma hi_half_zero: "v AND 0xffff0000 \<noteq> 0 \<longleftrightarrow> bit_range v 16 31 \<noteq> 0" for v :: u32
proof -
  have hi: "(0xffff0000 :: u32) = push_bit 16 (mask 16)" by (simp add: mask_numeral)
  have m: "v AND 0xffff0000 = push_bit 16 (bit_range v 16 31)"
    unfolding hi by (intro bit_word_eqI) (auto simp: bits_simps bit_simps)
  have "push_bit 16 (bit_range v 16 31) \<noteq> 0 \<longleftrightarrow> bit_range v 16 31 \<noteq> 0"
  proof -
    have "drop_bit 16 (push_bit 16 (bit_range v 16 31)) = bit_range v 16 31"
      by (intro bit_word_eqI) (auto simp: bits_simps bit_simps)
    then show ?thesis by (metis drop_bit_of_0 push_bit_of_0)
  qed
  then show ?thesis unfolding m .
qed

lemma lo_half_zero: "v AND 0xffff \<noteq> 0 \<longleftrightarrow> bit_range v 0 15 \<noteq> 0" for v :: u32
proof -
  have m: "(0xffff :: u32) = mask 16" by (simp add: mask_numeral)
  show ?thesis unfolding m take_bit_eq_mask [symmetric] by (simp add: bit_range_eq)
qed

lemma li_size:
  "unat (ins_size (Li r v)) = (if bit_range v 16 31 \<noteq> 0 \<and> bit_range v 0 15 \<noteq> 0 then 8 else 4)"
proof (cases "bit_range v 16 31 = 0 \<and> bit_range v 0 15 = 0")
  case True
  have "v = 0"
  proof (rule bit_word_eqI)
    fix n assume "n < LENGTH(32)"
    then show "bit v n = bit 0 n"
      using arg_cong [OF conjunct1 [OF True], of "\<lambda>w. bit w (n - 16)"]
        arg_cong [OF conjunct2 [OF True], of "\<lambda>w. bit w n"]
      by (cases "n < 16") (auto simp: bits_simps)
  qed
  then show ?thesis by (simp add: bit_range_def Let_def)
next
  case False
  then have "v \<noteq> 0" by (auto simp: bit_range_def Let_def)
  then show ?thesis using False by (auto simp: hi_half_zero lo_half_zero)
qed

lemma emitted_length:
  assumes "assemble_ty line i cg = Inr cg'" "sized i"
  shows "length (code cg') = length (code cg) + unat (ins_size i)" "labels cg' = labels cg"
proof -
  have "length (code cg') = length (code cg) + unat (ins_size i) \<and> labels cg' = labels cg"
  proof (cases i)
    case (Li r v)
    then show ?thesis using assms unfolding Li li_size by (auto simp: Let_def split: if_splits)
  qed (use assms in \<open>auto simp: and_then_Inr Let_def\<close>)
  then show "length (code cg') = length (code cg) + unat (ins_size i)" "labels cg' = labels cg" by simp_all
qed

lemma emitted_labels: "assemble_ty line i cg = Inr cg' \<Longrightarrow> labels cg' = labels cg"
  by (cases i) (auto simp: and_then_Inr Let_def split: if_splits)

lemma emitted_code: "assemble_ty line i cg = Inr cg' \<Longrightarrow> \<exists>bs. code cg' = code cg @ bs"
  by (cases i) (auto simp: and_then_Inr Let_def gen_word_def gen_bytes_def split: if_splits)

section \<open>The second pass\<close>

lemma assemble_all_append:
  "assemble_all (xs @ ys) cg = and_then (assemble_all xs cg) (assemble_all ys)"
proof (induction xs arbitrary: cg)
  case (Cons i xs)
  then show ?case by (cases "assemble_one i cg") simp_all
qed simp

lemma assemble_all_grows:
  "assemble_all is cg = Inr cg' \<Longrightarrow> labels cg' = labels cg \<and> (\<exists>bs. code cg' = code cg @ bs)"
proof (induction "is" arbitrary: cg)
  case (Cons i "is")
  then obtain cg1 where 1: "assemble_ty (i_line i) (i_ty i) cg = Inr cg1" "assemble_all is cg1 = Inr cg'"
    by (auto simp: and_then_Inr assemble_one_def)
  then show ?case using Cons.IH [OF 1(2)] emitted_labels [OF 1(1)] emitted_code [OF 1(1)] by auto
qed simp

fun total_size :: "ins list \<Rightarrow> nat" where
  "total_size [] = 0"
| "total_size (i # is) = unat (ins_size (i_ty i)) + total_size is"

lemma assemble_all_length:
  assumes "assemble_all is cg = Inr cg'" "\<forall>i\<in>set is. sized (i_ty i)"
  shows "length (code cg') = length (code cg) + total_size is"
  using assms
proof (induction "is" arbitrary: cg)
  case (Cons i "is")
  then obtain cg1 where 1: "assemble_ty (i_line i) (i_ty i) cg = Inr cg1" "assemble_all is cg1 = Inr cg'"
    by (auto simp: and_then_Inr assemble_one_def)
  show ?case using Cons.IH [OF 1(2)] Cons.prems(2) emitted_length(1) [OF 1(1)] by simp
qed simp

section \<open>The first pass\<close>

lemma place_labels_keeps:
  "place_labels is a cg = Inr cg' \<Longrightarrow> labels cg l = Some b \<Longrightarrow> labels cg' l = Some b"
proof (induction "is" arbitrary: a cg)
  case (Cons i "is")
  show ?case
  proof (cases "i_ty i")
    case (Label x)
    then have "place_labels is a (cg\<lparr>labels := (labels cg)(x \<mapsto> a)\<rparr>) = Inr cg'" "labels cg x = None"
      using Cons.prems(1) by (auto split: if_splits)
    moreover have "labels (cg\<lparr>labels := (labels cg)(x \<mapsto> a)\<rparr>) l = Some b"
      using Cons.prems(2) calculation(2) by auto
    ultimately show ?thesis using Cons.IH by blast
  qed (use Cons in auto)
qed simp

lemma place_labels_code: "place_labels is a cg = Inr cg' \<Longrightarrow> code cg' = code cg"
proof (induction "is" arbitrary: a cg)
  case (Cons i "is")
  show ?case
  proof (cases "i_ty i")
    case (Label x)
    then show ?thesis using Cons.prems Cons.IH by (fastforce split: if_splits)
  qed (use Cons in auto)
qed simp

lemma place_labels_at:
  "place_labels (pre @ \<lparr>i_ty = Label l, i_line = n\<rparr> # post) a cg = Inr cg' \<Longrightarrow>
     labels cg' l = Some (a + word_of_nat (total_size pre))"
proof (induction pre arbitrary: a cg)
  case Nil
  then show ?case
    by (auto split: if_splits intro: place_labels_keeps)
next
  case (Cons i pre)
  show ?case
  proof (cases "i_ty i")
    case (Label x)
    then show ?thesis using Cons.prems Cons.IH by (fastforce split: if_splits)
  qed (use Cons in \<open>auto simp: add.assoc simp del: ins_size.simps\<close>)
qed

text \<open>Labels point at the code. In a program that assembles, a label in front of which only
  instructions, words and labels stand resolves to the base address plus the number of bytes
  that the code in front of it occupies, and those bytes are a prefix of the output; the
  entry point is the address of \<open>main\<close>.\<close>

lemma asm_labels:
  assumes "gen_ins txt dat base = Inr (out, main)" "txt @ dat = pre @ \<lparr>i_ty = Label l, i_line = n\<rparr> # post"
    "\<forall>i\<in>set pre. sized (i_ty i)"
  shows "\<exists>cg mid. place_labels (txt @ dat) base code_gen_new = Inr cg \<and> labels cg ''main'' = Some main \<and>
           assemble_all pre cg = Inr mid \<and> (\<exists>rest. out = code mid @ rest) \<and>
           resolve_labels k (LabelRef l) cg = Inr (base + word_of_nat (length (code mid)))"
proof -
  obtain cg fin where cg: "place_labels (txt @ dat) base code_gen_new = Inr cg"
    and fin: "assemble_all (txt @ dat) cg = Inr fin" "labels fin ''main'' = Some main" "out = code fin"
    using assms(1) by (auto simp: gen_ins_def and_then_Inr split: option.splits)
  have main: "labels cg ''main'' = Some main" using assemble_all_grows [OF fin(1)] fin(2) by simp
  obtain mid where mid: "assemble_all pre cg = Inr mid"
    and rest: "assemble_all (\<lparr>i_ty = Label l, i_line = n\<rparr> # post) mid = Inr fin"
    using fin(1) unfolding assms(2) assemble_all_append by (auto simp: and_then_Inr)
  have "length (code mid) = total_size pre"
    using assemble_all_length [OF mid assms(3)] place_labels_code [OF cg] by (simp add: code_gen_new_def)
  then have "labels cg l = Some (base + word_of_nat (length (code mid)))"
    using place_labels_at cg [unfolded assms(2)] by simp
  then show ?thesis
    using cg main mid assemble_all_grows [OF rest] fin(3) by (auto simp: resolve_labels_def)
qed

definition asm_example :: "ins list" where
  "asm_example = [\<lparr>i_ty = Label ''main'', i_line = 0\<rparr>, \<lparr>i_ty = Li 8 0x12345678, i_line = 1\<rparr>,
     \<lparr>i_ty = Label ''loop'', i_line = 2\<rparr>, \<lparr>i_ty = B (LabelRef ''loop''), i_line = 3\<rparr>]"

lemma asm_labels_witness:
  "\<exists>out main. gen_ins asm_example [] 0x80000000 = Inr (out, main) \<and>
     (\<exists>cg mid. place_labels (asm_example @ []) 0x80000000 code_gen_new = Inr cg \<and> labels cg ''main'' = Some main \<and>
           assemble_all (take 2 asm_example) cg = Inr mid \<and> (\<exists>rest. out = code mid @ rest) \<and>
           resolve_labels 0 (LabelRef ''loop'') cg = Inr (0x80000000 + word_of_nat (length (code mid))))"
proof -
  have "\<not> isl (gen_ins asm_example [] 0x80000000)" by code_simp
  then obtain out main where run: "gen_ins asm_example [] 0x80000000 = Inr (out, main)"
    by (cases "gen_ins asm_example [] 0x80000000") auto
  have split: "asm_example @ [] = take 2 asm_example @ \<lparr>i_ty = Label ''loop'', i_line = 2\<rparr> # drop 3 asm_example"
    by (simp add: asm_example_def)
  have "\<forall>i\<in>set (take 2 asm_example). sized (i_ty i)" by (simp add: asm_example_def)
  from asm_labels [OF run split this] show ?thesis using run by blast
qed

end
