(* ===== verification/ExeBoot.thy ===== *)
theory ExeBoot
  imports Exe AsmDecode AsmLabels CpuControl
begin

text \<open>
  The stub that \<open>patch_for_exe\<close> assembles into the BIOS, executed by the CPU: from its first
  instruction the machine loads the registers of the executable and jumps to it. \<open>exec_steps\<close> iterates
  \<open>execute_instruction\<close> alone: the theorem is about the instructions, and an event that \<open>Cpu::step\<close> would
  deliver between two of them is not part of it.
\<close>

section \<open>The code of the stub\<close>

definition lui_word :: "register \<Rightarrow> u32 \<Rightarrow> u32" where
  "lui_word r v = ins_imm v (ins_rt r (ins_op 0xf))"

definition ori_word :: "register \<Rightarrow> register \<Rightarrow> u32 \<Rightarrow> u32" where
  "ori_word rt rs v = ins_imm v (ins_rs rs (ins_rt rt (ins_op 0xd)))"

definition nop_word :: u32 where
  "nop_word = ins_shift 0 (ins_rt ZERO (ins_rd ZERO (ins_special 0x0)))"

definition li_words :: "register \<Rightarrow> u32 \<Rightarrow> u32 list" where
  "li_words r v =
     (let hi = bit_range v 16 31; lo = bit_range v 0 15
      in if hi \<noteq> 0 then lui_word r hi # (if lo \<noteq> 0 then [ori_word r r lo] else [])
         else [ori_word r ZERO lo])"

definition tail_words :: "u32 option \<Rightarrow> u32 list" where
  "tail_words sp =
     (case sp of
        Some sp \<Rightarrow> li_words 29 sp @ [lui_word 30 (drop_bit 16 sp), ins_rs 8 (ins_special 0x8),
                     ori_word 30 30 (sp AND 0xffff)]
      | None \<Rightarrow> [nop_word, nop_word, nop_word, ins_rs 8 (ins_special 0x8), nop_word])"

definition stub_words :: "exe \<Rightarrow> u32 list" where
  "stub_words x = li_words 8 (x_pc x) @ li_words 28 (x_gp x) @ tail_words (x_sp x)"

definition word_bytes :: "u32 list \<Rightarrow> u8 list" where
  "word_bytes ws = concat (map (le_bytes 4) ws)"

lemma word_bytes_simps [simp]:
  "word_bytes [] = []" "word_bytes (w # ws) = le_bytes 4 w @ word_bytes ws"
  "word_bytes (vs @ ws) = word_bytes vs @ word_bytes ws" "length (word_bytes ws) = 4 * length ws"
  by (simp_all add: word_bytes_def) (induction ws; simp)

lemma assemble_li: "assemble_ty line (Li r v) cg = Inr (gen_bytes (word_bytes (li_words r v)) cg)"
  by (simp add: li_words_def Let_def gen_word_def gen_bytes_def lui_word_def ori_word_def)

lemma gen_bytes_twice: "gen_bytes ys (gen_bytes xs cg) = gen_bytes (xs @ ys) cg"
  by (simp add: gen_bytes_def)

lemma code_gen_bytes: "code (gen_bytes bs cg) = code cg @ bs"
  by (simp add: gen_bytes_def)

lemma stub_assembles: "assemble_list 0xbfc06ff0 (stub_ins x) = Inr (word_bytes (stub_words x), 0xbfc06ff0)"
  by (cases "x_sp x")
     (simp_all add: assemble_list_def gen_ins_def stub_ins_def enumerate_eq_zip code_gen_new_def assemble_one_def
       assemble_li stub_words_def tail_words_def lui_word_def ori_word_def nop_word_def gen_word_def
       gen_bytes_twice code_gen_bytes del: assemble_ty.simps(23))

lemma stub_short: "length (stub_words x) \<le> 9"
  by (auto simp: stub_words_def tail_words_def li_words_def Let_def split: option.split)

section \<open>The ROM\<close>

definition rom_holds :: "bios \<Rightarrow> nat \<Rightarrow> u32 list \<Rightarrow> bool" where
  "rom_holds b k ws \<longleftrightarrow> (\<forall>j<length ws. read_bytes 4 (bios_data b) (k + 4 * j) = ws ! j)"

lemma rom_holds_Cons: "rom_holds b k (w # ws) \<longleftrightarrow> read_bytes 4 (bios_data b) k = w \<and> rom_holds b (k + 4) ws"
  by (auto simp: rom_holds_def less_Suc_eq_0_disj add.assoc)

lemma rom_holds_append: "rom_holds b k (vs @ ws) \<longleftrightarrow> rom_holds b k vs \<and> rom_holds b (k + 4 * length vs) ws"
  by (induction vs arbitrary: k) (simp_all add: rom_holds_Cons, simp_all add: rom_holds_def add.assoc)

lemma patch_data:
  fixes a :: nat and bs :: "u8 list"
  assumes "i < length bs"
  shows "fold (\<lambda>(i, byte) d. d(a + i := byte)) (enumerate 0 bs) d (a + i) = bs ! i"
proof -
  define f where "f = (\<lambda>(i, byte :: u8) d. d(a + i := byte))"
  have f: "f (m, x) d = d(a + m := x)" for m x d by (simp add: f_def)
  have before: "fold f (enumerate m xs) d j = d j" if "j < a + m" for m xs d j
    using that by (induction xs arbitrary: m d) (simp_all add: f)
  have "fold f (enumerate n bs) d (a + n + i) = bs ! i" for n using assms
  proof (induction bs arbitrary: n i d)
    case (Cons x xs)
    show ?case
    proof (cases i)
      case 0
      then show ?thesis using before [of "a + n" "Suc n" xs "d(a + n := x)"] by (simp add: f)
    next
      case (Suc j)
      then show ?thesis using Cons.IH [of j "Suc n" "f (n, x) d"] Cons.prems by simp
    qed
  qed simp
  from this [of 0] show ?thesis by (simp add: f_def)
qed

lemma le_bytes_nth: "i < n \<Longrightarrow> le_bytes n w ! i = ucast (drop_bit (8 * i) w)"
  by (simp add: le_bytes_def)

lemma word_bytes_nth:
  "j < length ws \<Longrightarrow> i < 4 \<Longrightarrow> word_bytes ws ! (4 * j + i) = ucast (drop_bit (8 * i) (ws ! j))"
proof (induction ws arbitrary: j)
  case (Cons w ws)
  then show ?case by (cases j) (simp_all add: nth_append le_bytes_nth)
qed simp

lemma stub_patched:
  "\<exists>b'. patch_for_exe x b = Some b' \<and> rom_holds b' 0x6ff0 (stub_words x)"
proof -
  let ?bs = "word_bytes (stub_words x)"
  let ?d = "fold (\<lambda>(i, byte) d. d(28656 + i := byte)) (enumerate 0 ?bs) (bios_data b)"
  have reg: "regioned_addr 0xbfc06ff0 = 0x1fc06ff0"
    by (simp add: regioned_addr_def REGION_MAP_def)
  define n where "n = length ?bs"
  have len: "n \<le> 36" using stub_short [of x] by (simp add: n_def)
  then have "unat (0x1fc06ff0 + word_of_nat n :: u32) = 0x1fc06ff0 + n"
    by (simp add: unat_word_ariths unat_of_nat)
  then have inside: "bus_contains bios_bus (0x1fc06ff0 + word_of_nat n)" "bus_contains bios_bus 0x1fc06ff0"
    using len by (simp_all add: bus_contains_def bios_bus_def BIOS_SIZE_def word_le_nat_alt)
  then have "bios_patch ?bs 0xbfc06ff0 b = Some (b\<lparr>bios_data := ?d\<rparr>)"
    unfolding bios_patch_def reg Let_def n_def [symmetric] bus_offset_def by (simp add: bios_bus_def)
  then have patch: "patch_for_exe x b = Some (b\<lparr>bios_data := ?d\<rparr>)"
    by (simp add: patch_for_exe_def stub_assembles)
  have "read_bytes 4 ?d (28656 + 4 * j) = stub_words x ! j" if j: "j < length (stub_words x)" for j
  proof (rule bit_word_eqI)
    fix n assume n: "n < LENGTH(32)"
    have "?d (28656 + (4 * j + n div 8)) = ?bs ! (4 * j + n div 8)"
      using j n by (intro patch_data) simp
    also have "\<dots> = ucast (drop_bit (8 * (n div 8)) (stub_words x ! j))"
      using j n by (intro word_bytes_nth) simp_all
    finally show "bit (read_bytes 4 ?d (28656 + 4 * j)) n = bit (stub_words x ! j) n"
      using n by (simp add: bit_read_bytes add.assoc bit_simps)
  qed
  then show ?thesis using patch by (simp add: rom_holds_def)
qed

section \<open>Steps in the ROM\<close>

definition at_rom :: "nat \<Rightarrow> ('d, 'g) cpu \<Rightarrow> bool" where
  "at_rom k c \<longleftrightarrow> c_pc c = 0xbfc00000 + word_of_nat k \<and>
     load_delay c = delay_slot_default \<and> c_regs c 0 = 0"

definition straight :: "('d, 'g) cpu \<Rightarrow> bool" where
  "straight c \<longleftrightarrow> c_next_pc c = c_pc c + 4"

fun exec_steps :: "('d, 'g) env \<Rightarrow> nat \<Rightarrow> ('d, 'g) cpu \<Rightarrow> ('d, 'g) cpu option" where
  "exec_steps env 0 c = Some c"
| "exec_steps env (Suc n) c = do { c \<leftarrow> execute_instruction env c; exec_steps env n c }"

lemma exec_steps_add:
  "exec_steps env m c = Some d \<Longrightarrow> exec_steps env (m + n) c = exec_steps env n d"
  by (induction m arbitrary: c) (auto split: bind_splits)

text \<open>One instruction in the ROM that writes one register.\<close>

definition writes_reg :: "('d, 'g) env \<Rightarrow> u32 \<Rightarrow> register \<Rightarrow> (registers \<Rightarrow> u32) \<Rightarrow> bool" where
  "writes_reg env w r f \<longleftrightarrow> (\<forall>c. \<exists>g. exec env w c =
     Some (store_reg r (f (c_regs c)) (fetch_load_slot (upd_sched g c))))"

lemma rom_step:
  assumes "at_rom k c" "k mod 4 = 0" "k + 4 \<le> 0x80000" "rom_holds (b_bios (c_bus c)) k (w # ws)"
    "writes_reg env w r f"
  obtains d where "execute_instruction env c = Some d" "c_pc d = c_next_pc c" "straight d"
    "load_delay d = delay_slot_default" "c_regs d = (c_regs c)(r := f (c_regs c), 0 := 0)"
    "b_bios (c_bus d) = b_bios (c_bus c)"
proof -
  let ?c = "fetched (cycles 28) c"
  have pc: "c_pc c = 0xbfc00000 + word_of_nat k" using assms(1) by (simp add: at_rom_def)
  obtain g where g: "exec env w ?c = Some (store_reg r (f (c_regs ?c)) (fetch_load_slot (upd_sched g ?c)))"
    using assms(5) by (auto simp: writes_reg_def)
  define d where "d = upd_sched (advance (cycles 1)) (store_reg r (f (c_regs ?c)) (fetch_load_slot (upd_sched g ?c)))"
  have regs: "c_regs ?c = c_regs c" by (simp add: fetched_def next_pc_def Let_def)
  have slot: "load_delay ?c = delay_slot_default"
    using assms(1) by (simp add: fetched_def next_pc_def Let_def at_rom_def)
  have zero_reg: "c_regs c 0 = 0" using assms(1) by (simp add: at_rom_def)
  have "execute_instruction env c = Some d"
    using bios_step [OF pc assms(2,3), of env] assms(4) g by (simp add: rom_holds_Cons d_def)
  moreover have "c_regs d = (c_regs c)(r := f (c_regs c), 0 := 0)"
    using zero_reg
    by (intro ext) (simp add: d_def store_reg_def registers_store_def fetch_load_slot_def slot regs
        delay_slot_default_def ZERO_def)
  moreover have "c_pc d = c_next_pc c" "straight d" "load_delay d = delay_slot_default"
    "b_bios (c_bus d) = b_bios (c_bus c)"
    by (simp_all add: straight_def d_def fetched_def next_pc_def Let_def)
  ultimately show thesis using that by blast
qed

lemma sched_twice: "upd_sched f (upd_sched g c) = upd_sched (f \<circ> g) c"
  by (simp add: upd_sched_def)

lemma access_is_sched: "\<exists>g. access_reg r c = upd_sched g c"
  by (auto simp: access_reg_def Let_def)

lemma access_twice: "\<exists>g. access_reg r (access_reg q c) = upd_sched g c"
  using access_is_sched [of r "access_reg q c"] access_is_sched [of q c] by (auto simp: sched_twice)

lemma writes_lui: "r < 32 \<Longrightarrow> writes_reg env (lui_word r v) r (\<lambda>_. push_bit 16 (take_bit 16 v))"
  unfolding writes_reg_def
proof
  fix c :: "('a, 'b) cpu"
  assume r: "r < 32"
  have "exec env (lui_word r v) c = Some (op_lui (lui_word r v) c)" "opc_rt (lui_word r v) = r"
    "opc_imm (lui_word r v) = take_bit 16 v"
    using r by (simp_all add: exec_def lui_word_def word_fields)
  then show "\<exists>g. exec env (lui_word r v) c = Some (store_reg r (push_bit 16 (take_bit 16 v)) (fetch_load_slot (upd_sched g c)))"
    using access_is_sched [of r c] by (auto simp: op_lui_def Let_def)
qed

lemma writes_ori:
  "rt < 32 \<Longrightarrow> rs < 32 \<Longrightarrow> writes_reg env (ori_word rt rs v) rt (\<lambda>regs. regs rs OR take_bit 16 v)"
  unfolding writes_reg_def
proof
  fix c :: "('a, 'b) cpu"
  assume r: "rt < 32" "rs < 32"
  have f: "opc_op (ori_word rt rs v) = 0xd" "opc_rt (ori_word rt rs v) = rt" "opc_rs (ori_word rt rs v) = rs"
    "opc_imm (ori_word rt rs v) = take_bit 16 v"
    using r by (simp_all add: ori_word_def word_fields)
  obtain g where "access_reg rt (access_reg rs c) = upd_sched g c" using access_twice by blast
  then show "\<exists>g. exec env (ori_word rt rs v) c = Some (store_reg rt (c_regs c rs OR take_bit 16 v) (fetch_load_slot (upd_sched g c)))"
    using f by (intro exI [of _ g]) (simp add: exec_def op_ori_def Let_def load_reg_def registers_load_def)
qed

lemma writes_nop: "writes_reg env nop_word 0 (\<lambda>regs. regs 0)"
  unfolding writes_reg_def
proof
  fix c :: "('a, 'b) cpu"
  have f: "opc_op nop_word = 0" "opc_special nop_word = 0" "opc_rt nop_word = 0" "opc_rd nop_word = 0" "opc_shift nop_word = 0"
    by (simp_all add: nop_word_def word_fields ZERO_def)
  obtain g where "access_reg 0 (access_reg 0 c) = upd_sched g c" using access_twice by blast
  then show "\<exists>g. exec env nop_word c = Some (store_reg 0 (c_regs c 0) (fetch_load_slot (upd_sched g c)))"
    using f by (intro exI [of _ g]) (simp add: exec_def exec_special_def op_sll_def Let_def load_reg_def registers_load_def)
qed

section \<open>Straight-line code\<close>

text \<open>The machine stands at offset \<open>k\<close>, in front of the words \<open>ws\<close>, with the registers \<open>regs\<close>.\<close>

definition at_code :: "bios \<Rightarrow> nat \<Rightarrow> u32 list \<Rightarrow> registers \<Rightarrow> ('d, 'g) cpu \<Rightarrow> bool" where
  "at_code b k ws regs c \<longleftrightarrow> at_rom k c \<and> straight c \<and> b_bios (c_bus c) = b \<and> k mod 4 = 0 \<and>
     k + 4 * length ws \<le> 0x80000 \<and> rom_holds b k ws \<and> c_regs c = regs"

lemma code_step:
  assumes "at_code b k (w # ws) regs c" "writes_reg env w r f"
  obtains d where "execute_instruction env c = Some d" "at_code b (k + 4) ws (regs(r := f regs, 0 := 0)) d"
proof -
  have c: "at_rom k c" "straight c" "b_bios (c_bus c) = b" "k mod 4 = 0" "k + 4 \<le> 0x80000"
    "k + 4 * length (w # ws) \<le> 0x80000" "rom_holds b k (w # ws)" "c_regs c = regs"
    using assms(1) by (simp_all add: at_code_def)
  obtain d where d: "execute_instruction env c = Some d" "c_pc d = c_next_pc c" "straight d"
    "load_delay d = delay_slot_default" "c_regs d = (c_regs c)(r := f (c_regs c), 0 := 0)"
    "b_bios (c_bus d) = b_bios (c_bus c)"
    using rom_step [OF c(1,4,5) _ assms(2)] c(3,7) by metis
  have "at_code b (k + 4) ws (regs(r := f regs, 0 := 0)) d"
    using c d by (simp add: at_code_def at_rom_def straight_def rom_holds_Cons add.assoc mod_add_left_eq [symmetric])
  then show thesis using that d(1) by blast
qed

lemma halves: "push_bit 16 (take_bit 16 (bit_range v 16 31)) OR take_bit 16 (bit_range v 0 15) = v" for v :: u32
  by (intro bit_word_eqI) (auto simp: bits_simps bit_simps)

lemma high_half: "bit_range v 0 15 = 0 \<Longrightarrow> push_bit 16 (take_bit 16 (bit_range v 16 31)) = v" for v :: u32
  using halves [of v] by simp

lemma low_half: "bit_range v 16 31 = 0 \<Longrightarrow> take_bit 16 (bit_range v 0 15) = v" for v :: u32
  using halves [of v] by simp

text \<open>\<open>li\<close> loads its constant, whichever of the three forms it takes.\<close>

lemma li_steps:
  assumes "at_code b k (li_words r v @ ws) regs c" "r < 32" "r \<noteq> 0" "regs 0 = 0"
  obtains d where "exec_steps env (length (li_words r v)) c = Some d"
    "at_code b (k + 4 * length (li_words r v)) ws (regs(r := v)) d"
proof -
  consider (both) "bit_range v 16 31 \<noteq> 0" "bit_range v 0 15 \<noteq> 0"
    | (hi) "bit_range v 16 31 \<noteq> 0" "bit_range v 0 15 = 0" | (lo) "bit_range v 16 31 = 0" by blast
  then show thesis
  proof cases
    case both
    then have w: "li_words r v = [lui_word r (bit_range v 16 31), ori_word r r (bit_range v 0 15)]"
      by (simp add: li_words_def Let_def)
    obtain c1 where c1: "execute_instruction env c = Some c1"
      "at_code b (k + 4) (ori_word r r (bit_range v 0 15) # ws)
        (regs(r := push_bit 16 (take_bit 16 (bit_range v 16 31)), 0 := 0)) c1"
      using code_step [OF assms(1) [unfolded w append_Cons] writes_lui [OF assms(2)], of env] by (metis append_Nil)
    obtain c2 where c2: "execute_instruction env c1 = Some c2"
      "at_code b (k + 4 + 4) ws (regs(r := push_bit 16 (take_bit 16 (bit_range v 16 31)), 0 := 0,
         r := push_bit 16 (take_bit 16 (bit_range v 16 31)) OR take_bit 16 (bit_range v 0 15), 0 := 0)) c2"
      using code_step [OF c1(2) writes_ori [OF assms(2,2)], of env] assms(3) by auto
    have "at_code b (k + 4 * length (li_words r v)) ws (regs(r := v)) c2"
      using c2(2) assms(3,4) unfolding halves w by (simp add: add.assoc fun_upd_twist fun_upd_idem)
    then show thesis using that c1(1) c2(1) w by simp
  next
    case hi
    then have w: "li_words r v = [lui_word r (bit_range v 16 31)]" by (simp add: li_words_def Let_def)
    obtain c1 where c1: "execute_instruction env c = Some c1"
      "at_code b (k + 4) ws (regs(r := push_bit 16 (take_bit 16 (bit_range v 16 31)), 0 := 0)) c1"
      using code_step [OF assms(1) [unfolded w append_Cons append_Nil] writes_lui [OF assms(2)], of env] by auto
    then show thesis using that w hi(2) assms(3,4) by (simp add: high_half fun_upd_twist fun_upd_idem)
  next
    case lo
    then have w: "li_words r v = [ori_word r ZERO (bit_range v 0 15)]" by (simp add: li_words_def Let_def)
    have z: "ZERO < 32" by (simp add: ZERO_def)
    obtain c1 where c1: "execute_instruction env c = Some c1"
      "at_code b (k + 4) ws (regs(r := regs ZERO OR take_bit 16 (bit_range v 0 15), 0 := 0)) c1"
      using code_step [OF assms(1) [unfolded w append_Cons append_Nil] writes_ori [OF assms(2) z], of env] by auto
    then show thesis using that w lo assms(3,4) by (simp add: low_half fun_upd_twist fun_upd_idem ZERO_def)
  qed
qed

text \<open>\<open>jr $t0\<close> with its delay slot.\<close>

lemma jump_steps:
  assumes "at_code b k (ins_rs 8 (ins_special 0x8) # w # ws) regs c" "writes_reg env w r f"
  obtains d where "exec_steps env 2 c = Some d" "c_pc d = regs 8" "straight d"
    "c_regs d = regs(r := f regs, 0 := 0)"
proof -
  let ?j = "ins_rs 8 (ins_special 0x8)" and ?c = "fetched (cycles 28) c"
  have c: "at_rom k c" "straight c" "b_bios (c_bus c) = b" "k mod 4 = 0" "k + 8 \<le> 0x80000"
    "rom_holds b k (?j # w # ws)" "c_regs c = regs"
    using assms(1) by (simp_all add: at_code_def)
  have pc: "c_pc c = 0xbfc00000 + word_of_nat k" using c(1) by (simp add: at_rom_def)
  have op: "exec env ?j ?c = Some (op_jr ?j ?c)" "opc_rs ?j = 8"
    by (simp_all add: exec_def exec_special_def word_fields)
  define d where "d = upd_sched (advance (cycles 1)) (op_jr ?j ?c)"
  have d: "execute_instruction env c = Some d"
    using bios_step [OF pc c(4), of env] c(3,5,6) op(1) by (simp add: rom_holds_Cons d_def)
  have slot: "load_delay c = delay_slot_default" "c_regs c 0 = 0" using c(1) by (simp_all add: at_rom_def)
  have regs: "c_regs d = regs"
    using slot c(7) op(2)
    by (intro ext) (simp add: d_def op_jr_def Let_def fetch_load_slot_def store_reg_def registers_store_def
        fetched_def next_pc_def delay_slot_default_def ZERO_def)
  have "c_next_pc d = regs 8" "c_pc d = c_pc c + 4" "load_delay d = delay_slot_default" "b_bios (c_bus d) = b"
    using op(2) c(2,3,7)
    by (simp_all add: d_def op_jr_def Let_def fetched_def next_pc_def jump_def load_reg_def registers_load_def straight_def
        access_reg_def)
  then have at: "at_rom (k + 4) d" and nxt: "c_next_pc d = regs 8" and rom: "rom_holds (b_bios (c_bus d)) (k + 4) (w # ws)"
    using pc slot(2) regs c(6,7) by (simp_all add: at_rom_def rom_holds_Cons)
  have k4: "(k + 4) mod 4 = 0" "k + 4 + 4 \<le> 0x80000" using c(4,5) by simp_all
  obtain e where "execute_instruction env d = Some e" "c_pc e = c_next_pc d" "straight e"
    "c_regs e = (c_regs d)(r := f (c_regs d), 0 := 0)"
    using rom_step [OF at k4 rom assms(2)] by metis
  then show thesis using that d regs nxt by (simp add: numeral_2_eq_2)
qed

lemma sp_halves:
  "push_bit 16 (take_bit 16 (drop_bit 16 v)) OR take_bit 16 (v AND 0xffff) = v" for v :: u32
proof -
  have "(0xffff :: u32) = mask 16" by (simp add: mask_numeral)
  then have "v AND 0xffff = take_bit 16 v" by (simp only: take_bit_eq_mask)
  then show ?thesis by (intro bit_word_eqI) (auto simp: bit_simps)
qed

lemma tail_steps:
  assumes "at_code b k (tail_words sp) regs c" "regs 0 = 0"
  obtains d where "exec_steps env (length (tail_words sp)) c = Some d" "c_pc d = regs 8" "straight d"
    "c_regs d = (case sp of Some v \<Rightarrow> regs(29 := v, 30 := v) | None \<Rightarrow> regs)"
proof (cases sp)
  case None
  then have w: "tail_words sp = [nop_word, nop_word, nop_word, ins_rs 8 (ins_special 0x8), nop_word]"
    by (simp add: tail_words_def)
  have idem: "regs(0 := regs 0, 0 := 0) = regs" using assms(2) by (simp add: fun_upd_idem)
  obtain c1 where c1: "execute_instruction env c = Some c1"
    "at_code b (k + 4) [nop_word, nop_word, ins_rs 8 (ins_special 0x8), nop_word] regs c1"
    using code_step [OF assms(1) [unfolded w] writes_nop, of env] unfolding idem by auto
  obtain c2 where c2: "execute_instruction env c1 = Some c2"
    "at_code b (k + 4 + 4) [nop_word, ins_rs 8 (ins_special 0x8), nop_word] regs c2"
    using code_step [OF c1(2) writes_nop, of env] unfolding idem by auto
  obtain c3 where c3: "execute_instruction env c2 = Some c3"
    "at_code b (k + 4 + 4 + 4) [ins_rs 8 (ins_special 0x8), nop_word] regs c3"
    using code_step [OF c2(2) writes_nop, of env] unfolding idem by auto
  obtain d where d: "exec_steps env 2 c3 = Some d" "c_pc d = regs 8" "straight d" "c_regs d = regs"
    using jump_steps [OF c3(2) writes_nop, of env] unfolding idem by auto
  have "exec_steps env (length (tail_words sp)) c = Some d"
    using c1(1) c2(1) c3(1) d(1) by (simp add: w numeral_2_eq_2)
  then show thesis using that d None by simp
next
  case (Some v)
  let ?ws = "[lui_word 30 (drop_bit 16 v), ins_rs 8 (ins_special 0x8), ori_word 30 30 (v AND 0xffff)]"
  have w: "tail_words sp = li_words 29 v @ ?ws" using Some by (simp add: tail_words_def)
  obtain c1 where c1: "exec_steps env (length (li_words 29 v)) c = Some c1"
    "at_code b (k + 4 * length (li_words 29 v)) ?ws (regs(29 := v)) c1"
    using li_steps [OF assms(1) [unfolded w] _ _ assms(2), of env] by auto
  have r30: "(30 :: register) < 32" by simp
  let ?r = "regs(29 := v, 30 := push_bit 16 (take_bit 16 (drop_bit 16 v)), 0 := 0)"
  obtain c2 where c2: "execute_instruction env c1 = Some c2"
    "at_code b (k + 4 * length (li_words 29 v) + 4)
       [ins_rs 8 (ins_special 0x8), ori_word 30 30 (v AND 0xffff)] ?r c2"
    using code_step [OF c1(2) writes_lui [OF r30], of env] by auto
  obtain d where d: "exec_steps env 2 c2 = Some d" "c_pc d = ?r 8" "straight d"
    "c_regs d = ?r(30 := ?r 30 OR take_bit 16 (v AND 0xffff), 0 := 0)"
    using jump_steps [OF c2(2) writes_ori [OF r30 r30], of env] by metis
  have "exec_steps env 3 c1 = Some d" using c2(1) d(1) by (simp add: numeral_3_eq_3 numeral_2_eq_2)
  then have "exec_steps env (length (tail_words sp)) c = Some d"
    using exec_steps_add [OF c1(1), of 3] by (simp add: w eval_nat_numeral del: exec_steps.simps)
  moreover have "c_regs d = regs(29 := v, 30 := v)"
    using assms(2) d(4) sp_halves [of v] by (intro ext) simp
  ultimately show thesis using that d(2,3) Some by simp
qed

text \<open>C21: An executable boots. For every executable and every BIOS the stub assembles, fits in the
  ROM and can be patched in; a machine that stands at the start of the stub (no load in
  flight) reaches the entry point of the executable after at most nine instructions, with
  the global pointer, the stack pointer and the frame pointer of the executable in their
  registers, and with the stack registers untouched when the header gives none.\<close>

theorem exe_boots:
  assumes "c_pc c = 0xbfc06ff0" "c_next_pc c = c_pc c + 4" "load_delay c = delay_slot_default" "load_reg 0 c = 0"
    "b_bios (c_bus c) = the (patch_for_exe x b)"
  shows "patch_for_exe x b \<noteq> None \<and>
    (\<exists>n d. n \<le> 9 \<and> exec_steps env n c = Some d \<and> c_pc d = x_pc x \<and> c_next_pc d = x_pc x + 4 \<and>
       load_reg 28 d = x_gp x \<and>
       (case x_sp x of
          Some sp \<Rightarrow> load_reg 29 d = sp \<and> load_reg 30 d = sp
        | None \<Rightarrow> load_reg 29 d = load_reg 29 c \<and> load_reg 30 d = load_reg 30 c))"
proof -
  let ?m = "length (li_words 8 (x_pc x))" and ?n = "length (li_words 28 (x_gp x))"
  obtain rom where rom: "patch_for_exe x b = Some rom" "rom_holds rom 0x6ff0 (stub_words x)"
    using stub_patched by blast
  have zero: "c_regs c 0 = 0" using assms(4) by (simp add: load_reg_def registers_load_def)
  have at: "at_code rom 0x6ff0 (li_words 8 (x_pc x) @ li_words 28 (x_gp x) @ tail_words (x_sp x)) (c_regs c) c"
    using assms rom zero stub_short [of x]
    by (simp add: at_code_def at_rom_def straight_def stub_words_def)
  obtain c1 where c1: "exec_steps env ?m c = Some c1"
    "at_code rom (0x6ff0 + 4 * ?m) (li_words 28 (x_gp x) @ tail_words (x_sp x)) ((c_regs c)(8 := x_pc x)) c1"
    using li_steps [OF at _ _ zero, of env] by auto
  obtain c2 where c2: "exec_steps env ?n c1 = Some c2"
    "at_code rom (0x6ff0 + 4 * ?m + 4 * ?n) (tail_words (x_sp x)) ((c_regs c)(8 := x_pc x, 28 := x_gp x)) c2"
    using li_steps [OF c1(2), of env] zero by auto
  obtain d where d: "exec_steps env (length (tail_words (x_sp x))) c2 = Some d" "c_pc d = x_pc x" "straight d"
    "c_regs d = (case x_sp x of Some v \<Rightarrow> ((c_regs c)(8 := x_pc x, 28 := x_gp x))(29 := v, 30 := v)
       | None \<Rightarrow> (c_regs c)(8 := x_pc x, 28 := x_gp x))"
    using tail_steps [OF c2(2), of env] zero by auto
  have "exec_steps env (?m + (?n + length (tail_words (x_sp x)))) c = Some d"
    using c1(1) c2(1) d(1) by (simp add: exec_steps_add)
  then have "exec_steps env (length (stub_words x)) c = Some d" by (simp add: stub_words_def add.assoc)
  then show ?thesis
    using rom(1) d stub_short [of x]
    by (intro conjI exI [of _ "length (stub_words x)"] exI [of _ d])
       (auto simp: straight_def load_reg_def registers_load_def split: option.split)
qed

definition demo_exe :: exe where
  "demo_exe = \<lparr>x_text = [], x_pc = 0x80010000, x_gp = 0, x_text_size = 0, x_text_base = 0x80010000,
     x_bss_size = 0, x_bss_base = 0, x_sp = Some 0x801ffff0\<rparr>"

definition demo_cpu :: "(unit, unit) cpu" where
  "demo_cpu = jump_cpu\<lparr>c_pc := 0xbfc06ff0, c_next_pc := 0xbfc06ff4,
     c_bus := (c_bus jump_cpu)\<lparr>b_bios := the (patch_for_exe demo_exe jump_bios)\<rparr>\<rparr>"

theorem exe_boots_witness:
  "\<forall>env. \<exists>n d. n \<le> 9 \<and> exec_steps env n demo_cpu = Some d \<and> c_pc d = 0x80010000 \<and> load_reg 29 d = 0x801ffff0"
proof
  fix env
  have c: "c_pc demo_cpu = 0xbfc06ff0" "c_next_pc demo_cpu = c_pc demo_cpu + 4"
    "load_delay demo_cpu = delay_slot_default" "load_reg 0 demo_cpu = 0"
    "b_bios (c_bus demo_cpu) = the (patch_for_exe demo_exe jump_bios)"
    by (simp_all add: demo_cpu_def jump_cpu_def cpu_new_def load_reg_def registers_load_def)
  show "\<exists>n d. n \<le> 9 \<and> exec_steps env n demo_cpu = Some d \<and> c_pc d = 0x80010000 \<and> load_reg 29 d = 0x801ffff0"
    using exe_boots [OF c, of env] by (auto simp: demo_exe_def)
qed

end
