(* ===== verification/GpuTypes.thy ===== *)
theory GpuTypes
  imports GpuFifo SysTime
begin

text \<open>
  The data of the GPU: colours, points and texels (\<open>gpu/primitive.rs\<close>), video memory
  (\<open>gpu/vram.rs\<close>), the colour table cache (\<open>gpu/texture.rs\<close>), and of \<open>gpu/mod.rs\<close> the
  status register, the memory transfers and the state of the GPU.

  Coordinates have type \<open>i32\<close> in the code. They come from fields of at most eleven bits to
  which an offset of eleven bits is added, so they are integers here; \<open>offset_16\<close> reduces
  them modulo the size of the memory.
\<close>

section \<open>Points, colours, texels\<close>

record point =
  px :: int
  py :: int

definition point_default :: point where "point_default = \<lparr>px = 0, py = 0\<rparr>"

definition sign_extend_11 :: "u32 \<Rightarrow> int" where
  "sign_extend_11 val = sint (signed_drop_bit 21 (push_bit 21 val) :: i32)"

definition point_from_cmd :: "u32 \<Rightarrow> point" where
  "point_from_cmd val = \<lparr>px = sign_extend_11 val, py = sign_extend_11 (drop_bit 16 val)\<rparr>"

definition with_offset :: "int \<Rightarrow> int \<Rightarrow> point \<Rightarrow> point" where
  "with_offset x y p = \<lparr>px = px p + x, py = py p + y\<rparr>"

record tex_coord =
  tc_u :: u8
  tc_v :: u8

definition tex_coord_default :: tex_coord where "tex_coord_default = \<lparr>tc_u = 0, tc_v = 0\<rparr>"

record color =
  col_r :: u8
  col_g :: u8
  col_b :: u8

definition color_default :: color where "color_default = \<lparr>col_r = 0, col_g = 0, col_b = 0\<rparr>"

definition color_from_u16 :: "u16 \<Rightarrow> color" where
  "color_from_u16 val =
     \<lparr>col_r = ucast (push_bit 3 (bit_range val 0 4)),
      col_g = ucast (push_bit 3 (bit_range val 5 9)),
      col_b = ucast (push_bit 3 (bit_range val 10 14))\<rparr>"

definition color_from_cmd :: "u32 \<Rightarrow> color" where
  "color_from_cmd cmd =
     \<lparr>col_r = ucast (bit_range cmd 0 7), col_g = ucast (bit_range cmd 8 15), col_b = ucast (bit_range cmd 16 23)\<rparr>"

definition color_as_u16 :: "color \<Rightarrow> u16" where
  "color_as_u16 c =
     drop_bit 3 (ucast (col_r c AND 0xf8)) OR push_bit 2 (ucast (col_g c AND 0xf8))
       OR push_bit 7 (ucast (col_b c AND 0xf8))"

text \<open>A function of two channels applied to the three channels of two colours.\<close>

definition map_channels :: "(u8 \<Rightarrow> u8 \<Rightarrow> u8) \<Rightarrow> color \<Rightarrow> color \<Rightarrow> color" where
  "map_channels f a b =
     \<lparr>col_r = f (col_r a) (col_r b), col_g = f (col_g a) (col_g b), col_b = f (col_b a) (col_b b)\<rparr>"

definition saturating_add_8 :: "u8 \<Rightarrow> u8 \<Rightarrow> u8" where
  "saturating_add_8 a b = word_of_nat (min 255 (unat a + unat b))"

definition saturating_sub_8 :: "u8 \<Rightarrow> u8 \<Rightarrow> u8" where
  "saturating_sub_8 a b = word_of_nat (unat a - unat b)"

definition shade_blend :: "color \<Rightarrow> color \<Rightarrow> color" where
  "shade_blend = map_channels (\<lambda>a b. word_of_nat (min 255 (unat a * unat b div 128)))"

definition avg_blend :: "color \<Rightarrow> color \<Rightarrow> color" where
  "avg_blend = map_channels (\<lambda>a b. saturating_add_8 (a div 2) (b div 2))"

definition add_blend :: "color \<Rightarrow> color \<Rightarrow> color" where
  "add_blend = map_channels (\<lambda>a b. saturating_add_8 b a)"

definition sub_blend :: "color \<Rightarrow> color \<Rightarrow> color" where
  "sub_blend = map_channels (\<lambda>a b. saturating_sub_8 b a)"

definition clamp_255 :: "int \<Rightarrow> u8" where
  "clamp_255 v = word_of_int (max 0 (min 255 v))"

definition add_div_blend :: "color \<Rightarrow> color \<Rightarrow> color" where
  "add_div_blend = map_channels (\<lambda>a b. clamp_255 (uint b + uint (a div 4)))"

definition DITHER_LUT :: "int list list" where
  "DITHER_LUT = [[-4, 0, -3, 1], [2, -2, 3, -1], [-3, 1, -4, 0], [3, -1, 2, -2]]"

definition dither :: "int \<Rightarrow> int \<Rightarrow> color \<Rightarrow> color" where
  "dither x y c =
     (let d = DITHER_LUT ! nat (y mod 4) ! nat (x mod 4)
      in \<lparr>col_r = clamp_255 (uint (col_r c) + d), col_g = clamp_255 (uint (col_g c) + d),
          col_b = clamp_255 (uint (col_b c) + d)\<rparr>)"

type_synonym texel = u16

definition texel_is_transparent :: "texel \<Rightarrow> bool" where "texel_is_transparent t = bit_at t 15"
definition texel_is_invisible :: "texel \<Rightarrow> bool" where "texel_is_invisible t \<longleftrightarrow> t = 0"

datatype trans_blend = Avg | AddBlend | SubBlend | AddDiv

text \<open>
  The arguments of \<open>from_value\<close> here and of the matches on two-bit fields below have two
  bits (\<open>two_bits\<close>), so the last value stands for the arms that are left, of which
  \<open>unreachable!\<close> is dead.
\<close>

lemma two_bits: "bit_range s n (Suc n) \<in> {0, 1, 2, 3}" for s :: u32
proof -
  have "unat (bit_range s n (Suc n)) < 4" using unat_bit_range_less [of n "Suc n" s] by simp
  then have "unat (bit_range s n (Suc n)) \<in> {0, 1, 2, 3}" by auto
  then show ?thesis by (auto simp: word_unat_eq_iff)
qed

definition trans_blend_from_value :: "u32 \<Rightarrow> trans_blend" where
  "trans_blend_from_value v =
     (if v = 0 then Avg else if v = 1 then AddBlend else if v = 2 then SubBlend else AddDiv)"

fun blend :: "trans_blend \<Rightarrow> color \<Rightarrow> color \<Rightarrow> color" where
  "blend Avg a b = avg_blend a b"
| "blend AddBlend a b = add_blend a b"
| "blend SubBlend a b = sub_blend a b"
| "blend AddDiv a b = add_div_blend a b"

section \<open>Video memory\<close>

type_synonym vram = "nat \<Rightarrow> u16"

definition VRAM_SIZE :: nat where "VRAM_SIZE = 1024 * 512"

definition vram_new :: vram where "vram_new = (\<lambda>_. 0)"

definition offset_16 :: "int \<Rightarrow> int \<Rightarrow> nat" where
  "offset_16 x y = nat ((x + y * 1024) mod int VRAM_SIZE)"

definition load_16 :: "int \<Rightarrow> int \<Rightarrow> vram \<Rightarrow> u16" where
  "load_16 x y v = v (offset_16 x y)"

definition store_16 :: "int \<Rightarrow> int \<Rightarrow> u16 \<Rightarrow> vram \<Rightarrow> vram" where
  "store_16 x y val v = v(offset_16 x y := val)"

definition to_rgba :: "vram \<Rightarrow> u8 list" where
  "to_rgba v = concat (map (\<lambda>y. concat (map (\<lambda>x.
     let c = color_from_u16 (load_16 (int x) (int y) v)
     in [push_bit 3 (col_r c), push_bit 3 (col_g c), push_bit 3 (col_b c), 255]) [0..<1024])) [0..<512])"

text \<open>The mask \<open>Vram::SIZE - 1\<close> keeps every access in the array.\<close>

lemma offset_16_less: "offset_16 x y < VRAM_SIZE"
  by (simp add: offset_16_def VRAM_SIZE_def nat_less_iff)

section \<open>The colour table cache\<close>

datatype texel_depth = B4 | B8 | B15

fun depth_bits :: "texel_depth \<Rightarrow> nat" where
  "depth_bits B4 = 4" | "depth_bits B8 = 8" | "depth_bits B15 = 15"

definition texel_depth_from_value :: "u32 \<Rightarrow> texel_depth" where
  "texel_depth_from_value v = (if v = 0 then B4 else if v = 1 then B8 else B15)"

record clut_cache =
  clut_data :: "nat \<Rightarrow> u16"
  clut_status :: "(point \<times> texel_depth) option"

definition clut_cache_default :: clut_cache where
  "clut_cache_default = \<lparr>clut_data = (\<lambda>_. 0), clut_status = None\<rparr>"

definition clut_holds :: "point \<Rightarrow> texel_depth \<Rightarrow> clut_cache \<Rightarrow> bool" where
  "clut_holds pos depth cc =
     (case clut_status cc of
        Some (prev_pos, prev_depth) \<Rightarrow> depth_bits depth \<le> depth_bits prev_depth \<and> pos = prev_pos
      | None \<Rightarrow> False)"

definition clut_maybe_fetch :: "point \<Rightarrow> texel_depth \<Rightarrow> vram \<Rightarrow> clut_cache \<Rightarrow> clut_cache option" where
  "clut_maybe_fetch pos depth v cc =
     (if clut_holds pos depth cc then Some cc
      else (let fetch = (\<lambda>load. Some \<lparr>
                  clut_data = (\<lambda>i. if i < load then load_16 (px pos + int i) (py pos) v else clut_data cc i),
                  clut_status = Some (pos, depth)\<rparr>)
            in case depth of B4 \<Rightarrow> fetch 16 | B8 \<Rightarrow> fetch 256 | B15 \<Rightarrow> None))"

definition clut_clear :: "clut_cache \<Rightarrow> clut_cache" where
  "clut_clear cc = cc\<lparr>clut_status := None\<rparr>"

definition clut_get :: "int \<Rightarrow> clut_cache \<Rightarrow> texel" where
  "clut_get offset cc = clut_data cc (nat offset)"

section \<open>The status register\<close>

type_synonym status = u32

datatype dma_dir = DirOff | DirFifo | CpuToGp0 | VramToCpu
datatype interlace_field = BottomField | TopField
datatype video_mode = Ntsc | Pal
datatype vertical_res = P240 | P480

definition tex_page_x :: "status \<Rightarrow> int" where "tex_page_x s = uint (bit_range s 0 3) * 64"
definition tex_page_y :: "status \<Rightarrow> int" where "tex_page_y s = of_bool (bit_at s 4) * 256"
definition blend_mode :: "status \<Rightarrow> trans_blend" where
  "blend_mode s = trans_blend_from_value (bit_range s 5 6)"
definition st_texel_depth :: "status \<Rightarrow> texel_depth" where
  "st_texel_depth s = texel_depth_from_value (bit_range s 7 8)"
definition dithering_enabled :: "status \<Rightarrow> bool" where "dithering_enabled s = bit_at s 9"
definition draw_to_display :: "status \<Rightarrow> bool" where "draw_to_display s = bit_at s 10"
definition interlace_field :: "status \<Rightarrow> interlace_field" where
  "interlace_field s = (if bit_at s 13 then TopField else BottomField)"
definition vertical_res :: "status \<Rightarrow> vertical_res" where
  "vertical_res s = (if bit_at s 19 then P480 else P240)"
definition video_mode :: "status \<Rightarrow> video_mode" where
  "video_mode s = (if bit_at s 20 then Pal else Ntsc)"
definition vertical_interlace :: "status \<Rightarrow> bool" where "vertical_interlace s = bit_at s 22"
definition vram_to_cpu_ready :: "status \<Rightarrow> bool" where "vram_to_cpu_ready s = bit_at s 27"
definition st_dma_block_ready :: "status \<Rightarrow> bool" where "st_dma_block_ready s = bit_at s 28"
definition dma_direction :: "status \<Rightarrow> dma_dir" where
  "dma_direction s =
     (let d = bit_range s 29 30
      in if d = 0 then DirOff else if d = 1 then DirFifo else if d = 2 then CpuToGp0 else VramToCpu)"
definition interlaced_480 :: "status \<Rightarrow> bool" where
  "interlaced_480 s \<longleftrightarrow> vertical_interlace s \<and> vertical_res s = P480"

definition scanline_time :: "status \<Rightarrow> systime" where
  "scanline_time s = (case video_mode s of Ntsc \<Rightarrow> from_gpu_ntsc_cycles 3413 | Pal \<Rightarrow> from_gpu_pal_cycles 3405)"

definition scanline_count :: "status \<Rightarrow> u16" where
  "scanline_count s =
     (if vertical_interlace s
      then (let count = (case video_mode s of Ntsc \<Rightarrow> 263 | Pal \<Rightarrow> 313)
            in if interlace_field s = BottomField then count - 1 else count)
      else (case video_mode s of Ntsc \<Rightarrow> 263 | Pal \<Rightarrow> 314))"

section \<open>Transfers and the state\<close>

record mem_transfer =
  mt_x :: int
  mt_y :: int
  mt_x_start :: int
  mt_x_end :: int
  mt_y_end :: int

definition transfer_new :: "int \<Rightarrow> int \<Rightarrow> int \<Rightarrow> int \<Rightarrow> mem_transfer" where
  "transfer_new x y w h = \<lparr>mt_x = x, mt_y = y, mt_x_start = x, mt_x_end = x + w, mt_y_end = y + h\<rparr>"

definition transfer_next :: "mem_transfer \<Rightarrow> mem_transfer" where
  "transfer_next t =
     (if mt_x t + 1 = mt_x_end t then t\<lparr>mt_x := mt_x_start t, mt_y := mt_y t + 1\<rparr>
      else t\<lparr>mt_x := mt_x t + 1\<rparr>)"

definition transfer_is_done :: "mem_transfer \<Rightarrow> bool" where
  "transfer_is_done t \<longleftrightarrow> mt_y t \<ge> mt_y_end t"

datatype gpu_state = Idle | Drawing | VramStore mem_transfer | VramLoad mem_transfer

definition is_vram_load :: "gpu_state \<Rightarrow> bool" where
  "is_vram_load s = (case s of VramLoad _ \<Rightarrow> True | _ \<Rightarrow> False)"

definition is_idle :: "gpu_state \<Rightarrow> bool" where
  "is_idle s = (case s of Idle \<Rightarrow> True | _ \<Rightarrow> False)"

text \<open>
  \<open>Gpu\<close>. The picture output is the list of frames sent to it, each with the first column
  and line to show.
\<close>

record gpu =
  g_state :: gpu_state
  g_clut :: clut_cache
  g_fifo :: gpu_fifo
  g_vram :: vram
  g_status :: status
  g_read :: u32
  tex_x_flip :: bool
  tex_y_flip :: bool
  tex_win_w :: u8
  tex_win_h :: u8
  tex_win_x :: u8
  tex_win_y :: u8
  da_x_max :: int
  da_x_min :: int
  da_y_max :: int
  da_y_min :: int
  x_offset :: int
  y_offset :: int
  vram_x_start :: u16
  vram_y_start :: u16
  dis_x_start :: u16
  dis_x_end :: u16
  dis_y_start :: u16
  dis_y_end :: u16
  g_scanline :: u16
  g_scanline_count :: u16
  g_scanline_time :: systime
  g_in_vblank :: bool
  g_scanline_event :: u64
  g_frames :: "((u32 \<times> u32) \<times> vram) list"

end
