(* ===== verification/GpuDraw.thy ===== *)
theory GpuDraw
  imports GpuTypes "HOL-Library.Monad_Syntax"
begin

text \<open>
  \<open>gpu/rasterize.rs\<close>: drawing into video memory. The edge functions that decide which pixels
  of a triangle are drawn are integers; colours and texture coordinates are interpolated
  in \<open>f32\<close> and drawing times computed in \<open>f64\<close>. The floating-point operations are a
  parameter of the model (a record \<open>float_ops\<close> for each width) and the order in which the
  code applies them is written out. The vectors of the code are lists of four lanes.
  The type parameters of a draw call (\<open>draw_mode\<close> of \<open>gp0.rs\<close>) are the record \<open>draw_mode\<close>.
\<close>

record 'f float_ops =
  fl_of_int :: "int \<Rightarrow> 'f"
  fl_ratio :: "int \<Rightarrow> int \<Rightarrow> 'f"
  fl_add :: "'f \<Rightarrow> 'f \<Rightarrow> 'f"
  fl_sub :: "'f \<Rightarrow> 'f \<Rightarrow> 'f"
  fl_mul :: "'f \<Rightarrow> 'f \<Rightarrow> 'f"
  fl_div :: "'f \<Rightarrow> 'f \<Rightarrow> 'f"
  fl_to_uint :: "nat \<Rightarrow> 'f \<Rightarrow> nat"

record ('f, 'd) gpu_env =
  e_f32 :: "'f float_ops"
  e_f64 :: "'d float_ops"

record draw_mode =
  is_shaded :: bool
  is_textured :: bool
  is_raw :: bool
  is_transparent :: bool

definition mode_of :: "bool \<Rightarrow> bool \<Rightarrow> bool \<Rightarrow> bool \<Rightarrow> draw_mode" where
  "mode_of shaded textured raw transparent =
     \<lparr>is_shaded = shaded, is_textured = textured, is_raw = raw, is_transparent = transparent\<rparr>"

section \<open>Pixels\<close>

definition draw_pixel :: "draw_mode \<Rightarrow> int \<Rightarrow> int \<Rightarrow> color \<Rightarrow> bool \<Rightarrow> gpu \<Rightarrow> gpu" where
  "draw_pixel m x y col masked g =
     (let col = (if \<not> is_transparent m then col
                 else let bg = color_from_u16 (load_16 x y (g_vram g))
                      in if is_textured m
                         then (if masked then blend (blend_mode (g_status g)) col bg else col)
                         else blend (blend_mode (g_status g)) col bg)
      in g\<lparr>g_vram := store_16 x y (color_as_u16 col) (g_vram g)\<rparr>)"

text \<open>\<open>TexParamCache\<close>: the masks of the texture window.\<close>

definition tex_window_mask :: "u8 \<Rightarrow> u8 \<Rightarrow> u8" where
  "tex_window_mask extent start = NOT (extent * 8) OR ((start AND extent) * 8)"

definition load_texel :: "tex_coord \<Rightarrow> u8 \<times> u8 \<Rightarrow> gpu \<Rightarrow> texel" where
  "load_texel coord win g =
     (let u = uint (tc_u coord AND fst win); v = uint (tc_v coord AND snd win);
          page_x = tex_page_x (g_status g); page_y = tex_page_y (g_status g)
      in case st_texel_depth (g_status g) of
           B4 \<Rightarrow> (let val = load_16 (page_x + u div 4) (page_y + v) (g_vram g);
                      offset = uint (drop_bit (nat (u mod 4) * 4) val AND 0xf)
                  in clut_get offset (g_clut g))
         | B8 \<Rightarrow> (let val = load_16 (page_x + u div 2) (page_y + v) (g_vram g);
                      offset = uint (drop_bit (nat (u mod 2) * 8) val AND 0xff)
                  in clut_get offset (g_clut g))
         | B15 \<Rightarrow> load_16 (page_x + u) (page_y + v) (g_vram g))"

definition fetch_clut :: "point \<Rightarrow> gpu \<Rightarrow> gpu option" where
  "fetch_clut clut g =
     (let depth = st_texel_depth (g_status g)
      in if depth = B4 \<or> depth = B8
         then map_option (\<lambda>cc. g\<lparr>g_clut := cc\<rparr>) (clut_maybe_fetch clut depth (g_vram g) (g_clut g))
         else Some g)"

section \<open>Drawing times\<close>

text \<open>\<open>cycles + (pixels as f64 * pixel_cost) as u64\<close>, with half the pixels in interlaced mode.\<close>

definition draw_cost :: "'d float_ops \<Rightarrow> u64 \<Rightarrow> 'd \<Rightarrow> nat \<Rightarrow> gpu \<Rightarrow> u64" where
  "draw_cost fl cycles cost pixels g =
     (let pixels = (if \<not> draw_to_display (g_status g) \<and> interlaced_480 (g_status g) then pixels div 2 else pixels)
      in cycles + word_of_nat (fl_to_uint fl 64 (fl_mul fl (fl_of_int fl (int pixels)) cost)))"

definition triangle_draw_time :: "'d float_ops \<Rightarrow> draw_mode \<Rightarrow> nat \<Rightarrow> gpu \<Rightarrow> u64" where
  "triangle_draw_time fl m pixels g =
     (let cycles = (if is_shaded m then 300 else 0) + (if is_textured m then 150 else 0);
          cost = fl_ratio fl 1 1;
          cost = (if is_textured m \<or> is_shaded m then fl_add fl cost (fl_ratio fl 8 10) else cost);
          cost = (if is_transparent m then fl_add fl cost (fl_ratio fl 3 10) else cost)
      in draw_cost fl cycles cost pixels g)"

definition rect_draw_time :: "'d float_ops \<Rightarrow> draw_mode \<Rightarrow> nat \<Rightarrow> gpu \<Rightarrow> u64" where
  "rect_draw_time fl m pixels g =
     (let cost = fl_ratio fl 1 1;
          cost = (if is_textured m then fl_add fl cost (fl_ratio fl 4 10) else cost);
          cost = (if is_transparent m then fl_add fl cost (fl_ratio fl 2 10) else cost)
      in draw_cost fl 30 cost pixels g)"

definition line_draw_time :: "'d float_ops \<Rightarrow> draw_mode \<Rightarrow> nat \<Rightarrow> gpu \<Rightarrow> u64" where
  "line_draw_time fl m pixels g =
     (let cost = fl_ratio fl 1 1;
          cost = (if is_shaded m then fl_add fl cost (fl_ratio fl 5 10) else cost);
          cost = (if is_transparent m then fl_add fl cost (fl_ratio fl 5 10) else cost)
      in draw_cost fl 30 cost pixels g)"

section \<open>Triangles\<close>

definition edge_function :: "point \<Rightarrow> point \<Rightarrow> point \<Rightarrow> int" where
  "edge_function a b c = (px b - px a) * (py c - py a) - (py b - py a) * (px c - px a)"

definition is_top_left :: "point \<Rightarrow> point \<Rightarrow> bool" where
  "is_top_left a b \<longleftrightarrow> (let dx = px b - px a; dy = py a - py b in dy < 0 \<or> dy = 0 \<and> dx < 0)"

record vertex =
  v_point :: point
  v_color :: color
  v_coord :: tex_coord

text \<open>The three corners after the swap that makes the triangle counter-clockwise.\<close>

definition wind :: "vertex \<times> vertex \<times> vertex \<Rightarrow> vertex \<times> vertex \<times> vertex" where
  "wind t = (case t of (a, b, c) \<Rightarrow>
     if edge_function (v_point a) (v_point b) (v_point c) < 0 then (a, c, b) else (a, b, c))"

definition edge_bias :: "point \<Rightarrow> point \<Rightarrow> int" where
  "edge_bias a b = (if is_top_left a b then 0 else -1)"

definition next_multiple_of :: "int \<Rightarrow> int \<Rightarrow> int" where
  "next_multiple_of x k = (let r = x mod k in if r = 0 then x else x + (k - r))"

definition tri_max :: "point \<times> point \<times> point \<Rightarrow> gpu \<Rightarrow> point" where
  "tri_max t g = (case t of (a, b, c) \<Rightarrow>
     \<lparr>px = next_multiple_of (min (max (px a) (max (px b) (px c))) (da_x_max g)) 4,
      py = min (max (py a) (max (py b) (py c))) (da_y_max g)\<rparr>)"

definition tri_min :: "point \<times> point \<times> point \<Rightarrow> gpu \<Rightarrow> point" where
  "tri_min t g = (case t of (a, b, c) \<Rightarrow>
     \<lparr>px = max (min (px a) (min (px b) (px c))) (da_x_min g),
      py = max (min (py a) (min (py b) (py c))) (da_y_min g)\<rparr>)"

text \<open>\<open>Edges\<close>: four lanes for each of the three edges.\<close>

type_synonym lanes = "int list"

definition splat :: "int \<Rightarrow> lanes" where "splat v = [v, v, v, v]"
definition lanes_add :: "lanes \<Rightarrow> lanes \<Rightarrow> lanes" where "lanes_add = map2 (+)"
definition lanes_mul :: "lanes \<Rightarrow> lanes \<Rightarrow> lanes" where "lanes_mul = map2 (*)"

record edges =
  y_bary :: "lanes list"
  x_bary :: "lanes list"
  x_delta :: "lanes list"
  y_delta :: "lanes list"

definition edge_setup :: "point \<Rightarrow> point \<Rightarrow> int \<times> int \<times> int" where
  "edge_setup v0 v1 = (py v0 - py v1, px v1 - px v0, px v0 * py v1 - py v0 * px v1)"

definition edge_start :: "int \<times> int \<times> int \<Rightarrow> point \<Rightarrow> int \<Rightarrow> lanes" where
  "edge_start s origin bias = (case s of (s0, s1, s2) \<Rightarrow>
     let x = lanes_add (splat (px origin)) [0, 1, 2, 3]; y = splat (py origin)
     in lanes_add (lanes_add (lanes_add (lanes_mul (splat s0) x) (lanes_mul (splat s1) y)) (splat s2)) (splat bias))"

definition edges_new :: "point \<times> point \<times> point \<Rightarrow> point \<Rightarrow> int \<times> int \<times> int \<Rightarrow> edges" where
  "edges_new t origin bias = (case (t, bias) of ((v0, v1, v2), (b0, b1, b2)) \<Rightarrow>
     let s0 = edge_setup v1 v2; s1 = edge_setup v2 v0; s2 = edge_setup v0 v1;
         bary = [edge_start s0 origin b0, edge_start s1 origin b1, edge_start s2 origin b2]
     in \<lparr>y_bary = bary, x_bary = bary,
         x_delta = [splat (fst s0 * 4), splat (fst s1 * 4), splat (fst s2 * 4)],
         y_delta = [splat (fst (snd s0)), splat (fst (snd s1)), splat (fst (snd s2))]\<rparr>)"

definition x_step :: "edges \<Rightarrow> edges" where
  "x_step e = e\<lparr>x_bary := map2 lanes_add (x_bary e) (x_delta e)\<rparr>"

definition y_step :: "edges \<Rightarrow> edges" where
  "y_step e = e\<lparr>x_bary := y_bary e, y_bary := map2 lanes_add (y_bary e) (y_delta e)\<rparr>"

text \<open>The sign of the bitwise or of three numbers is negative when one of them is.\<close>

definition edge_mask :: "edges \<Rightarrow> bool list" where
  "edge_mask e = map2 (\<or>) (map2 (\<or>) (map (\<lambda>v. v < 0) (x_bary e ! 0)) (map (\<lambda>v. v < 0) (x_bary e ! 1)))
                   (map (\<lambda>v. v < 0) (x_bary e ! 2))"

text \<open>The interpolated attributes, and their deltas along an axis.\<close>

record 'f attrs =
  at_u :: 'f
  at_v :: 'f
  at_r :: 'f
  at_g :: 'f
  at_b :: 'f

definition attrs_zero :: "'f float_ops \<Rightarrow> 'f attrs" where
  "attrs_zero fl = (let z = fl_ratio fl 0 1 in \<lparr>at_u = z, at_v = z, at_r = z, at_g = z, at_b = z\<rparr>)"

definition attr_add :: "'f float_ops \<Rightarrow> draw_mode \<Rightarrow> 'f attrs \<Rightarrow> 'f attrs \<Rightarrow> 'f attrs" where
  "attr_add fl m d a =
     (let a = (if is_textured m
               then a\<lparr>at_u := fl_add fl (at_u a) (at_u d), at_v := fl_add fl (at_v a) (at_v d)\<rparr> else a)
      in if is_shaded m
         then a\<lparr>at_r := fl_add fl (at_r a) (at_r d), at_g := fl_add fl (at_g a) (at_g d),
                at_b := fl_add fl (at_b a) (at_b d)\<rparr>
         else a)"

definition attr_scale :: "'f float_ops \<Rightarrow> 'f \<Rightarrow> 'f attrs \<Rightarrow> 'f attrs" where
  "attr_scale fl k d =
     \<lparr>at_u = fl_mul fl (at_u d) k, at_v = fl_mul fl (at_v d) k, at_r = fl_mul fl (at_r d) k,
      at_g = fl_mul fl (at_g d) k, at_b = fl_mul fl (at_b d) k\<rparr>"

text \<open>The delta of an attribute: the sum of value times barycentric delta, over the area.\<close>

definition attr_delta :: "'f float_ops \<Rightarrow> int \<times> int \<times> int \<Rightarrow> 'f \<Rightarrow> int \<times> int \<times> int \<Rightarrow> 'f" where
  "attr_delta fl d area vals = (case (d, vals) of ((d0, d1, d2), (a0, a1, a2)) \<Rightarrow>
     fl_div fl (fl_of_int fl (a0 * d0 + a1 * d1 + a2 * d2)) area)"

definition attr_base :: "'f float_ops \<Rightarrow> point \<times> point \<times> point \<Rightarrow> 'f \<times> 'f \<times> 'f" where
  "attr_base fl t = (case t of (a, b, c) \<Rightarrow>
     (fl_of_int fl (px b * py c - px c * py b), fl_of_int fl (px c * py a - px a * py c),
      fl_of_int fl (px a * py b - px b * py a)))"

definition attr_start ::
  "'f float_ops \<Rightarrow> 'f \<times> 'f \<times> 'f \<Rightarrow> int \<times> int \<times> int \<Rightarrow> 'f \<Rightarrow> int \<times> int \<times> int \<Rightarrow> 'f" where
  "attr_start fl base bias area vals = (case (base, bias, vals) of ((b0, b1, b2), (c0, c1, c2), (a0, a1, a2)) \<Rightarrow>
     let s = fl_sub fl (fl_mul fl b0 (fl_of_int fl a0)) (fl_of_int fl c0);
         s = fl_sub fl (fl_add fl s (fl_mul fl b1 (fl_of_int fl a1))) (fl_of_int fl c1);
         s = fl_sub fl (fl_add fl s (fl_mul fl b2 (fl_of_int fl a2))) (fl_of_int fl c2)
     in fl_add fl (fl_div fl s area) (fl_ratio fl 1 2))"

text \<open>One function of a value of the corners for each of the five attributes.\<close>

definition attrs_of ::
  "draw_mode \<Rightarrow> 'f attrs \<Rightarrow> (int \<times> int \<times> int \<Rightarrow> 'f) \<Rightarrow> vertex \<times> vertex \<times> vertex \<Rightarrow> 'f attrs" where
  "attrs_of m zero f t = (case t of (a, b, c) \<Rightarrow>
     let all = (\<lambda>v. f (uint (v a :: u8), uint (v b), uint (v c)));
         r = (if is_textured m
              then zero\<lparr>at_u := all (tc_u \<circ> v_coord), at_v := all (tc_v \<circ> v_coord)\<rparr> else zero)
     in if is_shaded m
        then r\<lparr>at_r := all (col_r \<circ> v_color), at_g := all (col_g \<circ> v_color), at_b := all (col_b \<circ> v_color)\<rparr>
        else r)"

definition attr_scaled_start :: "'f float_ops \<Rightarrow> draw_mode \<Rightarrow> 'f attrs \<Rightarrow> 'f attrs \<Rightarrow> point \<Rightarrow> 'f attrs \<Rightarrow> 'f attrs" where
  "attr_scaled_start fl m dx dy origin a =
     attr_add fl m (attr_scale fl (fl_of_int fl (px origin)) dx)
       (attr_add fl m (attr_scale fl (fl_of_int fl (py origin)) dy) a)"

text \<open>What stays the same while a triangle is drawn.\<close>

record 'f tri =
  tr_mode :: draw_mode
  tr_flat :: color
  tr_win :: "u8 \<times> u8"
  tr_dx :: "'f attrs"
  tr_dy :: "'f attrs"

definition tri_lane ::
  "'f float_ops \<Rightarrow> 'f tri \<Rightarrow> int \<Rightarrow> int \<Rightarrow> nat \<times> bool \<Rightarrow> 'f attrs \<times> gpu \<times> nat \<Rightarrow> 'f attrs \<times> gpu \<times> nat" where
  "tri_lane fl tr y x0 lane st = (case (lane, st) of ((i, ignore), (a, g, n)) \<Rightarrow>
     let m = tr_mode tr; a' = attr_add fl m (tr_dx tr) a
     in if ignore then (a', g, n)
        else let x = x0 + int i;
                 to_u8 = (\<lambda>v. word_of_nat (fl_to_uint fl 8 v) :: u8);
                 shade = (if is_shaded m
                          then \<lparr>col_r = to_u8 (at_r a), col_g = to_u8 (at_g a), col_b = to_u8 (at_b a)\<rparr>
                          else tr_flat tr);
                 put = (\<lambda>col masked.
                   let col = (if dithering_enabled (g_status g) then dither x y col else col)
                   in (a', draw_pixel m x y col masked g, n + 1))
             in if is_textured m
                then let texel = load_texel \<lparr>tc_u = to_u8 (at_u a), tc_v = to_u8 (at_v a)\<rparr> (tr_win tr) g
                     in if texel_is_invisible texel then (a', g, n)
                        else put (if is_raw m then color_from_u16 texel
                                  else shade_blend (color_from_u16 texel) shade)
                               (texel_is_transparent texel)
                else put shade False)"

definition tri_block ::
  "'f float_ops \<Rightarrow> 'f tri \<Rightarrow> int \<Rightarrow> int \<Rightarrow> edges \<times> 'f attrs \<times> gpu \<times> nat \<Rightarrow> edges \<times> 'f attrs \<times> gpu \<times> nat" where
  "tri_block fl tr y x st = (case st of (e, a, g, n) \<Rightarrow>
     let mask = edge_mask e; e = x_step e
     in if list_all (\<lambda>b. b) mask
        then (e, attr_add fl (tr_mode tr) (attr_scale fl (fl_ratio fl 4 1) (tr_dx tr)) a, g, n)
        else (e, fold (tri_lane fl tr y x) (enumerate 0 mask) (a, g, n)))"

text \<open>\<open>(from..=to).step_by(4)\<close>.\<close>

definition steps_4 :: "int \<Rightarrow> int \<Rightarrow> int list" where
  "steps_4 from_x to_x = map (\<lambda>k. from_x + 4 * int k) [0..<nat ((to_x - from_x) div 4 + 1)]"

definition tri_row ::
  "'f float_ops \<Rightarrow> 'f tri \<Rightarrow> int \<Rightarrow> int \<Rightarrow> int \<Rightarrow> edges \<times> 'f attrs \<times> gpu \<times> nat \<Rightarrow> edges \<times> 'f attrs \<times> gpu \<times> nat" where
  "tri_row fl tr min_x max_x y st = (case st of (e, row, g, n) \<Rightarrow>
     let e = y_step e; a = row; row = attr_add fl (tr_mode tr) (tr_dy tr) row;
         (e, _, g, n) = fold (tri_block fl tr y) (steps_4 min_x max_x) (e, a, g, n)
     in (e, row, g, n))"

definition draw_triangle ::
  "('f, 'd) gpu_env \<Rightarrow> draw_mode \<Rightarrow> color \<Rightarrow> point \<Rightarrow> vertex \<times> vertex \<times> vertex \<Rightarrow> gpu \<Rightarrow> (u64 \<times> gpu) option" where
  "draw_triangle env m flat clut t g = do {
     g \<leftarrow> fetch_clut clut g;
     let fl = e_f32 env;
         win = (tex_window_mask (tex_win_w g) (tex_win_x g), tex_window_mask (tex_win_h g) (tex_win_y g));
         t = wind t;
         (a, b, c) = t;
         (p0, p1, p2) = (v_point a, v_point b, v_point c);
         bias = (edge_bias p1 p2, edge_bias p2 p0, edge_bias p0 p1);
         area = fl_of_int fl (edge_function p0 p1 p2);
         mx = tri_max (p0, p1, p2) g;
         mn = tri_min (p0, p1, p2) g;
         dx = (py p1 - py p2, py p2 - py p0, py p0 - py p1);
         dy = (px p2 - px p1, px p0 - px p2, px p1 - px p0);
         zero = attrs_zero fl;
         adx = attrs_of m zero (attr_delta fl dx area) t;
         ady = attrs_of m zero (attr_delta fl dy area) t;
         row = attrs_of m zero (attr_start fl (attr_base fl (p0, p1, p2)) bias area) t;
         row = attr_scaled_start fl m adx ady mn row;
         tr = \<lparr>tr_mode = m, tr_flat = flat, tr_win = win, tr_dx = adx, tr_dy = ady\<rparr>;
         edges = edges_new (p0, p1, p2) mn bias;
         (_, _, g, pixels) = fold (tri_row fl tr (px mn) (px mx)) [py mn..py mx] (edges, row, g, 0)
     in Some (triangle_draw_time (e_f64 env) m pixels g, g) }"

section \<open>Lines\<close>

definition clamp_to :: "int \<Rightarrow> int \<Rightarrow> int \<Rightarrow> int option" where
  "clamp_to lo hi v = (if lo > hi then None else Some (max lo (min hi v)))"

definition clamp_to_da :: "point \<Rightarrow> gpu \<Rightarrow> point option" where
  "clamp_to_da p g = do {
     x \<leftarrow> clamp_to (da_x_min g) (da_x_max g) (px p);
     y \<leftarrow> clamp_to (da_y_min g) (da_y_max g) (py p);
     Some \<lparr>px = x, py = y\<rparr> }"

text \<open>\<open>abs_diff\<close> of a channel over the length, which panics on a length of zero.\<close>

definition line_delta :: "u8 \<Rightarrow> u8 \<Rightarrow> u8 \<Rightarrow> u8 option" where
  "line_delta a b longest = (if longest = 0 then None else Some ((if a \<le> b then b - a else a - b) div longest))"

definition line_deltas :: "draw_mode \<Rightarrow> color \<Rightarrow> color \<Rightarrow> u8 \<Rightarrow> color option" where
  "line_deltas m c0 c1 longest =
     (if \<not> is_shaded m then Some color_default
      else do {
        dr \<leftarrow> line_delta (col_r c1) (col_r c0) longest;
        dg \<leftarrow> line_delta (col_g c1) (col_g c0) longest;
        db \<leftarrow> line_delta (col_b c1) (col_b c0) longest;
        Some \<lparr>col_r = dr, col_g = dg, col_b = db\<rparr> })"

definition plot_line :: "draw_mode \<Rightarrow> int \<Rightarrow> int \<Rightarrow> color \<Rightarrow> gpu \<Rightarrow> gpu" where
  "plot_line m x y col g = draw_pixel (m\<lparr>is_textured := False\<rparr>) x y (dither x y col) False g"

text \<open>
  Both loops: \<open>along\<close> and \<open>across\<close> are the coordinates in the longer and the shorter
  direction, \<open>put\<close> draws at such a pair.
\<close>

fun line_loop ::
  "(int \<Rightarrow> int \<Rightarrow> color \<Rightarrow> gpu \<Rightarrow> gpu) \<Rightarrow> draw_mode \<Rightarrow> color \<Rightarrow> color \<Rightarrow> int \<Rightarrow> int \<Rightarrow> int \<Rightarrow> int \<Rightarrow>
   nat \<Rightarrow> int \<Rightarrow> int \<Rightarrow> int \<Rightarrow> color \<Rightarrow> gpu \<Rightarrow> gpu" where
  "line_loop put m flat dc along_d across_d abs_long abs_short 0 d along across c g = g"
| "line_loop put m flat dc along_d across_d abs_long abs_short (Suc n) d along across c g =
     (let along = (if along_d < 0 then along - 1 else along + 1);
          (d', across) = (if d < 0 then (d + 2 * abs_short, across)
                          else (d + (2 * abs_short - 2 * abs_long), if across_d < 0 then across - 1 else across + 1));
          c = (if is_shaded m then map_channels (+) c dc else c);
          col = (if is_shaded m then c else flat)
      in line_loop put m flat dc along_d across_d abs_long abs_short n d' along across c (put along across col g))"

definition draw_line ::
  "('f, 'd) gpu_env \<Rightarrow> draw_mode \<Rightarrow> point \<times> point \<Rightarrow> color \<times> color \<Rightarrow> color \<Rightarrow> gpu \<Rightarrow> (u64 \<times> gpu) option" where
  "draw_line env m points colors flat g = do {
     p0 \<leftarrow> clamp_to_da (fst points) g;
     p1 \<leftarrow> clamp_to_da (snd points) g;
     let dx = px p1 - px p0;
     let dy = py p1 - py p0;
     let longest = word_of_int (max \<bar>dx\<bar> \<bar>dy\<bar>);
     let (c0, c1) = colors;
     dc \<leftarrow> line_deltas m c0 c1 longest;
     let g = plot_line m (px p0) (py p0) flat g;
         g = (if \<bar>dx\<bar> > \<bar>dy\<bar>
              then line_loop (\<lambda>x y. plot_line m x y) m flat dc dx dy \<bar>dx\<bar> \<bar>dy\<bar> (nat \<bar>dx\<bar>)
                     (2 * \<bar>dy\<bar> - \<bar>dx\<bar>) (px p0) (py p0) c0 g
              else line_loop (\<lambda>y x. plot_line m x y) m flat dc dy dx \<bar>dy\<bar> \<bar>dx\<bar> (nat \<bar>dy\<bar>)
                     (2 * \<bar>dx\<bar> - \<bar>dy\<bar>) (py p0) (px p0) c0 g);
         pixels = 1 + nat (if \<bar>dx\<bar> > \<bar>dy\<bar> then \<bar>dx\<bar> else \<bar>dy\<bar>)
     in Some (line_draw_time (e_f64 env) m pixels g, g) }"

section \<open>Rectangles\<close>

definition fill_rect :: "point \<Rightarrow> point \<Rightarrow> color \<Rightarrow> gpu \<Rightarrow> gpu" where
  "fill_rect start dim col g =
     fold (\<lambda>y. fold (\<lambda>x. g_vram_update (store_16 (px start + x) (py start + y) (color_as_u16 col))) [0..px dim - 1])
       [0..py dim - 1] g"

text \<open>One pixel of a rectangle: the texture column, the state and the pixels drawn.\<close>

definition rect_pixel ::
  "draw_mode \<Rightarrow> color \<Rightarrow> u8 \<times> u8 \<Rightarrow> u8 \<Rightarrow> u8 \<Rightarrow> int \<Rightarrow> int \<Rightarrow> u8 \<times> gpu \<times> nat \<Rightarrow> u8 \<times> gpu \<times> nat" where
  "rect_pixel m shade win u_delta v y x st = (case st of (u, g, n) \<Rightarrow>
     if \<not> is_textured m then (u + u_delta, draw_pixel m x y shade False g, n + 1)
     else let texel = load_texel \<lparr>tc_u = u, tc_v = v\<rparr> win g
          in if texel_is_invisible texel then (u + u_delta, g, n)
             else let tex = (if is_raw m then color_from_u16 texel else shade_blend (color_from_u16 texel) shade);
                      col = (if \<not> is_transparent m then tex
                             else blend (blend_mode (g_status g)) tex (color_from_u16 (load_16 x y (g_vram g))))
                  in (u + u_delta, draw_pixel m x y col (texel_is_transparent texel) g, n + 1))"

definition rect_row ::
  "draw_mode \<Rightarrow> color \<Rightarrow> u8 \<times> u8 \<Rightarrow> u8 \<Rightarrow> u8 \<Rightarrow> u8 \<Rightarrow> int list \<Rightarrow> int \<Rightarrow> u8 \<times> gpu \<times> nat \<Rightarrow> u8 \<times> gpu \<times> nat" where
  "rect_row m shade win u_delta v_delta u0 xs y st = (case st of (v, g, n) \<Rightarrow>
     let (_, g, n) = fold (rect_pixel m shade win u_delta v y) xs (u0, g, n) in (v + v_delta, g, n))"

definition draw_rect ::
  "('f, 'd) gpu_env \<Rightarrow> draw_mode \<Rightarrow> point \<Rightarrow> point \<Rightarrow> color \<Rightarrow> tex_coord \<Rightarrow> point \<Rightarrow> gpu \<Rightarrow> (u64 \<times> gpu) option" where
  "draw_rect env m start dim shade tc clut g = do {
     g \<leftarrow> fetch_clut clut g;
     let win = (tex_window_mask (tex_win_w g) (tex_win_x g), tex_window_mask (tex_win_h g) (tex_win_y g));
         u_delta = (if is_textured m then if tex_x_flip g then -1 else 1 else 0);
         v_delta = (if is_textured m then if tex_y_flip g then -1 else 1 else 0);
         end_x = min (px start + px dim) (da_x_max g + 1);
         end_y = min (py start + py dim) (da_y_max g + 1);
         u0 = (if px start < da_x_min g \<and> is_textured m
               then tc_u tc + word_of_int ((da_x_min g - px start) * u_delta) else tc_u tc);
         v0 = (if py start < da_y_min g \<and> is_textured m
               then tc_v tc + word_of_int ((da_y_min g - py start) * v_delta) else tc_v tc);
         start_x = (if px start < da_x_min g then da_x_min g else px start);
         start_y = (if py start < da_y_min g then da_y_min g else py start);
         (_, g, pixels) =
           fold (rect_row m shade win (word_of_int u_delta) (word_of_int v_delta) u0 [start_x..end_x - 1])
             [start_y..end_y - 1] (v0, g, 0)
     in Some (rect_draw_time (e_f64 env) m pixels g, g) }"

end
