(* ===== verification/GpuTriangle.thy ===== *)
theory GpuTriangle
  imports GpuDraw
begin

text \<open>
  The rasterizer against its specification. The code steps three edge values, four columns at a
  time, by constant deltas; the specification evaluates the edge functions at each pixel and
  applies the top-left rule.
\<close>

section \<open>The specification\<close>

definition inside_edge :: "point \<Rightarrow> point \<Rightarrow> point \<Rightarrow> bool" where
  "inside_edge a b p \<longleftrightarrow> edge_function a b p > 0 \<or> edge_function a b p = 0 \<and> is_top_left a b"

definition covers :: "point \<times> point \<times> point \<Rightarrow> int \<times> int \<Rightarrow> bool" where
  "covers t p = (case (t, p) of ((a, b, c), (x, y)) \<Rightarrow>
     let q = \<lparr>px = x, py = y\<rparr> in inside_edge b c q \<and> inside_edge c a q \<and> inside_edge a b q)"

definition corners :: "vertex \<times> vertex \<times> vertex \<Rightarrow> point \<times> point \<times> point" where
  "corners t = (case t of (a, b, c) \<Rightarrow> (v_point a, v_point b, v_point c))"

text \<open>The columns the code looks at: blocks of four from the left edge of the clipped box.\<close>

definition scan_columns :: "int \<Rightarrow> int \<Rightarrow> int list" where
  "scan_columns lo hi = [lo..lo + 4 * ((hi - lo) div 4) + 3]"

definition covered_pixels :: "point \<times> point \<times> point \<Rightarrow> gpu \<Rightarrow> (int \<times> int) list" where
  "covered_pixels t g =
     (let mn = tri_min t g; mx = tri_max t g
      in concat (map (\<lambda>y. filter (covers t) (map (\<lambda>x. (x, y)) (scan_columns (px mn) (px mx)))) [py mn..py mx]))"

definition flat_pixel :: "draw_mode \<Rightarrow> color \<Rightarrow> int \<times> int \<Rightarrow> gpu \<Rightarrow> gpu" where
  "flat_pixel m flat p g = (case p of (x, y) \<Rightarrow>
     draw_pixel m x y (if dithering_enabled (g_status g) then dither x y flat else flat) False g)"

text \<open>A pixel on an edge two triangles share is drawn by one of them.\<close>

lemma shared_edge_once: "a \<noteq> b \<Longrightarrow> inside_edge b a p \<longleftrightarrow> \<not> inside_edge a b p"
  by (cases a; cases b) (auto simp: inside_edge_def edge_function_def is_top_left_def Let_def algebra_simps)

section \<open>Lanes\<close>

text \<open>The biased value of an edge at four pixels, and of the three edges.\<close>

definition edge_at :: "point \<Rightarrow> point \<Rightarrow> int \<Rightarrow> int \<Rightarrow> int" where
  "edge_at a b x y = edge_function a b \<lparr>px = x, py = y\<rparr> + edge_bias a b"

definition edge_lanes :: "point \<Rightarrow> point \<Rightarrow> int \<Rightarrow> int \<Rightarrow> lanes" where
  "edge_lanes a b x y = [edge_at a b x y, edge_at a b (x + 1) y, edge_at a b (x + 2) y, edge_at a b (x + 3) y]"

definition tri_lanes :: "point \<times> point \<times> point \<Rightarrow> int \<Rightarrow> int \<Rightarrow> lanes list" where
  "tri_lanes t x y = (case t of (a, b, c) \<Rightarrow> [edge_lanes b c x y, edge_lanes c a x y, edge_lanes a b x y])"

lemma edge_at_negative: "edge_at a b x y < 0 \<longleftrightarrow> \<not> inside_edge a b \<lparr>px = x, py = y\<rparr>"
  by (auto simp: edge_at_def inside_edge_def edge_bias_def)

lemma edge_start_lanes: "edge_start (edge_setup a b) o' (edge_bias a b) = edge_lanes a b (px o') (py o')"
  by (simp add: edge_start_def edge_setup_def edge_lanes_def edge_at_def edge_function_def lanes_add_def
      lanes_mul_def splat_def Let_def algebra_simps)

lemma edge_lanes_x: "lanes_add (edge_lanes a b x y) (splat (fst (edge_setup a b) * 4)) = edge_lanes a b (x + 4) y"
  by (simp add: edge_lanes_def lanes_add_def splat_def edge_setup_def edge_at_def edge_function_def algebra_simps)

lemma edge_lanes_y: "lanes_add (edge_lanes a b x y) (splat (fst (snd (edge_setup a b)))) = edge_lanes a b x (y + 1)"
  by (simp add: edge_lanes_def lanes_add_def splat_def edge_setup_def edge_at_def edge_function_def algebra_simps)

text \<open>The deltas never change while a triangle is drawn.\<close>

definition deltas_of :: "point \<times> point \<times> point \<Rightarrow> edges \<Rightarrow> bool" where
  "deltas_of t e = (case t of (a, b, c) \<Rightarrow>
     x_delta e = map (\<lambda>s. splat (fst s * 4)) [edge_setup b c, edge_setup c a, edge_setup a b]
     \<and> y_delta e = map (\<lambda>s. splat (fst (snd s))) [edge_setup b c, edge_setup c a, edge_setup a b])"

lemma deltas_of_step [simp]: "deltas_of t (x_step e) = deltas_of t e" "deltas_of t (y_step e) = deltas_of t e"
  by (simp_all add: deltas_of_def x_step_def y_step_def split: prod.split)

lemma x_step_lanes:
  "deltas_of t e \<Longrightarrow> x_bary e = tri_lanes t x y \<Longrightarrow> x_bary (x_step e) = tri_lanes t (x + 4) y"
  by (cases t) (simp add: deltas_of_def tri_lanes_def x_step_def edge_lanes_x)

lemma x_step_y_bary [simp]: "y_bary (x_step e) = y_bary e"
  by (simp add: x_step_def)

lemma y_step_lanes:
  assumes "deltas_of t e" "y_bary e = tri_lanes t x y"
  shows "x_bary (y_step e) = tri_lanes t x y \<and> y_bary (y_step e) = tri_lanes t x (y + 1)"
  using assms by (cases t) (simp add: deltas_of_def tri_lanes_def y_step_def edge_lanes_y)

lemma edges_new_lanes:
  assumes "t = (a, b, c)" "e = edges_new t q (edge_bias b c, edge_bias c a, edge_bias a b)"
  shows "deltas_of t e \<and> y_bary e = tri_lanes t (px q) (py q)"
  using assms by (simp add: edges_new_def deltas_of_def tri_lanes_def Let_def edge_start_lanes)

lemma edge_mask_lanes:
  "x_bary e = tri_lanes t x y \<Longrightarrow> edge_mask e = map (\<lambda>i. \<not> covers t (x + i, y)) [0, 1, 2, 3]"
  by (cases t) (auto simp: edge_mask_def tri_lanes_def edge_lanes_def edge_at_negative covers_def Let_def)

section \<open>Rows and blocks of an untextured triangle in one colour\<close>

lemma attr_add_flat [simp]: "attr_add fl (mode_of False False raw tp) d a = a"
  by (simp add: attr_add_def mode_of_def)

lemma flat_lane:
  assumes "tr_mode tr = mode_of False False raw tp"
  shows "tri_lane fl tr y x (i, ignore) (a, g, n) =
    (if ignore then (a, g, n) else (a, flat_pixel (tr_mode tr) (tr_flat tr) (x + int i, y) g, n + 1))"
  using assms by (simp add: tri_lane_def Let_def flat_pixel_def mode_of_def attr_add_def)

definition drawn :: "'f tri \<Rightarrow> (int \<times> int) list \<Rightarrow> gpu \<times> nat \<Rightarrow> gpu \<times> nat" where
  "drawn tr ps = (\<lambda>(g, n). (fold (flat_pixel (tr_mode tr) (tr_flat tr)) ps g, n + length ps))"

lemma drawn_Nil [simp]: "drawn tr [] s = s"
  by (cases s) (simp add: drawn_def)

lemma drawn_append: "drawn tr (ps @ qs) s = drawn tr qs (drawn tr ps s)"
  by (cases s) (simp add: drawn_def)

lemma flat_block:
  assumes m: "tr_mode tr = mode_of False False raw tp" and d: "deltas_of t e" and x: "x_bary e = tri_lanes t x y"
  shows "tri_block fl tr y x (e, a, g, n) = (x_step e, a,
    drawn tr (filter (covers t) (map (\<lambda>i. (x + i, y)) [0, 1, 2, 3])) (g, n))"
  using m by (simp add: tri_block_def Let_def edge_mask_lanes [OF x] flat_lane [OF m] drawn_def)

text \<open>The blocks of a row.\<close>

lemma flat_blocks:
  assumes m: "tr_mode tr = mode_of False False raw tp" and d: "deltas_of t e" and x: "x_bary e = tri_lanes t x y"
  shows "\<exists>e'. fold (tri_block fl tr y) (map (\<lambda>k. x + 4 * int k) [0..<n]) (e, a, s) =
    (e', a, drawn tr (filter (covers t) (map (\<lambda>x. (x, y)) [x..x + 4 * int n - 1])) s)
    \<and> deltas_of t e' \<and> y_bary e' = y_bary e \<and> x_bary e' = tri_lanes t (x + 4 * int n) y"
proof (induction n)
  case 0
  then show ?case using d x by simp
next
  case (Suc n)
  let ?x = "x + 4 * int n"
  let ?ps = "\<lambda>xs. filter (covers t) (map (\<lambda>x. (x, y)) xs)"
  obtain e' where e': "fold (tri_block fl tr y) (map (\<lambda>k. x + 4 * int k) [0..<n]) (e, a, s) =
      (e', a, drawn tr (?ps [x..?x - 1]) s)"
    "deltas_of t e'" "y_bary e' = y_bary e" "x_bary e' = tri_lanes t ?x y"
    using Suc by blast
  obtain g c where gc: "drawn tr (?ps [x..?x - 1]) s = (g, c)" by (metis surj_pair)
  have four: "[x..?x + 3] = [x..?x - 1] @ [?x, ?x + 1, ?x + 2, ?x + 3]"
    using upto_split1 [of x ?x "?x + 3"] by (simp add: upto.simps)
  have "fold (tri_block fl tr y) (map (\<lambda>k. x + 4 * int k) [0..<Suc n]) (e, a, s) = tri_block fl tr y ?x (e', a, g, c)"
    using e'(1) gc by simp
  also have "\<dots> = (x_step e', a, drawn tr (?ps [?x, ?x + 1, ?x + 2, ?x + 3]) (g, c))"
    using flat_block [OF m e'(2,4)] by simp
  also have "drawn tr (?ps [?x, ?x + 1, ?x + 2, ?x + 3]) (g, c) = drawn tr (?ps [x..?x + 3]) s"
    unfolding four map_append filter_append drawn_append gc ..
  finally show ?case
    using x_step_lanes [OF e'(2,4)] e'(2,3) by (simp add: algebra_simps)
qed

definition row_pixels :: "point \<times> point \<times> point \<Rightarrow> int \<Rightarrow> int \<Rightarrow> int \<Rightarrow> (int \<times> int) list" where
  "row_pixels t lo hi y = filter (covers t) (map (\<lambda>x. (x, y)) (scan_columns lo hi))"

lemma flat_row:
  assumes m: "tr_mode tr = mode_of False False raw tp" and d: "deltas_of t e" and y: "y_bary e = tri_lanes t lo y"
  shows "\<exists>e'. tri_row fl tr lo hi y (e, a, s) = (e', a, drawn tr (row_pixels t lo hi y) s)
    \<and> deltas_of t e' \<and> y_bary e' = tri_lanes t lo (y + 1)"
proof -
  let ?n = "nat ((hi - lo) div 4 + 1)"
  have e: "deltas_of t (y_step e)" "x_bary (y_step e) = tri_lanes t lo y" "y_bary (y_step e) = tri_lanes t lo (y + 1)"
    using d y_step_lanes [OF d y] by simp_all
  have cols: "scan_columns lo hi = [lo..lo + 4 * int ?n - 1]"
  proof (cases "lo \<le> hi")
    case True
    then have "0 \<le> (hi - lo) div 4" by simp
    then show ?thesis by (simp add: scan_columns_def algebra_simps)
  next
    case False
    then have "(hi - lo) div 4 \<le> -1" by linarith
    then show ?thesis by (simp add: scan_columns_def)
  qed
  obtain e' where "fold (tri_block fl tr y) (steps_4 lo hi) (y_step e, a, s) =
      (e', a, drawn tr (row_pixels t lo hi y) s)" "deltas_of t e'" "y_bary e' = y_bary (y_step e)"
    using flat_blocks [OF m e(1,2), of fl ?n a s] unfolding steps_4_def row_pixels_def cols by blast
  with e(3) show ?thesis by (cases s) (simp add: tri_row_def Let_def m split_beta)
qed

lemma flat_rows:
  assumes m: "tr_mode tr = mode_of False False raw tp"
  shows "deltas_of t e \<Longrightarrow> y_bary e = tri_lanes t lo y \<Longrightarrow>
    \<exists>e'. fold (tri_row fl tr lo hi) [y..y + int n - 1] (e, a, s) =
      (e', a, drawn tr (concat (map (row_pixels t lo hi) [y..y + int n - 1])) s)"
proof (induction n arbitrary: e y s)
  case (Suc n)
  obtain e' where e': "tri_row fl tr lo hi y (e, a, s) = (e', a, drawn tr (row_pixels t lo hi y) s)"
    "deltas_of t e'" "y_bary e' = tri_lanes t lo (y + 1)"
    using flat_row [OF m Suc.prems] by blast
  have rows: "[y..y + int (Suc n) - 1] = y # [y + 1..(y + 1) + int n - 1]"
    by (subst upto_rec1) (simp_all add: algebra_simps)
  obtain e'' where "fold (tri_row fl tr lo hi) [y + 1..(y + 1) + int n - 1] (e', a, drawn tr (row_pixels t lo hi y) s) =
      (e'', a, drawn tr (concat (map (row_pixels t lo hi) [y + 1..(y + 1) + int n - 1])) (drawn tr (row_pixels t lo hi y) s))"
    using Suc.IH [OF e'(2,3)] by blast
  then show ?case unfolding rows by (simp add: e'(1) drawn_append)
qed simp

text \<open>C23: The rasterizer draws an untextured, unshaded triangle, one colour everywhere, exactly at the pixels the
  edge functions and the top-left rule select in the clipped box (whose right side is rounded up to blocks of
  four), row by row, and its time is that of their number. (Textured triangles leave out the texels that are
  zero, and shaded ones get their colours from floating point, a parameter here: this says nothing of them.)
\<close>

theorem triangle_pixels:
  "draw_triangle env (mode_of False False raw tp) flat clut t g =
     map_option (\<lambda>h.
       let m = mode_of False False raw tp; ps = covered_pixels (corners (wind t)) h;
           g' = fold (flat_pixel m flat) ps h
       in (triangle_draw_time (e_f64 env) m (length ps) g', g')) (fetch_clut clut g)"
proof (cases "fetch_clut clut g")
  case None
  then show ?thesis by (simp add: draw_triangle_def)
next
  case (Some h)
  obtain a b c where w: "wind t = (a, b, c)" by (metis surj_pair)
  let ?p = "(v_point a, v_point b, v_point c)"
  let ?m = "mode_of False False raw tp"
  let ?mn = "tri_min ?p h" and ?mx = "tri_max ?p h"
  let ?n = "nat (py ?mx - py ?mn + 1)"
  define bias where "bias = (edge_bias (v_point b) (v_point c), edge_bias (v_point c) (v_point a),
      edge_bias (v_point a) (v_point b))"
  define e where "e = edges_new ?p ?mn bias"
  have e: "deltas_of ?p e" "y_bary e = tri_lanes ?p (px ?mn) (py ?mn)"
    using edges_new_lanes [OF refl e_def [unfolded bias_def]] by simp_all
  have ys: "[py ?mn..py ?mx] = [py ?mn..py ?mn + int ?n - 1]" by simp
  have ps: "concat (map (row_pixels ?p (px ?mn) (px ?mx)) [py ?mn..py ?mx]) = covered_pixels ?p h"
    by (simp add: covered_pixels_def row_pixels_def [abs_def] Let_def)
  have rows: "\<exists>e'. fold (tri_row fl tr (px ?mn) (px ?mx)) [py ?mn..py ?mx] (e, row, h, 0) =
      (e', row, drawn tr (covered_pixels ?p h) (h, 0))" if "tr_mode tr = ?m" for fl tr row
    using flat_rows [OF that e, of fl "px ?mx" ?n row "(h, 0)"] unfolding ys [symmetric] ps .
  have raster: "(case fold (tri_row fl tr (px ?mn) (px ?mx)) [py ?mn..py ?mx] (e, row, h, 0) of
        (_, _, g, pixels) \<Rightarrow> Some (triangle_draw_time (e_f64 env) ?m pixels g, g)) =
      (let g' = fold (flat_pixel ?m flat) (covered_pixels ?p h) h
       in Some (triangle_draw_time (e_f64 env) ?m (length (covered_pixels ?p h)) g', g'))"
    if "tr_mode tr = ?m" "tr_flat tr = flat" for fl tr row
    using rows [OF that(1), of fl row] that by (auto simp: drawn_def Let_def)
  show ?thesis
    unfolding draw_triangle_def Some w
    by (simp add: Let_def corners_def bias_def [symmetric] e_def [symmetric] raster [unfolded Let_def])
qed

end
