(* ===== verification/Gpu.thy ===== *)
theory Gpu
  imports GpuDraw Timer Dma
begin

text \<open>
  The GPU itself: the GP0 commands of \<open>gpu/gp0.rs\<close>, the GP1 commands of \<open>gpu/gp1.rs\<close> and the
  registers, transfers, events and DMA channel of \<open>gpu/mod.rs\<close>. \<^term>\<open>None\<close> is a panic:
  \<open>unreachable!\<close>, \<open>unimplemented!\<close> for commands without an implementation, and the panics of
  the drawing routines.
\<close>

section \<open>Words from the FIFO\<close>

definition gpu_pop :: "gpu \<Rightarrow> u32 \<times> gpu" where
  "gpu_pop g = (let (val, f) = gf_pop (g_fifo g) in (val, g\<lparr>g_fifo := f\<rparr>))"

definition dot_cycles_to_systime :: "u64 \<Rightarrow> gpu \<Rightarrow> systime" where
  "dot_cycles_to_systime cycles g =
     (case video_mode (g_status g) of Ntsc \<Rightarrow> from_gpu_ntsc_cycles cycles | Pal \<Rightarrow> from_gpu_pal_cycles cycles)"

section \<open>GP0 commands\<close>

definition gp0_useless :: "gpu \<Rightarrow> gpu" where
  "gp0_useless g = snd (gpu_pop g)"

definition gp0_clear_texture_cache :: "gpu \<Rightarrow> gpu" where
  "gp0_clear_texture_cache g = (let (_, g) = gpu_pop g in g\<lparr>g_clut := clut_clear (g_clut g)\<rparr>)"

definition gp0_fill_rect :: "gpu \<Rightarrow> systime \<times> gpu" where
  "gp0_fill_rect g =
     (let (c, g) = gpu_pop g;
          (val, g) = gpu_pop g;
          start = \<lparr>px = uint (val AND 0x3f0), py = uint (signed_drop_bit 16 val AND 0x3ff)\<rparr>;
          (val, g) = gpu_pop g;
          dim = \<lparr>px = uint (((val AND 0x3ff) + 0xf) AND NOT 0xf), py = uint (signed_drop_bit 16 val AND 0x1ff)\<rparr>;
          g = fill_rect start dim (color_from_cmd c) g;
          line_time = px dim div 8 + 9
      in (dot_cycles_to_systime (word_of_int (46 + line_time * py dim)) g, g))"

definition gp0_draw_mode :: "gpu \<Rightarrow> gpu" where
  "gp0_draw_mode g =
     (let (val, g) = gpu_pop g; stat = bit_range val 0 10
      in g\<lparr>g_status := set_bit_at (set_bit_range (g_status g) 0 10 stat) 15 (bit_at val 11),
           tex_x_flip := bit_at val 12, tex_y_flip := bit_at val 13\<rparr>)"

definition gp0_texture_window_settings :: "gpu \<Rightarrow> gpu" where
  "gp0_texture_window_settings g =
     (let (val, g) = gpu_pop g
      in g\<lparr>tex_win_w := ucast (bit_range val 0 4), tex_win_h := ucast (bit_range val 5 9),
           tex_win_x := ucast (bit_range val 10 14), tex_win_y := ucast (bit_range val 15 19)\<rparr>)"

definition gp0_draw_area_top_left :: "u32 \<Rightarrow> gpu \<Rightarrow> gpu" where
  "gp0_draw_area_top_left val g =
     g\<lparr>da_x_min := uint (bit_range val 0 9), da_y_min := uint (bit_range val 10 18)\<rparr>"

definition gp0_draw_area_bottom_right :: "u32 \<Rightarrow> gpu \<Rightarrow> gpu" where
  "gp0_draw_area_bottom_right val g =
     g\<lparr>da_x_max := uint (bit_range val 0 9), da_y_max := uint (bit_range val 10 18)\<rparr>"

definition gp0_draw_offset :: "u32 \<Rightarrow> gpu \<Rightarrow> gpu" where
  "gp0_draw_offset val g =
     (let x = ucast (bit_range val 0 10) :: u16; y = ucast (bit_range val 11 21) :: u16
      in g\<lparr>x_offset := sint (signed_drop_bit 5 (push_bit 5 x)), y_offset := sint (signed_drop_bit 5 (push_bit 5 y))\<rparr>)"

definition gp0_mask_bit_setting :: "gpu \<Rightarrow> gpu" where
  "gp0_mask_bit_setting g =
     (let (val, g) = gpu_pop g in g\<lparr>g_status := set_bit_range (g_status g) 11 12 (bit_range val 0 1)\<rparr>)"

definition gp0_copy_rect_cpu_to_vram :: "gpu \<Rightarrow> gpu" where
  "gp0_copy_rect_cpu_to_vram g =
     (let (_, g) = gpu_pop g; (pos, g) = gpu_pop g; (dim, g) = gpu_pop g
      in g\<lparr>g_state := VramStore (transfer_new (uint (bit_range pos 0 9)) (uint (bit_range pos 16 25))
             (uint (bit_range dim 0 9)) (uint (bit_range dim 16 24)))\<rparr>)"

definition gp0_copy_rect_vram_to_cpu :: "gpu \<Rightarrow> gpu" where
  "gp0_copy_rect_vram_to_cpu g =
     (let (_, g) = gpu_pop g; (pos, g) = gpu_pop g; (dim, g) = gpu_pop g
      in g\<lparr>g_state := VramLoad (transfer_new (uint (bit_range pos 0 9)) (uint (bit_range pos 16 25))
             (uint (bit_range dim 0 9)) (uint (bit_range dim 16 25)))\<rparr>)"

text \<open>\<open>interp_poly\<close>: one vertex of a polygon, with the colour table position it may set.\<close>

definition clut_point :: "u32 \<Rightarrow> point" where
  "clut_point val = \<lparr>px = uint (bit_range val 16 21) * 16, py = uint (bit_range val 22 30)\<rparr>"

definition coord_of :: "u32 \<Rightarrow> tex_coord" where
  "coord_of val = \<lparr>tc_u = ucast (bit_range val 0 7), tc_v = ucast (bit_range val 8 15)\<rparr>"

definition pop_point :: "gpu \<Rightarrow> point \<times> gpu" where
  "pop_point g = (let (pos, g) = gpu_pop g in (with_offset (x_offset g) (y_offset g) (point_from_cmd pos), g))"

definition pop_color :: "bool \<Rightarrow> gpu \<Rightarrow> color \<times> gpu" where
  "pop_color present g =
     (if present then let (c, g) = gpu_pop g in (color_from_cmd c, g) else (color_default, g))"

definition interp_vertex :: "draw_mode \<Rightarrow> nat \<Rightarrow> point \<times> gpu \<Rightarrow> vertex \<times> point \<times> gpu" where
  "interp_vertex m i st = (case st of (clut, g) \<Rightarrow>
     let (c, g) = pop_color (is_shaded m) g;
         (p, g) = pop_point g
     in if \<not> is_textured m then (\<lparr>v_point = p, v_color = c, v_coord = tex_coord_default\<rparr>, clut, g)
        else let (val, g) = gpu_pop g;
                 clut = (if i = 0 then clut_point val else clut);
                 page = drop_bit 16 val;
                 g = (if i = 1 then g\<lparr>g_status := set_bit_at (set_bit_range (g_status g) 0 8 (bit_range page 0 8))
                                                   11 (bit_at page 11)\<rparr> else g)
             in (\<lparr>v_point = p, v_color = c, v_coord = coord_of val\<rparr>, clut, g))"

fun interp_verts :: "draw_mode \<Rightarrow> nat \<Rightarrow> nat \<Rightarrow> point \<times> gpu \<Rightarrow> vertex list \<times> point \<times> gpu" where
  "interp_verts m i 0 st = ([], st)"
| "interp_verts m i (Suc n) st =
     (let (v, st) = interp_vertex m i st; (vs, st) = interp_verts m (Suc i) n st in (v # vs, st))"

definition interp_poly :: "draw_mode \<Rightarrow> nat \<Rightarrow> gpu \<Rightarrow> color \<times> vertex list \<times> point \<times> gpu" where
  "interp_poly m n g =
     (let (flat, g) = pop_color (\<not> is_shaded m) g in (flat, interp_verts m 0 n (point_default, g)))"

definition three :: "nat \<Rightarrow> vertex list \<Rightarrow> vertex \<times> vertex \<times> vertex" where
  "three i vs = (vs ! i, vs ! (i + 1), vs ! (i + 2))"

definition gp0_tri_poly :: "('f, 'd) gpu_env \<Rightarrow> draw_mode \<Rightarrow> gpu \<Rightarrow> (systime \<times> gpu) option" where
  "gp0_tri_poly env m g = (case interp_poly m 3 g of (flat, vs, clut, g) \<Rightarrow> do {
     (cycles, g) \<leftarrow> draw_triangle env m flat clut (three 0 vs) g;
     Some (dot_cycles_to_systime (cycles + 82) g, g) })"

definition gp0_quad_poly :: "('f, 'd) gpu_env \<Rightarrow> draw_mode \<Rightarrow> gpu \<Rightarrow> (systime \<times> gpu) option" where
  "gp0_quad_poly env m g = (case interp_poly m 4 g of (flat, vs, clut, g) \<Rightarrow> do {
     (tri1, g) \<leftarrow> draw_triangle env m flat clut (three 0 vs) g;
     (tri2, g) \<leftarrow> draw_triangle env m flat clut (three 1 vs) g;
     Some (dot_cycles_to_systime (tri1 + tri2 + 82 + 46) g, g) })"

definition gp0_line :: "('f, 'd) gpu_env \<Rightarrow> draw_mode \<Rightarrow> gpu \<Rightarrow> (systime \<times> gpu) option" where
  "gp0_line env m g =
     (let (flat, g) = pop_color (\<not> is_shaded m) g;
          (c0, g) = pop_color (is_shaded m) g;
          (p0, g) = pop_point g;
          (c1, g) = pop_color (is_shaded m) g;
          (p1, g) = pop_point g
      in do {
        (cycles, g) \<leftarrow> draw_line env m (p0, p1) (c0, c1) flat g;
        Some (dot_cycles_to_systime cycles g, g) })"

definition gp0_rect :: "('f, 'd) gpu_env \<Rightarrow> draw_mode \<Rightarrow> int option \<Rightarrow> gpu \<Rightarrow> (systime \<times> gpu) option" where
  "gp0_rect env m fixed g =
     (let (c, g) = pop_color True g;
          (start, g) = pop_point g;
          (uv, clut, g) = (if is_textured m then let (val, g) = gpu_pop g in (coord_of val, clut_point val, g)
                           else (tex_coord_default, point_default, g));
          (dim, g) = (case fixed of Some s \<Rightarrow> (\<lparr>px = s, py = s\<rparr>, g)
                      | None \<Rightarrow> let (val, g) = gpu_pop g in (point_from_cmd val, g))
      in do {
        (cycles, g) \<leftarrow> draw_rect env m start dim c uv clut g;
        Some (dot_cycles_to_systime cycles g, g) })"

section \<open>Transfers\<close>

text \<open>Two halfwords of a word, low half first.\<close>

definition store_halves :: "u32 \<Rightarrow> mem_transfer \<times> vram \<Rightarrow> mem_transfer \<times> vram" where
  "store_halves val st =
     fold (\<lambda>(lo, hi) (t, v). (transfer_next t, store_16 (mt_x t) (mt_y t) (ucast (bit_range val lo hi)) v))
       [(0, 15), (16, 31)] st"

text \<open>
  The loop of \<open>fifo_to_vram_store\<close> takes a word from the FIFO in each round; the number of
  words in it, at most 16, is the fuel.
\<close>

fun store_loop :: "nat \<Rightarrow> mem_transfer \<Rightarrow> gpu \<Rightarrow> gpu" where
  "store_loop 0 t g = g\<lparr>g_state := VramStore t\<rparr>"
| "store_loop (Suc n) t g =
     (let (val, g) = gpu_pop g;
          (t, v) = store_halves val (t, g_vram g);
          g = g\<lparr>g_vram := v\<rparr>
      in if transfer_is_done t then g\<lparr>g_state := Idle\<rparr> else store_loop n t g)"

definition fifo_to_vram_store :: "gpu \<Rightarrow> gpu" where
  "fifo_to_vram_store g =
     (case g_state g of VramStore t \<Rightarrow> store_loop (unat (gf_head (g_fifo g) - gf_tail (g_fifo g))) t g | _ \<Rightarrow> g)"

definition gpu_read :: "gpu \<Rightarrow> u32 \<times> gpu" where
  "gpu_read g =
     (case g_state g of
        VramLoad t \<Rightarrow>
          let (t, val) = fold (\<lambda>shift (t, val).
                (transfer_next t, push_bit shift (ucast (load_16 (mt_x t) (mt_y t) (g_vram g))) OR val)) [0, 16] (t, 0);
              g = g\<lparr>g_read := val, g_state := (if transfer_is_done t then Idle else VramLoad t)\<rparr>
          in (g_read g, g)
      | _ \<Rightarrow> (g_read g, g))"

section \<open>Execution\<close>

text \<open>The dispatch of \<open>gp0_exec\<close>: the time until the command is done, and the state.\<close>

definition gp0_dispatch :: "('f, 'd) gpu_env \<Rightarrow> u32 \<Rightarrow> gpu \<Rightarrow> (systime option \<times> gpu) option" where
  "gp0_dispatch env cmd g =
     (let now = (\<lambda>g. Some (None, g));
          later = map_option (\<lambda>(t, g). (Some t, g))
      in if cmd = 0x1 then now (gp0_clear_texture_cache g)
         else if cmd = 0x2 then later (Some (gp0_fill_rect g))
         else if cmd = 0xe1 then now (gp0_draw_mode g)
         else if cmd = 0xe2 then now (gp0_texture_window_settings g)
         else if cmd = 0xe6 then now (gp0_mask_bit_setting g)
         else if cmd = 0x27 then later (gp0_tri_poly env (mode_of False True True True) g)
         else if cmd = 0x28 then later (gp0_quad_poly env (mode_of False False False False) g)
         else if cmd = 0x2c then later (gp0_quad_poly env (mode_of False True False False) g)
         else if cmd = 0x2d then later (gp0_quad_poly env (mode_of False True True False) g)
         else if cmd = 0x2f then later (gp0_quad_poly env (mode_of False True True True) g)
         else if cmd = 0x30 then later (gp0_tri_poly env (mode_of True False False False) g)
         else if cmd = 0x38 then later (gp0_quad_poly env (mode_of True False False False) g)
         else if cmd = 0x40 then later (gp0_line env (mode_of False False False False) g)
         else if cmd = 0x44 then later (gp0_line env (mode_of False False False False) g)
         else if cmd = 0x55 then later (gp0_line env (mode_of True False False False) g)
         else if cmd = 0x64 then later (gp0_rect env (mode_of False True False False) None g)
         else if cmd = 0x65 then later (gp0_rect env (mode_of False True True False) None g)
         else if cmd = 0xa0 then now (gp0_copy_rect_cpu_to_vram g)
         else if cmd = 0xc0 \<or> cmd = 0xd2 then now (fifo_to_vram_store (gp0_copy_rect_vram_to_cpu g))
         else if cmd = 0xff then now (gp0_useless g)
         else None)"

definition gp0_exec :: "('f, 'd) gpu_env \<Rightarrow> schedule \<times> gpu \<Rightarrow> (schedule \<times> gpu) option" where
  "gp0_exec env x = (case x of (sch, g) \<Rightarrow> do {
     (cycles, g) \<leftarrow> gp0_dispatch env (cmd_of (gf_index 0 (g_fifo g))) g;
     Some (case cycles of
         None \<Rightarrow> (sch, g)
       | Some t \<Rightarrow> (snd (schedule_event t (EvGpu draw_done) sch), g\<lparr>g_state := Drawing\<rparr>)) })"

definition try_gp0_exec :: "('f, 'd) gpu_env \<Rightarrow> schedule \<times> gpu \<Rightarrow> (schedule \<times> gpu) option" where
  "try_gp0_exec env x =
     (if g_state (snd x) = Idle \<and> gf_has_full_cmd (g_fifo (snd x)) then gp0_exec env x else Some x)"

definition gp0_imm_exec :: "u32 \<Rightarrow> gpu \<Rightarrow> gpu option" where
  "gp0_imm_exec val g =
     (let cmd = bit_range val 24 31
      in if cmd = 0 \<or> 0x3 \<le> cmd \<and> cmd \<le> 0x1e then Some g
         else if cmd = 0xe3 then Some (gp0_draw_area_top_left val g)
         else if cmd = 0xe4 then Some (gp0_draw_area_bottom_right val g)
         else if cmd = 0xe5 then Some (gp0_draw_offset val g)
         else None)"

definition gp0_store :: "('f, 'd) gpu_env \<Rightarrow> u32 \<Rightarrow> schedule \<times> gpu \<Rightarrow> (schedule \<times> gpu) option" where
  "gp0_store env val x = (case x of (sch, g) \<Rightarrow>
     case g_state g of
       Idle \<Rightarrow>
         (let (r, f) = gf_push_cmd val (g_fifo g); g = g\<lparr>g_fifo := f\<rparr>
          in case r of
               Some FullCmd \<Rightarrow> gp0_exec env (sch, g)
             | Some ImmCmd \<Rightarrow> map_option (Pair sch) (gp0_imm_exec val g)
             | None \<Rightarrow> Some (sch, g))
     | VramStore _ \<Rightarrow> Some (sch, fifo_to_vram_store (g\<lparr>g_fifo := gf_push val (g_fifo g)\<rparr>))
     | Drawing \<Rightarrow>
         (let (r, f) = gf_push_cmd val (g_fifo g); g = g\<lparr>g_fifo := f\<rparr>
          in if r = Some ImmCmd then map_option (Pair sch) (gp0_imm_exec val g) else Some (sch, g))
     | VramLoad _ \<Rightarrow> Some x)"

section \<open>GP1 commands\<close>

definition set_display_timing :: "video_mode \<Rightarrow> schedule \<times> gpu \<Rightarrow> schedule \<times> gpu" where
  "set_display_timing prev x = (case x of (sch, g) \<Rightarrow>
     let g = g\<lparr>g_scanline_count := scanline_count (g_status g), g_scanline_time := scanline_time (g_status g)\<rparr>
     in (if prev \<noteq> video_mode (g_status g) then repeat_every (g_scanline_time g) (g_scanline_event g) sch else sch,
         g))"

definition gp1_reset :: "schedule \<times> gpu \<Rightarrow> schedule \<times> gpu" where
  "gp1_reset x = (case x of (sch, g) \<Rightarrow>
     let g = g\<lparr>g_fifo := gf_clear (g_fifo g), g_clut := clut_clear (g_clut g)\<rparr>;
         prev = video_mode (g_status g);
         (sch, g) = set_display_timing prev (sch, g\<lparr>g_status := 0x14802000\<rparr>)
     in (sch, g\<lparr>vram_x_start := 0, vram_y_start := 0, dis_x_start := 0x200, dis_x_end := 0xc00,
           dis_y_start := 0x10, dis_y_end := 0x100, tex_x_flip := False, tex_y_flip := False,
           tex_win_w := 0, tex_win_h := 0, tex_win_x := 0, tex_win_y := 0,
           da_x_max := 0, da_x_min := 0, da_y_max := 0, da_y_min := 0, x_offset := 0, y_offset := 0\<rparr>))"

definition gp1_reset_fifo :: "gpu \<Rightarrow> gpu" where
  "gp1_reset_fifo g = g\<lparr>g_fifo := gf_clear (g_fifo g)\<rparr>"

definition gp1_ack_gpu_irq :: "gpu \<Rightarrow> gpu" where
  "gp1_ack_gpu_irq g = g\<lparr>g_status := g_status g AND NOT (push_bit 24 1)\<rparr>"

definition gp1_display_enable :: "u32 \<Rightarrow> gpu \<Rightarrow> gpu" where
  "gp1_display_enable val g = g\<lparr>g_status := set_bit_at (g_status g) 23 (bit_at val 0)\<rparr>"

definition gp1_dma_direction :: "u32 \<Rightarrow> gpu \<Rightarrow> gpu" where
  "gp1_dma_direction val g = g\<lparr>g_status := set_bit_range (g_status g) 29 30 (bit_range val 0 1)\<rparr>"

definition gp1_display_start :: "u32 \<Rightarrow> gpu \<Rightarrow> gpu" where
  "gp1_display_start val g =
     g\<lparr>vram_x_start := ucast (bit_range val 0 9), vram_y_start := ucast (bit_range val 10 18)\<rparr>"

definition gp1_horizontal_display_range :: "u32 \<Rightarrow> gpu \<Rightarrow> gpu" where
  "gp1_horizontal_display_range val g =
     g\<lparr>dis_x_start := ucast (bit_range val 0 11), dis_x_end := ucast (bit_range val 12 23)\<rparr>"

definition gp1_vertical_display_range :: "u32 \<Rightarrow> gpu \<Rightarrow> gpu" where
  "gp1_vertical_display_range val g =
     g\<lparr>dis_y_start := ucast (bit_range val 0 9), dis_y_end := ucast (bit_range val 10 19)\<rparr>"

definition gp1_display_mode :: "u32 \<Rightarrow> schedule \<times> gpu \<Rightarrow> schedule \<times> gpu" where
  "gp1_display_mode val x = (case x of (sch, g) \<Rightarrow>
     let prev = video_mode (g_status g);
         st = set_bit_range (g_status g) 17 22 (bit_range val 0 5);
         st = set_bit_at (set_bit_at st 16 (bit_at val 6)) 14 (bit_at val 7)
     in set_display_timing prev (sch, g\<lparr>g_status := st\<rparr>))"

definition gp1_store :: "u32 \<Rightarrow> schedule \<times> gpu \<Rightarrow> (schedule \<times> gpu) option" where
  "gp1_store val x =
     (let cmd = bit_range val 24 31; on_gpu = (\<lambda>f. Some (apsnd f x))
      in if cmd = 0 then Some (gp1_reset x)
         else if cmd = 1 then on_gpu gp1_reset_fifo
         else if cmd = 2 then on_gpu gp1_ack_gpu_irq
         else if cmd = 3 then on_gpu (gp1_display_enable val)
         else if cmd = 4 then on_gpu (gp1_dma_direction val)
         else if cmd = 5 then on_gpu (gp1_display_start val)
         else if cmd = 6 then on_gpu (gp1_horizontal_display_range val)
         else if cmd = 7 then on_gpu (gp1_vertical_display_range val)
         else if cmd = 8 then Some (gp1_display_mode val x)
         else if cmd = 0xff then Some x
         else None)"

section \<open>Registers\<close>

definition gpu_new :: "schedule \<Rightarrow> schedule \<times> gpu" where
  "gpu_new sch =
     (let status = 0x14802000; time = scanline_time status;
          (ev, sch) = schedule_repeat time (EvGpu end_of_scanline) sch
      in (sch, \<lparr>g_state = Idle, g_clut = clut_cache_default, g_fifo = gf_new, g_vram = vram_new,
           g_status = status, g_read = 0, tex_x_flip = False, tex_y_flip = False,
           tex_win_w = 0, tex_win_h = 0, tex_win_x = 0, tex_win_y = 0,
           da_x_max = 0, da_x_min = 0, da_y_max = 0, da_y_min = 0, x_offset = 0, y_offset = 0,
           vram_x_start = 0, vram_y_start = 0, dis_x_start = 0x200, dis_x_end = 0xc00,
           dis_y_start = 0, dis_y_end = 0x100, g_scanline = 0, g_scanline_count = scanline_count status,
           g_scanline_time = time, g_in_vblank = False, g_scanline_event = ev, g_frames = []\<rparr>))"

definition gpu_dma_block_ready :: "gpu \<Rightarrow> bool" where
  "gpu_dma_block_ready g =
     (case g_state g of
        VramStore _ \<Rightarrow> \<not> gf_is_full (g_fifo g)
      | Drawing \<Rightarrow> False
      | VramLoad _ \<Rightarrow> False
      | Idle \<Rightarrow>
          (case gf_next_cmd (g_fifo g) of
             Some cmd \<Rightarrow> if 0x20 \<le> cmd \<and> cmd \<le> 0x5a then False else \<not> gf_has_full_cmd (g_fifo g)
           | None \<Rightarrow> True))"

definition gpu_status :: "gpu \<Rightarrow> status" where
  "gpu_status g =
     (let s = g_status g;
          r = set_bit_at s 27 (is_vram_load (g_state g));
          r = set_bit_at r 28 (gpu_dma_block_ready g);
          r = set_bit_at r 26 (is_idle (g_state g) \<and> gf_is_empty (g_fifo g))
      in set_bit_at r 25 (case dma_direction s of
           DirOff \<Rightarrow> False
         | DirFifo \<Rightarrow> \<not> gf_is_full (g_fifo g)
         | CpuToGp0 \<Rightarrow> st_dma_block_ready s
         | VramToCpu \<Rightarrow> vram_to_cpu_ready s))"

definition gpu_store ::
  "('f, 'd) gpu_env \<Rightarrow> addr_width \<Rightarrow> u32 \<Rightarrow> u32 \<Rightarrow> schedule \<times> gpu \<Rightarrow> (schedule \<times> gpu) option" where
  "gpu_store env w offset val x = do {
     (sch, g) \<leftarrow> (let o4 = align_as FullWord offset
                  in if o4 = 0 then gp0_store env val x else if o4 = 4 then gp1_store val x else None);
     Some (snd (trigger (EvDma GpuPort) sch), g) }"

definition gpu_load :: "addr_width \<Rightarrow> u32 \<Rightarrow> gpu \<Rightarrow> (u32 \<times> gpu) option" where
  "gpu_load w offset g = do {
     (val, g) \<leftarrow> (let o4 = align_as FullWord offset
                  in if o4 = 0 then Some (gpu_read g) else if o4 = 4 then Some (gpu_status g, g) else None);
     Some (from_u32_aligned w val offset, g) }"

definition gpu_peek :: "addr_width \<Rightarrow> u32 \<Rightarrow> gpu \<Rightarrow> u32 option" where
  "gpu_peek w offset g = do {
     val \<leftarrow> (let o4 = align_as FullWord offset
             in if o4 = 0 then Some (g_read g) else if o4 = 4 then Some (gpu_status g) else None);
     Some (from_u32_aligned w val offset) }"

section \<open>Events and the DMA channel\<close>

text \<open>
  The event at the end of a scanline. On the last line the code computes a new field bit and
  calls \<open>set_bit\<close>, whose result it does not use; so the status register does not change there.
\<close>

definition gpu_end_of_scanline :: "schedule \<times> timers \<times> gpu \<Rightarrow> schedule \<times> timers \<times> gpu" where
  "gpu_end_of_scanline x = (case x of (sch, ts, g) \<Rightarrow>
     let (sch, ts) = timers_hblank 1 (sch, ts);
         g = g\<lparr>g_scanline := g_scanline g + 1\<rparr>;
         g = (if g_scanline g = g_scanline_count g then g\<lparr>g_scanline := 0\<rparr> else g);
         (sch, g) =
           (if g_scanline g = dis_y_end g then
              (snd (trigger (EvIrq VBlank) sch),
               let g = (if interlaced_480 (g_status g) then g\<lparr>g_status := g_status g XOR push_bit 13 1\<rparr> else g)
               in g\<lparr>g_frames := g_frames g @ [((ucast (vram_x_start g), ucast (vram_y_start g)), g_vram g)],
                    g_in_vblank := True\<rparr>)
            else if g_scanline g = dis_y_start g then (sch, g\<lparr>g_in_vblank := False\<rparr>)
            else (sch, g));
         offset = (if interlaced_480 (g_status g)
                   then let bottom = g_in_vblank g \<and> interlace_field (g_status g) = BottomField
                        in push_bit 1 (g_scanline g) OR of_bool bottom
                   else g_scanline g);
         vram_offset = vram_y_start g + offset
     in (sch, ts, g\<lparr>g_status := set_bit_at (g_status g) 31 (bit_at vram_offset 0)\<rparr>))"

definition gpu_draw_done :: "('f, 'd) gpu_env \<Rightarrow> schedule \<times> gpu \<Rightarrow> (schedule \<times> gpu) option" where
  "gpu_draw_done env x = try_gp0_exec env (apsnd (g_state_update (\<lambda>_. Idle)) x)"

definition gpu_event ::
  "('f, 'd) gpu_env \<Rightarrow> gpu_callback \<Rightarrow> schedule \<times> timers \<times> gpu \<Rightarrow> (schedule \<times> timers \<times> gpu) option" where
  "gpu_event env cb x = (case cb of
     end_of_scanline \<Rightarrow> Some (gpu_end_of_scanline x)
   | draw_done \<Rightarrow> (case x of (sch, ts, g) \<Rightarrow>
       map_option (\<lambda>(sch, g). (sch, ts, g)) (gpu_draw_done env (sch, g))))"

definition gpu_channel :: "('f, 'd) gpu_env \<Rightarrow> gpu channel" where
  "gpu_channel env = \<lparr>
     ch_load = (\<lambda>_ sch g.
       if dma_direction (g_status g) \<noteq> VramToCpu then Some (-1, sch, g)
       else (let (val, g) = gpu_read g in Some (val, sch, g))),
     ch_store = (\<lambda>val sch g. gp0_store env val (sch, g)),
     ch_ready = (\<lambda>dir g. case dir of ToRam \<Rightarrow> True | ToPort \<Rightarrow> gpu_dma_block_ready g)\<rparr>"

end
