(* ===== verification/GpuFrame.thy ===== *)
theory GpuFrame
  imports Gpu
begin

text \<open>
  The GP0 commands and the FIFO: every command that is implemented takes exactly its words, so
  the word after it is the next command, and which commands can panic.
\<close>

section \<open>Skipping words of the FIFO\<close>

definition gf_skip :: "nat \<Rightarrow> gpu_fifo \<Rightarrow> gpu_fifo" where
  "gf_skip n f = f\<lparr>gf_tail := gf_tail f + word_of_nat n\<rparr>"

named_theorems fifo_simps \<open>what an operation does to the FIFO of the GPU\<close>

lemma gf_skip_skip [fifo_simps]: "gf_skip m (gf_skip n f) = gf_skip (n + m) f"
  by (simp add: gf_skip_def add.assoc)

lemma gf_skip_0 [fifo_simps]: "gf_skip 0 f = f"
  by (simp add: gf_skip_def)

lemma snd_gf_pop: "snd (gf_pop f) = gf_skip 1 f"
  by (simp add: gf_pop_def gf_skip_def)

lemma gf_skip_contents:
  assumes "gf_inv f" "n \<le> length (gf_contents f)"
  shows "gf_inv (gf_skip n f) \<and> gf_contents (gf_skip n f) = drop n (gf_contents f)
    \<and> gf_cmd_words_left (gf_skip n f) = gf_cmd_words_left f"
  using assms(2)
proof (induction n)
  case 0
  then show ?case using assms(1) by (simp add: fifo_simps)
next
  case (Suc n)
  then have n: "gf_inv (gf_skip n f)" "gf_contents (gf_skip n f) = drop n (gf_contents f)"
    "gf_cmd_words_left (gf_skip n f) = gf_cmd_words_left f"
    by simp_all
  obtain x xs where xs: "gf_contents (gf_skip n f) = x # xs"
    using Suc.prems n(2) by (cases "drop n (gf_contents f)") auto
  obtain f' where f': "gf_pop (gf_skip n f) = (x, f')" "gf_inv f'" "gf_contents f' = xs"
    "gf_cmd_words_left f' = gf_cmd_words_left (gf_skip n f)"
    using gf_pop_contents [OF n(1) xs] by blast
  have "f' = gf_skip (Suc n) f"
    using arg_cong [OF f'(1), of snd] by (simp add: snd_gf_pop gf_skip_skip)
  moreover have "xs = drop (Suc n) (gf_contents f)"
    using xs n(2) by (metis drop_Suc list.sel(3) tl_drop)
  ultimately show ?case using f' n(3) by simp
qed

section \<open>Operations that leave the FIFO alone\<close>

lemma fold_keeps: "(\<And>x s. p (f x s) = p s) \<Longrightarrow> p (fold f xs s) = p s"
  by (induction xs arbitrary: s) auto

lemma draw_pixel_fifo [fifo_simps]: "g_fifo (draw_pixel m x y col masked g) = g_fifo g"
  by (simp add: draw_pixel_def Let_def)

lemma tri_lane_fifo: "g_fifo (fst (snd (tri_lane fl tr y x0 lane st))) = g_fifo (fst (snd st))"
  by (cases lane; cases st) (simp add: tri_lane_def Let_def fifo_simps)

lemma tri_block_fifo: "g_fifo (fst (snd (snd (tri_block fl tr y x st)))) = g_fifo (fst (snd (snd st)))"
proof (cases st)
  case (fields e a g n)
  have "g_fifo (fst (snd (fold (tri_lane fl tr y x) l (a, g, n)))) = g_fifo g" for l
    by (subst fold_keeps [where p = "\<lambda>s. g_fifo (fst (snd s))"]) (simp_all add: tri_lane_fifo)
  with fields show ?thesis by (simp add: tri_block_def Let_def)
qed

lemma tri_row_fifo: "g_fifo (fst (snd (snd (tri_row fl tr a b y st)))) = g_fifo (fst (snd (snd st)))"
proof (cases st)
  case (fields e r g n)
  have "g_fifo (fst (snd (snd (fold (tri_block fl tr y) l (e', a', g, n))))) = g_fifo g" for l e' a'
    by (subst fold_keeps [where p = "\<lambda>s. g_fifo (fst (snd (snd s)))"]) (simp_all add: tri_block_fifo)
  with fields show ?thesis by (simp add: tri_row_def Let_def split_beta)
qed

lemma tri_rows_fifo:
  "g_fifo (fst (snd (snd (fold (tri_row fl tr a b) ys st)))) = g_fifo (fst (snd (snd st)))"
  by (rule fold_keeps [where p = "\<lambda>s. g_fifo (fst (snd (snd s)))"]) (rule tri_row_fifo)

lemma fetch_clut_returns: "\<exists>cc. fetch_clut clut g = Some (g\<lparr>g_clut := cc\<rparr>)"
  by (cases "st_texel_depth (g_status g)")
    (auto simp: fetch_clut_def clut_maybe_fetch_def Let_def intro: exI [of _ "g_clut g"])

text \<open>\<open>keeps r g\<close>: the operation returns a time and a state with the FIFO of \<open>g\<close>.\<close>

definition keeps :: "('a \<times> gpu) option \<Rightarrow> gpu \<Rightarrow> bool" where
  "keeps r g \<longleftrightarrow> (\<exists>t g'. r = Some (t, g') \<and> g_fifo g' = g_fifo g)"

lemma draw_triangle_keeps: "keeps (draw_triangle env m flat clut t g) g"
proof -
  obtain cc where cc: "fetch_clut clut g = Some (g\<lparr>g_clut := cc\<rparr>)" using fetch_clut_returns by blast
  show ?thesis
    by (simp add: keeps_def draw_triangle_def cc Let_def split_beta tri_rows_fifo)
qed

lemma plot_line_fifo [fifo_simps]: "g_fifo (plot_line m x y col g) = g_fifo g"
  by (simp add: plot_line_def fifo_simps)

lemma line_loop_fifo:
  assumes "\<And>a b c g. g_fifo (put a b c g) = g_fifo g"
  shows "g_fifo (line_loop put m flat dc al ac l s n d a b c g) = g_fifo g"
  by (induction n arbitrary: d a b c g) (simp_all add: Let_def split_beta assms)

lemma clamp_to_da_returns:
  "da_x_min g \<le> da_x_max g \<Longrightarrow> da_y_min g \<le> da_y_max g \<Longrightarrow> \<exists>q. clamp_to_da p g = Some q"
  by (simp add: clamp_to_da_def clamp_to_def)

lemma draw_line_keeps:
  assumes "draw_line env m ps cs flat g \<noteq> None"
  shows "keeps (draw_line env m ps cs flat g) g"
proof -
  have "g_fifo g' = g_fifo g" if "draw_line env m ps cs flat g = Some (t, g')" for t g'
    using that
    by (auto simp: draw_line_def Let_def split_beta line_loop_fifo plot_line_fifo bind_eq_Some_conv split: if_splits)
  with assms show ?thesis by (auto simp: keeps_def)
qed

lemma draw_line_returns:
  assumes "da_x_min g \<le> da_x_max g" "da_y_min g \<le> da_y_max g" "\<not> is_shaded m"
  shows "draw_line env m ps cs flat g \<noteq> None"
proof -
  obtain p0 p1 where "clamp_to_da (fst ps) g = Some p0" "clamp_to_da (snd ps) g = Some p1"
    using clamp_to_da_returns [OF assms(1,2)] by meson
  with assms(3) show ?thesis by (cases cs) (simp add: draw_line_def line_deltas_def Let_def)
qed

lemma rect_pixel_fifo: "g_fifo (fst (snd (rect_pixel m sh win d v y x st))) = g_fifo (fst (snd st))"
  by (cases st) (simp add: rect_pixel_def Let_def fifo_simps)

lemma rect_row_fifo:
  "g_fifo (fst (snd (fold (rect_pixel m sh win d v y) xs (u, g, n)))) = g_fifo g"
  by (subst fold_keeps [where p = "\<lambda>s. g_fifo (fst (snd s))"]) (simp_all add: rect_pixel_fifo)

lemma draw_rect_keeps: "keeps (draw_rect env m start dim sh tc clut g) g"
proof -
  obtain cc where cc: "fetch_clut clut g = Some (g\<lparr>g_clut := cc\<rparr>)" using fetch_clut_returns by blast
  have row: "g_fifo (fst (snd (rect_row m sh win d dv u xs y st))) = g_fifo (fst (snd st))" for win d dv u xs y st
    by (cases st) (simp add: rect_row_def Let_def split_beta rect_row_fifo)
  have rows: "g_fifo (fst (snd (fold (rect_row m sh win d dv u xs) ys st))) = g_fifo (fst (snd st))"
    for win d dv u xs ys st
    by (rule fold_keeps [where p = "\<lambda>s. g_fifo (fst (snd s))"]) (rule row)
  show ?thesis
    by (simp add: keeps_def draw_rect_def cc Let_def split_beta rows)
qed

lemma fill_rect_fifo [fifo_simps]: "g_fifo (fill_rect start dim col g) = g_fifo g"
proof -
  have "g_fifo (fold (\<lambda>x. g_vram_update (store_16 (a + x) b c)) xs h) = g_fifo h" for a b c xs h
    by (rule fold_keeps) simp
  then show ?thesis by (simp add: fill_rect_def fold_keeps [where p = g_fifo])
qed

section \<open>Words taken\<close>

lemma gpu_pop_fifo [fifo_simps]: "g_fifo (snd (gpu_pop g)) = gf_skip 1 (g_fifo g)"
  by (simp add: gpu_pop_def split_beta snd_gf_pop)

lemma pop_color_fifo [fifo_simps]: "g_fifo (snd (pop_color p g)) = gf_skip (of_bool p) (g_fifo g)"
  by (simp add: pop_color_def split_beta Let_def fifo_simps)

lemma pop_point_fifo [fifo_simps]: "g_fifo (snd (pop_point g)) = gf_skip 1 (g_fifo g)"
  by (simp add: pop_point_def split_beta Let_def fifo_simps)

lemma pop_frames [fifo_simps]:
  "g_state (snd (gpu_pop g)) = g_state g" "da_x_min (snd (gpu_pop g)) = da_x_min g"
  "da_x_max (snd (gpu_pop g)) = da_x_max g" "da_y_min (snd (gpu_pop g)) = da_y_min g"
  "da_y_max (snd (gpu_pop g)) = da_y_max g"
  by (simp_all add: gpu_pop_def split_beta)

lemma pop_frames' [fifo_simps]:
  "da_x_min (snd (pop_color p g)) = da_x_min g" "da_x_max (snd (pop_color p g)) = da_x_max g"
  "da_y_min (snd (pop_color p g)) = da_y_min g" "da_y_max (snd (pop_color p g)) = da_y_max g"
  "da_x_min (snd (pop_point g)) = da_x_min g" "da_x_max (snd (pop_point g)) = da_x_max g"
  "da_y_min (snd (pop_point g)) = da_y_min g" "da_y_max (snd (pop_point g)) = da_y_max g"
  by (simp_all add: pop_color_def pop_point_def split_beta Let_def fifo_simps)

definition vertex_words :: "draw_mode \<Rightarrow> nat" where
  "vertex_words m = 1 + of_bool (is_shaded m) + of_bool (is_textured m)"

lemma interp_vertex_fifo [fifo_simps]:
  "g_fifo (snd (snd (interp_vertex m i (clut, g)))) = gf_skip (vertex_words m) (g_fifo g)"
  by (simp add: interp_vertex_def vertex_words_def Let_def split_beta fifo_simps)

lemma interp_verts_fifo:
  "g_fifo (snd (snd (interp_verts m i n st))) = gf_skip (n * vertex_words m) (g_fifo (snd st))"
proof (induction n arbitrary: i st)
  case (Suc n)
  show ?case
    by (cases st) (simp add: Let_def split_beta Suc fifo_simps add.commute)
qed (simp add: fifo_simps)

lemma interp_poly_fifo:
  "g_fifo (snd (snd (snd (interp_poly m n g)))) =
     gf_skip (of_bool (\<not> is_shaded m) + n * vertex_words m) (g_fifo g)"
  by (simp add: interp_poly_def Let_def split_beta interp_verts_fifo fifo_simps)

text \<open>\<open>takes n r g\<close>: the command returns and has taken \<open>n\<close> words.\<close>

definition takes :: "nat \<Rightarrow> ('a \<times> gpu) option \<Rightarrow> gpu \<Rightarrow> bool" where
  "takes n r g \<longleftrightarrow> (\<exists>t g'. r = Some (t, g') \<and> g_fifo g' = gf_skip n (g_fifo g))"

lemma takes_Some [simp]: "takes n (Some (t, g')) g \<longleftrightarrow> g_fifo g' = gf_skip n (g_fifo g)"
  by (simp add: takes_def)

lemma takes_later: "takes n r g \<Longrightarrow> takes n (map_option (\<lambda>(t, g). (Some t, g)) r) g"
  by (auto simp: takes_def)

lemma keepsE:
  assumes "keeps r g"
  obtains t g' where "r = Some (t, g')" "g_fifo g' = g_fifo g"
  using assms by (auto simp: keeps_def)

lemma gp0_tri_poly_takes:
  "n = of_bool (\<not> is_shaded m) + 3 * vertex_words m \<Longrightarrow> takes n (gp0_tri_poly env m g) g"
proof -
  assume n: "n = of_bool (\<not> is_shaded m) + 3 * vertex_words m"
  obtain flat vs clut h where i: "interp_poly m 3 g = (flat, vs, clut, h)" by (metis surj_pair)
  obtain t h' where "draw_triangle env m flat clut (three 0 vs) h = Some (t, h')" "g_fifo h' = g_fifo h"
    using draw_triangle_keeps by (rule keepsE)
  then show ?thesis using interp_poly_fifo [of m 3 g] n by (simp add: gp0_tri_poly_def i)
qed

lemma gp0_quad_poly_takes:
  "n = of_bool (\<not> is_shaded m) + 4 * vertex_words m \<Longrightarrow> takes n (gp0_quad_poly env m g) g"
proof -
  assume n: "n = of_bool (\<not> is_shaded m) + 4 * vertex_words m"
  obtain flat vs clut h where i: "interp_poly m 4 g = (flat, vs, clut, h)" by (metis surj_pair)
  obtain t h' where 1: "draw_triangle env m flat clut (three 0 vs) h = Some (t, h')" "g_fifo h' = g_fifo h"
    using draw_triangle_keeps by (rule keepsE)
  obtain t' h'' where "draw_triangle env m flat clut (three 1 vs) h' = Some (t', h'')" "g_fifo h'' = g_fifo h'"
    using draw_triangle_keeps by (rule keepsE)
  with 1 show ?thesis using interp_poly_fifo [of m 4 g] n by (simp add: gp0_quad_poly_def i)
qed

lemma gp0_rect_takes:
  "n = 3 + of_bool (is_textured m) \<Longrightarrow> takes n (gp0_rect env m None g) g"
proof -
  assume n: "n = 3 + of_bool (is_textured m)"
  obtain c g1 where 1: "pop_color True g = (c, g1)" by (metis surj_pair)
  obtain p g2 where 2: "pop_point g1 = (p, g2)" by (metis surj_pair)
  obtain uv clut g3 where 3: "(if is_textured m then let (val, g) = gpu_pop g2 in (coord_of val, clut_point val, g)
      else (tex_coord_default, point_default, g2)) = (uv, clut, g3)" by (rule prod_cases3)
  obtain val g4 where 4: "gpu_pop g3 = (val, g4)" by (metis surj_pair)
  obtain t g5 where 5: "draw_rect env m p (point_from_cmd val) c uv clut g4 = Some (t, g5)" "g_fifo g5 = g_fifo g4"
    using draw_rect_keeps by (rule keepsE)
  have "g_fifo g3 = gf_skip (of_bool (is_textured m)) (g_fifo g2)"
    using 3 gpu_pop_fifo [of g2] by (cases "is_textured m") (auto simp: Let_def split_beta fifo_simps)
  then have "g_fifo g5 = gf_skip n (g_fifo g)"
    using 5(2) gpu_pop_fifo [of g3] pop_point_fifo [of g1] pop_color_fifo [of True g]
    by (cases "is_textured m"; simp add: 1 2 4 n fifo_simps numeral_eq_Suc)
  then show ?thesis by (simp add: gp0_rect_def 1 2 3 4 5(1))
qed

lemma gp0_line_takes:
  assumes "gp0_line env m g \<noteq> None"
  shows "takes (3 + of_bool (is_shaded m)) (gp0_line env m g) g"
proof -
  obtain flat g1 where 1: "pop_color (\<not> is_shaded m) g = (flat, g1)" by (metis surj_pair)
  obtain c0 g2 where 2: "pop_color (is_shaded m) g1 = (c0, g2)" by (metis surj_pair)
  obtain p0 g3 where 3: "pop_point g2 = (p0, g3)" by (metis surj_pair)
  obtain c1 g4 where 4: "pop_color (is_shaded m) g3 = (c1, g4)" by (metis surj_pair)
  obtain p1 g5 where 5: "pop_point g4 = (p1, g5)" by (metis surj_pair)
  have "draw_line env m (p0, p1) (c0, c1) flat g5 \<noteq> None"
    using assms by (intro notI) (simp add: gp0_line_def 1 2 3 4 5)
  then obtain t h where h: "draw_line env m (p0, p1) (c0, c1) flat g5 = Some (t, h)" "g_fifo h = g_fifo g5"
    using draw_line_keeps by (meson keepsE)
  have "g_fifo g5 = gf_skip (3 + of_bool (is_shaded m)) (g_fifo g)"
    using pop_color_fifo [of "\<not> is_shaded m" g, unfolded 1] pop_color_fifo [of "is_shaded m" g1, unfolded 2]
      pop_point_fifo [of g2, unfolded 3] pop_color_fifo [of "is_shaded m" g3, unfolded 4] pop_point_fifo [of g4, unfolded 5]
    by (cases "is_shaded m"; simp add: fifo_simps numeral_eq_Suc)
  with h show ?thesis by (simp add: gp0_line_def 1 2 3 4 5)
qed

lemma gp0_line_returns:
  assumes "da_x_min g \<le> da_x_max g" "da_y_min g \<le> da_y_max g" "\<not> is_shaded m"
  shows "gp0_line env m g \<noteq> None"
proof -
  have "gp0_line env m g = None \<Longrightarrow> \<exists>ps cs flat h. draw_line env m ps cs flat h = None
      \<and> da_x_min h = da_x_min g \<and> da_x_max h = da_x_max g \<and> da_y_min h = da_y_min g \<and> da_y_max h = da_y_max g"
    by (simp add: gp0_line_def Let_def split_beta bind_eq_None_conv)
      (intro exI conjI, assumption, simp_all add: fifo_simps)
  then show ?thesis using assms draw_line_returns by metis
qed

section \<open>Every command takes its words\<close>

definition gp0_known :: "u32 \<Rightarrow> bool" where
  "gp0_known cmd \<longleftrightarrow> cmd \<in> {0x1, 0x2, 0xe1, 0xe2, 0xe6, 0x27, 0x28, 0x2c, 0x2d, 0x2f, 0x30, 0x38,
     0x40, 0x44, 0x55, 0x64, 0x65, 0xa0, 0xc0, 0xd2, 0xff}"

definition gp0_line_cmd :: "u32 \<Rightarrow> bool" where
  "gp0_line_cmd cmd \<longleftrightarrow> cmd \<in> {0x40, 0x44, 0x55}"

lemma simple_takes:
  "g_fifo (gp0_clear_texture_cache g) = gf_skip 1 (g_fifo g)" "g_fifo (gp0_draw_mode g) = gf_skip 1 (g_fifo g)"
  "g_fifo (gp0_texture_window_settings g) = gf_skip 1 (g_fifo g)"
  "g_fifo (gp0_mask_bit_setting g) = gf_skip 1 (g_fifo g)" "g_fifo (gp0_useless g) = gf_skip 1 (g_fifo g)"
  "g_fifo (gp0_copy_rect_cpu_to_vram g) = gf_skip 3 (g_fifo g)"
  "g_fifo (gp0_copy_rect_vram_to_cpu g) = gf_skip 3 (g_fifo g)"
  "g_fifo (snd (gp0_fill_rect g)) = gf_skip 3 (g_fifo g)"
  by (simp_all add: gp0_clear_texture_cache_def gp0_draw_mode_def gp0_texture_window_settings_def
      gp0_mask_bit_setting_def gp0_useless_def gp0_copy_rect_cpu_to_vram_def gp0_copy_rect_vram_to_cpu_def
      gp0_fill_rect_def Let_def split_beta fifo_simps numeral_eq_Suc)

lemma vram_to_cpu_no_store: "fifo_to_vram_store (gp0_copy_rect_vram_to_cpu g) = gp0_copy_rect_vram_to_cpu g"
  by (simp add: fifo_to_vram_store_def gp0_copy_rect_vram_to_cpu_def Let_def split_beta)

text \<open>The lengths the table gives the commands that are implemented.\<close>

lemma known_lens:
  "CMD_LEN ! 1 = 1" "CMD_LEN ! Suc 0 = 1" "CMD_LEN ! 2 = 3" "CMD_LEN ! 0xe1 = 1" "CMD_LEN ! 0xe2 = 1" "CMD_LEN ! 0xe6 = 1"
  "CMD_LEN ! 0x27 = 7" "CMD_LEN ! 0x28 = 5" "CMD_LEN ! 0x2c = 9" "CMD_LEN ! 0x2d = 9" "CMD_LEN ! 0x2f = 9"
  "CMD_LEN ! 0x30 = 6" "CMD_LEN ! 0x38 = 8" "CMD_LEN ! 0x40 = 3" "CMD_LEN ! 0x44 = 3" "CMD_LEN ! 0x55 = 4"
  "CMD_LEN ! 0x64 = 4" "CMD_LEN ! 0x65 = 4" "CMD_LEN ! 0xa0 = 3" "CMD_LEN ! 0xc0 = 3" "CMD_LEN ! 0xd2 = 3"
  "CMD_LEN ! 0xff = 1"
  by (code_simp)+

lemma later_Some [simp]: "takes n (Some (Some (fst r), snd r)) g \<longleftrightarrow> g_fifo (snd r) = gf_skip n (g_fifo g)"
  by simp

lemma known_takes:
  assumes "gp0_known cmd" "\<not> gp0_line_cmd cmd"
  shows "takes (CMD_LEN ! unat cmd) (gp0_dispatch env cmd g) g"
proof -
  note defs = gp0_dispatch_def Let_def known_lens simple_takes vram_to_cpu_no_store split_beta
  have quad: "takes n (map_option (\<lambda>(t, g). (Some t, g)) (gp0_quad_poly env m g)) g"
    if "n = of_bool (\<not> is_shaded m) + 4 * vertex_words m" for n m
    by (rule takes_later) (rule gp0_quad_poly_takes [OF that])
  have tri: "takes n (map_option (\<lambda>(t, g). (Some t, g)) (gp0_tri_poly env m g)) g"
    if "n = of_bool (\<not> is_shaded m) + 3 * vertex_words m" for n m
    by (rule takes_later) (rule gp0_tri_poly_takes [OF that])
  have rect: "takes n (map_option (\<lambda>(t, g). (Some t, g)) (gp0_rect env m None g)) g"
    if "n = 3 + of_bool (is_textured m)" for n m
    by (rule takes_later) (rule gp0_rect_takes [OF that])
  have "cmd \<in> {0x1, 0x2, 0xe1, 0xe2, 0xe6, 0xa0, 0xc0, 0xd2, 0xff} \<or> cmd \<in> {0x27, 0x30}
      \<or> cmd \<in> {0x28, 0x2c, 0x2d, 0x2f, 0x38} \<or> cmd \<in> {0x64, 0x65}"
    using assms unfolding gp0_known_def gp0_line_cmd_def by simp blast
  then show ?thesis
  proof (elim disjE)
    assume "cmd \<in> {0x1, 0x2, 0xe1, 0xe2, 0xe6, 0xa0, 0xc0, 0xd2, 0xff}"
    then show ?thesis by (elim insertE emptyE) (simp_all add: defs)
  next
    assume "cmd \<in> {0x27, 0x30}"
    then show ?thesis
      by (elim insertE emptyE) (simp_all add: gp0_dispatch_def Let_def known_lens tri mode_of_def vertex_words_def)
  next
    assume "cmd \<in> {0x28, 0x2c, 0x2d, 0x2f, 0x38}"
    then show ?thesis
      by (elim insertE emptyE) (simp_all add: gp0_dispatch_def Let_def known_lens quad mode_of_def vertex_words_def)
  next
    assume "cmd \<in> {0x64, 0x65}"
    then show ?thesis
      by (elim insertE emptyE) (simp_all add: gp0_dispatch_def Let_def known_lens rect mode_of_def)
  qed
qed

lemma line_takes:
  assumes "gp0_line_cmd cmd" "gp0_dispatch env cmd g \<noteq> None"
  shows "takes (CMD_LEN ! unat cmd) (gp0_dispatch env cmd g) g"
proof -
  have line: "takes (3 + of_bool (is_shaded m)) (map_option (\<lambda>(t, g). (Some t, g)) (gp0_line env m g)) g"
    if "map_option (\<lambda>(t, g). (Some t, g)) (gp0_line env m g) \<noteq> None" for m
    using that by (intro takes_later gp0_line_takes) simp
  show ?thesis
    using assms line [of "mode_of False False False False"] line [of "mode_of True False False False"]
    by (auto simp: gp0_line_cmd_def gp0_dispatch_def Let_def known_lens mode_of_def)
qed

lemma line_returns:
  assumes "cmd \<in> {0x40, 0x44}" "da_x_min g \<le> da_x_max g" "da_y_min g \<le> da_y_max g"
  shows "gp0_dispatch env cmd g \<noteq> None"
  using assms gp0_line_returns [of g "mode_of False False False False" env]
  by (auto simp: gp0_dispatch_def Let_def mode_of_def)

lemma unknown_stops: "\<not> gp0_known cmd \<Longrightarrow> gp0_dispatch env cmd g = None"
  by (simp add: gp0_known_def gp0_dispatch_def)

lemma full_cmd_len:
  assumes "gf_inv f" "gf_has_full_cmd f"
  shows "CMD_LEN ! unat (cmd_of (gf_index 0 f)) \<le> gf_count f"
  using assms unat_cmd_fifo_len [of "gf_index 0 f"]
  by (auto simp: gf_has_full_cmd_def gf_next_cmd_len_def gf_next_cmd_def word_le_nat_alt
      gf_len_count split: option.splits if_splits)

text \<open>C30: \<open>gp0_exec\<close>, called as the code demands with a full command in the FIFO, takes exactly the
  words the table of lengths gives the command, so the next word is again a command; it panics only
  on a command that has no implementation, and on a line when the draw area is empty or the line is
  shaded.
\<close>

theorem gp0_exec_framing:
  assumes "gf_inv (g_fifo g)" "gf_has_full_cmd (g_fifo g)" "cmd = cmd_of (gf_index 0 (g_fifo g))"
  shows "case gp0_exec env (sch, g) of
      Some (sch', g') \<Rightarrow> gp0_known cmd \<and> gf_inv (g_fifo g')
        \<and> gf_contents (g_fifo g') = drop (CMD_LEN ! unat cmd) (gf_contents (g_fifo g))
        \<and> gf_cmd_words_left (g_fifo g') = gf_cmd_words_left (g_fifo g)
    | None \<Rightarrow> gp0_known cmd \<longrightarrow>
        gp0_line_cmd cmd \<and> (da_x_min g > da_x_max g \<or> da_y_min g > da_y_max g \<or> cmd = 0x55)"
proof (cases "gp0_dispatch env cmd g")
  case None
  then have "\<not> takes n (gp0_dispatch env cmd g) g" for n by (simp add: takes_def)
  then have "gp0_known cmd \<Longrightarrow> gp0_line_cmd cmd" using known_takes by blast
  then show ?thesis
    using None assms(3) line_returns [of cmd g env]
    by (auto simp: gp0_exec_def gp0_line_cmd_def not_le [symmetric])
next
  case (Some r)
  then have k: "gp0_known cmd" using unknown_stops [of cmd env g] by fastforce
  have t: "takes (CMD_LEN ! unat cmd) (gp0_dispatch env cmd g) g"
    using k known_takes line_takes Some by (metis option.distinct(1))
  obtain c g' where r: "r = (c, g')" by (cases r)
  have len: "cmd_of (gf_index 0 (g_fifo g)) = cmd \<and> CMD_LEN ! unat cmd \<le> length (gf_contents (g_fifo g))"
    using assms by (simp add: full_cmd_len)
  show ?thesis
    using t k Some gf_skip_contents [OF assms(1), of "CMD_LEN ! unat cmd"] len
    by (cases c) (simp_all add: gp0_exec_def r)
qed

text \<open>The draw mode command in an otherwise empty FIFO.\<close>

definition mode_fifo :: gpu_fifo where "mode_fifo = gf_push 0xe1000007 gf_new"

theorem gp0_exec_framing_witness:
  "\<forall>(env :: (unit, unit) gpu_env) sch. case gp0_exec env (sch, snd (gpu_new schedule_new)\<lparr>g_fifo := mode_fifo\<rparr>) of
      Some (sch', g') \<Rightarrow> gf_contents (g_fifo g') = [] | None \<Rightarrow> False"
proof (intro allI)
  fix env :: "(unit, unit) gpu_env" and sch
  let ?g = "snd (gpu_new schedule_new)\<lparr>g_fifo := mode_fifo\<rparr>"
  have "gf_inv mode_fifo" "gf_has_full_cmd mode_fifo" "gf_index 0 mode_fifo = 0xe1000007"
    "gf_contents mode_fifo = [0xe1000007]"
    by code_simp+
  moreover have "cmd_of 0xe1000007 = 0xe1" by code_simp
  ultimately show "case gp0_exec env (sch, ?g) of Some (sch', g') \<Rightarrow> gf_contents (g_fifo g') = [] | None \<Rightarrow> False"
    using gp0_exec_framing [of ?g "0xe1" env sch]
    by (auto simp: known_lens gp0_known_def gp0_line_cmd_def split: option.splits)
qed

end
