(* ===== verification/GpuTransfer.thy ===== *)
theory GpuTransfer
  imports GpuFrame
begin

text \<open>
  Copies between the CPU and video memory: the order in which a transfer visits the rectangle,
  and that what is written through GP0 is read back through GPUREAD.
\<close>

section \<open>The order of a transfer\<close>

definition visit :: "int \<Rightarrow> int \<Rightarrow> nat \<Rightarrow> nat \<Rightarrow> nat \<Rightarrow> mem_transfer" where
  "visit x y w h k = (transfer_new x y (int w) (int h))\<lparr>mt_x := x + int (k mod w), mt_y := y + int (k div w)\<rparr>"

lemma visit_0: "0 < w \<Longrightarrow> visit x y w h 0 = transfer_new x y (int w) (int h)"
  by (simp add: visit_def transfer_new_def)

lemma visit_next: "0 < w \<Longrightarrow> transfer_next (visit x y w h k) = visit x y w h (Suc k)"
  by (auto simp: transfer_next_def visit_def transfer_new_def mod_Suc div_Suc)

lemma visit_done: "0 < w \<Longrightarrow> transfer_is_done (visit x y w h k) \<longleftrightarrow> w * h \<le> k"
  by (simp add: transfer_is_done_def visit_def transfer_new_def less_eq_div_iff_mult_less_eq mult.commute)

definition visit_offset :: "int \<Rightarrow> int \<Rightarrow> nat \<Rightarrow> nat \<Rightarrow> nat" where
  "visit_offset x y w k = offset_16 (x + int (k mod w)) (y + int (k div w))"

lemma visit_coords [simp]:
  "mt_x (visit x y w h k) = x + int (k mod w)" "mt_y (visit x y w h k) = y + int (k div w)"
  by (simp_all add: visit_def)

text \<open>A rectangle of at most 1024 columns and 512 lines does not overlap itself, even wrapped.\<close>

lemma visit_offset_inj:
  assumes w: "0 < w" "w \<le> 1024" "h \<le> 512" and k: "i < w * h" "j < w * h"
    and eq: "visit_offset x y w i = visit_offset x y w j"
  shows "i = j"
proof -
  let ?a = "\<lambda>k. k mod w + 1024 * (k div w)"
  have less: "?a k < 1024 * 512" if "k < w * h" for k
  proof -
    have "k div w < h" using that by (simp add: less_mult_imp_div_less mult.commute)
    moreover have "k mod w < w" using w(1) by simp
    ultimately show ?thesis using w by linarith
  qed
  have "(x + y * 1024 + int (?a i)) mod 524288 = (x + y * 1024 + int (?a j)) mod 524288"
    using eq by (simp add: visit_offset_def offset_16_def VRAM_SIZE_def algebra_simps eq_nat_nat_iff)
  then have "524288 dvd (x + y * 1024 + int (?a i)) - (x + y * 1024 + int (?a j))"
    by (simp only: mod_eq_dvd_iff)
  then have "524288 dvd int (?a i) - int (?a j)" by (simp only: add_diff_cancel_left)
  moreover have "\<bar>int (?a i) - int (?a j)\<bar> < 524288" using less [OF k(1)] less [OF k(2)] by linarith
  ultimately have "?a i = ?a j" using zdvd_imp_le [of 524288 "\<bar>int (?a i) - int (?a j)\<bar>"] by force
  moreover have "i mod w < 1024" "j mod w < 1024"
    using w mod_less_divisor [of w i] mod_less_divisor [of w j] by linarith+
  ultimately have "i mod w = j mod w"
    by (metis (no_types, lifting) mod_less mod_mult_self2)
  moreover from this \<open>?a i = ?a j\<close> have "i div w = j div w" by simp
  ultimately show ?thesis by (metis div_mult_mod_eq)
qed

section \<open>Halfwords\<close>

definition halves :: "u32 list \<Rightarrow> u16 list" where
  "halves ws = concat (map (\<lambda>w. [ucast (bit_range w 0 15), ucast (bit_range w 16 31)]) ws)"

lemma halves_simps [simp]: "halves [] = []"
  "halves (w # ws) = ucast (bit_range w 0 15) # ucast (bit_range w 16 31) # halves ws"
  by (simp_all add: halves_def)

lemma length_halves [simp]: "length (halves ws) = 2 * length ws"
  by (induction ws) simp_all

lemma join_halves:
  "push_bit 16 (ucast (ucast (bit_range w 16 31) :: u16)) OR ucast (ucast (bit_range w 0 15) :: u16) = w" for w :: u32
  by (rule bit_word_eqI) (auto simp: bit_simps bits_simps)

text \<open>What a transfer leaves in video memory when it stores the halfwords \<open>hs\<close> from step \<open>k\<close> on.\<close>

fun put_halves :: "int \<Rightarrow> int \<Rightarrow> nat \<Rightarrow> nat \<Rightarrow> u16 list \<Rightarrow> vram \<Rightarrow> vram" where
  "put_halves x y w k [] v = v"
| "put_halves x y w k (c # hs) v = put_halves x y w (Suc k) hs (v(visit_offset x y w k := c))"

lemma put_halves_outside:
  "(\<And>i. k \<le> i \<Longrightarrow> i < k + length hs \<Longrightarrow> off \<noteq> visit_offset x y w i) \<Longrightarrow> put_halves x y w k hs v off = v off"
proof (induction hs arbitrary: k v)
  case (Cons c hs)
  have "put_halves x y w (Suc k) hs (v(visit_offset x y w k := c)) off = (v(visit_offset x y w k := c)) off"
    by (rule Cons.IH) (rule Cons.prems, simp_all)
  then show ?case using Cons.prems [of k] by simp
qed simp

lemma put_halves_inside:
  assumes "0 < w" "w \<le> 1024" "h \<le> 512"
  shows "k + length hs \<le> w * h \<Longrightarrow> i < length hs \<Longrightarrow> put_halves x y w k hs v (visit_offset x y w (k + i)) = hs ! i"
proof (induction hs arbitrary: k v i)
  case (Cons c hs)
  show ?case
  proof (cases i)
    case 0
    have "put_halves x y w (Suc k) hs (v(visit_offset x y w k := c)) (visit_offset x y w k) = c"
    proof (subst put_halves_outside)
      fix i assume "Suc k \<le> i" "i < Suc k + length hs"
      then show "visit_offset x y w k \<noteq> visit_offset x y w i"
        using visit_offset_inj [OF assms, of k i x y] Cons.prems(1) by auto
    qed simp
    with 0 show ?thesis by simp
  next
    case (Suc j)
    then show ?thesis using Cons.IH [of "Suc k" j] Cons.prems by simp
  qed
qed simp

section \<open>Storing and reading words\<close>

lemma store_halves_visit:
  assumes "0 < w"
  shows "store_halves val (visit x y w h k, v) =
    (visit x y w h (k + 2), put_halves x y w k (halves [val]) v)"
  using visit_next [OF assms] by (simp add: store_halves_def store_16_def visit_offset_def)

text \<open>The state while a transfer stores: an empty FIFO that waits for no arguments.\<close>

definition fifo_quiet :: "gpu \<Rightarrow> bool" where
  "fifo_quiet g \<longleftrightarrow> gf_inv (g_fifo g) \<and> gf_contents (g_fifo g) = [] \<and> gf_cmd_words_left (g_fifo g) = None"

definition after :: "int \<Rightarrow> int \<Rightarrow> nat \<Rightarrow> nat \<Rightarrow> nat \<Rightarrow> (mem_transfer \<Rightarrow> gpu_state) \<Rightarrow> gpu_state" where
  "after x y w h k C = (if w * h \<le> k then Idle else C (visit x y w h k))"

lemma push_one:
  assumes "fifo_quiet g"
  shows "fifo_quiet (snd (gpu_pop (g\<lparr>g_fifo := gf_push val (g_fifo g)\<rparr>)))"
    "fst (gpu_pop (g\<lparr>g_fifo := gf_push val (g_fifo g)\<rparr>)) = val"
    "unat (gf_head (gf_push val (g_fifo g)) - gf_tail (gf_push val (g_fifo g))) = 1"
proof -
  have f: "gf_inv (g_fifo g)" "gf_contents (g_fifo g) = []" "gf_cmd_words_left (g_fifo g) = None"
    using assms by (simp_all add: fifo_quiet_def)
  have room: "gf_count (g_fifo g) < 16" using arg_cong [OF f(2), of length] by simp
  note p = gf_push_internal_contents [OF f(1) room, of val, unfolded gf_push_contents [OF f(1) room, symmetric]]
  have one: "gf_contents (gf_push val (g_fifo g)) = [val]" using p(2) f(2) by simp
  obtain f' where f': "gf_pop (gf_push val (g_fifo g)) = (val, f')" "gf_inv f'" "gf_contents f' = []"
    "gf_cmd_words_left f' = gf_cmd_words_left (gf_push val (g_fifo g))"
    using gf_pop_contents [OF p(1) one] by blast
  show "fifo_quiet (snd (gpu_pop (g\<lparr>g_fifo := gf_push val (g_fifo g)\<rparr>)))"
    "fst (gpu_pop (g\<lparr>g_fifo := gf_push val (g_fifo g)\<rparr>)) = val"
    using f' p(3) f(3) by (simp_all add: gpu_pop_def fifo_quiet_def)
  show "unat (gf_head (gf_push val (g_fifo g)) - gf_tail (gf_push val (g_fifo g))) = 1"
    using arg_cong [OF one, of length] by (simp add: gf_count_def)
qed

fun gp0_stores :: "('f, 'd) gpu_env \<Rightarrow> u32 list \<Rightarrow> schedule \<times> gpu \<Rightarrow> (schedule \<times> gpu) option" where
  "gp0_stores env [] s = Some s"
| "gp0_stores env (w # ws) s = Option.bind (gp0_store env w s) (gp0_stores env ws)"

fun gpu_reads :: "nat \<Rightarrow> gpu \<Rightarrow> u32 list \<times> gpu" where
  "gpu_reads 0 g = ([], g)"
| "gpu_reads (Suc n) g = (let (w, g) = gpu_read g; (ws, g) = gpu_reads n g in (w # ws, g))"

lemma gp0_stores_append: "gp0_stores env (us @ ws) s = Option.bind (gp0_stores env us s) (gp0_stores env ws)"
proof (induction us arbitrary: s)
  case (Cons u us)
  then show ?case by (cases "gp0_store env u s") simp_all
qed simp

lemma store_word:
  assumes "0 < w" "fifo_quiet g" "g_state g = VramStore (visit x y w h k)"
  shows "\<exists>g'. gp0_store env val (sch, g) = Some (sch, g') \<and> fifo_quiet g'
    \<and> g_vram g' = put_halves x y w k (halves [val]) (g_vram g) \<and> g_state g' = after x y w h (k + 2) VramStore"
proof -
  let ?g = "g\<lparr>g_fifo := gf_push val (g_fifo g)\<rparr>"
  obtain u g1 where g1: "gpu_pop ?g = (u, g1)" by (cases "gpu_pop ?g")
  then have u: "u = val" "fifo_quiet g1" using push_one [OF assms(2), of val] by simp_all
  have v: "g_vram g1 = g_vram g" using arg_cong [OF g1, of "\<lambda>r. g_vram (snd r)"] by (simp add: gpu_pop_def split_beta)
  show ?thesis
    using assms(3) push_one(3) [OF assms(2), of val] u
    by (simp add: gp0_store_def fifo_to_vram_store_def g1 store_halves_visit [OF assms(1)] Let_def split_beta v
        visit_done [OF assms(1)] after_def fifo_quiet_def)
qed

lemma store_words:
  assumes "0 < w"
  shows "fifo_quiet g \<Longrightarrow> g_state g = after x y w h k VramStore \<Longrightarrow> k + 2 * length ws = w * h \<Longrightarrow>
    \<exists>g'. gp0_stores env ws (sch, g) = Some (sch, g') \<and> fifo_quiet g'
      \<and> g_vram g' = put_halves x y w k (halves ws) (g_vram g) \<and> g_state g' = Idle"
proof (induction ws arbitrary: g k)
  case Nil
  then show ?case by (simp add: after_def)
next
  case (Cons c ws)
  then have "g_state g = VramStore (visit x y w h k)" by (simp add: after_def)
  then obtain g1 where g1: "gp0_store env c (sch, g) = Some (sch, g1)" "fifo_quiet g1"
    "g_vram g1 = put_halves x y w k (halves [c]) (g_vram g)" "g_state g1 = after x y w h (k + 2) VramStore"
    using store_word [OF assms Cons.prems(1)] by blast
  have "k + 2 + 2 * length ws = w * h" using Cons.prems(3) by simp
  then obtain g2 where g2: "gp0_stores env ws (sch, g1) = Some (sch, g2)" "fifo_quiet g2"
    "g_vram g2 = put_halves x y w (k + 2) (halves ws) (g_vram g1)" "g_state g2 = Idle"
    using Cons.IH [OF g1(2,4)] by blast
  then show ?case using g1(1,3) by (intro exI [of _ g2]) simp
qed

lemma read_word:
  assumes "0 < w" "g_state g = VramLoad (visit x y w h k)"
    "load_16 (x + int (k mod w)) (y + int (k div w)) (g_vram g) = ucast (bit_range val 0 15)"
    "load_16 (x + int (Suc k mod w)) (y + int (Suc k div w)) (g_vram g) = ucast (bit_range val 16 31)"
  shows "\<exists>g'. gpu_read g = (val, g') \<and> g_vram g' = g_vram g \<and> g_fifo g' = g_fifo g
    \<and> g_state g' = after x y w h (k + 2) VramLoad"
  using assms visit_next [OF assms(1)]
  by (simp add: gpu_read_def Let_def visit_done after_def join_halves)

lemma read_words:
  assumes "0 < w"
  shows "g_state g = after x y w h k VramLoad \<Longrightarrow> k + 2 * length ws = w * h \<Longrightarrow>
    (\<And>i. i < 2 * length ws \<Longrightarrow> g_vram g (visit_offset x y w (k + i)) = halves ws ! i) \<Longrightarrow>
    \<exists>g'. gpu_reads (length ws) g = (ws, g') \<and> g_vram g' = g_vram g \<and> g_state g' = Idle \<and> g_fifo g' = g_fifo g"
proof (induction ws arbitrary: g k)
  case Nil
  then show ?case by (simp add: after_def)
next
  case (Cons c ws)
  have st: "g_state g = VramLoad (visit x y w h k)" using Cons.prems by (simp add: after_def)
  have "load_16 (x + int (k mod w)) (y + int (k div w)) (g_vram g) = ucast (bit_range c 0 15)"
    "load_16 (x + int (Suc k mod w)) (y + int (Suc k div w)) (g_vram g) = ucast (bit_range c 16 31)"
    using Cons.prems(3) [of 0] Cons.prems(3) [of 1] by (simp_all add: load_16_def visit_offset_def)
  then obtain g1 where g1: "gpu_read g = (c, g1)" "g_vram g1 = g_vram g" "g_fifo g1 = g_fifo g"
    "g_state g1 = after x y w h (k + 2) VramLoad"
    using read_word [OF assms st] by blast
  have "g_vram g1 (visit_offset x y w (k + 2 + i)) = halves ws ! i" if "i < 2 * length ws" for i
    using Cons.prems(3) [of "i + 2"] that g1(2) by (simp add: add.assoc add.commute)
  then show ?case using Cons.IH [OF g1(4)] Cons.prems(2) g1 by (auto simp: Let_def split_beta)
qed

section \<open>Commands of three words\<close>

definition holds :: "gpu_fifo \<Rightarrow> u32 list \<Rightarrow> u8 option \<Rightarrow> bool" where
  "holds f ws left \<longleftrightarrow> gf_inv f \<and> gf_contents f = ws \<and> gf_cmd_words_left f = left"

lemma push_arg:
  assumes "holds f ws (Some n)" "length ws < 16"
  shows "\<exists>f'. gf_push_cmd v f = (if n = 1 then Some FullCmd else None, f')
    \<and> holds f' (ws @ [v]) (if n = 1 then None else Some (n - 1))"
proof -
  let ?f = "f\<lparr>gf_cmd_words_left := None\<rparr>"
  have f: "gf_inv ?f" "gf_contents ?f = ws" "gf_cmd_words_left f = Some n" using assms(1) by (simp_all add: holds_def)
  have room: "gf_count ?f < 16" using arg_cong [OF f(2), of length] assms(2) by simp
  note p = gf_push_internal_contents [OF f(1) room, of v]
  have "\<not> gf_is_full f" using f(1) room gf_full_iff [of f] by simp
  then show ?thesis using p f by (auto simp: gf_push_cmd_def holds_def Let_def)
qed

lemma push_first:
  assumes "holds f [] None" "\<not> cmd_is_imm (cmd_of v)" "cmd_fifo_len (cmd_of v) \<noteq> 1"
  shows "\<exists>f'. gf_push_cmd v f = (None, f') \<and> holds f' [v] (Some (cmd_fifo_len (cmd_of v) - 1))"
proof -
  have f: "gf_inv f" "gf_contents f = []" "gf_cmd_words_left f = None" using assms(1) by (simp_all add: holds_def)
  have room: "gf_count f < 16" using arg_cong [OF f(2), of length] by simp
  have "\<not> gf_is_full f" using f(1) room gf_full_iff [of f] by simp
  then show ?thesis
    using gf_push_internal_contents [OF f(1) room, of v] f assms(2,3)
    by (auto simp: gf_push_cmd_def holds_def Let_def)
qed

lemma pop_holds:
  assumes "holds (g_fifo g) (v # ws) l"
  shows "\<exists>g'. gpu_pop g = (v, g') \<and> holds (g_fifo g') ws l \<and> g_vram g' = g_vram g"
  using gf_pop_contents [of "g_fifo g" v ws] assms by (auto simp: holds_def gpu_pop_def)

lemma index_holds: "holds f (v # ws) l \<Longrightarrow> gf_index 0 f = v"
  using gf_pop_contents [of f v ws] by (auto simp: holds_def gf_pop_def Let_def)

definition copy_state :: "u32 \<Rightarrow> u32 \<Rightarrow> u32 \<Rightarrow> gpu_state" where
  "copy_state cmd pos dim =
     (if cmd = 0xa0 then VramStore (transfer_new (uint (bit_range pos 0 9)) (uint (bit_range pos 16 25))
        (uint (bit_range dim 0 9)) (uint (bit_range dim 16 24)))
      else VramLoad (transfer_new (uint (bit_range pos 0 9)) (uint (bit_range pos 16 25))
        (uint (bit_range dim 0 9)) (uint (bit_range dim 16 25))))"

lemma dispatch_copy:
  assumes "cmd \<in> {0xa0, 0xc0}" "holds (g_fifo g) [c, pos, dim] None"
  shows "\<exists>g'. gp0_dispatch env cmd g = Some (None, g') \<and> holds (g_fifo g') [] None \<and> g_vram g' = g_vram g
    \<and> g_state g' = copy_state cmd pos dim"
proof -
  obtain g1 where g1: "gpu_pop g = (c, g1)" "holds (g_fifo g1) [pos, dim] None" "g_vram g1 = g_vram g"
    using pop_holds [OF assms(2)] by blast
  obtain g2 where g2: "gpu_pop g1 = (pos, g2)" "holds (g_fifo g2) [dim] None" "g_vram g2 = g_vram g"
    using pop_holds [OF g1(2)] g1(3) by metis
  obtain g3 where g3: "gpu_pop g2 = (dim, g3)" "holds (g_fifo g3) [] None" "g_vram g3 = g_vram g"
    using pop_holds [OF g2(2)] g2(3) by metis
  have d: "gp0_copy_rect_cpu_to_vram g = g3\<lparr>g_state := copy_state 0xa0 pos dim\<rparr>"
    "gp0_copy_rect_vram_to_cpu g = g3\<lparr>g_state := copy_state 0xc0 pos dim\<rparr>"
    by (simp_all add: gp0_copy_rect_cpu_to_vram_def gp0_copy_rect_vram_to_cpu_def g1 g2 g3 copy_state_def)
  show ?thesis
    using assms(1) g3 vram_to_cpu_no_store [of g] by (auto simp: gp0_dispatch_def Let_def d)
qed

lemma fifo_quiet_holds: "fifo_quiet g \<longleftrightarrow> holds (g_fifo g) [] None"
  by (simp add: fifo_quiet_def holds_def)

lemma issue_copy:
  assumes "cmd_of c \<in> {0xa0, 0xc0}" "fifo_quiet g" "g_state g = Idle"
  shows "\<exists>g'. gp0_stores env [c, pos, dim] (sch, g) = Some (sch, g') \<and> fifo_quiet g' \<and> g_vram g' = g_vram g
    \<and> g_state g' = copy_state (cmd_of c) pos dim"
proof -
  have "\<not> cmd_is_imm 0xa0" "\<not> cmd_is_imm 0xc0" "cmd_fifo_len 0xa0 = 3" "cmd_fifo_len 0xc0 = 3" by code_simp+
  then have c: "\<not> cmd_is_imm (cmd_of c)" "cmd_fifo_len (cmd_of c) = 3" using assms(1) by auto
  obtain f1 where f1: "gf_push_cmd c (g_fifo g) = (None, f1)" "holds f1 [c] (Some 2)"
    using push_first [of "g_fifo g" c] assms(2) c by (auto simp: fifo_quiet_holds)
  obtain f2 where f2: "gf_push_cmd pos f1 = (None, f2)" "holds f2 [c, pos] (Some 1)"
    using push_arg [OF f1(2), of pos] by auto
  obtain f3 where f3: "gf_push_cmd dim f2 = (Some FullCmd, f3)" "holds f3 [c, pos, dim] None"
    using push_arg [OF f2(2), of dim] by auto
  let ?g = "g\<lparr>g_fifo := f3\<rparr>"
  obtain g' where g': "gp0_dispatch env (cmd_of c) ?g = Some (None, g')" "holds (g_fifo g') [] None"
    "g_vram g' = g_vram ?g" "g_state g' = copy_state (cmd_of c) pos dim"
    using dispatch_copy [OF assms(1), of ?g c pos dim env] f3(2) by auto
  have "gp0_exec env (sch, ?g) = Some (sch, g')"
    using g'(1) index_holds [OF f3(2)] by (simp add: gp0_exec_def)
  then show ?thesis
    using f1(1) f2(1) f3(1) g' assms(3) by (intro exI [of _ g']) (simp add: gp0_store_def fifo_quiet_holds)
qed

section \<open>The round trip\<close>

definition in_rect :: "u32 \<Rightarrow> u32 \<Rightarrow> nat \<Rightarrow> bool" where
  "in_rect pos dim off \<longleftrightarrow> (\<exists>k < unat (bit_range dim 0 9) * unat (bit_range dim 16 24).
     off = visit_offset (uint (bit_range pos 0 9)) (uint (bit_range pos 16 25)) (unat (bit_range dim 0 9)) k)"

text \<open>C25: A rectangle written with the command a0 and read back with c0 gives the words that were sent, in
  order; nothing outside the rectangle has changed, and the GPU is idle again. The area must be
  even, because words carry two halfwords, and the height must not use bit 25, which a0 leaves out.
  This holds whatever the mask settings of the command e6 are: the comments of the code say that they
  affect the command a0 and set a bit of each pixel that is written, but no code does either.
\<close>

theorem vram_roundtrip:
  fixes dim :: u32
  defines "w \<equiv> unat (bit_range dim 0 9)" and "h \<equiv> unat (bit_range dim 16 24)"
  assumes "fifo_quiet g" "g_state g = Idle" "cmd_of c = 0xa0" "cmd_of r = 0xc0"
    and "0 < w" "0 < h" "2 * length ws = w * h" "\<not> bit dim 25"
  shows "\<exists>g1 g2. gp0_stores env (c # pos # dim # ws @ [r, pos, dim]) (sch, g) = Some (sch, g1)
    \<and> gpu_reads (length ws) g1 = (ws, g2) \<and> g_state g2 = Idle \<and> fifo_quiet g2
    \<and> (\<forall>off. in_rect pos dim off \<or> g_vram g2 off = g_vram g off)"
proof -
  define x y where "x = uint (bit_range pos 0 9)" and "y = uint (bit_range pos 16 25)"
  have b: "w \<le> 1024" "h \<le> 512"
    using unat_bit_range_less [of 0 9 dim] unat_bit_range_less [of 16 24 dim] by (simp_all add: w_def h_def)
  have "bit_range dim 16 25 = bit_range dim 16 24"
  proof (rule bit_word_eqI)
    fix n
    show "bit (bit_range dim 16 25) n \<longleftrightarrow> bit (bit_range dim 16 24) n"
      using assms(10) by (cases "n = 9") (auto simp: bits_simps)
  qed
  moreover have "uint (bit_range dim 0 9) = int w" "uint (bit_range dim 16 24) = int h"
    by (simp_all add: w_def h_def)
  ultimately have st: "copy_state 0xa0 pos dim = after x y w h 0 VramStore" "copy_state 0xc0 pos dim = after x y w h 0 VramLoad"
    using assms(7,8) by (simp_all add: copy_state_def after_def visit_0 x_def y_def)
  obtain ga where ga: "gp0_stores env [c, pos, dim] (sch, g) = Some (sch, ga)" "fifo_quiet ga" "g_vram ga = g_vram g"
    "g_state ga = after x y w h 0 VramStore"
    using issue_copy [of c g env pos dim sch] assms(3-5) st(1) by auto
  obtain gb where gb: "gp0_stores env ws (sch, ga) = Some (sch, gb)" "fifo_quiet gb"
    "g_vram gb = put_halves x y w 0 (halves ws) (g_vram g)" "g_state gb = Idle"
    using store_words [OF assms(7) ga(2,4), of ws env sch] assms(9) ga(3) by auto
  obtain gc where gc: "gp0_stores env [r, pos, dim] (sch, gb) = Some (sch, gc)" "fifo_quiet gc" "g_vram gc = g_vram gb"
    "g_state gc = after x y w h 0 VramLoad"
    using issue_copy [of r gb env pos dim sch] gb(2,4) assms(6) st(2) by auto
  have v: "g_vram gc (visit_offset x y w (0 + i)) = halves ws ! i" if "i < 2 * length ws" for i
    using put_halves_inside [OF assms(7) b, of 0 "halves ws" i x y] that assms(9) gb(3) gc(3) by simp
  obtain gd where gd: "gpu_reads (length ws) gc = (ws, gd)" "g_vram gd = g_vram gc" "g_state gd = Idle"
    "g_fifo gd = g_fifo gc"
    using read_words [OF assms(7) gc(4), of ws] assms(9) v by auto
  have out: "g_vram gd off = g_vram g off" if "\<not> in_rect pos dim off" for off
    using that assms(9) gd(2) gc(3) gb(3)
    by (auto simp: in_rect_def x_def y_def w_def h_def intro!: put_halves_outside)
  have run: "gp0_stores env (c # pos # dim # ws @ [r, pos, dim]) (sch, g) = Some (sch, gc)"
    using ga(1) gb(1) gc(1) gp0_stores_append [of env "[c, pos, dim]" "ws @ [r, pos, dim]" "(sch, g)"]
    by (simp add: gp0_stores_append)
  show ?thesis
    using run gd gc(2) out by (intro exI [of _ gc] exI [of _ gd]) (auto simp: fifo_quiet_def)
qed

theorem vram_roundtrip_witness:
  "\<forall>(env :: (unit, unit) gpu_env) sch. \<exists>g1 g2.
     gp0_stores env [0xa0000000, 0x00100020, 0x00010004, 7, 8, 0xc0000000, 0x00100020, 0x00010004]
       (sch, snd (gpu_new schedule_new)) = Some (sch, g1) \<and> gpu_reads 2 g1 = ([7, 8], g2)"
proof (intro allI)
  fix env :: "(unit, unit) gpu_env" and sch
  let ?g = "snd (gpu_new schedule_new)"
  have "gf_inv gf_new" "gf_contents gf_new = []" by (fact gf_new_inv)+
  then have "fifo_quiet ?g" "g_state ?g = Idle"
    by (simp_all add: gpu_new_def fifo_quiet_def Let_def split_beta gf_new_def)
  moreover have "cmd_of 0xa0000000 = 0xa0" "cmd_of 0xc0000000 = 0xc0" by code_simp+
  moreover have "unat (bit_range (0x00010004 :: u32) 0 9) = 4" "unat (bit_range (0x00010004 :: u32) 16 24) = 1"
    "\<not> bit (0x00010004 :: u32) 25" by code_simp+
  ultimately show "\<exists>g1 g2.
     gp0_stores env [0xa0000000, 0x00100020, 0x00010004, 7, 8, 0xc0000000, 0x00100020, 0x00010004] (sch, ?g)
       = Some (sch, g1) \<and> gpu_reads 2 g1 = ([7, 8], g2)"
    using vram_roundtrip [where g = ?g and c = "0xa0000000" and r = "0xc0000000" and dim = "0x00010004"
      and ws = "[7, 8]" and env = env and pos = "0x00100020" and sch = sch]
    by (auto simp: numeral_2_eq_2)
qed

end
