(* ===== verification/GpuLine.thy ===== *)
theory GpuLine
  imports Gpu
begin

text \<open>
  Lines (\<open>gpu/rasterize.rs\<close>) against their specification. The code keeps a running decision value and
  moves by one pixel at a time; the specification rounds the ideal line in each column, or row, of
  the longer direction.
\<close>

section \<open>The specification\<close>

text \<open>The distance across after \<open>i\<close> steps along, rounded to the nearest pixel, halves up.\<close>

definition rounded :: "int \<Rightarrow> int \<Rightarrow> int \<Rightarrow> int" where
  "rounded long short i = (2 * short * i + long) div (2 * long)"

definition line_dir :: "int \<Rightarrow> int" where "line_dir d = (if d < 0 then -1 else 1)"

definition line_points :: "point \<Rightarrow> point \<Rightarrow> (int \<times> int) list" where
  "line_points p q =
     (let dx = px q - px p; dy = py q - py p
      in if \<bar>dx\<bar> > \<bar>dy\<bar>
         then map (\<lambda>i. (px p + line_dir dx * i, py p + line_dir dy * rounded \<bar>dx\<bar> \<bar>dy\<bar> i)) [0..\<bar>dx\<bar>]
         else map (\<lambda>i. (px p + line_dir dx * rounded \<bar>dy\<bar> \<bar>dx\<bar> i, py p + line_dir dy * i)) [0..\<bar>dy\<bar>])"

section \<open>Rounding\<close>

lemma rounded_0: "0 \<le> long \<Longrightarrow> rounded long short 0 = 0"
  by (cases "long = 0") (simp_all add: rounded_def div_pos_pos_trivial)

lemma rounded_bounds:
  assumes "0 < long"
  shows "2 * (long * rounded long short i) \<le> 2 * (short * i) + long" "2 * (short * i) + long < 2 * (long * rounded long short i) + 2 * long"
proof -
  have "(2 * long) * rounded long short i + (2 * short * i + long) mod (2 * long) = 2 * short * i + long"
    unfolding rounded_def by (rule mult_div_mod_eq)
  moreover have "0 \<le> (2 * short * i + long) mod (2 * long)" "(2 * short * i + long) mod (2 * long) < 2 * long"
    using assms by simp_all
  ultimately show "2 * (long * rounded long short i) \<le> 2 * (short * i) + long"
    "2 * (short * i) + long < 2 * (long * rounded long short i) + 2 * long"
    by (simp_all add: mult.assoc)
qed

lemma rounded_unique:
  assumes "0 < long" "2 * (long * j) \<le> 2 * (short * i) + long" "2 * (short * i) + long < 2 * (long * j) + 2 * long"
  shows "rounded long short i = j"
  unfolding rounded_def
  by (rule int_div_pos_eq [of _ _ _ "2 * (short * i) + long - 2 * (long * j)"]) (use assms in \<open>simp_all add: mult.assoc\<close>)

lemma rounded_step:
  assumes "0 \<le> short" "short \<le> long" "0 < long"
  shows "rounded long short (i + 1) =
    (if 2 * (short * (i + 1)) - 2 * (long * rounded long short i) - long < 0 then rounded long short i else rounded long short i + 1)"
  using rounded_bounds [OF assms(3), of short i] assms
  by (auto intro!: rounded_unique simp: distrib_left)

lemma rounded_end: "0 < long \<Longrightarrow> rounded long short long = short"
  by (rule rounded_unique) (simp_all add: mult.commute)

lemma rounded_near: "0 < long \<Longrightarrow> \<bar>2 * (long * rounded long short i - short * i)\<bar> \<le> long"
  using rounded_bounds [of long short i] by (auto simp: abs_le_iff right_diff_distrib)

lemma rounded_range:
  assumes "0 \<le> short" "short \<le> long" "0 < long" "0 \<le> i" "i \<le> long"
  shows "0 \<le> rounded long short i" "rounded long short i \<le> short"
proof -
  show "0 \<le> rounded long short i" using assms by (simp add: rounded_def pos_imp_zdiv_nonneg_iff)
  have "2 * short * i + long \<le> 2 * short * long + long" using assms by (simp add: mult_left_mono)
  then have "rounded long short i \<le> rounded long short long" unfolding rounded_def using assms(3) by (intro zdiv_mono1) simp_all
  then show "rounded long short i \<le> short" using rounded_end assms(3) by simp
qed

section \<open>The loop\<close>

text \<open>The state behind \<open>i\<close> steps; the decision value is twice the distance to the ideal line of the
  next step, less half a pixel.\<close>

definition line_color :: "draw_mode \<Rightarrow> color \<Rightarrow> color \<Rightarrow> color \<Rightarrow> int \<Rightarrow> color" where
  "line_color m flat c0 dc k = (if is_shaded m then ((\<lambda>c. map_channels (+) c dc) ^^ nat k) c0 else flat)"

lemma line_loop_points:
  assumes "0 \<le> short" "short \<le> long" "0 < long" "short = \<bar>across_d\<bar>"
  shows "d = 2 * (short * (i + 1)) - 2 * (long * rounded long short i) - long \<Longrightarrow> 0 \<le> i \<Longrightarrow>
    along = along0 + line_dir along_d * i \<Longrightarrow> across = across0 + line_dir across_d * rounded long short i \<Longrightarrow>
    c = ((\<lambda>c. map_channels (+) c dc) ^^ nat i) c0 \<Longrightarrow>
    line_loop put m flat dc along_d across_d long short n d along across c g =
      fold (\<lambda>k. put (along0 + line_dir along_d * k) (across0 + line_dir across_d * rounded long short k) (line_color m flat c0 dc k))
        [i + 1..i + int n] g"
proof (induction n arbitrary: d i along across g c)
  case (Suc n)
  let ?j = "rounded long short i" and ?more = "\<lambda>c. map_channels (+) c dc"
  let ?d = "if d < 0 then d + 2 * short else d + (2 * short - 2 * long)"
  let ?across = "if d < 0 then across else if across_d < 0 then across - 1 else across + 1"
  let ?c = "if is_shaded m then ?more c else c"
  let ?col = "line_color m flat c0 dc (i + 1)"
  have step: "rounded long short (i + 1) = (if d < 0 then ?j else ?j + 1)"
    using rounded_step [OF assms(1-3), of i] Suc.prems(1) by simp
  have d: "?d = 2 * (short * (i + 1 + 1)) - 2 * (long * rounded long short (i + 1)) - long"
    unfolding step using Suc.prems(1) by (simp add: distrib_left)
  have along: "(if along_d < 0 then along - 1 else along + 1) = along0 + line_dir along_d * (i + 1)"
    using Suc.prems(3) by (simp add: line_dir_def)
  have across: "?across = across0 + line_dir across_d * rounded long short (i + 1)"
    unfolding step using Suc.prems(4) by (simp add: line_dir_def)
  have more: "?more c = (?more ^^ nat (i + 1)) c0" using Suc.prems(2,5) by (simp add: nat_add_distrib)
  have col: "(if is_shaded m then ?c else flat) = ?col" using more by (simp add: line_color_def)
  have list: "[i + 1..i + int (Suc n)] = (i + 1) # [i + 1 + 1..i + 1 + int n]" by (subst upto_rec1) (simp_all add: algebra_simps)
  have loop: "line_loop put m flat dc along_d across_d long short (Suc n) d along across c g =
    line_loop put m flat dc along_d across_d long short n ?d (along0 + line_dir along_d * (i + 1)) ?across ?c
      (put (along0 + line_dir along_d * (i + 1)) ?across ?col g)"
    by (simp add: along Let_def col)
  show ?case
  proof (cases "is_shaded m")
    case True
    then show ?thesis using Suc.IH [OF d _ refl across more] Suc.prems(2) unfolding loop list across by simp
  next
    case False
    have same: "line_loop put m flat dc along_d across_d long short n d' a b c' g' = line_loop put m flat dc along_d across_d long short n d' a b c'' g'"
      for d' a b c' c'' g'
      using False by (induction n arbitrary: d' a b g') (simp_all add: Let_def)
    show ?thesis
      using Suc.IH [OF d _ refl across refl] Suc.prems(2) False unfolding loop list across
      by (subst same [where c'' = "(?more ^^ nat (i + 1)) c0"]) simp
  qed
qed simp

section \<open>Drawing a line\<close>

text \<open>The first pixel has the flat colour, also of a shaded line.\<close>

definition pixel_color :: "draw_mode \<Rightarrow> color \<Rightarrow> color \<Rightarrow> color \<Rightarrow> int \<Rightarrow> color" where
  "pixel_color m flat c0 dc k = (if k = 0 then flat else line_color m flat c0 dc k)"

lemma fold_line:
  assumes "short = \<bar>across_d\<bar>" "long = \<bar>along_d\<bar>" "short \<le> long"
  shows "line_loop put m flat dc along_d across_d long short (nat long) (2 * short - long) a b c (put a b flat g) =
    fold (\<lambda>k. put (a + line_dir along_d * k) (b + line_dir across_d * rounded long short k) (pixel_color m flat c dc k)) [0..long] g"
proof (cases "long = 0")
  case True
  then show ?thesis by (simp add: rounded_def pixel_color_def)
next
  case False
  then have long: "0 < long" using assms(2) by simp
  have list: "[0..long] = 0 # [0 + 1..0 + int (nat long)]" using long by (subst upto_rec1) simp_all
  have "fold (\<lambda>k. put (a + line_dir along_d * k) (b + line_dir across_d * rounded long short k) (pixel_color m flat c dc k))
      [0 + 1..0 + int (nat long)] (put a b flat g) =
    fold (\<lambda>k. put (a + line_dir along_d * k) (b + line_dir across_d * rounded long short k) (line_color m flat c dc k))
      [0 + 1..0 + int (nat long)] (put a b flat g)"
    by (rule fold_cong) (auto simp: pixel_color_def)
  then show ?thesis
    unfolding list using long assms
    by (subst line_loop_points [where i = 0 and along0 = a and across0 = b and ?c0.0 = c])
      (simp_all add: rounded_0 pixel_color_def)
qed

definition plot_at :: "draw_mode \<Rightarrow> (int \<Rightarrow> color) \<Rightarrow> int \<times> int \<times> int \<Rightarrow> gpu \<Rightarrow> gpu" where
  "plot_at m col r g = (case r of (k, x, y) \<Rightarrow> plot_line m x y (col k) g)"

lemma length_line_points: "length (line_points p q) = 1 + nat (if \<bar>px q - px p\<bar> > \<bar>py q - py p\<bar> then \<bar>px q - px p\<bar> else \<bar>py q - py p\<bar>)"
  by (simp add: line_points_def Let_def nat_add_distrib)

definition longest :: "point \<Rightarrow> point \<Rightarrow> int" where
  "longest p q = max \<bar>px q - px p\<bar> \<bar>py q - py p\<bar>"

lemma enumerate_upto: "zip [0..n] (map f [0..n]) = map (\<lambda>k. (k, f k)) [0..n :: int]"
  by (simp add: zip_map2 zip_same_conv_map)

lemma draw_line_points:
  assumes "clamp_to_da p g = Some p'" "clamp_to_da q g = Some q'" "line_deltas m c0 c1 (word_of_int (longest p' q')) = Some dc"
  shows "draw_line env m (p, q) (c0, c1) flat g =
    (let g' = fold (plot_at m (pixel_color m flat c0 dc)) (zip [0..longest p' q'] (line_points p' q')) g
     in Some (line_draw_time (e_f64 env) m (length (line_points p' q')) g', g'))"
proof -
  let ?dx = "px q' - px p'" and ?dy = "py q' - py p'"
  show ?thesis
  proof (cases "\<bar>?dx\<bar> > \<bar>?dy\<bar>")
    case True
    then have l: "longest p' q' = \<bar>?dx\<bar>" by (simp add: longest_def)
    show ?thesis
      using True fold_line [of "\<bar>?dy\<bar>" ?dy "\<bar>?dx\<bar>" ?dx "\<lambda>x y. plot_line m x y" m flat dc "px p'" "py p'" c0 g] assms(3)
      by (simp add: draw_line_def assms(1,2) Let_def length_line_points longest_def)
        (simp add: line_points_def Let_def enumerate_upto fold_map plot_at_def [abs_def] comp_def l max_def)
  next
    case False
    then have l: "longest p' q' = \<bar>?dy\<bar>" by (simp add: longest_def)
    show ?thesis
      using False fold_line [of "\<bar>?dx\<bar>" ?dx "\<bar>?dy\<bar>" ?dy "\<lambda>y x. plot_line m x y" m flat dc "py p'" "px p'" c0 g] assms(3)
      by (simp add: draw_line_def assms(1,2) Let_def length_line_points longest_def)
        (simp add: line_points_def Let_def enumerate_upto fold_map plot_at_def [abs_def] comp_def l max_def)
  qed
qed

section \<open>The points\<close>

lemma line_dir_abs [simp]: "line_dir d * \<bar>d\<bar> = d" by (simp add: line_dir_def)

lemma line_points_ends: "hd (line_points p q) = (px p, py p)" "last (line_points p q) = (px q, py q)"
proof -
  have hd_upto: "hd [0..n] = 0" "last [0..n] = n" "[0..n] \<noteq> []" if "0 \<le> n" for n :: int
  proof -
    show "[0..n] \<noteq> []" "hd [0..n] = 0" using that by (subst upto_rec1; simp)+
    show "last [0..n] = n" using that by (subst upto_rec2) simp_all
  qed
  show "hd (line_points p q) = (px p, py p)"
    by (simp add: line_points_def Let_def hd_map hd_upto rounded_0)
  show "last (line_points p q) = (px q, py q)"
  proof (cases "\<bar>px q - px p\<bar> > \<bar>py q - py p\<bar> \<or> py q \<noteq> py p")
    case True
    then show ?thesis by (auto simp: line_points_def Let_def last_map hd_upto rounded_end)
  next
    case False
    then have "px q = px p" "py q = py p" by auto
    then show ?thesis by (simp add: line_points_def Let_def rounded_def)
  qed
qed

text \<open>Every point is within half a pixel of the ideal line, and between its ends.\<close>

definition near_line :: "point \<Rightarrow> point \<Rightarrow> int \<times> int \<Rightarrow> bool" where
  "near_line p q r \<longleftrightarrow> (let dx = px q - px p; dy = py q - py p; x = fst r - px p; y = snd r - py p
     in 2 * \<bar>dx * y - dy * x\<bar> \<le> max \<bar>dx\<bar> \<bar>dy\<bar>)"

definition between :: "int \<Rightarrow> int \<Rightarrow> int \<Rightarrow> bool" where
  "between a b x \<longleftrightarrow> min a b \<le> x \<and> x \<le> max a b"

lemma between_walk: "0 \<le> k \<Longrightarrow> k \<le> \<bar>b - a\<bar> \<Longrightarrow> between a b (a + line_dir (b - a) * k)"
  by (auto simp: between_def line_dir_def)

lemma near_walk:
  assumes "0 < \<bar>along\<bar>" "y = line_dir across * rounded \<bar>along\<bar> \<bar>across\<bar> k" "x = line_dir along * k"
  shows "2 * \<bar>along * y - across * x\<bar> \<le> \<bar>along\<bar>"
proof -
  have "along * y - across * x = line_dir along * line_dir across * (\<bar>along\<bar> * rounded \<bar>along\<bar> \<bar>across\<bar> k - \<bar>across\<bar> * k)"
    unfolding assms(2,3) by (simp add: line_dir_def right_diff_distrib)
  also have "\<bar>\<dots>\<bar> = \<bar>\<bar>along\<bar> * rounded \<bar>along\<bar> \<bar>across\<bar> k - \<bar>across\<bar> * k\<bar>" by (simp add: abs_mult line_dir_def)
  finally show ?thesis using rounded_near [OF assms(1), of "\<bar>across\<bar>" k] by (simp only: abs_mult) simp
qed

lemma line_points_near:
  assumes "r \<in> set (line_points p q)"
  shows "near_line p q r \<and> between (px p) (px q) (fst r) \<and> between (py p) (py q) (snd r)"
proof (cases "\<bar>px q - px p\<bar> > \<bar>py q - py p\<bar>")
  case True
  then obtain k where k: "0 \<le> k" "k \<le> \<bar>px q - px p\<bar>" "fst r = px p + line_dir (px q - px p) * k"
      "snd r = py p + line_dir (py q - py p) * rounded \<bar>px q - px p\<bar> \<bar>py q - py p\<bar> k"
    using assms by (auto simp: line_points_def Let_def)
  then show ?thesis
    using True near_walk [of "px q - px p" "snd r - py p" "py q - py p" k "fst r - px p"]
      rounded_range [of "\<bar>py q - py p\<bar>" "\<bar>px q - px p\<bar>" k]
    by (simp add: near_line_def between_walk)
next
  case False
  then obtain k where k: "0 \<le> k" "k \<le> \<bar>py q - py p\<bar>" "snd r = py p + line_dir (py q - py p) * k"
      "fst r = px p + line_dir (px q - px p) * rounded \<bar>py q - py p\<bar> \<bar>px q - px p\<bar> k"
    using assms by (auto simp: line_points_def Let_def)
  show ?thesis
  proof (cases "py q = py p")
    case True
    then show ?thesis using k False by (auto simp: near_line_def between_def rounded_def)
  next
    case ne: False
    then have "2 * \<bar>(py q - py p) * (fst r - px p) - (px q - px p) * (snd r - py p)\<bar> \<le> \<bar>py q - py p\<bar>"
      using near_walk [of "py q - py p" "fst r - px p" "px q - px p" k "snd r - py p"] k by simp
    then have "near_line p q r" using False by (simp add: near_line_def Let_def abs_minus_commute max_def)
    then show ?thesis using False ne k rounded_range [of "\<bar>px q - px p\<bar>" "\<bar>py q - py p\<bar>" k] by (simp add: between_walk)
  qed
qed

text \<open>C28: A line, its ends moved into the drawing area first, is drawn from end to end with one pixel in each
  column or row of its longer direction, each the nearest to the ideal line and between the ends,
  in a colour that moves by a constant step, and its time is that of their number.
\<close>

theorem line_nearest:
  assumes "clamp_to_da p g = Some p'" "clamp_to_da q g = Some q'" "line_deltas m c0 c1 (word_of_int (longest p' q')) = Some dc"
  shows "draw_line env m (p, q) (c0, c1) flat g =
      (let g' = fold (plot_at m (pixel_color m flat c0 dc)) (zip [0..longest p' q'] (line_points p' q')) g
       in Some (line_draw_time (e_f64 env) m (length (line_points p' q')) g', g'))
    \<and> length (line_points p' q') = nat (longest p' q' + 1)
    \<and> hd (line_points p' q') = (px p', py p') \<and> last (line_points p' q') = (px q', py q')
    \<and> list_all (\<lambda>r. near_line p' q' r \<and> between (px p') (px q') (fst r) \<and> between (py p') (py q') (snd r)) (line_points p' q')"
  using draw_line_points [OF assms] line_points_ends [of p' q'] line_points_near [of _ p' q']
  by (auto simp: list_all_iff length_line_points longest_def max_def nat_add_distrib)

definition line_gpu :: gpu where
  "line_gpu = (snd (gpu_new schedule_new))\<lparr>da_x_max := 100, da_y_max := 100\<rparr>"

theorem line_nearest_witness:
  "\<forall>env :: (unit, unit) gpu_env. \<exists>g'. draw_line env (mode_of False False False False) (\<lparr>px = 0, py = 0\<rparr>, \<lparr>px = 3, py = 200\<rparr>)
       (color_default, color_default) color_default line_gpu
     = Some (line_draw_time (e_f64 env) (mode_of False False False False) 101 g', g')
       \<and> last (line_points \<lparr>px = 0, py = 0\<rparr> \<lparr>px = 3, py = 100\<rparr>) = (3, 100)"
proof
  fix env :: "(unit, unit) gpu_env"
  have ends: "clamp_to_da \<lparr>px = 0, py = 0\<rparr> line_gpu = Some \<lparr>px = 0, py = 0\<rparr>"
    "clamp_to_da \<lparr>px = 3, py = 200\<rparr> line_gpu = Some \<lparr>px = 3, py = 100\<rparr>"
    by (simp_all add: clamp_to_da_def clamp_to_def line_gpu_def gpu_new_def Let_def split_beta)
  have "length (line_points \<lparr>px = 0, py = 0\<rparr> \<lparr>px = 3, py = 100\<rparr>) = 101" by (simp add: length_line_points)
  then show "\<exists>g'. draw_line env (mode_of False False False False) (\<lparr>px = 0, py = 0\<rparr>, \<lparr>px = 3, py = 200\<rparr>)
       (color_default, color_default) color_default line_gpu
     = Some (line_draw_time (e_f64 env) (mode_of False False False False) 101 g', g')
       \<and> last (line_points \<lparr>px = 0, py = 0\<rparr> \<lparr>px = 3, py = 100\<rparr>) = (3, 100)"
    using line_nearest [OF ends, of "mode_of False False False False" color_default color_default color_default env color_default]
    by (auto simp: Let_def mode_of_def line_deltas_def)
qed

end
