(* ===== verification/GpuClip.thy ===== *)
theory GpuClip
  imports GpuLine GpuTriangle
begin

text \<open>
  Where drawing commands write (\<open>gpu/rasterize.rs\<close>): rectangles and lines of every kind write video memory
  only inside the drawing area, triangles also up to six columns to its right.
\<close>

section \<open>What a step writes\<close>

definition box :: "int \<Rightarrow> int \<Rightarrow> int \<Rightarrow> int \<Rightarrow> nat set" where
  "box x0 x1 y0 y1 = {off. \<exists>x y. x0 \<le> x \<and> x \<le> x1 \<and> y0 \<le> y \<and> y \<le> y1 \<and> off = offset_16 x y}"

definition writes_in :: "nat set \<Rightarrow> gpu \<Rightarrow> gpu \<Rightarrow> bool" where
  "writes_in A g h \<longleftrightarrow> (\<forall>off. off \<notin> A \<longrightarrow> g_vram h off = g_vram g off)"

lemma writes_refl [simp]: "writes_in A g g" by (simp add: writes_in_def)
lemma writes_trans: "writes_in A g h \<Longrightarrow> writes_in A h k \<Longrightarrow> writes_in A g k" by (simp add: writes_in_def)

lemma writes_fold:
  assumes "\<And>x s. x \<in> set xs \<Longrightarrow> writes_in A (gpu_of s) (gpu_of (f x s))"
  shows "writes_in A (gpu_of s) (gpu_of (fold f xs s))"
  using assms by (induction xs arbitrary: s) (auto intro: writes_trans)

lemma in_box: "x0 \<le> x \<Longrightarrow> x \<le> x1 \<Longrightarrow> y0 \<le> y \<Longrightarrow> y \<le> y1 \<Longrightarrow> offset_16 x y \<in> box x0 x1 y0 y1"
  by (auto simp: box_def)

lemma draw_pixel_writes: "offset_16 x y \<in> A \<Longrightarrow> writes_in A g (draw_pixel m x y col masked g)"
  by (auto simp: draw_pixel_def writes_in_def store_16_def Let_def)

lemma fetch_clut_vram: "fetch_clut clut g = Some h \<Longrightarrow> g_vram h = g_vram g \<and> da_x_min h = da_x_min g \<and> da_x_max h = da_x_max g
    \<and> da_y_min h = da_y_min g \<and> da_y_max h = da_y_max g"
  by (auto simp: fetch_clut_def Let_def split: if_splits)

definition drawing_area :: "int \<Rightarrow> gpu \<Rightarrow> nat set" where
  "drawing_area extra g = box (da_x_min g) (da_x_max g + extra) (da_y_min g) (da_y_max g)"

section \<open>Rectangles\<close>

lemma rect_pixel_writes: "offset_16 x y \<in> A \<Longrightarrow> writes_in A (fst (snd s)) (fst (snd (rect_pixel m shade win ud v y x s)))"
  by (auto simp: rect_pixel_def Let_def draw_pixel_writes split: prod.splits)

lemma rect_row_writes:
  assumes "\<And>x. x \<in> set xs \<Longrightarrow> offset_16 x y \<in> A"
  shows "writes_in A (fst (snd s)) (fst (snd (rect_row m shade win ud vd u0 xs y s)))"
proof -
  obtain v g n where s: "s = (v, g, n)" by (metis surj_pair)
  have "writes_in A (fst (snd (u0, g, n))) (fst (snd (fold (rect_pixel m shade win ud v y) xs (u0, g, n))))"
    by (rule writes_fold) (simp add: rect_pixel_writes assms)
  then show ?thesis by (simp add: rect_row_def s Let_def split_beta)
qed

lemma rect_rows_write:
  assumes "da_x_min g \<le> sx" "ex \<le> da_x_max g" "da_y_min g \<le> sy" "ey \<le> da_y_max g"
  shows "writes_in (drawing_area 0 g) g1 (fst (snd (fold (rect_row m shade win ud vd u0 [sx..ex]) [sy..ey] (v0, g1, n))))"
proof -
  have "writes_in (drawing_area 0 g) (fst (snd (v0, g1, n))) (fst (snd (fold (rect_row m shade win ud vd u0 [sx..ex]) [sy..ey] (v0, g1, n))))"
    by (rule writes_fold [where gpu_of = "\<lambda>s. fst (snd s)"], rule rect_row_writes)
      (use assms in \<open>auto simp: drawing_area_def intro!: in_box\<close>)
  then show ?thesis by simp
qed

lemma draw_rect_writes:
  assumes "draw_rect env m start dim shade tc clut g = Some (t, h)"
  shows "writes_in (drawing_area 0 g) g h"
proof -
  obtain g1 where g1: "fetch_clut clut g = Some g1" using assms by (auto simp: draw_rect_def split: bind_splits)
  note da = fetch_clut_vram [OF g1]
  obtain win ud vd u0 v0 sx sy ex ey where "h = fst (snd (fold (rect_row m shade win ud vd u0 [sx..ex]) [sy..ey] (v0, g1, 0)))"
    "da_x_min g \<le> sx" "ex \<le> da_x_max g" "da_y_min g \<le> sy" "ey \<le> da_y_max g"
    using assms unfolding draw_rect_def g1 by (auto simp: Let_def da split_beta)
  then have "writes_in (drawing_area 0 g) g1 h" using rect_rows_write by blast
  then show ?thesis using da by (simp add: writes_in_def)
qed

section \<open>Lines\<close>

lemma clamped: "clamp_to_da p g = Some q \<Longrightarrow> da_x_min g \<le> px q \<and> px q \<le> da_x_max g \<and> da_y_min g \<le> py q \<and> py q \<le> da_y_max g"
  by (auto simp: clamp_to_da_def clamp_to_def split: bind_splits if_splits)

lemma draw_line_writes:
  assumes "draw_line env m (p, q) (c0, c1) flat g = Some (t, h)"
  shows "writes_in (drawing_area 0 g) g h"
proof -
  obtain p' q' where ends: "clamp_to_da p g = Some p'" "clamp_to_da q g = Some q'"
    using assms by (auto simp: draw_line_def split: bind_splits)
  obtain dc where dc: "line_deltas m c0 c1 (word_of_int (longest p' q')) = Some dc"
    using assms by (auto simp: draw_line_def ends Let_def longest_def split: bind_splits)
  have h: "h = fold (plot_at m (pixel_color m flat c0 dc)) (zip [0..longest p' q'] (line_points p' q')) g"
    using assms draw_line_points [OF ends dc, of env flat] by (simp add: Let_def)
  have "writes_in (drawing_area 0 g) s (plot_at m (pixel_color m flat c0 dc) r s)"
    if "r \<in> set (zip [0..longest p' q'] (line_points p' q'))" for r s
  proof -
    obtain k x y where "r = (k, x, y)" by (metis surj_pair)
    then have r: "r = (k, x, y)" "(x, y) \<in> set (line_points p' q')" using that by (auto dest: set_zip_rightD)
    then have "between (px p') (px q') x" "between (py p') (py q') y" using line_points_near by fastforce+
    then have "offset_16 x y \<in> drawing_area 0 g"
      using clamped [OF ends(1)] clamped [OF ends(2)] by (auto simp: drawing_area_def between_def intro!: in_box)
    then show ?thesis by (simp add: r(1) plot_at_def plot_line_def draw_pixel_writes)
  qed
  then show ?thesis unfolding h by (rule writes_fold [where gpu_of = "\<lambda>g. g", simplified])
qed

section \<open>Triangles\<close>

definition covered_offsets :: "point \<times> point \<times> point \<Rightarrow> int \<Rightarrow> int \<Rightarrow> int \<Rightarrow> int \<Rightarrow> nat set" where
  "covered_offsets t x0 x1 y0 y1 = {off. \<exists>x y. covers t (x, y) \<and> x0 \<le> x \<and> x \<le> x1 \<and> y0 \<le> y \<and> y \<le> y1 \<and> off = offset_16 x y}"

lemma tri_lane_writes:
  "(\<not> snd lane \<Longrightarrow> offset_16 (x + int (fst lane)) y \<in> A) \<Longrightarrow> writes_in A (fst (snd s)) (fst (snd (tri_lane fl tr y x lane s)))"
  by (cases lane; cases s) (auto simp: tri_lane_def Let_def draw_pixel_writes)

lemma tri_block_writes:
  assumes bary: "x_bary e = tri_lanes t x y" and A: "\<And>i. 0 \<le> i \<Longrightarrow> i \<le> 3 \<Longrightarrow> covers t (x + i, y) \<Longrightarrow> offset_16 (x + i) y \<in> A"
  shows "\<exists>a' g' n'. tri_block fl tr y x (e, a, g, n) = (x_step e, a', g', n') \<and> writes_in A g g'"
proof -
  have lanes: "enumerate 0 (edge_mask e) = [(0, \<not> covers t (x, y)), (1, \<not> covers t (x + 1, y)), (2, \<not> covers t (x + 2, y)), (3, \<not> covers t (x + 3, y))]"
    by (simp add: edge_mask_lanes [OF bary] numeral_eq_Suc)
  have "writes_in A (fst (snd (a, g, n))) (fst (snd (fold (tri_lane fl tr y x) (enumerate 0 (edge_mask e)) (a, g, n))))"
  proof (rule writes_fold, rule tri_lane_writes)
    fix lane assume "lane \<in> set (enumerate 0 (edge_mask e))" "\<not> snd lane"
    then show "offset_16 (x + int (fst lane)) y \<in> A" using A [of 0] A [of 1] A [of 2] A [of 3] by (auto simp: lanes)
  qed
  then show ?thesis
    by (cases "fold (tri_lane fl tr y x) (enumerate 0 (edge_mask e)) (a, g, n)") (auto simp: tri_block_def Let_def)
qed

lemma tri_blocks_write:
  assumes d: "deltas_of t e" and b: "x_bary e = tri_lanes t x y"
    and A: "\<And>x'. x \<le> x' \<Longrightarrow> x' < x + 4 * int n \<Longrightarrow> covers t (x', y) \<Longrightarrow> offset_16 x' y \<in> A"
  shows "\<exists>e' a' g' n'. fold (tri_block fl tr y) (map (\<lambda>k. x + 4 * int k) [0..<n]) (e, a, g, c) = (e', a', g', n')
    \<and> writes_in A g g' \<and> deltas_of t e' \<and> y_bary e' = y_bary e \<and> x_bary e' = tri_lanes t (x + 4 * int n) y"
  using A
proof (induction n)
  case 0
  then show ?case using d b by simp
next
  case (Suc n)
  let ?x = "x + 4 * int n"
  obtain e' a' g' n' where e': "fold (tri_block fl tr y) (map (\<lambda>k. x + 4 * int k) [0..<n]) (e, a, g, c) = (e', a', g', n')"
    "writes_in A g g'" "deltas_of t e'" "y_bary e' = y_bary e" "x_bary e' = tri_lanes t ?x y"
    using Suc by force
  obtain a2 g2 n2 where r: "tri_block fl tr y ?x (e', a', g', n') = (x_step e', a2, g2, n2)" "writes_in A g' g2"
    using tri_block_writes [OF e'(5), of A fl tr a' g' n'] Suc.prems by force
  show ?case using e' r x_step_lanes [OF e'(3,5)] writes_trans [OF e'(2) r(2)] by (simp add: algebra_simps)
qed

lemma tri_row_writes:
  assumes d: "deltas_of t e" and y: "y_bary e = tri_lanes t lo y"
    and A: "\<And>x. lo \<le> x \<Longrightarrow> x \<le> hi + 3 \<Longrightarrow> covers t (x, y) \<Longrightarrow> offset_16 x y \<in> A"
  shows "\<exists>e' a' g' n'. tri_row fl tr lo hi y (e, a, g, n) = (e', a', g', n') \<and> writes_in A g g'
    \<and> deltas_of t e' \<and> y_bary e' = tri_lanes t lo (y + 1)"
proof -
  let ?n = "nat ((hi - lo) div 4 + 1)"
  have e: "deltas_of t (y_step e)" "x_bary (y_step e) = tri_lanes t lo y" "y_bary (y_step e) = tri_lanes t lo (y + 1)"
    using d y_step_lanes [OF d y] by simp_all
  have "x \<le> hi + 3" if "lo \<le> x" "x < lo + 4 * int ?n" for x
    using that by (cases "(hi - lo) div 4 + 1 \<le> 0") auto
  then have "offset_16 x y \<in> A" if "lo \<le> x" "x < lo + 4 * int ?n" "covers t (x, y)" for x using that A by blast
  then obtain e' a' g' n' where "fold (tri_block fl tr y) (map (\<lambda>k. lo + 4 * int k) [0..<?n]) (y_step e, a, g, n) = (e', a', g', n')"
    "writes_in A g g'" "deltas_of t e'" "y_bary e' = y_bary (y_step e)"
    using tri_blocks_write [OF e(1,2), of ?n A fl tr a g n] by blast
  then show ?thesis using e(3) by (simp add: tri_row_def steps_4_def Let_def)
qed

lemma tri_rows_write:
  "deltas_of t e \<Longrightarrow> y_bary e = tri_lanes t lo y \<Longrightarrow>
   (\<And>x y'. lo \<le> x \<Longrightarrow> x \<le> hi + 3 \<Longrightarrow> y \<le> y' \<Longrightarrow> y' < y + int n \<Longrightarrow> covers t (x, y') \<Longrightarrow> offset_16 x y' \<in> A) \<Longrightarrow>
   \<exists>e' a' g' n'. fold (tri_row fl tr lo hi) [y..y + int n - 1] (e, a, g, c) = (e', a', g', n') \<and> writes_in A g g'"
proof (induction n arbitrary: e y a g c)
  case (Suc n)
  obtain e' a' g' n' where r: "tri_row fl tr lo hi y (e, a, g, c) = (e', a', g', n')" "writes_in A g g'"
    "deltas_of t e'" "y_bary e' = tri_lanes t lo (y + 1)"
    using tri_row_writes [OF Suc.prems(1,2), of hi A fl tr a g c] Suc.prems(3) by force
  have rows: "[y..y + int (Suc n) - 1] = y # [y + 1..(y + 1) + int n - 1]"
    by (subst upto_rec1) (simp_all add: algebra_simps)
  obtain e2 a2 g2 n2 where "fold (tri_row fl tr lo hi) [y + 1..(y + 1) + int n - 1] (e', a', g', n') = (e2, a2, g2, n2)"
    "writes_in A g' g2"
    using Suc.IH [OF r(3,4), of a' g' n'] Suc.prems(3) by force
  then show ?case unfolding rows by (simp add: r(1) writes_trans [OF r(2)])
qed simp

text \<open>The columns of a triangle are rounded up to blocks of four twice.\<close>

lemma next_multiple_near: "next_multiple_of x 4 \<le> x + 3"
  unfolding next_multiple_of_def Let_def by presburger

definition covered_area :: "vertex \<times> vertex \<times> vertex \<Rightarrow> gpu \<Rightarrow> nat set" where
  "covered_area t g = {off. \<exists>x y. covers (corners (wind t)) (x, y) \<and> da_x_min g \<le> x \<and> x \<le> da_x_max g + 6
     \<and> da_y_min g \<le> y \<and> y \<le> da_y_max g \<and> off = offset_16 x y}"

lemma draw_triangle_writes:
  assumes "draw_triangle env m flat clut t g = Some (n, h)"
  shows "writes_in (covered_area t g) g h"
proof -
  obtain g1 where g1: "fetch_clut clut g = Some g1" using assms by (auto simp: draw_triangle_def split: bind_splits)
  note da = fetch_clut_vram [OF g1]
  obtain a b c where w: "wind t = (a, b, c)" by (metis surj_pair)
  let ?p = "(v_point a, v_point b, v_point c)"
  let ?e = "edges_new ?p (tri_min ?p g1) (edge_bias (v_point b) (v_point c), edge_bias (v_point c) (v_point a), edge_bias (v_point a) (v_point b))"
  let ?mn = "tri_min ?p g1" and ?mx = "tri_max ?p g1"
  let ?n = "nat (py ?mx - py ?mn + 1)"
  have e: "deltas_of ?p ?e" "y_bary ?e = tri_lanes ?p (px ?mn) (py ?mn)" using edges_new_lanes [OF refl refl] by blast+
  have ys: "[py ?mn..py ?mx] = [py ?mn..py ?mn + int ?n - 1]" by simp
  obtain tr row e' a' n' where h: "fold (tri_row (e_f32 env) tr (px ?mn) (px ?mx)) [py ?mn..py ?mx] (?e, row, g1, 0) = (e', a', h, n')"
    using assms unfolding draw_triangle_def g1 by (auto simp: w Let_def split: prod.splits)
  have "offset_16 x y \<in> covered_area t g"
    if "px ?mn \<le> x" "x \<le> px ?mx + 3" "py ?mn \<le> y" "y < py ?mn + int ?n" "covers ?p (x, y)" for x y
  proof -
    have "px ?mx \<le> da_x_max g + 3" "da_x_min g \<le> px ?mn" "da_y_min g \<le> py ?mn" "py ?mx \<le> da_y_max g"
      using next_multiple_near [of "min (max (px (v_point a)) (max (px (v_point b)) (px (v_point c)))) (da_x_max g)"]
      by (simp_all add: tri_max_def tri_min_def da)
    then have "da_x_min g \<le> x" "x \<le> da_x_max g + 6" "da_y_min g \<le> y" "y \<le> da_y_max g" using that(1-4) by linarith+
    then show ?thesis using that(5) by (auto simp: covered_area_def corners_def w simp del: offset_16_def)
  qed
  then have "writes_in (covered_area t g) g1 h"
    using tri_rows_write [OF e, of "px ?mx" ?n "covered_area t g" "e_f32 env" tr row g1 0] h unfolding ys [symmetric] by force
  then show ?thesis using da by (simp add: writes_in_def)
qed

section \<open>Clipping\<close>

text \<open>C27: no drawing command writes outside its area: a rectangle or a line changes only pixels of the drawing
  area, in every mode (textured or not, shaded, transparent), whatever its corners are, and a triangle only
  pixels inside its edges and in the rows of the drawing area, at most six columns to its right.
\<close>

theorem drawing_clipped:
  shows "(draw_rect env m start dim shade tc clut g = Some (t, h) \<longrightarrow> writes_in (drawing_area 0 g) g h)
    \<and> (draw_line env m ends cols flat g = Some (t, h) \<longrightarrow> writes_in (drawing_area 0 g) g h)
    \<and> (draw_triangle env m flat clut tri g = Some (t, h) \<longrightarrow> writes_in (covered_area tri g) g h)"
proof (intro conjI impI)
  assume "draw_line env m ends cols flat g = Some (t, h)"
  then show "writes_in (drawing_area 0 g) g h" by (cases ends; cases cols) (simp add: draw_line_writes)
qed (simp_all add: draw_rect_writes draw_triangle_writes)

theorem drawing_clipped_witness:
  "\<forall>env :: (unit, unit) gpu_env. \<exists>t h. draw_line env (mode_of False False False False)
       (\<lparr>px = -50, py = 0\<rparr>, \<lparr>px = 3, py = 200\<rparr>) (color_default, color_default) color_default line_gpu = Some (t, h)
     \<and> writes_in (drawing_area 0 line_gpu) line_gpu h"
proof
  fix env :: "(unit, unit) gpu_env"
  let ?m = "mode_of False False False False"
  have ends: "clamp_to_da \<lparr>px = -50, py = 0\<rparr> line_gpu = Some \<lparr>px = 0, py = 0\<rparr>"
    "clamp_to_da \<lparr>px = 3, py = 200\<rparr> line_gpu = Some \<lparr>px = 3, py = 100\<rparr>"
    by (simp_all add: clamp_to_da_def clamp_to_def line_gpu_def gpu_new_def Let_def split_beta)
  have "line_deltas ?m color_default color_default w = Some color_default" for w
    by (simp add: line_deltas_def mode_of_def)
  from draw_line_points [OF ends this, of env color_default]
  obtain t h where "draw_line env ?m (\<lparr>px = -50, py = 0\<rparr>, \<lparr>px = 3, py = 200\<rparr>) (color_default, color_default) color_default line_gpu
    = Some (t, h)" by (auto simp: Let_def)
  then show "\<exists>t h. draw_line env ?m (\<lparr>px = -50, py = 0\<rparr>, \<lparr>px = 3, py = 200\<rparr>) (color_default, color_default) color_default
      line_gpu = Some (t, h) \<and> writes_in (drawing_area 0 line_gpu) line_gpu h"
    using drawing_clipped by blast
qed

text \<open>
  The six columns are drawn: with a drawing area of the columns 0 and 1, a triangle over the columns 0 to 20
  also covers column 7.
\<close>

definition clip_triangle :: "vertex \<times> vertex \<times> vertex" where
  "clip_triangle = (let at = (\<lambda>x y. \<lparr>v_point = \<lparr>px = x, py = y\<rparr>, v_color = color_default, v_coord = \<lparr>tc_u = 0, tc_v = 0\<rparr>\<rparr>)
     in (at 0 0, at 20 0, at 0 20))"

lemma triangle_beyond_area:
  assumes "da_x_min g = 0" "da_x_max g = 1" "da_y_min g = 0" "da_y_max g = 1"
  shows "(7, 1) \<in> set (covered_pixels (corners (wind clip_triangle)) g)"
  using assms by (simp add: covered_pixels_def clip_triangle_def corners_def wind_def Let_def edge_function_def tri_max_def
    tri_min_def next_multiple_of_def covers_def scan_columns_def inside_edge_def edge_bias_def is_top_left_def image_iff)

end
