(* ===== verification/CdSector.thy ===== *)
theory CdSector
  imports Msf "HOL-Library.Monad_Syntax"
begin

text \<open>
  \<open>crates/splst_cdimg\<close>: track modes (\<open>lib.rs\<close>) and sectors (\<open>sector.rs\<close>). The bytes of a sector
  are a list; an index outside it, \<open>todo!\<close> and a failing \<open>expect\<close> are \<^term>\<open>None\<close>.
\<close>

section \<open>Track modes\<close>

datatype track_mode = MAudio | Mode1Cooked | Mode1Raw | Mode2Cooked | Mode2Raw
datatype track_format = FAudio | FMode1 | FMode2Xa

definition track_mode_from_str :: "string \<Rightarrow> track_mode option" where
  "track_mode_from_str s =
     (if s = ''AUDIO'' then Some MAudio else if s = ''MODE1/2048'' then Some Mode1Cooked
      else if s = ''MODE1/2352'' then Some Mode1Raw else if s = ''MODE2/2336'' then Some Mode2Cooked
      else if s = ''MODE2/2352'' then Some Mode2Raw else None)"

fun sector_size :: "track_mode \<Rightarrow> nat" where
  "sector_size Mode1Cooked = 2048"
| "sector_size Mode2Cooked = 2336"
| "sector_size _ = 2352"

fun mode_format :: "track_mode \<Rightarrow> track_format" where
  "mode_format MAudio = FAudio"
| "mode_format Mode1Cooked = FMode1"
| "mode_format Mode1Raw = FMode1"
| "mode_format Mode2Cooked = FMode2Xa"
| "mode_format Mode2Raw = FMode2Xa"

section \<open>Sectors\<close>

datatype sector_mode = SMode1 | SMode2

record sector_header =
  sh_msf :: msf
  sh_mode :: sector_mode

record sector =
  s_abs_msf :: msf
  s_track_msf :: msf
  s_index :: bcd
  s_track :: bcd
  s_format :: track_format
  s_data :: "u8 list"

definition sector_start_value :: sector where
  "sector_start_value = \<lparr>s_abs_msf = msf_ZERO, s_track_msf = msf_ZERO, s_index = bcd_ZERO, s_track = bcd_ZERO,
     s_format = FAudio, s_data = replicate 2352 0\<rparr>"

text \<open>\<open>Sector::new\<close>: the descriptor is the record with the data that is not written yet.\<close>

definition sector_new :: "sector \<Rightarrow> sector option" where
  "sector_new desc =
     (let d = s_data desc; d = d[0 := 0]; d = d[11 := 0];
          d = fold (\<lambda>i d. d[i := 0xff]) [1..<11] d;
          d = d[12 := raw (msf_min (s_abs_msf desc))];
          d = d[13 := raw (msf_sec (s_abs_msf desc))];
          d = d[14 := raw (msf_frame (s_abs_msf desc))]
      in if length (s_data desc) < 16 then None
         else case s_format desc of
           FAudio \<Rightarrow> None
         | FMode1 \<Rightarrow> Some (desc\<lparr>s_data := d[15 := 1]\<rparr>)
         | FMode2Xa \<Rightarrow> Some (desc\<lparr>s_data := d[15 := 2]\<rparr>))"

text \<open>The inner option is the result of \<open>header\<close>, the outer one a slice outside the data.\<close>

definition sector_header_of :: "sector \<Rightarrow> sector_header option option" where
  "sector_header_of s =
     (if length (s_data s) < 16 then None
      else Some (do {
        m \<leftarrow> bcd_from_bcd (s_data s ! 12);
        sec \<leftarrow> bcd_from_bcd (s_data s ! 13);
        f \<leftarrow> bcd_from_bcd (s_data s ! 14);
        mode \<leftarrow> (if s_data s ! 15 = 1 then Some SMode1 else if s_data s ! 15 = 2 then Some SMode2 else None);
        Some \<lparr>sh_msf = msf_from_bcd m sec f, sh_mode = mode\<rparr> }))"

section \<open>The XA header\<close>

datatype xa_form = Form1 | Form2
datatype xa_sample_hz = Hz37800 | Hz18900
datatype xa_sample_size = Size4 | Size8

type_synonym xa_mode = u8
type_synonym xa_header = "u8 list"

definition xa_eor :: "xa_mode \<Rightarrow> bool" where "xa_eor m = bit_at m 0"
definition xa_video :: "xa_mode \<Rightarrow> bool" where "xa_video m = bit_at m 1"
definition xa_audio :: "xa_mode \<Rightarrow> bool" where "xa_audio m = bit_at m 2"
definition xa_is_data :: "xa_mode \<Rightarrow> bool" where "xa_is_data m = bit_at m 3"
definition xa_trigger :: "xa_mode \<Rightarrow> bool" where "xa_trigger m = bit_at m 4"
definition xa_form_of :: "xa_mode \<Rightarrow> xa_form" where "xa_form_of m = (if bit_at m 5 then Form2 else Form1)"
definition xa_real_time :: "xa_mode \<Rightarrow> bool" where "xa_real_time m = bit_at m 6"
definition xa_eof :: "xa_mode \<Rightarrow> bool" where "xa_eof m = bit_at m 7"

definition xa_stereo :: "u8 \<Rightarrow> bool" where "xa_stereo e = bit_at e 0"
definition xa_hz :: "u8 \<Rightarrow> xa_sample_hz" where "xa_hz e = (if bit_at e 2 then Hz18900 else Hz37800)"
definition xa_size :: "u8 \<Rightarrow> xa_sample_size" where "xa_size e = (if bit_at e 4 then Size8 else Size4)"
definition xa_emphasis :: "u8 \<Rightarrow> bool" where "xa_emphasis e = bit_at e 6"

datatype xa_encoding = XaVideo u8 | XaAudio u8 | XaInvalid

definition xa_file_num :: "xa_header \<Rightarrow> u8" where "xa_file_num h = h ! 0"
definition xa_channel_num :: "xa_header \<Rightarrow> u8" where "xa_channel_num h = h ! 1"
definition xa_mode_of :: "xa_header \<Rightarrow> xa_mode" where "xa_mode_of h = h ! 2"

definition xa_encoding_of :: "xa_header \<Rightarrow> xa_encoding" where
  "xa_encoding_of h =
     (if xa_video (xa_mode_of h) then XaVideo (h ! 3)
      else if xa_audio (xa_mode_of h) then XaAudio (h ! 3) else XaInvalid)"

text \<open>\<open>sector.data[a..b]\<close>.\<close>

definition slice :: "nat \<Rightarrow> nat \<Rightarrow> 'a list \<Rightarrow> 'a list option" where
  "slice a b xs = (if a \<le> b \<and> b \<le> length xs then Some (take (b - a) (drop a xs)) else None)"

definition sector_xa_header :: "sector \<Rightarrow> xa_header option option" where
  "sector_xa_header s =
     (case s_format s of FMode2Xa \<Rightarrow> map_option Some (slice 8 16 (s_data s)) | _ \<Rightarrow> Some None)"

definition sector_xa_data :: "sector \<Rightarrow> u8 list option option" where
  "sector_xa_data s = do {
     h \<leftarrow> sector_xa_header s;
     (case h of
        None \<Rightarrow> Some None
      | Some h \<Rightarrow> map_option Some
          (case xa_form_of (xa_mode_of h) of Form1 \<Rightarrow> slice 24 2072 (s_data s) | Form2 \<Rightarrow> slice 24 2348 (s_data s))) }"

section \<open>Lemmas\<close>

lemma length_fold_update: "length (fold (\<lambda>i d. d[i := c]) is d) = length d"
  by (induction "is" arbitrary: d) simp_all

lemma header_bytes: "[Suc 0..<11] = [1, 2, 3, 4, 5, 6, 7, 8, 9, 10 :: nat]"
  by code_simp

lemma sector_new_fields:
  assumes "sector_new d = Some s"
  shows "s_abs_msf s = s_abs_msf d" "s_track_msf s = s_track_msf d" "s_index s = s_index d" "s_track s = s_track d"
    "s_format s = s_format d" "s_format d \<noteq> FAudio" "16 \<le> length (s_data d)" "length (s_data s) = length (s_data d)"
    "drop 16 (s_data s) = drop 16 (s_data d)"
    "s_data s ! 12 = raw (msf_min (s_abs_msf d))" "s_data s ! 13 = raw (msf_sec (s_abs_msf d))"
    "s_data s ! 14 = raw (msf_frame (s_abs_msf d))" "s_data s ! 15 = (if s_format d = FMode1 then 1 else 2)"
  using assms
  by (auto simp: sector_new_def Let_def length_fold_update header_bytes split: track_format.splits if_splits)

text \<open>The first sixteen bytes that \<open>new\<close> writes.\<close>

definition sector_prefix :: "msf \<Rightarrow> track_format \<Rightarrow> u8 list" where
  "sector_prefix m f = 0 # replicate 10 0xff @ [0, raw (msf_min m), raw (msf_sec m), raw (msf_frame m),
     if f = FMode1 then 1 else 2]"

lemma sector_new_data:
  assumes "sector_new d = Some s"
  shows "s_data s = sector_prefix (s_abs_msf d) (s_format d) @ drop 16 (s_data d)"
proof -
  have "16 \<le> length (s_data d)" using sector_new_fields(7) [OF assms] .
  then obtain a b c e f g h i j k l m n o' p q rest where
    "s_data d = a # b # c # e # f # g # h # i # j # k # l # m # n # o' # p # q # rest"
    by (auto simp: numeral_eq_Suc Suc_le_length_iff)
  then show ?thesis
    using assms
    by (auto simp: sector_new_def Let_def header_bytes sector_prefix_def numeral_eq_Suc
        split: track_format.splits if_splits)
qed

lemma sector_new_returns:
  "16 \<le> length (s_data d) \<Longrightarrow> s_format d \<noteq> FAudio \<Longrightarrow> \<exists>s. sector_new d = Some s"
  by (cases "s_format d") (simp_all add: sector_new_def Let_def)

lemma bcd_from_bcd_raw: "bcd_valid b \<Longrightarrow> bcd_from_bcd (raw b) = Some b"
  by (cases b) (simp add: bcd_from_bcd_valid)

text \<open>The header of a sector that has been made reads back as its position and mode.\<close>

lemma sector_header_roundtrip:
  assumes "sector_new d = Some s" "msf_valid (s_abs_msf d)"
  shows "sector_header_of s = Some (Some \<lparr>sh_msf = s_abs_msf d, sh_mode = (if s_format d = FMode1 then SMode1 else SMode2)\<rparr>)"
  using sector_new_fields [OF assms(1)] assms(2)
  by (auto simp: sector_header_of_def bcd_from_bcd_raw msf_valid_def msf_from_bcd_def)

text \<open>
  The code reads the XA header from bytes 8 to 15, which \<open>new\<close> has overwritten: its mode is byte 10
  of the sector, always 0xff, so the form is always the second.
\<close>

lemma xa_form_constant:
  assumes "sector_new d = Some s" "s_format d = FMode2Xa"
  shows "\<exists>h. sector_xa_header s = Some (Some h) \<and> xa_mode_of h = 0xff \<and> xa_form_of (xa_mode_of h) = Form2"
proof -
  have "s_data s ! 10 = 0xff" "length (s_data s) = length (s_data d)" "16 \<le> length (s_data d)" "s_format s = FMode2Xa"
    using assms by (auto simp: sector_new_def Let_def length_fold_update header_bytes split: if_splits)
  moreover have "bit_at (0xff :: u8) 5" by code_simp
  ultimately show ?thesis
    by (auto simp: sector_xa_header_def slice_def xa_mode_of_def xa_form_of_def)
qed

end
