(* ===== verification/SliceSearch.thy ===== *)
theory SliceSearch
  imports Prelude
begin

text \<open>
  \<open>slice::binary_search_by\<close> of the standard library, which may return any of several matches. Its
  contract is the locale \<open>slice_search\<close>. Two functions keep it: one that returns the first
  match, and the halving loop of the library.
\<close>

section \<open>The contract\<close>

datatype ordering = Less | Equal | Greater

fun rank :: "ordering \<Rightarrow> int" where "rank Less = -1" | "rank Equal = 0" | "rank Greater = 1"

definition in_order :: "('a \<Rightarrow> ordering) \<Rightarrow> 'a list \<Rightarrow> bool" where
  "in_order f xs \<longleftrightarrow> sorted (map (rank \<circ> f) xs)"

definition cmp :: "'a::linorder \<Rightarrow> 'a \<Rightarrow> ordering" where
  "cmp a b = (if a < b then Less else if a = b then Equal else Greater)"

text \<open>\<open>Ok\<close> is \<^term>\<open>Inr\<close>, \<open>Err\<close> with the place of insertion is \<^term>\<open>Inl\<close>.\<close>

locale slice_search =
  fixes search :: "('a \<Rightarrow> ordering) \<Rightarrow> 'a list \<Rightarrow> nat + nat"
  assumes search_found: "in_order f xs \<Longrightarrow> search f xs = Inr i \<Longrightarrow> i < length xs \<and> f (xs ! i) = Equal"
    and search_missing: "in_order f xs \<Longrightarrow> search f xs = Inl i \<Longrightarrow>
      i \<le> length xs \<and> (\<forall>j < i. f (xs ! j) = Less) \<and> (\<forall>j. i \<le> j \<longrightarrow> j < length xs \<longrightarrow> f (xs ! j) = Greater)"
begin

text \<open>
  Searching a key in a list whose keys ascend: any search that keeps the contract gives the last
  element at or below the key, unless a second element has just that key.
\<close>

lemma last_unique:
  assumes "sorted (map key xs)" "i < length xs" "key (xs ! i) \<le> (k :: nat)"
    and "\<And>j. i < j \<Longrightarrow> j < length xs \<Longrightarrow> k < key (xs ! j)"
    and "\<And>j. j < length xs \<Longrightarrow> key (xs ! j) = k \<Longrightarrow> j = i"
  shows "search (\<lambda>x. cmp (key x) k) xs = Inr i \<or> search (\<lambda>x. cmp (key x) k) xs = Inl (Suc i)"
proof -
  let ?f = "\<lambda>x. cmp (key x) k"
  have "rank (?f (xs ! a)) \<le> rank (?f (xs ! b))" if "a < b" "b < length xs" for a b
    using sorted_nth_mono [OF assms(1), of a b] that by (auto simp: cmp_def)
  then have ord: "in_order ?f xs" by (auto simp: in_order_def sorted_iff_nth_mono_less)
  show ?thesis
  proof (cases "search ?f xs")
    case (Inr j)
    then show ?thesis using search_found [OF ord Inr] assms(5) by (auto simp: cmp_def split: if_splits)
  next
    case (Inl n)
    note m = search_missing [OF ord Inl]
    have "i < n"
    proof (rule ccontr)
      assume "\<not> i < n"
      then have "?f (xs ! i) = Greater" using m assms(2) by simp
      then show False using assms(3) by (simp add: cmp_def split: if_splits)
    qed
    moreover have "\<not> Suc i < n"
    proof
      assume "Suc i < n"
      then have "?f (xs ! Suc i) = Less" "Suc i < length xs" using m by auto
      then show False using assms(4) [of "Suc i"] by (simp add: cmp_def split: if_splits)
    qed
    ultimately show ?thesis using Inl by (simp add: Suc_lessI)
  qed
qed

text \<open>Where one element at most compares equal, every search gives the same answer.\<close>

lemma finds_unique:
  assumes "in_order f xs" "i < length xs" "\<And>j. j < length xs \<Longrightarrow> f (xs ! j) = Equal \<longleftrightarrow> j = i"
  shows "search f xs = Inr i"
proof (cases "search f xs")
  case (Inl n)
  have "f (xs ! i) = Equal" using assms(2,3) by simp
  then show ?thesis using search_missing [OF assms(1) Inl] assms(2) by (cases "i < n") auto
next
  case (Inr j)
  then show ?thesis using search_found [OF assms(1) Inr] assms(3) by auto
qed

lemma finds_none:
  assumes "in_order f xs" "\<And>j. j < length xs \<Longrightarrow> f (xs ! j) \<noteq> Equal"
  shows "\<exists>n. search f xs = Inl n"
  using search_found [OF assms(1)] assms(2) by (cases "search f xs") auto

end

section \<open>The first match\<close>

definition binary_search_by :: "('a \<Rightarrow> ordering) \<Rightarrow> 'a list \<Rightarrow> nat + nat" where
  "binary_search_by f xs =
     (let n = length (takeWhile (\<lambda>x. f x = Less) xs)
      in if n < length xs \<and> f (xs ! n) = Equal then Inr n else Inl n)"

interpretation bs: slice_search binary_search_by
proof unfold_locales
  fix f :: "'a \<Rightarrow> ordering" and xs i
  let ?n = "length (takeWhile (\<lambda>x. f x = Less) xs)"
  assume ord: "in_order f xs"
  show "binary_search_by f xs = Inr i \<Longrightarrow> i < length xs \<and> f (xs ! i) = Equal"
    by (auto simp: binary_search_by_def Let_def split: if_splits)
  assume m: "binary_search_by f xs = Inl i"
  then have i: "i = ?n" and ne: "i < length xs \<Longrightarrow> f (xs ! i) \<noteq> Equal"
    by (auto simp: binary_search_by_def Let_def split: if_splits)
  have le: "i \<le> length xs" unfolding i by (rule length_takeWhile_le)
  have less: "f (xs ! j) = Less" if "j < i" for j
    using that nth_mem [of j "takeWhile (\<lambda>x. f x = Less) xs"] unfolding i
    by (metis set_takeWhileD takeWhile_nth)
  have "f (xs ! j) = Greater" if "i \<le> j" "j < length xs" for j
  proof -
    have "f (xs ! i) \<noteq> Less" using nth_length_takeWhile [of "\<lambda>x. f x = Less" xs] that unfolding i by simp
    then have "f (xs ! i) = Greater" using ne that by (cases "f (xs ! i)") auto
    moreover have "rank (f (xs ! i)) \<le> rank (f (xs ! j))"
      using ord that by (auto simp: in_order_def sorted_iff_nth_mono)
    ultimately show ?thesis by (cases "f (xs ! j)") auto
  qed
  then show "i \<le> length xs \<and> (\<forall>j < i. f (xs ! j) = Less) \<and> (\<forall>j. i \<le> j \<longrightarrow> j < length xs \<longrightarrow> f (xs ! j) = Greater)"
    using le less by blast
qed

section \<open>The halving loop\<close>

text \<open>The positions that are left are those from \<open>left\<close> up to, not including, \<open>right\<close>.\<close>

function halving :: "('a \<Rightarrow> ordering) \<Rightarrow> 'a list \<Rightarrow> nat \<Rightarrow> nat \<Rightarrow> nat + nat" where
  "halving f xs left right =
     (if left < right
      then let mid = left + (right - left) div 2
           in case f (xs ! mid) of
                Less \<Rightarrow> halving f xs (mid + 1) right
              | Greater \<Rightarrow> halving f xs left mid
              | Equal \<Rightarrow> Inr mid
      else Inl left)"
  by pat_completeness auto
termination by (relation "measure (\<lambda>(_, _, left, right). right - left)") auto

declare halving.simps [simp del]

definition halving_search :: "('a \<Rightarrow> ordering) \<Rightarrow> 'a list \<Rightarrow> nat + nat" where
  "halving_search f xs = halving f xs 0 (length xs)"

lemma in_order_mono: "in_order f xs \<Longrightarrow> i \<le> j \<Longrightarrow> j < length xs \<Longrightarrow> rank (f (xs ! i)) \<le> rank (f (xs ! j))"
  by (auto simp: in_order_def sorted_iff_nth_mono)

lemma in_order_Less: "in_order f xs \<Longrightarrow> f (xs ! j) = Less \<Longrightarrow> i \<le> j \<Longrightarrow> j < length xs \<Longrightarrow> f (xs ! i) = Less"
  using in_order_mono [of f xs i j] by (cases "f (xs ! i)") auto

lemma in_order_Greater: "in_order f xs \<Longrightarrow> f (xs ! i) = Greater \<Longrightarrow> i \<le> j \<Longrightarrow> j < length xs \<Longrightarrow> f (xs ! j) = Greater"
  using in_order_mono [of f xs i j] by (cases "f (xs ! j)") auto

lemma halving_correct:
  assumes "in_order f xs"
  shows "left \<le> right \<Longrightarrow> right \<le> length xs \<Longrightarrow> \<forall>j < left. f (xs ! j) = Less \<Longrightarrow>
    \<forall>j. right \<le> j \<longrightarrow> j < length xs \<longrightarrow> f (xs ! j) = Greater \<Longrightarrow>
    (case halving f xs left right of
       Inr i \<Rightarrow> i < length xs \<and> f (xs ! i) = Equal
     | Inl i \<Rightarrow> i \<le> length xs \<and> (\<forall>j < i. f (xs ! j) = Less) \<and>
         (\<forall>j. i \<le> j \<longrightarrow> j < length xs \<longrightarrow> f (xs ! j) = Greater))"
  using assms
proof (induction f xs left right rule: halving.induct)
  case (1 f xs left right)
  show ?case
  proof (cases "left < right")
    case False
    then show ?thesis using "1.prems" by (subst halving.simps) simp
  next
    case True
    let ?mid = "left + (right - left) div 2"
    have mid: "left \<le> ?mid" "?mid < right" "?mid < length xs" using True "1.prems"(2) by auto
    show ?thesis
    proof (cases "f (xs ! ?mid)")
      case Less
      then have "\<forall>j < ?mid + 1. f (xs ! j) = Less"
        using in_order_Less [OF "1.prems"(5) Less _ mid(3)] by simp
      then show ?thesis
        using "1.IH"(1) [OF True refl Less] "1.prems" mid Less True
        by (subst halving.simps) (simp add: Let_def)
    next
      case Equal
      then show ?thesis using True mid by (subst halving.simps) (simp add: Let_def)
    next
      case Greater
      then have "\<forall>j. ?mid \<le> j \<longrightarrow> j < length xs \<longrightarrow> f (xs ! j) = Greater"
        using in_order_Greater [OF "1.prems"(5) Greater] by simp
      then show ?thesis
        using "1.IH"(2) [OF True refl Greater] "1.prems" mid Greater True
        by (subst halving.simps) (simp add: Let_def)
    qed
  qed
qed

interpretation halving: slice_search halving_search
proof unfold_locales
  fix f :: "'a \<Rightarrow> ordering" and xs i
  assume ord: "in_order f xs"
  have all: "case halving_search f xs of
       Inr i \<Rightarrow> i < length xs \<and> f (xs ! i) = Equal
     | Inl i \<Rightarrow> i \<le> length xs \<and> (\<forall>j < i. f (xs ! j) = Less) \<and>
         (\<forall>j. i \<le> j \<longrightarrow> j < length xs \<longrightarrow> f (xs ! j) = Greater)"
    using halving_correct [OF ord, of 0 "length xs"] by (simp add: halving_search_def)
  show "halving_search f xs = Inr i \<Longrightarrow> i < length xs \<and> f (xs ! i) = Equal"
    using all by simp
  show "halving_search f xs = Inl i \<Longrightarrow>
      i \<le> length xs \<and> (\<forall>j < i. f (xs ! j) = Less) \<and> (\<forall>j. i \<le> j \<longrightarrow> j < length xs \<longrightarrow> f (xs ! j) = Greater)"
    using all by simp
qed

end
