(* ===== verification/CdImage.thy ===== *)
theory CdImage
  imports CdSector SliceSearch
begin

text \<open>
  \<open>crates/splst_cdimg\<close>: the indices of a disc (\<open>index.rs\<close>) and the image (\<open>cd.rs\<close>), whose
  memory-mapped files are lists of bytes. The outer option of a result is a panic.

  The code searches with \<open>slice::binary_search_by\<close>; see \<open>SliceSearch\<close>.
\<close>

section \<open>Indices\<close>

datatype storage = Binary nat nat track_mode | PreGap

record index =
  ix_sector :: nat
  ix_index :: bcd
  ix_track :: bcd
  ix_format :: track_format
  ix_data :: storage

definition ix_is_pregap :: "index \<Rightarrow> bool" where "ix_is_pregap x \<longleftrightarrow> ix_index x = bcd_ZERO"
definition ix_msf :: "index \<Rightarrow> msf option" where "ix_msf x = from_sector (ix_sector x)"

record lookup =
  lk_indices :: "index list"
  lk_first_in_lead_out :: nat

definition lookup_new :: "index list \<Rightarrow> nat \<Rightarrow> lookup" where
  "lookup_new xs lead_out = \<lparr>lk_indices = sort_key ix_sector xs, lk_first_in_lead_out = lead_out\<rparr>"

definition lookup_get :: "nat \<Rightarrow> lookup \<Rightarrow> index option" where
  "lookup_get i l = (if i < length (lk_indices l) then Some (lk_indices l ! i) else None)"

definition get_from_msf :: "msf \<Rightarrow> lookup \<Rightarrow> (nat \<times> index) option option" where
  "get_from_msf m l =
     (let sector = sector_of m in
      if sector > lk_first_in_lead_out l then Some None
      else (case binary_search_by (\<lambda>x. cmp (ix_sector x) sector) (lk_indices l) of
              Inr i \<Rightarrow> map_option (\<lambda>x. Some (i, x)) (lookup_get i l)
            | Inl 0 \<Rightarrow> None
            | Inl (Suc i) \<Rightarrow> map_option (\<lambda>x. Some (i, x)) (lookup_get i l)))"

definition get_from_track :: "bcd \<Rightarrow> bcd \<Rightarrow> lookup \<Rightarrow> (nat \<times> index) option" where
  "get_from_track track idx l =
     (case binary_search_by (\<lambda>x. case cmp (raw (ix_track x)) (raw track) of
              Equal \<Rightarrow> cmp (raw (ix_index x)) (raw idx) | ord \<Rightarrow> ord) (lk_indices l) of
        Inr i \<Rightarrow> Some (i, lk_indices l ! i)
      | Inl _ \<Rightarrow> None)"

definition track_len :: "bcd \<Rightarrow> lookup \<Rightarrow> (msf \<times> index) option" where
  "track_len track l = do {
     (i, x) \<leftarrow> get_from_track track bcd_ONE l;
     let finish = (case find (\<lambda>y. ix_track y \<noteq> track) (drop (i + 1) (lk_indices l)) of
          Some y \<Rightarrow> ix_sector y | None \<Rightarrow> lk_first_in_lead_out l);
     len \<leftarrow> from_sector ((finish + (2 ^ 64 - ix_sector x)) mod 2 ^ 64);
     Some (len, x) }"

section \<open>The table of contents\<close>

record track =
  tk_number :: bcd
  tk_format :: track_format
  tk_start :: msf
  tk_length :: msf

text \<open>\<open>(1..=99).map_while(..)\<close>: the tracks from \<open>i\<close> on, at most \<open>n\<close> of them.\<close>

fun toc_tracks :: "nat \<Rightarrow> nat \<Rightarrow> lookup \<Rightarrow> track list option" where
  "toc_tracks i 0 l = Some []"
| "toc_tracks i (Suc n) l = do {
     number \<leftarrow> bcd_from_binary (word_of_nat i);
     (case track_len number l of
        None \<Rightarrow> Some []
      | Some (len, x) \<Rightarrow> do {
          start \<leftarrow> ix_msf x;
          rest \<leftarrow> toc_tracks (i + 1) n l;
          Some (\<lparr>tk_number = number, tk_format = ix_format x, tk_start = start, tk_length = len\<rparr> # rest) }) }"

definition build_toc :: "lookup \<Rightarrow> track list option" where
  "build_toc l = toc_tracks 1 99 l"

section \<open>Images\<close>

record cd_image =
  cd_indices :: lookup
  cd_binaries :: "u8 list list"
  cd_toc :: "track list"

definition cd_new :: "lookup \<Rightarrow> u8 list list \<Rightarrow> cd_image option" where
  "cd_new l bins = map_option (\<lambda>toc. \<lparr>cd_indices = l, cd_binaries = bins, cd_toc = toc\<rparr>) (build_toc l)"

definition cd_track_msf :: "msf \<Rightarrow> nat \<Rightarrow> index \<Rightarrow> lookup \<Rightarrow> msf option" where
  "cd_track_msf m i x l =
     (if ix_is_pregap x then do { nxt \<leftarrow> lookup_get (i + 1) l; start \<leftarrow> ix_msf nxt; msf_sub start m }
      else do {
        one \<leftarrow> (if ix_index x = bcd_ONE then Some x else map_option snd (get_from_track (ix_track x) bcd_ONE l));
        start \<leftarrow> ix_msf one;
        msf_sub m start })"

text \<open>The inner \<^term>\<open>None\<close> is \<open>SectionReadError\<close>.\<close>

definition load_sector :: "msf \<Rightarrow> cd_image \<Rightarrow> sector option option" where
  "load_sector m cd = do {
     r \<leftarrow> get_from_msf m (cd_indices cd);
     (case r of
        None \<Rightarrow> Some None
      | Some (i, x) \<Rightarrow> do {
          track_msf \<leftarrow> cd_track_msf m i x (cd_indices cd);
          bytes \<leftarrow> (case ix_data x of
              Binary b off mode \<Rightarrow>
                if b < length (cd_binaries cd) then
                  let start = off + sector_size mode * (sector_of m - ix_sector x)
                  in slice start (start + sector_size mode) (cd_binaries cd ! b)
                else None
            | PreGap \<Rightarrow> Some (replicate 2352 0));
          s \<leftarrow> sector_new \<lparr>s_abs_msf = m, s_track_msf = track_msf, s_index = ix_index x, s_track = ix_track x,
                 s_format = ix_format x, s_data = bytes\<rparr>;
          Some (Some s) }) }"

section \<open>Loading a sector\<close>

lemma get_from_msf_unique:
  assumes "sorted (map ix_sector (lk_indices l))" "sector_of m \<le> lk_first_in_lead_out l"
    and "i < length (lk_indices l)" "ix_sector (lk_indices l ! i) \<le> sector_of m"
    and "\<And>j. i < j \<Longrightarrow> j < length (lk_indices l) \<Longrightarrow> sector_of m < ix_sector (lk_indices l ! j)"
    and "\<And>j. j < length (lk_indices l) \<Longrightarrow> ix_sector (lk_indices l ! j) = sector_of m \<Longrightarrow> j = i"
  shows "get_from_msf m l = Some (Some (i, lk_indices l ! i))"
proof -
  let ?s = "binary_search_by (\<lambda>x. cmp (ix_sector x) (sector_of m)) (lk_indices l)"
  have "?s = Inr i \<or> ?s = Inl (Suc i)" by (rule bs.last_unique) (use assms in blast)+
  then show ?thesis using assms(2,3) by (elim disjE) (simp_all add: get_from_msf_def Let_def lookup_get_def)
qed

text \<open>A position on a track gives the sector of the index it belongs to: the bytes of the file at its
  place behind the header, a header that reads back as the position, and the distance from the
  start of the track.\<close>

lemma load_sector_at:
  assumes g: "get_from_msf m (cd_indices cd) = Some (Some (i, x))"
    and "msf_valid m" "ix_sector x \<le> sector_of m"
    and "ix_index x = bcd_ONE" "ix_data x = Binary b off mode" "ix_format x = mode_format mode" "mode \<noteq> MAudio"
    and "b < length (cd_binaries cd)"
    and "start = off + sector_size mode * (sector_of m - ix_sector x)"
    and "start + sector_size mode \<le> length (cd_binaries cd ! b)"
  shows "\<exists>s. load_sector m cd = Some (Some s) \<and> s_abs_msf s = m \<and> s_track s = ix_track x
    \<and> sector_of (s_track_msf s) = sector_of m - ix_sector x
    \<and> s_data s = sector_prefix m (mode_format mode) @ drop 16 (take (sector_size mode) (drop start (cd_binaries cd ! b)))
    \<and> map_option (map_option sh_msf) (sector_header_of s) = Some (Some m)"
proof -
  have small: "sector_of m < 450000" using assms(2) by (rule sector_of_less)
  obtain st where st: "from_sector (ix_sector x) = Some st" "msf_valid st" "sector_of st = ix_sector x"
    using from_sector_valid [of "ix_sector x"] small assms(3) by auto
  have "sector_of m - ix_sector x < 450000" using small by simp
  then obtain tm where tm: "from_sector (sector_of m - ix_sector x) = Some tm" "msf_valid tm"
    "sector_of tm = sector_of m - ix_sector x" by (rule from_sector_valid)
  have "(sector_of m + (2 ^ 64 - sector_of st)) mod 2 ^ 64 = sector_of m - ix_sector x"
    using st(3) small assms(3) by (simp add: mod_if)
  then have t: "cd_track_msf m i x (cd_indices cd) = Some tm"
    using assms(4) st tm by (simp add: cd_track_msf_def ix_is_pregap_def bcd_ONE_def bcd_ZERO_def ix_msf_def msf_sub_def)
  let ?bytes = "take (sector_size mode) (drop start (cd_binaries cd ! b))"
  let ?d = "\<lparr>s_abs_msf = m, s_track_msf = tm, s_index = ix_index x, s_track = ix_track x, s_format = ix_format x,
    s_data = ?bytes\<rparr>"
  have len: "length ?bytes = sector_size mode" using assms(10) by simp
  have "16 \<le> sector_size mode" "mode_format mode \<noteq> FAudio" using assms(7) by (cases mode; simp)+
  then have "16 \<le> length (s_data ?d)" "s_format ?d \<noteq> FAudio" using len assms(6) by simp_all
  then obtain s where s: "sector_new ?d = Some s" using sector_new_returns by blast
  have sl: "slice start (start + sector_size mode) (cd_binaries cd ! b) = Some ?bytes"
    using assms(10) by (simp add: slice_def)
  have "load_sector m cd = Some (Some s)"
    using s by (simp add: load_sector_def g t assms(5,8) assms(9) [symmetric] sl)
  moreover have "map_option (map_option sh_msf) (sector_header_of s) = Some (Some m)"
    using sector_header_roundtrip [OF s] assms(2) by simp
  ultimately show ?thesis using sector_new_fields [OF s] sector_new_data [OF s] assms(6) tm(3) by simp
qed

end
