(* ===== verification/CdCue.thy ===== *)
theory CdCue
  imports CdImage
begin

text \<open>
  \<open>crates/splst_cdimg/src/cue.rs\<close>: cue sheets. Text is a list of ASCII characters. A path is the
  name the sheet gives; opening and mapping a file is the parameter \<open>open_file\<close>, with \<^term>\<open>None\<close>
  an I/O error. Errors are \<^term>\<open>Inl\<close> with the line and what is wrong (the code formats a message
  from the same values); a panic is \<^term>\<open>None\<close> of the outer option.
\<close>

section \<open>Errors\<close>

datatype parse_int_error = EmptyInt | InvalidDigit | PosOverflow

datatype cue_msg =
    UnsupportedFormat string
  | TrackBeforeFile
  | InvalidFormat string
  | IndexBeforeTrack
  | DuplicateIndex bcd
  | InvalidCommand string
  | Expected string
  | BadMsf
  | UnterminatedString
  | InvalidNumber parse_int_error
  | NotBcd u8
  | IndexPastEnd
  | AbsoluteTooBig
  | SectorAlignment

text \<open>
  Of the enumeration \<open>Error\<close>, \<open>PathError\<close> comes only from the shape of a path, which belongs to
  the file system, and \<open>SectionReadError\<close> is the missing result of \<open>load_sector\<close>.
\<close>

datatype cd_error = CueError nat cue_msg | IoError

type_synonym 'a cue = "cd_error + 'a"

definition cue_bind :: "'a cue \<Rightarrow> ('a \<Rightarrow> 'b cue) \<Rightarrow> 'b cue" where
  "cue_bind r f = (case r of Inl e \<Rightarrow> Inl e | Inr x \<Rightarrow> f x)"

lemma cue_bind_simps [simp]: "cue_bind (Inl e) f = Inl e" "cue_bind (Inr x) f = f x"
  by (simp_all add: cue_bind_def)

section \<open>Tokens\<close>

text \<open>White space of \<open>trim_start\<close> and of \<open>is_ascii_whitespace\<close>, which leaves out the vertical tab.\<close>

definition is_ws :: "char \<Rightarrow> bool" where
  "is_ws c \<longleftrightarrow> of_char c \<in> {9, 10, 11, 12, 13, 32 :: nat}"

definition is_ascii_ws :: "char \<Rightarrow> bool" where
  "is_ascii_ws c \<longleftrightarrow> of_char c \<in> {9, 10, 12, 13, 32 :: nat}"

definition QUOTE :: char where "QUOTE = CHR 0x22"
definition COLON :: char where "COLON = CHR 0x3A"
definition NEWLINE :: char where "NEWLINE = CHR 0x0A"

text \<open>\<open>split_once\<close>: the text in front of the first match, and behind it when there is one.\<close>

definition split_once :: "(char \<Rightarrow> bool) \<Rightarrow> string \<Rightarrow> (string \<times> string) option" where
  "split_once p s = (case dropWhile (\<lambda>c. \<not> p c) s of [] \<Rightarrow> None | _ # rest \<Rightarrow> Some (takeWhile (\<lambda>c. \<not> p c) s, rest))"

text \<open>\<open>Tokens::next\<close>: the token, if there is one, and the rest of the line.\<close>

definition token_next :: "nat \<Rightarrow> string \<Rightarrow> string cue option \<times> string" where
  "token_next n line =
     (let line = dropWhile is_ws line in
      case line of
        [] \<Rightarrow> (None, line)
      | c # new \<Rightarrow>
          if c = QUOTE then
            (case split_once (\<lambda>c. c = QUOTE) new of
               Some (arg, rest) \<Rightarrow> (Some (Inr arg), rest)
             | None \<Rightarrow> (Some (Inl (CueError n UnterminatedString)), line))
          else
            (case split_once is_ascii_ws line of
               Some (arg, rest) \<Rightarrow> (Some (Inr arg), rest)
             | None \<Rightarrow> (Some (Inr line), [])))"

definition token_expect :: "nat \<Rightarrow> string \<Rightarrow> string \<Rightarrow> (string \<times> string) cue" where
  "token_expect n what line =
     (case token_next n line of
        (None, _) \<Rightarrow> Inl (CueError n (Expected what))
      | (Some (Inl e), _) \<Rightarrow> Inl e
      | (Some (Inr t), line) \<Rightarrow> Inr (t, line))"

section \<open>Numbers\<close>

definition digit_of :: "char \<Rightarrow> nat option" where
  "digit_of c = (let n = of_char c :: nat in if 48 \<le> n \<and> n \<le> 57 then Some (n - 48) else None)"

text \<open>\<open>u8::from_str_radix(token, 10)\<close>.\<close>

fun u8_digits :: "nat \<Rightarrow> string \<Rightarrow> parse_int_error + nat" where
  "u8_digits acc [] = Inr acc"
| "u8_digits acc (c # cs) =
     (case digit_of c of
        None \<Rightarrow> Inl InvalidDigit
      | Some d \<Rightarrow> if acc * 10 + d > 255 then Inl PosOverflow else u8_digits (acc * 10 + d) cs)"

definition parse_u8 :: "string \<Rightarrow> parse_int_error + nat" where
  "parse_u8 s =
     (case s of
        [] \<Rightarrow> Inl EmptyInt
      | c # cs \<Rightarrow> if c = CHR 0x2B \<and> cs \<noteq> [] then u8_digits 0 cs else u8_digits 0 s)"

definition token_to_bcd :: "nat \<Rightarrow> string \<Rightarrow> bcd cue" where
  "token_to_bcd n token =
     (case parse_u8 token of
        Inl e \<Rightarrow> Inl (CueError n (InvalidNumber e))
      | Inr v \<Rightarrow>
          (case bcd_from_binary (word_of_nat v) of
             None \<Rightarrow> Inl (CueError n (NotBcd (word_of_nat v)))
           | Some b \<Rightarrow> Inr b))"

definition expect_bcd :: "nat \<Rightarrow> string \<Rightarrow> string \<Rightarrow> (bcd \<times> string) cue" where
  "expect_bcd n what line =
     cue_bind (token_expect n what line) (\<lambda>(t, line). cue_bind (token_to_bcd n t) (\<lambda>b. Inr (b, line)))"

text \<open>\<open>split(':')\<close>.\<close>

function split_colon :: "string \<Rightarrow> string list" where
  "split_colon s =
     (case split_once (\<lambda>c. c = COLON) s of None \<Rightarrow> [s] | Some (t, rest) \<Rightarrow> t # split_colon rest)"
  by pat_completeness auto

lemma split_once_shorter: "split_once p s = Some (t, rest) \<Longrightarrow> length rest < length s"
proof -
  assume "split_once p s = Some (t, rest)"
  then obtain c where "dropWhile (\<lambda>c. \<not> p c) s = c # rest" by (auto simp: split_once_def split: list.splits)
  then show ?thesis using length_dropWhile_le [of "\<lambda>c. \<not> p c" s] by simp
qed

termination split_colon by (relation "measure length") (auto dest: split_once_shorter)

declare split_colon.simps [simp del]

definition expect_field :: "nat \<Rightarrow> nat \<Rightarrow> string list \<Rightarrow> bcd cue" where
  "expect_field n i ts = (if i < length ts then token_to_bcd n (ts ! i) else Inl (CueError n BadMsf))"

definition expect_msf :: "nat \<Rightarrow> string \<Rightarrow> string \<Rightarrow> (msf \<times> string) cue" where
  "expect_msf n what line =
     cue_bind (token_expect n what line) (\<lambda>(t, line).
       let ts = split_colon t in
       cue_bind (expect_field n 0 ts) (\<lambda>m. cue_bind (expect_field n 1 ts) (\<lambda>s. cue_bind (expect_field n 2 ts) (\<lambda>f.
         Inr (msf_from_bcd m s f, line)))))"

section \<open>Entries\<close>

record track_entry =
  te_num :: bcd
  te_binary :: nat
  te_mode :: track_mode
  te_start :: msf

record index_entry =
  ie_track :: nat
  ie_line :: nat
  ie_num :: bcd
  ie_start :: msf

record cue_sheet =
  cue_binaries :: "string list"
  cue_tracks :: "track_entry list"
  cue_indices :: "index_entry list"

definition cue_empty :: cue_sheet where
  "cue_empty = \<lparr>cue_binaries = [], cue_tracks = [], cue_indices = []\<rparr>"

definition parse_file :: "nat \<Rightarrow> string \<Rightarrow> cue_sheet \<Rightarrow> cue_sheet cue" where
  "parse_file n line st =
     cue_bind (token_expect n ''filename'' line) (\<lambda>(name, line).
     cue_bind (token_expect n ''file format'' line) (\<lambda>(format, line).
       if format \<noteq> ''BINARY'' then Inl (CueError n (UnsupportedFormat format))
       else Inr (st\<lparr>cue_binaries := cue_binaries st @ [name]\<rparr>)))"

definition parse_track :: "nat \<Rightarrow> string \<Rightarrow> cue_sheet \<Rightarrow> cue_sheet cue" where
  "parse_track n line st =
     (if cue_binaries st = [] then Inl (CueError n TrackBeforeFile)
      else let binary = length (cue_binaries st) - 1 in
        cue_bind (expect_bcd n ''track numer'' line) (\<lambda>(num, line).
        cue_bind (token_expect n ''track format'' line) (\<lambda>(format, line).
          case track_mode_from_str format of
            None \<Rightarrow> Inl (CueError n (InvalidFormat format))
          | Some mode \<Rightarrow> Inr (st\<lparr>cue_tracks := cue_tracks st @
              [\<lparr>te_num = num, te_binary = binary, te_mode = mode, te_start = msf_ZERO\<rparr>]\<rparr>))))"

definition parse_index :: "nat \<Rightarrow> string \<Rightarrow> cue_sheet \<Rightarrow> cue_sheet cue" where
  "parse_index n line st =
     cue_bind (expect_bcd n ''index number'' line) (\<lambda>(num, line).
     cue_bind (expect_msf n ''index start'' line) (\<lambda>(start, line).
       if cue_tracks st = [] then Inl (CueError n IndexBeforeTrack)
       else let track = length (cue_tracks st) - 1 in
         if list_ex (\<lambda>i. ie_num i = num) (takeWhile (\<lambda>i. ie_track i = track) (rev (cue_indices st)))
         then Inl (CueError n (DuplicateIndex num))
         else Inr (st\<lparr>cue_indices := cue_indices st @
           [\<lparr>ie_track = track, ie_line = n, ie_num = num, ie_start = start\<rparr>]\<rparr>)))"

definition parse_line :: "nat \<Rightarrow> string \<Rightarrow> cue_sheet \<Rightarrow> cue_sheet cue" where
  "parse_line n line st =
     (case token_next n line of
        (None, _) \<Rightarrow> Inr st
      | (Some (Inl e), _) \<Rightarrow> Inl e
      | (Some (Inr cmd), line) \<Rightarrow>
          if cmd = ''FILE'' then parse_file n line st
          else if cmd = ''TRACK'' then parse_track n line st
          else if cmd = ''INDEX'' then parse_index n line st
          else if cmd = ''REM'' then Inr st
          else Inl (CueError n (InvalidCommand cmd)))"

fun parse_lines :: "nat \<Rightarrow> string list \<Rightarrow> cue_sheet \<Rightarrow> cue_sheet cue" where
  "parse_lines n [] st = Inr st"
| "parse_lines n (l # ls) st = cue_bind (parse_line n l st) (parse_lines (Suc n) ls)"

text \<open>\<open>str::lines\<close>.\<close>

definition strip_cr :: "string \<Rightarrow> string" where
  "strip_cr s = (if s \<noteq> [] \<and> last s = CHR 0x0D then butlast s else s)"

function lines_of :: "string \<Rightarrow> string list" where
  "lines_of s =
     (if s = [] then []
      else case split_once (\<lambda>c. c = NEWLINE) s of
             None \<Rightarrow> [strip_cr s]
           | Some (l, rest) \<Rightarrow> strip_cr l # lines_of rest)"
  by pat_completeness auto

termination lines_of by (relation "measure length") (auto dest: split_once_shorter)

declare lines_of.simps [simp del]

definition cue_parse :: "string \<Rightarrow> cue_sheet cue" where
  "cue_parse input = parse_lines 1 (lines_of input) cue_empty"

section \<open>Building the image\<close>

text \<open>The state of the loop over the indices of one file.\<close>

record place =
  pl_abs :: msf
  pl_offset :: nat
  pl_prev :: "(index_entry \<times> track_entry) option"
  pl_indices :: "index list"

definition place_index :: "nat \<Rightarrow> index_entry \<times> track_entry \<Rightarrow> place \<Rightarrow> place cue option" where
  "place_index len e p = (case e of (idx, track) \<Rightarrow>
     let prev_start = (case pl_prev p of Some (i, _) \<Rightarrow> ie_start i | None \<Rightarrow> msf_ZERO) in do {
       delta \<leftarrow> msf_sub (ie_start idx) prev_start;
       let size = sector_of delta * sector_size (te_mode track);
       if size > len - pl_offset p then Some (Inl (CueError (ie_line idx) IndexPastEnd))
       else (case msf_checked_add (pl_abs p) (ie_start idx) of
         None \<Rightarrow> Some (Inl (CueError (ie_line idx) AbsoluteTooBig))
       | Some pos \<Rightarrow>
           let offset = pl_offset p + size
           in Some (Inr (p\<lparr>pl_abs := pos, pl_prev := Some (idx, track), pl_offset := offset,
                pl_indices := pl_indices p @ [\<lparr>ix_sector = sector_of pos, ix_index = ie_num idx,
                  ix_track = te_num track, ix_format = mode_format (te_mode track),
                  ix_data = Binary (te_binary track) offset (te_mode track)\<rparr>]\<rparr>))) })"

fun place_indices :: "nat \<Rightarrow> (index_entry \<times> track_entry) list \<Rightarrow> place \<Rightarrow> place cue option" where
  "place_indices len [] p = Some (Inr p)"
| "place_indices len (e # es) p = do {
     r \<leftarrow> place_index len e p;
     (case r of Inl err \<Rightarrow> Some (Inl err) | Inr p \<Rightarrow> place_indices len es p) }"

definition place_file :: "nat \<Rightarrow> (index_entry \<times> track_entry) list \<Rightarrow> place \<Rightarrow> place cue option" where
  "place_file len es p = do {
     r \<leftarrow> place_indices len es (p\<lparr>pl_offset := 0, pl_prev := None\<rparr>);
     (case r of
        Inl err \<Rightarrow> Some (Inl err)
      | Inr p \<Rightarrow>
          (case pl_prev p of
             None \<Rightarrow> Some (Inr p)
           | Some (idx, track) \<Rightarrow>
               let size = sector_size (te_mode track); left = len - pl_offset p in
               if left mod size \<noteq> 0 then Some (Inl (CueError (ie_line idx) SectorAlignment))
               else (case Option.bind (from_sector (left div size)) (\<lambda>m. msf_checked_add m (pl_abs p)) of
                       None \<Rightarrow> Some (Inl (CueError (ie_line idx) AbsoluteTooBig))
                     | Some pos \<Rightarrow> Some (Inr (p\<lparr>pl_abs := pos\<rparr>))))) }"

text \<open>\<open>take_while_ref\<close> leaves the entries of the other files for the next rounds.\<close>

fun place_files :: "nat \<Rightarrow> u8 list list \<Rightarrow> (index_entry \<times> track_entry) list \<Rightarrow> place \<Rightarrow> place cue option" where
  "place_files i [] es p = Some (Inr p)"
| "place_files i (b # bs) es p =
     (let own = (\<lambda>e. te_binary (snd e) = i) in do {
        r \<leftarrow> place_file (length b) (takeWhile own es) p;
        (case r of Inl err \<Rightarrow> Some (Inl err) | Inr p \<Rightarrow> place_files (Suc i) bs (dropWhile own es) p) })"

fun open_all :: "(string \<Rightarrow> u8 list option) \<Rightarrow> string list \<Rightarrow> u8 list list cue" where
  "open_all open_file [] = Inr []"
| "open_all open_file (n # ns) =
     (case open_file n of
        None \<Rightarrow> Inl IoError
      | Some b \<Rightarrow> cue_bind (open_all open_file ns) (\<lambda>bs. Inr (b # bs)))"

definition pregap_index :: "msf \<Rightarrow> track_entry list \<Rightarrow> index list" where
  "pregap_index pos tracks =
     (case find (\<lambda>t. te_num t = bcd_ONE) tracks of
        None \<Rightarrow> []
      | Some t \<Rightarrow> [\<lparr>ix_sector = sector_of pos, ix_index = bcd_ZERO, ix_track = bcd_ZERO,
                   ix_format = mode_format (te_mode t), ix_data = PreGap\<rparr>])"

text \<open>\<open>parse_cue\<close>, from the text of the sheet.\<close>

definition parse_cue :: "(string \<Rightarrow> u8 list option) \<Rightarrow> string \<Rightarrow> cd_image cue option" where
  "parse_cue open_file source =
     (case cue_parse source of
        Inl e \<Rightarrow> Some (Inl e)
      | Inr sheet \<Rightarrow> do {
          pos \<leftarrow> from_sector 150;
          (case open_all open_file (cue_binaries sheet) of
             Inl e \<Rightarrow> Some (Inl e)
           | Inr bins \<Rightarrow> do {
               r \<leftarrow> place_files 0 bins (map (\<lambda>i. (i, cue_tracks sheet ! ie_track i)) (cue_indices sheet))
                 \<lparr>pl_abs = pos, pl_offset = 0, pl_prev = None, pl_indices = pregap_index pos (cue_tracks sheet)\<rparr>;
               (case r of
                  Inl e \<Rightarrow> Some (Inl e)
                | Inr p \<Rightarrow> map_option Inr (cd_new (lookup_new (pl_indices p) (sector_of (pl_abs p))) bins)) }) })"

section \<open>The test of the code\<close>

lemma parse_test:
  "cue_parse ([NEWLINE] @ ''        FILE '' @ [QUOTE] @ ''crash_bandicoot.bin'' @ [QUOTE] @ '' BINARY'' @ [NEWLINE]
      @ ''            TRACK 01 MODE2/2352'' @ [NEWLINE] @ ''            INDEX 01 00:00:00        '' @ [NEWLINE] @ ''    '')
   = Inr \<lparr>cue_binaries = [''crash_bandicoot.bin''],
       cue_tracks = [\<lparr>te_num = bcd_ONE, te_binary = 0, te_mode = Mode2Raw, te_start = msf_ZERO\<rparr>],
       cue_indices = [\<lparr>ie_track = 0, ie_line = 4, ie_num = bcd_ONE, ie_start = msf_ZERO\<rparr>]\<rparr>"
  by code_simp

end
