(* ===== verification/CueSheet.thy ===== *)
theory CueSheet
  imports CdCue
begin

text \<open>
  Cue sheets in the usual form - one file, one track and one index each - and what the parser of
  \<open>crates/splst_cdimg/src/cue.rs\<close> makes of them: lines, tokens, numbers, and the entries.
\<close>

section \<open>The text\<close>

record disc_file =
  df_name :: string
  df_mode :: track_mode
  df_bytes :: "u8 list"

fun mode_text :: "track_mode \<Rightarrow> string" where
  "mode_text MAudio = ''AUDIO''"
| "mode_text Mode1Cooked = ''MODE1/2048''"
| "mode_text Mode1Raw = ''MODE1/2352''"
| "mode_text Mode2Cooked = ''MODE2/2336''"
| "mode_text Mode2Raw = ''MODE2/2352''"

definition digit_char :: "nat \<Rightarrow> char" where "digit_char d = char_of (48 + d)"
definition two_digits :: "nat \<Rightarrow> string" where "two_digits n = [digit_char (n div 10), digit_char (n mod 10)]"

definition file_line :: "string \<Rightarrow> string" where
  "file_line name = ''FILE '' @ QUOTE # name @ QUOTE # '' BINARY''"

definition track_line :: "nat \<Rightarrow> track_mode \<Rightarrow> string" where
  "track_line n mode = ''TRACK '' @ two_digits n @ '' '' @ mode_text mode"

definition index_line :: string where "index_line = ''INDEX 01 00:00:00''"

text \<open>The first file is track \<open>n\<close>.\<close>

fun sheet_lines :: "nat \<Rightarrow> disc_file list \<Rightarrow> string list" where
  "sheet_lines n [] = []"
| "sheet_lines n (f # fs) = file_line (df_name f) # track_line n (df_mode f) # index_line # sheet_lines (Suc n) fs"

definition sheet_text :: "disc_file list \<Rightarrow> string" where
  "sheet_text fs = concat (map (\<lambda>l. l @ [NEWLINE]) (sheet_lines 1 fs))"

section \<open>Lines and tokens\<close>

lemma split_once_first: "(\<And>c. c \<in> set a \<Longrightarrow> \<not> p c) \<Longrightarrow> p c \<Longrightarrow> split_once p (a @ c # rest) = Some (a, rest)"
  by (simp add: split_once_def dropWhile_append takeWhile_append)

lemma split_once_none: "(\<And>c. c \<in> set a \<Longrightarrow> \<not> p c) \<Longrightarrow> split_once p a = None"
proof -
  assume "\<And>c. c \<in> set a \<Longrightarrow> \<not> p c"
  then have none: "dropWhile (\<lambda>c. \<not> p c) a = []" by simp
  show ?thesis by (simp only: split_once_def none list.case)
qed

lemma lines_of_lines:
  "(\<And>l. l \<in> set ls \<Longrightarrow> NEWLINE \<notin> set l) \<Longrightarrow> lines_of (concat (map (\<lambda>l. l @ [NEWLINE]) ls)) = map strip_cr ls"
proof (induction ls)
  case (Cons l ls)
  have "split_once (\<lambda>c. c = NEWLINE) (l @ NEWLINE # concat (map (\<lambda>l. l @ [NEWLINE]) ls))
      = Some (l, concat (map (\<lambda>l. l @ [NEWLINE]) ls))"
    using Cons.prems by (intro split_once_first) auto
  then show ?case using Cons by (subst lines_of.simps) simp
qed (simp add: lines_of.simps)

lemma strip_cr_id: "last s \<noteq> CHR 0x0D \<Longrightarrow> strip_cr s = s"
  by (simp add: strip_cr_def)

definition word_chars :: "string \<Rightarrow> bool" where
  "word_chars w \<longleftrightarrow> w \<noteq> [] \<and> hd w \<noteq> QUOTE \<and> list_all (\<lambda>c. \<not> is_ws c) w"

lemma not_ascii_ws: "\<not> is_ws c \<Longrightarrow> \<not> is_ascii_ws c"
  by (simp add: is_ws_def is_ascii_ws_def)

lemma space_ws [simp]: "is_ws (CHR '' '')" "is_ascii_ws (CHR '' '')"
  by (simp_all add: is_ws_def is_ascii_ws_def)

lemma token_space [simp]: "token_next n (CHR '' '' # s) = token_next n s"
  by (simp add: token_next_def)

lemma token_word: "word_chars w \<Longrightarrow> token_next n (w @ CHR '' '' # rest) = (Some (Inr w), rest)"
proof -
  assume w: "word_chars w"
  then obtain c cs where cs: "w = c # cs" "c \<noteq> QUOTE" "\<not> is_ws c" by (cases w) (auto simp: word_chars_def)
  have "split_once is_ascii_ws (w @ CHR '' '' # rest) = Some (w, rest)"
    using w by (intro split_once_first) (auto simp: word_chars_def list_all_iff not_ascii_ws)
  then show ?thesis using cs by (simp add: token_next_def Let_def)
qed

lemma token_last: "word_chars w \<Longrightarrow> token_next n w = (Some (Inr w), [])"
proof -
  assume w: "word_chars w"
  then obtain c cs where cs: "w = c # cs" "c \<noteq> QUOTE" "\<not> is_ws c" by (cases w) (auto simp: word_chars_def)
  have "split_once is_ascii_ws w = None"
    using w by (intro split_once_none) (auto simp: word_chars_def list_all_iff not_ascii_ws)
  then show ?thesis using cs by (simp add: token_next_def Let_def)
qed

lemma token_quoted: "QUOTE \<notin> set name \<Longrightarrow> token_next n (QUOTE # name @ QUOTE # rest) = (Some (Inr name), rest)"
proof -
  assume "QUOTE \<notin> set name"
  then have "split_once (\<lambda>c. c = QUOTE) (name @ QUOTE # rest) = Some (name, rest)"
    by (intro split_once_first) auto
  moreover have "\<not> is_ws QUOTE" by code_simp
  ultimately show ?thesis by (simp add: token_next_def Let_def)
qed

lemma command_words: "word_chars ''FILE''" "word_chars ''TRACK''" "word_chars ''BINARY''" "word_chars (mode_text m)"
  by (code_simp, code_simp, code_simp) (cases m; simp only: mode_text.simps; code_simp)

section \<open>Numbers\<close>

lemma digit_of_char: "d < 10 \<Longrightarrow> digit_of (digit_char d) = Some d"
  by (simp add: digit_of_def digit_char_def Let_def)

lemma parse_two_digits: "n < 100 \<Longrightarrow> parse_u8 (two_digits n) = Inr n"
proof -
  assume n: "n < 100"
  have "digit_char (n div 10) \<noteq> CHR 0x2B"
  proof
    assume "digit_char (n div 10) = CHR 0x2B"
    then have "digit_of (CHR 0x2B) = Some (n div 10)" using digit_of_char [of "n div 10"] n by simp
    then show False by (simp add: digit_of_def Let_def split: if_splits)
  qed
  then show ?thesis using n by (simp add: parse_u8_def two_digits_def digit_of_char)
qed

definition track_bcd :: "nat \<Rightarrow> bcd" where "track_bcd n = the (bcd_from_binary (word_of_nat n))"

lemma track_bcd: "n < 100 \<Longrightarrow> bcd_from_binary (word_of_nat n) = Some (track_bcd n)"
  using bcd_from_binary_Some [of "word_of_nat n"] by (force simp: track_bcd_def u8_of_nat)

lemma two_digits_word: "n < 100 \<Longrightarrow> word_chars (two_digits n)"
proof -
  have "digit_char d \<noteq> QUOTE \<and> \<not> is_ws (digit_char d)" if "d < 10" for d
  proof -
    have "d \<in> {0, 1, 2, 3, 4, 5, 6, 7, 8, 9}" using that by auto
    then show ?thesis by (auto simp: digit_char_def QUOTE_def is_ws_def char_of_def)
  qed
  then show "n < 100 \<Longrightarrow> word_chars (two_digits n)" by (simp add: word_chars_def two_digits_def)
qed

section \<open>Parsing a line\<close>

lemmas cue_rules = token_expect_def cue_bind_def token_quoted token_last token_word command_words

lemma parse_file_line: "QUOTE \<notin> set name \<Longrightarrow>
    parse_line n (file_line name) st = Inr (st\<lparr>cue_binaries := cue_binaries st @ [name]\<rparr>)"
proof -
  assume name: "QUOTE \<notin> set name"
  have "token_next n (file_line name) = (Some (Inr ''FILE''), QUOTE # name @ QUOTE # '' BINARY'')"
    using token_word [OF command_words(1)] by (simp add: file_line_def)
  moreover have "token_next n '' BINARY'' = (Some (Inr ''BINARY''), [])" using token_last [OF command_words(3)] by simp
  ultimately show ?thesis by (simp add: parse_line_def parse_file_def token_expect_def token_quoted [OF name])
qed

lemma mode_text_inverse: "track_mode_from_str (mode_text m) = Some m"
  by (cases m) (simp_all add: track_mode_from_str_def)

lemma parse_track_line:
  assumes "0 < k" "k < 100" "cue_binaries st \<noteq> []"
  shows "parse_line n (track_line k mode) st = Inr (st\<lparr>cue_tracks := cue_tracks st @
    [\<lparr>te_num = track_bcd k, te_binary = length (cue_binaries st) - 1, te_mode = mode, te_start = msf_ZERO\<rparr>]\<rparr>)"
proof -
  have "token_next n (track_line k mode) = (Some (Inr ''TRACK''), two_digits k @ CHR '' '' # mode_text mode)"
    using token_word [OF command_words(2)] by (simp add: track_line_def)
  moreover have "token_next n (two_digits k @ CHR '' '' # mode_text mode) = (Some (Inr (two_digits k)), mode_text mode)"
    by (rule token_word [OF two_digits_word [OF assms(2)]])
  moreover have "token_next n (mode_text mode) = (Some (Inr (mode_text mode)), [])" by (rule token_last [OF command_words(4)])
  ultimately show ?thesis using assms
    by (simp add: parse_line_def parse_track_def expect_bcd_def token_to_bcd_def token_expect_def Let_def
        parse_two_digits track_bcd mode_text_inverse)
qed

lemma number_words: "word_chars ''INDEX''" "word_chars ''01''" "word_chars ''00:00:00''"
  by code_simp+

lemma fixed_numbers:
  "parse_u8 ''01'' = Inr 1" "parse_u8 ''00'' = Inr 0" "split_colon ''00:00:00'' = [''00'', ''00'', ''00'']"
  "bcd_from_binary 1 = Some bcd_ONE" "bcd_from_binary 0 = Some bcd_ZERO"
  by code_simp+

lemma index_line_tokens:
  "token_next n index_line = (Some (Inr ''INDEX''), ''01 00:00:00'')"
  "expect_bcd n what ''01 00:00:00'' = Inr (bcd_ONE, ''00:00:00'')"
  "expect_msf n what ''00:00:00'' = Inr (msf_ZERO, [])"
proof -
  show "token_next n index_line = (Some (Inr ''INDEX''), ''01 00:00:00'')"
    using token_word [OF number_words(1)] by (simp add: index_line_def)
  have "token_next n ''01 00:00:00'' = (Some (Inr ''01''), ''00:00:00'')"
    using token_word [OF number_words(2), of n "''00:00:00''"] by simp
  then show "expect_bcd n what ''01 00:00:00'' = Inr (bcd_ONE, ''00:00:00'')"
    by (simp add: expect_bcd_def token_expect_def token_to_bcd_def fixed_numbers)
  show "expect_msf n what ''00:00:00'' = Inr (msf_ZERO, [])"
    by (simp add: expect_msf_def token_expect_def token_last [OF number_words(3)] Let_def fixed_numbers expect_field_def
        token_to_bcd_def msf_from_bcd_def msf_ZERO_def)
qed

lemma parse_index_line:
  assumes "cue_tracks st \<noteq> []" "\<And>i. i \<in> set (cue_indices st) \<Longrightarrow> ie_track i < length (cue_tracks st) - 1"
  shows "parse_line n index_line st = Inr (st\<lparr>cue_indices := cue_indices st @
    [\<lparr>ie_track = length (cue_tracks st) - 1, ie_line = n, ie_num = bcd_ONE, ie_start = msf_ZERO\<rparr>]\<rparr>)"
proof -
  have "takeWhile (\<lambda>i. ie_track i = length (cue_tracks st) - 1) (rev (cue_indices st)) = []"
  proof (cases "rev (cue_indices st)")
    case (Cons i rest)
    then have "i \<in> set (cue_indices st)" by (metis list.set_intros(1) set_rev)
    then show ?thesis using assms(2) Cons by fastforce
  qed simp
  then show ?thesis using assms(1)
    by (simp add: parse_line_def parse_index_def index_line_tokens Let_def)
qed

section \<open>Parsing the sheet\<close>

definition file_ok :: "disc_file \<Rightarrow> bool" where
  "file_ok f \<longleftrightarrow> QUOTE \<notin> set (df_name f) \<and> NEWLINE \<notin> set (df_name f) \<and> df_mode f \<noteq> MAudio
     \<and> df_bytes f \<noteq> [] \<and> length (df_bytes f) mod sector_size (df_mode f) = 0"

text \<open>The entries of the files from the \<open>n\<close>-th on, whose file line is the line \<open>ln\<close> of the sheet.\<close>

fun file_tracks :: "nat \<Rightarrow> disc_file list \<Rightarrow> track_entry list" where
  "file_tracks n [] = []"
| "file_tracks n (f # fs) =
     \<lparr>te_num = track_bcd (Suc n), te_binary = n, te_mode = df_mode f, te_start = msf_ZERO\<rparr> # file_tracks (Suc n) fs"

fun file_indices :: "nat \<Rightarrow> nat \<Rightarrow> disc_file list \<Rightarrow> index_entry list" where
  "file_indices n ln [] = []"
| "file_indices n ln (f # fs) =
     \<lparr>ie_track = n, ie_line = ln + 2, ie_num = bcd_ONE, ie_start = msf_ZERO\<rparr> # file_indices (Suc n) (ln + 3) fs"

lemma parse_lines_sheet:
  "list_all file_ok fs \<Longrightarrow> n + length fs < 100 \<Longrightarrow> length (cue_binaries st) = n \<Longrightarrow> length (cue_tracks st) = n \<Longrightarrow>
   (\<And>i. i \<in> set (cue_indices st) \<Longrightarrow> ie_track i < n) \<Longrightarrow>
   parse_lines ln (sheet_lines (Suc n) fs) st = Inr (st\<lparr>cue_binaries := cue_binaries st @ map df_name fs,
     cue_tracks := cue_tracks st @ file_tracks n fs, cue_indices := cue_indices st @ file_indices n ln fs\<rparr>)"
proof (induction fs arbitrary: n ln st)
  case (Cons f fs)
  let ?t = "\<lparr>te_num = track_bcd (Suc n), te_binary = n, te_mode = df_mode f, te_start = msf_ZERO\<rparr>"
  let ?i = "\<lparr>ie_track = n, ie_line = Suc (Suc ln), ie_num = bcd_ONE, ie_start = msf_ZERO\<rparr>"
  let ?st1 = "st\<lparr>cue_binaries := cue_binaries st @ [df_name f]\<rparr>"
  let ?st2 = "st\<lparr>cue_binaries := cue_binaries st @ [df_name f], cue_tracks := cue_tracks st @ [?t]\<rparr>"
  let ?st3 = "st\<lparr>cue_binaries := cue_binaries st @ [df_name f], cue_tracks := cue_tracks st @ [?t],
    cue_indices := cue_indices st @ [?i]\<rparr>"
  have one: "parse_line ln (file_line (df_name f)) st = Inr ?st1"
    using Cons.prems(1) by (intro parse_file_line) (simp add: file_ok_def)
  have two: "parse_line (Suc ln) (track_line (Suc n) (df_mode f)) ?st1 = Inr ?st2"
    using Cons.prems(2,3) by (subst parse_track_line) simp_all
  have three: "parse_line (Suc (Suc ln)) index_line ?st2 = Inr ?st3"
    using Cons.prems(4,5) by (subst parse_index_line) simp_all
  have "parse_lines (ln + 3) (sheet_lines (Suc (Suc n)) fs) ?st3 = Inr (?st3\<lparr>cue_binaries := cue_binaries ?st3 @ map df_name fs,
      cue_tracks := cue_tracks ?st3 @ file_tracks (Suc n) fs, cue_indices := cue_indices ?st3 @ file_indices (Suc n) (ln + 3) fs\<rparr>)"
    using Cons.prems by (intro Cons.IH) (auto simp: less_Suc_eq)
  then show ?case by (simp add: one two three numeral_3_eq_3)
qed simp

lemma sheet_lines_no_newline: "list_all file_ok fs \<Longrightarrow> n + length fs \<le> 100 \<Longrightarrow> l \<in> set (sheet_lines n fs) \<Longrightarrow>
    NEWLINE \<notin> set l \<and> last l \<noteq> CHR 0x0D"
proof (induction fs arbitrary: n)
  case (Cons f fs)
  have digits: "NEWLINE \<notin> set (two_digits n)"
    using two_digits_word [of n] Cons.prems(2) by (auto simp: word_chars_def list_all_iff is_ws_def NEWLINE_def)
  have mode: "NEWLINE \<notin> set (mode_text m) \<and> last (mode_text m) \<noteq> CHR 0x0D \<and> mode_text m \<noteq> []" for m
    by (cases m) (simp_all add: NEWLINE_def)
  have "NEWLINE \<notin> set (file_line (df_name f))" "last (file_line (df_name f)) \<noteq> CHR 0x0D"
    using Cons.prems(1) by (auto simp: file_line_def file_ok_def NEWLINE_def QUOTE_def)
  moreover have "NEWLINE \<notin> set (track_line n (df_mode f))" "last (track_line n (df_mode f)) \<noteq> CHR 0x0D"
    using digits mode by (auto simp: track_line_def NEWLINE_def)
  moreover have "NEWLINE \<notin> set index_line" "last index_line \<noteq> CHR 0x0D" by (simp_all add: index_line_def NEWLINE_def)
  ultimately show ?case using Cons.prems Cons.IH [of "Suc n"] by auto
qed simp

lemma cue_parse_sheet:
  assumes "list_all file_ok fs" "length fs < 100"
  shows "cue_parse (sheet_text fs) =
    Inr \<lparr>cue_binaries = map df_name fs, cue_tracks = file_tracks 0 fs, cue_indices = file_indices 0 1 fs\<rparr>"
proof -
  have clean: "NEWLINE \<notin> set l" "last l \<noteq> CHR 0x0D" if "l \<in> set (sheet_lines 1 fs)" for l
    using sheet_lines_no_newline [OF assms(1) _ that] assms(2) by simp_all
  then have "lines_of (sheet_text fs) = map strip_cr (sheet_lines 1 fs)"
    unfolding sheet_text_def by (intro lines_of_lines) auto
  also have "\<dots> = sheet_lines 1 fs" using clean(2) by (intro map_idI) (simp add: strip_cr_id)
  finally show ?thesis
    using parse_lines_sheet [OF assms(1), of 0 cue_empty 1] assms(2) by (simp add: cue_parse_def cue_empty_def)
qed

end
