(* ===== verification/CueDisc.thy ===== *)
theory CueDisc
  imports CueSheet
begin

text \<open>
  The disc that a cue sheet opens to (\<open>parse_cue\<close> of \<open>crates/splst_cdimg/src/cue.rs\<close>): where the files
  lie, the table of contents, and the sectors that are loaded from it.
\<close>

section \<open>Places on the disc\<close>

definition file_sectors :: "disc_file \<Rightarrow> nat" where
  "file_sectors f = length (df_bytes f) div sector_size (df_mode f)"

definition total_sectors :: "disc_file list \<Rightarrow> nat" where "total_sectors fs = sum_list (map file_sectors fs)"

text \<open>The files from the \<open>n\<close>-th on lie one behind the other from the sector \<open>a\<close> on.\<close>

fun file_places :: "nat \<Rightarrow> nat \<Rightarrow> disc_file list \<Rightarrow> index list" where
  "file_places a n [] = []"
| "file_places a n (f # fs) =
     \<lparr>ix_sector = a, ix_index = bcd_ONE, ix_track = track_bcd (Suc n), ix_format = mode_format (df_mode f),
      ix_data = Binary n 0 (df_mode f)\<rparr> # file_places (a + file_sectors f) (Suc n) fs"

lemma length_entries [simp]:
  "length (file_tracks n fs) = length fs" "length (file_indices n ln fs) = length fs" "length (file_places a n fs) = length fs"
  by (induction fs arbitrary: n ln a) auto

lemma file_tracks_binary: "t \<in> set (file_tracks n fs) \<Longrightarrow> n \<le> te_binary t"
  by (induction fs arbitrary: n) (auto dest: Suc_leD)

lemma sector_of_ZERO [simp]: "sector_of msf_ZERO = 0" and from_sector_0: "from_sector 0 = Some msf_ZERO"
  by code_simp+

lemma msf_sub_ZERO [simp]: "msf_sub msf_ZERO msf_ZERO = Some msf_ZERO"
  by (simp add: msf_sub_def from_sector_0)

lemma checked_add_less:
  assumes "sector_of a + sector_of b < 450000"
  obtains c where "msf_checked_add a b = Some c" "sector_of c = sector_of a + sector_of b"
  using from_sector_valid [OF assms] that unfolding msf_checked_add_def by blast

lemma place_one:
  assumes f: "file_ok f" and small: "sector_of (pl_abs p) + file_sectors f < 450000"
    and e: "ie_num i = bcd_ONE" "ie_start i = msf_ZERO" "te_num t = track_bcd (Suc n)" "te_binary t = n" "te_mode t = df_mode f"
  shows "\<exists>q. place_file (length (df_bytes f)) [(i, t)] p = Some (Inr q) \<and> sector_of (pl_abs q) = sector_of (pl_abs p) + file_sectors f
    \<and> pl_indices q = pl_indices p @ file_places (sector_of (pl_abs p)) n [f]"
proof -
  obtain pos where pos: "msf_checked_add (pl_abs p) msf_ZERO = Some pos" "sector_of pos = sector_of (pl_abs p)"
    using checked_add_less [of "pl_abs p" msf_ZERO] small by (metis add.right_neutral add_lessD1 sector_of_ZERO)
  obtain len where len: "from_sector (file_sectors f) = Some len" "sector_of len = file_sectors f"
    using from_sector_valid [of "file_sectors f"] small by auto
  obtain fin where fin: "msf_checked_add len pos = Some fin" "sector_of fin = sector_of (pl_abs p) + file_sectors f"
    using checked_add_less [of len pos] small unfolding len(2) pos(2) by (metis add.commute)
  let ?p = "p\<lparr>pl_offset := 0, pl_prev := None\<rparr>"
  let ?x = "\<lparr>ix_sector = sector_of (pl_abs p), ix_index = bcd_ONE, ix_track = track_bcd (Suc n),
    ix_format = mode_format (df_mode f), ix_data = Binary n 0 (df_mode f)\<rparr>"
  let ?q = "p\<lparr>pl_abs := pos, pl_offset := 0, pl_prev := Some (i, t), pl_indices := pl_indices p @ [?x]\<rparr>"
  have one: "place_index (length (df_bytes f)) (i, t) ?p = Some (Inr ?q)"
    by (simp add: place_index_def e Let_def pos(1)) (simp add: pos(2))
  have rem: "length (df_bytes f) mod sector_size (df_mode f) = 0" using f by (simp add: file_ok_def)
  have "place_file (length (df_bytes f)) [(i, t)] p = Some (Inr (?q\<lparr>pl_abs := fin\<rparr>))"
    by (simp add: place_file_def one e(5) rem Let_def len(1) fin(1) flip: file_sectors_def)
  then show ?thesis using fin(2) by simp
qed

lemma place_sheet:
  "list_all file_ok fs \<Longrightarrow> sector_of (pl_abs p) + total_sectors fs < 450000 \<Longrightarrow>
   \<exists>q. place_files n (map df_bytes fs) (zip (file_indices n ln fs) (file_tracks n fs)) p = Some (Inr q)
     \<and> sector_of (pl_abs q) = sector_of (pl_abs p) + total_sectors fs
     \<and> pl_indices q = pl_indices p @ file_places (sector_of (pl_abs p)) n fs"
proof (induction fs arbitrary: n ln p)
  case (Cons f fs)
  let ?i = "\<lparr>ie_track = n, ie_line = ln + 2, ie_num = bcd_ONE, ie_start = msf_ZERO\<rparr>"
  let ?t = "\<lparr>te_num = track_bcd (Suc n), te_binary = n, te_mode = df_mode f, te_start = msf_ZERO\<rparr>"
  let ?es = "zip (file_indices (Suc n) (ln + 3) fs) (file_tracks (Suc n) fs)"
  obtain q where q: "place_file (length (df_bytes f)) [(?i, ?t)] p = Some (Inr q)"
      "sector_of (pl_abs q) = sector_of (pl_abs p) + file_sectors f"
      "pl_indices q = pl_indices p @ file_places (sector_of (pl_abs p)) n [f]"
    using place_one [of f p ?i ?t n] Cons.prems by (auto simp: total_sectors_def)
  have other: "te_binary (snd e) \<noteq> n" if "e \<in> set ?es" for e
    using that file_tracks_binary [of "snd e" "Suc n" fs] set_zip_rightD [of "fst e" "snd e"] by fastforce
  then have own: "takeWhile (\<lambda>e. te_binary (snd e) = n) ?es = []" "dropWhile (\<lambda>e. te_binary (snd e) = n) ?es = ?es"
    by (cases ?es; auto)+
  have "sector_of (pl_abs q) + total_sectors fs < 450000" using q(2) Cons.prems(2) by (simp add: total_sectors_def)
  then show ?case
    using Cons.IH [of q "Suc n" "ln + 3"] Cons.prems q own by (auto simp: total_sectors_def)
qed (simp add: total_sectors_def)

section \<open>The image\<close>

lemma track_bcd_raw: "n < 100 \<Longrightarrow> unat (raw (track_bcd n)) = n div 10 * 16 + n mod 10"
  using bcd_from_binary_Some [of "word_of_nat n"] by (force simp: track_bcd_def u8_of_nat)

lemma track_bcd_less:
  assumes "n < m" "m < 100"
  shows "raw (track_bcd n) < raw (track_bcd m)"
proof -
  have "n div 10 * 16 + n mod 10 < m div 10 * 16 + m mod 10"
    using assms div_mult_mod_eq [of n 10] div_mult_mod_eq [of m 10] by (cases "n div 10 = m div 10") (linarith | simp)+
  then show ?thesis using assms by (simp add: word_less_nat_alt track_bcd_raw)
qed

lemma track_bcd_0 [simp]: "track_bcd 0 = bcd_ZERO" and track_bcd_1 [simp]: "track_bcd (Suc 0) = bcd_ONE"
  by code_simp+

definition file_start :: "disc_file list \<Rightarrow> nat \<Rightarrow> nat" where
  "file_start fs k = 150 + total_sectors (take k fs)"

lemma total_split: "k < length fs \<Longrightarrow> total_sectors (take k fs) + file_sectors (fs ! k) + total_sectors (drop (Suc k) fs) = total_sectors fs"
  unfolding total_sectors_def
  by (subst (3) id_take_nth_drop [of k fs]) simp_all

lemma nth_places: "k < length fs \<Longrightarrow> file_places a n fs ! k =
    \<lparr>ix_sector = a + total_sectors (take k fs), ix_index = bcd_ONE, ix_track = track_bcd (Suc (n + k)),
     ix_format = mode_format (df_mode (fs ! k)), ix_data = Binary (n + k) 0 (df_mode (fs ! k))\<rparr>"
proof (induction fs arbitrary: a n k)
  case (Cons f fs)
  then show ?case by (cases k) (simp_all add: total_sectors_def)
qed simp

definition pregap :: "disc_file \<Rightarrow> index" where
  "pregap f = \<lparr>ix_sector = 150, ix_index = bcd_ZERO, ix_track = bcd_ZERO, ix_format = mode_format (df_mode f), ix_data = PreGap\<rparr>"

definition disc_lookup :: "disc_file list \<Rightarrow> lookup" where
  "disc_lookup fs = \<lparr>lk_indices = pregap (hd fs) # file_places 150 0 fs, lk_first_in_lead_out = 150 + total_sectors fs\<rparr>"

lemma disc_nth: "k < length fs \<Longrightarrow> lk_indices (disc_lookup fs) ! Suc k =
    \<lparr>ix_sector = file_start fs k, ix_index = bcd_ONE, ix_track = track_bcd (Suc k),
     ix_format = mode_format (df_mode (fs ! k)), ix_data = Binary k 0 (df_mode (fs ! k))\<rparr>"
  by (simp add: disc_lookup_def nth_places file_start_def)

lemma disc_first: "lk_indices (disc_lookup fs) ! 0 = pregap (hd fs)" and disc_length: "length (lk_indices (disc_lookup fs)) = Suc (length fs)"
  and disc_end: "lk_first_in_lead_out (disc_lookup fs) = 150 + total_sectors fs"
  by (simp_all add: disc_lookup_def)

lemma file_sectors_pos: "file_ok f \<Longrightarrow> 0 < file_sectors f"
proof -
  assume f: "file_ok f"
  have "0 < sector_size (df_mode f)" by (cases "df_mode f") simp_all
  moreover have "sector_size (df_mode f) \<le> length (df_bytes f)"
    using f by (auto simp: file_ok_def intro: dvd_imp_le)
  ultimately show ?thesis by (simp add: file_sectors_def div_greater_zero_iff)
qed

lemma file_start_less:
  assumes "list_all file_ok fs" "j < k" "k \<le> length fs"
  shows "file_start fs j + file_sectors (fs ! j) \<le> file_start fs k" "file_start fs j < file_start fs k"
proof -
  have j: "j < length (take k fs)" using assms by simp
  have "total_sectors (take j (take k fs)) + file_sectors (take k fs ! j) \<le> total_sectors (take k fs)"
    using total_split [OF j] by simp
  then show le: "file_start fs j + file_sectors (fs ! j) \<le> file_start fs k"
    using assms(2,3) by (simp add: file_start_def min_def)
  have "0 < file_sectors (fs ! j)" using assms by (intro file_sectors_pos) (simp add: list_all_length)
  then show "file_start fs j < file_start fs k" using le by simp
qed

lemma file_start_0 [simp]: "file_start fs 0 = 150" by (simp add: file_start_def total_sectors_def)

lemma disc_sorted: "list_all file_ok fs \<Longrightarrow> sorted (map ix_sector (lk_indices (disc_lookup fs)))"
proof -
  assume ok: "list_all file_ok fs"
  have "ix_sector (lk_indices (disc_lookup fs) ! a) \<le> ix_sector (lk_indices (disc_lookup fs) ! b)"
    if ab: "a < b" "b < Suc (length fs)" for a b
  proof -
    obtain b' where b: "b = Suc b'" using ab by (cases b) auto
    show ?thesis
    proof (cases a)
      case 0
      then show ?thesis using ab b by (simp add: disc_first disc_nth pregap_def file_start_def)
    next
      case (Suc a')
      then show ?thesis using ab b file_start_less(2) [OF ok, of a' b'] by (simp add: disc_nth)
    qed
  qed
  then show ?thesis by (auto simp: sorted_iff_nth_mono_less disc_length)
qed

lemma disc_track: "a \<le> length fs \<Longrightarrow> ix_track (lk_indices (disc_lookup fs) ! a) = track_bcd a"
  by (cases a) (simp_all add: disc_first disc_nth pregap_def)

lemma disc_find_track:
  assumes "length fs < 100" "k < length fs"
  shows "get_from_track (track_bcd (Suc k)) bcd_ONE (disc_lookup fs) = Some (Suc k, lk_indices (disc_lookup fs) ! Suc k)"
proof -
  let ?xs = "lk_indices (disc_lookup fs)"
  let ?f = "\<lambda>x. case cmp (raw (ix_track x)) (raw (track_bcd (Suc k))) of
      Equal \<Rightarrow> cmp (raw (ix_index x)) (raw bcd_ONE) | ord \<Rightarrow> ord"
  have f: "?f (?xs ! a) = cmp a (Suc k)" if a: "a < length ?xs" for a
  proof -
    consider "a < Suc k" | "a = Suc k" | "Suc k < a" by linarith
    then show ?thesis
      using a assms track_bcd_less [of a "Suc k"] track_bcd_less [of "Suc k" a]
      by cases (auto simp: disc_length disc_track disc_nth cmp_def)
  qed
  have "rank (?f (?xs ! a)) \<le> rank (?f (?xs ! b))" if "a < b" "b < length ?xs" for a b
    using that by (simp add: f) (simp add: cmp_def)
  then have "in_order ?f ?xs" by (auto simp: in_order_def sorted_iff_nth_mono_less)
  then have "binary_search_by ?f ?xs = Inr (Suc k)"
  proof (rule bs.finds_unique)
    show "Suc k < length ?xs" using assms(2) by (simp add: disc_length)
    show "?f (?xs ! a) = Equal \<longleftrightarrow> a = Suc k" if "a < length ?xs" for a unfolding f [OF that] by (simp add: cmp_def)
  qed
  then show ?thesis by (simp add: get_from_track_def)
qed

lemma disc_no_track:
  assumes "length fs < 99"
  shows "get_from_track (track_bcd (Suc (length fs))) bcd_ONE (disc_lookup fs) = None"
proof -
  let ?xs = "lk_indices (disc_lookup fs)"
  let ?f = "\<lambda>x. case cmp (raw (ix_track x)) (raw (track_bcd (Suc (length fs)))) of
      Equal \<Rightarrow> cmp (raw (ix_index x)) (raw bcd_ONE) | ord \<Rightarrow> ord"
  have f: "?f (?xs ! a) = Less" if "a < length ?xs" for a
    using that assms track_bcd_less [of a "Suc (length fs)"] by (auto simp: disc_length disc_track cmp_def)
  then have "in_order ?f ?xs" by (auto simp: in_order_def sorted_iff_nth_mono_less)
  then obtain n where "binary_search_by ?f ?xs = Inl n" using bs.finds_none [of ?f ?xs] f by auto
  then show ?thesis by (simp add: get_from_track_def)
qed

section \<open>The table of contents\<close>

definition file_track :: "disc_file list \<Rightarrow> nat \<Rightarrow> track" where
  "file_track fs k = \<lparr>tk_number = track_bcd (Suc k), tk_format = mode_format (df_mode (fs ! k)),
     tk_start = the (from_sector (file_start fs k)), tk_length = the (from_sector (file_sectors (fs ! k)))\<rparr>"

lemma find_hd_drop: "i < length xs \<Longrightarrow> P (xs ! i) \<Longrightarrow> find P (drop i xs) = Some (xs ! i)"
  by (simp add: Cons_nth_drop_Suc [symmetric])

lemma disc_track_len:
  assumes "list_all file_ok fs" "length fs < 100" "150 + total_sectors fs < 450000" "k < length fs"
  shows "track_len (track_bcd (Suc k)) (disc_lookup fs) =
    Some (the (from_sector (file_sectors (fs ! k))), lk_indices (disc_lookup fs) ! Suc k)"
proof -
  let ?l = "disc_lookup fs"
  have small: "file_start fs k + file_sectors (fs ! k) \<le> 150 + total_sectors fs"
    using total_split [OF assms(4)] by (simp add: file_start_def)
  have finish: "(case find (\<lambda>y. ix_track y \<noteq> track_bcd (Suc k)) (drop (Suc k + 1) (lk_indices ?l)) of
      Some y \<Rightarrow> ix_sector y | None \<Rightarrow> lk_first_in_lead_out ?l) = file_start fs k + file_sectors (fs ! k)"
  proof (cases "Suc k < length fs")
    case True
    have "track_bcd (Suc (Suc k)) \<noteq> track_bcd (Suc k)" using track_bcd_less [of "Suc k" "Suc (Suc k)"] True assms(2) by auto
    then have "find (\<lambda>y. ix_track y \<noteq> track_bcd (Suc k)) (drop (Suc k + 1) (lk_indices ?l)) = Some (lk_indices ?l ! Suc (Suc k))"
      using True by (subst find_hd_drop) (simp_all add: disc_length disc_nth)
    moreover have "file_start fs (Suc k) = file_start fs k + file_sectors (fs ! k)"
      using assms(4) by (simp add: file_start_def total_sectors_def take_Suc_conv_app_nth)
    ultimately show ?thesis using True by (simp add: disc_nth)
  next
    case False
    then have k: "Suc k = length fs" using assms(4) by simp
    then have "total_sectors (drop (Suc k) fs) = 0" by (simp add: total_sectors_def)
    then show ?thesis using k total_split [OF assms(4)] by (simp add: disc_length disc_end file_start_def)
  qed
  have "(file_start fs k + file_sectors (fs ! k) + (2 ^ 64 - file_start fs k)) mod 2 ^ 64 = file_sectors (fs ! k)"
    using small assms(3) by (simp add: mod_if)
  moreover obtain len where "from_sector (file_sectors (fs ! k)) = Some len"
    using from_sector_valid [of "file_sectors (fs ! k)"] small assms(3) by auto
  ultimately show ?thesis
    unfolding track_len_def disc_find_track [OF assms(2,4)]
    by (simp add: finish [unfolded One_nat_def add_Suc_right add_0_right] disc_nth [OF assms(4)])
qed

lemma disc_toc:
  assumes "list_all file_ok fs" "length fs < 100" "150 + total_sectors fs < 450000"
  shows "build_toc (disc_lookup fs) = Some (map (file_track fs) [0..<length fs])"
proof -
  have "toc_tracks (Suc k) (99 - k) (disc_lookup fs) = Some (map (file_track fs) [k..<length fs])" if "k \<le> length fs" for k
    using that
  proof (induction rule: inc_induct)
    case base
    show ?case
    proof (cases "99 - length fs")
      case (Suc n)
      then have "length fs < 99" by simp
      then show ?thesis using Suc disc_no_track [of fs] track_bcd [of "Suc (length fs)"]
        by (simp add: track_len_def)
    qed simp
  next
    case (step k)
    obtain n where n: "99 - k = Suc n" "n = 99 - Suc k" using step(2) assms(2) by (cases "99 - k") auto
    have "file_start fs k < 450000" using total_split [OF step(2)] assms(3) by (simp add: file_start_def)
    then obtain start where "from_sector (file_start fs k) = Some start" by (rule from_sector_valid)
    moreover have "bcd_from_binary (word_of_nat (Suc k)) = Some (track_bcd (Suc k))"
      using step(2) assms(2) by (intro track_bcd) simp
    ultimately show ?case
      using step.IH disc_track_len [OF assms step(2)] step(2) unfolding n(1)
      by (simp add: n(2) disc_nth ix_msf_def file_track_def upt_conv_Cons del: of_nat_Suc)
  qed
  from this [of 0] show ?thesis by (simp add: build_toc_def)
qed

section \<open>The whole image\<close>

lemma file_entries: "n + length fs \<le> length ts \<Longrightarrow> drop n ts = file_tracks n fs \<Longrightarrow>
    map (\<lambda>i. (i, ts ! ie_track i)) (file_indices n ln fs) = zip (file_indices n ln fs) (file_tracks n fs)"
proof (induction fs arbitrary: n ln)
  case (Cons f fs)
  have "drop n ts = ts ! n # drop (Suc n) ts" using Cons.prems(1) by (simp add: Cons_nth_drop_Suc)
  then have "ts ! n = hd (file_tracks n (f # fs))" "drop (Suc n) ts = file_tracks (Suc n) fs" using Cons.prems(2) by simp_all
  then show ?case using Cons.IH [of "Suc n" "ln + 3"] Cons.prems(1) by simp
qed simp

lemma open_files: "(\<And>f. f \<in> set fs \<Longrightarrow> open_file (df_name f) = Some (df_bytes f)) \<Longrightarrow>
    open_all open_file (map df_name fs) = Inr (map df_bytes fs)"
  by (induction fs) simp_all

definition disc_image :: "disc_file list \<Rightarrow> cd_image" where
  "disc_image fs = \<lparr>cd_indices = disc_lookup fs, cd_binaries = map df_bytes fs, cd_toc = map (file_track fs) [0..<length fs]\<rparr>"

lemma parse_sheet:
  assumes "list_all file_ok fs" "fs \<noteq> []" "length fs < 100" "150 + total_sectors fs < 450000"
    and "\<And>f. f \<in> set fs \<Longrightarrow> open_file (df_name f) = Some (df_bytes f)"
  shows "parse_cue open_file (sheet_text fs) = Some (Inr (disc_image fs))"
proof -
  obtain pos where pos: "from_sector 150 = Some pos" "sector_of pos = 150" using from_sector_valid [of 150] by auto
  obtain f gs where fs: "fs = f # gs" using assms(2) by (cases fs) auto
  let ?p = "\<lparr>pl_abs = pos, pl_offset = 0, pl_prev = None, pl_indices = pregap_index pos (file_tracks 0 fs)\<rparr>"
  have pre: "pregap_index pos (file_tracks 0 fs) = [pregap (hd fs)]" by (simp add: fs pregap_index_def pos(2) pregap_def)
  obtain q where q: "place_files 0 (map df_bytes fs) (zip (file_indices 0 1 fs) (file_tracks 0 fs)) ?p = Some (Inr q)"
      "sector_of (pl_abs q) = 150 + total_sectors fs" "pl_indices q = pregap (hd fs) # file_places 150 0 fs"
    using place_sheet [OF assms(1), of ?p 0 1] assms(4) pos(2) pre by auto
  have "map (\<lambda>i. (i, file_tracks 0 fs ! ie_track i)) (file_indices 0 1 fs) = zip (file_indices 0 1 fs) (file_tracks 0 fs)"
    by (rule file_entries) simp_all
  moreover have "lookup_new (pl_indices q) (sector_of (pl_abs q)) = disc_lookup fs"
    using sort_key_id_if_sorted [OF disc_sorted [OF assms(1)]] by (simp add: lookup_new_def q(2,3) disc_lookup_def)
  ultimately show ?thesis
    using disc_toc [OF assms(1,3,4)]
    by (simp add: parse_cue_def cue_parse_sheet [OF assms(1,3)] pos(1) open_files [OF assms(5)]
        q(1) [unfolded One_nat_def] cd_new_def disc_image_def)
qed

lemma disc_sector:
  assumes "list_all file_ok fs" "length fs < 100" "k < length fs" "i < file_sectors (fs ! k)" "0 < k + i"
    and "msf_valid m" "sector_of m = file_start fs k + i"
  shows "\<exists>s. load_sector m (disc_image fs) = Some (Some s) \<and> s_abs_msf s = m \<and> s_track s = track_bcd (Suc k)
    \<and> sector_of (s_track_msf s) = i
    \<and> s_data s = sector_prefix m (mode_format (df_mode (fs ! k)))
        @ drop 16 (take (sector_size (df_mode (fs ! k))) (drop (sector_size (df_mode (fs ! k)) * i) (df_bytes (fs ! k))))"
proof -
  let ?l = "disc_lookup fs" and ?mode = "df_mode (fs ! k)"
  have ok: "file_ok (fs ! k)" using assms(1,3) by (simp add: list_all_length)
  have "get_from_msf m ?l = Some (Some (Suc k, lk_indices ?l ! Suc k))"
  proof (rule get_from_msf_unique [OF disc_sorted [OF assms(1)]])
    show "sector_of m \<le> lk_first_in_lead_out ?l"
      using total_split [OF assms(3)] assms(4,7) by (simp add: disc_end file_start_def)
    show "Suc k < length (lk_indices ?l)" "ix_sector (lk_indices ?l ! Suc k) \<le> sector_of m"
      using assms(3,7) by (simp_all add: disc_length disc_nth)
    show above: "sector_of m < ix_sector (lk_indices ?l ! j)" if j: "Suc k < j" "j < length (lk_indices ?l)" for j
    proof -
      obtain a where "j = Suc a" "k < a" "a < length fs" using j by (cases j) (auto simp: disc_length)
      then show ?thesis using file_start_less(1) [OF assms(1), of k a] assms(4,7) by (simp add: disc_nth)
    qed
    show "j = Suc k" if j: "j < length (lk_indices ?l)" "ix_sector (lk_indices ?l ! j) = sector_of m" for j
    proof (rule ccontr)
      assume "j \<noteq> Suc k"
      moreover have "\<not> Suc k < j" using above [of j] j by auto
      ultimately have less: "j < Suc k" by simp
      show False
      proof (cases j)
        case 0
        then show ?thesis using j assms(5,7) file_start_less(2) [OF assms(1), of 0 k] assms(3)
          by (cases k) (auto simp: disc_first pregap_def)
      next
        case (Suc a)
        then show ?thesis using less j assms(3,7) file_start_less(2) [OF assms(1), of a k] by (simp add: disc_nth)
      qed
    qed
  qed
  moreover have "sector_size ?mode * i + sector_size ?mode \<le> length (df_bytes (fs ! k))"
  proof -
    have "sector_size ?mode * Suc i \<le> sector_size ?mode * file_sectors (fs ! k)" using assms(4) by (intro mult_le_mono) simp_all
    also have "\<dots> \<le> length (df_bytes (fs ! k))" unfolding file_sectors_def by (rule times_div_less_eq_dividend)
    finally show ?thesis by simp
  qed
  ultimately show ?thesis
    using load_sector_at [of m "disc_image fs" "Suc k" "lk_indices ?l ! Suc k" k 0 ?mode "sector_size ?mode * i"]
      assms(3,6,7) ok by (auto simp: disc_image_def disc_nth file_ok_def)
qed

text \<open>
  Every position of the disc but the first gives a sector of its file: the bytes of the file at its
  place behind the sixteen bytes that the emulator writes, with the track and the distance from its start.
\<close>

definition holds_files :: "disc_file list \<Rightarrow> cd_image \<Rightarrow> bool" where
  "holds_files fs cd \<longleftrightarrow> (\<forall>k i m. k < length fs \<longrightarrow> i < file_sectors (fs ! k) \<longrightarrow> 0 < k + i \<longrightarrow> msf_valid m \<longrightarrow>
     sector_of m = file_start fs k + i \<longrightarrow>
     (\<exists>s. load_sector m cd = Some (Some s) \<and> s_abs_msf s = m \<and> s_track s = track_bcd (Suc k)
        \<and> sector_of (s_track_msf s) = i
        \<and> s_data s = sector_prefix m (mode_format (df_mode (fs ! k)))
            @ drop 16 (take (sector_size (df_mode (fs ! k))) (drop (sector_size (df_mode (fs ! k)) * i) (df_bytes (fs ! k))))))"

text \<open>C15: A cue sheet that lists files, one data track in each, opens to a disc whose table of contents is the
  list of the files with their places and lengths, and whose sectors but the first are those of the files.
\<close>

theorem cue_sheet_disc:
  assumes "list_all file_ok fs" "fs \<noteq> []" "length fs < 100" "150 + total_sectors fs < 450000"
    and "\<And>f. f \<in> set fs \<Longrightarrow> open_file (df_name f) = Some (df_bytes f)"
  shows "\<exists>cd. parse_cue open_file (sheet_text fs) = Some (Inr cd)
    \<and> cd_toc cd = map (file_track fs) [0..<length fs] \<and> holds_files fs cd"
proof (rule exI [of _ "disc_image fs"], intro conjI)
  show "parse_cue open_file (sheet_text fs) = Some (Inr (disc_image fs))" by (rule parse_sheet [OF assms])
  show "cd_toc (disc_image fs) = map (file_track fs) [0..<length fs]" by (simp add: disc_image_def)
  show "holds_files fs (disc_image fs)" unfolding holds_files_def using disc_sector [OF assms(1,3)] by blast
qed

definition two_files :: "disc_file list" where
  "two_files = [\<lparr>df_name = ''one.bin'', df_mode = Mode2Raw, df_bytes = replicate 2352 7\<rparr>,
    \<lparr>df_name = ''two.bin'', df_mode = Mode1Raw, df_bytes = replicate 4704 9\<rparr>]"

definition two_opened :: "string \<Rightarrow> u8 list option" where
  "two_opened name = map_option df_bytes (find (\<lambda>f. df_name f = name) two_files)"

lemma two_files_ok: "list_all file_ok two_files" "two_files \<noteq> []" "length two_files = 2" "total_sectors two_files = 3"
  "file_start two_files 1 = 151" "file_sectors (two_files ! 1) = 2"
  by (simp_all add: two_files_def file_ok_def total_sectors_def file_sectors_def file_start_def QUOTE_def NEWLINE_def)

lemma two_files_open: "f \<in> set two_files \<Longrightarrow> two_opened (df_name f) = Some (df_bytes f)"
  by (auto simp: two_files_def two_opened_def)

theorem cue_sheet_disc_witness:
  "\<exists>cd m s. parse_cue two_opened (sheet_text two_files) = Some (Inr cd) \<and> length (cd_toc cd) = 2
    \<and> sector_of m = 152 \<and> load_sector m cd = Some (Some s) \<and> s_track s = Bcd 2 \<and> last (s_data s) = 9"
proof -
  obtain m where m: "msf_valid m" "sector_of m = 152" using from_sector_valid [of 152] by auto
  have pre: "length two_files < 100" "150 + total_sectors two_files < 450000" by (simp_all add: two_files_ok)
  obtain cd where cd: "parse_cue two_opened (sheet_text two_files) = Some (Inr cd)"
      "cd_toc cd = map (file_track two_files) [0..<length two_files]" "holds_files two_files cd"
    using cue_sheet_disc [OF two_files_ok(1,2) pre two_files_open] by blast
  obtain s where s: "load_sector m cd = Some (Some s)" "s_track s = track_bcd 2"
      "s_data s = sector_prefix m FMode1 @ drop 16 (take 2352 (drop (2352 * 1) (replicate 4704 9)))"
    using cd(3) [unfolded holds_files_def, rule_format, of 1 1 m] m two_files_ok(3,5,6)
    by (auto simp: two_files_def numeral_2_eq_2)
  have "track_bcd 2 = Bcd 2" by code_simp
  then show ?thesis using cd(1,2) s m two_files_ok(3) by (intro exI [of _ cd] exI [of _ m] exI [of _ s]) (simp add: drop_take)
qed

text \<open>
  The emulator puts the pregap of the first track at the position of its first index, so two entries
  have the same key, and which of them the search gives is up to the library: with the one function
  that keeps the contract the first sector is empty, with the other it is the one of the file.
\<close>

lemma first_sector_ambiguous:
  "binary_search_by (\<lambda>x. cmp (ix_sector x) 150) (lk_indices (disc_lookup [f])) = Inr 0
   \<and> halving_search (\<lambda>x. cmp (ix_sector x) 150) (lk_indices (disc_lookup [f])) = Inr 1"
  by (simp add: disc_lookup_def pregap_def binary_search_by_def halving_search_def halving.simps cmp_def)

end
