(* ===== verification/CdRom.thy ===== *)
theory CdRom
  imports CdImage DeviceFifo Dma
begin

text \<open>
  \<open>crates/splst_core/src/cdrom\<close>: the CD-ROM controller and its resampling buffer. The disc, shared
  with the front end in the code, is a field of the state. \<^term>\<open>None\<close> is a panic: \<open>todo!\<close>,
  \<open>unreachable!\<close>, a failing \<open>unwrap\<close>, an index outside a buffer. Samples of audio are signed
  words, sums in \<open>i32\<close> that cannot overflow are integers.
\<close>

section \<open>The resampling buffer\<close>

type_synonym sample = "i16 \<times> i16"

record xa_buffer =
  xb_data :: "sample list"
  xb_head :: u8

definition XA_SIZE :: nat where "XA_SIZE = 32"

definition xa_buffer_default :: xa_buffer where
  "xa_buffer_default = \<lparr>xb_data = replicate XA_SIZE (0, 0), xb_head = 0\<rparr>"

text \<open>The head is a byte that is not reduced to the size of the array.\<close>

definition xa_push :: "sample \<Rightarrow> xa_buffer \<Rightarrow> xa_buffer option" where
  "xa_push val b =
     (let head = xb_head b + 1
      in if unat head < length (xb_data b) then Some (b\<lparr>xb_head := head, xb_data := (xb_data b)[unat head := val]\<rparr>)
         else None)"

definition FIR_FILTER_COEFFS :: "int list list" where
  "FIR_FILTER_COEFFS = [
    [0, -5, 17, -35, 70, -23, -68, 347, -839, 2062, -4681, 15367,
     21472, -5882, 2810, -1352, 635, -235, 26, 43, -35, 16, -8, 2, 0],
    [0, -2, 10, -34, 65, -84, 52, 9, -266, 1024, -2680, 9036, 26516,
     -6016, 3021, -1571, 848, -365, 107, 10, -16, 17, -8, 3, -1],
    [-2, 0, 3, -19, 60, -75, 162, -227, 306, -67, -615, 3229, 29883,
     -4532, 2488, -1471, 882, -424, 166, -27, 5, 6, -8, 3, -1],
    [-1, 3, -2, -5, 31, -74, 179, -402, 689, -926, 1272, -1446, 31033,
     -1446, 1272, -926, 689, -402, 179, -74, 31, -5, -2, 3, -1],
    [-1, 3, -8, 6, 5, -27, 166, -424, 882, -1471, 2488, -4532, 29883,
     3229, -615, -67, 306, -227, 162, -75, 60, -19, 3, 0, -2],
    [-1, 3, -8, 17, -16, 10, 107, -365, 848, -1571, 3021, -6016, 26516,
     9036, -2680, 1024, -266, 9, 52, -84, 65, -34, 10, -2, 0],
    [0, 2, -8, 16, -35, 43, 26, -235, 635, -1352, 2810, -5882, 21472,
     15367, -4681, 2062, -839, 347, -68, -23, 70, -35, 17, -5, 0]]"

definition clamp_16 :: "int \<Rightarrow> i16" where
  "clamp_16 v = word_of_int (max (-0x8000) (min 0x7fff v))"

definition xa_resample :: "u8 \<Rightarrow> xa_buffer \<Rightarrow> sample option" where
  "xa_resample phase b =
     (if unat phase < length FIR_FILTER_COEFFS then
        let coeffs = FIR_FILTER_COEFFS ! unat phase;
            at = (\<lambda>i. xb_data b ! ((unat (xb_head b) + i) mod XA_SIZE));
            left = sum_list (map (\<lambda>(i, c). sint (fst (at i)) * c) (enumerate 0 coeffs));
            right = sum_list (map (\<lambda>(i, c). sint (snd (at i)) * c) (enumerate 0 coeffs))
        in Some (clamp_16 (drop_bit 15 left), clamp_16 (drop_bit 15 right))
      else None)"

section \<open>The volume matrix\<close>

type_synonym vol_matrix = "(u8 \<times> u8) \<times> (u8 \<times> u8)"

definition vol_default :: vol_matrix where "vol_default = ((0, 0), (0, 0))"

definition vol_mul :: "u8 \<times> u8 \<Rightarrow> int \<Rightarrow> int \<Rightarrow> i16" where
  "vol_mul v left right =
     (let val = uint (fst v) * left + uint (snd v) * right
      in word_of_int (max (-0x8000) (min 0xffff (drop_bit 7 val))))"

definition vol_apply :: "int \<Rightarrow> int \<Rightarrow> vol_matrix \<Rightarrow> sample" where
  "vol_apply left right m = (vol_mul (fst m) left right, vol_mul (snd m) left right)"

section \<open>The data buffer\<close>

record data_buffer =
  db_data :: "u8 list"
  db_len :: u16
  db_index :: u16
  db_active :: bool

definition data_buffer_new :: data_buffer where
  "data_buffer_new = \<lparr>db_data = replicate 2352 0, db_len = 0, db_index = 0, db_active = False\<rparr>"

definition fill_from_sector :: "sector \<Rightarrow> data_buffer \<Rightarrow> data_buffer option" where
  "fill_from_sector s b =
     (let data = s_data s
      in if length data \<le> length (db_data b)
         then Some (b\<lparr>db_data := data @ drop (length data) (db_data b),
                db_len := word_of_nat (length data), db_index := 0\<rparr>)
         else None)"

definition data_ready :: "data_buffer \<Rightarrow> bool" where
  "data_ready b \<longleftrightarrow> db_index b < db_len b"

definition buffer_advance :: "data_buffer \<Rightarrow> data_buffer" where
  "buffer_advance b =
     (let idx = db_index b; adj = push_bit 1 (idx AND 4) in b\<lparr>db_index := (idx AND NOT 7) + adj\<rparr>)"

definition peek_byte :: "data_buffer \<Rightarrow> u8 option" where
  "peek_byte b = (if unat (db_index b) < length (db_data b) then Some (db_data b ! unat (db_index b)) else None)"

definition read_byte :: "data_buffer \<Rightarrow> (u8 \<times> data_buffer) option" where
  "read_byte b = do {
     byte \<leftarrow> peek_byte b;
     Some (byte,
       if db_active b then
         let b = b\<lparr>db_index := db_index b + 1\<rparr>
         in if db_index b = db_len b then b\<lparr>db_active := False\<rparr> else b
       else b) }"

section \<open>The drive\<close>

datatype seek_type = SeekData | SeekAudio
datatype after_seek = ThenPause | ThenRead | ThenPlay
datatype audio_freq = Da1x | Da2x | Xa18k9 | Xa37k8
datatype drive_state = DrvIdle | Seeking msf seek_type after_seek | Paused | Reading | ReadingToc
datatype cd_interrupt = DataReady | Complete | Ack | ErrorInt

fun audio_step :: "audio_freq \<Rightarrow> u8" where
  "audio_step Da1x = 7" | "audio_step Da2x = 14" | "audio_step Xa18k9 = 3" | "audio_step Xa37k8 = 6"

fun interrupt_code :: "cd_interrupt \<Rightarrow> u8" where
  "interrupt_code DataReady = 1" | "interrupt_code Complete = 2" | "interrupt_code Ack = 3" | "interrupt_code ErrorInt = 5"

record cdrom =
  cr_disc :: "cd_image option"
  cr_state :: drive_state
  cr_index :: u8
  cr_irq_mask :: u8
  cr_irq_flags :: u8
  cr_cmd :: "u8 option"
  cr_response :: "u8 fifo"
  cr_args :: "u8 fifo"
  cr_position :: msf
  cr_pending_seek :: "msf option"
  cr_mode :: u8
  cr_sector :: sector
  cr_data :: data_buffer
  cr_audio :: "sample list"
  cr_freq :: audio_freq
  cr_audio_index :: u32
  cr_audio_phase :: u8
  cr_volume :: vol_matrix
  cr_next_volume :: vol_matrix
  cr_xa :: xa_buffer

definition cdrom_new :: "cd_image option \<Rightarrow> schedule \<Rightarrow> schedule \<times> cdrom" where
  "cdrom_new disc sch =
     (snd (schedule_repeat (systime_new 7000) (EvCdRom cdrom_run) sch),
      \<lparr>cr_disc = disc, cr_state = DrvIdle, cr_index = 0, cr_irq_mask = 0, cr_irq_flags = 0, cr_cmd = None,
       cr_response = fifo_new 0 16, cr_args = fifo_new 0 16, cr_position = msf_ZERO, cr_pending_seek = None,
       cr_mode = 0, cr_sector = sector_start_value, cr_data = data_buffer_new, cr_audio = [], cr_freq = Da1x,
       cr_audio_index = 0, cr_audio_phase = 0, cr_volume = vol_default, cr_next_volume = vol_default,
       cr_xa = xa_buffer_default\<rparr>)"

section \<open>Interrupts and responses\<close>

definition cd_irq_active :: "cdrom \<Rightarrow> bool" where
  "cd_irq_active c \<longleftrightarrow> cr_irq_flags c AND cr_irq_mask c \<noteq> 0"

definition motor_on :: "cdrom \<Rightarrow> bool" where
  "motor_on c \<longleftrightarrow> cr_state c \<noteq> DrvIdle"

definition drive_stat :: "cdrom \<Rightarrow> u8" where
  "drive_stat c =
     (case cr_disc c of
        None \<Rightarrow> 0x10
      | Some _ \<Rightarrow>
          (case cr_state c of
             DrvIdle \<Rightarrow> 0
           | Paused \<Rightarrow> push_bit 1 1
           | ReadingToc \<Rightarrow> push_bit 1 1
           | Seeking _ _ _ \<Rightarrow> push_bit 1 1 OR push_bit 6 1
           | Reading \<Rightarrow> push_bit 1 1 OR push_bit 5 1))"

type_synonym cd_state = "schedule \<times> cdrom"

definition set_interrupt :: "cd_interrupt \<Rightarrow> cd_state \<Rightarrow> cd_state" where
  "set_interrupt i x = (case x of (sch, c) \<Rightarrow>
     let c = c\<lparr>cr_irq_flags := interrupt_code i\<rparr>
     in (if cd_irq_active c then snd (trigger (EvIrq CdRomIrq) sch) else sch, c))"

definition respond :: "u8 list \<Rightarrow> cdrom \<Rightarrow> cdrom option" where
  "respond bytes c = map_option (\<lambda>f. c\<lparr>cr_response := f\<rparr>) (fifo_push_slice bytes (cr_response c))"

definition finish_cmd :: "cd_interrupt \<Rightarrow> cd_state \<Rightarrow> cd_state option" where
  "finish_cmd i x = (case x of (sch, c) \<Rightarrow> do {
     f \<leftarrow> fifo_push (drive_stat c) (cr_response c);
     Some (set_interrupt i (sch, c\<lparr>cr_response := f\<rparr>)) })"

definition pop_arg :: "cdrom \<Rightarrow> (u8 \<times> cdrom) option" where
  "pop_arg c = map_option (\<lambda>(v, f). (v, c\<lparr>cr_args := f\<rparr>)) (fifo_pop (cr_args c))"

definition later :: "u64 \<Rightarrow> cdrom_callback \<Rightarrow> cd_state \<Rightarrow> cd_state" where
  "later cycles cb x = apfst (\<lambda>sch. snd (schedule_event (systime_new cycles) (EvCdRom cb) sch)) x"

definition start_seek :: "seek_type \<Rightarrow> after_seek \<Rightarrow> cd_state \<Rightarrow> cd_state" where
  "start_seek ty after x = (case x of (sch, c) \<Rightarrow>
     let target = (case cr_pending_seek c of Some m \<Rightarrow> m | None \<Rightarrow> msf_ZERO)
     in later 225000 sector_done (sch, c\<lparr>cr_pending_seek := None, cr_state := Seeking target ty after\<rparr>))"

definition start_read :: "cd_state \<Rightarrow> cd_state" where
  "start_read x = later 225000 sector_done (apsnd (cr_state_update (\<lambda>_. Reading)) x)"

definition cd_sector_done :: "cd_state \<Rightarrow> cd_state option" where
  "cd_sector_done x = (case x of (sch, c) \<Rightarrow>
     case cr_state c of
       Seeking target ty after \<Rightarrow>
         (let c = c\<lparr>cr_position := target\<rparr>
          in case after of
               ThenRead \<Rightarrow> Some (start_read (sch, c))
             | ThenPause \<Rightarrow> Some (sch, c\<lparr>cr_state := Paused\<rparr>)
             | ThenPlay \<Rightarrow> None)
     | Reading \<Rightarrow> do {
         cd \<leftarrow> cr_disc c;
         nxt \<leftarrow> next_sector (cr_position c);
         m \<leftarrow> nxt;
         let (sch, c) = later 225000 sector_done (sch, c\<lparr>cr_position := m\<rparr>);
         r \<leftarrow> load_sector m cd;
         s \<leftarrow> r;
         finish_cmd DataReady (sch, c\<lparr>cr_sector := s\<rparr>) }
     | _ \<Rightarrow> Some x)"

section \<open>Commands\<close>

definition cmd_set_loc :: "cd_state \<Rightarrow> cd_state option" where
  "cmd_set_loc x = (case x of (sch, c) \<Rightarrow> do {
     (m, c) \<leftarrow> pop_arg (c\<lparr>cr_state := ReadingToc\<rparr>);
     m \<leftarrow> bcd_from_bcd m;
     (s, c) \<leftarrow> pop_arg c;
     s \<leftarrow> bcd_from_bcd s;
     (f, c) \<leftarrow> pop_arg c;
     f \<leftarrow> bcd_from_bcd f;
     finish_cmd Ack (sch, c\<lparr>cr_pending_seek := Some (msf_from_bcd m s f)\<rparr>) })"

text \<open>\<open>read_n\<close>: the flag tells that the code returned before the arguments are cleared.\<close>

definition cmd_read_n :: "cd_state \<Rightarrow> (bool \<times> cd_state) option" where
  "cmd_read_n x = do {
     (sch, c) \<leftarrow> finish_cmd Ack x;
     let seeking_same = (case cr_state c of
          Seeking target _ ThenRead \<Rightarrow> cr_pending_seek c = None \<or> cr_pending_seek c = Some target
        | _ \<Rightarrow> False);
     let ready = ((cr_state c = Reading \<or> cr_state c = Paused) \<and> cr_pending_seek c = None);
     Some (if seeking_same then (True, sch, c)
           else if ready then (True, start_read (sch, c))
           else (False,
             case cr_pending_seek c of
               Some _ \<Rightarrow> start_seek SeekData ThenRead (sch, c)
             | None \<Rightarrow>
                 (case cr_state c of
                    Seeking target ty _ \<Rightarrow> (sch, c\<lparr>cr_state := Seeking target ty ThenRead\<rparr>)
                  | _ \<Rightarrow> start_read (sch, c)))) }"

definition cmd_stop :: "cd_state \<Rightarrow> cd_state option" where
  "cmd_stop x = do {
     x \<leftarrow> finish_cmd Ack x;
     Some (later (if motor_on (snd x) then 1000000 else 7000) async_stop x) }"

definition cmd_pause :: "cd_state \<Rightarrow> cd_state option" where
  "cmd_pause x = do {
     (sch, c) \<leftarrow> finish_cmd Ack x;
     let cycles = (case cr_state c of Paused \<Rightarrow> 9000 | DrvIdle \<Rightarrow> 9000 | _ \<Rightarrow> 1000000);
     Some (later cycles async_pause (sch, c\<lparr>cr_state := Paused\<rparr>)) }"

definition cmd_init :: "cd_state \<Rightarrow> cd_state option" where
  "cmd_init x = do {
     (sch, c) \<leftarrow> finish_cmd Ack x;
     Some (later 900000 async_init (sch, c\<lparr>cr_state := Paused, cr_position := msf_ZERO, cr_pending_seek := None\<rparr>)) }"

definition cmd_set_mode :: "cd_state \<Rightarrow> cd_state option" where
  "cmd_set_mode x = (case x of (sch, c) \<Rightarrow> do {
     (m, c) \<leftarrow> pop_arg c;
     finish_cmd Ack (sch, c\<lparr>cr_mode := m\<rparr>) })"

definition cmd_seekl :: "cd_state \<Rightarrow> cd_state option" where
  "cmd_seekl x = do {
     x \<leftarrow> finish_cmd Ack (start_seek SeekData ThenPause x);
     Some (later 225000 async_seekl x) }"

definition cmd_test :: "cd_state \<Rightarrow> cd_state option" where
  "cmd_test x = (case x of (sch, c) \<Rightarrow> do {
     (a, c) \<leftarrow> pop_arg c;
     c \<leftarrow> (if a = 0x20 then respond [0x98, 0x06, 0x10, 0xc3] c else None);
     Some (set_interrupt Ack (sch, c)) })"

definition cmd_get_id :: "cd_state \<Rightarrow> cd_state option" where
  "cmd_get_id x = (case x of (sch, c) \<Rightarrow>
     if cr_disc c = None then do { c \<leftarrow> respond [0x11, 0x80] c; Some (set_interrupt ErrorInt (sch, c)) }
     else do { x \<leftarrow> finish_cmd Ack x; Some (later 33868 async_get_id x) })"

definition cmd_read_toc :: "cd_state \<Rightarrow> cd_state option" where
  "cmd_read_toc x = do {
     (sch, c) \<leftarrow> finish_cmd Ack (apsnd (cr_state_update (\<lambda>_. Reading)) x);
     Some (snd (schedule_event (from_duration 1000000000) (EvCdRom async_read_toc) sch), c) }"

definition cd_dispatch :: "u8 \<Rightarrow> cd_state \<Rightarrow> (bool \<times> cd_state) option" where
  "cd_dispatch cmd x =
     (let go = map_option (Pair False)
      in if cmd = 0x01 then go (finish_cmd Ack x)
         else if cmd = 0x02 then go (cmd_set_loc x)
         else if cmd = 0x06 then cmd_read_n x
         else if cmd = 0x08 then go (cmd_stop x)
         else if cmd = 0x09 then go (cmd_pause x)
         else if cmd = 0x0a then go (cmd_init x)
         else if cmd = 0x0e then go (cmd_set_mode x)
         else if cmd = 0x15 then go (cmd_seekl x)
         else if cmd = 0x19 then go (cmd_test x)
         else if cmd = 0x1a then go (cmd_get_id x)
         else if cmd = 0x1e then go (cmd_read_toc x)
         else None)"

definition cd_exec_cmd :: "cd_state \<Rightarrow> cd_state option" where
  "cd_exec_cmd x = (case x of (sch, c) \<Rightarrow>
     if cr_irq_flags c \<noteq> 0 then Some x
     else case cr_cmd c of
       None \<Rightarrow> Some x
     | Some cmd \<Rightarrow> do {
         (early, sch, c) \<leftarrow> cd_dispatch cmd (sch, c\<lparr>cr_cmd := None, cr_response := fifo_clear (cr_response c)\<rparr>);
         Some (sch, if early then c else c\<lparr>cr_args := fifo_clear (cr_args c)\<rparr>) })"

section \<open>Events\<close>

definition cd_async_get_id :: "cd_state \<Rightarrow> cd_state option" where
  "cd_async_get_id x = (case x of (sch, c) \<Rightarrow> do {
     let response = [drive_stat c, 0x0, 0x20, 0x00, 0x53, 0x43, 0x45, 0x41];
     c \<leftarrow> respond response (c\<lparr>cr_state := DrvIdle\<rparr>);
     Some (set_interrupt Complete (sch, c)) })"

definition cdrom_event :: "cdrom_callback \<Rightarrow> cd_state \<Rightarrow> cd_state option" where
  "cdrom_event cb x =
     (let complete_in = (\<lambda>st. finish_cmd Complete (apsnd (cr_state_update (\<lambda>_. st)) x))
      in case cb of
        cdrom_run \<Rightarrow> cd_exec_cmd x
      | sector_done \<Rightarrow> cd_sector_done x
      | async_stop \<Rightarrow> complete_in DrvIdle
      | async_pause \<Rightarrow> complete_in Paused
      | async_init \<Rightarrow> finish_cmd Complete x
      | async_seekl \<Rightarrow> finish_cmd Complete x
      | async_get_id \<Rightarrow> cd_async_get_id x
      | async_read_toc \<Rightarrow> complete_in Paused)"

section \<open>Registers\<close>

definition cd_status_reg :: "cdrom \<Rightarrow> u8" where
  "cd_status_reg c =
     cr_index c OR push_bit 3 (of_bool (fifo_is_empty (cr_args c))) OR push_bit 4 (of_bool (\<not> fifo_is_full (cr_args c)))
     OR push_bit 5 (of_bool (\<not> fifo_is_empty (cr_response c))) OR push_bit 6 (of_bool (\<not> data_ready (cr_data c)))
     OR push_bit 7 (of_bool (cr_cmd c \<noteq> None))"

definition cd_store_irq_mask :: "u8 \<Rightarrow> cd_state \<Rightarrow> cd_state" where
  "cd_store_irq_mask val x = (case x of (sch, c) \<Rightarrow>
     let was_active = cd_irq_active c; c = c\<lparr>cr_irq_mask := bit_range val 0 4\<rparr>
     in (if \<not> was_active \<and> cd_irq_active c then snd (trigger (EvIrq CdRomIrq) sch) else sch, c))"

definition cd_store_request :: "u8 \<Rightarrow> cdrom \<Rightarrow> cdrom option" where
  "cd_store_request val c =
     (let was_active = db_active (cr_data c); b = (cr_data c)\<lparr>db_active := bit_at val 7\<rparr>
      in if db_active b then
           (if \<not> was_active then map_option (\<lambda>b. c\<lparr>cr_data := b\<rparr>) (fill_from_sector (cr_sector c) b)
            else Some (c\<lparr>cr_data := b\<rparr>))
         else Some (c\<lparr>cr_data := buffer_advance b\<rparr>))"

definition cd_store_ack :: "u8 \<Rightarrow> cdrom \<Rightarrow> cdrom" where
  "cd_store_ack val c =
     (let c = c\<lparr>cr_irq_flags := cr_irq_flags c AND NOT (bit_range val 0 4)\<rparr>
      in if bit_at val 6 then c\<lparr>cr_args := fifo_clear (cr_args c)\<rparr> else c)"

definition cdrom_store :: "u32 \<Rightarrow> u32 \<Rightarrow> cd_state \<Rightarrow> cd_state option" where
  "cdrom_store addr v x = (case x of (sch, c) \<Rightarrow>
     let val = as_u8 v
     in if addr = 0 then Some (sch, c\<lparr>cr_index := bit_range val 0 1\<rparr>)
        else if addr = 1 then (if cr_index c = 0 then Some (sch, c\<lparr>cr_cmd := Some val\<rparr>) else None)
        else if addr = 2 then
          (if cr_index c = 0 then map_option (\<lambda>f. (sch, c\<lparr>cr_args := f\<rparr>)) (fifo_push val (cr_args c))
           else if cr_index c = 1 then Some (cd_store_irq_mask val x)
           else None)
        else if addr = 3 then
          (if cr_index c = 0 then map_option (Pair sch) (cd_store_request val c)
           else if cr_index c = 1 then Some (sch, cd_store_ack val c)
           else None)
        else None)"

definition cd_irq_reg :: "cdrom \<Rightarrow> u32 option" where
  "cd_irq_reg c =
     (if cr_index c = 0 then Some (ucast (cr_irq_mask c) OR NOT 0x1f)
      else if cr_index c = 1 then Some (ucast (cr_irq_flags c) OR NOT 0x1f)
      else None)"

definition cdrom_load :: "addr_width \<Rightarrow> u32 \<Rightarrow> cdrom \<Rightarrow> (u32 \<times> cdrom) option" where
  "cdrom_load w addr c = do {
     (val, c) \<leftarrow>
       (if addr = 0 then Some (ucast (cd_status_reg c), c)
        else if addr = 1 then
          map_option (\<lambda>(v, f). (case v of None \<Rightarrow> 0 | Some b \<Rightarrow> ucast b, c\<lparr>cr_response := f\<rparr>))
            (fifo_try_pop (cr_response c))
        else if addr = 2 then map_option (\<lambda>(b, d). (ucast b, c\<lparr>cr_data := d\<rparr>)) (read_byte (cr_data c))
        else if addr = 3 then map_option (\<lambda>v. (v, c)) (cd_irq_reg c)
        else None);
     Some (from_u32 w val, c) }"

definition cdrom_peek :: "addr_width \<Rightarrow> u32 \<Rightarrow> cdrom \<Rightarrow> u32 option" where
  "cdrom_peek w addr c = do {
     val \<leftarrow>
       (if addr = 0 then Some (ucast (cd_status_reg c))
        else if addr = 1 then
          map_option (\<lambda>v. case v of None \<Rightarrow> 0 | Some b \<Rightarrow> ucast b) (fifo_peek (cr_response c))
        else if addr = 2 then map_option ucast (peek_byte (cr_data c))
        else if addr = 3 then cd_irq_reg c
        else None);
     Some (from_u32 w val) }"

text \<open>The DMA channel: the last three bytes all go to the second byte of the word.\<close>

definition cdrom_dma_load :: "cdrom \<Rightarrow> (u32 \<times> cdrom) option" where
  "cdrom_dma_load c = do {
     (v1, b) \<leftarrow> read_byte (cr_data c);
     (v2, b) \<leftarrow> read_byte b;
     (v3, b) \<leftarrow> read_byte b;
     (v4, b) \<leftarrow> read_byte b;
     Some (ucast v1 OR push_bit 8 (ucast v2) OR push_bit 8 (ucast v3) OR push_bit 8 (ucast v4), c\<lparr>cr_data := b\<rparr>) }"

definition cdrom_channel :: "cdrom channel" where
  "cdrom_channel = \<lparr>
     ch_load = (\<lambda>_ sch c. map_option (\<lambda>(v, c). (v, sch, c)) (cdrom_dma_load c)),
     ch_store = (\<lambda>val sch c. None),
     ch_ready = (\<lambda>dir c. True)\<rparr>"

section \<open>Audio\<close>

definition cd_audio_xa :: "bool \<Rightarrow> sample \<Rightarrow> cdrom \<Rightarrow> (sample \<times> cdrom) option" where
  "cd_audio_xa resample raw_s c = do {
     (left, right) \<leftarrow>
       (if resample then do {
          (ls, rs) \<leftarrow> xa_resample (cr_audio_phase c) (cr_xa c);
          Some (fst raw_s + ls, snd raw_s + rs) }
        else Some raw_s);
     let phase = cr_audio_phase c + audio_step (cr_freq c);
     c \<leftarrow> (if 7 \<le> phase
           then map_option (\<lambda>b. c\<lparr>cr_audio_phase := phase - 7, cr_xa := b\<rparr>) (xa_push raw_s (cr_xa c))
           else Some (c\<lparr>cr_audio_phase := phase\<rparr>));
     Some ((left, right), c\<lparr>cr_audio_index := cr_audio_index c + 1\<rparr>) }"

definition run_audio_cycle :: "bool \<Rightarrow> cdrom \<Rightarrow> (sample \<times> cdrom) option" where
  "run_audio_cycle resample c =
     (let idx = unat (cr_audio_index c)
      in if idx < length (cr_audio c) then do {
           let raw_s = cr_audio c ! idx;
           (s, c) \<leftarrow> (case cr_freq c of
               Da1x \<Rightarrow> Some (raw_s, c\<lparr>cr_audio_index := cr_audio_index c + 1\<rparr>)
             | Da2x \<Rightarrow> Some (raw_s, c\<lparr>cr_audio_index := cr_audio_index c + 2\<rparr>)
             | _ \<Rightarrow> cd_audio_xa resample raw_s c);
           Some (vol_apply (sint (fst s)) (sint (snd s)) (cr_volume c), c) }
         else Some ((0, 0), c))"

end
