(* ===== verification/CdRead.thy ===== *)
theory CdRead
  imports CdRom CueDisc
begin

text \<open>
  Reading a sector through the controller: from the event that the drive has reached it, to the
  bytes the program takes from the data port.
\<close>

section \<open>The data port\<close>

fun data_reads :: "nat \<Rightarrow> cdrom \<Rightarrow> (u32 list \<times> cdrom) option" where
  "data_reads 0 c = Some ([], c)"
| "data_reads (Suc n) c = do {
     (v, c) \<leftarrow> cdrom_load Byte 2 c;
     (vs, c) \<leftarrow> data_reads n c;
     Some (v # vs, c) }"

lemma from_u32_byte [simp]: "from_u32 Byte (ucast (b :: u8)) = ucast b"
  by (simp add: from_u32_def) (rule bit_word_eqI, auto simp: bit_simps dest: bit_imp_le_length)

text \<open>\<open>holding xs c\<close>: the active buffer has the bytes \<open>xs\<close> left.\<close>

definition holding :: "u8 list \<Rightarrow> cdrom \<Rightarrow> bool" where
  "holding xs c \<longleftrightarrow> db_active (cr_data c) \<and> length (db_data (cr_data c)) = 2352
     \<and> unat (db_index (cr_data c)) + length xs = unat (db_len (cr_data c)) \<and> unat (db_len (cr_data c)) \<le> 2352
     \<and> xs = take (length xs) (drop (unat (db_index (cr_data c))) (db_data (cr_data c)))"

lemma load_holding:
  assumes "holding (x # xs) c"
  shows "\<exists>c'. cdrom_load Byte 2 c = Some (ucast x, c') \<and> (if xs = [] then \<not> db_active (cr_data c') else holding xs c')"
proof -
  let ?b = "cr_data c"
  let ?i = "unat (db_index ?b)"
  have h: "db_active ?b" "length (db_data ?b) = 2352" "?i + Suc (length xs) = unat (db_len ?b)" "unat (db_len ?b) \<le> 2352"
    "x # xs = take (Suc (length xs)) (drop ?i (db_data ?b))"
    using assms by (simp_all add: holding_def)
  have lt: "?i < 2352" using h by simp
  have "drop ?i (db_data ?b) = db_data ?b ! ?i # drop (Suc ?i) (db_data ?b)"
    using lt h(2) by (simp add: Cons_nth_drop_Suc)
  then have x: "x = db_data ?b ! ?i" "xs = take (length xs) (drop (Suc ?i) (db_data ?b))"
    using h(5) by simp_all
  have suc: "unat (db_index ?b + 1) = Suc ?i" using lt by (simp add: unat_add_no_wrap)
  have fin: "db_index ?b + 1 = db_len ?b \<longleftrightarrow> xs = []"
    using suc h(3) by (cases xs) (simp_all add: word_unat_eq_iff)
  show ?thesis
    using h(1,2,4) x suc fin h(3) lt
    by (auto simp: cdrom_load_def read_byte_def peek_byte_def Let_def holding_def)
qed

lemma reads_holding:
  "holding xs c \<Longrightarrow> n \<le> length xs \<Longrightarrow> \<exists>c'. data_reads n c = Some (map ucast (take n xs), c')
     \<and> (n = length xs \<longrightarrow> n \<noteq> 0 \<longrightarrow> \<not> db_active (cr_data c'))"
proof (induction n arbitrary: xs c)
  case (Suc n)
  then obtain x ys where xs: "xs = x # ys" by (cases xs) auto
  obtain c1 where c1: "cdrom_load Byte 2 c = Some (ucast x, c1)"
    "if ys = [] then \<not> db_active (cr_data c1) else holding ys c1"
    using load_holding [of x ys c] Suc.prems(1) xs by blast
  show ?case
  proof (cases "ys = []")
    case True
    then show ?thesis using c1 xs Suc.prems(2) by simp
  next
    case False
    then obtain c2 where "data_reads n c1 = Some (map ucast (take n ys), c2)"
      "n = length ys \<longrightarrow> n \<noteq> 0 \<longrightarrow> \<not> db_active (cr_data c2)"
      using Suc.IH [of ys c1] c1(2) Suc.prems(2) xs by auto
    then show ?thesis using c1(1) xs False by auto
  qed
qed simp

text \<open>Activating the buffer fills it with the sector.\<close>

lemma activate_holding:
  assumes "\<not> db_active (cr_data c)" "length (db_data (cr_data c)) = 2352" "cr_index c = 0"
    and "length (s_data (cr_sector c)) \<le> 2352"
  shows "\<exists>c'. cdrom_store 3 0x80 (sch, c) = Some (sch, c') \<and> holding (s_data (cr_sector c)) c'"
proof -
  have v: "bit_at (as_u8 0x80) 7" by code_simp
  have "unat (word_of_nat (length (s_data (cr_sector c))) :: u16) = length (s_data (cr_sector c))"
    using assms(4) by (simp add: unsigned_of_nat take_bit_nat_eq_self)
  then show ?thesis
    using assms v by (simp add: cdrom_store_def cd_store_request_def fill_from_sector_def Let_def holding_def)
qed

section \<open>From the drive to the program\<close>

lemma finish_cmd_returns:
  assumes "fifo_inv (cr_response c)"
  shows "\<exists>sch' c'. finish_cmd i (sch, c) = Some (sch', c') \<and> cr_irq_flags c' = interrupt_code i
    \<and> cr_position c' = cr_position c \<and> cr_sector c' = cr_sector c \<and> cr_data c' = cr_data c \<and> cr_index c' = cr_index c"
proof -
  have "unat (bit_range (fifo_head (cr_response c)) 0 3) < length (fifo_data (cr_response c))"
    using assms by (simp add: fifo_inv_def FIFO_SIZE_def unat_low4)
  then show ?thesis by (simp add: finish_cmd_def fifo_push_def set_interrupt_def Let_def)
qed

text \<open>C16: When the drive reaches the next sector of a data track, the controller reports that data is ready,
  and after the program has requested it, the data port gives the bytes of the sector in order: the header
  with its position, then the bytes of the image behind the header. The sector belongs to the first index of
  its track, the last of the image's sorted indices that does not lie behind it, and no index before that one
  begins at the very sector: there the search of the code may find either (in images made from a cue sheet
  that is the first sector of the disc, where the pregap is put as well, see \<open>first_sector_ambiguous\<close>).\<close>

theorem cdrom_reads_sector:
  assumes "cr_state c = Reading" "cr_disc c = Some cd" "next_sector (cr_position c) = Some (Some m)"
    and "cr_index c = 0" "\<not> db_active (cr_data c)" "length (db_data (cr_data c)) = 2352" "fifo_inv (cr_response c)"
    and "sorted (map ix_sector (lk_indices (cd_indices cd)))"
    and "sector_of m \<le> lk_first_in_lead_out (cd_indices cd)" "msf_valid m"
    and "i < length (lk_indices (cd_indices cd))" "x = lk_indices (cd_indices cd) ! i"
    and "ix_sector x \<le> sector_of m"
    and "\<And>j. i < j \<Longrightarrow> j < length (lk_indices (cd_indices cd)) \<Longrightarrow> sector_of m < ix_sector (lk_indices (cd_indices cd) ! j)"
    and "\<And>j. j < i \<Longrightarrow> ix_sector (lk_indices (cd_indices cd) ! j) \<noteq> sector_of m"
    and "ix_index x = bcd_ONE" "ix_data x = Binary b off mode" "ix_format x = mode_format mode" "mode \<noteq> MAudio"
    and "b < length (cd_binaries cd)"
    and "start = off + sector_size mode * (sector_of m - ix_sector x)"
    and "start + sector_size mode \<le> length (cd_binaries cd ! b)" "n \<le> sector_size mode"
  shows "\<exists>sch1 c1 c2 c3. cdrom_event sector_done (sch, c) = Some (sch1, c1) \<and> cr_position c1 = m
    \<and> cr_irq_flags c1 = interrupt_code DataReady
    \<and> cdrom_store 3 0x80 (sch1, c1) = Some (sch1, c2)
    \<and> data_reads n c2 = Some (map ucast (take n (sector_prefix m (mode_format mode)
        @ drop 16 (take (sector_size mode) (drop start (cd_binaries cd ! b))))), c3)
    \<and> (n = sector_size mode \<longrightarrow> \<not> db_active (cr_data c3))"
proof -
  let ?bytes = "sector_prefix m (mode_format mode) @ drop 16 (take (sector_size mode) (drop start (cd_binaries cd ! b)))"
  have "j = i" if "j < length (lk_indices (cd_indices cd))" "ix_sector (lk_indices (cd_indices cd) ! j) = sector_of m" for j
    using that assms(14,15) by (metis less_irrefl linorder_neqE_nat)
  then have "get_from_msf m (cd_indices cd) = Some (Some (i, x))"
    unfolding assms(12) using get_from_msf_unique [OF assms(8,9,11)] assms(12-14) by blast
  then obtain s where s: "load_sector m cd = Some (Some s)" "s_data s = ?bytes"
    using load_sector_at [OF _ assms(10,13,16-22)] by blast
  have size: "16 \<le> sector_size mode" "sector_size mode \<le> 2352" by (cases mode; simp)+
  have len: "length ?bytes = sector_size mode" using assms(22) size(1) by (simp add: sector_prefix_def)
  let ?c = "c\<lparr>cr_position := m, cr_sector := s\<rparr>"
  have same: "later 225000 sector_done (sch, c\<lparr>cr_position := m\<rparr>)
      = (fst (later 225000 sector_done (sch, c)), c\<lparr>cr_position := m\<rparr>)"
    by (simp add: later_def)
  obtain sch1 c1 where c1: "finish_cmd DataReady (fst (later 225000 sector_done (sch, c)), ?c) = Some (sch1, c1)"
    "cr_irq_flags c1 = interrupt_code DataReady" "cr_position c1 = m" "cr_sector c1 = s" "cr_data c1 = cr_data c"
    "cr_index c1 = 0"
    using finish_cmd_returns [of ?c DataReady] assms(4,7) by fastforce
  have event: "cdrom_event sector_done (sch, c) = Some (sch1, c1)"
    using assms(1-3) s(1) c1(1) by (simp add: cdrom_event_def cd_sector_done_def same)
  obtain c2 where c2: "cdrom_store 3 0x80 (sch1, c1) = Some (sch1, c2)" "holding ?bytes c2"
    using activate_holding [of c1 sch1] assms(5,6) c1(4-6) s(2) len size(2) by auto
  obtain c3 where "data_reads n c2 = Some (map ucast (take n ?bytes), c3)"
    "n = length ?bytes \<longrightarrow> n \<noteq> 0 \<longrightarrow> \<not> db_active (cr_data c3)"
    using reads_holding [OF c2(2), of n] assms(23) len by auto
  then show ?thesis using event c1(2,3) c2(1) len size(1) by auto
qed

text \<open>The disc of the sheet that lists two files, and the second sector of its second file.\<close>

definition drive_with :: "cd_image \<Rightarrow> cdrom" where
  "drive_with cd = (snd (cdrom_new (Some cd) schedule_new))
     \<lparr>cr_state := Reading, cr_position := \<lparr>msf_min = Bcd 0, msf_sec = Bcd 2, msf_frame = Bcd 1\<rparr>\<rparr>"

theorem cdrom_reads_sector_witness:
  "\<exists>cd. parse_cue two_opened (sheet_text two_files) = Some (Inr cd) \<and>
    (\<forall>sch. \<exists>sch1 c1 c2 c3. cdrom_event sector_done (sch, drive_with cd) = Some (sch1, c1)
      \<and> cdrom_store 3 0x80 (sch1, c1) = Some (sch1, c2)
      \<and> data_reads 18 c2 = Some ([0, 255, 255, 255, 255, 255, 255, 255, 255, 255, 255, 0, 0, 2, 2, 1, 9, 9], c3))"
proof (intro exI [of _ "disc_image two_files"] conjI allI)
  have pre: "length two_files < 100" "150 + total_sectors two_files < 450000" by (simp_all add: two_files_ok)
  show "parse_cue two_opened (sheet_text two_files) = Some (Inr (disc_image two_files))"
    by (rule parse_sheet [OF two_files_ok(1,2) pre two_files_open])
  fix sch
  let ?cd = "disc_image two_files" and ?c = "drive_with (disc_image two_files)"
  let ?l = "cd_indices ?cd"
  let ?m = "\<lparr>msf_min = Bcd 0, msf_sec = Bcd 2, msf_frame = Bcd 2\<rparr>"
  let ?x = "\<lparr>ix_sector = 151, ix_index = bcd_ONE, ix_track = track_bcd 2, ix_format = FMode1, ix_data = Binary 1 0 Mode1Raw\<rparr>"
  have m: "sector_of ?m = 152" "msf_valid ?m"
    "next_sector \<lparr>msf_min = Bcd 0, msf_sec = Bcd 2, msf_frame = Bcd 1\<rparr> = Some (Some ?m)"
    by code_simp+
  have d: "cr_state ?c = Reading" "cr_disc ?c = Some ?cd" "cr_index ?c = 0"
    "cr_position ?c = \<lparr>msf_min = Bcd 0, msf_sec = Bcd 2, msf_frame = Bcd 1\<rparr>"
    "\<not> db_active (cr_data ?c)" "length (db_data (cr_data ?c)) = 2352" "fifo_inv (cr_response ?c)"
    by (simp_all add: drive_with_def cdrom_new_def data_buffer_new_def fifo_new_inv)
  have two: "length (lk_indices ?l) = 3" "lk_first_in_lead_out ?l = 153" "sorted (map ix_sector (lk_indices ?l))"
    "length (cd_binaries ?cd) = 2" "cd_binaries ?cd ! 1 = replicate 4704 9"
    using disc_sorted [OF two_files_ok(1)]
    by (simp_all add: disc_image_def disc_length disc_end two_files_ok) (simp_all add: two_files_def)
  have mode: "df_mode (two_files ! 1) = Mode1Raw" "df_mode (two_files ! 0) = Mode2Raw" by (simp_all add: two_files_def)
  have x: "lk_indices ?l ! 2 = ?x"
    using disc_nth [of 1 two_files] two_files_ok(3,5) mode by (simp add: disc_image_def numeral_2_eq_2)
  have first: "ix_sector (lk_indices ?l ! 0) = 150" "ix_sector (lk_indices ?l ! 1) = 150"
    using disc_nth [of 0 two_files] two_files_ok(3)
    by (simp_all add: disc_image_def disc_first pregap_def file_start_def total_sectors_def)
  have below: "ix_sector (lk_indices ?l ! j) \<noteq> sector_of ?m" if "j < 2" for j
    using that first by (auto simp: less_2_cases_iff m(1))
  have bytes: "take 18 (sector_prefix ?m (mode_format Mode1Raw) @ drop 16 (take 2352 (drop 2352 (replicate 4704 9))))
      = sector_prefix ?m FMode1 @ [9, 9]"
    by (simp add: sector_prefix_def take_replicate drop_replicate) (simp add: numeral_eq_Suc)
  have low: "map ucast (sector_prefix ?m FMode1 @ [9, 9 :: u8])
      = [0, 255, 255, 255, 255, 255, 255, 255, 255, 255, 255, 0, 0, 2, 2, 1, 9, 9 :: u32]"
    by code_simp
  obtain sch1 c1 c2 c3 where r: "cdrom_event sector_done (sch, ?c) = Some (sch1, c1)"
    "cdrom_store 3 0x80 (sch1, c1) = Some (sch1, c2)"
    "data_reads 18 c2 = Some (map ucast (take 18 (sector_prefix ?m (mode_format Mode1Raw)
        @ drop 16 (take (sector_size Mode1Raw) (drop 2352 (cd_binaries ?cd ! 1))))), c3)"
    using cdrom_reads_sector [of ?c ?cd ?m 2 ?x 1 0 Mode1Raw 2352 18 sch] d m x two below by fastforce
  have "take 18 (sector_prefix ?m (mode_format Mode1Raw)
        @ drop 16 (take (sector_size Mode1Raw) (drop 2352 (cd_binaries ?cd ! 1)))) = sector_prefix ?m FMode1 @ [9, 9]"
    using bytes two(5) by simp
  then show "\<exists>sch1 c1 c2 c3. cdrom_event sector_done (sch, ?c) = Some (sch1, c1)
      \<and> cdrom_store 3 0x80 (sch1, c1) = Some (sch1, c2)
      \<and> data_reads 18 c2 = Some ([0, 255, 255, 255, 255, 255, 255, 255, 255, 255, 255, 0, 0, 2, 2, 1, 9, 9], c3)"
    using r low by metis
qed

end
