(* ===== verification/Spu.thy ===== *)
theory Spu
  imports SpuTables CdRom
begin

text \<open>
  \<open>crates/splst_core/src/spu/mod.rs\<close>: the sound processing unit. \<open>Regs\<close> and \<open>VoiceRegs\<close> are \<open>repr(C)\<close>
  structures that the code also reads and writes as arrays of halfwords: here they are those arrays,
  and a field is a function of the halfword at its offset. The RAM is a function of the index. The
  audio output, an interface of the front end, is the list of the samples sent. \<^term>\<open>None\<close> is a
  panic. Samples are words of 32 bits, as in the code, with arithmetic that wraps.
\<close>

section \<open>Registers\<close>

type_synonym spu_regs = "u16 list"

definition REGS_SIZE :: nat where "REGS_SIZE = 66"

definition halfwords :: "nat \<Rightarrow> u16 list \<Rightarrow> u32" where
  "halfwords i r = ucast (r ! i) OR push_bit 16 (ucast (r ! (i + 1)))"

definition left_main_vol :: "spu_regs \<Rightarrow> u16" where "left_main_vol r = r ! 0"
definition right_main_vol :: "spu_regs \<Rightarrow> u16" where "right_main_vol r = r ! 1"
definition voice_on :: "spu_regs \<Rightarrow> u32" where "voice_on r = halfwords 4 r"
definition voice_off :: "spu_regs \<Rightarrow> u32" where "voice_off r = halfwords 6 r"
definition voice_pitch_mod_on :: "spu_regs \<Rightarrow> u32" where "voice_pitch_mod_on r = halfwords 8 r"
definition voice_noise_on :: "spu_regs \<Rightarrow> u32" where "voice_noise_on r = halfwords 10 r"
definition spu_irq_addr :: "spu_regs \<Rightarrow> u16" where "spu_irq_addr r = r ! 18"
definition trans_addr :: "spu_regs \<Rightarrow> u16" where "trans_addr r = r ! 19"
definition spu_control :: "spu_regs \<Rightarrow> u16" where "spu_control r = r ! 21"
definition spu_status_reg :: "spu_regs \<Rightarrow> u16" where "spu_status_reg r = r ! 23"

text \<open>The flags of the voices. \<open>set\<close> drops the word that \<open>set_bit\<close> returns, so it changes nothing.\<close>

definition flag_get :: "u32 \<Rightarrow> u8 \<Rightarrow> bool" where "flag_get f idx = bit_at f (unat idx)"

definition voice_status_set :: "u8 \<Rightarrow> bool \<Rightarrow> spu_regs \<Rightarrow> spu_regs" where
  "voice_status_set idx enabled r = r"

definition cd_audio_enabled :: "u16 \<Rightarrow> bool" where "cd_audio_enabled c = bit_at c 0"
definition spu_enabled :: "u16 \<Rightarrow> bool" where "spu_enabled c = bit_at c 15"
definition spu_irq_enabled :: "u16 \<Rightarrow> bool" where "spu_irq_enabled c \<longleftrightarrow> bit_at c 6 \<and> spu_enabled c"
definition muted :: "u16 \<Rightarrow> bool" where "muted c \<longleftrightarrow> \<not> bit_at c 14"

definition irq_for_addr :: "u16 \<Rightarrow> spu_regs \<Rightarrow> bool" where
  "irq_for_addr addr r \<longleftrightarrow> spu_irq_enabled (spu_control r) \<and> addr = spu_irq_addr r"

datatype vol_mode = VolFixed | VolSweepMode

definition vol_mode_of :: "u16 \<Rightarrow> vol_mode" where
  "vol_mode_of v = (if bit_at v 15 then VolSweepMode else VolFixed)"

text \<open>\<open>apply_vol\<close>: both modes use the fixed volume.\<close>

definition apply_vol :: "i32 \<Rightarrow> u16 \<Rightarrow> i32" where
  "apply_vol sample v =
     (case vol_mode_of v of _ \<Rightarrow>
        let vol = (ucast (bit_range v 0 14) :: i32) * 2 in signed_drop_bit 15 (sample * vol))"

section \<open>Envelopes\<close>

datatype scaling_mode = Linear | Exponential
datatype env_direction = Increase | Decrease

type_synonym adsr_reg = u32

definition sustain_lvl :: "adsr_reg \<Rightarrow> i16" where "sustain_lvl a = ucast ((bit_range a 0 3 + 1) * 0x800)"
definition decay_rate :: "adsr_reg \<Rightarrow> u8" where "decay_rate a = push_bit 2 (ucast (bit_range a 4 7))"
definition attack_rate :: "adsr_reg \<Rightarrow> u8" where "attack_rate a = ucast (bit_range a 8 14)"
definition attack_mode :: "adsr_reg \<Rightarrow> scaling_mode" where "attack_mode a = (if bit_at a 15 then Exponential else Linear)"
definition release_rate :: "adsr_reg \<Rightarrow> u8" where "release_rate a = push_bit 2 (ucast (bit_range a 16 20))"
definition release_mode :: "adsr_reg \<Rightarrow> scaling_mode" where "release_mode a = (if bit_at a 21 then Exponential else Linear)"
definition sustain_rate :: "adsr_reg \<Rightarrow> u8" where "sustain_rate a = ucast (bit_range a 22 28)"
definition sustain_direction :: "adsr_reg \<Rightarrow> env_direction" where
  "sustain_direction a = (if bit_at a 30 then Increase else Decrease)"
definition sustain_mode :: "adsr_reg \<Rightarrow> scaling_mode" where "sustain_mode a = (if bit_at a 31 then Exponential else Linear)"

datatype adsr_phase = PhOff | PhAttack | PhDecay | PhSustain | PhRelease

fun adsr_next :: "adsr_phase \<Rightarrow> adsr_phase" where
  "adsr_next PhAttack = PhDecay"
| "adsr_next PhDecay = PhSustain"
| "adsr_next PhSustain = PhSustain"
| "adsr_next PhRelease = PhOff"
| "adsr_next PhOff = PhOff"

record vol_envelope =
  env_counter :: i32
  env_rate :: u8
  env_dir :: env_direction
  env_mode :: scaling_mode

definition envelope_default :: vol_envelope where
  "envelope_default = \<lparr>env_counter = 0, env_rate = 0, env_dir = Increase, env_mode = Linear\<rparr>"

definition adsr_table :: "env_direction \<Rightarrow> u8 \<Rightarrow> (i32 \<times> i32) option" where
  "adsr_table dir rate =
     (let row = (case dir of Increase \<Rightarrow> ADSR_INCREASE | Decrease \<Rightarrow> ADSR_DECREASE)
      in if unat rate < length row
         then Some (word_of_int (fst (row ! unat rate)), word_of_int (snd (row ! unat rate))) else None)"

definition envelope_new :: "u8 \<Rightarrow> env_direction \<Rightarrow> scaling_mode \<Rightarrow> vol_envelope option" where
  "envelope_new rate dir mode = map_option
     (\<lambda>(counter, _). \<lparr>env_counter = counter, env_rate = rate, env_dir = dir, env_mode = mode\<rparr>) (adsr_table dir rate)"

definition exponential_step :: "i16 \<Rightarrow> i32 \<Rightarrow> vol_envelope \<Rightarrow> i32 \<times> vol_envelope" where
  "exponential_step level step e =
     (case env_dir e of
        Decrease \<Rightarrow> (signed_drop_bit 15 (step * scast level), e)
      | Increase \<Rightarrow>
          if 0x6000 \<le> sint level then
            (if env_rate e \<le> 39 then (signed_drop_bit 2 step, e)
             else if env_rate e \<le> 44 then (step, e\<lparr>env_counter := signed_drop_bit 2 (env_counter e)\<rparr>)
             else (signed_drop_bit 1 step, e\<lparr>env_counter := signed_drop_bit 1 (env_counter e)\<rparr>))
          else (step, e))"

definition envelope_cycle :: "i16 \<Rightarrow> vol_envelope \<Rightarrow> (i16 \<times> vol_envelope) option" where
  "envelope_cycle level e =
     (let e = e\<lparr>env_counter := env_counter e - 1\<rparr>
      in if 0 < sint (env_counter e) then Some (level, e)
         else do {
           (_, step) \<leftarrow> adsr_table (env_dir e) (env_rate e);
           let (step, e) = (case env_mode e of Linear \<Rightarrow> (step, e) | Exponential \<Rightarrow> exponential_step level step e);
           Some (word_of_int (max 0 (min 0x7fff (sint ((scast level :: i32) + step)))), e) })"

section \<open>Voices\<close>

type_synonym block_flags = u16

definition block_shift :: "block_flags \<Rightarrow> u16" where "block_shift f = bit_range f 0 3"

definition block_weights :: "block_flags \<Rightarrow> i32 \<times> i32" where
  "block_weights f =
     (let idx = bit_range f 4 7
      in if idx = 1 then (60, 0) else if idx = 2 then (115, -52) else if idx = 3 then (98, -55)
         else if idx = 4 then (122, -60) else (0, 0))"

definition block_end :: "block_flags \<Rightarrow> bool" where "block_end f = bit_at f 8"
definition block_repeat :: "block_flags \<Rightarrow> bool" where "block_repeat f = bit_at f 9"
definition block_start :: "block_flags \<Rightarrow> bool" where "block_start f = bit_at f 10"

type_synonym spu_ram = "nat \<Rightarrow> u16"

definition spu_ram_new :: spu_ram where "spu_ram_new = (\<lambda>_. 0)"
definition spu_ram_load :: "u16 \<Rightarrow> spu_ram \<Rightarrow> u16" where "spu_ram_load addr m = m (unat addr * 4)"
definition spu_ram_store :: "u16 \<Rightarrow> u16 \<Rightarrow> spu_ram \<Rightarrow> spu_ram" where
  "spu_ram_store addr val m = m(unat addr * 4 := val)"

record vol_sweep =
  sw_envelope :: vol_envelope
  sw_active :: bool
  sw_lvl :: i16

definition sweep_default :: vol_sweep where
  "sweep_default = \<lparr>sw_envelope = envelope_default, sw_active = False, sw_lvl = 0\<rparr>"

record voice =
  v_idx :: u8
  v_addr :: u16
  v_counter :: u16
  v_flags :: block_flags
  v_left_vol :: vol_sweep
  v_right_vol :: vol_sweep
  v_env :: vol_envelope
  v_phase :: adsr_phase
  v_target :: i16
  v_prev :: "i16 \<times> i16"
  v_fifo :: "i16 fifo"
  v_ignore_loop :: bool
  v_start_delay :: u8
  v_regs :: "u16 list"

definition voice_new :: "u8 \<Rightarrow> voice" where
  "voice_new idx = \<lparr>v_idx = idx, v_addr = 0, v_counter = 0, v_flags = 0, v_left_vol = sweep_default,
     v_right_vol = sweep_default, v_env = envelope_default, v_phase = PhOff, v_target = 0, v_prev = (0, 0),
     v_fifo = fifo_new 0 16, v_ignore_loop = False, v_start_delay = 0, v_regs = replicate 8 0\<rparr>"

definition vol_left :: "voice \<Rightarrow> u16" where "vol_left v = v_regs v ! 0"
definition vol_right :: "voice \<Rightarrow> u16" where "vol_right v = v_regs v ! 1"
definition adpcm_sample_rate :: "voice \<Rightarrow> u16" where "adpcm_sample_rate v = v_regs v ! 2"
definition adpcm_start_addr :: "voice \<Rightarrow> u16" where "adpcm_start_addr v = v_regs v ! 3"
definition voice_adsr :: "voice \<Rightarrow> adsr_reg" where "voice_adsr v = halfwords 4 (v_regs v)"
definition adsr_vol :: "voice \<Rightarrow> i16" where "adsr_vol v = v_regs v ! 6"
definition set_adsr_vol :: "i16 \<Rightarrow> voice \<Rightarrow> voice" where "set_adsr_vol x v = v\<lparr>v_regs := (v_regs v)[6 := x]\<rparr>"
definition adpcm_repeat_addr :: "voice \<Rightarrow> u16" where "adpcm_repeat_addr v = v_regs v ! 7"
definition set_repeat_addr :: "u16 \<Rightarrow> voice \<Rightarrow> voice" where "set_repeat_addr x v = v\<lparr>v_regs := (v_regs v)[7 := x]\<rparr>"

subsection \<open>Phases\<close>

definition voice_mute :: "voice \<Rightarrow> voice" where "voice_mute v = set_adsr_vol 0 v"

definition start_release_phase :: "voice \<Rightarrow> voice" where
  "start_release_phase v = v\<lparr>v_phase := PhRelease, v_env := (v_env v)\<lparr>env_counter := 0\<rparr>\<rparr>"

definition start_attack_phase :: "voice \<Rightarrow> voice" where
  "start_attack_phase v = voice_mute (v\<lparr>v_phase := PhAttack, v_env := (v_env v)\<lparr>env_counter := 0\<rparr>\<rparr>)"

definition voice_reset :: "voice \<Rightarrow> voice" where
  "voice_reset v =
     (let v = start_attack_phase v
      in v\<lparr>v_counter := 0, v_addr := adpcm_start_addr v, v_flags := 0, v_prev := (0, 0), v_fifo := fifo_clear (v_fifo v),
           v_start_delay := 4, v_ignore_loop := False\<rparr>)"

text \<open>The target and the envelope of a phase.\<close>

definition phase_envelope :: "adsr_phase \<Rightarrow> adsr_reg \<Rightarrow> (i16 \<times> vol_envelope) option" where
  "phase_envelope ph a =
     (case ph of
        PhOff \<Rightarrow> map_option (Pair 0) (envelope_new 0 Increase Linear)
      | PhAttack \<Rightarrow> map_option (Pair 32767) (envelope_new (attack_rate a) Increase (attack_mode a))
      | PhDecay \<Rightarrow> map_option (Pair (word_of_int (min (sint (sustain_lvl a)) 0x7fff)))
          (envelope_new (decay_rate a) Decrease Exponential)
      | PhSustain \<Rightarrow> map_option (Pair 0) (envelope_new (sustain_rate a) (sustain_direction a) (sustain_mode a))
      | PhRelease \<Rightarrow> map_option (Pair 0) (envelope_new (release_rate a) Decrease (release_mode a)))"

definition update_adsr_envelope :: "voice \<Rightarrow> voice option" where
  "update_adsr_envelope v = map_option (\<lambda>(t, e). v\<lparr>v_target := t, v_env := e\<rparr>) (phase_envelope (v_phase v) (voice_adsr v))"

definition adsr_envelope_cycle :: "voice \<Rightarrow> voice option" where
  "adsr_envelope_cycle v = do {
     (level, e) \<leftarrow> envelope_cycle (adsr_vol v) (v_env v);
     let v = set_adsr_vol level (v\<lparr>v_env := e\<rparr>);
     let reached = (case env_dir (v_env v) of
          Decrease \<Rightarrow> sint (adsr_vol v) \<le> sint (v_target v)
        | Increase \<Rightarrow> sint (v_target v) \<le> sint (adsr_vol v));
     if v_phase v \<noteq> PhSustain \<and> reached then update_adsr_envelope (v\<lparr>v_phase := adsr_next (v_phase v)\<rparr>)
     else Some v }"

subsection \<open>Decoding\<close>

text \<open>One nibble. In the code \<open>+\<close> binds stronger than \<open>>>\<close>.\<close>

definition decode_nibble :: "block_flags \<Rightarrow> u16 \<Rightarrow> i16 \<times> i16 \<Rightarrow> i16" where
  "decode_nibble f nibble prev =
     (let (w1, w2) = block_weights f;
          sample = (scast (signed_drop_bit (unat (block_shift f)) nibble) :: i32);
          sample = signed_drop_bit 6 (sample + scast (fst prev) * w1);
          sample = signed_drop_bit 6 (sample + scast (snd prev) * w2)
      in clamp_16 (sint sample))"

fun decode_nibbles :: "u16 list \<Rightarrow> voice \<Rightarrow> voice option" where
  "decode_nibbles [] v = Some v"
| "decode_nibbles (n # ns) v =
     (let sample = decode_nibble (v_flags v) n (v_prev v) in do {
        f \<leftarrow> fifo_push sample (v_fifo v);
        decode_nibbles ns (v\<lparr>v_fifo := f, v_prev := (sample, fst (v_prev v))\<rparr>) })"

definition decode :: "u16 \<Rightarrow> voice \<Rightarrow> voice option" where
  "decode val v = decode_nibbles [bit_range val 12 15, bit_range val 8 11, bit_range val 4 7, bit_range val 0 3] v"

text \<open>A new block: the loop, the header and the address to repeat from.\<close>

definition next_block :: "spu_regs \<Rightarrow> spu_ram \<Rightarrow> voice \<Rightarrow> bool \<times> voice \<times> spu_regs" where
  "next_block regs ram v =
     (let (v, regs) =
        (if block_end (v_flags v) then
           let v = v\<lparr>v_addr := adpcm_repeat_addr v\<rparr>; regs = voice_status_set (v_idx v) True regs
           in (if \<not> flag_get (voice_noise_on regs) (v_idx v) \<and> \<not> block_repeat (v_flags v)
               then set_adsr_vol 0 (v\<lparr>v_phase := PhRelease\<rparr>) else v, regs)
         else (v, regs));
        irq = (spu_irq_enabled (spu_control regs) \<and> irq_for_addr (v_addr v) regs);
        header = spu_ram_load (v_addr v) ram;
        v = v\<lparr>v_addr := v_addr v + 1, v_flags := header\<rparr>;
        v = (if block_start (v_flags v) \<and> \<not> v_ignore_loop v then set_repeat_addr (v_addr v) v else v)
      in (irq, v, regs))"

definition run_decoder :: "spu_regs \<Rightarrow> spu_ram \<Rightarrow> voice \<Rightarrow> (bool \<times> voice \<times> spu_regs) option" where
  "run_decoder regs ram v =
     (if fifo_len (v_fifo v) > 10 then Some (irq_for_addr (v_addr v - 1) regs, v, regs)
      else
        let (irq, v, regs) =
          (if v_addr v mod 8 = 0 then next_block regs ram v
           else (spu_irq_enabled (spu_control regs) \<and> irq_for_addr (v_addr v) regs, v, regs));
          encoded = spu_ram_load (v_addr v) ram
        in do {
          v \<leftarrow> decode encoded (v\<lparr>v_addr := v_addr v + 1\<rparr>);
          Some (irq, v, regs) })"

definition next_decoded_sample :: "voice \<Rightarrow> i32 option" where
  "next_decoded_sample v = do {
     let phase = unat (drop_bit 4 (v_counter v));
     a \<leftarrow> fifo_index 0 (v_fifo v);
     b \<leftarrow> fifo_index 1 (v_fifo v);
     c \<leftarrow> fifo_index 2 (v_fifo v);
     d \<leftarrow> fifo_index 3 (v_fifo v);
     coeffs \<leftarrow> (if phase < length FIR_COEFF then Some (FIR_COEFF ! phase) else None);
     let s = fold (\<lambda>(s, c) r. r + scast s * (word_of_int c :: i32)) (zip [a, b, c, d] coeffs) 0;
     Some (signed_drop_bit 15 s) }"

definition consume_samples :: "u16 \<Rightarrow> voice \<Rightarrow> voice" where
  "consume_samples step v =
     (let step = v_counter v + step; v = v\<lparr>v_counter := bit_range (v_counter v) 0 11\<rparr>
      in v\<lparr>v_fifo := fifo_pop_n (unat (drop_bit 12 step)) (v_fifo v)\<rparr>)"

subsection \<open>A cycle of a voice\<close>

text \<open>What the voices share during a cycle: the sum, the interrupt, the factor of the pitch modulation,
  the registers and the RAM.\<close>

record mix =
  mx_left :: i32
  mx_right :: i32
  mx_irq :: bool
  mx_sweep :: i32
  mx_regs :: spu_regs
  mx_ram :: spu_ram

definition voice_sample :: "u16 \<Rightarrow> spu_regs \<Rightarrow> voice \<Rightarrow> i32 option" where
  "voice_sample noise regs v =
     (if flag_get (voice_noise_on regs) (v_idx v) then Some (scast noise) else next_decoded_sample v)"

definition capture :: "u16 \<Rightarrow> i32 \<Rightarrow> voice \<Rightarrow> spu_ram \<Rightarrow> spu_ram" where
  "capture capture_addr sample v ram =
     (if v_idx v = 1 then spu_ram_store (256 OR capture_addr) (ucast sample) ram
      else if v_idx v = 3 then spu_ram_store (384 OR capture_addr) (ucast sample) ram
      else ram)"

definition voice_advance :: "i32 \<Rightarrow> spu_regs \<Rightarrow> voice \<Rightarrow> voice option" where
  "voice_advance sweep regs v =
     (if v_start_delay v \<noteq> 0 then Some (v\<lparr>v_start_delay := v_start_delay v - 1\<rparr>)
      else do {
        v \<leftarrow> adsr_envelope_cycle v;
        let sample_rate = (ucast (adpcm_sample_rate v) :: u32);
        let step = (if v_idx v \<noteq> 0 \<and> flag_get (voice_pitch_mod_on regs) (v_idx v)
             then signed_drop_bit 15 (sample_rate * sweep) else sample_rate);
        Some (consume_samples (ucast (min step 0x3fff)) v) })"

definition voice_keys :: "spu_regs \<Rightarrow> voice \<Rightarrow> voice \<times> spu_regs" where
  "voice_keys regs v =
     (let v = (if flag_get (voice_off regs) (v_idx v) then start_release_phase v else v);
          (v, regs) = (if flag_get (voice_on regs) (v_idx v)
            then (voice_reset v, voice_status_set (v_idx v) False regs) else (v, regs));
          v = (if \<not> spu_enabled (spu_control regs) then voice_mute (start_release_phase v) else v)
      in (v, regs))"

text \<open>\<open>Voice::run\<close>, and the step of the \<open>fold\<close> in \<open>Spu::run_cycle\<close> around it.\<close>

definition voice_run :: "u16 \<Rightarrow> u16 \<Rightarrow> voice \<Rightarrow> mix \<Rightarrow> ((i32 \<times> i32) \<times> voice \<times> mix) option" where
  "voice_run noise capture_addr v m = do {
     sample \<leftarrow> voice_sample noise (mx_regs m) v;
     let sample = signed_drop_bit 15 (scast (adsr_vol v) * sample);
     let m = m\<lparr>mx_ram := capture capture_addr sample v (mx_ram m)\<rparr>;
     let (left, right) = (apply_vol sample (vol_left v), apply_vol sample (vol_right v));
     v \<leftarrow> voice_advance (mx_sweep m) (mx_regs m) v;
     let (v, regs) = voice_keys (mx_regs m) v;
     Some ((left, right), v, m\<lparr>mx_regs := regs, mx_sweep := sample\<rparr>) }"

definition voice_cycle :: "u16 \<Rightarrow> u16 \<Rightarrow> voice \<Rightarrow> mix \<Rightarrow> (voice \<times> mix) option" where
  "voice_cycle noise capture_addr v m = do {
     (irq, v, regs) \<leftarrow> run_decoder (mx_regs m) (mx_ram m) v;
     ((left, right), v, m) \<leftarrow> voice_run noise capture_addr v (m\<lparr>mx_regs := regs, mx_irq := mx_irq m \<or> irq\<rparr>);
     Some (v, m\<lparr>mx_left := left + mx_left m, mx_right := right + mx_right m\<rparr>) }"

fun run_voices :: "u16 \<Rightarrow> u16 \<Rightarrow> voice list \<Rightarrow> mix \<Rightarrow> (voice list \<times> mix) option" where
  "run_voices noise cap [] m = Some ([], m)"
| "run_voices noise cap (v # vs) m = do {
     (v, m) \<leftarrow> voice_cycle noise cap v m;
     (vs, m) \<leftarrow> run_voices noise cap vs m;
     Some (v # vs, m) }"

section \<open>The unit\<close>

record spu =
  sp_regs :: spu_regs
  sp_voices :: "voice list"
  sp_last_run :: systime
  sp_active_irq :: bool
  sp_ram :: spu_ram
  sp_noise :: u16
  sp_capture :: u16
  sp_output :: "sample list"

definition create_voices :: "voice list" where "create_voices = map (\<lambda>i. voice_new (word_of_nat i)) [0..<24]"

definition spu_new :: "schedule \<Rightarrow> schedule \<times> spu" where
  "spu_new sch =
     (snd (schedule_repeat (systime_new 0x300) (EvSpu spu_run_cycle) sch),
      \<lparr>sp_regs = replicate REGS_SIZE 0, sp_voices = create_voices, sp_last_run = time_ZERO, sp_active_irq = False,
        sp_ram = spu_ram_new, sp_noise = 0, sp_capture = 0, sp_output = []\<rparr>)"

type_synonym spu_state = "schedule \<times> spu"

definition spu_maybe_trigger_irq :: "u16 \<Rightarrow> spu_state \<Rightarrow> spu_state" where
  "spu_maybe_trigger_irq addr x = (case x of (sch, s) \<Rightarrow>
     if irq_for_addr addr (sp_regs s)
     then (snd (trigger (EvIrq SpuIrq) sch), s\<lparr>sp_active_irq := True\<rparr>) else x)"

definition set_trans_addr :: "u16 \<Rightarrow> spu \<Rightarrow> spu" where
  "set_trans_addr a s = s\<lparr>sp_regs := (sp_regs s)[19 := a]\<rparr>"

definition transfer_store :: "u16 \<Rightarrow> spu_state \<Rightarrow> spu_state" where
  "transfer_store val x =
     (let (sch, s) = spu_maybe_trigger_irq (trans_addr (sp_regs (snd x))) x;
          addr = trans_addr (sp_regs s)
      in (sch, set_trans_addr (addr + 1) (s\<lparr>sp_ram := spu_ram_store addr val (sp_ram s)\<rparr>)))"

definition transfer_load :: "spu_state \<Rightarrow> u16 \<times> spu_state" where
  "transfer_load x =
     (let (sch, s) = spu_maybe_trigger_irq (trans_addr (sp_regs (snd x))) x;
          addr = trans_addr (sp_regs s)
      in (spu_ram_load addr (sp_ram s), sch, set_trans_addr (addr + 1) s))"

text \<open>What a store to a register does besides; the numbers are those of the code, which has subtracted 191.\<close>

definition reg_stored :: "nat \<Rightarrow> spu_state \<Rightarrow> spu_state" where
  "reg_stored reg x = (case x of (sch, s) \<Rightarrow>
     if reg = 210 \<or> reg = 211 then spu_maybe_trigger_irq (trans_addr (sp_regs s)) x
     else if reg = 213 then
       (if spu_irq_enabled (spu_control (sp_regs s)) then spu_maybe_trigger_irq (trans_addr (sp_regs s)) x
        else (sch, s\<lparr>sp_active_irq := False\<rparr>))
     else x)"

definition voice_reg_store :: "nat \<Rightarrow> u16 \<Rightarrow> voice \<Rightarrow> voice" where
  "voice_reg_store reg val v =
     (let v = v\<lparr>v_regs := (v_regs v)[reg := val]\<rparr> in if reg = 7 then v\<lparr>v_ignore_loop := True\<rparr> else v)"

definition reg_store :: "u32 \<Rightarrow> u16 \<Rightarrow> spu_state \<Rightarrow> spu_state option" where
  "reg_store addr val x = (case x of (sch, s) \<Rightarrow>
     let reg = unat addr div 2
     in if reg \<le> 191 then
          Some (sch, s\<lparr>sp_voices := (sp_voices s)[reg div 8 := voice_reg_store (reg mod 8) val (sp_voices s ! (reg div 8))]\<rparr>)
        else
          let reg = reg - 191
          in if reg < REGS_SIZE then Some (reg_stored reg (sch, s\<lparr>sp_regs := (sp_regs s)[reg := val]\<rparr>)) else None)"

definition reg_load :: "u32 \<Rightarrow> spu \<Rightarrow> u16 option" where
  "reg_load addr s =
     (let reg = unat addr div 2
      in if reg \<le> 191 then Some (v_regs (sp_voices s ! (reg div 8)) ! (reg mod 8))
         else if reg - 191 < REGS_SIZE then Some (sp_regs s ! (reg - 191)) else None)"

definition spu_store :: "addr_width \<Rightarrow> u32 \<Rightarrow> u32 \<Rightarrow> spu_state \<Rightarrow> spu_state option" where
  "spu_store w addr val x =
     (case w of
        Byte \<Rightarrow> None
      | HalfWord \<Rightarrow> reg_store addr (ucast val) x
      | FullWord \<Rightarrow> do {
          x \<leftarrow> reg_store addr (ucast val) x;
          reg_store (addr OR 2) (ucast (bit_range val 16 31)) x })"

definition spu_load :: "addr_width \<Rightarrow> u32 \<Rightarrow> spu \<Rightarrow> u32 option" where
  "spu_load w addr s = do {
     val \<leftarrow>
       (case w of
          Byte \<Rightarrow> None
        | HalfWord \<Rightarrow> map_option ucast (reg_load addr s)
        | FullWord \<Rightarrow> do {
            lo \<leftarrow> reg_load addr s;
            hi \<leftarrow> reg_load (addr OR 2) s;
            Some (ucast lo OR push_bit 16 (ucast hi)) });
     Some (from_u32 w val) }"

definition spu_update_status :: "spu \<Rightarrow> spu" where
  "spu_update_status s =
     (let st = set_bit_at (set_bit_range (spu_status_reg (sp_regs s)) 0 5 (spu_control (sp_regs s))) 6 (sp_active_irq s)
      in s\<lparr>sp_regs := (sp_regs s)[23 := st]\<rparr>)"

definition clear_keys :: "spu_regs \<Rightarrow> spu_regs" where
  "clear_keys r = r[4 := 0, 5 := 0, 6 := 0, 7 := 0]"

definition spu_cycle :: "spu_state \<times> cdrom \<Rightarrow> (spu_state \<times> cdrom) option" where
  "spu_cycle x = (case x of ((sch, s), c) \<Rightarrow> do {
     let s = spu_update_status s;
     (vs, m) \<leftarrow> run_voices (sp_noise s) (sp_capture s) (sp_voices s)
       \<lparr>mx_left = 0, mx_right = 0, mx_irq = False, mx_sweep = 0, mx_regs = sp_regs s, mx_ram = sp_ram s\<rparr>;
     let sch = (if mx_irq m then snd (trigger (EvIrq SpuIrq) sch) else sch);
     let regs = clear_keys (mx_regs m);
     let (left, right) = (if muted (spu_control regs) then (0, 0) else (mx_left m, mx_right m));
     let with_cd = cd_audio_enabled (spu_control regs);
     ((cd_l, cd_r), c) \<leftarrow> run_audio_cycle with_cd c;
     let (left, right) = (if with_cd then (left + scast cd_l, right + scast cd_r) else (left, right));
     let left = apply_vol left (left_main_vol regs);
     let right = apply_vol right (right_main_vol regs);
     let output = (clamp_16 (sint left), clamp_16 (sint right));
     Some ((sch, s\<lparr>sp_voices := vs, sp_regs := regs, sp_ram := mx_ram m, sp_output := sp_output s @ [output],
       sp_capture := sp_capture s + 1\<rparr>), c) })"

definition spu_dma_load :: "spu_state \<Rightarrow> u32 \<times> spu_state" where
  "spu_dma_load x =
     (let (lo, x) = transfer_load x; (hi, x) = transfer_load x
      in (push_bit 16 (ucast hi) OR ucast lo, x))"

definition spu_dma_store :: "u32 \<Rightarrow> spu_state \<Rightarrow> spu_state" where
  "spu_dma_store val x =
     transfer_store (ucast (bit_range val 16 31)) (transfer_store (ucast (bit_range val 0 15)) x)"

definition spu_channel :: "spu channel" where
  "spu_channel = \<lparr>
     ch_load = (\<lambda>_ sch s. Some (spu_dma_load (sch, s))),
     ch_store = (\<lambda>val sch s. Some (spu_dma_store val (sch, s))),
     ch_ready = (\<lambda>_ _. True)\<rparr>"

end
