(* ===== verification/SpuRun.thy ===== *)
theory SpuRun
  imports Spu
begin

text \<open>
  A cycle of the sound unit: the queues of decoded samples never overflow and are never read past
  their end, so a cycle always produces one sample of output.
\<close>

section \<open>The queue of a voice\<close>

lemma unat_ring_add: "unat (bit_range (t + word_of_nat k :: u8) 0 3) = (unat t + k) mod 16"
proof -
  have "(unat t + k mod 256) mod 16 = (unat t + k) mod 16"
  proof -
    have "k mod 256 mod 16 = k mod 16" by (simp add: mod_mod_cancel)
    then show ?thesis by (metis mod_add_right_eq)
  qed
  then show ?thesis by (simp add: unat_low4 unat_word_ariths mod_mod_cancel unat_of_nat)
qed

lemma fifo_pop_n_Suc:
  assumes "fifo_pop f = Some (x, q)"
  shows "fifo_pop_n (Suc n) f = fifo_pop_n n q"
proof -
  have q: "q = f\<lparr>fifo_tail := bit_range (fifo_tail f + 1) 0 3\<rparr>"
    using assms by (auto simp: fifo_pop_def Let_def split: if_splits)
  have one: "unat (bit_range (fifo_tail f + 1) 0 3) = Suc (unat (fifo_tail f)) mod 16"
    using unat_ring_add [of "fifo_tail f" 1] by simp
  have "bit_range (fifo_tail f + word_of_nat (Suc n)) 0 3 = bit_range (fifo_tail q + word_of_nat n) 0 3"
    using one by (simp add: q word_unat_eq_iff unat_ring_add mod_simps del: of_nat_Suc)
  then show ?thesis by (simp add: fifo_pop_n_def q)
qed

lemma fifo_pop_n_contents:
  "fifo_inv f \<Longrightarrow> n \<le> length (fifo_contents f) \<Longrightarrow>
     fifo_inv (fifo_pop_n n f) \<and> fifo_contents (fifo_pop_n n f) = drop n (fifo_contents f)"
proof (induction n arbitrary: f)
  case 0
  have "bit_range (fifo_tail f) 0 3 = fifo_tail f"
    using 0 by (simp add: word_unat_eq_iff unat_low4 fifo_inv_def)
  then show ?case using 0 by (simp add: fifo_pop_n_def)
next
  case (Suc n)
  then obtain x xs where c: "fifo_contents f = x # xs" by (cases "fifo_contents f") auto
  obtain q where q: "fifo_pop f = Some (x, q)" "fifo_inv q" "fifo_contents q = xs"
    using fifo_pop_contents [OF Suc.prems(1) c] by blast
  show ?case using Suc.IH [OF q(2)] Suc.prems(2) q(3) c by (simp add: fifo_pop_n_Suc [OF q(1)])
qed

lemma decode_nibbles_pushes:
  "fifo_inv (v_fifo v) \<Longrightarrow> length (fifo_contents (v_fifo v)) + length ns \<le> 15 \<Longrightarrow>
     \<exists>v' new. decode_nibbles ns v = Some v' \<and> fifo_inv (v_fifo v') \<and> length new = length ns
       \<and> fifo_contents (v_fifo v') = fifo_contents (v_fifo v) @ new
       \<and> v_counter v' = v_counter v \<and> v_regs v' = v_regs v \<and> v_env v' = v_env v \<and> v_idx v' = v_idx v"
proof (induction ns arbitrary: v)
  case (Cons n ns)
  let ?s = "decode_nibble (v_flags v) n (v_prev v)"
  obtain f where f: "fifo_push ?s (v_fifo v) = Some f" "fifo_inv f" "fifo_contents f = fifo_contents (v_fifo v) @ [?s]"
    using fifo_push_contents [of "v_fifo v" ?s] Cons.prems by auto
  let ?v = "v\<lparr>v_fifo := f, v_prev := (?s, fst (v_prev v))\<rparr>"
  obtain v' new where v': "decode_nibbles ns ?v = Some v'" "fifo_inv (v_fifo v')" "length new = length ns"
    "fifo_contents (v_fifo v') = fifo_contents f @ new" "v_counter v' = v_counter ?v" "v_regs v' = v_regs ?v" "v_env v' = v_env ?v" "v_idx v' = v_idx ?v"
    using Cons.IH [of ?v] Cons.prems f(2,3) by auto
  have "decode_nibbles (n # ns) v = Some v'" using f(1) v'(1) by (simp add: Let_def)
  then show ?case using v'(2-8) f(3) by (intro exI [of _ v'] exI [of _ "?s # new"]) simp
qed simp

lemma decode_pushes:
  assumes "fifo_inv (v_fifo v)" "length (fifo_contents (v_fifo v)) \<le> 10"
  shows "\<exists>v' new. decode w v = Some v' \<and> fifo_inv (v_fifo v') \<and> length new = 4
       \<and> fifo_contents (v_fifo v') = fifo_contents (v_fifo v) @ new
       \<and> v_counter v' = v_counter v \<and> v_regs v' = v_regs v \<and> v_env v' = v_env v \<and> v_idx v' = v_idx v"
proof -
  let ?ns = "[bit_range w 12 15, bit_range w 8 11, bit_range w 4 7, bit_range w 0 3]"
  have n: "length ?ns = 4" "length (fifo_contents (v_fifo v)) + length ?ns \<le> 15" using assms(2) by simp_all
  show ?thesis using decode_nibbles_pushes [OF assms(1) n(2)] unfolding decode_def n(1) .
qed

section \<open>The invariant\<close>

definition voice_ok :: "voice \<Rightarrow> bool" where
  "voice_ok v \<longleftrightarrow> fifo_inv (v_fifo v) \<and> length (fifo_contents (v_fifo v)) \<le> 14 \<and> unat (v_counter v) < 4096
     \<and> length (v_regs v) = 8 \<and> unat (env_rate (v_env v)) < 128"

definition spu_ok :: "spu \<Rightarrow> bool" where
  "spu_ok s \<longleftrightarrow> length (sp_regs s) = REGS_SIZE \<and> length (sp_voices s) = 24 \<and> (\<forall>v \<in> set (sp_voices s). voice_ok v)"

lemma voice_ok_updates [simp]:
  "voice_ok (set_adsr_vol x v) = voice_ok v" "voice_ok (set_repeat_addr a v) = voice_ok v"
  "voice_ok (v\<lparr>v_addr := a\<rparr>) = voice_ok v" "voice_ok (v\<lparr>v_flags := w\<rparr>) = voice_ok v"
  "voice_ok (v\<lparr>v_phase := ph\<rparr>) = voice_ok v" "voice_ok (v\<lparr>v_target := t\<rparr>) = voice_ok v"
  "voice_ok (v\<lparr>v_start_delay := d\<rparr>) = voice_ok v" "voice_ok (v\<lparr>v_prev := p\<rparr>) = voice_ok v"
  "voice_ok (v\<lparr>v_ignore_loop := b\<rparr>) = voice_ok v"
  by (simp_all add: voice_ok_def set_adsr_vol_def set_repeat_addr_def)

lemma voice_ok_env: "voice_ok v \<Longrightarrow> unat (env_rate e) < 128 \<Longrightarrow> voice_ok (v\<lparr>v_env := e\<rparr>)"
  by (simp add: voice_ok_def)

lemma setter_fields [simp]:
  "v_fifo (set_adsr_vol x v) = v_fifo v" "v_fifo (set_repeat_addr a v) = v_fifo v"
  "v_idx (set_adsr_vol x v) = v_idx v" "v_idx (set_repeat_addr a v) = v_idx v"
  "v_counter (set_adsr_vol x v) = v_counter v" "v_env (set_adsr_vol x v) = v_env v"
  "v_phase (set_adsr_vol x v) = v_phase v" "v_target (set_adsr_vol x v) = v_target v"
  by (simp_all add: set_adsr_vol_def set_repeat_addr_def)

section \<open>Decoding\<close>

lemma next_block_keeps:
  assumes "next_block regs ram v = (irq, v', regs')"
  shows "regs' = regs \<and> v_fifo v' = v_fifo v \<and> v_idx v' = v_idx v \<and> (voice_ok v \<longrightarrow> voice_ok v')"
  using assms by (auto simp: next_block_def Let_def voice_status_set_def split: if_splits)

lemma run_decoder_fills:
  assumes "voice_ok v"
  shows "\<exists>irq v' new. run_decoder regs ram v = Some (irq, v', regs) \<and> voice_ok v' \<and> v_idx v' = v_idx v
    \<and> fifo_contents (v_fifo v') = fifo_contents (v_fifo v) @ new \<and> (new = [] \<or> length new = 4)
    \<and> 4 \<le> length (fifo_contents (v_fifo v'))"
proof (cases "fifo_len (v_fifo v) > 10")
  case True
  then show ?thesis
    using assms by (intro exI [of _ "irq_for_addr (v_addr v - 1) regs"] exI [of _ v] exI [of _ "[]"])
      (simp add: run_decoder_def fifo_contents_def)
next
  case False
  let ?head = "if v_addr v mod 8 = 0 then next_block regs ram v
      else (spu_irq_enabled (spu_control regs) \<and> irq_for_addr (v_addr v) regs, v, regs)"
  obtain irq v1 r where h: "?head = (irq, v1, r)" by (rule prod_cases3)
  then have "r = regs \<and> v_fifo v1 = v_fifo v \<and> v_idx v1 = v_idx v \<and> voice_ok v1"
    using assms next_block_keeps [of regs ram v irq v1 r] by (cases "v_addr v mod 8 = 0") simp_all
  then have v1: "?head = (irq, v1, regs)" "v_fifo v1 = v_fifo v" "v_idx v1 = v_idx v" "voice_ok v1"
    using h by blast+
  let ?v = "v1\<lparr>v_addr := v_addr v1 + 1\<rparr>"
  let ?w = "spu_ram_load (v_addr v1) ram"
  have pre: "fifo_inv (v_fifo ?v)" "length (fifo_contents (v_fifo ?v)) \<le> 10"
    using v1(2,4) False by (simp_all add: voice_ok_def fifo_contents_def)
  then obtain v' new where v': "decode ?w ?v = Some v'" "fifo_inv (v_fifo v')" "length new = 4"
    "fifo_contents (v_fifo v') = fifo_contents (v_fifo ?v) @ new"
    and eq: "v_counter v' = v_counter ?v" "v_regs v' = v_regs ?v" "v_env v' = v_env ?v" "v_idx v' = v_idx ?v"
    using decode_pushes [OF pre, of ?w] by blast
  have "voice_ok v'"
    using v1(4) v'(2-4) pre(2) by (simp add: voice_ok_def eq)
  moreover have "run_decoder regs ram v = Some (irq, v', regs)"
    using False v'(1) by (simp add: run_decoder_def v1(1) Let_def)
  ultimately show ?thesis using v'(3,4) v1(2,3) eq(4) by auto
qed

lemma next_decoded_sample_returns:
  assumes "voice_ok v"
  shows "returns (next_decoded_sample v)"
proof -
  have "unat (drop_bit 4 (v_counter v)) = unat (v_counter v) div 16"
    by (simp only: unsigned_drop_bit_eq drop_bit_eq_div [of 4 "unat (v_counter v)"] take_bit_unat) simp
  then have "unat (drop_bit 4 (v_counter v)) < length FIR_COEFF"
    using assms by (simp add: voice_ok_def table_lengths div_less_iff_less_mult)
  then show ?thesis
    using assms by (simp add: next_decoded_sample_def fifo_index_def voice_ok_def fifo_inv_def FIFO_SIZE_def Let_def)
qed

section \<open>Envelopes\<close>

lemma adsr_table_returns: "unat rate < 128 \<Longrightarrow> \<exists>p. adsr_table dir rate = Some p"
  by (cases dir) (simp_all add: adsr_table_def Let_def table_lengths)

lemma envelope_new_returns: "unat rate < 128 \<Longrightarrow> \<exists>e. envelope_new rate dir mode = Some e \<and> env_rate e = rate"
  using adsr_table_returns [of rate dir] by (auto simp: envelope_new_def)

lemma rates_small:
  "unat (decay_rate a) < 128" "unat (attack_rate a) < 128" "unat (release_rate a) < 128" "unat (sustain_rate a) < 128"
proof -
  have small: "unat (w :: u8) < 128 \<longleftrightarrow> (\<forall>k\<ge>7. \<not> bit w k)" for w using unat_small_iff [of w 7] by simp
  show "unat (decay_rate a) < 128" "unat (attack_rate a) < 128" "unat (release_rate a) < 128" "unat (sustain_rate a) < 128"
    unfolding small decay_rate_def attack_rate_def release_rate_def sustain_rate_def
    by (auto simp: bit_simps bits_simps)
qed

lemma phase_envelope_returns: "\<exists>t e. phase_envelope ph a = Some (t, e) \<and> unat (env_rate e) < 128"
proof -
  obtain e1 e2 e3 e4 e5 where "envelope_new 0 Increase Linear = Some e1 \<and> env_rate e1 = 0"
    "envelope_new (attack_rate a) Increase (attack_mode a) = Some e2 \<and> env_rate e2 = attack_rate a"
    "envelope_new (decay_rate a) Decrease Exponential = Some e3 \<and> env_rate e3 = decay_rate a"
    "envelope_new (sustain_rate a) (sustain_direction a) (sustain_mode a) = Some e4 \<and> env_rate e4 = sustain_rate a"
    "envelope_new (release_rate a) Decrease (release_mode a) = Some e5 \<and> env_rate e5 = release_rate a"
    using envelope_new_returns [of 0 Increase Linear] envelope_new_returns rates_small by (metis unat_0 zero_less_numeral)
  then show ?thesis by (cases ph) (auto simp: phase_envelope_def rates_small)
qed

lemma envelope_cycle_returns:
  assumes "unat (env_rate e) < 128"
  shows "\<exists>l e'. envelope_cycle level e = Some (l, e') \<and> env_rate e' = env_rate e"
proof -
  let ?e = "e\<lparr>env_counter := env_counter e - 1\<rparr>"
  obtain k st where t: "adsr_table (env_dir e) (env_rate e) = Some (k, st)" using adsr_table_returns [OF assms] by fastforce
  obtain st' e' where x: "exponential_step level st ?e = (st', e')" by (cases "exponential_step level st ?e")
  then have "env_rate e' = env_rate e"
    by (auto simp: exponential_step_def split: env_direction.splits if_splits)
  then show ?thesis using t x by (cases "env_mode e") (simp_all add: envelope_cycle_def Let_def)
qed

lemma adsr_envelope_cycle_returns:
  assumes "voice_ok v"
  shows "\<exists>v'. adsr_envelope_cycle v = Some v' \<and> voice_ok v' \<and> v_fifo v' = v_fifo v \<and> v_idx v' = v_idx v"
proof -
  obtain l e where e: "envelope_cycle (adsr_vol v) (v_env v) = Some (l, e)" "env_rate e = env_rate (v_env v)"
    using envelope_cycle_returns [of "v_env v" "adsr_vol v"] assms by (auto simp: voice_ok_def)
  let ?v = "set_adsr_vol l (v\<lparr>v_env := e\<rparr>)"
  have ok: "voice_ok ?v" using assms e(2) by (simp add: voice_ok_def set_adsr_vol_def)
  obtain t e2 where "phase_envelope (adsr_next (v_phase v)) (voice_adsr (?v\<lparr>v_phase := adsr_next (v_phase v)\<rparr>)) = Some (t, e2)"
    "unat (env_rate e2) < 128"
    using phase_envelope_returns by blast
  then have "\<exists>v'. update_adsr_envelope (?v\<lparr>v_phase := adsr_next (v_phase v)\<rparr>) = Some v' \<and> voice_ok v' \<and> v_fifo v' = v_fifo v
      \<and> v_idx v' = v_idx v"
    using ok by (auto simp: update_adsr_envelope_def intro: voice_ok_env)
  then show ?thesis using ok e(1) by (auto simp: adsr_envelope_cycle_def Let_def)
qed

section \<open>A cycle of a voice\<close>

text \<open>How the queue of a voice goes on: it is emptied when the voice is keyed on, else samples are added
  behind and taken in front.\<close>

definition streams :: "spu_regs \<Rightarrow> voice \<Rightarrow> voice \<Rightarrow> bool" where
  "streams regs v v' \<longleftrightarrow>
     (if flag_get (voice_on regs) (v_idx v) then fifo_contents (v_fifo v') = []
      else \<exists>new n. fifo_contents (v_fifo v') = drop n (fifo_contents (v_fifo v) @ new) \<and> (new = [] \<or> length new = 4)
        \<and> n \<le> 4 \<and> n \<le> length (fifo_contents (v_fifo v) @ new))"

lemma consume_samples_drops:
  assumes "voice_ok v" "4 \<le> length (fifo_contents (v_fifo v))" "unat step \<le> 0x3fff"
  shows "\<exists>n \<le> 4. voice_ok (consume_samples step v) \<and> v_idx (consume_samples step v) = v_idx v
    \<and> fifo_contents (v_fifo (consume_samples step v)) = drop n (fifo_contents (v_fifo v))"
proof -
  let ?n = "unat (drop_bit 12 (v_counter v + step))"
  have "unat (v_counter v + step) = unat (v_counter v) + unat step"
    using assms(1,3) by (subst unat_plus_if_size) (simp add: voice_ok_def word_size)
  moreover have "?n = unat (v_counter v + step) div 2 ^ 12"
    by (simp only: unsigned_drop_bit_eq drop_bit_eq_div [of 12 "unat (v_counter v + step)"] take_bit_unat)
  ultimately have "?n < 5" using assms(1,3) by (simp add: voice_ok_def div_less_iff_less_mult)
  then have n: "?n \<le> 4" by simp
  have "unat (bit_range (v_counter v) 0 11) < 4096" using unat_bit_range_less [of 0 11 "v_counter v"] by simp
  then show ?thesis
    using n assms fifo_pop_n_contents [of "v_fifo v" ?n]
    by (intro exI [of _ ?n]) (auto simp: consume_samples_def Let_def voice_ok_def)
qed

lemma voice_advance_returns:
  assumes "voice_ok v" "4 \<le> length (fifo_contents (v_fifo v))"
  shows "\<exists>v' n. voice_advance sweep regs v = Some v' \<and> voice_ok v' \<and> v_idx v' = v_idx v \<and> n \<le> 4
    \<and> fifo_contents (v_fifo v') = drop n (fifo_contents (v_fifo v))"
proof (cases "v_start_delay v = 0")
  case False
  then show ?thesis
    using assms by (intro exI [of _ "v\<lparr>v_start_delay := v_start_delay v - 1\<rparr>"] exI [of _ 0]) (simp add: voice_advance_def)
next
  case True
  obtain w where w: "adsr_envelope_cycle v = Some w" "voice_ok w" "v_fifo w = v_fifo v" "v_idx w = v_idx v"
    using adsr_envelope_cycle_returns [OF assms(1)] by blast
  let ?x = "if v_idx w \<noteq> 0 \<and> flag_get (voice_pitch_mod_on regs) (v_idx w)
    then signed_drop_bit 15 (ucast (adpcm_sample_rate w) * sweep) else ucast (adpcm_sample_rate w) :: u32"
  let ?step = "ucast (min ?x 0x3fff) :: u16"
  have "unat (ucast (min x 0x3fff :: u32) :: u16) \<le> 0x3fff" for x
  proof -
    have "unat (min x 0x3fff :: u32) \<le> 0x3fff" by (simp add: min_def word_le_nat_alt)
    then have "take_bit 16 (unat (min x 0x3fff)) \<le> 0x3fff" by (rule order.trans [OF take_bit_nat_less_eq_self])
    then show ?thesis by (simp add: unsigned_ucast_eq)
  qed
  then have "unat ?step \<le> 0x3fff" .
  then obtain n where "n \<le> 4" "voice_ok (consume_samples ?step w)" "v_idx (consume_samples ?step w) = v_idx w"
    "fifo_contents (v_fifo (consume_samples ?step w)) = drop n (fifo_contents (v_fifo w))"
    using consume_samples_drops [OF w(2), of ?step] assms(2) w(3) by auto
  then show ?thesis
    using True w by (intro exI [of _ "consume_samples ?step w"] exI [of _ n]) (simp add: voice_advance_def Let_def)
qed

lemma voice_keys_streams:
  assumes "voice_ok v"
  shows "\<exists>v'. voice_keys regs v = (v', regs) \<and> voice_ok v' \<and> v_idx v' = v_idx v
    \<and> fifo_contents (v_fifo v') = (if flag_get (voice_on regs) (v_idx v) then [] else fifo_contents (v_fifo v))"
proof -
  have release: "voice_ok (start_release_phase w) = voice_ok w" "v_fifo (start_release_phase w) = v_fifo w"
    "v_idx (start_release_phase w) = v_idx w" for w
    by (simp_all add: start_release_phase_def voice_ok_def)
  have mute: "voice_ok (voice_mute w) = voice_ok w" "v_fifo (voice_mute w) = v_fifo w" "v_idx (voice_mute w) = v_idx w" for w
    by (simp_all add: voice_mute_def)
  have reset: "voice_ok (voice_reset w)" "fifo_contents (v_fifo (voice_reset w)) = []" "v_idx (voice_reset w) = v_idx w"
    if "voice_ok w" for w
    using that by (simp_all add: dev.clear voice_reset_def start_attack_phase_def voice_mute_def set_adsr_vol_def
        Let_def voice_ok_def)
  show ?thesis
    using assms by (simp add: voice_keys_def Let_def voice_status_set_def release mute reset)
qed

lemma voice_cycle_returns:
  assumes "voice_ok v"
  shows "\<exists>v' m'. voice_cycle noise cap v m = Some (v', m') \<and> mx_regs m' = mx_regs m \<and> voice_ok v'
    \<and> streams (mx_regs m) v v'"
proof -
  let ?r = "mx_regs m"
  obtain irq v1 new where v1: "run_decoder ?r (mx_ram m) v = Some (irq, v1, ?r)" "voice_ok v1" "v_idx v1 = v_idx v"
    "fifo_contents (v_fifo v1) = fifo_contents (v_fifo v) @ new" "new = [] \<or> length new = 4"
    "4 \<le> length (fifo_contents (v_fifo v1))"
    using run_decoder_fills [OF assms] by blast
  obtain s where s: "voice_sample noise ?r v1 = Some s"
    using next_decoded_sample_returns [OF v1(2)]
    by (cases "flag_get (voice_noise_on ?r) (v_idx v1)") (auto simp: voice_sample_def)
  obtain v2 n where v2: "voice_advance (mx_sweep m) ?r v1 = Some v2" "voice_ok v2" "v_idx v2 = v_idx v1" "n \<le> 4"
    "fifo_contents (v_fifo v2) = drop n (fifo_contents (v_fifo v1))"
    using voice_advance_returns [OF v1(2,6)] by blast
  obtain v3 where v3: "voice_keys ?r v2 = (v3, ?r)" "voice_ok v3" "v_idx v3 = v_idx v2"
    "fifo_contents (v_fifo v3) = (if flag_get (voice_on ?r) (v_idx v2) then [] else fifo_contents (v_fifo v2))"
    using voice_keys_streams [OF v2(2)] by blast
  have "n \<le> length (fifo_contents (v_fifo v) @ new)" using v1(4,6) v2(4) by simp
  then have "streams ?r v v3"
    unfolding streams_def using v1(3-5) v2(3-5) v3(4) by (auto simp del: drop_append)
  then show ?thesis using v1(1) s v2(1) v3 by (simp add: voice_cycle_def voice_run_def Let_def)
qed

lemma run_voices_returns:
  "(\<forall>v \<in> set vs. voice_ok v) \<Longrightarrow> \<exists>vs' m'. run_voices noise cap vs m = Some (vs', m') \<and> mx_regs m' = mx_regs m
     \<and> (\<forall>v \<in> set vs'. voice_ok v) \<and> list_all2 (streams (mx_regs m)) vs vs'"
proof (induction vs arbitrary: m)
  case (Cons v vs)
  obtain v' m1 where v': "voice_cycle noise cap v m = Some (v', m1)" "mx_regs m1 = mx_regs m" "voice_ok v'"
    "streams (mx_regs m) v v'"
    using voice_cycle_returns Cons.prems by (meson list.set_intros(1))
  obtain vs' m2 where "run_voices noise cap vs m1 = Some (vs', m2)" "mx_regs m2 = mx_regs m1"
    "\<forall>v \<in> set vs'. voice_ok v" "list_all2 (streams (mx_regs m1)) vs vs'"
    using Cons.IH [of m1] Cons.prems by auto
  then show ?case using v' by simp
qed simp

section \<open>A cycle of the unit\<close>

lemma voice_new_ok: "voice_ok (voice_new i)"
  by (simp add: voice_new_def voice_ok_def fifo_new_inv envelope_default_def)

lemma spu_new_ok: "spu_ok (snd (spu_new sch))"
  by (auto simp: spu_new_def spu_ok_def create_voices_def voice_new_ok)

lemma apply_vol_0 [simp]: "apply_vol 0 v = 0"
  by (simp add: apply_vol_def Let_def split: vol_mode.split)

lemma clear_keys_reads: "length r = REGS_SIZE \<Longrightarrow>
    voice_on (clear_keys r) = 0 \<and> voice_off (clear_keys r) = 0 \<and> spu_control (clear_keys r) = spu_control r"
  by (simp add: clear_keys_def voice_on_def voice_off_def halfwords_def spu_control_def REGS_SIZE_def)

text \<open>C17: The sound unit never stops: from every state with well-formed voices a cycle sends one sample,
  which is silence while the unit is muted, and takes back the key flags. No voice loses a decoded
  sample or takes one that is not there: its queue is emptied by a key-on, and else it grows by none
  or four samples behind and is read in front.\<close>

theorem spu_cycle_streams:
  assumes "spu_ok s" "cr_audio c = []"
  shows "\<exists>sch' s' l r. spu_cycle ((sch, s), c) = Some ((sch', s'), c) \<and> spu_ok s' \<and> sp_output s' = sp_output s @ [(l, r)]
    \<and> list_all2 (streams (sp_regs s)) (sp_voices s) (sp_voices s')
    \<and> voice_on (sp_regs s') = 0 \<and> voice_off (sp_regs s') = 0
    \<and> (muted (spu_control (sp_regs s)) \<longrightarrow> (l, r) = (0, 0))"
proof -
  let ?s = "spu_update_status s"
  have same: "sp_voices ?s = sp_voices s" "length (sp_regs ?s) = REGS_SIZE" "voice_on (sp_regs ?s) = voice_on (sp_regs s)"
    "spu_control (sp_regs ?s) = spu_control (sp_regs s)" "sp_output ?s = sp_output s"
    using assms(1) by (simp_all add: spu_update_status_def Let_def spu_ok_def voice_on_def halfwords_def spu_control_def)
  then have stream: "streams (sp_regs ?s) = streams (sp_regs s)" by (simp add: streams_def fun_eq_iff)
  obtain vs m where run: "run_voices (sp_noise ?s) (sp_capture ?s) (sp_voices ?s)
      \<lparr>mx_left = 0, mx_right = 0, mx_irq = False, mx_sweep = 0, mx_regs = sp_regs ?s, mx_ram = sp_ram ?s\<rparr> = Some (vs, m)"
    "mx_regs m = sp_regs ?s" "\<forall>v \<in> set vs. voice_ok v" "list_all2 (streams (sp_regs s)) (sp_voices s) vs"
    using run_voices_returns [of "sp_voices ?s"] assms(1) by (fastforce simp: spu_ok_def same stream)
  have keys: "voice_on (clear_keys (mx_regs m)) = 0" "voice_off (clear_keys (mx_regs m)) = 0"
    "spu_control (clear_keys (mx_regs m)) = spu_control (sp_regs s)"
    using clear_keys_reads [of "mx_regs m"] by (simp_all add: run(2) same)
  have audio: "run_audio_cycle b c = Some ((0, 0), c)" for b using assms(2) by (simp add: run_audio_cycle_def)
  have len: "length (clear_keys (mx_regs m)) = REGS_SIZE" "length vs = 24"
    using list_all2_lengthD [OF run(4)] assms(1) by (simp_all add: clear_keys_def run(2) same spu_ok_def)
  show ?thesis
    using run(1,3,4) len keys audio
    by (simp add: spu_cycle_def Let_def same spu_ok_def clamp_16_def split: prod.split)
qed

theorem spu_cycle_streams_witness:
  "\<exists>sch' s' l r. spu_cycle ((schedule_new, snd (spu_new schedule_new)), snd (cdrom_new None schedule_new))
      = Some ((sch', s'), snd (cdrom_new None schedule_new)) \<and> sp_output s' = [(l, r)]"
  using spu_cycle_streams [OF spu_new_ok [of schedule_new], of "snd (cdrom_new None schedule_new)" schedule_new]
  by (fastforce simp: cdrom_new_def spu_new_def)

end
