(* ===== verification/SpuVoice.thy ===== *)
theory SpuVoice
  imports SpuRun
begin

text \<open>
  A voice of the sound unit over many cycles: how far it reads in its queue in a cycle, and how its
  envelope goes from phase to phase.
\<close>

section \<open>Pitch\<close>

definition kept :: "voice \<Rightarrow> voice \<Rightarrow> bool" where
  "kept v v' \<longleftrightarrow> v_counter v' = v_counter v \<and> v_start_delay v' = v_start_delay v \<and> v_idx v' = v_idx v
     \<and> adpcm_sample_rate v' = adpcm_sample_rate v"

lemma kept_refl [simp]: "kept v v" and kept_trans: "kept u v \<Longrightarrow> kept v w \<Longrightarrow> kept u w"
  by (simp_all add: kept_def)

lemma kept_updates [simp]:
  "kept u (set_adsr_vol x v) = kept u v" "kept u (set_repeat_addr a v) = kept u v"
  "kept u (v\<lparr>v_addr := a\<rparr>) = kept u v" "kept u (v\<lparr>v_flags := w\<rparr>) = kept u v" "kept u (v\<lparr>v_phase := ph\<rparr>) = kept u v"
  "kept u (v\<lparr>v_target := t\<rparr>) = kept u v" "kept u (v\<lparr>v_env := e\<rparr>) = kept u v" "kept u (v\<lparr>v_fifo := f\<rparr>) = kept u v"
  "kept u (v\<lparr>v_prev := p\<rparr>) = kept u v"
  by (simp_all add: kept_def set_adsr_vol_def set_repeat_addr_def adpcm_sample_rate_def)

lemma next_block_kept: "next_block regs ram v = (irq, v', regs') \<Longrightarrow> kept v v'"
  by (auto simp: next_block_def Let_def split: if_splits)

lemma decode_nibbles_kept: "decode_nibbles ns v = Some v' \<Longrightarrow> kept v v'"
proof (induction ns arbitrary: v)
  case (Cons n ns)
  then obtain f where "decode_nibbles ns (v\<lparr>v_fifo := f, v_prev := (decode_nibble (v_flags v) n (v_prev v), fst (v_prev v))\<rparr>) = Some v'"
    by (auto simp: Let_def split: bind_splits)
  then show ?case using Cons.IH by (fastforce simp: kept_def adpcm_sample_rate_def)
qed simp

lemma run_decoder_kept: "run_decoder regs ram v = Some (irq, v', regs') \<Longrightarrow> kept v v'"
  by (auto simp: run_decoder_def decode_def Let_def dest!: decode_nibbles_kept split: if_splits bind_splits prod.splits
      dest: next_block_kept intro: kept_trans)

lemma adsr_cycle_kept: "adsr_envelope_cycle v = Some v' \<Longrightarrow> kept v v'"
  by (auto simp: adsr_envelope_cycle_def update_adsr_envelope_def Let_def split: bind_splits if_splits)

text \<open>The rate of a voice: the register, or the register times the last sample of the voice before.\<close>

definition pitch :: "i32 \<Rightarrow> spu_regs \<Rightarrow> voice \<Rightarrow> u32" where
  "pitch sweep regs v =
     (if v_idx v \<noteq> 0 \<and> flag_get (voice_pitch_mod_on regs) (v_idx v)
      then signed_drop_bit 15 (ucast (adpcm_sample_rate v) * sweep) else ucast (adpcm_sample_rate v))"

lemma unat_whole_steps: "unat (drop_bit 12 (ucast (min x 0x3fff :: u32) :: u16)) = min (unat x) 0x3fff div 4096"
proof -
  have "unat (min x 0x3fff) = min (unat x) 0x3fff" by (simp add: min_def word_le_nat_alt)
  then have "unat (ucast (min x 0x3fff :: u32) :: u16) = min (unat x) 0x3fff"
    by (simp add: unsigned_ucast_eq take_bit_nat_eq_self_iff)
  moreover have "unat (drop_bit 12 w) = unat w div 4096" for w :: u16
    by (simp only: unsigned_drop_bit_eq drop_bit_eq_div [of 12 "unat w"] take_bit_unat) simp
  ultimately show ?thesis by simp
qed

lemma consume_whole_steps:
  assumes "v_counter v = 0"
  shows "consume_samples (ucast (min (x :: u32) 0x3fff)) v = v\<lparr>v_fifo := fifo_pop_n (min (unat x) 0x3fff div 4096) (v_fifo v)\<rparr>"
proof -
  have "bit_range (0 :: u16) 0 11 = 0" by code_simp
  then show ?thesis using assms unat_whole_steps [of x] by (cases v) (simp add: consume_samples_def Let_def)
qed

text \<open>C19: a voice reads on, unless it is keyed on and its queue emptied, by the whole part of its rate, which is four times the base rate at
  most, and forgets the fraction: the position between two samples never moves.
\<close>

theorem pitch_whole_steps:
  assumes "voice_ok v" "v_counter v = 0" "voice_cycle noise cap v m = Some (v', m')"
  shows "v_counter v' = 0
    \<and> (\<exists>new. (new = [] \<or> length new = 4) \<and> fifo_contents (v_fifo v') =
        (if flag_get (voice_on (mx_regs m)) (v_idx v) then []
         else drop (if v_start_delay v = 0 then min (unat (pitch (mx_sweep m) (mx_regs m) v)) 0x3fff div 4096 else 0)
           (fifo_contents (v_fifo v) @ new)))"
proof -
  let ?r = "mx_regs m"
  obtain irq v1 new where v1: "run_decoder ?r (mx_ram m) v = Some (irq, v1, ?r)" "voice_ok v1"
    "fifo_contents (v_fifo v1) = fifo_contents (v_fifo v) @ new" "new = [] \<or> length new = 4"
    "4 \<le> length (fifo_contents (v_fifo v1))"
    using run_decoder_fills [OF assms(1)] by blast
  have k1: "kept v v1" using run_decoder_kept [OF v1(1)] .
  obtain v2 where v2: "voice_advance (mx_sweep m) ?r v1 = Some v2" "v' = fst (voice_keys ?r v2)"
    using assms(3) v1(1) by (auto simp: voice_cycle_def voice_run_def Let_def split: bind_splits prod.splits)
  have p: "pitch (mx_sweep m) ?r w = pitch (mx_sweep m) ?r v" if "kept v w" for w
    using that by (simp add: pitch_def kept_def)
  let ?n = "if v_start_delay v = 0 then min (unat (pitch (mx_sweep m) ?r v)) 0x3fff div 4096 else 0"
  have adv: "v_counter v2 = 0 \<and> v_idx v2 = v_idx v \<and> fifo_contents (v_fifo v2) = drop ?n (fifo_contents (v_fifo v1))"
  proof (cases "v_start_delay v = 0")
    case False
    then show ?thesis using v2(1) k1 assms(2) by (auto simp: voice_advance_def kept_def)
  next
    case True
    obtain w where w: "adsr_envelope_cycle v1 = Some w" "voice_ok w" "v_fifo w = v_fifo v1"
      using adsr_envelope_cycle_returns [OF v1(2)] by blast
    have k: "kept v w" using kept_trans [OF k1 adsr_cycle_kept [OF w(1)]] .
    have c: "v_counter w = 0" "v_idx w = v_idx v" using k assms(2) by (simp_all add: kept_def)
    have "v2 = consume_samples (ucast (min (pitch (mx_sweep m) ?r w) 0x3fff)) w"
      using v2(1) w(1) True k1 by (simp add: voice_advance_def kept_def pitch_def Let_def)
    then have "v2 = w\<lparr>v_fifo := fifo_pop_n ?n (v_fifo w)\<rparr>"
      using consume_whole_steps [OF c(1)] p [OF k] True by simp
    moreover have "?n \<le> length (fifo_contents (v_fifo w))" using v1(5) w(3) by (auto simp: min_def)
    ultimately show ?thesis
      using fifo_pop_n_contents [of "v_fifo w" ?n] w(2,3) c by (simp add: voice_ok_def)
  qed
  have "v_counter v' = 0 \<and> fifo_contents (v_fifo v') = (if flag_get (voice_on ?r) (v_idx v) then [] else fifo_contents (v_fifo v2))"
  proof -
    have "voice_ok v2" using voice_advance_returns [OF v1(2,5), of "mx_sweep m" ?r] v2(1) by auto
    moreover have "v_counter v' = 0"
      using adv v2(2) by (simp add: voice_keys_def voice_reset_def start_attack_phase_def start_release_phase_def
          voice_mute_def set_adsr_vol_def Let_def split: prod.split)
    ultimately show ?thesis using voice_keys_streams [of v2 ?r] adv v2(2) by auto
  qed
  then show ?thesis using adv v1(3,4) by auto
qed

text \<open>At half the base rate a voice stays where it is: no sample is read.\<close>

definition half_rate_voice :: voice where "half_rate_voice = (voice_new 0)\<lparr>v_regs := (replicate 8 0)[2 := 0x800]\<rparr>"

definition quiet_mix :: mix where
  "quiet_mix = \<lparr>mx_left = 0, mx_right = 0, mx_irq = False, mx_sweep = 0, mx_regs = replicate REGS_SIZE 0, mx_ram = spu_ram_new\<rparr>"

theorem pitch_whole_steps_witness:
  "\<exists>v' m' new. voice_cycle 0 0 half_rate_voice quiet_mix = Some (v', m') \<and> v_counter v' = 0
     \<and> fifo_contents (v_fifo v') = fifo_contents (v_fifo half_rate_voice) @ new"
proof -
  have ok: "voice_ok half_rate_voice" using voice_new_ok [of 0] by (simp add: half_rate_voice_def voice_ok_def)
  have zero: "v_counter half_rate_voice = 0" by (simp add: half_rate_voice_def voice_new_def)
  obtain v' m' where c: "voice_cycle 0 0 half_rate_voice quiet_mix = Some (v', m')" using voice_cycle_returns [OF ok] by blast
  have keyed: "\<not> flag_get (voice_on (mx_regs quiet_mix)) (v_idx half_rate_voice)"
    by (simp add: quiet_mix_def voice_on_def halfwords_def flag_get_def bit_at_def REGS_SIZE_def)
  have rate: "pitch (mx_sweep quiet_mix) (mx_regs quiet_mix) half_rate_voice = 0x800"
    by (simp add: pitch_def half_rate_voice_def voice_new_def adpcm_sample_rate_def)
  show ?thesis using pitch_whole_steps [OF ok zero c] c by (auto simp: keyed rate)
qed

section \<open>Envelopes\<close>

text \<open>The tables: every wait is bounded, every step goes in its direction.\<close>

lemma increase_table:
  "list_all (\<lambda>(c, s). 0 < c \<and> c \<le> 1048576 \<and> 4 \<le> s \<and> s \<le> 14336) ADSR_INCREASE"
  by code_simp

lemma decrease_table: "list_all (\<lambda>(c, s). 0 < c \<and> c \<le> 1048576 \<and> s < 0 \<and> -16384 \<le> s) ADSR_DECREASE"
  by code_simp

lemma sint_i32: "- (2 ^ 31) \<le> v \<Longrightarrow> v < 2 ^ 31 \<Longrightarrow> sint (word_of_int v :: i32) = v"
  by (simp add: sint_sbintrunc' signed_take_bit_int_eq_self)

lemma sint_i16: "0 \<le> v \<Longrightarrow> v \<le> 0x7fff \<Longrightarrow> sint (word_of_int v :: i16) = v"
  by (simp add: sint_sbintrunc' signed_take_bit_int_eq_self)

lemma sint_i16_le: "sint (level :: i16) \<le> 0x7fff"
  using sint_less [of level] by simp

lemma sint_drop: "sint (signed_drop_bit n w) = sint w div 2 ^ n" for w :: i32
  by (simp add: sint_signed_drop_bit_eq drop_bit_eq_div)

lemma adsr_step:
  assumes "unat rate < 128"
  obtains c s where "adsr_table dir rate = Some (c, s)" "0 < sint c" "sint c \<le> 1048576"
    "dir = Increase \<Longrightarrow> 4 \<le> sint s \<and> sint s \<le> 14336" "dir = Decrease \<Longrightarrow> sint s < 0 \<and> -16384 \<le> sint s"
proof -
  let ?t = "case dir of Increase \<Rightarrow> ADSR_INCREASE | Decrease \<Rightarrow> ADSR_DECREASE"
  obtain c s where cs: "?t ! unat rate = (c, s)" by (cases "?t ! unat rate")
  have len: "unat rate < length ?t" using assms by (cases dir) (simp_all add: table_lengths)
  then have "(c, s) \<in> set ?t" using nth_mem [OF len] cs by simp
  then have b: "0 < c \<and> c \<le> 1048576" "dir = Increase \<Longrightarrow> 4 \<le> s \<and> s \<le> 14336" "dir = Decrease \<Longrightarrow> s < 0 \<and> -16384 \<le> s"
    using increase_table decrease_table by (cases dir; force simp: list_all_iff)+
  have "sint (word_of_int c :: i32) = c" "sint (word_of_int s :: i32) = s"
    using b by (cases dir; auto intro!: sint_i32)+
  then show thesis using that [of "word_of_int c" "word_of_int s"] b len cs by (simp add: adsr_table_def Let_def)
qed

text \<open>A step of the envelope, with what it does to the counter.\<close>

definition good_step :: "env_direction \<Rightarrow> int \<Rightarrow> int \<Rightarrow> bool" where
  "good_step dir level step = (case dir of
     Increase \<Rightarrow> 0 < step \<and> step \<le> 14336
   | Decrease \<Rightarrow> -16384 \<le> step \<and> step \<le> 0 \<and> (0 < level \<longrightarrow> step < 0))"

lemma exponential_good:
  assumes "env_dir e = Increase \<Longrightarrow> 4 \<le> sint st \<and> sint st \<le> 14336" "env_dir e = Decrease \<Longrightarrow> sint st < 0 \<and> -16384 \<le> sint st"
    and "0 \<le> sint level" "sint (env_counter e) \<le> 0" "exponential_step level st e = (st', e')"
  shows "good_step (env_dir e) (sint level) (sint st') \<and> env_dir e' = env_dir e \<and> env_rate e' = env_rate e \<and> env_mode e' = env_mode e
    \<and> sint (env_counter e) \<le> sint (env_counter e') \<and> sint (env_counter e') \<le> 0"
proof (cases "env_dir e")
  case Increase
  then have "4 \<le> sint st \<and> sint st \<le> 14336" using assms(1) by blast
  then show ?thesis using Increase assms(4,5)
    by (auto simp: exponential_step_def good_step_def sint_drop split: if_splits)
next
  case Decrease
  let ?l = "sint level" and ?s = "sint st"
  have s: "?s < 0" "-16384 \<le> ?s" using Decrease assms(2) by auto
  have l: "?l \<le> 32767" using sint_i16_le [of level] by simp
  have low: "-16384 * 32767 \<le> ?s * ?l"
  proof -
    have "-16384 * ?l \<le> ?s * ?l" using s(2) assms(3) by (rule mult_right_mono)
    then show ?thesis using l by linarith
  qed
  have high: "?s * ?l \<le> 0" using s assms(3) by (simp add: mult_nonpos_nonneg)
  have "st * scast level = word_of_int (?s * ?l)" by simp
  moreover have "- (2 ^ 31) \<le> ?s * ?l" "?s * ?l < 2 ^ 31" using low high by simp_all
  ultimately have m: "sint (st * scast level) = ?s * ?l" by (simp only: sint_i32)
  have "(?s * ?l) div 32768 \<le> 0 div 32768" using high by (rule zdiv_mono1) simp
  moreover have "-16384 \<le> (?s * ?l) div 32768"
    using low zdiv_mono1 [OF low, of 32768] by simp
  moreover have "(?s * ?l) div 32768 < 0" if "0 < ?l"
    using s(1) that by (simp add: div_neg_pos_less0 mult_neg_pos)
  ultimately show ?thesis
    using Decrease assms(4,5) sint_drop [of 15 "st * scast level"] by (auto simp: exponential_step_def good_step_def m)
qed

lemma envelope_moves:
  assumes "unat (env_rate e) < 128" "0 \<le> sint level" "- (2 ^ 31) < sint (env_counter e)"
  obtains l e' where "envelope_cycle level e = Some (l, e')" "env_dir e' = env_dir e" "env_rate e' = env_rate e" "0 \<le> sint l"
    "1 < sint (env_counter e) \<Longrightarrow> l = level \<and> sint (env_counter e') = sint (env_counter e) - 1"
    "sint (env_counter e) \<le> 1 \<Longrightarrow> sint (env_counter e) - 1 \<le> sint (env_counter e') \<and> sint (env_counter e') \<le> 0
       \<and> (case env_dir e of Increase \<Rightarrow> min 0x7fff (sint level + 1) \<le> sint l | Decrease \<Rightarrow> sint l \<le> max 0 (sint level - 1))"
proof -
  let ?c = "sint (env_counter e)"
  let ?e = "e\<lparr>env_counter := env_counter e - 1\<rparr>"
  have "env_counter e - 1 = word_of_int (?c - 1)" by simp
  then have c: "sint (env_counter e - 1) = ?c - 1"
    using assms(3) sint_less [of "env_counter e"] sint_i32 [of "?c - 1"] by simp
  obtain k st where t: "adsr_table (env_dir e) (env_rate e) = Some (k, st)"
    "env_dir e = Increase \<Longrightarrow> 4 \<le> sint st \<and> sint st \<le> 14336" "env_dir e = Decrease \<Longrightarrow> sint st < 0 \<and> -16384 \<le> sint st"
    using adsr_step [OF assms(1), of "env_dir e"] by metis
  show thesis
  proof (cases "1 < ?c")
    case True
    then show thesis using that [of level ?e] c assms(2) by (simp add: envelope_cycle_def Let_def)
  next
    case False
    obtain st' e' where x: "(case env_mode e of Linear \<Rightarrow> (st, ?e) | Exponential \<Rightarrow> exponential_step level st ?e) = (st', e')"
      by (rule prod.exhaust)
    have good: "good_step (env_dir e) (sint level) (sint st') \<and> env_dir e' = env_dir e \<and> env_rate e' = env_rate e
      \<and> ?c - 1 \<le> sint (env_counter e') \<and> sint (env_counter e') \<le> 0"
    proof (cases "env_mode e")
      case Linear
      then show ?thesis using x t(2,3) c False by (cases "env_dir e") (auto simp: good_step_def)
    next
      case Exponential
      then show ?thesis using exponential_good [of ?e st level st' e'] x t(2,3) c False assms(2) by simp
    qed
    let ?n = "sint level + sint st'"
    have "(scast level :: i32) + st' = word_of_int ?n" by simp
    moreover have "- (2 ^ 31) \<le> ?n \<and> ?n < 2 ^ 31"
      using good assms(2) sint_i16_le [of level] by (auto simp: good_step_def split: env_direction.splits)
    ultimately have n: "sint ((scast level :: i32) + st') = ?n" by (simp only: sint_i32)
    let ?l = "word_of_int (max 0 (min 0x7fff ?n)) :: i16"
    have l: "sint ?l = max 0 (min 0x7fff ?n)" by (rule sint_i16) simp_all
    have "envelope_cycle level e = Some (?l, e')"
      using False c t(1) x n by (simp add: envelope_cycle_def Let_def)
    moreover have "case env_dir e of Increase \<Rightarrow> min 0x7fff (sint level + 1) \<le> sint ?l | Decrease \<Rightarrow> sint ?l \<le> max 0 (sint level - 1)"
      using good assms(2) sint_i16_le [of level] unfolding l good_step_def
      by (cases "env_dir e"; cases "0 < sint level") (auto simp: min_def max_def split: if_splits)
    ultimately show thesis using that [of ?l e'] good l False by simp
  qed
qed

section \<open>Phases\<close>

fun adsr_cycles :: "nat \<Rightarrow> voice \<Rightarrow> voice option" where
  "adsr_cycles 0 v = Some v"
| "adsr_cycles (Suc n) v = Option.bind (adsr_envelope_cycle v) (adsr_cycles n)"

lemma adsr_cycles_add: "adsr_cycles (m + n) v = Option.bind (adsr_cycles m v) (adsr_cycles n)"
proof (induction m arbitrary: v)
  case (Suc m)
  then show ?case by (cases "adsr_envelope_cycle v") simp_all
qed simp

text \<open>How far the level is from the target of the phase, and how long the envelope still waits.\<close>

definition to_go :: "voice \<Rightarrow> nat" where
  "to_go v = nat (max 0 (case env_dir (v_env v) of
     Increase \<Rightarrow> sint (v_target v) - sint (adsr_vol v) | Decrease \<Rightarrow> sint (adsr_vol v) - sint (v_target v)))"

definition wait :: "voice \<Rightarrow> nat" where "wait v = nat (max 0 (sint (env_counter (v_env v)) - 1))"

definition env_ok :: "voice \<Rightarrow> bool" where
  "env_ok v \<longleftrightarrow> voice_ok v \<and> 0 \<le> sint (adsr_vol v) \<and> 0 \<le> sint (v_target v)
     \<and> - (2 ^ 31) + int (to_go v) < sint (env_counter (v_env v))"

lemma adsr_vol_set [simp]: "length (v_regs v) = 8 \<Longrightarrow> adsr_vol (set_adsr_vol x v) = x"
  by (simp add: set_adsr_vol_def adsr_vol_def)

lemma adsr_vol_update [simp]:
  "adsr_vol (v\<lparr>v_phase := ph\<rparr>) = adsr_vol v" "adsr_vol (v\<lparr>v_target := t\<rparr>) = adsr_vol v" "adsr_vol (v\<lparr>v_env := e\<rparr>) = adsr_vol v"
  by (simp_all add: adsr_vol_def)

text \<open>A cycle ends the phase, or brings its end nearer.\<close>

lemma phase_cycle:
  assumes "env_ok v" "v_phase v \<noteq> PhSustain"
  obtains w where "adsr_envelope_cycle v = Some w" "voice_ok w" "0 \<le> sint (adsr_vol w)"
    "v_phase w = adsr_next (v_phase v) \<and> (\<exists>a. phase_envelope (adsr_next (v_phase v)) a = Some (v_target w, v_env w))
     \<or> env_ok w \<and> v_phase w = v_phase v \<and> to_go w + wait w < to_go v + wait v"
proof -
  note ok = assms(1) [unfolded env_ok_def]
  have regs: "length (v_regs v) = 8" "unat (env_rate (v_env v)) < 128" using ok by (auto simp: voice_ok_def)
  have c: "0 \<le> sint (adsr_vol v)" "- (2 ^ 31) < sint (env_counter (v_env v))" using ok by auto
  obtain l e where e: "envelope_cycle (adsr_vol v) (v_env v) = Some (l, e)" "env_dir e = env_dir (v_env v)"
    "env_rate e = env_rate (v_env v)" "0 \<le> sint l"
    "1 < sint (env_counter (v_env v)) \<Longrightarrow> l = adsr_vol v \<and> sint (env_counter e) = sint (env_counter (v_env v)) - 1"
    "sint (env_counter (v_env v)) \<le> 1 \<Longrightarrow> sint (env_counter (v_env v)) - 1 \<le> sint (env_counter e) \<and> sint (env_counter e) \<le> 0
       \<and> (case env_dir (v_env v) of Increase \<Rightarrow> min 0x7fff (sint (adsr_vol v) + 1) \<le> sint l
           | Decrease \<Rightarrow> sint l \<le> max 0 (sint (adsr_vol v) - 1))"
    by (rule envelope_moves [OF regs(2) c], rule that) assumption+
  let ?v = "set_adsr_vol l (v\<lparr>v_env := e\<rparr>)"
  have v: "voice_ok ?v" "adsr_vol ?v = l" "v_env ?v = e" "v_phase ?v = v_phase v" "v_target ?v = v_target v"
    using ok regs e(3) by (simp_all add: voice_ok_env voice_ok_def set_adsr_vol_def adsr_vol_def)
  let ?reached = "case env_dir e of Decrease \<Rightarrow> sint l \<le> sint (v_target v) | Increase \<Rightarrow> sint (v_target v) \<le> sint l"
  have cyc: "adsr_envelope_cycle v = (if ?reached then update_adsr_envelope (?v\<lparr>v_phase := adsr_next (v_phase v)\<rparr>) else Some ?v)"
    using assms(2) by (simp add: adsr_envelope_cycle_def Let_def e(1) v cong: env_direction.case_cong)
  show thesis
  proof (cases ?reached)
    case True
    let ?a = "voice_adsr (?v\<lparr>v_phase := adsr_next (v_phase v)\<rparr>)"
    obtain t e2 where p: "phase_envelope (adsr_next (v_phase v)) ?a = Some (t, e2)" "unat (env_rate e2) < 128"
      using phase_envelope_returns by blast
    let ?w = "?v\<lparr>v_phase := adsr_next (v_phase v), v_target := t, v_env := e2\<rparr>"
    have "adsr_envelope_cycle v = Some ?w" using cyc True p by (simp add: update_adsr_envelope_def)
    moreover have "voice_ok ?w" "adsr_vol ?w = l" using v(1,2) p(2) by (simp_all add: voice_ok_env voice_ok_def adsr_vol_def)
    ultimately show thesis using that [of ?w] p(1) e(4) by auto
  next
    case False
    have "adsr_envelope_cycle v = Some ?v" using cyc False by simp
    moreover have "env_ok ?v \<and> to_go ?v + wait ?v < to_go v + wait v"
    proof -
      have go: "to_go ?v = nat (max 0 (case env_dir (v_env v) of Increase \<Rightarrow> sint (v_target v) - sint l
          | Decrease \<Rightarrow> sint l - sint (v_target v)))"
        unfolding to_go_def v e(2) by (rule refl)
      have wt: "wait ?v = nat (max 0 (sint (env_counter e) - 1))" unfolding wait_def v by (rule refl)
      have "0 \<le> sint l \<and> - (2 ^ 31) + int (to_go ?v) < sint (env_counter e) \<and> to_go ?v + wait ?v < to_go v + wait v"
        unfolding go wt using e(2,4-6) ok False sint_i16_le [of "v_target v"] sint_i16_le [of "adsr_vol v"]
        by (cases "env_dir (v_env v)"; cases "1 < sint (env_counter (v_env v))") (auto simp: to_go_def wait_def)
      then show ?thesis unfolding env_ok_def v using ok v(1) by blast
    qed
    ultimately show thesis using that [of ?v] v e(4) by simp
  qed
qed

lemma phase_ends:
  assumes "env_ok v" "v_phase v \<noteq> PhSustain"
  obtains n w a where "n \<le> to_go v + wait v" "adsr_cycles (Suc n) v = Some w" "voice_ok w" "0 \<le> sint (adsr_vol w)"
    "v_phase w = adsr_next (v_phase v)" "phase_envelope (adsr_next (v_phase v)) a = Some (v_target w, v_env w)"
  using assms
proof (induction "to_go v + wait v" arbitrary: v thesis rule: less_induct)
  case less
  obtain u where u: "adsr_envelope_cycle v = Some u" "voice_ok u" "0 \<le> sint (adsr_vol u)"
    "v_phase u = adsr_next (v_phase v) \<and> (\<exists>a. phase_envelope (adsr_next (v_phase v)) a = Some (v_target u, v_env u))
     \<or> env_ok u \<and> v_phase u = v_phase v \<and> to_go u + wait u < to_go v + wait v"
    by (rule phase_cycle [OF less.prems(2,3)])
  from u(4) show ?case
  proof (elim disjE conjE exE)
    fix a assume "v_phase u = adsr_next (v_phase v)" "phase_envelope (adsr_next (v_phase v)) a = Some (v_target u, v_env u)"
    then show thesis using less.prems(1) [of 0 u a] u(1-3) by simp
  next
    assume next_u: "env_ok u" "v_phase u = v_phase v" "to_go u + wait u < to_go v + wait v"
    obtain n w a where "n \<le> to_go u + wait u" "adsr_cycles (Suc n) u = Some w" "voice_ok w" "0 \<le> sint (adsr_vol w)"
      "v_phase w = adsr_next (v_phase u)" "phase_envelope (adsr_next (v_phase u)) a = Some (v_target w, v_env w)"
      using less.hyps [OF next_u(3) _ next_u(1)] less.prems(3) next_u(2) by metis
    then show thesis using less.prems(1) [of "Suc n" w a] u(1) next_u(2,3) by simp
  qed
qed

text \<open>The envelope of a voice that is off rises at the highest rate.\<close>

definition off_voice :: "voice \<Rightarrow> bool" where
  "off_voice v \<longleftrightarrow> voice_ok v \<and> v_phase v = PhOff \<and> v_target v = 0
     \<and> v_env v = \<lparr>env_counter = 1, env_rate = 0, env_dir = Increase, env_mode = Linear\<rparr>"

lemma off_envelope: "envelope_new 0 Increase Linear = Some \<lparr>env_counter = 1, env_rate = 0, env_dir = Increase, env_mode = Linear\<rparr>"
  by code_simp

lemma off_cycle:
  assumes "off_voice v" "0 \<le> sint (adsr_vol v)"
  obtains w where "adsr_envelope_cycle v = Some w" "off_voice w" "sint (adsr_vol w) = min 0x7fff (sint (adsr_vol v) + 14336)"
proof -
  let ?e = "\<lparr>env_counter = 0, env_rate = 0, env_dir = Increase, env_mode = Linear\<rparr>"
  let ?n = "sint (adsr_vol v) + 14336"
  let ?l = "word_of_int (max 0 (min 0x7fff ?n)) :: i16"
  have "adsr_table Increase 0 = Some (1, 14336)" by code_simp
  moreover have "sint ((scast (adsr_vol v) :: i32) + 14336) = ?n"
  proof -
    have "(scast (adsr_vol v) :: i32) + 14336 = word_of_int ?n" by simp
    moreover have "- (2 ^ 31) \<le> ?n" "?n < 2 ^ 31" using assms(2) sint_i16_le [of "adsr_vol v"] by simp_all
    ultimately show ?thesis by (simp only: sint_i32)
  qed
  ultimately have "envelope_cycle (adsr_vol v) (v_env v) = Some (?l, ?e)"
    using assms(1) by (simp add: off_voice_def envelope_cycle_def)
  moreover have l: "sint ?l = min 0x7fff ?n" using assms(2) sint_i16 [of "max 0 (min 0x7fff ?n)"] by (simp add: max_def)
  moreover have "adsr_vol (set_adsr_vol ?l (v\<lparr>v_env := ?e\<rparr>)) = ?l" using assms(1) by (simp add: off_voice_def voice_ok_def)
  moreover have "phase_envelope PhOff a = Some (0, \<lparr>env_counter = 1, env_rate = 0, env_dir = Increase, env_mode = Linear\<rparr>)" for a
    by (simp add: phase_envelope_def off_envelope)
  ultimately have "adsr_envelope_cycle v = Some ((set_adsr_vol ?l (v\<lparr>v_env := ?e\<rparr>))\<lparr>v_phase := PhOff, v_target := 0,
      v_env := \<lparr>env_counter = 1, env_rate = 0, env_dir = Increase, env_mode = Linear\<rparr>\<rparr>)" (is "_ = Some ?w")
    using assms by (simp add: adsr_envelope_cycle_def update_adsr_envelope_def off_voice_def Let_def set_adsr_vol_def adsr_vol_def)
  moreover have "off_voice ?w" using assms(1) by (simp add: off_voice_def voice_ok_env)
  moreover have "sint (adsr_vol ?w) = min 0x7fff ?n" using l assms(1) by (simp add: off_voice_def voice_ok_def)
  ultimately show thesis using that by blast
qed

lemma off_cycles:
  "off_voice v \<Longrightarrow> 0 \<le> sint (adsr_vol v) \<Longrightarrow>
     \<exists>w. adsr_cycles k v = Some w \<and> off_voice w \<and> sint (adsr_vol w) = min 0x7fff (sint (adsr_vol v) + 14336 * int k)"
proof (induction k arbitrary: v)
  case 0
  then show ?case using sint_i16_le [of "adsr_vol v"] by simp
next
  case (Suc k)
  obtain u where u: "adsr_envelope_cycle v = Some u" "off_voice u" "sint (adsr_vol u) = min 0x7fff (sint (adsr_vol v) + 14336)"
    by (rule off_cycle [OF Suc.prems])
  then obtain w where "adsr_cycles k u = Some w" "off_voice w" "sint (adsr_vol w) = min 0x7fff (sint (adsr_vol u) + 14336 * int k)"
    using Suc.IH [OF u(2)] Suc.prems(2) by fastforce
  then show ?case using u by (auto simp: min_def algebra_simps)
qed

text \<open>C18: if the level and the target of a voice are not negative and the counter of its envelope is in its bounds
  (\<open>env_ok\<close>), every phase of the envelope but the sustained one ends, after the cycles that the envelope still waits
  and one for each step that the level is from its target at most. A voice that is released then ends up at full
  volume: the phase that is called off raises the level at the highest rate, and nothing mutes the voice. The
  condition excludes the decay to the highest sustain level, whose target is negative (\<open>sustain_overflow\<close>) and
  which never ends.
\<close>

theorem released_voice_loud:
  assumes "env_ok v" "v_phase v \<noteq> PhSustain"
  shows "\<exists>n \<le> to_go v + wait v. (\<exists>w. adsr_cycles (Suc n) v = Some w \<and> v_phase w = adsr_next (v_phase v))
    \<and> (v_phase v = PhRelease \<longrightarrow>
        (\<forall>k \<ge> 3. \<exists>w. adsr_cycles (Suc n + k) v = Some w \<and> v_phase w = PhOff \<and> sint (adsr_vol w) = 0x7fff))"
proof -
  obtain n w a where w: "n \<le> to_go v + wait v" "adsr_cycles (Suc n) v = Some w" "voice_ok w" "0 \<le> sint (adsr_vol w)"
    "v_phase w = adsr_next (v_phase v)" "phase_envelope (adsr_next (v_phase v)) a = Some (v_target w, v_env w)"
    by (rule phase_ends [OF assms])
  have "\<exists>x. adsr_cycles (Suc n + k) v = Some x \<and> v_phase x = PhOff \<and> sint (adsr_vol x) = 0x7fff"
    if "v_phase v = PhRelease" "3 \<le> k" for k
  proof -
    have "off_voice w" using w(3,5,6) that(1) by (auto simp: off_voice_def phase_envelope_def off_envelope)
    then obtain x where "adsr_cycles k w = Some x" "off_voice x" "sint (adsr_vol x) = min 0x7fff (sint (adsr_vol w) + 14336 * int k)"
      using off_cycles w(4) by blast
    then show ?thesis using w(2,4) that(2) adsr_cycles_add [of "Suc n" k v] by (auto simp: off_voice_def)
  qed
  then show ?thesis using w(1,2,5) by blast
qed

theorem released_voice_loud_witness:
  "\<exists>w. adsr_cycles 4 (start_release_phase (voice_new 0)) = Some w \<and> v_phase w = PhOff \<and> sint (adsr_vol w) = 0x7fff"
proof -
  let ?v = "start_release_phase (voice_new 0)"
  have "env_ok ?v \<and> v_phase ?v = PhRelease \<and> to_go ?v + wait ?v = 0"
    using voice_new_ok [of 0]
    by (simp add: env_ok_def to_go_def wait_def start_release_phase_def voice_new_def envelope_default_def adsr_vol_def voice_ok_def)
  then have "\<exists>n \<le> 0. \<forall>k \<ge> 3. \<exists>w. adsr_cycles (Suc n + k) ?v = Some w \<and> v_phase w = PhOff \<and> sint (adsr_vol w) = 0x7fff"
    using released_voice_loud [of ?v] by (simp del: adsr_cycles.simps)
  then have "\<exists>w. adsr_cycles (Suc 0 + 3) ?v = Some w \<and> v_phase w = PhOff \<and> sint (adsr_vol w) = 0x7fff" by blast
  moreover have "Suc 0 + 3 = (4 :: nat)" by simp
  ultimately show ?thesis by metis
qed

text \<open>A phase starts with the envelope of the one before: the attack of a voice that was off ends in one cycle.\<close>

lemma attack_skipped:
  assumes "off_voice v"
  shows "\<exists>w. adsr_envelope_cycle (voice_reset v) = Some w \<and> v_phase w = PhDecay"
proof -
  have "env_ok (voice_reset v) \<and> v_phase (voice_reset v) = PhAttack \<and> to_go (voice_reset v) + wait (voice_reset v) = 0"
    using assms
    by (auto simp: off_voice_def env_ok_def voice_ok_def voice_reset_def start_attack_phase_def voice_mute_def to_go_def wait_def
        set_adsr_vol_def adsr_vol_def Let_def dev.clear)
  then have "env_ok (voice_reset v)" "v_phase (voice_reset v) \<noteq> PhSustain" "v_phase (voice_reset v) = PhAttack"
    "to_go (voice_reset v) + wait (voice_reset v) = 0" by simp_all
  then obtain w where "adsr_cycles (Suc 0) (voice_reset v) = Some w" "v_phase w = PhDecay"
    using phase_ends [of "voice_reset v"] by (metis adsr_next.simps(1) le_zero_eq)
  then show ?thesis by (auto split: bind_splits)
qed

text \<open>The highest sustain level is negative, so a decay to it never ends.\<close>

lemma sustain_overflow: "bit_range a 0 3 = 0xf \<Longrightarrow> sint (sustain_lvl a) = -32768"
  by (simp add: sustain_lvl_def)

end
