(* ===== verification/IoPad.thy ===== *)
theory IoPad
  imports Bits
begin

text \<open>
  \<open>crates/splst_core/src/io_port/pad.rs\<close>: game pads. The array of the two slots is a function of the
  slot.
\<close>

datatype io_slot = Slot1 | Slot2

datatype button =
    Select | L3 | R3 | Start | JoyUp | JoyRight | JoyDown | JoyLeft
  | L2 | R2 | L1 | R1 | Triangle | Circle | Cross | Square

fun button_index :: "button \<Rightarrow> nat" where
  "button_index Select = 0" | "button_index L3 = 1" | "button_index R3 = 2" | "button_index Start = 3"
| "button_index JoyUp = 4" | "button_index JoyRight = 5" | "button_index JoyDown = 6" | "button_index JoyLeft = 7"
| "button_index L2 = 8" | "button_index R2 = 9" | "button_index L1 = 10" | "button_index R1 = 11"
| "button_index Triangle = 12" | "button_index Circle = 13" | "button_index Cross = 14" | "button_index Square = 15"

type_synonym button_state = u16

definition buttons_default :: button_state where "buttons_default = 0xffff"

definition set_button :: "button \<Rightarrow> bool \<Rightarrow> button_state \<Rightarrow> button_state" where
  "set_button b pressed s = set_bit_at s (button_index b) (\<not> pressed)"

definition is_pressed :: "button \<Rightarrow> button_state \<Rightarrow> bool" where
  "is_pressed b s \<longleftrightarrow> \<not> bit_at s (button_index b)"

datatype pad_state = PadIdle | PadReady | PadIdHigh | PadButtonsLow | PadButtonsHigh

record digital_pad =
  dp_buttons :: button_state
  dp_state :: pad_state

definition digital_pad_default :: digital_pad where
  "digital_pad_default = \<lparr>dp_buttons = buttons_default, dp_state = PadIdle\<rparr>"

definition digital_transfer :: "u8 \<Rightarrow> digital_pad \<Rightarrow> (u8 \<times> bool) \<times> digital_pad" where
  "digital_transfer val p =
     (case dp_state p of
        PadIdle \<Rightarrow> if val = 0x1 then ((0xff, True), p\<lparr>dp_state := PadReady\<rparr>) else ((0xff, False), p)
      | PadReady \<Rightarrow> if val = 0x42 then ((0x41, True), p\<lparr>dp_state := PadIdHigh\<rparr>) else ((0xff, False), p)
      | PadIdHigh \<Rightarrow> ((0x5a, True), p\<lparr>dp_state := PadButtonsLow\<rparr>)
      | PadButtonsLow \<Rightarrow>
          (let p = p\<lparr>dp_state := PadButtonsHigh, dp_buttons := set_button L3 False (set_button R3 False (dp_buttons p))\<rparr>
           in ((ucast (bit_range (dp_buttons p) 0 7), True), p))
      | PadButtonsHigh \<Rightarrow> ((ucast (bit_range (dp_buttons p) 8 15), False), p\<lparr>dp_state := PadIdle\<rparr>))"

datatype pad_kind = Digital digital_pad

definition new_digital :: pad_kind where "new_digital = Digital digital_pad_default"

fun pad_transfer :: "u8 \<Rightarrow> pad_kind \<Rightarrow> (u8 \<times> bool) \<times> pad_kind" where
  "pad_transfer val (Digital p) = apsnd Digital (digital_transfer val p)"

text \<open>\<open>button_state\<close> returns a copy, and \<open>PadKind::set_button\<close> sets the button in the copy.\<close>

fun pad_set_button :: "button \<Rightarrow> bool \<Rightarrow> pad_kind \<Rightarrow> pad_kind" where
  "pad_set_button b pressed (Digital p) = (let copy = set_button b pressed (dp_buttons p) in Digital p)"

fun pad_reset :: "pad_kind \<Rightarrow> pad_kind" where
  "pad_reset (Digital p) = Digital (p\<lparr>dp_state := PadIdle\<rparr>)"

type_synonym game_pads = "io_slot \<Rightarrow> pad_kind option"

definition reset_pads :: "game_pads \<Rightarrow> game_pads" where
  "reset_pads pads = (\<lambda>s. map_option pad_reset (pads s))"

section \<open>A poll\<close>

fun pad_transfers :: "u8 list \<Rightarrow> pad_kind \<Rightarrow> (u8 \<times> bool) list \<times> pad_kind" where
  "pad_transfers [] p = ([], p)"
| "pad_transfers (v # vs) p = (let (r, p) = pad_transfer v p; (rs, p) = pad_transfers vs p in (r # rs, p))"

text \<open>A poll gives the identifier and the buttons, with the two sticks released, and leaves the pad idle.\<close>

lemma pad_poll:
  assumes "dp_state p = PadIdle" "b = set_button L3 False (set_button R3 False (dp_buttons p))"
  shows "pad_transfers [0x01, 0x42, x, y, z] (Digital p)
    = ([(0xff, True), (0x41, True), (0x5a, True), (ucast (bit_range b 0 7), True), (ucast (bit_range b 8 15), False)],
       Digital (p\<lparr>dp_buttons := b\<rparr>))"
  using assms by (simp add: digital_transfer_def)

lemma is_pressed_set: "is_pressed b (set_button b' pressed s) \<longleftrightarrow> (if b = b' then pressed else is_pressed b s)"
  by (cases b; cases b') (simp_all add: is_pressed_def set_button_def bit_at_iff bits_simps)

end
