(* ===== verification/MemCard.thy ===== *)
theory MemCard
  imports IoPad "HOL-Library.Monad_Syntax"
begin

text \<open>
  \<open>crates/splst_core/src/io_port/memcard.rs\<close>: memory cards. The flash is a list of bytes, a sector
  outside it is \<^term>\<open>None\<close>. Writing the file of a card is a parameter \<open>write_file\<close> that gives an
  error or none. An offset has 64 bits, as \<open>usize\<close>.
\<close>

section \<open>State\<close>

definition SECTOR_SIZE :: nat where "SECTOR_SIZE = 128"
definition FLASH_SIZE :: nat where "FLASH_SIZE = 16 * 64 * SECTOR_SIZE"

datatype card_error = McIoError | McInvalidSize nat

datatype write_state =
    WrCardId1 | WrCardId2 | WrAddrHi | WrAddrLo | WrData u64 | WrChecksum | WrAck1 | WrAck2 | WrEnd

datatype read_state =
    RdCardId1 | RdCardId2 | RdAddrHi | RdAddrLo | RdAck1 | RdAck2 | RdConfirmAddrHi | RdConfirmAddrLo
  | RdData u64 | RdChecksum | RdEnd

datatype id_state =
    IdCardId1 | IdCardId2 | IdAck1 | IdAck2 | IdRest1 | IdRest2 | IdRest3 | IdRest4

datatype card_state = McIdle | McCommand | McWrite write_state | McRead read_state | McId id_state

record mem_card =
  mc_flash :: "u8 list"
  mc_state :: card_state
  mc_addr :: u16
  mc_last_byte :: u8
  mc_has_written :: bool
  mc_changed :: bool
  mc_write_sector :: "u8 list"
  mc_save_path :: "string option"
  mc_error :: "card_error option"

definition memcard_new :: "string option \<Rightarrow> u8 list \<Rightarrow> mem_card" where
  "memcard_new path flash = \<lparr>mc_flash = flash, mc_state = McIdle, mc_addr = 0, mc_last_byte = 0,
     mc_has_written = False, mc_changed = False, mc_write_sector = replicate SECTOR_SIZE 0,
     mc_save_path = path, mc_error = None\<rparr>"

text \<open>\<open>load_from\<close>, with what reading the file has given.\<close>

definition memcard_load_from :: "string \<Rightarrow> u8 list option \<Rightarrow> card_error + mem_card" where
  "memcard_load_from path contents =
     (case contents of
        None \<Rightarrow> Inl McIoError
      | Some data \<Rightarrow> if length data < FLASH_SIZE then Inl (McInvalidSize (length data))
                      else Inr (memcard_new (Some path) data))"

type_synonym write_file = "string \<Rightarrow> u8 list \<Rightarrow> card_error option"

definition memcard_save :: "write_file \<Rightarrow> mem_card \<Rightarrow> mem_card" where
  "memcard_save wr c =
     (case mc_save_path c of
        None \<Rightarrow> c
      | Some path \<Rightarrow> (case wr path (mc_flash c) of None \<Rightarrow> c | Some err \<Rightarrow> c\<lparr>mc_error := Some err\<rparr>))"

definition memcard_flags :: "mem_card \<Rightarrow> u8" where
  "memcard_flags c = push_bit 3 (of_bool (\<not> mc_has_written c))"

definition checksum :: "u8 list \<Rightarrow> u8" where
  "checksum mem = foldl (XOR) 0 mem"

definition card_sector :: "u8 list \<Rightarrow> u16 \<Rightarrow> u8 list option" where
  "card_sector flash idx =
     (let start = unat idx * SECTOR_SIZE; finish = start + SECTOR_SIZE
      in if finish \<le> length flash then Some (take SECTOR_SIZE (drop start flash)) else None)"

definition store_sector :: "u16 \<Rightarrow> u8 list \<Rightarrow> u8 list \<Rightarrow> u8 list option" where
  "store_sector idx bytes flash =
     (let start = unat idx * SECTOR_SIZE; finish = start + SECTOR_SIZE
      in if finish \<le> length flash then Some (take start flash @ bytes @ drop finish flash) else None)"

section \<open>Formatting\<close>

fun poke_bytes :: "(nat \<times> u8) list \<Rightarrow> u8 list \<Rightarrow> u8 list" where
  "poke_bytes [] d = d"
| "poke_bytes ((i, b) # bs) d = poke_bytes bs (d[i := b])"

definition seal :: "u8 list \<Rightarrow> u8 list" where
  "seal d = d[127 := checksum (take 127 d)]"

fun format_sectors :: "nat list \<Rightarrow> (nat \<times> u8) list \<Rightarrow> u8 list \<Rightarrow> u8 list option" where
  "format_sectors [] bs flash = Some flash"
| "format_sectors (i # is) bs flash = do {
     d \<leftarrow> card_sector flash (word_of_nat i);
     flash \<leftarrow> store_sector (word_of_nat i) (seal (poke_bytes bs d)) flash;
     format_sectors is bs flash }"

definition format_card :: "u8 list option" where
  "format_card = do {
     let flash = replicate FLASH_SIZE 0;
     let flash = seal (poke_bytes [(0, 0x4d), (1, 0x43)] flash);
     flash \<leftarrow> format_sectors [1..<16] [(0, 0xa0), (8, 0xff), (9, 0xff)] flash;
     format_sectors [16..<36] [(0, 0xff), (1, 0xff), (2, 0xff), (3, 0xff), (8, 0xff), (9, 0xff)] flash }"

definition memcard_fresh_to :: "string option \<Rightarrow> mem_card option" where
  "memcard_fresh_to path = map_option (memcard_new path) format_card"

definition check_format :: "u8 list \<Rightarrow> bool" where
  "check_format flash \<longleftrightarrow> flash ! 0 = 0x4d \<and> flash ! 1 = 0x43 \<and> checksum (take 127 flash) = flash ! 127
     \<and> list_all (\<lambda>i. case card_sector flash (word_of_nat i) of None \<Rightarrow> False
          | Some d \<Rightarrow> checksum (take 127 d) = d ! 127) [1..<16]"

section \<open>Transfers\<close>

text \<open>
  A step gives the reply, whether the code returned before it stores the byte as the last one, and
  the card.
\<close>

type_synonym card_step = "(u8 \<times> bool) \<times> bool \<times> mem_card"

definition memcard_command :: "u8 \<Rightarrow> mem_card \<Rightarrow> card_step" where
  "memcard_command val c =
     (let go = (\<lambda>st. ((memcard_flags c, True), False, c\<lparr>mc_state := st\<rparr>))
      in if val = 0x52 then go (McRead RdCardId1)
         else if val = 0x53 then go (McId IdCardId1)
         else if val = 0x57 then go (McWrite WrCardId1)
         else ((memcard_flags c, False), True, c\<lparr>mc_state := McIdle\<rparr>))"

definition set_addr_hi :: "u8 \<Rightarrow> mem_card \<Rightarrow> mem_card" where
  "set_addr_hi val c = c\<lparr>mc_addr := set_bit_range (mc_addr c) 8 15 (ucast val)\<rparr>"

definition set_addr_lo :: "u8 \<Rightarrow> mem_card \<Rightarrow> mem_card" where
  "set_addr_lo val c = c\<lparr>mc_addr := set_bit_range (mc_addr c) 0 7 (ucast val)\<rparr>"

definition addr_hi :: "mem_card \<Rightarrow> u8" where "addr_hi c = ucast (drop_bit 8 (mc_addr c))"
definition addr_lo :: "mem_card \<Rightarrow> u8" where "addr_lo c = ucast (mc_addr c)"

text \<open>Reading. The offset of the data counts down from zero.\<close>

definition memcard_read :: "read_state \<Rightarrow> u8 \<Rightarrow> mem_card \<Rightarrow> card_step option" where
  "memcard_read st val c =
     (let step = (\<lambda>out st c. Some ((out, True), False, c\<lparr>mc_state := McRead st\<rparr>))
      in case st of
        RdCardId1 \<Rightarrow> step 0x5a RdCardId2 c
      | RdCardId2 \<Rightarrow> step 0x5d RdAddrHi c
      | RdAddrHi \<Rightarrow> step 0x0 RdAddrLo (set_addr_hi val c)
      | RdAddrLo \<Rightarrow> step (mc_last_byte c) RdAck1 (set_addr_lo val c)
      | RdAck1 \<Rightarrow> step 0x5c RdAck2 c
      | RdAck2 \<Rightarrow> step 0x5d RdConfirmAddrHi c
      | RdConfirmAddrHi \<Rightarrow> step (addr_hi c) RdConfirmAddrLo c
      | RdConfirmAddrLo \<Rightarrow> step (addr_lo c) (RdData 0) c
      | RdData offset \<Rightarrow> do {
          d \<leftarrow> card_sector (mc_flash c) (mc_addr c);
          if offset < 127 then step (d ! unat offset) (RdData (offset - 1)) c else step (d ! 127) RdChecksum c }
      | RdChecksum \<Rightarrow> do {
          d \<leftarrow> card_sector (mc_flash c) (mc_addr c);
          step (checksum (take 127 d) XOR addr_hi c XOR addr_lo c) RdEnd c }
      | RdEnd \<Rightarrow> Some ((0x47, True), True, c\<lparr>mc_state := McIdle\<rparr>))"

definition commit_sector :: "write_file \<Rightarrow> mem_card \<Rightarrow> card_step option" where
  "commit_sector wr c =
     (let c = c\<lparr>mc_state := McIdle\<rparr>
      in if mc_addr c \<le> 0x3ff then do {
           old \<leftarrow> card_sector (mc_flash c) (mc_addr c);
           flash \<leftarrow> store_sector (mc_addr c) (mc_write_sector c) (mc_flash c);
           let c = c\<lparr>mc_flash := flash, mc_changed := mc_changed c \<or> old \<noteq> mc_write_sector c\<rparr>;
           let sum = checksum (mc_write_sector c) XOR addr_hi c XOR addr_lo c;
           let out = (if sum \<noteq> 0 then 0x4e else 0x47);
           Some ((out, True), True, memcard_save wr c) }
         else Some ((0xff, True), True, c))"

definition memcard_write :: "write_file \<Rightarrow> write_state \<Rightarrow> u8 \<Rightarrow> mem_card \<Rightarrow> card_step option" where
  "memcard_write wr st val c =
     (let step = (\<lambda>out st c. Some ((out, True), False, c\<lparr>mc_state := McWrite st\<rparr>))
      in case st of
        WrCardId1 \<Rightarrow> step 0x5a WrCardId2 c
      | WrCardId2 \<Rightarrow> step 0x5d WrAddrHi c
      | WrAddrHi \<Rightarrow> step 0x0 WrAddrLo (set_addr_hi val c)
      | WrAddrLo \<Rightarrow> step (mc_last_byte c) (WrData 0) (set_addr_lo val c)
      | WrData offset \<Rightarrow>
          if offset < 127 then
            step (mc_last_byte c) (WrData (offset + 1))
              (c\<lparr>mc_has_written := True, mc_write_sector := (mc_write_sector c)[unat offset := val]\<rparr>)
          else step (mc_last_byte c) WrChecksum (c\<lparr>mc_write_sector := (mc_write_sector c)[127 := val]\<rparr>)
      | WrChecksum \<Rightarrow> step (mc_last_byte c) WrAck1 c
      | WrAck1 \<Rightarrow> step 0x5c WrAck2 c
      | WrAck2 \<Rightarrow> step 0x5d WrEnd c
      | WrEnd \<Rightarrow> commit_sector wr c)"

definition memcard_id :: "id_state \<Rightarrow> mem_card \<Rightarrow> card_step" where
  "memcard_id st c =
     (let step = (\<lambda>out st. ((out, True), False, c\<lparr>mc_state := McId st\<rparr>))
      in case st of
        IdCardId1 \<Rightarrow> step 0x5a IdCardId2
      | IdCardId2 \<Rightarrow> step 0x5d IdAck1
      | IdAck1 \<Rightarrow> step 0x5c IdAck2
      | IdAck2 \<Rightarrow> step 0x5d IdRest1
      | IdRest1 \<Rightarrow> step 0x04 IdRest2
      | IdRest2 \<Rightarrow> step 0x00 IdRest3
      | IdRest3 \<Rightarrow> step 0x00 IdRest4
      | IdRest4 \<Rightarrow> ((0x80, True), True, c\<lparr>mc_state := McIdle\<rparr>))"

definition memcard_transfer :: "write_file \<Rightarrow> u8 \<Rightarrow> mem_card \<Rightarrow> ((u8 \<times> bool) \<times> mem_card) option" where
  "memcard_transfer wr val c = do {
     (out, early, c) \<leftarrow>
       (case mc_state c of
          McIdle \<Rightarrow> Some (if val = 0x81 then ((0xff, True), False, c\<lparr>mc_state := McCommand\<rparr>)
                          else ((0xff, False), False, c))
        | McCommand \<Rightarrow> Some (memcard_command val c)
        | McRead st \<Rightarrow> memcard_read st val c
        | McWrite st \<Rightarrow> memcard_write wr st val c
        | McId st \<Rightarrow> Some (memcard_id st c));
     Some (out, if early then c else c\<lparr>mc_last_byte := val\<rparr>) }"

type_synonym mem_cards = "io_slot \<Rightarrow> mem_card option"

definition reset_cards :: "mem_cards \<Rightarrow> mem_cards" where
  "reset_cards cards = (\<lambda>s. map_option (\<lambda>c. c\<lparr>mc_state := McIdle, mc_addr := 0, mc_last_byte := 0\<rparr>) (cards s))"

section \<open>Writing and reading a sector\<close>

fun card_transfers :: "write_file \<Rightarrow> u8 list \<Rightarrow> mem_card \<Rightarrow> ((u8 \<times> bool) list \<times> mem_card) option" where
  "card_transfers wr [] c = Some ([], c)"
| "card_transfers wr (v # vs) c = do {
     (r, c) \<leftarrow> memcard_transfer wr v c;
     (rs, c) \<leftarrow> card_transfers wr vs c;
     Some (r # rs, c) }"

lemma card_transfers_append:
  "card_transfers wr (us @ vs) c = do {
     (rs, c) \<leftarrow> card_transfers wr us c; (ss, c) \<leftarrow> card_transfers wr vs c; Some (rs @ ss, c) }"
proof (induction us arbitrary: c)
  case Nil
  show ?case by (cases "card_transfers wr vs c") auto
next
  case (Cons u us)
  show ?case
  proof (cases "memcard_transfer wr u c")
    case (Some x)
    obtain r d where x: "x = (r, d)" by (cases x)
    show ?thesis
    proof (cases "card_transfers wr us d")
      case (Some y)
      then show ?thesis using Cons [of d] \<open>memcard_transfer wr u c = Some x\<close> x
        by (cases y; cases "card_transfers wr vs (snd y)") auto
    next
      case None
      then show ?thesis using Cons [of d] \<open>memcard_transfer wr u c = Some x\<close> x by simp
    qed
  qed simp
qed

lemma card_transfers_appendI:
  "card_transfers wr us c = Some (rs, c1) \<Longrightarrow> card_transfers wr vs c1 = Some (ss, c2) \<Longrightarrow>
     card_transfers wr (us @ vs) c = Some (rs @ ss, c2)"
  by (simp add: card_transfers_append)

lemma addr_of_bytes:
  "set_bit_range (set_bit_range a 8 15 (ucast (ucast (drop_bit 8 b) :: u8))) 0 7 (ucast (ucast b :: u8)) = (b :: u16)"
  by (rule bit_word_eqI) (auto simp: bit_simps bits_simps)

text \<open>The bytes that open a sequence at an address: the card has it after them.\<close>

definition address_bytes :: "u16 \<Rightarrow> u8 list" where
  "address_bytes a = [ucast (drop_bit 8 a), ucast a]"

definition same_card :: "mem_card \<Rightarrow> mem_card \<Rightarrow> bool" where
  "same_card c c' \<longleftrightarrow> mc_flash c' = mc_flash c \<and> length (mc_write_sector c') = length (mc_write_sector c)"

lemma open_write:
  assumes "mc_state c = McIdle"
  shows "\<exists>rs c'. card_transfers wr ([0x81, 0x57, 0, 0] @ address_bytes a) c = Some (rs, c') \<and> list_all snd rs
    \<and> mc_state c' = McWrite (WrData 0) \<and> mc_addr c' = a \<and> same_card c c'"
  using assms addr_of_bytes
  by (simp add: address_bytes_def memcard_transfer_def memcard_command_def memcard_write_def set_addr_hi_def set_addr_lo_def
      same_card_def)

lemma open_read:
  assumes "mc_state c = McIdle"
  shows "\<exists>rs c'. card_transfers wr ([0x81, 0x52, 0, 0] @ address_bytes a @ [0, 0, 0, 0]) c = Some (rs, c') \<and> list_all snd rs
    \<and> length rs = 10 \<and> mc_state c' = McRead (RdData 0) \<and> mc_addr c' = a \<and> same_card c c'"
  using assms addr_of_bytes
  by (simp add: address_bytes_def memcard_transfer_def memcard_command_def memcard_read_def set_addr_hi_def set_addr_lo_def
      same_card_def)

lemma write_data:
  "vs \<noteq> [] \<Longrightarrow> k + length vs = 128 \<Longrightarrow> mc_state c = McWrite (WrData (word_of_nat k)) \<Longrightarrow> length (mc_write_sector c) = 128 \<Longrightarrow>
     \<exists>rs c'. card_transfers wr vs c = Some (rs, c') \<and> list_all snd rs \<and> mc_state c' = McWrite WrChecksum
       \<and> mc_addr c' = mc_addr c \<and> mc_flash c' = mc_flash c \<and> mc_write_sector c' = take k (mc_write_sector c) @ vs"
proof (induction vs arbitrary: k c)
  case (Cons v vs)
  let ?ws = "(mc_write_sector c)[k := v]"
  have k: "k < 128" "unat (word_of_nat k :: u64) = k" using Cons.prems(2)
    by (simp_all add: unsigned_of_nat take_bit_nat_eq_self)
  show ?case
  proof (cases "vs = []")
    case True
    then have "k = 127" using Cons.prems(2) by simp
    moreover have "take 127 (mc_write_sector c) @ [v] = (mc_write_sector c)[127 := v]"
      using Cons.prems(4) by (simp add: upd_conv_take_nth_drop)
    ultimately show ?thesis
      using True Cons.prems(3) by (simp add: memcard_transfer_def memcard_write_def word_less_nat_alt)
  next
    case False
    let ?c = "c\<lparr>mc_has_written := True, mc_write_sector := ?ws, mc_state := McWrite (WrData (word_of_nat (Suc k))),
      mc_last_byte := v\<rparr>"
    have "k < 127" using Cons.prems(2) False by (cases vs) auto
    then have "(word_of_nat k :: u64) < 127" using k(2) by (simp add: word_less_nat_alt del: unat_of_nat)
    then have t: "memcard_transfer wr v c = Some ((mc_last_byte c, True), ?c)"
      using Cons.prems(3) k(2) by (simp add: memcard_transfer_def memcard_write_def add.commute del: unat_of_nat)
    have "take (Suc k) ?ws = take k (mc_write_sector c) @ [v]"
      using k(1) Cons.prems(4) by (simp add: take_Suc_conv_app_nth)
    then show ?thesis
      using Cons.IH [of "Suc k" ?c] False Cons.prems t by auto
  qed
qed simp

lemma commit_sector_stores:
  assumes "mc_addr c \<le> 0x3ff" "length (mc_flash c) = FLASH_SIZE"
  shows "\<exists>c'. commit_sector wr c =
      Some ((if checksum (mc_write_sector c) = addr_hi c XOR addr_lo c then 0x47 else 0x4e, True), True, c')
    \<and> mc_state c' = McIdle
    \<and> mc_flash c' = take (unat (mc_addr c) * 128) (mc_flash c) @ mc_write_sector c
        @ drop (unat (mc_addr c) * 128 + 128) (mc_flash c)"
proof -
  have "unat (mc_addr c) < 1024" using assms(1) by (simp add: word_le_nat_alt)
  then have fits: "unat (mc_addr c) * 128 + 128 \<le> length (mc_flash c)"
    using assms(2) by (simp add: FLASH_SIZE_def SECTOR_SIZE_def)
  let ?d = "c\<lparr>mc_state := McIdle\<rparr>"
  obtain old where old: "card_sector (mc_flash ?d) (mc_addr ?d) = Some old"
    using fits by (simp add: card_sector_def SECTOR_SIZE_def Let_def)
  have stored: "store_sector (mc_addr ?d) (mc_write_sector ?d) (mc_flash ?d) =
      Some (take (unat (mc_addr c) * 128) (mc_flash c) @ mc_write_sector c @ drop (unat (mc_addr c) * 128 + 128) (mc_flash c))"
    using fits by (simp add: store_sector_def SECTOR_SIZE_def Let_def)
  have save: "mc_state (memcard_save wr d) = mc_state d" "mc_flash (memcard_save wr d) = mc_flash d" for d
    by (simp_all add: memcard_save_def split: option.split)
  have xor: "a XOR b = 0 \<longleftrightarrow> a = b" for a b :: u8
    by (auto simp: bit_eq_iff bit_simps)
  have addr: "addr_hi (d\<lparr>mc_flash := f, mc_changed := b\<rparr>) = addr_hi d" "addr_lo (d\<lparr>mc_flash := f, mc_changed := b\<rparr>) = addr_lo d"
    "addr_hi ?d = addr_hi c" "addr_lo ?d = addr_lo c" for d f b
    by (simp_all add: addr_hi_def addr_lo_def)
  have le: "mc_addr ?d \<le> 0x3ff" using assms(1) by simp
  have "checksum (mc_write_sector c) XOR addr_hi c XOR addr_lo c \<noteq> 0 \<longleftrightarrow> checksum (mc_write_sector c) \<noteq> addr_hi c XOR addr_lo c"
    by (simp only: xor)
  then show ?thesis
    unfolding commit_sector_def Let_def
    by (simp only: if_P [OF le] old stored Option.bind.simps addr save) (simp add: addr save)
qed

lemma write_end:
  assumes "mc_state c = McWrite WrChecksum" "mc_addr c \<le> 0x3ff" "length (mc_flash c) = FLASH_SIZE"
  shows "\<exists>rs c'. card_transfers wr [x, y, z, w] c = Some (rs, c') \<and> list_all snd rs \<and> mc_state c' = McIdle
    \<and> mc_flash c' = take (unat (mc_addr c) * 128) (mc_flash c) @ mc_write_sector c
        @ drop (unat (mc_addr c) * 128 + 128) (mc_flash c)
    \<and> fst (last rs) = (if checksum (mc_write_sector c) = addr_hi c XOR addr_lo c then 0x47 else 0x4e)"
proof -
  let ?c = "c\<lparr>mc_state := McWrite WrEnd, mc_last_byte := z\<rparr>"
  obtain rs where rs: "card_transfers wr [x, y, z] c = Some (rs, ?c)" "list_all snd rs"
    using assms(1) by (simp add: memcard_transfer_def memcard_write_def)
  have fields: "mc_addr ?c = mc_addr c" "mc_flash ?c = mc_flash c" "mc_write_sector ?c = mc_write_sector c"
    "addr_hi ?c = addr_hi c" "addr_lo ?c = addr_lo c"
    by (simp_all add: addr_hi_def addr_lo_def)
  obtain r c' where c': "commit_sector wr ?c = Some ((r, True), True, c')" "mc_state c' = McIdle"
    "r = (if checksum (mc_write_sector c) = addr_hi c XOR addr_lo c then 0x47 else 0x4e)"
    "mc_flash c' = take (unat (mc_addr c) * 128) (mc_flash c) @ mc_write_sector c
        @ drop (unat (mc_addr c) * 128 + 128) (mc_flash c)"
    using commit_sector_stores [of ?c wr] assms(2,3) unfolding fields by blast
  have "card_transfers wr [w] ?c = Some ([(r, True)], c')"
    using c'(1) by (simp add: memcard_transfer_def memcard_write_def)
  then have "card_transfers wr ([x, y, z] @ [w]) c = Some (rs @ [(r, True)], c')"
    by (rule card_transfers_appendI [OF rs(1)])
  then show ?thesis using rs(2) c'(2-4) by simp
qed

text \<open>The whole sequence.\<close>

definition write_sequence :: "u16 \<Rightarrow> u8 list \<Rightarrow> u8 \<Rightarrow> u8 list" where
  "write_sequence a data chk = [0x81, 0x57, 0, 0] @ address_bytes a @ data @ [chk, 0, 0, 0]"

lemma write_sector_stores:
  assumes "mc_state c = McIdle" "a \<le> 0x3ff" "length (mc_flash c) = FLASH_SIZE" "length (mc_write_sector c) = 128"
    and "length data = 128"
  shows "\<exists>rs c'. card_transfers wr (write_sequence a data chk) c = Some (rs, c') \<and> list_all snd rs \<and> mc_state c' = McIdle
    \<and> mc_flash c' = take (unat a * 128) (mc_flash c) @ data @ drop (unat a * 128 + 128) (mc_flash c)
    \<and> fst (last rs) = (if checksum data = ucast (drop_bit 8 a) XOR ucast a then 0x47 else 0x4e)"
proof -
  obtain rs1 c1 where 1: "card_transfers wr ([0x81, 0x57, 0, 0] @ address_bytes a) c = Some (rs1, c1)" "list_all snd rs1"
    "mc_state c1 = McWrite (WrData 0)" "mc_addr c1 = a" "same_card c c1"
    using open_write [OF assms(1)] by blast
  have "data \<noteq> []" using assms(5) by auto
  then obtain rs2 c2 where 2: "card_transfers wr data c1 = Some (rs2, c2)" "list_all snd rs2" "mc_state c2 = McWrite WrChecksum"
    "mc_addr c2 = a" "mc_flash c2 = mc_flash c" "mc_write_sector c2 = data"
    using write_data [of data 0 c1 wr] assms(4,5) 1(3-5) by (auto simp: same_card_def)
  obtain rs3 c3 where 3: "card_transfers wr [chk, 0, 0, 0] c2 = Some (rs3, c3)" "list_all snd rs3" "mc_state c3 = McIdle"
    "mc_flash c3 = take (unat a * 128) (mc_flash c) @ data @ drop (unat a * 128 + 128) (mc_flash c)"
    "fst (last rs3) = (if checksum data = addr_hi c2 XOR addr_lo c2 then 0x47 else 0x4e)"
    using write_end [of c2 wr chk 0 0 0] 2 assms(2,3,5) by auto
  have "rs3 \<noteq> []" using 3(1) by (auto split: bind_splits)
  moreover have "card_transfers wr (([0x81, 0x57, 0, 0] @ address_bytes a) @ data @ [chk, 0, 0, 0]) c = Some (rs1 @ rs2 @ rs3, c3)"
    by (rule card_transfers_appendI [OF 1(1) card_transfers_appendI [OF 2(1) 3(1)]])
  ultimately show ?thesis
    using 1(2) 2(2,4) 3(2-5) by (auto simp: write_sequence_def addr_hi_def addr_lo_def)
qed

text \<open>Reading gives the first byte and the last one of the sector.\<close>

definition read_sequence :: "u16 \<Rightarrow> u8 list" where
  "read_sequence a = ([0x81, 0x52, 0, 0] @ address_bytes a @ [0, 0, 0, 0]) @ [0, 0, 0, 0]"

lemma read_sector_ends:
  assumes "mc_state c = McIdle" "card_sector (mc_flash c) a = Some d"
  shows "\<exists>rs c'. card_transfers wr (read_sequence a) c = Some (rs, c') \<and> list_all snd rs \<and> mc_state c' = McIdle
    \<and> mc_flash c' = mc_flash c
    \<and> drop 10 (map fst rs) = [d ! 0, d ! 127, checksum (take 127 d) XOR ucast (drop_bit 8 a) XOR ucast a, 0x47]"
proof -
  obtain rs1 c1 where 1: "card_transfers wr ([0x81, 0x52, 0, 0] @ address_bytes a @ [0, 0, 0, 0]) c = Some (rs1, c1)"
    "list_all snd rs1" "length rs1 = 10" "mc_state c1 = McRead (RdData 0)" "mc_addr c1 = a" "same_card c c1"
    using open_read [OF assms(1)] by blast
  have wrap: "\<not> (0 :: u64) - 1 < 127" by simp
  obtain rs2 c2 where 2: "card_transfers wr [0, 0, 0, 0] c1 = Some (rs2, c2)" "list_all snd rs2" "mc_state c2 = McIdle"
    "mc_flash c2 = mc_flash c"
    "map fst rs2 = [d ! 0, d ! 127, checksum (take 127 d) XOR ucast (drop_bit 8 a) XOR ucast a, 0x47]"
    using 1(4-6) assms(2) wrap
    by (simp add: memcard_transfer_def memcard_read_def Let_def same_card_def addr_hi_def addr_lo_def)
  have "card_transfers wr (read_sequence a) c = Some (rs1 @ rs2, c2)"
    unfolding read_sequence_def by (rule card_transfers_appendI [OF 1(1) 2(1)])
  then show ?thesis using 1(2,3) 2(2-5) by simp
qed

end
