(* ===== verification/IoPort.thy ===== *)
theory IoPort
  imports MemCard Schedule AddrUnit
begin

text \<open>
  \<open>crates/splst_core/src/io_port/mod.rs\<close>: the serial port of the game pads and memory cards. The pads
  and cards, shared with the front end in the code, are fields of the state. \<^term>\<open>None\<close> is a panic.
\<close>

section \<open>Registers\<close>

datatype io_state = IoIdle | InTrans event_id | WaitingForAck event_id
datatype io_device = PadDevice | CardDevice

fun is_transmitting :: "io_state \<Rightarrow> bool" where
  "is_transmitting IoIdle = False"
| "is_transmitting (InTrans e) = True"
| "is_transmitting (WaitingForAck e) = True"

definition io_tx_enabled :: "u16 \<Rightarrow> bool" where "io_tx_enabled c = bit_at c 0"
definition io_select :: "u16 \<Rightarrow> bool" where "io_select c = bit_at c 1"
definition io_ack :: "u16 \<Rightarrow> bool" where "io_ack c = bit_at c 4"
definition io_reset :: "u16 \<Rightarrow> bool" where "io_reset c = bit_at c 6"
definition io_ack_irq_enabled :: "u16 \<Rightarrow> bool" where "io_ack_irq_enabled c = bit_at c 12"
definition io_slot_of :: "u16 \<Rightarrow> io_slot" where "io_slot_of c = (if bit_at c 13 then Slot2 else Slot1)"

definition baud_reload_factor :: "u16 \<Rightarrow> u16" where
  "baud_reload_factor m = (let f = bit_range m 0 1 in if f = 2 then 16 else if f = 3 then 64 else 1)"

definition char_width :: "u16 \<Rightarrow> u16" where "char_width m = bit_range m 2 3 + 5"

record io_port =
  io_st :: io_state
  io_active :: "io_device option"
  io_control :: u16
  io_status :: u32
  io_mode :: u16
  io_baud :: u16
  io_rx :: "u8 option"
  io_tx :: "u8 option"
  io_tx_val :: u8
  io_cards :: mem_cards
  io_pads :: game_pads

definition io_port_new :: "game_pads \<Rightarrow> mem_cards \<Rightarrow> io_port" where
  "io_port_new pads cards = \<lparr>io_st = IoIdle, io_active = None, io_control = 0, io_status = 0, io_mode = 0, io_baud = 0,
     io_rx = None, io_tx = None, io_tx_val = 0, io_cards = cards, io_pads = pads\<rparr>"

type_synonym io_world = "schedule \<times> io_port"

definition io_status_reg :: "io_port \<Rightarrow> u32" where
  "io_status_reg p =
     set_bit_at (set_bit_at (set_bit_at (io_status p) 0 (io_tx p = None)) 1 (io_rx p \<noteq> None))
       2 (io_tx p = None \<and> \<not> is_transmitting (io_st p))"

definition can_begin_transfer :: "io_port \<Rightarrow> bool" where
  "can_begin_transfer p \<longleftrightarrow> io_tx p \<noteq> None \<and> io_select (io_control p) \<and> io_tx_enabled (io_control p)"

definition reset_device_states :: "io_port \<Rightarrow> io_port" where
  "reset_device_states p = p\<lparr>io_pads := reset_pads (io_pads p), io_cards := reset_cards (io_cards p)\<rparr>"

definition transfer_interval :: "io_port \<Rightarrow> systime" where
  "transfer_interval p =
     from_cpu_cycles (ucast (io_baud p) * ucast (baud_reload_factor (io_mode p)) * ucast (char_width (io_mode p)))"

section \<open>Transfers\<close>

text \<open>The bit that \<open>set_bit(2, true)\<close> computes for the control register is discarded by the code.\<close>

definition begin_transfer :: "io_world \<Rightarrow> io_world option" where
  "begin_transfer x = (case x of (sch, p) \<Rightarrow> do {
     v \<leftarrow> io_tx p;
     let p = p\<lparr>io_tx := None, io_tx_val := v\<rparr>;
     let (ev, sch) = schedule_event (transfer_interval p) (EvIoPort io_transfer) sch;
     Some (sch, p\<lparr>io_st := InTrans ev\<rparr>) })"

definition stop_transfer :: "io_world \<Rightarrow> io_world" where
  "stop_transfer x = (case x of (sch, p) \<Rightarrow>
     (case io_st p of InTrans e \<Rightarrow> unschedule e sch | WaitingForAck e \<Rightarrow> unschedule e sch | IoIdle \<Rightarrow> sch,
      p\<lparr>io_st := IoIdle\<rparr>))"

definition pad_reply :: "io_slot \<Rightarrow> pad_kind \<Rightarrow> io_port \<Rightarrow> (u8 \<times> bool) \<times> io_port" where
  "pad_reply slot pad p =
     apsnd (\<lambda>pad. p\<lparr>io_pads := (io_pads p)(slot \<mapsto> pad)\<rparr>) (pad_transfer (io_tx_val p) pad)"

definition card_reply :: "write_file \<Rightarrow> io_slot \<Rightarrow> mem_card \<Rightarrow> io_port \<Rightarrow> ((u8 \<times> bool) \<times> io_port) option" where
  "card_reply wr slot mc p =
     map_option (apsnd (\<lambda>mc. p\<lparr>io_cards := (io_cards p)(slot \<mapsto> mc)\<rparr>)) (memcard_transfer wr (io_tx_val p) mc)"

text \<open>Without an active device the pad of the slot is asked first, then the card; the one that
  acknowledges becomes the active device.\<close>

definition select_device :: "write_file \<Rightarrow> io_slot \<Rightarrow> io_port \<Rightarrow> ((u8 \<times> bool) \<times> io_port) option" where
  "select_device wr slot p =
     (let claim = (\<lambda>dev ((v, ack), p). ((v, ack), if ack then p\<lparr>io_active := Some dev\<rparr> else p))
      in case (io_pads p slot, io_cards p slot) of
        (None, None) \<Rightarrow> Some ((0xff, False), p)
      | (Some pad, Some mc) \<Rightarrow>
          (let ((v, ack), p) = pad_reply slot pad p
           in if \<not> ack then do {
                  ((cv, cack), p) \<leftarrow> card_reply wr slot mc p;
                  Some (if cack then ((cv, True), p\<lparr>io_active := Some CardDevice\<rparr>) else ((v, False), p)) }
              else Some ((v, True), p\<lparr>io_active := Some PadDevice\<rparr>))
      | (Some pad, None) \<Rightarrow> Some (claim PadDevice (pad_reply slot pad p))
      | (None, Some mc) \<Rightarrow> map_option (claim CardDevice) (card_reply wr slot mc p))"

definition device_reply :: "write_file \<Rightarrow> io_port \<Rightarrow> ((u8 \<times> bool) \<times> io_port) option" where
  "device_reply wr p =
     (let slot = io_slot_of (io_control p)
      in case io_active p of
        None \<Rightarrow> select_device wr slot p
      | Some PadDevice \<Rightarrow> Some (case io_pads p slot of None \<Rightarrow> ((0xff, False), p) | Some pad \<Rightarrow> pad_reply slot pad p)
      | Some CardDevice \<Rightarrow>
          (case io_cards p slot of None \<Rightarrow> Some ((0xff, False), p) | Some mc \<Rightarrow> card_reply wr slot mc p))"

definition io_do_transfer :: "write_file \<Rightarrow> io_world \<Rightarrow> io_world option" where
  "io_do_transfer wr x = (case x of (sch, p) \<Rightarrow> do {
     ((val, ack), p) \<leftarrow> device_reply wr p;
     let p = p\<lparr>io_rx := Some val\<rparr>;
     Some (if ack then
             let time = (if io_active p = Some CardDevice then systime_new 300 else systime_new 500);
                 (ev, sch) = schedule_event time (EvIoPort io_ack_input) sch
             in (sch, p\<lparr>io_st := WaitingForAck ev\<rparr>)
           else (sch, p\<lparr>io_st := IoIdle, io_active := None\<rparr>)) })"

definition ack_input :: "io_world \<Rightarrow> io_world option" where
  "ack_input x = (case x of (sch, p) \<Rightarrow>
     let p = p\<lparr>io_status := set_bit_at (io_status p) 7 True\<rparr>;
         (sch, p) = (if io_ack_irq_enabled (io_control p)
           then (snd (trigger (EvIrq CtrlAndMemCard) sch), p\<lparr>io_status := set_bit_at (io_status p) 9 True\<rparr>)
           else (sch, p));
         p = p\<lparr>io_st := IoIdle\<rparr>
     in if can_begin_transfer p then begin_transfer (sch, p) else Some (sch, p))"

definition do_transfer_early :: "write_file \<Rightarrow> io_world \<Rightarrow> io_world option" where
  "do_transfer_early wr x = (case x of (sch, p) \<Rightarrow>
     case io_st p of
       InTrans e \<Rightarrow> io_do_transfer wr (unschedule e sch, p)
     | WaitingForAck e \<Rightarrow> ack_input (unschedule e sch, p)
     | IoIdle \<Rightarrow> Some x)"

definition io_event :: "write_file \<Rightarrow> io_port_callback \<Rightarrow> io_world \<Rightarrow> io_world option" where
  "io_event wr cb x = (case cb of io_transfer \<Rightarrow> io_do_transfer wr x | io_ack_input \<Rightarrow> ack_input x)"

section \<open>The registers on the bus\<close>

definition io_reset_port :: "io_world \<Rightarrow> io_world" where
  "io_reset_port x =
     (let (sch, p) = stop_transfer x; p = reset_device_states p
      in (sch, p\<lparr>io_active := None, io_status := 0, io_mode := 0, io_control := 0, io_tx := None, io_rx := None\<rparr>))"

definition io_store_control :: "u16 \<Rightarrow> io_world \<Rightarrow> io_world option" where
  "io_store_control val x =
     (let x = apsnd (\<lambda>p. p\<lparr>io_control := val\<rparr>) x;
          x = (if io_reset (io_control (snd x)) then io_reset_port x else x);
          x = (if io_ack (io_control (snd x)) then apsnd (\<lambda>p. p\<lparr>io_status := set_bit_at (io_status p) 0 False\<rparr>) x else x);
          x = (if \<not> io_select (io_control (snd x)) then apsnd (\<lambda>p. (reset_device_states p)\<lparr>io_active := None\<rparr>) x else x);
          p = snd x
      in if \<not> io_select (io_control p) \<or> \<not> io_tx_enabled (io_control p) then Some (stop_transfer x)
         else if \<not> is_transmitting (io_st p) \<and> can_begin_transfer p then begin_transfer x
         else Some x)"

definition io_store :: "addr_width \<Rightarrow> u32 \<Rightarrow> u32 \<Rightarrow> io_world \<Rightarrow> io_world option" where
  "io_store w addr val x =
     (if addr = 0 then
        (let x = apsnd (\<lambda>p. p\<lparr>io_tx := Some (as_u8 val)\<rparr>) x; p = snd x
         in if can_begin_transfer p \<and> \<not> is_transmitting (io_st p) then begin_transfer x else Some x)
      else if addr = 8 then Some (apsnd (\<lambda>p. p\<lparr>io_mode := as_u16 val\<rparr>) x)
      else if addr = 10 then io_store_control (as_u16 val) x
      else if addr = 14 then Some (apsnd (\<lambda>p. p\<lparr>io_baud := as_u16 val\<rparr>) x)
      else None)"

definition rx_word :: "u8 option \<Rightarrow> u32" where
  "rx_word rx = (let val = (case rx of None \<Rightarrow> 0xff | Some b \<Rightarrow> ucast b)
     in val OR push_bit 8 val OR push_bit 16 val OR push_bit 24 val)"

definition io_load :: "write_file \<Rightarrow> addr_width \<Rightarrow> u32 \<Rightarrow> io_world \<Rightarrow> (u32 \<times> io_world) option" where
  "io_load wr w addr x = do {
     (val, x) \<leftarrow>
       (if addr = 0 then do {
          (sch, p) \<leftarrow> do_transfer_early wr x;
          Some (rx_word (io_rx p), sch, p\<lparr>io_rx := None\<rparr>) }
        else if addr = 4 then do {
          (sch, p) \<leftarrow> do_transfer_early wr x;
          Some (io_status_reg p, sch, p\<lparr>io_status := set_bit_at (io_status p) 7 False\<rparr>) }
        else if addr = 10 then Some (ucast (io_control (snd x)), x)
        else if addr = 14 then Some (ucast (io_baud (snd x)), x)
        else None);
     Some (from_u32 w val, x) }"

definition io_peek :: "addr_width \<Rightarrow> u32 \<Rightarrow> io_port \<Rightarrow> u32 option" where
  "io_peek w addr p =
     (let a = align_as FullWord addr in do {
        val \<leftarrow>
          (if a = 0 then Some (rx_word (io_rx p))
           else if a = 4 then Some (io_status_reg p)
           else if a = 10 then Some (ucast (io_control p))
           else if a = 14 then Some (ucast (io_baud p))
           else None);
        Some (from_u32_aligned w val addr) })"

text \<open>The control and baud registers are not multiples of four, so a peek never gets there.\<close>

lemma io_peek_registers: "returns (io_peek w addr p) \<longleftrightarrow> align_as FullWord addr \<in> {0, 4}"
proof -
  have "\<not> bit (align_as FullWord addr) 1" by (simp add: bits_simps)
  moreover have "bit (10 :: u32) 1" "bit (14 :: u32) 1" by code_simp+
  ultimately have "align_as FullWord addr \<noteq> 10" "align_as FullWord addr \<noteq> 14" by metis+
  then show ?thesis by (simp add: io_peek_def Let_def)
qed

end
