(* ===== verification/IoCard.thy ===== *)
theory IoCard
  imports IoPort
begin

text \<open>
  A program's exchange with a memory card through the registers of the port.
\<close>

section \<open>Exchanging a byte\<close>

text \<open>Send a byte, take the reply and the acknowledgement. The loads carry out the transfer at once.\<close>

definition exchange :: "write_file \<Rightarrow> u8 \<Rightarrow> io_world \<Rightarrow> ((u8 \<times> bool) \<times> io_world) option" where
  "exchange wr v x = do {
     x \<leftarrow> io_store Byte 0 (ucast v) x;
     (rx, x) \<leftarrow> io_load wr Byte 0 x;
     (st, x) \<leftarrow> io_load wr HalfWord 4 x;
     Some ((ucast rx, bit_at st 7), x) }"

fun exchanges :: "write_file \<Rightarrow> u8 list \<Rightarrow> io_world \<Rightarrow> ((u8 \<times> bool) list \<times> io_world) option" where
  "exchanges wr [] x = Some ([], x)"
| "exchanges wr (v # vs) x = do {
     (r, x) \<leftarrow> exchange wr v x; (rs, x) \<leftarrow> exchanges wr vs x; Some (r # rs, x) }"

definition port_ready :: "io_port \<Rightarrow> bool" where
  "port_ready p \<longleftrightarrow> io_st p = IoIdle \<and> io_tx p = None \<and> io_select (io_control p) \<and> io_tx_enabled (io_control p)"

fun pad_idle :: "pad_kind \<Rightarrow> bool" where "pad_idle (Digital d) \<longleftrightarrow> dp_state d = PadIdle"

text \<open>The card in the selected slot answers: it is the active device, or the byte is not the one the pad
  waits for.\<close>

definition card_listens :: "u8 \<Rightarrow> io_port \<Rightarrow> bool" where
  "card_listens v p \<longleftrightarrow> io_active p = Some CardDevice
     \<or> io_active p = None \<and> v \<noteq> 1 \<and> (\<forall>pad. io_pads p (io_slot_of (io_control p)) = Some pad \<longrightarrow> pad_idle pad)"

definition port_card :: "io_port \<Rightarrow> mem_card option" where
  "port_card p = io_cards p (io_slot_of (io_control p))"

lemma device_reply_card:
  assumes "port_card p = Some c" "card_listens (io_tx_val p) p" "memcard_transfer wr (io_tx_val p) c = Some ((out, True), c')"
  shows "\<exists>p'. device_reply wr p = Some ((out, True), p') \<and> port_card p' = Some c' \<and> io_active p' = Some CardDevice
    \<and> io_control p' = io_control p \<and> io_tx p' = io_tx p"
proof (cases "io_active p")
  case None
  let ?slot = "io_slot_of (io_control p)"
  have v: "io_tx_val p \<noteq> 1" using assms(2) None by (simp add: card_listens_def)
  show ?thesis
  proof (cases "io_pads p ?slot")
    case None
    then show ?thesis
      using assms(1,3) \<open>io_active p = None\<close>
      by (simp add: device_reply_def select_device_def card_reply_def port_card_def Let_def)
  next
    case (Some pad)
    then obtain d where d: "pad = Digital d" "dp_state d = PadIdle"
      using assms(2) \<open>io_active p = None\<close> by (cases pad) (auto simp: card_listens_def)
    then show ?thesis
      using assms(1,3) \<open>io_active p = None\<close> Some v
      by (simp add: device_reply_def select_device_def card_reply_def pad_reply_def port_card_def digital_transfer_def Let_def)
  qed
next
  case (Some dev)
  then show ?thesis
    using assms by (simp add: card_listens_def device_reply_def card_reply_def port_card_def Let_def)
qed

lemma rx_byte: "ucast (from_u32 Byte (rx_word (Some b))) = b"
  by (rule bit_word_eqI) (auto simp: rx_word_def Let_def bits_simps bit_simps)

lemma status_ack_bit: "bit_at (from_u32 HalfWord (io_status_reg p)) 7 = bit (io_status p) 7"
  by (simp add: bit_at_iff io_status_reg_def bits_simps)

lemma ack_input_ready:
  assumes "io_tx p = None"
  shows "\<exists>sch' p'. ack_input (sch, p) = Some (sch', p') \<and> io_st p' = IoIdle \<and> bit (io_status p') 7
    \<and> io_tx p' = None \<and> io_control p' = io_control p \<and> io_active p' = io_active p \<and> io_cards p' = io_cards p"
  using assms by (simp add: ack_input_def can_begin_transfer_def Let_def bits_simps)

lemma exchange_card:
  assumes "port_ready p" "port_card p = Some c" "card_listens v p" "memcard_transfer wr v c = Some ((out, True), c')"
  shows "\<exists>sch' p'. exchange wr v (sch, p) = Some ((out, True), sch', p') \<and> port_ready p' \<and> port_card p' = Some c'
    \<and> io_active p' = Some CardDevice"
proof -
  obtain e1 sch1 where s1: "schedule_event (transfer_interval p) (EvIoPort io_transfer) sch = (e1, sch1)"
    by (cases "schedule_event (transfer_interval p) (EvIoPort io_transfer) sch")
  let ?p1 = "p\<lparr>io_tx := None, io_tx_val := v, io_st := InTrans e1\<rparr>"
  have v: "as_u8 (ucast v :: u32) = v" unfolding as_u8_def by (rule bit_word_eqI) (auto simp: bit_simps dest: bit_imp_le_length)
  have "transfer_interval (p\<lparr>io_tx := None, io_tx_val := v\<rparr>) = transfer_interval p" by (simp add: transfer_interval_def)
  then have stored: "io_store Byte 0 (ucast v) (sch, p) = Some (sch1, ?p1)"
    using assms(1) s1
    by (simp add: io_store_def v port_ready_def can_begin_transfer_def begin_transfer_def Let_def)
  have "port_card ?p1 = Some c" "card_listens (io_tx_val ?p1) ?p1"
    using assms(2,3) by (simp_all add: port_card_def card_listens_def)
  then obtain p2 where p2: "device_reply wr ?p1 = Some ((out, True), p2)" "port_card p2 = Some c'"
    "io_active p2 = Some CardDevice" "io_control p2 = io_control p" "io_tx p2 = None"
    using device_reply_card [of ?p1 c wr out c'] assms(4) by auto
  obtain e2 sch2 where s2: "schedule_event (systime_new 300) (EvIoPort io_ack_input) (unschedule e1 sch1) = (e2, sch2)"
    by (cases "schedule_event (systime_new 300) (EvIoPort io_ack_input) (unschedule e1 sch1)")
  let ?p3 = "p2\<lparr>io_rx := None, io_st := WaitingForAck e2\<rparr>"
  have rx: "io_load wr Byte 0 (sch1, ?p1) = Some (from_u32 Byte (rx_word (Some out)), sch2, ?p3)"
    using p2(1,3) s2 by (simp add: io_load_def do_transfer_early_def io_do_transfer_def Let_def)
  have tx: "io_tx ?p3 = None" using p2(5) by simp
  obtain sch3 p3 where p3: "ack_input (unschedule e2 sch2, ?p3) = Some (sch3, p3)" "io_st p3 = IoIdle" "bit (io_status p3) 7"
    "io_tx p3 = None" "io_control p3 = io_control ?p3" "io_active p3 = io_active ?p3" "io_cards p3 = io_cards ?p3"
    using ack_input_ready [OF tx] by blast
  let ?p4 = "p3\<lparr>io_status := set_bit_at (io_status p3) 7 False\<rparr>"
  have "io_load wr HalfWord 4 (sch2, ?p3) = Some (from_u32 HalfWord (io_status_reg p3), sch3, ?p4)"
    using p3(1) by (simp add: io_load_def do_transfer_early_def)
  then have "exchange wr v (sch, p) = Some ((out, True), sch3, ?p4)"
    using stored rx p3(3) by (simp add: exchange_def rx_byte status_ack_bit)
  moreover have "port_ready ?p4" "port_card ?p4 = Some c'" "io_active ?p4 = Some CardDevice"
    using assms(1) p2 p3 by (simp_all add: port_ready_def port_card_def)
  ultimately show ?thesis by blast
qed

lemma exchanges_active:
  "card_transfers wr vs c = Some (rs, c') \<Longrightarrow> list_all snd rs \<Longrightarrow> port_ready p \<Longrightarrow> port_card p = Some c
     \<Longrightarrow> io_active p = Some CardDevice \<Longrightarrow>
     \<exists>sch' p'. exchanges wr vs (sch, p) = Some (rs, sch', p') \<and> port_ready p' \<and> port_card p' = Some c'
       \<and> io_active p' = Some CardDevice"
proof (induction vs arbitrary: c rs sch p)
  case (Cons v vs)
  then obtain out c1 ss where s: "memcard_transfer wr v c = Some ((out, True), c1)" "card_transfers wr vs c1 = Some (ss, c')"
    "rs = (out, True) # ss" "list_all snd ss"
    by (auto split: bind_splits)
  have listens: "card_listens v p" using Cons.prems(5) by (simp add: card_listens_def)
  obtain sch1 p1 where 1: "exchange wr v (sch, p) = Some ((out, True), sch1, p1)" "port_ready p1" "port_card p1 = Some c1"
    "io_active p1 = Some CardDevice"
    using exchange_card [OF Cons.prems(3,4) listens s(1)] by blast
  obtain sch2 p2 where "exchanges wr vs (sch1, p1) = Some (ss, sch2, p2)" "port_ready p2" "port_card p2 = Some c'"
    "io_active p2 = Some CardDevice"
    using Cons.IH [OF s(2,4) 1(2-4)] by blast
  then show ?case using 1(1) s(3) by simp
qed simp

lemma exchanges_card:
  assumes "card_transfers wr (v # vs) c = Some (rs, c')" "list_all snd rs" "port_ready p" "port_card p = Some c"
    and "card_listens v p"
  shows "\<exists>sch' p'. exchanges wr (v # vs) (sch, p) = Some (rs, sch', p') \<and> port_ready p' \<and> port_card p' = Some c'
    \<and> io_active p' = Some CardDevice"
proof -
  obtain out c1 ss where s: "memcard_transfer wr v c = Some ((out, True), c1)" "card_transfers wr vs c1 = Some (ss, c')"
    "rs = (out, True) # ss" "list_all snd ss"
    using assms(1,2) by (auto split: bind_splits)
  obtain sch1 p1 where 1: "exchange wr v (sch, p) = Some ((out, True), sch1, p1)" "port_ready p1" "port_card p1 = Some c1"
    "io_active p1 = Some CardDevice"
    using exchange_card [OF assms(3-5) s(1)] by blast
  obtain sch2 p2 where "exchanges wr vs (sch1, p1) = Some (ss, sch2, p2)" "port_ready p2" "port_card p2 = Some c'"
    "io_active p2 = Some CardDevice"
    using exchanges_active [OF s(2,4) 1(2-4)] by blast
  then show ?thesis using 1(1) s(3) by simp
qed

section \<open>A sector through the port\<close>

text \<open>C20: A program that sends the write sequence of the memory card through the registers of the port stores
  the sector: the flash holds the data at the address and is otherwise as before, every byte is
  acknowledged, and the last reply is good when the checksum of the data is that of the address (the
  byte the program sends as checksum is not looked at). Of the sector, the read sequence then gives
  only the first and the last byte before the checksum.\<close>

theorem sector_write_read:
  assumes "port_ready p" "port_card p = Some c" "card_listens 0x81 p"
    and "mc_state c = McIdle" "length (mc_flash c) = FLASH_SIZE" "length (mc_write_sector c) = 128"
    and "a \<le> 0x3ff" "length data = 128"
  shows "\<exists>rs sch1 p1 c1 ss sch2 p2. exchanges wr (write_sequence a data chk) (sch, p) = Some (rs, sch1, p1)
    \<and> list_all snd rs \<and> port_card p1 = Some c1
    \<and> mc_flash c1 = take (unat a * 128) (mc_flash c) @ data @ drop (unat a * 128 + 128) (mc_flash c)
    \<and> fst (last rs) = (if checksum data = ucast (drop_bit 8 a) XOR ucast a then 0x47 else 0x4e)
    \<and> exchanges wr (read_sequence a) (sch1, p1) = Some (ss, sch2, p2)
    \<and> drop 10 (map fst ss) = [data ! 0, data ! 127, checksum (take 127 data) XOR ucast (drop_bit 8 a) XOR ucast a, 0x47]"
proof -
  obtain rs c1 where w: "card_transfers wr (write_sequence a data chk) c = Some (rs, c1)" "list_all snd rs"
    "mc_state c1 = McIdle"
    "mc_flash c1 = take (unat a * 128) (mc_flash c) @ data @ drop (unat a * 128 + 128) (mc_flash c)"
    "fst (last rs) = (if checksum data = ucast (drop_bit 8 a) XOR ucast a then 0x47 else 0x4e)"
    using write_sector_stores [OF assms(4,7,5,6,8)] by blast
  have seq: "write_sequence a data chk = 0x81 # ([0x57, 0, 0] @ address_bytes a @ data @ [chk, 0, 0, 0])"
    by (simp add: write_sequence_def)
  obtain sch1 p1 where 1: "exchanges wr (write_sequence a data chk) (sch, p) = Some (rs, sch1, p1)" "port_ready p1"
    "port_card p1 = Some c1" "io_active p1 = Some CardDevice"
    using exchanges_card [OF w(1) [unfolded seq] w(2) assms(1-3), folded seq] by blast
  have "unat a < 1024" using assms(7) by (simp add: word_le_nat_alt)
  then have "card_sector (mc_flash c1) a = Some data"
    using assms(5,8) by (simp add: card_sector_def w(4) Let_def SECTOR_SIZE_def FLASH_SIZE_def)
  then obtain ss c2 where r: "card_transfers wr (read_sequence a) c1 = Some (ss, c2)" "list_all snd ss"
    "drop 10 (map fst ss) = [data ! 0, data ! 127, checksum (take 127 data) XOR ucast (drop_bit 8 a) XOR ucast a, 0x47]"
    using read_sector_ends [OF w(3)] by blast
  obtain sch2 p2 where "exchanges wr (read_sequence a) (sch1, p1) = Some (ss, sch2, p2)"
    using exchanges_active [OF r(1,2) 1(2-4)] by blast
  then show ?thesis using 1(1,3) w(2,4,5) r(3) by blast
qed

text \<open>A port with an empty card and a pad.\<close>

definition small_port :: io_port where
  "small_port = (io_port_new (\<lambda>_. Some new_digital) (\<lambda>_. Some (memcard_new None (replicate FLASH_SIZE 0))))\<lparr>io_control := 3\<rparr>"

theorem sector_write_read_witness:
  "\<exists>rs sch1 p1 ss sch2 p2.
     exchanges (\<lambda>_ _. None) (write_sequence 2 (replicate 128 7) 2) (schedule_new, small_port) = Some (rs, sch1, p1)
     \<and> fst (last rs) = 0x4e
     \<and> exchanges (\<lambda>_ _. None) (read_sequence 2) (sch1, p1) = Some (ss, sch2, p2)
     \<and> drop 10 (map fst ss) = [7, 7, 5, 0x47]"
proof -
  have bits: "io_select 3" "io_tx_enabled 3" by code_simp+
  have p: "port_ready small_port" "port_card small_port = Some (memcard_new None (replicate FLASH_SIZE 0))"
    "card_listens 0x81 small_port"
    by (simp_all add: small_port_def io_port_new_def port_ready_def port_card_def card_listens_def new_digital_def
        digital_pad_default_def bits)
  have c: "mc_state (memcard_new None (replicate FLASH_SIZE 0)) = McIdle"
    "length (mc_flash (memcard_new None (replicate FLASH_SIZE 0))) = FLASH_SIZE"
    "length (mc_write_sector (memcard_new None (replicate FLASH_SIZE 0))) = 128"
    by (simp_all add: memcard_new_def SECTOR_SIZE_def)
  have v: "(2 :: u16) \<le> 0x3ff" "length (replicate 128 (7 :: u8)) = 128" by simp_all
  have s: "checksum (replicate 128 7) \<noteq> ucast (drop_bit 8 (2 :: u16)) XOR ucast (2 :: u16)"
    "checksum (take 127 (replicate 128 7)) XOR ucast (drop_bit 8 (2 :: u16)) XOR ucast (2 :: u16) = 5"
    "replicate 128 (7 :: u8) ! 0 = 7" "replicate 128 (7 :: u8) ! 127 = 7"
    by code_simp+
  show ?thesis
    using sector_write_read [OF p c v, where wr = "\<lambda>_ _. None" and chk = 2 and sch = schedule_new] unfolding s(2-4) if_not_P [OF s(1)] by blast
qed

end
