(* ===== verification/DmaSink.thy ===== *)
theory DmaSink
  imports Dma
begin

text \<open>
  Transfers to a device (\<open>crates/splst_core/src/bus/dma.rs\<close>). The locale \<open>dma_sink\<close> says what the controller
  needs of a device that takes words without touching the schedule; \<open>room ws c\<close> is that a device in the state \<open>c\<close>
  takes the words \<open>ws\<close> one by one, being ready for each; inside it are the blocks, the
  linked lists and the requests of any such device. A device that is part of another state is one
  as well (\<open>lifted_sink\<close>).
\<close>

section \<open>The words of a transfer\<close>

text \<open>
  The payload of one node, and of a list: that of each node, in order, until the end marker. The first
  word of a node holds the size of its payload and the address of the next node.
\<close>

definition node_words :: "raw_mem \<Rightarrow> u32 \<Rightarrow> nat \<Rightarrow> u32 list" where
  "node_words ram a n = map (\<lambda>i. mem_word ram (a + 4 * word_of_nat i)) [0..<n]"

fun list_words :: "nat \<Rightarrow> raw_mem \<Rightarrow> u32 \<Rightarrow> u32 list option" where
  "list_words 0 ram a = None"
| "list_words (Suc n) ram a =
     (if a = 0x00ffffff then Some []
      else let header = mem_word ram a in
        map_option (\<lambda>ws. node_words ram (a + 4) (unat (bit_range header 24 31)) @ ws)
          (list_words n ram (bit_range header 0 23)))"

lemma mem_word_cong: "unat a mod 2097152 = unat b mod 2097152 \<Longrightarrow> mem_word ram a = mem_word ram b"
  by (simp add: mem_word_def word_addr)

lemma ram_cell_24: "ram_cell (a AND 0x00ffffff) = ram_cell a"
proof -
  have "a AND 0x00ffffff = take_bit 24 a" by (simp add: take_bit_eq_mask mask_eq_exp_minus_1)
  then have "unat (a AND 0x00ffffff) = unat a mod 2 ^ 24" by (simp add: take_bit_eq_mod unat_mod_distrib)
  then show ?thesis by (simp add: mod_mod_cancel)
qed

lemma ram_cell_plus: "ram_cell (x + b) = (ram_cell x + unat b) mod 2097152"
  by (simp add: unat_word_ariths mod_mod_cancel mod_simps)

lemma mem_word_24: "mem_word ram (a AND 0x00ffffff) = mem_word ram a"
  by (rule mem_word_cong) (rule ram_cell_24)

lemma mem_word_24_add: "mem_word ram ((a AND 0x00ffffff) + b) = mem_word ram (a + b)"
  by (rule mem_word_cong) (simp only: ram_cell_plus ram_cell_24)

lemma length_node_words [simp]: "length (node_words ram a n) = n"
  by (simp add: node_words_def)

lemma node_words_Suc: "node_words ram a (Suc n) = mem_word ram a # node_words ram ((a + 4) AND 0x00ffffff) n"
proof -
  have "[0..<Suc n] = 0 # map Suc [0..<n]" by (simp add: map_Suc_upt upt_conv_Cons del: upt_Suc)
  moreover have "a + 4 * word_of_nat (Suc i) = a + 4 + 4 * word_of_nat i" for i by (simp add: algebra_simps)
  ultimately show ?thesis
    by (simp only: node_words_def list.map map_map comp_def mem_word_24_add) simp
qed

lemma node_words_24: "node_words ram (bit_range a 0 23) n = node_words ram a n"
proof -
  have "bit_range a 0 23 = a AND 0x00ffffff"
    by (simp add: bit_range_eq take_bit_eq_mask mask_eq_exp_minus_1)
  then show ?thesis by (simp only: node_words_def mem_word_24_add)
qed

lemma machine_reorder:
  "m\<lparr>m_dma := d, m_chan := c, m_sched := s\<rparr> = m\<lparr>m_chan := c, m_sched := s, m_dma := d\<rparr>"
  for m :: "'c machine"
  by (cases m) simp


text \<open>The cursor behind \<open>n\<close> words.\<close>

definition cursor_after :: "nat \<Rightarrow> u32 \<Rightarrow> u32" where
  "cursor_after n a = ((\<lambda>a. (a + 4) AND 0x00ffffff) ^^ n) a"

lemma cursor_after_simps [simp]: "cursor_after 0 a = a" "cursor_after (Suc n) a = cursor_after n ((a + 4) AND 0x00ffffff)"
  by (simp_all add: cursor_after_def funpow_Suc_right del: funpow.simps(2))

lemma node_words_append: "node_words ram a (n + k) = node_words ram a n @ node_words ram (cursor_after n a) k"
proof (induction n arbitrary: a)
  case (Suc n)
  then show ?case by (simp add: node_words_Suc)
qed (simp add: node_words_def)

section \<open>Devices that take words\<close>

locale dma_sink =
  fixes sink :: "'c channel" and recv :: "u32 \<Rightarrow> 'c \<Rightarrow> 'c" and room :: "u32 list \<Rightarrow> 'c \<Rightarrow> bool"
  assumes room_ready: "room ws c \<Longrightarrow> ch_ready sink ToPort c"
    and room_store: "room (w # ws) c \<Longrightarrow> ch_store sink w sch c = Some (sch, recv w c)"
    and room_recv: "room (w # ws) c \<Longrightarrow> room ws (recv w c)"
begin

lemma room_words: "room (us @ ws) c \<Longrightarrow> room ws (fold recv us c)"
  by (induction us arbitrary: c) (simp_all add: room_recv)

lemma sends_block:
  assumes "cc_sync_mode (cs_ctrl (dma_channels (m_dma m) p)) = Some mode"
    and "\<not> cc_chopping_enabled (cs_ctrl (dma_channels (m_dma m) p))"
    and "ram_ok (m_ram m)" "n < 2 ^ 32" "room (node_words (m_ram m) c n @ ws) (m_chan m)"
  shows "block_loop sink p NEVER ToPort \<lparr>tr_cursor = c, tr_size = word_of_nat n, tr_inc = 4\<rparr> m
    = Some (None, m\<lparr>m_chan := fold recv (node_words (m_ram m) c n) (m_chan m), m_sched := (tick ^^ n) (m_sched m),
        m_dma := (if mode = Request then upd_chan p (\<lambda>s. s\<lparr>cs_base := cursor_after n c\<rparr>) (m_dma m) else m_dma m)\<rparr>)"
  using assms
proof (induction n arbitrary: c m)
  case 0
  then show ?case by (cases m) (simp add: block_loop_end node_words_def)
next
  case (Suc n)
  have nz: "(word_of_nat (Suc n) :: u32) \<noteq> 0"
    using Suc.prems(4) by (simp add: word_unat_eq_iff unsigned_of_nat take_bit_nat_eq_self del: of_nat_Suc)
  have room: "room (mem_word (m_ram m) c # node_words (m_ram m) ((c + 4) AND 0x00ffffff) n @ ws) (m_chan m)"
    using Suc.prems(5) by (simp add: node_words_Suc)
  have w: "move_word sink ToPort \<lparr>tr_cursor = c, tr_size = word_of_nat (Suc n), tr_inc = 4\<rparr> m
      = Some (m\<lparr>m_chan := recv (mem_word (m_ram m) c) (m_chan m)\<rparr>)"
    using ram_load_word [OF Suc.prems(3), of c] room_store [OF room] by (simp add: move_word_def Let_def)
  let ?m = "m\<lparr>m_chan := recv (mem_word (m_ram m) c) (m_chan m), m_sched := tick (m_sched m)\<rparr>"
  have "block_loop sink p NEVER ToPort \<lparr>tr_cursor = (c + 4) AND 0x00ffffff, tr_size = word_of_nat n, tr_inc = 4\<rparr> ?m
    = Some (None, ?m\<lparr>m_chan := fold recv (node_words (m_ram ?m) ((c + 4) AND 0x00ffffff) n) (m_chan ?m),
        m_sched := (tick ^^ n) (m_sched ?m),
        m_dma := (if mode = Request then upd_chan p (\<lambda>s. s\<lparr>cs_base := cursor_after n ((c + 4) AND 0x00ffffff)\<rparr>) (m_dma ?m)
          else m_dma ?m)\<rparr>)"
    using Suc.prems room_recv [OF room] by (intro Suc.IH) simp_all
  then show ?case
    using nz w by (subst block_loop_move) (simp_all add: node_words_Suc funpow_swap1)
qed

lemma sends_list:
  assumes "dma_channels (m_dma m) p = s" "cs_transfer s = None" "cc_enabled (cs_ctrl s)"
    and "cc_sync_mode (cs_ctrl s) = Some LinkedList" "cc_step (cs_ctrl s) = Inc"
    and "cc_direction (cs_ctrl s) = ToPort" "ram_ok (m_ram m)"
    and "list_words fuel (m_ram m) (cs_base s) = Some ws"
    and "unat (sched_now (m_sched m)) + length ws * 65536 < 2 ^ 64 - 1"
    and "\<not> cc_chopping_enabled (cs_ctrl s)" "room ws (m_chan m)"
  shows "\<exists>d sch. chan_loop fuel sink p NEVER md m = Some (m\<lparr>m_dma := d, m_chan := fold recv ws (m_chan m), m_sched := sch\<rparr>)
    \<and> sched_now sch = sched_now (m_sched m) + word_of_nat (length ws) * 65536
    \<and> cs_base (dma_channels d p) = 0x00ffffff \<and> \<not> cc_enabled (cs_ctrl (dma_channels d p))"
  using assms
proof (induction fuel arbitrary: m s ws)
  case (Suc f)
  have now: "sched_now (m_sched m) < NEVER" using ticks_before_never [of "m_sched m" 0] Suc.prems(9) by simp
  have ready: "ch_ready sink (cc_direction (cs_ctrl s)) (m_chan m)"
    using room_ready [OF Suc.prems(11)] Suc.prems(6) by simp
  show ?case
  proof (cases "cs_base s = 0x00ffffff")
    case True
    have start: "start_transfer md (m_ram m) s = Some (Finish, md, s)"
      using Suc.prems True by (simp add: start_transfer_def)
    obtain d sch where fin: "channel_done p (m_dma m, m_sched m) = (d, sch)" by fastforce
    have same: "upd_chan p (\<lambda>_. s) (m_dma m) = m_dma m" using Suc.prems(1) by (auto simp: upd_chan_def)
    have "ws = []" using Suc.prems(8) True by simp
    moreover have "chan_loop (Suc f) sink p NEVER md m = Some (m\<lparr>m_dma := d, m_sched := sch\<rparr>)"
      using chan_loop_step [OF now Suc.prems(1,3) ready start] fin same by (simp add: Let_def)
    moreover have "cs_base (dma_channels d p) = cs_base s"
      using fin Suc.prems(1) by (auto simp: channel_done_def Let_def upd_chan_def split: prod.splits)
    moreover have "sched_now sch = sched_now (m_sched m)" "\<not> cc_enabled (cs_ctrl (dma_channels d p))"
      using channel_done_spec [of p "m_dma m" "m_sched m"] fin by (auto simp: trigger_def split: if_splits)
    ultimately show ?thesis using True by auto
  next
    case False
    let ?h = "mem_word (m_ram m) (cs_base s)"
    let ?n = "unat (bit_range ?h 24 31)"
    let ?s = "s\<lparr>cs_base := bit_range ?h 0 23\<rparr>"
    let ?node = "node_words (m_ram m) (cs_base s + 4) ?n"
    obtain ws' where ws: "ws = ?node @ ws'" "list_words f (m_ram m) (bit_range ?h 0 23) = Some ws'"
      using Suc.prems(8) False by (auto simp: Let_def)
    let ?tran = "\<lparr>tr_cursor = bit_range (cs_base s + 4) 0 23, tr_size = word_of_nat ?n, tr_inc = 4\<rparr>"
    let ?m = "m\<lparr>m_dma := upd_chan p (\<lambda>_. ?s) (m_dma m), m_chan := fold recv ?node (m_chan m), m_sched := (tick ^^ ?n) (m_sched m)\<rparr>"
    have start: "start_transfer md (m_ram m) s = Some (if ?n = 0 then Continue else Run ?tran, md, ?s)"
      using Suc.prems False ram_load_word [OF Suc.prems(7), of "cs_base s"]
      by (simp add: start_transfer_def Let_def unat_eq_0)
    have chan: "dma_channels (upd_chan p (\<lambda>_. ?s) (m_dma m)) p = ?s" by (simp add: upd_chan_def)
    have noop: "upd_chan p (cs_transfer_update (\<lambda>_. None)) (upd_chan p (\<lambda>_. ?s) (m_dma m)) = upd_chan p (\<lambda>_. ?s) (m_dma m)"
      using Suc.prems(2) by (cases s) (simp add: upd_chan_def)
    have step: "chan_loop (Suc f) sink p NEVER md m = chan_loop f sink p NEVER md ?m"
    proof (cases "?n = 0")
      case True
      then show ?thesis
        using chan_loop_step [OF now Suc.prems(1,3) ready start] by (simp add: Let_def node_words_def)
    next
      case False
      have "?n < 2 ^ 32" using unsigned_less [of "bit_range ?h 24 31", where ?'a = nat] by simp
      then have "block_loop sink p NEVER ToPort ?tran (m\<lparr>m_dma := upd_chan p (\<lambda>_. ?s) (m_dma m)\<rparr>)
        = Some (None, ?m)"
        using sends_block [of "m\<lparr>m_dma := upd_chan p (\<lambda>_. ?s) (m_dma m)\<rparr>" p LinkedList ?n "bit_range (cs_base s + 4) 0 23" ws']
          Suc.prems(4,7,10,11) chan ws(1) by (simp add: node_words_24)
      then show ?thesis
        using chan_loop_step [OF now Suc.prems(1,3) ready start] Suc.prems(6) False noop by (simp add: Let_def machine_reorder)
    qed
    have len: "length ws = ?n + length ws'" by (simp add: ws(1) node_words_def)
    have t: "sched_now (m_sched ?m) = sched_now (m_sched m) + word_of_nat ?n * 65536" by (simp add: ticks_now)
    have "unat (sched_now (m_sched ?m)) + length ws' * 65536 < 2 ^ 64 - 1"
      using Suc.prems(9) len ticks_unat [of "m_sched m" ?n] by (simp add: ticks_now)
    moreover have room': "room ws' (m_chan ?m)" using Suc.prems(11) ws(1) room_words [of ?node ws'] by simp
    ultimately obtain d sch where "chan_loop f sink p NEVER md ?m = Some (?m\<lparr>m_dma := d, m_chan := fold recv ws' (m_chan ?m), m_sched := sch\<rparr>)"
      "sched_now sch = sched_now (m_sched ?m) + word_of_nat (length ws') * 65536"
      "cs_base (dma_channels d p) = 0x00ffffff" "\<not> cc_enabled (cs_ctrl (dma_channels d p))"
      using Suc.IH [of ?m ?s ws'] Suc.prems(2-11) chan ws(2) room' by auto
    then show ?thesis
      using step by (intro exI [of _ d] exI [of _ sch]) (simp add: ws(1) ticks_now algebra_simps)
  qed
qed simp


text \<open>Requests: \<open>count\<close> blocks of \<open>len\<close> words, with the base moved behind each.\<close>

lemma sends_request:
  assumes "dma_channels (m_dma m) p = s" "cs_transfer s = None" "cc_enabled (cs_ctrl s)"
    and "cc_sync_mode (cs_ctrl s) = Some Request" "cc_step (cs_ctrl s) = Inc"
    and "cc_direction (cs_ctrl s) = ToPort" "\<not> cc_chopping_enabled (cs_ctrl s)" "ram_ok (m_ram m)"
    and "unat (bc_count (cs_block_ctrl s)) = cnt" "unat (bc_size (cs_block_ctrl s)) = len"
    and "unat (sched_now (m_sched m)) + cnt * len * 65536 < 2 ^ 64 - 1" "room (node_words (m_ram m) (cs_base s) (cnt * len)) (m_chan m)" "cnt < fuel"
  shows "\<exists>d sch. chan_loop fuel sink p NEVER md m = Some (m\<lparr>m_dma := d,
      m_chan := fold recv (node_words (m_ram m) (cs_base s) (cnt * len)) (m_chan m), m_sched := sch\<rparr>)
    \<and> sched_now sch = sched_now (m_sched m) + word_of_nat (cnt * len) * 65536
    \<and> \<not> cc_enabled (cs_ctrl (dma_channels d p))"
  using assms
proof (induction cnt arbitrary: fuel m s)
  case 0
  then obtain f where f: "fuel = Suc f" by (cases fuel) auto
  have now: "sched_now (m_sched m) < NEVER" using ticks_before_never [of "m_sched m" 0] 0 by simp
  have ready: "ch_ready sink (cc_direction (cs_ctrl s)) (m_chan m)" using room_ready 0 by simp
  have start: "start_transfer md (m_ram m) s = Some (Finish, md, s)"
    using 0 by (simp add: start_transfer_def unat_eq_0)
  obtain d sch where fin: "channel_done p (m_dma m, m_sched m) = (d, sch)" by fastforce
  have same: "upd_chan p (\<lambda>_. s) (m_dma m) = m_dma m" using 0 by (auto simp: upd_chan_def)
  have "chan_loop fuel sink p NEVER md m = Some (m\<lparr>m_dma := d, m_sched := sch\<rparr>)"
    using chan_loop_step [OF now 0(1,3) ready start] fin same by (simp add: Let_def f)
  moreover have "sched_now sch = sched_now (m_sched m)" "\<not> cc_enabled (cs_ctrl (dma_channels d p))"
    using channel_done_spec [of p "m_dma m" "m_sched m"] fin by (auto simp: trigger_def split: if_splits)
  ultimately show ?case by (auto simp: node_words_def)
next
  case (Suc k)
  then obtain f where f: "fuel = Suc f" "k < f" by (cases fuel) auto
  let ?bc = "cs_block_ctrl s"
  let ?s = "s\<lparr>cs_block_ctrl := ?bc\<lparr>bc_count := bc_count ?bc - 1\<rparr>\<rparr>"
  let ?s' = "?s\<lparr>cs_base := cursor_after len (cs_base s)\<rparr>"
  let ?node = "node_words (m_ram m) (cs_base s) len"
  let ?m = "m\<lparr>m_dma := upd_chan p (\<lambda>_. ?s') (m_dma m), m_chan := fold recv ?node (m_chan m), m_sched := (tick ^^ len) (m_sched m)\<rparr>"
  have now: "sched_now (m_sched m) < NEVER" using ticks_before_never [of "m_sched m" 0] Suc.prems(11) by simp
  have ready: "ch_ready sink (cc_direction (cs_ctrl s)) (m_chan m)" using room_ready Suc.prems by simp
  let ?more = "node_words (m_ram m) (cursor_after len (cs_base s)) (k * len)"
  have room: "room (?node @ ?more) (m_chan m)" using Suc.prems(12) by (simp add: node_words_append add.commute)
  have nz: "bc_count ?bc \<noteq> 0" using Suc.prems(9) by auto
  have len_w: "(ucast (bc_size ?bc) :: u32) = word_of_nat len" "len < 2 ^ 32"
    using Suc.prems(10) unsigned_less [of "bc_size ?bc", where ?'a = nat] by (auto simp flip: Suc.prems(10))
  have start: "start_transfer md (m_ram m) s = Some (Run \<lparr>tr_cursor = cs_base s, tr_size = word_of_nat len, tr_inc = 4\<rparr>, md, ?s)"
    using Suc.prems(2,4,5) nz len_w(1) by (simp add: start_transfer_def Let_def)
  have chan: "dma_channels (upd_chan p (\<lambda>_. x) (m_dma m)) p = x" for x by (simp add: upd_chan_def)
  have "block_loop sink p NEVER ToPort \<lparr>tr_cursor = cs_base s, tr_size = word_of_nat len, tr_inc = 4\<rparr>
      (m\<lparr>m_dma := upd_chan p (\<lambda>_. ?s) (m_dma m)\<rparr>) = Some (None, m\<lparr>m_dma := upd_chan p (\<lambda>_. ?s') (m_dma m),
        m_chan := fold recv ?node (m_chan m), m_sched := (tick ^^ len) (m_sched m)\<rparr>)"
    using sends_block [of "m\<lparr>m_dma := upd_chan p (\<lambda>_. ?s) (m_dma m)\<rparr>" p Request len "cs_base s" ?more]
      Suc.prems(4,7,8) room chan len_w(2) by (simp add: machine_reorder upd_chan_def)
  moreover have "upd_chan p (cs_transfer_update (\<lambda>_. None)) (upd_chan p (\<lambda>_. ?s') (m_dma m)) = upd_chan p (\<lambda>_. ?s') (m_dma m)"
    using Suc.prems(2) by (cases s) (simp add: upd_chan_def)
  ultimately have step: "chan_loop fuel sink p NEVER md m = chan_loop f sink p NEVER md ?m"
    using chan_loop_step [OF now Suc.prems(1,3) ready start] Suc.prems(6) by (simp add: Let_def machine_reorder f)
  have t: "sched_now (m_sched ?m) = sched_now (m_sched m) + word_of_nat len * 65536" by (simp add: ticks_now)
  have less: "unat (sched_now (m_sched ?m)) + k * len * 65536 < 2 ^ 64 - 1"
    using Suc.prems(11) ticks_unat [of "m_sched m" len] by (simp add: ticks_now algebra_simps)
  have room': "room ?more (m_chan ?m)" using room room_words [of ?node ?more] by simp
  have cnt_k: "unat (bc_count (cs_block_ctrl ?s')) = k" using Suc.prems(9) nz by (simp add: unat_minus_one)
  obtain d sch where "chan_loop f sink p NEVER md ?m = Some (?m\<lparr>m_dma := d,
      m_chan := fold recv (node_words (m_ram ?m) (cs_base ?s') (k * len)) (m_chan ?m), m_sched := sch\<rparr>)"
    "sched_now sch = sched_now (m_sched ?m) + word_of_nat (k * len) * 65536" "\<not> cc_enabled (cs_ctrl (dma_channels d p))"
    using Suc.IH [of ?m ?s' f] Suc.prems(2-8,10) chan cnt_k less room' f(2) by auto
  then show ?case
    using step t by (intro exI [of _ d] exI [of _ sch]) (simp add: node_words_append algebra_simps)
qed

lemma run_list:
  assumes "dma_channels (m_dma m) p = s" "cs_transfer s = None" "cc_enabled (cs_ctrl s)"
    and "cc_sync_mode (cs_ctrl s) = Some LinkedList" "cc_step (cs_ctrl s) = Inc"
    and "cc_direction (cs_ctrl s) = ToPort" "\<not> cc_chopping_enabled (cs_ctrl s)" "ram_ok (m_ram m)"
    and "list_words fuel (m_ram m) (cs_base s) = Some ws"
    and "unat (sched_now (m_sched m)) + length ws * 65536 < 2 ^ 64 - 1" "room ws (m_chan m)"
  shows "\<exists>m'. run_chan fuel sink p m = Some m' \<and> m_ram m' = m_ram m \<and> m_chan m' = fold recv ws (m_chan m)
    \<and> sched_now (m_sched m') = sched_now (m_sched m) + word_of_nat (length ws) * 65536
    \<and> cs_base (dma_channels (m_dma m') p) = 0x00ffffff \<and> \<not> cc_enabled (cs_ctrl (dma_channels (m_dma m') p))"
  using sends_list [of m p s fuel ws False] assms by (auto simp: run_chan_def Let_def)

lemma run_request:
  assumes "dma_channels (m_dma m) p = s" "cs_transfer s = None" "cc_enabled (cs_ctrl s)"
    and "cc_sync_mode (cs_ctrl s) = Some Request" "cc_step (cs_ctrl s) = Inc"
    and "cc_direction (cs_ctrl s) = ToPort" "\<not> cc_chopping_enabled (cs_ctrl s)" "ram_ok (m_ram m)"
    and "unat (bc_count (cs_block_ctrl s)) * unat (bc_size (cs_block_ctrl s)) = n"
    and "unat (sched_now (m_sched m)) + n * 65536 < 2 ^ 64 - 1" "room (node_words (m_ram m) (cs_base s) n) (m_chan m)" "unat (bc_count (cs_block_ctrl s)) < fuel"
  shows "\<exists>m'. run_chan fuel sink p m = Some m' \<and> m_ram m' = m_ram m
    \<and> m_chan m' = fold recv (node_words (m_ram m) (cs_base s) n) (m_chan m)
    \<and> sched_now (m_sched m') = sched_now (m_sched m) + word_of_nat n * 65536
    \<and> \<not> cc_enabled (cs_ctrl (dma_channels (m_dma m') p))"
  using sends_request [OF assms(1-8) refl refl, of fuel False] assms by (auto simp: run_chan_def Let_def)

end

section \<open>A device in a larger state\<close>

text \<open>The bus of the whole machine (\<open>crates/splst_core/src/lib.rs\<close>) calls a device that is a part of its state.\<close>

definition lift_channel :: "('a \<Rightarrow> 'c) \<Rightarrow> ('c \<Rightarrow> 'a \<Rightarrow> 'a) \<Rightarrow> 'c channel \<Rightarrow> 'a channel" where
  "lift_channel get put ch = \<lparr>
     ch_load = (\<lambda>x sch d. map_option (\<lambda>(v, sch, c). (v, sch, put c d)) (ch_load ch x sch (get d))),
     ch_store = (\<lambda>v sch d. map_option (\<lambda>(sch, c). (sch, put c d)) (ch_store ch v sch (get d))),
     ch_ready = (\<lambda>dir d. ch_ready ch dir (get d))\<rparr>"

locale lifted_sink = dma_sink sink recv room
  for sink :: "'c channel" and recv :: "u32 \<Rightarrow> 'c \<Rightarrow> 'c" and room :: "u32 list \<Rightarrow> 'c \<Rightarrow> bool" +
  fixes part :: "'d \<Rightarrow> 'c" and put :: "'c \<Rightarrow> 'd \<Rightarrow> 'd"
  assumes part_put [simp]: "part (put c d) = c" and put_put [simp]: "put c (put c' d) = put c d" and put_part [simp]: "put (part d) d = d"
begin

sublocale whole: dma_sink "lift_channel part put sink" "\<lambda>w d. put (recv w (part d)) d" "\<lambda>ws d. room ws (part d)"
  by unfold_locales (auto simp: lift_channel_def room_ready room_store room_recv)

lemma fold_whole: "fold (\<lambda>w d. put (recv w (part d)) d) ws d = put (fold recv ws (part d)) d"
  by (induction ws arbitrary: d) simp_all

end

text \<open>A fresh RAM reads as ones.\<close>

lemma mem_word_ram_new: "mem_word ram_new a = -1"
proof -
  have "(0xff :: u8) = -1" by simp
  then have "mem_data ram_new = (\<lambda>_. -1)" by (simp add: ram_new_def raw_new_def fun_eq_iff)
  then show ?thesis by (intro bit_word_eqI) (auto simp: mem_word_def bits_simps)
qed

end
