(* ===== verification/System.thy ===== *)
theory System
  imports CpuGte CpuControl Exe Gpu Spu IoPort DmaSink
begin

text \<open>
  \<open>crates/splst_core/src/lib.rs\<close> and the parts of \<open>bus/mod.rs\<close> that own the devices: the whole system.
  The bus model leaves the GPU, the CD-ROM, the SPU and the serial port open; here they are the models of
  their code. The video and audio outputs are fields of the GPU and the SPU, the disc, the pads and
  the cards fields of their controllers. \<open>fuel\<close> bounds the loops of a DMA transfer, as in the bus model.
\<close>

section \<open>The devices\<close>

record sys_dev =
  sy_gpu :: gpu
  sy_cdrom :: cdrom
  sy_spu :: spu
  sy_io :: io_port

definition on_gpu :: "(schedule \<times> gpu \<Rightarrow> (schedule \<times> gpu) option) \<Rightarrow> schedule \<times> sys_dev \<Rightarrow> (schedule \<times> sys_dev) option" where
  "on_gpu f = (\<lambda>(sch, d). map_option (\<lambda>(sch, g). (sch, d\<lparr>sy_gpu := g\<rparr>)) (f (sch, sy_gpu d)))"

definition on_cdrom :: "(schedule \<times> cdrom \<Rightarrow> (schedule \<times> cdrom) option) \<Rightarrow> schedule \<times> sys_dev \<Rightarrow> (schedule \<times> sys_dev) option" where
  "on_cdrom f = (\<lambda>(sch, d). map_option (\<lambda>(sch, c). (sch, d\<lparr>sy_cdrom := c\<rparr>)) (f (sch, sy_cdrom d)))"

definition on_spu :: "(schedule \<times> spu \<Rightarrow> (schedule \<times> spu) option) \<Rightarrow> schedule \<times> sys_dev \<Rightarrow> (schedule \<times> sys_dev) option" where
  "on_spu f = (\<lambda>(sch, d). map_option (\<lambda>(sch, s). (sch, d\<lparr>sy_spu := s\<rparr>)) (f (sch, sy_spu d)))"

definition on_io :: "(schedule \<times> io_port \<Rightarrow> (schedule \<times> io_port) option) \<Rightarrow> schedule \<times> sys_dev \<Rightarrow> (schedule \<times> sys_dev) option" where
  "on_io f = (\<lambda>(sch, d). map_option (\<lambda>(sch, p). (sch, d\<lparr>sy_io := p\<rparr>)) (f (sch, sy_io d)))"

text \<open>The cycle of the SPU takes the audio of the CD-ROM.\<close>

definition sys_spu_event :: "spu_callback \<Rightarrow> schedule \<times> sys_dev \<Rightarrow> (schedule \<times> sys_dev) option" where
  "sys_spu_event cb = (\<lambda>(sch, d). case cb of spu_run_cycle \<Rightarrow>
     map_option (\<lambda>((sch, s), c). (sch, d\<lparr>sy_spu := s, sy_cdrom := c\<rparr>)) (spu_cycle ((sch, sy_spu d), sy_cdrom d)))"

definition system_devices :: "('f, 'e) gpu_env \<Rightarrow> write_file \<Rightarrow> nat \<Rightarrow> sys_dev devices" where
  "system_devices env wr fuel = \<lparr>
     dv_gpu_load = (\<lambda>w a d. map_option (apsnd (\<lambda>g. d\<lparr>sy_gpu := g\<rparr>)) (gpu_load w a (sy_gpu d))),
     dv_gpu_store = (\<lambda>w a v. on_gpu (gpu_store env w a v)),
     dv_gpu_peek = (\<lambda>w a d. gpu_peek w a (sy_gpu d)),
     dv_cdrom_load = (\<lambda>w a d. map_option (apsnd (\<lambda>c. d\<lparr>sy_cdrom := c\<rparr>)) (cdrom_load w a (sy_cdrom d))),
     dv_cdrom_store = (\<lambda>w a v. on_cdrom (cdrom_store a v)),
     dv_cdrom_peek = (\<lambda>w a d. cdrom_peek w a (sy_cdrom d)),
     dv_spu_load = (\<lambda>w a d. spu_load w a (sy_spu d)),
     dv_spu_store = (\<lambda>w a v. on_spu (spu_store w a v)),
     dv_io_load = (\<lambda>w a (sch, d). map_option (apsnd (apsnd (\<lambda>p. d\<lparr>sy_io := p\<rparr>))) (io_load wr w a (sch, sy_io d))),
     dv_io_store = (\<lambda>w a v. on_io (io_store w a v)),
     dv_io_peek = (\<lambda>w a d. io_peek w a (sy_io d)),
     dv_gpu_chan = lift_channel sy_gpu (\<lambda>g d. d\<lparr>sy_gpu := g\<rparr>) (gpu_channel env),
     dv_cdrom_chan = lift_channel sy_cdrom (\<lambda>c d. d\<lparr>sy_cdrom := c\<rparr>) cdrom_channel,
     dv_spu_chan = lift_channel sy_spu (\<lambda>s d. d\<lparr>sy_spu := s\<rparr>) spu_channel,
     dv_gpu_event = (\<lambda>cb (sch, ts, d).
       map_option (\<lambda>(sch, ts, g). (sch, ts, d\<lparr>sy_gpu := g\<rparr>)) (gpu_event env cb (sch, ts, sy_gpu d))),
     dv_cdrom_event = (\<lambda>cb. on_cdrom (cdrom_event cb)),
     dv_io_event = (\<lambda>cb. on_io (io_event wr cb)),
     dv_spu_event = sys_spu_event,
     dv_fuel = fuel\<rparr>"

section \<open>The system\<close>

type_synonym sys_cpu = "(sys_dev, gte) cpu"
type_synonym sys_env = "(sys_dev, gte) env"

definition system_env :: "('f, 'e) gpu_env \<Rightarrow> write_file \<Rightarrow> nat \<Rightarrow> sys_env" where
  "system_env env wr fuel = gte_env (system_devices env wr fuel)"

definition system_new :: "bios \<Rightarrow> cd_image option \<Rightarrow> game_pads \<Rightarrow> mem_cards \<Rightarrow> sys_cpu" where
  "system_new bios disc pads cards =
     (let sch = schedule_new;
          (sch, g) = gpu_new sch;
          (sch, c) = cdrom_new disc sch;
          (sch, s) = spu_new sch
      in cpu_new (bus_new bios sch \<lparr>sy_gpu = g, sy_cdrom = c, sy_spu = s, sy_io = io_port_new pads cards\<rparr>) gte_default)"

text \<open>\<open>run\<close> has no debugger, so it never breaks.\<close>

definition system_run :: "sys_env \<Rightarrow> nat \<Rightarrow> nat \<Rightarrow> sys_cpu \<Rightarrow> sys_cpu option" where
  "system_run env fuel nanos c = map_option snd (cpu_run env fuel (\<lambda>_. False) (from_duration nanos) c)"

datatype stop_reason = Timeout | Break

text \<open>
  \<open>run_debug\<close>: durations are in nanoseconds, the debugger's answers the argument \<open>brk\<close>, one per
  instruction. With more than \<open>10 ^ 9\<close> instructions per second the time of one is zero and the loop
  goes on until a break: it is a partial function, and \<^term>\<open>None\<close> also stands for no result.
\<close>

partial_function (option) run_debug_loop ::
  "sys_env \<Rightarrow> nat \<Rightarrow> nat \<Rightarrow> nat \<Rightarrow> (nat \<Rightarrow> bool) \<Rightarrow> sys_cpu \<Rightarrow> ((nat \<times> stop_reason) \<times> sys_cpu) option" where
  "run_debug_loop env fuel cycle_time time brk c =
     (if time < cycle_time then Some ((time, Timeout), c)
      else do {
        c \<leftarrow> cpu_step env fuel c;
        if brk 0 then Some ((time - cycle_time, Break), c)
        else run_debug_loop env fuel cycle_time (time - cycle_time) (\<lambda>i. brk (Suc i)) c })"

definition run_debug :: "sys_env \<Rightarrow> nat \<Rightarrow> u64 \<Rightarrow> nat \<Rightarrow> (nat \<Rightarrow> bool) \<Rightarrow> sys_cpu \<Rightarrow> ((nat \<times> stop_reason) \<times> sys_cpu) option" where
  "run_debug env fuel hz time brk c =
     (let d = unat (ucast hz :: u32) in if d = 0 then None else run_debug_loop env fuel (10 ^ 9 div d) time brk c)"

fun step_debug :: "sys_env \<Rightarrow> nat \<Rightarrow> nat \<Rightarrow> (nat \<Rightarrow> bool) \<Rightarrow> sys_cpu \<Rightarrow> (stop_reason \<times> sys_cpu) option" where
  "step_debug env fuel 0 brk c = Some (Timeout, c)"
| "step_debug env fuel (Suc n) brk c = do {
     c \<leftarrow> cpu_step env fuel c;
     if brk 0 then Some (Break, c) else step_debug env fuel n (\<lambda>i. brk (Suc i)) c }"

section \<open>Debug runs\<close>

text \<open>While an instruction takes time, \<open>run_debug\<close> is \<open>step_debug\<close> with the number of whole instructions
  that fit, and after them the rest of the time is left.\<close>

lemma run_debug_loop_steps:
  assumes "0 < t"
  shows "step_debug env fuel (time div t) brk c = Some (r, c') \<Longrightarrow>
    \<exists>left. run_debug_loop env fuel t time brk c = Some ((left, r), c') \<and> left \<le> time
      \<and> (r = Timeout \<longrightarrow> left = time mod t)"
proof (induction "time div t" arbitrary: time brk c)
  case 0
  then have "time < t" using assms by (simp add: div_eq_0_iff)
  then show ?case using 0 by (simp add: run_debug_loop.simps [of _ _ _ time])
next
  case (Suc n)
  then have ge: "\<not> time < t" by auto
  then have n: "n = (time - t) div t" "(time - t) mod t = time mod t"
    using Suc.hyps(2) assms by (simp_all add: le_div_geq le_mod_geq)
  obtain c1 where c1: "cpu_step env fuel c = Some c1"
    "(if brk 0 then Some (Break, c1) else step_debug env fuel n (\<lambda>i. brk (Suc i)) c1) = Some (r, c')"
    using Suc.prems by (auto simp flip: Suc.hyps(2) split: bind_splits)
  have run: "run_debug_loop env fuel t time brk c =
      (if brk 0 then Some ((time - t, Break), c1) else run_debug_loop env fuel t (time - t) (\<lambda>i. brk (Suc i)) c1)"
    using c1(1) ge by (simp add: run_debug_loop.simps [of _ _ _ time])
  show ?case
  proof (cases "brk 0")
    case True
    then show ?thesis using c1(2) run by auto
  next
    case False
    then have "step_debug env fuel ((time - t) div t) (\<lambda>i. brk (Suc i)) c1 = Some (r, c')" using c1(2) n(1) by simp
    from Suc.hyps(1) [OF n(1) this] show ?thesis using False run n(2) by auto
  qed
qed

section \<open>From the drive to the exception handler\<close>

lemma bit_nonzero: "bit w n \<Longrightarrow> w \<noteq> 0" for w :: "'a::len word"
  by auto

text \<open>An event that is due before everything else in the queue is delivered next.\<close>

lemma poll_triggered:
  assumes "c_sched c = snd (trigger ev sch)" "\<forall>e \<in> set (sched_events sch). STARTUP < entry_ready e"
  shows "\<exists>sch'. poll_event c = Some (Some ev, upd_sched (\<lambda>_. sch') c)"
proof -
  let ?e = "\<lparr>entry_event = ev, entry_ready = STARTUP, entry_mode = Once, entry_id = next_event_id sch\<rparr>"
  have events: "sched_events (c_sched c) = sched_events sch @ [?e]" "sched_next_event (c_sched c) = STARTUP"
    using assms(1) by (simp_all add: trigger_def heap_push_def)
  obtain x where x: "heap_peek (sched_events (c_sched c)) = Some x"
    using heap_peek_None [of "sched_events (c_sched c)"] events(1) by (cases "heap_peek (sched_events (c_sched c))") auto
  have "entry_ready x \<le> STARTUP" using heap_peek_least [OF x, of ?e] events(1) by simp
  then have "x = ?e" using heap_peek_in [OF x] assms(2) events(1) by fastforce
  then have "poll_event c = Some (Some ev, upd_sched (\<lambda>_. fire ?e (c_sched c)) c)"
    using x events(2) by (simp add: poll_event_def get_pending_event_cases)
  then show ?thesis by blast
qed

text \<open>The callbacks that end a command of the drive, the state each leaves the drive in, and the response:
  the status, or the eight bytes of the identification.\<close>

fun second_response :: "cdrom_callback \<Rightarrow> bool" where
  "second_response cdrom_run = False"
| "second_response sector_done = False"
| "second_response cb = True"

fun state_after :: "cdrom_callback \<Rightarrow> drive_state \<Rightarrow> drive_state" where
  "state_after async_stop st = DrvIdle"
| "state_after async_get_id st = DrvIdle"
| "state_after async_pause st = Paused"
| "state_after async_read_toc st = Paused"
| "state_after cb st = st"

definition second_reply :: "cdrom_callback \<Rightarrow> cdrom \<Rightarrow> u8 list" where
  "second_reply cb d =
     (if cb = async_get_id then [drive_stat d, 0, 0x20, 0, 0x53, 0x43, 0x45, 0x41]
      else [drive_stat (d\<lparr>cr_state := state_after cb (cr_state d)\<rparr>)])"

lemma set_complete:
  assumes "bit (cr_irq_mask c) 1"
  shows "set_interrupt Complete (sch, c) = (snd (trigger (EvIrq CdRomIrq) sch), c\<lparr>cr_irq_flags := 2\<rparr>)"
proof -
  have "bit (2 AND cr_irq_mask c) 1" using assms by (simp add: bit_simps)
  then have "2 AND cr_irq_mask c \<noteq> 0" by (rule bit_nonzero)
  then show ?thesis by (simp add: set_interrupt_def cd_irq_active_def)
qed

lemma finish_complete:
  assumes "fifo_inv (cr_response d)" "length (fifo_contents (cr_response d)) < 15" "bit (cr_irq_mask d) 1"
  shows "\<exists>c'. finish_cmd Complete (sch, d) = Some (snd (trigger (EvIrq CdRomIrq) sch), c') \<and> cr_irq_flags c' = 2
    \<and> cr_state c' = cr_state d \<and> fifo_contents (cr_response c') = fifo_contents (cr_response d) @ [drive_stat d]"
proof -
  obtain f where "fifo_push (drive_stat d) (cr_response d) = Some f"
    "fifo_contents f = fifo_contents (cr_response d) @ [drive_stat d]"
    using fifo_push_contents [OF assms(1,2), of "drive_stat d"] by auto
  then show ?thesis using set_complete [of "d\<lparr>cr_response := f\<rparr>" sch] assms(3) by (simp add: finish_cmd_def)
qed

lemma second_response_event:
  assumes "second_response cb" "fifo_inv (cr_response c)" "bit (cr_irq_mask c) 1"
    and "length (fifo_contents (cr_response c)) + length (second_reply cb c) \<le> 15"
  shows "\<exists>c'. cdrom_event cb (sch, c) = Some (snd (trigger (EvIrq CdRomIrq) sch), c') \<and> cr_irq_flags c' = 2
    \<and> cr_state c' = state_after cb (cr_state c)
    \<and> fifo_contents (cr_response c') = fifo_contents (cr_response c) @ second_reply cb c"
proof (cases "cb = async_get_id")
  case True
  obtain f where f: "fifo_push_slice (second_reply cb c) (cr_response c) = Some f"
    "fifo_contents f = fifo_contents (cr_response c) @ second_reply cb c"
    using dev.push_all_contents [OF assms(2,4)] by (auto simp: fifo_push_slice_all)
  then show ?thesis
    using True set_complete [of "c\<lparr>cr_state := DrvIdle, cr_response := f\<rparr>" sch] assms(3)
    by (simp add: cdrom_event_def cd_async_get_id_def respond_def second_reply_def)
next
  case False
  have room: "length (fifo_contents (cr_response c)) < 15" using assms(4) False by (simp add: second_reply_def)
  have fin: "\<exists>c'. finish_cmd Complete (sch, c\<lparr>cr_state := st\<rparr>) = Some (snd (trigger (EvIrq CdRomIrq) sch), c')
      \<and> cr_irq_flags c' = 2 \<and> cr_state c' = st
      \<and> fifo_contents (cr_response c') = fifo_contents (cr_response c) @ [drive_stat (c\<lparr>cr_state := st\<rparr>)]" for st
    using finish_complete [of "c\<lparr>cr_state := st\<rparr>" sch] assms(2,3) room by simp
  have same: "c\<lparr>cr_state := cr_state c\<rparr> = c" by simp
  show ?thesis
    using False assms(1) fin [of DrvIdle] fin [of Paused] fin [of "cr_state c", unfolded same]
    by (cases cb) (simp_all add: cdrom_event_def second_reply_def)
qed

text \<open>C13: The second response of a drive command reaches the program's exception handler: the event leaves the
  drive in the state the command promises, pushes the response (the status of the drive in that state; the
  identification is the status from before it and seven bytes more), and requests the interrupt. The next
  event delivered is that interrupt, and delivering it makes the CPU, when both masks allow it, enter an
  exception with the interrupt code at the instruction that would have come next.\<close>

theorem drive_response_interrupts:
  assumes "cpu_ok c" "second_response cb" "d = sy_cdrom (b_dev (c_bus c))"
    and "fifo_inv (cr_response d)" "bit (cr_irq_mask d) 1"
    and "length (fifo_contents (cr_response d)) + length (second_reply cb d) \<le> 15"
    and "bit (irq_mask (b_irq (c_bus c))) 2" "bit (c_cop0 c ! 12) 0" "bit (c_cop0 c ! 12) 10"
    and "\<forall>e \<in> set (sched_events (c_sched c)). STARTUP < entry_ready e"
  shows "\<exists>c1 c2 c3 d'. exec_event (system_env env wr fuel) (EvCdRom cb) c = Some c1
    \<and> poll_event c1 = Some (Some (EvIrq CdRomIrq), c2)
    \<and> exec_event (system_env env wr fuel) (EvIrq CdRomIrq) c2 = Some c3
    \<and> exception_vector (c_pc c3) \<and> c_cop0 c3 ! 14 = (if branched c then c_pc c - 4 else c_pc c)
    \<and> bit_range (c_cop0 c3 ! 13) 2 6 = 0 \<and> bit (irq_status (b_irq (c_bus c3))) 2
    \<and> d' = sy_cdrom (b_dev (c_bus c3)) \<and> cr_irq_flags d' = 2 \<and> cr_state d' = state_after cb (cr_state d)
    \<and> fifo_contents (cr_response d') = fifo_contents (cr_response d) @ second_reply cb d"
proof -
  obtain d' where e: "cdrom_event cb (c_sched c, d) = Some (snd (trigger (EvIrq CdRomIrq) (c_sched c)), d')"
    "cr_irq_flags d' = 2" "cr_state d' = state_after cb (cr_state d)"
    "fifo_contents (cr_response d') = fifo_contents (cr_response d) @ second_reply cb d"
    using second_response_event [OF assms(2,4,5,6)] by blast
  let ?b1 = "(c_bus c)\<lparr>b_sched := snd (trigger (EvIrq CdRomIrq) (c_sched c)), b_dev := (b_dev (c_bus c))\<lparr>sy_cdrom := d'\<rparr>\<rparr>"
  let ?c1 = "c\<lparr>c_bus := ?b1\<rparr>"
  have 1: "exec_event (system_env env wr fuel) (EvCdRom cb) c = Some ?c1"
    using e(1) assms(3) by (simp add: exec_event_def system_env_def system_devices_def on_cdrom_def Let_def)
  obtain sch where 2: "poll_event ?c1 = Some (Some (EvIrq CdRomIrq), upd_sched (\<lambda>_. sch) ?c1)"
    using poll_triggered [of ?c1 "EvIrq CdRomIrq" "c_sched c"] assms(10) by auto
  let ?b2 = "?b1\<lparr>b_sched := sch, b_irq := irq_trigger CdRomIrq (b_irq (c_bus c))\<rparr>"
  let ?c2 = "c\<lparr>c_bus := ?b2\<rparr>"
  let ?c3 = "throw_exception Interrupt (fetch_load_slot (snd (next_pc ?c2)))"
  have ok: "cpu_ok ?c2" using assms(1) by (simp add: cpu_ok_def)
  have four: "bit (4 :: u32) 2" by code_simp
  have status: "bit (irq_status (irq_trigger CdRomIrq (b_irq (c_bus c)))) 2"
    "irq_mask (irq_trigger CdRomIrq (b_irq (c_bus c))) = irq_mask (b_irq (c_bus c))"
    using four by (simp_all add: irq_trigger_def bit_or_iff)
  have "bit (irq_status (b_irq ?b2) AND irq_mask (b_irq ?b2)) 2" using status assms(7) by (simp add: bit_and_iff)
  then have "irq_status (b_irq ?b2) AND irq_mask (b_irq ?b2) \<noteq> 0" by (rule bit_nonzero)
  then have "irq_active (b_irq (c_bus ?c2))" by (simp add: irq_active_def)
  then have "irq_requested ?c2" unfolding irq_requested_def using assms(9) by (intro bexI [of _ 10]) simp_all
  moreover have "bit (c_cop0 ?c2 ! 12) 0" using assms(8) by simp
  ultimately have "irq_pending ?c2 = Some True" unfolding irq_pending_iff [OF ok] by blast
  then have "check_for_pending_irq ?c2 = Some ?c3" unfolding check_for_pending_irq_def by simp
  then have 3: "exec_event (system_env env wr fuel) (EvIrq CdRomIrq) (upd_sched (\<lambda>_. sch) ?c1) = Some ?c3"
    by (simp add: exec_event_def upd_sched_def Let_def)
  have n1: "cpu_ok (fetch_load_slot (snd (next_pc ?c2)))" using ok by simp
  have n: "in_branch_delay (fetch_load_slot (snd (next_pc ?c2))) = branched c"
    "c_last_pc (fetch_load_slot (snd (next_pc ?c2))) = c_pc c" "c_bus (fetch_load_slot (snd (next_pc ?c2))) = ?b2"
    by (simp_all add: next_pc_def Let_def)
  note t = throw_exception_regs [OF n1, of Interrupt]
  have bus: "b_irq (c_bus ?c3) = b_irq ?b2" "b_dev (c_bus ?c3) = b_dev ?b2"
    using n(3) by (simp_all add: throw_exception_def upd_sched_def split: prod.split)
  show ?thesis
    using 1 2 3 t(2,4,5) n(1,2) bus status(1) e(2-4)
    by (intro exI [of _ ?c1] exI [of _ "upd_sched (\<lambda>_. sch) ?c1"] exI [of _ ?c3] exI [of _ d']) simp
qed

text \<open>A new system with the interrupt enabled and nothing else in its queue.\<close>

definition waiting_system :: sys_cpu where
  "waiting_system =
     (let c = system_new jump_bios None (\<lambda>_. None) (\<lambda>_. None); b = c_bus c; d = b_dev b
      in c\<lparr>c_cop0 := (c_cop0 c)[12 := 0x401], c_bus := b\<lparr>b_sched := schedule_new,
           b_irq := (b_irq b)\<lparr>irq_mask := 4\<rparr>, b_dev := d\<lparr>sy_cdrom := (sy_cdrom d)\<lparr>cr_irq_mask := 0x1f\<rparr>\<rparr>\<rparr>\<rparr>)"

theorem drive_response_interrupts_witness:
  "\<forall>env wr. \<exists>c1 c2 c3. exec_event (system_env env wr 1) (EvCdRom async_get_id) waiting_system = Some c1
    \<and> poll_event c1 = Some (Some (EvIrq CdRomIrq), c2)
    \<and> exec_event (system_env env wr 1) (EvIrq CdRomIrq) c2 = Some c3
    \<and> exception_vector (c_pc c3) \<and> c_cop0 c3 ! 14 = 0xbfc00000
    \<and> fifo_contents (cr_response (sy_cdrom (b_dev (c_bus c3)))) = [0x10, 0, 0x20, 0, 0x53, 0x43, 0x45, 0x41]"
proof (intro allI)
  fix env :: "('f, 'e) gpu_env" and wr
  obtain sch1 g where 1: "gpu_new schedule_new = (sch1, g)" by (cases "gpu_new schedule_new")
  obtain schc cd where c: "cdrom_new None sch1 = (schc, cd)" by (cases "cdrom_new None sch1")
  obtain sch2 sp where 2: "spu_new schc = (sch2, sp)" by (cases "spu_new schc")
  let ?d = "\<lparr>sy_gpu = g, sy_cdrom = cd, sy_spu = sp, sy_io = io_port_new (\<lambda>_. None) (\<lambda>_. None)\<rparr>"
  have b: "system_new jump_bios None (\<lambda>_. None) (\<lambda>_. None) = cpu_new (bus_new jump_bios sch2 ?d) gte_default"
    by (simp add: system_new_def 1 2 c)
  have cd: "cr_response cd = fifo_new 0 16" using c by (auto simp: cdrom_new_def)
  have ok: "cpu_ok waiting_system"
    using cpu_ok_new [of "bus_new jump_bios sch2 ?d" gte_default]
    by (simp add: waiting_system_def b cpu_ok_def Let_def cop0_ok_def)
  have cop: "c_cop0 waiting_system ! 12 = 0x401" "c_pc waiting_system = 0xbfc00000" "\<not> branched waiting_system"
    "irq_mask (b_irq (c_bus waiting_system)) = 4" "sched_events (c_sched waiting_system) = []"
    "cr_response (sy_cdrom (b_dev (c_bus waiting_system))) = fifo_new 0 16"
    "cr_irq_mask (sy_cdrom (b_dev (c_bus waiting_system))) = 0x1f"
    by (simp_all add: waiting_system_def b cd bus_new_def Let_def cpu_new_def cop0_new_def REGISTER_VALUES_def PC_START_ADDRESS_def schedule_new_def)
  have bits: "bit (0x401 :: u32) 0" "bit (0x401 :: u32) 10" "bit (4 :: u32) 2" "bit (0x1f :: u8) 1" by code_simp+
  have reply: "second_reply async_get_id (sy_cdrom (b_dev (c_bus waiting_system))) = [0x10, 0, 0x20, 0, 0x53, 0x43, 0x45, 0x41]"
    using c by (auto simp: second_reply_def waiting_system_def b bus_new_def Let_def cpu_new_def cdrom_new_def drive_stat_def)
  show "\<exists>c1 c2 c3. exec_event (system_env env wr 1) (EvCdRom async_get_id) waiting_system = Some c1
    \<and> poll_event c1 = Some (Some (EvIrq CdRomIrq), c2)
    \<and> exec_event (system_env env wr 1) (EvIrq CdRomIrq) c2 = Some c3
    \<and> exception_vector (c_pc c3) \<and> c_cop0 c3 ! 14 = 0xbfc00000
    \<and> fifo_contents (cr_response (sy_cdrom (b_dev (c_bus c3)))) = [0x10, 0, 0x20, 0, 0x53, 0x43, 0x45, 0x41]"
    using drive_response_interrupts [OF ok _ refl, of async_get_id env wr 1] fifo_new_inv [of "0 :: u8"] cop bits reply by force
qed

end
