(* ===== verification/EventGrowth.thy ===== *)
theory EventGrowth
  imports System
begin

text \<open>
  What the callbacks of events do to the schedule (\<open>crates/splst_core/src/schedule.rs\<close> and the handlers in
  \<open>timer.rs\<close>, \<open>cdrom/mod.rs\<close>, \<open>io_port/mod.rs\<close>, \<open>spu/mod.rs\<close>, \<open>gpu/mod.rs\<close>): they leave the clock and
  the repeating entries alone, and what they schedule is later than now, apart from a bounded number of
  interrupts. \<open>EventLoop\<close> uses it to show that the loop over the due events ends.
\<close>

section \<open>The cost of what is due\<close>

text \<open>The events that only repeat, and the most a callback of each other event adds to what is due, plus one.\<close>

definition cyclic :: "event \<Rightarrow> bool" where
  "cyclic ev \<longleftrightarrow> ev = EvGpu end_of_scanline \<or> ev = EvSpu spu_run_cycle"

fun event_cost :: "event \<Rightarrow> nat" where
  "event_cost (EvCdRom cb) = 2"
| "event_cost (EvTimer i run_timer_cb) = 2"
| "event_cost (EvIoPort io_ack_input) = 3"
| "event_cost ev = 1"

definition repeats :: "event_entry \<Rightarrow> bool" where "repeats e \<longleftrightarrow> entry_mode e \<noteq> Once"

definition overdue :: "timestamp \<Rightarrow> event_entry \<Rightarrow> nat" where
  "overdue now e = Suc (unat now) - unat (entry_ready e)"

definition once_cost :: "timestamp \<Rightarrow> event_entry \<Rightarrow> nat" where
  "once_cost now e = (if \<not> repeats e \<and> entry_ready e \<le> now then event_cost (entry_event e) else 0)"

definition cycle_cost :: "timestamp \<Rightarrow> event_entry \<Rightarrow> nat" where
  "cycle_cost now e = (if repeats e then overdue now e else 0)"

definition once_due :: "schedule \<Rightarrow> nat" where
  "once_due s = sum_list (map (once_cost (sched_now s)) (sched_events s))"

definition cycles_due :: "schedule \<Rightarrow> nat" where
  "cycles_due s = sum_list (map (cycle_cost (sched_now s)) (sched_events s))"

definition fresh :: "schedule \<Rightarrow> bool" where
  "fresh s \<longleftrightarrow> sched_next_event s = earliest (sched_events s)"

text \<open>The clock is in its first half, 48 days of emulated time, so that no delay reaches around.\<close>

definition early :: "schedule \<Rightarrow> bool" where "early s \<longleftrightarrow> unat (sched_now s) < 2 ^ 63"

definition grows :: "nat \<Rightarrow> schedule \<Rightarrow> schedule \<Rightarrow> bool" where
  "grows k s s' \<longleftrightarrow> sched_now s' = sched_now s \<and> (fresh s \<longrightarrow> fresh s') \<and> cycles_due s' \<le> cycles_due s
     \<and> (early s \<longrightarrow> once_due s' \<le> once_due s + k)
     \<and> (\<forall>e \<in> set (sched_events s'). e \<in> set (sched_events s) \<or> \<not> repeats e \<and> \<not> cyclic (entry_event e))"

named_theorems grow_intros \<open>how operations change the schedule\<close>

lemma grows_refl [grow_intros]: "grows k s s"
  by (simp add: grows_def)

lemma grows_trans: "grows j s t \<Longrightarrow> grows k t u \<Longrightarrow> grows (j + k) s u"
  by (fastforce simp: grows_def early_def)

lemma grows_then: "grows k s t \<Longrightarrow> grows 0 t u \<Longrightarrow> grows k s u"
  and grows_after: "grows 0 s t \<Longrightarrow> grows k t u \<Longrightarrow> grows k s u"
  using grows_trans [of k s t 0 u] grows_trans [of 0 s t k u] by simp_all

lemma grows_mono: "grows j s t \<Longrightarrow> j \<le> k \<Longrightarrow> grows k s t"
  by (auto simp: grows_def)

lemma grows_now: "grows k s t \<Longrightarrow> sched_now t = sched_now s"
  by (simp add: grows_def)

section \<open>The operations of the schedule\<close>

text \<open>A new entry that does not repeat.\<close>

lemma grows_push:
  assumes "\<not> repeats e" "\<not> cyclic (entry_event e)" "early s \<Longrightarrow> once_cost (sched_now s) e \<le> k"
    and "sched_events s' = sched_events s @ [e]" "sched_now s' = sched_now s" "fresh s'"
  shows "grows k s s'"
  using assms by (auto simp: grows_def once_due_def cycles_due_def cycle_cost_def)

lemma once_cost_le: "once_cost now e \<le> event_cost (entry_event e)"
  by (simp add: once_cost_def)

lemma grows_trigger:
  assumes "\<not> cyclic ev"
  shows "grows (event_cost ev) s (snd (trigger ev s))"
proof (rule grows_push)
  let ?e = "\<lparr>entry_event = ev, entry_ready = STARTUP, entry_mode = Once, entry_id = next_event_id s\<rparr>"
  show "sched_events (snd (trigger ev s)) = sched_events s @ [?e]" "sched_now (snd (trigger ev s)) = sched_now s"
    by (simp_all add: trigger_def heap_push_def)
  have "earliest (sched_events s @ [?e]) = STARTUP" by (rule earliest_startup [of ?e]) simp_all
  then show "fresh (snd (trigger ev s))" by (simp add: fresh_def trigger_def heap_push_def)
  show "once_cost (sched_now s) ?e \<le> event_cost ev" using once_cost_le [of _ ?e] by simp
qed (use assms in \<open>simp_all add: repeats_def\<close>)

lemma grows_schedule_cost:
  assumes "\<not> cyclic ev" "early s \<Longrightarrow> sched_now s + t \<le> sched_now s \<Longrightarrow> event_cost ev \<le> k"
  shows "grows k s (snd (schedule_event t ev s))"
proof (rule grows_push)
  let ?e = "\<lparr>entry_event = ev, entry_ready = sched_now s + t, entry_mode = Once, entry_id = next_event_id s\<rparr>"
  show "sched_events (snd (schedule_event t ev s)) = sched_events s @ [?e]"
    "sched_now (snd (schedule_event t ev s)) = sched_now s" "fresh (snd (schedule_event t ev s))"
    by (simp_all add: schedule_event_def push_event_def heap_push_def fresh_def)
  show "once_cost (sched_now s) ?e \<le> k" if "early s" using assms(2) that by (simp add: once_cost_def)
qed (use assms in \<open>simp_all add: repeats_def\<close>)

lemma grows_schedule: "\<not> cyclic ev \<Longrightarrow> grows (event_cost ev) s (snd (schedule_event t ev s))"
  by (rule grows_schedule_cost) simp_all

lemma grows_later:
  assumes "\<not> cyclic ev" "t \<noteq> 0" "unat t < 2 ^ 63"
  shows "grows 0 s (snd (schedule_event t ev s))"
proof (rule grows_schedule_cost [OF assms(1)])
  assume "early s"
  then have "unat (sched_now s + t) = unat (sched_now s) + unat t"
    using assms(3) by (intro unat_add_no_wrap) (simp add: early_def)
  moreover assume "sched_now s + t \<le> sched_now s"
  ultimately show "event_cost ev \<le> 0" using assms(2) by (simp add: word_le_nat_alt unat_eq_0)
qed

lemma grows_unschedule [grow_intros]: "grows k s (unschedule i s)"
  by (auto simp: grows_def unschedule_def heap_retain_def once_due_def cycles_due_def fresh_def
      intro!: sum_list_filter_le_nat trans_le_add1)

lemma grows_irq [grow_intros]: "grows 1 s (snd (trigger (EvIrq i) s))" "grows 1 s (snd (trigger EvIrqCheck s))"
  using grows_trigger [of "EvIrq i" s] grows_trigger [of EvIrqCheck s] by (simp_all add: cyclic_def)

lemma grows_cycles [grow_intros]:
  assumes "\<not> cyclic ev" "0 < unat n" "unat n < 2 ^ 40"
  shows "grows 0 s (snd (schedule_event (systime_new n) ev s))"
proof (rule grows_later [OF assms(1)])
  have u: "unat (systime_new n) = unat n * 65536" using assms(3) by (simp add: unat_systime_new)
  show "systime_new n \<noteq> 0" using u assms(2) by (metis mult_is_0 neq0_conv unat_0 zero_neq_numeral)
  show "unat (systime_new n) < 2 ^ 63" using u assms(3) by simp
qed

section \<open>The CD-ROM\<close>

lemma set_interrupt_grows: "set_interrupt i (sch, c) = (sch', c') \<Longrightarrow> grows 1 sch sch'"
  by (auto simp: set_interrupt_def Let_def split: if_splits simp del: One_nat_def intro: grow_intros)

lemma finish_grows: "finish_cmd i (sch, c) = Some (sch', c') \<Longrightarrow> grows 1 sch sch'"
  by (auto simp: finish_cmd_def simp del: One_nat_def split: bind_splits intro: set_interrupt_grows)

lemma later_grows: "later n cb (sch, c) = (sch', c') \<Longrightarrow> 0 < unat n \<Longrightarrow> unat n < 2 ^ 40 \<Longrightarrow> grows 0 sch sch'"
  by (auto simp: later_def cyclic_def intro: grows_cycles)

lemma start_read_grows: "start_read (sch, c) = (sch', c') \<Longrightarrow> grows 0 sch sch'"
  and start_seek_grows: "start_seek ty af (sch, c) = (sch', c') \<Longrightarrow> grows 0 sch sch'"
  by (auto simp: start_read_def start_seek_def elim!: later_grows)

lemma finish_later_grows:
  assumes "finish_cmd i (sch, c) = Some (s1, c1)" "later n cb (s1, c2) = (sch', c')" "0 < unat n" "unat n < 2 ^ 40"
  shows "grows 1 sch sch'"
  using finish_grows [OF assms(1)] later_grows [OF assms(2-4)] by (rule grows_then)

lemma sector_done_grows:
  assumes "cd_sector_done (sch, c) = Some (sch', c')"
  shows "grows 1 sch sch'"
proof (cases "cr_state c = Reading")
  case True
  then obtain m s s1 c1 where "later 225000 sector_done (sch, c\<lparr>cr_position := m\<rparr>) = (s1, c1)"
    and "finish_cmd DataReady (s1, c1\<lparr>cr_sector := s\<rparr>) = Some (sch', c')"
    using assms by (auto simp: cd_sector_done_def Let_def split: bind_splits prod.splits)
  then show ?thesis using grows_after [OF later_grows finish_grows] by simp
next
  case False
  then have "sch' = sch \<or> (\<exists>d. start_read (sch, d) = (sch', c'))"
    using assms by (auto simp: cd_sector_done_def Let_def split: drive_state.splits after_seek.splits)
  then show ?thesis using start_read_grows [THEN grows_mono, of sch _ sch' c' 1] grows_refl by auto
qed

lemma arg_cmds_grow:
  "cmd_set_loc (sch, c) = Some (sch', c') \<Longrightarrow> grows 1 sch sch'"
  "cmd_set_mode (sch, c) = Some (sch', c') \<Longrightarrow> grows 1 sch sch'"
  "cmd_test (sch, c) = Some (sch', c') \<Longrightarrow> grows 1 sch sch'"
  by (auto simp: cmd_set_loc_def cmd_set_mode_def cmd_test_def simp del: One_nat_def split: bind_splits
      prod.splits if_splits intro: finish_grows set_interrupt_grows)

lemma seek_cmds_grow:
  "cmd_stop (sch, c) = Some (sch', c') \<Longrightarrow> grows 1 sch sch'"
  "cmd_pause (sch, c) = Some (sch', c') \<Longrightarrow> grows 1 sch sch'"
  "cmd_init (sch, c) = Some (sch', c') \<Longrightarrow> grows 1 sch sch'"
  by (auto simp: cmd_stop_def cmd_pause_def cmd_init_def Let_def simp del: One_nat_def split: bind_splits
      elim!: finish_later_grows split: if_splits drive_state.splits)

lemma seekl_grows: "cmd_seekl (sch, c) = Some (sch', c') \<Longrightarrow> grows 1 sch sch'"
proof -
  assume a: "cmd_seekl (sch, c) = Some (sch', c')"
  obtain s1 c1 where s: "start_seek SeekData ThenPause (sch, c) = (s1, c1)" by fastforce
  obtain s2 c2 where "finish_cmd Ack (s1, c1) = Some (s2, c2)" "later 225000 async_seekl (s2, c2) = (sch', c')"
    using a by (auto simp: cmd_seekl_def s split: bind_splits)
  then show ?thesis using grows_after [OF start_seek_grows [OF s] finish_later_grows] by simp
qed

lemma get_id_grows: "cmd_get_id (sch, c) = Some (sch', c') \<Longrightarrow> grows 1 sch sch'"
proof (cases "cr_disc c")
  case None
  then show "cmd_get_id (sch, c) = Some (sch', c') \<Longrightarrow> grows 1 sch sch'"
    by (auto simp: cmd_get_id_def simp del: One_nat_def split: bind_splits dest: set_interrupt_grows)
next
  case (Some d)
  then show "cmd_get_id (sch, c) = Some (sch', c') \<Longrightarrow> grows 1 sch sch'"
    by (auto simp: cmd_get_id_def simp del: One_nat_def split: bind_splits elim!: finish_later_grows)
qed

lemma grows_second [grow_intros]: "\<not> cyclic ev \<Longrightarrow> grows 0 s (snd (schedule_event (from_duration 1000000000) ev s))"
  by (rule grows_later) (simp_all add: from_duration_def CPU_CYCLES_PER_NANO_def)

lemma read_toc_grows: "cmd_read_toc (sch, c) = Some (sch', c') \<Longrightarrow> grows 1 sch sch'"
  by (auto simp: cmd_read_toc_def simp del: One_nat_def split: bind_splits prod.splits
      intro!: grows_then [OF finish_grows grows_second] simp: cyclic_def)

lemma read_n_grows: "cmd_read_n (sch, c) = Some (b, sch', c') \<Longrightarrow> grows 1 sch sch'"
proof -
  assume a: "cmd_read_n (sch, c) = Some (b, sch', c')"
  then obtain s1 c1 where f: "finish_cmd Ack (sch, c) = Some (s1, c1)"
    by (auto simp: cmd_read_n_def split: bind_splits)
  with a have "sch' = s1 \<or> start_read (s1, c1) = (sch', c') \<or> start_seek SeekData ThenRead (s1, c1) = (sch', c')"
    by (auto simp: cmd_read_n_def Let_def split: if_splits option.splits drive_state.splits)
  then show ?thesis
    using finish_grows [OF f] grows_then start_read_grows start_seek_grows by metis
qed

lemma dispatch_grows: "cd_dispatch cmd (sch, c) = Some (b, sch', c') \<Longrightarrow> grows 1 sch sch'"
  by (auto simp: cd_dispatch_def Let_def simp del: One_nat_def split: if_splits
      dest: finish_grows arg_cmds_grow seek_cmds_grow seekl_grows get_id_grows read_toc_grows read_n_grows)

lemma exec_cmd_grows: "cd_exec_cmd (sch, c) = Some (sch', c') \<Longrightarrow> grows 1 sch sch'"
  by (auto simp: cd_exec_cmd_def simp del: One_nat_def split: if_splits option.splits bind_splits
      intro: grows_refl dest: dispatch_grows)

lemma cdrom_event_grows: "cdrom_event cb (sch, c) = Some (sch', c') \<Longrightarrow> grows 1 sch sch'"
  by (cases cb) (auto simp: cdrom_event_def cd_async_get_id_def simp del: One_nat_def split: bind_splits
      dest: exec_cmd_grows sector_done_grows finish_grows set_interrupt_grows)

section \<open>The serial port and the sound unit\<close>

lemma begin_transfer_grows:
  assumes "begin_transfer (sch, p) = Some (sch', p')"
  shows "grows 1 sch sch'"
proof -
  obtain t where "sch' = snd (schedule_event t (EvIoPort io_transfer) sch)"
    using assms by (auto simp: begin_transfer_def Let_def split: bind_splits prod.splits) (metis snd_conv)
  then show ?thesis using grows_schedule [of "EvIoPort io_transfer" sch t] by (simp add: cyclic_def)
qed

lemma do_transfer_grows: "io_do_transfer wr (sch, p) = Some (sch', p') \<Longrightarrow> grows 0 sch sch'"
  using grows_cycles [of "EvIoPort io_ack_input" 300 sch] grows_cycles [of "EvIoPort io_ack_input" 500 sch]
  by (auto simp: io_do_transfer_def cyclic_def Let_def grows_refl split: bind_splits prod.splits if_splits)

lemma ack_input_grows:
  assumes "ack_input (sch, p) = Some (sch', p')"
  shows "grows 2 sch sch'"
proof -
  obtain s1 p1 where "grows 1 sch s1" "begin_transfer (s1, p1) = Some (sch', p') \<or> sch' = s1"
    using assms grows_irq(1) [of sch CtrlAndMemCard] grows_refl [of 1 sch]
    by (fastforce simp: ack_input_def Let_def simp del: One_nat_def split: if_splits)
  then show ?thesis using grows_trans [OF _ begin_transfer_grows] grows_mono by force
qed

lemma io_event_grows:
  "io_event wr io_transfer (sch, p) = Some (sch', p') \<Longrightarrow> grows 0 sch sch'"
  "io_event wr io_ack_input (sch, p) = Some (sch', p') \<Longrightarrow> grows 2 sch sch'"
  by (auto simp: io_event_def dest: do_transfer_grows ack_input_grows)

lemma spu_cycle_grows: "spu_cycle ((sch, s), c) = Some ((sch', s'), c') \<Longrightarrow> grows 1 sch sch'"
  by (auto simp: spu_cycle_def Let_def simp del: One_nat_def split: bind_splits prod.splits if_splits intro: grow_intros)

section \<open>The timers\<close>

lemma trigger_irq_grows: "grows 1 sch (fst (trigger_irq (sch, t)))"
proof -
  define s where "s = (if master_irq_flag (tmr_mode t) then snd (trigger (EvIrq (irq_kind (tmr_id t))) sch) else sch)"
  let ?l = "snd (schedule_event (systime_new 20) (EvTimer (tmr_id t) enable_irq_master_flag_cb) s)"
  have "fst (trigger_irq (sch, t)) \<in> {sch, s, ?l}"
    by (simp add: trigger_irq_def Let_def s_def)
  moreover have "grows 0 s ?l" by (rule grows_cycles) (simp_all add: cyclic_def)
  moreover have "grows 1 sch s" using grows_irq(1) grows_refl by (simp add: s_def)
  ultimately show ?thesis using grows_then grows_refl by auto
qed

lemma target_reached_grows: "grows 1 sch (fst (target_reached (sch, t)))"
  using trigger_irq_grows grows_refl by (simp add: target_reached_def Let_def del: One_nat_def)

lemma add_to_counter_grows: "\<exists>k. grows k sch (fst (add_to_counter a (sch, t)))"
proof (rule add_to_counter_preserves)
  fix x :: "schedule \<times> timer" assume "\<exists>k. grows k sch (fst x)"
  then show "\<exists>k. grows k sch (fst (trigger_irq x))" "\<exists>k. grows k sch (fst (target_reached x))"
    using trigger_irq_grows [of "fst x" "snd x"] target_reached_grows [of "fst x" "snd x"] grows_trans
    by (metis prod.collapse)+
qed (auto intro: grows_refl)

lemma timer_run_grows: "\<exists>k. grows k sch (fst (timer_run n (sch, t)))"
proof (rule timer_run_preserves)
  fix a s and t :: timer assume "\<exists>k. grows k sch (fst (s, t))"
  then show "\<exists>k. grows k sch (fst (add_to_counter a (s, t)))"
    using add_to_counter_grows [of s a t] grows_trans by (metis fst_conv)
qed (auto intro: grows_refl)

lemma unat_ticks_time:
  assumes "cs \<noteq> Hblank"
  shows "\<exists>k. 0 < k \<and> k \<le> 2 ^ 20 \<and> unat (ticks_to_time cs (ucast (a :: u16))) = unat a * k"
proof -
  have lt: "unat a < 2 ^ 16" using unsigned_less [of a, where ?'a = nat] by simp
  have u: "unat (ucast a :: u64) = unat a" using lt by (simp add: unsigned_ucast_eq take_bit_nat_eq_self)
  then have "unat (ucast a * 8 :: u64) = unat a * 8" "unat (ucast a * 41339 :: u64) = unat a * 41339"
    using lt by (simp_all add: unat_word_ariths)
  then show ?thesis
    using assms u lt
    by (cases cs) (auto simp: unat_systime_new from_gpu_ntsc_cycles_def CPU_CYCLES_PER_NTSC_CYCLE_def mult.assoc
        intro: exI [of _ 65536] exI [of _ 524288] exI [of _ 41339])
qed

lemma ticks_time_bound: "unat (ticks_to_time cs (ucast (a :: u16))) < 2 ^ 40"
proof (cases "cs = Hblank")
  case False
  then obtain k where "0 < k" "k \<le> 2 ^ 20" "unat (ticks_to_time cs (ucast a)) = unat a * k"
    using unat_ticks_time by blast
  moreover have "unat a < 2 ^ 16" using unsigned_less [of a, where ?'a = nat] by simp
  ultimately show ?thesis using mult_less_le_imp_less [of "unat a" "2 ^ 16" k "2 ^ 20"] by simp
qed (simp add: time_ZERO_def)

lemma ticks_time_zero: "cs \<noteq> Hblank \<Longrightarrow> ticks_to_time cs (ucast (a :: u16)) = 0 \<Longrightarrow> a = 0"
  using unat_ticks_time [of cs a] by (auto simp: unat_eq_0)

lemma predict_bound: "predict_next_irq t = Some time \<Longrightarrow> unat time < 2 ^ 40"
  using ticks_time_bound by (auto simp: predict_next_irq_def Let_def split: if_splits)

lemma next_run_grows:
  assumes "predict_next_irq t \<noteq> Some 0"
  shows "grows 0 sch (fst (schedule_next_run (sch, t)))"
proof (cases "predict_next_irq t")
  case (Some time)
  define s where "s = (case tmr_next_update t of Some i \<Rightarrow> unschedule i sch | None \<Rightarrow> sch)"
  have "fst (schedule_next_run (sch, t)) = snd (schedule_event time (EvTimer (tmr_id t) run_timer_cb) s)"
    by (simp add: schedule_next_run_def Some s_def Let_def split_beta split: option.split)
  moreover have "grows 0 s (snd (schedule_event time (EvTimer (tmr_id t) run_timer_cb) s))"
    using assms Some predict_bound [OF Some] by (intro grows_later) (simp_all add: cyclic_def)
  moreover have "grows 0 sch s" by (simp add: s_def grows_refl grows_unschedule split: option.split)
  ultimately show ?thesis using grows_then by simp
qed (simp add: schedule_next_run_def grows_refl)

text \<open>Two timers that differ only in their flags run alike, whatever the schedules.\<close>

definition alike :: "timer \<Rightarrow> timer \<Rightarrow> bool" where
  "alike t t' \<longleftrightarrow> same_config t t' \<and> tmr_counter t' = tmr_counter t \<and> tmr_has_triggered t' = tmr_has_triggered t"

lemma alike_refl [simp]: "alike t t"
  by (simp add: alike_def)

lemma alikeD:
  assumes "alike t t'"
  shows "tmr_counter t' = tmr_counter t" "tmr_target t' = tmr_target t" "tmr_has_triggered t' = tmr_has_triggered t"
    "reset_on_target (tmr_mode t') = reset_on_target (tmr_mode t)"
    "irq_on_target (tmr_mode t') = irq_on_target (tmr_mode t)"
    "irq_on_overflow (tmr_mode t') = irq_on_overflow (tmr_mode t)"
    "irq_repeat (tmr_mode t') = irq_repeat (tmr_mode t)"
  using assms same_configD [of t t'] by (auto simp: alike_def)

lemma same_config_range:
  assumes "same_config t t'" "ls \<le> ms" "ms < 10"
  shows "bit_range (tmr_mode t') ls ms = bit_range (tmr_mode t) ls ms"
proof (rule bit_word_eqI)
  fix n
  have "bit (tmr_mode t') k = bit (tmr_mode t) k" if "k < 10" for k
    using assms(1) that by (simp add: same_config_def bit_at_iff)
  then show "bit (bit_range (tmr_mode t') ls ms) n = bit (bit_range (tmr_mode t) ls ms) n"
    using assms(2,3) by (auto simp: bit_bit_range)
qed

lemma same_config_source: "same_config t t' \<Longrightarrow> timer_clock_source t' = timer_clock_source t"
  by (simp add: timer_clock_source_def mode_clock_source_def same_config_range same_configD(5))

lemma alike_predict:
  assumes "alike t t'"
  shows "predict_next_irq t' = predict_next_irq t"
proof -
  have c: "same_config t t'" using assms by (simp add: alike_def)
  then have "mode_clock_source (tmr_mode t') (tmr_id t') = mode_clock_source (tmr_mode t) (tmr_id t)"
    using same_config_source by (simp add: timer_clock_source_def)
  moreover have "sync_enabled (tmr_mode t') = sync_enabled (tmr_mode t)"
    using c by (simp add: same_config_def sync_enabled_def)
  moreover have "mode_sync_mode (tmr_mode t') (tmr_id t') = mode_sync_mode (tmr_mode t) (tmr_id t)"
    using c by (simp add: mode_sync_mode_def same_config_range same_configD(5))
  ultimately show ?thesis
    unfolding predict_next_irq_def alikeD [OF assms] same_config_source [OF c] by (simp only:)
qed

lemma snd_trigger_irq:
  "snd (trigger_irq (s, t)) =
     (if irq_repeat (tmr_mode t) \<or> \<not> tmr_has_triggered t
      then t\<lparr>tmr_has_triggered := True,
             tmr_mode := set_master_irq_flag (irq_toggle_mode (tmr_mode t) \<and> \<not> master_irq_flag (tmr_mode t)) (tmr_mode t)\<rparr>
      else t)"
  by (simp add: trigger_irq_def Let_def)

lemma alike_trigger: "alike t t' \<Longrightarrow> alike (snd (trigger_irq (s, t))) (snd (trigger_irq (s', t')))"
  using alikeD(3,7) [of t t'] by (simp add: snd_trigger_irq alike_def same_config_def)

lemma alike_target:
  assumes "alike t t'"
  shows "alike (snd (target_reached (s, t))) (snd (target_reached (s', t')))"
proof -
  define u :: "timer \<Rightarrow> timer" where "u t = (let t = t\<lparr>tmr_mode := set_target_reached True (tmr_mode t)\<rparr>
    in if reset_on_target (tmr_mode t) then t\<lparr>tmr_counter := 0\<rparr> else t)" for t
  have u: "alike (u t) (u t')"
    using assms alikeD [OF assms] by (auto simp: u_def Let_def alike_def same_config_def reset_on_target_def)
  have "target_reached (s, t) = (if irq_on_target (tmr_mode (u t)) then trigger_irq (s, u t) else (s, u t))" for s t
    by (simp add: target_reached_def u_def Let_def)
  then show ?thesis using u alike_trigger alikeD(5) [OF u] by simp
qed

lemma alike_add:
  assumes "alike t t'"
  shows "alike (snd (add_to_counter a (s, t))) (snd (add_to_counter a (s', t')))"
proof -
  define x y z where "x s t = (s :: schedule, t\<lparr>tmr_counter := tmr_counter t + a\<rparr>)"
    and "y s t = (if tmr_counter t < tmr_target t then target_reached (x s t) else x s t)"
    and "z s t = (if irq_on_overflow (tmr_mode (snd (y s t))) then trigger_irq (y s t) else y s t)" for s t
  have add: "add_to_counter a (s, t) =
    (if unat (tmr_counter t) + unat a < 2 ^ 16
     then (if tmr_target t \<le> tmr_counter t + a then target_reached (x s t) else x s t)
     else (fst (z s t), (snd (z s t))\<lparr>tmr_mode := set_overflow_reached True (tmr_mode (snd (z s t)))\<rparr>))" for s t
    by (simp add: add_to_counter_def x_def y_def z_def Let_def split_beta)
  have x: "alike (snd (x s t)) (snd (x s' t'))"
    using assms by (simp add: x_def alike_def same_config_def)
  have target: "alike (snd (target_reached (x s t))) (snd (target_reached (x s' t')))"
    using alike_target [OF x, of "fst (x s t)" "fst (x s' t')"] by simp
  have y: "alike (snd (y s t)) (snd (y s' t'))" using x target alikeD [OF assms] by (simp add: y_def)
  have "alike (snd (z s t)) (snd (z s' t'))"
    using y alikeD(6) [OF y] alike_trigger [OF y, of "fst (y s t)" "fst (y s' t')"] by (simp add: z_def)
  then have "alike ((snd (z s t))\<lparr>tmr_mode := set_overflow_reached True (tmr_mode (snd (z s t)))\<rparr>)
     ((snd (z s' t'))\<lparr>tmr_mode := set_overflow_reached True (tmr_mode (snd (z s' t')))\<rparr>)"
    by (simp add: alike_def same_config_def)
  then show ?thesis using x target alikeD [OF assms] by (simp add: add)
qed

lemma alike_run: "alike (snd x) (snd y) \<Longrightarrow> alike (snd (timer_run n x)) (snd (timer_run n y))"
proof (induction n x arbitrary: y rule: timer_run.induct)
  case (1 n x)
  have "alike (snd (add_to_counter a x)) (snd (add_to_counter a y))" for a
    using alike_add [OF "1.prems", of a "fst x" "fst y"] by simp
  then show ?case using 1 by (subst (1 2) timer_run.simps) auto
qed

text \<open>Running a timer for no time does not make its prediction zero.\<close>

lemma predict_zero:
  assumes "predict_next_irq t = Some 0"
  shows "tmr_counter t = -1" "irq_repeat (tmr_mode t) \<or> \<not> tmr_has_triggered t"
proof -
  let ?target = "if irq_on_target (tmr_mode t) then if tmr_target t \<le> tmr_counter t then -1 else tmr_target t else -1"
  have p: "timer_clock_source t \<noteq> Hblank" "irq_repeat (tmr_mode t) \<or> \<not> tmr_has_triggered t"
    "ticks_to_time (timer_clock_source t) (ucast (?target - tmr_counter t)) = 0"
    using assms unfolding predict_next_irq_def timer_clock_source_def Let_def by (auto split: if_splits)
  show "irq_repeat (tmr_mode t) \<or> \<not> tmr_has_triggered t" by (rule p(2))
  have "?target - tmr_counter t = 0" using ticks_time_zero [OF p(1,3)] .
  then have "tmr_counter t = ?target" by simp
  then show "tmr_counter t = -1" by (metis order_refl)
qed

lemma add_zero: "add_to_counter 0 (s, t) = (if tmr_target t \<le> tmr_counter t then target_reached (s, t) else (s, t))"
proof -
  have "unat (tmr_counter t) < 2 ^ 16" using unsigned_less [of "tmr_counter t", where ?'a = nat] by simp
  then show ?thesis by (simp add: add_to_counter_def)
qed

lemma add_zero_grows: "grows 1 sch (fst (add_to_counter 0 (sch, t)))"
  using target_reached_grows grows_refl by (simp add: add_zero del: One_nat_def)

lemma target_reached_fields:
  "tmr_counter (snd (target_reached (s, t))) = (if reset_on_target (tmr_mode t) then 0 else tmr_counter t)"
  "tmr_has_triggered t \<Longrightarrow> tmr_has_triggered (snd (target_reached (s, t)))"
  by (auto simp: target_reached_def Let_def snd_trigger_irq reset_on_target_def)

lemma run_zero_predict:
  assumes "predict_next_irq (snd (timer_run 0 (s, t))) = Some 0"
  shows "predict_next_irq t = Some 0"
proof -
  define u where "u = snd (timer_run 0 (s, t))"
  have u: "u = (if tmr_target t \<le> tmr_counter t then snd (target_reached (s, t)) else t)"
    by (simp add: u_def timer_run_chunk add_zero)
  note z = predict_zero [OF assms, folded u_def]
  have "tmr_counter u = tmr_counter t" using z(1) by (simp add: u target_reached_fields split: if_splits)
  moreover have c: "same_config t u" using timer_run_config by (simp add: u_def)
  ultimately have a: "alike t (u\<lparr>tmr_has_triggered := tmr_has_triggered t\<rparr>)" by (simp add: alike_def same_config_def)
  have "irq_repeat (tmr_mode t) \<or> \<not> tmr_has_triggered t"
    using z(2) same_configD(4) [OF c] target_reached_fields(2) by (auto simp: u split: if_splits)
  then have "predict_next_irq (u\<lparr>tmr_has_triggered := tmr_has_triggered t\<rparr>) = predict_next_irq u"
    using z(2) same_configD(4) [OF c] by (auto simp: predict_next_irq_def timer_clock_source_def)
  then show ?thesis using alike_predict [OF a] assms by (simp add: u_def)
qed

section \<open>The callbacks of the timers\<close>

text \<open>A timer moves on when its last update is not in the future and running it to now does not leave it
  with an interrupt predicted for now: the counter at its top, where the code predicts no ticks at all.\<close>

definition moves_on :: "timestamp \<Rightarrow> timer \<times> timestamp \<Rightarrow> bool" where
  "moves_on now x = (case time_since now (snd x) of
     None \<Rightarrow> False
   | Some d \<Rightarrow> predict_next_irq (snd (timer_run (unat (time_to_ticks (timer_clock_source (fst x)) d)) (schedule_new, fst x)))
       \<noteq> Some 0)"

lemma predict_hblank: "timer_clock_source t = Hblank \<Longrightarrow> predict_next_irq t = None"
  by (simp add: predict_next_irq_def timer_clock_source_def)

lemma same_config_sym: "same_config t t' \<Longrightarrow> same_config t' t"
  by (simp add: same_config_def)

lemma alike_moves_on: "alike t t' \<Longrightarrow> moves_on now (t', l) = moves_on now (t, l)"
  using alike_predict [OF alike_run [of "(schedule_new, t)" "(schedule_new, t')"]] same_config_source [of t t']
  by (auto simp: moves_on_def alike_def split: option.split)

lemma hblank_moves_on:
  assumes "moves_on now (t, l)" "same_config t t'" "timer_clock_source t = Hblank"
  shows "moves_on now (t', l)"
proof -
  have "predict_next_irq (snd (timer_run n (s, t'))) = None" for n s
    using predict_hblank same_config_source [OF same_config_trans [OF assms(2) timer_run_config]] assms(3) by metis
  then show ?thesis using assms(1) by (auto simp: moves_on_def split: option.splits)
qed

lemma moves_on_now:
  assumes "predict_next_irq t \<noteq> Some 0"
  shows "moves_on now (t, now)"
proof -
  have "time_since now now = Some 0" by (simp add: time_since_def systime_new_def from_cpu_cycles_def)
  moreover have "time_to_ticks cs 0 = 0" for cs
    by (cases cs) (simp_all add: as_cpu_cycles_def as_gpu_ntsc_cycles_def)
  ultimately show ?thesis using run_zero_predict [of schedule_new t] assms by (auto simp: moves_on_def)
qed

lemma update_timer_moves:
  assumes "moves_on (sched_now sch) (ts i)" "sched_now sch = now"
  shows "\<exists>s t k. update_timer i (sch, ts) = Some (s, ts(i := (t, now))) \<and> grows k sch s \<and> predict_next_irq t \<noteq> Some 0
    \<and> (snd (ts i) = now \<longrightarrow> grows 1 sch s)"
proof -
  obtain t l where ti: "ts i = (t, l)" by fastforce
  obtain d where d: "time_since now l = Some d"
    "predict_next_irq (snd (timer_run (unat (time_to_ticks (timer_clock_source t) d)) (schedule_new, t))) \<noteq> Some 0"
    using assms by (auto simp: moves_on_def ti split: option.splits)
  show ?thesis
  proof (cases "timer_clock_source t = Hblank")
    case True
    then have "update_timer i (sch, ts) = Some (sch, ts(i := (t, now)))"
      using d(1) assms(2) by (simp add: update_timer_def ti)
    then show ?thesis using predict_hblank [OF True] grows_refl by (metis option.distinct(1))
  next
    case False
    let ?n = "unat (time_to_ticks (timer_clock_source t) d)"
    obtain s u where r: "timer_run ?n (sch, t) = (s, u)" by fastforce
    have up: "update_timer i (sch, ts) = Some (s, ts(i := (u, now)))"
      using d(1) assms(2) False r by (simp add: update_timer_def ti)
    obtain k where k: "grows k sch s" using timer_run_grows [of sch ?n t] r by auto
    have "alike (snd (timer_run ?n (schedule_new, t))) u" using alike_run [of "(schedule_new, t)" "(sch, t)" ?n] r by simp
    then have p: "predict_next_irq u \<noteq> Some 0" using d(2) alike_predict by metis
    have "grows 1 sch s" if "l = now"
    proof -
      have "d = 0" using d(1) that by (simp add: time_since_def systime_new_def from_cpu_cycles_def)
      then have "?n = 0" by (cases "timer_clock_source t") (simp_all add: as_cpu_cycles_def as_gpu_ntsc_cycles_def)
      then have "s = fst (add_to_counter 0 (sch, t))" using r by (simp add: timer_run_chunk)
      then show ?thesis using add_zero_grows by simp
    qed
    then show ?thesis using up k p by (auto simp: ti simp del: One_nat_def)
  qed
qed

lemma run_timer_moves:
  assumes "moves_on (sched_now sch) (ts i)" "sched_now sch = now"
  shows "\<exists>s t k. run_timer i (sch, ts) = Some (s, ts(i := (t, now))) \<and> grows k sch s \<and> moves_on now (t, now)
    \<and> (snd (ts i) = now \<longrightarrow> grows 1 sch s)"
proof -
  obtain s t k where u: "update_timer i (sch, ts) = Some (s, ts(i := (t, now)))" "grows k sch s"
    "predict_next_irq t \<noteq> Some 0" "snd (ts i) = now \<longrightarrow> grows 1 sch s"
    using update_timer_moves [of sch ts i now, OF assms] by blast
  obtain s' t' where n: "schedule_next_run (s, t) = (s', t')" by fastforce
  have g: "grows 0 s s'" using next_run_grows [OF u(3), of s] n by simp
  have "\<exists>x. t' = t\<lparr>tmr_next_update := x\<rparr>"
    using n by (auto simp: schedule_next_run_def Let_def split_beta split: option.splits)
  then have "alike t t'" by (auto simp: alike_def same_config_def)
  then have "predict_next_irq t' \<noteq> Some 0" using u(3) alike_predict by metis
  then have m: "moves_on now (t', now)" by (rule moves_on_now)
  have "run_timer i (sch, ts) = Some (s', ts(i := (t', now)))"
    using u(1) n by (simp add: run_timer_def reschedule_timer_def)
  then show ?thesis using m u(2,4) g grows_then by blast
qed

lemma hblank_moves:
  assumes "\<forall>i. moves_on now (ts i)" "timers_hblank n (sch, ts) = (sch', ts')"
  shows "\<exists>k. grows k sch sch'" "\<forall>i. moves_on now (ts' i)" "\<forall>i. snd (ts' i) = snd (ts i)"
proof -
  obtain t l where ti: "ts Tmr1 = (t, l)" by fastforce
  obtain s u where r: "timer_run (unat n) (sch, t) = (s, u)" by fastforce
  have e: "(sch', ts') = (if timer_clock_source t = Hblank then (s, ts(Tmr1 := (u, l))) else (sch, ts))"
    using assms(2) by (simp add: timers_hblank_def ti r split: if_splits)
  have "\<exists>k. grows k sch s" using timer_run_grows [of sch "unat n" t] r by simp
  then show "\<exists>k. grows k sch sch'" using e grows_refl by (auto split: if_splits)
  have "moves_on now (t, l)" using assms(1) ti by metis
  then have "moves_on now (u, l)" if "timer_clock_source t = Hblank"
    using hblank_moves_on that timer_run_config [of t "unat n" sch] r by (metis snd_conv)
  then show "\<forall>i. moves_on now (ts' i)" using assms(1) e by (auto split: if_splits)
  show "\<forall>i. snd (ts' i) = snd (ts i)" using e ti by (auto split: if_splits)
qed

lemma master_flag_moves:
  assumes "\<forall>i. moves_on now (ts i)" "enable_irq_master_flag i (sch, ts) = (sch', ts')"
  shows "sch' = sch" "\<forall>i. moves_on now (ts' i)" "\<forall>i. snd (ts' i) = snd (ts i)"
proof -
  obtain t l where ti: "ts i = (t, l)" by fastforce
  let ?t = "t\<lparr>tmr_mode := set_master_irq_flag True (tmr_mode t)\<rparr>"
  have e: "sch' = sch" "ts' = ts(i := (?t, l))" using assms(2) by (simp_all add: enable_irq_master_flag_def ti)
  show "sch' = sch" by (rule e(1))
  have "alike t ?t" by (simp add: alike_def same_config_def)
  then have "moves_on now (?t, l)" using alike_moves_on assms(1) ti by metis
  then show "\<forall>i. moves_on now (ts' i)" "\<forall>i. snd (ts' i) = snd (ts i)" using assms(1) e(2) ti by auto
qed

end
