(* ===== verification/EventLoop.thy ===== *)
theory EventLoop
  imports EventGrowth GpuFrame CpuControl
begin

text \<open>
  The loop of \<open>Cpu::step\<close> (\<open>crates/splst_core/src/cpu/mod.rs\<close>) that delivers the events which are due
  before an instruction is executed, on the whole system: it ends. Its callbacks schedule and trigger more
  events; what each adds is bounded in \<open>EventGrowth\<close>.
\<close>

section \<open>The graphics unit\<close>

lemma known_len: "gp0_known cmd \<Longrightarrow> 0 < CMD_LEN ! unat cmd"
  by (auto simp: gp0_known_def known_lens)

lemma gp0_exec_takes:
  assumes "gf_inv (g_fifo g)" "gf_has_full_cmd (g_fifo g)" "gp0_exec env (sch, g) = Some (sch', g')"
  shows "gf_inv (g_fifo g')" "gf_count (g_fifo g') < gf_count (g_fifo g)" "grows 1 sch sch'"
proof -
  let ?cmd = "cmd_of (gf_index 0 (g_fifo g))" and ?n = "CMD_LEN ! unat (cmd_of (gf_index 0 (g_fifo g)))"
  obtain t h where d: "gp0_dispatch env ?cmd g = Some (t, h)"
    "(sch', g') = (case t of None \<Rightarrow> (sch, h) | Some t \<Rightarrow> (snd (schedule_event t (EvGpu draw_done) sch), h\<lparr>g_state := Drawing\<rparr>))"
    using assms(3) by (auto simp: gp0_exec_def split: bind_splits)
  then have "gp0_known ?cmd" using unknown_stops [of ?cmd env g] by auto
  then have "takes ?n (gp0_dispatch env ?cmd g) g" "0 < ?n"
    using known_takes line_takes d(1) known_len by (metis option.distinct(1))+
  then have h: "g_fifo h = gf_skip ?n (g_fifo g)" using d(1) by simp
  have le: "?n \<le> length (gf_contents (g_fifo g))" using full_cmd_len [OF assms(1,2)] by simp
  note s = gf_skip_contents [OF assms(1) le]
  have g: "g_fifo g' = g_fifo h" using d(2) by (auto split: option.splits)
  show "gf_inv (g_fifo g')" using s by (simp add: g h)
  have "length (gf_contents (g_fifo g')) = length (gf_contents (g_fifo g)) - ?n" using s by (simp add: g h)
  then show "gf_count (g_fifo g') < gf_count (g_fifo g)" using le \<open>0 < ?n\<close> by simp
  show "grows 1 sch sch'"
    using d(2) grows_refl grows_schedule [of "EvGpu draw_done" sch] by (auto simp: cyclic_def split: option.splits)
qed

lemma draw_done_moves:
  assumes "gf_inv (g_fifo g)" "gpu_draw_done env (sch, g) = Some (sch', g')"
  shows "gf_inv (g_fifo g') \<and> (sch' = sch \<and> g_fifo g' = g_fifo g
    \<or> grows 1 sch sch' \<and> gf_count (g_fifo g') < gf_count (g_fifo g))"
  using assms gp0_exec_takes [of "g\<lparr>g_state := Idle\<rparr>" env sch sch' g']
  by (auto simp: gpu_draw_done_def try_gp0_exec_def split: if_splits)

lemma end_of_scanline_moves:
  assumes "\<forall>i. moves_on now (ts i)" "gpu_end_of_scanline (sch, ts, g) = (sch', ts', g')"
  shows "\<exists>k. grows k sch sch'" "\<forall>i. moves_on now (ts' i)" "\<forall>i. snd (ts' i) = snd (ts i)" "g_fifo g' = g_fifo g"
proof -
  obtain s t where h: "timers_hblank 1 (sch, ts) = (s, t)" by fastforce
  have e: "ts' = t" "g_fifo g' = g_fifo g" "sch' = s \<or> sch' = snd (trigger (EvIrq VBlank) s)"
    using assms(2) by (auto simp: gpu_end_of_scanline_def h Let_def split: if_splits)
  note m = hblank_moves [OF assms(1) h]
  show "\<exists>k. grows k sch sch'" using m(1) e(3) grows_irq(1) grows_trans by blast
  show "\<forall>i. moves_on now (ts' i)" "\<forall>i. snd (ts' i) = snd (ts i)" "g_fifo g' = g_fifo g" using m(2,3) e(1,2) by simp_all
qed

section \<open>The states of the loop\<close>

definition repeat_ok :: "event_entry \<Rightarrow> bool" where
  "repeat_ok e = (case entry_mode e of Once \<Rightarrow> \<not> cyclic (entry_event e) | Repeat t \<Rightarrow> 0 < t \<and> t < 2 ^ 63)"

definition loop_ok :: "sys_cpu \<Rightarrow> bool" where
  "loop_ok c \<longleftrightarrow> cpu_ok c \<and> fresh (c_sched c) \<and> early (c_sched c) \<and> (\<forall>e \<in> set (sched_events (c_sched c)). repeat_ok e)
     \<and> (\<forall>p. \<not> cc_enabled (cs_ctrl (dma_channels (b_dma (c_bus c)) p)))
     \<and> gf_inv (g_fifo (sy_gpu (b_dev (c_bus c)))) \<and> (\<forall>i. moves_on (sched_now (c_sched c)) (b_timers (c_bus c) i))"

text \<open>What a round lowers: the interrupt enable bit, the repetitions due, the words in the FIFO of the GPU,
  the timers that were not updated now, and the events due once.\<close>

definition irq_open :: "sys_cpu \<Rightarrow> nat" where "irq_open c = of_bool (bit (c_cop0 c ! 12) 0)"
definition gpu_words :: "sys_cpu \<Rightarrow> nat" where "gpu_words c = gf_count (g_fifo (sy_gpu (b_dev (c_bus c))))"
definition stale :: "timestamp \<Rightarrow> timers \<Rightarrow> nat" where "stale now ts = card {i. snd (ts i) \<noteq> now}"
definition stale_timers :: "sys_cpu \<Rightarrow> nat" where "stale_timers c = stale (sched_now (c_sched c)) (b_timers (c_bus c))"

definition ranks :: "(sys_cpu \<Rightarrow> nat) list" where
  "ranks = [irq_open, \<lambda>c. cycles_due (c_sched c), gpu_words, stale_timers, \<lambda>c. once_due (c_sched c)]"

text \<open>Delivery.\<close>

lemma sum_list_remove1: "x \<in> set xs \<Longrightarrow> sum_list (map f xs) = f x + sum_list (map f (remove1 x xs))" for f :: "'a \<Rightarrow> nat"
  by (induction xs) auto

lemma fire_due:
  assumes "early s" "\<forall>e \<in> set (sched_events s). repeat_ok e" "e \<in> set (sched_events s)" "entry_ready e \<le> sched_now s"
  shows "sched_now (fire e s) = sched_now s" "fresh (fire e s)" "\<forall>e \<in> set (sched_events (fire e s)). repeat_ok e"
    "repeats e \<Longrightarrow> cycles_due (fire e s) < cycles_due s"
    "\<not> repeats e \<Longrightarrow> cycles_due (fire e s) = cycles_due s"
    "\<not> repeats e \<Longrightarrow> once_due (fire e s) + event_cost (entry_event e) = once_due s"
    "\<not> repeats e \<Longrightarrow> \<not> cyclic (entry_event e)"
proof -
  let ?h = "remove1 e (sched_events s)"
  have sub: "set ?h \<subseteq> set (sched_events s)" by (rule set_remove1_subset)
  show "sched_now (fire e s) = sched_now s" "fresh (fire e s)" by (simp_all add: fire_def fresh_def)
  have le: "repeat_ok e" using assms(2,3) by blast
  show "\<forall>e \<in> set (sched_events (fire e s)). repeat_ok e"
    using assms(2) sub le by (auto simp: fire_def heap_push_def repeat_ok_def split: repeat_mode.splits)
  show "\<not> repeats e \<Longrightarrow> \<not> cyclic (entry_event e)" using le by (auto simp: repeats_def repeat_ok_def split: repeat_mode.splits)
  note split1 = sum_list_remove1 [OF assms(3)]
  show "\<not> repeats e \<Longrightarrow> cycles_due (fire e s) = cycles_due s"
    "\<not> repeats e \<Longrightarrow> once_due (fire e s) + event_cost (entry_event e) = once_due s"
    using split1 [of "cycle_cost (sched_now s)"] split1 [of "once_cost (sched_now s)"] assms(4)
    by (auto simp: fire_def repeats_def cycles_due_def once_due_def cycle_cost_def once_cost_def split: repeat_mode.splits)
  assume "repeats e"
  then obtain t where t: "entry_mode e = Repeat t" "0 < t" "t < 2 ^ 63"
    using le by (auto simp: repeats_def repeat_ok_def split: repeat_mode.splits)
  have lt: "unat (entry_ready e) < 2 ^ 63" "unat (entry_ready e) \<le> unat (sched_now s)" "unat t < 2 ^ 63" "0 < unat t"
    using assms(1,4) t(2,3) by (auto simp: early_def word_le_nat_alt word_less_nat_alt)
  then have "unat (entry_ready e + t) = unat (entry_ready e) + unat t" by (intro unat_add_no_wrap) simp
  then have "overdue (sched_now s) (e\<lparr>entry_ready := entry_ready e + t\<rparr>) < overdue (sched_now s) e"
    using lt by (simp add: overdue_def)
  then show "cycles_due (fire e s) < cycles_due s"
    using split1 [of "cycle_cost (sched_now s)"] t(1)
    by (simp add: fire_def heap_push_def cycles_due_def cycle_cost_def repeats_def)
qed

lemma poll_rounds:
  assumes "loop_ok c"
  shows "poll_event c = Some (None, c) \<and> (\<forall>e \<in> set (sched_events (c_sched c)). sched_now (c_sched c) < entry_ready e)
    \<or> (\<exists>e \<in> set (sched_events (c_sched c)). entry_ready e \<le> sched_now (c_sched c)
        \<and> poll_event c = Some (Some (entry_event e), upd_sched (\<lambda>_. fire e (c_sched c)) c))"
proof -
  let ?s = "c_sched c"
  have f: "sched_next_event ?s = earliest (sched_events ?s)" and now: "unat (sched_now ?s) < 2 ^ 63"
    using assms by (simp_all add: loop_ok_def fresh_def early_def)
  show ?thesis
  proof (cases "earliest (sched_events ?s) \<le> sched_now ?s")
    case True
    have "unat NEVER = 2 ^ 64 - 1"
      by (simp add: NEVER_def time_FOREVER_def unsigned_minus_1_eq_mask mask_eq_exp_minus_1)
    then have never: "\<not> NEVER \<le> sched_now ?s" using now by (simp add: word_le_nat_alt)
    obtain e where e: "heap_peek (sched_events ?s) = Some e"
      using True never by (cases "heap_peek (sched_events ?s)") (auto simp: earliest_def)
    have "entry_ready e \<le> sched_now ?s" using True e by (simp add: earliest_def)
    moreover have "poll_event c = Some (Some (entry_event e), upd_sched (\<lambda>_. fire e ?s) c)"
      using True e by (simp add: poll_event_def get_pending_event_cases f)
    ultimately show ?thesis using heap_peek_in [OF e] by blast
  next
    case False
    then have "poll_event c = Some (None, c)" by (simp add: poll_event_def get_pending_event_def f upd_sched_def)
    moreover have "sched_now ?s < entry_ready e" if "e \<in> set (sched_events ?s)" for e
      using earliest_le [OF that] False by simp
    ultimately show ?thesis by blast
  qed
qed

section \<open>The callbacks\<close>

text \<open>What a callback may do to the state the event was taken from: keep the clock and the repeating entries,
  and add less than its event counted for, unless one of the other ranks falls.\<close>

definition handled :: "event \<Rightarrow> sys_cpu \<Rightarrow> sys_cpu \<Rightarrow> bool" where
  "handled ev c d \<longleftrightarrow> b_dma (c_bus d) = b_dma (c_bus c) \<and> gf_inv (g_fifo (sy_gpu (b_dev (c_bus d))))
     \<and> (\<forall>i. moves_on (sched_now (c_sched c)) (b_timers (c_bus d) i))
     \<and> (\<exists>k. grows k (c_sched c) (c_sched d)
         \<and> (irq_open d < irq_open c \<or> irq_open d = irq_open c
             \<and> (cyclic ev \<or> gpu_words d < gpu_words c \<or> gpu_words d = gpu_words c
                 \<and> (stale_timers d < stale_timers c \<or> stale_timers d = stale_timers c \<and> k < event_cost ev))))"

lemma check_irq_cases:
  assumes "cpu_ok c" "check_for_pending_irq c = Some d"
  shows "d = c \<or> bit (c_cop0 c ! 12) 0 \<and> \<not> bit (c_cop0 d ! 12) 0
    \<and> c_bus d = (c_bus c)\<lparr>b_sched := snd (trigger EvIrqCheck (c_sched c))\<rparr>"
proof -
  let ?n = "fetch_load_slot (snd (next_pc c))"
  have n: "c_bus ?n = c_bus c" "c_cop0 ?n = c_cop0 c"
    by (simp_all add: fetch_load_slot_def store_reg_def next_pc_def Let_def)
  obtain p sch cop where x: "enter_exception (c_last_pc ?n) (in_branch_delay ?n) Interrupt (c_sched c, c_cop0 c) = (p, sch, cop)"
    using prod_cases3 by blast
  have "cop0_ok (c_cop0 c)" using assms(1) by (simp add: cpu_ok_def)
  note r = enter_exception_regs [OF this x]
  have "\<not> bit (cop ! 12) 0" by (simp add: r(3) bits_simps bit_simps)
  moreover have "throw_exception Interrupt ?n = (upd_sched (\<lambda>_. sch) ?n)\<lparr>c_cop0 := cop, c_pc := p, c_next_pc := p + 4\<rparr>"
    unfolding throw_exception_def n x Let_def by simp
  ultimately show ?thesis
    using assms(2) n r(2) unfolding check_for_pending_irq_def irq_pending_iff [OF assms(1)]
    by (auto simp: upd_sched_def split: if_splits)
qed

lemma handled_same:
  assumes "loop_ok c" "b_dma (c_bus d) = b_dma (c_bus c)" "c_cop0 d = c_cop0 c"
    and "g_fifo (sy_gpu (b_dev (c_bus d))) = g_fifo (sy_gpu (b_dev (c_bus c)))"
    and "b_timers (c_bus d) = b_timers (c_bus c)" "grows k (c_sched c) (c_sched d)" "cyclic ev \<or> k < event_cost ev"
  shows "handled ev c d"
  using assms grows_now [OF assms(6)]
  by (auto simp: handled_def loop_ok_def irq_open_def gpu_words_def stale_timers_def intro!: exI [of _ k])

lemma irq_handled:
  assumes "loop_ok c" "check_for_pending_irq (c\<lparr>c_bus := (c_bus c)\<lparr>b_irq := q\<rparr>\<rparr>) = Some d" "event_cost ev = 1"
  shows "handled ev c d"
proof -
  let ?c = "c\<lparr>c_bus := (c_bus c)\<lparr>b_irq := q\<rparr>\<rparr>"
  have "cpu_ok ?c" using assms(1) by (simp add: loop_ok_def)
  from check_irq_cases [OF this assms(2)] show ?thesis
  proof
    assume "d = ?c"
    then show ?thesis using assms by (intro handled_same [where k = 0]) (simp_all add: grows_refl)
  next
    assume "bit (c_cop0 ?c ! 12) 0 \<and> \<not> bit (c_cop0 d ! 12) 0
      \<and> c_bus d = (c_bus ?c)\<lparr>b_sched := snd (trigger EvIrqCheck (c_sched ?c))\<rparr>"
    then show ?thesis
      using assms(1) grows_irq(2) by (auto simp: handled_def loop_ok_def irq_open_def)
  qed
qed

lemma dma_handled:
  assumes "loop_ok c" "run_dma_chan (system_devices env wr fuel) p (c_bus c) = Some b" "0 < fuel"
  shows "b = c_bus c"
proof -
  obtain n where n: "fuel = Suc n" using assms(3) by (cases fuel) auto
  have "\<not> cc_enabled (cs_ctrl (dma_channels (b_dma (c_bus c)) q))" for q using assms(1) by (simp add: loop_ok_def)
  then show ?thesis
    using assms(2)
    by (auto simp: run_dma_chan_def with_chan_def with_otc_def system_devices_def n run_chan_def Let_def split: port.splits)
qed

lemma timer_handled:
  assumes "loop_ok c" "exec_event (system_env env wr fuel) (EvTimer i cb) c = Some d"
  shows "handled (EvTimer i cb) c d"
proof -
  let ?s = "c_sched c" and ?ts = "b_timers (c_bus c)"
  let ?now = "sched_now ?s"
  have m: "\<forall>i. moves_on ?now (?ts i)" using assms(1) by (simp add: loop_ok_def)
  show ?thesis
  proof (cases cb)
    case enable_irq_master_flag_cb
    obtain s ts where e: "enable_irq_master_flag i (?s, ?ts) = (s, ts)" by fastforce
    have d: "d = c\<lparr>c_bus := (c_bus c)\<lparr>b_sched := s, b_timers := ts\<rparr>\<rparr>"
      using assms(2) e enable_irq_master_flag_cb by (simp add: exec_event_def on_timer_def Let_def)
    show ?thesis
      using master_flag_moves [OF m e] assms(1) enable_irq_master_flag_cb
      by (auto simp: handled_def d loop_ok_def irq_open_def gpu_words_def stale_timers_def stale_def grows_refl intro: exI [of _ 0])
  next
    case run_timer_cb
    obtain s t k where r: "run_timer i (?s, ?ts) = Some (s, ?ts(i := (t, ?now)))" "grows k ?s s"
      "moves_on ?now (t, ?now)" "snd (?ts i) = ?now \<longrightarrow> grows 1 ?s s"
      using run_timer_moves [of ?s ?ts i ?now] m by blast
    have d: "d = c\<lparr>c_bus := (c_bus c)\<lparr>b_sched := s, b_timers := ?ts(i := (t, ?now))\<rparr>\<rparr>"
      using assms(2) r(1) run_timer_cb by (simp add: exec_event_def on_timer_def Let_def)
    have now: "sched_now s = ?now" using grows_now [OF r(2)] .
    show ?thesis
    proof (cases "snd (?ts i) = ?now")
      case True
      then have "stale ?now (?ts(i := (t, ?now))) = stale ?now ?ts" by (auto simp: stale_def intro: arg_cong [where f = card])
      then show ?thesis
        using True r(3,4) m assms(1) run_timer_cb now
        by (auto simp: handled_def d loop_ok_def irq_open_def gpu_words_def stale_timers_def simp del: One_nat_def
            intro!: exI [of _ 1])
    next
      case False
      have fin: "finite {i. snd (?ts i) \<noteq> ?now}"
        by (rule finite_subset [of _ "{Tmr0, Tmr1, Tmr2}"]) (auto intro: timer_id.exhaust)
      have "{j. snd ((?ts(i := (t, ?now))) j) \<noteq> ?now} \<subset> {i. snd (?ts i) \<noteq> ?now}" using False by auto
      then have "stale ?now (?ts(i := (t, ?now))) < stale ?now ?ts" unfolding stale_def by (rule psubset_card_mono [OF fin])
      then show ?thesis
        using r(2,3) m assms(1) now
        by (auto simp: handled_def d loop_ok_def irq_open_def gpu_words_def stale_timers_def)
    qed
  qed
qed

lemma gpu_handled:
  assumes "loop_ok c" "exec_event (system_env env wr fuel) (EvGpu cb) c = Some d"
  shows "handled (EvGpu cb) c d"
proof -
  let ?s = "c_sched c" and ?ts = "b_timers (c_bus c)" and ?dv = "b_dev (c_bus c)"
  have m: "\<forall>i. moves_on (sched_now ?s) (?ts i)" and inv: "gf_inv (g_fifo (sy_gpu ?dv))"
    using assms(1) by (simp_all add: loop_ok_def)
  obtain s ts g where g: "gpu_event env cb (?s, ?ts, sy_gpu ?dv) = Some (s, ts, g)"
    and d: "d = c\<lparr>c_bus := (c_bus c)\<lparr>b_sched := s, b_timers := ts, b_dev := ?dv\<lparr>sy_gpu := g\<rparr>\<rparr>\<rparr>"
    using assms(2) by (auto simp: exec_event_def system_env_def system_devices_def Let_def)
  show ?thesis
  proof (cases cb)
    case end_of_scanline
    then have "gpu_end_of_scanline (?s, ?ts, sy_gpu ?dv) = (s, ts, g)" using g by (simp add: gpu_event_def)
    note e = end_of_scanline_moves [OF m this]
    then show ?thesis
      using assms(1) end_of_scanline by (auto simp: handled_def d loop_ok_def irq_open_def cyclic_def)
  next
    case draw_done
    then have ts: "ts = ?ts" and "gpu_draw_done env (?s, sy_gpu ?dv) = Some (s, g)" using g by (auto simp: gpu_event_def)
    note dd = draw_done_moves [OF inv this(2)]
    then have "handled (EvGpu cb) c d" if "s = ?s" "g_fifo g = g_fifo (sy_gpu ?dv)"
      using that assms(1) draw_done ts by (intro handled_same [where k = 0]) (simp_all add: d grows_refl)
    moreover have "handled (EvGpu cb) c d" if "grows 1 ?s s" "gf_count (g_fifo g) < gf_count (g_fifo (sy_gpu ?dv))"
      using that dd m ts by (auto simp: handled_def d irq_open_def gpu_words_def simp del: One_nat_def)
    ultimately show ?thesis using dd by blast
  qed
qed

lemma exec_event_handled:
  assumes "loop_ok c" "exec_event (system_env env wr fuel) ev c = Some d" "0 < fuel"
  shows "handled ev c d"
proof (cases ev)
  case (EvIrq i)
  then show ?thesis using assms(1,2) irq_handled [of c "irq_trigger i (b_irq (c_bus c))" d ev] by (simp add: exec_event_def Let_def)
next
  case EvIrqCheck
  then show ?thesis using assms(1,2) irq_handled [of c "b_irq (c_bus c)" d ev] by (simp add: exec_event_def Let_def)
next
  case (EvDma p)
  then obtain b where b: "run_dma_chan (system_devices env wr fuel) p (c_bus c) = Some b" "d = c\<lparr>c_bus := b\<rparr>"
    using assms(2) by (auto simp: exec_event_def system_env_def Let_def)
  have "d = c" unfolding b(2) dma_handled [OF assms(1) b(1) assms(3)] by simp
  then show ?thesis using assms(1) EvDma by (intro handled_same [where k = 0]) (simp_all add: grows_refl)
next
  case (EvCdRom cb)
  then obtain s cd where "cdrom_event cb (c_sched c, sy_cdrom (b_dev (c_bus c))) = Some (s, cd)"
    "d = c\<lparr>c_bus := (c_bus c)\<lparr>b_sched := s, b_dev := (b_dev (c_bus c))\<lparr>sy_cdrom := cd\<rparr>\<rparr>\<rparr>"
    using assms(2) by (auto simp: exec_event_def system_env_def system_devices_def on_cdrom_def Let_def)
  then show ?thesis using assms(1) EvCdRom by (intro handled_same [where k = 1]) (simp_all add: cdrom_event_grows del: One_nat_def)
next
  case (EvIoPort cb)
  then obtain s p where p: "io_event wr cb (c_sched c, sy_io (b_dev (c_bus c))) = Some (s, p)"
    "d = c\<lparr>c_bus := (c_bus c)\<lparr>b_sched := s, b_dev := (b_dev (c_bus c))\<lparr>sy_io := p\<rparr>\<rparr>\<rparr>"
    using assms(2) by (auto simp: exec_event_def system_env_def system_devices_def on_io_def Let_def)
  then show ?thesis
    using assms(1) EvIoPort io_event_grows
    by (cases cb) (intro handled_same [where k = 0] handled_same [where k = 2]; simp)+
next
  case (EvSpu cb)
  then obtain s sp cd where "spu_cycle ((c_sched c, sy_spu (b_dev (c_bus c))), sy_cdrom (b_dev (c_bus c))) = Some ((s, sp), cd)"
    "d = c\<lparr>c_bus := (c_bus c)\<lparr>b_sched := s, b_dev := (b_dev (c_bus c))\<lparr>sy_spu := sp, sy_cdrom := cd\<rparr>\<rparr>\<rparr>"
    using assms(2) by (cases cb) (auto simp: exec_event_def system_env_def system_devices_def sys_spu_event_def Let_def)
  moreover have "cyclic ev" using EvSpu by (cases cb) (simp add: cyclic_def)
  ultimately show ?thesis using assms(1) by (intro handled_same [where k = 1]) (simp_all add: spu_cycle_grows del: One_nat_def)
qed (use assms timer_handled gpu_handled in \<open>auto simp: exec_event_def\<close>)

section \<open>The loop ends\<close>

lemma round_lowers:
  assumes "loop_ok c" "poll_event c = Some (Some ev, c')" "exec_event (system_env env wr fuel) ev c' = Some d" "0 < fuel"
  shows "loop_ok d" "sched_now (c_sched d) = sched_now (c_sched c)" "(d, c) \<in> measures ranks"
proof -
  let ?s = "c_sched c"
  obtain e where e: "e \<in> set (sched_events ?s)" "entry_ready e \<le> sched_now ?s" "ev = entry_event e"
    "c' = upd_sched (\<lambda>_. fire e ?s) c"
    using poll_rounds [OF assms(1)] assms(2) by auto
  have ok: "early ?s" "\<forall>e \<in> set (sched_events ?s). repeat_ok e" using assms(1) by (simp_all add: loop_ok_def)
  note f = fire_due [OF ok e(1,2)]
  have s': "c_sched c' = fire e ?s" by (simp add: e(4) upd_sched_def)
  have c': "loop_ok c'"
    using assms(1) f(1-3) by (simp add: loop_ok_def e(4) early_def) (simp add: upd_sched_def)
  have same: "irq_open c' = irq_open c" "gpu_words c' = gpu_words c" "stale_timers c' = stale_timers c"
    by (simp_all add: irq_open_def gpu_words_def stale_timers_def e(4) upd_sched_def f(1))
  have h: "handled ev c' d" by (rule exec_event_handled [OF c' assms(3,4)])
  then obtain k where k: "grows k (fire e ?s) (c_sched d)"
    "irq_open d < irq_open c \<or> irq_open d = irq_open c
       \<and> (cyclic ev \<or> gpu_words d < gpu_words c \<or> gpu_words d = gpu_words c
          \<and> (stale_timers d < stale_timers c \<or> stale_timers d = stale_timers c \<and> k < event_cost ev))"
    unfolding handled_def s' same by blast
  have now: "sched_now (c_sched d) = sched_now (c_sched c')" using grows_now [OF k(1)] by (simp add: s')
  then show "sched_now (c_sched d) = sched_now ?s" by (simp add: s' f(1))
  have "cpu_ok d" using exec_event_ok [OF _ assms(3)] c' by (simp add: loop_ok_def)
  moreover have "\<forall>e \<in> set (sched_events (c_sched d)). repeat_ok e"
    using k(1) f(3) by (fastforce simp: grows_def repeat_ok_def repeats_def split: repeat_mode.splits)
  moreover have "fresh (c_sched d)" "early (c_sched d)"
    using k(1) f(1,2) ok(1) now by (auto simp: grows_def early_def)
  ultimately show "loop_ok d" using h c' now by (auto simp: loop_ok_def handled_def)
  have cyc: "cycles_due (c_sched d) \<le> cycles_due (fire e ?s)" using k(1) by (simp add: grows_def)
  have once: "once_due (c_sched d) \<le> once_due (fire e ?s) + k" using k(1) ok(1) f(1) by (simp add: grows_def early_def)
  show "(d, c) \<in> measures ranks"
  proof (cases "repeats e")
    case True
    then show ?thesis using k(2) f(4) cyc by (auto simp: ranks_def)
  next
    case False
    then show ?thesis using k(2) f(5-7) cyc once e(3) by (auto simp: ranks_def)
  qed
qed

text \<open>The rounds of both loops, \<open>step\<close> and \<open>run\<close>: an event that is due is taken, and its callback returns.\<close>

inductive event_round :: "sys_env \<Rightarrow> sys_cpu \<Rightarrow> sys_cpu \<Rightarrow> bool" for E where
  event_roundI: "poll_event c = Some (Some ev, c') \<Longrightarrow> exec_event E ev c' = Some d \<Longrightarrow> event_round E c d"

text \<open>The events whose callbacks have a panic: those of the devices, except the scanline and the timers, a
  DMA port without a channel, and the timeout, which \<open>run\<close> takes itself.\<close>

fun may_panic :: "event \<Rightarrow> bool" where
  "may_panic (EvIrq i) = False"
| "may_panic EvIrqCheck = False"
| "may_panic (EvTimer i cb) = False"
| "may_panic (EvGpu cb) = (cb = draw_done)"
| "may_panic (EvDma p) = (p \<in> {MdecIn, MdecOut, Pio})"
| "may_panic ev = True"

lemma exec_event_panics:
  assumes "loop_ok c" "exec_event (system_env env wr fuel) ev c = None" "0 < fuel"
  shows "may_panic ev"
proof (cases ev)
  case (EvDma p)
  obtain n where n: "fuel = Suc n" using assms(3) by (cases fuel) auto
  have "\<not> cc_enabled (cs_ctrl (dma_channels (b_dma (c_bus c)) q))" for q using assms(1) by (simp add: loop_ok_def)
  then have "run_dma_chan (system_devices env wr fuel) p (c_bus c) \<noteq> None \<or> p \<in> {MdecIn, MdecOut, Pio}"
    by (cases p) (simp_all add: run_dma_chan_def with_chan_def with_otc_def system_devices_def n run_chan_def Let_def)
  then show ?thesis using assms(2) EvDma by (auto simp: exec_event_def system_env_def Let_def)
next
  case (EvTimer i cb)
  have "\<forall>i. moves_on (sched_now (c_sched c)) (b_timers (c_bus c) i)" using assms(1) by (simp add: loop_ok_def)
  then have "run_timer i (c_sched c, b_timers (c_bus c)) \<noteq> None"
    using run_timer_moves [of "c_sched c" "b_timers (c_bus c)" i] by force
  then show ?thesis
    using assms(2) EvTimer by (cases cb) (auto simp: exec_event_def on_timer_def Let_def)
next
  case (EvGpu cb)
  then show ?thesis
    using assms(2) by (cases cb) (auto simp: exec_event_def system_env_def system_devices_def gpu_event_def Let_def)
next
  case (EvIrq i)
  then show ?thesis
    using assms(1,2) by (auto simp: exec_event_def check_for_pending_irq_def irq_pending_iff loop_ok_def Let_def)
next
  case EvIrqCheck
  then show ?thesis
    using assms(1,2) by (auto simp: exec_event_def check_for_pending_irq_def irq_pending_iff loop_ok_def Let_def)
qed (use assms(2) in \<open>auto simp: exec_event_def\<close>)

definition settled :: "sys_cpu \<Rightarrow> bool" where
  "settled c \<longleftrightarrow> (\<forall>e \<in> set (sched_events (c_sched c)). sched_now (c_sched c) < entry_ready e)"

lemma rounds_end:
  assumes "E = system_env env wr fuel" "0 < fuel"
  shows "loop_ok c \<Longrightarrow> \<exists>n d. (event_round E ^^ n) c d \<and> loop_ok d \<and> sched_now (c_sched d) = sched_now (c_sched c)
    \<and> (poll_event d = Some (None, d) \<and> settled d
       \<or> (\<exists>ev d'. poll_event d = Some (Some ev, d') \<and> exec_event E ev d' = None \<and> may_panic ev))"
proof (induction c rule: wf_induct_rule [OF wf_measures [of ranks]])
  case (1 c)
  let ?stops = "\<lambda>d. poll_event d = Some (None, d) \<and> settled d
       \<or> (\<exists>ev d'. poll_event d = Some (Some ev, d') \<and> exec_event E ev d' = None \<and> may_panic ev)"
  show ?case
  proof (cases "\<exists>d. event_round E c d")
    case True
    then obtain d ev c' where r: "event_round E c d" "poll_event c = Some (Some ev, c')" "exec_event E ev c' = Some d"
      by (metis event_round.cases)
    note l = round_lowers [OF "1.prems" r(2) r(3) [unfolded assms(1)] assms(2)]
    obtain n d' where "(event_round E ^^ n) d d'" "loop_ok d'" "sched_now (c_sched d') = sched_now (c_sched d)" "?stops d'"
      using "1.IH" [OF l(3,1)] by blast
    then show ?thesis using relpowp_Suc_I2 [of "event_round E", OF r(1)] l(2) by metis
  next
    case False
    have "?stops c"
      using poll_rounds [OF "1.prems"]
    proof (elim disjE conjE bexE)
      fix e assume e: "poll_event c = Some (Some (entry_event e), upd_sched (\<lambda>_. fire e (c_sched c)) c)"
        "e \<in> set (sched_events (c_sched c))" "entry_ready e \<le> sched_now (c_sched c)"
      then have n: "exec_event E (entry_event e) (upd_sched (\<lambda>_. fire e (c_sched c)) c) = None"
        using False event_roundI by (metis not_None_eq)
      have "loop_ok (upd_sched (\<lambda>_. fire e (c_sched c)) c)"
        using "1.prems" fire_due(1-3) [of "c_sched c" e] e(2,3) by (simp add: loop_ok_def early_def) (simp add: upd_sched_def)
      then have "may_panic (entry_event e)" using exec_event_panics n assms by blast
      then show ?thesis using e(1) n by blast
    qed (simp add: settled_def)
    then show ?thesis using "1.prems" by (intro exI [of _ 0] exI [of _ c]) simp
  qed
qed

lemma rounds_loops:
  assumes "(event_round E ^^ n) c d"
  shows "drain_events E (n + m) c = drain_events E m d" "run_loop E (n + m) t brk c = run_loop E m t brk d"
proof -
  have "drain_events E (n + m) c = drain_events E m d \<and> run_loop E (n + m) t brk c = run_loop E m t brk d"
    using assms
  proof (induction n arbitrary: c)
    case (Suc n)
    then obtain x where x: "event_round E c x" "(event_round E ^^ n) x d" by (meson relpowp_Suc_D2)
    then obtain ev c' where e: "poll_event c = Some (Some ev, c')" "exec_event E ev c' = Some x"
      by (auto elim: event_round.cases)
    have "ev \<noteq> EvExecutionTimeout" using e(2) by (auto simp: exec_event_def Let_def)
    then show ?case using e Suc.IH [OF x(2)] by simp
  qed simp
  then show "drain_events E (n + m) c = drain_events E m d" "run_loop E (n + m) t brk c = run_loop E m t brk d"
    by simp_all
qed

text \<open>C4: On the whole system the loop that delivers events before an instruction ends. Its callbacks run, and
  trigger and schedule more events; all the same, after finitely many rounds, with the clock where it was,
  either nothing in the queue is due, and then \<open>Cpu::step\<close> executes the instruction there whatever its fuel
  above that number, or the callback of the event delivered next panics, which only callbacks of the devices
  can. The loop of \<open>Cpu::run\<close> has then gone through the same rounds. It holds in \<open>loop_ok\<close> states: the
  cached next event is that of the queue, the clock is below \<open>2 ^ 63\<close>, the repeating events have intervals
  that are not zero (and below \<open>2 ^ 63\<close>) while scanlines and sound cycles only repeat, no DMA channel is
  enabled (a transfer moves the clock itself), and no timer is stuck with its counter at its top when it is
  run to now (\<open>moves_on\<close>; such a timer schedules itself for now again, for ever).\<close>

theorem event_loop_ends:
  assumes "loop_ok c" "E = system_env env wr fuel" "0 < fuel"
  shows "\<exists>n d. (event_round E ^^ n) c d \<and> sched_now (c_sched d) = sched_now (c_sched c)
    \<and> (\<forall>m t brk. run_loop E (n + m) t brk c = run_loop E m t brk d)
    \<and> (settled d \<and> (\<forall>m > n. drain_events E m c = Some d \<and> cpu_step E m c = execute_instruction E d)
       \<or> (\<exists>ev d'. poll_event d = Some (Some ev, d') \<and> exec_event E ev d' = None \<and> may_panic ev))"
proof -
  obtain n d where r: "(event_round E ^^ n) c d" "sched_now (c_sched d) = sched_now (c_sched c)"
    and s: "poll_event d = Some (None, d) \<and> settled d
       \<or> (\<exists>ev d'. poll_event d = Some (Some ev, d') \<and> exec_event E ev d' = None \<and> may_panic ev)"
    using rounds_end [OF assms(2,3,1)] by blast
  have "drain_events E m c = Some d \<and> cpu_step E m c = execute_instruction E d"
    if p: "poll_event d = Some (None, d)" and "n < m" for m
  proof -
    obtain k where "m = n + Suc k" using \<open>n < m\<close> less_imp_Suc_add by fastforce
    then show ?thesis using rounds_loops(1) [OF r(1), of "Suc k"] p by (simp add: cpu_step_def)
  qed
  then show ?thesis using r s rounds_loops(2) [OF r(1)] by blast
qed

text \<open>The system at power-on, and with an interrupt check due: the loop delivers it and stops.\<close>

definition power_on :: sys_cpu where
  "power_on = system_new jump_bios None (\<lambda>_. None) (\<lambda>_. None)"

lemma repeat_keeps:
  assumes "fresh s" "\<forall>e \<in> set (sched_events s). repeat_ok e \<and> STARTUP < entry_ready e" "sched_now s = STARTUP"
    and "0 < t" "t < 2 ^ 63" "schedule_repeat t ev s = (i, s')"
  shows "fresh s'" "\<forall>e \<in> set (sched_events s'). repeat_ok e \<and> STARTUP < entry_ready e" "sched_now s' = STARTUP"
  using assms by (auto simp: schedule_repeat_def push_event_def heap_push_def fresh_def repeat_ok_def STARTUP_def time_ZERO_def)

lemma power_on_ok:
  "loop_ok power_on" "sched_now (c_sched power_on) = STARTUP"
  "\<forall>e \<in> set (sched_events (c_sched power_on)). STARTUP < entry_ready e" "irq_pending power_on = Some False"
proof -
  obtain s1 g where 1: "gpu_new schedule_new = (s1, g)" by (cases "gpu_new schedule_new")
  obtain s2 cd where 2: "cdrom_new None s1 = (s2, cd)" by (cases "cdrom_new None s1")
  obtain s3 sp where 3: "spu_new s2 = (s3, sp)" by (cases "spu_new s2")
  let ?d = "\<lparr>sy_gpu = g, sy_cdrom = cd, sy_spu = sp, sy_io = io_port_new (\<lambda>_. None) (\<lambda>_. None)\<rparr>"
  have b: "power_on = cpu_new (bus_new jump_bios s3 ?d) gte_default"
    by (simp add: power_on_def system_new_def 1 2 3)
  have t: "scanline_time 0x14802000 > 0 \<and> scanline_time 0x14802000 < 2 ^ 63" by code_simp
  obtain i s0 where 0: "schedule_repeat (scanline_time 0x14802000) (EvGpu end_of_scanline) schedule_new = (i, s0)"
    by (cases "schedule_repeat (scanline_time 0x14802000) (EvGpu end_of_scanline) schedule_new")
  have "fresh schedule_new" "\<forall>e \<in> set (sched_events schedule_new). repeat_ok e \<and> STARTUP < entry_ready e"
    "sched_now schedule_new = STARTUP" by (simp_all add: fresh_def schedule_new_def earliest_def)
  note r0 = repeat_keeps [OF this _ _ 0]
  have s1: "s1 = s0" "g_fifo g = gf_new" using 1 0 by (auto simp: gpu_new_def)
  have r1: "fresh s1" "\<forall>e \<in> set (sched_events s1). repeat_ok e \<and> STARTUP < entry_ready e" "sched_now s1 = STARTUP"
    using r0 t unfolding s1 by blast+
  have r2: "fresh s2" "\<forall>e \<in> set (sched_events s2). repeat_ok e \<and> STARTUP < entry_ready e" "sched_now s2 = STARTUP"
    using 2 repeat_keeps [OF r1, of "systime_new 7000" "EvCdRom cdrom_run"]
    by (cases "schedule_repeat (systime_new 7000) (EvCdRom cdrom_run) s1";
        auto simp: cdrom_new_def systime_new_def from_cpu_cycles_def FRAC_BITS_def)+
  have r3: "fresh s3" "\<forall>e \<in> set (sched_events s3). repeat_ok e \<and> STARTUP < entry_ready e" "sched_now s3 = STARTUP"
    using 3 repeat_keeps [OF r2, of "systime_new 0x300" "EvSpu spu_run_cycle"]
    by (cases "schedule_repeat (systime_new 0x300) (EvSpu spu_run_cycle) s2";
        auto simp: spu_new_def systime_new_def from_cpu_cycles_def FRAC_BITS_def)+
  have ok: "cpu_ok power_on" by (simp add: b cpu_ok_new)
  have c: "c_sched power_on = s3" "b_timers (c_bus power_on) = timers_new" "b_dma (c_bus power_on) = dma_new"
    "g_fifo (sy_gpu (b_dev (c_bus power_on))) = gf_new" "b_irq (c_bus power_on) = irq_new" "c_cop0 power_on = cop0_new"
    by (simp_all add: b cpu_new_def bus_new_def s1(2))
  have m: "moves_on STARTUP (timers_new i)" for i
    by (simp add: timers_new_def timer_new_def moves_on_now predict_next_irq_def mode_defs bit_at_def)
  have dma: "\<not> cc_enabled (cs_ctrl (dma_channels dma_new p))" for p
    by (cases p) (simp_all add: dma_new_def chan_stat_new_def cc_enabled_def bit_at_def)
  show "loop_ok power_on"
    using ok r3 gf_new_inv(1) m dma by (simp add: loop_ok_def c early_def STARTUP_def time_ZERO_def)
  show "sched_now (c_sched power_on) = STARTUP" "\<forall>e \<in> set (sched_events (c_sched power_on)). STARTUP < entry_ready e"
    using r3 by (simp_all add: c)
  show "irq_pending power_on = Some False"
    unfolding irq_pending_iff [OF ok] by (simp add: c cop0_new_def REGISTER_VALUES_def)
qed

definition check_due :: sys_cpu where
  "check_due = upd_sched (\<lambda>s. snd (trigger EvIrqCheck s)) power_on"

lemma check_due_ok:
  defines "e \<equiv> \<lparr>entry_event = EvIrqCheck, entry_ready = STARTUP, entry_mode = Once, entry_id = next_event_id (c_sched power_on)\<rparr>"
    and "x \<equiv> upd_sched (\<lambda>_. fire \<lparr>entry_event = EvIrqCheck, entry_ready = STARTUP, entry_mode = Once,
      entry_id = next_event_id (c_sched power_on)\<rparr> (c_sched check_due)) power_on"
  shows "loop_ok check_due" "poll_event check_due = Some (Some EvIrqCheck, x)"
    "exec_event (system_env env wr fuel) EvIrqCheck x = Some x" "poll_event x = Some (None, x)"
proof -
  let ?s = "c_sched power_on"
  note ok = power_on_ok
  have s: "c_sched check_due = snd (trigger EvIrqCheck ?s)" by (simp add: check_due_def upd_sched_def)
  have g: "grows 1 ?s (c_sched check_due)" unfolding s by (rule grows_irq)
  have ev: "sched_events (c_sched check_due) = sched_events ?s @ [e]" by (simp add: s trigger_def heap_push_def e_def)
  have now: "sched_now (c_sched check_due) = STARTUP" using grows_now [OF g] ok(2) by simp
  have "repeat_ok e" by (simp add: e_def repeat_ok_def cyclic_def)
  then have "\<forall>e \<in> set (sched_events (c_sched check_due)). repeat_ok e" using ok(1) by (simp add: ev loop_ok_def)
  moreover have "fresh (c_sched check_due)" "early (c_sched check_due)"
    using g ok(1) now by (simp_all add: grows_def loop_ok_def early_def STARTUP_def time_ZERO_def)
  ultimately show c: "loop_ok check_due"
    using ok(1,2) now by (simp add: loop_ok_def) (simp add: check_due_def upd_sched_def)
  have notin: "e \<notin> set (sched_events ?s)" using ok(3) by (force simp: e_def)
  have up: "upd_sched f check_due = upd_sched (\<lambda>_. f (c_sched check_due)) power_on" for f
    by (simp add: check_due_def upd_sched_def)
  have "e \<in> set (sched_events (c_sched check_due))" "\<not> sched_now (c_sched check_due) < entry_ready e"
    by (simp_all add: ev now) (simp add: e_def)
  then obtain y where y: "y \<in> set (sched_events (c_sched check_due))" "entry_ready y \<le> STARTUP"
    "poll_event check_due = Some (Some (entry_event y), upd_sched (\<lambda>_. fire y (c_sched check_due)) check_due)"
    using poll_rounds [OF c] unfolding now by blast
  have "y = e" using y(1,2) ok(3) by (auto simp: ev)
  then show "poll_event check_due = Some (Some EvIrqCheck, x)" using y(3) up by (simp add: x_def e_def)
  have xs: "c_sched x = fire e (c_sched check_due)" by (simp add: x_def e_def upd_sched_def)
  have "irq_pending x = irq_pending power_on" by (simp add: x_def upd_sched_def irq_pending_def)
  then show "exec_event (system_env env wr fuel) EvIrqCheck x = Some x"
    using ok(4) by (simp add: exec_event_def check_for_pending_irq_def)
  have "sched_events (c_sched x) = sched_events ?s" using notin ev by (simp add: xs fire_def remove1_append e_def)
  then have xt: "sched_now (c_sched x) = STARTUP" "sched_next_event (c_sched x) = earliest (sched_events ?s)"
    using now by (simp_all add: xs fire_def)
  have "STARTUP < earliest (sched_events ?s)"
  proof (cases "sched_events ?s = []")
    case True
    have "STARTUP < NEVER" by (simp add: STARTUP_def NEVER_def time_ZERO_def time_FOREVER_def word_gt_0)
    then show ?thesis using True by (simp add: earliest_def)
  next
    case False
    then obtain z where "z \<in> set (sched_events ?s)" "earliest (sched_events ?s) = entry_ready z" using earliest_in by blast
    then show ?thesis using ok(3) by simp
  qed
  then have "get_pending_event (c_sched x) = Some (None, c_sched x)" unfolding get_pending_event_def xt by (simp add: not_le [symmetric])
  then show "poll_event x = Some (None, x)" by (simp add: poll_event_def upd_sched_def)
qed

theorem event_loop_ends_witness:
  "\<forall>env wr. \<exists>n d. drain_events (system_env env wr 1) n check_due = Some d \<and> settled d"
proof (intro allI)
  fix env :: "('f, 'e) gpu_env" and wr
  let ?E = "system_env env wr 1"
  obtain x where x: "poll_event check_due = Some (Some EvIrqCheck, x)" "exec_event ?E EvIrqCheck x = Some x"
    "poll_event x = Some (None, x)" using check_due_ok(2-4) by blast
  obtain n d where r: "(event_round ?E ^^ n) check_due d"
    "settled d \<and> (\<forall>m > n. drain_events ?E m check_due = Some d \<and> cpu_step ?E m check_due = execute_instruction ?E d)
      \<or> (\<exists>ev d'. poll_event d = Some (Some ev, d') \<and> exec_event ?E ev d' = None \<and> may_panic ev)"
    using event_loop_ends [OF check_due_ok(1), of ?E env wr 1] by force
  have "d = check_due \<or> d = x"
  proof (cases n)
    case (Suc k)
    then obtain y where y: "event_round ?E check_due y" "(event_round ?E ^^ k) y d" using r(1) by (meson relpowp_Suc_D2)
    then have "y = x" using x(1,2) by (auto elim!: event_round.cases)
    moreover have "k = 0"
    proof (rule ccontr)
      assume "k \<noteq> 0"
      then obtain z where "event_round ?E y z" using y(2) by (metis not0_implies_Suc relpowp_Suc_D2)
      then show False using x(3) \<open>y = x\<close> by (auto elim!: event_round.cases)
    qed
    ultimately show ?thesis using y(2) by simp
  qed (use r(1) in simp)
  then have "\<not> (\<exists>ev d'. poll_event d = Some (Some ev, d') \<and> exec_event ?E ev d' = None \<and> may_panic ev)"
    using x by auto
  then show "\<exists>n d. drain_events ?E n check_due = Some d \<and> settled d" using r(2) by blast
qed

end
