(* ===== verification/DmaUpload.thy ===== *)
theory DmaUpload
  imports System GpuTransfer
begin

text \<open>
  The devices of the machine as receivers of DMA transfers: the GPU while it copies to video memory, and
  the sound unit while its interrupt is off. A picture in RAM arrives in video memory.
\<close>

section \<open>The GPU\<close>

text \<open>The GPU after a word, and whether it takes each of some words at once: before every word it is ready for
  the channel, and no word is the last of a command that takes time, which would change the schedule.\<close>

definition gpu_recv :: "('f, 'e) gpu_env \<Rightarrow> u32 \<Rightarrow> gpu \<Rightarrow> gpu" where
  "gpu_recv env w g = (case gp0_store env w (schedule_new, g) of Some (_, g') \<Rightarrow> g' | None \<Rightarrow> g)"

fun gpu_takes :: "('f, 'e) gpu_env \<Rightarrow> u32 list \<Rightarrow> gpu \<Rightarrow> bool" where
  "gpu_takes env [] g \<longleftrightarrow> gpu_dma_block_ready g"
| "gpu_takes env (w # ws) g \<longleftrightarrow> gpu_dma_block_ready g
     \<and> (case gp0_store env w (schedule_new, g) of Some (sch, g') \<Rightarrow> sch = schedule_new \<and> gpu_takes env ws g' | None \<Rightarrow> False)"

text \<open>A command that leaves one schedule alone leaves them all alone.\<close>

lemma gp0_store_schedule:
  assumes "gp0_store env w (sch, g) = Some (sch, g')"
  shows "gp0_store env w (sch', g) = Some (sch', g')"
proof -
  have "length (sched_events (snd (schedule_event t ev sch))) = Suc (length (sched_events sch))" for t ev
    by (simp add: schedule_event_def push_event_def heap_push_def Let_def)
  then have keep: "snd (schedule_event t ev sch) \<noteq> sch" for t ev by (metis n_not_Suc_n)
  have "gp0_exec env (sch', h) = Some (sch', g')" if "gp0_exec env (sch, h) = Some (sch, g')" for h
    using that keep by (auto simp: gp0_exec_def split: bind_splits option.splits)
  then show ?thesis
    using assms by (auto simp: gp0_store_def Let_def split: gpu_state.splits prod.splits option.splits push_action.splits if_splits)
qed

lemma gpu_takes_store:
  assumes "gpu_takes env (w # ws) g"
  shows "gp0_store env w (sch, g) = Some (sch, gpu_recv env w g) \<and> gpu_takes env ws (gpu_recv env w g)"
  using assms gp0_store_schedule [of env w schedule_new g _ sch] by (auto simp: gpu_recv_def split: option.splits)

interpretation gpu: dma_sink "gpu_channel env" "gpu_recv env" "gpu_takes env"
proof unfold_locales
  show "ch_ready (gpu_channel env) ToPort c" if "gpu_takes env ws c" for ws c
    using that by (cases ws) (simp_all add: gpu_channel_def)
qed (simp_all add: gpu_channel_def gpu_takes_store del: gpu_takes.simps)

lemma gpu_takes_stores: "gpu_takes env ws g \<Longrightarrow> gp0_stores env ws (sch, g) = Some (sch, fold (gpu_recv env) ws g)"
  by (induction ws arbitrary: g) (simp_all add: gpu_takes_store del: gpu_takes.simps(2))

text \<open>A copy to video memory takes every word: it has at least \<open>n\<close> words left.\<close>

definition gpu_room :: "nat \<Rightarrow> gpu \<Rightarrow> bool" where
  "gpu_room n g \<longleftrightarrow> fifo_quiet g \<and> (\<exists>x y w h k. 0 < w \<and> g_state g = after x y w h k VramStore \<and> k + 2 * n \<le> w * h)"

lemma quiet_ready:
  assumes "fifo_quiet g" "g_state g = Idle \<or> (\<exists>t. g_state g = VramStore t)"
  shows "gpu_dma_block_ready g"
proof -
  have f: "gf_inv (g_fifo g)" "gf_contents (g_fifo g) = []" "gf_cmd_words_left (g_fifo g) = None"
    using assms(1) by (simp_all add: fifo_quiet_def)
  have "\<not> gf_is_full (g_fifo g)" using gf_full_iff [OF f(1)] arg_cong [OF f(2), of length] by simp
  moreover have "gf_next_cmd (g_fifo g) = None"
    using gf_empty_iff [of "g_fifo g"] arg_cong [OF f(2), of length] by (simp add: gf_next_cmd_def)
  ultimately show ?thesis using assms(2) by (auto simp: gpu_dma_block_ready_def)
qed

lemma copy_takes_word:
  assumes "gpu_room (Suc n) g"
  shows "\<exists>g'. gp0_store env w (sch, g) = Some (sch, g') \<and> gpu_room n g'"
proof -
  obtain x y wd h k where g: "0 < wd" "g_state g = after x y wd h k VramStore" "k + 2 * Suc n \<le> wd * h" "fifo_quiet g"
    using assms by (auto simp: gpu_room_def)
  then have st: "g_state g = VramStore (visit x y wd h k)" by (simp add: after_def)
  obtain g' where "gp0_store env w (sch, g) = Some (sch, g')" "fifo_quiet g'" "g_state g' = after x y wd h (k + 2) VramStore"
    using store_word [OF g(1,4) st, of env w sch] by auto
  moreover have "k + 2 + 2 * n \<le> wd * h" using g(3) by simp
  ultimately show ?thesis using g(1) unfolding gpu_room_def by blast
qed

lemma copy_takes: "gpu_room (length ws) g \<Longrightarrow> gpu_takes env ws g"
proof (induction ws arbitrary: g)
  case Nil
  then show ?case using quiet_ready [of g] by (auto simp: gpu_room_def after_def split: if_splits)
next
  case (Cons w ws)
  then have "gpu_dma_block_ready g" using quiet_ready [of g] by (auto simp: gpu_room_def after_def split: if_splits)
  then show ?case using Cons copy_takes_word [of "length ws" g env w schedule_new] by auto
qed

section \<open>The sound unit\<close>

definition spu_recv :: "u32 \<Rightarrow> spu \<Rightarrow> spu" where
  "spu_recv w s = snd (spu_dma_store w (schedule_new, s))"

definition spu_room :: "u32 list \<Rightarrow> spu \<Rightarrow> bool" where
  "spu_room ws s \<longleftrightarrow> \<not> spu_irq_enabled (spu_control (sp_regs s))"

lemma spu_takes_word:
  assumes "spu_room ws s"
  shows "spu_dma_store w (sch, s) = (sch, spu_recv w s) \<and> spu_room us (spu_recv w s)"
  using assms
  by (simp add: spu_room_def spu_recv_def spu_dma_store_def transfer_store_def spu_maybe_trigger_irq_def irq_for_addr_def
      set_trans_addr_def spu_control_def Let_def)

interpretation spu: dma_sink spu_channel spu_recv spu_room
  by unfold_locales (auto simp: spu_channel_def spu_takes_word)

section \<open>In the machine\<close>

interpretation sys_gpu: lifted_sink "gpu_channel env" "gpu_recv env" "gpu_takes env" sy_gpu "\<lambda>g d. d\<lparr>sy_gpu := g\<rparr>"
  by unfold_locales simp_all

interpretation sys_spu: lifted_sink spu_channel spu_recv spu_room sy_spu "\<lambda>s d. d\<lparr>sy_spu := s\<rparr>"
  by unfold_locales simp_all

lemma run_gpu_chan:
  "run_dma_chan (system_devices env wr fuel) GpuPort b =
     map_option (\<lambda>m. b\<lparr>b_sched := m_sched m, b_ram := m_ram m, b_dma := m_dma m, b_dev := m_chan m\<rparr>)
       (run_chan fuel (dv_gpu_chan (system_devices env wr fuel)) GpuPort
         \<lparr>m_dma = b_dma b, m_chan = b_dev b, m_sched = b_sched b, m_ram = b_ram b\<rparr>)"
  by (simp add: run_dma_chan_def with_chan_def) (simp add: system_devices_def)

section \<open>Linked lists\<close>

text \<open>A busy GPU gets nothing.\<close>

lemma busy_gpu_waits:
  assumes "\<not> gpu_dma_block_ready (sy_gpu (b_dev b))" "cc_direction (cs_ctrl (dma_channels (b_dma b) GpuPort)) = ToPort" "0 < fuel"
  shows "run_dma_chan (system_devices env wr fuel) GpuPort b = Some b"
proof -
  obtain f where "fuel = Suc f" using assms(3) by (cases fuel) auto
  then show ?thesis
    unfolding run_gpu_chan
    using assms(1,2) by (simp add: run_chan_def system_devices_def lift_channel_def gpu_channel_def Let_def)
qed

text \<open>C8: a linked list is sent to the GPU. If the list in RAM ends and the GPU takes its payload at once (no word
  ends a command that takes time to draw), the channel stores exactly the payload words of the nodes in GP0, in
  the order of the list, one cycle per word, leaves the RAM, the other devices and the schedule's events of
  the GPU alone, and completes: the base register holds the end marker and the channel is disabled. As long as
  the GPU is not ready nothing at all happens. The rounds of the loop are one more than the nodes.\<close>

theorem dma_sends_list:
  fixes b :: "sys_dev bus"
  defines "s \<equiv> dma_channels (b_dma b) GpuPort" and "g \<equiv> sy_gpu (b_dev b)"
  assumes "cs_transfer s = None" "cc_enabled (cs_ctrl s)" "cc_sync_mode (cs_ctrl s) = Some LinkedList"
    and "cc_step (cs_ctrl s) = Inc" "cc_direction (cs_ctrl s) = ToPort" "\<not> cc_chopping_enabled (cs_ctrl s)"
    and "ram_ok (b_ram b)" "list_words fuel (b_ram b) (cs_base s) = Some ws"
    and "unat (sched_now (b_sched b)) + length ws * 65536 < 2 ^ 64 - 1"
  shows "(gpu_takes env ws g \<longrightarrow> (\<exists>b' g'. run_dma_chan (system_devices env wr fuel) GpuPort b = Some b'
      \<and> gp0_stores env ws (b_sched b, g) = Some (b_sched b, g') \<and> b_dev b' = (b_dev b)\<lparr>sy_gpu := g'\<rparr>
      \<and> b_ram b' = b_ram b \<and> sched_now (b_sched b') = sched_now (b_sched b) + word_of_nat (length ws) * 65536
      \<and> cs_base (dma_channels (b_dma b') GpuPort) = 0x00ffffff
      \<and> \<not> cc_enabled (cs_ctrl (dma_channels (b_dma b') GpuPort))))
    \<and> (\<not> gpu_dma_block_ready g \<longrightarrow> run_dma_chan (system_devices env wr fuel) GpuPort b = Some b)"
proof (intro conjI impI)
  let ?m = "\<lparr>m_dma = b_dma b, m_chan = b_dev b, m_sched = b_sched b, m_ram = b_ram b\<rparr>"
  assume takes: "gpu_takes env ws g"
  obtain m' where m': "run_chan fuel (dv_gpu_chan (system_devices env wr fuel)) GpuPort ?m = Some m'" "m_ram m' = b_ram b"
    "m_chan m' = (b_dev b)\<lparr>sy_gpu := fold (gpu_recv env) ws g\<rparr>"
    "sched_now (m_sched m') = sched_now (b_sched b) + word_of_nat (length ws) * 65536"
    "cs_base (dma_channels (m_dma m') GpuPort) = 0x00ffffff" "\<not> cc_enabled (cs_ctrl (dma_channels (m_dma m') GpuPort))"
    using sys_gpu.whole.run_list [where m = ?m and p = GpuPort and s = s and ws = ws and env = env and fuel = fuel]
      assms(3-11) takes by (auto simp: s_def g_def system_devices_def sys_gpu.fold_whole)
  then show "\<exists>b' g'. run_dma_chan (system_devices env wr fuel) GpuPort b = Some b'
      \<and> gp0_stores env ws (b_sched b, g) = Some (b_sched b, g') \<and> b_dev b' = (b_dev b)\<lparr>sy_gpu := g'\<rparr>
      \<and> b_ram b' = b_ram b \<and> sched_now (b_sched b') = sched_now (b_sched b) + word_of_nat (length ws) * 65536
      \<and> cs_base (dma_channels (b_dma b') GpuPort) = 0x00ffffff
      \<and> \<not> cc_enabled (cs_ctrl (dma_channels (b_dma b') GpuPort))"
    using gpu_takes_stores [OF takes] by (simp add: run_gpu_chan)
next
  assume "\<not> gpu_dma_block_ready g"
  moreover have "0 < fuel" using assms(10) by (cases fuel) auto
  ultimately show "run_dma_chan (system_devices env wr fuel) GpuPort b = Some b"
    using busy_gpu_waits assms(7) by (simp add: s_def g_def)
qed

text \<open>The list that a fresh RAM is: one node of 255 words of ones, each the command ff, which does nothing.\<close>

lemma useless_word:
  assumes "fifo_quiet g" "g_state g = Idle"
  shows "\<exists>g'. gp0_store env 0xffffffff (sch, g) = Some (sch, g') \<and> fifo_quiet g' \<and> g_state g' = Idle"
proof -
  have c: "cmd_of 0xffffffff = 0xff" "\<not> cmd_is_imm 0xff" "cmd_fifo_len 0xff = 1" by code_simp+
  let ?f = "gf_push_internal 0xffffffff (g_fifo g)"
  have f: "gf_inv (g_fifo g)" "gf_contents (g_fifo g) = []" "gf_cmd_words_left (g_fifo g) = None"
    using assms(1) by (simp_all add: fifo_quiet_def)
  have room: "gf_count (g_fifo g) < 16" using arg_cong [OF f(2), of length] by simp
  then have full: "\<not> gf_is_full (g_fifo g)" using f(1) gf_full_iff [of "g_fifo g"] by simp
  have push: "gf_push_cmd 0xffffffff (g_fifo g) = (Some FullCmd, ?f)"
    using f(3) full c by (simp add: gf_push_cmd_def Let_def)
  have holds: "holds ?f [0xffffffff] None"
    using gf_push_internal_contents [OF f(1) room, of "0xffffffff"] f(2,3) by (simp add: holds_def)
  obtain g' where g': "gpu_pop (g\<lparr>g_fifo := ?f\<rparr>) = (0xffffffff, g')" "holds (g_fifo g') [] None"
    using pop_holds [of "g\<lparr>g_fifo := ?f\<rparr>" "0xffffffff" "[]" None] holds by auto
  have "g_state g' = Idle" using arg_cong [OF g'(1), of "\<lambda>r. g_state (snd r)"] assms(2) by (simp add: gpu_pop_def split_beta)
  moreover have "gp0_store env 0xffffffff (sch, g) = Some (sch, g')"
    using push index_holds [OF holds] g'(1) assms(2) c(1)
    by (simp add: gp0_store_def gp0_exec_def gp0_dispatch_def gp0_useless_def Let_def)
  ultimately show ?thesis using g'(2) by (simp add: fifo_quiet_holds)
qed

lemma useless_words: "fifo_quiet g \<Longrightarrow> g_state g = Idle \<Longrightarrow> gpu_takes env (replicate n 0xffffffff) g"
proof (induction n arbitrary: g)
  case (Suc n)
  obtain g' where "gp0_store env 0xffffffff (schedule_new, g) = Some (schedule_new, g')" "fifo_quiet g'" "g_state g' = Idle"
    using useless_word [OF Suc.prems] by blast
  then show ?case using Suc quiet_ready by simp
qed (simp add: quiet_ready)

definition list_chan :: chan_stat where
  "list_chan = (chan_stat_new GpuPort)\<lparr>cs_base := 0, cs_ctrl := 0x01000401\<rparr>"

definition list_bus :: "sys_dev bus" where
  "list_bus = (let b = c_bus (system_new jump_bios None (\<lambda>_. None) (\<lambda>_. None))
     in b\<lparr>b_sched := schedule_new, b_dma := upd_chan GpuPort (\<lambda>_. list_chan) dma_new\<rparr>)"

lemma new_gpu_quiet: "fifo_quiet (snd (gpu_new sch))" "g_state (snd (gpu_new sch)) = Idle"
proof -
  have "gf_inv gf_new" "gf_contents gf_new = []" by (fact gf_new_inv)+
  then show "fifo_quiet (snd (gpu_new sch))" "g_state (snd (gpu_new sch)) = Idle"
    by (simp_all add: gpu_new_def fifo_quiet_def Let_def split_beta gf_new_def)
qed

theorem dma_sends_list_witness:
  "\<forall>(env :: (unit, unit) gpu_env) wr. \<exists>b' g'. run_dma_chan (system_devices env wr 2) GpuPort list_bus = Some b'
    \<and> gp0_stores env (replicate 255 0xffffffff) (schedule_new, sy_gpu (b_dev list_bus)) = Some (schedule_new, g')
    \<and> sy_gpu (b_dev b') = g' \<and> \<not> cc_enabled (cs_ctrl (dma_channels (b_dma b') GpuPort))"
proof (intro allI)
  fix env :: "(unit, unit) gpu_env" and wr
  let ?b = list_bus and ?s = list_chan
  have b: "dma_channels (b_dma ?b) GpuPort = ?s" "b_sched ?b = schedule_new" "b_ram ?b = ram_new"
    "sy_gpu (b_dev ?b) = snd (gpu_new schedule_new)"
    by (simp_all add: list_bus_def Let_def upd_chan_def system_new_def split_beta cpu_new_def bus_new_def)
  have ctrl: "cs_transfer ?s = None" "cc_enabled (cs_ctrl ?s)" "cc_sync_mode (cs_ctrl ?s) = Some LinkedList"
    "cc_step (cs_ctrl ?s) = Inc" "cc_direction (cs_ctrl ?s) = ToPort" "\<not> cc_chopping_enabled (cs_ctrl ?s)" "cs_base ?s = 0"
    by (simp_all add: list_chan_def cc_enabled_def cc_sync_mode_def cc_step_def cc_direction_def
        cc_chopping_enabled_def bit_at_def bit_range_def Let_def chan_stat_new_def)
  have ok: "ram_ok ram_new" by (simp add: ram_ok_def ram_new_def raw_new_def)
  have "node_words ram_new 4 255 = replicate 255 0xffffffff"
    by (simp add: node_words_def mem_word_ram_new map_replicate_const)
  moreover have "bit_range (-1 :: u32) 24 31 = 0xff" "bit_range (-1 :: u32) 0 23 = 0x00ffffff"
    by (simp_all add: bit_range_def Let_def)
  ultimately have "list_words (Suc (Suc 0)) ram_new 0 = Some (replicate 255 0xffffffff)"
    by (simp add: mem_word_ram_new Let_def)
  then have l: "list_words 2 ram_new 0 = Some (replicate 255 0xffffffff)" by (simp only: numeral_2_eq_2)
  have now: "unat (sched_now schedule_new) + length (replicate 255 (0xffffffff :: u32)) * 65536 < 2 ^ 64 - 1"
    by (simp add: schedule_new_def STARTUP_def time_ZERO_def)
  have "gpu_takes env (replicate 255 0xffffffff) (snd (gpu_new schedule_new))" by (rule useless_words [OF new_gpu_quiet])
  then obtain b' g' where "run_dma_chan (system_devices env wr 2) GpuPort list_bus = Some b'"
    "gp0_stores env (replicate 255 0xffffffff) (schedule_new, snd (gpu_new schedule_new)) = Some (schedule_new, g')"
    "b_dev b' = (b_dev list_bus)\<lparr>sy_gpu := g'\<rparr>" "\<not> cc_enabled (cs_ctrl (dma_channels (b_dma b') GpuPort))"
    using dma_sends_list [of ?b 2 "replicate 255 0xffffffff" env wr, unfolded b ctrl(7), OF ctrl(1-6) ok l now] by blast
  then show "\<exists>b' g'. run_dma_chan (system_devices env wr 2) GpuPort list_bus = Some b'
    \<and> gp0_stores env (replicate 255 0xffffffff) (schedule_new, sy_gpu (b_dev list_bus)) = Some (schedule_new, g')
    \<and> sy_gpu (b_dev b') = g' \<and> \<not> cc_enabled (cs_ctrl (dma_channels (b_dma b') GpuPort))"
    by (intro exI [of _ b'] exI [of _ g']) (simp add: b(4) del: replicate.simps)
qed

section \<open>Pictures\<close>

text \<open>Video memory holds the halfwords \<open>hs\<close> in the rectangle of a copy command, line by line.\<close>

definition shows_picture :: "u32 \<Rightarrow> u32 \<Rightarrow> u16 list \<Rightarrow> vram \<Rightarrow> bool" where
  "shows_picture pos dim hs v \<longleftrightarrow> (\<forall>i < length hs.
     v (visit_offset (uint (bit_range pos 0 9)) (uint (bit_range pos 16 25)) (unat (bit_range dim 0 9)) i) = hs ! i)"

lemma upload:
  fixes dim :: u32 and env :: "('f, 'e) gpu_env"
  defines "w \<equiv> unat (bit_range dim 0 9)" and "h \<equiv> unat (bit_range dim 16 24)"
  assumes "fifo_quiet g" "g_state g = copy_state 0xa0 pos dim" "0 < w" "0 < h" "2 * length ws = w * h"
  shows "gpu_takes env ws g" "shows_picture pos dim (halves ws) (g_vram (fold (gpu_recv env) ws g))"
    "g_state (fold (gpu_recv env) ws g) = Idle" "\<And>off. \<not> in_rect pos dim off \<Longrightarrow> g_vram (fold (gpu_recv env) ws g) off = g_vram g off"
proof -
  define x y where "x = uint (bit_range pos 0 9)" and "y = uint (bit_range pos 16 25)"
  have b: "w \<le> 1024" "h \<le> 512"
    using unat_bit_range_less [of 0 9 dim] unat_bit_range_less [of 16 24 dim] by (simp_all add: w_def h_def)
  have "uint (bit_range dim 0 9) = int w" "uint (bit_range dim 16 24) = int h" by (simp_all add: w_def h_def)
  then have st: "g_state g = after x y w h 0 VramStore"
    using assms(4-6) by (simp add: copy_state_def after_def visit_0 x_def y_def)
  then have "gpu_room (length ws) g" unfolding gpu_room_def using assms(3,5,7) by (metis add_0 order_refl)
  then show takes: "gpu_takes env ws g" by (rule copy_takes)
  obtain g' where g': "gp0_stores env ws (schedule_new, g) = Some (schedule_new, g')"
      "g_vram g' = put_halves x y w 0 (halves ws) (g_vram g)" "g_state g' = Idle"
    using store_words [OF assms(5,3) st, of ws env schedule_new] assms(7) by auto
  then have g: "fold (gpu_recv env) ws g = g'" using gpu_takes_stores [OF takes, of schedule_new] by simp
  show "g_state (fold (gpu_recv env) ws g) = Idle" by (simp add: g g'(3))
  show "shows_picture pos dim (halves ws) (g_vram (fold (gpu_recv env) ws g))"
    using put_halves_inside [OF assms(5) b, of 0 "halves ws" _ x y "g_vram g"] assms(7)
    by (auto simp: g g'(2) shows_picture_def x_def y_def w_def)
  show "g_vram (fold (gpu_recv env) ws g) off = g_vram g off" if "\<not> in_rect pos dim off" for off
    using that assms(7) unfolding g g'(2)
    by (auto simp: in_rect_def x_def y_def w_def h_def intro!: put_halves_outside)
qed

text \<open>C12: After the command that begins a copy to video memory, a transfer of the GPU's DMA channel on request
  ends, with the words of RAM as the picture in the rectangle of the command and everything
  else as before; the GPU is idle, the channel disabled, and a cycle has passed for each word. The pixels
  are those of RAM whatever the mask settings of the command e6 are, which the code does not look at here.
\<close>

theorem dma_uploads_picture:
  fixes b :: "sys_dev bus" and dim :: u32
  defines "s \<equiv> dma_channels (b_dma b) GpuPort"
  assumes "fifo_quiet g" "g_state g = Idle" "cmd_of c = 0xa0"
    and "gp0_stores env [c, pos, dim] (sch, g) = Some (sch', sy_gpu (b_dev b))"
    and "0 < bit_range dim 0 9" "0 < bit_range dim 16 24"
    and "2 * n = unat (bit_range dim 0 9) * unat (bit_range dim 16 24)"
    and "n = unat (bc_count (cs_block_ctrl s)) * unat (bc_size (cs_block_ctrl s))"
    and "cs_transfer s = None" "cc_enabled (cs_ctrl s)" "cc_sync_mode (cs_ctrl s) = Some Request"
    and "cc_step (cs_ctrl s) = Inc" "cc_direction (cs_ctrl s) = ToPort" "\<not> cc_chopping_enabled (cs_ctrl s)"
    and "ram_ok (b_ram b)" "unat (sched_now (b_sched b)) + n * 65536 < 2 ^ 64 - 1" "unat (bc_count (cs_block_ctrl s)) < fuel"
  shows "\<exists>b' g'. run_dma_chan (system_devices env wr fuel) GpuPort b = Some b'
    \<and> b_dev b' = (b_dev b)\<lparr>sy_gpu := g'\<rparr> \<and> b_ram b' = b_ram b \<and> g_state g' = Idle
    \<and> shows_picture pos dim (halves (node_words (b_ram b) (cs_base s) n)) (g_vram g')
    \<and> (\<forall>off. in_rect pos dim off \<or> g_vram g' off = g_vram g off)
    \<and> sched_now (b_sched b') = sched_now (b_sched b) + word_of_nat n * 65536
    \<and> \<not> cc_enabled (cs_ctrl (dma_channels (b_dma b') GpuPort))"
proof -
  let ?g = "sy_gpu (b_dev b)" and ?ws = "node_words (b_ram b) (cs_base s) n"
  have g: "fifo_quiet ?g" "g_vram ?g = g_vram g" "g_state ?g = copy_state 0xa0 pos dim"
    using issue_copy [of c g env pos dim sch] assms(2-5) by auto
  have len: "2 * length ?ws = unat (bit_range dim 0 9) * unat (bit_range dim 16 24)"
    "0 < unat (bit_range dim 0 9)" "0 < unat (bit_range dim 16 24)"
    using assms(6-8) by (simp_all add: word_less_nat_alt)
  note up = upload [OF g(1,3) len(2,3,1), where env = env]
  let ?m = "\<lparr>m_dma = b_dma b, m_chan = b_dev b, m_sched = b_sched b, m_ram = b_ram b\<rparr>"
  obtain m' where m': "run_chan fuel (dv_gpu_chan (system_devices env wr fuel)) GpuPort ?m = Some m'" "m_ram m' = b_ram b"
    "m_chan m' = (b_dev b)\<lparr>sy_gpu := fold (gpu_recv env) ?ws ?g\<rparr>"
    "sched_now (m_sched m') = sched_now (b_sched b) + word_of_nat n * 65536"
    "\<not> cc_enabled (cs_ctrl (dma_channels (m_dma m') GpuPort))"
    using sys_gpu.whole.run_request [where m = ?m and p = GpuPort and s = s and n = n and env = env and fuel = fuel] assms(9-18) up(1)
    by (auto simp: s_def system_devices_def sys_gpu.fold_whole)
  have "run_dma_chan (system_devices env wr fuel) GpuPort b = Some (b\<lparr>b_sched := m_sched m', b_ram := m_ram m',
      b_dma := m_dma m', b_dev := m_chan m'\<rparr>)"
    using m'(1) by (simp add: run_gpu_chan)
  then show ?thesis using m' up(2-4) g(2) by auto
qed

text \<open>The machine with the command a0 for two by two pixels stored, and a channel that is to send two words.\<close>

definition upload_chan :: chan_stat where
  "upload_chan = (chan_stat_new GpuPort)\<lparr>cs_base := 0, cs_block_ctrl := block_ctrl_new 0x00020001, cs_ctrl := 0x01000201\<rparr>"

definition upload_bus :: "gpu \<Rightarrow> sys_dev bus" where
  "upload_bus g = (let b = c_bus (system_new jump_bios None (\<lambda>_. None) (\<lambda>_. None))
     in b\<lparr>b_sched := schedule_new, b_dma := upd_chan GpuPort (\<lambda>_. upload_chan) dma_new, b_dev := (b_dev b)\<lparr>sy_gpu := g\<rparr>\<rparr>)"

theorem dma_uploads_picture_witness:
  "\<forall>(env :: (unit, unit) gpu_env) wr. \<exists>g b' g'. run_dma_chan (system_devices env wr 3) GpuPort (upload_bus g) = Some b'
    \<and> b_dev b' = (b_dev (upload_bus g))\<lparr>sy_gpu := g'\<rparr>
    \<and> shows_picture 0x00100020 0x00020002 (halves (node_words ram_new 0 2)) (g_vram g')"
proof (intro allI)
  fix env :: "(unit, unit) gpu_env" and wr
  let ?g = "snd (gpu_new schedule_new)" and ?s = upload_chan
  have g: "fifo_quiet ?g" "g_state ?g = Idle" by (fact new_gpu_quiet)+
  have c: "cmd_of 0xa0000000 = 0xa0" by code_simp
  obtain g1 where g1: "gp0_stores env [0xa0000000, 0x00100020, 0x00020002] (schedule_new, ?g) = Some (schedule_new, g1)"
    using issue_copy [of "0xa0000000" ?g env "0x00100020" "0x00020002" schedule_new] g c by auto
  let ?b = "upload_bus g1"
  have b: "dma_channels (b_dma ?b) GpuPort = ?s" "b_sched ?b = schedule_new" "b_ram ?b = ram_new" "sy_gpu (b_dev ?b) = g1"
    by (simp_all add: upload_bus_def Let_def upd_chan_def system_new_def split_beta cpu_new_def bus_new_def)
  have dim: "bit_range (0x00020002 :: u32) 0 9 = 2" "bit_range (0x00020002 :: u32) 16 24 = 2" by code_simp+
  have bc: "unat (bc_count (cs_block_ctrl ?s)) = 2" "unat (bc_size (cs_block_ctrl ?s)) = 1"
    by (simp_all add: upload_chan_def block_ctrl_new_def bit_range_def Let_def)
  have ctrl: "cs_transfer ?s = None" "cc_enabled (cs_ctrl ?s)" "cc_sync_mode (cs_ctrl ?s) = Some Request"
    "cc_step (cs_ctrl ?s) = Inc" "cc_direction (cs_ctrl ?s) = ToPort" "\<not> cc_chopping_enabled (cs_ctrl ?s)" "cs_base ?s = 0"
    by (simp_all add: upload_chan_def cc_enabled_def cc_sync_mode_def cc_step_def cc_direction_def
        cc_chopping_enabled_def bit_at_def bit_range_def Let_def chan_stat_new_def)
  have ok: "ram_ok ram_new" by (simp add: ram_ok_def ram_new_def raw_new_def)
  have now: "unat (sched_now schedule_new) + 2 * 65536 < 2 ^ 64 - 1" by (simp add: schedule_new_def STARTUP_def time_ZERO_def)
  have rect: "0 < bit_range (0x00020002 :: u32) 0 9" "0 < bit_range (0x00020002 :: u32) 16 24"
    "2 * 2 = unat (bit_range (0x00020002 :: u32) 0 9) * unat (bit_range (0x00020002 :: u32) 16 24)"
    "2 = unat (bc_count (cs_block_ctrl ?s)) * unat (bc_size (cs_block_ctrl ?s))" "unat (bc_count (cs_block_ctrl ?s)) < 3"
    by (simp_all add: dim bc)
  note up = dma_uploads_picture [OF g c, of env "0x00100020" "0x00020002" schedule_new schedule_new ?b 2 3 wr,
      unfolded b ctrl(7), OF g1 rect(1-4) ctrl(1-6) ok now rect(5)]
  show "\<exists>g b' g'. run_dma_chan (system_devices env wr 3) GpuPort (upload_bus g) = Some b'
    \<and> b_dev b' = (b_dev (upload_bus g))\<lparr>sy_gpu := g'\<rparr>
    \<and> shows_picture 0x00100020 0x00020002 (halves (node_words ram_new 0 2)) (g_vram g')"
    using up by (intro exI [of _ g1]) blast
qed

end
