(* ===== verification/CdType.thy ===== *)
theory CdType
  imports CdRom
begin

text \<open>
  What holds of the CD-ROM controller in every state it reaches: its queues, buffers and registers
  keep their sizes.
\<close>

named_theorems cd_keeps \<open>operations that keep the controller well formed\<close>

definition cdrom_ok :: "cdrom \<Rightarrow> bool" where
  "cdrom_ok c \<longleftrightarrow> fifo_inv (cr_response c) \<and> fifo_inv (cr_args c)
     \<and> length (db_data (cr_data c)) = 2352 \<and> unat (db_len (cr_data c)) \<le> 2352
     \<and> length (s_data (cr_sector c)) \<le> 2352 \<and> length (xb_data (cr_xa c)) = XA_SIZE
     \<and> unat (cr_index c) < 4 \<and> unat (cr_irq_mask c) < 32 \<and> unat (cr_irq_flags c) < 32 \<and> cr_audio c = []"

abbreviation keeps :: "(cd_state \<Rightarrow> cd_state option) \<Rightarrow> bool" where
  "keeps f \<equiv> \<forall>x y. cdrom_ok (snd x) \<longrightarrow> f x = Some y \<longrightarrow> cdrom_ok (snd y)"

section \<open>Queues\<close>

lemma fifo_push_inv: "fifo_inv f \<Longrightarrow> fifo_push v f = Some f' \<Longrightarrow> fifo_inv f'"
  by (rule fifo_push_head(4))

lemma fifo_pop_inv: "fifo_inv f \<Longrightarrow> fifo_pop f = Some (v, f') \<Longrightarrow> fifo_inv f'"
  by (auto simp: fifo_pop_def fifo_inv_def Let_def unat_low4 split: if_splits)

lemma fifo_try_pop_inv: "fifo_inv f \<Longrightarrow> fifo_try_pop f = Some (v, f') \<Longrightarrow> fifo_inv f'"
  by (auto simp: fifo_try_pop_def split: if_splits dest: fifo_pop_inv)

lemma fifo_clear_inv: "fifo_inv f \<Longrightarrow> fifo_inv (fifo_clear f)"
  by (simp add: fifo_inv_def fifo_clear_def)

lemma fifo_push_slice_inv: "fifo_inv f \<Longrightarrow> fifo_push_slice vs f = Some f' \<Longrightarrow> fifo_inv f'"
  by (induction vs arbitrary: f) (auto split: bind_splits dest: fifo_push_inv)

section \<open>Sectors\<close>

lemma load_sector_length:
  assumes "load_sector m cd = Some (Some s)"
  shows "length (s_data s) \<le> 2352"
proof -
  have size: "sector_size mode \<le> 2352" for mode by (cases mode) simp_all
  have slice: "length bs = n" if "CdSector.slice a (a + n) xs = Some bs" for a n and xs bs :: "u8 list"
    using that by (auto simp: CdSector.slice_def split: if_splits)
  show ?thesis
    using assms size
    by (auto simp: load_sector_def Let_def split: bind_splits option.splits storage.splits if_splits
        dest!: sector_new_fields(8) slice)
qed

section \<open>Operations\<close>

lemma finish_cmd_keeps [cd_keeps]: "keeps (finish_cmd i)"
proof -
  have "unat (interrupt_code i) < 32" by (cases i) simp_all
  then show ?thesis
    by (auto simp: finish_cmd_def set_interrupt_def cdrom_ok_def Let_def split: bind_splits prod.splits dest: fifo_push_inv)
qed

lemma respond_keeps: "cdrom_ok c \<Longrightarrow> respond bs c = Some c' \<Longrightarrow> cdrom_ok c'"
  by (auto simp: respond_def cdrom_ok_def dest: fifo_push_slice_inv)

lemma set_interrupt_keeps: "cdrom_ok (snd x) \<Longrightarrow> cdrom_ok (snd (set_interrupt i x))"
proof -
  have "unat (interrupt_code i) < 32" by (cases i) simp_all
  then show "cdrom_ok (snd x) \<Longrightarrow> ?thesis" by (auto simp: set_interrupt_def cdrom_ok_def Let_def split: prod.splits)
qed

lemma pop_arg_keeps: "cdrom_ok c \<Longrightarrow> pop_arg c = Some (v, c') \<Longrightarrow> cdrom_ok c'"
  by (auto simp: pop_arg_def cdrom_ok_def dest: fifo_pop_inv)

lemma fields_keep [simp]:
  "cdrom_ok (c\<lparr>cr_state := s\<rparr>) = cdrom_ok c" "cdrom_ok (c\<lparr>cr_position := m\<rparr>) = cdrom_ok c"
  "cdrom_ok (c\<lparr>cr_pending_seek := q\<rparr>) = cdrom_ok c" "cdrom_ok (c\<lparr>cr_mode := v\<rparr>) = cdrom_ok c"
  "cdrom_ok (c\<lparr>cr_cmd := p\<rparr>) = cdrom_ok c" "cdrom_ok (cr_state_update f c) = cdrom_ok c"
  by (simp_all add: cdrom_ok_def)

lemma clears_keep: "cdrom_ok c \<Longrightarrow> cdrom_ok (c\<lparr>cr_args := fifo_clear (cr_args c)\<rparr>)"
  "cdrom_ok c \<Longrightarrow> cdrom_ok (c\<lparr>cr_response := fifo_clear (cr_response c)\<rparr>)"
  "cdrom_ok c \<Longrightarrow> length (s_data s) \<le> 2352 \<Longrightarrow> cdrom_ok (c\<lparr>cr_sector := s\<rparr>)"
  by (simp_all add: cdrom_ok_def fifo_clear_inv)

lemma timing_keeps [simp]:
  "cdrom_ok (snd (later n cb x)) = cdrom_ok (snd x)" "cdrom_ok (snd (start_read x)) = cdrom_ok (snd x)"
  "cdrom_ok (snd (start_seek ty af x)) = cdrom_ok (snd x)"
  by (cases x; simp add: later_def start_read_def start_seek_def)+

lemma sector_done_keeps [cd_keeps]: "keeps cd_sector_done"
proof (intro allI impI)
  fix x y assume ok: "cdrom_ok (snd x)" and y: "cd_sector_done x = Some y"
  obtain sch c where x: "x = (sch, c)" by fastforce
  show "cdrom_ok (snd y)"
  proof (cases "cr_state c = Reading")
    case True
    then obtain cd m s where m: "load_sector m cd = Some (Some s)"
      "finish_cmd DataReady (fst (later 225000 sector_done (sch, c\<lparr>cr_position := m\<rparr>)),
         (snd (later 225000 sector_done (sch, c\<lparr>cr_position := m\<rparr>)))\<lparr>cr_sector := s\<rparr>) = Some y"
      using y x by (auto simp: cd_sector_done_def Let_def split: bind_splits prod.splits)
    have "cdrom_ok ((snd (later 225000 sector_done (sch, c\<lparr>cr_position := m\<rparr>)))\<lparr>cr_sector := s\<rparr>)"
      using ok x load_sector_length [OF m(1)] by (intro clears_keep(3)) simp_all
    then show ?thesis using cd_keeps m(2) by (metis snd_conv)
  next
    case False
    then show ?thesis
      using ok y x by (auto simp: cd_sector_done_def Let_def split: drive_state.splits after_seek.splits)
  qed
qed

lemma finish_keep: "finish_cmd i x = Some y \<Longrightarrow> cdrom_ok (snd x) \<Longrightarrow> cdrom_ok (snd y)"
  using finish_cmd_keeps by blast

lemma later_keep: "later n cb x = (sch, c) \<Longrightarrow> cdrom_ok (snd x) \<Longrightarrow> cdrom_ok c"
  using timing_keeps(1) [of n cb x] by simp

lemma keep_read_toc [cd_keeps]: "keeps cmd_read_toc"
  by (auto simp: cmd_read_toc_def split: bind_splits dest!: finish_keep)

lemma keep_stop [cd_keeps]: "keeps cmd_stop" and keep_pause [cd_keeps]: "keeps cmd_pause"
  and keep_init [cd_keeps]: "keeps cmd_init" and keep_seekl [cd_keeps]: "keeps cmd_seekl"
  by (auto simp: cmd_stop_def cmd_pause_def cmd_init_def cmd_seekl_def Let_def split: bind_splits
      dest!: finish_keep dest: later_keep)

lemma keep_set_loc [cd_keeps]: "keeps cmd_set_loc"
proof (intro allI impI)
  fix x y assume ok: "cdrom_ok (snd x)" and y: "cmd_set_loc x = Some y"
  obtain sch c where x: "x = (sch, c)" by fastforce
  obtain v1 c1 v2 c2 v3 c3 q where p: "pop_arg (c\<lparr>cr_state := ReadingToc\<rparr>) = Some (v1, c1)" "pop_arg c1 = Some (v2, c2)"
    "pop_arg c2 = Some (v3, c3)" "finish_cmd Ack (sch, c3\<lparr>cr_pending_seek := q\<rparr>) = Some y"
    using y x by (auto simp: cmd_set_loc_def split: bind_splits)
  have "cdrom_ok c1" using pop_arg_keeps [OF _ p(1)] ok x by simp
  then have "cdrom_ok c3" using pop_arg_keeps p(2,3) by blast
  then show "cdrom_ok (snd y)" using finish_keep [OF p(4)] by simp
qed

lemma keep_set_mode [cd_keeps]: "keeps cmd_set_mode" and keep_test [cd_keeps]: "keeps cmd_test"
  and keep_get_id [cd_keeps]: "keeps cmd_get_id" and keep_async_id [cd_keeps]: "keeps cd_async_get_id"
proof -
  have mode: "cdrom_ok (snd y)" if ok: "cdrom_ok (snd x)" and y: "cmd_set_mode x = Some y" for x y
  proof -
    obtain v c1 where "pop_arg (snd x) = Some (v, c1)" "finish_cmd Ack (fst x, c1\<lparr>cr_mode := v\<rparr>) = Some y"
      using y by (auto simp: cmd_set_mode_def split: bind_splits prod.splits)
    then show ?thesis using pop_arg_keeps [OF ok] finish_keep by fastforce
  qed
  have test: "cdrom_ok (snd y)" if ok: "cdrom_ok (snd x)" and y: "cmd_test x = Some y" for x y
  proof -
    obtain v c1 c2 where "pop_arg (snd x) = Some (v, c1)" "respond [0x98, 0x06, 0x10, 0xc3] c1 = Some c2"
      "y = set_interrupt Ack (fst x, c2)"
      using y by (auto simp: cmd_test_def split: bind_splits prod.splits if_splits)
    then show ?thesis using pop_arg_keeps [OF ok] respond_keeps set_interrupt_keeps by (metis snd_conv)
  qed
  have id: "cdrom_ok (snd y)" if ok: "cdrom_ok (snd x)" and y: "cmd_get_id x = Some y" for x y
  proof (cases "cr_disc (snd x) = None")
    case True
    then obtain c1 where "respond [0x11, 0x80] (snd x) = Some c1" "y = set_interrupt ErrorInt (fst x, c1)"
      using y by (auto simp: cmd_get_id_def split: bind_splits prod.splits)
    then show ?thesis using respond_keeps [OF ok] set_interrupt_keeps by (metis snd_conv)
  next
    case False
    then obtain z where "finish_cmd Ack x = Some z" "y = later 33868 async_get_id z"
      using y by (auto simp: cmd_get_id_def split: bind_splits prod.splits)
    then show ?thesis using finish_keep ok by simp
  qed
  have async: "cdrom_ok (snd y)" if ok: "cdrom_ok (snd x)" and y: "cd_async_get_id x = Some y" for x y
  proof -
    obtain c1 where c1: "respond [drive_stat (snd x), 0x0, 0x20, 0x00, 0x53, 0x43, 0x45, 0x41] ((snd x)\<lparr>cr_state := DrvIdle\<rparr>) = Some c1"
      "y = set_interrupt Complete (fst x, c1)"
      using y by (auto simp: cd_async_get_id_def split: bind_splits prod.splits)
    have "cdrom_ok c1" using respond_keeps [OF _ c1(1)] ok by simp
    then show ?thesis using set_interrupt_keeps c1(2) by (metis snd_conv)
  qed
  show "keeps cmd_set_mode" "keeps cmd_test" "keeps cmd_get_id" "keeps cd_async_get_id"
    using mode test id async by blast+
qed

lemma keep_read_n: "cmd_read_n x = Some (e, y) \<Longrightarrow> cdrom_ok (snd x) \<Longrightarrow> cdrom_ok (snd y)"
proof -
  assume y: "cmd_read_n x = Some (e, y)" and ok: "cdrom_ok (snd x)"
  obtain sch c where f: "finish_cmd Ack x = Some (sch, c)" using y by (auto simp: cmd_read_n_def split: bind_splits)
  have "cdrom_ok c" using finish_keep [OF f ok] by simp
  moreover have "y = (sch, c) \<or> y = start_read (sch, c) \<or> y = start_seek SeekData ThenRead (sch, c)
      \<or> (\<exists>s. y = (sch, c\<lparr>cr_state := s\<rparr>))"
    using y f by (auto simp: cmd_read_n_def Let_def split: if_splits option.splits drive_state.splits)
  ultimately show "cdrom_ok (snd y)" by auto
qed

lemma keep_dispatch: "cd_dispatch cmd x = Some (e, y) \<Longrightarrow> cdrom_ok (snd x) \<Longrightarrow> cdrom_ok (snd y)"
  unfolding cd_dispatch_def Let_def
  by (simp split: if_splits; blast dest: cd_keeps [rule_format] keep_read_n)

lemma keep_exec_cmd [cd_keeps]: "keeps cd_exec_cmd"
proof (intro allI impI)
  fix x y assume ok: "cdrom_ok (snd x)" and y: "cd_exec_cmd x = Some y"
  obtain sch c where x: "x = (sch, c)" by fastforce
  show "cdrom_ok (snd y)"
  proof (cases "cr_irq_flags c \<noteq> 0 \<or> cr_cmd c = None")
    case True
    then show ?thesis using ok y x by (auto simp: cd_exec_cmd_def split: option.splits)
  next
    case False
    then obtain cmd e sch' c' where d: "cd_dispatch cmd (sch, c\<lparr>cr_cmd := None, cr_response := fifo_clear (cr_response c)\<rparr>)
        = Some (e, sch', c')" "y = (sch', if e then c' else c'\<lparr>cr_args := fifo_clear (cr_args c')\<rparr>)"
      using y x by (auto simp: cd_exec_cmd_def split: bind_splits)
    have "cdrom_ok (c\<lparr>cr_cmd := None, cr_response := fifo_clear (cr_response c)\<rparr>)"
      using clears_keep(2) [of "c\<lparr>cr_cmd := None\<rparr>"] ok x by simp
    then have "cdrom_ok c'" using keep_dispatch [OF d(1)] by simp
    then show ?thesis using d(2) clears_keep(1) by simp
  qed
qed

lemma keep_event [cd_keeps]: "keeps (cdrom_event cb)"
proof (intro allI impI)
  fix x y assume ok: "cdrom_ok (snd x)" and y: "cdrom_event cb x = Some y"
  consider "cd_exec_cmd x = Some y" | "cd_sector_done x = Some y" | "cd_async_get_id x = Some y"
    | "finish_cmd Complete x = Some y" | f where "finish_cmd Complete (apsnd (cr_state_update f) x) = Some y"
    using y by (cases cb) (auto simp: cdrom_event_def Let_def)
  then show "cdrom_ok (snd y)"
  proof cases
    case (5 f)
    then show ?thesis using finish_keep [OF 5] ok by simp
  qed (use ok keep_exec_cmd sector_done_keeps keep_async_id finish_keep in blast)+
qed

section \<open>Registers, DMA and audio\<close>

lemma low_bits: "unat (bit_range (w :: u8) 0 (Suc 0)) < 4" "unat (bit_range (w :: u8) 0 4) < 32"
  using unat_bit_range_less [of 0 1 w] unat_bit_range_less [of 0 4 w] by simp_all

lemma and_less: "unat w < 32 \<Longrightarrow> unat (w AND v :: u8) < 32"
  by (metis word_and_le2 word_le_nat_alt order_le_less_trans)

lemma buffer_lengths:
  "db_data (buffer_advance b) = db_data b" "db_len (buffer_advance b) = db_len b"
  "read_byte b = Some (v, b') \<Longrightarrow> db_data b' = db_data b \<and> db_len b' = db_len b"
  by (auto simp: buffer_advance_def read_byte_def Let_def split: bind_splits)

lemma fill_lengths:
  assumes "fill_from_sector s b = Some b'" "length (db_data b) = 2352"
  shows "length (db_data b') = 2352 \<and> unat (db_len b') \<le> 2352"
  using assms by (auto simp: fill_from_sector_def Let_def unsigned_of_nat take_bit_nat_eq_self split: if_splits)

lemma keep_data: "cdrom_ok c \<Longrightarrow> length (db_data b) = 2352 \<Longrightarrow> unat (db_len b) \<le> 2352 \<Longrightarrow> cdrom_ok (c\<lparr>cr_data := b\<rparr>)"
  by (simp add: cdrom_ok_def)

lemma keep_request: "cd_store_request val c = Some c' \<Longrightarrow> cdrom_ok c \<Longrightarrow> cdrom_ok c'"
  by (auto simp: cd_store_request_def Let_def cdrom_ok_def buffer_lengths split: if_splits dest!: fill_lengths)

lemma keep_store [cd_keeps]: "keeps (cdrom_store a v)"
proof -
  have ack: "cdrom_ok c \<Longrightarrow> cdrom_ok (cd_store_ack val c)" for val c
    by (simp add: cd_store_ack_def Let_def cdrom_ok_def and_less fifo_clear_inv)
  have mask: "cdrom_ok c \<Longrightarrow> cdrom_ok (snd (cd_store_irq_mask val (sch, c)))" for val sch c
    by (simp add: cd_store_irq_mask_def Let_def cdrom_ok_def low_bits)
  have idx: "cdrom_ok c \<Longrightarrow> cdrom_ok (c\<lparr>cr_index := bit_range val 0 (Suc 0)\<rparr>)" for val c
    by (simp add: cdrom_ok_def low_bits)
  have args: "cdrom_ok c \<Longrightarrow> fifo_push val (cr_args c) = Some f \<Longrightarrow> cdrom_ok (c\<lparr>cr_args := f\<rparr>)" for val c f
    by (auto simp: cdrom_ok_def dest: fifo_push_inv)
  show ?thesis
    by (auto simp: cdrom_store_def Let_def idx ack split: if_splits prod.splits intro: args keep_request)
      (metis mask snd_conv)
qed

lemma keep_load: "cdrom_load w a c = Some (v, c') \<Longrightarrow> cdrom_ok c \<Longrightarrow> cdrom_ok c'"
  by (auto simp: cdrom_load_def cdrom_ok_def buffer_lengths split: bind_splits if_splits dest!: buffer_lengths(3)
      dest: fifo_try_pop_inv)

lemma keep_dma_load: "cdrom_dma_load c = Some (v, c') \<Longrightarrow> cdrom_ok c \<Longrightarrow> cdrom_ok c'"
  by (auto simp: cdrom_dma_load_def cdrom_ok_def split: bind_splits dest!: buffer_lengths(3))

lemma audio_silent: "cdrom_ok c \<Longrightarrow> run_audio_cycle b c = Some ((0, 0), c)"
  by (simp add: run_audio_cycle_def cdrom_ok_def)

section \<open>Every reachable state\<close>

text \<open>What the rest of the machine does with the controller, in any order; the schedule it is given is any.\<close>

datatype cd_op = CdEvent cdrom_callback | CdStore u32 u32 | CdLoad addr_width u32 | CdDmaLoad | CdAudioCycle bool

fun cd_apply :: "cd_op \<Rightarrow> cd_state \<Rightarrow> cd_state option" where
  "cd_apply (CdEvent cb) x = cdrom_event cb x"
| "cd_apply (CdStore a v) x = cdrom_store a v x"
| "cd_apply (CdLoad w a) x = map_option (\<lambda>(_, c). (fst x, c)) (cdrom_load w a (snd x))"
| "cd_apply CdDmaLoad x = map_option (\<lambda>(_, c). (fst x, c)) (cdrom_dma_load (snd x))"
| "cd_apply (CdAudioCycle b) x = map_option (\<lambda>(_, c). (fst x, c)) (run_audio_cycle b (snd x))"

inductive cd_reach :: "cd_image option \<Rightarrow> cdrom \<Rightarrow> bool" for disc where
  cd_start: "cd_reach disc (snd (cdrom_new disc sch))"
| cd_next: "cd_reach disc c \<Longrightarrow> cd_apply op (sch, c) = Some (sch', c') \<Longrightarrow> cd_reach disc c'"

lemma cd_apply_keeps: "cd_apply op (sch, c) = Some (sch', c') \<Longrightarrow> cdrom_ok c \<Longrightarrow> cdrom_ok c'"
proof (cases op)
  case (CdEvent cb)
  then show "cd_apply op (sch, c) = Some (sch', c') \<Longrightarrow> cdrom_ok c \<Longrightarrow> ?thesis"
    using keep_event [rule_format, of "(sch, c)" cb "(sch', c')"] by simp
next
  case (CdStore a v)
  then show "cd_apply op (sch, c) = Some (sch', c') \<Longrightarrow> cdrom_ok c \<Longrightarrow> ?thesis"
    using keep_store [rule_format, of "(sch, c)" a v "(sch', c')"] by simp
qed (auto simp: audio_silent dest: keep_load keep_dma_load)

lemma cdrom_new_ok: "cdrom_ok (snd (cdrom_new disc sch))"
  by (simp add: cdrom_new_def cdrom_ok_def fifo_new_inv data_buffer_new_def sector_start_value_def xa_buffer_default_def)

text \<open>C22: In every state that the controller reaches from its start, by events, register accesses, DMA and audio
  cycles in any order, it is well typed: both queues are rings of sixteen bytes, the data buffer and the
  sector hold at most the bytes of a raw sector, the index has two bits and the interrupt registers five.
  No operation ever fills the audio buffer, so an audio cycle gives silence and changes nothing.\<close>

theorem cdrom_typed:
  assumes "cd_reach disc c"
  shows "fifo_inv (cr_response c) \<and> fifo_inv (cr_args c)
    \<and> length (db_data (cr_data c)) = 2352 \<and> unat (db_len (cr_data c)) \<le> 2352 \<and> length (s_data (cr_sector c)) \<le> 2352
    \<and> unat (cr_index c) < 4 \<and> unat (cr_irq_mask c) < 32 \<and> unat (cr_irq_flags c) < 32
    \<and> run_audio_cycle b c = Some ((0, 0), c)"
proof -
  from assms have "cdrom_ok c"
    by induction (auto intro: cdrom_new_ok cd_apply_keeps)
  then show ?thesis using audio_silent by (auto simp: cdrom_ok_def)
qed

theorem cdrom_typed_witness:
  "\<exists>c. cdrom_store 0 1 (schedule_new, snd (cdrom_new None schedule_new)) = Some (schedule_new, c) \<and> cr_index c = 1
    \<and> run_audio_cycle True c = Some ((0, 0), c)"
proof -
  have one: "bit_range (as_u8 1) 0 (Suc 0) = 1" by code_simp
  let ?c = "(snd (cdrom_new None schedule_new))\<lparr>cr_index := 1\<rparr>"
  have s: "cdrom_store 0 1 (schedule_new, snd (cdrom_new None schedule_new)) = Some (schedule_new, ?c)"
    by (simp add: cdrom_store_def one)
  have "cd_reach None ?c"
    by (rule cd_next [OF cd_start [of None schedule_new], of "CdStore 0 1" schedule_new schedule_new]) (simp add: s)
  then show ?thesis using s cdrom_typed [of None ?c True] by auto
qed

end
