(* ===== verification/AsmLex.thy ===== *)
theory AsmLex
  imports Asm
begin

text \<open>
  \<open>crates/splst_asm/src/lex.rs\<close>: the scanner of the assembler. The scanner is the rest of the
  source with the current line; a source is the list of its bytes, which is what the code
  sees of it, since every character it tests for is ASCII (the messages that quote a
  character outside ASCII quote its first byte here). The loop that reads a string literal
  need not end, so the functions that call it return an option, \<open>None\<close> for a call that
  does not return.
\<close>

section \<open>Tokens\<close>

datatype directive = DText | DData | DWord | DHalfWord | DByte | DAscii | DAsciiz

datatype tok_ty =
    TDirective directive | TLabel string | TId string | TNum u32 | TStr string | TReg register
  | TComma | TLParan | TRParan | TEof

record tok =
  tok_ty :: tok_ty
  tok_line :: nat

record lexer =
  chars :: string
  lx_line :: nat

definition lexer_new :: "string \<Rightarrow> lexer" where
  "lexer_new input = \<lparr>chars = input, lx_line = 1\<rparr>"

definition REGISTER_NAMES :: "string list" where
  "REGISTER_NAMES =
     [''zero'', ''at'', ''v0'', ''v1'', ''a0'', ''a1'', ''a2'', ''a3'', ''t0'', ''t1'', ''t2'', ''t3'',
      ''t4'', ''t5'', ''t6'', ''t7'', ''s0'', ''s1'', ''s2'', ''s3'', ''s4'', ''s5'', ''s6'', ''s7'',
      ''t8'', ''t9'', ''k0'', ''k1'', ''gp'', ''sp'', ''fp'', ''ra'']"

section \<open>Characters and numbers of the standard library\<close>

definition in_range :: "int \<Rightarrow> int \<Rightarrow> char \<Rightarrow> bool" where
  "in_range lo hi c \<longleftrightarrow> lo \<le> of_char c \<and> of_char c \<le> hi"

definition is_ascii_digit :: "char \<Rightarrow> bool" where
  "is_ascii_digit = in_range 0x30 0x39"

definition is_ascii_alphabetic :: "char \<Rightarrow> bool" where
  "is_ascii_alphabetic c \<longleftrightarrow> in_range 0x41 0x5A c \<or> in_range 0x61 0x7A c"

definition is_ascii_hexdigit :: "char \<Rightarrow> bool" where
  "is_ascii_hexdigit c \<longleftrightarrow> is_ascii_digit c \<or> in_range 0x41 0x46 c \<or> in_range 0x61 0x66 c"

definition digit_val :: "char \<Rightarrow> int" where
  "digit_val c =
     (if is_ascii_digit c then of_char c - 0x30
      else if in_range 0x41 0x5A c then of_char c - 0x37 else of_char c - 0x57)"

definition digits_val :: "int \<Rightarrow> string \<Rightarrow> int" where
  "digits_val base s = foldl (\<lambda>n c. n * base + digit_val c) 0 s"

text \<open>\<open>u32::from_str_radix\<close> on digits of the base.\<close>

definition from_str_radix :: "string \<Rightarrow> int \<Rightarrow> string + u32" where
  "from_str_radix s base =
     (if s = [] then Inl ''cannot parse integer from empty string''
      else if digits_val base s < 2 ^ 32 then Inr (word_of_int (digits_val base s))
      else Inl ''number too large to fit in target type'')"

text \<open>\<open>Display\<close> of an unsigned number.\<close>

function dec_str :: "nat \<Rightarrow> string" where
  "dec_str n = (if n < 10 then [char_of (0x30 + n)] else dec_str (n div 10) @ [char_of (0x30 + n mod 10)])"
  by pat_completeness auto
termination by (relation "measure id") auto

declare dec_str.simps [simp del]

section \<open>The scanner\<close>

definition is_id_start :: "char \<Rightarrow> bool" where
  "is_id_start c \<longleftrightarrow> is_ascii_alphabetic c \<or> c = CHR ''_''"

definition is_id_con :: "char \<Rightarrow> bool" where
  "is_id_con c \<longleftrightarrow> is_ascii_alphabetic c \<or> is_ascii_digit c \<or> c = CHR ''_''"

definition is_whitespace :: "char \<Rightarrow> bool" where
  "is_whitespace c \<longleftrightarrow> c = CHR '' '' \<or> c = CHR 0x09"

definition lx_err :: "string \<Rightarrow> lexer \<Rightarrow> asm_error" where
  "lx_err msg lx = AsmError (lx_line lx) msg"

definition first :: "lexer \<Rightarrow> char" where
  "first lx = (case chars lx of [] \<Rightarrow> CHR 0x00 | c # _ \<Rightarrow> c)"

definition second :: "lexer \<Rightarrow> char" where
  "second lx = (case chars lx of _ # c # _ \<Rightarrow> c | _ \<Rightarrow> CHR 0x00)"

definition is_done :: "lexer \<Rightarrow> bool" where
  "is_done lx \<longleftrightarrow> chars lx = []"

definition eat_n :: "nat \<Rightarrow> lexer \<Rightarrow> lexer" where
  "eat_n n lx = lx\<lparr>chars := drop n (chars lx)\<rparr>"

definition eat :: "lexer \<Rightarrow> lexer" where
  "eat = eat_n 1"

definition eat_char :: "char \<Rightarrow> lexer \<Rightarrow> bool \<times> lexer" where
  "eat_char c lx = (if first lx = c then (True, eat lx) else (False, lx))"

lemma first_Cons: "first lx = c \<Longrightarrow> c \<noteq> CHR 0x00 \<Longrightarrow> \<exists>cs. chars lx = c # cs"
  by (cases "chars lx") (auto simp: first_def)

function eat_while :: "(char \<Rightarrow> bool) \<Rightarrow> lexer \<Rightarrow> nat \<times> lexer" where
  "eat_while pred lx =
     (if pred (first lx) \<and> \<not> is_done lx
      then let (eaten, lx) = eat_while pred (eat lx) in (eaten + 1, lx)
      else (0, lx))"
  by pat_completeness auto
termination
  by (relation "measure (\<lambda>(_, lx). length (chars lx))") (auto simp: is_done_def eat_def eat_n_def)

declare eat_while.simps [simp del]

lemma eat_while_eq:
  "eat_while pred lx =
     (length (takeWhile pred (chars lx)), lx\<lparr>chars := dropWhile pred (chars lx)\<rparr>)"
proof (induction pred lx rule: eat_while.induct)
  case (1 pred lx)
  show ?case
  proof (cases "chars lx")
    case Nil
    then show ?thesis by (subst eat_while.simps) (simp add: is_done_def)
  next
    case (Cons c cs)
    then have "first lx = c" "\<not> is_done lx" "chars (eat lx) = cs" "(eat lx)\<lparr>chars := xs\<rparr> = lx\<lparr>chars := xs\<rparr>" for xs
      by (simp_all add: first_def is_done_def eat_def eat_n_def)
    with 1 Cons show ?thesis by (subst eat_while.simps) (auto split: prod.splits)
  qed
qed

definition skip_while :: "(char \<Rightarrow> bool) \<Rightarrow> lexer \<Rightarrow> lexer" where
  "skip_while pred lx = snd (eat_while pred lx)"

lemma skip_while_eq [simp]:
  "chars (skip_while pred lx) = dropWhile pred (chars lx)" "lx_line (skip_while pred lx) = lx_line lx"
  by (simp_all add: skip_while_def eat_while_eq)

lemma eat_simps [simp]:
  "chars (eat lx) = drop 1 (chars lx)" "lx_line (eat lx) = lx_line lx"
  "chars (eat_n n lx) = drop n (chars lx)" "lx_line (eat_n n lx) = lx_line lx"
  by (simp_all add: eat_def eat_n_def)

function eat_whitespace :: "lexer \<Rightarrow> lexer" where
  "eat_whitespace lx =
     (let lx = skip_while is_whitespace lx
      in if first lx = CHR ''#''
         then let lx = skip_while (\<lambda>c. c \<noteq> CHR 0x0A) lx
              in eat_whitespace (eat (lx\<lparr>lx_line := lx_line lx + 1\<rparr>))
         else if first lx = CHR 0x0A
         then eat_whitespace (eat (lx\<lparr>lx_line := lx_line lx + 1\<rparr>))
         else lx)"
  by pat_completeness auto
termination
proof (relation "measure (\<lambda>lx. length (chars lx))", goal_cases)
  case (2 lx x xa)
  obtain cs where cs: "chars x = CHR ''#'' # cs" using first_Cons [OF 2(2)] by auto
  have "length (chars x) \<le> length (chars lx)" using 2 by (simp add: length_dropWhile_le)
  moreover have "length (dropWhile (\<lambda>c. c \<noteq> CHR 0x0A) cs) \<le> length cs" by (rule length_dropWhile_le)
  ultimately show ?case using 2 cs by simp
next
  case (3 lx x)
  obtain cs where cs: "chars x = CHR 0x0A # cs" using first_Cons [OF 3(3)] by auto
  have "length (chars x) \<le> length (chars lx)" using 3 by (simp add: length_dropWhile_le)
  then show ?case using cs by simp
qed simp

declare eat_whitespace.simps [simp del]

definition eat_id :: "lexer \<Rightarrow> string \<times> lexer" where
  "eat_id lx =
     (let as_str = chars lx;
          (eaten, lx) = (if is_id_start (first lx) then (1, eat lx) else (0, lx));
          (more, lx) = eat_while is_id_con lx
      in (take (eaten + more) as_str, lx))"

definition eat_num :: "lexer \<Rightarrow> asm_error + (u32 \<times> lexer)" where
  "eat_num lx =
     (let (base, pred, lx) =
        (if first lx = CHR ''0''
         then if second lx = CHR ''x'' then (16, is_ascii_hexdigit, eat_n 2 lx)
              else if second lx = CHR ''b'' then (2, \<lambda>c. c = CHR ''0'' \<or> c = CHR ''1'', eat_n 2 lx)
              else (10, is_ascii_digit, lx)
         else (10, is_ascii_digit, lx));
        as_str = chars lx;
        (eaten, lx) = eat_while pred lx
      in case from_str_radix (take eaten as_str) base of
           Inr num \<Rightarrow> Inr (num, lx)
         | Inl err \<Rightarrow> Inl (lx_err (''Invalid number: '' @ err) lx))"

definition escape :: "char \<Rightarrow> char option" where
  "escape c =
     map_of [(CHR ''t'', CHR 0x09), (CHR ''r'', CHR 0x0D), (CHR ''n'', CHR 0x0A), (CHR ''0'', CHR 0x00),
             (CHR 0x5C, CHR 0x5C)] c"

text \<open>The body of the loop over a string literal: the character to push, or the error.\<close>

definition str_char :: "lexer \<Rightarrow> asm_error + (char \<times> lexer)" where
  "str_char lx =
     (if first lx = CHR 0x5C
      then let lx = eat lx
           in case escape (first lx) of
                Some c \<Rightarrow> Inr (c, eat lx)
              | None \<Rightarrow> Inl (lx_err (''Invalid escape sequence '' @ quoted [CHR 0x5C, first lx]) lx)
      else if first lx = CHR 0x0A then Inl (lx_err ''Newline in string literal'' lx)
      else Inr (first lx, eat lx))"

partial_function (option) eat_str :: "string \<Rightarrow> lexer \<Rightarrow> (asm_error + (string \<times> lexer)) option" where
  "eat_str string lx =
     (case eat_char (CHR 0x22) lx of
        (closed, lx) \<Rightarrow>
          if closed then Some (Inr (string, lx))
          else (case str_char lx of
                  Inl e \<Rightarrow> Some (Inl e)
                | Inr (c, lx) \<Rightarrow> eat_str (string @ [c]) lx))"

declare eat_str.simps [code]

fun position :: "'a list \<Rightarrow> 'a \<Rightarrow> nat option" where
  "position [] x = None"
| "position (y # ys) x = (if y = x then Some 0 else map_option Suc (position ys x))"

definition lex_register :: "lexer \<Rightarrow> asm_error + (register \<times> lexer)" where
  "lex_register lx =
     (if is_ascii_digit (first lx)
      then and_then (eat_num lx) (\<lambda>(num, lx).
        case register_new num of
          Some reg \<Rightarrow> Inr (reg, lx)
        | None \<Rightarrow> Inl (lx_err (''Invalid register '' @ quoted (CHR ''$'' # dec_str (unat num))) lx))
      else let (id, lx) = eat_id lx
           in case position REGISTER_NAMES id of
                Some reg \<Rightarrow> Inr (register_new_unchecked (word_of_nat reg), lx)
              | None \<Rightarrow> Inl (lx_err (''Invalid register '' @ quoted (CHR ''$'' # id)) lx))"

definition lex_directive :: "lexer \<Rightarrow> asm_error + (directive \<times> lexer)" where
  "lex_directive lx =
     (let (id, lx) = eat_id lx
      in case map_of [(''text'', DText), (''data'', DData), (''word'', DWord), (''halfword'', DHalfWord),
                      (''byte'', DByte), (''ascii'', DAscii), (''asciiz'', DAsciiz)] id of
           Some d \<Rightarrow> Inr (d, lx)
         | None \<Rightarrow>
             if id = [] then Inl (lx_err (''Expected directive after '' @ quoted ''.'') lx)
             else Inl (lx_err (''Invalid directive '' @ quoted (CHR ''.'' # id)) lx))"

definition lex_negative :: "lexer \<Rightarrow> asm_error + (u32 \<times> lexer)" where
  "lex_negative lx =
     (let lx = eat_whitespace lx
      in if \<not> is_ascii_digit (first lx) then Inl (lx_err (''Expected number after '' @ quoted ''-'') lx)
         else and_then (eat_num lx) (\<lambda>(num, lx). Inr (- num, lx)))"

text \<open>\<open>Lexer::tok\<close> on a value scanned so far.\<close>

definition lex_tok :: "('a \<Rightarrow> tok_ty) \<Rightarrow> 'a \<times> lexer \<Rightarrow> asm_error + (tok \<times> lexer)" where
  "lex_tok f r = (case r of (x, lx) \<Rightarrow> Inr (\<lparr>tok_ty = f x, tok_line = lx_line lx\<rparr>, lx))"

definition next_tok :: "lexer \<Rightarrow> (asm_error + (tok \<times> lexer)) option" where
  "next_tok lx =
     (let lx = eat_whitespace lx; c = first lx
      in if is_id_start c then
           let (id, lx) = eat_id lx
           in (case eat_char (CHR '':'') lx of
                 (True, lx) \<Rightarrow> Some (lex_tok TLabel (id, lx))
               | (False, lx) \<Rightarrow> Some (lex_tok TId (id, lx)))
         else if is_ascii_digit c then Some (and_then (eat_num lx) (lex_tok TNum))
         else if c = CHR 0x22 then map_option (\<lambda>r. and_then r (lex_tok TStr)) (eat_str [] (eat lx))
         else if c = CHR ''-'' then Some (and_then (lex_negative (eat lx)) (lex_tok TNum))
         else if c = CHR ''.'' then Some (and_then (lex_directive (eat lx)) (lex_tok TDirective))
         else if c = CHR '','' then Some (lex_tok (\<lambda>_. TComma) ((), eat lx))
         else if c = CHR ''('' then Some (lex_tok (\<lambda>_. TLParan) ((), eat lx))
         else if c = CHR '')'' then Some (lex_tok (\<lambda>_. TRParan) ((), eat lx))
         else if c = CHR ''$'' then Some (and_then (lex_register (eat lx)) (lex_tok TReg))
         else if c = CHR 0x00 then Some (lex_tok (\<lambda>_. TEof) ((), lx))
         else Some (Inl (lx_err (''Invalid token '' @ quoted [c]) lx)))"

text \<open>
  The iterator of \<open>tokenize\<close>: \<open>Inr None\<close> is the end of the tokens.
\<close>

definition tokenize_next :: "lexer \<Rightarrow> (asm_error + (tok \<times> lexer) option) option" where
  "tokenize_next lx =
     map_option (\<lambda>r. and_then r (\<lambda>(t, lx). Inr (if tok_ty t = TEof then None else Some (t, lx)))) (next_tok lx)"

end
