(* ===== verification/AsmParse.thy ===== *)
theory AsmParse
  imports AsmLex Exe
begin

text \<open>
  \<open>crates/splst_asm/src/parse.rs\<close> and the entry points of \<open>lib.rs\<close>: the parser pulls the
  tokens from the scanner one at a time, so a program is read up to its first error. A
  parser function maps the state of the parser to its result and the next state; \<open>None\<close>
  stands for a call that does not return.
\<close>

section \<open>The parser\<close>

datatype asm_section = SText | SData

record parsed_source =
  ps_text :: "ins list"
  ps_data :: "ins list"

definition parsed_source_new :: parsed_source where
  "parsed_source_new = \<lparr>ps_text = [], ps_data = []\<rparr>"

record parser =
  p_sec :: asm_section
  p_line :: nat
  p_input :: lexer

type_synonym 'a parse = "parser \<Rightarrow> (asm_error + ('a \<times> parser)) option"

definition parser_new :: "lexer \<Rightarrow> parser" where
  "parser_new input = \<lparr>p_sec = SText, p_line = 1, p_input = input\<rparr>"

text \<open>A value, an error at the current line, and Rust's \<open>?\<close> between two parser calls.\<close>

definition p_ret :: "'a \<Rightarrow> 'a parse" where
  "p_ret x p = Some (Inr (x, p))"

definition p_err :: "string \<Rightarrow> 'a parse" where
  "p_err msg p = Some (Inl (AsmError (p_line p) msg))"

definition p_bind :: "'a parse \<Rightarrow> ('a \<Rightarrow> 'b parse) \<Rightarrow> 'b parse" where
  "p_bind f g p = (case f p of
     None \<Rightarrow> None | Some (Inl e) \<Rightarrow> Some (Inl e) | Some (Inr (x, p)) \<Rightarrow> g x p)"

definition expect_some :: "tok parse" where
  "expect_some p = (case tokenize_next (p_input p) of
     None \<Rightarrow> None
   | Some (Inl e) \<Rightarrow> Some (Inl e)
   | Some (Inr None) \<Rightarrow> p_err ''Unexpected end of input'' p
   | Some (Inr (Some (tok, lx))) \<Rightarrow> Some (Inr (tok, p\<lparr>p_line := tok_line tok, p_input := lx\<rparr>)))"

definition p_reg :: "register parse" where
  "p_reg = p_bind expect_some (\<lambda>tok. case tok_ty tok of
     TReg idx \<Rightarrow> p_ret idx | _ \<Rightarrow> p_err ''Expected register argument'')"

definition p_num :: "u32 parse" where
  "p_num = p_bind expect_some (\<lambda>tok. case tok_ty tok of
     TNum num \<Rightarrow> p_ret num | _ \<Rightarrow> p_err ''Expected immediate value'')"

definition p_addr :: "addr parse" where
  "p_addr = p_bind expect_some (\<lambda>tok. case tok_ty tok of
     TId name \<Rightarrow> p_ret (LabelRef name) | TNum num \<Rightarrow> p_ret (Abs num)
   | _ \<Rightarrow> p_err ''Expected label or address'')"

text \<open>\<open>self.comma()?\<close> in front of the next argument.\<close>

definition p_comma :: "'a parse \<Rightarrow> 'a parse" where
  "p_comma f = p_bind expect_some (\<lambda>tok. case tok_ty tok of TComma \<Rightarrow> f | _ \<Rightarrow> p_err ''Expected comma'')"

definition p_reg_offset :: "(register \<times> u32) parse" where
  "p_reg_offset =
     p_bind p_num (\<lambda>num.
     p_bind expect_some (\<lambda>tok.
       if tok_ty tok \<noteq> TLParan then p_err (''Expected '' @ quoted ''('')
       else
         p_bind p_reg (\<lambda>reg.
         p_bind expect_some (\<lambda>tok.
           if tok_ty tok \<noteq> TRParan then p_err (''Expected '' @ quoted '')'')
           else p_ret (reg, num)))))"

section \<open>The instructions\<close>

text \<open>The shapes of the argument lists in the arms of \<open>match id\<close>.\<close>

definition args_r :: "(register \<Rightarrow> ins_ty) \<Rightarrow> ins_ty parse" where
  "args_r f = p_bind p_reg (\<lambda>a. p_ret (f a))"

definition args_n :: "(u32 \<Rightarrow> ins_ty) \<Rightarrow> ins_ty parse" where
  "args_n f = p_bind p_num (\<lambda>a. p_ret (f a))"

definition args_a :: "(addr \<Rightarrow> ins_ty) \<Rightarrow> ins_ty parse" where
  "args_a f = p_bind p_addr (\<lambda>a. p_ret (f a))"

definition args_rr :: "(register \<Rightarrow> register \<Rightarrow> ins_ty) \<Rightarrow> ins_ty parse" where
  "args_rr f = p_bind p_reg (\<lambda>a. p_bind (p_comma p_reg) (\<lambda>b. p_ret (f a b)))"

definition args_rn :: "(register \<Rightarrow> u32 \<Rightarrow> ins_ty) \<Rightarrow> ins_ty parse" where
  "args_rn f = p_bind p_reg (\<lambda>a. p_bind (p_comma p_num) (\<lambda>b. p_ret (f a b)))"

definition args_ra :: "(register \<Rightarrow> addr \<Rightarrow> ins_ty) \<Rightarrow> ins_ty parse" where
  "args_ra f = p_bind p_reg (\<lambda>a. p_bind (p_comma p_addr) (\<lambda>b. p_ret (f a b)))"

definition args_rrr :: "(register \<Rightarrow> register \<Rightarrow> register \<Rightarrow> ins_ty) \<Rightarrow> ins_ty parse" where
  "args_rrr f =
     p_bind p_reg (\<lambda>a. p_bind (p_comma p_reg) (\<lambda>b. p_bind (p_comma p_reg) (\<lambda>c. p_ret (f a b c))))"

definition args_rrn :: "(register \<Rightarrow> register \<Rightarrow> u32 \<Rightarrow> ins_ty) \<Rightarrow> ins_ty parse" where
  "args_rrn f =
     p_bind p_reg (\<lambda>a. p_bind (p_comma p_reg) (\<lambda>b. p_bind (p_comma p_num) (\<lambda>c. p_ret (f a b c))))"

definition args_rra :: "(register \<Rightarrow> register \<Rightarrow> addr \<Rightarrow> ins_ty) \<Rightarrow> ins_ty parse" where
  "args_rra f =
     p_bind p_reg (\<lambda>a. p_bind (p_comma p_reg) (\<lambda>b. p_bind (p_comma p_addr) (\<lambda>c. p_ret (f a b c))))"

definition args_mem :: "(register \<Rightarrow> register \<Rightarrow> u32 \<Rightarrow> ins_ty) \<Rightarrow> ins_ty parse" where
  "args_mem f =
     p_bind p_reg (\<lambda>rt. p_bind (p_comma p_reg_offset) (\<lambda>(rd, offset). p_ret (f rt rd offset)))"

definition ins_arms :: "(string \<times> ins_ty parse) list" where
  "ins_arms =
     [(''sll'', args_rrn (Shift Sll)), (''srl'', args_rrn (Shift Srl)), (''sra'', args_rrn (Shift Sra)),
      (''sllv'', args_rrr (ShiftV Sllv)), (''srlv'', args_rrr (ShiftV Srlv)), (''srav'', args_rrr (ShiftV Srav)),
      (''jr'', args_r Jr), (''jalr'', args_rr Jalr),
      (''syscall'', args_n ins_ty.Syscall), (''break'', args_n ins_ty.Break),
      (''mfhi'', args_r (HiLo Mfhi)), (''mthi'', args_r (HiLo Mthi)),
      (''mflo'', args_r (HiLo Mflo)), (''mtlo'', args_r (HiLo Mtlo)),
      (''mult'', args_rr (MulDiv Mult)), (''multu'', args_rr (MulDiv Multu)),
      (''div'', args_rr (MulDiv Div)), (''divu'', args_rr (MulDiv Divu)),
      (''add'', args_rrr (Alu Add)), (''addu'', args_rrr (Alu Addu)), (''sub'', args_rrr (Alu Sub)),
      (''subu'', args_rrr (Alu Subu)), (''and'', args_rrr (Alu And)), (''or'', args_rrr (Alu Or)),
      (''xor'', args_rrr (Alu Xor)), (''nor'', args_rrr (Alu Nor)), (''slt'', args_rrr (Alu Slt)),
      (''sltu'', args_rrr (Alu Sltu)),
      (''bgez'', args_ra (Branch Bgez)), (''bltz'', args_ra (Branch Bltz)),
      (''bgezal'', args_ra (Branch Bgezal)), (''bltzal'', args_ra (Branch Bltzal)),
      (''j'', args_a (Jump J)), (''jal'', args_a (Jump Jal)),
      (''beq'', args_rra (Branch2 Beq)), (''bne'', args_rra (Branch2 Bne)),
      (''blez'', args_ra (Branch Blez)), (''bgtz'', args_ra (Branch Bgtz)),
      (''addi'', args_rrn (AluImm Addi)), (''addiu'', args_rrn (AluImm Addiu)),
      (''slti'', args_rrn (AluImm Slti)), (''sltiu'', args_rrn (AluImm Sltiu)),
      (''andi'', args_rrn (AluImm Andi)), (''ori'', args_rrn (AluImm Ori)), (''xori'', args_rrn (AluImm Xori)),
      (''lui'', args_rn Lui),
      (''lb'', args_mem (Mem Lb)), (''lh'', args_mem (Mem Lh)), (''lwl'', args_mem (Mem Lwl)),
      (''lw'', args_mem (Mem Lw)), (''lbu'', args_mem (Mem Lbu)), (''lhu'', args_mem (Mem Lhu)),
      (''lwr'', args_mem (Mem Lwr)), (''sb'', args_mem (Mem Sb)), (''sh'', args_mem (Mem Sh)),
      (''swl'', args_mem (Mem Swl)), (''sw'', args_mem (Mem Sw)), (''swr'', args_mem (Mem Swr)),
      (''mfc0'', args_rn (Cop Mfc0)), (''mtc0'', args_rn (Cop Mtc0)),
      (''mfc2'', args_rn (Cop Mfc2)), (''mtc2'', args_rn (Cop Mtc2)),
      (''nop'', p_ret Nop), (''move'', args_rr Move), (''li'', args_rn Li), (''la'', args_ra La),
      (''b'', args_a B), (''beqz'', args_ra Beqz), (''bnez'', args_ra Bnez)]"

definition parse_ins :: "string \<Rightarrow> ins_ty parse" where
  "parse_ins name = (case map_of ins_arms name of
     Some f \<Rightarrow> f | None \<Rightarrow> p_err (''Unknown instruction '' @ quoted name))"

section \<open>The loop over the source\<close>

definition push_ins :: "parsed_source \<Rightarrow> ins \<Rightarrow> parsed_source parse" where
  "push_ins ps i p = p_ret (case p_sec p of
       SData \<Rightarrow> ps\<lparr>ps_data := ps_data ps @ [i]\<rparr> | SText \<Rightarrow> ps\<lparr>ps_text := ps_text ps @ [i]\<rparr>) p"

text \<open>\<open>try_into\<close> a narrower unsigned type.\<close>

definition narrow :: "u32 \<Rightarrow> ('a::len word) parse" where
  "narrow v =
     (if unat v < 2 ^ LENGTH('a) then p_ret (ucast v)
      else p_err ''out of range integral type conversion attempted'')"

fun parse_directive :: "nat \<Rightarrow> directive \<Rightarrow> parsed_source \<Rightarrow> parsed_source parse" where
  "parse_directive line DData ps p = p_ret ps (p\<lparr>p_sec := SData\<rparr>)"
| "parse_directive line DText ps p = p_ret ps (p\<lparr>p_sec := SText\<rparr>)"
| "parse_directive line DWord ps p =
     p_bind p_num (\<lambda>v. push_ins ps \<lparr>i_ty = ins_ty.Word v, i_line = line\<rparr>) p"
| "parse_directive line DHalfWord ps p =
     p_bind p_num (\<lambda>v. p_bind (narrow v) (\<lambda>v. push_ins ps \<lparr>i_ty = ins_ty.HalfWord v, i_line = line\<rparr>)) p"
| "parse_directive line DByte ps p =
     p_bind p_num (\<lambda>v. p_bind (narrow v) (\<lambda>v. push_ins ps \<lparr>i_ty = ins_ty.Byte v, i_line = line\<rparr>)) p"
| "parse_directive line ty ps p =
     p_bind expect_some (\<lambda>tok. case tok_ty tok of
       TStr string \<Rightarrow>
         push_ins ps \<lparr>i_ty = Ascii (if ty = DAsciiz then string @ [CHR 0x00] else string),
                      i_line = tok_line tok\<rparr>
     | _ \<Rightarrow> p_err ''Expected string literal'') p"

text \<open>
  One round of the loop on a token. The end of the input is never passed on as a token
  (\<open>tokenize_next_not_eof\<close> below): the \<open>unreachable!\<close> of that arm does not return.
\<close>

definition parse_tok :: "tok \<Rightarrow> parsed_source \<Rightarrow> parsed_source parse" where
  "parse_tok tok ps p = (case tok_ty tok of
     TDirective dir \<Rightarrow> parse_directive (tok_line tok) dir ps p
   | TLabel name \<Rightarrow> push_ins ps \<lparr>i_ty = Label name, i_line = tok_line tok\<rparr> p
   | TEof \<Rightarrow> None
   | TId name \<Rightarrow> p_bind (parse_ins name) (\<lambda>ty. push_ins ps \<lparr>i_ty = ty, i_line = tok_line tok\<rparr>) p
   | _ \<Rightarrow> p_err ''Expected label, section or instruction'' p)"

partial_function (option) parse_loop :: "parsed_source \<Rightarrow> parser \<Rightarrow> (asm_error + parsed_source) option" where
  "parse_loop ps p = (case tokenize_next (p_input p) of
     None \<Rightarrow> None
   | Some (Inl e) \<Rightarrow> Some (Inl e)
   | Some (Inr None) \<Rightarrow> Some (Inr ps)
   | Some (Inr (Some (tok, lx))) \<Rightarrow>
       (case parse_tok tok ps (p\<lparr>p_input := lx\<rparr>) of
          None \<Rightarrow> None
        | Some (Inl e) \<Rightarrow> Some (Inl e)
        | Some (Inr (ps, p)) \<Rightarrow> parse_loop ps p))"

declare parse_loop.simps [code]

definition parse_source :: "string \<Rightarrow> (asm_error + parsed_source) option" where
  "parse_source input = parse_loop parsed_source_new (parser_new (lexer_new input))"

section \<open>The entry points\<close>

definition gen_machine_code :: "parsed_source \<Rightarrow> u32 \<Rightarrow> asm_error + (u8 list \<times> u32)" where
  "gen_machine_code parsed base = gen_ins (ps_text parsed) (ps_data parsed) base"

definition assemble :: "string \<Rightarrow> u32 \<Rightarrow> (asm_error + (u8 list \<times> u32)) option" where
  "assemble input base =
     map_option (\<lambda>r. and_then r (\<lambda>parsed. gen_machine_code parsed base)) (parse_source input)"

definition assemble_to_exe :: "string \<Rightarrow> u32 \<Rightarrow> (asm_error + exe) option" where
  "assemble_to_exe input base =
     map_option (\<lambda>r. and_then r (\<lambda>(txt, pc).
       Inr \<lparr>x_text = txt, x_pc = pc, x_gp = 0, x_text_size = word_of_nat (length txt), x_text_base = base,
            x_bss_size = 0, x_bss_base = 0, x_sp = None\<rparr>)) (assemble input base)"

end
