(* ===== verification/AsmFront.thy ===== *)
theory AsmFront
  imports AsmParse "HOL-Library.Sublist"
begin

text \<open>
  The scanner and the parser together: every token is taken from the front of the rest of
  the source, so a source whose last line is ended by a newline is assembled in finitely
  many steps, and the only way not to return is a string literal that the end of the
  source leaves open. The names that \<open>Register\<close> prints are read back as the register.
\<close>

section \<open>What a scanner function leaves is a suffix\<close>

definition leaves :: "lexer \<Rightarrow> lexer \<Rightarrow> bool" where
  "leaves lx lx' \<longleftrightarrow> suffix (chars lx') (chars lx)"

definition consumes :: "lexer \<Rightarrow> lexer \<Rightarrow> bool" where
  "consumes lx lx' \<longleftrightarrow> leaves lx lx' \<and> length (chars lx') < length (chars lx)"

lemma leaves_refl [simp]: "leaves lx lx"
  by (simp add: leaves_def)

lemma leaves_trans: "leaves lx lx' \<Longrightarrow> leaves lx' lx'' \<Longrightarrow> leaves lx lx''"
  unfolding leaves_def by (rule suffix_order.trans)

lemma leaves_length: "leaves lx lx' \<Longrightarrow> length (chars lx') \<le> length (chars lx)"
  unfolding leaves_def by (rule suffix_length_le)

lemma consumes_leaves: "consumes lx lx' \<Longrightarrow> leaves lx lx'"
  by (simp add: consumes_def)

lemma consumes_trans: "consumes lx lx' \<Longrightarrow> leaves lx' lx'' \<Longrightarrow> consumes lx lx''"
  unfolding consumes_def using leaves_trans leaves_length [of lx' lx''] by fastforce

lemma consumes_trans': "leaves lx lx' \<Longrightarrow> consumes lx' lx'' \<Longrightarrow> consumes lx lx''"
  unfolding consumes_def using leaves_trans leaves_length [of lx lx'] by fastforce

lemma leaves_eat [simp]: "leaves lx (eat lx)" "leaves lx (eat_n n lx)" "leaves lx (skip_while pred lx)"
  by (simp_all add: leaves_def suffix_drop suffix_dropWhile)

lemma leaves_eat_while: "eat_while pred lx = (n, lx') \<Longrightarrow> leaves lx lx'"
  by (auto simp: eat_while_eq leaves_def suffix_dropWhile)

lemma consumes_eat: "chars lx \<noteq> [] \<Longrightarrow> consumes lx (eat lx)"
  by (cases "chars lx") (simp_all add: consumes_def)

lemma consumes_eat_n: "chars lx \<noteq> [] \<Longrightarrow> consumes lx (eat_n (Suc n) lx)"
  by (cases "chars lx") (simp_all add: consumes_def)

lemma leaves_whitespace: "leaves lx (eat_whitespace lx)"
proof (induction lx rule: eat_whitespace.induct)
  case (1 lx)
  let ?w = "skip_while is_whitespace lx"
  let ?l = "\<lambda>lx. lx\<lparr>lx_line := lx_line lx + 1\<rparr>"
  have l: "leaves x (?l x)" for x by (simp add: leaves_def)
  have line: "leaves ?w (eat (?l x))" if "leaves ?w x" for x
    using leaves_trans [OF that leaves_trans [OF l leaves_eat(1)]] .
  show ?case
    using leaves_trans [OF leaves_eat(3) leaves_trans [OF line [OF leaves_eat(3)] "1.IH"(1) [OF refl _ refl]]]
      leaves_trans [OF leaves_eat(3) leaves_trans [OF line [OF leaves_refl] "1.IH"(2) [OF refl]]]
    by (subst eat_whitespace.simps) (simp add: Let_def)
qed

lemma leaves_id: "eat_id lx = (s, lx') \<Longrightarrow> leaves lx lx'"
  by (auto simp: eat_id_def Let_def split: if_splits prod.splits
        intro: leaves_trans [OF leaves_eat(1)] dest: leaves_eat_while)

lemma id_start_nonempty: "is_id_start (first lx) \<Longrightarrow> chars lx \<noteq> []"
  by (auto simp: first_def is_id_start_def is_ascii_alphabetic_def in_range_def)

lemma digit_nonempty: "is_ascii_digit (first lx) \<Longrightarrow> chars lx \<noteq> []"
  by (auto simp: first_def is_ascii_digit_def in_range_def)

lemma consumes_id: "eat_id lx = (s, lx') \<Longrightarrow> is_id_start (first lx) \<Longrightarrow> consumes lx lx'"
  by (auto simp: eat_id_def Let_def split: if_splits prod.splits
        intro: consumes_trans [OF consumes_eat [OF id_start_nonempty]] dest: leaves_eat_while)

lemma consumes_digits:
  assumes "is_ascii_digit (first lx)" "eat_while is_ascii_digit lx = (n, lx')"
  shows "consumes lx lx'"
proof -
  obtain c cs where "chars lx = c # cs" using digit_nonempty [OF assms(1)] by (cases "chars lx") auto
  with assms have "chars lx' = dropWhile is_ascii_digit cs" by (auto simp: eat_while_eq first_def)
  then have "leaves (eat lx) lx'" using \<open>chars lx = c # cs\<close> by (simp add: leaves_def suffix_dropWhile)
  then show ?thesis using consumes_trans [OF consumes_eat [OF digit_nonempty [OF assms(1)]]] by blast
qed

lemma consumes_num:
  assumes "is_ascii_digit (first lx)" "eat_num lx = Inr (v, lx')"
  shows "consumes lx lx'"
  using assms consumes_eat_n [OF digit_nonempty [OF assms(1)], of 1]
  by (auto simp: eat_num_def Let_def numeral_2_eq_2 split: if_splits prod.splits sum.splits
        intro: consumes_digits consumes_trans dest: leaves_eat_while)

section \<open>String literals\<close>

text \<open>The characters behind the opening quote end the literal or stop it with an error.\<close>

fun str_ends :: "string \<Rightarrow> bool" where
  "str_ends [] \<longleftrightarrow> False"
| "str_ends [c] \<longleftrightarrow> c \<in> {CHR 0x22, CHR 0x0A, CHR 0x5C}"
| "str_ends (c # d # cs) \<longleftrightarrow>
     c = CHR 0x22 \<or> c = CHR 0x0A \<or>
     (if c = CHR 0x5C then escape d = None \<or> str_ends cs else str_ends (d # cs))"

lemma str_char_leaves: "str_char lx = Inr (c, lx') \<Longrightarrow> leaves lx lx'"
  by (auto simp: str_char_def Let_def split: if_splits option.splits
        intro: leaves_trans [OF leaves_eat(1)])

lemma eat_str_leaves: "eat_str s lx = Some r \<Longrightarrow> r = Inr (s', lx') \<Longrightarrow> leaves lx lx'"
proof (induction s lx r arbitrary: s' lx' rule: eat_str.raw_induct [rotated, consumes 1, case_names step])
  case (step eat_str s lx r)
  from step(2,3) show ?case
    by (auto simp: eat_char_def dest: str_char_leaves intro: step(1) leaves_trans
          split: if_splits sum.splits prod.splits)
qed

lemma escape_newline [simp]: "escape (CHR 0x0A) = None"
  by (simp add: escape_def)

lemma str_ends_newline: "cs \<noteq> [] \<Longrightarrow> last cs = CHR 0x0A \<Longrightarrow> str_ends cs"
  by (induction cs rule: str_ends.induct) (auto split: if_splits)

lemma str_ends_step:
  assumes "first lx \<noteq> CHR 0x22" "str_char lx = Inr (c, lx')"
  shows "str_ends (chars lx') \<longleftrightarrow> str_ends (chars lx)" and "chars lx \<noteq> [] \<Longrightarrow> consumes lx lx'"
proof -
  consider "chars lx = []" | d where "chars lx = [d]" | d e cs where "chars lx = d # e # cs"
    by (cases "chars lx" rule: str_ends.cases) auto
  then show "str_ends (chars lx') \<longleftrightarrow> str_ends (chars lx)"
    by cases (use assms in \<open>auto simp: str_char_def first_def Let_def escape_def split: if_splits option.splits\<close>)
  show "consumes lx lx'" if "chars lx \<noteq> []"
    using assms that consumes_eat [OF that]
    by (auto simp: str_char_def Let_def intro: consumes_trans split: if_splits option.splits)
qed

lemma eat_str_returns: "str_ends (chars lx) \<Longrightarrow> \<exists>r. eat_str s lx = Some r"
proof (induction "length (chars lx)" arbitrary: s lx rule: less_induct)
  case less
  show ?case
  proof (cases "first lx = CHR 0x22 \<or> (\<exists>e. str_char lx = Inl e)")
    case True
    then show ?thesis by (subst eat_str.simps) (auto simp: eat_char_def)
  next
    case False
    then obtain c lx' where step: "str_char lx = Inr (c, lx')" by (cases "str_char lx") auto
    have "chars lx \<noteq> []" using less.prems by auto
    then have "\<exists>r. eat_str (s @ [c]) lx' = Some r"
      using less.hyps [of lx'] less.prems str_ends_step [OF _ step] False by (simp add: consumes_def)
    with False step show ?thesis by (subst eat_str.simps) (simp add: eat_char_def)
  qed
qed

text \<open>Without an end the loop pushes the \<open>'\0'\<close> that \<open>first\<close> returns behind the source.\<close>

lemma eat_str_ends: "eat_str s lx = Some r \<Longrightarrow> str_ends (chars lx)"
proof (induction s lx r rule: eat_str.raw_induct [rotated, consumes 1, case_names step])
  case (step eat_str s lx r)
  show ?case
  proof (cases "first lx = CHR 0x22 \<or> (\<exists>e. str_char lx = Inl e)")
    case True
    then show ?thesis
      by (cases "chars lx" rule: str_ends.cases)
        (auto simp: first_def str_char_def Let_def split: if_splits option.splits)
  next
    case False
    then obtain c lx' where char: "str_char lx = Inr (c, lx')" by (cases "str_char lx") auto
    with step(2) False have "eat_str (s @ [c]) lx' = Some r" by (simp add: eat_char_def)
    then show ?thesis using step(1) str_ends_step(1) [OF _ char] False by blast
  qed
qed

section \<open>Tokens\<close>

lemma leaves_directive: "lex_directive lx = Inr (d, lx') \<Longrightarrow> leaves lx lx'"
  by (auto simp: lex_directive_def split: prod.splits option.splits if_splits dest: leaves_id)

lemma leaves_register: "lex_register lx = Inr (d, lx') \<Longrightarrow> leaves lx lx'"
  by (auto simp: lex_register_def and_then_Inr split: prod.splits option.splits if_splits
        dest: leaves_id consumes_num consumes_leaves)

lemma leaves_negative: "lex_negative lx = Inr (d, lx') \<Longrightarrow> leaves lx lx'"
  by (auto simp: lex_negative_def and_then_Inr Let_def split: if_splits
        dest: consumes_num consumes_leaves intro: leaves_trans [OF leaves_whitespace])

lemma lex_tok_Inr: "lex_tok f r = Inr (t, lx) \<longleftrightarrow> (\<exists>x. r = (x, lx) \<and> t = \<lparr>tok_ty = f x, tok_line = lx_line lx\<rparr>)"
  by (cases r) (auto simp: lex_tok_def)

lemma next_tok_consumes:
  assumes "next_tok lx = Some (Inr (t, lx'))" "tok_ty t \<noteq> TEof"
  shows "consumes lx lx'"
proof -
  let ?lx = "eat_whitespace lx"
  have c: "consumes ?lx (eat ?lx)" if "first ?lx \<noteq> CHR 0x00"
    using first_Cons [OF refl that] by (auto intro: consumes_eat)
  have "consumes ?lx lx'"
    using assms c leaves_eat(1)
    by (auto simp: next_tok_def Let_def and_then_Inr lex_tok_Inr eat_char_def split: if_splits prod.splits
          dest!: consumes_id consumes_num leaves_negative leaves_directive leaves_register eat_str_leaves
          intro: consumes_trans)
  then show ?thesis using consumes_trans' [OF leaves_whitespace] by blast
qed

lemma next_tok_returns:
  assumes "chars lx = [] \<or> last (chars lx) = CHR 0x0A"
  shows "\<exists>r. next_tok lx = Some r"
proof -
  let ?lx = "eat_whitespace lx"
  have "\<exists>r. eat_str [] (eat ?lx) = Some r" if q: "first ?lx = CHR 0x22"
  proof -
    obtain cs where cs: "chars ?lx = CHR 0x22 # cs" using first_Cons [OF q] by auto
    obtain ys where "chars lx = ys @ CHR 0x22 # cs"
      using leaves_whitespace [of lx] cs by (auto simp: leaves_def suffix_def)
    with assms have "cs \<noteq> []" "last cs = CHR 0x0A" by (auto split: if_splits)
    then show ?thesis using cs by (intro eat_str_returns str_ends_newline) simp_all
  qed
  then show ?thesis by (auto simp: next_tok_def Let_def split: prod.splits bool.splits)
qed

lemma tokenize_next_consumes: "tokenize_next lx = Some (Inr (Some (t, lx'))) \<Longrightarrow> consumes lx lx'"
  by (auto simp: tokenize_next_def and_then_Inr split: if_splits dest: next_tok_consumes)

lemma tokenize_next_not_eof: "tokenize_next lx = Some (Inr (Some (t, lx'))) \<Longrightarrow> tok_ty t \<noteq> TEof"
  by (auto simp: tokenize_next_def and_then_Inr split: if_splits)

section \<open>The parser returns\<close>

text \<open>The rest of the source is empty or its last line is ended.\<close>

definition lines_end :: "parser \<Rightarrow> bool" where
  "lines_end p \<longleftrightarrow> chars (p_input p) = [] \<or> last (chars (p_input p)) = CHR 0x0A"

definition p_returns :: "'a parse \<Rightarrow> bool" where
  "p_returns f \<longleftrightarrow> (\<forall>p. lines_end p \<longrightarrow> (case f p of
     None \<Rightarrow> False | Some (Inl e) \<Rightarrow> True | Some (Inr (x, p')) \<Rightarrow> leaves (p_input p) (p_input p')))"

lemma lines_end_leaves: "lines_end p \<Longrightarrow> leaves (p_input p) (p_input p') \<Longrightarrow> lines_end p'"
  by (auto simp: lines_end_def leaves_def suffix_def last_append split: if_splits)

named_theorems returns_intros

lemma returns_basic [returns_intros]: "p_returns (p_ret x)" "p_returns (p_err msg)"
  by (simp_all add: p_returns_def p_ret_def p_err_def)

lemma returnsE:
  assumes "p_returns f" "lines_end p"
  obtains (err) e where "f p = Some (Inl e)"
  | (val) x p' where "f p = Some (Inr (x, p'))" "leaves (p_input p) (p_input p')" "lines_end p'"
proof (cases "f p")
  case None
  then show thesis using assms by (auto simp: p_returns_def)
next
  case (Some r)
  have rt: "case f p of None \<Rightarrow> False | Some (Inl e) \<Rightarrow> True | Some (Inr (x, p')) \<Rightarrow> leaves (p_input p) (p_input p')"
    using assms by (simp add: p_returns_def)
  show thesis
  proof (cases r)
    case (Inl e)
    with Some err show thesis by simp
  next
    case (Inr y)
    then show thesis
      using Some rt val [of "fst y" "snd y"] lines_end_leaves [OF assms(2), of "snd y"]
      by (cases y) simp
  qed
qed

lemma returns_bind [returns_intros]:
  assumes "p_returns f" "\<And>x. p_returns (g x)"
  shows "p_returns (p_bind f g)"
proof -
  have "case p_bind f g p of
      None \<Rightarrow> False | Some (Inl e) \<Rightarrow> True | Some (Inr (x, p')) \<Rightarrow> leaves (p_input p) (p_input p')"
    if p: "lines_end p" for p
    using assms(1) p
  proof (cases rule: returnsE)
    case (err e)
    then show ?thesis by (simp add: p_bind_def)
  next
    case (val x p')
    show ?thesis using assms(2) [of x] val(3)
    proof (cases rule: returnsE)
      case (val y p'')
      then show ?thesis
        using \<open>f p = Some (Inr (x, p'))\<close> leaves_trans [OF \<open>leaves (p_input p) (p_input p')\<close>] by (simp add: p_bind_def)
    qed (use val in \<open>simp add: p_bind_def\<close>)
  qed
  then show ?thesis by (simp add: p_returns_def)
qed

lemma returns_expect [returns_intros]: "p_returns expect_some"
  unfolding p_returns_def expect_some_def p_err_def
  using next_tok_returns tokenize_next_consumes
  by (fastforce simp: lines_end_def tokenize_next_def split: option.splits sum.splits prod.splits
        dest: consumes_leaves)

lemma returns_cases [returns_intros]:
  "p_returns f \<Longrightarrow> p_returns g \<Longrightarrow> p_returns (if b then f else g)"
  "(\<And>r. p_returns (fr r)) \<Longrightarrow> p_returns f \<Longrightarrow> p_returns (case t of TReg r \<Rightarrow> fr r | _ \<Rightarrow> f)"
  "(\<And>n. p_returns (fn n)) \<Longrightarrow> p_returns f \<Longrightarrow> p_returns (case t of TNum n \<Rightarrow> fn n | _ \<Rightarrow> f)"
  "(\<And>s. p_returns (fs s)) \<Longrightarrow> p_returns f \<Longrightarrow> p_returns (case t of TStr s \<Rightarrow> fs s | _ \<Rightarrow> f)"
  "(\<And>s. p_returns (fs s)) \<Longrightarrow> (\<And>n. p_returns (fn n)) \<Longrightarrow> p_returns f \<Longrightarrow>
     p_returns (case t of TId s \<Rightarrow> fs s | TNum n \<Rightarrow> fn n | _ \<Rightarrow> f)"
  "p_returns g \<Longrightarrow> p_returns f \<Longrightarrow> p_returns (case t of TComma \<Rightarrow> g | _ \<Rightarrow> f)"
  "(\<And>x y. p_returns (h x y)) \<Longrightarrow> p_returns (case z of (x, y) \<Rightarrow> h x y)"
  by (auto split: tok_ty.split prod.split)

lemma returns_args [returns_intros]:
  "p_returns p_reg" "p_returns p_num" "p_returns p_addr" "p_returns f \<Longrightarrow> p_returns (p_comma f)" "p_returns p_reg_offset"
  unfolding p_reg_def p_num_def p_addr_def p_comma_def p_reg_offset_def
  by (intro returns_intros; assumption?)+

lemmas args_defs =
  args_r_def args_n_def args_a_def args_rr_def args_rn_def args_ra_def args_rrr_def args_rrn_def
  args_rra_def args_mem_def

lemma returns_shapes [returns_intros]:
  "p_returns (args_r f1)" "p_returns (args_n f2)" "p_returns (args_a f3)" "p_returns (args_rr f4)"
  "p_returns (args_rn f5)" "p_returns (args_ra f6)" "p_returns (args_rrr f7)" "p_returns (args_rrn f8)"
  "p_returns (args_rra f9)" "p_returns (args_mem f10)"
  unfolding args_defs by (intro returns_intros)+

lemma returns_arms: "list_all (\<lambda>(_, f). p_returns f) ins_arms"
  by (simp add: ins_arms_def returns_shapes returns_basic)

lemma returns_ins [returns_intros]: "p_returns (parse_ins name)"
  using returns_arms
  by (auto simp: parse_ins_def list_all_iff returns_basic split: option.split dest!: map_of_SomeD)

lemma returns_push [returns_intros]: "p_returns (push_ins ps i)"
  by (simp add: p_returns_def push_ins_def p_ret_def)

lemma returns_narrow [returns_intros]: "p_returns (narrow v)"
  unfolding narrow_def by (intro returns_intros)

lemma returns_apply: "p_returns (\<lambda>p. f p) \<Longrightarrow> p_returns f"
  by simp

lemma returns_directive [returns_intros]: "p_returns (\<lambda>p. parse_directive line dir ps p)"
proof (cases dir)
  case DText
  then show ?thesis by (simp add: p_returns_def p_ret_def)
next
  case DData
  then show ?thesis by (simp add: p_returns_def p_ret_def)
qed (simp_all, (intro returns_intros)+)

lemma returns_tok: "tok_ty tok \<noteq> TEof \<Longrightarrow> p_returns (parse_tok tok ps)"
  unfolding parse_tok_def by (cases "tok_ty tok") (simp_all, (intro returns_intros)+)

lemma parse_loop_returns: "lines_end p \<Longrightarrow> \<exists>r. parse_loop ps p = Some r"
proof (induction "length (chars (p_input p))" arbitrary: ps p rule: less_induct)
  case less
  obtain r where r: "tokenize_next (p_input p) = Some r"
    using next_tok_returns [of "p_input p"] less.prems by (fastforce simp: tokenize_next_def lines_end_def)
  show ?case
  proof (cases "\<exists>t lx. r = Inr (Some (t, lx))")
    case False
    then show ?thesis using r by (subst parse_loop.simps) (auto split: sum.split option.split)
  next
    case True
    then obtain t lx where t: "tokenize_next (p_input p) = Some (Inr (Some (t, lx)))" using r by auto
    let ?p = "p\<lparr>p_input := lx\<rparr>"
    have c: "consumes (p_input p) lx" by (rule tokenize_next_consumes [OF t])
    have e: "lines_end ?p" using lines_end_leaves [OF less.prems, of ?p] consumes_leaves [OF c] by simp
    have "\<exists>r. parse_loop ps' p' = Some r" if "parse_tok t ps ?p = Some (Inr (ps', p'))" for ps' p'
    proof -
      have l: "leaves lx (p_input p')"
        using returns_tok [OF tokenize_next_not_eof [OF t], of ps] e that by (auto simp: p_returns_def)
      then have "length (chars (p_input p')) < length (chars (p_input p))"
        using c leaves_length [OF l] by (simp add: consumes_def)
      then show ?thesis using less.hyps lines_end_leaves [OF e] l by simp
    qed
    moreover have "parse_tok t ps ?p \<noteq> None"
      by (rule returnsE [OF returns_tok [OF tokenize_next_not_eof [OF t], of ps] e]) simp_all
    ultimately show ?thesis using t
      by (subst parse_loop.simps) (auto split: option.split sum.split)
  qed
qed

section \<open>Which sources are assembled\<close>

lemma next_tok_none:
  "next_tok lx = None \<longleftrightarrow> (\<exists>body. chars (eat_whitespace lx) = CHR 0x22 # body \<and> \<not> str_ends body)"
    (is "_ \<longleftrightarrow> ?open")
proof -
  let ?lx = "eat_whitespace lx"
  have "next_tok lx = None \<longleftrightarrow> first ?lx = CHR 0x22 \<and> eat_str [] (eat ?lx) = None"
    by (auto simp: next_tok_def Let_def is_id_start_def is_ascii_alphabetic_def is_ascii_digit_def in_range_def
        split: prod.splits bool.splits)
  also have "\<dots> \<longleftrightarrow> first ?lx = CHR 0x22 \<and> \<not> str_ends (chars (eat ?lx))"
    using eat_str_returns [of "eat ?lx" "[]"] eat_str_ends [of "[]" "eat ?lx"]
    by (cases "eat_str [] (eat ?lx)") auto
  also have "\<dots> \<longleftrightarrow> ?open" by (cases "chars ?lx") (auto simp: first_def)
  finally show ?thesis .
qed

text \<open>C24: Assembling returns a program or an error for every source whose last line is ended by a
newline; the scanner does not return exactly at a string literal that is never ended.\<close>

theorem assemble_returns:
  "(src \<noteq> [] \<and> last src = CHR 0x0A \<longrightarrow> (\<exists>r. assemble src base = Some r)) \<and>
   (next_tok lx = None \<longleftrightarrow> (\<exists>body. chars (eat_whitespace lx) = CHR 0x22 # body \<and> \<not> str_ends body))"
proof (intro conjI impI)
  assume "src \<noteq> [] \<and> last src = CHR 0x0A"
  then have "lines_end (parser_new (lexer_new src))"
    by (simp add: lines_end_def parser_new_def lexer_new_def)
  then show "\<exists>r. assemble src base = Some r"
    using parse_loop_returns by (fastforce simp: assemble_def parse_source_def)
qed (rule next_tok_none)

theorem assemble_returns_witness:
  "\<exists>r. assemble (''.ascii '' @ [CHR 0x22, CHR ''a'', CHR 0x0A]) 0 = Some r"
  using assemble_returns [of "''.ascii '' @ [CHR 0x22, CHR ''a'', CHR 0x0A]" 0 undefined] by simp

section \<open>Registers\<close>

text \<open>\<open>Display\<close> of \<open>Register\<close> in \<open>ins.rs\<close>.\<close>

definition register_display :: "register \<Rightarrow> string" where
  "register_display r =
     [''zero'', ''at'', ''v0'', ''v1'', ''a0'', ''a1'', ''a2'', ''a3'', ''t0'', ''t1'', ''t2'', ''t3'',
      ''t4'', ''t5'', ''t6'', ''t7'', ''s0'', ''s1'', ''s2'', ''s3'', ''s4'', ''s5'', ''s6'', ''s7'',
      ''t8'', ''t9'', ''k0'', ''k1'', ''gp'', ''sp'', ''fp'', ''ra''] ! r"

lemma register_names_lex:
  "list_all (\<lambda>r. position REGISTER_NAMES (register_display r) = Some r \<and> register_display r \<noteq> [] \<and>
     list_all is_id_con (register_display r) \<and> is_id_start (hd (register_display r)) \<and>
     \<not> is_ascii_digit (hd (register_display r)) \<and> register_new_unchecked (word_of_nat r) = r) [0..<32]"
  by code_simp

lemma register_display_lexes:
  assumes "r < 32" "rest = [] \<or> \<not> is_id_con (hd rest)"
  shows "next_tok \<lparr>chars = CHR ''$'' # register_display r @ rest, lx_line = n\<rparr> =
    Some (Inr (\<lparr>tok_ty = TReg r, tok_line = n\<rparr>, \<lparr>chars = rest, lx_line = n\<rparr>))"
proof -
  let ?lx = "\<lparr>chars = CHR ''$'' # register_display r @ rest, lx_line = n\<rparr>"
  have names: "position REGISTER_NAMES (register_display r) = Some r" "list_all is_id_con (register_display r)"
    "is_id_start (hd (register_display r))" "\<not> is_ascii_digit (hd (register_display r))"
    "register_new_unchecked (word_of_nat r) = r" "register_display r \<noteq> []"
    using register_names_lex assms(1) by (auto simp: list_all_iff)
  obtain c cs where d: "register_display r = c # cs" using names(6) by (cases "register_display r") auto
  have w: "eat_whitespace ?lx = ?lx"
    by (subst eat_whitespace.simps) (simp add: skip_while_def eat_while_eq first_def is_whitespace_def)
  have take: "takeWhile is_id_con (cs @ rest) = cs" "dropWhile is_id_con (cs @ rest) = rest"
    using names(2) assms(2) d by (auto simp: list_all_iff takeWhile_append dropWhile_append hd_conv_nth
        takeWhile_eq_Nil_iff dropWhile_eq_self_iff)
  have "eat_id (eat ?lx) = (register_display r, \<lparr>chars = rest, lx_line = n\<rparr>)"
    using names(3) d take by (simp add: eat_id_def first_def eat_while_eq eat_def eat_n_def)
  then have "lex_register (eat ?lx) = Inr (r, \<lparr>chars = rest, lx_line = n\<rparr>)"
    using names d by (simp add: lex_register_def first_def)
  then show ?thesis
    unfolding next_tok_def w
    by (simp add: first_def is_id_start_def is_ascii_alphabetic_def is_ascii_digit_def in_range_def lex_tok_def)
qed

section \<open>The tests of the scanner\<close>

text \<open>The types of the tokens up to the end, at most \<open>n\<close> of them: the collected iterator.\<close>

fun tokens :: "nat \<Rightarrow> lexer \<Rightarrow> tok_ty list option" where
  "tokens 0 lx = Some []"
| "tokens (Suc n) lx = (case tokenize_next lx of
     Some (Inr (Some (t, lx))) \<Rightarrow> map_option ((#) (tok_ty t)) (tokens n lx)
   | Some (Inr None) \<Rightarrow> Some []
   | _ \<Rightarrow> None)"

lemma test_number:
  "tokens 5 (lexer_new (CHR 0x0A # ''  42'' @ CHR 0x0A # ''  -0x42'' @ CHR 0x0A # ''  0b0101'')) =
     Some [TNum 42, TNum (- 0x42), TNum 5]"
  by code_simp

lemma test_comment:
  "tokens 8 (lexer_new (CHR 0x0A # ''# Comment.'' @ CHR 0x0A # ''add $t2, $t0, $t1 # Comment'' @ [CHR 0x0A])) =
     Some [TId ''add'', TReg 10, TComma, TReg 8, TComma, TReg 9]"
  by code_simp

text \<open>A program of one instruction from its text to its bytes.\<close>

lemma assemble_example:
  "assemble (''main: addiu $t0, $zero, 1'' @ [CHR 0x0A]) 0x80010000 = Some (Inr ([1, 0, 8, 0x24], 0x80010000))"
  by code_simp

end
