(* ===== verification/OpcodeText.thy ===== *)
theory OpcodeText
  imports AsmDecode AsmFront
begin

text \<open>
  \<open>Display\<close> of \<open>Opcode\<close> in \<open>crates/splst_core/src/cpu/opcode.rs\<close>, the disassembler of the debug
  menus, and its agreement with the assembler: the mnemonic that is shown for a word is
  the one the parser reads for the instruction that was assembled.
\<close>

section \<open>Formatting\<close>

definition hex_digit :: "nat \<Rightarrow> char" where
  "hex_digit n = ''0123456789abcdef'' ! n"

function hex_str :: "nat \<Rightarrow> string" where
  "hex_str n = (if n < 16 then [hex_digit n] else hex_str (n div 16) @ [hex_digit (n mod 16)])"
  by pat_completeness auto
termination by (relation "measure id") auto

declare hex_str.simps [simp del]

text \<open>\<open>{:0nx}\<close>: padded with zeros to the width.\<close>

definition hex_pad :: "nat \<Rightarrow> u32 \<Rightarrow> string" where
  "hex_pad n v = (let s = hex_str (unat v) in replicate (n - length s) (CHR ''0'') @ s)"

text \<open>The pieces of a format string, with a space between them.\<close>

fun spaced :: "string list \<Rightarrow> string" where
  "spaced [] = []"
| "spaced [s] = s"
| "spaced (s # ss) = s @ CHR '' '' # spaced ss"

definition fmt_reg :: "register \<Rightarrow> string" where "fmt_reg = register_display"
definition fmt_u32 :: "u32 \<Rightarrow> string" where "fmt_u32 v = dec_str (unat v)"

section \<open>The arms\<close>

definition show_shift :: "string \<Rightarrow> opcode \<Rightarrow> string" where
  "show_shift m w = spaced [m, fmt_reg (opc_rd w), fmt_reg (opc_rt w), fmt_u32 (opc_shift w)]"

definition show_shiftv :: "string \<Rightarrow> opcode \<Rightarrow> string" where
  "show_shiftv m w = spaced [m, fmt_reg (opc_rd w), fmt_reg (opc_rt w), fmt_reg (opc_rs w)]"

definition show_alu :: "string \<Rightarrow> opcode \<Rightarrow> string" where
  "show_alu m w = spaced [m, fmt_reg (opc_rd w), fmt_reg (opc_rs w), fmt_reg (opc_rt w)]"

definition show_muldiv :: "string \<Rightarrow> opcode \<Rightarrow> string" where
  "show_muldiv m w = spaced [m, fmt_reg (opc_rs w), fmt_reg (opc_rt w)]"

definition show_rd :: "string \<Rightarrow> opcode \<Rightarrow> string" where
  "show_rd m w = spaced [m, fmt_reg (opc_rd w)]"

definition show_rs :: "string \<Rightarrow> opcode \<Rightarrow> string" where
  "show_rs m w = spaced [m, fmt_reg (opc_rs w)]"

definition special_arms :: "(u32 \<times> (opcode \<Rightarrow> string)) list" where
  "special_arms =
     [(0x0, show_shift ''sll''), (0x2, show_shift ''srl''), (0x3, show_shift ''sra''),
      (0x4, show_shiftv ''sllv''), (0x6, show_shiftv ''srlv''), (0x7, show_shiftv ''srav''),
      (0x8, show_rs ''jr''), (0x9, \<lambda>w. spaced [''jalr'', fmt_reg (opc_rd w), fmt_reg (opc_rs w)]),
      (0xc, \<lambda>w. ''syscall''), (0xd, \<lambda>w. ''break''),
      (0x10, show_rd ''mfhi''), (0x11, show_rs ''mthi''), (0x12, show_rd ''mflo''), (0x13, show_rs ''mtlo''),
      (0x18, show_muldiv ''mult''), (0x19, show_muldiv ''multu''), (0x1a, show_muldiv ''div''),
      (0x1b, show_muldiv ''divu''),
      (0x20, show_alu ''add''), (0x21, show_alu ''addu''), (0x22, show_alu ''sub''), (0x23, show_alu ''subu''),
      (0x24, show_alu ''and''), (0x25, show_alu ''or''), (0x26, show_alu ''xor''), (0x27, show_alu ''nor''),
      (0x2a, show_alu ''slt''), (0x2b, show_alu ''sltu'')]"

definition bcond_name :: "opcode \<Rightarrow> string" where
  "bcond_name w =
     (case (opc_update_ra_on_branch w, opc_bgez w) of
        (True, True) \<Rightarrow> ''bgezal'' | (True, False) \<Rightarrow> ''bltzal''
      | (False, True) \<Rightarrow> ''bgez'' | (False, False) \<Rightarrow> ''bltz'')"

definition show_branch :: "string \<Rightarrow> opcode \<Rightarrow> string" where
  "show_branch m w = spaced [m, fmt_reg (opc_rs w), fmt_u32 (opc_signed_imm w)]"

definition show_jump :: "string \<Rightarrow> opcode \<Rightarrow> string" where
  "show_jump m w = spaced [m, hex_pad 8 (opc_target w)]"

definition show_rst :: "string \<Rightarrow> (opcode \<Rightarrow> u32) \<Rightarrow> opcode \<Rightarrow> string" where
  "show_rst m imm w = spaced [m, fmt_reg (opc_rs w), fmt_reg (opc_rt w), fmt_u32 (imm w)]"

definition show_mem :: "string \<Rightarrow> opcode \<Rightarrow> string" where
  "show_mem m w =
     spaced [m, fmt_reg (opc_rt w), hex_pad 8 (opc_signed_imm w) @ ''('' @ fmt_reg (opc_rs w) @ '')'']"

definition op_arms :: "(u32 \<times> (opcode \<Rightarrow> string)) list" where
  "op_arms =
     [(0x1, \<lambda>w. show_branch (bcond_name w) w), (0x2, show_jump ''j''), (0x3, show_jump ''jal''),
      (0x4, show_rst ''beq'' opc_signed_imm), (0x5, show_rst ''bne'' opc_signed_imm),
      (0x6, show_branch ''blez''), (0x7, show_branch ''bgtz''),
      (0x8, show_rst ''addi'' opc_signed_imm), (0x9, show_rst ''addiu'' opc_signed_imm),
      (0xa, show_rst ''slti'' opc_signed_imm), (0xb, show_rst ''sltui'' opc_signed_imm),
      (0xc, show_rst ''andi'' opc_imm), (0xd, show_rst ''ori'' opc_imm), (0xe, show_rst ''xori'' opc_imm),
      (0xf, \<lambda>w. spaced [''lui'', fmt_reg (opc_rt w), fmt_u32 (opc_imm w)]),
      (0x10, \<lambda>w. ''cop0''), (0x11, \<lambda>w. ''cop1''), (0x12, \<lambda>w. ''cop2''), (0x13, \<lambda>w. ''cop3''),
      (0x20, show_mem ''lb''), (0x21, show_mem ''lh''), (0x22, show_mem ''lwl''), (0x23, show_mem ''lw''),
      (0x24, show_mem ''lbu''), (0x25, show_mem ''lhu''), (0x26, show_mem ''lwr''),
      (0x28, show_mem ''sb''), (0x29, show_mem ''sh''), (0x2a, show_mem ''swl''), (0x2b, show_mem ''sw''),
      (0x2e, show_mem ''swr''),
      (0x30, \<lambda>w. ''lwc0''), (0x31, \<lambda>w. ''lwc1''), (0x32, \<lambda>w. ''lwc2''), (0x33, \<lambda>w. ''lwc3''),
      (0x38, \<lambda>w. ''swc0''), (0x39, \<lambda>w. ''swc1''), (0x3a, \<lambda>w. ''swc2''), (0x3b, \<lambda>w. ''swc3'')]"

definition arm_or_illegal :: "(u32 \<times> (opcode \<Rightarrow> string)) list \<Rightarrow> u32 \<Rightarrow> opcode \<Rightarrow> string" where
  "arm_or_illegal arms k w = (case map_of arms k of Some f \<Rightarrow> f w | None \<Rightarrow> ''illegal'')"

definition opcode_display :: "opcode \<Rightarrow> string" where
  "opcode_display w =
     (if opc_op w = 0 then arm_or_illegal special_arms (opc_special w) w
      else arm_or_illegal op_arms (opc_op w) w)"

section \<open>The mnemonic\<close>

text \<open>What is shown in front of the operands.\<close>

definition shown_name :: "opcode \<Rightarrow> string" where
  "shown_name w = takeWhile (\<lambda>c. c \<noteq> CHR '' '') (opcode_display w)"

lemma takeWhile_spaced: "CHR '' '' \<notin> set m \<Longrightarrow> takeWhile (\<lambda>c. c \<noteq> CHR '' '') (spaced (m # ss)) = m"
proof -
  assume "CHR '' '' \<notin> set m"
  then have "takeWhile (\<lambda>c. c \<noteq> CHR '' '') m = m" "\<forall>c\<in>set m. c \<noteq> CHR '' ''"
    by (auto simp: takeWhile_eq_all_conv)
  then show ?thesis by (cases ss) (simp_all add: takeWhile_append)
qed

text \<open>The name of each instruction in the source, and of the word it is assembled to. Pseudo
  instructions of one word are shown as the machine instruction; the moves from and to the
  coprocessors as the coprocessor, and \<open>sltiu\<close> with two letters exchanged.\<close>

definition shown_as :: "string \<Rightarrow> string" where
  "shown_as name =
     (case map_of [(''sltiu'', ''sltui''), (''nop'', ''sll''), (''move'', ''addu''), (''b'', ''beq''),
                   (''beqz'', ''beq''), (''bnez'', ''bne''), (''mfc0'', ''cop0''), (''mtc0'', ''cop0''),
                   (''mfc2'', ''cop2''), (''mtc2'', ''cop2'')] name of
        Some s \<Rightarrow> s | None \<Rightarrow> name)"

fun name_of :: "ins_ty \<Rightarrow> string" where
  "name_of (Shift f _ _ _) = (case f of Sll \<Rightarrow> ''sll'' | Srl \<Rightarrow> ''srl'' | Sra \<Rightarrow> ''sra'')"
| "name_of (ShiftV f _ _ _) = (case f of Sllv \<Rightarrow> ''sllv'' | Srlv \<Rightarrow> ''srlv'' | Srav \<Rightarrow> ''srav'')"
| "name_of (Alu f _ _ _) = (case f of
     Add \<Rightarrow> ''add'' | Addu \<Rightarrow> ''addu'' | Sub \<Rightarrow> ''sub'' | Subu \<Rightarrow> ''subu'' | And \<Rightarrow> ''and'' | Or \<Rightarrow> ''or''
   | Xor \<Rightarrow> ''xor'' | Nor \<Rightarrow> ''nor'' | Slt \<Rightarrow> ''slt'' | Sltu \<Rightarrow> ''sltu'')"
| "name_of (MulDiv f _ _) = (case f of
     Mult \<Rightarrow> ''mult'' | Multu \<Rightarrow> ''multu'' | Div \<Rightarrow> ''div'' | Divu \<Rightarrow> ''divu'')"
| "name_of (HiLo f _) = (case f of Mfhi \<Rightarrow> ''mfhi'' | Mthi \<Rightarrow> ''mthi'' | Mflo \<Rightarrow> ''mflo'' | Mtlo \<Rightarrow> ''mtlo'')"
| "name_of (Jr _) = ''jr''"
| "name_of (Jalr _ _) = ''jalr''"
| "name_of (ins_ty.Syscall _) = ''syscall''"
| "name_of (ins_ty.Break _) = ''break''"
| "name_of (Branch f _ _) = (case f of
     Bgez \<Rightarrow> ''bgez'' | Bltz \<Rightarrow> ''bltz'' | Bgezal \<Rightarrow> ''bgezal'' | Bltzal \<Rightarrow> ''bltzal''
   | Blez \<Rightarrow> ''blez'' | Bgtz \<Rightarrow> ''bgtz'')"
| "name_of (Branch2 f _ _ _) = (case f of Beq \<Rightarrow> ''beq'' | Bne \<Rightarrow> ''bne'')"
| "name_of (Jump f _) = (case f of J \<Rightarrow> ''j'' | Jal \<Rightarrow> ''jal'')"
| "name_of (AluImm f _ _ _) = (case f of
     Addi \<Rightarrow> ''addi'' | Addiu \<Rightarrow> ''addiu'' | Slti \<Rightarrow> ''slti'' | Sltiu \<Rightarrow> ''sltui'' | Andi \<Rightarrow> ''andi''
   | Ori \<Rightarrow> ''ori'' | Xori \<Rightarrow> ''xori'')"
| "name_of (Lui _ _) = ''lui''"
| "name_of (Mem f _ _ _) = (case f of
     Lb \<Rightarrow> ''lb'' | Lh \<Rightarrow> ''lh'' | Lwl \<Rightarrow> ''lwl'' | Lw \<Rightarrow> ''lw'' | Lbu \<Rightarrow> ''lbu'' | Lhu \<Rightarrow> ''lhu''
   | Lwr \<Rightarrow> ''lwr'' | Sb \<Rightarrow> ''sb'' | Sh \<Rightarrow> ''sh'' | Swl \<Rightarrow> ''swl'' | Sw \<Rightarrow> ''sw'' | Swr \<Rightarrow> ''swr'')"
| "name_of (Cop f _ _) = (if f = Mfc0 \<or> f = Mtc0 then ''cop0'' else ''cop2'')"
| "name_of Nop = ''sll''"
| "name_of (Move _ _) = ''addu''"
| "name_of (B _) = ''beq''"
| "name_of (Beqz _ _) = ''beq''"
| "name_of (Bnez _ _) = ''bne''"
| "name_of _ = []"

lemmas arms_defs = special_arms_def op_arms_def show_shift_def show_shiftv_def show_alu_def show_muldiv_def
  show_rd_def show_rs_def show_branch_def show_jump_def show_rst_def show_mem_def

lemma shown_special: "opc_op w = 0 \<Longrightarrow> shown_name w =
    takeWhile (\<lambda>c. c \<noteq> CHR '' '') (arm_or_illegal special_arms (opc_special w) w)"
  by (simp add: shown_name_def opcode_display_def)

lemma shown_op: "opc_op w = k \<Longrightarrow> k \<noteq> 0 \<Longrightarrow> shown_name w =
    takeWhile (\<lambda>c. c \<noteq> CHR '' '') (arm_or_illegal op_arms k w)"
  by (auto simp: shown_name_def opcode_display_def)

lemmas shown_rules = shown_special arm_or_illegal_def arms_defs takeWhile_spaced

lemma shift_shown: "opc_op w = 0 \<Longrightarrow> opc_special w = shift_code f \<Longrightarrow> shown_name w = name_of (Shift f a b n)"
  by (cases f) (simp_all add: shown_rules)

lemma shiftv_shown: "opc_op w = 0 \<Longrightarrow> opc_special w = shiftv_code f \<Longrightarrow> shown_name w = name_of (ShiftV f a b c)"
  by (cases f) (simp_all add: shown_rules)

lemma alu_shown: "opc_op w = 0 \<Longrightarrow> opc_special w = alu_code f \<Longrightarrow> shown_name w = name_of (Alu f a b c)"
  by (cases f) (simp_all add: shown_rules)

lemma muldiv_shown: "opc_op w = 0 \<Longrightarrow> opc_special w = muldiv_code f \<Longrightarrow> shown_name w = name_of (MulDiv f a b)"
  by (cases f) (simp_all add: shown_rules)

lemma special_shown:
  "opc_op w = 0 \<Longrightarrow> opc_special w = 0x8 \<Longrightarrow> shown_name w = ''jr''"
  "opc_op w = 0 \<Longrightarrow> opc_special w = 0x9 \<Longrightarrow> shown_name w = ''jalr''"
  "opc_op w = 0 \<Longrightarrow> opc_special w = 0xc \<Longrightarrow> shown_name w = ''syscall''"
  "opc_op w = 0 \<Longrightarrow> opc_special w = 0xd \<Longrightarrow> shown_name w = ''break''"
  "opc_op w = 0 \<Longrightarrow> opc_special w = 0x0 \<Longrightarrow> shown_name w = ''sll''"
  "opc_op w = 0 \<Longrightarrow> opc_special w = 0x21 \<Longrightarrow> shown_name w = ''addu''"
  by (simp_all add: shown_rules)

lemma hi_lo_shown: "shown_name (hi_lo_word f r) = name_of (HiLo f r)"
  by (cases f) (simp_all add: shown_rules word_fields)

lemma branch2_shown: "opc_op w = branch2_code f \<Longrightarrow> shown_name w = name_of (Branch2 f a b d)"
  by (cases f) (simp_all add: shown_op shown_rules)

lemma jump_shown: "opc_op w = jump_code f \<Longrightarrow> shown_name w = name_of (Jump f d)"
  by (cases f) (simp_all add: shown_op shown_rules)

lemma imm_shown: "opc_op w = imm_code f \<Longrightarrow> shown_name w = name_of (AluImm f a b n)"
  by (cases f) (simp_all add: shown_op shown_rules)

lemma mem_shown: "opc_op w = mem_code f \<Longrightarrow> shown_name w = name_of (Mem f a b n)"
  by (cases f) (simp_all add: shown_op shown_rules)

lemma op_shown:
  "opc_op w = 0xf \<Longrightarrow> shown_name w = ''lui''"
  "opc_op w = 0x4 \<Longrightarrow> shown_name w = ''beq''"
  "opc_op w = 0x5 \<Longrightarrow> shown_name w = ''bne''"
  by (simp_all add: shown_op shown_rules)

lemma branch_shown: "shown_name (branch_word f rs off) = name_of (Branch f rs d)"
  by (cases f) (simp_all add: shown_op shown_rules word_fields bcond_name_def)

lemma cop_shown: "shown_name (cop_word f rt reg) = name_of (Cop f rt reg)"
  by (cases f) (simp_all add: shown_op shown_rules word_fields)

lemma emitted_shown:
  assumes "name_of i \<noteq> []" "encodable i" "assemble_ty line i cg = Inr cg'"
  shows "\<exists>w. cg' = gen_word w cg \<and> shown_name w = name_of i"
proof (cases i)
  case (Syscall v)
  then show ?thesis using assms by (auto simp: special_shown word_fields)
next
  case (Break v)
  then show ?thesis using assms by (auto simp: special_shown word_fields)
qed (use assms in \<open>auto simp: and_then_Inr shift_shown shiftv_shown alu_shown muldiv_shown special_shown
      branch2_shown jump_shown imm_shown mem_shown op_shown branch_shown cop_shown hi_lo_shown word_fields
      simp del: name_of.simps(1-5,10-13,15,16)\<close>)

section \<open>From the source to the menu\<close>

lemma p_bind_Inr: "p_bind f g p = Some (Inr (y, p'')) \<longleftrightarrow>
    (\<exists>x p'. f p = Some (Inr (x, p')) \<and> g x p' = Some (Inr (y, p'')))"
  by (auto simp: p_bind_def split: option.splits sum.splits)

lemma p_ret_Inr: "p_ret x p = Some (Inr (y, p')) \<longleftrightarrow> y = x \<and> p' = p"
  by (auto simp: p_ret_def)

text \<open>The scanner makes registers of the numbers below 32 only.\<close>

lemma position_less: "position xs x = Some n \<Longrightarrow> n < length xs"
  by (induction xs arbitrary: n) (auto split: if_splits)

lemma lex_register_less:
  assumes "lex_register lx = Inr (r, lx')"
  shows "r < 32"
proof -
  have new: "n < 32" if "register_new num = Some n" for num n
  proof -
    have num: "unat num < 32" "n = unat (ucast num :: u8)"
      using that by (auto simp: register_new_def word_le_nat_alt not_less split: if_splits)
    then show ?thesis by (simp add: unsigned_ucast_eq take_bit_nat_eq_self)
  qed
  have named: "register_new_unchecked (word_of_nat n) < 32" if "position REGISTER_NAMES x = Some n" for x n
  proof -
    have "n < 32" using position_less [OF that] by (simp add: REGISTER_NAMES_def)
    then show ?thesis by (simp add: register_new_unchecked_def unsigned_ucast_eq unsigned_of_nat take_bit_nat_eq_self)
  qed
  show ?thesis
    using assms
    by (auto simp: lex_register_def Let_def and_then_Inr
        split: if_splits prod.splits option.splits intro: new named)
qed

lemma next_tok_register:
  assumes "next_tok lx = Some (Inr (t, lx'))" "tok_ty t = TReg r"
  shows "r < 32"
proof -
  have tok: "(\<exists>y. x = Inr y \<and> f (fst y) = TReg r)" if "and_then x (lex_tok f) = Inr (t, lx')" for x :: "asm_error + ('a \<times> lexer)" and f
    using that assms(2) by (cases x) (auto simp: lex_tok_def and_then_Inr)
  show ?thesis
    using assms
    by (auto simp: next_tok_def Let_def lex_tok_def split: if_splits prod.splits bool.splits
        dest!: tok dest: lex_register_less)
qed

lemma p_reg_less:
  assumes "p_reg p = Some (Inr (r, p'))"
  shows "r < 32"
proof -
  obtain t where t: "expect_some p = Some (Inr (t, p'))" "tok_ty t = TReg r"
    using assms unfolding p_reg_def p_bind_Inr
    by (elim exE conjE, case_tac "tok_ty x") (auto simp: p_ret_Inr p_err_def)
  then obtain lx where "next_tok (p_input p) = Some (Inr (t, lx))"
    by (auto simp: expect_some_def tokenize_next_def p_err_def and_then_Inr split: option.splits sum.splits if_splits)
  then show ?thesis using t(2) by (rule next_tok_register)
qed

lemma p_comma_Inr: "p_comma f p = Some (Inr (x, p')) \<Longrightarrow> \<exists>q. f q = Some (Inr (x, p'))"
  unfolding p_comma_def p_bind_Inr by (elim exE conjE, case_tac "tok_ty xa") (auto simp: p_err_def)

lemma p_reg_offset_less: "p_reg_offset p = Some (Inr ((r, n), p')) \<Longrightarrow> r < 32"
  by (auto simp: p_reg_offset_def p_bind_Inr p_err_def p_ret_Inr split: if_splits dest: p_reg_less)

text \<open>A trap whose code has bit 20 sets the lowest bit of the operation. Everything else that is read is encodable.\<close>

definition long_trap :: "ins_ty \<Rightarrow> bool" where
  "long_trap i \<longleftrightarrow> (\<exists>v. (i = ins_ty.Syscall v \<or> i = ins_ty.Break v) \<and> bit v 20)"

definition encodes :: "ins_ty parse \<Rightarrow> bool" where
  "encodes f \<longleftrightarrow> (\<forall>p i p'. f p = Some (Inr (i, p')) \<longrightarrow> encodable i \<or> long_trap i)"

lemma encodes_args:
  "(\<And>a. a < 32 \<Longrightarrow> encodable (f1 a)) \<Longrightarrow> encodes (args_r f1)"
  "(\<And>n. encodable (f2 n) \<or> long_trap (f2 n)) \<Longrightarrow> encodes (args_n f2)"
  "(\<And>d. encodable (f3 d)) \<Longrightarrow> encodes (args_a f3)"
  "(\<And>a b. a < 32 \<Longrightarrow> b < 32 \<Longrightarrow> encodable (f4 a b)) \<Longrightarrow> encodes (args_rr f4)"
  "(\<And>a n. a < 32 \<Longrightarrow> encodable (f5 a n)) \<Longrightarrow> encodes (args_rn f5)"
  "(\<And>a d. a < 32 \<Longrightarrow> encodable (f6 a d)) \<Longrightarrow> encodes (args_ra f6)"
  "(\<And>a b c. a < 32 \<Longrightarrow> b < 32 \<Longrightarrow> c < 32 \<Longrightarrow> encodable (f7 a b c)) \<Longrightarrow> encodes (args_rrr f7)"
  "(\<And>a b n. a < 32 \<Longrightarrow> b < 32 \<Longrightarrow> encodable (f8 a b n)) \<Longrightarrow> encodes (args_rrn f8)"
  "(\<And>a b d. a < 32 \<Longrightarrow> b < 32 \<Longrightarrow> encodable (f9 a b d)) \<Longrightarrow> encodes (args_rra f9)"
  "(\<And>a b n. a < 32 \<Longrightarrow> b < 32 \<Longrightarrow> encodable (f10 a b n)) \<Longrightarrow> encodes (args_mem f10)"
  unfolding encodes_def args_defs p_bind_Inr p_ret_Inr
  by (auto simp: p_bind_Inr p_ret_Inr split: prod.splits dest!: p_comma_Inr dest: p_reg_less p_reg_offset_less)

lemma arms_encode: "list_all (\<lambda>(name, f). encodes f) ins_arms"
proof -
  have "encodable (ins_ty.Syscall n) \<or> long_trap (ins_ty.Syscall n)" "encodable (ins_ty.Break n) \<or> long_trap (ins_ty.Break n)" for n
    by (simp_all add: long_trap_def)
  moreover have "encodes (p_ret Nop)" by (simp add: encodes_def p_ret_Inr)
  ultimately show ?thesis by (simp add: ins_arms_def encodes_args del: encodable.simps(8,9))
qed

lemma args_Inr:
  "args_r f1 p = Some (Inr (i, p')) \<Longrightarrow> \<exists>a. i = f1 a"
  "args_n f2 p = Some (Inr (i, p')) \<Longrightarrow> \<exists>n. i = f2 n"
  "args_a f3 p = Some (Inr (i, p')) \<Longrightarrow> \<exists>d. i = f3 d"
  "args_rr f4 p = Some (Inr (i, p')) \<Longrightarrow> \<exists>a b. i = f4 a b"
  "args_rn f5 p = Some (Inr (i, p')) \<Longrightarrow> \<exists>a n. i = f5 a n"
  "args_ra f6 p = Some (Inr (i, p')) \<Longrightarrow> \<exists>a d. i = f6 a d"
  "args_rrr f7 p = Some (Inr (i, p')) \<Longrightarrow> \<exists>a b c. i = f7 a b c"
  "args_rrn f8 p = Some (Inr (i, p')) \<Longrightarrow> \<exists>a b n. i = f8 a b n"
  "args_rra f9 p = Some (Inr (i, p')) \<Longrightarrow> \<exists>a b d. i = f9 a b d"
  "args_mem f10 p = Some (Inr (i, p')) \<Longrightarrow> \<exists>a b n. i = f10 a b n"
  by (auto simp: args_defs p_bind_Inr p_ret_Inr split: prod.splits)

definition names_match :: "string \<times> ins_ty parse \<Rightarrow> bool" where
  "names_match = (\<lambda>(name, f). \<forall>p i p'. f p = Some (Inr (i, p')) \<longrightarrow>
     name = ''li'' \<or> name = ''la'' \<or> (name_of i = shown_as name \<and> name_of i \<noteq> []))"

lemma arms_match: "list_all names_match ins_arms"
  by (simp add: ins_arms_def names_match_def shown_as_def)
    (auto dest!: args_Inr simp: p_ret_Inr)

lemma parse_ins_name:
  assumes "parse_ins name p = Some (Inr (i, p'))" "name \<notin> {''li'', ''la''}"
  shows "name_of i = shown_as name" "name_of i \<noteq> []" "encodable i \<or> long_trap i"
proof -
  obtain f where f: "map_of ins_arms name = Some f" "f p = Some (Inr (i, p'))"
    using assms(1) by (auto simp: parse_ins_def p_err_def split: option.splits)
  then have "names_match (name, f)" "encodes f"
    using arms_match arms_encode by (auto simp: list_all_iff dest: map_of_SomeD)
  then show "name_of i = shown_as name" "name_of i \<noteq> []" using f(2) assms(2) by (auto simp: names_match_def)
  show "encodable i \<or> long_trap i" using \<open>encodes f\<close> f(2) unfolding encodes_def by blast
qed

text \<open>C38: The scanner, the parser, the code generator and the disassembler agree on the names of the
instructions: the word that is assembled for an instruction read under a name is shown under
the same name, but for the moves to the coprocessors, the one-word pseudo instructions, which
are shown as the machine instruction, and \<open>sltiu\<close>, shown as \<open>sltui\<close>. Excluded are \<open>li\<close> and \<open>la\<close>,
which may be two words, and a \<open>syscall\<close> or \<open>break\<close> whose code has bit 20 set: the code generator
puts that bit into the operation of the word, which is then shown (and executed) as a branch.\<close>

theorem source_name_shown:
  assumes "parse_ins name p = Some (Inr (i, p'))" "name \<notin> {''li'', ''la''}"
    and "\<not> long_trap i" "assemble_ty line i cg = Inr cg'"
  shows "\<exists>w. code cg' = code cg @ le_bytes 4 w \<and>
    takeWhile (\<lambda>c. c \<noteq> CHR '' '') (opcode_display w) = shown_as name"
proof -
  have n: "name_of i = shown_as name" "name_of i \<noteq> []" "encodable i" using parse_ins_name [OF assms(1,2)] assms(3) by simp_all
  obtain w where "cg' = gen_word w cg" "shown_name w = name_of i"
    using emitted_shown [OF n(2,3) assms(4)] by blast
  then have "code cg' = code cg @ le_bytes 4 w" "takeWhile (\<lambda>c. c \<noteq> CHR '' '') (opcode_display w) = shown_as name"
    using n(1) by (simp_all add: gen_word_def gen_bytes_def shown_name_def)
  then show ?thesis by blast
qed

theorem source_name_shown_witness:
  "\<exists>w. code (gen_word 0x03e00008 code_gen_new) = code code_gen_new @ le_bytes 4 w \<and>
    takeWhile (\<lambda>c. c \<noteq> CHR '' '') (opcode_display w) = shown_as ''jr''"
proof -
  have p: "parse_ins ''jr'' (parser_new (lexer_new ''$ra'')) =
      Some (Inr (Jr 31, \<lparr>p_sec = SText, p_line = 1, p_input = \<lparr>chars = [], lx_line = 1\<rparr>\<rparr>))"
    by code_simp
  have "ins_rs 31 (ins_special 0x8) = 0x03e00008" by code_simp
  then have a: "assemble_ty 1 (Jr 31) code_gen_new = Inr (gen_word 0x03e00008 code_gen_new)" by simp
  show ?thesis by (rule source_name_shown [OF p _ _ a]) (simp_all add: long_trap_def)
qed

text \<open>The operands of the immediate instructions are shown in the other order, and a negative
  offset as an unsigned number.\<close>

lemma display_addi: "opcode_display 0x2128ffff = ''addi t1 t0 4294967295''"
proof -
  have f: "opc_op 0x2128ffff = 0x8" "opc_rs 0x2128ffff = 9" "opc_rt 0x2128ffff = 8"
    "opc_signed_imm 0x2128ffff = 0xffffffff" by code_simp+
  show ?thesis
    by (simp add: opcode_display_def f arm_or_illegal_def arms_defs fmt_reg_def fmt_u32_def
        register_display_def dec_str.simps char_of_def bit_0)
qed

end
