(* ===== verification/BiosCalls.thy ===== *)
theory BiosCalls
  imports SliceSearch
begin

text \<open>
  The module \<open>fns\<close> of \<open>crates/splst_core/src/bus/bios.rs\<close>: the functions of the BIOS behind
  the entry \<open>0xa0\<close>, with their arguments, and the lookup by number with the binary
  search of the standard library.
\<close>

section \<open>The functions\<close>

datatype arg_type = ArgStr | ArgChar | ArgInt | ArgPtr

record bios_arg =
  arg_name :: string
  arg_kind :: arg_type

definition arg_new :: "string \<Rightarrow> arg_type \<Rightarrow> bios_arg" where
  "arg_new name kind = \<lparr>arg_name = name, arg_kind = kind\<rparr>"

record bios_func =
  fn_name :: string
  fn_args :: "bios_arg list"

definition FN_FILE_OPEN :: bios_func where
  "FN_FILE_OPEN = \<lparr>fn_name = ''FileOpen'',
     fn_args = [arg_new ''filename'' ArgStr, arg_new ''accessmode'' ArgInt]\<rparr>"

definition FN_FILE_SEEK :: bios_func where
  "FN_FILE_SEEK = \<lparr>fn_name = ''FileSeek'',
     fn_args = [arg_new ''file'' ArgPtr, arg_new ''offset'' ArgInt, arg_new ''origin'' ArgInt]\<rparr>"

definition FN_FILE_READ :: bios_func where
  "FN_FILE_READ = \<lparr>fn_name = ''FileRead'',
     fn_args = [arg_new ''file'' ArgPtr, arg_new ''dst'' ArgPtr, arg_new ''length'' ArgInt]\<rparr>"

definition FN_FILE_WRITE :: bios_func where
  "FN_FILE_WRITE = \<lparr>fn_name = ''FileWrite'',
     fn_args = [arg_new ''file'' ArgPtr, arg_new ''src'' ArgPtr, arg_new ''length'' ArgInt]\<rparr>"

definition FN_FILE_CLOSE :: bios_func where
  "FN_FILE_CLOSE = \<lparr>fn_name = ''FileClose'', fn_args = [arg_new ''file'' ArgPtr]\<rparr>"

definition FN_FILE_IOCTL :: bios_func where
  "FN_FILE_IOCTL = \<lparr>fn_name = ''FileIoctl'',
     fn_args = [arg_new ''file'' ArgPtr, arg_new ''cmd'' ArgInt, arg_new ''arg'' ArgInt]\<rparr>"

definition FN_EXIT :: bios_func where
  "FN_EXIT = \<lparr>fn_name = ''exit'', fn_args = [arg_new ''exitcode'' ArgInt]\<rparr>"

definition FN_FILE_GET_DEVICE_FLAG :: bios_func where
  "FN_FILE_GET_DEVICE_FLAG = \<lparr>fn_name = ''FileGetDeviceFlag'',
     fn_args = [arg_new ''file'' ArgPtr]\<rparr>"

definition FN_FILE_GETC :: bios_func where
  "FN_FILE_GETC = \<lparr>fn_name = ''FileGetc'', fn_args = [arg_new ''file'' ArgPtr]\<rparr>"

definition FN_FILE_PUTC :: bios_func where
  "FN_FILE_PUTC = \<lparr>fn_name = ''FilePutc'',
     fn_args = [arg_new ''c'' ArgChar, arg_new ''file'' ArgPtr]\<rparr>"

definition FN_TODIGIT :: bios_func where
  "FN_TODIGIT = \<lparr>fn_name = ''todigit'', fn_args = [arg_new ''c'' ArgChar]\<rparr>"

definition FN_ATOF :: bios_func where
  "FN_ATOF = \<lparr>fn_name = ''atof'', fn_args = [arg_new ''src'' ArgInt]\<rparr>"

definition FN_STRTOUL :: bios_func where
  "FN_STRTOUL = \<lparr>fn_name = ''strtoul'',
     fn_args = [arg_new ''src'' ArgStr, arg_new ''src_end'' ArgInt, arg_new ''base'' ArgInt]\<rparr>"

definition FN_STRTOL :: bios_func where
  "FN_STRTOL = \<lparr>fn_name = ''strtol'',
     fn_args = [arg_new ''src'' ArgStr, arg_new ''src_end'' ArgInt, arg_new ''base'' ArgInt]\<rparr>"

definition FN_ABS :: bios_func where
  "FN_ABS = \<lparr>fn_name = ''abs'', fn_args = [arg_new ''val'' ArgInt]\<rparr>"

definition FN_LABS :: bios_func where
  "FN_LABS = \<lparr>fn_name = ''labs'', fn_args = [arg_new ''val'' ArgInt]\<rparr>"

definition FN_ATOI :: bios_func where
  "FN_ATOI = \<lparr>fn_name = ''atoi'', fn_args = [arg_new ''src'' ArgInt]\<rparr>"

definition FN_ATOL :: bios_func where
  "FN_ATOL = \<lparr>fn_name = ''atol'', fn_args = [arg_new ''src'' ArgInt]\<rparr>"

definition FN_ATOB :: bios_func where
  "FN_ATOB = \<lparr>fn_name = ''atob'',
     fn_args = [arg_new ''src'' ArgInt, arg_new ''num_dst'' ArgPtr]\<rparr>"

definition FN_SAVE_STATE :: bios_func where
  "FN_SAVE_STATE = \<lparr>fn_name = ''SaveState'', fn_args = [arg_new ''buf'' ArgPtr]\<rparr>"

definition FN_RESTORE_STATE :: bios_func where
  "FN_RESTORE_STATE = \<lparr>fn_name = ''RestoreState'',
     fn_args = [arg_new ''buf'' ArgPtr, arg_new ''param'' ArgInt]\<rparr>"

definition FN_STRCAT :: bios_func where
  "FN_STRCAT = \<lparr>fn_name = ''strcat'',
     fn_args = [arg_new ''dest'' ArgStr, arg_new ''src'' ArgPtr]\<rparr>"

definition FN_STRNCAT :: bios_func where
  "FN_STRNCAT = \<lparr>fn_name = ''strncat'',
     fn_args = [arg_new ''dest'' ArgStr, arg_new ''src'' ArgStr, arg_new ''maxlen'' ArgInt]\<rparr>"

definition FN_STRCMP :: bios_func where
  "FN_STRCMP = \<lparr>fn_name = ''strcmp'',
     fn_args = [arg_new ''str1'' ArgStr, arg_new ''str2'' ArgStr]\<rparr>"

definition FN_STRNCMP :: bios_func where
  "FN_STRNCMP = \<lparr>fn_name = ''strncmp'',
     fn_args = [arg_new ''str1'' ArgStr, arg_new ''str2'' ArgStr, arg_new ''maxlen'' ArgInt]\<rparr>"

definition FN_STRCPY :: bios_func where
  "FN_STRCPY = \<lparr>fn_name = ''strcpy'',
     fn_args = [arg_new ''dst'' ArgStr, arg_new ''src'' ArgStr]\<rparr>"

definition FN_STRNCPY :: bios_func where
  "FN_STRNCPY = \<lparr>fn_name = ''strncpy'',
     fn_args = [arg_new ''dst'' ArgStr, arg_new ''str'' ArgStr, arg_new ''maxlen'' ArgInt]\<rparr>"

definition FN_STRLEN :: bios_func where
  "FN_STRLEN = \<lparr>fn_name = ''strlen'', fn_args = [arg_new ''src'' ArgStr]\<rparr>"

definition FN_INDEX :: bios_func where
  "FN_INDEX = \<lparr>fn_name = ''index'', fn_args = [arg_new ''src'' ArgStr, arg_new ''c'' ArgChar]\<rparr>"

definition FN_RINDEX :: bios_func where
  "FN_RINDEX = \<lparr>fn_name = ''rindex'',
     fn_args = [arg_new ''src'' ArgStr, arg_new ''c'' ArgChar]\<rparr>"

definition FN_STRCHR :: bios_func where
  "FN_STRCHR = \<lparr>fn_name = ''strchr'',
     fn_args = [arg_new ''src'' ArgStr, arg_new ''c'' ArgChar]\<rparr>"

definition FN_STRRCHR :: bios_func where
  "FN_STRRCHR = \<lparr>fn_name = ''strrchr'',
     fn_args = [arg_new ''src'' ArgStr, arg_new ''c'' ArgChar]\<rparr>"

definition FN_STRPBRK :: bios_func where
  "FN_STRPBRK = \<lparr>fn_name = ''strpbrk'',
     fn_args = [arg_new ''src'' ArgStr, arg_new ''list'' ArgStr]\<rparr>"

definition FN_STRSPN :: bios_func where
  "FN_STRSPN = \<lparr>fn_name = ''strspn'',
     fn_args = [arg_new ''src'' ArgStr, arg_new ''list'' ArgStr]\<rparr>"

definition FN_STRCSPN :: bios_func where
  "FN_STRCSPN = \<lparr>fn_name = ''strcspn'',
     fn_args = [arg_new ''src'' ArgStr, arg_new ''list'' ArgStr]\<rparr>"

definition FN_STRTOK :: bios_func where
  "FN_STRTOK = \<lparr>fn_name = ''strtok'',
     fn_args = [arg_new ''src'' ArgStr, arg_new ''list'' ArgStr]\<rparr>"

definition FN_STRSTR :: bios_func where
  "FN_STRSTR = \<lparr>fn_name = ''strstr'',
     fn_args = [arg_new ''src'' ArgStr, arg_new ''substr'' ArgStr]\<rparr>"

definition FN_TOUPPER :: bios_func where
  "FN_TOUPPER = \<lparr>fn_name = ''toupper'', fn_args = [arg_new ''c'' ArgChar]\<rparr>"

definition FN_TOLOWER :: bios_func where
  "FN_TOLOWER = \<lparr>fn_name = ''tolower'', fn_args = [arg_new ''c'' ArgChar]\<rparr>"

definition FN_BCOPY :: bios_func where
  "FN_BCOPY = \<lparr>fn_name = ''bcopy'',
     fn_args = [arg_new ''src'' ArgPtr, arg_new ''dst'' ArgPtr, arg_new ''len'' ArgInt]\<rparr>"

definition FN_BZERO :: bios_func where
  "FN_BZERO = \<lparr>fn_name = ''bzero'', fn_args = [arg_new ''dst'' ArgPtr, arg_new ''len'' ArgInt]\<rparr>"

definition FN_BCMP :: bios_func where
  "FN_BCMP = \<lparr>fn_name = ''bcmp'',
     fn_args = [arg_new ''ptr1'' ArgPtr, arg_new ''ptr2'' ArgPtr, arg_new ''len'' ArgInt]\<rparr>"

definition FN_MEMCPY :: bios_func where
  "FN_MEMCPY = \<lparr>fn_name = ''memcpy'',
     fn_args = [arg_new ''dst'' ArgPtr, arg_new ''src'' ArgPtr, arg_new ''len'' ArgInt]\<rparr>"

definition FN_MEMSET :: bios_func where
  "FN_MEMSET = \<lparr>fn_name = ''memset'',
     fn_args = [arg_new ''dst'' ArgPtr, arg_new ''src'' ArgPtr, arg_new ''num'' ArgInt]\<rparr>"

definition FN_MEMMOVE :: bios_func where
  "FN_MEMMOVE = \<lparr>fn_name = ''memmove'',
     fn_args = [arg_new ''dst'' ArgPtr, arg_new ''src'' ArgPtr, arg_new ''len'' ArgInt]\<rparr>"

definition FN_MEMCMP :: bios_func where
  "FN_MEMCMP = \<lparr>fn_name = ''memcmp'',
     fn_args = [arg_new ''src1'' ArgPtr, arg_new ''src2'' ArgPtr, arg_new ''len'' ArgInt]\<rparr>"

definition FN_MEMCHR :: bios_func where
  "FN_MEMCHR = \<lparr>fn_name = ''memchr'',
     fn_args = [arg_new ''dst'' ArgPtr, arg_new ''value'' ArgChar, arg_new ''num'' ArgInt]\<rparr>"

definition FN_RAND :: bios_func where
  "FN_RAND = \<lparr>fn_name = ''rand'', fn_args = []\<rparr>"

definition FN_SRAND :: bios_func where
  "FN_SRAND = \<lparr>fn_name = ''srand'', fn_args = [arg_new ''seed'' ArgInt]\<rparr>"

definition FN_QSORT :: bios_func where
  "FN_QSORT = \<lparr>fn_name = ''qsort'',
     fn_args = [arg_new ''base'' ArgPtr, arg_new ''num'' ArgInt, arg_new ''size'' ArgInt,
        arg_new ''callback'' ArgPtr]\<rparr>"

definition FN_STROD :: bios_func where
  "FN_STROD = \<lparr>fn_name = ''strod'',
     fn_args = [arg_new ''str'' ArgStr, arg_new ''endptr'' ArgInt]\<rparr>"

definition FN_MALLOC :: bios_func where
  "FN_MALLOC = \<lparr>fn_name = ''malloc'', fn_args = [arg_new ''size'' ArgInt]\<rparr>"

definition FN_FREE :: bios_func where
  "FN_FREE = \<lparr>fn_name = ''free'', fn_args = [arg_new ''ptr'' ArgPtr]\<rparr>"

definition FN_LSEARCH :: bios_func where
  "FN_LSEARCH = \<lparr>fn_name = ''lsearch'',
     fn_args = [arg_new ''key'' ArgPtr, arg_new ''base'' ArgPtr, arg_new ''num'' ArgInt,
        arg_new ''size'' ArgInt, arg_new ''callback'' ArgPtr]\<rparr>"

definition FN_BSEARCH :: bios_func where
  "FN_BSEARCH = \<lparr>fn_name = ''bsearch'',
     fn_args = [arg_new ''key'' ArgPtr, arg_new ''base'' ArgPtr, arg_new ''num'' ArgInt,
        arg_new ''size'' ArgInt, arg_new ''callback'' ArgPtr]\<rparr>"

definition FN_CALLOC :: bios_func where
  "FN_CALLOC = \<lparr>fn_name = ''calloc'',
     fn_args = [arg_new ''num'' ArgInt, arg_new ''size'' ArgInt]\<rparr>"

definition FN_REALLOC :: bios_func where
  "FN_REALLOC = \<lparr>fn_name = ''realloc'',
     fn_args = [arg_new ''ptr'' ArgPtr, arg_new ''size'' ArgInt]\<rparr>"

definition A0_FUNCS :: "(u8 \<times> bios_func) list" where
  "A0_FUNCS =
     [(0x00, FN_FILE_OPEN), (0x01, FN_FILE_SEEK), (0x02, FN_FILE_READ), (0x03, FN_FILE_WRITE),
      (0x04, FN_FILE_CLOSE), (0x05, FN_FILE_IOCTL), (0x06, FN_EXIT), (0x07, FN_FILE_GET_DEVICE_FLAG),
      (0x08, FN_FILE_GETC), (0x09, FN_FILE_PUTC), (0x0a, FN_TODIGIT), (0x0b, FN_ATOF),
      (0x0c, FN_STRTOUL), (0x0d, FN_STRTOL), (0x0e, FN_ABS), (0x0f, FN_LABS),
      (0x10, FN_ATOI), (0x11, FN_ATOL), (0x12, FN_ATOB), (0x13, FN_SAVE_STATE),
      (0x14, FN_RESTORE_STATE), (0x15, FN_STRCAT), (0x16, FN_STRNCAT), (0x17, FN_STRCMP),
      (0x18, FN_STRNCMP), (0x19, FN_STRCPY), (0x1a, FN_STRNCPY), (0x1b, FN_STRLEN),
      (0x1c, FN_INDEX), (0x1d, FN_RINDEX), (0x1e, FN_STRCHR), (0x1f, FN_STRRCHR),
      (0x20, FN_STRPBRK), (0x21, FN_STRSPN), (0x22, FN_STRCSPN), (0x23, FN_STRTOK),
      (0x24, FN_STRSTR), (0x25, FN_TOUPPER), (0x26, FN_TOLOWER), (0x27, FN_BCOPY),
      (0x28, FN_BZERO), (0x29, FN_BCMP), (0x2a, FN_MEMCPY), (0x2b, FN_MEMSET),
      (0x2c, FN_MEMMOVE), (0x2d, FN_MEMCMP), (0x2e, FN_MEMCHR), (0x2f, FN_RAND),
      (0x30, FN_SRAND), (0x31, FN_QSORT), (0x32, FN_STROD), (0x33, FN_MALLOC),
      (0x34, FN_FREE), (0x35, FN_LSEARCH), (0x36, FN_BSEARCH), (0x37, FN_CALLOC),
      (0x38, FN_REALLOC)]"

definition get_a0_func :: "u32 \<Rightarrow> bios_func option" where
  "get_a0_func num =
     (case halving_search (\<lambda>(n, _). cmp (ucast n) num) A0_FUNCS of
        Inr idx \<Rightarrow> Some (snd (A0_FUNCS ! idx))
      | Inl _ \<Rightarrow> None)"

section \<open>The lookup\<close>

lemma a0_numbers: "map fst A0_FUNCS = map word_of_nat [0..<0x39]"
  by (simp add: A0_FUNCS_def upt_rec)

lemma a0_length: "length A0_FUNCS = 0x39"
  using arg_cong [OF a0_numbers, of length] by simp

lemma a0_key: "i < 0x39 \<Longrightarrow> fst (A0_FUNCS ! i) = word_of_nat i"
  using arg_cong [OF a0_numbers, of "\<lambda>xs. xs ! i"] a0_length by simp

lemma a0_cmp: "i < 0x39 \<Longrightarrow>
    (case A0_FUNCS ! i of (n, _) \<Rightarrow> cmp (ucast n) num) = cmp i (unat num)" for num :: u32
  by (simp add: a0_key case_prod_beta' cmp_def word_less_nat_alt word_unat_eq_iff unsigned_ucast_eq
      unsigned_of_nat take_bit_nat_eq_self)

text \<open>The table is in order and has no gap: the lookup is the access by index, and fails behind the end.\<close>

lemma get_a0_func_nth: "get_a0_func num = (if unat num < 0x39 then Some (snd (A0_FUNCS ! unat num)) else None)"
proof -
  let ?f = "\<lambda>(n :: u8, _ :: bios_func). cmp (ucast n) num"
  have f: "?f (A0_FUNCS ! i) = cmp i (unat num)" if "i < 0x39" for i using a0_cmp [OF that, of num] .
  have ord: "in_order ?f A0_FUNCS"
    unfolding in_order_def sorted_iff_nth_mono_less
  proof (intro allI impI)
    fix i j assume "i < j" "j < length (map (rank \<circ> ?f) A0_FUNCS)"
    then have ij: "i < 0x39" "j < 0x39" "i < j" by (simp_all add: a0_length)
    then have "rank (?f (A0_FUNCS ! i)) \<le> rank (?f (A0_FUNCS ! j))"
      unfolding f [OF ij(1)] f [OF ij(2)] by (simp add: cmp_def)
    then show "map (rank \<circ> ?f) A0_FUNCS ! i \<le> map (rank \<circ> ?f) A0_FUNCS ! j"
      using ij by (simp only: a0_length nth_map comp_def)
  qed
  show ?thesis
  proof (cases "unat num < 0x39")
    case True
    have "halving_search ?f A0_FUNCS = Inr (unat num)"
      using True by (intro halving.finds_unique [OF ord])
        (simp_all only: a0_length f, auto simp: cmp_def)
    then show ?thesis using True by (simp add: get_a0_func_def)
  next
    case False
    obtain n where "halving_search ?f A0_FUNCS = Inl n"
    proof -
      have "?f (A0_FUNCS ! j) \<noteq> Equal" if "j < length A0_FUNCS" for j
      proof -
        have j: "j < 0x39" using that by (simp only: a0_length)
        show ?thesis unfolding f [OF j] using False j by (simp add: cmp_def)
      qed
      then show thesis using halving.finds_none [OF ord] that by blast
    qed
    then show ?thesis using False by (simp add: get_a0_func_def)
  qed
qed

end
