(* ===== verification/Dump.thy ===== *)
theory Dump
  imports OpcodeText System
begin

text \<open>
  The texts of the debug menus: \<open>Display\<close> of the enumerations and registers of \<open>crates/splst_core/src\<close>
  and the functions \<open>dump\<close> of its devices. A \<open>Dumper\<close> receives rows of a label and either a text or a word;
  a dump is the list of its rows. \<^term>\<open>None\<close> is a panic.
\<close>

section \<open>Formatting\<close>

definition fmt_int :: "int \<Rightarrow> string" where
  "fmt_int v = (if v < 0 then CHR ''-'' # dec_str (nat (- v)) else dec_str (nat v))"

definition fmt_word :: "'a::len word \<Rightarrow> string" where "fmt_word v = dec_str (unat v)"
definition fmt_signed :: "'a::len word \<Rightarrow> string" where "fmt_signed v = fmt_int (sint v)"
definition fmt_bool :: "bool \<Rightarrow> string" where "fmt_bool b = (if b then ''true'' else ''false'')"

fun listed :: "string list \<Rightarrow> string" where
  "listed [] = []"
| "listed [s] = s"
| "listed (s # ss) = s @ '', '' @ listed ss"

definition pair_of :: "string \<Rightarrow> string \<Rightarrow> string" where "pair_of a b = a @ '' / '' @ b"

datatype dump_row = DumpUnit string u32 | DumpText string string

type_synonym dump = "dump_row list"

section \<open>Interrupts, events and time\<close>

fun irq_display :: "irq \<Rightarrow> string" where
  "irq_display VBlank = ''VBlank''" | "irq_display GpuIrq = ''GPU''" | "irq_display CdRomIrq = ''CDROM''"
| "irq_display DmaIrq = ''DMA''" | "irq_display Tmr0Irq = ''TMR0''" | "irq_display Tmr1Irq = ''TMR1''"
| "irq_display Tmr2Irq = ''TMR2''" | "irq_display CtrlAndMemCard = ''Ctrl and Memcard''"
| "irq_display Sio = ''SIO''" | "irq_display SpuIrq = ''SPU''"

definition IRQ_ITEMS :: "irq list" where
  "IRQ_ITEMS = [VBlank, GpuIrq, CdRomIrq, DmaIrq, Tmr0Irq, Tmr1Irq, Tmr2Irq, CtrlAndMemCard, Sio, SpuIrq]"

text \<open>\<open>ITEMS\<close> lists every interrupt once, so a statement about all of them can be evaluated; so does the list of buttons below.\<close>

lemma IRQ_ITEMS_all: "distinct IRQ_ITEMS" "set IRQ_ITEMS = UNIV"
  by (auto simp: IRQ_ITEMS_def intro: irq.exhaust)

instantiation irq :: enum
begin

definition enum_irq :: "irq list" where "enum_irq = IRQ_ITEMS"
definition enum_all_irq :: "(irq \<Rightarrow> bool) \<Rightarrow> bool" where "enum_all_irq P \<longleftrightarrow> list_all P IRQ_ITEMS"
definition enum_ex_irq :: "(irq \<Rightarrow> bool) \<Rightarrow> bool" where "enum_ex_irq P \<longleftrightarrow> list_ex P IRQ_ITEMS"

instance
  by standard (simp_all add: enum_irq_def enum_all_irq_def enum_ex_irq_def IRQ_ITEMS_all list_all_iff list_ex_iff)

end

lemma irq_display_inj: "irq_display i = irq_display j \<longleftrightarrow> i = j"
proof -
  have "\<forall>i j. irq_display i = irq_display j \<longrightarrow> i = j" by code_simp
  then show ?thesis by blast
qed

fun port_display :: "port \<Rightarrow> string" where
  "port_display MdecIn = ''MDEC in''" | "port_display MdecOut = ''MDEC out''" | "port_display GpuPort = ''GPU''"
| "port_display CdRomPort = ''CD-ROM''" | "port_display SpuPort = ''SPU''" | "port_display Pio = ''PIO''"
| "port_display Otc = ''Otc''"

fun repeat_display :: "repeat_mode \<Rightarrow> string" where
  "repeat_display Once = ''once''"
| "repeat_display (Repeat interval) = ''every '' @ fmt_word (as_cpu_cycles interval) @ '' cycles''"

fun event_display :: "event \<Rightarrow> string" where
  "event_display EvIrqCheck = ''interrupt check''"
| "event_display (EvIrq irq) = ''interrupt of type '' @ irq_display irq"
| "event_display (EvDma port) = ''DMA port '' @ port_display port"
| "event_display (EvGpu _) = ''GPU''"
| "event_display (EvCdRom _) = ''CD-ROM''"
| "event_display (EvTimer _ _) = ''timer''"
| "event_display (EvIoPort _) = ''I/O Port''"
| "event_display (EvSpu _) = ''SPU''"
| "event_display EvExecutionTimeout = ''execution timeout''"

section \<open>Timers\<close>

fun timer_id_display :: "timer_id \<Rightarrow> string" where
  "timer_id_display Tmr0 = ''timer 0''" | "timer_id_display Tmr1 = ''timer 1''" | "timer_id_display Tmr2 = ''timer 2''"

fun sync_mode_display :: "sync_mode \<Rightarrow> string" where
  "sync_mode_display HblankPause = ''Hblank pause''"
| "sync_mode_display HblankReset = ''Hblank reset''"
| "sync_mode_display HblankResetAndRun = ''Hblank reset and run''"
| "sync_mode_display HblankWait = ''Hblank wait''"
| "sync_mode_display VblankPause = ''Vblank pause''"
| "sync_mode_display VblankReset = ''Vblank reset''"
| "sync_mode_display VblankResetAndRun = ''Vblank reset and run''"
| "sync_mode_display VblankWait = ''Vblank wait''"
| "sync_mode_display Stop = ''stop''"
| "sync_mode_display FreeRun = ''free run''"

fun clock_display :: "clock_source \<Rightarrow> string" where
  "clock_display SystemClock = ''system clock''" | "clock_display DotClock = ''dot clock''"
| "clock_display Hblank = ''hblank''" | "clock_display SystemClockDiv8 = ''system clock / 8''"

text \<open>The row of the target shows the counter.\<close>

definition timer_dump :: "timer \<Rightarrow> dump" where
  "timer_dump t =
     (let mode = tmr_mode t
      in [DumpText ''counter'' (fmt_word (tmr_counter t)),
          DumpText ''target'' (fmt_word (tmr_counter t)),
          DumpText ''sync enabled'' (fmt_bool (sync_enabled mode)),
          DumpText ''sync mode'' (sync_mode_display (timer_sync_mode t)),
          DumpText ''reset on target'' (fmt_bool (reset_on_target mode)),
          DumpText ''irq on target'' (fmt_bool (irq_on_target mode)),
          DumpText ''irq on overflow'' (fmt_bool (irq_on_overflow mode)),
          DumpText ''irq repeat'' (fmt_bool (irq_repeat mode)),
          DumpText ''irq toggle mode'' (fmt_bool (irq_toggle_mode mode)),
          DumpText ''clock source'' (clock_display (timer_clock_source t)),
          DumpText ''master irq flag'' (fmt_bool (master_irq_flag mode)),
          DumpText ''target reached'' (fmt_bool (mode_target_reached mode)),
          DumpText ''overflow reached'' (fmt_bool (mode_overflow_reached mode))])"

section \<open>The DMA controller\<close>

fun direction_display :: "direction \<Rightarrow> string" where
  "direction_display ToRam = ''to ram''" | "direction_display ToPort = ''to port''"

fun sync_display :: "sync \<Rightarrow> string" where
  "sync_display Manual = ''manual''" | "sync_display Request = ''request''" | "sync_display LinkedList = ''linked list''"

fun step_display :: "step \<Rightarrow> string" where
  "step_display Inc = ''increment''" | "step_display Dec = ''decrement''"

text \<open>\<open>sync_mode\<close> panics on the value 3.\<close>

definition chan_dump :: "chan_stat \<Rightarrow> dump option" where
  "chan_dump s =
     (let ctrl = cs_ctrl s
      in map_option (\<lambda>sync.
           [DumpText ''base'' (fmt_word (cs_base s)),
            DumpText ''block size'' (fmt_word (bc_size (cs_block_ctrl s))),
            DumpText ''block count'' (fmt_word (bc_count (cs_block_ctrl s))),
            DumpText ''enabled'' (fmt_bool (cc_enabled ctrl)),
            DumpText ''direction'' (direction_display (cc_direction ctrl)),
            DumpText ''step'' (step_display (cc_step ctrl)),
            DumpText ''chopping enabled'' (fmt_bool (cc_chopping_enabled ctrl)),
            DumpText ''sync mode'' (sync_display sync),
            DumpText ''dma chop size'' (fmt_word (as_cpu_cycles (cc_dma_chop_size ctrl))),
            DumpText ''cpu chop size'' (fmt_word (as_cpu_cycles (cc_cpu_chop_size ctrl))),
            DumpText ''start'' (fmt_bool (cc_start ctrl)),
            DumpText ''transfer ongoing'' (fmt_bool (cs_transfer s \<noteq> None))]) (cc_sync_mode ctrl))"

text \<open>The row of the SPU shows the channel of the CD-ROM.\<close>

definition irq_reg_dump :: "irq_reg \<Rightarrow> dump" where
  "irq_reg_dump r =
     [DumpText ''force irq'' (fmt_bool (force_irq r)),
      DumpText ''master irq enabled'' (fmt_bool (master_irq_enabled r)),
      DumpText ''master irq flag'' (fmt_bool (dma_master_irq_flag r)),
      DumpText ''mdec in irq enabled'' (fmt_bool (channel_irq_enabled r MdecIn)),
      DumpText ''mdec out irq enabled'' (fmt_bool (channel_irq_enabled r MdecOut)),
      DumpText ''gpu irq enabled'' (fmt_bool (channel_irq_enabled r GpuPort)),
      DumpText ''cdrom irq enabled'' (fmt_bool (channel_irq_enabled r CdRomPort)),
      DumpText ''spu irq enabled'' (fmt_bool (channel_irq_enabled r CdRomPort)),
      DumpText ''pio irq enabled'' (fmt_bool (channel_irq_enabled r Pio)),
      DumpText ''otc irq enabled'' (fmt_bool (channel_irq_enabled r Otc))]"

section \<open>The GPU\<close>

datatype display_depth = Depth15 | Depth24
datatype display_width = P256 | P320 | P368 | P512 | P640

fun horizontal_pixels :: "display_width \<Rightarrow> nat" where
  "horizontal_pixels P256 = 256" | "horizontal_pixels P320 = 320" | "horizontal_pixels P368 = 368"
| "horizontal_pixels P512 = 512" | "horizontal_pixels P640 = 640"

fun vertical_pixels :: "vertical_res \<Rightarrow> nat" where
  "vertical_pixels P240 = 240" | "vertical_pixels P480 = 480"

definition set_mask_bit :: "status \<Rightarrow> bool" where "set_mask_bit s = bit_at s 11"
definition draw_masked_pixels :: "status \<Rightarrow> bool" where "draw_masked_pixels s = bit_at s 12"
definition texture_disabled :: "status \<Rightarrow> bool" where "texture_disabled s = bit_at s 15"

definition horizontal_res :: "status \<Rightarrow> display_width" where
  "horizontal_res s =
     (if bit_at s 16 then P368
      else let r = bit_range s 17 18 in if r = 0 then P256 else if r = 1 then P320 else if r = 2 then P512 else P640)"

definition color_depth :: "status \<Rightarrow> display_depth" where
  "color_depth s = (if bit_at s 21 then Depth24 else Depth15)"

fun trans_blend_display :: "trans_blend \<Rightarrow> string" where
  "trans_blend_display Avg = ''average''" | "trans_blend_display AddBlend = ''add''"
| "trans_blend_display SubBlend = ''subtract''" | "trans_blend_display AddDiv = ''add and divide''"

fun video_mode_display :: "video_mode \<Rightarrow> string" where
  "video_mode_display Ntsc = ''NTSC(60hz)''" | "video_mode_display Pal = ''PAL(50hz)''"

fun dma_dir_display :: "dma_dir \<Rightarrow> string" where
  "dma_dir_display DirOff = ''off''" | "dma_dir_display DirFifo = ''FIFO''"
| "dma_dir_display CpuToGp0 = ''CPU to GP0''" | "dma_dir_display VramToCpu = ''VRAM to CPU''"

fun interlace_display :: "interlace_field \<Rightarrow> string" where
  "interlace_display BottomField = ''top/even''" | "interlace_display TopField = ''bottom/odd''"

fun color_depth_display :: "display_depth \<Rightarrow> string" where
  "color_depth_display Depth15 = ''15 bit''" | "color_depth_display Depth24 = ''24 bit''"

fun texel_depth_display :: "texel_depth \<Rightarrow> string" where
  "texel_depth_display B4 = ''4 bit''" | "texel_depth_display B8 = ''8 bit''" | "texel_depth_display B15 = ''15 bit''"

definition horizontal_display :: "display_width \<Rightarrow> string" where
  "horizontal_display r = dec_str (horizontal_pixels r) @ '' pixels''"

definition vertical_display :: "vertical_res \<Rightarrow> string" where
  "vertical_display r = dec_str (vertical_pixels r) @ '' pixels''"

definition mem_transfer_display :: "mem_transfer \<Rightarrow> string" where
  "mem_transfer_display t =
     ''('' @ pair_of (fmt_int (mt_x t)) (fmt_int (mt_x_end t)) @ '', ''
       @ pair_of (fmt_int (mt_y t)) (fmt_int (mt_y_end t)) @ '')''"

fun gpu_state_display :: "gpu_state \<Rightarrow> string" where
  "gpu_state_display Idle = ''idle''"
| "gpu_state_display Drawing = ''drawing''"
| "gpu_state_display (VramStore t) = ''vram store - '' @ mem_transfer_display t"
| "gpu_state_display (VramLoad t) = ''vram load - '' @ mem_transfer_display t"

definition gpu_dump :: "gpu \<Rightarrow> dump" where
  "gpu_dump g =
     [DumpText ''state'' (gpu_state_display (g_state g)),
      DumpText ''fifo length'' (pair_of (fmt_word (gf_len (g_fifo g))) (dec_str GF_SIZE) @ '' words''),
      DumpText ''scanline'' (pair_of (fmt_word (g_scanline g)) (fmt_word (g_scanline_count g))),
      DumpText ''in vblank'' (fmt_bool (g_in_vblank g)),
      DumpText ''draw x-offset'' (fmt_int (x_offset g)),
      DumpText ''draw y-offset'' (fmt_int (y_offset g)),
      DumpText ''display vram x-start'' (fmt_word (vram_x_start g)),
      DumpText ''display vram y-start'' (fmt_word (vram_y_start g)),
      DumpText ''display x-start'' (fmt_word (dis_x_start g)),
      DumpText ''display x-end'' (fmt_word (dis_x_end g)),
      DumpText ''display y-start'' (fmt_word (dis_y_start g)),
      DumpText ''display y-end'' (fmt_word (dis_y_end g)),
      DumpText ''texture window width'' (fmt_word (tex_win_w g)),
      DumpText ''texture window height'' (fmt_word (tex_win_h g)),
      DumpText ''texture window x-start'' (fmt_word (tex_win_x g)),
      DumpText ''texture window y-start'' (fmt_word (tex_win_y g))]"

definition status_dump :: "status \<Rightarrow> dump" where
  "status_dump s =
     [DumpText ''texture page x-base'' (fmt_int (tex_page_x s)),
      DumpText ''texture page y-base'' (fmt_int (tex_page_y s)),
      DumpText ''background blend mode'' (trans_blend_display (blend_mode s)),
      DumpText ''texel depth'' (texel_depth_display (st_texel_depth s)),
      DumpText ''dithering enabled'' (fmt_bool (dithering_enabled s)),
      DumpText ''draw to display'' (fmt_bool (draw_to_display s)),
      DumpText ''set mask bit'' (fmt_bool (set_mask_bit s)),
      DumpText ''draw masked pixels'' (fmt_bool (draw_masked_pixels s)),
      DumpText ''interlace field'' (interlace_display (interlace_field s)),
      DumpText ''textures disabled'' (fmt_bool (texture_disabled s)),
      DumpText ''horizontal resolution'' (horizontal_display (horizontal_res s)),
      DumpText ''vertical resolution'' (vertical_display (vertical_res s)),
      DumpText ''video mode'' (video_mode_display (video_mode s)),
      DumpText ''color depth'' (color_depth_display (color_depth s)),
      DumpText ''vertical interalce enabled'' (fmt_bool (vertical_interlace s)),
      DumpText ''vram to cpu ready'' (fmt_bool (vram_to_cpu_ready s)),
      DumpText ''dma block ready'' (fmt_bool (st_dma_block_ready s)),
      DumpText ''dma direction'' (dma_dir_display (dma_direction s))]"

section \<open>The registers of the CPU and the GTE\<close>

text \<open>What the trace says of a system call, by the register \<open>a0\<close>.\<close>

definition syscall_text :: "registers \<Rightarrow> string" where
  "syscall_text rs =
     (let val = rs 4
      in if val = 0 then ''no function'' else if val = 1 then ''enter critical section''
         else if val = 2 then ''exit critical section'' else if val = 3 then ''change thread sub function''
         else if val = 4 then ''deliver event'' else ''unknown with code '' @ hex_pad 8 val)"

definition registers_dump :: "registers \<Rightarrow> dump" where
  "registers_dump rs = map2 (\<lambda>label r. DumpUnit label (rs r)) REGISTER_NAMES [0..<32]"

definition vec_display :: "('a \<Rightarrow> string) \<Rightarrow> 'a vec3 \<Rightarrow> string" where
  "vec_display show v = ''('' @ listed [show (vx v), show (vy v), show (vz v)] @ '')''"

definition rgb_display :: "u32 \<Rightarrow> string" where
  "rgb_display w = ''('' @ listed (List.map (\<lambda>k. fmt_word (byte_of k w)) [0, 1, 2]) @ '')''"

definition matrix_display :: "(nat \<Rightarrow> i16 vec3) \<Rightarrow> string" where
  "matrix_display m =
     vec_display fmt_signed (m 0) @ CHR 0x0A # vec_display fmt_signed (m 1) @ CHR 0x0A # vec_display fmt_signed (m 2)"

text \<open>\<open>irgb\<close> and \<open>orgb\<close> are computed from the accumulators.\<close>

definition gte_color :: "nat \<Rightarrow> gte \<Rightarrow> u8" where
  "gte_color i g = word_of_int (max 0 (min 0x1f (drop_bit 7 (sint (ir_reg i g)))))"

definition gte_data_dump :: "gte \<Rightarrow> dump" where
  "gte_data_dump g =
     (let half = (\<lambda>k. fmt_signed (half_at (g_data g) k));
          color = listed (List.map (\<lambda>i. fmt_word (gte_color i g)) [0, 1, 2])
      in [DumpText ''vector 0'' (vec_display fmt_signed (vec_reg 0 g)),
          DumpText ''vector 1'' (vec_display fmt_signed (vec_reg 1 g)),
          DumpText ''vector 2'' (vec_display fmt_signed (vec_reg 2 g)),
          DumpText ''rgbc'' (listed (List.map (\<lambda>k. fmt_word (rgbc_reg k g)) [0, 1, 2, 3])),
          DumpText ''ir0'' (fmt_signed (ir0_reg g)),
          DumpText ''ir1'' (fmt_signed (ir_reg 0 g)),
          DumpText ''ir2'' (fmt_signed (ir_reg 1 g)),
          DumpText ''ir3'' (fmt_signed (ir_reg 2 g)),
          DumpText ''sxy0'' (listed [half 24, half 25]),
          DumpText ''sxy1'' (listed [half 26, half 27]),
          DumpText ''sxy2'' (listed [half 28, half 29]),
          DumpText ''sxyp'' (listed [half 30, half 31]),
          DumpText ''sz'' (listed (List.map (\<lambda>i. fmt_word (sz_reg i g)) [0, 1, 2, 3])),
          DumpText ''rgb 0'' (rgb_display (g_data g 20)),
          DumpText ''rgb 1'' (rgb_display (g_data g 21)),
          DumpText ''rgb 2'' (rgb_display (g_data g 22)),
          DumpText ''mac0'' (fmt_signed (g_data g 24)),
          DumpText ''mac1'' (fmt_signed (mac_reg 0 g)),
          DumpText ''mac2'' (fmt_signed (mac_reg 1 g)),
          DumpText ''mac3'' (fmt_signed (mac_reg 2 g)),
          DumpText ''irgb'' color,
          DumpText ''orgb'' color,
          DumpText ''lzcs'' (fmt_signed (g_data g 30)),
          DumpText ''lzcr'' (fmt_word (g_data g 31))])"

definition gte_control_dump :: "gte \<Rightarrow> dump" where
  "gte_control_dump g =
     [DumpText ''rotation'' (matrix_display (rt_reg g)),
      DumpText ''translation'' (vec_display fmt_signed (tr_reg g)),
      DumpText ''light source'' (matrix_display (llm_reg g)),
      DumpText ''background color'' (vec_display fmt_signed (bk_reg g)),
      DumpText ''light color'' (matrix_display (lcm_reg g)),
      DumpText ''far color'' (vec_display fmt_signed (fc_reg g)),
      DumpText ''ofx'' (fmt_signed (g_control g 24)),
      DumpText ''ofy'' (fmt_signed (g_control g 25)),
      DumpText ''h'' (fmt_word (lo16 (g_control g 26))),
      DumpText ''dqa'' (fmt_signed (lo16 (g_control g 27))),
      DumpText ''dqb'' (fmt_signed (g_control g 28)),
      DumpText ''zsf3'' (fmt_signed (lo16 (g_control g 29))),
      DumpText ''zsf4'' (fmt_signed (lo16 (g_control g 30)))]"

definition GTE_NAMES :: "(u32 \<times> string) list" where
  "GTE_NAMES =
     [(0x01, ''rtps''), (0x06, ''nclip''), (0x0c, ''op''), (0x10, ''dpcs''), (0x11, ''intp''), (0x12, ''mvmva''),
      (0x13, ''ncds''), (0x16, ''ncdt''), (0x1b, ''nccs''), (0x1c, ''cc''), (0x1e, ''ncs''), (0x20, ''nct''),
      (0x28, ''sqr''), (0x29, ''dcpl''), (0x2a, ''dpct''), (0x2d, ''avsz3''), (0x2e, ''avsz4''), (0x30, ''rtpt''),
      (0x3d, ''gpf''), (0x3e, ''gpl''), (0x3f, ''ncct'')]"

definition gte_op_display :: "u32 \<Rightarrow> string" where
  "gte_op_display op = (case map_of GTE_NAMES (gop_cmd op) of Some name \<Rightarrow> name | None \<Rightarrow> ''invalid'')"

section \<open>The drive\<close>

definition bcd_display :: "bcd \<Rightarrow> string" where
  "bcd_display b = hex_pad 2 (ucast (raw b))"

definition msf_display :: "msf \<Rightarrow> string" where
  "msf_display m = bcd_display (msf_min m) @ CHR ''.'' # bcd_display (msf_sec m) @ CHR ''.'' # bcd_display (msf_frame m)"

fun track_format_display :: "track_format \<Rightarrow> string" where
  "track_format_display FAudio = ''audio''" | "track_format_display FMode1 = ''mode 1''"
| "track_format_display FMode2Xa = ''mode 2 xa''"

fun seek_display :: "seek_type \<Rightarrow> string" where
  "seek_display SeekData = ''data''" | "seek_display SeekAudio = ''audio''"

fun after_display :: "after_seek \<Rightarrow> string" where
  "after_display ThenPause = ''pause''" | "after_display ThenRead = ''read''" | "after_display ThenPlay = ''play''"

fun freq_display :: "audio_freq \<Rightarrow> string" where
  "freq_display Da1x = ''da1x''" | "freq_display Da2x = ''da2x''"
| "freq_display Xa18k9 = ''xa18k9''" | "freq_display Xa37k8 = ''xa37k8''"

fun drive_display :: "drive_state \<Rightarrow> string" where
  "drive_display DrvIdle = ''idle''"
| "drive_display Paused = ''paused''"
| "drive_display Reading = ''reading''"
| "drive_display ReadingToc = ''reading table of content''"
| "drive_display (Seeking target kind after) =
     ''seeking '' @ seek_display kind @ '' to '' @ msf_display target @ '', '' @ after_display after @ '' after''"

definition cdrom_dump :: "cdrom \<Rightarrow> dump" where
  "cdrom_dump c =
     [DumpText ''drive state'' (drive_display (cr_state c)),
      DumpText ''position'' (msf_display (cr_position c)),
      DumpText ''pending seek'' (case cr_pending_seek c of Some m \<Rightarrow> msf_display m | None \<Rightarrow> ''none''),
      DumpText ''sector msf'' (msf_display (s_abs_msf (cr_sector c))),
      DumpText ''sector track msf'' (msf_display (s_track_msf (cr_sector c))),
      DumpText ''sector format'' (track_format_display (s_format (cr_sector c))),
      DumpText ''sector track'' (bcd_display (s_track (cr_sector c))),
      DumpText ''sector index'' (bcd_display (s_index (cr_sector c))),
      DumpText ''audio frequency'' (freq_display (cr_freq c)),
      DumpText ''audio index'' (fmt_word (cr_audio_index c)),
      DumpText ''audio phase'' (fmt_word (cr_audio_phase c))]"

text \<open>\<open>CdRomCmd\<close>: any other command is a \<open>todo!\<close>.\<close>

definition CDROM_NAMES :: "(u8 \<times> string) list" where
  "CDROM_NAMES =
     [(0x01, ''status''), (0x02, ''set_loc''), (0x06, ''read_n''), (0x09, ''pause''), (0x0a, ''init''),
      (0x0e, ''set_mode''), (0x15, ''seek_l''), (0x19, ''test''), (0x1a, ''get_id''), (0x1e, ''readtoc'')]"

definition cdrom_cmd_display :: "u8 \<Rightarrow> string option" where
  "cdrom_cmd_display cmd = map_of CDROM_NAMES cmd"

text \<open>\<open>ModeReg\<close>.\<close>

definition cd_double_speed :: "u8 \<Rightarrow> bool" where "cd_double_speed m = bit_at m 7"
definition cd_xa_adpcm_to_spu :: "u8 \<Rightarrow> bool" where "cd_xa_adpcm_to_spu m = bit_at m 6"
definition cd_read_whole_sector :: "u8 \<Rightarrow> bool" where "cd_read_whole_sector m = bit_at m 5"
definition cd_sector_size_override :: "u8 \<Rightarrow> bool" where "cd_sector_size_override m = bit_at m 4"
definition cd_filter_enabled :: "u8 \<Rightarrow> bool" where "cd_filter_enabled m = bit_at m 3"
definition cd_report_interrupt :: "u8 \<Rightarrow> bool" where "cd_report_interrupt m = bit_at m 2"
definition cd_auto_pause :: "u8 \<Rightarrow> bool" where "cd_auto_pause m = bit_at m 1"
definition cd_cdda_mode :: "u8 \<Rightarrow> bool" where "cd_cdda_mode m = bit_at m 0"

section \<open>The serial port\<close>

fun slot_display :: "io_slot \<Rightarrow> string" where
  "slot_display Slot1 = ''slot 1''" | "slot_display Slot2 = ''slot 2''"

definition ALL_BUTTONS :: "button list" where
  "ALL_BUTTONS =
     [Select, L3, R3, Start, JoyUp, JoyRight, JoyDown, JoyLeft, L2, R2, L1, R1, Triangle, Circle, Cross, Square]"

lemma ALL_BUTTONS_all: "distinct ALL_BUTTONS" "set ALL_BUTTONS = UNIV"
  by (auto simp: ALL_BUTTONS_def intro: button.exhaust)

instantiation button :: enum
begin

definition enum_button :: "button list" where "enum_button = ALL_BUTTONS"
definition enum_all_button :: "(button \<Rightarrow> bool) \<Rightarrow> bool" where "enum_all_button P \<longleftrightarrow> list_all P ALL_BUTTONS"
definition enum_ex_button :: "(button \<Rightarrow> bool) \<Rightarrow> bool" where "enum_ex_button P \<longleftrightarrow> list_ex P ALL_BUTTONS"

instance
  by standard (simp_all add: enum_button_def enum_all_button_def enum_ex_button_def ALL_BUTTONS_all list_all_iff list_ex_iff)

end

definition BUTTON_NAMES :: "string list" where
  "BUTTON_NAMES =
     [''select'', ''l3'', ''r3'', ''start'', ''joy up'', ''joy right'', ''joy down'', ''joy left'', ''l2'', ''r2'',
      ''l1'', ''r1'', ''triangle'', ''circle'', ''cross'', ''square'']"

definition button_display :: "button \<Rightarrow> string" where
  "button_display b = BUTTON_NAMES ! button_index b"

lemma button_display_inj: "button_display b = button_display b' \<longleftrightarrow> b = b'"
proof -
  have "\<forall>b b'. button_display b = button_display b' \<longrightarrow> b = b'" by code_simp
  then show ?thesis by blast
qed

text \<open>A pressed button has a check mark, the three bytes of its UTF-8 encoding.\<close>

fun pad_dump :: "pad_kind \<Rightarrow> dump" where
  "pad_dump (Digital p) =
     map2 (\<lambda>b name. DumpText name (if is_pressed b (dp_buttons p) then [CHR 0xE2, CHR 0x9C, CHR 0x94] else '' ''))
       ALL_BUTTONS BUTTON_NAMES"

fun device_display :: "io_device \<Rightarrow> string" where
  "device_display PadDevice = ''game pad''" | "device_display CardDevice = ''memory card''"

definition io_dump :: "io_port \<Rightarrow> dump" where
  "io_dump p =
     (let transfer = (case io_st p of WaitingForAck _ \<Rightarrow> ''waiting for acknowledgement''
                        | _ \<Rightarrow> if is_transmitting (io_st p) then ''active'' else ''inactive'');
          active = (case io_active p of Some dev \<Rightarrow> device_display dev | None \<Rightarrow> ''none'')
      in [DumpText ''baud rate'' (fmt_word (io_baud p)),
          DumpText ''active device'' active,
          DumpText ''transfer'' transfer])"

definition st_tx_ready :: "u32 \<Rightarrow> bool" where "st_tx_ready s = bit_at s 0"
definition st_rx_fifo_not_empty :: "u32 \<Rightarrow> bool" where "st_rx_fifo_not_empty s = bit_at s 1"
definition st_tx_done :: "u32 \<Rightarrow> bool" where "st_tx_done s = bit_at s 2"
definition st_ack_input_low :: "u32 \<Rightarrow> bool" where "st_ack_input_low s = bit_at s 7"
definition st_irq :: "u32 \<Rightarrow> bool" where "st_irq s = bit_at s 9"

definition io_status_dump :: "u32 \<Rightarrow> dump" where
  "io_status_dump s =
     [DumpText ''tx ready'' (fmt_bool (st_tx_ready s)),
      DumpText ''rx fifo not empty'' (fmt_bool (st_rx_fifo_not_empty s)),
      DumpText ''rx done'' (fmt_bool (st_tx_done s)),
      DumpText ''acknowledge input low'' (fmt_bool (st_ack_input_low s)),
      DumpText ''irq'' (fmt_bool (st_irq s))]"

definition io_rx_enabled :: "u16 \<Rightarrow> bool" where "io_rx_enabled c = bit_at c 2"
definition io_tx_irq_enabled :: "u16 \<Rightarrow> bool" where "io_tx_irq_enabled c = bit_at c 10"
definition io_rx_irq_enabled :: "u16 \<Rightarrow> bool" where "io_rx_irq_enabled c = bit_at c 11"

definition io_rx_irq_mode :: "u16 \<Rightarrow> u32" where
  "io_rx_irq_mode c = (let m = bit_range c 8 9 in if m = 0 then 1 else if m = 1 then 2 else if m = 2 then 4 else 8)"

definition io_control_dump :: "u16 \<Rightarrow> dump" where
  "io_control_dump c =
     [DumpText ''tx enabled'' (fmt_bool (io_tx_enabled c)),
      DumpText ''select'' (fmt_bool (io_select c)),
      DumpText ''rx enabled'' (fmt_bool (io_rx_enabled c)),
      DumpText ''acknowledge'' (fmt_bool (io_ack c)),
      DumpText ''reset'' (fmt_bool (io_reset c)),
      DumpText ''rx irq mode'' (fmt_word (io_rx_irq_mode c)),
      DumpText ''rx irq enabled'' (fmt_bool (io_rx_irq_enabled c)),
      DumpText ''acknowledge irq enabled'' (fmt_bool (io_ack_irq_enabled c)),
      DumpText ''slot'' (slot_display (io_slot_of c))]"

definition io_mode_dump :: "u16 \<Rightarrow> dump" where
  "io_mode_dump m =
     [DumpText ''baud reload factor'' (fmt_word (baud_reload_factor m)),
      DumpText ''character width'' (fmt_word (char_width m))]"

section \<open>What the dumps show\<close>

text \<open>The DMA window panics exactly while a channel is set to the reserved mode.\<close>

lemma chan_dump_panics: "chan_dump s = None \<longleftrightarrow> bit_range (cs_ctrl s) 9 10 = 3"
proof -
  have "unat (bit_range (cs_ctrl s) 9 10) < 4" using unat_bit_range_less [of 9 10 "cs_ctrl s"] by simp
  then have "unat (bit_range (cs_ctrl s) 9 10) \<in> {0, 1, 2, 3}" by auto
  then have "bit_range (cs_ctrl s) 9 10 \<in> {0, 1, 2, 3}" by (auto simp: word_unat_eq_iff)
  then show ?thesis by (auto simp: chan_dump_def cc_sync_mode_def Let_def)
qed

text \<open>The same target is shown whatever the target is.\<close>

lemma timer_dump_target: "timer_dump (t\<lparr>tmr_target := v\<rparr>) = timer_dump t"
  by (simp add: timer_dump_def timer_sync_mode_def timer_clock_source_def)

lemma irq_reg_dump_spu: "irq_reg_dump (set_bit_at r 20 v) = irq_reg_dump r"
  by (simp add: irq_reg_dump_def force_irq_def master_irq_enabled_def dma_master_irq_flag_def channel_irq_enabled_def
      bit_at_set_bit_at)

text \<open>The geometry commands that have a name are those the engine executes, but for one selector of \<open>mvmva\<close>.\<close>

lemma gte_named: "gte_op_display op = ''invalid'' \<Longrightarrow> gte_command op g = None"
  by (auto simp: gte_op_display_def GTE_NAMES_def gte_command_def Let_def split: if_splits option.splits)

end
