(* ===== verification/FrontConfig.thy ===== *)
theory FrontConfig
  imports Dump
begin

text \<open>
  The settings and the keyboard of \<open>crates/splst_front/src\<close>: the key bindings of the pads and the
  memory cards (\<open>config/mod.rs\<close>), the names of the keys (\<open>keys.rs\<close>) and the handler of key
  events in the event loop (\<open>lib.rs\<close>). A key code is the name of its variant in the windowing
  library; what the user does in a menu is an argument. \<open>None\<close> is a panic.
\<close>

section \<open>Keys and messages\<close>

type_synonym key_code = string

definition named_keys :: "(key_code \<times> string) list" where
  "named_keys =
     [(''Key0'', ''0''), (''Key1'', ''1''), (''Key2'', ''2''), (''Key3'', ''3''), (''Key4'', ''4''),
      (''Key5'', ''5''), (''Key6'', ''6''), (''Key7'', ''7''), (''Key8'', ''8''), (''Key9'', ''9''),
      (''A'', ''a''), (''B'', ''b''), (''C'', ''c''), (''D'', ''d''), (''E'', ''e''), (''F'', ''f''),
      (''G'', ''g''), (''H'', ''h''), (''I'', ''i''), (''J'', ''j''), (''K'', ''k''), (''L'', ''l''),
      (''M'', ''m''), (''N'', ''n''), (''O'', ''o''), (''P'', ''p''), (''Q'', ''q''), (''R'', ''r''),
      (''S'', ''s''), (''T'', ''t''), (''U'', ''u''), (''V'', ''v''), (''W'', ''w''), (''X'', ''x''),
      (''Y'', ''y''), (''Z'', ''z''),
      (''Down'', ''Down''), (''Left'', ''Left''), (''Right'', ''Right''), (''Up'', ''Up''),
      (''Escape'', ''Escape''), (''Tab'', ''Tab''), (''Back'', ''Back''), (''Return'', ''Return''),
      (''Space'', ''Space''), (''Insert'', ''Insert''), (''Delete'', ''Delete''), (''Home'', ''Home''),
      (''End'', ''End''), (''PageUp'', ''PageUp''), (''PageDown'', ''PageDown'')]"

definition keycode_name :: "key_code \<Rightarrow> string option" where
  "keycode_name key = map_of named_keys key"

type_synonym popups = "(string \<times> string) list"

definition popups_add :: "string \<Rightarrow> string \<Rightarrow> popups \<Rightarrow> popups" where
  "popups_add heading txt ps = ps @ [(heading, txt)]"

text \<open>A list of rows without those whose button was clicked; \<open>Popups::show\<close> keeps the windows that stay open.\<close>

definition retain_rows :: "(nat \<Rightarrow> bool) \<Rightarrow> 'a list \<Rightarrow> 'a list" where
  "retain_rows removed xs = List.map snd (filter (\<lambda>(i, _). \<not> removed i) (enumerate 0 xs))"

definition popups_show :: "(nat \<Rightarrow> bool) \<Rightarrow> popups \<Rightarrow> popups" where
  "popups_show closed ps = retain_rows closed ps"

lemma retain_rows_subset: "set (retain_rows removed xs) \<subseteq> set xs"
  by (auto simp: retain_rows_def in_set_enumerate_eq)

lemma retain_rows_none [simp]: "retain_rows (\<lambda>_. False) xs = xs"
  by (simp add: retain_rows_def)

section \<open>Key maps\<close>

text \<open>\<open>ButtonBindings\<close> is read and written as the slice of its sixteen fields.\<close>

type_synonym button_bindings = "key_code option list"

definition button_bindings_default :: button_bindings where
  "button_bindings_default = replicate 16 None"

type_synonym key_map = "key_code \<Rightarrow> (io_slot \<times> button) option"

definition slot_keys :: "io_slot \<Rightarrow> button_bindings \<Rightarrow> (button \<times> io_slot \<times> key_code) list" where
  "slot_keys slot bindings =
     List.map_filter (\<lambda>(binding, b). map_option (\<lambda>key. (b, slot, key)) binding) (zip bindings ALL_BUTTONS)"

fun insert_keys :: "(button \<times> io_slot \<times> key_code) list \<Rightarrow> key_map \<Rightarrow> (string + key_map) option" where
  "insert_keys [] m = Some (Inr m)"
| "insert_keys ((b, slot, key) # ks) m =
     (case m key of
        Some (slot2, b2) \<Rightarrow>
          map_option (\<lambda>name. Inl (''Duplicate key bindings: '' @ button_display b @ '' for '' @ slot_display slot
              @ '' and '' @ button_display b2 @ '' for '' @ slot_display slot2 @ '' are both bound to '' @ name))
            (keycode_name key)
      | None \<Rightarrow> insert_keys ks (m(key \<mapsto> (slot, b))))"

definition gen_key_map :: "button_bindings \<Rightarrow> button_bindings \<Rightarrow> (string + key_map) option" where
  "gen_key_map slot1 slot2 = insert_keys (slot_keys Slot1 slot1 @ slot_keys Slot2 slot2) (\<lambda>_. None)"

section \<open>The settings of the pads\<close>

datatype pad_connection = PadUnconnected | PadVirtual

record pad_config =
  pc_conn :: "io_slot \<Rightarrow> pad_connection"
  pc_bindings :: "io_slot \<Rightarrow> button_bindings"
  pc_show_slot :: io_slot
  pc_recording :: "(io_slot \<times> button) option"
  pc_modified :: bool

definition pad_config_default :: pad_config where
  "pad_config_default =
     \<lparr>pc_conn = (\<lambda>_. PadUnconnected), pc_bindings = (\<lambda>_. button_bindings_default), pc_show_slot = Slot1,
      pc_recording = None, pc_modified = False\<rparr>"

definition config_key_map :: "pad_config \<Rightarrow> (string + key_map) option" where
  "config_key_map cfg = gen_key_map (pc_bindings cfg Slot1) (pc_bindings cfg Slot2)"

text \<open>\<open>get_key_map\<close>: an empty map and a message when the bindings are not distinct.\<close>

definition get_key_map :: "pad_config \<Rightarrow> popups \<Rightarrow> (key_map \<times> popups) option" where
  "get_key_map cfg ps = map_option (\<lambda>r. case r of
     Inr m \<Rightarrow> (m, ps) | Inl err \<Rightarrow> (\<lambda>_. None, popups_add ''Key Error'' err ps)) (config_key_map cfg)"

definition handle_key_event ::
  "key_code \<Rightarrow> bool \<Rightarrow> pad_config \<times> key_map \<times> popups \<Rightarrow> (bool \<times> pad_config \<times> key_map \<times> popups) option" where
  "handle_key_event key pressed = (\<lambda>(cfg, m, ps).
     if \<not> pressed then Some (False, cfg, m, ps)
     else case pc_recording cfg of
       None \<Rightarrow> Some (False, cfg, m, ps)
     | Some (slot, b) \<Rightarrow>
         let cfg = cfg\<lparr>pc_recording := None, pc_modified := True,
               pc_bindings := (pc_bindings cfg)(slot := (pc_bindings cfg slot)[button_index b := Some key])\<rparr>
         in map_option (\<lambda>r. case r of
              Inr m \<Rightarrow> (True, cfg, m, ps)
            | Inl err \<Rightarrow> (True, cfg, m, popups_add ''Key Error'' err ps)) (config_key_map cfg))"

text \<open>The button of the menu that starts to record a key, drawn with the name of every bound key.\<close>

definition record_button :: "io_slot \<Rightarrow> button \<Rightarrow> pad_config \<Rightarrow> pad_config option" where
  "record_button slot b cfg =
     (if list_all (\<lambda>binding. case binding of None \<Rightarrow> True | Some key \<Rightarrow> keycode_name key \<noteq> None)
           (pc_bindings cfg slot)
      then Some (cfg\<lparr>pc_recording := Some (slot, b)\<rparr>) else None)"

definition new_pad :: "pad_connection \<Rightarrow> pad_kind option" where
  "new_pad conn = (case conn of PadUnconnected \<Rightarrow> None | PadVirtual \<Rightarrow> Some new_digital)"

text \<open>\<open>update\<close>, and the choice of a connection in the menu.\<close>

definition update_pads :: "pad_config \<Rightarrow> game_pads \<Rightarrow> game_pads" where
  "update_pads cfg pads = (\<lambda>slot. new_pad (pc_conn cfg slot))"

definition choose_connection :: "pad_connection \<Rightarrow> pad_config \<times> game_pads \<Rightarrow> pad_config \<times> game_pads" where
  "choose_connection conn = (\<lambda>(cfg, pads).
     let slot = pc_show_slot cfg; before = pc_conn cfg slot; cfg = cfg\<lparr>pc_conn := (pc_conn cfg)(slot := conn)\<rparr>
     in if before \<noteq> conn then (cfg\<lparr>pc_modified := True\<rparr>, pads(slot := new_pad conn)) else (cfg, pads))"

section \<open>The settings of the memory cards\<close>

datatype card_type = CardPersistent | CardNonPersistent | CardUnconnected

record card_config =
  cc_type :: "io_slot \<Rightarrow> card_type"
  cc_path :: "io_slot \<Rightarrow> string"
  cc_show_slot :: io_slot
  cc_modified :: bool

definition card_config_default :: card_config where
  "card_config_default =
     \<lparr>cc_type = (\<lambda>_. CardPersistent), cc_path = (\<lambda>_. []), cc_show_slot = Slot1, cc_modified = False\<rparr>"

text \<open>The button \<open>Change\<close>.\<close>

definition change_path :: "string \<Rightarrow> card_config \<times> mem_cards \<Rightarrow> card_config \<times> mem_cards" where
  "change_path input = (\<lambda>(cfg, cards).
     let slot = cc_show_slot cfg
     in (cfg\<lparr>cc_path := (cc_path cfg)(slot := input)\<rparr>,
         cards(slot := map_option (\<lambda>c. c\<lparr>mc_save_path := Some input\<rparr>) (cards slot))))"

text \<open>
  The choice of a connection. \<open>read\<close> is the file system: the contents of a file, if it can
  be read. \<open>None\<close> is the panic of formatting a fresh card.
\<close>

definition choose_card_type ::
  "(string \<Rightarrow> u8 list option) \<Rightarrow> (card_error \<Rightarrow> string) \<Rightarrow> card_type \<Rightarrow> card_config \<times> mem_cards \<times> popups \<Rightarrow>
     (card_config \<times> mem_cards \<times> popups) option" where
  "choose_card_type read text_of ty = (\<lambda>(cfg, cards, ps).
     let slot = cc_show_slot cfg; before = cc_type cfg slot; path = cc_path cfg slot;
         cfg = cfg\<lparr>cc_type := (cc_type cfg)(slot := ty)\<rparr>
     in if before = ty then Some (cfg, cards, ps)
        else
          let cfg = cfg\<lparr>cc_modified := True\<rparr>
          in case ty of
               CardUnconnected \<Rightarrow> Some (cfg, cards(slot := None), ps)
             | CardNonPersistent \<Rightarrow>
                 (case cards slot of
                    Some c \<Rightarrow> Some (cfg, cards(slot \<mapsto> c\<lparr>mc_save_path := None\<rparr>), ps)
                  | None \<Rightarrow> map_option (\<lambda>c. (cfg, cards(slot \<mapsto> c), ps)) (memcard_fresh_to None))
             | CardPersistent \<Rightarrow>
                 (case cards slot of
                    Some c \<Rightarrow> Some (cfg, cards(slot \<mapsto> c\<lparr>mc_save_path := Some path\<rparr>), ps)
                  | None \<Rightarrow>
                      (case memcard_load_from path (read path) of
                         Inr c \<Rightarrow> Some (cfg, cards(slot \<mapsto> c), ps)
                       | Inl err \<Rightarrow> Some (cfg, cards(slot := None), popups_add ''Memory Card error'' (text_of err) ps))))"

section \<open>The keyboard\<close>

text \<open>The state of the event loop that key events read and write.\<close>

record front =
  fr_menu_open :: bool
  fr_show_settings :: bool
  fr_config :: pad_config
  fr_key_map :: key_map
  fr_pads :: game_pads
  fr_popups :: popups

text \<open>\<open>config.handle_key_event\<close> on the state; the result is whether the event is captured.\<close>

definition settings_key :: "key_code \<Rightarrow> bool \<Rightarrow> front \<Rightarrow> (bool \<times> front) option" where
  "settings_key key pressed f =
     map_option (\<lambda>(captured, cfg, m, ps). (captured, f\<lparr>fr_config := cfg, fr_key_map := m, fr_popups := ps\<rparr>))
       (handle_key_event key pressed (fr_config f, fr_key_map f, fr_popups f))"

definition pad_key :: "key_code \<Rightarrow> bool \<Rightarrow> front \<Rightarrow> bool \<times> front" where
  "pad_key key pressed f =
     (case fr_key_map f key of
        None \<Rightarrow> (False, f)
      | Some (slot, b) \<Rightarrow>
          (True, f\<lparr>fr_pads := (fr_pads f)(slot := map_option (pad_set_button b pressed) (fr_pads f slot))\<rparr>))"

text \<open>The arm of \<open>WindowEvent::KeyboardInput\<close> while a system runs; an event that is not captured goes on
  to the menus.\<close>

definition running_key :: "key_code option \<Rightarrow> bool \<Rightarrow> front \<Rightarrow> (bool \<times> front) option" where
  "running_key key pressed f =
     (if key = Some ''Escape'' \<and> pressed then Some (True, f\<lparr>fr_menu_open := \<not> fr_menu_open f\<rparr>)
      else if key = Some ''Tab'' \<and> pressed then Some (True, f\<lparr>fr_show_settings := \<not> fr_show_settings f\<rparr>)
      else case key of
        Some key \<Rightarrow> if fr_show_settings f then settings_key key pressed f else Some (pad_key key pressed f)
      | None \<Rightarrow> Some (False, f))"

definition start_menu_key :: "key_code option \<Rightarrow> bool \<Rightarrow> front \<Rightarrow> (bool \<times> front) option" where
  "start_menu_key key pressed f =
     (case key of Some key \<Rightarrow> settings_key key pressed f | None \<Rightarrow> Some (True, f))"

section \<open>What a key does\<close>

definition key_entries :: "(button \<times> io_slot \<times> key_code) list \<Rightarrow> (key_code \<times> io_slot \<times> button) list" where
  "key_entries = List.map (\<lambda>(b, slot, key). (key, slot, b))"

lemma insert_keys_iff:
  "insert_keys ks m = Some (Inr m') \<longleftrightarrow>
     distinct (List.map fst (key_entries ks)) \<and> fst ` set (key_entries ks) \<inter> dom m = {} \<and>
     m' = m ++ map_of (key_entries ks)"
proof (induction ks m rule: insert_keys.induct)
  case (1 m)
  then show ?case by (auto simp: key_entries_def)
next
  case (2 b slot key ks m)
  show ?case
  proof (cases "m key")
    case None
    have e: "key_entries ((b, slot, key) # ks) = (key, slot, b) # key_entries ks" by (simp add: key_entries_def)
    let ?E = "key_entries ks" and ?v = "(slot, b)"
    have key: "key \<notin> dom m" using None by auto
    have step: "insert_keys ((b, slot, key) # ks) m = insert_keys ks (m(key \<mapsto> ?v))" using None by simp
    have upd: "key \<notin> fst ` set ?E \<Longrightarrow> m ++ map_of ((key, ?v) # ?E) = m(key \<mapsto> ?v) ++ map_of ?E"
      by (simp add: map_add_upd_left dom_map_of_conv_image_fst)
    have dom: "A \<inter> dom (m(key \<mapsto> ?v)) = {} \<longleftrightarrow> key \<notin> A \<and> A \<inter> dom m = {}" for A
      by (simp add: Int_insert_right)
    have rhs: "insert key A \<inter> dom m = A \<inter> dom m" for A using key by simp
    show ?thesis
      unfolding step "2.IH" [OF None] e dom list.map fst_conv distinct.simps set_simps image_insert rhs
      using upd by (metis set_map)
  qed (auto simp: key_entries_def)
qed

lemma key_entries_mem: "(key, slot, b) \<in> set (key_entries ks) \<longleftrightarrow> (b, slot, key) \<in> set ks"
  by (force simp: key_entries_def)

lemma set_map_filter: "y \<in> set (List.map_filter f xs) \<longleftrightarrow> (\<exists>x \<in> set xs. f x = Some y)"
  by (force simp: List.map_filter_def)

lemma slot_keys_set:
  assumes "length bindings = 16"
  shows "(b, slot, key) \<in> set (slot_keys slot' bindings) \<longleftrightarrow> slot = slot' \<and> bindings ! button_index b = Some key"
proof -
  have idx: "i < 16 \<Longrightarrow> ALL_BUTTONS ! i = b \<longleftrightarrow> i = button_index b" for i
  proof -
    have "\<forall>i<16. button_index (ALL_BUTTONS ! i) = i" by code_simp
    moreover have "\<forall>b. ALL_BUTTONS ! button_index b = b" by (intro allI, case_tac b) (simp_all add: ALL_BUTTONS_def)
    ultimately show "i < 16 \<Longrightarrow> ?thesis" by auto
  qed
  have len: "length ALL_BUTTONS = 16" "button_index b < 16" by (simp add: ALL_BUTTONS_def) (cases b, simp_all)
  have "(b, slot, key) \<in> set (slot_keys slot' bindings) \<longleftrightarrow>
      slot = slot' \<and> (\<exists>i<16. bindings ! i = Some key \<and> ALL_BUTTONS ! i = b)"
    unfolding slot_keys_def set_map_filter by (force simp: set_zip assms len(1))
  then show ?thesis using idx len(2) by auto
qed

text \<open>The button is set in a copy of the state of the pad, so no key event changes a pad.\<close>

lemma running_key_pads:
  assumes "running_key k pressed f = Some (r, f')"
  shows "fr_pads f' = fr_pads f"
proof -
  have pad: "pad_set_button b' pressed p = p" for b' p by (cases p) simp
  then have "map_option (pad_set_button b' pressed) p = p" for b' p by (cases p) simp_all
  then show ?thesis
    using assms by (auto simp: running_key_def settings_key_def pad_key_def split: if_splits option.splits prod.splits)
qed

text \<open>When the bindings of the two pads make a key map, it maps a key to a button of a slot exactly
if the slot binds the button to the key. Nevertheless no key event reaches a game: the
button is set in a copy of the state of the pad, and the pads stay as they are.\<close>

lemma keys_and_pads:
  assumes "gen_key_map slot1 slot2 = Some (Inr m)" "length slot1 = 16" "length slot2 = 16"
  shows "(m key = Some (slot, b) \<longleftrightarrow> (case slot of Slot1 \<Rightarrow> slot1 | Slot2 \<Rightarrow> slot2) ! button_index b = Some key) \<and>
    (running_key k pressed f = Some (r, f') \<longrightarrow> fr_pads f' = fr_pads f)"
proof
  let ?ks = "slot_keys Slot1 slot1 @ slot_keys Slot2 slot2"
  have m: "distinct (List.map fst (key_entries ?ks))" "m = map_of (key_entries ?ks)"
    using assms(1) unfolding gen_key_map_def insert_keys_iff by simp_all
  have "m key = Some (slot, b) \<longleftrightarrow> (b, slot, key) \<in> set ?ks"
    unfolding m(2) map_of_eq_Some_iff [OF m(1)] key_entries_mem ..
  then show "m key = Some (slot, b) \<longleftrightarrow> (case slot of Slot1 \<Rightarrow> slot1 | Slot2 \<Rightarrow> slot2) ! button_index b = Some key"
    using assms(2,3) by (auto simp: slot_keys_set split: io_slot.split)
  show "running_key k pressed f = Some (r, f') \<longrightarrow> fr_pads f' = fr_pads f" using running_key_pads by blast
qed

text \<open>The key \<open>X\<close> is bound to the cross of the first pad and pressed.\<close>

lemma keys_and_pads_witness:
  "\<exists>m f f'. gen_key_map (button_bindings_default[14 := Some ''X'']) button_bindings_default = Some (Inr m) \<and>
     m ''X'' = Some (Slot1, Cross) \<and> fr_pads f Slot1 = Some new_digital \<and>
     running_key (Some ''X'') True f = Some (True, f') \<and> fr_pads f' = fr_pads f"
proof -
  let ?s = "button_bindings_default[14 := Some ''X'']"
  let ?m = "(\<lambda>_. None)(''X'' \<mapsto> (Slot1, Cross)) :: key_map"
  let ?f = "\<lparr>fr_menu_open = False, fr_show_settings = False, fr_config = pad_config_default, fr_key_map = ?m,
    fr_pads = (\<lambda>_. Some new_digital), fr_popups = []\<rparr>"
  have m: "gen_key_map ?s button_bindings_default = Some (Inr ?m)"
    by (simp add: gen_key_map_def slot_keys_def List.map_filter_def ALL_BUTTONS_def button_bindings_default_def
        numeral_eq_Suc)
  have len: "length ?s = 16" "length button_bindings_default = 16" by (simp_all add: button_bindings_default_def)
  obtain f' where run: "running_key (Some ''X'') True ?f = Some (True, f')"
    by (simp add: running_key_def pad_key_def)
  note use = keys_and_pads [OF m len, of "''X''" Slot1 Cross "Some ''X''" True ?f True f']
  have "?m ''X'' = Some (Slot1, Cross)" using use by (simp add: button_bindings_default_def)
  moreover have "fr_pads f' = fr_pads ?f" using use run by blast
  moreover have "fr_pads ?f Slot1 = Some new_digital" by simp
  ultimately show ?thesis using m run by blast
qed

end
