(* ===== verification/Settings.thy ===== *)
theory Settings
  imports FrontConfig CdCue
begin

text \<open>
  The settings of \<open>crates/splst_front/src/config\<close>: the lists of saved files (\<open>quick_access.rs\<close>), the menus of
  BIOS, disc, executable, pads and memory cards, and the file the settings are kept in (\<open>mod.rs\<close>),
  with the loading of a BIOS and of an executable from a file. What the user does in a menu is an argument.
  The file system is a record; reading and writing TOML (a library) is a parameter. \<open>None\<close> is a panic.
\<close>

section \<open>Paths and files\<close>

text \<open>The operations of \<open>std::path\<close> that the settings use, on Unix: a path is split into components.\<close>

fun split_on :: "char \<Rightarrow> string \<Rightarrow> string list" where
  "split_on c [] = [[]]"
| "split_on c (x # xs) =
     (if x = c then [] # split_on c xs
      else case split_on c xs of s # ss \<Rightarrow> (x # s) # ss | [] \<Rightarrow> [[x]])"

definition path_components :: "string \<Rightarrow> string list" where
  "path_components p =
     (let cs = split_on (CHR ''/'') p; rest = filter (\<lambda>c. c \<noteq> [] \<and> c \<noteq> ''.'') cs
      in if hd cs = ''.'' then ''.'' # rest else rest)"

definition file_name :: "string \<Rightarrow> string option" where
  "file_name p =
     (let cs = path_components p in if cs = [] \<or> last cs \<in> {''.'', ''..''} then None else Some (last cs))"

definition short_name :: "string \<Rightarrow> string" where
  "short_name p = (case file_name p of Some n \<Rightarrow> n | None \<Rightarrow> p)"

definition path_push :: "string \<Rightarrow> string \<Rightarrow> string" where
  "path_push d c =
     (if c \<noteq> [] \<and> hd c = CHR ''/'' then c
      else if d = [] \<or> last d = CHR ''/'' then d @ c else d @ CHR ''/'' # c)"

fun joined :: "string list \<Rightarrow> string" where
  "joined [] = []" | "joined [c] = c" | "joined (c # cs) = c @ CHR ''/'' # joined cs"

definition path_parent :: "string \<Rightarrow> string option" where
  "path_parent p =
     (let cs = path_components p
      in if cs = [] then None
         else Some ((if p \<noteq> [] \<and> hd p = CHR ''/'' then ''/'' else []) @ joined (butlast cs)))"

text \<open>
  Files are their bytes as characters. The errors of the operating system are texts; a write that
  fails leaves a prefix of what was to be written.
\<close>

record file_system =
  fs_files :: "string \<Rightarrow> string option"
  fs_missing :: "string \<Rightarrow> string"
  fs_utf8 :: "string \<Rightarrow> bool"
  fs_mkdir_ok :: "string \<Rightarrow> bool"
  fs_open_error :: "string \<Rightarrow> string option"
  fs_write_error :: "string \<Rightarrow> (string \<times> nat) option"

definition fs_read :: "file_system \<Rightarrow> string \<Rightarrow> string + string" where
  "fs_read fs path = (case fs_files fs path of None \<Rightarrow> Inl (fs_missing fs path) | Some s \<Rightarrow> Inr s)"

definition fs_read_text :: "file_system \<Rightarrow> string \<Rightarrow> string + string" where
  "fs_read_text fs path =
     (case fs_read fs path of
        Inl err \<Rightarrow> Inl err
      | Inr s \<Rightarrow> if fs_utf8 fs s then Inr s else Inl ''stream did not contain valid UTF-8'')"

definition fs_bytes :: "file_system \<Rightarrow> string \<Rightarrow> u8 list option" where
  "fs_bytes fs path = map_option (List.map of_char) (fs_files fs path)"

section \<open>BIOS, disc and executable from a file\<close>

record bios_file =
  bf_path :: string
  bf_name :: string
  bf_bios :: bios

definition bios_from_file :: "file_system \<Rightarrow> string \<Rightarrow> string + bios_file" where
  "bios_from_file fs path =
     (case fs_read fs path of
        Inl err \<Rightarrow> Inl (''failed to load BIOS: '' @ err)
      | Inr data \<Rightarrow>
          if length data \<noteq> BIOS_SIZE
          then Inl (''invalid BIOS file: must be 512 kb, is '' @ dec_str (length data) @ '' bytes'')
          else Inr \<lparr>bf_path = path, bf_name = short_name path,
                 bf_bios = \<lparr>bios_data = (\<lambda>i. of_char (data ! i))\<rparr>\<rparr>)"

fun exe_error_display :: "exe_error \<Rightarrow> string" where
  "exe_error_display (TooShort n) = ''invalid header: must be at least 2 kilobytes, is '' @ dec_str n @ '' bytes''"
| "exe_error_display BadMagic = ''invalid header: invalid magic value, must be '' @ CHR 0x27 # ''PS-X EXE'' @ [CHR 0x27]"
| "exe_error_display TextOutsideRam = ''invalid header: text segment not contained in RAM''"
| "exe_error_display BssOutsideRam = ''invalid header: bss segment not contained in RAM''"

definition exe_from_file :: "file_system \<Rightarrow> string \<Rightarrow> string + exe" where
  "exe_from_file fs path =
     (case fs_read fs path of
        Inl err \<Rightarrow> Inl (''failed to load exe: '' @ err)
      | Inr data \<Rightarrow> (case exe_parse (List.map of_char data) of Inl e \<Rightarrow> Inl (exe_error_display e) | Inr x \<Rightarrow> Inr x))"

text \<open>\<open>open_cd\<close>: the sheet names its files relative to its folder. \<open>text_of\<close> gives the message of an error.\<close>

definition open_cd :: "file_system \<Rightarrow> (cd_error \<Rightarrow> string) \<Rightarrow> string \<Rightarrow> (string + cd_image) option" where
  "open_cd fs text_of path =
     (case path_parent path of
        None \<Rightarrow> Some (Inl (''Can'' @ CHR 0x27 # ''t find parent folder for cue file with path: '' @ path))
      | Some folder \<Rightarrow>
          (case fs_read_text fs path of
             Inl err \<Rightarrow> Some (Inl err)
           | Inr source \<Rightarrow>
               map_option (\<lambda>r. case r of Inl e \<Rightarrow> Inl (text_of e) | Inr cd \<Rightarrow> Inr cd)
                 (parse_cue (\<lambda>name. fs_bytes fs (path_push folder name)) source)))"

section \<open>Quick access\<close>

text \<open>The file dialog reports an error, is cancelled, or gives a path that may not be text.\<close>

datatype dialog = DialogError string | DialogCancelled | DialogPath "string option"

definition select_file :: "dialog \<Rightarrow> popups \<Rightarrow> string option \<times> popups" where
  "select_file d ps =
     (case d of
        DialogError err \<Rightarrow> (None, popups_add ''Invalid path'' err ps)
      | DialogCancelled \<Rightarrow> (None, ps)
      | DialogPath None \<Rightarrow> (None, popups_add ''Invalid path'' [] ps)
      | DialogPath (Some path) \<Rightarrow> (Some path, ps))"

definition select_input :: "dialog option \<Rightarrow> string \<times> popups \<Rightarrow> string \<times> popups" where
  "select_input clicked = (\<lambda>(input, ps).
     case clicked of
       None \<Rightarrow> (input, ps)
     | Some d \<Rightarrow> (case select_file d ps of (Some path, ps) \<Rightarrow> (path, ps) | (None, ps) \<Rightarrow> (input, ps)))"

record quick_access =
  qa_input :: string
  qa_modified :: bool
  qa_paths :: "string list"

definition quick_access_default :: quick_access where
  "quick_access_default = \<lparr>qa_input = [], qa_modified = False, qa_paths = []\<rparr>"

text \<open>The text that was typed, the dialog of \<open>Select\<close>, and the buttons: for each row, \<open>Remove\<close> and \<open>Load\<close>.\<close>

record qa_clicks =
  qk_text :: string
  qk_select :: "dialog option"
  qk_save :: bool
  qk_load :: bool
  qk_row :: "nat \<Rightarrow> bool \<times> bool"

definition quick_access_rows :: "qa_clicks \<Rightarrow> string option \<times> quick_access \<Rightarrow> string option \<times> quick_access" where
  "quick_access_rows k = (\<lambda>(load, q).
     let rows = enumerate 0 (qa_paths q);
         load = fold (\<lambda>(i, path) load. if snd (qk_row k i) then Some path else load) rows load;
         kept = retain_rows (\<lambda>i. fst (qk_row k i)) (qa_paths q)
     in (load, q\<lparr>qa_paths := kept, qa_modified := (if length (qa_paths q) \<noteq> length kept then True else qa_modified q)\<rparr>))"

definition quick_access_show :: "qa_clicks \<Rightarrow> quick_access \<times> popups \<Rightarrow> string option \<times> quick_access \<times> popups" where
  "quick_access_show k = (\<lambda>(q, ps).
     let (input, ps) = select_input (qk_select k) (qk_text k, ps);
         q = q\<lparr>qa_input := input\<rparr>;
         q = (if qk_save k then q\<lparr>qa_modified := True, qa_paths := qa_paths q @ [qa_input q]\<rparr> else q);
         load = (if qk_load k then Some (qa_input q) else None);
         (load, q) = (if qa_paths q = [] then (load, q) else quick_access_rows k (load, q))
     in (load, q, ps))"

section \<open>The menus\<close>

record bios_config =
  bcf_loaded :: "bios_file option"
  bcf_default :: "string option"
  bcf_bioses :: quick_access

definition take_bios :: "file_system \<Rightarrow> bios_config \<times> popups \<Rightarrow> bios_file option \<times> bios_config \<times> popups" where
  "take_bios fs = (\<lambda>(cfg, ps).
     case bcf_loaded cfg of
       Some b \<Rightarrow> (Some b, cfg\<lparr>bcf_loaded := None\<rparr>, ps)
     | None \<Rightarrow>
         (case bcf_default cfg of
            None \<Rightarrow> (None, cfg, ps)
          | Some path \<Rightarrow>
              (case bios_from_file fs path of
                 Inl err \<Rightarrow> (None, cfg, popups_add ''BIOS Error'' err ps)
               | Inr b \<Rightarrow> (Some b, cfg, ps))))"

text \<open>\<open>used\<close>: the system has a BIOS already. \<open>unload\<close> is the button, which is there when a BIOS is loaded.\<close>

definition bios_show :: "file_system \<Rightarrow> bool \<Rightarrow> bool \<Rightarrow> qa_clicks \<Rightarrow> bios_config \<times> popups \<Rightarrow> bios_config \<times> popups" where
  "bios_show fs used unload k = (\<lambda>(cfg, ps).
     let cfg = (if \<not> used \<and> bcf_loaded cfg \<noteq> None \<and> unload then cfg\<lparr>bcf_loaded := None\<rparr> else cfg);
         (load, q, ps) = quick_access_show k (bcf_bioses cfg, ps);
         cfg = cfg\<lparr>bcf_bioses := q\<rparr>
     in case load of
          None \<Rightarrow> (cfg, ps)
        | Some path \<Rightarrow>
            (case bios_from_file fs path of
               Inl err \<Rightarrow> (cfg, popups_add ''BIOS Error'' err ps)
             | Inr b \<Rightarrow> (cfg\<lparr>bcf_loaded := Some b\<rparr>, ps)))"

definition disc_show ::
  "file_system \<Rightarrow> (cd_error \<Rightarrow> string) \<Rightarrow> bool \<Rightarrow> qa_clicks \<Rightarrow> quick_access \<times> cd_image option \<times> popups \<Rightarrow>
     (quick_access \<times> cd_image option \<times> popups) option" where
  "disc_show fs text_of unload k = (\<lambda>(discs, disc, ps).
     let disc = (if disc \<noteq> None \<and> unload then None else disc);
         (load, discs, ps) = quick_access_show k (discs, ps)
     in case load of
          None \<Rightarrow> Some (discs, disc, ps)
        | Some path \<Rightarrow>
            map_option (\<lambda>r. case r of
                Inl err \<Rightarrow> (discs, disc, popups_add ''Disc Error'' err ps)
              | Inr cd \<Rightarrow> (discs, Some cd, ps)) (open_cd fs text_of path))"

record exe_config =
  xc_loaded :: "exe option"
  xc_name :: "string option"
  xc_exes :: quick_access

definition take_exe :: "exe_config \<Rightarrow> exe option \<times> exe_config" where
  "take_exe cfg = (xc_loaded cfg, cfg\<lparr>xc_loaded := None\<rparr>)"

text \<open>The button \<open>Unload\<close> is there while the executable has not been taken; the name stays.\<close>

definition exe_show :: "file_system \<Rightarrow> bool \<Rightarrow> qa_clicks \<Rightarrow> exe_config \<times> popups \<Rightarrow> exe_config \<times> popups" where
  "exe_show fs unload k = (\<lambda>(cfg, ps).
     let cfg = (if xc_name cfg \<noteq> None \<and> xc_loaded cfg \<noteq> None \<and> unload then cfg\<lparr>xc_loaded := None\<rparr> else cfg);
         (load, q, ps) = quick_access_show k (xc_exes cfg, ps);
         cfg = cfg\<lparr>xc_exes := q\<rparr>
     in case load of
          None \<Rightarrow> (cfg, ps)
        | Some path \<Rightarrow>
            (case exe_from_file fs path of
               Inl err \<Rightarrow> (cfg, popups_add ''Exe Error'' err ps)
             | Inr x \<Rightarrow> (cfg\<lparr>xc_loaded := Some x, xc_name := Some (short_name path)\<rparr>, ps)))"

record pad_clicks =
  pk_slot :: io_slot
  pk_conn :: pad_connection
  pk_record :: "button option"

definition bindings_named :: "io_slot \<Rightarrow> pad_config \<Rightarrow> bool" where
  "bindings_named slot cfg \<longleftrightarrow>
     list_all (\<lambda>binding. case binding of None \<Rightarrow> True | Some key \<Rightarrow> keycode_name key \<noteq> None) (pc_bindings cfg slot)"

text \<open>While a key is recorded the menu is drawn but disabled.\<close>

definition pad_show :: "pad_clicks \<Rightarrow> pad_config \<times> game_pads \<Rightarrow> (pad_config \<times> game_pads) option" where
  "pad_show k = (\<lambda>(cfg, pads).
     if pc_recording cfg \<noteq> None
     then (if bindings_named (pc_show_slot cfg) cfg then Some (cfg, pads) else None)
     else
       let cfg = cfg\<lparr>pc_show_slot := pk_slot k\<rparr>;
           (cfg, pads) = choose_connection (pk_conn k) (cfg, pads)
       in case pk_record k of
            Some b \<Rightarrow> map_option (\<lambda>cfg. (cfg, pads)) (record_button (pc_show_slot cfg) b cfg)
          | None \<Rightarrow> if bindings_named (pc_show_slot cfg) cfg then Some (cfg, pads) else None)"

record card_clicks =
  ck_slot :: io_slot
  ck_text :: string
  ck_select :: "dialog option"
  ck_change :: bool
  ck_type :: card_type

definition card_show ::
  "file_system \<Rightarrow> (card_error \<Rightarrow> string) \<Rightarrow> card_clicks \<Rightarrow> card_config \<times> mem_cards \<times> popups \<Rightarrow>
     (card_config \<times> mem_cards \<times> popups) option" where
  "card_show fs text_of k = (\<lambda>(cfg, cards, ps).
     let slot = cc_show_slot cfg;
         (cards, ps) = (case cards slot of
             Some c \<Rightarrow> (case mc_error c of
                 Some err \<Rightarrow> (cards(slot \<mapsto> c\<lparr>mc_error := None\<rparr>), popups_add ''Memory Card Error'' (text_of err) ps)
               | None \<Rightarrow> (cards, ps))
           | None \<Rightarrow> (cards, ps));
         cfg = cfg\<lparr>cc_show_slot := ck_slot k\<rparr>;
         (input, ps) = select_input (ck_select k) (ck_text k, ps);
         (cfg, cards) = (if ck_change k then change_path input (cfg, cards) else (cfg, cards))
     in choose_card_type (fs_bytes fs) text_of (ck_type k) (cfg, cards, ps))"

section \<open>The settings and their file\<close>

record config =
  cf_path :: "string option"
  cf_show_bios :: bool
  cf_saved :: bool
  cf_pads :: pad_config
  cf_bios :: bios_config
  cf_disc :: quick_access
  cf_exe :: exe_config
  cf_card :: card_config

definition config_default :: config where
  "config_default =
     \<lparr>cf_path = None, cf_show_bios = False, cf_saved = False, cf_pads = pad_config_default,
      cf_bios = \<lparr>bcf_loaded = None, bcf_default = None, bcf_bioses = quick_access_default\<rparr>,
      cf_disc = quick_access_default,
      cf_exe = \<lparr>xc_loaded = None, xc_name = None, xc_exes = quick_access_default\<rparr>,
      cf_card = card_config_default\<rparr>"

definition config_modified :: "config \<Rightarrow> bool" where
  "config_modified cfg \<longleftrightarrow> pc_modified (cf_pads cfg) \<or> qa_modified (bcf_bioses (cf_bios cfg)) \<or> qa_modified (cf_disc cfg)
     \<or> qa_modified (xc_exes (cf_exe cfg)) \<or> cc_modified (cf_card cfg)"

definition config_mark_saved :: "config \<Rightarrow> config" where
  "config_mark_saved cfg =
     cfg\<lparr>cf_saved := True,
         cf_pads := (cf_pads cfg)\<lparr>pc_modified := False\<rparr>,
         cf_disc := (cf_disc cfg)\<lparr>qa_modified := False\<rparr>,
         cf_bios := (cf_bios cfg)\<lparr>bcf_bioses := (bcf_bioses (cf_bios cfg))\<lparr>qa_modified := False\<rparr>\<rparr>,
         cf_exe := (cf_exe cfg)\<lparr>xc_exes := (xc_exes (cf_exe cfg))\<lparr>qa_modified := False\<rparr>\<rparr>,
         cf_card := (cf_card cfg)\<lparr>cc_modified := False\<rparr>\<rparr>"

text \<open>What the attributes of \<open>serde\<close> keep of the settings: the fields that are not skipped.\<close>

record saved_config =
  sv_conn :: "io_slot \<Rightarrow> pad_connection"
  sv_bindings :: "io_slot \<Rightarrow> button_bindings"
  sv_bios :: "string option"
  sv_bioses :: "string list"
  sv_discs :: "string list"
  sv_exes :: "string list"
  sv_card_type :: "io_slot \<Rightarrow> card_type"
  sv_card_path :: "io_slot \<Rightarrow> string"

definition config_to_saved :: "config \<Rightarrow> saved_config" where
  "config_to_saved cfg =
     \<lparr>sv_conn = pc_conn (cf_pads cfg), sv_bindings = pc_bindings (cf_pads cfg),
      sv_bios = bcf_default (cf_bios cfg), sv_bioses = qa_paths (bcf_bioses (cf_bios cfg)),
      sv_discs = qa_paths (cf_disc cfg), sv_exes = qa_paths (xc_exes (cf_exe cfg)),
      sv_card_type = cc_type (cf_card cfg), sv_card_path = cc_path (cf_card cfg)\<rparr>"

definition config_of_saved :: "saved_config \<Rightarrow> config" where
  "config_of_saved sv = config_default\<lparr>
     cf_pads := pad_config_default\<lparr>pc_conn := sv_conn sv, pc_bindings := sv_bindings sv\<rparr>,
     cf_bios := \<lparr>bcf_loaded = None, bcf_default = sv_bios sv, bcf_bioses = quick_access_default\<lparr>qa_paths := sv_bioses sv\<rparr>\<rparr>,
     cf_disc := quick_access_default\<lparr>qa_paths := sv_discs sv\<rparr>,
     cf_exe := \<lparr>xc_loaded = None, xc_name = None, xc_exes = quick_access_default\<lparr>qa_paths := sv_exes sv\<rparr>\<rparr>,
     cf_card := card_config_default\<lparr>cc_type := sv_card_type sv, cc_path := sv_card_path sv\<rparr>\<rparr>"

text \<open>The library: a text or an error message, and back.\<close>

record toml =
  to_toml :: "saved_config \<Rightarrow> string + string"
  of_toml :: "string \<Rightarrow> string + saved_config"

definition config_file :: "string \<Rightarrow> string" where
  "config_file dir = path_push (path_push dir ''spillestation'') ''config.toml''"

text \<open>\<open>dir\<close> is \<open>dirs::config_dir()\<close>.\<close>

definition from_file_or_default :: "toml \<Rightarrow> file_system \<Rightarrow> string option \<Rightarrow> popups \<Rightarrow> config \<times> popups" where
  "from_file_or_default T fs dir ps =
     (case map_option config_file dir of
        None \<Rightarrow> (config_default, popups_add ''Config Error'' ''Failed to decide config directory.'' ps)
      | Some path \<Rightarrow>
          (case fs_read_text fs path of
             Inl err \<Rightarrow> (config_default\<lparr>cf_path := Some path\<rparr>,
                 popups_add ''Config Error'' (''Failed to open config file: '' @ err @ ''.'') ps)
           | Inr source \<Rightarrow>
               (case of_toml T source of
                  Inr sv \<Rightarrow> ((config_of_saved sv)\<lparr>cf_saved := True, cf_path := Some path\<rparr>, ps)
                | Inl err \<Rightarrow> (config_default\<lparr>cf_path := Some path\<rparr>,
                    popups_add ''Config Error'' (''Failed load config file: '' @ err @ ''.'') ps))))"

text \<open>The folder is made and the file truncated before the settings are turned into text.\<close>

definition write_out :: "string \<Rightarrow> string \<Rightarrow> file_system \<Rightarrow> string option \<times> file_system" where
  "write_out path s fs =
     (case fs_write_error fs path of
        None \<Rightarrow> (None, fs\<lparr>fs_files := (fs_files fs)(path \<mapsto> s)\<rparr>)
      | Some (err, n) \<Rightarrow> (Some err, fs\<lparr>fs_files := (fs_files fs)(path \<mapsto> take n s)\<rparr>))"

definition quoted_path :: "string \<Rightarrow> string" where "quoted_path p = CHR 0x22 # p @ [CHR 0x22]"

definition try_save_to_file :: "toml \<Rightarrow> config \<times> popups \<times> file_system \<Rightarrow> config \<times> popups \<times> file_system" where
  "try_save_to_file T = (\<lambda>(cfg, ps, fs).
     case cf_path cfg of
       None \<Rightarrow> (cfg, popups_add ''Config Error'' ''Unable to decide config directory.'' ps, fs)
     | Some path \<Rightarrow>
         if \<not> (case path_parent path of Some folder \<Rightarrow> fs_mkdir_ok fs folder | None \<Rightarrow> False)
         then (cfg, popups_add ''Config Error'' (''Unable to create config folder for '' @ quoted_path path) ps, fs)
         else
           case fs_open_error fs path of
             Some err \<Rightarrow> (cfg, popups_add ''Config Error'' (''Failed to open config file: '' @ err @ ''.'') ps, fs)
           | None \<Rightarrow>
               let fs = fs\<lparr>fs_files := (fs_files fs)(path \<mapsto> [])\<rparr>
               in case to_toml T (config_to_saved cfg) of
                    Inl err \<Rightarrow> (cfg, popups_add ''Config Error'' (''Failed to deserialize config: '' @ err @ ''.'') ps, fs)
                  | Inr source \<Rightarrow>
                      let (err, fs) = write_out path source fs;
                          ps = (case err of
                            Some err \<Rightarrow> popups_add ''Config Error'' (''Failed to write to config file: '' @ err @ ''.'') ps
                          | None \<Rightarrow> ps)
                      in (config_mark_saved cfg, ps, fs))"

section \<open>The settings window\<close>

text \<open>A section that is folded has no clicks.\<close>

record config_clicks =
  kc_save :: bool
  kc_reload :: bool
  kc_pad :: "pad_clicks option"
  kc_bios :: "(bool \<times> qa_clicks) option"
  kc_disc :: "(bool \<times> qa_clicks) option"
  kc_exe :: "(bool \<times> qa_clicks) option"
  kc_card :: "card_clicks option"

record settings_world =
  sw_config :: config
  sw_pads :: game_pads
  sw_cards :: mem_cards
  sw_disc :: "cd_image option"
  sw_popups :: popups
  sw_files :: file_system

record settings_env =
  se_toml :: toml
  se_dir :: "string option"
  se_cd_text :: "cd_error \<Rightarrow> string"
  se_card_text :: "card_error \<Rightarrow> string"

definition settings_file :: "settings_env \<Rightarrow> config_clicks \<Rightarrow> settings_world \<Rightarrow> settings_world" where
  "settings_file E k w =
     (if \<not> cf_saved (sw_config w) \<or> config_modified (sw_config w)
      then
        let w = (if kc_save k
              then let (cfg, ps, fs) = try_save_to_file (se_toml E) (sw_config w, sw_popups w, sw_files w)
                   in w\<lparr>sw_config := cfg, sw_popups := ps, sw_files := fs\<rparr>
              else w)
        in if kc_reload k
           then let (cfg, ps) = from_file_or_default (se_toml E) (sw_files w) (se_dir E) (sw_popups w)
                in w\<lparr>sw_config := cfg, sw_popups := ps\<rparr>
           else w
      else w)"

text \<open>\<open>show_inside\<close>: the file, then the five sections. \<open>used\<close>: a system with a BIOS runs.\<close>

definition settings_pad :: "config_clicks \<Rightarrow> settings_world \<Rightarrow> settings_world option" where
  "settings_pad k w = (case kc_pad k of
     None \<Rightarrow> Some w
   | Some pk \<Rightarrow> map_option (\<lambda>(cfg, pads). w\<lparr>sw_config := (sw_config w)\<lparr>cf_pads := cfg\<rparr>, sw_pads := pads\<rparr>)
       (pad_show pk (cf_pads (sw_config w), sw_pads w)))"

definition settings_bios :: "bool \<Rightarrow> config_clicks \<Rightarrow> settings_world \<Rightarrow> settings_world" where
  "settings_bios used k w = (case kc_bios k of
     None \<Rightarrow> w
   | Some (unload, qk) \<Rightarrow>
       let (cfg, ps) = bios_show (sw_files w) used unload qk (cf_bios (sw_config w), sw_popups w)
       in w\<lparr>sw_config := (sw_config w)\<lparr>cf_bios := cfg\<rparr>, sw_popups := ps\<rparr>)"

definition settings_disc :: "settings_env \<Rightarrow> config_clicks \<Rightarrow> settings_world \<Rightarrow> settings_world option" where
  "settings_disc E k w = (case kc_disc k of
     None \<Rightarrow> Some w
   | Some (unload, qk) \<Rightarrow>
       map_option (\<lambda>(discs, disc, ps). w\<lparr>sw_config := (sw_config w)\<lparr>cf_disc := discs\<rparr>, sw_disc := disc, sw_popups := ps\<rparr>)
         (disc_show (sw_files w) (se_cd_text E) unload qk (cf_disc (sw_config w), sw_disc w, sw_popups w)))"

definition settings_exe :: "config_clicks \<Rightarrow> settings_world \<Rightarrow> settings_world" where
  "settings_exe k w = (case kc_exe k of
     None \<Rightarrow> w
   | Some (unload, qk) \<Rightarrow>
       let (cfg, ps) = exe_show (sw_files w) unload qk (cf_exe (sw_config w), sw_popups w)
       in w\<lparr>sw_config := (sw_config w)\<lparr>cf_exe := cfg\<rparr>, sw_popups := ps\<rparr>)"

definition settings_card :: "settings_env \<Rightarrow> config_clicks \<Rightarrow> settings_world \<Rightarrow> settings_world option" where
  "settings_card E k w = (case kc_card k of
     None \<Rightarrow> Some w
   | Some ck \<Rightarrow>
       map_option (\<lambda>(cfg, cards, ps). w\<lparr>sw_config := (sw_config w)\<lparr>cf_card := cfg\<rparr>, sw_cards := cards, sw_popups := ps\<rparr>)
         (card_show (sw_files w) (se_card_text E) ck (cf_card (sw_config w), sw_cards w, sw_popups w)))"

definition show_inside :: "settings_env \<Rightarrow> bool \<Rightarrow> config_clicks \<Rightarrow> settings_world \<Rightarrow> settings_world option" where
  "show_inside E used k w = do {
     let w = settings_file E k w;
     w \<leftarrow> settings_pad k w;
     let w = settings_bios used k w;
     w \<leftarrow> settings_disc E k w;
     let w = settings_exe k w;
     w \<leftarrow> settings_card E k w;
     Some (w\<lparr>sw_config := (sw_config w)\<lparr>cf_show_bios := False\<rparr>\<rparr>) }"

section \<open>Saving and loading\<close>

text \<open>What the library promises: a text that was written is read back, and it is text.\<close>

definition toml_ok :: "toml \<Rightarrow> file_system \<Rightarrow> bool" where
  "toml_ok T fs \<longleftrightarrow> (\<forall>sv s. to_toml T sv = Inr s \<longrightarrow> of_toml T s = Inr sv \<and> fs_utf8 fs s)"

lemma config_saved_id: "config_to_saved (config_of_saved sv) = sv"
  by (simp add: config_to_saved_def config_of_saved_def quick_access_default_def pad_config_default_def
      card_config_default_def)

lemma config_of_saved_unmodified: "\<not> config_modified (config_of_saved sv)"
  by (simp add: config_modified_def config_of_saved_def quick_access_default_def pad_config_default_def
      card_config_default_def config_default_def)

lemma mark_saved [simp]:
  "\<not> config_modified (config_mark_saved cfg)" "cf_saved (config_mark_saved cfg)"
  "config_to_saved (config_mark_saved cfg) = config_to_saved cfg" "cf_path (config_mark_saved cfg) = cf_path cfg"
  by (simp_all add: config_modified_def config_mark_saved_def config_to_saved_def)

text \<open>A save that gives no message wrote the settings.\<close>

lemma save_quiet:
  assumes "try_save_to_file T (cfg, ps, fs) = (cfg', ps, fs')"
  shows "\<exists>path s. cf_path cfg = Some path \<and> to_toml T (config_to_saved cfg) = Inr s
    \<and> fs' = fs\<lparr>fs_files := (fs_files fs)(path \<mapsto> s)\<rparr> \<and> cfg' = config_mark_saved cfg"
  using assms
  by (auto simp: try_save_to_file_def popups_add_def write_out_def Let_def split: option.splits if_splits sum.splits prod.splits)

lemma save_message:
  "try_save_to_file T (cfg, ps, fs) = (cfg', ps', fs') \<Longrightarrow>
     ps' = ps \<or> (\<exists>err. ps' = popups_add ''Config Error'' err ps)"
  by (auto simp: try_save_to_file_def write_out_def Let_def split: option.splits if_splits sum.splits prod.splits)

text \<open>A write that fails leaves a part of the text in the file, and the settings count as saved.\<close>

lemma save_write_error:
  assumes "cf_path cfg = Some path" "path_parent path = Some folder" "fs_mkdir_ok fs folder" "fs_open_error fs path = None"
    and "to_toml T (config_to_saved cfg) = Inr s" "fs_write_error fs path = Some (err, n)"
  shows "\<exists>ps' fs'. try_save_to_file T (cfg, ps, fs) = (config_mark_saved cfg, ps', fs') \<and> fs_files fs' path = Some (take n s)"
  using assms by (simp add: try_save_to_file_def write_out_def)

text \<open>A row of the list is loaded, or what was typed.\<close>

lemma quick_access_load:
  assumes "quick_access_show k (q, ps) = (Some path, q', ps')"
  shows "path = qa_input q' \<or> path \<in> set (qa_paths q @ [qa_input q'])"
proof -
  have rows: "fold (\<lambda>(i, p) load. if snd (qk_row k i) then Some p else load) (enumerate n xs) load = Some path \<Longrightarrow>
      load = Some path \<or> path \<in> set xs" for n xs load
    by (induction xs arbitrary: n load) (fastforce split: if_splits)+
  show ?thesis
    using assms
    by (auto simp: quick_access_show_def quick_access_rows_def Let_def split: prod.splits if_splits dest!: rows)
qed

lemma exe_unload_keeps_name:
  "quick_access_show k (xc_exes cfg, ps) = (None, q, ps') \<Longrightarrow>
     exe_show fs unload k (cfg, ps) = (cfg', ps'') \<Longrightarrow> xc_name cfg' = xc_name cfg"
  by (auto simp: exe_show_def Let_def split: if_splits)

text \<open>Settings that were saved without a message are loaded again: every field that is kept has its
  value, the settings count as saved and unmodified, and nothing else of the file system changed.
\<close>

lemma settings_reload:
  assumes "toml_ok T fs" "dir = Some d" "cf_path cfg = Some (config_file d)"
    and "try_save_to_file T (cfg, ps, fs) = (cfg', ps, fs')"
  shows "\<not> config_modified cfg' \<and> cf_saved cfg' \<and> config_to_saved cfg' = config_to_saved cfg
    \<and> (\<forall>path. path \<noteq> config_file d \<longrightarrow> fs_files fs' path = fs_files fs path)
    \<and> (\<exists>cfg2. from_file_or_default T fs' dir ps2 = (cfg2, ps2) \<and> config_to_saved cfg2 = config_to_saved cfg
          \<and> \<not> config_modified cfg2 \<and> cf_saved cfg2 \<and> cf_path cfg2 = cf_path cfg)"
proof -
  obtain s where s: "to_toml T (config_to_saved cfg) = Inr s" "fs' = fs\<lparr>fs_files := (fs_files fs)(config_file d \<mapsto> s)\<rparr>"
    "cfg' = config_mark_saved cfg"
    using save_quiet [OF assms(4)] assms(3) by auto
  have lib: "of_toml T s = Inr (config_to_saved cfg)" "fs_utf8 fs s" using assms(1) s(1) by (auto simp: toml_ok_def)
  let ?c = "config_of_saved (config_to_saved cfg)"
  have "from_file_or_default T fs' dir ps2 = (?c\<lparr>cf_saved := True, cf_path := Some (config_file d)\<rparr>, ps2)"
    using lib by (simp add: from_file_or_default_def assms(2) fs_read_text_def fs_read_def s(2))
  moreover have "config_to_saved (?c\<lparr>cf_saved := True, cf_path := p\<rparr>) = config_to_saved cfg"
    "\<not> config_modified (?c\<lparr>cf_saved := True, cf_path := p\<rparr>)" for p
    using config_saved_id [of "config_to_saved cfg"] config_of_saved_unmodified [of "config_to_saved cfg"]
    by (simp_all add: config_to_saved_def config_modified_def)
  ultimately show ?thesis using assms(3) by (simp add: s(2,3))
qed

text \<open>The settings with one disc in the list, in an empty file system.\<close>

definition sample_files :: file_system where
  "sample_files = \<lparr>fs_files = (\<lambda>_. None), fs_missing = (\<lambda>_. ''not found''), fs_utf8 = (\<lambda>_. True),
     fs_mkdir_ok = (\<lambda>_. True), fs_open_error = (\<lambda>_. None), fs_write_error = (\<lambda>_. None)\<rparr>"

definition sample_config :: config where
  "sample_config = config_default\<lparr>cf_path := Some (config_file ''/home''),
     cf_disc := \<lparr>qa_input = [], qa_modified = True, qa_paths = [''game.cue'']\<rparr>\<rparr>"

definition sample_toml :: toml where
  "sample_toml = \<lparr>to_toml = (\<lambda>sv. if sv_discs sv = [''game.cue''] \<and> sv = config_to_saved sample_config then Inr ''ok'' else Inl ''unknown''),
     of_toml = (\<lambda>s. if s = ''ok'' then Inr (config_to_saved sample_config) else Inl ''unknown'')\<rparr>"

lemma settings_reload_witness:
  "\<exists>fs' cfg2. try_save_to_file sample_toml (sample_config, [], sample_files) = (config_mark_saved sample_config, [], fs')
     \<and> from_file_or_default sample_toml fs' (Some ''/home'') [] = (cfg2, []) \<and> qa_paths (cf_disc cfg2) = [''game.cue'']"
proof -
  have ok: "toml_ok sample_toml sample_files" by (simp add: toml_ok_def sample_toml_def sample_files_def)
  have path: "cf_path sample_config = Some (config_file ''/home'')" by (simp add: sample_config_def)
  have folder: "path_parent (config_file ''/home'') = Some ''/home/spillestation''" by code_simp
  have disc: "sv_discs (config_to_saved sample_config) = [''game.cue'']"
    by (simp add: config_to_saved_def sample_config_def)
  obtain fs' where save: "try_save_to_file sample_toml (sample_config, [], sample_files) = (config_mark_saved sample_config, [], fs')"
    by (simp add: try_save_to_file_def path folder sample_files_def sample_toml_def disc write_out_def)
  obtain cfg2 where c: "from_file_or_default sample_toml fs' (Some ''/home'') [] = (cfg2, [])"
    "config_to_saved cfg2 = config_to_saved sample_config"
    using settings_reload [OF ok refl path save, of "[]"] by blast
  moreover have "qa_paths (cf_disc cfg2) = [''game.cue'']"
    using c(2) disc by (simp add: config_to_saved_def)
  ultimately show ?thesis using save by blast
qed

end
