(* ===== verification/FrontDebug.thy ===== *)
theory FrontDebug
  imports FrontConfig
begin

text \<open>
  The debugger of \<open>crates/splst_front/src/debug.rs\<close>: break points, the calls the CPU makes of the
  debugger, running and stepping, watch points and the memory view. What the widgets draw
  is the text they are given; a click is an argument.
\<close>

section \<open>Break points\<close>

type_synonym 'a break_point = "string \<times> 'a"

datatype break_kind =
    BreakIrq irq
  | BreakInstruction u32 opcode
  | BreakLoad u32 u32
  | BreakStore u32 u32

definition ticked :: "string \<Rightarrow> string" where
  "ticked s = CHR 0x60 # s @ [CHR 0x60]"

fun break_display :: "break_kind \<Rightarrow> string" where
  "break_display (BreakIrq i) = ''triggering '' @ irq_display i"
| "break_display (BreakInstruction addr op) = ''executing '' @ ticked (opcode_display op) @ '' on '' @ hex_pad 8 addr"
| "break_display (BreakLoad addr val) = ''loading '' @ ticked (fmt_u32 val) @ '' on '' @ hex_pad 8 addr"
| "break_display (BreakStore addr val) = ''storing '' @ ticked (fmt_u32 val) @ '' to '' @ hex_pad 8 addr"

datatype int_display_mode = DisplayHex | DisplaySigned | DisplayUnsigned

datatype value_kind = ByteValue int_display_mode | HalfWordValue int_display_mode | WordValue int_display_mode | PtrValue

record watch_point =
  wp_name :: string
  wp_kind :: value_kind
  wp_addr :: u32

datatype execute_mode = ExecStep | ExecRun

record debugger =
  dg_instructions :: "u32 break_point list"
  dg_loads :: "u32 break_point list"
  dg_stores :: "u32 break_point list"
  dg_irqs :: "irq break_point list"
  dg_watch :: "watch_point list"
  dg_breaks :: "(string \<times> break_kind) list"
  dg_mode :: execute_mode
  dg_hz :: u64
  dg_stepped :: bool
  dg_remainder :: nat

definition debugger_default :: debugger where
  "debugger_default =
     \<lparr>dg_instructions = [], dg_loads = [], dg_stores = [], dg_irqs = [], dg_watch = [], dg_breaks = [],
      dg_mode = ExecStep, dg_hz = 1, dg_stepped = False, dg_remainder = 0\<rparr>"

text \<open>The calls of the CPU, with the values widened to a word.\<close>

datatype debug_call =
    CallInstruction u32 opcode
  | CallLoad u32 u32
  | CallStore u32 u32
  | CallIrq irq

definition push_breaks :: "'a break_point list \<Rightarrow> 'a \<Rightarrow> break_kind \<Rightarrow> debugger \<Rightarrow> debugger" where
  "push_breaks points x kind d =
     d\<lparr>dg_breaks := dg_breaks d @ List.map (\<lambda>(name, _). (name, kind)) (filter (\<lambda>(_, on). on = x) points)\<rparr>"

fun debugger_call :: "debug_call \<Rightarrow> debugger \<Rightarrow> debugger" where
  "debugger_call (CallInstruction addr op) d = push_breaks (dg_instructions d) addr (BreakInstruction addr op) d"
| "debugger_call (CallLoad addr val) d = push_breaks (dg_loads d) addr (BreakLoad addr val) d"
| "debugger_call (CallStore addr val) d = push_breaks (dg_stores d) addr (BreakStore addr val) d"
| "debugger_call (CallIrq i) d = push_breaks (dg_irqs d) i (BreakIrq i) d"

definition should_break :: "debugger \<Rightarrow> bool" where
  "should_break d \<longleftrightarrow> dg_breaks d \<noteq> []"

section \<open>Running\<close>

text \<open>
  \<open>System::run_debug\<close> and \<open>step_debug\<close> with this debugger. Which calls a step makes is known
  only to the CPU, so \<open>calls\<close>, from the state before the step, is a parameter.
\<close>

definition debug_step ::
  "(sys_cpu \<Rightarrow> debug_call list) \<Rightarrow> sys_env \<Rightarrow> nat \<Rightarrow> debugger \<times> sys_cpu \<Rightarrow> (debugger \<times> sys_cpu) option" where
  "debug_step calls env fuel = (\<lambda>(d, c). map_option (\<lambda>c'. (fold debugger_call (calls c) d, c')) (cpu_step env fuel c))"

partial_function (option) debug_loop ::
  "(sys_cpu \<Rightarrow> debug_call list) \<Rightarrow> sys_env \<Rightarrow> nat \<Rightarrow> nat \<Rightarrow> nat \<Rightarrow> debugger \<times> sys_cpu \<Rightarrow>
     ((nat \<times> stop_reason) \<times> debugger \<times> sys_cpu) option" where
  "debug_loop calls env fuel cycle_time time s =
     (if time < cycle_time then Some ((time, Timeout), s)
      else do {
        s \<leftarrow> debug_step calls env fuel s;
        if should_break (fst s) then Some ((time - cycle_time, Break), s)
        else debug_loop calls env fuel cycle_time (time - cycle_time) s })"

definition debugger_run ::
  "(sys_cpu \<Rightarrow> debug_call list) \<Rightarrow> sys_env \<Rightarrow> nat \<Rightarrow> nat \<Rightarrow> debugger \<times> sys_cpu \<Rightarrow> (debugger \<times> sys_cpu) option" where
  "debugger_run calls env fuel dt = (\<lambda>(d, c).
     case dg_mode d of
       ExecRun \<Rightarrow>
         let time = dg_remainder d + dt; hz = unat (ucast (dg_hz d) :: u32)
         in if hz = 0 then None
            else do {
              ((remainder, stop), d, c) \<leftarrow> debug_loop calls env fuel (10 ^ 9 div hz) time (d, c);
              Some (d\<lparr>dg_remainder := remainder, dg_mode := (if stop = Break then ExecStep else dg_mode d)\<rparr>, c) }
     | ExecStep \<Rightarrow>
         if dg_stepped d then debug_step calls env fuel (d\<lparr>dg_stepped := False\<rparr>, c) else Some (d, c))"

text \<open>\<open>DebugMenu::show\<close> first turns the breaks into messages.\<close>

definition drain_breaks :: "debugger \<times> popups \<Rightarrow> debugger \<times> popups" where
  "drain_breaks = (\<lambda>(d, ps).
     (d\<lparr>dg_breaks := []\<rparr>,
      fold (\<lambda>(name, kind). popups_add (''Hit '' @ name) (''Broke '' @ break_display kind)) (dg_breaks d) ps))"

section \<open>Addresses and watch points\<close>

text \<open>\<open>u32::from_str_radix(input, 16).ok()\<close> on any text.\<close>

definition parse_hex :: "string \<Rightarrow> u32 option" where
  "parse_hex input =
     (let s = (if input \<noteq> [] \<and> hd input = CHR ''+'' then tl input else input)
      in if list_all is_ascii_hexdigit s
         then (case from_str_radix s 16 of Inr v \<Rightarrow> Some v | Inl _ \<Rightarrow> None)
         else None)"

definition addr_input :: "string \<Rightarrow> bool \<Rightarrow> popups \<Rightarrow> u32 option \<times> popups" where
  "addr_input input clicked ps =
     (if clicked then
        (case parse_hex input of
           Some addr \<Rightarrow> (Some addr, ps)
         | None \<Rightarrow> (None, popups_add ''Invalid address'' (ticked input @ '' is not a valid address'') ps))
      else (None, ps))"

fun value_width :: "value_kind \<Rightarrow> u32" where
  "value_width (ByteValue _) = 1" | "value_width (HalfWordValue _) = 2"
| "value_width (WordValue _) = 4" | "value_width PtrValue = 4"

definition addr_aligned :: "value_kind \<Rightarrow> u32 \<Rightarrow> bool" where
  "addr_aligned kind addr \<longleftrightarrow> addr AND (value_width kind - 1) = 0"

definition add_watch :: "value_kind \<Rightarrow> string \<Rightarrow> debugger \<times> popups \<Rightarrow> debugger \<times> popups" where
  "add_watch kind input = (\<lambda>(d, ps).
     case addr_input input True ps of
       (None, ps) \<Rightarrow> (d, ps)
     | (Some addr, ps) \<Rightarrow>
         (d\<lparr>dg_watch := dg_watch d @ [\<lparr>wp_name = input, wp_kind = kind, wp_addr = addr\<rparr>]\<rparr>,
          if addr_aligned kind addr then ps
          else popups_add ''Invalid Address''
                 (''Address '' @ input @ '' is incorrectly aligned, must have an alignment of '' @ fmt_u32 (value_width kind)) ps))"

definition format_int :: "int_display_mode \<Rightarrow> 'a::len word \<Rightarrow> string" where
  "format_int mode v = (case mode of
     DisplaySigned \<Rightarrow> fmt_int (sint v) | DisplayUnsigned \<Rightarrow> fmt_int (uint v) | DisplayHex \<Rightarrow> hex_str (unat v))"

text \<open>The text of a watch point; the outer option is a panic of the peek.\<close>

definition watch_text :: "sys_dev devices \<Rightarrow> sys_dev bus \<Rightarrow> watch_point \<Rightarrow> string option" where
  "watch_text dv b wp =
     (let peek = (\<lambda>w f. map_option (\<lambda>r. case r of Some v \<Rightarrow> f v | None \<Rightarrow> ''???'') (bus_peek dv w (wp_addr wp) b))
      in case wp_kind wp of
           ByteValue mode \<Rightarrow> peek addr_width.Byte (\<lambda>v. format_int mode (ucast v :: u8))
         | HalfWordValue mode \<Rightarrow> peek addr_width.HalfWord (\<lambda>v. format_int mode (ucast v :: u16))
         | WordValue mode \<Rightarrow> peek FullWord (\<lambda>v. format_int mode v)
         | PtrValue \<Rightarrow> peek FullWord (\<lambda>v. hex_pad 8 v))"

section \<open>The memory view\<close>

datatype memory_mode = MemValue | MemAscii | MemInstruction

record memory_menu =
  mm_mode :: memory_mode
  mm_addr :: u32

definition MENU_ROWS :: nat where "MENU_ROWS = 8"

definition saturating_sub32 :: "u32 \<Rightarrow> u32 \<Rightarrow> u32" where
  "saturating_sub32 a b = (if a < b then 0 else a - b)"

definition saturating_add32 :: "u32 \<Rightarrow> u32 \<Rightarrow> u32" where
  "saturating_add32 a b = (if uint a + uint b < 2 ^ 32 then a + b else - 1)"

definition bytes_per_row :: "memory_menu \<Rightarrow> u32" where
  "bytes_per_row m = (if mm_mode m = MemAscii then 16 else 4)"

definition menu_up :: "memory_menu \<Rightarrow> memory_menu" where
  "menu_up m = m\<lparr>mm_addr := saturating_sub32 (mm_addr m) (bytes_per_row m)\<rparr>"

definition menu_down :: "memory_menu \<Rightarrow> memory_menu" where
  "menu_down m = m\<lparr>mm_addr := saturating_add32 (mm_addr m) (bytes_per_row m)\<rparr>"

definition menu_start :: "memory_menu \<Rightarrow> u32" where
  "menu_start m = mm_addr m AND NOT 3"

definition hex_byte :: "u32 \<Rightarrow> nat \<Rightarrow> string" where
  "hex_byte v shift =
     [hex_digit (unat (drop_bit (shift + 4) v AND 0xf)), hex_digit (unat (drop_bit shift v AND 0xf))]"

definition value_row :: "u32 option \<Rightarrow> string list" where
  "value_row v = (case v of
     Some v \<Rightarrow> List.map (hex_byte v) [24, 16, 8, 0] | None \<Rightarrow> replicate 4 ''??'')"

definition instruction_row :: "u32 option \<Rightarrow> string list" where
  "instruction_row v = [case v of Some v \<Rightarrow> opcode_display v | None \<Rightarrow> ''???'']"

definition ascii_char :: "u32 option \<Rightarrow> char" where
  "ascii_char v = (case v of Some v \<Rightarrow> if unat v < 128 then char_of (unat v) else CHR ''.'' | None \<Rightarrow> CHR ''.'')"

fun sequence_options :: "'a option list \<Rightarrow> 'a list option" where
  "sequence_options [] = Some []"
| "sequence_options (x # xs) = Option.bind x (\<lambda>y. map_option ((#) y) (sequence_options xs))"

text \<open>A row of the view: its address and its cells.\<close>

definition menu_row :: "sys_dev devices \<Rightarrow> sys_dev bus \<Rightarrow> memory_menu \<Rightarrow> nat \<Rightarrow> (string \<times> string list) option" where
  "menu_row dv b m row =
     (let addr = menu_start m + word_of_nat row * bytes_per_row m; label = hex_pad 6 addr
      in case mm_mode m of
           MemValue \<Rightarrow> map_option (\<lambda>v. (label, value_row v)) (bus_peek dv FullWord addr b)
         | MemInstruction \<Rightarrow> map_option (\<lambda>v. (label, instruction_row v)) (bus_peek dv FullWord addr b)
         | MemAscii \<Rightarrow>
             map_option (\<lambda>cs. (label, [List.map ascii_char cs]))
               (sequence_options (List.map (\<lambda>i. bus_peek dv addr_width.Byte (addr + word_of_nat i) b) [0..<16])))"

definition menu_rows :: "sys_dev devices \<Rightarrow> sys_dev bus \<Rightarrow> memory_menu \<Rightarrow> (string \<times> string list) list option" where
  "menu_rows dv b m = sequence_options (List.map (menu_row dv b m) [0..<MENU_ROWS])"

section \<open>What a break point sees\<close>

fun call_hits :: "debugger \<Rightarrow> debug_call \<Rightarrow> (string \<times> break_kind) list" where
  "call_hits d (CallInstruction addr op) = [(name, BreakInstruction addr op). (name, on) \<leftarrow> dg_instructions d, on = addr]"
| "call_hits d (CallLoad addr val) = [(name, BreakLoad addr val). (name, on) \<leftarrow> dg_loads d, on = addr]"
| "call_hits d (CallStore addr val) = [(name, BreakStore addr val). (name, on) \<leftarrow> dg_stores d, on = addr]"
| "call_hits d (CallIrq i) = [(name, BreakIrq i). (name, on) \<leftarrow> dg_irqs d, on = i]"

lemma push_breaks_hits: "push_breaks points x kind d =
    d\<lparr>dg_breaks := dg_breaks d @ [(name, kind). (name, on) \<leftarrow> points, on = x]\<rparr>"
proof -
  have "List.map (\<lambda>(name, _). (name, kind)) (filter (\<lambda>(_, on). on = x) points) =
      [(name, kind). (name, on) \<leftarrow> points, on = x]"
    by (induction points) auto
  then show ?thesis by (simp add: push_breaks_def)
qed

lemma debugger_call_hits: "debugger_call k d = d\<lparr>dg_breaks := dg_breaks d @ call_hits d k\<rparr>"
  by (cases k) (simp_all add: push_breaks_hits)

text \<open>A step records the points that its calls hit, in order, and changes nothing else of the debugger.\<close>

lemma calls_record:
  "fold debugger_call ks d = d\<lparr>dg_breaks := dg_breaks d @ concat (List.map (call_hits d) ks)\<rparr>"
proof (induction ks arbitrary: d)
  case (Cons k ks)
  have "call_hits (d\<lparr>dg_breaks := bs\<rparr>) k' = call_hits d k'" for bs k' by (cases k') simp_all
  then show ?case using Cons by (simp add: debugger_call_hits)
qed simp

text \<open>A debugger that no call hits changes nothing: a debug run is the run without a debugger.\<close>

lemma debug_loop_unhit:
  assumes "0 < t" "\<And>c k. k \<in> set (calls c) \<Longrightarrow> call_hits d k = []" "dg_breaks d = []"
  shows "debug_loop calls env fuel t time (d, c) =
    map_option (\<lambda>(r, c). (r, d, c)) (run_debug_loop env fuel t time (\<lambda>_. False) c)"
proof (induction time arbitrary: c rule: less_induct)
  case (less time)
  have "concat (List.map (call_hits d) (calls c)) = []" using assms(2) by simp
  then have step: "debug_step calls env fuel (d, c) = map_option (Pair d) (cpu_step env fuel c)"
    using assms(3) by (cases "cpu_step env fuel c") (simp_all add: debug_step_def calls_record)
  show ?case
  proof (cases "time < t")
    case True
    then show ?thesis by (simp add: debug_loop.simps [of _ _ _ _ time] run_debug_loop.simps [of _ _ _ time])
  next
    case False
    then show ?thesis
      using less.IH [of "time - t"] assms(1,3) step
      by (cases "cpu_step env fuel c")
        (simp_all add: debug_loop.simps [of _ _ _ _ time] run_debug_loop.simps [of _ _ _ time] should_break_def)
  qed
qed

text \<open>A run that ends at a break leaves the debugger stepping, and the messages tell every hit.\<close>

lemma debug_loop_break:
  assumes "0 < t" "debug_loop calls env fuel t time (d, c) = Some ((left, r), d', c')"
  shows "left \<le> time \<and> (r = Break \<longleftrightarrow> dg_breaks d' \<noteq> []) \<or> r = Timeout \<and> time < t"
  using assms(2)
proof (induction time arbitrary: d c rule: less_induct)
  case (less time)
  show ?case
  proof (cases "time < t")
    case True
    then show ?thesis using less.prems by (simp add: debug_loop.simps [of _ _ _ _ time])
  next
    case False
    then obtain d1 c1 where step: "debug_step calls env fuel (d, c) = Some (d1, c1)"
      "(if should_break d1 then Some ((time - t, Break), d1, c1) else debug_loop calls env fuel t (time - t) (d1, c1))
        = Some ((left, r), d', c')"
      using less.prems by (auto simp: debug_loop.simps [of _ _ _ _ time] bind_eq_Some_conv)
    show ?thesis
    proof (cases "should_break d1")
      case True
      then show ?thesis using step(2) by (auto simp: should_break_def)
    next
      case no: False
      then have loop: "debug_loop calls env fuel t (time - t) (d1, c1) = Some ((left, r), d', c')"
        using step(2) by simp
      show ?thesis
      proof (cases "time - t < t")
        case True
        then show ?thesis using loop no by (auto simp: debug_loop.simps [of _ _ _ _ "time - t"] should_break_def)
      next
        case ge: False
        then show ?thesis using less.IH [OF _ loop] assms(1) False by auto
      qed
    qed
  qed
qed

lemma run_break_steps:
  assumes "debugger_run calls env fuel dt (d, c) = Some (d', c')" "dg_mode d = ExecRun" "dg_mode d' = ExecRun"
    "unat (ucast (dg_hz d) :: u32) \<le> 10 ^ 9" "dg_breaks d = []"
  shows "dg_breaks d' = []"
proof -
  let ?hz = "unat (ucast (dg_hz d) :: u32)"
  let ?t = "10 ^ 9 div ?hz"
  from assms(1,2) obtain left r d1 where loop:
    "debug_loop calls env fuel ?t (dg_remainder d + dt) (d, c) = Some ((left, r), d1, c')" "?hz \<noteq> 0"
    "d' = d1\<lparr>dg_remainder := left, dg_mode := (if r = Break then ExecStep else dg_mode d1)\<rparr>"
    by (auto simp: debugger_run_def Let_def bind_eq_Some_conv split: if_splits)
  then have t: "0 < ?t" using assms(4) by (simp add: div_greater_zero_iff)
  have "r \<noteq> Break" using loop(3) assms(3) by (auto split: if_splits)
  with debug_loop_break [OF t loop(1)] loop assms(5) show ?thesis
    by (auto simp: debug_loop.simps [of _ _ _ _ "dg_remainder d + dt"])
qed

end
