(* ===== verification/FrontMenus.thy ===== *)
theory FrontMenus
  imports FrontDebug "HOL-Library.List_Lexorder" "HOL-Library.Char_ord" "HOL-Library.Product_Lexorder"
begin

text \<open>
  The windows of the debugger in \<open>crates/splst_front/src/debug.rs\<close>: the menus of break points and watch points,
  the executor, the views of memory and video memory, the tables of the devices, and the menu that opens
  them. What the user clicks is an argument and what a window draws is a list of texts; the layout, the
  picture of video memory and its scale are left out. \<open>None\<close> is a panic.
\<close>

section \<open>Break points\<close>

datatype break_point_kind = AtInstruction | AtLoad | AtStore | AtIrq

fun break_point_kind_display :: "break_point_kind \<Rightarrow> string" where
  "break_point_kind_display AtInstruction = ''Instruction''"
| "break_point_kind_display AtLoad = ''Load''"
| "break_point_kind_display AtStore = ''Store''"
| "break_point_kind_display AtIrq = ''Interrupt''"

record break_menu =
  bm_input :: string
  bm_irq :: irq
  bm_kind :: break_point_kind

definition break_menu_default :: break_menu where
  "break_menu_default = \<lparr>bm_input = [], bm_irq = GpuIrq, bm_kind = AtInstruction\<rparr>"

record break_clicks =
  bk_kind :: break_point_kind
  bk_text :: string
  bk_irq :: irq
  bk_add :: bool
  bk_remove_instruction :: "nat \<Rightarrow> bool"
  bk_remove_load :: "nat \<Rightarrow> bool"
  bk_remove_store :: "nat \<Rightarrow> bool"

definition break_menu_add :: "break_clicks \<Rightarrow> break_menu \<times> debugger \<times> popups \<Rightarrow> break_menu \<times> debugger \<times> popups" where
  "break_menu_add k = (\<lambda>(m, d, ps).
     if bm_kind m = AtIrq then
       let m = m\<lparr>bm_irq := bk_irq k\<rparr>
       in (m, if bk_add k then d\<lparr>dg_irqs := dg_irqs d @ [(irq_display (bm_irq m), bm_irq m)]\<rparr> else d, ps)
     else
       let m = m\<lparr>bm_input := bk_text k\<rparr>
       in case addr_input (bm_input m) (bk_add k) ps of
            (None, ps) \<Rightarrow> (m, d, ps)
          | (Some addr, ps) \<Rightarrow>
              let point = (bm_input m, addr); m' = m\<lparr>bm_input := []\<rparr>
              in case bm_kind m of
                   AtInstruction \<Rightarrow> (m', d\<lparr>dg_instructions := dg_instructions d @ [point]\<rparr>, ps)
                 | AtLoad \<Rightarrow> (m', d\<lparr>dg_loads := dg_loads d @ [point]\<rparr>, ps)
                 | AtStore \<Rightarrow> (m', d\<lparr>dg_stores := dg_stores d @ [point]\<rparr>, ps)
                 | AtIrq \<Rightarrow> (m', d, ps))"

text \<open>The list shows the break points of addresses, not those of interrupts.\<close>

definition break_menu_show :: "break_clicks \<Rightarrow> break_menu \<times> debugger \<times> popups \<Rightarrow> break_menu \<times> debugger \<times> popups" where
  "break_menu_show k = (\<lambda>(m, d, ps).
     let (m, d, ps) = break_menu_add k (m\<lparr>bm_kind := bk_kind k\<rparr>, d, ps)
     in (m, d\<lparr>dg_instructions := retain_rows (bk_remove_instruction k) (dg_instructions d),
              dg_loads := retain_rows (bk_remove_load k) (dg_loads d),
              dg_stores := retain_rows (bk_remove_store k) (dg_stores d)\<rparr>, ps))"

section \<open>Watch points\<close>

definition is_integer :: "value_kind \<Rightarrow> bool" where
  "is_integer kind = (case kind of PtrValue \<Rightarrow> False | _ \<Rightarrow> True)"

fun kind_name :: "value_kind \<Rightarrow> string" where
  "kind_name (ByteValue _) = ''Byte''" | "kind_name (HalfWordValue _) = ''Half Word''"
| "kind_name (WordValue _) = ''Word''" | "kind_name PtrValue = ''Pointer''"

fun int_display_name :: "int_display_mode \<Rightarrow> string" where
  "int_display_name DisplayHex = ''Hex''" | "int_display_name DisplaySigned = ''Signed''"
| "int_display_name DisplayUnsigned = ''Unsigned''"

fun set_int_mode :: "int_display_mode \<Rightarrow> value_kind \<Rightarrow> value_kind" where
  "set_int_mode mode (ByteValue _) = ByteValue mode"
| "set_int_mode mode (HalfWordValue _) = HalfWordValue mode"
| "set_int_mode mode (WordValue _) = WordValue mode"
| "set_int_mode mode PtrValue = PtrValue"

record watch_menu =
  wm_input :: string
  wm_int_mode :: int_display_mode
  wm_kind :: value_kind

definition watch_menu_default :: watch_menu where
  "watch_menu_default = \<lparr>wm_input = [], wm_int_mode = DisplayHex, wm_kind = WordValue DisplayHex\<rparr>"

text \<open>The four entries of the kind, and for each row its display and its button.\<close>

datatype watch_choice = ChooseByte | ChooseHalfWord | ChooseWord | ChoosePtr

fun chosen_kind :: "watch_choice \<Rightarrow> int_display_mode \<Rightarrow> value_kind" where
  "chosen_kind ChooseByte mode = ByteValue mode" | "chosen_kind ChooseHalfWord mode = HalfWordValue mode"
| "chosen_kind ChooseWord mode = WordValue mode" | "chosen_kind ChoosePtr mode = PtrValue"

record watch_clicks =
  wk_choice :: "watch_choice option"
  wk_mode :: int_display_mode
  wk_text :: string
  wk_add :: bool
  wk_row_mode :: "nat \<Rightarrow> int_display_mode option"
  wk_remove :: "nat \<Rightarrow> bool"

definition watch_row_modes :: "watch_clicks \<Rightarrow> watch_point list \<Rightarrow> watch_point list" where
  "watch_row_modes k points = List.map (\<lambda>(i, p). case wk_row_mode k i of
     Some mode \<Rightarrow> p\<lparr>wp_kind := set_int_mode mode (wp_kind p)\<rparr> | None \<Rightarrow> p) (enumerate 0 points)"

definition watch_menu_add :: "watch_clicks \<Rightarrow> watch_menu \<times> debugger \<times> popups \<Rightarrow> watch_menu \<times> debugger \<times> popups" where
  "watch_menu_add k = (\<lambda>(m, d, ps).
     let m = m\<lparr>wm_kind := (case wk_choice k of Some c \<Rightarrow> chosen_kind c (wm_int_mode m) | None \<Rightarrow> wm_kind m)\<rparr>;
         m = (if is_integer (wm_kind m) then m\<lparr>wm_int_mode := wk_mode k\<rparr> else m);
         m = m\<lparr>wm_input := wk_text k\<rparr>
     in if wk_add k
        then (m\<lparr>wm_input := (if parse_hex (wm_input m) = None then wm_input m else [])\<rparr>,
              add_watch (wm_kind m) (wm_input m) (d, ps))
        else (m, d, ps))"

text \<open>The rows are the texts of the watch points, drawn before their display is changed.\<close>

definition watch_menu_show ::
  "sys_dev devices \<Rightarrow> sys_dev bus \<Rightarrow> watch_clicks \<Rightarrow> watch_menu \<times> debugger \<times> popups \<Rightarrow>
     ((string \<times> string) list \<times> watch_menu \<times> debugger \<times> popups) option" where
  "watch_menu_show dv b k s = (case watch_menu_add k s of (m, d, ps) \<Rightarrow> do {
     texts \<leftarrow> sequence_options (List.map (watch_text dv b) (dg_watch d));
     Some (zip (List.map wp_name (dg_watch d)) texts, m,
           d\<lparr>dg_watch := retain_rows (wk_remove k) (watch_row_modes k (dg_watch d))\<rparr>, ps) })"

section \<open>The executor and the views of memory\<close>

text \<open>The slider keeps the rate between 1 and 30 million.\<close>

definition executor_show :: "execute_mode \<Rightarrow> u64 \<Rightarrow> bool \<Rightarrow> debugger \<Rightarrow> debugger" where
  "executor_show mode hz step_clicked d =
     d\<lparr>dg_mode := mode, dg_hz := max 1 (min 30000000 hz), dg_stepped := step_clicked\<rparr>"

record memory_clicks =
  mk_mode :: memory_mode
  mk_text :: string
  mk_find :: bool
  mk_up :: bool
  mk_down :: bool
  mk_follow :: "nat \<Rightarrow> bool"

text \<open>A row of values has a button that goes to the address it holds, for the next frame.\<close>

definition follow_row :: "sys_dev devices \<Rightarrow> sys_dev bus \<Rightarrow> u32 \<Rightarrow> nat \<Rightarrow> memory_menu \<Rightarrow> memory_menu option" where
  "follow_row dv b start row m =
     map_option (\<lambda>v. case v of Some a \<Rightarrow> m\<lparr>mm_addr := a\<rparr> | None \<Rightarrow> m)
       (bus_peek dv FullWord (start + word_of_nat row * 4) b)"

definition follow_rows :: "sys_dev devices \<Rightarrow> sys_dev bus \<Rightarrow> (nat \<Rightarrow> bool) \<Rightarrow> memory_menu \<Rightarrow> memory_menu option" where
  "follow_rows dv b clicked m =
     (if mm_mode m = MemValue
      then fold (\<lambda>row m'. Option.bind m' (follow_row dv b (menu_start m) row)) (filter clicked [0..<MENU_ROWS]) (Some m)
      else Some m)"

definition memory_menu_show ::
  "sys_dev devices \<Rightarrow> sys_dev bus \<Rightarrow> memory_clicks \<Rightarrow> memory_menu \<times> popups \<Rightarrow>
     ((string \<times> string list) list \<times> memory_menu \<times> popups) option" where
  "memory_menu_show dv b k = (\<lambda>(m, ps).
     let m = m\<lparr>mm_mode := mk_mode k\<rparr>;
         (addr, ps) = addr_input (mk_text k) (mk_find k) ps;
         m = (if mk_up k then menu_up m else m);
         m = (if mk_down k then menu_down m else m);
         m = (case addr of Some a \<Rightarrow> m\<lparr>mm_addr := a\<rparr> | None \<Rightarrow> m)
     in Option.bind (menu_rows dv b m) (\<lambda>rows. map_option (\<lambda>m. (rows, m, ps)) (follow_rows dv b (mk_follow k) m)))"

record vram_menu =
  vm_x :: int
  vm_y :: int
  vm_image :: "u8 list option"

definition vram_menu_default :: vram_menu where
  "vram_menu_default = \<lparr>vm_x = 0, vm_y = 0, vm_image = None\<rparr>"

definition vram_cell :: "u16 \<Rightarrow> string" where
  "vram_cell v = List.map (\<lambda>shift. hex_digit (unat (drop_bit shift v AND 0xf))) [12, 8, 4, 0]"

text \<open>The first row are the columns.\<close>

definition vram_rows :: "vram \<Rightarrow> vram_menu \<Rightarrow> string list list" where
  "vram_rows v m =
     ([] # List.map (\<lambda>i. fmt_int (vm_x m + int i)) [0..<8]) #
     List.map (\<lambda>j. fmt_int (vm_y m + int j) # List.map (\<lambda>i. vram_cell (load_16 (vm_x m + int i) (vm_y m + int j) v)) [0..<8])
       [0..<8]"

definition vram_menu_show :: "vram \<Rightarrow> int \<times> int \<times> bool \<Rightarrow> vram_menu \<Rightarrow> string list list \<times> vram_menu" where
  "vram_menu_show v clicks m = (case clicks of (x, y, dump_clicked) \<Rightarrow>
     let m = m\<lparr>vm_x := x, vm_y := y\<rparr>
     in (vram_rows v m, if dump_clicked then m\<lparr>vm_image := Some (to_rgba v)\<rparr> else m))"

section \<open>The tables of the devices\<close>

text \<open>A table is a list of parts, each with a heading; a part that is folded is not drawn.\<close>

type_synonym table = "(string \<times> string list list) list"
type_synonym unfolded = "string \<Rightarrow> bool"

definition part :: "unfolded \<Rightarrow> string \<Rightarrow> string list list \<Rightarrow> string \<times> string list list" where
  "part u heading rows = (heading, if u heading then rows else [])"

fun grid_row :: "dump_row \<Rightarrow> string list" where
  "grid_row (DumpUnit label v) = [label, hex_pad 8 v]"
| "grid_row (DumpText label s) = [label, s]"

definition grid :: "dump \<Rightarrow> string list list" where "grid d = List.map grid_row d"

definition current_instruction :: "sys_dev devices \<Rightarrow> sys_cpu \<Rightarrow> opcode option" where
  "current_instruction dv c =
     map_option (\<lambda>v. case v of Some op \<Rightarrow> op | None \<Rightarrow> 0xffffffff) (bus_peek dv FullWord (c_pc c) (c_bus c))"

definition show_cpu :: "sys_dev devices \<Rightarrow> sys_cpu \<Rightarrow> table option" where
  "show_cpu dv c = map_option (\<lambda>op.
     [([], [[''hi'', fmt_u32 (c_hi c)], [''lo'', fmt_u32 (c_lo c)], [''pc'', hex_pad 8 (c_pc c)],
            [''instruction'', opcode_display op]] @ grid (registers_dump (c_regs c)))]) (current_instruction dv c)"

definition show_irq :: "sys_cpu \<Rightarrow> table" where
  "show_irq c =
     (let st = b_irq (c_bus c)
      in [([], [''interrupt'', ''active'', ''masked''] #
            List.map (\<lambda>i. [irq_display i, fmt_bool (irq_is_triggered i st), fmt_bool (irq_is_masked i st)]) IRQ_ITEMS)])"

definition show_timers :: "unfolded \<Rightarrow> sys_cpu \<Rightarrow> table" where
  "show_timers u c =
     List.map (\<lambda>id. part u (timer_id_display id) (grid (timer_dump (fst (b_timers (c_bus c) id))))) [Tmr0, Tmr1, Tmr2]"

definition show_io_port :: "unfolded \<Rightarrow> sys_cpu \<Rightarrow> table" where
  "show_io_port u c =
     (let p = sy_io (b_dev (c_bus c))
      in [([], grid (io_dump p)), part u ''Status Register'' (grid (io_status_dump (io_status_reg p))),
          part u ''Control Register'' (grid (io_control_dump (io_control p))),
          part u ''Mode Register'' (grid (io_mode_dump (io_mode p)))])"

text \<open>Events are sorted as triples of texts. The run time is in minutes, seconds and milliseconds.\<close>

definition show_time :: "systime \<Rightarrow> string" where
  "show_time t =
     (let secs = as_duration t div 10 ^ 9; millis = as_duration t div 10 ^ 6 mod 1000
      in dec_str (secs div 60) @ '','' @ dec_str (secs mod 60) @ ''.'' @ dec_str millis)"

definition event_rows :: "schedule \<Rightarrow> (string \<times> string \<times> string) list" where
  "event_rows sch = sort (List.map (\<lambda>e.
     (fmt_word (as_cpu_cycles (saturating_sub (entry_ready e) (sched_now sch))),
      repeat_display (entry_mode e), event_display (entry_event e))) (iter_event_entries sch))"

definition show_schedule :: "sys_cpu \<Rightarrow> table" where
  "show_schedule c =
     (let sch = b_sched (c_bus c)
      in [([], [[''CPU Cycles'', fmt_word (as_cpu_cycles (sched_now sch))], [''Run Time'', show_time (sched_now sch)]]),
          ([], [''Ready'', ''Repeat Mode'', ''Event''] # List.map (\<lambda>(r, m, e). [r, m, e]) (event_rows sch))])"

definition show_gpu :: "unfolded \<Rightarrow> sys_cpu \<Rightarrow> table" where
  "show_gpu u c =
     (let g = sy_gpu (b_dev (c_bus c))
      in [part u ''Internal'' (grid (gpu_dump g)), part u ''Status Register'' (grid (status_dump (g_status g)))])"

definition DMA_HEADINGS :: "(string \<times> port) list" where
  "DMA_HEADINGS =
     [(''MDEC in'', MdecIn), (''MDEC out'', MdecOut), (''GPU'', GpuPort), (''CD-ROM'', CdRomPort), (''SPU'', SpuPort),
      (''PIO'', Pio), (''OTC'', Otc)]"

definition show_channel :: "unfolded \<Rightarrow> dma \<Rightarrow> string \<times> port \<Rightarrow> (string \<times> string list list) option" where
  "show_channel u d = (\<lambda>(heading, p).
     if u heading then map_option (\<lambda>rows. (heading, grid rows)) (chan_dump (dma_channels d p)) else Some (heading, []))"

definition show_dma :: "unfolded \<Rightarrow> sys_cpu \<Rightarrow> table option" where
  "show_dma u c =
     (let d = b_dma (c_bus c)
      in map_option ((#) (part u ''Interrupt Register'' (grid (irq_reg_dump (dma_irq d)))))
           (sequence_options (List.map (show_channel u d) DMA_HEADINGS)))"

definition show_gte :: "unfolded \<Rightarrow> sys_cpu \<Rightarrow> table" where
  "show_gte u c =
     [part u ''Data Registers'' (grid (gte_data_dump (c_gte c))),
      part u ''Control Registers'' (grid (gte_control_dump (c_gte c)))]"

definition show_cdrom :: "sys_cpu \<Rightarrow> table" where
  "show_cdrom c = [([], grid (cdrom_dump (sy_cdrom (b_dev (c_bus c)))))]"

definition STATELESS_MENUS :: "(string \<times> (unfolded \<Rightarrow> sys_dev devices \<Rightarrow> sys_cpu \<Rightarrow> table option)) list" where
  "STATELESS_MENUS =
     [(''CPU'', \<lambda>_. show_cpu), (''IRQ'', \<lambda>_ _ c. Some (show_irq c)), (''Timers'', \<lambda>u _ c. Some (show_timers u c)),
      (''I/O port'', \<lambda>u _ c. Some (show_io_port u c)), (''Schedule'', \<lambda>_ _ c. Some (show_schedule c)),
      (''GPU'', \<lambda>u _ c. Some (show_gpu u c)), (''DMA'', \<lambda>u _ c. show_dma u c),
      (''GTE'', \<lambda>u _ c. Some (show_gte u c)), (''CD-ROM'', \<lambda>_ _ c. Some (show_cdrom c))]"

section \<open>The menu\<close>

datatype run_mode = DebugMode | EmulationMode

record debug_menu =
  dm_open :: bool
  dm_debugger :: debugger
  dm_popups :: popups
  dm_break :: "break_menu \<times> bool"
  dm_watch :: "watch_menu \<times> bool"
  dm_executor :: bool
  dm_stateless :: "bool list"
  dm_memory :: "memory_menu list"
  dm_vram :: "vram_menu list"

definition debug_menu_default :: debug_menu where
  "debug_menu_default =
     \<lparr>dm_open = False, dm_debugger = debugger_default, dm_popups = [], dm_break = (break_menu_default, False),
      dm_watch = (watch_menu_default, False), dm_executor = False, dm_stateless = replicate 9 False,
      dm_memory = [], dm_vram = []\<rparr>"

definition toggle_open :: "debug_menu \<Rightarrow> debug_menu" where "toggle_open m = m\<lparr>dm_open := \<not> dm_open m\<rparr>"

definition run_debugger ::
  "(sys_cpu \<Rightarrow> debug_call list) \<Rightarrow> sys_env \<Rightarrow> nat \<Rightarrow> nat \<Rightarrow> debug_menu \<times> sys_cpu \<Rightarrow> (debug_menu \<times> sys_cpu) option" where
  "run_debugger calls env fuel dt = (\<lambda>(m, c).
     map_option (\<lambda>(d, c). (m\<lparr>dm_debugger := d\<rparr>, c)) (debugger_run calls env fuel dt (dm_debugger m, c)))"

text \<open>
  What is done in a frame: in each window, and whether it is closed; in the side panel, the mode, the check boxes
  of the windows, and the buttons that open a view of memory or video memory.
\<close>

record menu_clicks =
  dk_break :: "break_clicks \<times> bool"
  dk_watch :: "watch_clicks \<times> bool"
  dk_executor :: "(execute_mode \<times> u64 \<times> bool) \<times> bool"
  dk_stateless :: "nat \<Rightarrow> bool"
  dk_unfolded :: "nat \<Rightarrow> unfolded"
  dk_memory :: "nat \<Rightarrow> memory_clicks \<times> bool"
  dk_vram :: "nat \<Rightarrow> (int \<times> int \<times> bool) \<times> bool"
  dk_popups :: "nat \<Rightarrow> bool"
  dk_mode :: run_mode
  dk_boxes :: "bool \<times> bool \<times> bool \<times> bool list"
  dk_new_memory :: bool
  dk_new_vram :: bool

definition show_break_window :: "menu_clicks \<Rightarrow> debug_menu \<Rightarrow> debug_menu" where
  "show_break_window k m =
     (if snd (dm_break m)
      then let (bm, d, ps) = break_menu_show (fst (dk_break k)) (fst (dm_break m), dm_debugger m, dm_popups m)
           in m\<lparr>dm_break := (bm, \<not> snd (dk_break k)), dm_debugger := d, dm_popups := ps\<rparr>
      else m)"

definition show_watch_window :: "sys_dev devices \<Rightarrow> sys_cpu \<Rightarrow> menu_clicks \<Rightarrow> debug_menu \<Rightarrow> debug_menu option" where
  "show_watch_window dv c k m =
     (if snd (dm_watch m)
      then map_option (\<lambda>(_, wm, d, ps). m\<lparr>dm_watch := (wm, \<not> snd (dk_watch k)), dm_debugger := d, dm_popups := ps\<rparr>)
             (watch_menu_show dv (c_bus c) (fst (dk_watch k)) (fst (dm_watch m), dm_debugger m, dm_popups m))
      else Some m)"

definition show_executor_window :: "menu_clicks \<Rightarrow> debug_menu \<Rightarrow> debug_menu" where
  "show_executor_window k m =
     (if dm_executor m
      then case dk_executor k of ((mode, hz, step_clicked), closed) \<Rightarrow>
             m\<lparr>dm_debugger := executor_show mode hz step_clicked (dm_debugger m), dm_executor := \<not> closed\<rparr>
      else m)"

text \<open>The tables of the open windows, which the model computes for their panics only.\<close>

definition show_tables :: "sys_dev devices \<Rightarrow> sys_cpu \<Rightarrow> menu_clicks \<Rightarrow> debug_menu \<Rightarrow> debug_menu option" where
  "show_tables dv c k m =
     (let windows = enumerate 0 (zip STATELESS_MENUS (dm_stateless m));
          drawn = sequence_options (List.map (\<lambda>(i, (_, show), _). show (dk_unfolded k i) dv c) (filter (snd \<circ> snd) windows))
      in map_option (\<lambda>_. m\<lparr>dm_stateless :=
             List.map (\<lambda>(i, open). open \<and> \<not> dk_stateless k i) (enumerate 0 (dm_stateless m))\<rparr>) drawn)"

fun show_memories ::
  "sys_dev devices \<Rightarrow> sys_cpu \<Rightarrow> (nat \<Rightarrow> memory_clicks) \<Rightarrow> nat \<Rightarrow> memory_menu list \<Rightarrow> popups \<Rightarrow>
     (memory_menu list \<times> popups) option" where
  "show_memories dv c k i [] ps = Some ([], ps)"
| "show_memories dv c k i (mm # mms) ps = do {
     (_, mm, ps) \<leftarrow> memory_menu_show dv (c_bus c) (k i) (mm, ps);
     (mms, ps) \<leftarrow> show_memories dv c k (Suc i) mms ps;
     Some (mm # mms, ps) }"

definition show_views :: "sys_dev devices \<Rightarrow> sys_cpu \<Rightarrow> menu_clicks \<Rightarrow> debug_menu \<Rightarrow> debug_menu option" where
  "show_views dv c k m =
     map_option (\<lambda>(mms, ps). m\<lparr>
         dm_memory := retain_rows (\<lambda>i. snd (dk_memory k i)) mms,
         dm_vram := retain_rows (\<lambda>i. snd (dk_vram k i))
           (List.map (\<lambda>(i, vm). snd (vram_menu_show (g_vram (sy_gpu (b_dev (c_bus c)))) (fst (dk_vram k i)) vm))
             (enumerate 0 (dm_vram m))),
         dm_popups := popups_show (dk_popups k) ps\<rparr>)
       (show_memories dv c (\<lambda>i. fst (dk_memory k i)) 0 (dm_memory m) (dm_popups m))"

text \<open>The check boxes and buttons are disabled while the system runs at native speed.\<close>

definition show_panel :: "menu_clicks \<Rightarrow> debug_menu \<times> run_mode \<Rightarrow> debug_menu \<times> run_mode" where
  "show_panel k = (\<lambda>(m, mode).
     if \<not> dm_open m then (m, mode)
     else
       let mode = dk_mode k
       in (if mode = DebugMode
           then case dk_boxes k of (br, wt, ex, sl) \<Rightarrow>
             m\<lparr>dm_break := (fst (dm_break m), br), dm_watch := (fst (dm_watch m), wt), dm_executor := ex,
               dm_stateless := map2 (\<lambda>_ open. open) (dm_stateless m) sl,
               dm_memory := dm_memory m @ (if dk_new_memory k then [\<lparr>mm_mode = MemValue, mm_addr = 0\<rparr>] else []),
               dm_vram := dm_vram m @ (if dk_new_vram k then [vram_menu_default] else [])\<rparr>
           else m, mode))"

definition debug_menu_show ::
  "sys_dev devices \<Rightarrow> sys_cpu \<Rightarrow> menu_clicks \<Rightarrow> debug_menu \<times> run_mode \<Rightarrow> (debug_menu \<times> run_mode) option" where
  "debug_menu_show dv c k = (\<lambda>(m, mode).
     let (d, ps) = drain_breaks (dm_debugger m, dm_popups m);
         m = m\<lparr>dm_debugger := d, dm_popups := ps\<rparr>;
         shown = (if mode = DebugMode
           then do {
             m \<leftarrow> show_watch_window dv c k (show_break_window k m);
             m \<leftarrow> show_tables dv c k (show_executor_window k m);
             show_views dv c k m }
           else Some m)
     in map_option (\<lambda>m. show_panel k (m, mode)) shown)"

section \<open>What the menus do\<close>

text \<open>A break point of an interrupt that was added stays, whatever is clicked.\<close>

lemma irq_breaks_stay:
  assumes "break_menu_show k (m, d, ps) = (m', d', ps')"
  shows "\<exists>added. dg_irqs d' = dg_irqs d @ added"
  using assms
  by (auto simp: break_menu_show_def break_menu_add_def Let_def split: prod.splits option.splits break_point_kind.splits if_splits)

text \<open>The display that was chosen is not that of the next watch point, unless the kind is chosen again.\<close>

lemma watch_display_ignored:
  assumes "wk_choice k = None" "wm_kind m = WordValue DisplayHex" "wk_add k" "parse_hex (wk_text k) = Some addr"
  shows "\<exists>m' d' ps'. watch_menu_add k (m, d, ps) = (m', d', ps') \<and> wm_int_mode m' = wk_mode k
    \<and> wp_kind (last (dg_watch d')) = WordValue DisplayHex"
  using assms by (simp add: watch_menu_add_def add_watch_def addr_input_def is_integer_def Let_def)

text \<open>The events are listed by the text of their time: ten cycles come before nine.\<close>

lemma event_rows_by_text:
  "event_rows \<lparr>next_event_id = 2, sched_now = 0, sched_events =
       [\<lparr>entry_event = EvIrqCheck, entry_ready = systime_new 9, entry_mode = Once, entry_id = 0\<rparr>,
        \<lparr>entry_event = EvIrqCheck, entry_ready = systime_new 10, entry_mode = Once, entry_id = 1\<rparr>],
       sched_next_event = systime_new 9\<rparr>
   = [(''10'', ''once'', ''interrupt check''), (''9'', ''once'', ''interrupt check'')]"
  by code_simp

text \<open>The table of the DMA controller cannot be drawn while an unfolded channel has the reserved mode.\<close>

lemma show_dma_panics:
  "show_dma u c = None \<longleftrightarrow>
     (\<exists>(heading, p)\<in>set DMA_HEADINGS. u heading \<and> bit_range (cs_ctrl (dma_channels (b_dma (c_bus c)) p)) 9 10 = 3)"
proof -
  have seq: "sequence_options xs = None \<longleftrightarrow> None \<in> set xs" for xs :: "'a option list"
  proof (induction xs)
    case (Cons x xs)
    then show ?case by (cases x; cases "sequence_options xs") auto
  qed simp
  have chan: "show_channel u d (heading, p) = None \<longleftrightarrow> u heading \<and> bit_range (cs_ctrl (dma_channels d p)) 9 10 = 3"
    for d heading p by (simp add: show_channel_def chan_dump_panics)
  show ?thesis
    by (simp add: show_dma_def Let_def seq image_iff split_beta chan [symmetric] eq_commute [of None])
qed

text \<open>While the system runs at native speed the messages of the debugger wait.\<close>

lemma emulation_keeps_messages:
  assumes "debug_menu_show dv c k (m, EmulationMode) = Some (m', mode')"
  shows "\<exists>new. dm_popups m' = dm_popups m @ new \<and> dg_breaks (dm_debugger m') = []"
proof -
  have msgs: "\<exists>new. fold (\<lambda>(name, kind). popups_add (''Hit '' @ name) (''Broke '' @ break_display kind)) bs ps = ps @ new"
    for bs ps
  proof (induction bs arbitrary: ps)
    case (Cons b bs)
    show ?case using Cons [of "popups_add (''Hit '' @ fst b) (''Broke '' @ break_display (snd b)) ps"]
      by (auto simp: popups_add_def split_beta)
  qed simp
  show ?thesis
    using assms msgs [of "dg_breaks (dm_debugger m)" "dm_popups m"]
    by (auto simp: debug_menu_show_def drain_breaks_def show_panel_def Let_def split: if_splits prod.splits)
qed

end
