(* ===== verification/FrontLoop.thy ===== *)
theory FrontLoop
  imports Settings FrontMenus
begin

text \<open>
  The program that the user starts: the start menu of \<open>crates/splst_front/src/start_menu.rs\<close>, the messages of
  \<open>gui.rs\<close> and the event loop of \<open>lib.rs\<close> with its two stages. Instants are nanoseconds; the window, the
  graphics and the audio device are outside. The pads, cards and the disc, which the code shares with the
  system, are those of the system once it exists. \<open>None\<close> is a panic, as in the models of the parts.
\<close>

section \<open>The state\<close>

record running =
  rn_system :: sys_cpu
  rn_menu :: debug_menu
  rn_last_update :: nat
  rn_mode :: run_mode
  rn_settings :: bool

datatype stage = StartStage popups | RunningStage running

datatype flow = PollFlow | WaitUntil nat | ExitLoop

record app =
  ap_stage :: stage
  ap_config :: config
  ap_key_map :: key_map
  ap_popups :: popups
  ap_pads :: game_pads
  ap_cards :: mem_cards
  ap_disc :: "cd_image option"
  ap_files :: file_system
  ap_last_draw :: nat
  ap_redraw :: bool
  ap_flow :: flow

text \<open>What the loop is given: the settings' environment, the machine, the debugger's calls, the time between frames.\<close>

record app_env =
  ae_settings :: settings_env
  ae_sys :: sys_env
  ae_fuel :: nat
  ae_calls :: "sys_cpu \<Rightarrow> debug_call list"
  ae_frame_time :: nat

definition app_devices :: "app_env \<Rightarrow> sys_dev devices" where "app_devices E = e_dev (ae_sys E)"

section \<open>Shared state\<close>

definition upd_dev :: "(sys_dev \<Rightarrow> sys_dev) \<Rightarrow> sys_cpu \<Rightarrow> sys_cpu" where
  "upd_dev f c = c\<lparr>c_bus := (c_bus c)\<lparr>b_dev := f (b_dev (c_bus c))\<rparr>\<rparr>"

definition share_in :: "game_pads \<Rightarrow> mem_cards \<Rightarrow> cd_image option \<Rightarrow> sys_cpu \<Rightarrow> sys_cpu" where
  "share_in pads cards disc = upd_dev (\<lambda>d. d\<lparr>
     sy_io := (sy_io d)\<lparr>io_pads := pads, io_cards := cards\<rparr>, sy_cdrom := (sy_cdrom d)\<lparr>cr_disc := disc\<rparr>\<rparr>)"

definition shared :: "app \<Rightarrow> game_pads \<times> mem_cards \<times> cd_image option" where
  "shared a = (case ap_stage a of
     StartStage _ \<Rightarrow> (ap_pads a, ap_cards a, ap_disc a)
   | RunningStage r \<Rightarrow>
       let d = b_dev (c_bus (rn_system r)) in (io_pads (sy_io d), io_cards (sy_io d), cr_disc (sy_cdrom d)))"

definition set_shared :: "game_pads \<times> mem_cards \<times> cd_image option \<Rightarrow> app \<Rightarrow> app" where
  "set_shared = (\<lambda>(pads, cards, disc) a. case ap_stage a of
     StartStage _ \<Rightarrow> a\<lparr>ap_pads := pads, ap_cards := cards, ap_disc := disc\<rparr>
   | RunningStage r \<Rightarrow> a\<lparr>ap_stage := RunningStage (r\<lparr>rn_system := share_in pads cards disc (rn_system r)\<rparr>)\<rparr>)"

text \<open>The settings window works on a part of the state; \<open>ps\<close> are the messages it adds to.\<close>

definition settings_world_of :: "popups \<Rightarrow> app \<Rightarrow> settings_world" where
  "settings_world_of ps a = (case shared a of (pads, cards, disc) \<Rightarrow>
     \<lparr>sw_config = ap_config a, sw_pads = pads, sw_cards = cards, sw_disc = disc, sw_popups = ps, sw_files = ap_files a\<rparr>)"

definition set_settings_world :: "settings_world \<Rightarrow> app \<Rightarrow> app" where
  "set_settings_world w a =
     set_shared (sw_pads w, sw_cards w, sw_disc w) (a\<lparr>ap_config := sw_config w, ap_files := sw_files w\<rparr>)"

section \<open>The start menu\<close>

record start_clicks =
  sk_config :: config_clicks
  sk_popups :: "nat \<Rightarrow> bool"
  sk_start :: bool
  sk_debug :: bool

text \<open>Without a BIOS the user is told so, and the section of the BIOS is unfolded in the next frame.\<close>

definition start_take_bios :: "popups \<times> app \<Rightarrow> bios_file option \<times> popups \<times> app" where
  "start_take_bios = (\<lambda>(ps, a).
     case take_bios (ap_files a) (cf_bios (ap_config a), ps) of
       (Some b, cfg, ps) \<Rightarrow> (Some b, ps, a\<lparr>ap_config := (ap_config a)\<lparr>cf_bios := cfg\<rparr>\<rparr>)
     | (None, cfg, ps) \<Rightarrow>
         (None, popups_add ''No BIOS'' ''A BIOS must be loaded to start the emulator'' ps,
          a\<lparr>ap_config := (ap_config a)\<lparr>cf_bios := cfg, cf_show_bios := True\<rparr>\<rparr>))"

definition start_buttons :: "start_clicks \<Rightarrow> popups \<times> app \<Rightarrow> (bios_file \<times> run_mode) option \<times> popups \<times> app" where
  "start_buttons k s =
     (let (out, s) = (if sk_start k
            then let (b, s) = start_take_bios s in (map_option (\<lambda>b. (b, EmulationMode)) b, s) else (None, s))
      in if sk_debug k
         then let (b, s) = start_take_bios s in (map_option (\<lambda>b. (b, DebugMode)) b, s) else (out, s))"

definition start_menu_show ::
  "app_env \<Rightarrow> start_clicks \<Rightarrow> popups \<times> app \<Rightarrow> ((bios_file \<times> run_mode) option \<times> popups \<times> app) option" where
  "start_menu_show E k = (\<lambda>(ps, a).
     map_option (\<lambda>w. start_buttons k (sw_popups w, set_settings_world w a))
       (show_inside (ae_settings E) False (sk_config k) (settings_world_of (popups_show (sk_popups k) ps) a)))"

text \<open>\<open>run\<close>: the new system gets the BIOS, the shared state and the executable, if one is loaded.\<close>

definition start_system :: "app_env \<Rightarrow> nat \<Rightarrow> bios_file \<Rightarrow> run_mode \<Rightarrow> app \<Rightarrow> app option" where
  "start_system E now b mode a =
     (let (pads, cards, disc) = shared a;
          sys = system_new (bf_bios b) disc pads cards;
          (x, cfg) = take_exe (cf_exe (ap_config a));
          a = a\<lparr>ap_config := (ap_config a)\<lparr>cf_exe := cfg\<rparr>\<rparr>
      in map_option (\<lambda>sys. a\<lparr>ap_stage := RunningStage
             \<lparr>rn_system = sys, rn_menu = debug_menu_default, rn_last_update = now, rn_mode = mode, rn_settings = False\<rparr>\<rparr>)
           (case x of Some x \<Rightarrow> load_exe (ae_sys E) x sys | None \<Rightarrow> Some sys))"

section \<open>The events\<close>

definition app_init :: "app_env \<Rightarrow> file_system \<Rightarrow> nat \<Rightarrow> app option" where
  "app_init E fs now =
     (let (cfg, ps) = from_file_or_default (se_toml (ae_settings E)) fs (se_dir (ae_settings E)) []
      in map_option (\<lambda>(keys, ps).
           \<lparr>ap_stage = StartStage [], ap_config = cfg, ap_key_map = keys, ap_popups = ps,
            ap_pads = update_pads (cf_pads cfg) (\<lambda>_. None), ap_cards = (\<lambda>_. None), ap_disc = None, ap_files = fs,
            ap_last_draw = now, ap_redraw = False, ap_flow = PollFlow\<rparr>) (get_key_map (cf_pads cfg) ps))"

definition redraw_events_cleared :: "app_env \<Rightarrow> nat \<Rightarrow> bool \<Rightarrow> app \<Rightarrow> app" where
  "redraw_events_cleared E now pending a =
     (let dt = now - ap_last_draw a;
          due = (case ap_stage a of
            RunningStage r \<Rightarrow> (case rn_mode r of
                EmulationMode \<Rightarrow> pending | DebugMode \<Rightarrow> dt \<ge> ae_frame_time E \<or> pending)
          | StartStage _ \<Rightarrow> dt \<ge> ae_frame_time E)
      in if due then a\<lparr>ap_redraw := True, ap_last_draw := now\<rparr> else a)"

text \<open>The keyboard: \<open>running_key\<close> and \<open>start_menu_key\<close> on the part of the state that they use.\<close>

definition front_of :: "app \<Rightarrow> front" where
  "front_of a = \<lparr>
     fr_menu_open = (case ap_stage a of RunningStage r \<Rightarrow> dm_open (rn_menu r) | StartStage _ \<Rightarrow> False),
     fr_show_settings = (case ap_stage a of RunningStage r \<Rightarrow> rn_settings r | StartStage _ \<Rightarrow> False),
     fr_config = cf_pads (ap_config a), fr_key_map = ap_key_map a, fr_pads = fst (shared a), fr_popups = ap_popups a\<rparr>"

definition set_front :: "front \<Rightarrow> app \<Rightarrow> app" where
  "set_front f a =
     (let a = a\<lparr>ap_config := (ap_config a)\<lparr>cf_pads := fr_config f\<rparr>, ap_key_map := fr_key_map f, ap_popups := fr_popups f,
            ap_stage := (case ap_stage a of
              RunningStage r \<Rightarrow> RunningStage (r\<lparr>rn_menu := (rn_menu r)\<lparr>dm_open := fr_menu_open f\<rparr>, rn_settings := fr_show_settings f\<rparr>)
            | StartStage ps \<Rightarrow> StartStage ps)\<rparr>
      in case shared a of (_, cards, disc) \<Rightarrow> set_shared (fr_pads f, cards, disc) a)"

definition keyboard_input :: "key_code option \<Rightarrow> bool \<Rightarrow> app \<Rightarrow> app option" where
  "keyboard_input key pressed a =
     map_option (\<lambda>(_, f). set_front f a)
       (case ap_stage a of
          RunningStage _ \<Rightarrow> running_key key pressed (front_of a)
        | StartStage _ \<Rightarrow> start_menu_key key pressed (front_of a))"

text \<open>A frame. \<open>gui.rs\<close> shows its own messages first; the start menu has messages of its own.\<close>

record frame_clicks =
  gk_popups :: "nat \<Rightarrow> bool"
  gk_menu :: menu_clicks
  gk_config :: config_clicks
  gk_start :: start_clicks

definition redraw_running :: "app_env \<Rightarrow> frame_clicks \<Rightarrow> running \<Rightarrow> app \<Rightarrow> app option" where
  "redraw_running E k r a = do {
     (menu, mode) \<leftarrow> debug_menu_show (app_devices E) (rn_system r) (gk_menu k) (rn_menu r, rn_mode r);
     let a = a\<lparr>ap_stage := RunningStage (r\<lparr>rn_menu := menu, rn_mode := mode\<rparr>)\<rparr>;
     if rn_settings r
     then map_option (\<lambda>w. (set_settings_world w a)\<lparr>ap_popups := sw_popups w\<rparr>)
            (show_inside (ae_settings E) True (gk_config k) (settings_world_of (ap_popups a) a))
     else Some a }"

definition redraw_requested :: "app_env \<Rightarrow> nat \<Rightarrow> frame_clicks \<Rightarrow> app \<Rightarrow> app option" where
  "redraw_requested E now k a =
     (let a = a\<lparr>ap_redraw := False, ap_popups := popups_show (gk_popups k) (ap_popups a)\<rparr>
      in case ap_stage a of
           RunningStage r \<Rightarrow> redraw_running E k r a
         | StartStage ps \<Rightarrow> do {
             (out, ps, a) \<leftarrow> start_menu_show E (gk_start k) (ps, a);
             let a = a\<lparr>ap_stage := StartStage ps\<rparr>;
             case out of None \<Rightarrow> Some a | Some (b, mode) \<Rightarrow> start_system E now b mode a })"

text \<open>The system runs: \<open>before\<close> and \<open>after\<close> are the instants around the run, a millisecond at native speed.\<close>

definition main_events_cleared :: "app_env \<Rightarrow> nat \<Rightarrow> nat \<Rightarrow> app \<Rightarrow> app option" where
  "main_events_cleared E before after a =
     (case ap_stage a of
        StartStage _ \<Rightarrow> Some a
      | RunningStage r \<Rightarrow>
          (case rn_mode r of
             DebugMode \<Rightarrow>
               map_option (\<lambda>(menu, sys). a\<lparr>ap_stage := RunningStage (r\<lparr>rn_menu := menu, rn_system := sys, rn_last_update := after\<rparr>)\<rparr>)
                 (run_debugger (ae_calls E) (ae_sys E) (ae_fuel E) (before - rn_last_update r) (rn_menu r, rn_system r))
           | EmulationMode \<Rightarrow>
               map_option (\<lambda>sys.
                   let ahead = 10 ^ 6 - (after - before)
                   in a\<lparr>ap_stage := RunningStage (r\<lparr>rn_system := sys, rn_last_update := after\<rparr>),
                        ap_flow := (if after - before \<le> 10 ^ 6 \<and> ahead > 10 ^ 4 then WaitUntil (after + ahead) else ap_flow a)\<rparr>)
                 (system_run (ae_sys E) (ae_fuel E) (10 ^ 6) (rn_system r))))"

datatype app_event =
    RedrawEventsCleared nat bool
  | CloseRequested
  | Resized nat nat
  | ScaleFactorChanged nat nat
  | DroppedFile string
  | KeyboardInput "key_code option" bool
  | RedrawRequested nat frame_clicks
  | MainEventsCleared nat nat

text \<open>A new size or scale of the window concerns the renderer alone. A file that is dropped on the window is
  ignored: \<open>handle_dropped_file\<close> is empty.\<close>

definition app_step :: "app_env \<Rightarrow> app_event \<Rightarrow> app \<Rightarrow> app option" where
  "app_step E ev a =
     (let a = a\<lparr>ap_flow := PollFlow\<rparr>
      in case ev of
           RedrawEventsCleared now pending \<Rightarrow> Some (redraw_events_cleared E now pending a)
         | CloseRequested \<Rightarrow> Some (a\<lparr>ap_flow := ExitLoop\<rparr>)
         | Resized width height \<Rightarrow> Some a
         | ScaleFactorChanged width height \<Rightarrow> Some a
         | DroppedFile path \<Rightarrow> Some a
         | KeyboardInput key pressed \<Rightarrow> keyboard_input key pressed a
         | RedrawRequested now k \<Rightarrow> redraw_requested E now k a
         | MainEventsCleared before after \<Rightarrow> main_events_cleared E before after a)"

section \<open>What the loop does\<close>

text \<open>While the system runs at native speed without new frames, the window is not drawn again, however late it is.\<close>

lemma emulation_redraws_on_frames:
  "ap_stage a = RunningStage r \<Longrightarrow> rn_mode r = EmulationMode \<Longrightarrow> redraw_events_cleared E now False a = a"
  by (simp add: redraw_events_cleared_def)

text \<open>A system whose pads, cards and disc may have been exchanged.\<close>

definition same_machine :: "sys_cpu \<Rightarrow> sys_cpu \<Rightarrow> bool" where
  "same_machine c c' \<longleftrightarrow> (\<exists>pads cards disc. c' = share_in pads cards disc c)"

lemma share_in_twice [simp]: "share_in p' c' d' (share_in p c d s) = share_in p' c' d' s"
  by (simp add: share_in_def upd_dev_def)

lemma share_in_own:
  "share_in (io_pads (sy_io (b_dev (c_bus s)))) (io_cards (sy_io (b_dev (c_bus s)))) (cr_disc (sy_cdrom (b_dev (c_bus s)))) s = s"
  by (simp add: share_in_def upd_dev_def)

lemma same_machine_refl [intro]: "same_machine c c"
  using share_in_own [of c] unfolding same_machine_def by metis

lemma set_shared_machine:
  "ap_stage a = RunningStage r \<Longrightarrow> \<exists>r'. ap_stage (set_shared s a) = RunningStage r' \<and> same_machine (rn_system r) (rn_system r')"
  by (cases s) (auto simp: set_shared_def same_machine_def)

lemma redraw_running_machine:
  assumes "redraw_running E k r a = Some a'"
  shows "\<exists>r'. ap_stage a' = RunningStage r' \<and> same_machine (rn_system r) (rn_system r')"
proof -
  obtain menu mode where m: "(let b = a\<lparr>ap_stage := RunningStage (r\<lparr>rn_menu := menu, rn_mode := mode\<rparr>)\<rparr>
      in if rn_settings r
         then map_option (\<lambda>w. (set_settings_world w b)\<lparr>ap_popups := sw_popups w\<rparr>)
            (show_inside (ae_settings E) True (gk_config k) (settings_world_of (ap_popups b) b))
         else Some b) = Some a'"
    using assms unfolding redraw_running_def by (auto split: bind_splits)
  show ?thesis
  proof (cases "rn_settings r")
    case True
    then obtain w where "a' = (set_settings_world w (a\<lparr>ap_stage := RunningStage (r\<lparr>rn_menu := menu, rn_mode := mode\<rparr>)\<rparr>))\<lparr>ap_popups := sw_popups w\<rparr>"
      using m by (auto simp: Let_def)
    then show ?thesis
      using set_shared_machine [of "a\<lparr>ap_stage := RunningStage (r\<lparr>rn_menu := menu, rn_mode := mode\<rparr>), ap_config := sw_config w, ap_files := sw_files w\<rparr>"
          "r\<lparr>rn_menu := menu, rn_mode := mode\<rparr>" "(sw_pads w, sw_cards w, sw_disc w)"]
      by (simp add: set_settings_world_def)
  qed (use m in \<open>auto simp: Let_def\<close>)
qed

text \<open>Setting the pads to what they are leaves a running system as it is.\<close>

lemma set_front_machine:
  assumes "ap_stage a = RunningStage r" "fr_pads f = fst (shared a)"
  shows "\<exists>r'. ap_stage (set_front f a) = RunningStage r' \<and> rn_system r' = rn_system r"
  using assms share_in_own [of "rn_system r"] by (simp add: set_front_def set_shared_def shared_def Let_def)

lemma main_events_running:
  assumes "main_events_cleared E before after a = Some a'" "ap_stage a = RunningStage r"
  shows "\<exists>r'. ap_stage a' = RunningStage r'"
  using assms by (auto simp: main_events_cleared_def Let_def split: run_mode.splits)

text \<open>C39: Once a system runs, no event of the window leads back to the start menu, and only \<open>MainEventsCleared\<close>
  runs the machine: any other event leaves the running system as it is, but for the pads, the cards and the
  disc, which the settings window exchanges; a key exchanges nothing, so no key reaches a game.
\<close>

theorem events_keep_system:
  assumes "app_step E ev a = Some a'" "ap_stage a = RunningStage r"
  shows "\<exists>r'. ap_stage a' = RunningStage r'
    \<and> ((\<nexists>before after. ev = MainEventsCleared before after) \<longrightarrow> same_machine (rn_system r) (rn_system r'))
    \<and> ((\<exists>key pressed. ev = KeyboardInput key pressed) \<longrightarrow> rn_system r' = rn_system r)"
proof (cases ev)
  case (RedrawEventsCleared now pending)
  then show ?thesis using assms(1,2) by (auto simp: app_step_def redraw_events_cleared_def Let_def)
next
  case (KeyboardInput key pressed)
  let ?a = "a\<lparr>ap_flow := PollFlow\<rparr>"
  obtain q f where f: "running_key key pressed (front_of ?a) = Some (q, f)" "a' = set_front f ?a"
    using assms(1,2) KeyboardInput by (auto simp: app_step_def keyboard_input_def Let_def)
  have "fr_pads f = fst (shared ?a)" using running_key_pads [OF f(1)] by (simp add: front_of_def)
  then show ?thesis using set_front_machine [of ?a r f] assms(2) f(2) by auto
next
  case (RedrawRequested now k)
  then obtain b where "redraw_running E k r b = Some a'" using assms(1,2) by (auto simp: app_step_def redraw_requested_def Let_def)
  then show ?thesis using redraw_running_machine RedrawRequested by blast
next
  case (MainEventsCleared before after)
  then have "main_events_cleared E before after (a\<lparr>ap_flow := PollFlow\<rparr>) = Some a'" using assms(1) by (simp add: app_step_def Let_def)
  then show ?thesis using main_events_running [of E before after _ a'] assms(2) MainEventsCleared by auto
qed (use assms in \<open>auto simp: app_step_def\<close>)

text \<open>The key X is pressed while a system with a pad runs and the key is bound to the cross.\<close>

definition sample_app :: app where
  "sample_app = \<lparr>ap_stage = RunningStage \<lparr>rn_system = system_new \<lparr>bios_data = (\<lambda>_. 0)\<rparr> None (\<lambda>_. Some new_digital) (\<lambda>_. None),
       rn_menu = debug_menu_default, rn_last_update = 0, rn_mode = EmulationMode, rn_settings = False\<rparr>,
     ap_config = config_default, ap_key_map = [''X'' \<mapsto> (Slot1, Cross)], ap_popups = [], ap_pads = (\<lambda>_. None),
     ap_cards = (\<lambda>_. None), ap_disc = None, ap_files = sample_files, ap_last_draw = 0, ap_redraw = False, ap_flow = PollFlow\<rparr>"

theorem events_keep_system_witness:
  "\<forall>E. \<exists>a' r r'. app_step E (KeyboardInput (Some ''X'') True) sample_app = Some a' \<and> ap_stage sample_app = RunningStage r
     \<and> ap_key_map sample_app ''X'' = Some (Slot1, Cross) \<and> ap_stage a' = RunningStage r' \<and> rn_system r' = rn_system r"
proof
  fix E
  let ?ev = "KeyboardInput (Some ''X'') True"
  obtain r where r: "ap_stage sample_app = RunningStage r" "rn_settings r = False" by (simp add: sample_app_def)
  have key: "ap_key_map sample_app ''X'' = Some (Slot1, Cross)" by (simp add: sample_app_def)
  obtain a' where a': "app_step E ?ev sample_app = Some a'"
    using r key by (simp add: app_step_def keyboard_input_def running_key_def front_of_def pad_key_def Let_def)
  show "\<exists>a' r r'. app_step E ?ev sample_app = Some a' \<and> ap_stage sample_app = RunningStage r
     \<and> ap_key_map sample_app ''X'' = Some (Slot1, Cross) \<and> ap_stage a' = RunningStage r' \<and> rn_system r' = rn_system r"
    using events_keep_system [OF a' r(1)] a' r(1) key by blast
qed

text \<open>
  From the start menu a system starts with the BIOS that is loaded, the pads, cards and the disc of the
  settings; the BIOS is given away and the message list stays.
\<close>

lemma start_with_bios:
  assumes "bcf_loaded (cf_bios (ap_config a)) = Some b" "sk_start k \<noteq> sk_debug k"
  shows "start_buttons k (ps, a) = (Some (b, if sk_start k then EmulationMode else DebugMode), ps,
    a\<lparr>ap_config := (ap_config a)\<lparr>cf_bios := (cf_bios (ap_config a))\<lparr>bcf_loaded := None\<rparr>\<rparr>\<rparr>)"
  using assms by (auto simp: start_buttons_def start_take_bios_def take_bios_def)

lemma start_without_bios:
  assumes "bcf_loaded (cf_bios (ap_config a)) = None" "bcf_default (cf_bios (ap_config a)) = None" "sk_start k \<noteq> sk_debug k"
  shows "\<exists>a'. start_buttons k (ps, a) = (None, ps @ [(''No BIOS'', ''A BIOS must be loaded to start the emulator'')], a')
    \<and> cf_show_bios (ap_config a')"
  using assms by (auto simp: start_buttons_def start_take_bios_def take_bios_def popups_add_def)

lemma start_system_new:
  assumes "ap_stage a = StartStage ps" "xc_loaded (cf_exe (ap_config a)) = None"
  shows "\<exists>a' r. start_system E now b mode a = Some a' \<and> ap_stage a' = RunningStage r
    \<and> rn_system r = system_new (bf_bios b) (ap_disc a) (ap_pads a) (ap_cards a) \<and> rn_mode r = mode"
  using assms by (simp add: start_system_def shared_def take_exe_def Let_def)

end
