(* ===== verification/FrontAudio.thy ===== *)
theory FrontAudio
  imports Prelude
begin

text \<open>
  The audio stream of \<open>crates/splst_front/src/audio_stream.rs\<close>: the samples that the sound unit
  sends wait in a channel, and the callback of the device takes one per frame of its output. The audio
  library (its devices, its errors, the conversion to the sample type of the device) is a parameter.
\<close>

record write_context =
  wc_receiver :: "(i16 \<times> i16) list"
  wc_last_samples :: "i16 \<times> i16"
  wc_channel_count :: u16
  wc_sample_rate :: u32

text \<open>\<open>chunks_mut\<close>: pieces of \<open>n\<close> elements, the last one may be shorter.\<close>

function chunks :: "nat \<Rightarrow> 'a list \<Rightarrow> 'a list list" where
  "chunks n xs = (if n = 0 \<or> xs = [] then [] else take n xs # chunks n (drop n xs))"
  by pat_completeness auto
termination by (relation "measure (\<lambda>(n, xs). length xs)") auto

declare chunks.simps [simp del]

definition next_samples :: "write_context \<Rightarrow> (i16 \<times> i16) \<times> write_context" where
  "next_samples w =
     (let (samples, rest) = (case wc_receiver w of [] \<Rightarrow> (wc_last_samples w, []) | s # ss \<Rightarrow> (s, ss))
      in (samples, w\<lparr>wc_receiver := rest, wc_last_samples := samples\<rparr>))"

text \<open>The samples are written to the first two channels of a frame; others keep their value.\<close>

fun write_frame :: "(i16 \<Rightarrow> 'a) \<Rightarrow> i16 \<times> i16 \<Rightarrow> 'a list \<Rightarrow> 'a list" where
  "write_frame from_sample s [] = []"
| "write_frame from_sample s [x] = [from_sample (fst s)]"
| "write_frame from_sample s (x # y # xs) = from_sample (fst s) # from_sample (snd s) # xs"

fun write_frames :: "(i16 \<Rightarrow> 'a) \<Rightarrow> 'a list list \<Rightarrow> write_context \<Rightarrow> 'a list list \<times> write_context" where
  "write_frames from_sample [] w = ([], w)"
| "write_frames from_sample (f # fs) w =
     (let (s, w) = next_samples w; (out, w) = write_frames from_sample fs w
      in (write_frame from_sample s f # out, w))"

text \<open>\<open>write_sample\<close>; \<open>chunks_mut\<close> panics without a channel.\<close>

definition write_sample :: "(i16 \<Rightarrow> 'a) \<Rightarrow> 'a list \<Rightarrow> write_context \<Rightarrow> ('a list \<times> write_context) option" where
  "write_sample from_sample output w =
     (let n = unat (wc_channel_count w)
      in if n = 0 then None else Some (apfst concat (write_frames from_sample (chunks n output) w)))"

section \<open>What is played\<close>

text \<open>The first \<open>n\<close> samples of a queue that repeats the last one when it is empty.\<close>

fun played :: "nat \<Rightarrow> (i16 \<times> i16) list \<Rightarrow> i16 \<times> i16 \<Rightarrow> (i16 \<times> i16) list" where
  "played 0 ss x = []"
| "played (Suc n) [] x = x # played n [] x"
| "played (Suc n) (s # ss) x = s # played n ss s"

lemma played_take: "played n ss x = take n ss @ replicate (n - length ss) (last (x # ss))"
  by (induction n ss x rule: played.induct) auto

text \<open>Frames are filled in order, nothing that was sent is lost or played twice while the queue lasts, and
  a callback that finds it empty repeats the last samples.\<close>

lemma write_frames_played:
  "write_frames f fs w =
     (map2 (write_frame f) (played (length fs) (wc_receiver w) (wc_last_samples w)) fs,
      w\<lparr>wc_receiver := drop (length fs) (wc_receiver w),
        wc_last_samples := last (wc_last_samples w # take (length fs) (wc_receiver w))\<rparr>)"
proof (induction fs arbitrary: w)
  case (Cons x fs)
  show ?case
    by (cases "wc_receiver w") (simp_all add: next_samples_def Cons split: if_splits)
qed simp

section \<open>The stream\<close>

datatype audio_error = NoDevice | NoConfig | BuildStream string | PlayStream string

fun audio_error_display :: "audio_error \<Rightarrow> string" where
  "audio_error_display NoDevice = ''no available audio device''"
| "audio_error_display NoConfig = ''no ouput config''"
| "audio_error_display (BuildStream err) = ''failed to build audio stream: '' @ err"
| "audio_error_display (PlayStream err) = ''failed to play audio stream: '' @ err"

datatype sample_format = SampleF32 | SampleU16 | SampleI16

record audio_config =
  ac_format :: sample_format
  ac_channels :: u16
  ac_rate :: u32

text \<open>The library: the default device, if there is one, with its configuration and the errors of the two calls.\<close>

record audio_device =
  ad_config :: "audio_config option"
  ad_build_error :: "sample_format \<Rightarrow> audio_config \<Rightarrow> string option"
  ad_play_error :: "string option"

text \<open>The context belongs to the callback; \<open>as_live\<close> says that the library still holds the callback.\<close>

record audio_stream =
  as_format :: sample_format
  as_context :: write_context
  as_live :: bool

definition build_stream :: "audio_device \<Rightarrow> sample_format \<Rightarrow> audio_config \<Rightarrow> audio_error + audio_stream" where
  "build_stream device format cfg =
     (let ctx = \<lparr>wc_receiver = [], wc_last_samples = (0, 0), wc_channel_count = ac_channels cfg, wc_sample_rate = ac_rate cfg\<rparr>
      in case ad_build_error device format cfg of
           Some err \<Rightarrow> Inl (BuildStream err)
         | None \<Rightarrow> Inr \<lparr>as_format = format, as_context = ctx, as_live = True\<rparr>)"

definition audio_stream_new :: "audio_device option \<Rightarrow> audio_error + audio_stream" where
  "audio_stream_new host =
     (case host of
        None \<Rightarrow> Inl NoDevice
      | Some device \<Rightarrow>
          (case ad_config device of
             None \<Rightarrow> Inl NoConfig
           | Some cfg \<Rightarrow>
               (case build_stream device (ac_format cfg) cfg of
                  Inl err \<Rightarrow> Inl err
                | Inr stream \<Rightarrow>
                    (case ad_play_error device of Some err \<Rightarrow> Inl (PlayStream err) | None \<Rightarrow> Inr stream))))"

text \<open>\<open>send_audio\<close> panics when the callback is gone.\<close>

definition send_audio :: "i16 \<times> i16 \<Rightarrow> audio_stream \<Rightarrow> audio_stream option" where
  "send_audio s a =
     (if as_live a
      then Some (a\<lparr>as_context := (as_context a)\<lparr>wc_receiver := wc_receiver (as_context a) @ [s]\<rparr>\<rparr>)
      else None)"

fun send_all :: "(i16 \<times> i16) list \<Rightarrow> audio_stream \<Rightarrow> audio_stream option" where
  "send_all [] a = Some a"
| "send_all (s # ss) a = Option.bind (send_audio s a) (send_all ss)"

lemma send_all_live:
  "as_live a \<Longrightarrow>
     send_all ss a = Some (a\<lparr>as_context := (as_context a)\<lparr>wc_receiver := wc_receiver (as_context a) @ ss\<rparr>\<rparr>)"
  by (induction ss arbitrary: a) (simp_all add: send_audio_def)

text \<open>
  A stream that was opened plays what was sent, from the first sample on, and silence until there is any; the
  rate of the device is not looked at.
\<close>

lemma stream_plays:
  assumes "audio_stream_new host = Inr a" "send_all ss a = Some a'"
  shows "\<exists>w. write_frames f fs (as_context a') = (map2 (write_frame f) (played (length fs) ss (0, 0)) fs, w)"
proof -
  have a: "as_live a" "wc_receiver (as_context a) = []" "wc_last_samples (as_context a) = (0, 0)"
    using assms(1) by (auto simp: audio_stream_new_def build_stream_def Let_def split: option.splits sum.splits)
  show ?thesis using send_all_live [OF a(1), of ss] a assms(2) by (simp add: write_frames_played)
qed

end
