(* ===== verification/Spec2Isabelle.thy ===== *)
theory Spec2Isabelle
  imports Msf Schedule Memory Irq Timer DeviceFifo GpuFifo Dma Bus CpuArith CpuUnaligned CpuCache CpuGte GteMatrix ExeBoot
    GpuTriangle GpuTransfer GpuLine GpuClip CueDisc CdRead SpuVoice IoCard System EventLoop DmaUpload CdType AsmFront OpcodeText BiosCalls
    FrontLoop FrontAudio
begin

text \<open>
  A verification development for \<open>spillestation\<close>, a PlayStation emulator in Rust.

  \<^bold>\<open>The program.\<close> An interpreted CPU executes instructions from RAM and BIOS over a bus. The bus
  owns RAM, scratchpad, interrupt controller, timers, DMA controller and the devices: GPU, CD-ROM
  drive, sound unit and the serial port of pads and memory cards. All of them share one event
  queue: a device schedules a callback or triggers an interrupt, the CPU delivers what is due
  between two instructions, and the queue's clock advances with the time of instructions and
  memory accesses. An assembler serves the tests and patches a stub into the BIOS to start an
  executable; a front end keeps the settings, shows the menus, reads the keyboard and runs the machine or
  its debugger from the event loop of a window.

  \<^bold>\<open>Conventions.\<close> Machine integers are words of their width and wrap as in a release build
  (\<open>cargo build --release\<close>). The manifest of the repository sets only \<open>profile.dev\<close>, whose builds stop at an
  overflow and at a \<open>debug_assert!\<close>: for such a build the theorems hold as long as it meets neither. A
  comparison of signed values reads them by \<open>sint\<close>. What
  stops a release build too (\<open>unreachable!\<close>, \<open>todo!\<close>, \<open>unwrap\<close>, an index out of bounds, a
  division by zero) is \<open>None\<close>, so that its absence can be proved; \<open>Result\<close> is a sum. State is
  passed explicitly, a struct as a record and an array as a list or as a function of its
  index type. A value of the trait type \<open>T: AddrUnit\<close> is its zero extension with its width. The
  coordinates and edge values of the rasterizer are \<open>int\<close> where the code's \<open>i32\<close> cannot overflow
  and words where it can. A \<open>repr(C)\<close> register file that the code also reads as an array (GTE,
  SPU) is that array. Where a panic and an endless loop both occur, \<open>None\<close> is either, and a
  theorem that the code returns says so.

  \<^bold>\<open>Theories.\<close> Paths are below \<open>src/crates\<close>.
  \<^item> \<open>Prelude\<close>, \<open>Bits\<close> (\<open>splst_util/src/bit.rs\<close>), \<open>Msf\<close> (\<open>bcd.rs\<close>, \<open>msf.rs\<close>), \<open>SliceSearch\<close> (the binary
    search of the standard library as a locale, interpreted by two searches): the shared ground.
  \<^item> \<open>SysTime\<close> (\<open>splst_core/src/time.rs\<close>), \<open>Events\<close>, \<open>Schedule\<close> (\<open>schedule.rs\<close>): time and the event queue,
    over the locale \<open>priority_queue\<close>; \<open>sched_step\<close> are its transitions. The heap of the library promises no order
    among events with the same time: the model takes the first pushed, and no theorem rests on it.
  \<^item> \<open>AddrUnit\<close>, \<open>Memory\<close> (\<open>bus/raw.rs\<close>, \<open>ram.rs\<close>, \<open>scratchpad.rs\<close>), \<open>Irq\<close> (\<open>cpu/irq.rs\<close>), \<open>Timer\<close> (\<open>timer.rs\<close>),
    \<open>BoundedQueue\<close>, \<open>DeviceFifo\<close> (\<open>fifo.rs\<close>), \<open>GpuFifo\<close> (\<open>gpu/fifo.rs\<close>), \<open>Dma\<close> (\<open>bus/dma.rs\<close>), \<open>Bus\<close> (\<open>bus/mod.rs\<close>,
    \<open>bios.rs\<close>): the bus. The locale \<open>byte_memory\<close> is the contract of the three memories,
    \<open>bounded_queue\<close> that of the two FIFOs. A device is the record \<open>devices\<close> of the operations
    that the bus calls, and a DMA port the record \<open>channel\<close> of the trait \<open>Channel\<close>. \<open>DmaSink\<close> is the contract
    of a port that takes words: the locale \<open>dma_sink\<close>, extended by \<open>lifted_sink\<close> to a port that is a part of
    a larger device; \<open>DmaUpload\<close> interprets both for the GPU and the sound unit.
  \<^item> \<open>Cop0\<close>, \<open>Opcode\<close>, \<open>Cpu\<close>, \<open>CpuOps\<close>, \<open>CpuStep\<close> (\<open>cpu/\<close>): the interpreter, with the GTE as a parameter;
    \<open>CpuFrames\<close>, \<open>CpuControl\<close>, \<open>CpuArith\<close>, \<open>CpuMemory\<close>, \<open>CpuUnaligned\<close>, \<open>CpuCache\<close>: what instructions do.
  \<^item> \<open>Gte\<close>, \<open>GteDivide\<close>, \<open>GteExec\<close>, \<open>GteMatrix\<close> (\<open>cpu/gte.rs\<close>), \<open>CpuGte\<close>: the geometry engine, and the CPU with it.
  \<^item> \<open>GpuTypes\<close>, \<open>GpuDraw\<close>, \<open>Gpu\<close> (\<open>gpu/\<close>): the GPU; \<open>GpuTriangle\<close>, \<open>GpuLine\<close>, \<open>GpuClip\<close>,
    \<open>GpuFrame\<close>, \<open>GpuTransfer\<close>: its theorems.
  \<^item> \<open>CdSector\<close>, \<open>CdImage\<close>, \<open>CdCue\<close> (\<open>splst_cdimg/src\<close>): sectors, disc images, cue sheets; \<open>CdRom\<close>
    (\<open>cdrom/\<close>): the controller; \<open>CueSheet\<close>, \<open>CueDisc\<close>, \<open>CdRead\<close>, \<open>CdType\<close>: their theorems.
  \<^item> \<open>SpuTables\<close>, \<open>Spu\<close>, \<open>SpuRun\<close>, \<open>SpuVoice\<close> (\<open>spu/mod.rs\<close>): the sound unit. \<open>IoPad\<close>, \<open>MemCard\<close>, \<open>IoPort\<close>, \<open>IoCard\<close>
    (\<open>io_port/\<close>): pads, memory cards, the serial port.
  \<^item> \<open>Asm\<close>, \<open>AsmLex\<close>, \<open>AsmParse\<close> (\<open>splst_asm/src\<close>): code generator, scanner and parser; \<open>AsmDecode\<close>,
    \<open>AsmLabels\<close>, \<open>AsmFront\<close>: their theorems. \<open>OpcodeText\<close>: the disassembler of \<open>cpu/opcode.rs\<close>.
    \<open>Exe\<close>, \<open>ExeBoot\<close> (\<open>splst_util/src/exe.rs\<close>): executables. \<open>BiosCalls\<close>: the function table of \<open>bus/bios.rs\<close>.
  \<^item> \<open>System\<close> (\<open>splst_core/src/lib.rs\<close>): the devices put into the bus, the whole machine and its runs.
    \<open>EventGrowth\<close>: what the callback of each event adds to the queue; \<open>EventLoop\<close>: the loops of \<open>step\<close> and \<open>run\<close>
    (\<open>cpu/mod.rs\<close>) over these callbacks end.
  \<^item> \<open>Dump\<close>: what the devices show of themselves, the \<open>Display\<close> of their enumerations and their \<open>dump\<close>.
  \<^item> \<open>FrontConfig\<close> (\<open>splst_front/src/keys.rs\<close>, \<open>config/mod.rs\<close>): key bindings, pads and memory cards; \<open>Settings\<close>
    (\<open>config/mod.rs\<close>): the menus of the settings and their file; \<open>FrontDebug\<close>, \<open>FrontMenus\<close> (\<open>debug.rs\<close>): the debugger and
    its windows; \<open>FrontAudio\<close> (\<open>audio_stream.rs\<close>): the audio stream; \<open>FrontLoop\<close> (\<open>lib.rs\<close>, \<open>start_menu.rs\<close>): the
    start menu and the event loop, \<open>app_step\<close>, over all of them. What the user clicks in a frame is an
    argument, what is shown is a value, and the layout is left out.

  \<^bold>\<open>What the theorems show.\<close>
  \<^item> Queue and time: the invariant of every reachable schedule, the earliest event is delivered,
    and the loop that delivers events before an instruction ends although its callbacks add to the queue.
  \<^item> Memory and bus: what is stored is loaded at every mirror, ranges are disjoint, accesses stay in
    their buffers; the interrupt controller refines sets of pending and enabled interrupts.
  \<^item> Timers: the exact prediction of the next interrupt. DMA: ordering tables; a linked
    list reaches the GPU word by word; a picture in RAM lands in video memory, whatever the mask
    settings are (the code does not look at them there).
    The framing of GPU commands in their FIFO.
  \<^item> CPU: a state invariant, delay slots, interrupts and exceptions, load delay, exact products and
    quotients, unaligned accesses, the instruction cache. GTE: which commands stop the emulator, the
    accuracy of the division, exact matrix products.
  \<^item> GPU: commands take exactly their words, untextured and unshaded triangles are the pixels of the edge
    functions, lines
    the pixels nearest to the ideal line, what is drawn is clipped, a copy to video memory and back. CD-ROM:
    a cue sheet opens to the disc it describes, the sizes of the state, the data of a sector up to the
    data port. SPU: a cycle never stops or reads past its queues, a voice reads on in
    whole samples, the phases of an envelope end while its target is not negative, and a released voice ends up loud. Memory cards: a sector is
    written and read back through the port's registers.
  \<^item> Composition: a response of the drive becomes an exception of the CPU, with its bytes in the FIFO; the stub
    that is assembled into the BIOS boots an executable (as a run of instructions, with no event delivered between them); an assembled word is dispatched to its
    handler and shown under its name; the assembler returns.
  \<^item> Front end: no event leads from a running system back to the start menu, only the idle event of the loop runs the
    machine, and no key reaches a pad.
  \<^item> Lemmas beside these: one-shot timers raise one interrupt, labels agree with the emitted code, the key map is
    exactly the bindings, saved settings are loaded again, what a break point sees, the panic of the
    DMA window, the samples that a stream plays.

  Several theorems state a flaw of the code as it is; the manifest lists them as findings.

  \<^bold>\<open>Parameters.\<close> The floating-point operations of the GPU (\<open>gpu_env\<close>), writing the file of a memory card
  (\<open>write_file\<close>), opening the files of a cue sheet (\<open>open_file\<close>), the file system with its errors (\<open>file_system\<close>),
  the TOML library (\<open>toml\<close>), the audio library with its sample types (\<open>audio_device\<close>), and the calls of a step to the
  debugger. The theorems hold for all of them, or say what they need.

  \<^bold>\<open>Fuel.\<close> The loops of \<open>step\<close> and \<open>run\<close> and of a DMA transfer take a number of rounds. The loop over
  the due events needs one round more than it delivers events, and that this number is finite is a theorem; a linked list takes one
  round per node and one more, an ordering table two rounds; the theorems state the bound as a
  hypothesis or prove that there is one. The loops that may really run forever
  (\<open>run_debug\<close> without time per instruction, an open string literal) are partial functions.

  \<^bold>\<open>Not modelled.\<close> The renderer and the drawing of the interface (\<open>splst_render\<close>, the \<open>GuiRenderer\<close> of
  \<open>gui.rs\<close>), which hand frames and shapes to the graphics library, where a window that is resized is only an event of the
  loop; the layout of the menus and the image of video memory on the screen; accessors of registers that no code
  calls (the manifest lists them per component); the function \<open>from_code\<close> and the programs of the
  tests. The debugger observes the CPU, so the CPU models leave its calls out, and \<open>System\<close>, \<open>FrontDebug\<close> and
  \<open>FrontLoop\<close> take its answers or the calls as arguments. What comes out of the interpolation of a voice and the
  resampling of the drive has no specification beyond their safety.
\<close>

end
